(* ===== verification/Prelude.thy ===== *)
theory Prelude
  imports Main "HOL-Library.AList" "HOL-Library.List_Lexorder" "HOL-Library.Char_ord"
    "HOL-Library.Product_Lexorder"
begin

text \<open>
  Shared vocabulary of the development: Python exceptions as values, the selections
  \<open>min(..., key=...)\<close> and \<open>max(..., key=...)\<close> the code uses for every
  most-restrictive composition, string enumerations, and insertion-ordered dictionaries as
  association lists. Two interfaces are stated as locales: \<open>ranked\<close> (a table that ranks
  the members of an enumeration without ties) and \<open>str_enum\<close> (an enumeration whose members
  are named by distinct strings); every component that has such a table interprets them.
\<close>

section \<open>Hints and types\<close>

named_theorems ratchet "steps of the decision pipeline never relax a decision"
named_theorems dominance "facts about label dominance"

type_synonym time = int \<comment> \<open>microseconds since the epoch, UTC\<close>
type_synonym uuid = nat

datatype py_error =
    ValueError | KeyError | LabelError | DecisionRuleError | EnvelopeError | ReversibilityError
  | BindingError | IntegrityFloorError | RiskRegisterError | UnknownKindError | OverrideError
  | AttributeError | TypeError | DatabaseIntegrityError | SessionNotFoundError
  | SessionStateError | PurposeAdmissibilityError "string list"
  | QuarantinedLLMUnavailableError | ModeSelectionError | ApprovalNotFoundError
  | ApprovalStateError | ApprovalSignatureRequiredError | PatternValidationError
  | ReferenceHandleError | IsolationPostureError | JsonDecodeError | ToolValidationError
  | SignerError | ProgramError | PurposeError | ConstraintError | RuntimeFault
  | DuplicateToolError | ToolNotFoundError | HookError | DeclassifierValidationError
  | RelationshipGroupError | ParseFault | LimitExceeded | FederationError | BundleError
  | IndexError | OverflowError | ZeroDivisionError | NameError | AuditError

text \<open>
  JSON values, as in payloads, handles and event records. The text that \<open>str\<close> gives for an
  identifier or \<open>isoformat\<close> for a time is kept as the value it prints (both are injective),
  and an f-string is the list of its parts.
\<close>

datatype json =
    JNull | JBool bool | JInt int | JStr string | JUuid uuid | JTime time
  | JText "json list" | JList "json list" | JDict "(string \<times> json) list"

text \<open>Python's truth of a value.\<close>

definition truthy_json :: "json \<Rightarrow> bool" where
  "truthy_json v \<longleftrightarrow>
     v \<notin> {JNull, JBool False, JInt 0, JStr [], JList [], JDict []}"

text \<open>\<open>v in s\<close> for a set of texts: a value without a hash raises before anything is compared.\<close>

definition json_hashable :: "json \<Rightarrow> bool" where
  "json_hashable v = (case v of JList _ \<Rightarrow> False | JDict _ \<Rightarrow> False | _ \<Rightarrow> True)"

definition json_in :: "json \<Rightarrow> string list \<Rightarrow> py_error + bool" where
  "json_in v xs = (if json_hashable v then Inr (v \<in> JStr ` set xs) else Inl TypeError)"

section \<open>Python's \<open>min\<close> and \<open>max\<close> with a key\<close>

text \<open>
  \<open>max(x, *xs, key=f)\<close> keeps the first element with the largest key, and \<open>min\<close> the
  first with the smallest. Both take the first element apart, because Python raises
  \<open>ValueError\<close> on an empty argument.
\<close>

fun max_by :: "('a \<Rightarrow> nat) \<Rightarrow> 'a \<Rightarrow> 'a list \<Rightarrow> 'a" where
  "max_by f x [] = x"
| "max_by f x (y # ys) = (if f x < f y then max_by f y ys else max_by f x ys)"

fun min_by :: "('a \<Rightarrow> nat) \<Rightarrow> 'a \<Rightarrow> 'a list \<Rightarrow> 'a" where
  "min_by f x [] = x"
| "min_by f x (y # ys) = (if f y < f x then min_by f y ys else min_by f x ys)"

lemma max_by_mem: "max_by f x xs \<in> set (x # xs)"
  by (induction xs arbitrary: x) auto

lemma max_by_start: "f x \<le> f (max_by f x xs)"
  by (induction xs arbitrary: x) (auto intro: le_trans less_imp_le)

lemma max_by_ge: "y \<in> set (x # xs) \<Longrightarrow> f y \<le> f (max_by f x xs)"
proof (induction xs arbitrary: x)
  case Nil
  then show ?case by simp
next
  case (Cons a xs)
  then show ?case
    using max_by_start [of f a xs] max_by_start [of f x xs] by fastforce
qed

lemma min_by_mem: "min_by f x xs \<in> set (x # xs)"
  by (induction xs arbitrary: x) auto

lemma min_by_start: "f (min_by f x xs) \<le> f x"
  by (induction xs arbitrary: x) (auto intro: le_trans less_imp_le)

lemma min_by_le: "y \<in> set (x # xs) \<Longrightarrow> f (min_by f x xs) \<le> f y"
proof (induction xs arbitrary: x)
  case Nil
  then show ?case by simp
next
  case (Cons a xs)
  then show ?case
    using min_by_start [of f a xs] min_by_start [of f x xs] by fastforce
qed

lemma max_by_lub: "(\<And>y. y \<in> set (x # xs) \<Longrightarrow> f y \<le> b) \<Longrightarrow> f (max_by f x xs) \<le> b"
  using max_by_mem by metis

lemma max_by_inj_cong:
  assumes "inj_on f (set (x # xs))" and "set (x # xs) = set (y # ys)"
  shows "max_by f x xs = max_by f y ys"
proof (rule inj_onD [OF assms(1)])
  show "max_by f x xs \<in> set (x # xs)" by (rule max_by_mem)
  show "max_by f y ys \<in> set (x # xs)" unfolding assms(2) by (rule max_by_mem)
  show "f (max_by f x xs) = f (max_by f y ys)"
    using max_by_mem [of f x xs] max_by_mem [of f y ys] assms(2) max_by_ge
    by (metis le_antisym)
qed

locale ranked =
  fixes rank :: "'a \<Rightarrow> nat"
  assumes rank_inj: "rank x = rank y \<Longrightarrow> x = y"
begin

lemma max_by_eqI:
  assumes "z \<in> set (x # xs)" and "\<And>y. y \<in> set (x # xs) \<Longrightarrow> rank y \<le> rank z"
  shows "max_by rank x xs = z"
proof (rule rank_inj)
  have "rank z \<le> rank (max_by rank x xs)" by (rule max_by_ge [OF assms(1)])
  moreover have "rank (max_by rank x xs) \<le> rank z" by (rule assms(2) [OF max_by_mem])
  ultimately show "rank (max_by rank x xs) = rank z" by simp
qed

lemma min_by_eqI:
  assumes "z \<in> set (x # xs)" and "\<And>y. y \<in> set (x # xs) \<Longrightarrow> rank z \<le> rank y"
  shows "min_by rank x xs = z"
proof (rule rank_inj)
  have "rank (min_by rank x xs) \<le> rank z" by (rule min_by_le [OF assms(1)])
  moreover have "rank z \<le> rank (min_by rank x xs)" by (rule assms(2) [OF min_by_mem])
  ultimately show "rank (min_by rank x xs) = rank z" by simp
qed

text \<open>With a tie-free table, the order of the arguments does not matter.\<close>

lemma max_by_set_cong:
  assumes "set (x # xs) = set (y # ys)"
  shows "max_by rank x xs = max_by rank y ys"
  by (rule max_by_inj_cong [OF _ assms]) (simp add: inj_on_def rank_inj)

lemma min_by_set_cong:
  assumes "set (x # xs) = set (y # ys)"
  shows "min_by rank x xs = min_by rank y ys"
  using assms min_by_mem min_by_le by (metis min_by_eqI)

lemma max_by_two: "max_by rank x [y] = x \<longleftrightarrow> rank y \<le> rank x"
  by auto

lemma max_by_below_iff: "rank (max_by rank x xs) \<le> b \<longleftrightarrow> (\<forall>y \<in> set (x # xs). rank y \<le> b)"
  using max_by_ge max_by_mem by (metis le_trans)

end

section \<open>String enumerations\<close>

text \<open>
  \<open>E(s)\<close> of a Python \<open>StrEnum\<close> returns the member whose value is \<open>s\<close> and raises
  \<open>ValueError\<close> when there is none.
\<close>

definition enum_of :: "('e \<Rightarrow> string) \<Rightarrow> 'e list \<Rightarrow> string \<Rightarrow> py_error + 'e" where
  "enum_of val members s =
     (case find (\<lambda>e. val e = s) members of Some e \<Rightarrow> Inr e | None \<Rightarrow> Inl ValueError)"

locale str_enum =
  fixes val :: "'e \<Rightarrow> string" and members :: "'e list"
  assumes members_all: "e \<in> set members"
    and val_distinct: "distinct (map val members)"
begin

lemma val_inj: "val x = val y \<longleftrightarrow> x = y"
  using val_distinct members_all by (metis distinct_map inj_onD)

lemma enum_of_val [simp]: "enum_of val members (val e) = Inr e"
proof -
  have "find (\<lambda>x. val x = val e) members = Some e"
    using members_all [of e] by (induction members) (auto simp: val_inj)
  then show ?thesis by (simp add: enum_of_def)
qed

lemma enum_of_Inr_iff: "enum_of val members s = Inr e \<longleftrightarrow> s = val e"
proof
  assume "enum_of val members s = Inr e"
  then show "s = val e"
    by (auto simp: enum_of_def find_Some_iff split: option.splits)
qed simp

lemma enum_of_unknown: "s \<notin> range val \<Longrightarrow> enum_of val members s = Inl ValueError"
  by (auto simp: enum_of_def find_Some_iff split: option.splits)

end

section \<open>Insertion-ordered dictionaries\<close>

text \<open>
  A \<open>dict\<close> is the association list of its items in insertion order. Assigning an existing key
  keeps its position (\<open>AList.update\<close>); a comprehension \<open>{k(x): x for x in xs}\<close> keeps the
  last value of a key.
\<close>

fun dict_of :: "('k \<times> 'v) list \<Rightarrow> ('k \<times> 'v) list \<Rightarrow> ('k \<times> 'v) list" where
  "dict_of [] d = d"
| "dict_of ((k, v) # kvs) d = dict_of kvs (AList.update k v d)"

lemma map_of_dict_of: "map_of (dict_of kvs d) = map_of d ++ map_of (rev kvs)"
proof (induction kvs d rule: dict_of.induct)
  case (2 k v kvs d)
  then show ?case
    by (auto simp: update_conv' map_add_def fun_eq_iff split: option.splits)
qed simp

lemma distinct_dict_of: "distinct (map fst d) \<Longrightarrow> distinct (map fst (dict_of kvs d))"
  by (induction kvs d rule: dict_of.induct) (simp_all add: distinct_update)

lemma in_set_dict_of: "(k, v) \<in> set (dict_of kvs []) \<longleftrightarrow> map_of (rev kvs) k = Some v"
proof -
  have "distinct (map fst (dict_of kvs []))" by (rule distinct_dict_of) simp
  then have "(k, v) \<in> set (dict_of kvs []) \<longleftrightarrow> map_of (dict_of kvs []) k = Some v"
    by simp
  then show ?thesis by (simp add: map_of_dict_of)
qed

lemma update_new: "k \<notin> fst ` set d \<Longrightarrow> AList.update k v d = d @ [(k, v)]"
  by (induction d) auto

lemma map_of_distinct_key:
  "distinct (map f xs) \<Longrightarrow> map_of (dict_of (map (\<lambda>x. (f x, x)) xs) []) k = Some x
   \<longleftrightarrow> x \<in> set xs \<and> f x = k"
proof -
  assume "distinct (map f xs)"
  then have "distinct (map fst (rev (map (\<lambda>x. (f x, x)) xs)))"
    by (simp add: rev_map [symmetric] comp_def)
  then show ?thesis by (auto simp: map_of_dict_of)
qed

definition dict_get :: "('k \<times> 'v) list \<Rightarrow> 'k \<Rightarrow> 'v \<Rightarrow> 'v" where
  "dict_get d k v = (case map_of d k of Some w \<Rightarrow> w | None \<Rightarrow> v)"

section \<open>Record stores\<close>

text \<open>
  The contract every in-memory registry of the daemon gives its clients: a record is stored under
  its own key, a lookup returns the record stored last under the key, and other keys are untouched.
\<close>

locale record_store =
  fixes key :: "'r \<Rightarrow> 'k" and get :: "'s \<Rightarrow> 'k \<Rightarrow> 'r option" and put :: "'s \<Rightarrow> 'r \<Rightarrow> 's"
  assumes get_put: "get (put s r) k = (if k = key r then Some r else get s k)"
begin

lemma get_put_same: "get (put s r) (key r) = Some r"
  by (simp add: get_put)

lemma get_put_other: "k \<noteq> key r \<Longrightarrow> get (put s r) k = get s k"
  by (simp add: get_put)

lemma put_keeps_keys:
  assumes "\<And>k r. get s k = Some r \<Longrightarrow> key r = k" and "get (put s r') k = Some r"
  shows "key r = k"
  using assms by (auto simp: get_put split: if_splits)

lemma get_puts: "get (foldl put s rs) k = (case find (\<lambda>r. key r = k) (rev rs) of
    Some r \<Rightarrow> Some r | None \<Rightarrow> get s k)"
  by (induction rs rule: rev_induct) (auto simp: get_put)

end

end
