(* ===== verification/Tiers.thy ===== *)
theory Tiers
  imports Prelude
begin

text \<open>
  Sensitivity tiers (\<open>policy/tiers.py\<close>) and decision outcomes (\<open>policy/rules.py\<close>):
  the two enumerations every later component ranks by, with the order of each given by the
  rank table of the source.
\<close>

section \<open>Tiers\<close>

datatype tier = NONE | SENSITIVE | REGULATED | RESTRICTED | PROHIBITED

definition tiers :: "tier list" where
  "tiers = [NONE, SENSITIVE, REGULATED, RESTRICTED, PROHIBITED]"

fun tier_value :: "tier \<Rightarrow> string" where
  "tier_value NONE = ''none''"
| "tier_value SENSITIVE = ''sensitive''"
| "tier_value REGULATED = ''regulated''"
| "tier_value RESTRICTED = ''restricted''"
| "tier_value PROHIBITED = ''prohibited''"

fun tier_rank :: "tier \<Rightarrow> nat" where
  "tier_rank NONE = 0"
| "tier_rank SENSITIVE = 1"
| "tier_rank REGULATED = 2"
| "tier_rank RESTRICTED = 3"
| "tier_rank PROHIBITED = 4"

definition compare :: "tier \<Rightarrow> tier \<Rightarrow> int" where
  "compare a b =
     (let ra = tier_rank a; rb = tier_rank b
      in if ra < rb then - 1 else if ra > rb then 1 else 0)"

definition is_above :: "tier \<Rightarrow> tier \<Rightarrow> bool" where
  "is_above a b \<longleftrightarrow> tier_rank a > tier_rank b"

fun max_of :: "tier list \<Rightarrow> py_error + tier" where
  "max_of [] = Inl ValueError"
| "max_of (t # ts) = Inr (max_by tier_rank t ts)"

interpretation tier_ranked: ranked tier_rank
proof unfold_locales
  fix x y :: tier
  show "tier_rank x = tier_rank y \<Longrightarrow> x = y" by (cases x; cases y) simp_all
qed

interpretation tier_enum: str_enum tier_value tiers
proof unfold_locales
  fix e show "e \<in> set tiers" by (cases e) (simp_all add: tiers_def)
  show "distinct (map tier_value tiers)" by (simp add: tiers_def)
qed

text \<open>The rank table makes the tiers a linear order.\<close>

instantiation tier :: linorder
begin

definition less_eq_tier :: "tier \<Rightarrow> tier \<Rightarrow> bool" where
  "less_eq_tier a b \<longleftrightarrow> tier_rank a \<le> tier_rank b"

definition less_tier :: "tier \<Rightarrow> tier \<Rightarrow> bool" where
  "less_tier a b \<longleftrightarrow> tier_rank a < tier_rank b"

instance
  by standard (auto simp: less_eq_tier_def less_tier_def intro: tier_ranked.rank_inj)

end

lemma compare_pos_iff: "0 < compare a b \<longleftrightarrow> b < a"
  by (simp add: compare_def Let_def less_tier_def)

lemma is_above_iff: "is_above a b \<longleftrightarrow> b < a"
  by (simp add: is_above_def less_tier_def)

lemma tier_max_le_iff: "max_by tier_rank t ts \<le> b \<longleftrightarrow> (\<forall>u \<in> set (t # ts). u \<le> b)"
  by (simp add: less_eq_tier_def tier_ranked.max_by_below_iff)

lemma tier_max_mem: "max_by tier_rank t ts \<in> set (t # ts)"
  by (rule max_by_mem)

section \<open>Decisions\<close>

datatype decision = ALLOW | WARN | DENY | REQUIRE_APPROVAL | OVERRIDE_REQUIRED

text \<open>
  The rank of \<open>_LEGACY_RANK\<close> (\<open>policy/engine.py\<close>): the lower, the stricter. An override
  gate is stricter than an approval, because an approval cannot resolve it.
\<close>

fun legacy_rank :: "decision \<Rightarrow> nat" where
  "legacy_rank DENY = 0"
| "legacy_rank OVERRIDE_REQUIRED = 1"
| "legacy_rank REQUIRE_APPROVAL = 2"
| "legacy_rank WARN = 3"
| "legacy_rank ALLOW = 4"

fun decision_value :: "decision \<Rightarrow> string" where
  "decision_value ALLOW = ''allow''"
| "decision_value WARN = ''warn''"
| "decision_value DENY = ''deny''"
| "decision_value REQUIRE_APPROVAL = ''require_approval''"
| "decision_value OVERRIDE_REQUIRED = ''override_required''"

interpretation decision_ranked: ranked legacy_rank
proof unfold_locales
  fix x y :: decision
  show "legacy_rank x = legacy_rank y \<Longrightarrow> x = y" by (cases x; cases y) simp_all
qed

interpretation decision_enum:
  str_enum decision_value "[ALLOW, WARN, DENY, REQUIRE_APPROVAL, OVERRIDE_REQUIRED]"
proof unfold_locales
  fix e show "e \<in> set [ALLOW, WARN, DENY, REQUIRE_APPROVAL, OVERRIDE_REQUIRED]"
    by (cases e) simp_all
qed simp

instantiation decision :: linorder
begin

definition less_eq_decision :: "decision \<Rightarrow> decision \<Rightarrow> bool" where
  "less_eq_decision a b \<longleftrightarrow> legacy_rank a \<le> legacy_rank b"

definition less_decision :: "decision \<Rightarrow> decision \<Rightarrow> bool" where
  "less_decision a b \<longleftrightarrow> legacy_rank a < legacy_rank b"

instance
  by standard
    (auto simp: less_eq_decision_def less_decision_def intro: decision_ranked.rank_inj)

end

lemma decision_le_DENY [simp]: "(d :: decision) \<le> DENY \<longleftrightarrow> d = DENY"
  by (cases d) (simp_all add: less_eq_decision_def)

lemma decision_ge_DENY [simp]: "DENY \<le> d"
  by (simp add: less_eq_decision_def)

lemma decision_le_ALLOW [simp]: "d \<le> ALLOW"
  by (cases d) (simp_all add: less_eq_decision_def)

lemma decision_ge_ALLOW [simp]: "ALLOW \<le> d \<longleftrightarrow> d = ALLOW"
  by (cases d) (simp_all add: less_eq_decision_def)

end
