(* ===== verification/Labels.thy ===== *)
theory Labels
  imports Tiers
begin

text \<open>
  Information-flow labels (\<open>policy/labels.py\<close>). A label state carries Axis A (category tags)
  and Axis B (provenance tags). The source keeps both as frozensets; the model keeps the list of
  their elements in iteration order, because \<open>max\<close> breaks ties by it, and states every
  result either up to the set of elements or for all orders. The main result is that
  \<open>label_join\<close> is the least upper bound of \<open>label_dominates\<close>; an operation's tag
  transfer can only raise labels unless it is a certified declassifier.
\<close>

section \<open>Axis B: provenance\<close>

datatype provenance_level = PRINCIPAL_DIRECT | SYSTEM_INTERNAL | EXTERNAL_UNTRUSTED

fun provenance_value :: "provenance_level \<Rightarrow> string" where
  "provenance_value PRINCIPAL_DIRECT = ''principal-direct''"
| "provenance_value SYSTEM_INTERNAL = ''system-internal''"
| "provenance_value EXTERNAL_UNTRUSTED = ''external-untrusted''"

fun provenance_rank :: "provenance_level \<Rightarrow> nat" where
  "provenance_rank PRINCIPAL_DIRECT = 0"
| "provenance_rank SYSTEM_INTERNAL = 1"
| "provenance_rank EXTERNAL_UNTRUSTED = 2"

fun provenance_max :: "provenance_level list \<Rightarrow> py_error + provenance_level" where
  "provenance_max [] = Inl ValueError"
| "provenance_max (l # ls) = Inr (max_by provenance_rank l ls)"

interpretation provenance_ranked: ranked provenance_rank
proof unfold_locales
  fix x y :: provenance_level
  show "provenance_rank x = provenance_rank y \<Longrightarrow> x = y" by (cases x; cases y) simp_all
qed

interpretation provenance_enum:
  str_enum provenance_value "[PRINCIPAL_DIRECT, SYSTEM_INTERNAL, EXTERNAL_UNTRUSTED]"
proof unfold_locales
  fix e show "e \<in> set [PRINCIPAL_DIRECT, SYSTEM_INTERNAL, EXTERNAL_UNTRUSTED]"
    by (cases e) simp_all
qed simp

text \<open>\<open>_PROVENANCE_ORDER.index(level)\<close>: the position in the enumeration's declaration.\<close>

definition provenance_index :: "provenance_level \<Rightarrow> nat" where
  "provenance_index l =
     length (takeWhile (\<lambda>m. m \<noteq> l) [PRINCIPAL_DIRECT, SYSTEM_INTERNAL, EXTERNAL_UNTRUSTED])"

lemma provenance_index_rank [simp]: "provenance_index l = provenance_rank l"
  by (cases l) (simp_all add: provenance_index_def)

section \<open>Tags and label states\<close>

record category_tag =
  ct_category :: string
  ct_tier :: tier
  ct_risk_ids :: "string list"
  ct_assignment_provenance :: string

record provenance_tag =
  pt_level :: provenance_level

record label_state =
  ls_a :: "category_tag list"
  ls_b :: "provenance_tag list"

definition empty_state :: label_state where
  "empty_state = \<lparr>ls_a = [], ls_b = []\<rparr>"

definition levels :: "label_state \<Rightarrow> provenance_level set" where
  "levels s = pt_level ` set (ls_b s)"

definition same_labels :: "label_state \<Rightarrow> label_state \<Rightarrow> bool" where
  "same_labels s s' \<longleftrightarrow> set (ls_a s) = set (ls_a s') \<and> set (ls_b s) = set (ls_b s')"

definition AUTHORITY_RANK :: "(string \<times> nat) list" where
  "AUTHORITY_RANK =
     [(''raise-only-inspector'', 0), (''legacy-migration'', 1), (''system-default'', 2),
      (''source-declared'', 3), (''curated-mcp'', 4), (''operator-declared'', 5),
      (''human-declared'', 6)]"

definition authority :: "string \<Rightarrow> nat" where
  "authority prov = dict_get AUTHORITY_RANK prov 2"

section \<open>Composition\<close>

text \<open>\<open>by_cat.setdefault(tag.category, []).append(tag)\<close> over all tags of all sets.\<close>

fun by_category ::
  "category_tag list \<Rightarrow> (string \<times> category_tag list) list \<Rightarrow> (string \<times> category_tag list) list"
where
  "by_category [] d = d"
| "by_category (t # ts) d =
     by_category ts (AList.update (ct_category t) (dict_get d (ct_category t) [] @ [t]) d)"

text \<open>
  One output tag per category: the largest tier, the sorted union of the risk ids, and the most
  authoritative provenance. A group is never empty; \<open>None\<close> stands for the exception
  \<open>max\<close> would raise on one (\<open>compose_a_total\<close> below).
\<close>

fun compose_tag :: "string \<times> category_tag list \<Rightarrow> category_tag option" where
  "compose_tag (cat, []) = None"
| "compose_tag (cat, t # ts) =
     Some \<lparr>ct_category = cat,
           ct_tier = max_by tier_rank (ct_tier t) (map ct_tier ts),
           ct_risk_ids = sort (remdups (concat (map ct_risk_ids (t # ts)))),
           ct_assignment_provenance =
             max_by authority (ct_assignment_provenance t) (map ct_assignment_provenance ts)\<rparr>"

definition compose_a :: "category_tag list list \<Rightarrow> category_tag list" where
  "compose_a sets = List.map_filter compose_tag (by_category (concat sets) [])"

definition most_restrictive_inherit :: "label_state list \<Rightarrow> label_state" where
  "most_restrictive_inherit states =
     (if states = [] then empty_state
      else \<lparr>ls_a = compose_a (map ls_a states), ls_b = remdups (concat (map ls_b states))\<rparr>)"

definition label_join :: "label_state list \<Rightarrow> label_state" where
  "label_join states = most_restrictive_inherit states"

definition label_dominates :: "label_state \<Rightarrow> label_state \<Rightarrow> bool" where
  "label_dominates left right =
     (let left_join = label_join [left]; right_join = label_join [right];
          left_by_cat = dict_of (map (\<lambda>t. (ct_category t, t)) (ls_a left_join)) []
      in list_all (\<lambda>tag. case map_of left_by_cat (ct_category tag) of
                     None \<Rightarrow> False
                   | Some candidate \<Rightarrow>
                       max_by tier_rank (ct_tier candidate) [ct_tier tag] = ct_tier candidate)
           (ls_a right_join)
         \<and> set (map pt_level (ls_b right_join)) \<subseteq> set (map pt_level (ls_b left_join)))"

text \<open>
  Directional inheritance, parent to child: the provenance of a shared category stays the
  parent's unless the child's is a raise-only inspector's.
\<close>

definition inherit_tag :: "category_tag \<Rightarrow> category_tag \<Rightarrow> category_tag" where
  "inherit_tag pc cc =
     \<lparr>ct_category = ct_category cc,
      ct_tier = max_by tier_rank (ct_tier pc) [ct_tier cc],
      ct_risk_ids = sort (remdups (ct_risk_ids pc @ ct_risk_ids cc)),
      ct_assignment_provenance =
        (if ct_assignment_provenance cc = ''raise-only-inspector''
         then ct_assignment_provenance cc else ct_assignment_provenance pc)\<rparr>"

fun inherit_a ::
  "category_tag list \<Rightarrow> (string \<times> category_tag) list \<Rightarrow> (string \<times> category_tag) list" where
  "inherit_a [] d = d"
| "inherit_a (cc # ccs) d =
     (case map_of d (ct_category cc) of
        None \<Rightarrow> inherit_a ccs (AList.update (ct_category cc) cc d)
      | Some pc \<Rightarrow> inherit_a ccs (AList.update (ct_category cc) (inherit_tag pc cc) d))"

fun inherit_b ::
  "provenance_tag list \<Rightarrow> (provenance_level \<times> provenance_tag) list
   \<Rightarrow> (provenance_level \<times> provenance_tag) list" where
  "inherit_b [] d = d"
| "inherit_b (ce # ces) d =
     (if map_of d (pt_level ce) = None
      then inherit_b ces (AList.update (pt_level ce) ce d) else inherit_b ces d)"

definition inherit :: "label_state \<Rightarrow> label_state \<Rightarrow> label_state" where
  "inherit parent child =
     \<lparr>ls_a = map snd (inherit_a (ls_a child)
               (dict_of (map (\<lambda>t. (ct_category t, t)) (ls_a parent)) [])),
      ls_b = map snd (inherit_b (ls_b child)
               (dict_of (map (\<lambda>e. (pt_level e, e)) (ls_b parent)) []))\<rparr>"

section \<open>Tag transfers and the integrity floor\<close>

definition meets_required_floor :: "label_state \<Rightarrow> provenance_level option \<Rightarrow> bool" where
  "meets_required_floor state required_floor =
     (case required_floor of
        None \<Rightarrow> True
      | Some fl \<Rightarrow>
          list_all (\<lambda>t. provenance_index (pt_level t) \<le> provenance_index fl) (ls_b state))"

record tag_transfer =
  tt_adds :: label_state
  tt_removes :: "label_state option"
  tt_is_declassifier :: bool

text \<open>The constructor's \<open>__post_init__\<close>.\<close>

definition TagTransfer :: "label_state \<Rightarrow> label_state option \<Rightarrow> bool \<Rightarrow> py_error + tag_transfer" where
  "TagTransfer adds removes is_declassifier =
     (if removes \<noteq> None \<and> \<not> is_declassifier then Inl LabelError
      else Inr \<lparr>tt_adds = adds, tt_removes = removes, tt_is_declassifier = is_declassifier\<rparr>)"

definition remove_tags :: "label_state \<Rightarrow> label_state \<Rightarrow> label_state" where
  "remove_tags state rem =
     (let rem_cats = map ct_category (ls_a rem); rem_levels = map pt_level (ls_b rem)
      in \<lparr>ls_a = filter (\<lambda>t. ct_category t \<notin> set rem_cats) (ls_a state),
          ls_b = filter (\<lambda>t. pt_level t \<notin> set rem_levels) (ls_b state)\<rparr>)"

definition apply_transfer :: "label_state \<Rightarrow> tag_transfer \<Rightarrow> py_error + label_state" where
  "apply_transfer state transfer =
     (let raised = most_restrictive_inherit [state, tt_adds transfer]
      in case tt_removes transfer of
           None \<Rightarrow> Inr raised
         | Some rem \<Rightarrow>
             if \<not> tt_is_declassifier transfer then Inl LabelError
             else Inr (remove_tags raised rem))"

section \<open>Legacy label strings\<close>

definition CONFIDENTIAL_LABEL_CATEGORY :: "(string \<times> string) list" where
  "CONFIDENTIAL_LABEL_CATEGORY =
     [(''confidential.health'', ''health''), (''confidential.financial'', ''financial''),
      (''confidential.personal'', ''personal'')]"

text \<open>
  The tier of a category comes from the operator's catalog, read from \<open>configs/labels.yaml\<close>;
  the file's contents are the parameter \<open>catalog\<close>, the fallback is REGULATED.
\<close>

definition category_tier :: "(string \<rightharpoonup> tier) \<Rightarrow> string \<Rightarrow> tier" where
  "category_tier catalog category =
     (case catalog category of Some t \<Rightarrow> t | None \<Rightarrow> REGULATED)"

definition legacy_label_strings_to_tags ::
  "(string \<rightharpoonup> tier) \<Rightarrow> (string \<times> label_state) list" where
  "legacy_label_strings_to_tags catalog =
     map (\<lambda>(label, category).
            (label, \<lparr>ls_a = [\<lparr>ct_category = category, ct_tier = category_tier catalog category,
                              ct_risk_ids = [], ct_assignment_provenance = ''source-declared''\<rparr>],
                    ls_b = []\<rparr>)) CONFIDENTIAL_LABEL_CATEGORY
     @ [(''untrusted.external'', \<lparr>ls_a = [], ls_b = [\<lparr>pt_level = EXTERNAL_UNTRUSTED\<rparr>]\<rparr>),
        (''untrusted.user_input'', \<lparr>ls_a = [], ls_b = [\<lparr>pt_level = EXTERNAL_UNTRUSTED\<rparr>]\<rparr>),
        (''trusted.user_direct'', \<lparr>ls_a = [], ls_b = [\<lparr>pt_level = PRINCIPAL_DIRECT\<rparr>]\<rparr>),
        (''egress.email'', empty_state), (''egress.purchase'', empty_state)]"

definition tags_for_label_string :: "(string \<rightharpoonup> tier) \<Rightarrow> string \<Rightarrow> label_state" where
  "tags_for_label_string catalog label_str =
     dict_get (legacy_label_strings_to_tags catalog) label_str empty_state"

definition legacy_labels_present :: "(string \<rightharpoonup> tier) \<Rightarrow> label_state \<Rightarrow> string list" where
  "legacy_labels_present catalog state =
     (let cats = set (map ct_category (ls_a state)); lvls = set (map pt_level (ls_b state))
      in sort (map fst (filter (\<lambda>(label_str, tags).
           \<not> (ls_a tags = [] \<and> ls_b tags = [])
           \<and> list_all (\<lambda>c. ct_category c \<in> cats) (ls_a tags)
           \<and> list_all (\<lambda>p. pt_level p \<in> lvls) (ls_b tags))
           (legacy_label_strings_to_tags catalog))))"

definition tags_for_labels_strings :: "(string \<rightharpoonup> tier) \<Rightarrow> string list \<Rightarrow> label_state" where
  "tags_for_labels_strings catalog labels =
     (if labels = [] then empty_state
      else most_restrictive_inherit (map (tags_for_label_string catalog) labels))"

section \<open>Composition, characterised\<close>

lemma map_of_by_category:
  "map_of (by_category ts d) c =
     (let new = filter (\<lambda>t. ct_category t = c) ts
      in if new = [] then map_of d c else Some (dict_get d c [] @ new))"
  by (induction ts d rule: by_category.induct)
     (auto simp: Let_def update_conv' dict_get_def split: option.splits)

lemma distinct_by_category:
  "distinct (map fst d) \<Longrightarrow> distinct (map fst (by_category ts d))"
  by (induction ts d rule: by_category.induct) (simp_all add: distinct_update)

lemma by_category_mem:
  "(c, g) \<in> set (by_category ts [])
   \<longleftrightarrow> g = filter (\<lambda>t. ct_category t = c) ts \<and> g \<noteq> []"
proof -
  have "distinct (map fst (by_category ts []))" by (rule distinct_by_category) simp
  then have "(c, g) \<in> set (by_category ts []) \<longleftrightarrow> map_of (by_category ts []) c = Some g"
    by simp
  also have "\<dots> \<longleftrightarrow> g = filter (\<lambda>t. ct_category t = c) ts \<and> g \<noteq> []"
    by (auto simp: map_of_by_category Let_def dict_get_def)
  finally show ?thesis .
qed

text \<open>No group is empty, so no composition raises.\<close>

lemma compose_tag_None_iff: "compose_tag (c, g) = None \<longleftrightarrow> g = []"
  by (cases g) auto

lemma compose_a_total: "x \<in> set (by_category ts []) \<Longrightarrow> compose_tag x \<noteq> None"
  by (cases x) (simp add: by_category_mem compose_tag_None_iff del: not_None_eq)

lemma compose_a_mem:
  "u \<in> set (compose_a sets)
   \<longleftrightarrow> filter (\<lambda>t. ct_category t = ct_category u) (concat sets) \<noteq> []
     \<and> compose_tag (ct_category u, filter (\<lambda>t. ct_category t = ct_category u) (concat sets))
         = Some u"
proof
  assume "u \<in> set (compose_a sets)"
  then obtain c g where cg: "(c, g) \<in> set (by_category (concat sets) [])"
    and u: "compose_tag (c, g) = Some u"
    by (auto simp: compose_a_def List.map_filter_def)
  from u have "c = ct_category u"
    by (cases "(c, g)" rule: compose_tag.cases) auto
  with cg u show "filter (\<lambda>t. ct_category t = ct_category u) (concat sets) \<noteq> []
     \<and> compose_tag (ct_category u, filter (\<lambda>t. ct_category t = ct_category u) (concat sets))
         = Some u"
    using u unfolding by_category_mem by blast
next
  assume "filter (\<lambda>t. ct_category t = ct_category u) (concat sets) \<noteq> []
     \<and> compose_tag (ct_category u, filter (\<lambda>t. ct_category t = ct_category u) (concat sets))
         = Some u"
  then show "u \<in> set (compose_a sets)"
    by (force simp: compose_a_def List.map_filter_def by_category_mem)
qed

lemma compose_tag_tier:
  assumes "compose_tag (c, g) = Some u"
  shows "ct_category u = c" and "ct_tier u \<in> ct_tier ` set g"
    and "t \<in> set g \<Longrightarrow> ct_tier t \<le> ct_tier u"
proof -
  from assms obtain x xs where g: "g = x # xs"
    and u: "ct_tier u = max_by tier_rank (ct_tier x) (map ct_tier xs)" "ct_category u = c"
    by (cases "(c, g)" rule: compose_tag.cases) auto
  show "ct_category u = c" by (rule u)
  show "ct_tier u \<in> ct_tier ` set g"
    using tier_max_mem [of "ct_tier x" "map ct_tier xs"] by (auto simp: g u)
  show "t \<in> set g \<Longrightarrow> ct_tier t \<le> ct_tier u"
    using tier_max_le_iff [of "ct_tier x" "map ct_tier xs" "ct_tier u"] by (auto simp: g u)
qed

lemma compose_a_covers:
  assumes "t \<in> set (concat sets)"
  obtains u where "u \<in> set (compose_a sets)" "ct_category u = ct_category t" "ct_tier t \<le> ct_tier u"
proof -
  let ?g = "filter (\<lambda>s. ct_category s = ct_category t) (concat sets)"
  have "t \<in> set ?g" using assms by auto
  then obtain u where u: "compose_tag (ct_category t, ?g) = Some u"
    by (cases ?g) auto
  note tier = compose_tag_tier [OF u]
  have "u \<in> set (compose_a sets)" using u tier(1) \<open>t \<in> set ?g\<close>
    by (auto simp: compose_a_mem)
  then show thesis using that tier(1,3) \<open>t \<in> set ?g\<close> by blast
qed

lemma compose_a_sources:
  assumes "u \<in> set (compose_a sets)"
  obtains t where "t \<in> set (concat sets)" "ct_category t = ct_category u" "ct_tier t = ct_tier u"
proof -
  from assms have u: "compose_tag (ct_category u,
      filter (\<lambda>t. ct_category t = ct_category u) (concat sets)) = Some u"
    by (simp add: compose_a_mem)
  from compose_tag_tier(2) [OF u] obtain t where
    "t \<in> set (filter (\<lambda>t. ct_category t = ct_category u) (concat sets))" "ct_tier t = ct_tier u"
    by (metis image_iff)
  then show thesis using that by auto
qed

lemma distinct_compose_a: "distinct (map ct_category (compose_a sets))"
proof -
  let ?d = "by_category (concat sets) []"
  have "map ct_category (List.map_filter compose_tag xs) = map fst xs"
    if "\<forall>x \<in> set xs. compose_tag x \<noteq> None" for xs
    using that
  proof (induction xs)
    case (Cons x xs)
    then show ?case
      by (cases x rule: compose_tag.cases) (auto simp: List.map_filter_def)
  qed (simp add: List.map_filter_def)
  then have "map ct_category (compose_a sets) = map fst ?d"
    unfolding compose_a_def using compose_a_total by blast
  then show ?thesis by (simp add: distinct_by_category)
qed

lemma ls_join [simp]:
  "states \<noteq> [] \<Longrightarrow> ls_a (label_join states) = compose_a (map ls_a states)"
  "ls_b (label_join states) = remdups (concat (map ls_b states))"
  by (auto simp: label_join_def most_restrictive_inherit_def empty_state_def)

section \<open>Dominance\<close>

definition dominates_a :: "category_tag list \<Rightarrow> category_tag list \<Rightarrow> bool" where
  "dominates_a ls rs \<longleftrightarrow>
     (\<forall>r \<in> set rs. \<exists>l \<in> set ls. ct_category l = ct_category r \<and> ct_tier r \<le> ct_tier l)"

lemma dominates_a_compose_left: "dominates_a (compose_a [ls]) rs \<longleftrightarrow> dominates_a ls rs"
proof
  show "dominates_a (compose_a [ls]) rs \<Longrightarrow> dominates_a ls rs"
    unfolding dominates_a_def by (metis compose_a_sources concat.simps append_Nil2)
  show "dominates_a ls rs \<Longrightarrow> dominates_a (compose_a [ls]) rs"
    unfolding dominates_a_def
  proof
    fix r assume "\<forall>r \<in> set rs. \<exists>l \<in> set ls. ct_category l = ct_category r \<and> ct_tier r \<le> ct_tier l"
      and "r \<in> set rs"
    then obtain l where l: "l \<in> set ls" "ct_category l = ct_category r" "ct_tier r \<le> ct_tier l"
      by blast
    obtain u where "u \<in> set (compose_a [ls])" "ct_category u = ct_category l" "ct_tier l \<le> ct_tier u"
      using compose_a_covers [of l "[ls]"] l(1) by auto
    then show "\<exists>l \<in> set (compose_a [ls]). ct_category l = ct_category r \<and> ct_tier r \<le> ct_tier l"
      using l order_trans by metis
  qed
qed

lemma dominates_a_compose_right:
  "dominates_a ls (compose_a rss) \<longleftrightarrow> dominates_a ls (concat rss)"
proof
  show "dominates_a ls (compose_a rss) \<Longrightarrow> dominates_a ls (concat rss)"
    unfolding dominates_a_def by (metis compose_a_covers order_trans)
  show "dominates_a ls (concat rss) \<Longrightarrow> dominates_a ls (compose_a rss)"
    unfolding dominates_a_def by (metis compose_a_sources)
qed

text \<open>
  The executable check agrees with its meaning: every tag of the right state is matched in the
  left one by a tag of the same category at the same tier or above, and no provenance level of the
  right state is missing.
\<close>

lemma label_dominates_iff [dominance]:
  "label_dominates l r \<longleftrightarrow> dominates_a (ls_a l) (ls_a r) \<and> levels r \<subseteq> levels l"
proof -
  let ?l = "compose_a [ls_a l]" and ?r = "compose_a [ls_a r]"
  let ?d = "dict_of (map (\<lambda>t. (ct_category t, t)) ?l) []"
  have lookup: "map_of ?d c = Some u \<longleftrightarrow> u \<in> set ?l \<and> ct_category u = c" for c u
    by (rule map_of_distinct_key [OF distinct_compose_a])
  have chk: "(case map_of ?d (ct_category tag) of None \<Rightarrow> False
           | Some candidate \<Rightarrow>
               max_by tier_rank (ct_tier candidate) [ct_tier tag] = ct_tier candidate)
        \<longleftrightarrow> (\<exists>u \<in> set ?l. ct_category u = ct_category tag \<and> ct_tier tag \<le> ct_tier u)"
    (is "?chk \<longleftrightarrow> _") for tag
  proof (cases "map_of ?d (ct_category tag)")
    case None
    have "u \<notin> set ?l \<or> ct_category u \<noteq> ct_category tag" for u
      using lookup [of "ct_category tag" u] None by simp
    then show ?thesis using None by auto
  next
    case (Some u)
    then have "?chk \<longleftrightarrow> ct_tier tag \<le> ct_tier u"
      by (simp only: option.case tier_ranked.max_by_two less_eq_tier_def)
    moreover have u: "u \<in> set ?l" "ct_category u = ct_category tag"
      using Some lookup [of "ct_category tag" u] by simp_all
    moreover have uniq: "v = u" if "v \<in> set ?l" "ct_category v = ct_category tag" for v
      using Some that lookup [of "ct_category tag" v] by simp
    have "(\<exists>u \<in> set ?l. ct_category u = ct_category tag \<and> ct_tier tag \<le> ct_tier u)
        \<longleftrightarrow> ct_tier tag \<le> ct_tier u"
      using u uniq by metis
    ultimately show ?thesis by simp
  qed
  have "label_dominates l r \<longleftrightarrow> dominates_a ?l ?r \<and> levels r \<subseteq> levels l"
    by (simp add: label_dominates_def Let_def list_all_iff dominates_a_def levels_def chk
        del: max_by.simps)
  then show ?thesis
    by (simp add: dominates_a_compose_left dominates_a_compose_right)
qed

lemma dominates_a_refl [dominance]: "dominates_a xs xs"
  by (auto simp: dominates_a_def)

lemma dominates_a_trans: "dominates_a xs ys \<Longrightarrow> dominates_a ys zs \<Longrightarrow> dominates_a xs zs"
  unfolding dominates_a_def by (metis order_trans)

lemma label_dominates_refl: "label_dominates s s"
  by (simp add: dominance)

lemma label_dominates_trans:
  "label_dominates s t \<Longrightarrow> label_dominates t u \<Longrightarrow> label_dominates s u"
  unfolding label_dominates_iff using dominates_a_trans by blast

lemma levels_join [dominance, simp]: "levels (label_join states) = \<Union> (levels ` set states)"
  by (auto simp: levels_def)

lemma dominates_a_concat [dominance]:
  "dominates_a ls (concat rss) \<longleftrightarrow> (\<forall>rs \<in> set rss. dominates_a ls rs)"
  by (auto simp: dominates_a_def)

text \<open>A join is dominated by exactly the states that dominate each argument.\<close>

lemma dominates_join_iff:
  assumes "states \<noteq> []"
  shows "label_dominates u (label_join states) \<longleftrightarrow> (\<forall>s \<in> set states. label_dominates u s)"
  using assms
  by (auto simp: label_dominates_iff dominates_a_compose_right dominates_a_concat)

lemma join_dominates:
  assumes "s \<in> set states"
  shows "label_dominates (label_join states) s"
proof -
  have "states \<noteq> []" using assms by auto
  then show ?thesis
    using assms dominates_join_iff label_dominates_refl by blast
qed

section \<open>Iteration order\<close>

text \<open>
  The provenance strings of \<open>AUTHORITY_RANK\<close> have distinct authorities; a string outside the
  table ties with \<open>system-default\<close>, and then the first tag in iteration order wins.
\<close>

definition known_provenance :: "category_tag \<Rightarrow> bool" where
  "known_provenance t \<longleftrightarrow> ct_assignment_provenance t \<in> fst ` set AUTHORITY_RANK"

lemma authority_inj: "inj_on authority (fst ` set AUTHORITY_RANK)"
  by (auto simp: inj_on_def AUTHORITY_RANK_def authority_def dict_get_def)

lemma sort_remdups_cong:
  fixes xs ys :: "'a :: linorder list"
  shows "set xs = set ys \<Longrightarrow> sort (remdups xs) = sort (remdups ys)"
  by (metis sorted_list_of_set_sort_remdups)

lemma compose_tag_cong:
  assumes "set g = set g'" and "\<And>t. t \<in> set g \<Longrightarrow> known_provenance t"
  shows "compose_tag (c, g) = compose_tag (c, g')"
proof (cases g)
  case Nil
  then show ?thesis using assms(1) by simp
next
  case (Cons x xs)
  then obtain y ys where g': "g' = y # ys"
    using assms(1) by (cases g') auto
  have eq: "set (x # xs) = set (y # ys)" using assms(1) Cons g' by simp
  have tier: "max_by tier_rank (ct_tier x) (map ct_tier xs)
      = max_by tier_rank (ct_tier y) (map ct_tier ys)"
    using eq by (intro tier_ranked.max_by_set_cong) (metis list.set_map list.map(2))
  have prov: "max_by authority (ct_assignment_provenance x) (map ct_assignment_provenance xs)
      = max_by authority (ct_assignment_provenance y) (map ct_assignment_provenance ys)"
  proof (rule max_by_inj_cong)
    show "inj_on authority
        (set (ct_assignment_provenance x # map ct_assignment_provenance xs))"
      using assms(2) Cons
      by (intro inj_on_subset [OF authority_inj]) (auto simp: known_provenance_def)
    show "set (ct_assignment_provenance x # map ct_assignment_provenance xs)
        = set (ct_assignment_provenance y # map ct_assignment_provenance ys)"
      using eq by (metis list.set_map list.map(2))
  qed
  have risks: "sort (remdups (concat (map ct_risk_ids (x # xs))))
      = sort (remdups (concat (map ct_risk_ids (y # ys))))"
    using eq by (intro sort_remdups_cong) (metis list.set_map set_concat)
  show ?thesis by (simp only: Cons g' compose_tag.simps tier prov risks)
qed

lemma compose_a_subset:
  assumes "set (concat xss) = set (concat yss)"
    and "\<And>t. t \<in> set (concat xss) \<Longrightarrow> known_provenance t"
  shows "set (compose_a xss) \<subseteq> set (compose_a yss)"
proof
  fix u :: category_tag
  let ?f = "filter (\<lambda>t. ct_category t = ct_category u)"
  assume "u \<in> set (compose_a xss)"
  then have u: "?f (concat xss) \<noteq> []"
    "compose_tag (ct_category u, ?f (concat xss)) = Some u"
    unfolding compose_a_mem by simp_all
  have same: "set (?f (concat xss)) = set (?f (concat yss))"
    using assms(1) by (simp only: set_filter)
  have "compose_tag (ct_category u, ?f (concat yss)) = Some u"
    using compose_tag_cong [OF same, of "ct_category u"] assms(2) u(2) by auto
  moreover have "?f (concat yss) \<noteq> []" using u(1) same by (metis set_empty)
  ultimately show "u \<in> set (compose_a yss)" unfolding compose_a_mem by simp
qed

section \<open>Inheritance, characterised\<close>

text \<open>One step of the loop over the child's tags: what is stored under the tag's category.\<close>

definition inherited :: "(string \<times> category_tag) list \<Rightarrow> category_tag \<Rightarrow> category_tag" where
  "inherited d cc =
     (case map_of d (ct_category cc) of None \<Rightarrow> cc | Some pc \<Rightarrow> inherit_tag pc cc)"

lemma inherit_a_Cons [simp]:
  "inherit_a (cc # ccs) d = inherit_a ccs (AList.update (ct_category cc) (inherited d cc) d)"
  by (simp add: inherited_def split: option.split)

declare inherit_a.simps(2) [simp del]

lemma inherited_tier:
  "ct_tier cc \<le> ct_tier (inherited d cc)"
  "map_of d (ct_category cc) = Some pc \<Longrightarrow> ct_tier pc \<le> ct_tier (inherited d cc)"
  by (auto simp: inherited_def inherit_tag_def less_eq_tier_def split: option.splits)

lemma inherited_category [simp]: "ct_category (inherited d cc) = ct_category cc"
  by (auto simp: inherited_def inherit_tag_def split: option.splits)

lemma inherit_a_mono:
  "map_of d c = Some t \<Longrightarrow> \<exists>u. map_of (inherit_a ccs d) c = Some u \<and> ct_tier t \<le> ct_tier u"
proof (induction ccs arbitrary: d t)
  case (Cons cc ccs)
  obtain t' where "map_of (AList.update (ct_category cc) (inherited d cc) d) c = Some t'"
      "ct_tier t \<le> ct_tier t'"
    using Cons.prems inherited_tier(2) by (cases "c = ct_category cc") (auto simp: update_conv')
  with Cons.IH [of _ t'] show ?case by (auto intro: order_trans)
qed auto

lemma inherit_a_child:
  "cc \<in> set ccs
   \<Longrightarrow> \<exists>u. map_of (inherit_a ccs d) (ct_category cc) = Some u \<and> ct_tier cc \<le> ct_tier u"
proof (induction ccs arbitrary: d)
  case (Cons x ccs)
  show ?case
  proof (cases "cc \<in> set ccs")
    case True
    then show ?thesis using Cons.IH by simp
  next
    case False
    then have "x = cc" using Cons.prems by simp
    moreover have "map_of (AList.update (ct_category cc) (inherited d cc) d) (ct_category cc)
        = Some (inherited d cc)"
      by (simp add: update_conv')
    ultimately show ?thesis
      using inherit_a_mono inherited_tier(1) by (fastforce intro: order_trans)
  qed
qed simp

lemma inherit_a_keys:
  "(\<And>k t. map_of d k = Some t \<Longrightarrow> ct_category t = k)
   \<Longrightarrow> map_of (inherit_a ccs d) k = Some t \<Longrightarrow> ct_category t = k"
proof (induction ccs arbitrary: d)
  case (Cons cc ccs)
  show ?case
    by (rule Cons.IH [OF _ Cons.prems(2) [unfolded inherit_a_Cons]])
       (use Cons.prems(1) in \<open>auto simp: update_conv' split: if_splits\<close>)
qed simp

lemma distinct_inherit_a: "distinct (map fst d) \<Longrightarrow> distinct (map fst (inherit_a ccs d))"
  by (induction ccs arbitrary: d) (simp_all add: distinct_update)

lemma inherit_b_levels: "fst ` set (inherit_b ces d) = fst ` set d \<union> pt_level ` set ces"
  by (induction ces d rule: inherit_b.induct)
     (auto simp: dom_update map_of_eq_None_iff)

lemma inherit_b_values:
  "(\<forall>(k, e) \<in> set d. pt_level e = k) \<Longrightarrow> \<forall>(k, e) \<in> set (inherit_b ces d). pt_level e = k"
proof (induction ces d rule: inherit_b.induct)
  case (2 ce ces d)
  have "AList.update (pt_level ce) ce d = d @ [(pt_level ce, ce)]"
    if "map_of d (pt_level ce) = None"
    using that by (simp add: update_new map_of_eq_None_iff)
  then show ?case using 2 by auto
qed simp

lemma inherit_a_provenance:
  "map_of d c = Some t
   \<Longrightarrow> \<exists>u. map_of (inherit_a ccs d) c = Some u
        \<and> ct_assignment_provenance u \<in> {ct_assignment_provenance t, ''raise-only-inspector''}"
proof (induction ccs arbitrary: d t)
  case (Cons cc ccs)
  obtain t' where t': "map_of (AList.update (ct_category cc) (inherited d cc) d) c = Some t'"
      "ct_assignment_provenance t' \<in> {ct_assignment_provenance t, ''raise-only-inspector''}"
    using Cons.prems
    by (cases "c = ct_category cc") (auto simp: update_conv' inherited_def inherit_tag_def)
  from Cons.IH [OF t'(1)] t'(2) show ?case by auto
qed auto

lemma inherit_parent_tag:
  assumes "distinct (map ct_category (ls_a parent))" and "t \<in> set (ls_a parent)"
  shows "map_of (dict_of (map (\<lambda>t. (ct_category t, t)) (ls_a parent)) []) (ct_category t) = Some t"
  using map_of_distinct_key [OF assms(1)] assms(2) by simp

lemma inherit_a_in:
  assumes "map_of (inherit_a (ls_a child) (dict_of (map (\<lambda>t. (ct_category t, t)) (ls_a parent)) [])) c
      = Some u"
  shows "u \<in> set (ls_a (inherit parent child))" and "ct_category u = c"
proof -
  show "u \<in> set (ls_a (inherit parent child))"
    using map_of_SomeD [OF assms] by (force simp: inherit_def)
  show "ct_category u = c"
    by (rule inherit_a_keys [OF _ assms])
       (auto simp: map_of_dict_of dest!: map_of_SomeD)
qed

lemma levels_inherit: "levels (inherit parent child) = levels parent \<union> levels child"
proof -
  let ?d = "dict_of (map (\<lambda>e. (pt_level e, e)) (ls_b parent)) []"
  let ?r = "inherit_b (ls_b child) ?d"
  have d: "\<forall>(k, e) \<in> set ?d. pt_level e = k"
    by (auto simp: in_set_dict_of dest!: map_of_SomeD)
  have "pt_level ` snd ` set ?r = fst ` set ?r"
    using inherit_b_values [OF d, of "ls_b child"] by (force simp: image_iff)
  moreover have "fst ` set ?d = levels parent"
  proof -
    have "fst ` set ?d = dom (map_of ?d)" by (simp add: dom_map_of_conv_image_fst)
    also have "\<dots> = levels parent"
      by (force simp: map_of_dict_of dom_map_of_conv_image_fst levels_def)
    finally show ?thesis .
  qed
  ultimately show ?thesis
    by (simp add: levels_def inherit_def inherit_b_levels)
qed

section \<open>Properties\<close>

text \<open>
  C22: For a non-empty list of states \<open>label_join\<close> is their least upper bound in the order
  \<open>label_dominates\<close>, which compares the tier of each category and the set of provenance levels: the
  join dominates each of them, and a state dominates the join exactly when it dominates them all.
\<close>

theorem label_join_lub:
  "(label_dominates u (label_join (s # ss)) \<longleftrightarrow> list_all (label_dominates u) (s # ss))
   \<and> list_all (label_dominates (label_join (s # ss))) (s # ss)"
  using dominates_join_iff [of "s # ss" u] join_dominates [of _ "s # ss"]
  by (simp add: list_all_iff)

text \<open>
  A tag transfer that its constructor accepted always applies, and its result can fail to
  dominate the state it was applied to only when the transfer is a certified declassifier that
  names removals.
\<close>

theorem apply_transfer_raises_only:
  assumes "TagTransfer adds removes decl = Inr tr"
  shows "\<exists>s'. apply_transfer s tr = Inr s'
     \<and> (label_dominates s' s \<and> label_dominates s' adds \<or> decl \<and> removes \<noteq> None)"
proof -
  have tr: "tt_adds tr = adds" "tt_removes tr = removes" "tt_is_declassifier tr = decl"
    and ok: "removes = None \<or> decl"
    using assms by (auto simp: TagTransfer_def split: if_splits)
  show ?thesis
  proof (cases removes)
    case None
    then have "apply_transfer s tr = Inr (label_join [s, adds])"
      by (simp add: apply_transfer_def tr label_join_def Let_def)
    then show ?thesis using join_dominates [of _ "[s, adds]"] by simp
  next
    case (Some rem)
    then show ?thesis using ok by (simp add: apply_transfer_def tr Let_def)
  qed
qed

theorem apply_transfer_raises_only_witness:
  "\<exists>s'. apply_transfer \<lparr>ls_a = [\<lparr>ct_category = ''health'', ct_tier = RESTRICTED,
            ct_risk_ids = [], ct_assignment_provenance = ''human-declared''\<rparr>], ls_b = []\<rparr>
        \<lparr>tt_adds = empty_state, tt_removes = None, tt_is_declassifier = False\<rparr> = Inr s'
     \<and> (label_dominates s' \<lparr>ls_a = [\<lparr>ct_category = ''health'', ct_tier = RESTRICTED,
            ct_risk_ids = [], ct_assignment_provenance = ''human-declared''\<rparr>], ls_b = []\<rparr>
          \<and> label_dominates s' empty_state \<or> False \<and> None \<noteq> (None :: label_state option))"
  by (rule apply_transfer_raises_only) (simp add: TagTransfer_def)

text \<open>
  The Biba integrity floor is antitone in taint: whatever floor a state meets, every state it
  dominates meets too, so raising labels never re-admits an operation.
\<close>

theorem meets_required_floor_antitone:
  assumes "label_dominates s' s" and "meets_required_floor s' fl"
  shows "meets_required_floor s fl"
  using assms
  by (auto simp: meets_required_floor_def list_all_iff label_dominates_iff levels_def
      split: option.splits)

theorem meets_required_floor_antitone_witness:
  "meets_required_floor \<lparr>ls_a = [], ls_b = [\<lparr>pt_level = PRINCIPAL_DIRECT\<rparr>]\<rparr> (Some SYSTEM_INTERNAL)"
proof (rule meets_required_floor_antitone)
  let ?s = "\<lparr>ls_a = [], ls_b = [\<lparr>pt_level = PRINCIPAL_DIRECT\<rparr>, \<lparr>pt_level = SYSTEM_INTERNAL\<rparr>]\<rparr>"
  show "label_dominates ?s \<lparr>ls_a = [], ls_b = [\<lparr>pt_level = PRINCIPAL_DIRECT\<rparr>]\<rparr>"
    by (simp add: label_dominates_iff dominates_a_def levels_def)
  show "meets_required_floor ?s (Some SYSTEM_INTERNAL)"
    by (simp add: meets_required_floor_def)
qed

text \<open>
  Delegation or fork inheritance never lowers a label: the result dominates the child always,
  and the parent whenever the parent has one tag per category; and the assignment provenance of a
  parent's category survives (or becomes a raise-only inspector's).
\<close>

theorem inherit_dominates:
  assumes "distinct (map ct_category (ls_a parent))"
  shows "label_dominates (inherit parent child) parent
     \<and> label_dominates (inherit parent child) child
     \<and> (\<forall>t \<in> set (ls_a parent). \<exists>u \<in> set (ls_a (inherit parent child)).
          ct_category u = ct_category t
          \<and> ct_assignment_provenance u
              \<in> {ct_assignment_provenance t, ''raise-only-inspector''})"
proof (intro conjI ballI)
  have "dominates_a (ls_a (inherit parent child)) (ls_a parent)"
    unfolding dominates_a_def
  proof
    fix t assume "t \<in> set (ls_a parent)"
    from inherit_a_mono [OF inherit_parent_tag [OF assms this], of "ls_a child"]
    show "\<exists>l \<in> set (ls_a (inherit parent child)).
        ct_category l = ct_category t \<and> ct_tier t \<le> ct_tier l"
      using inherit_a_in by blast
  qed
  then show "label_dominates (inherit parent child) parent"
    by (simp add: label_dominates_iff levels_inherit)
  have "dominates_a (ls_a (inherit parent child)) (ls_a child)"
    unfolding dominates_a_def
  proof
    fix t assume "t \<in> set (ls_a child)"
    from inherit_a_child [OF this]
    show "\<exists>l \<in> set (ls_a (inherit parent child)).
        ct_category l = ct_category t \<and> ct_tier t \<le> ct_tier l"
      using inherit_a_in by blast
  qed
  then show "label_dominates (inherit parent child) child"
    by (simp add: label_dominates_iff levels_inherit)
next
  fix t assume "t \<in> set (ls_a parent)"
  from inherit_a_provenance [OF inherit_parent_tag [OF assms this], of "ls_a child"]
  show "\<exists>u \<in> set (ls_a (inherit parent child)). ct_category u = ct_category t
      \<and> ct_assignment_provenance u \<in> {ct_assignment_provenance t, ''raise-only-inspector''}"
    using inherit_a_in by meson
qed

theorem inherit_dominates_witness:
  "label_dominates
     (inherit \<lparr>ls_a = [\<lparr>ct_category = ''health'', ct_tier = RESTRICTED, ct_risk_ids = [],
                       ct_assignment_provenance = ''human-declared''\<rparr>], ls_b = []\<rparr> empty_state)
     \<lparr>ls_a = [\<lparr>ct_category = ''health'', ct_tier = RESTRICTED, ct_risk_ids = [],
              ct_assignment_provenance = ''human-declared''\<rparr>], ls_b = []\<rparr>"
  using inherit_dominates [of "\<lparr>ls_a = [\<lparr>ct_category = ''health'', ct_tier = RESTRICTED,
     ct_risk_ids = [], ct_assignment_provenance = ''human-declared''\<rparr>], ls_b = []\<rparr>" empty_state]
  by simp

text \<open>
  Composition does not depend on the iteration order of the sets, as long as every assignment
  provenance is one of the authority table.
\<close>

theorem label_join_order_independent:
  assumes "same_labels s s'" and "list_all known_provenance (ls_a s)"
  shows "same_labels (label_join [s]) (label_join [s'])"
proof -
  have eq: "set (concat [ls_a s]) = set (concat [ls_a s'])"
    and b: "set (ls_b s) = set (ls_b s')"
    using assms(1) by (auto simp: same_labels_def)
  have known: "known_provenance t" if "t \<in> set (concat [ls_a s])" for t
    using that assms(2) by (auto simp: list_all_iff)
  have "set (compose_a [ls_a s]) = set (compose_a [ls_a s'])"
  proof (rule equalityI)
    show "set (compose_a [ls_a s]) \<subseteq> set (compose_a [ls_a s'])"
      by (rule compose_a_subset [OF eq known])
    show "set (compose_a [ls_a s']) \<subseteq> set (compose_a [ls_a s])"
      by (rule compose_a_subset [OF eq [symmetric]]) (use known eq in blast)
  qed
  then show ?thesis using b by (simp add: same_labels_def)
qed

theorem label_join_order_independent_witness:
  "same_labels
     (label_join [\<lparr>ls_a = [\<lparr>ct_category = ''c'', ct_tier = NONE, ct_risk_ids = [],
                            ct_assignment_provenance = ''human-declared''\<rparr>], ls_b = []\<rparr>])
     (label_join [\<lparr>ls_a = [\<lparr>ct_category = ''c'', ct_tier = NONE, ct_risk_ids = [],
                            ct_assignment_provenance = ''human-declared''\<rparr>], ls_b = []\<rparr>])"
  by (rule label_join_order_independent)
     (simp_all add: same_labels_def known_provenance_def AUTHORITY_RANK_def)

text \<open>
  Without that restriction composition is not a function of the set: two unknown provenance
  strings tie with \<open>system-default\<close>, and the iteration order decides which one the composed
  tag carries.
\<close>

theorem label_join_tie_depends_on_order:
  "\<exists>s s'. same_labels s s' \<and> \<not> same_labels (label_join [s]) (label_join [s'])"
proof -
  define t1 where "t1 = \<lparr>ct_category = ''c'', ct_tier = NONE, ct_risk_ids = [],
      ct_assignment_provenance = ''x''\<rparr>"
  define t2 where "t2 = \<lparr>ct_category = ''c'', ct_tier = NONE, ct_risk_ids = [],
      ct_assignment_provenance = ''y''\<rparr>"
  have "same_labels \<lparr>ls_a = [t1, t2], ls_b = []\<rparr> \<lparr>ls_a = [t2, t1], ls_b = []\<rparr>"
    by (auto simp: same_labels_def)
  moreover have "\<not> same_labels (label_join [\<lparr>ls_a = [t1, t2], ls_b = []\<rparr>])
      (label_join [\<lparr>ls_a = [t2, t1], ls_b = []\<rparr>])"
    by (simp add: same_labels_def compose_a_def t1_def t2_def dict_get_def List.map_filter_def
        authority_def AUTHORITY_RANK_def)
  ultimately show ?thesis by blast
qed

text \<open>
  Directional inheritance does lower a tier when the parent state holds two tags of one
  category: the dictionary keeps the last of them.
\<close>

theorem inherit_lowers_unnormalised_parent:
  "\<exists>parent child. \<not> label_dominates (inherit parent child) parent"
proof -
  define parent where "parent = \<lparr>ls_a = [\<lparr>ct_category = ''c'', ct_tier = RESTRICTED,
      ct_risk_ids = [], ct_assignment_provenance = ''human-declared''\<rparr>,
      \<lparr>ct_category = ''c'', ct_tier = NONE, ct_risk_ids = [],
      ct_assignment_provenance = ''human-declared''\<rparr>], ls_b = []\<rparr>"
  have "\<not> label_dominates (inherit parent empty_state) parent"
    by (simp add: label_dominates_iff dominates_a_def parent_def inherit_def empty_state_def
        less_eq_tier_def)
  then show ?thesis by blast
qed

end
