(* ===== verification/Fnmatch.thy ===== *)
theory Fnmatch
  imports Prelude
begin

text \<open>
  \<open>fnmatch.fnmatchcase\<close> of the Python standard library, which the code uses for capability
  patterns and binding scopes: a shell pattern is parsed into tokens (\<open>*\<close>, \<open>?\<close>, a
  character class, a literal) and matched against the whole name. An unclosed bracket is a literal;
  a range whose ends are out of order is empty; \<open>!\<close> at the front of a class negates it. The
  lemmas at the end describe the patterns the subset test of delegation accepts: a literal, and a
  literal followed by one star.
\<close>

section \<open>Parsing\<close>

datatype glob_token =
    GStar
  | GAny
  | GLit char
  | GClass bool "(char \<times> char) list" \<comment> \<open>negated?, inclusive ranges\<close>

text \<open>
  The body of a class, given the text after the opening bracket: a leading \<open>!\<close> and a
  \<open>]\<close> right after it belong to the body, which ends at the next \<open>]\<close>.
\<close>

fun optional_lead :: "char \<Rightarrow> string \<Rightarrow> string \<times> string" where
  "optional_lead c [] = ([], [])"
| "optional_lead c (x # r) = (if x = c then ([x], r) else ([], x # r))"

definition class_split :: "string \<Rightarrow> (string \<times> string) option" where
  "class_split r =
     (let (neg, r1) = optional_lead (CHR ''!'') r;
          (first, r2) = optional_lead (CHR '']'') r1;
          body = takeWhile (\<lambda>c. c \<noteq> CHR '']'') r2
      in if length body = length r2 then None
         else Some (neg @ first @ body, drop (Suc (length body)) r2))"

fun class_items :: "string \<Rightarrow> (char \<times> char) list" where
  "class_items [] = []"
| "class_items [x] = [(x, x)]"
| "class_items [x, y] = [(x, x), (y, y)]"
| "class_items (x # y # z # r) =
     (if y = CHR ''-'' then (x, z) # class_items r else (x, x) # class_items (y # z # r))"

text \<open>
  The translation to a regular expression removes empty ranges first, so a \<open>!\<close> that an empty
  range at the front had hidden then negates the class.
\<close>

fun drop_empty_lead :: "string \<Rightarrow> string" where
  "drop_empty_lead (x # y # z # r) =
     (if y = CHR ''-'' \<and> z < x then drop_empty_lead r else x # y # z # r)"
| "drop_empty_lead s = s"

definition class_token :: "string \<Rightarrow> glob_token" where
  "class_token body =
     (case body of
        [] \<Rightarrow> GClass False []
      | c # cs \<Rightarrow>
          if c = CHR ''!'' then GClass True (class_items cs)
          else (case drop_empty_lead body of
                  [] \<Rightarrow> GClass False []
                | d # ds \<Rightarrow> if d = CHR ''!'' then GClass True (class_items ds)
                            else GClass False (class_items (d # ds))))"

lemma optional_lead_length: "optional_lead c r = (x, r') \<Longrightarrow> length r' \<le> length r"
  by (cases r) (auto split: if_splits)

lemma class_split_shorter:
  assumes "class_split r = Some (body, rest)"
  shows "length rest < length r"
proof -
  obtain neg r1 where 1: "optional_lead (CHR ''!'') r = (neg, r1)" by fastforce
  obtain first r2 where 2: "optional_lead (CHR '']'') r1 = (first, r2)" by fastforce
  let ?b = "takeWhile (\<lambda>c. c \<noteq> CHR '']'') r2"
  have "length ?b \<noteq> length r2" and rest: "rest = drop (Suc (length ?b)) r2"
    using assms by (simp_all add: class_split_def 1 2 Let_def split: if_splits)
  then have "length ?b < length r2" using length_takeWhile_le le_neq_implies_less by blast
  then show ?thesis using optional_lead_length [OF 1] optional_lead_length [OF 2] rest
    by simp
qed

function glob_parse :: "string \<Rightarrow> glob_token list" where
  "glob_parse [] = []"
| "glob_parse (c # r) =
     (if c = CHR ''*'' then GStar # glob_parse r
      else if c = CHR ''?'' then GAny # glob_parse r
      else if c = CHR ''['' then
        (case class_split r of
           None \<Rightarrow> GLit c # glob_parse r
         | Some (body, rest) \<Rightarrow> class_token body # glob_parse rest)
      else GLit c # glob_parse r)"
  by pat_completeness auto
termination
  by (relation "measure length") (auto dest!: class_split_shorter)

section \<open>Matching\<close>

fun token_matches :: "glob_token \<Rightarrow> char \<Rightarrow> bool" where
  "token_matches GStar c = False"
| "token_matches GAny c = True"
| "token_matches (GLit d) c = (c = d)"
| "token_matches (GClass neg rs) c = (list_ex (\<lambda>(a, b). a \<le> c \<and> c \<le> b) rs \<noteq> neg)"

fun glob_match :: "glob_token list \<Rightarrow> string \<Rightarrow> bool" where
  "glob_match [] s = (s = [])"
| "glob_match (GStar # p) [] = glob_match p []"
| "glob_match (GStar # p) (c # s) = (glob_match p (c # s) \<or> glob_match (GStar # p) s)"
| "glob_match (t # p) [] = False"
| "glob_match (t # p) (c # s) = (token_matches t c \<and> glob_match p s)"

definition fnmatchcase :: "string \<Rightarrow> string \<Rightarrow> bool" where
  "fnmatchcase name pat = glob_match (glob_parse pat) name"

section \<open>Literal and single-star patterns\<close>

definition glob_free :: "string \<Rightarrow> bool" where
  "glob_free s \<longleftrightarrow> set s \<inter> {CHR ''*'', CHR ''?'', CHR ''['', CHR '']''} = {}"

lemma glob_free_Cons [simp]:
  "glob_free (c # s) \<longleftrightarrow> c \<notin> {CHR ''*'', CHR ''?'', CHR ''['', CHR '']''} \<and> glob_free s"
  by (auto simp: glob_free_def)

lemma glob_free_append [simp]: "glob_free (s @ t) \<longleftrightarrow> glob_free s \<and> glob_free t"
  by (auto simp: glob_free_def)

lemma glob_parse_literal: "glob_free p \<Longrightarrow> glob_parse (p @ q) = map GLit p @ glob_parse q"
  by (induction p) auto

lemma glob_match_literal:
  "glob_match (map GLit p @ q) s \<longleftrightarrow> (\<exists>s'. s = p @ s' \<and> glob_match q s')"
proof (induction p arbitrary: s)
  case (Cons a p)
  then show ?case by (cases s) auto
qed simp

lemma glob_match_star [simp]: "glob_match [GStar] s"
  by (induction s) simp_all

lemma fnmatch_literal: "glob_free p \<Longrightarrow> fnmatchcase s p \<longleftrightarrow> s = p"
  using glob_parse_literal [of p "[]"] glob_match_literal [of p "[]" s]
  by (simp add: fnmatchcase_def)

lemma fnmatch_prefix: "glob_free p \<Longrightarrow> fnmatchcase s (p @ ''*'') \<longleftrightarrow> (\<exists>s'. s = p @ s')"
  using glob_parse_literal [of p "''*''"] glob_match_literal [of p "[GStar]" s]
  by (simp add: fnmatchcase_def)

end
