(* ===== verification/Capabilities.thy ===== *)
theory Capabilities
  imports Labels Fnmatch "HOL-Library.Sublist"
begin

text \<open>
  Capabilities (\<open>policy/capabilities.py\<close>) and actions (\<open>policy/actions.py\<close>): the
  unforgeable tokens a session holds, the matching of an action against one, expiry and rate
  limits, and the derivation of an attenuated capability for delegation. A kind is a built-in
  enumeration member or a custom string; Python compares the two by their string value, so the
  model compares \<open>kind_name\<close>. Frozensets of kinds are lists read as sets, a fresh
  \<open>uuid4()\<close> is an argument, and the process-global registry of custom kinds is an argument.
\<close>

section \<open>Kinds\<close>

datatype capability_kind =
    READ_FS | WRITE_FS | SEND_EMAIL | WEB_FETCH | CALENDAR_READ | CALENDAR_WRITE |
    QUEUE_PURCHASE | SEND_MESSAGE | BROWSER_AUTOMATION | MACOS_AUTOMATION | BROWSER_READ |
    BROWSER_NAVIGATE | BROWSER_INTERACT | BROWSER_SCRIPT | BROWSER_FILE | MACOS_APP_CONTROL |
    MACOS_CLIPBOARD_READ | MACOS_CLIPBOARD_WRITE | MACOS_NOTIFICATION | APPLE_MAIL_READ |
    APPLE_MAIL_DRAFT | KEYNOTE_READ | KEYNOTE_PRESENT | PAGES_READ | PAGES_EDIT |
    PAGES_EXPORT | NUMBERS_READ | NUMBERS_EDIT | NUMBERS_EXPORT | OUTLOOK_READ |
    OUTLOOK_DRAFT | WORD_READ | WORD_EDIT | WORD_EXPORT | POWERPOINT_READ | POWERPOINT_EDIT |
    POWERPOINT_EXPORT | POWERPOINT_PRESENT | CREATE_FS | MODIFY_FS | DELETE_FS | CREATE_CAL |
    MODIFY_CAL | DELETE_CAL | EXECUTE_SANDBOX | EXECUTE_DEVBOX | IMAP_READ |
    EXTERNAL_MAIL_DRAFT | CLOUD_FILE_READ | CHAT_READ | MEMORY_CREATE | MEMORY_READ |
    MEMORY_WRITE | MEMORY_MODIFY | MEMORY_DELETE | GENERATE_IMAGE | FETCH_IMAGE

fun kind_value :: "capability_kind \<Rightarrow> string" where
  "kind_value READ_FS = ''READ_FS''"
| "kind_value WRITE_FS = ''WRITE_FS''"
| "kind_value SEND_EMAIL = ''SEND_EMAIL''"
| "kind_value WEB_FETCH = ''WEB_FETCH''"
| "kind_value CALENDAR_READ = ''CALENDAR_READ''"
| "kind_value CALENDAR_WRITE = ''CALENDAR_WRITE''"
| "kind_value QUEUE_PURCHASE = ''QUEUE_PURCHASE''"
| "kind_value SEND_MESSAGE = ''SEND_MESSAGE''"
| "kind_value BROWSER_AUTOMATION = ''BROWSER_AUTOMATION''"
| "kind_value MACOS_AUTOMATION = ''MACOS_AUTOMATION''"
| "kind_value BROWSER_READ = ''BROWSER_READ''"
| "kind_value BROWSER_NAVIGATE = ''BROWSER_NAVIGATE''"
| "kind_value BROWSER_INTERACT = ''BROWSER_INTERACT''"
| "kind_value BROWSER_SCRIPT = ''BROWSER_SCRIPT''"
| "kind_value BROWSER_FILE = ''BROWSER_FILE''"
| "kind_value MACOS_APP_CONTROL = ''MACOS_APP_CONTROL''"
| "kind_value MACOS_CLIPBOARD_READ = ''MACOS_CLIPBOARD_READ''"
| "kind_value MACOS_CLIPBOARD_WRITE = ''MACOS_CLIPBOARD_WRITE''"
| "kind_value MACOS_NOTIFICATION = ''MACOS_NOTIFICATION''"
| "kind_value APPLE_MAIL_READ = ''APPLE_MAIL_READ''"
| "kind_value APPLE_MAIL_DRAFT = ''APPLE_MAIL_DRAFT''"
| "kind_value KEYNOTE_READ = ''KEYNOTE_READ''"
| "kind_value KEYNOTE_PRESENT = ''KEYNOTE_PRESENT''"
| "kind_value PAGES_READ = ''PAGES_READ''"
| "kind_value PAGES_EDIT = ''PAGES_EDIT''"
| "kind_value PAGES_EXPORT = ''PAGES_EXPORT''"
| "kind_value NUMBERS_READ = ''NUMBERS_READ''"
| "kind_value NUMBERS_EDIT = ''NUMBERS_EDIT''"
| "kind_value NUMBERS_EXPORT = ''NUMBERS_EXPORT''"
| "kind_value OUTLOOK_READ = ''OUTLOOK_READ''"
| "kind_value OUTLOOK_DRAFT = ''OUTLOOK_DRAFT''"
| "kind_value WORD_READ = ''WORD_READ''"
| "kind_value WORD_EDIT = ''WORD_EDIT''"
| "kind_value WORD_EXPORT = ''WORD_EXPORT''"
| "kind_value POWERPOINT_READ = ''POWERPOINT_READ''"
| "kind_value POWERPOINT_EDIT = ''POWERPOINT_EDIT''"
| "kind_value POWERPOINT_EXPORT = ''POWERPOINT_EXPORT''"
| "kind_value POWERPOINT_PRESENT = ''POWERPOINT_PRESENT''"
| "kind_value CREATE_FS = ''CREATE_FS''"
| "kind_value MODIFY_FS = ''MODIFY_FS''"
| "kind_value DELETE_FS = ''DELETE_FS''"
| "kind_value CREATE_CAL = ''CREATE_CAL''"
| "kind_value MODIFY_CAL = ''MODIFY_CAL''"
| "kind_value DELETE_CAL = ''DELETE_CAL''"
| "kind_value EXECUTE_SANDBOX = ''EXECUTE_SANDBOX''"
| "kind_value EXECUTE_DEVBOX = ''EXECUTE_DEVBOX''"
| "kind_value IMAP_READ = ''IMAP_READ''"
| "kind_value EXTERNAL_MAIL_DRAFT = ''EXTERNAL_MAIL_DRAFT''"
| "kind_value CLOUD_FILE_READ = ''CLOUD_FILE_READ''"
| "kind_value CHAT_READ = ''CHAT_READ''"
| "kind_value MEMORY_CREATE = ''MEMORY_CREATE''"
| "kind_value MEMORY_READ = ''MEMORY_READ''"
| "kind_value MEMORY_WRITE = ''MEMORY_WRITE''"
| "kind_value MEMORY_MODIFY = ''MEMORY_MODIFY''"
| "kind_value MEMORY_DELETE = ''MEMORY_DELETE''"
| "kind_value GENERATE_IMAGE = ''GENERATE_IMAGE''"
| "kind_value FETCH_IMAGE = ''FETCH_IMAGE''"

definition capability_kinds :: "capability_kind list" where
  "capability_kinds =
     [READ_FS, WRITE_FS, SEND_EMAIL, WEB_FETCH, CALENDAR_READ, CALENDAR_WRITE, QUEUE_PURCHASE,
     SEND_MESSAGE, BROWSER_AUTOMATION, MACOS_AUTOMATION, BROWSER_READ, BROWSER_NAVIGATE,
     BROWSER_INTERACT, BROWSER_SCRIPT, BROWSER_FILE, MACOS_APP_CONTROL, MACOS_CLIPBOARD_READ,
     MACOS_CLIPBOARD_WRITE, MACOS_NOTIFICATION, APPLE_MAIL_READ, APPLE_MAIL_DRAFT,
     KEYNOTE_READ, KEYNOTE_PRESENT, PAGES_READ, PAGES_EDIT, PAGES_EXPORT, NUMBERS_READ,
     NUMBERS_EDIT, NUMBERS_EXPORT, OUTLOOK_READ, OUTLOOK_DRAFT, WORD_READ, WORD_EDIT,
     WORD_EXPORT, POWERPOINT_READ, POWERPOINT_EDIT, POWERPOINT_EXPORT, POWERPOINT_PRESENT,
     CREATE_FS, MODIFY_FS, DELETE_FS, CREATE_CAL, MODIFY_CAL, DELETE_CAL, EXECUTE_SANDBOX,
     EXECUTE_DEVBOX, IMAP_READ, EXTERNAL_MAIL_DRAFT, CLOUD_FILE_READ, CHAT_READ, MEMORY_CREATE,
     MEMORY_READ, MEMORY_WRITE, MEMORY_MODIFY, MEMORY_DELETE, GENERATE_IMAGE, FETCH_IMAGE]"

interpretation kind_enum: str_enum kind_value capability_kinds
proof unfold_locales
  fix e show "e \<in> set capability_kinds" by (cases e) (simp_all add: capability_kinds_def)
  show "distinct (map kind_value capability_kinds)" by (simp add: capability_kinds_def)
qed

definition DESTRUCTIVE_KINDS :: "capability_kind list" where
  "DESTRUCTIVE_KINDS =
     [MODIFY_FS, DELETE_FS, MEMORY_MODIFY, MEMORY_DELETE, MODIFY_CAL, DELETE_CAL,
     MACOS_CLIPBOARD_WRITE, PAGES_EDIT, NUMBERS_EDIT, WORD_EDIT, POWERPOINT_EDIT]"

definition WRITE_UNION_MATCHES :: "(capability_kind \<times> capability_kind list) list" where
  "WRITE_UNION_MATCHES =
     [(WRITE_FS,
       [CREATE_FS, MODIFY_FS, DELETE_FS]),
      (CALENDAR_WRITE,
       [CREATE_CAL, MODIFY_CAL, DELETE_CAL]),
      (READ_FS,
       [IMAP_READ, CLOUD_FILE_READ, CHAT_READ, MEMORY_READ, APPLE_MAIL_READ, KEYNOTE_READ,
     PAGES_READ, NUMBERS_READ, OUTLOOK_READ, WORD_READ, POWERPOINT_READ, BROWSER_READ,
     MACOS_CLIPBOARD_READ]),
      (BROWSER_AUTOMATION,
       [BROWSER_READ, BROWSER_NAVIGATE, BROWSER_INTERACT, BROWSER_SCRIPT, BROWSER_FILE]),
      (MACOS_AUTOMATION,
       [MACOS_APP_CONTROL, MACOS_CLIPBOARD_READ, MACOS_CLIPBOARD_WRITE, MACOS_NOTIFICATION,
     APPLE_MAIL_READ, APPLE_MAIL_DRAFT, KEYNOTE_READ, KEYNOTE_PRESENT, PAGES_READ, PAGES_EDIT,
     PAGES_EXPORT, NUMBERS_READ, NUMBERS_EDIT, NUMBERS_EXPORT, OUTLOOK_READ, OUTLOOK_DRAFT,
     WORD_READ, WORD_EDIT, WORD_EXPORT, POWERPOINT_READ, POWERPOINT_EDIT, POWERPOINT_EXPORT,
     POWERPOINT_PRESENT])]"

datatype kind = BuiltIn capability_kind | Custom string

fun kind_name :: "kind \<Rightarrow> string" where
  "kind_name (BuiltIn k) = kind_value k"
| "kind_name (Custom s) = s"

definition kind_eq :: "kind \<Rightarrow> kind \<Rightarrow> bool" where
  "kind_eq k k' \<longleftrightarrow> kind_name k = kind_name k'"

text \<open>Membership in a set of kinds is by string equality too.\<close>

definition kind_in :: "kind \<Rightarrow> kind list \<Rightarrow> bool" where
  "kind_in k ks \<longleftrightarrow> kind_name k \<in> kind_name ` set ks"

record custom_kind_decl =
  ck_destructive :: bool
  ck_add_tags :: label_state

type_synonym kind_registry = "(string \<rightharpoonup> custom_kind_decl) option"

definition resolve_kind :: "kind_registry \<Rightarrow> string \<Rightarrow> py_error + kind" where
  "resolve_kind reg name =
     (case enum_of kind_value capability_kinds name of
        Inr k \<Rightarrow> Inr (BuiltIn k)
      | Inl _ \<Rightarrow>
          (case reg of
             Some r \<Rightarrow> if r name \<noteq> None then Inr (Custom name) else Inl UnknownKindError
           | None \<Rightarrow> Inl UnknownKindError))"

fun is_destructive_kind :: "kind_registry \<Rightarrow> kind \<Rightarrow> bool" where
  "is_destructive_kind reg (BuiltIn k) = (k \<in> set DESTRUCTIVE_KINDS)"
| "is_destructive_kind reg (Custom s) =
     (case reg of
        None \<Rightarrow> False
      | Some r \<Rightarrow> (case r s of None \<Rightarrow> False | Some decl \<Rightarrow> ck_destructive decl))"

fun kind_add_tags :: "kind_registry \<Rightarrow> kind \<Rightarrow> label_state" where
  "kind_add_tags reg (BuiltIn k) = empty_state"
| "kind_add_tags reg (Custom s) =
     (case reg of
        None \<Rightarrow> empty_state
      | Some r \<Rightarrow> (case r s of None \<Rightarrow> empty_state | Some decl \<Rightarrow> ck_add_tags decl))"

section \<open>Capabilities and actions\<close>

datatype capability_expiry = ONE_SHOT | SESSION | PERSISTENT

datatype capability_origin =
  SYSTEM_DEFAULT | USER_APPROVED | PATTERN_RULE | DELEGATED | OVERRIDE_GRANTED

record rate_limit =
  rl_max_uses :: int
  rl_window_seconds :: int

record capability =
  c_kind :: kind
  c_pattern :: string
  c_expiry :: capability_expiry
  c_origin :: capability_origin
  c_audit_id :: uuid
  c_max_amount :: "int option"
  c_allows_destructive :: bool
  c_revoked_by :: "capability_kind list"
  c_expires_at :: "time option"
  c_rate_limit :: "rate_limit option"
  c_parent_audit_id :: "uuid option"
  c_depth :: int
  c_override_grant_id :: "uuid option"

text \<open>The dataclass constructor with its field defaults; \<open>aid\<close> is the \<open>uuid4()\<close>.\<close>

definition Capability :: "kind \<Rightarrow> string \<Rightarrow> uuid \<Rightarrow> capability" where
  "Capability k pattern aid =
     \<lparr>c_kind = k, c_pattern = pattern, c_expiry = SESSION, c_origin = SYSTEM_DEFAULT,
      c_audit_id = aid, c_max_amount = None, c_allows_destructive = False, c_revoked_by = [],
      c_expires_at = None, c_rate_limit = None, c_parent_audit_id = None, c_depth = 0,
      c_override_grant_id = None\<rparr>"

record action =
  a_kind :: kind
  a_target :: string
  a_amount :: "int option"

definition is_expired :: "capability \<Rightarrow> time \<Rightarrow> bool" where
  "is_expired c now = (case c_expires_at c of None \<Rightarrow> False | Some t \<Rightarrow> now \<ge> t)"

definition is_rate_exceeded :: "capability \<Rightarrow> time \<Rightarrow> time list \<Rightarrow> bool" where
  "is_rate_exceeded c now use_timestamps =
     (case c_rate_limit c of
        None \<Rightarrow> False
      | Some rl \<Rightarrow>
          (let window = rl_window_seconds rl * 1000000;
               in_window = int (length (filter (\<lambda>ts. now - ts < window) use_timestamps))
           in in_window \<ge> rl_max_uses rl))"

definition expiring_in :: "kind \<Rightarrow> string \<Rightarrow> int \<Rightarrow> time \<Rightarrow> uuid \<Rightarrow> capability" where
  "expiring_in k pattern ttl now aid = (Capability k pattern aid)\<lparr>c_expires_at := Some (now + ttl)\<rparr>"

definition covers_kind :: "capability \<Rightarrow> kind \<Rightarrow> bool" where
  "covers_kind c k =
     (if kind_eq (c_kind c) k then True
      else (case (c_kind c, k) of
              (BuiltIn own, BuiltIn k') \<Rightarrow> k' \<in> set (dict_get WRITE_UNION_MATCHES own [])
            | _ \<Rightarrow> False))"

definition pattern_matches :: "string \<Rightarrow> string \<Rightarrow> bool" where
  "pattern_matches pattern target =
     (if fnmatchcase target pattern then True
      else suffix ''/*'' pattern \<and> target = take (length pattern - 2) pattern)"

definition matches :: "capability \<Rightarrow> kind \<Rightarrow> string \<Rightarrow> int option \<Rightarrow> bool" where
  "matches c k target amount =
     (if \<not> covers_kind c k then False
      else if \<not> pattern_matches (c_pattern c) target then False
      else (case c_max_amount c of
              None \<Rightarrow> True
            | Some m \<Rightarrow> (case amount of None \<Rightarrow> False | Some n \<Rightarrow> n \<le> m)))"

section \<open>Delegation\<close>

datatype delegation_refusal_reason =
    KIND_NOT_HELD | PATTERN_NOT_SUBSET | AMOUNT_WIDENED | EXPIRY_EXTENDED | RATE_LOOSENED
  | DESTRUCTIVE_WIDENED | REVOKED_BY_NARROWED | LIFETIME_EXTENDED | PARENT_DEAD
  | DEPTH_EXCEEDED | CYCLE | SELF_DELEGATION | INADMISSIBLE_CATEGORY

record delegation_request =
  dr_kind :: kind
  dr_pattern :: "string option"
  dr_max_amount :: "int option"
  dr_expires_at :: "time option"
  dr_rate_limit :: "rate_limit option"
  dr_expiry :: "capability_expiry option"
  dr_add_revoked_by :: "capability_kind list"

definition has_glob :: "string \<Rightarrow> bool" where
  "has_glob s = list_ex (\<lambda>c. c \<in> set s) [CHR ''*'', CHR ''?'', CHR ''['', CHR '']'']"

definition pattern_is_subset :: "string \<Rightarrow> string \<Rightarrow> bool" where
  "pattern_is_subset child parent =
     (if child = parent then True
      else if sublist ''**'' child then False
      else if \<not> (suffix ''*'' parent \<and> \<not> has_glob (butlast parent)) then False
      else
        (let pre = butlast parent
         in if \<not> prefix pre child then False
            else (let body = (if suffix ''*'' child then butlast child else child)
                  in \<not> has_glob body)))"

fun expiry_rank :: "capability_expiry \<Rightarrow> nat" where
  "expiry_rank ONE_SHOT = 0"
| "expiry_rank SESSION = 1"
| "expiry_rank PERSISTENT = 2"

text \<open>The four clamps, each a refusal or the child's value.\<close>

definition clamp_pattern ::
  "string option \<Rightarrow> string \<Rightarrow> delegation_refusal_reason + string" where
  "clamp_pattern req parent =
     (case req of
        None \<Rightarrow> Inr parent
      | Some p \<Rightarrow> if pattern_is_subset p parent then Inr p else Inl PATTERN_NOT_SUBSET)"

definition clamp_upper ::
  "delegation_refusal_reason \<Rightarrow> int option \<Rightarrow> int option
   \<Rightarrow> delegation_refusal_reason + int option" where
  "clamp_upper why req parent =
     (case req of
        None \<Rightarrow> Inr parent
      | Some r \<Rightarrow>
          (case parent of
             Some p \<Rightarrow> if r > p then Inl why else Inr (Some r)
           | None \<Rightarrow> Inr (Some r)))"

definition clamp_rate ::
  "rate_limit option \<Rightarrow> rate_limit option \<Rightarrow> delegation_refusal_reason + rate_limit option"
where
  "clamp_rate req parent =
     (case req of
        None \<Rightarrow> Inr parent
      | Some r \<Rightarrow>
          (case parent of
             Some p \<Rightarrow>
               if rl_max_uses r > rl_max_uses p \<or> rl_window_seconds r < rl_window_seconds p
               then Inl RATE_LOOSENED else Inr (Some r)
           | None \<Rightarrow> Inr (Some r)))"

definition derive_delegated_capability ::
  "capability \<Rightarrow> delegation_request \<Rightarrow> int \<Rightarrow> uuid \<Rightarrow> delegation_refusal_reason + capability"
where
  "derive_delegated_capability parent request depth_limit aid =
     (if \<not> kind_eq (dr_kind request) (c_kind parent) then Inl KIND_NOT_HELD
      else if c_depth parent + 1 > depth_limit then Inl DEPTH_EXCEEDED
      else case clamp_pattern (dr_pattern request) (c_pattern parent) of
        Inl e \<Rightarrow> Inl e
      | Inr pattern \<Rightarrow>
      (case clamp_upper AMOUNT_WIDENED (dr_max_amount request) (c_max_amount parent) of
        Inl e \<Rightarrow> Inl e
      | Inr max_amount \<Rightarrow>
      (case clamp_upper EXPIRY_EXTENDED (dr_expires_at request) (c_expires_at parent) of
        Inl e \<Rightarrow> Inl e
      | Inr expires_at \<Rightarrow>
      (case clamp_rate (dr_rate_limit request) (c_rate_limit parent) of
        Inl e \<Rightarrow> Inl e
      | Inr rate \<Rightarrow>
          (let requested_expiry =
                 (case dr_expiry request of Some e \<Rightarrow> e | None \<Rightarrow> ONE_SHOT)
           in if expiry_rank requested_expiry > expiry_rank (c_expiry parent)
              then Inl LIFETIME_EXTENDED
              else Inr \<lparr>c_kind = c_kind parent, c_pattern = pattern, c_expiry = requested_expiry,
                        c_origin = DELEGATED, c_audit_id = aid, c_max_amount = max_amount,
                        c_allows_destructive = c_allows_destructive parent,
                        c_revoked_by = c_revoked_by parent @ dr_add_revoked_by request,
                        c_expires_at = expires_at, c_rate_limit = rate,
                        c_parent_audit_id = Some (c_audit_id parent),
                        c_depth = c_depth parent + 1, c_override_grant_id = None\<rparr>)))))"

end
