(* ===== verification/CapabilityLemmas.thy ===== *)
theory CapabilityLemmas
  imports Capabilities
begin

text \<open>
  Attenuation: what a derived capability can match, its parent can match; its deadline, rate and
  lifetime are at least as tight and its destructive authority is the parent's. The subset test on
  patterns is sound for the matcher, the bare-parent rule included. The contract a client of
  delegation relies on is the locale \<open>attenuation\<close>, proved for one derivation and lifted to
  chains; the interpretation is on \<open>derive_delegated_capability\<close>.
\<close>

section \<open>Pattern containment\<close>

lemma has_glob_iff: "has_glob s \<longleftrightarrow> \<not> glob_free s"
  by (auto simp: has_glob_def glob_free_def)

text \<open>The shape of the patterns a successful test compares, when they differ.\<close>

lemma pattern_is_subset_shape:
  assumes "pattern_is_subset child parent" and "child \<noteq> parent"
  obtains pre where "parent = pre @ ''*''" and "glob_free pre" and "prefix pre child"
    and "glob_free (if suffix ''*'' child then butlast child else child)"
proof -
  from assms have star: "suffix ''*'' parent" and free: "glob_free (butlast parent)"
    and pre: "prefix (butlast parent) child"
    and body: "glob_free (if suffix ''*'' child then butlast child else child)"
    by (auto simp: pattern_is_subset_def has_glob_iff Let_def split: if_splits)
  from star have "parent = butlast parent @ ''*''" by (auto simp: suffix_def)
  then show thesis using that free pre body by blast
qed

lemma pattern_matches_star:
  "glob_free pre \<Longrightarrow> prefix pre t \<Longrightarrow> pattern_matches (pre @ ''*'') t"
  by (auto simp: pattern_matches_def fnmatch_prefix prefix_def)

lemma star_pattern_target:
  assumes "pattern_matches (body @ ''*'') t" and "glob_free body"
  shows "prefix body t \<or> body = t @ ''/''"
proof (cases "fnmatchcase t (body @ ''*'')")
  case True
  then show ?thesis using assms(2) by (auto simp: fnmatch_prefix prefix_def)
next
  case False
  then have "suffix ''/*'' (body @ ''*'')" "t = take (length body - 1) (body @ ''*'')"
    using assms(1) by (auto simp: pattern_matches_def split: if_splits)
  then show ?thesis by (cases body rule: rev_cases) (auto simp: suffix_def)
qed

lemma literal_pattern_target:
  "pattern_matches p t \<Longrightarrow> glob_free p \<Longrightarrow> t = p"
  by (auto simp: pattern_matches_def fnmatch_literal suffix_def split: if_splits)

lemma pattern_is_subset_sound:
  assumes sub: "pattern_is_subset child parent" and m: "pattern_matches child t"
  shows "pattern_matches parent t"
proof (cases "child = parent")
  case False
  with sub obtain pre where pre: "parent = pre @ ''*''" "glob_free pre" "prefix pre child"
    and body: "glob_free (if suffix ''*'' child then butlast child else child)"
    by (rule pattern_is_subset_shape)
  have "prefix pre t"
  proof (cases "suffix ''*'' child")
    case True
    then obtain b where b: "child = b @ ''*''" by (auto simp: suffix_def)
    have "glob_free b" using body b True by simp
    have "pre \<noteq> b @ ''*''" using pre(2) by auto
    then have "prefix pre b" using pre(3) by (simp add: b)
    moreover have "pre \<noteq> b" using False pre(1) b by blast
    ultimately show ?thesis
      using star_pattern_target [of b t] m \<open>glob_free b\<close>
      by (auto simp: b intro: prefix_order.trans)
  next
    case no_star: False
    then show ?thesis using body literal_pattern_target [OF m] pre(3) by simp
  qed
  then show ?thesis using pre pattern_matches_star by blast
qed (use m in simp)

section \<open>Clamps\<close>

lemma clamp_upper_le:
  "clamp_upper w r p = Inr m \<Longrightarrow> p = Some b \<Longrightarrow> \<exists>a. m = Some a \<and> a \<le> b"
  by (auto simp: clamp_upper_def split: option.splits if_splits)

lemma clamp_rate_le:
  "clamp_rate r p = Inr m \<Longrightarrow> p = Some b
   \<Longrightarrow> \<exists>a. m = Some a \<and> rl_max_uses a \<le> rl_max_uses b
        \<and> rl_window_seconds b \<le> rl_window_seconds a"
  by (auto simp: clamp_rate_def split: option.splits if_splits)

lemma clamp_pattern_subset: "clamp_pattern r p = Inr q \<Longrightarrow> pattern_is_subset q p"
  by (auto simp: clamp_pattern_def pattern_is_subset_def split: option.splits if_splits)

text \<open>Everything a successful derivation says about the child.\<close>

lemma derive_Inr:
  assumes "derive_delegated_capability parent request lim aid = Inr child"
  shows "c_kind child = c_kind parent"
    and "pattern_is_subset (c_pattern child) (c_pattern parent)"
    and "clamp_upper AMOUNT_WIDENED (dr_max_amount request) (c_max_amount parent)
           = Inr (c_max_amount child)"
    and "clamp_upper EXPIRY_EXTENDED (dr_expires_at request) (c_expires_at parent)
           = Inr (c_expires_at child)"
    and "clamp_rate (dr_rate_limit request) (c_rate_limit parent) = Inr (c_rate_limit child)"
    and "expiry_rank (c_expiry child) \<le> expiry_rank (c_expiry parent)"
    and "c_allows_destructive child = c_allows_destructive parent"
    and "set (c_revoked_by parent) \<subseteq> set (c_revoked_by child)"
    and "c_depth child = c_depth parent + 1" and "c_depth child \<le> lim"
    and "c_parent_audit_id child = Some (c_audit_id parent)"
    and "c_origin child = DELEGATED" and "c_audit_id child = aid"
  using assms clamp_pattern_subset
  by (auto simp: derive_delegated_capability_def Let_def split: if_splits sum.splits)

lemma covers_kind_cong: "c_kind c = c_kind c' \<Longrightarrow> covers_kind c k = covers_kind c' k"
  by (simp add: covers_kind_def)

lemma derive_matches:
  assumes "derive_delegated_capability parent request lim aid = Inr child"
    and "matches child k target amount"
  shows "matches parent k target amount"
proof -
  note d = derive_Inr [OF assms(1)]
  have "covers_kind parent k"
    using assms(2) covers_kind_cong [OF d(1)] by (auto simp: matches_def split: if_splits)
  moreover have "pattern_matches (c_pattern parent) target"
    using pattern_is_subset_sound [OF d(2)] assms(2) by (auto simp: matches_def split: if_splits)
  moreover have "\<exists>n. amount = Some n \<and> n \<le> m" if "c_max_amount parent = Some m" for m
    using clamp_upper_le [OF d(3) that] assms(2)
    by (fastforce simp: matches_def split: if_splits option.splits)
  ultimately show ?thesis by (auto simp: matches_def split: option.split)
qed

lemma derive_expired:
  assumes "derive_delegated_capability parent request lim aid = Inr child"
    and "is_expired parent now"
  shows "is_expired child now"
  using clamp_upper_le [OF derive_Inr(4) [OF assms(1)]] assms(2)
  by (fastforce simp: is_expired_def split: option.splits)

lemma derive_rate:
  assumes "derive_delegated_capability parent request lim aid = Inr child"
    and "is_rate_exceeded parent now uses"
  shows "is_rate_exceeded child now uses"
proof -
  from assms(2) obtain p where p: "c_rate_limit parent = Some p"
    and ex: "rl_max_uses p
      \<le> int (length (filter (\<lambda>ts. now - ts < rl_window_seconds p * 1000000) uses))"
    by (auto simp: is_rate_exceeded_def Let_def split: option.splits)
  from clamp_rate_le [OF derive_Inr(5) [OF assms(1)] p] obtain r where
    r: "c_rate_limit child = Some r" "rl_max_uses r \<le> rl_max_uses p"
      "rl_window_seconds p \<le> rl_window_seconds r" by blast
  have "length (filter (\<lambda>ts. now - ts < rl_window_seconds p * 1000000) uses)
      \<le> length (filter (\<lambda>ts. now - ts < rl_window_seconds r * 1000000) uses)"
    using r(3) by (induction uses) auto
  then show ?thesis using ex r by (simp add: is_rate_exceeded_def Let_def)
qed

section \<open>The attenuation contract\<close>

definition attenuates :: "capability \<Rightarrow> capability \<Rightarrow> bool" where
  "attenuates child parent \<longleftrightarrow>
     (\<forall>k t a. matches child k t a \<longrightarrow> matches parent k t a)
     \<and> (\<forall>now. is_expired parent now \<longrightarrow> is_expired child now)
     \<and> (\<forall>now uses. is_rate_exceeded parent now uses \<longrightarrow> is_rate_exceeded child now uses)
     \<and> (c_allows_destructive child \<longrightarrow> c_allows_destructive parent)
     \<and> set (c_revoked_by parent) \<subseteq> set (c_revoked_by child)
     \<and> expiry_rank (c_expiry child) \<le> expiry_rank (c_expiry parent)"

lemma attenuates_refl: "attenuates c c"
  by (simp add: attenuates_def)

lemma attenuates_trans: "attenuates c b \<Longrightarrow> attenuates b a \<Longrightarrow> attenuates c a"
  unfolding attenuates_def by (meson order_trans)

text \<open>
  What a client of delegation may rely on: each step attenuates, records its parent, and moves one
  deeper below the limit.
\<close>

locale attenuation =
  fixes derive :: "capability \<Rightarrow> 'req \<Rightarrow> 'err + capability"
    and limit :: int
  assumes derive_attenuates: "derive p r = Inr c \<Longrightarrow> attenuates c p"
    and derive_parent: "derive p r = Inr c \<Longrightarrow> c_parent_audit_id c = Some (c_audit_id p)"
    and derive_depth: "derive p r = Inr c \<Longrightarrow> c_depth c = c_depth p + 1 \<and> c_depth c \<le> limit"
begin

inductive chain :: "capability \<Rightarrow> capability list \<Rightarrow> bool" where
  root: "chain p []"
| hop: "derive p r = Inr c \<Longrightarrow> chain c cs \<Longrightarrow> chain p (c # cs)"

lemma chain_attenuates: "chain p cs \<Longrightarrow> c \<in> set cs \<Longrightarrow> attenuates c p"
proof (induction rule: chain.induct)
  case (hop p r d cs)
  then show ?case using derive_attenuates attenuates_trans by auto
qed simp

lemma chain_depth: "chain p cs \<Longrightarrow> cs \<noteq> [] \<Longrightarrow> c_depth p + int (length cs) \<le> limit"
proof (induction rule: chain.induct)
  case (hop p r d cs)
  then show ?case using derive_depth [OF hop.hyps(1)] by (cases "cs = []") auto
qed simp

end

interpretation delegation:
  attenuation "\<lambda>p (r, aid). derive_delegated_capability p r lim aid" lim for lim
proof unfold_locales
  fix p :: capability and r :: "delegation_request \<times> uuid" and c
  assume "(case r of (r, aid) \<Rightarrow> derive_delegated_capability p r lim aid) = Inr c"
  then obtain q aid where d: "derive_delegated_capability p q lim aid = Inr c"
    by (cases r) auto
  show "attenuates c p"
    using derive_matches [OF d] derive_expired [OF d] derive_rate [OF d] derive_Inr [OF d]
    by (simp add: attenuates_def)
  show "c_parent_audit_id c = Some (c_audit_id p)" by (rule derive_Inr [OF d])
  show "c_depth c = c_depth p + 1 \<and> c_depth c \<le> lim" using derive_Inr(9,10) [OF d] by simp
qed

section \<open>Properties\<close>

text \<open>
  The pattern test of delegation is sound for the matcher: when it accepts, every target the
  child pattern matches (including the bare parent directory of a \<open>/*\<close> pattern) is matched by
  the parent pattern.
\<close>

theorem delegated_pattern_contained:
  assumes "pattern_is_subset child parent" and "pattern_matches child t"
  shows "pattern_matches parent t"
  using assms by (rule pattern_is_subset_sound)

theorem delegated_pattern_contained_witness:
  "pattern_matches ''/a/*'' ''/a/b''"
proof (rule delegated_pattern_contained)
  show "pattern_is_subset ''/a/b/*'' ''/a/*''"
    by (simp add: pattern_is_subset_def has_glob_def Let_def sublist_Cons_right suffix_def)
  show "pattern_matches ''/a/b/*'' ''/a/b''"
    by (simp add: pattern_matches_def suffix_def)
qed

text \<open>
  C33: monotone attenuation: a delegated capability authorises no action its parent does not, is
  expired or rate-exhausted whenever the parent (with the same use record) would be, has no
  destructive authority the parent lacks, keeps every kill condition, and sits one level deeper,
  within the depth limit.
\<close>

theorem delegation_attenuates:
  assumes "derive_delegated_capability parent request lim aid = Inr child"
  shows "attenuates child parent \<and> c_depth child = c_depth parent + 1 \<and> c_depth child \<le> lim
     \<and> c_parent_audit_id child = Some (c_audit_id parent) \<and> c_origin child = DELEGATED"
proof -
  have "attenuates child parent"
    by (rule delegation.derive_attenuates [where r = "(request, aid)" and lim = lim])
       (simp add: assms)
  then show ?thesis using derive_Inr [OF assms] by simp
qed

theorem delegation_attenuates_witness:
  "\<exists>child. derive_delegated_capability (Capability (BuiltIn READ_FS) ''/a/*'' 1)
        \<lparr>dr_kind = BuiltIn READ_FS, dr_pattern = Some ''/a/b'', dr_max_amount = None,
         dr_expires_at = None, dr_rate_limit = None, dr_expiry = None, dr_add_revoked_by = []\<rparr>
        3 2 = Inr child
     \<and> attenuates child (Capability (BuiltIn READ_FS) ''/a/*'' 1)"
proof -
  let ?p = "Capability (BuiltIn READ_FS) ''/a/*'' 1"
  let ?r = "\<lparr>dr_kind = BuiltIn READ_FS, dr_pattern = Some ''/a/b'', dr_max_amount = None,
    dr_expires_at = None, dr_rate_limit = None, dr_expiry = None, dr_add_revoked_by = []\<rparr>"
  obtain child where c: "derive_delegated_capability ?p ?r 3 2 = Inr child"
    by (simp add: derive_delegated_capability_def Capability_def kind_eq_def clamp_pattern_def
        clamp_upper_def clamp_rate_def pattern_is_subset_def has_glob_def Let_def
        sublist_Cons_right suffix_def)
  then show ?thesis using delegation_attenuates [OF c] by blast
qed

text \<open>
  A delegation is refused exactly on the first of the listed conditions that fails, so it
  succeeds exactly when the kind is held, the depth limit leaves room, and every requested
  dimension narrows.
\<close>

theorem delegation_succeeds_iff:
  "(\<exists>child. derive_delegated_capability parent request lim aid = Inr child) \<longleftrightarrow>
     kind_eq (dr_kind request) (c_kind parent)
     \<and> c_depth parent < lim
     \<and> pred_option (\<lambda>p. pattern_is_subset p (c_pattern parent)) (dr_pattern request)
     \<and> pred_option (\<lambda>m. pred_option (\<lambda>b. m \<le> b) (c_max_amount parent)) (dr_max_amount request)
     \<and> pred_option (\<lambda>t. pred_option (\<lambda>b. t \<le> b) (c_expires_at parent)) (dr_expires_at request)
     \<and> pred_option (\<lambda>r. pred_option (\<lambda>p. rl_max_uses r \<le> rl_max_uses p
          \<and> rl_window_seconds p \<le> rl_window_seconds r) (c_rate_limit parent)) (dr_rate_limit request)
     \<and> expiry_rank (case dr_expiry request of Some e \<Rightarrow> e | None \<Rightarrow> ONE_SHOT)
         \<le> expiry_rank (c_expiry parent)"
proof -
  have pat: "(\<exists>q. clamp_pattern r p = Inr q) \<longleftrightarrow> pred_option (\<lambda>q. pattern_is_subset q p) r" for r p
    by (auto simp: clamp_pattern_def split: option.split)
  have up: "(\<exists>m. clamp_upper w r p = Inr m) \<longleftrightarrow> pred_option (\<lambda>m. pred_option (\<lambda>b. m \<le> b) p) r"
    for w r p by (auto simp: clamp_upper_def split: option.split)
  have rate: "(\<exists>m. clamp_rate r p = Inr m) \<longleftrightarrow> pred_option (\<lambda>r. pred_option (\<lambda>p.
      rl_max_uses r \<le> rl_max_uses p \<and> rl_window_seconds p \<le> rl_window_seconds r) p) r" for r p
    by (auto simp: clamp_rate_def split: option.split)
  show ?thesis
    unfolding pat [symmetric] rate [symmetric]
      up [of AMOUNT_WIDENED "dr_max_amount request" "c_max_amount parent", symmetric]
      up [of EXPIRY_EXTENDED "dr_expires_at request" "c_expires_at parent", symmetric]
    by (auto simp: derive_delegated_capability_def Let_def not_less not_le
        split: sum.splits if_splits)
qed

end
