(* ===== verification/AxisD.thy ===== *)
theory AxisD
  imports Labels
begin

text \<open>
  The decision context (\<open>policy/axis_d.py\<close>): who acts, how strongly authenticated, towards
  whom, expected or not, and how reversibly. Every missing field takes the most restrictive
  position. The \<open>Literal\<close> fields are strings, as at run time; \<open>relationship_group_ids\<close>
  is a list read as a set.
\<close>

datatype auth_level = UNAUTHENTICATED | SYS_INTERNAL | DIRECT | OPERATOR_CONFIRMED

fun auth_value :: "auth_level \<Rightarrow> string" where
  "auth_value UNAUTHENTICATED = ''unauthenticated''"
| "auth_value SYS_INTERNAL = ''system-internal''"
| "auth_value DIRECT = ''principal-direct''"
| "auth_value OPERATOR_CONFIRMED = ''operator-confirmed''"

definition auth_levels :: "auth_level list" where
  "auth_levels = [UNAUTHENTICATED, SYS_INTERNAL, DIRECT, OPERATOR_CONFIRMED]"

interpretation auth_enum: str_enum auth_value auth_levels
proof unfold_locales
  fix e show "e \<in> set auth_levels" by (cases e) (simp_all add: auth_levels_def)
  show "distinct (map auth_value auth_levels)" by (simp add: auth_levels_def)
qed

record decision_context =
  dc_initiator :: string
  dc_initiator_authentication :: auth_level
  dc_counterparty :: "string option"
  dc_relationship_group_ids :: "string list"
  dc_expectedness :: string
  dc_reversibility_degree :: string
  dc_reversibility_agent :: string

text \<open>The keyword arguments of the constructor, old and new spellings.\<close>

record context_args =
  ca_initiator :: string
  ca_initiator_authentication :: "auth_level option"
  ca_counterparty :: "string option"
  ca_relationship_group_ids :: "string list option"
  ca_expectedness :: string
  ca_reversibility_degree :: string
  ca_reversibility_agent :: string
  ca_authentication :: "string option"
  ca_reversibility :: "(string \<times> string) list option"

definition default_args :: context_args where
  "default_args =
     \<lparr>ca_initiator = ''unset'', ca_initiator_authentication = None, ca_counterparty = None,
      ca_relationship_group_ids = None, ca_expectedness = ''anomalous'',
      ca_reversibility_degree = ''irreversible'', ca_reversibility_agent = ''external'',
      ca_authentication = None, ca_reversibility = None\<rparr>"

definition resolve_auth :: "auth_level option \<Rightarrow> string option \<Rightarrow> auth_level" where
  "resolve_auth initiator_authentication authentication =
     (case initiator_authentication of
        Some auth \<Rightarrow> auth
      | None \<Rightarrow>
          (case authentication of
             None \<Rightarrow> UNAUTHENTICATED
           | Some s \<Rightarrow>
               (case enum_of auth_value auth_levels s of
                  Inl _ \<Rightarrow> UNAUTHENTICATED
                | Inr auth \<Rightarrow> auth)))"

definition DecisionContext :: "context_args \<Rightarrow> decision_context" where
  "DecisionContext args =
     (let rev = (case ca_reversibility args of Some d \<Rightarrow> d | None \<Rightarrow> [])
      in \<lparr>dc_initiator = ca_initiator args,
          dc_initiator_authentication =
            resolve_auth (ca_initiator_authentication args) (ca_authentication args),
          dc_counterparty = ca_counterparty args,
          dc_relationship_group_ids =
            (case ca_relationship_group_ids args of Some gs \<Rightarrow> gs | None \<Rightarrow> []),
          dc_expectedness = ca_expectedness args,
          dc_reversibility_degree = dict_get rev ''degree'' (ca_reversibility_degree args),
          dc_reversibility_agent = dict_get rev ''agent'' (ca_reversibility_agent args)\<rparr>)"

text \<open>The \<open>reversibility\<close> and \<open>authentication\<close> properties of old callers.\<close>

definition ctx_reversibility :: "decision_context \<Rightarrow> (string \<times> string) list" where
  "ctx_reversibility d =
     [(''degree'', dc_reversibility_degree d), (''agent'', dc_reversibility_agent d)]"

definition ctx_authentication :: "decision_context \<Rightarrow> string" where
  "ctx_authentication d = auth_value (dc_initiator_authentication d)"

definition fail_closed :: decision_context where
  "fail_closed = DecisionContext default_args"

lemma map_of_ctx_reversibility [simp]:
  "map_of (ctx_reversibility d) ''degree'' = Some (dc_reversibility_degree d)"
  "map_of (ctx_reversibility d) ''agent'' = Some (dc_reversibility_agent d)"
  by (simp_all add: ctx_reversibility_def)

text \<open>
  The old spellings lose nothing: rebuilding a context from its \<open>authentication\<close> string
  and its \<open>reversibility\<close> dictionary gives the context back, and an unreadable authentication
  string gives no authority.
\<close>

theorem context_old_spelling_roundtrip:
  "DecisionContext
     \<lparr>ca_initiator = dc_initiator d, ca_initiator_authentication = None,
      ca_counterparty = dc_counterparty d,
      ca_relationship_group_ids = Some (dc_relationship_group_ids d),
      ca_expectedness = dc_expectedness d, ca_reversibility_degree = any_degree,
      ca_reversibility_agent = any_agent, ca_authentication = Some (ctx_authentication d),
      ca_reversibility = Some (ctx_reversibility d)\<rparr> = d
   \<and> (let auth = dc_initiator_authentication
                      (DecisionContext (default_args\<lparr>ca_authentication := Some s\<rparr>))
       in if s \<in> range auth_value then auth_value auth = s else auth = UNAUTHENTICATED)"
  by (auto simp: DecisionContext_def dict_get_def ctx_authentication_def resolve_auth_def
      default_args_def auth_enum.enum_of_unknown Let_def)

end
