(* ===== verification/Overrides.thy ===== *)
theory Overrides
  imports Capabilities
begin

text \<open>
  Override policies, grants and the grant store (\<open>policy/overrides.py\<close>): the mechanism that
  crosses a hard floor. The request gate, the attestation and the use of a grant are functions with
  one branch per refusal; the store is its dictionary by id together with the optional
  \<open>override_grants\<close> table. A grant's fresh ids are arguments; sets of principals and of
  group members are lists read as sets; kinds are compared by name, as Python does. Text encodings
  of ids, times and JSON in a row (standard-library round trips) are elided: a row holds the values,
  except the kind, which the row holds by name.
\<close>

section \<open>Policies\<close>

datatype override_policy = DISALLOWED | SINGLE_AUTHORIZED | DUAL_CONTROL
datatype trust_profile = MANAGED | PERSONAL
datatype hard_floor =
    FLOOR_PROHIBITED | ADMISSIBILITY_EXCLUSION | MAX_TIER_CLEARANCE | INTEGRITY_FLOOR
  | PROVENANCE_EGRESS | HEALTH_EGRESS | FINANCIAL_EMAIL | FINANCIAL_PURCHASE
datatype friction_level = LOW | MEDIUM | MAXIMAL

fun hard_floor_value :: "hard_floor \<Rightarrow> string" where
  "hard_floor_value FLOOR_PROHIBITED = ''prohibited''"
| "hard_floor_value ADMISSIBILITY_EXCLUSION = ''admissibility-exclusion''"
| "hard_floor_value MAX_TIER_CLEARANCE = ''max-tier-clearance''"
| "hard_floor_value INTEGRITY_FLOOR = ''integrity-floor''"
| "hard_floor_value PROVENANCE_EGRESS = ''untrusted-meets-egress''"
| "hard_floor_value HEALTH_EGRESS = ''health-meets-egress''"
| "hard_floor_value FINANCIAL_EMAIL = ''financial-meets-email''"
| "hard_floor_value FINANCIAL_PURCHASE = ''financial-meets-purchase''"

definition hard_floors :: "hard_floor list" where
  "hard_floors =
     [FLOOR_PROHIBITED, ADMISSIBILITY_EXCLUSION, MAX_TIER_CLEARANCE, INTEGRITY_FLOOR,
      PROVENANCE_EGRESS, HEALTH_EGRESS, FINANCIAL_EMAIL, FINANCIAL_PURCHASE]"

interpretation floor_enum: str_enum hard_floor_value hard_floors
proof unfold_locales
  fix e show "e \<in> set hard_floors" by (cases e) (simp_all add: hard_floors_def)
  show "distinct (map hard_floor_value hard_floors)" by (simp add: hard_floors_def)
qed

definition is_structural :: "hard_floor \<Rightarrow> bool" where
  "is_structural fl \<longleftrightarrow>
     fl \<in> {PROVENANCE_EGRESS, HEALTH_EGRESS, FINANCIAL_EMAIL, FINANCIAL_PURCHASE}"

definition structural_floor_for_rule :: "string \<Rightarrow> hard_floor option" where
  "structural_floor_for_rule rule =
     (case enum_of hard_floor_value hard_floors rule of
        Inl _ \<Rightarrow> None
      | Inr fl \<Rightarrow> if is_structural fl then Some fl else None)"

fun default_friction :: "hard_floor \<Rightarrow> friction_level" where
  "default_friction FLOOR_PROHIBITED = MAXIMAL"
| "default_friction ADMISSIBILITY_EXCLUSION = MAXIMAL"
| "default_friction MAX_TIER_CLEARANCE = MEDIUM"
| "default_friction INTEGRITY_FLOOR = MEDIUM"
| "default_friction PROVENANCE_EGRESS = MAXIMAL"
| "default_friction HEALTH_EGRESS = MAXIMAL"
| "default_friction FINANCIAL_EMAIL = MEDIUM"
| "default_friction FINANCIAL_PURCHASE = MEDIUM"

datatype override_refusal_reason =
    POLICY_DISALLOWED | UNAUTHORIZED_INVOKER | FRICTION_NOT_MET | ATTESTER_SAME_AS_INVOKER
  | ATTESTER_UNAUTHORIZED | ATTESTATION_REFUSED | GRANT_EXPIRED | GRANT_CONSUMED
  | ACTION_MISMATCH | UNKNOWN_GRANT

definition OVERRIDE_EXPIRY_DEFAULT_SECONDS :: int where
  "OVERRIDE_EXPIRY_DEFAULT_SECONDS = 900"

definition OVERRIDE_EXPIRY_MAX_SECONDS :: int where
  "OVERRIDE_EXPIRY_MAX_SECONDS = 3600"

record override_policy_entry =
  pe_floor :: hard_floor
  pe_policy :: override_policy
  pe_authorized_principal_ids :: "string list"
  pe_attester_principal_ids :: "string list"
  pe_expiry_seconds :: int
  pe_friction_level :: "friction_level option"

text \<open>The constructor's \<open>__post_init__\<close>: a positive expiry within the hard cap.\<close>

definition OverridePolicyEntry :: "override_policy_entry \<Rightarrow> py_error + override_policy_entry" where
  "OverridePolicyEntry e =
     (if pe_expiry_seconds e \<le> 0 then Inl ValueError
      else if pe_expiry_seconds e > OVERRIDE_EXPIRY_MAX_SECONDS then Inl ValueError
      else Inr e)"

definition effective_friction :: "override_policy_entry \<Rightarrow> friction_level" where
  "effective_friction e =
     (case pe_friction_level e of Some f \<Rightarrow> f | None \<Rightarrow> default_friction (pe_floor e))"

record override_policies =
  op_by_floor :: "hard_floor \<rightharpoonup> override_policy_entry"
  op_trust_profile :: trust_profile
  op_operator_principal :: "string option"

definition operator_default_entry :: "hard_floor \<Rightarrow> string \<Rightarrow> override_policy_entry" where
  "operator_default_entry fl who =
     \<lparr>pe_floor = fl, pe_policy = SINGLE_AUTHORIZED, pe_authorized_principal_ids = [who],
      pe_attester_principal_ids = [], pe_expiry_seconds = OVERRIDE_EXPIRY_DEFAULT_SECONDS,
      pe_friction_level = None\<rparr>"

definition policies_get :: "override_policies \<Rightarrow> hard_floor \<Rightarrow> override_policy_entry option" where
  "policies_get ps fl =
     (case op_by_floor ps fl of
        Some explicit \<Rightarrow> Some explicit
      | None \<Rightarrow>
          (case op_operator_principal ps of
             Some who \<Rightarrow>
               if op_trust_profile ps = PERSONAL \<and> who \<noteq> []
               then Some (operator_default_entry fl who) else None
           | None \<Rightarrow> None))"

section \<open>Grants\<close>

datatype grant_state =
  G_PENDING_ATTESTATION | G_ACTIVE | G_CONSUMED | G_EXPIRED | G_REFUSED

type_synonym member = "kind \<times> string"

record override_grant =
  og_id :: uuid
  og_session_id :: uuid
  og_action_kind :: kind
  og_target :: string
  og_target_category_tier :: "string \<times> string"
  og_hard_floor_crossed :: hard_floor
  og_invoker_principal :: string
  og_attester_principal :: "string option"
  og_policy_at_grant :: override_policy_entry
  og_friction_level :: friction_level
  og_state :: grant_state
  og_expires_at :: time
  og_consumed_at :: "time option"
  og_audit_id :: uuid
  og_group_members :: "member list"
  og_consumed_members :: "member list"

record override_refusal =
  rf_reason :: override_refusal_reason
  rf_floor :: "hard_floor option"
  rf_invoker :: "string option"

text \<open>Membership of a \<open>(kind, target)\<close> pair, by the pair's string equality.\<close>

definition member_in :: "kind \<Rightarrow> string \<Rightarrow> member list \<Rightarrow> bool" where
  "member_in k t ms \<longleftrightarrow> (kind_name k, t) \<in> (\<lambda>(k, t). (kind_name k, t)) ` set ms"

definition is_group :: "override_grant \<Rightarrow> bool" where
  "is_group g \<longleftrightarrow> og_group_members g \<noteq> []"

definition grant_expired :: "override_grant \<Rightarrow> time \<Rightarrow> bool" where
  "grant_expired g now \<longleftrightarrow> now \<ge> og_expires_at g"

definition is_for :: "override_grant \<Rightarrow> kind \<Rightarrow> string \<Rightarrow> bool" where
  "is_for g k t =
     (if is_group g
      then member_in k t (og_group_members g) \<and> \<not> member_in k t (og_consumed_members g)
      else kind_eq (og_action_kind g) k \<and> og_target g = t)"

definition consume_for :: "override_grant \<Rightarrow> kind \<Rightarrow> string \<Rightarrow> time \<Rightarrow> override_grant" where
  "consume_for g k t now =
     (if \<not> is_group g then g\<lparr>og_state := G_CONSUMED, og_consumed_at := Some now\<rparr>
      else
        (let new_consumed = (k, t) # og_consumed_members g
         in if list_all (\<lambda>(k', t'). member_in k' t' new_consumed) (og_group_members g)
            then g\<lparr>og_consumed_members := new_consumed, og_state := G_CONSUMED,
                   og_consumed_at := Some now\<rparr>
            else g\<lparr>og_consumed_members := new_consumed\<rparr>))"

section \<open>Requests, attestation, use\<close>

definition gate_request ::
  "override_policies \<Rightarrow> hard_floor \<Rightarrow> string \<Rightarrow> bool \<Rightarrow> override_refusal + override_policy_entry"
where
  "gate_request ps fl invoker friction_confirmed =
     (let refuse = (\<lambda>why. Inl \<lparr>rf_reason = why, rf_floor = Some fl, rf_invoker = Some invoker\<rparr>)
      in case policies_get ps fl of
           None \<Rightarrow> refuse POLICY_DISALLOWED
         | Some entry \<Rightarrow>
             if pe_policy entry = DISALLOWED then refuse POLICY_DISALLOWED
             else if invoker \<notin> set (pe_authorized_principal_ids entry)
             then refuse UNAUTHORIZED_INVOKER
             else if \<not> friction_confirmed then refuse FRICTION_NOT_MET
             else Inr entry)"

definition initial_state :: "override_policy_entry \<Rightarrow> grant_state" where
  "initial_state entry =
     (if pe_policy entry = DUAL_CONTROL then G_PENDING_ATTESTATION else G_ACTIVE)"

definition request_override ::
  "override_policies \<Rightarrow> uuid \<Rightarrow> kind \<Rightarrow> string \<Rightarrow> string \<times> string \<Rightarrow> hard_floor \<Rightarrow> string \<Rightarrow> bool
   \<Rightarrow> time \<Rightarrow> uuid \<Rightarrow> uuid \<Rightarrow> override_refusal + override_grant" where
  "request_override ps session_id action_kind target tct fl invoker friction_confirmed now gid aid =
     (case gate_request ps fl invoker friction_confirmed of
        Inl r \<Rightarrow> Inl r
      | Inr entry \<Rightarrow>
          Inr \<lparr>og_id = gid, og_session_id = session_id, og_action_kind = action_kind,
               og_target = target, og_target_category_tier = tct, og_hard_floor_crossed = fl,
               og_invoker_principal = invoker, og_attester_principal = None,
               og_policy_at_grant = entry, og_friction_level = effective_friction entry,
               og_state = initial_state entry,
               og_expires_at = now + pe_expiry_seconds entry * 1000000,
               og_consumed_at = None, og_audit_id = aid,
               og_group_members = [], og_consumed_members = []\<rparr>)"

text \<open>
  \<open>group:<n>-members\<close>, the target text of a group grant; \<open>show\<close> is the decimal rendering
  of the number of members.
\<close>

fun decimal :: "nat \<Rightarrow> string" where
  "decimal n = (if n < 10 then [char_of (48 + n)] else decimal (n div 10) @ [char_of (48 + n mod 10)])"

declare decimal.simps [simp del]

definition group_target :: "nat \<Rightarrow> string" where
  "group_target n = ''group:'' @ decimal n @ ''-members''"

text \<open>The frozenset of members of a caller's collection.\<close>

fun distinct_members :: "member list \<Rightarrow> member list" where
  "distinct_members [] = []"
| "distinct_members ((k, t) # ms) =
     (if member_in k t ms then distinct_members ms else (k, t) # distinct_members ms)"

definition request_group_override ::
  "override_policies \<Rightarrow> uuid \<Rightarrow> member list \<Rightarrow> string \<times> string \<Rightarrow> hard_floor \<Rightarrow> string \<Rightarrow> bool
   \<Rightarrow> time \<Rightarrow> uuid \<Rightarrow> uuid \<Rightarrow> py_error + (override_refusal + override_grant)" where
  "request_group_override ps session_id members tct fl invoker friction_confirmed now gid aid =
     (case distinct_members members of
        [] \<Rightarrow> Inl OverrideError
      | m # ms \<Rightarrow>
          Inr (case gate_request ps fl invoker friction_confirmed of
             Inl r \<Rightarrow> Inl r
           | Inr entry \<Rightarrow>
               (let rep_kind = fst (hd (sort_key (\<lambda>(k, t). (kind_name k, t)) (m # ms)))
                in Inr \<lparr>og_id = gid, og_session_id = session_id, og_action_kind = rep_kind,
                        og_target = group_target (length (m # ms)),
                        og_target_category_tier = tct, og_hard_floor_crossed = fl,
                        og_invoker_principal = invoker, og_attester_principal = None,
                        og_policy_at_grant = entry, og_friction_level = effective_friction entry,
                        og_state = initial_state entry,
                        og_expires_at = now + pe_expiry_seconds entry * 1000000,
                        og_consumed_at = None, og_audit_id = aid,
                        og_group_members = m # ms, og_consumed_members = []\<rparr>)))"

definition attest_override ::
  "override_grant \<Rightarrow> string \<Rightarrow> bool \<Rightarrow> time \<Rightarrow> override_refusal + override_grant" where
  "attest_override g attester confirmed now =
     (let refuse = (\<lambda>why. Inl \<lparr>rf_reason = why, rf_floor = Some (og_hard_floor_crossed g),
                                rf_invoker = None\<rparr>)
      in if grant_expired g now then refuse GRANT_EXPIRED
         else if og_state g \<noteq> G_PENDING_ATTESTATION then refuse ATTESTATION_REFUSED
         else if attester = og_invoker_principal g then refuse ATTESTER_SAME_AS_INVOKER
         else if attester \<notin> set (pe_attester_principal_ids (og_policy_at_grant g))
         then refuse ATTESTER_UNAUTHORIZED
         else if \<not> confirmed then refuse ATTESTATION_REFUSED
         else Inr (g\<lparr>og_state := G_ACTIVE, og_attester_principal := Some attester\<rparr>))"

definition use_override ::
  "override_grant \<Rightarrow> kind \<Rightarrow> string \<Rightarrow> time \<Rightarrow> uuid \<Rightarrow> override_refusal + capability" where
  "use_override g action_kind target now aid =
     (let refuse = (\<lambda>why. Inl \<lparr>rf_reason = why, rf_floor = Some (og_hard_floor_crossed g),
                                rf_invoker = None\<rparr>)
      in if og_state g = G_EXPIRED \<or> grant_expired g now then refuse GRANT_EXPIRED
         else if og_state g = G_CONSUMED then refuse GRANT_CONSUMED
         else if og_state g \<noteq> G_ACTIVE then refuse ATTESTATION_REFUSED
         else if \<not> is_for g action_kind target then refuse ACTION_MISMATCH
         else Inr ((Capability action_kind target aid)
                     \<lparr>c_expiry := ONE_SHOT, c_origin := OVERRIDE_GRANTED,
                      c_expires_at := Some (og_expires_at g),
                      c_override_grant_id := Some (og_id g)\<rparr>))"

section \<open>The grant store\<close>

record grant_row =
  gr_grant :: override_grant \<comment> \<open>every column but the kind\<close>
  gr_action_kind :: string

record grant_store =
  gs_by_id :: "(uuid \<times> override_grant) list"
  gs_db :: "(uuid \<times> grant_row) list option" \<comment> \<open>None: no db_path\<close>

text \<open>
  \<open>_persist\<close>: an upsert. On a conflicting id only the attester, the use time and the state
  are overwritten. Group grants are never written.
\<close>

definition upsert_row :: "override_grant \<Rightarrow> (uuid \<times> grant_row) list \<Rightarrow> (uuid \<times> grant_row) list" where
  "upsert_row g rows =
     (case map_of rows (og_id g) of
        None \<Rightarrow> rows @ [(og_id g, \<lparr>gr_grant = g, gr_action_kind = kind_name (og_action_kind g)\<rparr>)]
      | Some row \<Rightarrow>
          AList.update (og_id g)
            (row\<lparr>gr_grant := (gr_grant row)\<lparr>og_attester_principal := og_attester_principal g,
                                            og_consumed_at := og_consumed_at g,
                                            og_state := og_state g\<rparr>\<rparr>) rows)"

definition persist_grant :: "grant_store \<Rightarrow> override_grant \<Rightarrow> grant_store" where
  "persist_grant st g =
     (case gs_db st of
        None \<Rightarrow> st
      | Some rows \<Rightarrow> if is_group g then st else st\<lparr>gs_db := Some (upsert_row g rows)\<rparr>)"

definition store_add :: "grant_store \<Rightarrow> override_grant \<Rightarrow> grant_store" where
  "store_add st g =
     persist_grant (st\<lparr>gs_by_id := AList.update (og_id g) g (gs_by_id st)\<rparr>) g"

definition store_get :: "grant_store \<Rightarrow> uuid \<Rightarrow> override_grant option" where
  "store_get st gid = map_of (gs_by_id st) gid"

definition store_update :: "grant_store \<Rightarrow> override_grant \<Rightarrow> grant_store" where
  "store_update st g =
     (if map_of (gs_by_id st) (og_id g) \<noteq> None
      then persist_grant (st\<lparr>gs_by_id := AList.update (og_id g) g (gs_by_id st)\<rparr>) g
      else st)"

definition store_list_all :: "grant_store \<Rightarrow> override_grant list" where
  "store_list_all st = map snd (gs_by_id st)"

definition find_active ::
  "grant_store \<Rightarrow> uuid \<Rightarrow> kind \<Rightarrow> string \<Rightarrow> time \<Rightarrow> override_grant option" where
  "find_active st session_id action_kind target now =
     (case sort_key og_id (filter (\<lambda>g. og_session_id g = session_id
             \<and> is_for g action_kind target \<and> og_state g = G_ACTIVE
             \<and> \<not> grant_expired g now \<and> og_consumed_at g = None) (map snd (gs_by_id st))) of
        [] \<Rightarrow> None
      | g # _ \<Rightarrow> Some g)"

text \<open>
  \<open>_load_from_db\<close>: a row's kind must be a built-in kind (\<open>CapabilityKind(...)\<close> raises
  \<open>ValueError\<close> on any other name), and the policy entry is constructed anew, so its cap is
  checked again. Group columns are not in the table.
\<close>

definition load_row :: "grant_row \<Rightarrow> py_error + override_grant" where
  "load_row row =
     (case OverridePolicyEntry (og_policy_at_grant (gr_grant row)) of
        Inl e \<Rightarrow> Inl e
      | Inr entry \<Rightarrow>
          (case enum_of kind_value capability_kinds (gr_action_kind row) of
             Inl e \<Rightarrow> Inl e
           | Inr k \<Rightarrow>
               Inr ((gr_grant row)\<lparr>og_action_kind := BuiltIn k, og_policy_at_grant := entry,
                                   og_group_members := [], og_consumed_members := []\<rparr>)))"

fun load_rows ::
  "(uuid \<times> grant_row) list \<Rightarrow> (uuid \<times> override_grant) list \<Rightarrow> py_error + (uuid \<times> override_grant) list"
where
  "load_rows [] d = Inr d"
| "load_rows ((i, row) # rows) d =
     (case load_row row of
        Inl e \<Rightarrow> Inl e
      | Inr g \<Rightarrow> load_rows rows (AList.update (og_id g) g d))"

definition open_store :: "(uuid \<times> grant_row) list option \<Rightarrow> py_error + grant_store" where
  "open_store db =
     (case db of
        None \<Rightarrow> Inr \<lparr>gs_by_id = [], gs_db = None\<rparr>
      | Some rows \<Rightarrow>
          (case load_rows rows [] of
             Inl e \<Rightarrow> Inl e
           | Inr d \<Rightarrow> Inr \<lparr>gs_by_id = d, gs_db = Some rows\<rparr>))"

end
