(* ===== verification/DecisionRules.thy ===== *)
theory DecisionRules
  imports AxisD Overrides
begin

text \<open>
  Standing rules (\<open>policy/decision_rules.py\<close>): human-ratified predicates over the axes, composed
  most restrictively, with the never-auto default when none matches. Also the relax inputs, whose
  origin decides whether they may move a decision towards \<open>auto\<close>. The validation of
  \<open>crosses_floor\<close> is here, the rest of the reader in \<open>ConfigReaders\<close>.
\<close>

section \<open>Outcomes\<close>

datatype rule_outcome =
  RO_DENY | RO_OVERRIDE_REQUIRED | RO_REQUIRE_APPROVAL | RO_SUGGEST | RO_AUTO | RO_SHADOW

text \<open>\<open>_OUTCOME_RANK\<close>: \<open>SHADOW\<close> has no outcome_rank, a lookup of it raises \<open>KeyError\<close>.\<close>

fun OUTCOME_RANK :: "rule_outcome \<Rightarrow> nat option" where
  "OUTCOME_RANK RO_DENY = Some 0"
| "OUTCOME_RANK RO_OVERRIDE_REQUIRED = Some 1"
| "OUTCOME_RANK RO_REQUIRE_APPROVAL = Some 2"
| "OUTCOME_RANK RO_SUGGEST = Some 3"
| "OUTCOME_RANK RO_AUTO = Some 4"
| "OUTCOME_RANK RO_SHADOW = None"

text \<open>\<open>_most_restrictive\<close>: \<open>min\<close> evaluates the key of every element.\<close>

fun most_restrictive :: "rule_outcome list \<Rightarrow> py_error + rule_outcome" where
  "most_restrictive [] = Inl ValueError"
| "most_restrictive (x # xs) =
     (if list_ex (\<lambda>r. OUTCOME_RANK r = None) (x # xs) then Inl KeyError
      else Inr (min_by (\<lambda>r. the (OUTCOME_RANK r)) x xs))"

section \<open>Predicates\<close>

text \<open>
  The predicate with the types the dataclass declares: a condition is a text or absent. A file may
  put other values into the fields; a predicate as the reader builds it, and its evaluation with
  what such a value raises, are \<open>raw_predicate\<close> and \<open>raw_matches\<close> of \<open>ConfigReaders\<close>.
\<close>

record rule_predicate =
  rp_category :: "string option"
  rp_categories :: "string list"
  rp_provenance :: "string option"
  rp_effect_class :: "string option"
  rp_initiator :: "string option"
  rp_counterparty :: "string option"
  rp_relationship_group_id :: "string option"
  rp_expectedness :: "string option"
  rp_reversibility_degree :: "string option"
  rp_time_window :: "(int \<times> int) option"
  rp_target :: "string option"

text \<open>\<open>self.f is not None and self.f != v\<close> fails the match.\<close>

definition unset_or :: "'a option \<Rightarrow> ('a \<Rightarrow> bool) \<Rightarrow> bool" where
  "unset_or f ok = (case f of None \<Rightarrow> True | Some v \<Rightarrow> ok v)"

definition required_categories :: "rule_predicate \<Rightarrow> string list" where
  "required_categories p =
     rp_categories p @ (case rp_category p of None \<Rightarrow> [] | Some c \<Rightarrow> [c])"

definition in_window :: "int option \<Rightarrow> int \<times> int \<Rightarrow> bool" where
  "in_window now_hour w =
     (case (now_hour, w) of
        (None, _) \<Rightarrow> False
      | (Some h, (start_h, end_h)) \<Rightarrow>
          if start_h \<le> end_h then start_h \<le> h \<and> h \<le> end_h else h \<ge> start_h \<or> h \<le> end_h)"

definition predicate_matches ::
  "rule_predicate \<Rightarrow> label_state \<Rightarrow> decision_context \<Rightarrow> string \<Rightarrow> string \<Rightarrow> int option \<Rightarrow> bool"
where
  "predicate_matches p labels axis_d effect_class target now_hour \<longleftrightarrow>
     unset_or (rp_target p) (\<lambda>t. t = target)
   \<and> unset_or (rp_effect_class p) (\<lambda>e. e = effect_class)
   \<and> list_all (\<lambda>req. req \<in> ct_category ` set (ls_a labels)) (required_categories p)
   \<and> unset_or (rp_time_window p) (in_window now_hour)
   \<and> unset_or (rp_provenance p)
       (\<lambda>v. list_ex (\<lambda>e. provenance_value (pt_level e) = v) (ls_b labels))
   \<and> unset_or (rp_initiator p) (\<lambda>i. dc_initiator axis_d = i)
   \<and> unset_or (rp_counterparty p) (\<lambda>c. dc_counterparty axis_d = Some c)
   \<and> unset_or (rp_relationship_group_id p) (\<lambda>g. g \<in> set (dc_relationship_group_ids axis_d))
   \<and> unset_or (rp_expectedness p) (\<lambda>x. dc_expectedness axis_d = x)
   \<and> unset_or (rp_reversibility_degree p)
       (\<lambda>d. map_of (ctx_reversibility axis_d) ''degree'' = Some d)"

section \<open>Rules and their evaluation\<close>

record decision_rule =
  dr_rule_id :: string
  dr_predicate :: rule_predicate
  dr_outcome :: rule_outcome
  dr_rationale :: string
  dr_risk_ids :: "string list"
  dr_human_ratified_by :: "string option"
  dr_crosses_floor :: "string option"

text \<open>The rationale string of a result, by its ingredients.\<close>

datatype rule_rationale =
    NoLiveRule rule_outcome "string list"
  | MatchedRules "string list" rule_outcome "string list"

record evaluation_result =
  ev_outcome :: rule_outcome
  ev_matched_rule_ids :: "string list"
  ev_rationale :: rule_rationale
  ev_shadowed_rule_ids :: "string list"
  ev_crossed_floors :: "string list"

definition fires ::
  "decision_rule \<Rightarrow> label_state \<Rightarrow> decision_context \<Rightarrow> string \<Rightarrow> string \<Rightarrow> int option \<Rightarrow> bool"
where
  "fires r labels axis_d effect_class target now_hour \<longleftrightarrow>
     dr_human_ratified_by r \<noteq> None
   \<and> predicate_matches (dr_predicate r) labels axis_d effect_class target now_hour"

text \<open>\<open>frozenset(r.crosses_floor for r in live_matched if r.crosses_floor)\<close>\<close>

fun crossed_of :: "decision_rule list \<Rightarrow> string list" where
  "crossed_of [] = []"
| "crossed_of (r # rs) =
     (case dr_crosses_floor r of
        None \<Rightarrow> crossed_of rs
      | Some f \<Rightarrow> if f = [] then crossed_of rs else List.insert f (crossed_of rs))"

text \<open>What \<open>evaluate\<close> makes of the rules that matched.\<close>

definition compose_matched ::
  "decision_rule list \<Rightarrow> rule_outcome \<Rightarrow> py_error + evaluation_result" where
  "compose_matched matched default_when_no_match =
     (let live = filter (\<lambda>r. dr_outcome r \<noteq> RO_SHADOW) matched;
          shadowed = sort (map dr_rule_id (filter (\<lambda>r. dr_outcome r = RO_SHADOW) matched))
      in if live = []
         then Inr \<lparr>ev_outcome = default_when_no_match, ev_matched_rule_ids = [],
                   ev_rationale = NoLiveRule default_when_no_match shadowed,
                   ev_shadowed_rule_ids = shadowed, ev_crossed_floors = []\<rparr>
         else
           (case most_restrictive (map dr_outcome live) of
              Inl e \<Rightarrow> Inl e
            | Inr composed \<Rightarrow>
                (let ids = sort (map dr_rule_id live)
                 in Inr \<lparr>ev_outcome = composed, ev_matched_rule_ids = ids,
                         ev_rationale = MatchedRules ids composed shadowed,
                         ev_shadowed_rule_ids = shadowed,
                         ev_crossed_floors = crossed_of live\<rparr>)))"

definition evaluate ::
  "decision_rule list \<Rightarrow> label_state \<Rightarrow> decision_context \<Rightarrow> string \<Rightarrow> string
   \<Rightarrow> rule_outcome \<Rightarrow> int option \<Rightarrow> py_error + evaluation_result" where
  "evaluate rules labels axis_d effect_class target default_when_no_match now_hour =
     (if default_when_no_match = RO_AUTO then Inl DecisionRuleError
      else compose_matched
             (filter (\<lambda>r. fires r labels axis_d effect_class target now_hour) rules)
             default_when_no_match)"

text \<open>\<open>_validate_crosses_floor\<close>, applied by the loader to every rule's field.\<close>

definition validate_crosses_floor :: "string option \<Rightarrow> py_error + string option" where
  "validate_crosses_floor raw =
     (case raw of
        None \<Rightarrow> Inr None
      | Some value \<Rightarrow>
          (case structural_floor_for_rule value of
             None \<Rightarrow> Inl DecisionRuleError
           | Some fl \<Rightarrow>
               if fl = PROVENANCE_EGRESS then Inl DecisionRuleError else Inr (Some value)))"

section \<open>Relax inputs\<close>

definition ALLOWED_RELAX_ORIGINS :: "string list" where
  "ALLOWED_RELAX_ORIGINS = [''operator-config'', ''human-ratified-rule'', ''curated-mcp'']"

record relax_input =
  ri_description :: string
  ri_origin :: string

definition refuse_non_deterministic_relax_input :: "string \<Rightarrow> py_error + unit" where
  "refuse_non_deterministic_relax_input input_origin =
     (if input_origin \<notin> set ALLOWED_RELAX_ORIGINS then Inl DecisionRuleError else Inr ())"

record relax_inspection =
  rx_accepted :: "relax_input list"
  rx_refused :: "relax_input list"

definition has_refusal :: "relax_inspection \<Rightarrow> bool" where
  "has_refusal r \<longleftrightarrow> length (rx_refused r) > 0"

definition inspect_relax_inputs :: "relax_input list \<Rightarrow> relax_inspection" where
  "inspect_relax_inputs inputs =
     \<lparr>rx_accepted = filter (\<lambda>r. ri_origin r \<in> set ALLOWED_RELAX_ORIGINS) inputs,
      rx_refused = filter (\<lambda>r. ri_origin r \<notin> set ALLOWED_RELAX_ORIGINS) inputs\<rparr>"

section \<open>Lemmas\<close>

interpretation outcome_ranked: ranked "\<lambda>r. case OUTCOME_RANK r of Some n \<Rightarrow> n | None \<Rightarrow> 5"
proof unfold_locales
  fix x y :: rule_outcome
  show "(case OUTCOME_RANK x of Some n \<Rightarrow> n | None \<Rightarrow> 5)
      = (case OUTCOME_RANK y of Some n \<Rightarrow> n | None \<Rightarrow> 5) \<Longrightarrow> x = y"
    by (cases x; cases y) simp_all
qed

abbreviation outcome_rank :: "rule_outcome \<Rightarrow> nat" where
  "outcome_rank r \<equiv> (case OUTCOME_RANK r of Some n \<Rightarrow> n | None \<Rightarrow> 5)"

lemma OUTCOME_RANK_None [simp]: "OUTCOME_RANK r = None \<longleftrightarrow> r = RO_SHADOW"
  by (cases r) simp_all

lemma min_by_cong:
  "(\<And>y. y \<in> set (x # xs) \<Longrightarrow> f y = g y) \<Longrightarrow> min_by f x xs = min_by g x xs"
  by (induction xs arbitrary: x) auto

lemma most_restrictive_Inr_iff:
  "most_restrictive os = Inr c \<longleftrightarrow>
     RO_SHADOW \<notin> set os \<and> c \<in> set os \<and> (\<forall>r \<in> set os. outcome_rank c \<le> outcome_rank r)"
proof (cases os)
  case Nil
  then show ?thesis by simp
next
  case (Cons x xs)
  show ?thesis
  proof (cases "RO_SHADOW \<in> set os")
    case True
    then show ?thesis using Cons by (auto simp: list_ex_iff)
  next
    case False
    have ranks: "the (OUTCOME_RANK y) = outcome_rank y" if "y \<in> set (x # xs)" for y
      using False Cons that by (cases y) auto
    have "most_restrictive os = Inr (min_by outcome_rank x xs)"
      using False Cons min_by_cong [of x xs "\<lambda>r. the (OUTCOME_RANK r)" outcome_rank] ranks
      by (auto simp: list_ex_iff)
    then show ?thesis
      using False Cons min_by_mem [of outcome_rank x xs] min_by_le [of _ x xs outcome_rank]
        outcome_ranked.min_by_eqI [of c x xs]
      by auto
  qed
qed

lemma most_restrictive_total:
  "os \<noteq> [] \<Longrightarrow> RO_SHADOW \<notin> set os \<Longrightarrow> \<exists>c. most_restrictive os = Inr c"
  by (cases os) (auto simp: list_ex_iff)

lemma set_crossed_of:
  "set (crossed_of rs) = {f. f \<noteq> [] \<and> (\<exists>r \<in> set rs. dr_crosses_floor r = Some f)}"
  by (induction rs) (auto split: option.split)

definition live_rules ::
  "decision_rule list \<Rightarrow> label_state \<Rightarrow> decision_context \<Rightarrow> string \<Rightarrow> string \<Rightarrow> int option
   \<Rightarrow> decision_rule list" where
  "live_rules rules labels axis_d eff target h =
     filter (\<lambda>r. dr_outcome r \<noteq> RO_SHADOW)
       (filter (\<lambda>r. fires r labels axis_d eff target h) rules)"

lemma evaluate_Inr:
  "evaluate rules labels axis_d eff target dflt h = Inr ev \<longleftrightarrow>
     dflt \<noteq> RO_AUTO \<and>
     (let live = live_rules rules labels axis_d eff target h;
          shadowed = sort (map dr_rule_id (filter (\<lambda>r. dr_outcome r = RO_SHADOW)
             (filter (\<lambda>r. fires r labels axis_d eff target h) rules)))
      in if live = [] then ev = \<lparr>ev_outcome = dflt, ev_matched_rule_ids = [],
              ev_rationale = NoLiveRule dflt shadowed, ev_shadowed_rule_ids = shadowed,
              ev_crossed_floors = []\<rparr>
         else \<exists>c. most_restrictive (map dr_outcome live) = Inr c \<and>
              ev = \<lparr>ev_outcome = c, ev_matched_rule_ids = sort (map dr_rule_id live),
                    ev_rationale = MatchedRules (sort (map dr_rule_id live)) c shadowed,
                    ev_shadowed_rule_ids = shadowed, ev_crossed_floors = crossed_of live\<rparr>)"
  unfolding evaluate_def compose_matched_def live_rules_def Let_def
  by (auto split: sum.split)

lemma live_rules_no_shadow: "RO_SHADOW \<notin> dr_outcome ` set (live_rules rules labels axis_d eff t h)"
  by (auto simp: live_rules_def)

lemma set_live_rules:
  "r \<in> set (live_rules rules labels axis_d eff target h) \<longleftrightarrow>
     r \<in> set rules \<and> dr_outcome r \<noteq> RO_SHADOW \<and> fires r labels axis_d eff target h"
  by (auto simp: live_rules_def)

lemma evaluate_total:
  "dflt \<noteq> RO_AUTO \<Longrightarrow> \<exists>ev. evaluate rules labels axis_d eff target dflt h = Inr ev"
  unfolding evaluate_Inr Let_def
  using most_restrictive_total [of "map dr_outcome (live_rules rules labels axis_d eff target h)"]
    live_rules_no_shadow [of rules labels axis_d eff target h]
  by (auto split: if_splits)

lemma crossed_floors_validated:
  assumes "evaluate rules labels axis_d eff target dflt h = Inr ev"
    and "list_all (\<lambda>r. validate_crosses_floor (dr_crosses_floor r) = Inr (dr_crosses_floor r)) rules"
  shows "set (ev_crossed_floors ev) \<subseteq>
     {''health-meets-egress'', ''financial-meets-email'', ''financial-meets-purchase''}"
proof
  fix f assume "f \<in> set (ev_crossed_floors ev)"
  then have "f \<in> set (crossed_of (live_rules rules labels axis_d eff target h))"
    using assms(1) by (auto simp: evaluate_Inr Let_def split: if_splits)
  then obtain r where "r \<in> set rules" "dr_crosses_floor r = Some f"
    by (auto simp: set_crossed_of set_live_rules)
  with assms(2) have "validate_crosses_floor (Some f) = Inr (Some f)"
    by (auto simp: list_all_iff)
  then have "\<exists>fl. f = hard_floor_value fl \<and> is_structural fl \<and> fl \<noteq> PROVENANCE_EGRESS"
    by (auto simp: validate_crosses_floor_def structural_floor_for_rule_def
        floor_enum.enum_of_Inr_iff split: option.splits sum.splits if_splits)
  then obtain fl where "f = hard_floor_value fl" "is_structural fl" "fl \<noteq> PROVENANCE_EGRESS"
    by blast
  then show "f \<in> {''health-meets-egress'', ''financial-meets-email'', ''financial-meets-purchase''}"
    by (cases fl) (simp_all add: is_structural_def)
qed

section \<open>Properties\<close>

text \<open>
  C34: never auto by default: evaluation yields \<open>auto\<close> exactly when some live rule fires and every
  live rule that fires says \<open>auto\<close>; a live rule is human-ratified and not in shadow.
\<close>

theorem evaluate_auto_iff:
  assumes "evaluate rules labels axis_d eff target dflt h = Inr ev"
  shows "ev_outcome ev = RO_AUTO \<longleftrightarrow>
     (\<exists>r \<in> set rules. dr_outcome r = RO_AUTO \<and> fires r labels axis_d eff target h)
   \<and> (\<forall>r \<in> set rules. fires r labels axis_d eff target h \<longrightarrow>
        dr_outcome r = RO_AUTO \<or> dr_outcome r = RO_SHADOW)"
proof -
  define live where "live = live_rules rules labels axis_d eff target h"
  have live: "r \<in> set live \<longleftrightarrow> r \<in> set rules \<and> dr_outcome r \<noteq> RO_SHADOW
      \<and> fires r labels axis_d eff target h" for r
    by (simp add: live_def set_live_rules)
  show ?thesis
  proof (cases "live = []")
    case True
    then have "ev_outcome ev \<noteq> RO_AUTO"
      using assms by (auto simp: evaluate_Inr Let_def live_def [symmetric])
    then show ?thesis using live True by force
  next
    case False
    then obtain c where c: "most_restrictive (map dr_outcome live) = Inr c" "ev_outcome ev = c"
      using assms by (auto simp: evaluate_Inr Let_def live_def [symmetric])
    then have mem: "c \<in> dr_outcome ` set live"
      and le: "r \<in> set live \<Longrightarrow> outcome_rank c \<le> outcome_rank (dr_outcome r)" for r
      by (auto simp: most_restrictive_Inr_iff)
    have top: "dr_outcome r = RO_AUTO" if "r \<in> set live" "c = RO_AUTO" for r
      using le [OF that(1)] live [of r] that by (cases "dr_outcome r") auto
    have all: "c = RO_AUTO \<longleftrightarrow> (\<forall>r \<in> set live. dr_outcome r = RO_AUTO)"
      using top mem by auto
    obtain r where r: "r \<in> set live" using False by (cases live) auto
    show ?thesis
      unfolding c(2) all by (rule iffI) (use live r in blast)+
  qed
qed

definition auto_rule :: decision_rule where
  "auto_rule =
     \<lparr>dr_rule_id = ''r1'',
      dr_predicate = \<lparr>rp_category = Some ''health'', rp_categories = [], rp_provenance = None,
        rp_effect_class = None, rp_initiator = None, rp_counterparty = None,
        rp_relationship_group_id = None, rp_expectedness = None, rp_reversibility_degree = None,
        rp_time_window = Some (22, 6), rp_target = None\<rparr>,
      dr_outcome = RO_AUTO, dr_rationale = [], dr_risk_ids = [],
      dr_human_ratified_by = Some ''alice'', dr_crosses_floor = Some ''health-meets-egress''\<rparr>"

definition health_state :: label_state where
  "health_state =
     \<lparr>ls_a = [\<lparr>ct_category = ''health'', ct_tier = REGULATED, ct_risk_ids = [''R1''],
              ct_assignment_provenance = ''operator-declared''\<rparr>], ls_b = []\<rparr>"

lemma auto_rule_fires:
  "fires auto_rule health_state fail_closed eff target (Some h) \<longleftrightarrow> h \<ge> 22 \<or> h \<le> 6"
  by (simp add: fires_def auto_rule_def predicate_matches_def unset_or_def health_state_def
      required_categories_def in_window_def)

theorem evaluate_auto_iff_witness:
  "\<exists>ev. evaluate [auto_rule] health_state fail_closed ''social.send_email'' ''x'' RO_SUGGEST (Some 23)
      = Inr ev \<and> ev_outcome ev = RO_AUTO"
proof -
  obtain ev where ev: "evaluate [auto_rule] health_state fail_closed ''social.send_email'' ''x''
      RO_SUGGEST (Some 23) = Inr ev"
    using evaluate_total [of RO_SUGGEST] by blast
  have "dr_outcome auto_rule = RO_AUTO" by (simp add: auto_rule_def)
  then have "ev_outcome ev = RO_AUTO"
    unfolding evaluate_auto_iff [OF ev] by (simp add: auto_rule_fires)
  with ev show ?thesis by blast
qed

text \<open>
  Adding rules only tightens: once some live rule fires, evaluating with more rules never yields
  a less restrictive outcome.
\<close>

theorem more_rules_only_tighten:
  assumes "evaluate rules labels axis_d eff target dflt h = Inr ev"
    and "evaluate (rules @ extra) labels axis_d eff target dflt h = Inr ev'"
    and "ev_matched_rule_ids ev \<noteq> []"
  shows "outcome_rank (ev_outcome ev') \<le> outcome_rank (ev_outcome ev)"
proof -
  define live where "live = live_rules rules labels axis_d eff target h"
  define live' where "live' = live_rules (rules @ extra) labels axis_d eff target h"
  have sub: "set live \<subseteq> set live'" by (auto simp: live_def live'_def set_live_rules)
  have "live \<noteq> []" using assms(1,3) by (auto simp: evaluate_Inr Let_def live_def)
  moreover from this have "live' \<noteq> []" using sub by auto
  ultimately have "most_restrictive (map dr_outcome live) = Inr (ev_outcome ev)"
    and "most_restrictive (map dr_outcome live') = Inr (ev_outcome ev')"
    using assms(1,2) by (auto simp: evaluate_Inr Let_def live_def [symmetric] live'_def [symmetric])
  then show ?thesis using sub by (auto simp: most_restrictive_Inr_iff)
qed

theorem more_rules_only_tighten_witness:
  "\<exists>ev. evaluate ([auto_rule] @ [auto_rule\<lparr>dr_outcome := RO_DENY\<rparr>]) health_state fail_closed
        ''social.send_email'' ''x'' RO_SUGGEST (Some 23) = Inr ev
     \<and> outcome_rank (ev_outcome ev) \<le> outcome_rank RO_AUTO"
proof -
  let ?e = "\<lambda>rs. evaluate rs health_state fail_closed ''social.send_email'' ''x'' RO_SUGGEST (Some 23)"
  obtain ev' where ev': "?e ([auto_rule] @ [auto_rule\<lparr>dr_outcome := RO_DENY\<rparr>]) = Inr ev'"
    using evaluate_total [of RO_SUGGEST] by blast
  have out: "dr_outcome auto_rule = RO_AUTO" by (simp add: auto_rule_def)
  obtain ev where ev: "?e [auto_rule] = Inr ev" "ev_outcome ev = RO_AUTO"
      "ev_matched_rule_ids ev = [dr_rule_id auto_rule]"
    by (simp add: evaluate_def compose_matched_def auto_rule_fires out Let_def)
  have "outcome_rank (ev_outcome ev') \<le> outcome_rank (ev_outcome ev)"
    by (rule more_rules_only_tighten [OF ev(1) ev']) (simp add: ev(3))
  with ev(2) ev' show ?thesis by auto
qed

text \<open>
  A standing rule never crosses the untrusted floor: over rules whose \<open>crosses_floor\<close> passed
  the loader's validation, the floors an evaluation reports as crossed are health and financial ones.
\<close>

theorem crossed_floors_never_untrusted:
  assumes "evaluate rules labels axis_d eff target dflt h = Inr ev"
    and "list_all (\<lambda>r. validate_crosses_floor (dr_crosses_floor r) = Inr (dr_crosses_floor r)) rules"
  shows "set (ev_crossed_floors ev) \<subseteq>
     {''health-meets-egress'', ''financial-meets-email'', ''financial-meets-purchase''}"
  by (rule crossed_floors_validated [OF assms])

theorem crossed_floors_never_untrusted_witness:
  "\<exists>ev. evaluate [auto_rule] health_state fail_closed ''social.send_email'' ''x'' RO_SUGGEST (Some 23)
      = Inr ev \<and> set (ev_crossed_floors ev) \<subseteq>
        {''health-meets-egress'', ''financial-meets-email'', ''financial-meets-purchase''}"
proof -
  obtain ev where ev: "evaluate [auto_rule] health_state fail_closed ''social.send_email'' ''x''
      RO_SUGGEST (Some 23) = Inr ev"
    using evaluate_total [of RO_SUGGEST] by blast
  have "structural_floor_for_rule (hard_floor_value HEALTH_EGRESS) = Some HEALTH_EGRESS"
    unfolding structural_floor_for_rule_def floor_enum.enum_of_val by (simp add: is_structural_def)
  then have "list_all (\<lambda>r. validate_crosses_floor (dr_crosses_floor r) = Inr (dr_crosses_floor r))
      [auto_rule]"
    by (simp add: validate_crosses_floor_def auto_rule_def)
  from crossed_floors_never_untrusted [OF ev this] ev show ?thesis by blast
qed

end
