(* ===== verification/Envelope.thy ===== *)
theory Envelope
  imports DecisionRules
begin

text \<open>
  Outcome envelopes and the risk-preference dial (\<open>policy/envelope.py\<close>). The envelope's own rank
  table covers four outcomes only: constructing an envelope with another one raises \<open>KeyError\<close>.
\<close>

datatype risk_preference = CAUTIOUS | BALANCED | PERMISSIVE

definition OUTCOME_ORDER :: "rule_outcome list" where
  "OUTCOME_ORDER = [RO_DENY, RO_REQUIRE_APPROVAL, RO_SUGGEST, RO_AUTO]"

definition ENVELOPE_RANK :: "rule_outcome \<Rightarrow> nat option" where
  "ENVELOPE_RANK = map_of (zip OUTCOME_ORDER [0..<length OUTCOME_ORDER])"

record cell_key =
  ck_category :: string
  ck_effect :: string
  ck_decision_context_canonical :: string
  ck_reversibility :: string

record outcome_envelope =
  oe_cell :: cell_key
  oe_strictest :: rule_outcome
  oe_loosest :: rule_outcome

definition OutcomeEnvelope ::
  "cell_key \<Rightarrow> rule_outcome \<Rightarrow> rule_outcome \<Rightarrow> py_error + outcome_envelope" where
  "OutcomeEnvelope cell strictest loosest =
     (case (ENVELOPE_RANK strictest, ENVELOPE_RANK loosest) of
        (Some lo, Some hi) \<Rightarrow>
          if lo > hi then Inl EnvelopeError
          else Inr \<lparr>oe_cell = cell, oe_strictest = strictest, oe_loosest = loosest\<rparr>
      | _ \<Rightarrow> Inl KeyError)"

definition is_hard_floor :: "outcome_envelope \<Rightarrow> bool" where
  "is_hard_floor e \<longleftrightarrow> oe_strictest e = oe_loosest e"

text \<open>
  \<open>select\<close>. The table lookups are those of a constructed envelope; on a record that never passed
  the constructor they raise.
\<close>

definition select :: "outcome_envelope \<Rightarrow> risk_preference \<Rightarrow> py_error + rule_outcome" where
  "select e dial =
     (if is_hard_floor e then Inr (oe_strictest e)
      else if dial = CAUTIOUS then Inr (oe_strictest e)
      else if dial = PERMISSIVE then Inr (oe_loosest e)
      else
        (case (ENVELOPE_RANK (oe_strictest e), ENVELOPE_RANK (oe_loosest e)) of
           (Some lo, Some hi) \<Rightarrow> Inr (OUTCOME_ORDER ! (lo + (hi - lo) div 2))
         | _ \<Rightarrow> Inl KeyError))"

type_synonym envelope_set = "(cell_key \<times> outcome_envelope) list"

definition envelope_lookup :: "envelope_set \<Rightarrow> cell_key \<Rightarrow> outcome_envelope option" where
  "envelope_lookup es cell = map_of es cell"

fun dial_rank :: "risk_preference \<Rightarrow> nat" where
  "dial_rank CAUTIOUS = 0"
| "dial_rank BALANCED = 1"
| "dial_rank PERMISSIVE = 2"

section \<open>Lemmas\<close>

lemma ENVELOPE_RANK_simps [simp]:
  "ENVELOPE_RANK RO_DENY = Some 0" "ENVELOPE_RANK RO_REQUIRE_APPROVAL = Some 1"
  "ENVELOPE_RANK RO_SUGGEST = Some 2" "ENVELOPE_RANK RO_AUTO = Some 3"
  "ENVELOPE_RANK RO_OVERRIDE_REQUIRED = None" "ENVELOPE_RANK RO_SHADOW = None"
  by (simp_all add: ENVELOPE_RANK_def OUTCOME_ORDER_def upt_rec)

lemma ENVELOPE_RANK_outcome_rank:
  "ENVELOPE_RANK a = Some m \<Longrightarrow> ENVELOPE_RANK b = Some n \<Longrightarrow>
     m \<le> n \<longleftrightarrow> outcome_rank a \<le> outcome_rank b"
  by (cases a; cases b) auto

lemma OUTCOME_ORDER_nth [simp]: "n \<le> 3 \<Longrightarrow> ENVELOPE_RANK (OUTCOME_ORDER ! n) = Some n"
proof -
  assume "n \<le> 3"
  then have "n = 0 \<or> n = 1 \<or> n = 2 \<or> n = 3" by auto
  then show ?thesis by (auto simp: OUTCOME_ORDER_def)
qed

lemma ENVELOPE_RANK_bound: "ENVELOPE_RANK a = Some n \<Longrightarrow> n \<le> 3"
  by (cases a) auto

lemma OutcomeEnvelope_Inr:
  assumes "OutcomeEnvelope cell s l = Inr e"
  obtains lo hi where "ENVELOPE_RANK s = Some lo" "ENVELOPE_RANK l = Some hi" "lo \<le> hi"
    "e = \<lparr>oe_cell = cell, oe_strictest = s, oe_loosest = l\<rparr>"
  using assms by (auto simp: OutcomeEnvelope_def split: option.splits if_splits)

text \<open>The rank of the selected outcome of a constructed envelope.\<close>

fun dial_point :: "nat \<Rightarrow> nat \<Rightarrow> risk_preference \<Rightarrow> nat" where
  "dial_point lo hi CAUTIOUS = lo"
| "dial_point lo hi BALANCED = lo + (hi - lo) div 2"
| "dial_point lo hi PERMISSIVE = hi"

lemma dial_point_bounds: "lo \<le> hi \<Longrightarrow> lo \<le> dial_point lo hi d \<and> dial_point lo hi d \<le> hi"
  by (cases d) auto

lemma dial_point_mono:
  "lo \<le> hi \<Longrightarrow> dial_rank d \<le> dial_rank d' \<Longrightarrow> dial_point lo hi d \<le> dial_point lo hi d'"
  by (cases d; cases d') auto

lemma ENVELOPE_RANK_inj:
  "ENVELOPE_RANK a = Some n \<Longrightarrow> ENVELOPE_RANK b = Some n \<Longrightarrow> a = b"
  by (cases a; cases b) auto

lemma select_rank:
  assumes "OutcomeEnvelope cell s l = Inr e"
    and "ENVELOPE_RANK s = Some lo" and "ENVELOPE_RANK l = Some hi"
  shows "\<exists>r. select e d = Inr r \<and> ENVELOPE_RANK r = Some (dial_point lo hi d)"
proof -
  have le: "lo \<le> hi" and e: "e = \<lparr>oe_cell = cell, oe_strictest = s, oe_loosest = l\<rparr>"
    using assms by (auto elim: OutcomeEnvelope_Inr)
  have "hi \<le> 3" using ENVELOPE_RANK_bound assms(3) .
  then have mid: "lo + (hi - lo) div 2 \<le> 3" using le by simp
  have eq: "lo = hi" if "s = l" using that assms by simp
  show ?thesis
    using assms e mid eq by (cases d) (auto simp: select_def is_hard_floor_def)
qed

section \<open>Properties\<close>

text \<open>
  The dial never leaves the declared envelope and turning it towards permissive never makes the
  outcome stricter; on a constructed envelope \<open>select\<close> always answers.
\<close>

theorem dial_within_envelope:
  assumes "OutcomeEnvelope cell s l = Inr e" and "dial_rank d \<le> dial_rank d'"
  shows "\<exists>r r'. select e d = Inr r \<and> select e d' = Inr r'
     \<and> outcome_rank s \<le> outcome_rank r \<and> outcome_rank r \<le> outcome_rank r'
     \<and> outcome_rank r' \<le> outcome_rank l \<and> select e CAUTIOUS = Inr s \<and> select e PERMISSIVE = Inr l"
proof -
  obtain lo hi where ranks: "ENVELOPE_RANK s = Some lo" "ENVELOPE_RANK l = Some hi" "lo \<le> hi"
    using OutcomeEnvelope_Inr [OF assms(1)] by metis
  note sel = select_rank [OF assms(1) ranks(1,2)]
  obtain r where r: "select e d = Inr r" "ENVELOPE_RANK r = Some (dial_point lo hi d)"
    using sel by blast
  obtain r' where r': "select e d' = Inr r'" "ENVELOPE_RANK r' = Some (dial_point lo hi d')"
    using sel by blast
  have "outcome_rank s \<le> outcome_rank r"
    using ENVELOPE_RANK_outcome_rank [OF ranks(1) r(2)] dial_point_bounds [OF ranks(3)] by simp
  moreover have "outcome_rank r \<le> outcome_rank r'"
    using ENVELOPE_RANK_outcome_rank [OF r(2) r'(2)] dial_point_mono [OF ranks(3) assms(2)] by simp
  moreover have "outcome_rank r' \<le> outcome_rank l"
    using ENVELOPE_RANK_outcome_rank [OF r'(2) ranks(2)] dial_point_bounds [OF ranks(3)] by simp
  moreover have "select e CAUTIOUS = Inr s" "select e PERMISSIVE = Inr l"
    using sel [of CAUTIOUS] sel [of PERMISSIVE] ENVELOPE_RANK_inj ranks by auto
  ultimately show ?thesis using r(1) r'(1) by blast
qed

theorem dial_within_envelope_witness:
  "\<exists>e. OutcomeEnvelope (\<lparr>ck_category = ''health'', ck_effect = ''social.send_email'',
          ck_decision_context_canonical = ''any'', ck_reversibility = ''irreversible''\<rparr>)
        RO_DENY RO_AUTO = Inr e
     \<and> select e BALANCED = Inr RO_REQUIRE_APPROVAL
     \<and> outcome_rank RO_REQUIRE_APPROVAL \<le> outcome_rank RO_AUTO"
proof -
  let ?cell = "\<lparr>ck_category = ''health'', ck_effect = ''social.send_email'',
          ck_decision_context_canonical = ''any'', ck_reversibility = ''irreversible''\<rparr>"
  obtain e where e: "OutcomeEnvelope ?cell RO_DENY RO_AUTO = Inr e"
      "select e BALANCED = Inr RO_REQUIRE_APPROVAL"
    by (simp add: OutcomeEnvelope_def select_def is_hard_floor_def OUTCOME_ORDER_def)
  have "dial_rank BALANCED \<le> dial_rank PERMISSIVE" by simp
  from dial_within_envelope [OF e(1) this] e show ?thesis by auto
qed

end
