(* ===== verification/Assurance.thy ===== *)
theory Assurance
  imports Labels
begin

text \<open>
  The assurance gates of \<open>policy/assurance.py\<close>, the risk register they consult
  (\<open>policy/risk_register.py\<close>), and the integrity floor of \<open>policy/resolution.py\<close>.
  The register's dictionary is a map. Its keys and the minima of its thresholds are the values the
  file holds, which need not be texts; a residual metric is a dictionary of strings per framework.
\<close>

section \<open>The risk register\<close>

record threshold =
  th_framework :: string
  th_magnitude_band_min :: json
  th_impact_tier_min :: json
  th_risk_class_min :: json
  th_impact_min :: json
  th_severity_min :: json

record risk_entry =
  re_id :: string
  re_summary :: string
  re_framework_refs :: "string list"
  re_threshold :: "threshold option"

type_synonym risk_register = "(json \<times> risk_entry) list"

definition register_get :: "risk_register \<Rightarrow> string \<Rightarrow> py_error + risk_entry" where
  "register_get reg rid =
     (case map_of reg (JStr rid) of Some e \<Rightarrow> Inr e | None \<Rightarrow> Inl RiskRegisterError)"

definition register_exists :: "risk_register \<Rightarrow> string \<Rightarrow> bool" where
  "register_exists reg rid \<longleftrightarrow> map_of reg (JStr rid) \<noteq> None"

text \<open>
  \<open>sorted\<close> of the keys: texts are compared with texts, numbers with numbers (\<open>False\<close> is 0, \<open>True\<close> is
  1) and times with times, anything else raises; a single key is compared with nothing.
\<close>

definition json_number :: "json \<Rightarrow> int option" where
  "json_number v =
     (case v of JInt i \<Rightarrow> Some i | JBool b \<Rightarrow> Some (if b then 1 else 0) | _ \<Rightarrow> None)"

definition json_text :: "json \<Rightarrow> string option" where
  "json_text v = (case v of JStr s \<Rightarrow> Some s | _ \<Rightarrow> None)"

definition json_time :: "json \<Rightarrow> int option" where
  "json_time v = (case v of JTime t \<Rightarrow> Some t | _ \<Rightarrow> None)"

definition json_sorted_keys :: "json list \<Rightarrow> py_error + json list" where
  "json_sorted_keys vs =
     (if length vs \<le> 1 then Inr vs
      else if None \<notin> json_text ` set vs then Inr (sort_key (\<lambda>v. the (json_text v)) vs)
      else if None \<notin> json_number ` set vs then Inr (sort_key (\<lambda>v. the (json_number v)) vs)
      else if None \<notin> json_time ` set vs then Inr (sort_key (\<lambda>v. the (json_time v)) vs)
      else Inl TypeError)"

definition audit_orphans :: "risk_register \<Rightarrow> py_error + json list" where
  "audit_orphans reg =
     json_sorted_keys (map fst (filter (\<lambda>(rid, e). re_framework_refs e = []) reg))"

definition get_threshold :: "risk_register \<Rightarrow> string \<Rightarrow> py_error + threshold option" where
  "get_threshold reg rid = map_sum id re_threshold (register_get reg rid)"

text \<open>
  \<open>order.get(a, 0) >= order.get(b, 0)\<close>, when both are true: a minimum without a hash raises, one
  that is no text has the order 0.
\<close>

definition at_least :: "(string \<times> nat) list \<Rightarrow> string option \<Rightarrow> json \<Rightarrow> py_error + bool" where
  "at_least order residual minimum =
     (case residual of
        None \<Rightarrow> Inr False
      | Some r \<Rightarrow>
          if r = [] \<or> \<not> truthy_json minimum then Inr False
          else if \<not> json_hashable minimum then Inl TypeError
          else Inr (dict_get order r 0
                    \<ge> (case json_text minimum of Some m \<Rightarrow> dict_get order m 0 | None \<Rightarrow> 0)))"

definition tier_order :: "(string \<times> nat) list" where
  "tier_order = [(''tier-1'', 1), (''tier-2'', 2), (''tier-3'', 3), (''tier-4'', 4)]"
definition band_order :: "(string \<times> nat) list" where
  "band_order = [(''M1'', 1), (''M2'', 2), (''M3'', 3), (''M4'', 4), (''M5'', 5)]"
definition class_order :: "(string \<times> nat) list" where
  "class_order = [(''minimal'', 1), (''limited'', 2), (''high'', 3), (''prohibited'', 4)]"
definition impact_order :: "(string \<times> nat) list" where
  "impact_order = [(''low'', 1), (''moderate'', 2), (''high'', 3)]"
definition severity_order :: "(string \<times> nat) list" where
  "severity_order = [(''low'', 1), (''medium'', 2), (''high'', 3), (''critical'', 4)]"

definition crossed_in :: "threshold \<Rightarrow> (string \<times> string) list \<Rightarrow> py_error + bool" where
  "crossed_in th residual =
     (if th_framework th = ''NIST-AI-RMF''
      then at_least tier_order (map_of residual ''impact_tier'') (th_impact_tier_min th)
      else if th_framework th = ''FAIR''
      then at_least band_order (map_of residual ''magnitude_band'') (th_magnitude_band_min th)
      else if th_framework th = ''EU-AI-Act''
      then at_least class_order (map_of residual ''risk_class'') (th_risk_class_min th)
      else if th_framework th = ''FIPS-199''
      then at_least impact_order (map_of residual ''impact'') (th_impact_min th)
      else if th_framework th = ''OWASP-RiskRating''
      then at_least severity_order (map_of residual ''severity'') (th_severity_min th)
      else Inr False)"

definition threshold_crossed ::
  "risk_register \<Rightarrow> string \<Rightarrow> (string \<times> (string \<times> string) list) list \<Rightarrow> py_error + bool" where
  "threshold_crossed reg rid decision_residual =
     (case get_threshold reg rid of
        Inl e \<Rightarrow> Inl e
      | Inr None \<Rightarrow> Inr False
      | Inr (Some th) \<Rightarrow>
          (case map_of decision_residual (th_framework th) of
             None \<Rightarrow> Inr False
           | Some residual \<Rightarrow> crossed_in th residual))"

section \<open>Citations and residual risk\<close>

definition NO_RISK_IDS :: string where "NO_RISK_IDS = ''<no risk_ids cited>''"

definition validate_label_citation :: "string list \<Rightarrow> risk_register \<Rightarrow> string list" where
  "validate_label_citation risk_ids reg =
     (if risk_ids = [] then [NO_RISK_IDS]
      else filter (\<lambda>rid. \<not> register_exists reg rid) risk_ids)"

record residual_risk_signal =
  rs_should_emit :: bool
  rs_crossed :: "string list"

definition should_emit_residual_risk ::
  "bool \<Rightarrow> string list \<Rightarrow> string set \<Rightarrow> residual_risk_signal" where
  "should_emit_residual_risk decision_is_allow decision_risk_ids thresholds =
     (if \<not> decision_is_allow then \<lparr>rs_should_emit = False, rs_crossed = []\<rparr>
      else
        (let crossed = filter (\<lambda>rid. rid \<in> thresholds) decision_risk_ids
         in \<lparr>rs_should_emit = (crossed \<noteq> []), rs_crossed = crossed\<rparr>))"

section \<open>The control plane\<close>

datatype control_plane_effect =
    LABEL_EDIT | CAPABILITY_EDIT | PROFILE_EDIT | AUDIT_EDIT | RULE_EDIT | BINDING_EDIT
  | OVERRIDE_POLICY_EDIT

fun control_plane_value :: "control_plane_effect \<Rightarrow> string" where
  "control_plane_value LABEL_EDIT = ''administer.label_edit''"
| "control_plane_value CAPABILITY_EDIT = ''administer.capability_edit''"
| "control_plane_value PROFILE_EDIT = ''administer.profile_edit''"
| "control_plane_value AUDIT_EDIT = ''administer.audit_edit''"
| "control_plane_value RULE_EDIT = ''administer.rule_edit''"
| "control_plane_value BINDING_EDIT = ''administer.binding_edit''"
| "control_plane_value OVERRIDE_POLICY_EDIT = ''administer.override_policy_edit''"

definition CONTROL_PLANE_EFFECTS :: "string list" where
  "CONTROL_PLANE_EFFECTS =
     map control_plane_value
       [LABEL_EDIT, CAPABILITY_EDIT, PROFILE_EDIT, AUDIT_EDIT, RULE_EDIT, BINDING_EDIT,
        OVERRIDE_POLICY_EDIT]"

definition is_control_plane_effect :: "string \<Rightarrow> bool" where
  "is_control_plane_effect effect_class \<longleftrightarrow> effect_class \<in> set CONTROL_PLANE_EFFECTS"

definition control_plane_admissible :: "string \<Rightarrow> label_state \<Rightarrow> bool" where
  "control_plane_admissible effect_class labels =
     (if \<not> is_control_plane_effect effect_class then True
      else list_all (\<lambda>e. pt_level e \<noteq> EXTERNAL_UNTRUSTED) (ls_b labels))"

section \<open>The integrity floor\<close>

definition INTEGRITY_RANK :: "(string \<times> nat) list" where
  "INTEGRITY_RANK =
     [(''external-untrusted'', 0), (''system-internal'', 1), (''principal-direct'', 2)]"

definition check_integrity_floor :: "string \<Rightarrow> string \<Rightarrow> py_error + unit" where
  "check_integrity_floor floor_level input_level =
     (case map_of INTEGRITY_RANK floor_level of
        None \<Rightarrow> Inl IntegrityFloorError
      | Some f \<Rightarrow>
          (case map_of INTEGRITY_RANK input_level of
             None \<Rightarrow> Inl IntegrityFloorError
           | Some i \<Rightarrow> if i < f then Inl IntegrityFloorError else Inr ()))"

section \<open>Lemmas\<close>

lemma control_plane_enum: "control_plane_value e \<in> set CONTROL_PLANE_EFFECTS"
  by (cases e) (simp_all add: CONTROL_PLANE_EFFECTS_def)

lemma label_join_levels: "levels (label_join ls) = (\<Union>l \<in> set ls. levels l)"
  by (auto simp: label_join_def most_restrictive_inherit_def levels_def empty_state_def)

lemma control_plane_admissible_iff:
  "control_plane_admissible e l
   \<longleftrightarrow> (is_control_plane_effect e \<longrightarrow> EXTERNAL_UNTRUSTED \<notin> levels l)"
proof -
  have "list_all (\<lambda>e. pt_level e \<noteq> EXTERNAL_UNTRUSTED) (ls_b l)
      \<longleftrightarrow> EXTERNAL_UNTRUSTED \<notin> levels l"
    unfolding levels_def list_all_iff by (metis imageE imageI)
  then show ?thesis by (simp add: control_plane_admissible_def)
qed

section \<open>Properties\<close>

text \<open>
  Once any input of a composition is untrusted, the composed state can never reach the control
  plane, whatever else is composed with it; and without untrusted input every effect is admissible.
\<close>

theorem control_plane_reflexivity:
  "control_plane_admissible (control_plane_value e) (label_join ls)
   \<longleftrightarrow> EXTERNAL_UNTRUSTED \<notin> (\<Union>l \<in> set ls. levels l)"
  by (simp add: control_plane_admissible_iff is_control_plane_effect_def control_plane_enum
      label_join_levels)

text \<open>
  The string ranks of the integrity floor agree with the provenance lattice: an input passes a
  floor exactly when the floor is at least as untrusted as the input, and an unknown level on either
  side is refused.
\<close>

theorem integrity_floor_iff:
  "check_integrity_floor f i = Inr () \<longleftrightarrow>
     (\<exists>fl il. f = provenance_value fl \<and> i = provenance_value il
        \<and> provenance_rank il \<le> provenance_rank fl)"
proof -
  have known: "map_of INTEGRITY_RANK s = Some n \<longleftrightarrow>
      (\<exists>l. s = provenance_value l \<and> n = 2 - provenance_rank l)" for s n
  proof
    assume "map_of INTEGRITY_RANK s = Some n"
    then have "s = provenance_value EXTERNAL_UNTRUSTED \<and> n = 0
        \<or> s = provenance_value SYSTEM_INTERNAL \<and> n = 1
        \<or> s = provenance_value PRINCIPAL_DIRECT \<and> n = 2"
      by (auto simp: INTEGRITY_RANK_def split: if_splits)
    then show "\<exists>l. s = provenance_value l \<and> n = 2 - provenance_rank l" by fastforce
  next
    assume "\<exists>l. s = provenance_value l \<and> n = 2 - provenance_rank l"
    then obtain l where "s = provenance_value l" "n = 2 - provenance_rank l" by blast
    then show "map_of INTEGRITY_RANK s = Some n" by (cases l) (simp_all add: INTEGRITY_RANK_def)
  qed
  have rank: "2 - provenance_rank fl \<le> 2 - provenance_rank il
      \<longleftrightarrow> provenance_rank il \<le> provenance_rank fl" for fl il
    by (cases fl; cases il) simp_all
  have "check_integrity_floor f i = Inr () \<longleftrightarrow>
      (\<exists>nf ni. map_of INTEGRITY_RANK f = Some nf \<and> map_of INTEGRITY_RANK i = Some ni \<and> nf \<le> ni)"
    by (auto simp: check_integrity_floor_def not_less split: option.splits)
  then show ?thesis unfolding known using rank by blast
qed

end
