(* ===== verification/Strings.thy ===== *)
theory Strings
  imports Prelude "HOL-Library.Sublist"
begin

text \<open>
  The \<open>str\<close> operations the engine and the bindings use, on strings of Latin-1 characters, and the
  standard library's \<open>urlsplit\<close> and \<open>urlunsplit\<close>.
\<close>

section \<open>Characters and substrings\<close>

definition char_lower :: "char \<Rightarrow> char" where
  "char_lower c =
     (let n = of_char c :: nat
      in if 65 \<le> n \<and> n \<le> 90 \<or> 192 \<le> n \<and> n \<le> 222 \<and> n \<noteq> 215 then char_of (n + 32) else c)"

definition py_lower :: "string \<Rightarrow> string" where
  "py_lower s = map char_lower s"

text \<open>\<open>sub in s\<close>\<close>

fun contains :: "string \<Rightarrow> string \<Rightarrow> bool" where
  "contains sub [] = (sub = [])"
| "contains sub (c # s) = (prefix sub (c # s) \<or> contains sub s)"

lemma contains_iff: "contains sub s \<longleftrightarrow> sublist sub s"
proof (induction s)
  case (Cons c s)
  then show ?case by (auto simp: sublist_Cons_right)
qed simp

text \<open>\<open>sep.join(xs)\<close>\<close>

fun py_join :: "string \<Rightarrow> string list \<Rightarrow> string" where
  "py_join sep [] = []"
| "py_join sep [x] = x"
| "py_join sep (x # y # xs) = x @ sep @ py_join sep (y # xs)"

text \<open>\<open>s.rstrip(c)\<close> and \<open>s.partition(c)\<close>, \<open>s.rpartition(c)\<close> for a one-character argument.\<close>

definition rstrip :: "char \<Rightarrow> string \<Rightarrow> string" where
  "rstrip c s = rev (dropWhile (\<lambda>x. x = c) (rev s))"

definition partition_at :: "char \<Rightarrow> string \<Rightarrow> string \<times> string" where
  "partition_at c s = (takeWhile (\<lambda>x. x \<noteq> c) s, tl (dropWhile (\<lambda>x. x \<noteq> c) s))"

definition rpartition_at :: "char \<Rightarrow> string \<Rightarrow> string \<times> string" where
  "rpartition_at c s =
     (rev (tl (dropWhile (\<lambda>x. x \<noteq> c) (rev s))), rev (takeWhile (\<lambda>x. x \<noteq> c) (rev s)))"

section \<open>URLs\<close>

record split_url =
  su_scheme :: string
  su_netloc :: string
  su_path :: string
  su_query :: string

definition char_in :: "char \<Rightarrow> nat \<Rightarrow> nat \<Rightarrow> bool" where
  "char_in c lo hi \<longleftrightarrow> lo \<le> (of_char c :: nat) \<and> (of_char c :: nat) \<le> hi"

definition ascii_alpha :: "char \<Rightarrow> bool" where
  "ascii_alpha c \<longleftrightarrow> char_in c 65 90 \<or> char_in c 97 122"

definition scheme_char :: "char \<Rightarrow> bool" where
  "scheme_char c \<longleftrightarrow> ascii_alpha c \<or> char_in c 48 57 \<or> c \<in> {CHR ''+'', CHR ''-'', CHR ''.''}"

text \<open>
  \<open>urlsplit\<close>: leading control characters and spaces go, tabs and line ends go anywhere; the
  scheme is the part before the first colon when it is well-formed; the network location runs from
  \<open>//\<close> to the next \<open>/\<close>, \<open>?\<close> or \<open>#\<close>; the fragment is cut off. \<open>netloc_ok\<close> is the
  library's validation of a network location (bracketed hosts, NFKC), which raises
  \<open>ValueError\<close> when it fails.
\<close>

definition clean_url :: "string \<Rightarrow> string" where
  "clean_url url =
     filter (\<lambda>c. of_char c \<notin> {9, 10, 13 :: nat}) (dropWhile (\<lambda>c. (of_char c :: nat) \<le> 32) url)"

definition split_scheme :: "string \<Rightarrow> string \<times> string" where
  "split_scheme url =
     (let s = takeWhile (\<lambda>c. c \<noteq> CHR '':'') url
      in if CHR '':'' \<in> set url \<and> s \<noteq> [] \<and> ascii_alpha (hd s) \<and> list_all scheme_char s
         then (py_lower s, drop (Suc (length s)) url) else ([], url))"

definition split_netloc :: "string \<Rightarrow> string \<times> string" where
  "split_netloc url =
     (let delim = (\<lambda>c. c \<in> {CHR ''/'', CHR ''?'', CHR ''#''}); rest = drop 2 url
      in (takeWhile (\<lambda>c. \<not> delim c) rest, dropWhile (\<lambda>c. \<not> delim c) rest))"

definition urlsplit :: "(string \<Rightarrow> bool) \<Rightarrow> string \<Rightarrow> py_error + split_url" where
  "urlsplit netloc_ok url =
     (let (scheme, rest) = split_scheme (clean_url url);
          (netloc, rest) = (if prefix ''//'' rest then split_netloc rest else ([], rest));
          rest = fst (partition_at (CHR ''#'') rest);
          (path, query) = partition_at (CHR ''?'') rest
      in if netloc_ok netloc
         then Inr \<lparr>su_scheme = scheme, su_netloc = netloc, su_path = path, su_query = query\<rparr>
         else Inl ValueError)"

definition uses_netloc :: "string list" where
  "uses_netloc =
     [[], ''ftp'', ''http'', ''gopher'', ''nntp'', ''telnet'', ''imap'', ''wais'', ''file'',
      ''mms'', ''https'', ''shttp'', ''snews'', ''prospero'', ''rtsp'', ''rtsps'', ''rtspu'',
      ''rsync'', ''svn'', ''svn+ssh'', ''sftp'', ''nfs'', ''git'', ''git+ssh'', ''ws'', ''wss'',
      ''itms-services'']"

text \<open>\<open>urlunsplit\<close> with an empty fragment.\<close>

definition urlunsplit :: "split_url \<Rightarrow> string" where
  "urlunsplit u =
     (let path = su_path u;
          url = (if su_netloc u \<noteq> [] then
                   ''//'' @ su_netloc u
                     @ (if path \<noteq> [] \<and> \<not> prefix ''/'' path then ''/'' @ path else path)
                 else if prefix ''//'' path then ''//'' @ path
                 else if su_scheme u \<noteq> [] \<and> su_scheme u \<in> set uses_netloc
                         \<and> (path = [] \<or> prefix ''/'' path)
                 then ''//'' @ path
                 else path);
          url = (if su_scheme u \<noteq> [] then su_scheme u @ '':'' @ url else url)
      in if su_query u \<noteq> [] then url @ ''?'' @ su_query u else url)"

end
