(* ===== verification/Reversibility.thy ===== *)
theory Reversibility
  imports Tiers
begin

text \<open>
  Reversibility and mutability labels (\<open>policy/reversibility.py\<close>), the optimistic-execution
  probe (\<open>policy/optimistic.py\<close>) and the reversibility gate (\<open>policy/assurance.py\<close>,
  FR-019). Each enumeration is ranked, lower is worse, and composition takes the worst degree and
  the worst agent independently. Rationale texts are values: one constructor per format string.
\<close>

section \<open>Labels\<close>

datatype reversibility_degree = REVERSIBLE | REVERSIBLE_WITH_FRICTION | IRREVERSIBLE
datatype reversal_agent = SYSTEM | HUMAN | EXTERNAL
datatype mutability_degree = IMMUTABLE | APPEND_ONLY | IN_PLACE

fun degree_value :: "reversibility_degree \<Rightarrow> string" where
  "degree_value REVERSIBLE = ''reversible''"
| "degree_value REVERSIBLE_WITH_FRICTION = ''reversible-with-friction''"
| "degree_value IRREVERSIBLE = ''irreversible''"

fun agent_value :: "reversal_agent \<Rightarrow> string" where
  "agent_value SYSTEM = ''system''"
| "agent_value HUMAN = ''human''"
| "agent_value EXTERNAL = ''external''"

fun reversibility_rank :: "reversibility_degree \<Rightarrow> nat" where
  "reversibility_rank IRREVERSIBLE = 0"
| "reversibility_rank REVERSIBLE_WITH_FRICTION = 1"
| "reversibility_rank REVERSIBLE = 2"

fun agent_rank :: "reversal_agent \<Rightarrow> nat" where
  "agent_rank EXTERNAL = 0"
| "agent_rank HUMAN = 1"
| "agent_rank SYSTEM = 2"

fun mutability_rank :: "mutability_degree \<Rightarrow> nat" where
  "mutability_rank IMMUTABLE = 0"
| "mutability_rank APPEND_ONLY = 1"
| "mutability_rank IN_PLACE = 2"

record reversibility_label =
  rv_degree :: reversibility_degree
  rv_agent :: reversal_agent

record mutability_label =
  mu_degree :: mutability_degree
  mu_agent :: reversal_agent

interpretation degree_ranked: ranked reversibility_rank
proof unfold_locales
  fix x y show "reversibility_rank x = reversibility_rank y \<Longrightarrow> x = y"
    by (cases x; cases y) simp_all
qed

interpretation agent_ranked: ranked agent_rank
proof unfold_locales
  fix x y show "agent_rank x = agent_rank y \<Longrightarrow> x = y" by (cases x; cases y) simp_all
qed

interpretation mutability_ranked: ranked mutability_rank
proof unfold_locales
  fix x y show "mutability_rank x = mutability_rank y \<Longrightarrow> x = y" by (cases x; cases y) simp_all
qed

interpretation degree_enum:
  str_enum degree_value "[REVERSIBLE, REVERSIBLE_WITH_FRICTION, IRREVERSIBLE]"
proof unfold_locales
  fix e show "e \<in> set [REVERSIBLE, REVERSIBLE_WITH_FRICTION, IRREVERSIBLE]"
    by (cases e) simp_all
qed simp

interpretation agent_enum: str_enum agent_value "[SYSTEM, HUMAN, EXTERNAL]"
proof unfold_locales
  fix e show "e \<in> set [SYSTEM, HUMAN, EXTERNAL]" by (cases e) simp_all
qed simp

definition reversibility_from_dict :: "(string \<times> string) list \<Rightarrow> py_error + reversibility_label" where
  "reversibility_from_dict d =
     (case (map_of d ''degree'', map_of d ''agent'') of
        (None, _) \<Rightarrow> Inl KeyError
      | (Some degree, agent) \<Rightarrow>
          (case enum_of degree_value [REVERSIBLE, REVERSIBLE_WITH_FRICTION, IRREVERSIBLE] degree of
             Inl e \<Rightarrow> Inl e
           | Inr dg \<Rightarrow>
               (case agent of
                  None \<Rightarrow> Inl KeyError
                | Some ag \<Rightarrow>
                    (case enum_of agent_value [SYSTEM, HUMAN, EXTERNAL] ag of
                       Inl e \<Rightarrow> Inl e
                     | Inr a \<Rightarrow> Inr \<lparr>rv_degree = dg, rv_agent = a\<rparr>))))"

text \<open>
  \<open>min(labels, key=rank[degree]).degree\<close>: the degree of the first label with the least rank.
\<close>

fun compose_reversibility :: "reversibility_label list \<Rightarrow> py_error + reversibility_label" where
  "compose_reversibility [] = Inl ReversibilityError"
| "compose_reversibility (l # ls) =
     Inr \<lparr>rv_degree = rv_degree (min_by (\<lambda>x. reversibility_rank (rv_degree x)) l ls),
          rv_agent = rv_agent (min_by (\<lambda>x. agent_rank (rv_agent x)) l ls)\<rparr>"

fun compose_mutability :: "mutability_label list \<Rightarrow> py_error + mutability_label" where
  "compose_mutability [] = Inl ReversibilityError"
| "compose_mutability (l # ls) =
     Inr \<lparr>mu_degree = mu_degree (min_by (\<lambda>x. mutability_rank (mu_degree x)) l ls),
          mu_agent = mu_agent (min_by (\<lambda>x. agent_rank (mu_agent x)) l ls)\<rparr>"

definition reversibility_for_write_into ::
  "reversibility_label \<Rightarrow> mutability_label \<Rightarrow> py_error + reversibility_label" where
  "reversibility_for_write_into effect_default target_mutability =
     (if mu_degree target_mutability \<in> {IMMUTABLE, APPEND_ONLY}
      then (case compose_mutability [target_mutability, target_mutability] of
              Inl e \<Rightarrow> Inl e
            | Inr m \<Rightarrow> Inr \<lparr>rv_degree = IRREVERSIBLE, rv_agent = mu_agent m\<rparr>)
      else Inr effect_default)"

record write_result =
  wr_prior_version_handle :: "string option"
  wr_post_state_hash :: string
  wr_attestation :: string

definition verify_write_discipline ::
  "write_result \<Rightarrow> string option \<Rightarrow> string option \<Rightarrow> reversibility_label" where
  "verify_write_discipline result observed_prior_hash expected_pre_state_hash =
     (if wr_prior_version_handle result = None \<or> observed_prior_hash = None
         \<or> expected_pre_state_hash = None \<or> observed_prior_hash \<noteq> expected_pre_state_hash
         \<or> wr_attestation result = []
      then \<lparr>rv_degree = IRREVERSIBLE, rv_agent = EXTERNAL\<rparr>
      else \<lparr>rv_degree = REVERSIBLE, rv_agent = SYSTEM\<rparr>)"

section \<open>Optimistic execution\<close>

datatype optimistic_rationale =
    DegreeNotReversible reversibility_degree
  | AgentNotSystem reversal_agent
  | ActionIsEgressing
  | ReversibleSystemNonEgressing

record optimistic_decision =
  od_should_auto :: bool
  od_rationale :: optimistic_rationale

definition evaluate_optimistic :: "reversibility_label \<Rightarrow> bool \<Rightarrow> optimistic_decision" where
  "evaluate_optimistic effective_reversibility is_egressing =
     (if rv_degree effective_reversibility \<noteq> REVERSIBLE
      then \<lparr>od_should_auto = False,
            od_rationale = DegreeNotReversible (rv_degree effective_reversibility)\<rparr>
      else if rv_agent effective_reversibility \<noteq> SYSTEM
      then \<lparr>od_should_auto = False,
            od_rationale = AgentNotSystem (rv_agent effective_reversibility)\<rparr>
      else if is_egressing
      then \<lparr>od_should_auto = False, od_rationale = ActionIsEgressing\<rparr>
      else \<lparr>od_should_auto = True, od_rationale = ReversibleSystemNonEgressing\<rparr>)"

section \<open>The reversibility gate\<close>

datatype effect_gate = AUTO_OK | GATE_REQUIRE_APPROVAL | GATE_DENY

datatype gate_rationale = DeclaredReversibility | SocialCommitmentForced string

definition SOCIAL_COMMITMENT_EFFECTS :: "string list" where
  "SOCIAL_COMMITMENT_EFFECTS =
     [''social.send_email'', ''social.post_public'', ''social.send_message'',
      ''social.commit_promise'']"

definition is_social_commitment :: "string \<Rightarrow> bool" where
  "is_social_commitment effect_class \<longleftrightarrow> effect_class \<in> set SOCIAL_COMMITMENT_EFFECTS"

definition COMMUNICATION_EGRESS_EFFECTS :: "string list" where
  "COMMUNICATION_EGRESS_EFFECTS =
     [''social.send_email'', ''social.send_message'', ''social.post_public'']"

definition is_communication_egress :: "string \<Rightarrow> bool" where
  "is_communication_egress effect_class \<longleftrightarrow> effect_class \<in> set COMMUNICATION_EGRESS_EFFECTS"

definition reversibility_gate ::
  "string \<Rightarrow> reversibility_label \<Rightarrow> effect_gate \<times> reversibility_label \<times> gate_rationale" where
  "reversibility_gate effect_class declared_reversibility =
     (let eff = (if is_social_commitment effect_class
                 then \<lparr>rv_degree = IRREVERSIBLE, rv_agent = EXTERNAL\<rparr>
                 else declared_reversibility);
          rationale = (if is_social_commitment effect_class
                       then SocialCommitmentForced effect_class else DeclaredReversibility)
      in if rv_degree eff = IRREVERSIBLE then (GATE_DENY, eff, rationale)
         else if rv_degree eff = REVERSIBLE \<and> rv_agent eff = SYSTEM then (AUTO_OK, eff, rationale)
         else (GATE_REQUIRE_APPROVAL, eff, rationale))"

section \<open>Lemmas\<close>

lemma compose_reversibility_Inr:
  assumes "compose_reversibility ls = Inr l"
  obtains y ys where "ls = y # ys"
    and "rv_degree l = rv_degree (min_by (\<lambda>x. reversibility_rank (rv_degree x)) y ys)"
    and "rv_agent l = rv_agent (min_by (\<lambda>x. agent_rank (rv_agent x)) y ys)"
  using assms that by (cases ls) auto

lemma compose_reversibility_worst:
  assumes "compose_reversibility ls = Inr l" and "x \<in> set ls"
  shows "reversibility_rank (rv_degree l) \<le> reversibility_rank (rv_degree x)"
    and "agent_rank (rv_agent l) \<le> agent_rank (rv_agent x)"
proof -
  from assms(1) obtain y ys where ls: "ls = y # ys"
    and d: "rv_degree l = rv_degree (min_by (\<lambda>x. reversibility_rank (rv_degree x)) y ys)"
    and a: "rv_agent l = rv_agent (min_by (\<lambda>x. agent_rank (rv_agent x)) y ys)"
    by (rule compose_reversibility_Inr)
  have x: "x \<in> set (y # ys)" using assms(2) ls by simp
  show "reversibility_rank (rv_degree l) \<le> reversibility_rank (rv_degree x)"
    unfolding d by (rule min_by_le [OF x])
  show "agent_rank (rv_agent l) \<le> agent_rank (rv_agent x)"
    unfolding a by (rule min_by_le [OF x])
qed

lemma compose_reversibility_attained:
  assumes "compose_reversibility ls = Inr l"
  shows "rv_degree l \<in> rv_degree ` set ls" and "rv_agent l \<in> rv_agent ` set ls"
proof -
  from assms obtain y ys where ls: "ls = y # ys"
    and d: "rv_degree l = rv_degree (min_by (\<lambda>x. reversibility_rank (rv_degree x)) y ys)"
    and a: "rv_agent l = rv_agent (min_by (\<lambda>x. agent_rank (rv_agent x)) y ys)"
    by (rule compose_reversibility_Inr)
  show "rv_degree l \<in> rv_degree ` set ls"
    unfolding d ls by (rule imageI [OF min_by_mem])
  show "rv_agent l \<in> rv_agent ` set ls"
    unfolding a ls by (rule imageI [OF min_by_mem])
qed

lemma gate_auto_iff:
  "fst (reversibility_gate e r) = AUTO_OK
   \<longleftrightarrow> \<not> is_social_commitment e \<and> rv_degree r = REVERSIBLE \<and> rv_agent r = SYSTEM"
  by (auto simp: reversibility_gate_def Let_def)

lemma communication_is_social: "is_communication_egress e \<Longrightarrow> is_social_commitment e"
  by (auto simp: is_communication_egress_def is_social_commitment_def
      COMMUNICATION_EGRESS_EFFECTS_def SOCIAL_COMMITMENT_EFFECTS_def)

lemma gate_social: "is_social_commitment e \<Longrightarrow> fst (reversibility_gate e r) = GATE_DENY"
  by (simp add: reversibility_gate_def)

section \<open>Properties\<close>

text \<open>
  Composing reversibility labels is most-restrictive and fails closed: it raises only on an
  empty composition; otherwise its degree and its agent are each attained by some label and no
  label is worse in either.
\<close>

theorem compose_reversibility_most_restrictive:
  "(compose_reversibility ls = Inl ReversibilityError \<longleftrightarrow> ls = [])
   \<and> pred_sum (\<lambda>_. True) (\<lambda>l.
        rv_degree l \<in> rv_degree ` set ls \<and> rv_agent l \<in> rv_agent ` set ls
        \<and> list_all (\<lambda>x. reversibility_rank (rv_degree l) \<le> reversibility_rank (rv_degree x)
             \<and> agent_rank (rv_agent l) \<le> agent_rank (rv_agent x)) ls)
      (compose_reversibility ls)"
proof
  show "compose_reversibility ls = Inl ReversibilityError \<longleftrightarrow> ls = []" by (cases ls) simp_all
  show "pred_sum (\<lambda>_. True) (\<lambda>l.
        rv_degree l \<in> rv_degree ` set ls \<and> rv_agent l \<in> rv_agent ` set ls
        \<and> list_all (\<lambda>x. reversibility_rank (rv_degree l) \<le> reversibility_rank (rv_degree x)
             \<and> agent_rank (rv_agent l) \<le> agent_rank (rv_agent x)) ls)
      (compose_reversibility ls)"
  proof (cases "compose_reversibility ls")
    case (Inr l)
    then show ?thesis
      using compose_reversibility_worst [OF Inr] compose_reversibility_attained [OF Inr]
      by (simp add: list_all_iff)
  qed simp
qed

text \<open>
  A write earns \<open>reversible/system\<close> only when the port surfaced a prior version, the hash
  read back equals the expected one, and an attestation came with it; and a write into an immutable
  or append-only target is irreversible whatever the effect declares.
\<close>

theorem write_discipline_fail_closed:
  "(verify_write_discipline res obs expd = \<lparr>rv_degree = REVERSIBLE, rv_agent = SYSTEM\<rparr>
    \<longleftrightarrow> wr_prior_version_handle res \<noteq> None \<and> obs \<noteq> None \<and> obs = expd \<and> wr_attestation res \<noteq> [])
   \<and> (reversibility_for_write_into eff m =
        (if mu_degree m = IN_PLACE then Inr eff
         else Inr \<lparr>rv_degree = IRREVERSIBLE, rv_agent = mu_agent m\<rparr>))"
proof
  show "verify_write_discipline res obs expd = \<lparr>rv_degree = REVERSIBLE, rv_agent = SYSTEM\<rparr>
    \<longleftrightarrow> wr_prior_version_handle res \<noteq> None \<and> obs \<noteq> None \<and> obs = expd \<and> wr_attestation res \<noteq> []"
    by (auto simp: verify_write_discipline_def)
  show "reversibility_for_write_into eff m =
        (if mu_degree m = IN_PLACE then Inr eff
         else Inr \<lparr>rv_degree = IRREVERSIBLE, rv_agent = mu_agent m\<rparr>)"
    by (cases "mu_degree m") (simp_all add: reversibility_for_write_into_def)
qed

end
