(* ===== verification/Bindings.thy ===== *)
theory Bindings
  imports Strings Fnmatch Reversibility
begin

text \<open>
  Source and location bindings (\<open>policy/bindings.py\<close>): a target is canonicalised, every binding
  whose scope glob matches takes part, the most specific one names the category, and the tier,
  reversibility, mutability and write discipline compose most restrictively. What cannot be
  canonicalised, or matches nothing, is refused. Their file is read in \<open>ConfigReaders\<close>.
\<close>

section \<open>Canonicalisation\<close>

definition SUPPORTED_SCHEMES :: "string list" where
  "SUPPORTED_SCHEMES =
     [''file'', ''unc'', ''http'', ''https'', ''browser'', ''screen'', ''mcp'', ''applemail'',
      ''calendar'', ''pages'', ''numbers'', ''keynote'', ''outlook'', ''word'', ''powerpoint'',
      ''macos'', ''imap'']"

definition canonicalize :: "(string \<Rightarrow> bool) \<Rightarrow> string \<Rightarrow> py_error + string" where
  "canonicalize netloc_ok uri =
     (if prefix ''/'' uri then Inr (''file://'' @ uri)
      else if uri = [] \<or> CHR '':'' \<notin> set uri then Inl BindingError
      else
        (case urlsplit netloc_ok uri of
           Inl _ \<Rightarrow> Inl BindingError
         | Inr parts \<Rightarrow>
             (let scheme = py_lower (su_scheme parts)
              in if scheme \<notin> set SUPPORTED_SCHEMES then Inl BindingError
                 else Inr (urlunsplit \<lparr>su_scheme = scheme, su_netloc = py_lower (su_netloc parts),
                                       su_path = su_path parts, su_query = su_query parts\<rparr>))))"

section \<open>Bindings\<close>

datatype write_discipline = VERSION_PRESERVING | WD_IN_PLACE

record source_binding =
  sb_name :: string
  sb_scope_pattern_canonical :: string
  sb_category :: string
  sb_default_tier :: tier
  sb_reversibility :: "reversibility_label option"
  sb_mutability :: "mutability_label option"
  sb_write_discipline :: write_discipline
  sb_risk_ids :: "string list"
  sb_assignment_provenance :: string

definition binding_matches :: "source_binding \<Rightarrow> string \<Rightarrow> bool" where
  "binding_matches b canonical_uri = fnmatchcase canonical_uri (sb_scope_pattern_canonical b)"

text \<open>The loop of \<open>specificity\<close>: its flag and its running score.\<close>

fun specificity_from :: "string \<Rightarrow> bool \<Rightarrow> nat \<Rightarrow> nat" where
  "specificity_from [] in_class score = score"
| "specificity_from (ch # s) in_class score =
     (if in_class then specificity_from s (ch \<noteq> CHR '']'') score
      else if ch = CHR ''['' then specificity_from s True score
      else if ch \<in> set ''*?'' then specificity_from s False score
      else specificity_from s False (score + 1))"

definition specificity :: "source_binding \<Rightarrow> nat" where
  "specificity b = specificity_from (sb_scope_pattern_canonical b) False 0"

record binding_resolution =
  br_canonical_destination_id :: string
  br_matched_bindings :: "source_binding list"
  br_category :: string
  br_tier :: tier
  br_reversibility :: "reversibility_label option"
  br_mutability :: "mutability_label option"
  br_write_discipline :: write_discipline
  br_risk_ids :: "string list"
  br_assignment_provenance :: string

fun present :: "'a option list \<Rightarrow> 'a list" where
  "present [] = []"
| "present (None # xs) = present xs"
| "present (Some x # xs) = x # present xs"

definition compose_reversibility_opt ::
  "reversibility_label option list \<Rightarrow> reversibility_label option" where
  "compose_reversibility_opt labels =
     (case compose_reversibility (present labels) of Inl _ \<Rightarrow> None | Inr l \<Rightarrow> Some l)"

definition compose_mutability_opt :: "mutability_label option list \<Rightarrow> mutability_label option" where
  "compose_mutability_opt labels =
     (case compose_mutability (present labels) of Inl _ \<Rightarrow> None | Inr l \<Rightarrow> Some l)"

definition resolve_tier :: "string \<Rightarrow> source_binding list \<Rightarrow> tier" where
  "resolve_tier category matched =
     (case map sb_default_tier (filter (\<lambda>b. sb_category b = category) matched) of
        [] \<Rightarrow> NONE \<comment> \<open>not reached: the most specific binding is in the list\<close>
      | t # ts \<Rightarrow> foldl (\<lambda>a b. max_by tier_rank a [b]) t ts)"

definition resolve_binding ::
  "(string \<Rightarrow> bool) \<Rightarrow> source_binding list \<Rightarrow> string \<Rightarrow> py_error + binding_resolution" where
  "resolve_binding netloc_ok bindings uri =
     (case canonicalize netloc_ok uri of
        Inl e \<Rightarrow> Inl e
      | Inr canon \<Rightarrow>
          (case filter (\<lambda>b. binding_matches b canon) bindings of
             [] \<Rightarrow> Inl BindingError
           | b # bs \<Rightarrow>
               (let matched = b # bs;
                    most_specific = max_by specificity b bs
                in Inr \<lparr>br_canonical_destination_id = canon,
                        br_matched_bindings = matched,
                        br_category = sb_category most_specific,
                        br_tier = resolve_tier (sb_category most_specific) matched,
                        br_reversibility = compose_reversibility_opt (map sb_reversibility matched),
                        br_mutability = compose_mutability_opt (map sb_mutability matched),
                        br_write_discipline =
                          (if list_ex (\<lambda>b. sb_write_discipline b = VERSION_PRESERVING) matched
                           then VERSION_PRESERVING else WD_IN_PLACE),
                        br_risk_ids = sort (remdups (concat (map sb_risk_ids matched))),
                        br_assignment_provenance = sb_assignment_provenance most_specific\<rparr>)))"

section \<open>Lemmas\<close>

lemma foldl_max_tier: "foldl (\<lambda>a b. max_by tier_rank a [b]) t ts = max_by tier_rank t ts"
  by (induction ts arbitrary: t) auto

lemma resolve_binding_Inr:
  assumes "resolve_binding netloc_ok bindings uri = Inr r"
  obtains b bs where "canonicalize netloc_ok uri = Inr (br_canonical_destination_id r)"
    "filter (\<lambda>b. binding_matches b (br_canonical_destination_id r)) bindings = b # bs"
    "br_matched_bindings r = b # bs"
    "br_category r = sb_category (max_by specificity b bs)"
    "br_tier r = resolve_tier (br_category r) (b # bs)"
    "br_write_discipline r =
       (if list_ex (\<lambda>b. sb_write_discipline b = VERSION_PRESERVING) (b # bs)
        then VERSION_PRESERVING else WD_IN_PLACE)"
    "set (br_risk_ids r) = (\<Union>b \<in> set (b # bs). set (sb_risk_ids b))"
  using assms by (auto simp: resolve_binding_def Let_def split: sum.splits list.splits)

lemma resolve_tier_ge:
  assumes "b \<in> set matched" and "sb_category b = category"
  shows "tier_rank (sb_default_tier b) \<le> tier_rank (resolve_tier category matched)"
proof -
  let ?ts = "map sb_default_tier (filter (\<lambda>b. sb_category b = category) matched)"
  have mem: "sb_default_tier b \<in> set ?ts" using assms by auto
  then obtain t ts where ts: "?ts = t # ts" by (cases ?ts) auto
  then have "resolve_tier category matched = max_by tier_rank t ts"
    by (simp only: resolve_tier_def ts list.case foldl_max_tier)
  then show ?thesis using max_by_ge [of "sb_default_tier b" t ts tier_rank] mem ts by simp
qed

lemma resolve_tier_mem:
  assumes "b \<in> set matched" and "sb_category b = category"
  shows "\<exists>b' \<in> set matched. sb_category b' = category
    \<and> resolve_tier category matched = sb_default_tier b'"
proof -
  let ?ts = "map sb_default_tier (filter (\<lambda>b. sb_category b = category) matched)"
  have "sb_default_tier b \<in> set ?ts" using assms by auto
  then obtain t ts where ts: "?ts = t # ts" by (cases ?ts) auto
  then have "resolve_tier category matched = max_by tier_rank t ts"
    by (simp only: resolve_tier_def ts list.case foldl_max_tier)
  moreover have "max_by tier_rank t ts \<in> set ?ts" unfolding ts by (rule max_by_mem)
  ultimately show ?thesis by auto
qed

section \<open>Properties\<close>

text \<open>
  A resolution is anchored in declared bindings: its category is that of a matching binding of
  the highest specificity, its tier is the strictest of the matching bindings of that category, and
  one version-preserving binding makes the destination version-preserving.
\<close>

theorem resolution_most_restrictive:
  assumes "resolve_binding netloc_ok bindings uri = Inr r"
  shows "\<exists>m \<in> set bindings. binding_matches m (br_canonical_destination_id r)
     \<and> br_category r = sb_category m
     \<and> (\<forall>b \<in> set bindings. binding_matches b (br_canonical_destination_id r) \<longrightarrow>
          specificity b \<le> specificity m
          \<and> (sb_category b = br_category r \<longrightarrow>
               tier_rank (sb_default_tier b) \<le> tier_rank (br_tier r))
          \<and> (sb_write_discipline b = VERSION_PRESERVING \<longrightarrow>
               br_write_discipline r = VERSION_PRESERVING)
          \<and> set (sb_risk_ids b) \<subseteq> set (br_risk_ids r))
     \<and> (\<exists>b \<in> set bindings. binding_matches b (br_canonical_destination_id r)
          \<and> sb_category b = br_category r \<and> br_tier r = sb_default_tier b)"
proof -
  obtain b bs where r: "filter (\<lambda>b. binding_matches b (br_canonical_destination_id r)) bindings
        = b # bs"
      "br_category r = sb_category (max_by specificity b bs)"
      "br_tier r = resolve_tier (br_category r) (b # bs)"
      "br_write_discipline r =
       (if list_ex (\<lambda>b. sb_write_discipline b = VERSION_PRESERVING) (b # bs)
        then VERSION_PRESERVING else WD_IN_PLACE)"
      "set (br_risk_ids r) = (\<Union>b \<in> set (b # bs). set (sb_risk_ids b))"
    by (rule resolve_binding_Inr [OF assms])
  have matched: "x \<in> set (b # bs) \<longleftrightarrow>
      x \<in> set bindings \<and> binding_matches x (br_canonical_destination_id r)" for x
    unfolding r(1) [symmetric] by auto
  let ?m = "max_by specificity b bs"
  have m: "?m \<in> set (b # bs)" by (rule max_by_mem)
  obtain b' where b': "b' \<in> set (b # bs)" "sb_category b' = br_category r"
      "br_tier r = sb_default_tier b'"
    using resolve_tier_mem [OF m, of "br_category r"] r(2,3) by auto
  have all: "specificity x \<le> specificity ?m
      \<and> (sb_category x = br_category r \<longrightarrow> tier_rank (sb_default_tier x) \<le> tier_rank (br_tier r))
      \<and> (sb_write_discipline x = VERSION_PRESERVING \<longrightarrow> br_write_discipline r = VERSION_PRESERVING)
      \<and> set (sb_risk_ids x) \<subseteq> set (br_risk_ids r)" if x: "x \<in> set (b # bs)" for x
  proof (intro conjI impI)
    show "specificity x \<le> specificity ?m" by (rule max_by_ge [OF x])
    show "tier_rank (sb_default_tier x) \<le> tier_rank (br_tier r)" if "sb_category x = br_category r"
      unfolding r(3) by (rule resolve_tier_ge [OF x that])
    show "br_write_discipline r = VERSION_PRESERVING" if "sb_write_discipline x = VERSION_PRESERVING"
      using r(4) x that by (auto simp: list_ex_iff)
    show "set (sb_risk_ids x) \<subseteq> set (br_risk_ids r)" unfolding r(5) using x by blast
  qed
  have "\<forall>x \<in> set bindings. binding_matches x (br_canonical_destination_id r) \<longrightarrow>
      specificity x \<le> specificity ?m
      \<and> (sb_category x = br_category r \<longrightarrow> tier_rank (sb_default_tier x) \<le> tier_rank (br_tier r))
      \<and> (sb_write_discipline x = VERSION_PRESERVING \<longrightarrow> br_write_discipline r = VERSION_PRESERVING)
      \<and> set (sb_risk_ids x) \<subseteq> set (br_risk_ids r)"
    using all matched by blast
  moreover have "\<exists>b\<in>set bindings. binding_matches b (br_canonical_destination_id r)
        \<and> sb_category b = br_category r \<and> br_tier r = sb_default_tier b"
    using b' matched by blast
  moreover have "?m \<in> set bindings" "binding_matches ?m (br_canonical_destination_id r)"
    using m matched by blast+
  ultimately show ?thesis using r(2) by blast
qed

definition hr_binding :: source_binding where
  "hr_binding =
     \<lparr>sb_name = ''hr'', sb_scope_pattern_canonical = ''file:///HR/*'', sb_category = ''health'',
      sb_default_tier = RESTRICTED, sb_reversibility = None, sb_mutability = None,
      sb_write_discipline = VERSION_PRESERVING, sb_risk_ids = [''R1''],
      sb_assignment_provenance = ''operator-declared''\<rparr>"

lemma hr_binding_matches: "binding_matches hr_binding ''file:///HR/x.csv''"
  by (simp add: binding_matches_def hr_binding_def fnmatchcase_def)

theorem resolution_most_restrictive_witness:
  "\<exists>r. resolve_binding (\<lambda>_. True) [hr_binding] ''/HR/x.csv'' = Inr r
     \<and> br_category r = ''health''"
proof -
  obtain r where r: "resolve_binding (\<lambda>_. True) [hr_binding] ''/HR/x.csv'' = Inr r"
    using hr_binding_matches by (simp add: resolve_binding_def canonicalize_def Let_def)
  obtain m where "m \<in> set [hr_binding]" "br_category r = sb_category m"
    using resolution_most_restrictive [OF r] by blast
  then have "br_category r = ''health''" by (simp add: hr_binding_def)
  with r show ?thesis by blast
qed

text \<open>
  Canonicalisation is not idempotent on file paths: the leading-slash branch keeps a fragment
  and a query mark that the URI branch drops, so one path has two canonical ids.
\<close>

theorem canonical_id_of_a_path_keeps_its_fragment:
  "canonicalize netloc_ok ''/a#b'' = Inr ''file:///a#b''
   \<and> canonicalize (\<lambda>_. True) ''file:///a#b'' = Inr ''file:///a''"
proof
  show "canonicalize netloc_ok ''/a#b'' = Inr ''file:///a#b''" by (simp add: canonicalize_def)
  have lower: "py_lower ''file'' = ''file''" "py_lower [] = []"
    by (simp_all add: py_lower_def char_lower_def)
  have "split_scheme (clean_url ''file:///a#b'') = (''file'', ''///a#b'')"
    by (simp add: clean_url_def split_scheme_def lower scheme_char_def ascii_alpha_def char_in_def)
  moreover have "split_netloc ''///a#b'' = ([], ''/a#b'')" by (simp add: split_netloc_def)
  moreover have "partition_at (CHR ''#'') ''/a#b'' = (''/a'', ''b'')"
    "partition_at (CHR ''?'') ''/a'' = (''/a'', [])" by (simp_all add: partition_at_def)
  ultimately have "urlsplit (\<lambda>_. True) ''file:///a#b''
      = Inr \<lparr>su_scheme = ''file'', su_netloc = [], su_path = ''/a'', su_query = []\<rparr>"
    by (simp add: urlsplit_def)
  then show "canonicalize (\<lambda>_. True) ''file:///a#b'' = Inr ''file:///a''"
    by (simp add: canonicalize_def SUPPORTED_SCHEMES_def lower urlunsplit_def uses_netloc_def)
qed

end
