(* ===== verification/PolicyDecision.thy ===== *)
theory PolicyDecision
  imports Envelope Assurance Bindings
begin

text \<open>
  The decision record of \<open>policy/engine.py\<close> and the composers of its pipeline. A composer takes
  the decision so far and one leg's outcome, and keeps the stricter of the two, with the named
  carve-outs. The free text of a reason is kept by its ingredients, one constructor per message; a
  rule is its string, because the recovery synthesis searches it.
\<close>

section \<open>Decisions\<close>

datatype reason =
    OverrideGrantAuthorizes uuid string string time
  | BindingRefused string
  | GateRationale gate_rationale
  | OptimisticRationale optimistic_rationale
  | EgressOverrideReason
  | EgressApprovalReason
  | ControlPlaneTainted string
  | SandboxMissing string
  | DevboxMissing string
  | OrphanRisk string "string list"
  | ClearanceRefused tier string tier
  | IntegrityRefused string string
  | EnvelopeReason cell_key risk_preference rule_outcome
  | UntrustedEgress string
  | HealthEgress string
  | FinancialEgress string
  | FinancialPurchase
  | FetchRestricted
  | FetchRegulated
  | RelaxRefused "string list"
  | CapabilityExpired string string time time
  | RateLimitExceeded bool string string rate_limit time
  | NoMatchingCapability string string
  | CascadedInert string string uuid
  | RevokedByPriorUse string "string list"
  | DestructiveNeedsFlag string string
  | V2Rationale rule_rationale
  | FirstUseOfKind string
  | RestrictedSource string
  | InspectorFailed string string
  | InspectorRationale string
  | ShadowedDecision decision string

record recovery_step =
  st_command :: string
  st_args :: "string list"
  st_rationale :: string

record policy_decision =
  pd_decision :: decision
  pd_rule :: "string option"
  pd_reason :: "reason option"
  pd_matched_capability :: "capability option"
  pd_v2_outcome :: "rule_outcome option"
  pd_v2_matched_rule_ids :: "string list"
  pd_refused_relax_inputs :: "relax_input list"
  pd_labels_snapshot :: "label_state option"
  pd_axis_d_snapshot :: "decision_context option"
  pd_effect_class :: "string option"
  pd_recovery_steps :: "recovery_step list"

text \<open>\<open>PolicyDecision(decision, rule, reason, matched_capability)\<close>, the rest at its defaults.\<close>

definition PolicyDecision ::
  "decision \<Rightarrow> string option \<Rightarrow> reason option \<Rightarrow> capability option \<Rightarrow> policy_decision" where
  "PolicyDecision d rule reason cap =
     \<lparr>pd_decision = d, pd_rule = rule, pd_reason = reason, pd_matched_capability = cap,
      pd_v2_outcome = None, pd_v2_matched_rule_ids = [], pd_refused_relax_inputs = [],
      pd_labels_snapshot = None, pd_axis_d_snapshot = None, pd_effect_class = None,
      pd_recovery_steps = []\<rparr>"

definition replace_outcome :: "policy_decision \<Rightarrow> decision \<Rightarrow> string \<Rightarrow> reason \<Rightarrow> policy_decision" where
  "replace_outcome pd d rule reason =
     pd\<lparr>pd_decision := d, pd_rule := Some rule, pd_reason := Some reason\<rparr>"

text \<open>A leg of the pipeline: its outcome, its rule and its reason.\<close>

type_synonym leg = "decision \<times> string \<times> reason"

section \<open>Rule names\<close>

definition DESTRUCTIVE_OP_RULE :: string where
  "DESTRUCTIVE_OP_RULE = ''destructive-op-needs-approval''"
definition REVOKED_BY_PRIOR_USE_RULE :: string where
  "REVOKED_BY_PRIOR_USE_RULE = ''capability-revoked-by-prior-use''"
definition CAPABILITY_EXPIRED_RULE :: string where
  "CAPABILITY_EXPIRED_RULE = ''capability-expired''"
definition RATE_LIMIT_EXCEEDED_RULE :: string where
  "RATE_LIMIT_EXCEEDED_RULE = ''rate-limit-exceeded''"
definition CAPABILITY_CASCADED_RULE :: string where
  "CAPABILITY_CASCADED_RULE = ''capability-cascaded''"
definition RELAX_REFUSED_RULE :: string where "RELAX_REFUSED_RULE = ''v2:relax_refused''"
definition V2_RULE_PREFIX :: string where "V2_RULE_PREFIX = ''v2:''"
definition BINDING_UNBOUND_RULE :: string where "BINDING_UNBOUND_RULE = ''binding-unbound''"
definition REVERSIBILITY_IRREVERSIBLE_RULE :: string where
  "REVERSIBILITY_IRREVERSIBLE_RULE = ''reversibility-irreversible''"
definition REVERSIBILITY_REQUIRES_APPROVAL_RULE :: string where
  "REVERSIBILITY_REQUIRES_APPROVAL_RULE = ''reversibility-requires-approval''"
definition OPTIMISTIC_AUTO_RULE :: string where "OPTIMISTIC_AUTO_RULE = ''optimistic-auto''"
definition ENVELOPE_DIAL_RULE :: string where "ENVELOPE_DIAL_RULE = ''envelope-dial''"
definition CONTROL_PLANE_TAINTED_RULE :: string where
  "CONTROL_PLANE_TAINTED_RULE = ''control-plane-tainted-session''"
definition CLEARANCE_REFUSED_RULE :: string where "CLEARANCE_REFUSED_RULE = ''clearance-refused''"
definition INTEGRITY_FLOOR_REFUSED_RULE :: string where
  "INTEGRITY_FLOOR_REFUSED_RULE = ''integrity-floor-refused''"
definition SANDBOX_NO_ACTUATOR_RULE :: string where
  "SANDBOX_NO_ACTUATOR_RULE = ''sandbox-no-actuator''"
definition DEVBOX_NO_MANAGER_RULE :: string where "DEVBOX_NO_MANAGER_RULE = ''devbox-no-manager''"
definition ORPHAN_RISK_CITATION_RULE :: string where
  "ORPHAN_RISK_CITATION_RULE = ''orphan-risk-citation''"
definition FIRST_USE_OF_KIND_RULE :: string where "FIRST_USE_OF_KIND_RULE = ''first-use-of-kind''"
definition PROVENANCE_EGRESS_RULE :: string where
  "PROVENANCE_EGRESS_RULE = ''untrusted-meets-egress''"
definition HEALTH_EGRESS_RULE :: string where "HEALTH_EGRESS_RULE = ''health-meets-egress''"
definition FINANCIAL_EMAIL_RULE :: string where "FINANCIAL_EMAIL_RULE = ''financial-meets-email''"
definition FINANCIAL_PURCHASE_RULE :: string where
  "FINANCIAL_PURCHASE_RULE = ''financial-meets-purchase''"
definition FETCH_URL_RESTRICTED_RULE :: string where
  "FETCH_URL_RESTRICTED_RULE = ''confidential-meets-web-fetch''"
definition FETCH_URL_REGULATED_RULE :: string where
  "FETCH_URL_REGULATED_RULE = ''regulated-data-meets-web-fetch''"

section \<open>The conflict invariants\<close>

definition BROWSER_EGRESS_KINDS :: "capability_kind list" where
  "BROWSER_EGRESS_KINDS =
     [BROWSER_AUTOMATION, BROWSER_NAVIGATE, BROWSER_INTERACT, BROWSER_SCRIPT, BROWSER_FILE]"

definition conflict_invariant_outcome :: "label_state \<Rightarrow> action \<Rightarrow> leg option" where
  "conflict_invariant_outcome labels act =
     (let is_email = kind_eq (a_kind act) (BuiltIn SEND_EMAIL);
          is_message = kind_eq (a_kind act) (BuiltIn SEND_MESSAGE);
          is_purchase = kind_eq (a_kind act) (BuiltIn QUEUE_PURCHASE);
          is_browser = kind_in (a_kind act) (map BuiltIn BROWSER_EGRESS_KINDS)
      in if \<not> (is_email \<or> is_message \<or> is_purchase \<or> is_browser) then None
         else
           (let egress = (if is_email then ''email'' else if is_message then ''message''
                          else if is_browser then ''browser automation'' else ''purchase'');
                categories = ct_category ` set (ls_a labels)
            in if EXTERNAL_UNTRUSTED \<in> levels labels
               then Some (DENY, PROVENANCE_EGRESS_RULE, UntrustedEgress egress)
               else if ''health'' \<in> categories
               then Some (DENY, HEALTH_EGRESS_RULE, HealthEgress egress)
               else if ''financial'' \<in> categories
               then (if is_email \<or> is_message \<or> is_browser
                     then Some (DENY, FINANCIAL_EMAIL_RULE, FinancialEgress egress)
                     else Some (REQUIRE_APPROVAL, FINANCIAL_PURCHASE_RULE, FinancialPurchase))
               else None))"

definition target_is_remote_url :: "string \<Rightarrow> bool" where
  "target_is_remote_url target \<longleftrightarrow> prefix ''http://'' target \<or> prefix ''https://'' target"

definition fetch_url_egress_outcome :: "label_state \<Rightarrow> action \<Rightarrow> bool \<Rightarrow> leg option" where
  "fetch_url_egress_outcome labels act destination_allowlisted =
     (if \<not> kind_eq (a_kind act) (BuiltIn WEB_FETCH) \<or> \<not> target_is_remote_url (a_target act)
      then None
      else if destination_allowlisted then None
      else
        (case map ct_tier (ls_a labels) of
           [] \<Rightarrow> None
         | t # ts \<Rightarrow>
             (let highest = max_by tier_rank t ts
              in if \<not> is_above highest SENSITIVE then None
                 else if is_above highest REGULATED
                 then Some (DENY, FETCH_URL_RESTRICTED_RULE, FetchRestricted)
                 else Some (REQUIRE_APPROVAL, FETCH_URL_REGULATED_RULE, FetchRegulated))))"

section \<open>The composers\<close>

fun V2_TO_LEGACY :: "rule_outcome \<Rightarrow> decision option" where
  "V2_TO_LEGACY RO_DENY = Some DENY"
| "V2_TO_LEGACY RO_OVERRIDE_REQUIRED = Some OVERRIDE_REQUIRED"
| "V2_TO_LEGACY RO_REQUIRE_APPROVAL = Some REQUIRE_APPROVAL"
| "V2_TO_LEGACY RO_SUGGEST = Some REQUIRE_APPROVAL"
| "V2_TO_LEGACY RO_AUTO = Some ALLOW"
| "V2_TO_LEGACY RO_SHADOW = None"

definition with_v2 :: "policy_decision \<Rightarrow> evaluation_result \<Rightarrow> policy_decision" where
  "with_v2 pd v2 =
     pd\<lparr>pd_v2_outcome := Some (ev_outcome v2), pd_v2_matched_rule_ids := ev_matched_rule_ids v2\<rparr>"

definition compose_with_v2 ::
  "policy_decision \<Rightarrow> evaluation_result \<Rightarrow> bool \<Rightarrow> bool \<Rightarrow> py_error + policy_decision" where
  "compose_with_v2 legacy v2 already_approved standing_destructive_authorization =
     (case V2_TO_LEGACY (ev_outcome v2) of
        None \<Rightarrow> Inl KeyError
      | Some v2_as_legacy \<Rightarrow>
          Inr (if standing_destructive_authorization \<and> pd_decision legacy = ALLOW
                  \<and> ev_outcome v2 = RO_SUGGEST \<and> ev_matched_rule_ids v2 = []
               then with_v2 legacy v2
               else if already_approved \<and> pd_decision legacy = ALLOW
                  \<and> v2_as_legacy = REQUIRE_APPROVAL
               then with_v2 legacy v2
               else if legacy_rank v2_as_legacy < legacy_rank (pd_decision legacy)
               then with_v2
                      (replace_outcome legacy v2_as_legacy
                         (if ev_matched_rule_ids v2 \<noteq> []
                          then V2_RULE_PREFIX @ py_join '','' (ev_matched_rule_ids v2)
                          else V2_RULE_PREFIX @ ''default'')
                         (V2Rationale (ev_rationale v2))) v2
               else with_v2 legacy v2))"

definition compose_with_conflict_invariant ::
  "policy_decision \<Rightarrow> leg option \<Rightarrow> string list \<Rightarrow> bool \<Rightarrow> policy_decision" where
  "compose_with_conflict_invariant base leg crossed_floors personal =
     (case leg of
        None \<Rightarrow> base
      | Some (d, rule, why) \<Rightarrow>
          if personal \<and> rule \<in> set crossed_floors \<and> rule \<noteq> PROVENANCE_EGRESS_RULE then base
          else if legacy_rank d < legacy_rank (pd_decision base)
          then replace_outcome base d rule why
          else base)"

definition compose_with_envelope ::
  "policy_decision \<Rightarrow> leg \<Rightarrow> bool \<Rightarrow> policy_decision" where
  "compose_with_envelope base leg already_approved =
     (case leg of (d, rule, why) \<Rightarrow>
        if already_approved \<and> pd_decision base = ALLOW \<and> d = REQUIRE_APPROVAL then base
        else if legacy_rank d < legacy_rank (pd_decision base)
        then replace_outcome base d rule why
        else base)"

definition compose_with_reversibility ::
  "policy_decision \<Rightarrow> leg \<Rightarrow> bool \<Rightarrow> bool \<Rightarrow> policy_decision" where
  "compose_with_reversibility base leg already_approved standing_destructive_authorization =
     (case leg of (d, rule, why) \<Rightarrow>
        if already_approved \<and> pd_decision base = ALLOW \<and> d = REQUIRE_APPROVAL then base
        else if standing_destructive_authorization \<and> pd_decision base = ALLOW
             \<and> d = REQUIRE_APPROVAL \<and> rule = REVERSIBILITY_REQUIRES_APPROVAL_RULE then base
        else if d = ALLOW \<and> pd_decision base = REQUIRE_APPROVAL
             \<and> pd_v2_outcome base = Some RO_SUGGEST
        then replace_outcome base ALLOW rule why
        else if legacy_rank d < legacy_rank (pd_decision base)
        then replace_outcome base d rule why
        else base)"

definition PROMPTABLE_FIRST_USE_KINDS :: "capability_kind list" where
  "PROMPTABLE_FIRST_USE_KINDS =
     [SEND_EMAIL, SEND_MESSAGE, QUEUE_PURCHASE, BROWSER_AUTOMATION, BROWSER_NAVIGATE,
      BROWSER_INTERACT, BROWSER_SCRIPT, BROWSER_FILE, MACOS_AUTOMATION, MACOS_APP_CONTROL,
      MACOS_CLIPBOARD_WRITE, APPLE_MAIL_DRAFT, EXTERNAL_MAIL_DRAFT, KEYNOTE_PRESENT, PAGES_EDIT,
      PAGES_EXPORT, NUMBERS_EDIT, NUMBERS_EXPORT, WRITE_FS, CREATE_FS, MODIFY_FS, DELETE_FS,
      CALENDAR_WRITE, CREATE_CAL, MODIFY_CAL, DELETE_CAL, EXECUTE_SANDBOX, EXECUTE_DEVBOX]"

definition maybe_first_use_escalation ::
  "policy_decision \<Rightarrow> action \<Rightarrow> kind list \<Rightarrow> bool \<Rightarrow> policy_decision" where
  "maybe_first_use_escalation result act used_kinds first_use_prompt_enabled =
     (if first_use_prompt_enabled \<and> pd_decision result = ALLOW
         \<and> kind_in (a_kind act) (map BuiltIn PROMPTABLE_FIRST_USE_KINDS)
         \<and> \<not> kind_in (a_kind act) used_kinds
      then replace_outcome result REQUIRE_APPROVAL FIRST_USE_OF_KIND_RULE
             (FirstUseOfKind (kind_name (a_kind act)))
      else result)"

end
