(* ===== verification/CapabilityDecision.thy ===== *)
theory CapabilityDecision
  imports PolicyDecision
begin

text \<open>
  The capability leg of the engine: finding a usable capability, the cascade of revocation along the
  chain of parents, and \<open>_decide_legacy\<close>. The session's frozenset of capabilities is the list of its
  iteration order; recorded uses are kept per audit id.
\<close>

section \<open>Finding a capability\<close>

type_synonym cap_uses = "(uuid \<times> time list) list option"

definition cap_uses_for :: "capability \<Rightarrow> cap_uses \<Rightarrow> time list" where
  "cap_uses_for cap uses =
     (case uses of None \<Rightarrow> [] | Some d \<Rightarrow> dict_get d (c_audit_id cap) [])"

definition scope_matches :: "capability \<Rightarrow> action \<Rightarrow> bool" where
  "scope_matches c act = matches c (a_kind act) (a_target act) (a_amount act)"

definition usable :: "time option \<Rightarrow> cap_uses \<Rightarrow> capability \<Rightarrow> bool" where
  "usable now uses cap =
     (case now of
        None \<Rightarrow> True
      | Some t \<Rightarrow> \<not> is_expired cap t \<and> \<not> is_rate_exceeded cap t (cap_uses_for cap uses))"

definition find_capability ::
  "capability list \<Rightarrow> action \<Rightarrow> time option \<Rightarrow> cap_uses \<Rightarrow> capability option" where
  "find_capability capabilities act now uses =
     find (\<lambda>cap. scope_matches cap act \<and> usable now uses cap) capabilities"

section \<open>Cascading revocation\<close>

type_synonym cap_index = "(uuid \<times> capability) list"

definition build_audit_id_index :: "capability list \<Rightarrow> cap_index" where
  "build_audit_id_index capabilities = dict_of (map (\<lambda>c. (c_audit_id c, c)) capabilities) []"

text \<open>A link is inert on its own when it is revoked, expired or rate-exhausted.\<close>

definition link_inert :: "uuid list \<Rightarrow> time \<Rightarrow> cap_uses \<Rightarrow> capability \<Rightarrow> bool" where
  "link_inert revoked now uses c \<longleftrightarrow>
     c_audit_id c \<in> set revoked \<or> is_expired c now \<or> is_rate_exceeded c now (cap_uses_for c uses)"

text \<open>
  The loop of \<open>_is_cascaded_inert\<close>. It ends because every capability it moves to is a value of the
  index and no audit id is visited twice.
\<close>

function cascade_walk ::
  "cap_index \<Rightarrow> uuid list \<Rightarrow> time \<Rightarrow> cap_uses \<Rightarrow> uuid list \<Rightarrow> capability
   \<Rightarrow> bool \<times> capability option" where
  "cascade_walk idx revoked now uses visited current =
     (if c_audit_id current \<in> set visited then (True, Some current)
      else if link_inert revoked now uses current then (True, Some current)
      else
        (case c_parent_audit_id current of
           None \<Rightarrow> (False, None)
         | Some p \<Rightarrow>
             (case map_of idx p of
                None \<Rightarrow> (True, None)
              | Some parent \<Rightarrow>
                  cascade_walk idx revoked now uses (c_audit_id current # visited) parent)))"
  by pat_completeness auto
termination
proof (relation "measure (\<lambda>(idx, revoked, now, uses, visited, current).
    card (insert (c_audit_id current) (c_audit_id ` snd ` set idx) - set visited))")
  fix idx :: cap_index and revoked :: "uuid list" and now :: time and uses :: cap_uses
    and visited :: "uuid list" and current :: capability and p parent
  let ?ids = "c_audit_id ` snd ` set idx"
  assume new: "c_audit_id current \<notin> set visited" and "map_of idx p = Some parent"
  then have "c_audit_id parent \<in> ?ids" by (force dest: map_of_SomeD)
  then have "insert (c_audit_id parent) ?ids - set (c_audit_id current # visited)
      \<subset> insert (c_audit_id current) ?ids - set visited"
    using new by auto
  then have "card (insert (c_audit_id parent) ?ids - set (c_audit_id current # visited))
      < card (insert (c_audit_id current) ?ids - set visited)"
    by (intro psubset_card_mono) simp_all
  then show "((idx, revoked, now, uses, c_audit_id current # visited, parent),
      (idx, revoked, now, uses, visited, current)) \<in>
      measure (\<lambda>(idx, revoked, now, uses, visited, current).
        card (insert (c_audit_id current) (c_audit_id ` snd ` set idx) - set visited))"
    by simp
qed simp

declare cascade_walk.simps [simp del]

definition is_cascaded_inert ::
  "capability \<Rightarrow> cap_index \<Rightarrow> uuid list \<Rightarrow> time \<Rightarrow> cap_uses \<Rightarrow> bool \<times> capability option" where
  "is_cascaded_inert cap idx revoked now uses = cascade_walk idx revoked now uses [] cap"

section \<open>The decision\<close>

definition no_usable_capability ::
  "capability list \<Rightarrow> action \<Rightarrow> time \<Rightarrow> cap_uses \<Rightarrow> bool \<Rightarrow> policy_decision" where
  "no_usable_capability capabilities act eff_now uses rate_limit_escalation =
     (case find (\<lambda>c. scope_matches c act \<and> is_expired c eff_now) capabilities of
        Some c \<Rightarrow>
          PolicyDecision DENY (Some CAPABILITY_EXPIRED_RULE)
            (Some (CapabilityExpired (kind_name (a_kind act)) (a_target act)
                     (case c_expires_at c of Some deadline \<Rightarrow> deadline | None \<Rightarrow> eff_now) eff_now))
            (Some c)
      | None \<Rightarrow>
          (let none = PolicyDecision DENY None
                 (Some (NoMatchingCapability (kind_name (a_kind act)) (a_target act))) None
           in case find (\<lambda>c. scope_matches c act
                          \<and> is_rate_exceeded c eff_now (cap_uses_for c uses)) capabilities of
                None \<Rightarrow> none
              | Some c \<Rightarrow>
                  (case c_rate_limit c of
                     None \<Rightarrow> none
                   | Some rl \<Rightarrow>
                       PolicyDecision (if rate_limit_escalation then REQUIRE_APPROVAL else DENY)
                         (Some RATE_LIMIT_EXCEEDED_RULE)
                         (Some (RateLimitExceeded rate_limit_escalation (kind_name (a_kind act))
                                  (a_target act) rl eff_now))
                         (Some c))))"

definition revoking_kinds :: "capability \<Rightarrow> kind list \<Rightarrow> string list" where
  "revoking_kinds cap used_kinds =
     map kind_value (filter (\<lambda>k. kind_in (BuiltIn k) used_kinds) (c_revoked_by cap))"

definition decide_with ::
  "kind_registry \<Rightarrow> capability list \<Rightarrow> action \<Rightarrow> kind list \<Rightarrow> time \<Rightarrow> cap_uses \<Rightarrow> uuid list
   \<Rightarrow> capability \<Rightarrow> policy_decision" where
  "decide_with registry capabilities act used_kinds eff_now uses revoked cap =
     (let (cascaded, originator) =
            is_cascaded_inert cap (build_audit_id_index capabilities) revoked eff_now uses;
          k = kind_name (a_kind act)
      in if cascaded then
           PolicyDecision DENY (Some CAPABILITY_CASCADED_RULE)
             (Some (CascadedInert k (a_target act)
                (case originator of Some c \<Rightarrow> c_audit_id c | None \<Rightarrow> c_audit_id cap))) (Some cap)
         else if revoking_kinds cap used_kinds \<noteq> [] then
           PolicyDecision DENY (Some REVOKED_BY_PRIOR_USE_RULE)
             (Some (RevokedByPriorUse k (sort (revoking_kinds cap used_kinds)))) (Some cap)
         else if is_destructive_kind registry (a_kind act) \<and> \<not> c_allows_destructive cap then
           PolicyDecision REQUIRE_APPROVAL (Some DESTRUCTIVE_OP_RULE)
             (Some (DestructiveNeedsFlag k (a_target act))) (Some cap)
         else PolicyDecision ALLOW None None (Some cap))"

text \<open>\<open>clock\<close> is what \<open>datetime.now(UTC)\<close> returns when no \<open>now\<close> is passed.\<close>

definition decide_legacy ::
  "kind_registry \<Rightarrow> capability list \<Rightarrow> action \<Rightarrow> kind list \<Rightarrow> time option \<Rightarrow> time \<Rightarrow> cap_uses
   \<Rightarrow> uuid list \<Rightarrow> bool \<Rightarrow> policy_decision" where
  "decide_legacy registry capabilities act used_kinds now clock uses revoked
     rate_limit_escalation =
     (let eff_now = (case now of Some t \<Rightarrow> t | None \<Rightarrow> clock)
      in case find_capability capabilities act (Some eff_now) uses of
           None \<Rightarrow> no_usable_capability capabilities act eff_now uses rate_limit_escalation
         | Some cap \<Rightarrow>
             decide_with registry capabilities act used_kinds eff_now uses revoked cap)"

section \<open>The cascade, as a chain of live links\<close>

text \<open>
  The reading the loop implements: a capability is live when its link is not inert and either it has
  no parent or its parent is in the session's index and is live. It is an inductive definition, so a
  cycle of parents is not live.
\<close>

inductive live_chain :: "cap_index \<Rightarrow> uuid list \<Rightarrow> time \<Rightarrow> cap_uses \<Rightarrow> capability \<Rightarrow> bool"
  for idx revoked now uses where
  root: "\<not> link_inert revoked now uses c \<Longrightarrow> c_parent_audit_id c = None
     \<Longrightarrow> live_chain idx revoked now uses c"
| link: "\<not> link_inert revoked now uses c \<Longrightarrow> c_parent_audit_id c = Some p
     \<Longrightarrow> map_of idx p = Some parent \<Longrightarrow> live_chain idx revoked now uses parent
     \<Longrightarrow> live_chain idx revoked now uses c"

inductive_cases live_chainE: "live_chain idx revoked now uses c"

text \<open>The chain itself, nearest link first.\<close>

inductive chain_to_root :: "cap_index \<Rightarrow> capability \<Rightarrow> capability list \<Rightarrow> bool" for idx where
  stop: "c_parent_audit_id c = None \<Longrightarrow> chain_to_root idx c [c]"
| step: "c_parent_audit_id c = Some p \<Longrightarrow> map_of idx p = Some parent
     \<Longrightarrow> chain_to_root idx parent cs \<Longrightarrow> chain_to_root idx c (c # cs)"

inductive_cases chain_to_rootE: "chain_to_root idx c cs"

lemma live_chain_iff_chain:
  "live_chain idx revoked now uses c
   \<longleftrightarrow> (\<exists>cs. chain_to_root idx c cs \<and> (\<forall>x \<in> set cs. \<not> link_inert revoked now uses x))"
proof
  assume "live_chain idx revoked now uses c"
  then show "\<exists>cs. chain_to_root idx c cs \<and> (\<forall>x \<in> set cs. \<not> link_inert revoked now uses x)"
  proof induction
    case (root c)
    then show ?case by (intro exI [of _ "[c]"]) (simp add: chain_to_root.stop)
  next
    case (link c p parent)
    then obtain cs where cs: "chain_to_root idx parent cs"
        "\<forall>x \<in> set cs. \<not> link_inert revoked now uses x" by blast
    from chain_to_root.step [OF link(2,3) cs(1)] cs(2) link(1) show ?case by (metis set_ConsD)
  qed
next
  assume "\<exists>cs. chain_to_root idx c cs \<and> (\<forall>x \<in> set cs. \<not> link_inert revoked now uses x)"
  then obtain cs where "chain_to_root idx c cs" "\<forall>x \<in> set cs. \<not> link_inert revoked now uses x"
    by blast
  then show "live_chain idx revoked now uses c"
    by induction (auto intro: live_chain.intros)
qed

text \<open>The walk answers live only on live chains.\<close>

lemma cascade_walk_live:
  "\<not> fst (cascade_walk idx revoked now uses visited c) \<Longrightarrow> live_chain idx revoked now uses c"
proof (induction idx revoked now uses visited c rule: cascade_walk.induct)
  case (1 idx revoked now uses visited c)
  then have new: "c_audit_id c \<notin> set visited" and ok: "\<not> link_inert revoked now uses c"
    by (auto simp: cascade_walk.simps [of idx revoked now uses visited c] split: if_splits)
  show ?case
  proof (cases "c_parent_audit_id c")
    case None
    then show ?thesis using ok live_chain.root by blast
  next
    case (Some p)
    then obtain parent where parent: "map_of idx p = Some parent"
      using "1.prems" new ok
      by (cases "map_of idx p") (auto simp: cascade_walk.simps [of idx revoked now uses visited c])
    then have "\<not> fst (cascade_walk idx revoked now uses (c_audit_id c # visited) parent)"
      using "1.prems" new ok Some
      by (simp add: cascade_walk.simps [of idx revoked now uses visited c])
    then show ?thesis
      using "1.IH" [OF new ok Some parent] live_chain.link [OF ok Some parent] by blast
  qed
qed

text \<open>
  Conversely, a live chain whose ids have not been visited, and which is indexed by its own ids, is
  answered live: the ids along a chain that ends are distinct.
\<close>

definition indexed :: "cap_index \<Rightarrow> bool" where
  "indexed idx \<longleftrightarrow> (\<forall>p c. map_of idx p = Some c \<longrightarrow> c_audit_id c = p)"

lemma build_audit_id_index_indexed: "indexed (build_audit_id_index caps)"
  unfolding indexed_def build_audit_id_index_def map_of_dict_of
  by (force dest: map_of_SomeD simp: rev_map)

lemma chain_to_root_functional:
  "chain_to_root idx c cs \<Longrightarrow> chain_to_root idx c cs' \<Longrightarrow> cs = cs'"
proof (induction arbitrary: cs' rule: chain_to_root.induct)
  case (stop c)
  then show ?case by (auto elim: chain_to_rootE)
next
  case (step c p parent cs)
  from step.prems obtain ds where "cs' = c # ds" "chain_to_root idx parent ds"
    using step.hyps by (auto elim: chain_to_rootE)
  then show ?case using step.IH by simp
qed

lemma chain_to_root_suffix:
  "chain_to_root idx c cs \<Longrightarrow> x \<in> set cs \<Longrightarrow> \<exists>ds. chain_to_root idx x ds \<and> length ds \<le> length cs"
proof (induction rule: chain_to_root.induct)
  case (stop c)
  then show ?case by (auto intro: chain_to_root.stop)
next
  case (step c p parent cs)
  show ?case
  proof (cases "x = c")
    case True
    then show ?thesis using chain_to_root.step [OF step.hyps] by auto
  next
    case False
    then have "x \<in> set cs" using step.prems by simp
    then show ?thesis using step.IH by auto
  qed
qed

lemma chain_to_root_hd: "chain_to_root idx c cs \<Longrightarrow> \<exists>ds. cs = c # ds"
  by (auto elim: chain_to_rootE)

lemma chain_to_root_indexed:
  "chain_to_root idx c cs \<Longrightarrow> x \<in> set (tl cs) \<Longrightarrow> \<exists>p. map_of idx p = Some x"
proof (induction rule: chain_to_root.induct)
  case (step c p parent cs)
  obtain ds where "cs = parent # ds" using chain_to_root_hd [OF step.hyps(3)] by blast
  then show ?case using step by auto
qed simp

lemma chain_distinct:
  assumes "indexed idx"
  shows "chain_to_root idx c cs \<Longrightarrow> map_of idx (c_audit_id c) = Some c
    \<Longrightarrow> distinct (map c_audit_id cs)"
proof (induction rule: chain_to_root.induct)
  case (step c p parent cs)
  have parent: "map_of idx (c_audit_id parent) = Some parent"
    using step.hyps(2) assms by (auto simp: indexed_def)
  have new: "c_audit_id x \<noteq> c_audit_id c" if x: "x \<in> set cs" for x
  proof
    assume same: "c_audit_id x = c_audit_id c"
    have whole: "chain_to_root idx c (c # cs)" by (rule chain_to_root.step [OF step.hyps])
    have "\<exists>q. map_of idx q = Some x" by (rule chain_to_root_indexed [OF whole]) (simp add: x)
    then obtain q where q: "map_of idx q = Some x" by blast
    then have "c_audit_id x = q" using assms by (simp add: indexed_def)
    then have "x = c" using q same step.prems by simp
    with x have "\<exists>ds. chain_to_root idx c ds \<and> length ds \<le> length cs"
      using chain_to_root_suffix [OF step.hyps(3)] by simp
    then obtain ds where ds: "chain_to_root idx c ds" "length ds \<le> length cs" by blast
    have "c # cs = ds" by (rule chain_to_root_functional [OF whole ds(1)])
    with ds(2) show False by auto
  qed
  have "c_audit_id c \<notin> c_audit_id ` set cs" using new by (metis imageE)
  then show ?case using step.IH [OF parent] by simp
qed simp

lemma cascade_walk_complete:
  "chain_to_root idx c cs \<Longrightarrow> \<forall>x \<in> set cs. \<not> link_inert revoked now uses x
   \<Longrightarrow> distinct (map c_audit_id cs) \<Longrightarrow> c_audit_id ` set cs \<inter> set visited = {}
   \<Longrightarrow> cascade_walk idx revoked now uses visited c = (False, None)"
proof (induction arbitrary: visited rule: chain_to_root.induct)
  case (stop c)
  then show ?case by (simp add: cascade_walk.simps [of idx revoked now uses visited c])
next
  case (step c p parent cs)
  have "cascade_walk idx revoked now uses (c_audit_id c # visited) parent = (False, None)"
    by (rule step.IH) (use step.prems in auto)
  then show ?case
    using step.prems step.hyps
    by (simp add: cascade_walk.simps [of idx revoked now uses visited c])
qed

lemma is_cascaded_inert_iff:
  assumes "indexed idx" and "map_of idx (c_audit_id cap) = Some cap"
  shows "fst (is_cascaded_inert cap idx revoked now uses) \<longleftrightarrow> \<not> live_chain idx revoked now uses cap"
proof
  assume "fst (is_cascaded_inert cap idx revoked now uses)"
  then have walk: "fst (cascade_walk idx revoked now uses [] cap)"
    by (simp add: is_cascaded_inert_def)
  show "\<not> live_chain idx revoked now uses cap"
  proof
    assume "live_chain idx revoked now uses cap"
    then obtain cs where cs: "chain_to_root idx cap cs"
        "\<forall>x \<in> set cs. \<not> link_inert revoked now uses x"
      unfolding live_chain_iff_chain by blast
    from cascade_walk_complete [OF this chain_distinct [OF assms(1) cs(1) assms(2)], of "[]"] walk
    show False by simp
  qed
next
  assume "\<not> live_chain idx revoked now uses cap"
  then show "fst (is_cascaded_inert cap idx revoked now uses)"
    unfolding is_cascaded_inert_def using cascade_walk_live by blast
qed

section \<open>The capability leg, characterised\<close>

lemma find_capability_Some:
  assumes "find_capability caps act (Some t) uses = Some cap"
  shows "cap \<in> set caps" and "scope_matches cap act" and "\<not> is_expired cap t"
    and "\<not> is_rate_exceeded cap t (cap_uses_for cap uses)"
  using assms by (auto simp: find_capability_def find_Some_iff usable_def)

lemma no_usable_capability_not_allow:
  "pd_decision (no_usable_capability caps act t uses esc) \<in> {DENY, REQUIRE_APPROVAL}"
  by (auto simp: no_usable_capability_def PolicyDecision_def Let_def split: option.split)

lemma decide_legacy_allow:
  assumes "pd_decision (decide_legacy reg caps act used now clock uses revoked esc) = ALLOW"
  obtains cap where "find_capability caps act
        (Some (case now of Some t \<Rightarrow> t | None \<Rightarrow> clock)) uses = Some cap"
    "\<not> fst (is_cascaded_inert cap (build_audit_id_index caps) revoked
        (case now of Some t \<Rightarrow> t | None \<Rightarrow> clock) uses)"
    "revoking_kinds cap used = []"
    "is_destructive_kind reg (a_kind act) \<longrightarrow> c_allows_destructive cap"
    "decide_legacy reg caps act used now clock uses revoked esc
       = PolicyDecision ALLOW None None (Some cap)"
proof -
  let ?t = "case now of Some t \<Rightarrow> t | None \<Rightarrow> clock"
  show thesis
  proof (cases "find_capability caps act (Some ?t) uses")
    case None
    then show ?thesis
      using assms no_usable_capability_not_allow [of caps act ?t uses esc]
      by (auto simp: decide_legacy_def Let_def)
  next
    case (Some cap)
    have eq: "decide_legacy reg caps act used now clock uses revoked esc
        = decide_with reg caps act used ?t uses revoked cap"
      using Some by (simp add: decide_legacy_def Let_def)
    obtain b who where inert: "is_cascaded_inert cap (build_audit_id_index caps) revoked ?t uses
        = (b, who)" by fastforce
    show ?thesis
      using assms unfolding eq decide_with_def Let_def inert
      by (intro that [OF Some]) (auto simp: PolicyDecision_def inert eq decide_with_def Let_def
          split: if_splits)
  qed
qed

lemma decide_legacy_decision:
  "pd_decision (decide_legacy reg caps act used now clock uses revoked esc)
     \<in> {ALLOW, DENY, REQUIRE_APPROVAL}"
  using no_usable_capability_not_allow
  by (auto simp: decide_legacy_def decide_with_def Let_def PolicyDecision_def
      split: option.split prod.split)

end
