(* ===== verification/Recovery.thy ===== *)
theory Recovery
  imports PolicyDecision
begin

text \<open>
  Recovery steps (\<open>policy/engine.py\<close>): the slash commands an operator can paste after a refusal,
  chosen by searching the rule's text. A double quote in a command is written by its code.
\<close>

definition py_quote :: "string \<Rightarrow> string" where
  "py_quote s = [CHR 0x22] @ s @ [CHR 0x22]"

definition as_command_line :: "recovery_step \<Rightarrow> string" where
  "as_command_line st =
     (let blank = (\<lambda>c. (of_char c :: nat) \<in> {9, 10, 11, 12, 13, 28, 29, 30, 31, 32, 133, 160});
          line = st_command st @ '' '' @ py_join '' '' (st_args st)
      in rev (dropWhile blank (rev (dropWhile blank line))))"

definition widen_read_fs_grant_target :: "string \<Rightarrow> string \<Rightarrow> string" where
  "widen_read_fs_grant_target k target =
     (if k \<noteq> ''READ_FS'' then target
      else if target = ''*'' \<or> suffix ''/*'' target \<or> suffix ''/**'' target then target
      else
        (let stripped = rstrip (CHR ''/'') target;
             path = (if stripped = [] then target else stripped);
             (parent, basename) = rpartition_at (CHR ''/'') path
         in (if CHR ''.'' \<in> set basename \<and> \<not> prefix ''.'' basename \<and> parent \<noteq> []
             then parent else path) @ ''/*''))"

text \<open>
  \<open>"no matching capability" in reason.lower()\<close>: of the engine's messages only one opens with it.
\<close>

fun says_no_matching :: "reason \<Rightarrow> bool" where
  "says_no_matching (NoMatchingCapability k t) = True"
| "says_no_matching _ = False"

definition grant_step :: "string list \<Rightarrow> string \<Rightarrow> recovery_step" where
  "grant_step args why = \<lparr>st_command = ''/grant'', st_args = args, st_rationale = why\<rparr>"

definition lacks_capability :: "string \<Rightarrow> string \<Rightarrow> string" where
  "lacks_capability k target =
     ''Session lacks a capability for '' @ k @ '' on '' @ target @ ''.''"

definition synthesize_recovery_steps ::
  "decision \<Rightarrow> string option \<Rightarrow> action \<Rightarrow> string option \<Rightarrow> reason option \<Rightarrow> recovery_step list"
where
  "synthesize_recovery_steps d rule act effect_class why =
     (if d \<in> {ALLOW, WARN} then []
      else
        (let k = (if kind_name (a_kind act) \<noteq> [] then kind_name (a_kind act) else ''READ_FS'');
             target = (if a_target act \<noteq> [] then a_target act else ''*'');
             grant_target = widen_read_fs_grant_target k target;
             one_shot = [k, grant_target, ''--one-shot'']
         in case rule of
              None \<Rightarrow>
                if (case why of None \<Rightarrow> False | Some r \<Rightarrow> says_no_matching r)
                then [grant_step one_shot (lacks_capability k target)]
                else []
            | Some r \<Rightarrow>
                if r = ''no-matching-capability'' \<or> contains ''no-matching'' r
                then [grant_step one_shot (lacks_capability k target)]
                else if r = ''capability-expired'' \<or> contains ''expired'' r
                then [grant_step (one_shot @ [''--ttl'', ''3600''])
                        ''Previous capability's deadline passed; grant a fresh one.'']
                else if r = DESTRUCTIVE_OP_RULE \<or> contains ''destructive'' (py_lower r)
                then [grant_step (one_shot @ [''--destructive''])
                        ''Action is destructive; grant must explicitly authorize it.'']
                else if r = RATE_LIMIT_EXCEEDED_RULE \<or> contains ''rate-limit'' (py_lower r)
                then [grant_step (one_shot @ [''--rate'', ''10/hour''])
                        ''Rate window exhausted; grant a higher-rate cap or wait.'']
                else if r = REVOKED_BY_PRIOR_USE_RULE
                then [\<lparr>st_command = ''/spawn'', st_args = [py_quote (''continue with '' @ k)],
                       st_rationale =
                         ''Capability was revoked by a prior tool use; fresh session resets the record.''\<rparr>,
                      grant_step one_shot ''Grant the capability in the fresh session.'']
                else if r = SANDBOX_NO_ACTUATOR_RULE
                     \<or> effect_class = Some ''EXECUTE.sandbox'' \<and> contains ''actuator'' (py_lower r)
                then []
                else if contains ''meets-egress'' r \<or> contains ''meets-email'' r
                then
                  (let hint = (if CHR ''@'' \<in> set target then ''send to '' @ target
                               else ''continue with '' @ k)
                   in [\<lparr>st_command = ''/spawn'', st_args = [py_quote hint],
                        st_rationale =
                          ''Session is tainted by prior reads of untrusted/sensitive content; '' @
                          ''a fresh session has no labels to conflict.''\<rparr>,
                       grant_step one_shot ''Grant the capability in the fresh session.'',
                       \<lparr>st_command = ''/override'',
                        st_args = [''request'', k, target, ''--justification'',
                          py_quote (''explicit user authorization for '' @ k @ '' on '' @ target)],
                        st_rationale =
                          ''Alternative: request operator override to bypass the label conflict '' @
                          ''in this session.''\<rparr>])
                else if r = RELAX_REFUSED_RULE
                then [\<lparr>st_command = ''/override'',
                       st_args = [''request'', k, target, ''--justification'',
                         py_quote ''operator-floor relaxation needed''],
                       st_rationale =
                         ''A v2 rule refused to relax to ALLOW; operator override is the only path.''\<rparr>]
                else []))"

end
