(* ===== verification/Engine.thy ===== *)
theory Engine
  imports CapabilityDecision Recovery
begin

text \<open>
  \<open>decide\<close> (\<open>policy/engine.py\<close>): the one chokepoint every action passes. The implementation's
  sequence of gates with early returns is split into one function per gate, composed in the code's
  order; then the capability leg, the rule leg, the reversibility and envelope legs and the two
  conflict floors are composed, and the first-use prompt is applied. The arguments are one record.
  What the code reads from outside is in it too: the clock, the id a minted capability gets, the
  library's check of a network location and the registry of custom kinds.
\<close>

section \<open>Arguments\<close>

text \<open>The places where \<open>datetime.now(UTC)\<close> is read when \<open>now\<close> is not passed.\<close>

datatype clock_read = ReadOverride | ReadLegacy | ReadV2

record decide_args =
  da_capabilities :: "capability list"
  da_action :: action
  da_used_kinds :: "kind list"
  da_now :: "time option"
  da_cap_uses :: cap_uses
  da_axis_d :: "decision_context option"
  da_effect_class :: "string option"
  da_rules_v2 :: "decision_rule list option"
  da_default_v2_outcome :: rule_outcome
  da_relax_inputs :: "relax_input list"
  da_override_grants :: "grant_store option"
  da_session_id :: "uuid option"
  da_bindings :: "source_binding list option"
  da_effective_reversibility :: "reversibility_label option"
  da_envelope_set :: "envelope_set option"
  da_risk_preference :: "risk_preference option"
  da_clearance_max_tier :: "tier option"
  da_integrity_floor_level :: "string option"
  da_risk_register :: "risk_register option"
  da_sandbox_actuator_wired :: bool
  da_devbox_manager_wired :: bool
  da_revoked_audit_ids :: "uuid list"
  da_first_use_prompt_enabled :: bool
  da_rate_limit_escalation :: bool
  da_labels :: "label_state option"
  da_egress_override_categories :: "string list"
  da_egress_override_tiers :: "string list"
  da_trust_profile_is_personal :: bool
  da_already_approved :: bool
  da_clock :: "clock_read \<Rightarrow> time"
  da_mint_audit_id :: uuid
  da_netloc_ok :: "string \<Rightarrow> bool"
  da_registry :: kind_registry

definition eff_now :: "decide_args \<Rightarrow> clock_read \<Rightarrow> time" where
  "eff_now a r = (case da_now a of Some t \<Rightarrow> t | None \<Rightarrow> da_clock a r)"

definition eff_labels :: "decide_args \<Rightarrow> label_state" where
  "eff_labels a = (case da_labels a of Some l \<Rightarrow> l | None \<Rightarrow> empty_state)"

section \<open>Gates\<close>

text \<open>The override short-circuit: a usable grant is consumed and the action is allowed.\<close>

definition override_gate :: "decide_args \<Rightarrow> (policy_decision \<times> grant_store) option" where
  "override_gate a =
     (case (da_override_grants a, da_session_id a) of
        (Some st, Some sid) \<Rightarrow>
          (let t = eff_now a ReadOverride; k = a_kind (da_action a); target = a_target (da_action a)
           in case find_active st sid k target t of
                None \<Rightarrow> None
              | Some g \<Rightarrow>
                  (case use_override g k target t (da_mint_audit_id a) of
                     Inl _ \<Rightarrow> None
                   | Inr cap \<Rightarrow>
                       Some (PolicyDecision ALLOW (Some ''override-grant-active'')
                               (Some (OverrideGrantAuthorizes (og_id g) (kind_name k) target
                                        (og_expires_at g))) (Some cap),
                             store_update st (consume_for g k target t))))
      | _ \<Rightarrow> None)"

definition target_uses_binding_namespace :: "string \<Rightarrow> bool" where
  "target_uses_binding_namespace target \<longleftrightarrow>
     prefix ''/'' target \<or> contains ''://'' target \<or> prefix ''mcp:'' target"

definition binding_gate :: "decide_args \<Rightarrow> policy_decision + string option" where
  "binding_gate a =
     (case da_bindings a of
        None \<Rightarrow> Inr None
      | Some bs \<Rightarrow>
          (let target = a_target (da_action a)
           in if target \<noteq> [] \<and> target_uses_binding_namespace target
              then (case resolve_binding (da_netloc_ok a) bs target of
                      Inl _ \<Rightarrow> Inl (PolicyDecision DENY (Some BINDING_UNBOUND_RULE)
                                     (Some (BindingRefused target)) None)
                    | Inr r \<Rightarrow> Inr (Some (br_canonical_destination_id r)))
              else Inr None))"

definition EGRESS_EFFECT_MARKERS :: "string list" where
  "EGRESS_EFFECT_MARKERS = [''egress'', ''send'', ''post'', ''write_remote'', ''share'']"

definition effect_class_is_egressing :: "string option \<Rightarrow> bool" where
  "effect_class_is_egressing effect_class =
     (case effect_class of
        None \<Rightarrow> False
      | Some e \<Rightarrow> e \<noteq> [] \<and> list_ex (\<lambda>marker. contains marker (py_lower e)) EGRESS_EFFECT_MARKERS)"

definition egress_needs_override ::
  "label_state option \<Rightarrow> string list \<Rightarrow> string list \<Rightarrow> bool" where
  "egress_needs_override labels override_categories override_tiers =
     (case labels of
        None \<Rightarrow> False
      | Some l \<Rightarrow>
          if override_categories = [] \<and> override_tiers = [] then False
          else list_ex (\<lambda>tag. ct_category tag \<in> set override_categories
                           \<or> tier_value (ct_tier tag) \<in> set override_tiers) (ls_a l))"

definition reversibility_leg :: "decide_args \<Rightarrow> leg option" where
  "reversibility_leg a =
     (case (da_effective_reversibility a, da_effect_class a) of
        (Some rv, Some eff) \<Rightarrow>
          (case reversibility_gate eff rv of (gate, _, why) \<Rightarrow>
             (case gate of
                GATE_DENY \<Rightarrow>
                  if is_communication_egress eff then
                    (if egress_needs_override (Some (eff_labels a))
                          (da_egress_override_categories a) (da_egress_override_tiers a)
                     then Some (OVERRIDE_REQUIRED, ''egress-requires-override'',
                                EgressOverrideReason)
                     else Some (REQUIRE_APPROVAL, ''egress-requires-approval'',
                                EgressApprovalReason))
                  else Some (DENY, REVERSIBILITY_IRREVERSIBLE_RULE, GateRationale why)
              | GATE_REQUIRE_APPROVAL \<Rightarrow>
                  Some (REQUIRE_APPROVAL, REVERSIBILITY_REQUIRES_APPROVAL_RULE, GateRationale why)
              | AUTO_OK \<Rightarrow>
                  (let opt = evaluate_optimistic rv (effect_class_is_egressing (Some eff))
                   in if od_should_auto opt
                      then Some (ALLOW, OPTIMISTIC_AUTO_RULE,
                                 OptimisticRationale (od_rationale opt))
                      else None)))
      | _ \<Rightarrow> None)"

text \<open>A gate's decision records the axes it was made on.\<close>

definition gate_decision :: "decide_args \<Rightarrow> decision \<Rightarrow> string \<Rightarrow> reason \<Rightarrow> policy_decision" where
  "gate_decision a d rule why =
     (PolicyDecision d (Some rule) (Some why) None)
       \<lparr>pd_labels_snapshot := Some (eff_labels a), pd_axis_d_snapshot := da_axis_d a,
        pd_effect_class := da_effect_class a\<rparr>"

definition control_plane_gate :: "decide_args \<Rightarrow> policy_decision option" where
  "control_plane_gate a =
     (case da_effect_class a of
        None \<Rightarrow> None
      | Some eff \<Rightarrow>
          if is_control_plane_effect eff \<and> \<not> control_plane_admissible eff (eff_labels a)
          then Some (gate_decision a DENY CONTROL_PLANE_TAINTED_RULE (ControlPlaneTainted eff))
          else None)"

definition sandbox_gate :: "decide_args \<Rightarrow> policy_decision option" where
  "sandbox_gate a =
     (case da_effect_class a of
        None \<Rightarrow> None
      | Some eff \<Rightarrow>
          if prefix ''execute.sandbox'' (py_lower eff) \<and> \<not> da_sandbox_actuator_wired a
          then Some (gate_decision a OVERRIDE_REQUIRED SANDBOX_NO_ACTUATOR_RULE (SandboxMissing eff))
          else None)"

definition devbox_gate :: "decide_args \<Rightarrow> policy_decision option" where
  "devbox_gate a =
     (case da_effect_class a of
        None \<Rightarrow> None
      | Some eff \<Rightarrow>
          if prefix ''execute.devbox'' (py_lower eff) \<and> \<not> da_devbox_manager_wired a
          then Some (gate_decision a OVERRIDE_REQUIRED DEVBOX_NO_MANAGER_RULE (DevboxMissing eff))
          else None)"

definition risk_citation_gate :: "decide_args \<Rightarrow> policy_decision option" where
  "risk_citation_gate a =
     (case da_risk_register a of
        None \<Rightarrow> None
      | Some reg \<Rightarrow>
          (case find (\<lambda>cat. ct_risk_ids cat \<noteq> []
                         \<and> validate_label_citation (ct_risk_ids cat) reg \<noteq> [])
                  (ls_a (eff_labels a)) of
             None \<Rightarrow> None
           | Some cat \<Rightarrow>
               Some (gate_decision a DENY ORPHAN_RISK_CITATION_RULE
                 (OrphanRisk (ct_category cat)
                    (sort (validate_label_citation (ct_risk_ids cat) reg))))))"

definition clearance_gate :: "decide_args \<Rightarrow> policy_decision option" where
  "clearance_gate a =
     (case da_clearance_max_tier a of
        None \<Rightarrow> None
      | Some max_tier \<Rightarrow>
          (case find (\<lambda>cat. compare (ct_tier cat) max_tier > 0) (ls_a (eff_labels a)) of
             None \<Rightarrow> None
           | Some cat \<Rightarrow>
               Some (gate_decision a DENY CLEARANCE_REFUSED_RULE
                 (ClearanceRefused max_tier (ct_category cat) (ct_tier cat)))))"

definition integrity_gate :: "decide_args \<Rightarrow> policy_decision option" where
  "integrity_gate a =
     (case da_integrity_floor_level a of
        None \<Rightarrow> None
      | Some floor_level \<Rightarrow>
          (case find (\<lambda>entry. check_integrity_floor floor_level
                                (provenance_value (pt_level entry)) \<noteq> Inr ())
                  (ls_b (eff_labels a)) of
             None \<Rightarrow> None
           | Some entry \<Rightarrow>
               Some (gate_decision a DENY INTEGRITY_FLOOR_REFUSED_RULE
                 (IntegrityRefused floor_level (provenance_value (pt_level entry))))))"

fun dial_value :: "risk_preference \<Rightarrow> string" where
  "dial_value CAUTIOUS = ''cautious''"
| "dial_value BALANCED = ''balanced''"
| "dial_value PERMISSIVE = ''permissive''"

fun outcome_value :: "rule_outcome \<Rightarrow> string" where
  "outcome_value RO_DENY = ''deny''"
| "outcome_value RO_OVERRIDE_REQUIRED = ''override-required''"
| "outcome_value RO_REQUIRE_APPROVAL = ''require-approval''"
| "outcome_value RO_SUGGEST = ''suggest''"
| "outcome_value RO_AUTO = ''auto''"
| "outcome_value RO_SHADOW = ''shadow''"

text \<open>The cell uses the first category of the set's iteration order.\<close>

definition envelope_leg :: "decide_args \<Rightarrow> py_error + leg option" where
  "envelope_leg a =
     (case (da_envelope_set a, da_risk_preference a, da_effect_class a, da_axis_d a,
            da_effective_reversibility a, ls_a (eff_labels a)) of
        (Some es, Some dial, Some eff, Some axis_d, Some rv, tag # _) \<Rightarrow>
          (let cell = \<lparr>ck_category = ct_category tag, ck_effect = eff,
                       ck_decision_context_canonical = dc_initiator axis_d,
                       ck_reversibility = degree_value (rv_degree rv)\<rparr>
           in case envelope_lookup es cell of
                None \<Rightarrow> Inr None
              | Some env \<Rightarrow>
                  (case select env dial of
                     Inl e \<Rightarrow> Inl e
                   | Inr selected \<Rightarrow>
                       (case V2_TO_LEGACY selected of
                          None \<Rightarrow> Inl KeyError
                        | Some d \<Rightarrow>
                            Inr (Some (d, ENVELOPE_DIAL_RULE @ '':'' @ dial_value dial @ ''->''
                                         @ outcome_value selected,
                                       EnvelopeReason cell dial selected)))))
      | _ \<Rightarrow> Inr None)"

definition relax_gate :: "decide_args \<Rightarrow> policy_decision option" where
  "relax_gate a =
     (let inspected = inspect_relax_inputs (da_relax_inputs a)
      in if da_relax_inputs a \<noteq> [] \<and> has_refusal inspected
         then Some ((PolicyDecision DENY (Some RELAX_REFUSED_RULE)
                      (Some (RelaxRefused (sort (remdups (map ri_origin (rx_refused inspected))))))
                      None)\<lparr>pd_refused_relax_inputs := rx_refused inspected\<rparr>)
         else None)"

section \<open>Composition\<close>

definition capability_leg :: "decide_args \<Rightarrow> policy_decision" where
  "capability_leg a =
     decide_legacy (da_registry a) (da_capabilities a) (da_action a) (da_used_kinds a) (da_now a)
       (da_clock a ReadLegacy) (da_cap_uses a) (da_revoked_audit_ids a)
       (da_rate_limit_escalation a)"

definition conflict_leg :: "decide_args \<Rightarrow> leg option" where
  "conflict_leg a = conflict_invariant_outcome (eff_labels a) (da_action a)"

definition fetch_leg :: "decide_args \<Rightarrow> string option \<Rightarrow> leg option" where
  "fetch_leg a canonical_target =
     fetch_url_egress_outcome (eff_labels a) (da_action a)
       (canonical_target \<noteq> None \<and> target_is_remote_url (a_target (da_action a)))"

definition first_use :: "decide_args \<Rightarrow> policy_decision \<Rightarrow> policy_decision" where
  "first_use a pd =
     maybe_first_use_escalation pd (da_action a) (da_used_kinds a) (da_first_use_prompt_enabled a)"

definition with_reversibility ::
  "leg option \<Rightarrow> bool \<Rightarrow> bool \<Rightarrow> policy_decision \<Rightarrow> policy_decision" where
  "with_reversibility leg approved standing pd =
     (case leg of None \<Rightarrow> pd | Some l \<Rightarrow> compose_with_reversibility pd l approved standing)"

definition with_envelope :: "leg option \<Rightarrow> bool \<Rightarrow> policy_decision \<Rightarrow> policy_decision" where
  "with_envelope leg approved pd =
     (case leg of None \<Rightarrow> pd | Some l \<Rightarrow> compose_with_envelope pd l approved)"

definition compose_legacy_only ::
  "decide_args \<Rightarrow> string option \<Rightarrow> leg option \<Rightarrow> policy_decision" where
  "compose_legacy_only a canonical_target env =
     (let result = with_reversibility (reversibility_leg a) False False (capability_leg a);
          result = with_envelope env False result;
          result = compose_with_conflict_invariant result (conflict_leg a) [] False;
          result = compose_with_conflict_invariant result (fetch_leg a canonical_target) [] False
      in first_use a result)"

text \<open>The hour of day of a time, UTC.\<close>

definition hour_of :: "time \<Rightarrow> int" where
  "hour_of t = (t div 3600000000) mod 24"

definition standing_destructive :: "decide_args \<Rightarrow> policy_decision \<Rightarrow> bool" where
  "standing_destructive a legacy \<longleftrightarrow>
     is_destructive_kind (da_registry a) (a_kind (da_action a)) \<and> pd_decision legacy = ALLOW
     \<and> (case pd_matched_capability legacy of
          None \<Rightarrow> False | Some cap \<Rightarrow> c_allows_destructive cap)"

definition compose_full ::
  "decide_args \<Rightarrow> decision_context \<Rightarrow> string \<Rightarrow> evaluation_result \<Rightarrow> string option \<Rightarrow> leg option
   \<Rightarrow> py_error + policy_decision" where
  "compose_full a axis_d eff v2 canonical_target env =
     (let legacy = capability_leg a; standing = standing_destructive a legacy;
          approved = da_already_approved a; personal = da_trust_profile_is_personal a
      in case compose_with_v2 legacy v2 approved standing of
           Inl e \<Rightarrow> Inl e
         | Inr composed \<Rightarrow>
             (let composed = with_reversibility (reversibility_leg a) approved standing composed;
                  composed = with_envelope env approved composed;
                  composed = compose_with_conflict_invariant composed (conflict_leg a)
                    (ev_crossed_floors v2) personal;
                  composed = compose_with_conflict_invariant composed (fetch_leg a canonical_target)
                    (ev_crossed_floors v2) personal;
                  final = composed\<lparr>pd_labels_snapshot := Some (eff_labels a),
                    pd_axis_d_snapshot := Some axis_d, pd_effect_class := Some eff\<rparr>
              in Inr (first_use a final)))"

definition compose_legs ::
  "decide_args \<Rightarrow> string option \<Rightarrow> leg option \<Rightarrow> py_error + policy_decision" where
  "compose_legs a canonical_target env =
     (case (da_axis_d a, da_effect_class a, da_rules_v2 a) of
        (Some axis_d, Some eff, Some rules) \<Rightarrow>
          (case evaluate rules (eff_labels a) axis_d eff
                  (case canonical_target of Some t \<Rightarrow> t | None \<Rightarrow> a_target (da_action a))
                  (da_default_v2_outcome a) (Some (hour_of (eff_now a ReadV2))) of
             Inl e \<Rightarrow> Inl e
           | Inr v2 \<Rightarrow> compose_full a axis_d eff v2 canonical_target env)
      | _ \<Rightarrow> Inr (compose_legacy_only a canonical_target env))"

fun first_some :: "'a option list \<Rightarrow> 'a option" where
  "first_some [] = None"
| "first_some (None # xs) = first_some xs"
| "first_some (Some x # xs) = Some x"

definition refusal_gates :: "decide_args \<Rightarrow> policy_decision option list" where
  "refusal_gates a =
     [control_plane_gate a, sandbox_gate a, devbox_gate a, risk_citation_gate a, clearance_gate a,
      integrity_gate a]"

definition decide_gated :: "decide_args \<Rightarrow> py_error + policy_decision" where
  "decide_gated a =
     (case binding_gate a of
        Inl refused \<Rightarrow> Inr refused
      | Inr canonical_target \<Rightarrow>
          (case first_some (refusal_gates a) of
             Some refused \<Rightarrow> Inr refused
           | None \<Rightarrow>
               (case envelope_leg a of
                  Inl e \<Rightarrow> Inl e
                | Inr env \<Rightarrow>
                    (case relax_gate a of
                       Some refused \<Rightarrow> Inr refused
                     | None \<Rightarrow> compose_legs a canonical_target env))))"

text \<open>The decision and the grant store after it.\<close>

definition decide_impl ::
  "decide_args \<Rightarrow> (py_error + policy_decision) \<times> grant_store option" where
  "decide_impl a =
     (case override_gate a of
        Some (pd, st) \<Rightarrow> (Inr pd, Some st)
      | None \<Rightarrow> (decide_gated a, da_override_grants a))"

definition add_recovery :: "decide_args \<Rightarrow> policy_decision \<Rightarrow> policy_decision" where
  "add_recovery a result =
     (if pd_decision result = ALLOW \<or> pd_recovery_steps result \<noteq> [] then result
      else
        (let eff = (case pd_effect_class result of
                      Some e \<Rightarrow> if e \<noteq> [] then Some e else da_effect_class a
                    | None \<Rightarrow> da_effect_class a);
             steps = synthesize_recovery_steps (pd_decision result) (pd_rule result) (da_action a)
                       eff (pd_reason result)
         in if steps \<noteq> [] then result\<lparr>pd_recovery_steps := steps\<rparr> else result))"

definition decide :: "decide_args \<Rightarrow> (py_error + policy_decision) \<times> grant_store option" where
  "decide a =
     (case decide_impl a of
        (Inl e, st) \<Rightarrow> (Inl e, st)
      | (Inr result, st) \<Rightarrow> (Inr (add_recovery a result), st))"

end
