(* ===== verification/OverrideLemmas.thy ===== *)
theory OverrideLemmas
  imports Overrides
begin

text \<open>
  The life of an override grant: requested, attested under dual control, used. The facts proved over
  it are who may cross a floor, for how long, and how often; the store's contract is the locale
  \<open>record_store\<close>.
\<close>

section \<open>The request gate\<close>

lemma gate_request_Inr_iff:
  "gate_request ps fl invoker friction = Inr entry
   \<longleftrightarrow> policies_get ps fl = Some entry \<and> pe_policy entry \<noteq> DISALLOWED
     \<and> invoker \<in> set (pe_authorized_principal_ids entry) \<and> friction"
  by (auto simp: gate_request_def Let_def split: option.splits if_splits)

lemma request_override_Inr:
  assumes "request_override ps sid k t tct fl invoker friction now gid aid = Inr g"
  shows "gate_request ps fl invoker friction = Inr (og_policy_at_grant g)"
    and "og_invoker_principal g = invoker" and "og_attester_principal g = None"
    and "og_state g = initial_state (og_policy_at_grant g)"
    and "og_expires_at g = now + pe_expiry_seconds (og_policy_at_grant g) * 1000000"
    and "og_consumed_members g = []" and "og_consumed_at g = None"
    and "og_hard_floor_crossed g = fl"
  using assms by (auto simp: request_override_def split: sum.splits)

lemma request_group_override_Inr:
  assumes "request_group_override ps sid ms tct fl invoker friction now gid aid = Inr (Inr g)"
  shows "gate_request ps fl invoker friction = Inr (og_policy_at_grant g)"
    and "og_invoker_principal g = invoker" and "og_attester_principal g = None"
    and "og_state g = initial_state (og_policy_at_grant g)"
    and "og_expires_at g = now + pe_expiry_seconds (og_policy_at_grant g) * 1000000"
    and "og_consumed_members g = []" and "og_consumed_at g = None"
    and "og_hard_floor_crossed g = fl"
  using assms by (auto simp: request_group_override_def Let_def split: sum.splits list.splits)

lemma attest_override_Inr_iff:
  "attest_override g attester confirmed now = Inr g'
   \<longleftrightarrow> \<not> grant_expired g now \<and> og_state g = G_PENDING_ATTESTATION
     \<and> attester \<noteq> og_invoker_principal g
     \<and> attester \<in> set (pe_attester_principal_ids (og_policy_at_grant g)) \<and> confirmed
     \<and> g' = g\<lparr>og_state := G_ACTIVE, og_attester_principal := Some attester\<rparr>"
  by (auto simp: attest_override_def Let_def)

lemma use_override_ok_iff:
  "(\<exists>cap. use_override g k t now aid = Inr cap)
   \<longleftrightarrow> og_state g = G_ACTIVE \<and> \<not> grant_expired g now \<and> is_for g k t"
  by (auto simp: use_override_def Let_def)

lemma use_override_cap:
  "use_override g k t now aid = Inr cap \<Longrightarrow>
     c_kind cap = k \<and> c_pattern cap = t \<and> c_origin cap = OVERRIDE_GRANTED
     \<and> c_expiry cap = ONE_SHOT \<and> c_expires_at cap = Some (og_expires_at g)
     \<and> c_override_grant_id cap = Some (og_id g)"
  by (auto simp: use_override_def Let_def Capability_def split: if_splits)

section \<open>The life of a grant\<close>

inductive grant_life :: "override_policies \<Rightarrow> override_grant \<Rightarrow> bool" for ps where
  requested: "request_override ps sid k t tct fl invoker friction now gid aid = Inr g
     \<Longrightarrow> grant_life ps g"
| requested_group:
    "request_group_override ps sid ms tct fl invoker friction now gid aid = Inr (Inr g)
     \<Longrightarrow> grant_life ps g"
| attested: "grant_life ps g \<Longrightarrow> attest_override g attester confirmed now = Inr g'
     \<Longrightarrow> grant_life ps g'"
| used: "grant_life ps g \<Longrightarrow> use_override g k t now aid = Inr cap
     \<Longrightarrow> grant_life ps (consume_for g k t now)"

definition grant_inv :: "override_policies \<Rightarrow> override_grant \<Rightarrow> bool" where
  "grant_inv ps g \<longleftrightarrow>
     (let entry = og_policy_at_grant g
      in policies_get ps (og_hard_floor_crossed g) = Some entry
       \<and> pe_policy entry \<noteq> DISALLOWED
       \<and> og_invoker_principal g \<in> set (pe_authorized_principal_ids entry)
       \<and> (pe_policy entry = DUAL_CONTROL \<longrightarrow>
            og_state g = G_PENDING_ATTESTATION
            \<or> (\<exists>a. og_attester_principal g = Some a \<and> a \<noteq> og_invoker_principal g
                \<and> a \<in> set (pe_attester_principal_ids entry))))"

lemma consume_for_fields [simp]:
  "og_policy_at_grant (consume_for g k t now) = og_policy_at_grant g"
  "og_invoker_principal (consume_for g k t now) = og_invoker_principal g"
  "og_attester_principal (consume_for g k t now) = og_attester_principal g"
  "og_hard_floor_crossed (consume_for g k t now) = og_hard_floor_crossed g"
  "og_group_members (consume_for g k t now) = og_group_members g"
  "og_session_id (consume_for g k t now) = og_session_id g"
  "og_expires_at (consume_for g k t now) = og_expires_at g"
  "og_id (consume_for g k t now) = og_id g"
  "is_group (consume_for g k t now) = is_group g"
  by (simp_all add: consume_for_def Let_def is_group_def)

lemma grant_life_inv: "grant_life ps g \<Longrightarrow> grant_inv ps g"
proof (induction rule: grant_life.induct)
  case (requested sid k t tct fl invoker friction now gid aid g)
  note r = request_override_Inr [OF requested]
  show ?case using r by (auto simp: grant_inv_def Let_def gate_request_Inr_iff initial_state_def)
next
  case (requested_group sid ms tct fl invoker friction now gid aid g)
  note r = request_group_override_Inr [OF requested_group]
  show ?case using r by (auto simp: grant_inv_def Let_def gate_request_Inr_iff initial_state_def)
next
  case (attested g attester confirmed now g')
  then show ?case by (auto simp: grant_inv_def Let_def attest_override_Inr_iff)
next
  case (used g k t now aid cap)
  then have "og_state g = G_ACTIVE" using use_override_ok_iff by blast
  with used show ?case by (auto simp: grant_inv_def Let_def)
qed

section \<open>Single use\<close>

text \<open>A pair is spent: a single grant is consumed, a group grant has recorded the member.\<close>

definition spent :: "override_grant \<Rightarrow> string \<Rightarrow> string \<Rightarrow> bool" where
  "spent g n t \<longleftrightarrow>
     (if is_group g then (n, t) \<in> (\<lambda>(k, t). (kind_name k, t)) ` set (og_consumed_members g)
      else og_state g = G_CONSUMED)"

lemma spent_refused: "spent g (kind_name k) t \<Longrightarrow> \<exists>r. use_override g k t now aid = Inl r"
  by (auto simp: spent_def use_override_def is_for_def member_in_def Let_def split: if_splits)

lemma consume_spends: "spent (consume_for g k t now) (kind_name k) t"
  by (auto simp: spent_def consume_for_def Let_def is_group_def)

lemma consume_keeps_spent: "spent g n t \<Longrightarrow> spent (consume_for g k t' now) n t"
  by (auto simp: spent_def consume_for_def Let_def is_group_def)

text \<open>
  A sequence of attempts to use a grant, each success consuming the pair it used, as \<open>decide\<close>
  does; the result lists the pairs that were authorised.
\<close>

fun run_uses ::
  "override_grant \<Rightarrow> (kind \<times> string \<times> time \<times> uuid) list \<Rightarrow> (string \<times> string) list" where
  "run_uses g [] = []"
| "run_uses g ((k, t, now, aid) # as) =
     (case use_override g k t now aid of
        Inl _ \<Rightarrow> run_uses g as
      | Inr cap \<Rightarrow> (kind_name k, t) # run_uses (consume_for g k t now) as)"

lemma run_uses_not_spent: "spent g n t \<Longrightarrow> (n, t) \<notin> set (run_uses g as)"
proof (induction g as rule: run_uses.induct)
  case (2 g k t' now aid as)
  show ?case
  proof (cases "use_override g k t' now aid")
    case (Inl r)
    then show ?thesis using 2 by simp
  next
    case (Inr cap)
    have "(n, t) \<noteq> (kind_name k, t')"
    proof
      assume "(n, t) = (kind_name k, t')"
      then have "spent g (kind_name k) t'" using "2.prems" by simp
      from spent_refused [OF this, of now aid] show False using Inr by auto
    qed
    then show ?thesis using Inr "2.IH"(2) [OF Inr] consume_keeps_spent "2.prems" by simp
  qed
qed simp

lemma run_uses_distinct: "distinct (run_uses g as)"
proof (induction g as rule: run_uses.induct)
  case (2 g k t now aid as)
  then show ?case using run_uses_not_spent [OF consume_spends] by (simp split: sum.split)
qed simp

lemma run_uses_authorised:
  "(n, t) \<in> set (run_uses g as) \<Longrightarrow>
     if is_group g then (n, t) \<in> (\<lambda>(k, t). (kind_name k, t)) ` set (og_group_members g)
     else n = kind_name (og_action_kind g) \<and> t = og_target g"
proof (induction g as rule: run_uses.induct)
  case (2 g k t' now aid as)
  show ?case
  proof (cases "use_override g k t' now aid")
    case (Inl r)
    then show ?thesis using 2 by simp
  next
    case (Inr cap)
    have fields: "og_action_kind (consume_for g k t' now) = og_action_kind g"
        "og_target (consume_for g k t' now) = og_target g"
      by (simp_all add: consume_for_def Let_def)
    have "is_for g k t'" using Inr use_override_ok_iff by blast
    then show ?thesis
      using Inr "2.IH"(2) [OF Inr] "2.prems" fields
      by (auto simp: is_for_def member_in_def kind_eq_def split: if_splits)
  qed
qed simp

section \<open>The store\<close>

lemma store_get_add: "store_get (store_add st g) i = (if i = og_id g then Some g else store_get st i)"
  by (auto simp: store_get_def store_add_def persist_grant_def update_conv' split: option.split)

interpretation grants: record_store og_id store_get store_add
  by unfold_locales (rule store_get_add)

lemma store_get_update:
  "store_get (store_update st g) i =
     (if i = og_id g \<and> store_get st i \<noteq> None then Some g else store_get st i)"
  by (auto simp: store_get_def store_update_def persist_grant_def update_conv' split: option.split)

lemma find_active_Some:
  assumes "find_active st sid k t now = Some g"
  shows "g \<in> set (store_list_all st)" and "og_session_id g = sid" and "is_for g k t"
    and "og_state g = G_ACTIVE" and "\<not> grant_expired g now" and "og_consumed_at g = None"
proof -
  let ?P = "\<lambda>g. og_session_id g = sid \<and> is_for g k t \<and> og_state g = G_ACTIVE
      \<and> \<not> grant_expired g now \<and> og_consumed_at g = None"
  have "g \<in> set (sort_key og_id (filter ?P (map snd (gs_by_id st))))"
    using assms unfolding find_active_def
    by (cases "sort_key og_id (filter ?P (map snd (gs_by_id st)))") simp_all
  then have "g \<in> set (filter ?P (map snd (gs_by_id st)))" by (simp only: set_sort)
  then show "g \<in> set (store_list_all st)" and "og_session_id g = sid" and "is_for g k t"
    and "og_state g = G_ACTIVE" and "\<not> grant_expired g now" and "og_consumed_at g = None"
    by (auto simp: store_list_all_def)
qed

lemma find_active_usable:
  "find_active st sid k t now = Some g \<Longrightarrow> \<exists>cap. use_override g k t now aid = Inr cap"
  unfolding use_override_ok_iff
  by (intro conjI; erule find_active_Some)

lemma policies_get_expiry:
  assumes "\<forall>fl e. op_by_floor ps fl = Some e \<longrightarrow> OverridePolicyEntry e = Inr e"
    and "policies_get ps fl = Some e"
  shows "0 < pe_expiry_seconds e \<and> pe_expiry_seconds e \<le> 3600"
proof (cases "op_by_floor ps fl")
  case None
  then have "\<exists>who. e = operator_default_entry fl who"
    using assms(2) by (auto simp: policies_get_def split: option.splits if_splits)
  then show ?thesis
    by (auto simp: operator_default_entry_def OVERRIDE_EXPIRY_DEFAULT_SECONDS_def)
next
  case (Some e')
  then have "e' = e" using assms(2) by (simp add: policies_get_def)
  moreover have "OverridePolicyEntry e' = Inr e'" using assms(1) Some by blast
  ultimately show ?thesis
    by (auto simp: OverridePolicyEntry_def OVERRIDE_EXPIRY_MAX_SECONDS_def split: if_splits)
qed

section \<open>Properties\<close>

text \<open>
  Who can cross a floor: a grant that came out of the request, attestation and use operations
  and is usable was invoked by a principal its policy authorises, under a policy that is not
  \<open>disallowed\<close>, and under dual control it was attested by a different, authorised attester; it is
  unexpired, and the capability it mints is a one-shot for exactly the requested kind and target
  that expires with the grant.
\<close>

theorem override_use_authorised:
  assumes "grant_life ps g" and "use_override g k t now aid = Inr cap"
  shows "policies_get ps (og_hard_floor_crossed g) = Some (og_policy_at_grant g)
     \<and> pe_policy (og_policy_at_grant g) \<noteq> DISALLOWED
     \<and> og_invoker_principal g \<in> set (pe_authorized_principal_ids (og_policy_at_grant g))
     \<and> (pe_policy (og_policy_at_grant g) = DUAL_CONTROL \<longrightarrow>
          (\<exists>a. og_attester_principal g = Some a \<and> a \<noteq> og_invoker_principal g
             \<and> a \<in> set (pe_attester_principal_ids (og_policy_at_grant g))))
     \<and> now < og_expires_at g \<and> c_kind cap = k \<and> c_pattern cap = t
     \<and> c_origin cap = OVERRIDE_GRANTED \<and> c_expires_at cap = Some (og_expires_at g)"
  using grant_life_inv [OF assms(1)] use_override_cap [OF assms(2)]
    use_override_ok_iff [of g k t now aid] assms(2)
  by (auto simp: grant_inv_def Let_def grant_expired_def)

definition sample_policies :: override_policies where
  "sample_policies =
     \<lparr>op_by_floor = (\<lambda>_. Some \<lparr>pe_floor = HEALTH_EGRESS, pe_policy = DUAL_CONTROL,
         pe_authorized_principal_ids = [''alice''], pe_attester_principal_ids = [''bob''],
         pe_expiry_seconds = 900, pe_friction_level = None\<rparr>),
      op_trust_profile = MANAGED, op_operator_principal = None\<rparr>"

theorem override_use_authorised_witness:
  "\<exists>g cap. use_override g (BuiltIn SEND_EMAIL) ''x'' 1 9 = Inr cap
     \<and> pe_policy (og_policy_at_grant g) = DUAL_CONTROL
     \<and> (\<exists>a. og_attester_principal g = Some a \<and> a \<noteq> og_invoker_principal g)"
proof -
  obtain g0 where g0: "request_override sample_policies 1 (BuiltIn SEND_EMAIL) ''x'' ([], [])
      HEALTH_EGRESS ''alice'' True 0 7 8 = Inr g0"
    by (simp add: request_override_def gate_request_def policies_get_def sample_policies_def)
  obtain g1 where g1: "attest_override g0 ''bob'' True 0 = Inr g1"
    using g0 by (auto simp: request_override_def gate_request_def policies_get_def
        sample_policies_def attest_override_def grant_expired_def initial_state_def)
  obtain cap where cap: "use_override g1 (BuiltIn SEND_EMAIL) ''x'' 1 9 = Inr cap"
    using g0 g1 by (auto simp: request_override_def gate_request_def policies_get_def
        sample_policies_def attest_override_def grant_expired_def initial_state_def
        use_override_def is_for_def is_group_def kind_eq_def)
  have life: "grant_life sample_policies g1"
    by (rule grant_life.attested [OF grant_life.requested [OF g0] g1])
  have "pe_policy (og_policy_at_grant g1) = DUAL_CONTROL"
    using g0 g1 by (auto simp: request_override_def gate_request_def policies_get_def
        sample_policies_def attest_override_def grant_expired_def initial_state_def)
  then show ?thesis using override_use_authorised [OF life cap] cap by blast
qed

text \<open>
  An override is single-use: over any sequence of attempts, no pair is authorised twice, and
  only the grant's own pair (or the members of its group) is ever authorised.
\<close>

theorem override_single_use:
  "distinct (run_uses g as)
   \<and> set (run_uses g as) \<subseteq>
       (if is_group g then (\<lambda>(k, t). (kind_name k, t)) ` set (og_group_members g)
        else {(kind_name (og_action_kind g), og_target g)})"
  using run_uses_distinct [of g as] run_uses_authorised [of _ _ g as]
  by (auto split: if_splits)

text \<open>
  The one-hour cap: a policy entry its constructor accepted yields grants, single or group, that
  expire at most 3600 seconds after the request and never before it.
\<close>

theorem override_expiry_capped:
  assumes "\<And>fl e. op_by_floor ps fl = Some e \<Longrightarrow> OverridePolicyEntry e = Inr e"
    and "request_override ps sid k t tct fl invoker friction now gid aid = Inr g
      \<or> request_group_override ps sid ms tct fl invoker friction now gid aid = Inr (Inr g)"
  shows "now < og_expires_at g \<and> og_expires_at g \<le> now + 3600 * 1000000"
proof -
  have exp: "og_expires_at g = now + pe_expiry_seconds (og_policy_at_grant g) * 1000000"
    and "policies_get ps fl = Some (og_policy_at_grant g)"
    using assms(2) unfolding atomize_conj
  proof (elim disjE)
    assume h: "request_override ps sid k t tct fl invoker friction now gid aid = Inr g"
    show "og_expires_at g = now + pe_expiry_seconds (og_policy_at_grant g) * 1000000
        \<and> policies_get ps fl = Some (og_policy_at_grant g)"
      using request_override_Inr(1,5) [OF h] by (simp add: gate_request_Inr_iff)
  next
    assume h: "request_group_override ps sid ms tct fl invoker friction now gid aid = Inr (Inr g)"
    show "og_expires_at g = now + pe_expiry_seconds (og_policy_at_grant g) * 1000000
        \<and> policies_get ps fl = Some (og_policy_at_grant g)"
      using request_group_override_Inr(1,5) [OF h] by (simp add: gate_request_Inr_iff)
  qed
  then have "0 < pe_expiry_seconds (og_policy_at_grant g)
      \<and> pe_expiry_seconds (og_policy_at_grant g) \<le> 3600"
    using policies_get_expiry [of ps fl] assms(1) by blast
  then show ?thesis by (simp add: exp)
qed

theorem override_expiry_capped_witness:
  "\<exists>g. request_override sample_policies 1 (BuiltIn SEND_EMAIL) ''x'' ([], [])
      HEALTH_EGRESS ''alice'' True 0 7 8 = Inr g
    \<and> 0 < og_expires_at g \<and> og_expires_at g \<le> 0 + 3600 * 1000000"
proof -
  obtain g0 where g0: "request_override sample_policies 1 (BuiltIn SEND_EMAIL) ''x'' ([], [])
      HEALTH_EGRESS ''alice'' True 0 7 8 = Inr g0"
    by (simp add: request_override_def gate_request_def policies_get_def sample_policies_def)
  have "OverridePolicyEntry e = Inr e" if "op_by_floor sample_policies fl = Some e" for fl e
    using that by (auto simp: sample_policies_def OverridePolicyEntry_def
        OVERRIDE_EXPIRY_MAX_SECONDS_def)
  then have "0 < og_expires_at g0 \<and> og_expires_at g0 \<le> 0 + 3600 * 1000000"
    by (rule override_expiry_capped) (use g0 in blast)+
  with g0 show ?thesis by blast
qed

text \<open>
  A persisted override for a custom kind makes the grant table unreadable: the row is written
  under the kind's name, and opening the store again raises \<open>ValueError\<close> on it.
\<close>

theorem custom_kind_grant_breaks_reload:
  assumes "og_action_kind g = Custom s" and "s \<notin> range kind_value" and "\<not> is_group g"
    and "OverridePolicyEntry (og_policy_at_grant g) = Inr entry"
  shows "open_store (gs_db (store_add \<lparr>gs_by_id = [], gs_db = Some []\<rparr> g)) = Inl ValueError"
  using assms
  by (simp add: open_store_def store_add_def persist_grant_def upsert_row_def load_row_def
      kind_enum.enum_of_unknown)

theorem custom_kind_grant_breaks_reload_witness:
  "\<exists>g. open_store (gs_db (store_add \<lparr>gs_by_id = [], gs_db = Some []\<rparr> g)) = Inl ValueError"
proof -
  obtain g0 where g0: "request_override sample_policies 1 (Custom ''slack:dm.send'') ''x'' ([], [])
      HEALTH_EGRESS ''alice'' True 0 7 8 = Inr g0"
    by (simp add: request_override_def gate_request_def policies_get_def sample_policies_def)
  have "open_store (gs_db (store_add \<lparr>gs_by_id = [], gs_db = Some []\<rparr> g0)) = Inl ValueError"
  proof (rule custom_kind_grant_breaks_reload)
    show "og_action_kind g0 = Custom ''slack:dm.send''" and "\<not> is_group g0"
      using g0 by (auto simp: request_override_def is_group_def split: sum.splits)
    show "''slack:dm.send'' \<notin> range kind_value"
    proof
      assume "''slack:dm.send'' \<in> range kind_value"
      then obtain k where k: "kind_value k = ''slack:dm.send''" by auto
      show False using k by (cases k) simp_all
    qed
    show "OverridePolicyEntry (og_policy_at_grant g0) = Inr (og_policy_at_grant g0)"
      using g0 by (auto simp: request_override_def gate_request_def policies_get_def
          sample_policies_def OverridePolicyEntry_def OVERRIDE_EXPIRY_MAX_SECONDS_def)
  qed
  then show ?thesis by blast
qed

end
