(* ===== verification/EngineLemmas.thy ===== *)
theory EngineLemmas
  imports Engine OverrideLemmas
begin

text \<open>
  Facts about the pipeline of \<open>decide\<close>. Every composer but one only makes a decision stricter: that
  contract is the locale \<open>ratchet_step\<close>, which the first-use prompt, the envelope and the conflict
  composers interpret; the reversibility composer satisfies it when its leg does not allow. The hard
  refusals (deny, or override required) are characterised leg by leg, and whole decisions are read
  off these facts.
\<close>

section \<open>Ratcheting steps\<close>

locale ratchet_step =
  fixes step :: "policy_decision \<Rightarrow> policy_decision"
  assumes stricter: "pd_decision (step pd) \<le> pd_decision pd"
    and keeps_capability: "pd_matched_capability (step pd) = pd_matched_capability pd"
begin

lemma keeps_floor: "pd_decision pd \<le> d \<Longrightarrow> pd_decision (step pd) \<le> d"
  using stricter order_trans by blast

lemma allow_from: "pd_decision (step pd) = ALLOW \<Longrightarrow> pd_decision pd = ALLOW"
  using stricter [of pd] by simp

lemma keeps_deny: "pd_decision pd = DENY \<Longrightarrow> pd_decision (step pd) = DENY"
  using stricter [of pd] by simp

end

lemma replace_outcome_simps [simp]:
  "pd_decision (replace_outcome pd d r why) = d"
  "pd_rule (replace_outcome pd d r why) = Some r"
  "pd_matched_capability (replace_outcome pd d r why) = pd_matched_capability pd"
  "pd_v2_outcome (replace_outcome pd d r why) = pd_v2_outcome pd"
  by (simp_all add: replace_outcome_def)

lemma with_v2_simps [simp]:
  "pd_decision (with_v2 pd v2) = pd_decision pd"
  "pd_matched_capability (with_v2 pd v2) = pd_matched_capability pd"
  "pd_v2_outcome (with_v2 pd v2) = Some (ev_outcome v2)"
  by (simp_all add: with_v2_def)

lemma PolicyDecision_simps [simp]:
  "pd_decision (PolicyDecision d r why cap) = d"
  "pd_rule (PolicyDecision d r why cap) = r"
  "pd_reason (PolicyDecision d r why cap) = why"
  "pd_matched_capability (PolicyDecision d r why cap) = cap"
  "pd_v2_outcome (PolicyDecision d r why cap) = None"
  "pd_recovery_steps (PolicyDecision d r why cap) = []"
  by (simp_all add: PolicyDecision_def)

interpretation conflict_step: ratchet_step
  "\<lambda>pd. compose_with_conflict_invariant pd leg crossed personal"
  for leg crossed personal
  by unfold_locales
    (auto simp: compose_with_conflict_invariant_def less_eq_decision_def split: option.split prod.split)

interpretation envelope_step: ratchet_step "with_envelope leg approved" for leg approved
  by unfold_locales
    (auto simp: with_envelope_def compose_with_envelope_def less_eq_decision_def
      split: option.split prod.split)

interpretation first_use_step: ratchet_step "first_use a" for a
  by unfold_locales
    (auto simp: first_use_def maybe_first_use_escalation_def less_eq_decision_def)

lemma reversibility_stricter [ratchet]:
  assumes "\<not> (\<exists>r why. leg = Some (ALLOW, r, why))"
  shows "pd_decision (with_reversibility leg approved standing pd) \<le> pd_decision pd"
  using assms
  by (auto simp: with_reversibility_def compose_with_reversibility_def less_eq_decision_def
      split: option.split prod.split)

lemma reversibility_keeps_capability [simp]:
  "pd_matched_capability (with_reversibility leg approved standing pd) = pd_matched_capability pd"
  by (auto simp: with_reversibility_def compose_with_reversibility_def
      split: option.split prod.split)

lemma reversibility_allow_from:
  "pd_decision (with_reversibility leg approved standing pd) = ALLOW \<Longrightarrow>
     pd_decision pd = ALLOW
     \<or> pd_decision pd = REQUIRE_APPROVAL \<and> pd_v2_outcome pd = Some RO_SUGGEST
       \<and> (\<exists>r why. leg = Some (ALLOW, r, why))"
  by (cases "pd_decision pd")
    (auto simp: with_reversibility_def compose_with_reversibility_def
      split: option.splits prod.splits if_splits)

lemma compose_with_v2_Inr:
  assumes "compose_with_v2 legacy v2 approved standing = Inr pd"
  shows "pd_decision pd \<le> pd_decision legacy"
    and "pd_matched_capability pd = pd_matched_capability legacy"
    and "pd_v2_outcome pd = Some (ev_outcome v2)" and "ev_outcome v2 \<noteq> RO_SHADOW"
  using assms
  by (auto simp: compose_with_v2_def less_eq_decision_def split: option.splits if_splits)

lemmas ratchet_allow = conflict_step.allow_from envelope_step.allow_from first_use_step.allow_from

section \<open>Hard refusals\<close>

text \<open>A refusal no approval can resolve.\<close>

definition hard :: "decision \<Rightarrow> bool" where
  "hard d \<longleftrightarrow> d = DENY \<or> d = OVERRIDE_REQUIRED"

lemma hard_iff: "hard d \<longleftrightarrow> d \<le> OVERRIDE_REQUIRED"
  by (cases d) (simp_all add: hard_def less_eq_decision_def)

lemma hard_mono: "d \<le> d' \<Longrightarrow> hard d' \<Longrightarrow> hard d"
  unfolding hard_iff by (rule order_trans)

definition hard_leg :: "leg option \<Rightarrow> bool" where
  "hard_leg leg = (case leg of None \<Rightarrow> False | Some (d, _, _) \<Rightarrow> hard d)"

text \<open>A conflict floor is crossed by a rule in the personal profile, never the untrusted one.\<close>

definition crossed_leg :: "leg option \<Rightarrow> string list \<Rightarrow> bool \<Rightarrow> bool" where
  "crossed_leg leg crossed personal =
     (case leg of None \<Rightarrow> False
      | Some (_, rule, _) \<Rightarrow> personal \<and> rule \<in> set crossed \<and> rule \<noteq> PROVENANCE_EGRESS_RULE)"

lemma hard_conflict:
  "hard (pd_decision (compose_with_conflict_invariant pd leg crossed personal)) \<longleftrightarrow>
     hard (pd_decision pd) \<or> hard_leg leg \<and> \<not> crossed_leg leg crossed personal"
proof (cases leg)
  case None
  then show ?thesis by (simp add: compose_with_conflict_invariant_def hard_leg_def)
next
  case (Some l)
  obtain d rule why where l: "l = (d, rule, why)" by (cases l)
  show ?thesis
    unfolding Some l
    by (cases "pd_decision pd"; cases d)
      (auto simp: compose_with_conflict_invariant_def hard_leg_def crossed_leg_def hard_def)
qed

lemma hard_envelope:
  "hard (pd_decision (with_envelope leg approved pd)) \<longleftrightarrow> hard (pd_decision pd) \<or> hard_leg leg"
proof (cases leg)
  case None
  then show ?thesis by (simp add: with_envelope_def hard_leg_def)
next
  case (Some l)
  obtain d rule why where l: "l = (d, rule, why)" by (cases l)
  show ?thesis
    unfolding Some l
    by (cases "pd_decision pd"; cases d)
      (auto simp: with_envelope_def compose_with_envelope_def hard_leg_def hard_def)
qed

lemma hard_reversibility:
  "hard (pd_decision (with_reversibility leg approved standing pd)) \<longleftrightarrow>
     hard (pd_decision pd) \<or> hard_leg leg"
proof (cases leg)
  case None
  then show ?thesis by (simp add: with_reversibility_def hard_leg_def)
next
  case (Some l)
  obtain d rule why where l: "l = (d, rule, why)" by (cases l)
  show ?thesis
    unfolding Some l
    by (cases "pd_decision pd"; cases d)
      (auto simp: with_reversibility_def compose_with_reversibility_def hard_leg_def hard_def)
qed

lemma hard_first_use: "hard (pd_decision (first_use a pd)) \<longleftrightarrow> hard (pd_decision pd)"
  by (auto simp: first_use_def maybe_first_use_escalation_def hard_def)

lemma hard_v2:
  "compose_with_v2 legacy v2 approved standing = Inr pd \<Longrightarrow>
     hard (pd_decision pd) \<longleftrightarrow>
       hard (pd_decision legacy) \<or> ev_outcome v2 \<in> {RO_DENY, RO_OVERRIDE_REQUIRED}"
  by (cases "ev_outcome v2"; cases "pd_decision legacy")
    (auto simp: compose_with_v2_def hard_def split: if_splits)

lemma v2_total:
  "ev_outcome v2 \<noteq> RO_SHADOW \<Longrightarrow> \<exists>pd. compose_with_v2 legacy v2 approved standing = Inr pd"
  by (cases "ev_outcome v2") (simp_all add: compose_with_v2_def)

section \<open>The gates\<close>

lemma first_some_None: "first_some xs = None \<longleftrightarrow> (\<forall>x \<in> set xs. x = None)"
  by (induction xs rule: first_some.induct) auto

lemma first_some_Some: "first_some xs = Some x \<Longrightarrow> Some x \<in> set xs"
  by (induction xs rule: first_some.induct) auto

lemma gate_decision_simps [simp]:
  "pd_decision (gate_decision a d r why) = d"
  "pd_rule (gate_decision a d r why) = Some r"
  "pd_matched_capability (gate_decision a d r why) = None"
  by (simp_all add: gate_decision_def)

definition gate_shape :: "decide_args \<Rightarrow> policy_decision option \<Rightarrow> bool" where
  "gate_shape a g \<longleftrightarrow> g = None \<or> (\<exists>d r why. g = Some (gate_decision a d r why) \<and> hard d)"

lemma gate_shapeI [simp, intro]:
  "gate_shape a None" "gate_shape a (Some (gate_decision a DENY r why))"
  "gate_shape a (Some (gate_decision a OVERRIDE_REQUIRED r why))"
  unfolding gate_shape_def hard_def by blast+

lemma gate_shapes:
  "gate_shape a (control_plane_gate a)" "gate_shape a (sandbox_gate a)" "gate_shape a (devbox_gate a)"
  "gate_shape a (risk_citation_gate a)" "gate_shape a (clearance_gate a)"
  "gate_shape a (integrity_gate a)"
proof -
  show "gate_shape a (control_plane_gate a)"
    unfolding control_plane_gate_def by (cases "da_effect_class a") simp_all
  show "gate_shape a (sandbox_gate a)"
    unfolding sandbox_gate_def by (cases "da_effect_class a") simp_all
  show "gate_shape a (devbox_gate a)"
    unfolding devbox_gate_def by (cases "da_effect_class a") simp_all
  show "gate_shape a (risk_citation_gate a)"
    unfolding risk_citation_gate_def by (simp split: option.split)
  show "gate_shape a (clearance_gate a)"
    unfolding clearance_gate_def by (simp split: option.split)
  show "gate_shape a (integrity_gate a)"
    unfolding integrity_gate_def by (simp split: option.split)
qed

lemma refusal_gates_hard:
  assumes "Some pd \<in> set (refusal_gates a)"
  shows "hard (pd_decision pd)" and "pd_matched_capability pd = None"
proof -
  have "\<forall>g \<in> set (refusal_gates a). gate_shape a g" by (simp add: refusal_gates_def gate_shapes)
  then have "gate_shape a (Some pd)" using assms by (rule bspec)
  then show "hard (pd_decision pd)" and "pd_matched_capability pd = None"
    by (auto simp: gate_shape_def)
qed

lemma binding_gate_Inl:
  assumes "binding_gate a = Inl pd"
  shows "pd = PolicyDecision DENY (Some BINDING_UNBOUND_RULE)
    (Some (BindingRefused (a_target (da_action a)))) None"
proof (cases "da_bindings a")
  case None
  then show ?thesis using assms by (simp add: binding_gate_def)
next
  case (Some bs)
  show ?thesis
  proof (cases "resolve_binding (da_netloc_ok a) bs (a_target (da_action a))")
    case (Inl e)
    with Some assms show ?thesis by (simp add: binding_gate_def Let_def split: if_splits)
  next
    case (Inr r)
    with Some assms show ?thesis by (simp add: binding_gate_def Let_def split: if_splits)
  qed
qed

lemma relax_gate_hard: "relax_gate a = Some pd \<Longrightarrow> pd_decision pd = DENY"
  by (auto simp: relax_gate_def Let_def split: if_splits)

lemma add_recovery_simps [simp]:
  "pd_decision (add_recovery a pd) = pd_decision pd"
  "pd_rule (add_recovery a pd) = pd_rule pd"
  "pd_matched_capability (add_recovery a pd) = pd_matched_capability pd"
  by (simp_all add: add_recovery_def Let_def)

lemma decide_Inr:
  "fst (decide a) = Inr pd \<longleftrightarrow>
     (\<exists>pd'. fst (decide_impl a) = Inr pd' \<and> pd = add_recovery a pd')"
  by (auto simp: decide_def split: prod.splits sum.splits)

text \<open>Either a gate refused hard, or the legs were composed.\<close>

lemma decide_gated_cases:
  assumes "decide_gated a = Inr pd"
  obtains (refused) "hard (pd_decision pd)" "pd_matched_capability pd = None"
  | (composed) ct env where "binding_gate a = Inr ct" "envelope_leg a = Inr env"
      "first_some (refusal_gates a) = None" "relax_gate a = None" "compose_legs a ct env = Inr pd"
proof (cases "binding_gate a")
  case (Inl r)
  then have "pd = r" using assms by (simp add: decide_gated_def)
  then show thesis using refused binding_gate_Inl [OF Inl] by (simp add: hard_def)
next
  case (Inr ct)
  show thesis
  proof (cases "first_some (refusal_gates a)")
    case (Some r)
    then have "pd = r" using assms Inr by (simp add: decide_gated_def)
    moreover have mem: "Some r \<in> set (refusal_gates a)" by (rule first_some_Some [OF Some])
    ultimately show thesis using refused refusal_gates_hard [OF mem] by simp
  next
    case None
    then obtain env where env: "envelope_leg a = Inr env"
      using assms Inr by (cases "envelope_leg a") (simp_all add: decide_gated_def)
    show thesis
    proof (cases "relax_gate a")
      case (Some r)
      then have "pd = r" using assms Inr None env by (simp add: decide_gated_def)
      moreover have "pd_matched_capability r = None"
        using Some by (auto simp: relax_gate_def Let_def split: if_splits)
      ultimately show thesis using refused relax_gate_hard [OF Some] by (simp add: hard_def)
    next
      case relax: None
      then have "compose_legs a ct env = Inr pd" using assms Inr None env
        by (simp add: decide_gated_def)
      then show thesis by (rule composed [OF Inr env None relax])
    qed
  qed
qed

lemma decide_impl_no_override:
  "override_gate a = None \<Longrightarrow> fst (decide_impl a) = decide_gated a"
  by (simp add: decide_impl_def)

section \<open>The composed legs\<close>

lemma compose_legacy_only_matched:
  "pd_matched_capability (compose_legacy_only a ct env) = pd_matched_capability (capability_leg a)"
  by (simp add: compose_legacy_only_def Let_def conflict_step.keeps_capability
      envelope_step.keeps_capability first_use_step.keeps_capability)

lemma capability_leg_v2: "pd_v2_outcome (capability_leg a) = None"
  by (simp add: capability_leg_def decide_legacy_def no_usable_capability_def decide_with_def Let_def
      split: option.split prod.split)

text \<open>What follows the rule leg on the full path.\<close>

definition after_rules ::
  "decide_args \<Rightarrow> decision_context \<Rightarrow> string \<Rightarrow> evaluation_result \<Rightarrow> string option \<Rightarrow> leg option
   \<Rightarrow> policy_decision \<Rightarrow> policy_decision" where
  "after_rules a axis_d eff v2 ct env c =
     first_use a ((compose_with_conflict_invariant (compose_with_conflict_invariant
        (with_envelope env (da_already_approved a)
          (with_reversibility (reversibility_leg a) (da_already_approved a)
            (standing_destructive a (capability_leg a)) c))
        (conflict_leg a) (ev_crossed_floors v2) (da_trust_profile_is_personal a))
        (fetch_leg a ct) (ev_crossed_floors v2) (da_trust_profile_is_personal a))
      \<lparr>pd_labels_snapshot := Some (eff_labels a), pd_axis_d_snapshot := Some axis_d,
       pd_effect_class := Some eff\<rparr>)"

lemma compose_full_Inr:
  "compose_full a axis_d eff v2 ct env = Inr pd \<longleftrightarrow>
     (\<exists>c. compose_with_v2 (capability_leg a) v2 (da_already_approved a)
            (standing_destructive a (capability_leg a)) = Inr c
        \<and> pd = after_rules a axis_d eff v2 ct env c)"
  by (auto simp: compose_full_def after_rules_def Let_def split: sum.splits)

lemma after_rules_matched:
  "pd_matched_capability (after_rules a axis_d eff v2 ct env c) = pd_matched_capability c"
  by (simp add: after_rules_def conflict_step.keeps_capability envelope_step.keeps_capability
      first_use_step.keeps_capability)

lemma after_rules_allow:
  assumes "pd_decision (after_rules a axis_d eff v2 ct env c) = ALLOW"
  shows "pd_decision c = ALLOW \<or> pd_decision c = REQUIRE_APPROVAL
    \<and> pd_v2_outcome c = Some RO_SUGGEST \<and> (\<exists>r why. reversibility_leg a = Some (ALLOW, r, why))"
proof -
  have "pd_decision (compose_with_conflict_invariant (compose_with_conflict_invariant
        (with_envelope env (da_already_approved a)
          (with_reversibility (reversibility_leg a) (da_already_approved a)
            (standing_destructive a (capability_leg a)) c))
        (conflict_leg a) (ev_crossed_floors v2) (da_trust_profile_is_personal a))
        (fetch_leg a ct) (ev_crossed_floors v2) (da_trust_profile_is_personal a)) = ALLOW"
    using first_use_step.allow_from [OF assms [unfolded after_rules_def]] by simp
  then have "pd_decision (with_reversibility (reversibility_leg a) (da_already_approved a)
      (standing_destructive a (capability_leg a)) c) = ALLOW"
    by (blast dest: ratchet_allow)
  then show ?thesis by (rule reversibility_allow_from)
qed

lemma after_rules_hard:
  "hard (pd_decision (after_rules a axis_d eff v2 ct env c)) \<longleftrightarrow>
     hard (pd_decision c) \<or> hard_leg (reversibility_leg a) \<or> hard_leg env
   \<or> hard_leg (conflict_leg a)
       \<and> \<not> crossed_leg (conflict_leg a) (ev_crossed_floors v2) (da_trust_profile_is_personal a)
   \<or> hard_leg (fetch_leg a ct)
       \<and> \<not> crossed_leg (fetch_leg a ct) (ev_crossed_floors v2) (da_trust_profile_is_personal a)"
  by (simp add: after_rules_def hard_first_use hard_conflict hard_envelope hard_reversibility)

lemma compose_full_matched:
  assumes "compose_full a axis_d eff v2 ct env = Inr pd"
  shows "pd_matched_capability pd = pd_matched_capability (capability_leg a)"
  using assms compose_with_v2_Inr(2) by (auto simp: compose_full_Inr after_rules_matched)

text \<open>What an allow of the composed legs rests on.\<close>

lemma compose_legacy_only_allow:
  assumes "pd_decision (compose_legacy_only a ct env) = ALLOW"
  shows "pd_decision (capability_leg a) = ALLOW"
proof -
  have "pd_decision (with_reversibility (reversibility_leg a) False False (capability_leg a)) = ALLOW"
    using assms unfolding compose_legacy_only_def Let_def by (blast dest: ratchet_allow)
  then show ?thesis using reversibility_allow_from capability_leg_v2 [of a] by fastforce
qed

lemma compose_full_allow:
  assumes "compose_full a axis_d eff v2 ct env = Inr pd" and "pd_decision pd = ALLOW"
  shows "pd_decision (capability_leg a) = ALLOW
    \<or> pd_decision (capability_leg a) = REQUIRE_APPROVAL
      \<and> ev_outcome v2 = RO_SUGGEST \<and> (\<exists>r why. reversibility_leg a = Some (ALLOW, r, why))"
proof -
  obtain c where c: "compose_with_v2 (capability_leg a) v2 (da_already_approved a)
        (standing_destructive a (capability_leg a)) = Inr c"
    and pd: "pd = after_rules a axis_d eff v2 ct env c"
    using assms(1) unfolding compose_full_Inr by blast
  note after_rules_allow [OF assms(2) [unfolded pd]]
  moreover have "pd_decision c \<le> pd_decision (capability_leg a)"
    and v2: "pd_v2_outcome c = Some (ev_outcome v2)"
    using compose_with_v2_Inr [OF c] by auto
  moreover have "pd_decision (capability_leg a) \<in> {ALLOW, DENY, REQUIRE_APPROVAL}"
    unfolding capability_leg_def by (rule decide_legacy_decision)
  ultimately show ?thesis by (auto simp: less_eq_decision_def)
qed

text \<open>Both composed paths together.\<close>

lemma compose_legs_allow:
  assumes "compose_legs a ct env = Inr pd" and "pd_decision pd = ALLOW"
  shows "pd_matched_capability pd = pd_matched_capability (capability_leg a)"
    and "pd_decision (capability_leg a) = ALLOW
     \<or> pd_decision (capability_leg a) = REQUIRE_APPROVAL
       \<and> (\<exists>r why. reversibility_leg a = Some (ALLOW, r, why))"
proof -
  have both: "(\<exists>axis_d eff v2. compose_full a axis_d eff v2 ct env = Inr pd)
      \<or> pd = compose_legacy_only a ct env"
    using assms(1) by (auto simp: compose_legs_def split: option.splits sum.splits)
  then show "pd_matched_capability pd = pd_matched_capability (capability_leg a)"
    using compose_full_matched compose_legacy_only_matched by metis
  show "pd_decision (capability_leg a) = ALLOW
     \<or> pd_decision (capability_leg a) = REQUIRE_APPROVAL
       \<and> (\<exists>r why. reversibility_leg a = Some (ALLOW, r, why))"
    using both compose_full_allow [OF _ assms(2)] compose_legacy_only_allow [of a ct env] assms(2)
    by blast
qed

section \<open>An order-free reading of the hard refusals\<close>

text \<open>The rule leg's result, when the axes and the rules are given.\<close>

definition rule_leg :: "decide_args \<Rightarrow> string option \<Rightarrow> evaluation_result option" where
  "rule_leg a ct =
     (case (da_axis_d a, da_effect_class a, da_rules_v2 a) of
        (Some axis_d, Some eff, Some rules) \<Rightarrow>
          (case evaluate rules (eff_labels a) axis_d eff
                  (case ct of Some t \<Rightarrow> t | None \<Rightarrow> a_target (da_action a))
                  (da_default_v2_outcome a) (Some (hour_of (eff_now a ReadV2))) of
             Inl _ \<Rightarrow> None | Inr v2 \<Rightarrow> Some v2)
      | _ \<Rightarrow> None)"

definition floor_holds :: "decide_args \<Rightarrow> string option \<Rightarrow> leg option \<Rightarrow> bool" where
  "floor_holds a ct floor \<longleftrightarrow>
     hard_leg floor \<and>
     \<not> (case rule_leg a ct of None \<Rightarrow> False
        | Some v2 \<Rightarrow> crossed_leg floor (ev_crossed_floors v2) (da_trust_profile_is_personal a))"

definition hard_spec :: "decide_args \<Rightarrow> string option \<Rightarrow> leg option \<Rightarrow> bool" where
  "hard_spec a ct env \<longleftrightarrow>
     hard (pd_decision (capability_leg a))
   \<or> (case rule_leg a ct of None \<Rightarrow> False
      | Some v2 \<Rightarrow> ev_outcome v2 \<in> {RO_DENY, RO_OVERRIDE_REQUIRED})
   \<or> hard_leg (reversibility_leg a) \<or> hard_leg env
   \<or> floor_holds a ct (conflict_leg a) \<or> floor_holds a ct (fetch_leg a ct)"

lemma compose_legs_hard:
  assumes "compose_legs a ct env = Inr pd"
  shows "hard (pd_decision pd) \<longleftrightarrow> hard_spec a ct env"
proof (cases "rule_leg a ct")
  case (Some v2)
  then obtain axis_d eff where full: "compose_full a axis_d eff v2 ct env = Inr pd"
    using assms by (auto simp: compose_legs_def rule_leg_def split: option.splits sum.splits)
  then obtain c where c: "compose_with_v2 (capability_leg a) v2 (da_already_approved a)
        (standing_destructive a (capability_leg a)) = Inr c"
    and pd: "pd = after_rules a axis_d eff v2 ct env c"
    unfolding compose_full_Inr by blast
  show ?thesis
    unfolding pd after_rules_hard hard_v2 [OF c] hard_spec_def floor_holds_def Some option.case
    by blast
next
  case None
  then have pd: "pd = compose_legacy_only a ct env"
    using assms by (auto simp: compose_legs_def rule_leg_def split: option.splits sum.splits)
  have "\<not> crossed_leg leg [] False" for leg by (simp add: crossed_leg_def split: option.split)
  then show ?thesis
    unfolding pd compose_legacy_only_def Let_def hard_first_use hard_spec_def floor_holds_def None
      option.case
    by (simp add: hard_conflict hard_envelope hard_reversibility)
qed

lemma hard_add_recovery [simp]: "hard (pd_decision (add_recovery a pd)) = hard (pd_decision pd)"
  by simp

text \<open>
  The specification of a hard refusal: some gate refuses, or one of the composed legs is hard and,
  for a conflict floor, no rule may cross it. It mentions neither the order of the composition nor
  the carve-outs for approved or standing authority.
\<close>

definition gate_refused :: "decide_args \<Rightarrow> bool" where
  "gate_refused a \<longleftrightarrow>
     (\<exists>r. binding_gate a = Inl r) \<or> (\<exists>g \<in> set (refusal_gates a). g \<noteq> None) \<or> relax_gate a \<noteq> None"

definition refuses_hard :: "decide_args \<Rightarrow> bool" where
  "refuses_hard a \<longleftrightarrow>
     gate_refused a
   \<or> (\<exists>ct env. binding_gate a = Inr ct \<and> envelope_leg a = Inr env \<and> hard_spec a ct env)"

lemma decide_gated_hard:
  assumes "decide_gated a = Inr pd"
  shows "hard (pd_decision pd) \<longleftrightarrow> refuses_hard a"
proof (cases "binding_gate a")
  case (Inl r)
  then show ?thesis
    using assms binding_gate_Inl [OF Inl]
    by (auto simp: decide_gated_def refuses_hard_def gate_refused_def hard_def)
next
  case (Inr ct)
  show ?thesis
  proof (cases "first_some (refusal_gates a)")
    case (Some r)
    then have "pd = r" using assms Inr by (simp add: decide_gated_def)
    moreover have "Some r \<in> set (refusal_gates a)" by (rule first_some_Some [OF Some])
    ultimately show ?thesis
      using refusal_gates_hard(1) unfolding refuses_hard_def gate_refused_def by blast
  next
    case None
    then have quiet: "\<forall>g \<in> set (refusal_gates a). g = None" by (simp add: first_some_None)
    obtain env where env: "envelope_leg a = Inr env"
      using assms Inr None by (cases "envelope_leg a") (simp_all add: decide_gated_def)
    show ?thesis
    proof (cases "relax_gate a")
      case (Some r)
      then have "pd = r" using assms Inr None env by (simp add: decide_gated_def)
      then show ?thesis
        using relax_gate_hard [OF Some] Some
        by (simp add: refuses_hard_def gate_refused_def hard_def)
    next
      case relax: None
      then have "compose_legs a ct env = Inr pd" using assms Inr None env
        by (simp add: decide_gated_def)
      then show ?thesis
        using compose_legs_hard Inr env quiet relax
        by (simp add: refuses_hard_def gate_refused_def)
    qed
  qed
qed

lemma decide_hard_iff:
  assumes "fst (decide a) = Inr pd" and "override_gate a = None"
  shows "hard (pd_decision pd) \<longleftrightarrow> refuses_hard a"
proof -
  obtain pd' where "decide_gated a = Inr pd'" "pd = add_recovery a pd'"
    using assms by (auto simp: decide_Inr decide_impl_no_override)
  then show ?thesis using decide_gated_hard [of a pd'] by simp
qed

text \<open>A floor that holds on every path refuses.\<close>

lemma floor_refuses:
  assumes "fst (decide a) = Inr pd" and "override_gate a = None"
    and "\<And>ct. floor_holds a ct (conflict_leg a) \<or> floor_holds a ct (fetch_leg a ct)"
  shows "hard (pd_decision pd)"
proof -
  obtain pd' where pd': "decide_gated a = Inr pd'" "pd = add_recovery a pd'"
    using assms(1,2) by (auto simp: decide_Inr decide_impl_no_override)
  from pd'(1) show ?thesis
  proof (cases rule: decide_gated_cases)
    case refused
    then show ?thesis using pd' by simp
  next
    case (composed ct env)
    then have "hard (pd_decision pd')" using compose_legs_hard assms(3) hard_spec_def by blast
    then show ?thesis using pd' by simp
  qed
qed

lemma decide_hard:
  assumes "fst (decide a) = Inr pd" and "override_gate a = None"
  shows "hard (pd_decision pd)
    \<or> (\<exists>ct env pd'. binding_gate a = Inr ct \<and> envelope_leg a = Inr env
         \<and> compose_legs a ct env = Inr pd' \<and> pd = add_recovery a pd' \<and> \<not> hard_spec a ct env)"
proof -
  obtain pd' where pd': "decide_gated a = Inr pd'" "pd = add_recovery a pd'"
    using assms by (auto simp: decide_Inr decide_impl_no_override)
  from pd'(1) show ?thesis
  proof (cases rule: decide_gated_cases)
    case refused
    then show ?thesis using pd' by simp
  next
    case (composed ct env)
    then show ?thesis using pd' compose_legs_hard by auto
  qed
qed

section \<open>A decision is returned\<close>

text \<open>The envelopes of a catalogue went through their constructor.\<close>

definition constructed :: "envelope_set \<Rightarrow> bool" where
  "constructed es \<longleftrightarrow>
     (\<forall>cell env. envelope_lookup es cell = Some env \<longrightarrow> (\<exists>c s l. OutcomeEnvelope c s l = Inr env))"

definition well_configured :: "decide_args \<Rightarrow> bool" where
  "well_configured a \<longleftrightarrow>
     da_default_v2_outcome a \<noteq> RO_AUTO \<and> da_default_v2_outcome a \<noteq> RO_SHADOW
   \<and> (case da_envelope_set a of None \<Rightarrow> True | Some es \<Rightarrow> constructed es)"

lemma select_constructed:
  assumes "OutcomeEnvelope c s l = Inr env"
  shows "\<exists>r d. select env dial = Inr r \<and> V2_TO_LEGACY r = Some d"
proof -
  obtain lo hi where "ENVELOPE_RANK s = Some lo" "ENVELOPE_RANK l = Some hi"
    using OutcomeEnvelope_Inr [OF assms] by metis
  then obtain r where r: "select env dial = Inr r" "ENVELOPE_RANK r = Some (dial_point lo hi dial)"
    using select_rank [OF assms] by blast
  then show ?thesis by (cases r) auto
qed

lemma envelope_leg_total:
  assumes "case da_envelope_set a of None \<Rightarrow> True | Some es \<Rightarrow> constructed es"
  shows "\<exists>env. envelope_leg a = Inr env"
proof -
  have "\<exists>leg. (case envelope_lookup es cell of None \<Rightarrow> Inr None
      | Some env \<Rightarrow>
          (case select env dial of
             Inl e \<Rightarrow> Inl e
           | Inr selected \<Rightarrow>
               (case V2_TO_LEGACY selected of
                  None \<Rightarrow> Inl KeyError
                | Some d \<Rightarrow>
                    Inr (Some (d, ENVELOPE_DIAL_RULE @ '':'' @ dial_value dial @ ''->''
                                 @ outcome_value selected,
                               EnvelopeReason cell dial selected))))) = Inr leg"
    if es: "da_envelope_set a = Some es" for es cell dial
  proof (cases "envelope_lookup es cell")
    case (Some env)
    moreover have "constructed es" using assms es by simp
    ultimately obtain c s l where "OutcomeEnvelope c s l = Inr env"
      unfolding constructed_def by blast
    then obtain r d where "select env dial = Inr r" "V2_TO_LEGACY r = Some d"
      using select_constructed by blast
    then show ?thesis using Some by simp
  qed simp
  then show ?thesis
    unfolding envelope_leg_def Let_def
    by (cases "da_envelope_set a"; cases "da_risk_preference a"; cases "da_effect_class a";
        cases "da_axis_d a"; cases "da_effective_reversibility a"; cases "ls_a (eff_labels a)")
      simp_all
qed

lemma evaluate_not_shadow:
  assumes "evaluate rules labels axis_d eff target dflt h = Inr ev" and "dflt \<noteq> RO_SHADOW"
  shows "ev_outcome ev \<noteq> RO_SHADOW"
proof (cases "live_rules rules labels axis_d eff target h = []")
  case True
  then show ?thesis using assms by (simp add: evaluate_Inr Let_def)
next
  case False
  then have "most_restrictive (map dr_outcome (live_rules rules labels axis_d eff target h))
      = Inr (ev_outcome ev)"
    using assms(1) by (auto simp: evaluate_Inr Let_def)
  then show ?thesis unfolding most_restrictive_Inr_iff by metis
qed

lemma compose_legs_total:
  assumes "da_default_v2_outcome a \<noteq> RO_AUTO" and "da_default_v2_outcome a \<noteq> RO_SHADOW"
  shows "\<exists>pd. compose_legs a ct env = Inr pd"
proof (cases "da_axis_d a = None \<or> da_effect_class a = None \<or> da_rules_v2 a = None")
  case True
  then show ?thesis by (auto simp: compose_legs_def split: option.split)
next
  case False
  then obtain axis_d eff rules where given: "da_axis_d a = Some axis_d"
      "da_effect_class a = Some eff" "da_rules_v2 a = Some rules" by auto
  let ?t = "case ct of Some t \<Rightarrow> t | None \<Rightarrow> a_target (da_action a)"
  obtain v2 where v2: "evaluate rules (eff_labels a) axis_d eff ?t (da_default_v2_outcome a)
      (Some (hour_of (eff_now a ReadV2))) = Inr v2"
    using evaluate_total [OF assms(1)] by blast
  obtain c where "compose_with_v2 (capability_leg a) v2 (da_already_approved a)
      (standing_destructive a (capability_leg a)) = Inr c"
    using v2_total [OF evaluate_not_shadow [OF v2 assms(2)]] by blast
  then have "\<exists>pd. compose_full a axis_d eff v2 ct env = Inr pd" unfolding compose_full_Inr by blast
  then show ?thesis by (simp add: compose_legs_def given v2)
qed

lemma decide_returns:
  assumes "well_configured a"
  shows "\<exists>pd. fst (decide a) = Inr pd"
proof -
  obtain env where env: "envelope_leg a = Inr env"
    using envelope_leg_total assms unfolding well_configured_def by blast
  have legs: "\<exists>pd. compose_legs a ct env = Inr pd" for ct
    using compose_legs_total assms unfolding well_configured_def by blast
  have "\<exists>pd. decide_gated a = Inr pd"
  proof (cases "binding_gate a")
    case (Inl r)
    then show ?thesis by (simp add: decide_gated_def)
  next
    case (Inr ct)
    then show ?thesis
      using legs [of ct] env by (simp add: decide_gated_def split: option.split)
  qed
  then have "\<exists>pd. fst (decide_impl a) = Inr pd"
    by (auto simp: decide_impl_def split: option.split prod.split)
  then show ?thesis unfolding decide_Inr by blast
qed

end
