(* ===== verification/EngineProps.thy ===== *)
theory EngineProps
  imports EngineLemmas
begin

text \<open>
  What the engine guarantees. An allow rests on a live capability or on an override grant; the
  conflict floors hold against every rule, profile and approval that may not cross them; an approval
  never resolves a hard refusal; a decision is returned on every well-formed input. The last section
  holds what the model shows against the code's own comments.
\<close>

section \<open>A base input\<close>

text \<open>An action with nothing configured but its capability.\<close>

definition base_args :: "action \<Rightarrow> capability list \<Rightarrow> decide_args" where
  "base_args act caps =
     \<lparr>da_capabilities = caps, da_action = act, da_used_kinds = [], da_now = Some 0,
      da_cap_uses = None, da_axis_d = None, da_effect_class = None, da_rules_v2 = None,
      da_default_v2_outcome = RO_SUGGEST, da_relax_inputs = [], da_override_grants = None,
      da_session_id = None, da_bindings = None, da_effective_reversibility = None,
      da_envelope_set = None, da_risk_preference = None, da_clearance_max_tier = None,
      da_integrity_floor_level = None, da_risk_register = None,
      da_sandbox_actuator_wired = False, da_devbox_manager_wired = False,
      da_revoked_audit_ids = [], da_first_use_prompt_enabled = False,
      da_rate_limit_escalation = False, da_labels = None, da_egress_override_categories = [],
      da_egress_override_tiers = [], da_trust_profile_is_personal = False,
      da_already_approved = False, da_clock = (\<lambda>_. 0), da_mint_audit_id = 99,
      da_netloc_ok = (\<lambda>_. True), da_registry = None\<rparr>"

lemma base_args_sel [simp]:
  "da_capabilities (base_args act caps) = caps" "da_action (base_args act caps) = act"
  "da_used_kinds (base_args act caps) = []" "da_now (base_args act caps) = Some 0"
  "da_cap_uses (base_args act caps) = None" "da_axis_d (base_args act caps) = None"
  "da_effect_class (base_args act caps) = None" "da_rules_v2 (base_args act caps) = None"
  "da_default_v2_outcome (base_args act caps) = RO_SUGGEST"
  "da_relax_inputs (base_args act caps) = []" "da_override_grants (base_args act caps) = None"
  "da_session_id (base_args act caps) = None" "da_bindings (base_args act caps) = None"
  "da_effective_reversibility (base_args act caps) = None"
  "da_envelope_set (base_args act caps) = None" "da_risk_preference (base_args act caps) = None"
  "da_clearance_max_tier (base_args act caps) = None"
  "da_integrity_floor_level (base_args act caps) = None"
  "da_risk_register (base_args act caps) = None" "da_revoked_audit_ids (base_args act caps) = []"
  "da_first_use_prompt_enabled (base_args act caps) = False"
  "da_rate_limit_escalation (base_args act caps) = False" "da_labels (base_args act caps) = None"
  "da_trust_profile_is_personal (base_args act caps) = False"
  "da_already_approved (base_args act caps) = False" "da_registry (base_args act caps) = None"
  by (simp_all add: base_args_def)

definition mail :: action where
  "mail = \<lparr>a_kind = BuiltIn SEND_EMAIL, a_target = ''bob'', a_amount = None\<rparr>"

definition mail_cap :: capability where
  "mail_cap = Capability (BuiltIn SEND_EMAIL) ''bob'' 1"

lemma mail_cap_matches [simp]: "scope_matches mail_cap mail"
  by (simp add: scope_matches_def matches_def mail_cap_def mail_def Capability_def covers_kind_def
      kind_eq_def pattern_matches_def fnmatchcase_def)

lemma mail_cap_fields [simp]:
  "c_audit_id mail_cap = 1" "c_expires_at mail_cap = None" "c_rate_limit mail_cap = None"
  "c_parent_audit_id mail_cap = None" "c_revoked_by mail_cap = []"
  by (simp_all add: mail_cap_def Capability_def)

lemma mail_fields [simp]:
  "a_kind mail = BuiltIn SEND_EMAIL" "a_target mail = ''bob''" "a_amount mail = None"
  by (simp_all add: mail_def)

lemma mail_not_destructive [simp]: "SEND_EMAIL \<notin> set DESTRUCTIVE_KINDS"
  by (simp add: DESTRUCTIVE_KINDS_def)

lemmas decide_defs = decide_def decide_impl_def decide_gated_def binding_gate_def refusal_gates_def
  control_plane_gate_def sandbox_gate_def devbox_gate_def risk_citation_gate_def clearance_gate_def
  integrity_gate_def envelope_leg_def relax_gate_def compose_legs_def

lemmas path_defs = compose_legacy_only_def with_reversibility_def with_envelope_def conflict_leg_def
  fetch_leg_def reversibility_leg_def compose_with_conflict_invariant_def first_use_def
  maybe_first_use_escalation_def

lemma base_override [simp]: "override_gate (base_args act caps) = None"
  by (simp add: override_gate_def)

lemma base_capability_leg:
  "da_capabilities a = [mail_cap] \<Longrightarrow> da_action a = mail \<Longrightarrow> da_used_kinds a = [] \<Longrightarrow>
     da_revoked_audit_ids a = [] \<Longrightarrow> da_registry a = None \<Longrightarrow>
     capability_leg a = PolicyDecision ALLOW None None (Some mail_cap)"
  by (simp add: capability_leg_def decide_legacy_def find_capability_def usable_def is_expired_def
      is_rate_exceeded_def decide_with_def is_cascaded_inert_def cascade_walk.simps link_inert_def
      revoking_kinds_def Let_def)

section \<open>An allow rests on authority\<close>

lemma allow_capability:
  assumes "fst (decide a) = Inr pd" and "pd_decision pd = ALLOW" and "override_gate a = None"
    and "\<not> (\<exists>r why. reversibility_leg a = Some (ALLOW, r, why))"
  shows "\<exists>cap \<in> set (da_capabilities a). pd_matched_capability pd = Some cap
     \<and> scope_matches cap (da_action a) \<and> \<not> is_expired cap (eff_now a ReadLegacy)
     \<and> \<not> is_rate_exceeded cap (eff_now a ReadLegacy) (cap_uses_for cap (da_cap_uses a))
     \<and> live_chain (build_audit_id_index (da_capabilities a)) (da_revoked_audit_ids a)
          (eff_now a ReadLegacy) (da_cap_uses a) cap
     \<and> revoking_kinds cap (da_used_kinds a) = []
     \<and> (is_destructive_kind (da_registry a) (a_kind (da_action a)) \<longrightarrow> c_allows_destructive cap)"
proof -
  obtain ct env pd' where legs: "compose_legs a ct env = Inr pd'" "pd = add_recovery a pd'"
    using decide_hard [OF assms(1,3)] assms(2) by (auto simp: hard_def)
  have allow': "pd_decision pd' = ALLOW" using assms(2) legs(2) by simp
  have leg: "pd_decision (capability_leg a) = ALLOW"
    using compose_legs_allow(2) [OF legs(1) allow'] assms(4) by blast
  have now: "(case da_now a of Some t \<Rightarrow> t | None \<Rightarrow> da_clock a ReadLegacy) = eff_now a ReadLegacy"
    by (simp add: eff_now_def)
  obtain cap where cap: "find_capability (da_capabilities a) (da_action a)
        (Some (eff_now a ReadLegacy)) (da_cap_uses a) = Some cap"
      "\<not> fst (is_cascaded_inert cap (build_audit_id_index (da_capabilities a))
          (da_revoked_audit_ids a) (eff_now a ReadLegacy) (da_cap_uses a))"
      "revoking_kinds cap (da_used_kinds a) = []"
      "is_destructive_kind (da_registry a) (a_kind (da_action a)) \<longrightarrow> c_allows_destructive cap"
      "capability_leg a = PolicyDecision ALLOW None None (Some cap)"
    using decide_legacy_allow [OF leg [unfolded capability_leg_def]]
    unfolding now capability_leg_def by metis
  have "live_chain (build_audit_id_index (da_capabilities a)) (da_revoked_audit_ids a)
      (eff_now a ReadLegacy) (da_cap_uses a) cap"
    using cap(2) cascade_walk_live unfolding is_cascaded_inert_def by blast
  moreover have "pd_matched_capability pd = Some cap"
    using compose_legs_allow(1) [OF legs(1) allow'] legs(2) cap(5) by simp
  ultimately show ?thesis using find_capability_Some [OF cap(1)] cap(3,4) by blast
qed

text \<open>
  C25: complete mediation: when no override grant authorises the action and the optimistic leg does
  not apply, an allow carries a capability of the session that matches the action in kind, pattern
  and amount, is neither expired nor rate-exhausted, whose chain of parents is live to its root,
  that no prior use revoked, and that is flagged for a destructive kind.
\<close>

theorem allow_needs_live_capability:
  assumes "fst (decide a) = Inr pd" and "pd_decision pd = ALLOW" and "override_gate a = None"
    and "\<not> (\<exists>r why. reversibility_leg a = Some (ALLOW, r, why))"
  shows "\<exists>cap \<in> set (da_capabilities a). pd_matched_capability pd = Some cap
     \<and> scope_matches cap (da_action a) \<and> \<not> is_expired cap (eff_now a ReadLegacy)
     \<and> \<not> is_rate_exceeded cap (eff_now a ReadLegacy) (cap_uses_for cap (da_cap_uses a))
     \<and> live_chain (build_audit_id_index (da_capabilities a)) (da_revoked_audit_ids a)
          (eff_now a ReadLegacy) (da_cap_uses a) cap
     \<and> revoking_kinds cap (da_used_kinds a) = []
     \<and> (is_destructive_kind (da_registry a) (a_kind (da_action a)) \<longrightarrow> c_allows_destructive cap)"
  using assms by (rule allow_capability)

theorem allow_needs_live_capability_witness:
  "\<exists>pd. fst (decide (base_args mail [mail_cap])) = Inr pd \<and> pd_decision pd = ALLOW
     \<and> pd_matched_capability pd = Some mail_cap"
proof -
  let ?a = "base_args mail [mail_cap]"
  have leg: "capability_leg ?a = PolicyDecision ALLOW None None (Some mail_cap)"
    by (rule base_capability_leg) simp_all
  have "levels (eff_labels ?a) = {}" "ls_a (eff_labels ?a) = []"
    by (simp_all add: eff_labels_def empty_state_def levels_def)
  then have quiet: "conflict_leg ?a = None" "fetch_leg ?a None = None" "reversibility_leg ?a = None"
    by (simp_all add: conflict_leg_def conflict_invariant_outcome_def fetch_leg_def
        fetch_url_egress_outcome_def reversibility_leg_def Let_def)
  obtain pd where pd: "fst (decide ?a) = Inr pd" "pd_decision pd = ALLOW"
    by (simp add: decide_defs compose_legacy_only_def with_reversibility_def with_envelope_def
        compose_with_conflict_invariant_def quiet leg first_use_def maybe_first_use_escalation_def
        inspect_relax_inputs_def Let_def)
  have "\<not> (\<exists>r why. reversibility_leg ?a = Some (ALLOW, r, why))"
    by (simp add: reversibility_leg_def)
  from allow_needs_live_capability [OF pd base_override this]
  have "pd_matched_capability pd = Some mail_cap" by auto
  with pd show ?thesis by blast
qed

lemma grant_decides:
  assumes "override_gate a = Some (pd', st')"
  shows "decide a = (Inr pd', Some st')"
    and "\<exists>st sid g. da_override_grants a = Some st \<and> da_session_id a = Some sid
     \<and> find_active st sid (a_kind (da_action a)) (a_target (da_action a)) (eff_now a ReadOverride)
         = Some g
     \<and> pd_decision pd' = ALLOW
     \<and> st' = store_update st (consume_for g (a_kind (da_action a)) (a_target (da_action a))
         (eff_now a ReadOverride))"
proof -
  show g: "\<exists>st sid g. da_override_grants a = Some st \<and> da_session_id a = Some sid
     \<and> find_active st sid (a_kind (da_action a)) (a_target (da_action a)) (eff_now a ReadOverride)
         = Some g
     \<and> pd_decision pd' = ALLOW
     \<and> st' = store_update st (consume_for g (a_kind (da_action a)) (a_target (da_action a))
         (eff_now a ReadOverride))"
    using assms by (auto simp: override_gate_def Let_def split: option.splits sum.splits)
  have "pd_recovery_steps pd' = []"
    using assms by (auto simp: override_gate_def Let_def split: option.splits sum.splits)
  with g assms show "decide a = (Inr pd', Some st')"
    by (auto simp: decide_def decide_impl_def add_recovery_def)
qed

text \<open>
  C1: \<open>decide\<close> refines its order-free specification: a decision is a hard refusal exactly when no
  override grant is used and a gate refuses, or the capability leg, a matched rule, the
  reversibility leg or the envelope leg is hard, or a conflict floor holds that no rule may cross.
\<close>

theorem decide_refines_refusal_spec:
  assumes "fst (decide a) = Inr pd"
  shows "pd_decision pd \<in> {DENY, OVERRIDE_REQUIRED}
     \<longleftrightarrow> override_gate a = None \<and> refuses_hard a"
proof (cases "override_gate a")
  case None
  then show ?thesis using decide_hard_iff [OF assms None] by (simp add: hard_def)
next
  case (Some ps)
  then obtain pd' st' where gate: "override_gate a = Some (pd', st')" by (cases ps) simp
  then show ?thesis using assms grant_decides [OF gate] by auto
qed

theorem decide_refines_refusal_spec_witness:
  "\<exists>pd. fst (decide (base_args mail [])) = Inr pd
     \<and> (pd_decision pd \<in> {DENY, OVERRIDE_REQUIRED} \<longleftrightarrow> refuses_hard (base_args mail []))"
proof -
  obtain pd where pd: "fst (decide (base_args mail [])) = Inr pd"
    using decide_returns [of "base_args mail []"] by (auto simp: well_configured_def)
  from decide_refines_refusal_spec [OF pd] pd show ?thesis by simp
qed

section \<open>The floors\<close>

definition EGRESS_KINDS :: "capability_kind list" where
  "EGRESS_KINDS = SEND_EMAIL # SEND_MESSAGE # QUEUE_PURCHASE # BROWSER_EGRESS_KINDS"

lemma conflict_leg_untrusted:
  assumes "kind_in (a_kind (da_action a)) (map BuiltIn EGRESS_KINDS)"
    and "EXTERNAL_UNTRUSTED \<in> levels (eff_labels a)"
  shows "\<exists>why. conflict_leg a = Some (DENY, PROVENANCE_EGRESS_RULE, why)"
  using assms
  by (auto simp: conflict_leg_def conflict_invariant_outcome_def Let_def kind_in_def kind_eq_def
      EGRESS_KINDS_def)

text \<open>
  C5: the confused-deputy floor: an action that can send data out of a session holding untrusted
  input is refused hard, whatever the rules, the trust profile, an earlier approval, the dial or
  the capabilities say, unless the store holds an active, unexpired and unspent override grant of
  this session for exactly this kind and target, which the decision then consumes.
\<close>

theorem untrusted_never_egresses:
  assumes "fst (decide a) = Inr pd"
    and "kind_in (a_kind (da_action a)) (map BuiltIn EGRESS_KINDS)"
    and "EXTERNAL_UNTRUSTED \<in> levels (eff_labels a)"
  shows "pd_decision pd \<in> {DENY, OVERRIDE_REQUIRED}
     \<or> (\<exists>st sid g. da_override_grants a = Some st \<and> da_session_id a = Some sid
          \<and> g \<in> set (store_list_all st) \<and> og_session_id g = sid
          \<and> is_for g (a_kind (da_action a)) (a_target (da_action a)) \<and> og_state g = G_ACTIVE
          \<and> \<not> grant_expired g (eff_now a ReadOverride) \<and> og_consumed_at g = None
          \<and> snd (decide a) = Some (store_update st (consume_for g (a_kind (da_action a))
              (a_target (da_action a)) (eff_now a ReadOverride))))"
proof (cases "override_gate a")
  case None
  obtain why where leg: "conflict_leg a = Some (DENY, PROVENANCE_EGRESS_RULE, why)"
    using conflict_leg_untrusted [OF assms(2,3)] by blast
  have "floor_holds a ct (conflict_leg a)" for ct
    by (simp add: floor_holds_def leg hard_leg_def crossed_leg_def hard_def split: option.split)
  then show ?thesis using floor_refuses [OF assms(1) None] by (simp add: hard_def)
next
  case (Some ps)
  then obtain pd' st' where gate: "override_gate a = Some (pd', st')" by (cases ps) simp
  from grant_decides(2) [OF this] obtain st sid g where g: "da_override_grants a = Some st"
      "da_session_id a = Some sid"
      "find_active st sid (a_kind (da_action a)) (a_target (da_action a)) (eff_now a ReadOverride)
         = Some g"
      "st' = store_update st (consume_for g (a_kind (da_action a)) (a_target (da_action a))
         (eff_now a ReadOverride))" by blast
  show ?thesis
    using g(1,2) find_active_Some [OF g(3)] g(4) grant_decides(1) [OF gate] by auto
qed

definition tainted_state :: label_state where
  "tainted_state = \<lparr>ls_a = [], ls_b = [\<lparr>pt_level = EXTERNAL_UNTRUSTED\<rparr>]\<rparr>"

theorem untrusted_never_egresses_witness:
  "\<exists>pd. fst (decide ((base_args mail [mail_cap])\<lparr>da_labels := Some tainted_state,
        da_already_approved := True, da_trust_profile_is_personal := True\<rparr>)) = Inr pd
     \<and> pd_decision pd \<in> {DENY, OVERRIDE_REQUIRED}"
proof -
  let ?a = "(base_args mail [mail_cap])\<lparr>da_labels := Some tainted_state,
    da_already_approved := True, da_trust_profile_is_personal := True\<rparr>"
  obtain pd where pd: "fst (decide ?a) = Inr pd"
    using decide_returns [of ?a] by (auto simp: well_configured_def)
  have "pd_decision pd \<in> {DENY, OVERRIDE_REQUIRED}"
    using untrusted_never_egresses [OF pd]
    by (simp add: kind_in_def EGRESS_KINDS_def eff_labels_def tainted_state_def levels_def)
  with pd show ?thesis by blast
qed

text \<open>
  The confidentiality floors: in the managed profile health data never leaves through an egress
  kind, and financial data never through mail, messages or the browser.
\<close>

theorem managed_confidentiality_floor:
  assumes "fst (decide a) = Inr pd" and "override_gate a = None"
    and "\<not> da_trust_profile_is_personal a"
    and "kind_in (a_kind (da_action a)) (map BuiltIn EGRESS_KINDS)"
    and "''health'' \<in> ct_category ` set (ls_a (eff_labels a))
      \<or> ''financial'' \<in> ct_category ` set (ls_a (eff_labels a))
        \<and> \<not> kind_eq (a_kind (da_action a)) (BuiltIn QUEUE_PURCHASE)"
  shows "pd_decision pd \<in> {DENY, OVERRIDE_REQUIRED}"
proof -
  have "\<exists>rule why. conflict_leg a = Some (DENY, rule, why)"
    using assms(4,5)
    by (auto simp: conflict_leg_def conflict_invariant_outcome_def Let_def kind_in_def kind_eq_def
        EGRESS_KINDS_def)
  then obtain rule why where leg: "conflict_leg a = Some (DENY, rule, why)" by blast
  have "floor_holds a ct (conflict_leg a)" for ct
    using assms(3)
    by (simp add: floor_holds_def leg hard_leg_def crossed_leg_def hard_def split: option.split)
  then show ?thesis using floor_refuses [OF assms(1,2)] by (simp add: hard_def)
qed

theorem managed_confidentiality_floor_witness:
  "\<exists>pd. fst (decide ((base_args mail [mail_cap])\<lparr>da_labels := Some health_state\<rparr>)) = Inr pd
     \<and> pd_decision pd \<in> {DENY, OVERRIDE_REQUIRED}"
proof -
  let ?a = "(base_args mail [mail_cap])\<lparr>da_labels := Some health_state\<rparr>"
  obtain pd where pd: "fst (decide ?a) = Inr pd"
    using decide_returns [of ?a] by (auto simp: well_configured_def)
  have "pd_decision pd \<in> {DENY, OVERRIDE_REQUIRED}"
    by (rule managed_confidentiality_floor [OF pd])
      (simp_all add: override_gate_def kind_in_def EGRESS_KINDS_def eff_labels_def health_state_def)
  with pd show ?thesis by blast
qed

text \<open>
  The web-fetch floor: with restricted data in the session and no binding set, a fetch of an
  http(s) URL is refused hard, in both profiles, whatever floors the loaded rules name.
\<close>

theorem restricted_data_never_fetches:
  assumes "fst (decide a) = Inr pd" and "override_gate a = None"
    and "kind_eq (a_kind (da_action a)) (BuiltIn WEB_FETCH)"
    and "target_is_remote_url (a_target (da_action a))" and "da_bindings a = None"
    and "tag \<in> set (ls_a (eff_labels a))" and "tier_rank RESTRICTED \<le> tier_rank (ct_tier tag)"
    and "\<forall>rules. da_rules_v2 a = Some rules \<longrightarrow>
      list_all (\<lambda>r. validate_crosses_floor (dr_crosses_floor r) = Inr (dr_crosses_floor r)) rules"
  shows "pd_decision pd \<in> {DENY, OVERRIDE_REQUIRED}"
proof -
  let ?leg = "Some (DENY, FETCH_URL_RESTRICTED_RULE, FetchRestricted)"
  have fetch: "fetch_leg a None = ?leg"
  proof -
    obtain t ts where ts: "map ct_tier (ls_a (eff_labels a)) = t # ts"
      using assms(6) by (cases "ls_a (eff_labels a)") auto
    have "ct_tier tag \<in> set (t # ts)" unfolding ts [symmetric] using assms(6) by simp
    then have "tier_rank RESTRICTED \<le> tier_rank (max_by tier_rank t ts)"
      using max_by_ge assms(7) order_trans by metis
    then have above: "is_above (max_by tier_rank t ts) SENSITIVE"
        "is_above (max_by tier_rank t ts) REGULATED"
      by (simp_all add: is_above_def)
    show ?thesis
      by (simp add: fetch_leg_def fetch_url_egress_outcome_def assms(3,4) ts above Let_def)
  qed
  have uncrossed: "FETCH_URL_RESTRICTED_RULE \<notin> set (ev_crossed_floors v2)"
    if "rule_leg a None = Some v2" for v2
  proof -
    obtain rules axis_d eff where "da_rules_v2 a = Some rules"
        "evaluate rules (eff_labels a) axis_d eff (a_target (da_action a))
          (da_default_v2_outcome a) (Some (hour_of (eff_now a ReadV2))) = Inr v2"
      using \<open>rule_leg a None = Some v2\<close>
      by (auto simp: rule_leg_def split: option.splits sum.splits)
    then have "set (ev_crossed_floors v2) \<subseteq>
        {''health-meets-egress'', ''financial-meets-email'', ''financial-meets-purchase''}"
      using crossed_floors_validated assms(8) by blast
    then show ?thesis by (auto simp: FETCH_URL_RESTRICTED_RULE_def)
  qed
  have holds: "floor_holds a None (fetch_leg a None)"
    using uncrossed
    by (auto simp: floor_holds_def fetch hard_leg_def crossed_leg_def hard_def split: option.split)
  obtain pd' where pd': "decide_gated a = Inr pd'" "pd = add_recovery a pd'"
    using assms(1,2) by (auto simp: decide_Inr decide_impl_no_override)
  have "binding_gate a = Inr None" using assms(5) by (simp add: binding_gate_def)
  from pd'(1) have "hard (pd_decision pd')"
  proof (cases rule: decide_gated_cases)
    case (composed ct env)
    then have "ct = None" using \<open>binding_gate a = Inr None\<close> by simp
    then show ?thesis using compose_legs_hard [OF composed(5)] holds by (simp add: hard_spec_def)
  qed
  then show ?thesis using pd' by (simp add: hard_def)
qed

definition fetch :: action where
  "fetch = \<lparr>a_kind = BuiltIn WEB_FETCH, a_target = ''https://x.org/?q=1'', a_amount = None\<rparr>"

definition restricted_state :: label_state where
  "restricted_state =
     \<lparr>ls_a = [\<lparr>ct_category = ''credentials'', ct_tier = RESTRICTED, ct_risk_ids = [],
              ct_assignment_provenance = ''operator-declared''\<rparr>], ls_b = []\<rparr>"

theorem restricted_data_never_fetches_witness:
  "\<exists>pd. fst (decide ((base_args fetch [])\<lparr>da_labels := Some restricted_state\<rparr>)) = Inr pd
     \<and> pd_decision pd \<in> {DENY, OVERRIDE_REQUIRED}"
proof -
  let ?a = "(base_args fetch [])\<lparr>da_labels := Some restricted_state\<rparr>"
  obtain pd where pd: "fst (decide ?a) = Inr pd"
    using decide_returns [of ?a] by (auto simp: well_configured_def)
  have "pd_decision pd \<in> {DENY, OVERRIDE_REQUIRED}"
    by (rule restricted_data_never_fetches [OF pd, where tag = "hd (ls_a restricted_state)"])
      (simp_all add: override_gate_def fetch_def kind_eq_def target_is_remote_url_def eff_labels_def
        restricted_state_def)
  with pd show ?thesis by blast
qed

text \<open>
  The lattice gates: a tainted session never exercises a control-plane effect, data above the
  profile's clearance is not processed, and neither is input below the integrity floor.
\<close>

theorem lattice_gates_refuse:
  assumes "fst (decide a) = Inr pd" and "override_gate a = None"
    and "(\<exists>e. da_effect_class a = Some (control_plane_value e))
           \<and> EXTERNAL_UNTRUSTED \<in> levels (eff_labels a)
       \<or> (\<exists>top tag. da_clearance_max_tier a = Some top \<and> tag \<in> set (ls_a (eff_labels a))
            \<and> tier_rank top < tier_rank (ct_tier tag))
       \<or> (\<exists>fl l. da_integrity_floor_level a = Some (provenance_value fl)
            \<and> l \<in> levels (eff_labels a) \<and> provenance_rank fl < provenance_rank l)"
  shows "pd_decision pd \<in> {DENY, OVERRIDE_REQUIRED}"
proof -
  have plane: "control_plane_gate a \<noteq> None"
    if "da_effect_class a = Some (control_plane_value e)" "EXTERNAL_UNTRUSTED \<in> levels (eff_labels a)"
    for e
    using that control_plane_enum [of e]
    by (simp add: control_plane_gate_def is_control_plane_effect_def control_plane_admissible_iff)
  have clearance: "clearance_gate a \<noteq> None"
    if "da_clearance_max_tier a = Some top" "tag \<in> set (ls_a (eff_labels a))"
      "tier_rank top < tier_rank (ct_tier tag)" for top tag
  proof -
    have "\<exists>t. find (\<lambda>cat. compare (ct_tier cat) top > 0) (ls_a (eff_labels a)) = Some t"
      using that(2,3) by (auto simp: find_None_iff compare_def simp flip: not_None_eq)
    then show ?thesis using that(1) by (auto simp: clearance_gate_def)
  qed
  have integrity: "integrity_gate a \<noteq> None"
    if l: "da_integrity_floor_level a = Some (provenance_value fl)" "l \<in> levels (eff_labels a)"
      "provenance_rank fl < provenance_rank l" for fl l
  proof -
    obtain tag where "tag \<in> set (ls_b (eff_labels a))" "pt_level tag = l"
      using l(2) by (auto simp: levels_def)
    moreover have "check_integrity_floor (provenance_value fl) (provenance_value l) \<noteq> Inr ()"
      using l(3) by (cases fl; cases l) (simp_all add: check_integrity_floor_def INTEGRITY_RANK_def)
    ultimately have "\<exists>t. find (\<lambda>entry. check_integrity_floor (provenance_value fl)
        (provenance_value (pt_level entry)) \<noteq> Inr ()) (ls_b (eff_labels a)) = Some t"
      by (auto simp: find_None_iff simp flip: not_None_eq)
    then show ?thesis using l(1) by (auto simp: integrity_gate_def)
  qed
  have "control_plane_gate a \<noteq> None \<or> clearance_gate a \<noteq> None \<or> integrity_gate a \<noteq> None"
    using assms(3) by (elim disjE exE conjE) (simp_all add: plane clearance integrity)
  then have "gate_refused a" by (auto simp: gate_refused_def refusal_gates_def)
  then show ?thesis
    using decide_hard_iff [OF assms(1,2)] by (simp add: refuses_hard_def hard_def)
qed

theorem lattice_gates_refuse_witness:
  "\<exists>pd. fst (decide ((base_args mail [mail_cap])\<lparr>da_labels := Some restricted_state,
        da_clearance_max_tier := Some SENSITIVE\<rparr>)) = Inr pd
     \<and> pd_decision pd \<in> {DENY, OVERRIDE_REQUIRED}"
proof -
  let ?a = "(base_args mail [mail_cap])\<lparr>da_labels := Some restricted_state,
        da_clearance_max_tier := Some SENSITIVE\<rparr>"
  obtain pd where pd: "fst (decide ?a) = Inr pd"
    using decide_returns [of ?a] by (auto simp: well_configured_def)
  have "pd_decision pd \<in> {DENY, OVERRIDE_REQUIRED}"
    by (rule lattice_gates_refuse [OF pd])
      (simp_all add: override_gate_def eff_labels_def restricted_state_def)
  with pd show ?thesis by blast
qed

section \<open>Approvals, first use, errors\<close>

lemma approved_indep [simp]:
  "override_gate (a\<lparr>da_already_approved := b\<rparr>) = override_gate a"
  "binding_gate (a\<lparr>da_already_approved := b\<rparr>) = binding_gate a"
  "refusal_gates (a\<lparr>da_already_approved := b\<rparr>) = refusal_gates a"
  "relax_gate (a\<lparr>da_already_approved := b\<rparr>) = relax_gate a"
  "envelope_leg (a\<lparr>da_already_approved := b\<rparr>) = envelope_leg a"
  "capability_leg (a\<lparr>da_already_approved := b\<rparr>) = capability_leg a"
  "reversibility_leg (a\<lparr>da_already_approved := b\<rparr>) = reversibility_leg a"
  "conflict_leg (a\<lparr>da_already_approved := b\<rparr>) = conflict_leg a"
  "fetch_leg (a\<lparr>da_already_approved := b\<rparr>) ct = fetch_leg a ct"
  "rule_leg (a\<lparr>da_already_approved := b\<rparr>) ct = rule_leg a ct"
proof -
  have [simp]: "eff_labels (a\<lparr>da_already_approved := b\<rparr>) = eff_labels a"
    "eff_now (a\<lparr>da_already_approved := b\<rparr>) = eff_now a"
    "gate_decision (a\<lparr>da_already_approved := b\<rparr>) = gate_decision a"
    by (simp_all add: eff_labels_def eff_now_def gate_decision_def fun_eq_iff split: option.split)
  show "override_gate (a\<lparr>da_already_approved := b\<rparr>) = override_gate a"
    by (simp cong: if_cong option.case_cong sum.case_cong prod.case_cong list.case_cong
      add: Let_def override_gate_def)
  show "binding_gate (a\<lparr>da_already_approved := b\<rparr>) = binding_gate a"
    by (simp cong: if_cong option.case_cong sum.case_cong prod.case_cong list.case_cong
      add: Let_def binding_gate_def)
  show "refusal_gates (a\<lparr>da_already_approved := b\<rparr>) = refusal_gates a"
    by (simp cong: if_cong option.case_cong sum.case_cong prod.case_cong list.case_cong
      add: Let_def refusal_gates_def control_plane_gate_def sandbox_gate_def devbox_gate_def
        risk_citation_gate_def clearance_gate_def integrity_gate_def)
  show "relax_gate (a\<lparr>da_already_approved := b\<rparr>) = relax_gate a"
    by (simp cong: if_cong option.case_cong sum.case_cong prod.case_cong list.case_cong
      add: Let_def relax_gate_def)
  show "envelope_leg (a\<lparr>da_already_approved := b\<rparr>) = envelope_leg a"
    by (simp cong: if_cong option.case_cong sum.case_cong prod.case_cong list.case_cong
      add: Let_def envelope_leg_def)
  show "capability_leg (a\<lparr>da_already_approved := b\<rparr>) = capability_leg a"
    by (simp cong: if_cong option.case_cong sum.case_cong prod.case_cong list.case_cong
      add: Let_def capability_leg_def)
  show "reversibility_leg (a\<lparr>da_already_approved := b\<rparr>) = reversibility_leg a"
    by (simp cong: if_cong option.case_cong sum.case_cong prod.case_cong list.case_cong
      add: Let_def reversibility_leg_def)
  show "conflict_leg (a\<lparr>da_already_approved := b\<rparr>) = conflict_leg a"
    by (simp cong: if_cong option.case_cong sum.case_cong prod.case_cong list.case_cong
      add: Let_def conflict_leg_def)
  show "fetch_leg (a\<lparr>da_already_approved := b\<rparr>) ct = fetch_leg a ct"
    by (simp cong: if_cong option.case_cong sum.case_cong prod.case_cong list.case_cong
      add: Let_def fetch_leg_def)
  show "rule_leg (a\<lparr>da_already_approved := b\<rparr>) ct = rule_leg a ct"
    by (simp cong: if_cong option.case_cong sum.case_cong prod.case_cong list.case_cong
      add: Let_def rule_leg_def)
qed

lemma approved_refuses_hard:
  "refuses_hard (a\<lparr>da_already_approved := b\<rparr>) = refuses_hard a"
proof -
  have "floor_holds (a\<lparr>da_already_approved := b\<rparr>) ct leg = floor_holds a ct leg" for ct leg
    by (simp add: floor_holds_def split: option.split)
  then have "hard_spec (a\<lparr>da_already_approved := b\<rparr>) ct env = hard_spec a ct env" for ct env
    by (simp add: hard_spec_def)
  then show ?thesis by (simp add: refuses_hard_def gate_refused_def)
qed

text \<open>
  C26: an approval never crosses a floor: the re-dispatch of an approved action is refused hard
  exactly when the unapproved one is, so the approval queue resolves approvals and nothing else.
\<close>

theorem approval_never_crosses_floor:
  assumes "fst (decide (a\<lparr>da_already_approved := True\<rparr>)) = Inr approved"
    and "fst (decide (a\<lparr>da_already_approved := False\<rparr>)) = Inr fresh"
    and "override_gate a = None"
  shows "pd_decision approved \<in> {DENY, OVERRIDE_REQUIRED}
     \<longleftrightarrow> pd_decision fresh \<in> {DENY, OVERRIDE_REQUIRED}"
  using decide_hard_iff [OF assms(1)] decide_hard_iff [OF assms(2)] assms(3)
  by (simp add: approved_refuses_hard hard_def)

theorem approval_never_crosses_floor_witness:
  "\<exists>p q. fst (decide ((base_args mail [mail_cap])\<lparr>da_already_approved := True\<rparr>)) = Inr p
     \<and> fst (decide ((base_args mail [mail_cap])\<lparr>da_already_approved := False\<rparr>)) = Inr q
     \<and> (pd_decision p \<in> {DENY, OVERRIDE_REQUIRED} \<longleftrightarrow> pd_decision q \<in> {DENY, OVERRIDE_REQUIRED})"
proof -
  let ?a = "base_args mail [mail_cap]"
  obtain p where p: "fst (decide (?a\<lparr>da_already_approved := True\<rparr>)) = Inr p"
    using decide_returns [of "?a\<lparr>da_already_approved := True\<rparr>"]
    by (auto simp: well_configured_def)
  obtain q where q: "fst (decide (?a\<lparr>da_already_approved := False\<rparr>)) = Inr q"
    using decide_returns [of "?a\<lparr>da_already_approved := False\<rparr>"]
    by (auto simp: well_configured_def)
  from approval_never_crosses_floor [OF p q base_override] p q show ?thesis by blast
qed

text \<open>
  A decision is returned, never an exception, whenever the never-auto default is not \<open>auto\<close> or
  \<open>shadow\<close> and the envelopes went through their constructor.
\<close>

theorem decide_total:
  assumes "da_default_v2_outcome a \<notin> {RO_AUTO, RO_SHADOW}"
    and "\<forall>es. da_envelope_set a = Some es \<longrightarrow>
      (\<forall>cell env. envelope_lookup es cell = Some env \<longrightarrow>
         (\<exists>c s l. OutcomeEnvelope c s l = Inr env))"
  shows "\<exists>pd st. decide a = (Inr pd, st)"
proof -
  have "well_configured a"
    using assms by (auto simp: well_configured_def constructed_def split: option.split)
  then show ?thesis using decide_returns prod.collapse by metis
qed

theorem decide_total_witness:
  "\<exists>pd st. decide ((base_args mail [mail_cap])\<lparr>da_envelope_set := Some []\<rparr>) = (Inr pd, st)"
  by (rule decide_total) (simp_all add: envelope_lookup_def)

text \<open>
  The first use of a promptable kind is never silently allowed when the prompt is on.
\<close>

theorem first_use_never_silent:
  assumes "fst (decide a) = Inr pd" and "override_gate a = None"
    and "da_first_use_prompt_enabled a"
    and "kind_in (a_kind (da_action a)) (map BuiltIn PROMPTABLE_FIRST_USE_KINDS)"
    and "\<not> kind_in (a_kind (da_action a)) (da_used_kinds a)"
  shows "pd_decision pd \<noteq> ALLOW"
proof
  assume allow: "pd_decision pd = ALLOW"
  obtain ct env pd' where legs: "compose_legs a ct env = Inr pd'" "pd = add_recovery a pd'"
    using decide_hard [OF assms(1,2)] allow by (auto simp: hard_def)
  have silent: "pd_decision (first_use a x) \<noteq> ALLOW" for x
    using assms(3-5) by (simp add: first_use_def maybe_first_use_escalation_def)
  have "\<exists>x. pd' = first_use a x"
    using legs(1)
    by (auto simp: compose_legs_def compose_full_Inr after_rules_def compose_legacy_only_def Let_def
        split: option.splits sum.splits)
  then show False using silent allow legs(2) by auto
qed

theorem first_use_never_silent_witness:
  "\<exists>pd. fst (decide ((base_args mail [mail_cap])\<lparr>da_first_use_prompt_enabled := True\<rparr>)) = Inr pd
     \<and> pd_decision pd \<noteq> ALLOW"
proof -
  let ?a = "(base_args mail [mail_cap])\<lparr>da_first_use_prompt_enabled := True\<rparr>"
  obtain pd where pd: "fst (decide ?a) = Inr pd"
    using decide_returns [of ?a] by (auto simp: well_configured_def)
  have "pd_decision pd \<noteq> ALLOW"
    by (rule first_use_never_silent [OF pd])
      (simp_all add: override_gate_def kind_in_def PROMPTABLE_FIRST_USE_KINDS_def)
  with pd show ?thesis by blast
qed

section \<open>Override grants\<close>

text \<open>A store whose dictionary is keyed by the grants' own ids.\<close>

definition store_keyed :: "grant_store \<Rightarrow> bool" where
  "store_keyed st \<longleftrightarrow>
     distinct (map fst (gs_by_id st)) \<and> (\<forall>i g. store_get st i = Some g \<longrightarrow> og_id g = i)"

lemma persist_grant_by_id [simp]: "gs_by_id (persist_grant st g) = gs_by_id st"
  by (simp add: persist_grant_def split: option.split)

lemma store_keyed_update: "store_keyed st \<Longrightarrow> store_keyed (store_update st g)"
proof -
  assume keyed: "store_keyed st"
  have "distinct (map fst (gs_by_id (store_update st g)))"
    using keyed by (simp add: store_keyed_def store_update_def distinct_update)
  moreover have "og_id g' = i" if "store_get (store_update st g) i = Some g'" for i g'
    using that keyed unfolding store_get_update store_keyed_def by (simp split: if_splits)
  ultimately show ?thesis by (simp add: store_keyed_def)
qed

lemma store_get_listed:
  "store_keyed st \<Longrightarrow> g \<in> set (store_list_all st) \<Longrightarrow> store_get st (og_id g) = Some g"
proof -
  assume keyed: "store_keyed st" and "g \<in> set (store_list_all st)"
  then obtain i where "(i, g) \<in> set (gs_by_id st)" by (auto simp: store_list_all_def)
  then have "store_get st i = Some g"
    using keyed by (simp add: store_keyed_def store_get_def)
  moreover from this have "og_id g = i" using keyed by (simp add: store_keyed_def)
  ultimately show ?thesis by simp
qed

lemma consumed_not_found:
  assumes "store_keyed st" and "store_get st (og_id g) = Some g" and "spent g (kind_name k) t"
    and "find_active st sid k t now = Some g'"
  shows "og_id g' \<noteq> og_id g"
proof
  assume same: "og_id g' = og_id g"
  have "store_get st (og_id g') = Some g'"
    using store_get_listed [OF assms(1) find_active_Some(1) [OF assms(4)]] .
  then have "store_get st (og_id g) = Some g'" by (simp only: same)
  with assms(2) have eq: "g' = g" by (simp only: option.inject)
  obtain cap where "use_override g' k t now 0 = Inr cap"
    using find_active_usable [OF assms(4)] by blast
  moreover obtain r where "use_override g k t now 0 = Inl r"
    using spent_refused [OF assms(3), of now 0] by blast
  ultimately show False unfolding eq by simp
qed

text \<open>
  C28: an override grant is spent by the decision it allows: the decision that uses a grant allows
  with a one-shot capability for exactly that action, and afterwards the store never yields that
  grant for the action again, at any later time.
\<close>

theorem override_allows_once:
  assumes "override_gate a = Some (pd, st')" and "da_override_grants a = Some st"
    and "da_session_id a = Some sid" and "store_keyed st"
  shows "\<exists>g. find_active st sid (a_kind (da_action a)) (a_target (da_action a))
              (eff_now a ReadOverride) = Some g
     \<and> decide a = (Inr pd, Some st') \<and> pd_decision pd = ALLOW
     \<and> (\<exists>cap. pd_matched_capability pd = Some cap \<and> c_kind cap = a_kind (da_action a)
          \<and> c_pattern cap = a_target (da_action a) \<and> c_expiry cap = ONE_SHOT
          \<and> c_origin cap = OVERRIDE_GRANTED)
     \<and> store_keyed st'
     \<and> (\<forall>sid' now' g'. find_active st' sid' (a_kind (da_action a)) (a_target (da_action a)) now'
            = Some g' \<longrightarrow> og_id g' \<noteq> og_id g)"
proof -
  let ?k = "a_kind (da_action a)" and ?t = "a_target (da_action a)"
  let ?now = "eff_now a ReadOverride"
  obtain g cap where g: "find_active st sid ?k ?t ?now = Some g"
      "use_override g ?k ?t ?now (da_mint_audit_id a) = Inr cap"
      "st' = store_update st (consume_for g ?k ?t ?now)"
      "pd_decision pd = ALLOW" "pd_matched_capability pd = Some cap" "pd_recovery_steps pd = []"
    using assms(1-3) by (auto simp: override_gate_def Let_def split: option.splits sum.splits)
  have "decide a = (Inr pd, Some st')"
    using assms(1) g(4) by (simp add: decide_def decide_impl_def add_recovery_def)
  moreover have keyed: "store_keyed st'" unfolding g(3) by (rule store_keyed_update [OF assms(4)])
  moreover have "og_id g' \<noteq> og_id g" if "find_active st' sid' ?k ?t now' = Some g'" for sid' now' g'
  proof -
    have "store_get st (og_id g) = Some g"
      using store_get_listed [OF assms(4) find_active_Some(1) [OF g(1)]] .
    then have "store_get st' (og_id g) = Some (consume_for g ?k ?t ?now)"
      by (simp add: g(3) store_get_update)
    then have "og_id g' \<noteq> og_id (consume_for g ?k ?t ?now)"
      by (intro consumed_not_found [OF keyed _ consume_spends that]) simp
    then show ?thesis by simp
  qed
  ultimately show ?thesis using g use_override_cap [OF g(2)] by blast
qed

definition mail_grant :: "hard_floor \<Rightarrow> override_grant" where
  "mail_grant fl =
     \<lparr>og_id = 7, og_session_id = 1, og_action_kind = BuiltIn SEND_EMAIL, og_target = ''bob'',
      og_target_category_tier = ([], []), og_hard_floor_crossed = fl,
      og_invoker_principal = ''alice'', og_attester_principal = None,
      og_policy_at_grant = operator_default_entry fl ''alice'',
      og_friction_level = MEDIUM, og_state = G_ACTIVE, og_expires_at = 900000000,
      og_consumed_at = None, og_audit_id = 8, og_group_members = [], og_consumed_members = []\<rparr>"

definition grant_args :: "hard_floor \<Rightarrow> decide_args" where
  "grant_args fl =
     (base_args mail [])\<lparr>da_override_grants := Some \<lparr>gs_by_id = [(7, mail_grant fl)], gs_db = None\<rparr>,
       da_session_id := Some 1\<rparr>"

lemma grant_args_gate: "\<exists>pd st'. override_gate (grant_args fl) = Some (pd, st')"
  by (simp add: override_gate_def grant_args_def eff_now_def find_active_def mail_grant_def is_for_def
      is_group_def kind_eq_def grant_expired_def use_override_def Let_def)

lemma grant_args_keyed: "store_keyed \<lparr>gs_by_id = [(7, mail_grant fl)], gs_db = None\<rparr>"
  by (simp add: store_keyed_def store_get_def mail_grant_def)

theorem override_allows_once_witness:
  "\<exists>pd st'. decide (grant_args HEALTH_EGRESS) = (Inr pd, Some st') \<and> pd_decision pd = ALLOW"
proof -
  obtain pd st' where gate: "override_gate (grant_args HEALTH_EGRESS) = Some (pd, st')"
    using grant_args_gate by blast
  have "da_override_grants (grant_args HEALTH_EGRESS)
        = Some \<lparr>gs_by_id = [(7, mail_grant HEALTH_EGRESS)], gs_db = None\<rparr>"
    and "da_session_id (grant_args HEALTH_EGRESS) = Some 1"
    by (simp_all add: grant_args_def)
  from override_allows_once [OF gate this grant_args_keyed] show ?thesis by blast
qed

end
