(* ===== verification/EngineFindings.thy ===== *)
theory EngineFindings
  imports EngineProps
begin

text \<open>
  Recovery steps that work, and what the model shows against the engine's own documentation: the
  optimistic carve-out relaxes more than the never-auto default, a grant for one floor crosses every
  floor, and two decisions depend on the iteration order of a frozenset.
\<close>

section \<open>Recovery grants\<close>

lemma rstrip_replicate: "\<exists>n. s = rstrip c s @ replicate n c"
proof -
  have "\<exists>n. xs = replicate n c @ dropWhile (\<lambda>x. x = c) xs" for xs
  proof (induction xs)
    case (Cons a xs)
    then obtain n where n: "xs = replicate n c @ dropWhile (\<lambda>x. x = c) xs" by blast
    show ?case
    proof (cases "a = c")
      case True
      with n have "a # xs = replicate (Suc n) c @ dropWhile (\<lambda>x. x = c) (a # xs)" by simp
      then show ?thesis by blast
    next
      case False
      then have "a # xs = replicate 0 c @ dropWhile (\<lambda>x. x = c) (a # xs)" by simp
      then show ?thesis by blast
    qed
  qed simp
  then obtain n where "rev s = replicate n c @ dropWhile (\<lambda>x. x = c) (rev s)" by blast
  then have "rev (rev s) = rev (dropWhile (\<lambda>x. x = c) (rev s)) @ rev (replicate n c)"
    by (metis rev_append)
  then show ?thesis by (auto simp: rstrip_def)
qed

lemma rpartition_at_append:
  assumes "rpartition_at c s = (p, b)" and "p \<noteq> []"
  shows "s = p @ [c] @ b"
proof -
  let ?d = "dropWhile (\<lambda>x. x \<noteq> c) (rev s)" and ?t = "takeWhile (\<lambda>x. x \<noteq> c) (rev s)"
  have p: "p = rev (tl ?d)" and b: "b = rev ?t" using assms(1) by (auto simp: rpartition_at_def)
  have "?d \<noteq> []"
  proof
    assume "?d = []"
    then have "p = []" unfolding p by (simp only: list.sel rev.simps)
    with assms(2) show False by simp
  qed
  then have "hd ?d = c" using hd_dropWhile [of "\<lambda>x. x \<noteq> c" "rev s"] by blast
  with \<open>?d \<noteq> []\<close> have "?d = c # tl ?d" by (cases ?d) auto
  then have "rev s = ?t @ c # tl ?d" using takeWhile_dropWhile_id [of "\<lambda>x. x \<noteq> c" "rev s"] by simp
  then have "rev (rev s) = rev (?t @ c # tl ?d)" by (simp only:)
  then show ?thesis by (simp add: p b)
qed

lemma subtree_matches:
  assumes "glob_free p" and "s = p \<or> (\<exists>r. s = p @ ''/'' @ r)"
  shows "pattern_matches (p @ ''/*'') s"
  using assms(2)
proof
  assume "s = p"
  then show ?thesis by (simp add: pattern_matches_def suffix_def)
next
  assume "\<exists>r. s = p @ ''/'' @ r"
  then have "fnmatchcase s ((p @ ''/'') @ ''*'')"
    using assms(1) by (subst fnmatch_prefix) (auto simp: glob_free_def)
  then show ?thesis by (simp add: pattern_matches_def)
qed

lemma widened_matches:
  assumes "glob_free t"
  shows "pattern_matches (widen_read_fs_grant_target k t) t"
proof (cases "k = ''READ_FS''")
  case False
  then show ?thesis
    using assms by (simp add: widen_read_fs_grant_target_def pattern_matches_def fnmatch_literal)
next
  case True
  have no_star: "\<not> suffix ''/*'' t" "\<not> suffix ''/**'' t" "t \<noteq> ''*''"
    using assms by (auto simp: suffix_def)
  obtain n where n: "t = rstrip (CHR ''/'') t @ replicate n (CHR ''/'')"
    using rstrip_replicate by blast
  let ?s = "rstrip (CHR ''/'') t"
  define path where "path = (if ?s = [] then t else ?s)"
  obtain parent base where part: "rpartition_at (CHR ''/'') path = (parent, base)" by fastforce
  define p where
    "p = (if CHR ''.'' \<in> set base \<and> \<not> prefix ''.'' base \<and> parent \<noteq> [] then parent else path)"
  have widened: "widen_read_fs_grant_target k t = p @ ''/*''"
    using True no_star part
    by (simp add: widen_read_fs_grant_target_def path_def [symmetric] p_def Let_def)
  have path: "\<exists>m. t = path @ replicate m (CHR ''/'')"
    unfolding path_def using n by (cases "?s = []") auto
  then obtain m where m: "t = path @ replicate m (CHR ''/'')" by blast
  have "glob_free path" using assms m by (metis glob_free_append)
  have below: "t = p \<or> (\<exists>r. t = p @ ''/'' @ r)"
  proof (cases "p = path")
    case True
    then show ?thesis using m by (cases m) auto
  next
    case False
    then have "p = parent" "parent \<noteq> []" by (auto simp: p_def split: if_splits)
    then show ?thesis using rpartition_at_append [OF part] m by auto
  qed
  have "glob_free p" using below assms by (metis glob_free_append)
  then show ?thesis unfolding widened using below by (rule subtree_matches)
qed

text \<open>
  The recovery the engine prints for a missing capability works: it is one \<open>/grant\<close> command, and
  the one-shot capability it asks for covers the refused action, also when a file read is widened to
  its directory.
\<close>

theorem recovery_grant_covers_action:
  assumes "glob_free (a_target act)" and "a_target act \<noteq> []" and "kind_name (a_kind act) \<noteq> []"
  shows "\<exists>pat why. synthesize_recovery_steps DENY None act eff
            (Some (NoMatchingCapability (kind_name (a_kind act)) (a_target act)))
          = [grant_step [kind_name (a_kind act), pat, ''--one-shot''] why]
       \<and> scope_matches (Capability (a_kind act) pat aid) act"
proof -
  let ?pat = "widen_read_fs_grant_target (kind_name (a_kind act)) (a_target act)"
  have "scope_matches (Capability (a_kind act) ?pat aid) act"
    using widened_matches [OF assms(1)]
    by (simp add: scope_matches_def matches_def Capability_def covers_kind_def kind_eq_def)
  moreover have "synthesize_recovery_steps DENY None act eff
      (Some (NoMatchingCapability (kind_name (a_kind act)) (a_target act)))
    = [grant_step [kind_name (a_kind act), ?pat, ''--one-shot'']
        (lacks_capability (kind_name (a_kind act)) (a_target act))]"
    using assms(2,3) by (simp add: synthesize_recovery_steps_def Let_def)
  ultimately show ?thesis by blast
qed

theorem recovery_grant_covers_action_witness:
  "\<exists>pat why. synthesize_recovery_steps DENY None
       \<lparr>a_kind = BuiltIn READ_FS, a_target = ''/home/a/b.txt'', a_amount = None\<rparr> None
       (Some (NoMatchingCapability ''READ_FS'' ''/home/a/b.txt''))
     = [grant_step [''READ_FS'', pat, ''--one-shot''] why]"
proof -
  let ?act = "\<lparr>a_kind = BuiltIn READ_FS, a_target = ''/home/a/b.txt'', a_amount = None\<rparr>"
  have pre: "glob_free (a_target ?act)" "a_target ?act \<noteq> []" "kind_name (a_kind ?act) \<noteq> []"
    by (simp_all add: glob_free_def)
  obtain pat why where "synthesize_recovery_steps DENY None ?act None
      (Some (NoMatchingCapability (kind_name (a_kind ?act)) (a_target ?act)))
    = [grant_step [kind_name (a_kind ?act), pat, ''--one-shot''] why]"
    using recovery_grant_covers_action [OF pre] by blast
  then show ?thesis by auto
qed

section \<open>The optimistic carve-out\<close>

definition save :: action where
  "save = \<lparr>a_kind = BuiltIn MODIFY_FS, a_target = ''f'', a_amount = None\<rparr>"

definition burst_cap :: capability where
  "burst_cap = (Capability (BuiltIn MODIFY_FS) ''f'' 5)
     \<lparr>c_rate_limit := Some \<lparr>rl_max_uses = 1, rl_window_seconds = 60\<rparr>\<rparr>"

definition optimistic_args :: decide_args where
  "optimistic_args = (base_args save [burst_cap])
     \<lparr>da_cap_uses := Some [(5, [0])], da_revoked_audit_ids := [5],
      da_rate_limit_escalation := True, da_axis_d := Some fail_closed,
      da_effect_class := Some ''MUTATE_LOCAL'', da_rules_v2 := Some [],
      da_effective_reversibility := Some \<lparr>rv_degree = REVERSIBLE, rv_agent = SYSTEM\<rparr>\<rparr>"

lemma burst_cap_exceeded:
  "scope_matches burst_cap save" "\<not> is_expired burst_cap 0"
  "is_rate_exceeded burst_cap 0 (cap_uses_for burst_cap (Some [(5, [0])]))"
  by (simp_all add: scope_matches_def matches_def burst_cap_def save_def Capability_def
      covers_kind_def kind_eq_def pattern_matches_def fnmatchcase_def is_expired_def
      is_rate_exceeded_def cap_uses_for_def dict_get_def)

lemma optimistic_legs:
  "\<exists>why. capability_leg optimistic_args
     = PolicyDecision REQUIRE_APPROVAL (Some RATE_LIMIT_EXCEEDED_RULE) why (Some burst_cap)"
  "\<exists>why. reversibility_leg optimistic_args = Some (ALLOW, OPTIMISTIC_AUTO_RULE, why)"
  "conflict_leg optimistic_args = None" "fetch_leg optimistic_args ct = None"
  "envelope_leg optimistic_args = Inr None" "binding_gate optimistic_args = Inr None"
  "first_some (refusal_gates optimistic_args) = None" "relax_gate optimistic_args = None"
  "override_gate optimistic_args = None"
proof -
  let ?a = optimistic_args
  have labels: "eff_labels ?a = empty_state" by (simp add: eff_labels_def optimistic_args_def)
  have "find_capability [burst_cap] save (Some 0) (Some [(5, [0])]) = None"
    by (simp add: find_capability_def usable_def burst_cap_exceeded)
  moreover have "c_rate_limit burst_cap = Some \<lparr>rl_max_uses = 1, rl_window_seconds = 60\<rparr>"
    by (simp add: burst_cap_def)
  ultimately show "\<exists>why. capability_leg ?a
     = PolicyDecision REQUIRE_APPROVAL (Some RATE_LIMIT_EXCEEDED_RULE) why (Some burst_cap)"
    by (auto simp: capability_leg_def optimistic_args_def decide_legacy_def
        no_usable_capability_def burst_cap_exceeded)
  show "\<exists>why. reversibility_leg ?a = Some (ALLOW, OPTIMISTIC_AUTO_RULE, why)"
    by (simp add: reversibility_leg_def optimistic_args_def reversibility_gate_def
        is_social_commitment_def SOCIAL_COMMITMENT_EFFECTS_def evaluate_optimistic_def
        effect_class_is_egressing_def EGRESS_EFFECT_MARKERS_def py_lower_def char_lower_def
        char_of_def)
  show "conflict_leg ?a = None"
    by (simp add: conflict_leg_def optimistic_args_def conflict_invariant_outcome_def save_def
        kind_eq_def kind_in_def BROWSER_EGRESS_KINDS_def)
  show "fetch_leg ?a ct = None"
    by (simp add: fetch_leg_def optimistic_args_def fetch_url_egress_outcome_def save_def kind_eq_def)
  show "envelope_leg ?a = Inr None" by (simp add: envelope_leg_def optimistic_args_def)
  show "binding_gate ?a = Inr None" by (simp add: binding_gate_def optimistic_args_def)
  show "first_some (refusal_gates ?a) = None"
    by (simp add: refusal_gates_def control_plane_gate_def sandbox_gate_def devbox_gate_def
        risk_citation_gate_def clearance_gate_def integrity_gate_def optimistic_args_def
        is_control_plane_effect_def CONTROL_PLANE_EFFECTS_def py_lower_def char_lower_def char_of_def)
  show "relax_gate ?a = None" by (simp add: relax_gate_def optimistic_args_def)
  show "override_gate ?a = None" by (simp add: override_gate_def optimistic_args_def)
qed

text \<open>
  The optimistic carve-out is not limited to the never-auto default, as its comment says: with
  rate-limit escalation on, a capability that is revoked, rate-exhausted and not flagged destructive
  is matched, its approval is relaxed, and a destructive action is allowed.
\<close>

theorem optimistic_auto_allows_revoked_capability:
  "\<exists>pd. fst (decide optimistic_args) = Inr pd \<and> pd_decision pd = ALLOW
     \<and> pd_matched_capability pd = Some burst_cap
     \<and> c_audit_id burst_cap \<in> set (da_revoked_audit_ids optimistic_args)
     \<and> is_rate_exceeded burst_cap 0 (cap_uses_for burst_cap (da_cap_uses optimistic_args))
     \<and> is_destructive_kind None (a_kind save) \<and> \<not> c_allows_destructive burst_cap"
proof -
  let ?a = optimistic_args
  obtain w where cap: "capability_leg ?a
      = PolicyDecision REQUIRE_APPROVAL (Some RATE_LIMIT_EXCEEDED_RULE) w (Some burst_cap)"
    using optimistic_legs(1) by blast
  obtain why where rev: "reversibility_leg ?a = Some (ALLOW, OPTIMISTIC_AUTO_RULE, why)"
    using optimistic_legs(2) by blast
  obtain v2 where v2: "\<And>labels axis_d eff t h. evaluate [] labels axis_d eff t RO_SUGGEST h = Inr v2"
      "ev_outcome v2 = RO_SUGGEST"
    by (simp add: evaluate_def compose_matched_def Let_def)
  have given: "da_axis_d ?a = Some fail_closed" "da_effect_class ?a = Some ''MUTATE_LOCAL''"
      "da_rules_v2 ?a = Some []" "da_default_v2_outcome ?a = RO_SUGGEST"
      "da_first_use_prompt_enabled ?a = False"
    by (simp_all add: optimistic_args_def)
  let ?c = "with_v2 (capability_leg ?a) v2"
  have "compose_with_v2 (capability_leg ?a) v2 (da_already_approved ?a)
      (standing_destructive ?a (capability_leg ?a)) = Inr ?c"
    by (simp add: compose_with_v2_def v2 cap)
  then have "compose_legs ?a None None
      = Inr (after_rules ?a fail_closed ''MUTATE_LOCAL'' v2 None None ?c)" (is "_ = Inr ?pd")
    by (simp add: compose_legs_def given v2) (simp add: compose_full_Inr)
  then have "decide_gated ?a = Inr ?pd"
    using optimistic_legs by (simp add: decide_gated_def)
  then have "fst (decide ?a) = Inr (add_recovery ?a ?pd)"
    using optimistic_legs by (simp add: decide_Inr decide_impl_no_override)
  moreover have "pd_decision ?pd = ALLOW"
    by (simp add: after_rules_def optimistic_legs rev with_reversibility_def with_envelope_def
        compose_with_reversibility_def compose_with_conflict_invariant_def cap v2 first_use_def
        maybe_first_use_escalation_def given)
  moreover have "pd_matched_capability ?pd = Some burst_cap"
    by (simp add: after_rules_matched cap)
  moreover have "c_audit_id burst_cap \<in> set (da_revoked_audit_ids ?a)"
      "da_cap_uses ?a = Some [(5, [0])]" "\<not> c_allows_destructive burst_cap"
    by (simp_all add: burst_cap_def optimistic_args_def Capability_def)
  moreover have "is_destructive_kind None (a_kind save)" by (simp add: save_def DESTRUCTIVE_KINDS_def)
  ultimately show ?thesis using burst_cap_exceeded(3) by simp
qed

section \<open>A grant crosses every floor\<close>

definition strict_policies :: override_policies where
  "strict_policies =
     \<lparr>op_by_floor = (\<lambda>fl. if fl = PROVENANCE_EGRESS
        then Some ((operator_default_entry PROVENANCE_EGRESS ''alice'')\<lparr>pe_policy := DISALLOWED\<rparr>)
        else Some (operator_default_entry fl ''alice'')),
      op_trust_profile = MANAGED, op_operator_principal = None\<rparr>"

text \<open>
  The engine never looks at the floor a grant names: an operator who disallows every override of
  the untrusted-egress floor still sees untrusted data mailed out under a grant for the integrity
  floor, although a request naming the right floor is refused.
\<close>

theorem grant_for_one_floor_crosses_another:
  "\<exists>g pd st.
     request_override strict_policies 1 (BuiltIn SEND_EMAIL) ''bob'' ([], []) INTEGRITY_FLOOR
       ''alice'' True 0 7 8 = Inr g
   \<and> (\<exists>r. request_override strict_policies 1 (BuiltIn SEND_EMAIL) ''bob'' ([], []) PROVENANCE_EGRESS
          ''alice'' True 0 7 8 = Inl r \<and> rf_reason r = POLICY_DISALLOWED)
   \<and> decide ((base_args mail [])\<lparr>da_labels := Some tainted_state, da_session_id := Some 1,
         da_override_grants := Some (store_add \<lparr>gs_by_id = [], gs_db = None\<rparr> g)\<rparr>) = (Inr pd, Some st)
   \<and> pd_decision pd = ALLOW"
proof -
  let ?g = "\<lparr>og_id = 7, og_session_id = 1, og_action_kind = BuiltIn SEND_EMAIL, og_target = ''bob'',
      og_target_category_tier = ([], []), og_hard_floor_crossed = INTEGRITY_FLOOR,
      og_invoker_principal = ''alice'', og_attester_principal = None,
      og_policy_at_grant = operator_default_entry INTEGRITY_FLOOR ''alice'',
      og_friction_level = MEDIUM, og_state = G_ACTIVE, og_expires_at = 900000000,
      og_consumed_at = None, og_audit_id = 8, og_group_members = [], og_consumed_members = []\<rparr>"
  let ?st = "store_add \<lparr>gs_by_id = [], gs_db = None\<rparr> ?g"
  let ?a = "(base_args mail [])\<lparr>da_labels := Some tainted_state, da_session_id := Some 1,
      da_override_grants := Some ?st\<rparr>"
  have "request_override strict_policies 1 (BuiltIn SEND_EMAIL) ''bob'' ([], []) INTEGRITY_FLOOR
      ''alice'' True 0 7 8 = Inr ?g"
    by (simp add: request_override_def gate_request_def policies_get_def strict_policies_def
        operator_default_entry_def initial_state_def effective_friction_def
        OVERRIDE_EXPIRY_DEFAULT_SECONDS_def)
  moreover have "\<exists>r. request_override strict_policies 1 (BuiltIn SEND_EMAIL) ''bob'' ([], [])
      PROVENANCE_EGRESS ''alice'' True 0 7 8 = Inl r \<and> rf_reason r = POLICY_DISALLOWED"
    by (simp add: request_override_def gate_request_def policies_get_def strict_policies_def)
  moreover obtain pd st' where "override_gate ?a = Some (pd, st')" "pd_decision pd = ALLOW"
    by (simp add: override_gate_def eff_now_def find_active_def store_add_def persist_grant_def
        is_for_def is_group_def kind_eq_def grant_expired_def use_override_def Let_def)
  moreover from this have "decide ?a = (Inr pd, Some st')"
    by (simp add: decide_def decide_impl_def add_recovery_def)
  ultimately show ?thesis by blast
qed

section \<open>Iteration order\<close>

definition plain_cap :: capability where
  "plain_cap = Capability (BuiltIn MODIFY_FS) ''f'' 5"

definition flagged_cap :: capability where
  "flagged_cap = (Capability (BuiltIn MODIFY_FS) ''f'' 6)\<lparr>c_allows_destructive := True\<rparr>"

lemma save_caps:
  assumes "c \<in> {plain_cap, flagged_cap}"
  shows "decide_legacy None [c, c'] save [] (Some 0) t None [] False
     = (if c_allows_destructive c then PolicyDecision ALLOW None None (Some c)
        else PolicyDecision REQUIRE_APPROVAL (Some DESTRUCTIVE_OP_RULE)
               (Some (DestructiveNeedsFlag ''MODIFY_FS'' ''f'')) (Some c))"
proof -
  have "scope_matches c save" "usable (Some 0) None c" "c_parent_audit_id c = None"
      "\<not> link_inert [] 0 None c" "c_revoked_by c = []"
    using assms
    by (auto simp: scope_matches_def matches_def plain_cap_def flagged_cap_def save_def
        Capability_def covers_kind_def kind_eq_def pattern_matches_def fnmatchcase_def usable_def
        is_expired_def is_rate_exceeded_def link_inert_def)
  moreover have "a_kind save = BuiltIn MODIFY_FS" "a_target save = ''f''"
      "MODIFY_FS \<in> set DESTRUCTIVE_KINDS"
    by (simp_all add: save_def DESTRUCTIVE_KINDS_def)
  ultimately show ?thesis
    by (simp add: decide_legacy_def find_capability_def decide_with_def is_cascaded_inert_def
        cascade_walk.simps revoking_kinds_def Let_def)
qed

text \<open>
  The decision is not a function of the capability set: the first match in iteration order is used,
  so the same two capabilities allow a destructive action in one order and ask for approval in the
  other.
\<close>

theorem decision_depends_on_capability_order:
  "\<exists>p q. fst (decide (base_args save [plain_cap, flagged_cap])) = Inr p
     \<and> fst (decide (base_args save [flagged_cap, plain_cap])) = Inr q
     \<and> pd_decision p = REQUIRE_APPROVAL \<and> pd_decision q = ALLOW"
proof -
  have run: "fst (decide (base_args save caps)) = Inr (add_recovery (base_args save caps)
      (capability_leg (base_args save caps)))" for caps
    by (simp add: decide_Inr decide_impl_no_override decide_gated_def binding_gate_def
        refusal_gates_def control_plane_gate_def sandbox_gate_def devbox_gate_def
        risk_citation_gate_def clearance_gate_def integrity_gate_def envelope_leg_def relax_gate_def
        compose_legs_def compose_legacy_only_def with_reversibility_def reversibility_leg_def
        with_envelope_def compose_with_conflict_invariant_def conflict_leg_def fetch_leg_def
        conflict_invariant_outcome_def fetch_url_egress_outcome_def save_def kind_eq_def kind_in_def
        BROWSER_EGRESS_KINDS_def first_use_def maybe_first_use_escalation_def Let_def)
  have "\<not> c_allows_destructive plain_cap" "c_allows_destructive flagged_cap"
    by (simp_all add: plain_cap_def flagged_cap_def Capability_def)
  then have "pd_decision (capability_leg (base_args save [plain_cap, flagged_cap])) = REQUIRE_APPROVAL"
    and "pd_decision (capability_leg (base_args save [flagged_cap, plain_cap])) = ALLOW"
    by (simp_all add: capability_leg_def save_caps)
  then show ?thesis using run by simp
qed

end
