(* ===== verification/Purposes.thy ===== *)
theory Purposes
  imports Envelope Capabilities Bindings
begin

text \<open>
  Purposes and the precedence lattice (\<open>policy/purposes.py\<close>, \<open>policy/precedence.py\<close>):
  which data categories a session may read for the purpose it was spawned with, and how the
  dials and outcomes of several policy sources combine. Sets of categories are lists read as
  sets, the registry is a dictionary. The recommended pattern is kept as the file has it. The enumeration of execution modes and the mode choice
  for restricted sessions (\<open>mode/dispatcher.py\<close>) stand here, because spawning uses them.
\<close>

section \<open>Purposes\<close>

record purpose =
  pu_purpose_id :: string
  pu_label :: string
  pu_admissible_categories :: "string list"
  pu_inadmissible_categories :: "string list"
  pu_recommended_pattern :: json
  pu_default_capabilities :: "capability list"
  pu_bindings :: "source_binding list"
  pu_risk_preference_dial :: string

type_synonym purposes = "(string \<times> purpose) list"

definition UNSET_PURPOSE_HANDLE :: string where
  "UNSET_PURPOSE_HANDLE = ''unset''"

definition purpose_admits :: "purpose \<Rightarrow> string \<Rightarrow> bool" where
  "purpose_admits p category =
     (if category \<in> set (pu_inadmissible_categories p) then False
      else if pu_admissible_categories p = [] then False
      else category \<in> set (pu_admissible_categories p))"

definition admits :: "purposes \<Rightarrow> string \<Rightarrow> string \<Rightarrow> bool" where
  "admits ps purpose_id category =
     (case map_of ps purpose_id of
        None \<Rightarrow> False
      | Some p \<Rightarrow> purpose_admits p category)"

definition categories_of_capability :: "string list \<Rightarrow> purposes \<Rightarrow> string \<Rightarrow> string list" where
  "categories_of_capability cap_categories ps purpose_handle =
     filter (\<lambda>c. \<not> admits ps purpose_handle c) cap_categories"

lemma categories_of_capability_Nil_iff:
  "categories_of_capability cs ps h = [] \<longleftrightarrow> (\<forall>c \<in> set cs. admits ps h c)"
  by (auto simp: categories_of_capability_def filter_empty_conv)

lemma purpose_admits_iff:
  "purpose_admits p c \<longleftrightarrow>
     c \<in> set (pu_admissible_categories p) \<and> c \<notin> set (pu_inadmissible_categories p)"
  by (auto simp: purpose_admits_def)

section \<open>The precedence lattice\<close>

fun precedence_rank :: "decision \<Rightarrow> nat" where
  "precedence_rank DENY = 0"
| "precedence_rank OVERRIDE_REQUIRED = 1"
| "precedence_rank REQUIRE_APPROVAL = 2"
| "precedence_rank WARN = 3"
| "precedence_rank ALLOW = 4"

fun most_restrictive_decision :: "decision list \<Rightarrow> py_error + decision" where
  "most_restrictive_decision [] = Inl ValueError"
| "most_restrictive_decision (d # ds) = Inr (min_by precedence_rank d ds)"

definition is_at_least_as_restrictive :: "decision \<Rightarrow> decision \<Rightarrow> bool" where
  "is_at_least_as_restrictive a b \<longleftrightarrow> precedence_rank a \<le> precedence_rank b"

fun dial_autonomy :: "risk_preference \<Rightarrow> nat" where
  "dial_autonomy CAUTIOUS = 0"
| "dial_autonomy BALANCED = 1"
| "dial_autonomy PERMISSIVE = 2"

definition stricter_dial :: "risk_preference \<Rightarrow> risk_preference \<Rightarrow> risk_preference" where
  "stricter_dial a b = min_by dial_autonomy a [b]"

definition resolve_risk_preference ::
  "risk_preference \<Rightarrow> risk_preference option \<Rightarrow> risk_preference" where
  "resolve_risk_preference base purpose_override =
     (case purpose_override of None \<Rightarrow> base | Some p \<Rightarrow> stricter_dial base p)"

fun risk_value :: "risk_preference \<Rightarrow> string" where
  "risk_value CAUTIOUS = ''cautious''"
| "risk_value BALANCED = ''balanced''"
| "risk_value PERMISSIVE = ''permissive''"

definition risk_preferences :: "risk_preference list" where
  "risk_preferences = [CAUTIOUS, BALANCED, PERMISSIVE]"

interpretation risk_enum: str_enum risk_value risk_preferences
proof unfold_locales
  fix e show "e \<in> set risk_preferences" by (cases e) (simp_all add: risk_preferences_def)
  show "distinct (map risk_value risk_preferences)" by (simp add: risk_preferences_def)
qed

interpretation precedence_ranked: ranked precedence_rank
proof unfold_locales
  fix x y :: decision
  show "precedence_rank x = precedence_rank y \<Longrightarrow> x = y" by (cases x; cases y) simp_all
qed

interpretation dial_ranked: ranked dial_autonomy
proof unfold_locales
  fix x y :: risk_preference
  show "dial_autonomy x = dial_autonomy y \<Longrightarrow> x = y" by (cases x; cases y) simp_all
qed

text \<open>\<open>session/graph.py\<close>: the dial a session is born with.\<close>

definition resolve_spawn_dial :: "risk_preference option \<Rightarrow> string \<Rightarrow> string" where
  "resolve_spawn_dial base purpose_dial =
     (case base of
        None \<Rightarrow> purpose_dial
      | Some b \<Rightarrow>
          (case enum_of risk_value risk_preferences purpose_dial of
             Inl _ \<Rightarrow> risk_value b
           | Inr p \<Rightarrow> risk_value (resolve_risk_preference b (Some p))))"

lemma dial_autonomy_stricter:
  "dial_autonomy (stricter_dial a b) = min (dial_autonomy a) (dial_autonomy b)"
  by (simp add: stricter_dial_def min_def)

text \<open>The spawn dial is a real dial, never looser than the posture, never looser than the purpose.\<close>

lemma resolve_spawn_dial_bound:
  assumes "resolve_spawn_dial (Some b) s = v"
  shows "\<exists>d. v = risk_value d \<and> dial_autonomy d \<le> dial_autonomy b
    \<and> (\<forall>p. s = risk_value p \<longrightarrow> dial_autonomy d \<le> dial_autonomy p)"
proof (cases "enum_of risk_value risk_preferences s")
  case (Inl e)
  then have "s \<noteq> risk_value p" for p by auto
  with Inl assms show ?thesis by (auto simp: resolve_spawn_dial_def)
next
  case (Inr p)
  then have "s = risk_value p" by (simp add: risk_enum.enum_of_Inr_iff)
  with Inr assms have "v = risk_value (stricter_dial b p)"
    by (simp add: resolve_spawn_dial_def resolve_risk_preference_def)
  moreover have "p' = p" if "s = risk_value p'" for p'
    using that \<open>s = risk_value p\<close> risk_enum.val_inj by simp
  ultimately show ?thesis by (auto simp: dial_autonomy_stricter)
qed

section \<open>Execution modes\<close>

datatype execution_mode = TURN_LEVEL | DUAL_LLM | PROGRAMMATIC | REFERENCE | SEALED

fun mode_value :: "execution_mode \<Rightarrow> string" where
  "mode_value TURN_LEVEL = ''turn_level''"
| "mode_value DUAL_LLM = ''dual_llm''"
| "mode_value PROGRAMMATIC = ''programmatic''"
| "mode_value REFERENCE = ''reference''"
| "mode_value SEALED = ''sealed''"

definition execution_modes :: "execution_mode list" where
  "execution_modes = [TURN_LEVEL, DUAL_LLM, PROGRAMMATIC, REFERENCE, SEALED]"

interpretation mode_enum: str_enum mode_value execution_modes
proof unfold_locales
  fix e show "e \<in> set execution_modes" by (cases e) (simp_all add: execution_modes_def)
  show "distinct (map mode_value execution_modes)" by (simp add: execution_modes_def)
qed

text \<open>The second component of a selected mode: the reason given to the audit log.\<close>

datatype mode_reason =
    ForcedByCaller execution_mode | HandlesAvailable | SandboxAvailable | PrefersProgrammatic
  | PostureDefault string tier execution_mode execution_mode | NoConfidentialLabels
  | QuarantinedExtraction | NoExtractorRegistered

definition select_mode_for_restricted ::
  "bool \<Rightarrow> bool \<Rightarrow> py_error + execution_mode \<times> mode_reason" where
  "select_mode_for_restricted has_accepts_handles_tool has_sandbox_actuator =
     (if has_accepts_handles_tool then Inr (REFERENCE, HandlesAvailable)
      else if has_sandbox_actuator then Inr (SEALED, SandboxAvailable)
      else Inl ModeSelectionError)"

end
