(* ===== verification/SessionModel.thy ===== *)
theory SessionModel
  imports Purposes AxisD
begin

text \<open>
  Sessions (\<open>session/model.py\<close>) and their rows in the state database
  (\<open>session/store.py\<close>, with the dictionary forms of \<open>Capability\<close> and \<open>AxisD\<close>). Frozensets
  are lists, a \<open>dict\<close> is an association list, and the clock and \<open>uuid4()\<close> are arguments.
  A row holds the columns of the table: enumeration members by name, sets sorted. Texts that
  \<open>json.dumps\<close> and \<open>json.loads\<close> write and read are the values they stand for.
\<close>

section \<open>Sessions\<close>

datatype session_status = S_ACTIVE | S_PAUSED | S_WAITING_APPROVAL | S_DONE | S_ABORTED

datatype enforcement_mode = STRICT | SHADOW

fun status_value :: "session_status \<Rightarrow> string" where
  "status_value S_ACTIVE = ''active''"
| "status_value S_PAUSED = ''paused''"
| "status_value S_WAITING_APPROVAL = ''waiting_approval''"
| "status_value S_DONE = ''done''"
| "status_value S_ABORTED = ''aborted''"

definition session_statuses :: "session_status list" where
  "session_statuses = [S_ACTIVE, S_PAUSED, S_WAITING_APPROVAL, S_DONE, S_ABORTED]"

fun enforcement_value :: "enforcement_mode \<Rightarrow> string" where
  "enforcement_value STRICT = ''strict''"
| "enforcement_value SHADOW = ''shadow''"

interpretation status_enum: str_enum status_value session_statuses
proof unfold_locales
  fix e show "e \<in> set session_statuses" by (cases e) (simp_all add: session_statuses_def)
  show "distinct (map status_value session_statuses)" by (simp add: session_statuses_def)
qed

interpretation enforcement_enum: str_enum enforcement_value "[STRICT, SHADOW]"
proof unfold_locales
  fix e show "e \<in> set [STRICT, SHADOW]" by (cases e) simp_all
  show "distinct (map enforcement_value [STRICT, SHADOW])" by simp
qed

record turn =
  tn_turn_id :: int
  tn_role :: string
  tn_content :: string
  tn_timestamp :: time

record declass_event =
  de_audit_id :: uuid
  de_from_labels :: "string list"
  de_to_labels :: "string list"
  de_reason :: string
  de_timestamp :: time

record origin_metadata =
  om_kind :: string
  om_client_id :: "string option"
  om_schedule_id :: "string option"
  om_command_id :: "string option"
  om_proposed_by :: "string option"
  om_approved_by :: "string option"
  om_metadata :: "(string \<times> json) list"

definition default_origin :: origin_metadata where
  "default_origin =
     \<lparr>om_kind = ''human_interactive'', om_client_id = None, om_schedule_id = None,
      om_command_id = None, om_proposed_by = None, om_approved_by = None, om_metadata = []\<rparr>"

type_synonym handles = "(string \<times> (string \<times> json) list) list"

record session =
  s_id :: uuid
  s_parent :: "uuid option"
  s_status :: session_status
  s_capability_set :: "capability list"
  s_history :: "turn list"
  s_declassification_log :: "declass_event list"
  s_created_at :: time
  s_updated_at :: time
  s_owner :: "string option"
  s_intent :: "string option"
  s_tool_aliasing :: bool
  s_prefer_programmatic :: bool
  s_required_modes :: "string list option"
  s_used_kinds :: "kind list"
  s_cap_uses :: "(uuid \<times> time list) list"
  s_revoked_audit_ids :: "uuid list"
  s_label_state :: label_state
  s_axis_d :: decision_context
  s_purpose_handle :: string
  s_reference_handles :: handles
  s_risk_preference_at_spawn :: string
  s_effective_isolation_region_id :: "string option"
  s_clearance_profile_id :: "string option"
  s_enforcement_mode :: enforcement_mode
  s_origin :: origin_metadata
  s_first_use_prompt_enabled :: bool

text \<open>\<open>required_modes_from_value\<close> on a JSON value.\<close>

definition mode_name :: "json \<Rightarrow> string option" where
  "mode_name j = (case j of JStr s \<Rightarrow> if s \<in> set (map mode_value execution_modes) then Some s else None
                  | _ \<Rightarrow> None)"

definition required_modes_from_value :: "json \<Rightarrow> py_error + string list option" where
  "required_modes_from_value v =
     (case v of
        JNull \<Rightarrow> Inr None
      | JList items \<Rightarrow>
          if list_ex (\<lambda>j. mode_name j = None) items then Inl ValueError
          else Inr (Some (map (\<lambda>j. the (mode_name j)) items))
      | _ \<Rightarrow> Inl ValueError)"

definition modes_to_value :: "string list option \<Rightarrow> json" where
  "modes_to_value ms = (case ms of None \<Rightarrow> JNull | Some xs \<Rightarrow> JList (map JStr xs))"

text \<open>The dataclass check, which every construction and every \<open>replace\<close> runs.\<close>

definition post_init :: "session \<Rightarrow> py_error + session" where
  "post_init s =
     (case required_modes_from_value (modes_to_value (s_required_modes s)) of
        Inl e \<Rightarrow> Inl e
      | Inr m \<Rightarrow> if m = s_required_modes s then Inr s else Inl ValueError)"

text \<open>\<open>Session.new\<close> with every keyword at its default.\<close>

definition Session_new :: "uuid \<Rightarrow> time \<Rightarrow> session" where
  "Session_new sid now =
     \<lparr>s_id = sid, s_parent = None, s_status = S_ACTIVE, s_capability_set = [], s_history = [],
      s_declassification_log = [], s_created_at = now, s_updated_at = now, s_owner = None,
      s_intent = None, s_tool_aliasing = False, s_prefer_programmatic = False,
      s_required_modes = None, s_used_kinds = [], s_cap_uses = [], s_revoked_audit_ids = [],
      s_label_state = empty_state, s_axis_d = fail_closed, s_purpose_handle = ''unset'',
      s_reference_handles = [], s_risk_preference_at_spawn = ''cautious'',
      s_effective_isolation_region_id = None, s_clearance_profile_id = None,
      s_enforcement_mode = STRICT, s_origin = default_origin,
      s_first_use_prompt_enabled = False\<rparr>"

definition is_terminal :: "session \<Rightarrow> bool" where
  "is_terminal s \<longleftrightarrow> s_status s \<in> {S_DONE, S_ABORTED}"

definition with_status :: "session_status \<Rightarrow> time \<Rightarrow> session \<Rightarrow> session" where
  "with_status st now s = s\<lparr>s_status := st, s_updated_at := now\<rparr>"

section \<open>Session artifacts\<close>

definition SESSION_ARTIFACTS_HANDLE :: string where
  "SESSION_ARTIFACTS_HANDLE = ''session_artifacts''"

definition dict_items :: "json list \<Rightarrow> (string \<times> json) list list" where
  "dict_items js = concat (map (\<lambda>j. case j of JDict d \<Rightarrow> [d] | _ \<Rightarrow> []) js)"

definition session_artifacts_from_handles :: "handles \<Rightarrow> (string \<times> json) list list" where
  "session_artifacts_from_handles hs =
     (case map_of (dict_get hs SESSION_ARTIFACTS_HANDLE []) ''items'' of
        Some (JList items) \<Rightarrow> dict_items items
      | _ \<Rightarrow> [])"

definition truthy :: "json \<Rightarrow> bool" where
  "truthy j = (case j of JNull \<Rightarrow> False | JBool b \<Rightarrow> b | JInt n \<Rightarrow> n \<noteq> 0 | JStr s \<Rightarrow> s \<noteq> []
     | JList xs \<Rightarrow> xs \<noteq> [] | JDict d \<Rightarrow> d \<noteq> [] | JText ps \<Rightarrow> ps \<noteq> [] | _ \<Rightarrow> True)"

text \<open>The merge key is the path, or else the artifact id; an item with neither is dropped.\<close>

definition artifact_key :: "(string \<times> json) list \<Rightarrow> json option" where
  "artifact_key item =
     (let path = dict_get item ''path'' JNull; aid = dict_get item ''artifact_id'' JNull
      in if truthy path then Some path else if truthy aid then Some aid else None)"

definition keyed :: "(string \<times> json) list list \<Rightarrow> (json \<times> (string \<times> json) list) list" where
  "keyed items =
     concat (map (\<lambda>i. case artifact_key i of None \<Rightarrow> [] | Some k \<Rightarrow> [(k, i)]) items)"

definition merge_session_artifacts ::
  "handles \<Rightarrow> (string \<times> json) list list \<Rightarrow> nat \<Rightarrow> handles" where
  "merge_session_artifacts hs artifacts max_items =
     (let merged = map snd (dict_of (keyed (session_artifacts_from_handles hs @ artifacts)) []);
          kept = (if max_items = 0 then merged else drop (length merged - max_items) merged)
      in AList.update SESSION_ARTIFACTS_HANDLE
           [(''schema_version'', JInt 1), (''items'', JList (map JDict kept))] hs)"

section \<open>Dictionary forms\<close>

record capability_dict =
  cd_kind :: string
  cd_pattern :: string
  cd_expiry :: string
  cd_origin :: string
  cd_audit_id :: uuid
  cd_max_amount :: "int option"
  cd_allows_destructive :: bool
  cd_revoked_by :: "string list"
  cd_expires_at :: "time option"
  cd_rate_limit :: "rate_limit option"
  cd_parent_audit_id :: "uuid option"
  cd_depth :: int
  cd_override_grant_id :: "uuid option"

fun expiry_value :: "capability_expiry \<Rightarrow> string" where
  "expiry_value ONE_SHOT = ''one_shot''"
| "expiry_value SESSION = ''session''"
| "expiry_value PERSISTENT = ''persistent''"

fun origin_value :: "capability_origin \<Rightarrow> string" where
  "origin_value SYSTEM_DEFAULT = ''system_default''"
| "origin_value USER_APPROVED = ''user_approved''"
| "origin_value PATTERN_RULE = ''pattern_rule''"
| "origin_value DELEGATED = ''delegated''"
| "origin_value OVERRIDE_GRANTED = ''override_granted''"

definition capability_origins :: "capability_origin list" where
  "capability_origins = [SYSTEM_DEFAULT, USER_APPROVED, PATTERN_RULE, DELEGATED, OVERRIDE_GRANTED]"

interpretation expiry_enum: str_enum expiry_value "[ONE_SHOT, SESSION, PERSISTENT]"
proof unfold_locales
  fix e show "e \<in> set [ONE_SHOT, SESSION, PERSISTENT]" by (cases e) simp_all
  show "distinct (map expiry_value [ONE_SHOT, SESSION, PERSISTENT])" by simp
qed

interpretation origin_enum: str_enum origin_value capability_origins
proof unfold_locales
  fix e show "e \<in> set capability_origins" by (cases e) (simp_all add: capability_origins_def)
  show "distinct (map origin_value capability_origins)" by (simp add: capability_origins_def)
qed

definition capability_to_dict :: "capability \<Rightarrow> capability_dict" where
  "capability_to_dict c =
     \<lparr>cd_kind = kind_name (c_kind c), cd_pattern = c_pattern c,
      cd_expiry = expiry_value (c_expiry c), cd_origin = origin_value (c_origin c),
      cd_audit_id = c_audit_id c, cd_max_amount = c_max_amount c,
      cd_allows_destructive = c_allows_destructive c,
      cd_revoked_by = sort (map kind_value (remdups (c_revoked_by c))),
      cd_expires_at = c_expires_at c, cd_rate_limit = c_rate_limit c,
      cd_parent_audit_id = c_parent_audit_id c, cd_depth = c_depth c,
      cd_override_grant_id = c_override_grant_id c\<rparr>"

text \<open>A comprehension over \<open>E(x)\<close> raises at the first unknown member.\<close>

fun enums_of :: "('e \<Rightarrow> string) \<Rightarrow> 'e list \<Rightarrow> string list \<Rightarrow> py_error + 'e list" where
  "enums_of val members [] = Inr []"
| "enums_of val members (s # ss) =
     (case enum_of val members s of
        Inl e \<Rightarrow> Inl e
      | Inr x \<Rightarrow>
          (case enums_of val members ss of Inl e \<Rightarrow> Inl e | Inr xs \<Rightarrow> Inr (x # xs)))"

context str_enum
begin

lemma enums_of_values:
  "set ss \<subseteq> range val \<Longrightarrow> \<exists>xs. enums_of val members ss = Inr xs \<and> map val xs = ss"
proof (induction ss)
  case (Cons s ss)
  then obtain x xs where "s = val x" "enums_of val members ss = Inr xs" "map val xs = ss" by auto
  then show ?case by (intro exI [of _ "x # xs"]) simp
qed simp

end

definition capability_from_dict :: "kind_registry \<Rightarrow> capability_dict \<Rightarrow> py_error + capability" where
  "capability_from_dict reg d =
     (case resolve_kind reg (cd_kind d) of
        Inl e \<Rightarrow> Inl e
      | Inr k \<Rightarrow>
      (case enum_of expiry_value [ONE_SHOT, SESSION, PERSISTENT] (cd_expiry d) of
        Inl e \<Rightarrow> Inl e
      | Inr ex \<Rightarrow>
      (case enum_of origin_value capability_origins (cd_origin d) of
        Inl e \<Rightarrow> Inl e
      | Inr orig \<Rightarrow>
      (case enums_of kind_value capability_kinds (cd_revoked_by d) of
        Inl e \<Rightarrow> Inl e
      | Inr revoked \<Rightarrow>
          Inr \<lparr>c_kind = k, c_pattern = cd_pattern d, c_expiry = ex, c_origin = orig,
               c_audit_id = cd_audit_id d, c_max_amount = cd_max_amount d,
               c_allows_destructive = cd_allows_destructive d, c_revoked_by = revoked,
               c_expires_at = cd_expires_at d, c_rate_limit = cd_rate_limit d,
               c_parent_audit_id = cd_parent_audit_id d, c_depth = cd_depth d,
               c_override_grant_id = cd_override_grant_id d\<rparr>))))"

text \<open>
  The tolerant readers of a session row: an entry whose kind, expiry, origin or revoking kind
  is unknown is dropped. (All four raise \<open>ValueError\<close> or its subclass \<open>UnknownKindError\<close>.)
\<close>

definition load_capability_set :: "kind_registry \<Rightarrow> capability_dict list \<Rightarrow> capability list" where
  "load_capability_set reg raw =
     concat (map (\<lambda>d. case capability_from_dict reg d of Inl _ \<Rightarrow> [] | Inr c \<Rightarrow> [c]) raw)"

definition load_used_kinds :: "string list \<Rightarrow> kind list" where
  "load_used_kinds raw =
     concat (map (\<lambda>k. case enum_of kind_value capability_kinds k of
                        Inl _ \<Rightarrow> [] | Inr x \<Rightarrow> [BuiltIn x]) raw)"

text \<open>
  \<open>k.value for k in used_kinds\<close>: a custom kind is a plain \<open>str\<close>, which has no \<open>value\<close>.
\<close>

fun used_kind_values :: "kind list \<Rightarrow> py_error + string list" where
  "used_kind_values [] = Inr []"
| "used_kind_values (Custom _ # ks) = Inl AttributeError"
| "used_kind_values (BuiltIn k # ks) =
     (case used_kind_values ks of Inl e \<Rightarrow> Inl e | Inr vs \<Rightarrow> Inr (kind_value k # vs))"

definition labels_to_dict :: "label_state \<Rightarrow> label_state" where
  "labels_to_dict l =
     \<lparr>ls_a = sort_key ct_category (ls_a l),
      ls_b = sort_key (\<lambda>t. provenance_value (pt_level t)) (ls_b l)\<rparr>"

definition axis_d_from_dict :: "decision_context \<Rightarrow> decision_context" where
  "axis_d_from_dict d =
     d\<lparr>dc_expectedness :=
         (if dc_expectedness d \<in> {''expected'', ''anomalous''} then dc_expectedness d
          else ''anomalous''),
       dc_reversibility_degree :=
         (if dc_reversibility_degree d \<in> {''reversible'', ''costly-reversible'', ''irreversible''}
          then dc_reversibility_degree d else ''irreversible''),
       dc_reversibility_agent :=
         (if dc_reversibility_agent d \<in> {''system'', ''human'', ''external''}
          then dc_reversibility_agent d else ''external'')\<rparr>"

section \<open>Rows of the state database\<close>

record session_row =
  sr_id :: uuid
  sr_parent_id :: "uuid option"
  sr_status :: string
  sr_intent :: "string option"
  sr_capability_set :: "capability_dict list"
  sr_history :: "turn list"
  sr_declassification_log :: "declass_event list"
  sr_created_at :: time
  sr_updated_at :: time
  sr_owner :: "string option"
  sr_tool_aliasing :: bool
  sr_prefer_programmatic :: bool
  sr_used_kinds :: "string list"
  sr_cap_uses :: "(uuid \<times> time list) list"
  sr_revoked_audit_ids :: "uuid list"
  sr_label_state :: label_state
  sr_axis_d :: decision_context
  sr_purpose_handle :: string
  sr_reference_handles :: handles
  sr_risk_preference_at_spawn :: string
  sr_effective_isolation_region_id :: "string option"
  sr_clearance_profile_id :: "string option"
  sr_enforcement_mode :: string
  sr_first_use_prompt_enabled :: bool
  sr_origin :: origin_metadata
  sr_required_modes :: json

text \<open>\<open>Session.to_dict\<close>, whose dictionary has the fields of a row.\<close>

definition session_to_dict :: "session \<Rightarrow> py_error + session_row" where
  "session_to_dict s =
     (case used_kind_values (s_used_kinds s) of
        Inl e \<Rightarrow> Inl e
      | Inr used \<Rightarrow>
          Inr \<lparr>sr_id = s_id s, sr_parent_id = s_parent s, sr_status = status_value (s_status s),
               sr_intent = s_intent s,
               sr_capability_set =
                 sort_key cd_audit_id (map capability_to_dict (s_capability_set s)),
               sr_history = s_history s, sr_declassification_log = s_declassification_log s,
               sr_created_at = s_created_at s, sr_updated_at = s_updated_at s,
               sr_owner = s_owner s, sr_tool_aliasing = s_tool_aliasing s,
               sr_prefer_programmatic = s_prefer_programmatic s, sr_used_kinds = sort used,
               sr_cap_uses = s_cap_uses s,
               sr_revoked_audit_ids = sort (s_revoked_audit_ids s),
               sr_label_state = labels_to_dict (s_label_state s), sr_axis_d = s_axis_d s,
               sr_purpose_handle = s_purpose_handle s,
               sr_reference_handles = s_reference_handles s,
               sr_risk_preference_at_spawn = s_risk_preference_at_spawn s,
               sr_effective_isolation_region_id = s_effective_isolation_region_id s,
               sr_clearance_profile_id = s_clearance_profile_id s,
               sr_enforcement_mode = enforcement_value (s_enforcement_mode s),
               sr_first_use_prompt_enabled = s_first_use_prompt_enabled s,
               sr_origin = s_origin s,
               sr_required_modes = modes_to_value (map_option sort (s_required_modes s))\<rparr>)"

text \<open>
  The values of the \<open>INSERT\<close>: the statement names every column of the table but
  \<open>clearance_profile_id\<close>, which therefore holds \<open>NULL\<close>.
\<close>

definition session_columns :: "session \<Rightarrow> py_error + session_row" where
  "session_columns s =
     (case session_to_dict s of
        Inl e \<Rightarrow> Inl e | Inr d \<Rightarrow> Inr (d\<lparr>sr_clearance_profile_id := None\<rparr>))"

type_synonym session_table = "(uuid \<times> session_row) list"

text \<open>
  \<open>INSERT ... ON CONFLICT(id) DO UPDATE\<close>: an existing row keeps its parent, its creation time and
  its clearance profile. A new row must name an existing parent, or itself (the foreign key).
\<close>

definition upsert_row :: "session_table \<Rightarrow> session_row \<Rightarrow> py_error + session_table" where
  "upsert_row table row =
     (case map_of table (sr_id row) of
        Some old \<Rightarrow>
          Inr (AList.update (sr_id row)
                 (row\<lparr>sr_parent_id := sr_parent_id old, sr_created_at := sr_created_at old,
                      sr_clearance_profile_id := sr_clearance_profile_id old\<rparr>) table)
      | None \<Rightarrow>
          (case sr_parent_id row of
             None \<Rightarrow> Inr (table @ [(sr_id row, row)])
           | Some p \<Rightarrow>
               if p = sr_id row \<or> map_of table p \<noteq> None
               then Inr (table @ [(sr_id row, row)])
               else Inl DatabaseIntegrityError))"

definition upsert :: "session_table \<Rightarrow> session \<Rightarrow> py_error + session_table" where
  "upsert table s =
     (case session_columns s of Inl e \<Rightarrow> Inl e | Inr row \<Rightarrow> upsert_row table row)"

text \<open>\<open>Session.from_dict\<close>.\<close>

definition session_from_dict :: "kind_registry \<Rightarrow> session_row \<Rightarrow> py_error + session" where
  "session_from_dict reg r =
     (case enum_of status_value session_statuses (sr_status r) of
        Inl e \<Rightarrow> Inl e
      | Inr st \<Rightarrow>
      (case enum_of enforcement_value [STRICT, SHADOW] (sr_enforcement_mode r) of
        Inl e \<Rightarrow> Inl e
      | Inr em \<Rightarrow>
      (case required_modes_from_value (sr_required_modes r) of
        Inl e \<Rightarrow> Inl e
      | Inr modes \<Rightarrow>
          post_init
            \<lparr>s_id = sr_id r, s_parent = sr_parent_id r, s_status = st,
             s_capability_set = load_capability_set reg (sr_capability_set r),
             s_history = sr_history r, s_declassification_log = sr_declassification_log r,
             s_created_at = sr_created_at r, s_updated_at = sr_updated_at r, s_owner = sr_owner r,
             s_intent = sr_intent r, s_tool_aliasing = sr_tool_aliasing r,
             s_prefer_programmatic = sr_prefer_programmatic r, s_required_modes = modes,
             s_used_kinds = load_used_kinds (sr_used_kinds r), s_cap_uses = sr_cap_uses r,
             s_revoked_audit_ids = sr_revoked_audit_ids r, s_label_state = sr_label_state r,
             s_axis_d = axis_d_from_dict (sr_axis_d r), s_purpose_handle = sr_purpose_handle r,
             s_reference_handles = sr_reference_handles r,
             s_risk_preference_at_spawn = sr_risk_preference_at_spawn r,
             s_effective_isolation_region_id = sr_effective_isolation_region_id r,
             s_clearance_profile_id = sr_clearance_profile_id r,
             s_enforcement_mode = em, s_origin = sr_origin r,
             s_first_use_prompt_enabled = sr_first_use_prompt_enabled r\<rparr>)))"

text \<open>
  \<open>_row_to_session\<close>: the dictionary it hands to \<open>from_dict\<close> names no clearance profile, and its
  \<open>owner\<close> is the one of the row.
\<close>

definition row_to_session :: "kind_registry \<Rightarrow> session_row \<Rightarrow> py_error + session" where
  "row_to_session reg r = session_from_dict reg (r\<lparr>sr_clearance_profile_id := None\<rparr>)"

text \<open>\<open>SELECT * FROM sessions ORDER BY created_at\<close>.\<close>

fun rows_to_sessions :: "kind_registry \<Rightarrow> session_row list \<Rightarrow> py_error + session list" where
  "rows_to_sessions reg [] = Inr []"
| "rows_to_sessions reg (r # rs) =
     (case row_to_session reg r of
        Inl e \<Rightarrow> Inl e
      | Inr s \<Rightarrow> (case rows_to_sessions reg rs of Inl e \<Rightarrow> Inl e | Inr ss \<Rightarrow> Inr (s # ss)))"

definition all_sessions :: "kind_registry \<Rightarrow> session_table \<Rightarrow> py_error + session list" where
  "all_sessions reg table = rows_to_sessions reg (sort_key sr_created_at (map snd table))"

end
