(* ===== verification/SessionGraph.thy ===== *)
theory SessionGraph
  imports SessionModel CapabilityDecision
begin

text \<open>
  The session graph (\<open>session/graph.py\<close>): spawning, forking, pausing, tainting, granting,
  revoking and delegating. A graph is the dictionary of sessions, the optional state database
  it writes through to, the optional audit log and its configuration. Every mutator of the
  code reads the session, computes its replacement, awaits the database and then stores the
  replacement; \<open>commit\<close> is that second half. Fresh identifiers and clock readings are
  arguments.
\<close>

section \<open>State\<close>

record audit_event =
  ae_event_type :: string
  ae_session_id :: "uuid option"
  ae_payload :: "(string \<times> json) list"

record session_graph =
  g_sessions :: "(uuid \<times> session) list"
  g_store :: "session_table option"
  g_audit :: "audit_event list option"
  g_purposes :: "purposes option"
  g_posture_risk_preference :: "risk_preference option"
  g_quarantined_available :: bool

definition write_event :: "audit_event \<Rightarrow> session_graph \<Rightarrow> session_graph" where
  "write_event e g = g\<lparr>g_audit := map_option (\<lambda>es. es @ [e]) (g_audit g)\<rparr>"

definition emit ::
  "string \<Rightarrow> uuid \<Rightarrow> (string \<times> json) list \<Rightarrow> session_graph \<Rightarrow> session_graph" where
  "emit ty sid payload g =
     write_event \<lparr>ae_event_type = ty, ae_session_id = Some sid,
       ae_payload = filter (\<lambda>(k, v). v \<noteq> JNull) payload\<rparr> g"

definition jopt :: "('a \<Rightarrow> json) \<Rightarrow> 'a option \<Rightarrow> json" where
  "jopt f x = (case x of None \<Rightarrow> JNull | Some y \<Rightarrow> f y)"

definition origin_to_dict :: "origin_metadata \<Rightarrow> (string \<times> json) list" where
  "origin_to_dict om =
     [(''kind'', JStr (om_kind om)), (''client_id'', jopt JStr (om_client_id om)),
      (''schedule_id'', jopt JStr (om_schedule_id om)),
      (''command_id'', jopt JStr (om_command_id om)),
      (''proposed_by'', jopt JStr (om_proposed_by om)),
      (''approved_by'', jopt JStr (om_approved_by om)), (''metadata'', JDict (om_metadata om))]"

text \<open>The dictionary form of labels, as event payloads carry it.\<close>

definition category_tag_json :: "category_tag \<Rightarrow> json" where
  "category_tag_json t =
     JDict [(''category'', JStr (ct_category t)), (''tier'', JStr (tier_value (ct_tier t))),
            (''risk_ids'', JList (map JStr (ct_risk_ids t))),
            (''assignment_provenance'', JStr (ct_assignment_provenance t))]"

definition labels_json :: "label_state \<Rightarrow> json" where
  "labels_json l =
     JDict [(''a'', JList (map category_tag_json (sort_key ct_category (ls_a l)))),
            (''b'', JList (map (\<lambda>e. JDict [(''level'', JStr (provenance_value (pt_level e)))])
                     (sort_key (\<lambda>e. provenance_value (pt_level e)) (ls_b l))))]"

definition no_labels :: "label_state \<Rightarrow> bool" where
  "no_labels l \<longleftrightarrow> ls_a l = [] \<and> ls_b l = []"

definition labels_payload :: "label_state option \<Rightarrow> (string \<times> json) list" where
  "labels_payload labels =
     (case labels of
        None \<Rightarrow> []
      | Some l \<Rightarrow> if no_labels l then [] else [(''label_state'', labels_json l)])"

text \<open>\<open>provenance/dag.py\<close>: nodes and edges of the provenance graph are audit events.\<close>

definition capability_node_id :: "uuid \<Rightarrow> json" where
  "capability_node_id aid = JText [JStr ''capability:'', JUuid aid]"

definition provenance_node ::
  "uuid option \<Rightarrow> json \<Rightarrow> string \<Rightarrow> json \<Rightarrow> label_state option \<Rightarrow> uuid option
   \<Rightarrow> (string \<times> json) list \<Rightarrow> session_graph \<Rightarrow> session_graph" where
  "provenance_node sid node_id nkind materialized labels eid metadata g =
     write_event \<lparr>ae_event_type = ''provenance.node'', ae_session_id = sid,
       ae_payload = [(''node_id'', node_id), (''kind'', JStr nkind)]
         @ (if materialized = JNull then [] else [(''materialized_id'', materialized)])
         @ labels_payload labels
         @ (case eid of None \<Rightarrow> [] | Some e \<Rightarrow> [(''event_audit_id'', JUuid e)])
         @ (if metadata = [] then [] else [(''metadata'', JDict metadata)])\<rparr> g"

definition provenance_edge ::
  "uuid option \<Rightarrow> json \<Rightarrow> json \<Rightarrow> string \<Rightarrow> uuid option \<Rightarrow> (string \<times> json) list
   \<Rightarrow> session_graph \<Rightarrow> session_graph" where
  "provenance_edge sid src dst ekind eid metadata g =
     write_event \<lparr>ae_event_type = ''provenance.edge'', ae_session_id = sid,
       ae_payload = [(''from_node_id'', src), (''to_node_id'', dst), (''kind'', JStr ekind)]
         @ (case eid of None \<Rightarrow> [] | Some e \<Rightarrow> [(''event_audit_id'', JUuid e)])
         @ (if metadata = [] then [] else [(''metadata'', JDict metadata)])\<rparr> g"

definition graph_get :: "session_graph \<Rightarrow> uuid \<Rightarrow> py_error + session" where
  "graph_get g sid =
     (case map_of (g_sessions g) sid of None \<Rightarrow> Inl SessionNotFoundError | Some s \<Rightarrow> Inr s)"

definition graph_put :: "session_graph \<Rightarrow> session \<Rightarrow> session_graph" where
  "graph_put g s = g\<lparr>g_sessions := AList.update (s_id s) s (g_sessions g)\<rparr>"

text \<open>\<open>await self._save(s)\<close> and then \<open>self._sessions[s.id] = s\<close>.\<close>

definition save :: "session_graph \<Rightarrow> session \<Rightarrow> py_error + session_graph" where
  "save g s =
     (case g_store g of
        None \<Rightarrow> Inr g
      | Some t \<Rightarrow>
          (case upsert t s of Inl e \<Rightarrow> Inl e | Inr t' \<Rightarrow> Inr (g\<lparr>g_store := Some t'\<rparr>)))"

definition commit :: "session_graph \<Rightarrow> session \<Rightarrow> py_error + session_graph" where
  "commit g s = (case save g s of Inl e \<Rightarrow> Inl e | Inr g' \<Rightarrow> Inr (graph_put g' s))"

section \<open>Queries\<close>

definition graph_list :: "session_graph \<Rightarrow> session_status option \<Rightarrow> session list" where
  "graph_list g st =
     (let ss = map snd (g_sessions g)
      in case st of None \<Rightarrow> ss | Some x \<Rightarrow> filter (\<lambda>s. s_status s = x) ss)"

definition children :: "session_graph \<Rightarrow> uuid \<Rightarrow> session list" where
  "children g pid = filter (\<lambda>s. s_parent s = Some pid) (map snd (g_sessions g))"

definition load_graph :: "kind_registry \<Rightarrow> session_graph \<Rightarrow> py_error + session_graph" where
  "load_graph reg g =
     (case g_store g of
        None \<Rightarrow> Inr g
      | Some t \<Rightarrow>
          (case all_sessions reg t of
             Inl e \<Rightarrow> Inl e
           | Inr ss \<Rightarrow> Inr (foldl graph_put g ss)))"

section \<open>Spawning\<close>

definition check_admissibility :: "session_graph \<Rightarrow> string \<Rightarrow> string list \<Rightarrow> py_error option" where
  "check_admissibility g purpose_handle categories =
     (if categories = [] then None
      else case g_purposes g of
             None \<Rightarrow> Some (PurposeAdmissibilityError categories)
           | Some ps \<Rightarrow>
               (let inadmissible = categories_of_capability categories ps purpose_handle
                in if inadmissible \<noteq> [] then Some (PurposeAdmissibilityError inadmissible)
                   else None))"

definition has_restricted_candidates :: "string list \<Rightarrow> bool" where
  "has_restricted_candidates categories =
     list_ex (\<lambda>c. c \<in> {''restricted'', ''health'', ''financial''}) categories"

record spawn_args =
  sp_owner :: "string option"
  sp_intent :: "string option"
  sp_tool_aliasing :: bool
  sp_prefer_programmatic :: bool
  sp_required_modes :: "string list option"
  sp_parent :: "uuid option"
  sp_purpose_handle :: string
  sp_candidate_categories :: "string list"
  sp_modes_available :: "(bool \<times> bool) option"
  sp_origin :: origin_metadata

text \<open>The purpose a session is spawned for: only a set handle of a known purpose.\<close>

definition picked_purpose :: "session_graph \<Rightarrow> string \<Rightarrow> purpose option" where
  "picked_purpose g h =
     (case g_purposes g of
        None \<Rightarrow> None
      | Some ps \<Rightarrow> if h = UNSET_PURPOSE_HANDLE then None else map_of ps h)"

definition spawn_refused :: "session_graph \<Rightarrow> spawn_args \<Rightarrow> py_error option" where
  "spawn_refused g a =
     (case check_admissibility g (sp_purpose_handle a) (sp_candidate_categories a) of
        Some e \<Rightarrow> Some e
      | None \<Rightarrow>
          (let no_mode =
                 (case sp_modes_available a of
                    None \<Rightarrow> False
                  | Some (has_handles, has_sandbox) \<Rightarrow>
                      has_restricted_candidates (sp_candidate_categories a)
                      \<and> (case select_mode_for_restricted has_handles has_sandbox of
                           Inl _ \<Rightarrow> True | Inr _ \<Rightarrow> False))
           in if no_mode then Some (PurposeAdmissibilityError (sp_candidate_categories a))
              else case picked_purpose g (sp_purpose_handle a) of
                     None \<Rightarrow> None
                   | Some p \<Rightarrow>
                       if pu_recommended_pattern p = JStr ''pattern_2_dual_llm''
                          \<and> \<not> g_quarantined_available g
                       then Some QuarantinedLLMUnavailableError else None))"

definition spawned_session :: "session_graph \<Rightarrow> spawn_args \<Rightarrow> uuid \<Rightarrow> time \<Rightarrow> session" where
  "spawned_session g a sid now =
     (let picked = picked_purpose g (sp_purpose_handle a)
      in (Session_new sid now)
           \<lparr>s_owner := sp_owner a, s_intent := sp_intent a, s_tool_aliasing := sp_tool_aliasing a,
            s_prefer_programmatic := sp_prefer_programmatic a,
            s_required_modes := sp_required_modes a, s_parent := sp_parent a,
            s_purpose_handle := sp_purpose_handle a,
            s_capability_set :=
              (case picked of None \<Rightarrow> [] | Some p \<Rightarrow> remdups (pu_default_capabilities p)),
            s_risk_preference_at_spawn :=
              (case picked of
                 None \<Rightarrow> ''cautious''
               | Some p \<Rightarrow> resolve_spawn_dial (g_posture_risk_preference g)
                            (pu_risk_preference_dial p)),
            s_first_use_prompt_enabled :=
              (case picked of None \<Rightarrow> False
               | Some p \<Rightarrow> pu_risk_preference_dial p = ''cautious''),
            s_origin := sp_origin a\<rparr>)"

definition jflag :: "bool \<Rightarrow> json" where
  "jflag b = (if b then JBool True else JNull)"

definition emit_created :: "spawn_args \<Rightarrow> session \<Rightarrow> session_graph \<Rightarrow> session_graph" where
  "emit_created a s g =
     emit ''session.created'' (s_id s)
       [(''owner'', jopt JStr (sp_owner a)), (''intent'', jopt JStr (sp_intent a)),
        (''tool_aliasing'', jflag (sp_tool_aliasing a)),
        (''prefer_programmatic'', jflag (sp_prefer_programmatic a)),
        (''purpose_handle'',
          if sp_purpose_handle a = UNSET_PURPOSE_HANDLE then JNull else JStr (sp_purpose_handle a)),
        (''origin'', JDict (origin_to_dict (s_origin s)))] g"

definition emit_default_grant :: "session \<Rightarrow> session_graph \<Rightarrow> capability \<Rightarrow> session_graph" where
  "emit_default_grant s g cap =
     emit ''capability.granted'' (s_id s)
       [(''kind'', JStr (kind_name (c_kind cap))), (''pattern'', JStr (c_pattern cap)),
        (''origin'', JStr (origin_value (c_origin cap))), (''source'', JStr ''purpose-default''),
        (''purpose_handle'', JStr (s_purpose_handle s))] g"

definition graph_new ::
  "session_graph \<Rightarrow> spawn_args \<Rightarrow> uuid \<Rightarrow> time \<Rightarrow> py_error + session_graph \<times> session" where
  "graph_new g a sid now =
     (case spawn_refused g a of
        Some e \<Rightarrow> Inl e
      | None \<Rightarrow>
      (case post_init (spawned_session g a sid now) of
        Inl e \<Rightarrow> Inl e
      | Inr s \<Rightarrow>
      (case commit g s of
        Inl e \<Rightarrow> Inl e
      | Inr g' \<Rightarrow>
          Inr (foldl (emit_default_grant s) (emit_created a s g') (s_capability_set s), s))))"

definition forked_session :: "session \<Rightarrow> string option \<Rightarrow> uuid \<Rightarrow> time \<Rightarrow> session" where
  "forked_session parent intent sid now =
     (Session_new sid now)
       \<lparr>s_parent := Some (s_id parent), s_required_modes := s_required_modes parent,
        s_owner := s_owner parent, s_intent := intent, s_label_state := s_label_state parent,
        s_axis_d := s_axis_d parent, s_capability_set := s_capability_set parent,
        s_history := s_history parent,
        s_declassification_log := s_declassification_log parent,
        s_purpose_handle := s_purpose_handle parent,
        s_risk_preference_at_spawn := s_risk_preference_at_spawn parent,
        s_origin := s_origin parent\<rparr>"

definition fork ::
  "session_graph \<Rightarrow> uuid \<Rightarrow> string option \<Rightarrow> uuid \<Rightarrow> time \<Rightarrow> py_error + session_graph \<times> session" where
  "fork g parent_id intent sid now =
     (case graph_get g parent_id of
        Inl e \<Rightarrow> Inl e
      | Inr parent \<Rightarrow>
          if is_terminal parent then Inl SessionStateError
          else
            (let child = (forked_session parent intent sid now)\<lparr>s_parent := Some parent_id\<rparr>
             in case post_init child of
                  Inl e \<Rightarrow> Inl e
                | Inr child \<Rightarrow>
                    (case commit g child of
                       Inl e \<Rightarrow> Inl e
                     | Inr g' \<Rightarrow>
                         Inr (emit ''session.forked'' (s_id child)
                                [(''parent_id'', JUuid parent_id), (''intent'', jopt JStr intent)]
                                g', child))))"

section \<open>Changing one session\<close>

text \<open>
  The common shape of the mutators: the replacement computed from the session that was read,
  \<open>None\<close> when the call changes nothing. With \<open>notify\<close> it is followed by its events.
\<close>

definition mutate ::
  "session_graph \<Rightarrow> uuid \<Rightarrow> (session \<Rightarrow> session option)
   \<Rightarrow> (session \<Rightarrow> session \<Rightarrow> session_graph \<Rightarrow> session_graph)
   \<Rightarrow> py_error + session_graph \<times> session" where
  "mutate g sid replacement notify =
     (case graph_get g sid of
        Inl e \<Rightarrow> Inl e
      | Inr s \<Rightarrow>
          (case replacement s of
             None \<Rightarrow> Inr (g, s)
           | Some s' \<Rightarrow>
               (case commit g s' of
                  Inl e \<Rightarrow> Inl e
                | Inr g' \<Rightarrow> Inr (notify s s' g', s'))))"

definition silent :: "session \<Rightarrow> session \<Rightarrow> session_graph \<Rightarrow> session_graph" where
  "silent s s' g = g"

definition transition ::
  "session_graph \<Rightarrow> uuid \<Rightarrow> session_status \<Rightarrow> session_status \<Rightarrow> string \<Rightarrow> time
   \<Rightarrow> py_error + session_graph \<times> session" where
  "transition g sid source to ev now =
     (case graph_get g sid of
        Inl e \<Rightarrow> Inl e
      | Inr s \<Rightarrow>
          if s_status s \<noteq> source then Inl SessionStateError
          else mutate g sid (\<lambda>s. Some (with_status to now s)) (\<lambda>s s'. emit ev (s_id s') []))"

definition pause where "pause g sid now = transition g sid S_ACTIVE S_PAUSED ''session.paused'' now"

definition resume where
  "resume g sid now = transition g sid S_PAUSED S_ACTIVE ''session.resumed'' now"

definition abort :: "session_graph \<Rightarrow> uuid \<Rightarrow> time \<Rightarrow> py_error + session_graph \<times> session" where
  "abort g sid now =
     (case graph_get g sid of
        Inl e \<Rightarrow> Inl e
      | Inr s \<Rightarrow>
          if is_terminal s then Inl SessionStateError
          else mutate g sid (\<lambda>s. Some (with_status S_ABORTED now s))
                 (\<lambda>s s'. emit ''session.aborted'' (s_id s') []))"

definition set_first_use_prompts ::
  "session_graph \<Rightarrow> uuid \<Rightarrow> bool \<Rightarrow> time \<Rightarrow> py_error + session_graph \<times> session" where
  "set_first_use_prompts g sid enabled now =
     mutate g sid
       (\<lambda>s. if s_first_use_prompt_enabled s = enabled then None
            else Some (s\<lparr>s_first_use_prompt_enabled := enabled, s_updated_at := now\<rparr>)) silent"

definition set_enforcement_mode ::
  "session_graph \<Rightarrow> uuid \<Rightarrow> string \<Rightarrow> time \<Rightarrow> py_error + session_graph \<times> session" where
  "set_enforcement_mode g sid mode now =
     (case enum_of enforcement_value [STRICT, SHADOW] mode of
        Inl e \<Rightarrow> Inl e
      | Inr m \<Rightarrow>
          mutate g sid
            (\<lambda>s. if s_enforcement_mode s = m then None
                 else Some (s\<lparr>s_enforcement_mode := m, s_updated_at := now\<rparr>))
            (\<lambda>s s'. emit ''enforcement.mode_changed'' (s_id s')
               [(''old_mode'', JStr (enforcement_value (s_enforcement_mode s))),
                (''new_mode'', JStr (enforcement_value m))]))"

definition tainted_session :: "label_state \<Rightarrow> time \<Rightarrow> session \<Rightarrow> session option" where
  "tainted_session delta now s =
     (let composed = most_restrictive_inherit [s_label_state s, delta]
      in if same_labels composed (s_label_state s) then None
         else Some (s\<lparr>s_label_state := composed, s_updated_at := now\<rparr>))"

definition add_tags ::
  "session_graph \<Rightarrow> uuid \<Rightarrow> label_state \<Rightarrow> time \<Rightarrow> py_error + session_graph \<times> session" where
  "add_tags g sid delta now =
     mutate g sid
       (\<lambda>s. if ls_a delta = [] \<and> ls_b delta = [] then None else tainted_session delta now s)
       silent"

definition record_used_kind ::
  "session_graph \<Rightarrow> uuid \<Rightarrow> kind \<Rightarrow> time \<Rightarrow> py_error + session_graph \<times> session" where
  "record_used_kind g sid k now =
     mutate g sid
       (\<lambda>s. if kind_in k (s_used_kinds s) then None
            else Some (s\<lparr>s_used_kinds := s_used_kinds s @ [k], s_updated_at := now\<rparr>)) silent"

definition cap_use_session :: "uuid \<Rightarrow> time \<Rightarrow> int option \<Rightarrow> time \<Rightarrow> session \<Rightarrow> session" where
  "cap_use_session aid moment prune_older_than now s =
     (let stamps = dict_get (s_cap_uses s) aid [] @ [moment];
          stamps = (case prune_older_than of
                      None \<Rightarrow> stamps
                    | Some p \<Rightarrow> filter (\<lambda>ts. ts \<ge> moment - p) stamps)
      in s\<lparr>s_cap_uses := AList.update aid stamps (s_cap_uses s), s_updated_at := now\<rparr>)"

definition record_cap_use ::
  "session_graph \<Rightarrow> uuid \<Rightarrow> uuid \<Rightarrow> time \<Rightarrow> int option \<Rightarrow> time
   \<Rightarrow> py_error + session_graph \<times> session" where
  "record_cap_use g sid aid moment prune_older_than now =
     mutate g sid (\<lambda>s. Some (cap_use_session aid moment prune_older_than now s)) silent"

definition turn_session :: "turn \<Rightarrow> time \<Rightarrow> session \<Rightarrow> session" where
  "turn_session t now s = s\<lparr>s_history := s_history s @ [t], s_updated_at := now\<rparr>"

definition add_turn ::
  "session_graph \<Rightarrow> uuid \<Rightarrow> turn \<Rightarrow> time \<Rightarrow> py_error + session_graph \<times> session" where
  "add_turn g sid t now = mutate g sid (\<lambda>s. Some (turn_session t now s)) silent"

definition add_session_artifacts ::
  "session_graph \<Rightarrow> uuid \<Rightarrow> (string \<times> json) list list \<Rightarrow> time
   \<Rightarrow> py_error + session_graph \<times> session" where
  "add_session_artifacts g sid artifacts now =
     mutate g sid
       (\<lambda>s. if artifacts = [] then None
            else Some (s\<lparr>s_reference_handles :=
                           merge_session_artifacts (s_reference_handles s) artifacts 50,
                         s_updated_at := now\<rparr>)) silent"

section \<open>Granting and revoking\<close>

text \<open>Equality of two capabilities as dataclasses: kinds by string, sets as sets.\<close>

definition capability_eq :: "capability \<Rightarrow> capability \<Rightarrow> bool" where
  "capability_eq c d \<longleftrightarrow>
     kind_eq (c_kind c) (c_kind d) \<and> set (c_revoked_by c) = set (c_revoked_by d)
     \<and> c\<lparr>c_kind := c_kind d, c_revoked_by := c_revoked_by d\<rparr> = d"

definition granted_session :: "capability \<Rightarrow> time \<Rightarrow> session \<Rightarrow> session option" where
  "granted_session cap now s =
     (if list_ex (capability_eq cap) (s_capability_set s) then None
      else Some (s\<lparr>s_capability_set := s_capability_set s @ [cap], s_updated_at := now\<rparr>))"

definition capability_node :: "uuid \<Rightarrow> capability \<Rightarrow> session_graph \<Rightarrow> session_graph" where
  "capability_node sid cap g =
     provenance_node (Some sid) (capability_node_id (c_audit_id cap)) ''capability''
       (JText [JStr ''capability:'', JUuid (c_audit_id cap)]) None None
       [(''kind'', JStr (kind_name (c_kind cap))), (''pattern'', JStr (c_pattern cap)),
        (''expiry'', JStr (expiry_value (c_expiry cap))),
        (''origin'', JStr (origin_value (c_origin cap))),
        (''parent_audit_id'', jopt JUuid (c_parent_audit_id cap))] g"

definition grant_event :: "uuid \<Rightarrow> capability \<Rightarrow> audit_event" where
  "grant_event sid cap =
     \<lparr>ae_event_type = ''capability.granted'', ae_session_id = Some sid,
      ae_payload =
        [(''kind'', JStr (kind_name (c_kind cap))), (''pattern'', JStr (c_pattern cap)),
         (''expiry'', JStr (expiry_value (c_expiry cap))),
         (''origin'', JStr (origin_value (c_origin cap))),
         (''audit_id'', JUuid (c_audit_id cap))]\<rparr>"

definition grant_capability ::
  "session_graph \<Rightarrow> uuid \<Rightarrow> capability \<Rightarrow> string list \<Rightarrow> time
   \<Rightarrow> py_error + session_graph \<times> session" where
  "grant_capability g sid cap categories now =
     (case graph_get g sid of
        Inl e \<Rightarrow> Inl e
      | Inr s \<Rightarrow>
          (case check_admissibility g (s_purpose_handle s) categories of
             Some e \<Rightarrow> Inl e
           | None \<Rightarrow>
               mutate g sid (granted_session cap now)
                 (\<lambda>s s' g. capability_node sid cap (write_event (grant_event sid cap) g))))"

text \<open>
  \<open>_capability_descendant_ids\<close>: a worklist over the children of each capability. Every audit id
  is removed once.
\<close>

definition child_ids :: "capability list \<Rightarrow> uuid \<Rightarrow> uuid list" where
  "child_ids caps aid = map c_audit_id (filter (\<lambda>c. c_parent_audit_id c = Some aid) caps)"

function descend :: "capability list \<Rightarrow> uuid list \<Rightarrow> uuid list \<Rightarrow> uuid list" where
  "descend caps removed [] = removed"
| "descend caps removed (aid # stack) =
     (if aid \<in> set removed then descend caps removed stack
      else descend caps (aid # removed) (rev (child_ids caps aid) @ stack))"
  by pat_completeness auto
termination
proof (relation "measures [\<lambda>(caps, removed, stack).
    card (c_audit_id ` set caps \<union> set stack - set removed), \<lambda>(caps, removed, stack). length stack]")
  fix caps :: "capability list" and removed :: "uuid list" and aid :: uuid and stack :: "uuid list"
  let ?ids = "c_audit_id ` set caps"
  let ?m = "measures [\<lambda>(caps, removed, stack). card (c_audit_id ` set caps \<union> set stack - set removed),
      \<lambda>(caps, removed, stack). length stack]"
  { assume "aid \<in> set removed"
    then have "?ids \<union> set (aid # stack) - set removed = ?ids \<union> set stack - set removed" by auto
    then show "((caps, removed, stack), caps, removed, aid # stack) \<in> ?m" by simp }
  { assume new: "aid \<notin> set removed"
    have "?ids \<union> set (rev (child_ids caps aid) @ stack) - set (aid # removed)
        \<subset> ?ids \<union> set (aid # stack) - set removed"
      using new by (auto simp: child_ids_def)
    then have "card (?ids \<union> set (rev (child_ids caps aid) @ stack) - set (aid # removed))
        < card (?ids \<union> set (aid # stack) - set removed)"
      by (intro psubset_card_mono) simp_all
    then show "((caps, aid # removed, rev (child_ids caps aid) @ stack), caps, removed, aid # stack)
        \<in> ?m" by simp }
qed simp

definition capability_descendant_ids :: "capability list \<Rightarrow> uuid \<Rightarrow> uuid list" where
  "capability_descendant_ids caps root =
     (if root \<notin> c_audit_id ` set caps then [] else descend caps [] [root])"

definition revoked_session :: "uuid \<Rightarrow> bool \<Rightarrow> time \<Rightarrow> session \<Rightarrow> session option" where
  "revoked_session aid eager_teardown now s =
     (if aid \<in> set (s_revoked_audit_ids s) then None
      else
        (let removed = (if eager_teardown
                        then capability_descendant_ids (s_capability_set s) aid else [])
         in Some (s\<lparr>s_capability_set :=
                      filter (\<lambda>c. c_audit_id c \<notin> set removed) (s_capability_set s),
                    s_revoked_audit_ids := s_revoked_audit_ids s @ [aid],
                    s_updated_at := now\<rparr>)))"

definition revoke_capability ::
  "session_graph \<Rightarrow> uuid \<Rightarrow> uuid \<Rightarrow> string \<Rightarrow> bool \<Rightarrow> time
   \<Rightarrow> py_error + session_graph \<times> session" where
  "revoke_capability g sid aid trigger eager_teardown now =
     mutate g sid (revoked_session aid eager_teardown now)
       (\<lambda>s s'. write_event
          \<lparr>ae_event_type = ''capability.cascade_revoked'', ae_session_id = Some sid,
           ae_payload =
             [(''audit_id'', JUuid aid), (''trigger'', JStr trigger),
              (''eager_teardown'', JBool eager_teardown),
              (''removed_audit_ids'', JList (map JUuid (sort (remdups
                 (if eager_teardown then capability_descendant_ids (s_capability_set s) aid
                  else [])))))]\<rparr>)"

section \<open>Delegation\<close>

text \<open>
  The acyclicity check: does the spawn chain above \<open>anc\<close> reach \<open>target\<close>? The walk visits no
  session twice and stops at a session the graph does not hold.
\<close>

function spawn_chain_reaches ::
  "(uuid \<times> session) list \<Rightarrow> uuid \<Rightarrow> uuid list \<Rightarrow> uuid option \<Rightarrow> bool" where
  "spawn_chain_reaches ss target seen None = False"
| "spawn_chain_reaches ss target seen (Some anc) =
     (if anc \<in> set seen then False
      else if anc = target then True
      else spawn_chain_reaches ss target (anc # seen)
             (case map_of ss anc of None \<Rightarrow> None | Some p \<Rightarrow> s_parent p))"
  by pat_completeness auto
termination
proof (relation "measure (\<lambda>(ss, target, seen, anc).
    case anc of None \<Rightarrow> 0 | Some _ \<Rightarrow> Suc (card (fst ` set ss - set seen)))")
  fix ss :: "(uuid \<times> session) list" and target :: uuid and seen :: "uuid list" and anc :: uuid
  assume new: "anc \<notin> set seen"
  show "((ss, target, anc # seen, case map_of ss anc of None \<Rightarrow> None | Some p \<Rightarrow> s_parent p),
      ss, target, seen, Some anc) \<in> measure (\<lambda>(ss, target, seen, anc).
        case anc of None \<Rightarrow> 0 | Some _ \<Rightarrow> Suc (card (fst ` set ss - set seen)))"
  proof (cases "map_of ss anc")
    case (Some p)
    then have "anc \<in> fst ` set ss" by (force dest: map_of_SomeD)
    with new have "fst ` set ss - set (anc # seen) \<subset> fst ` set ss - set seen" by auto
    then have "card (fst ` set ss - set (anc # seen)) < card (fst ` set ss - set seen)"
      by (intro psubset_card_mono) simp_all
    with Some show ?thesis by (simp split: option.split)
  qed simp
qed simp

fun refusal_value :: "delegation_refusal_reason \<Rightarrow> string" where
  "refusal_value KIND_NOT_HELD = ''kind-not-held''"
| "refusal_value PATTERN_NOT_SUBSET = ''pattern-not-subset''"
| "refusal_value AMOUNT_WIDENED = ''amount-widened''"
| "refusal_value EXPIRY_EXTENDED = ''expiry-extended''"
| "refusal_value RATE_LOOSENED = ''rate-loosened''"
| "refusal_value DESTRUCTIVE_WIDENED = ''destructive-widened''"
| "refusal_value REVOKED_BY_NARROWED = ''revoked-by-narrowed''"
| "refusal_value LIFETIME_EXTENDED = ''lifetime-extended''"
| "refusal_value PARENT_DEAD = ''parent-dead''"
| "refusal_value DEPTH_EXCEEDED = ''depth-exceeded''"
| "refusal_value CYCLE = ''cycle''"
| "refusal_value SELF_DELEGATION = ''self-delegation''"
| "refusal_value INADMISSIBLE_CATEGORY = ''inadmissible-category''"

definition refuse_delegation ::
  "session_graph \<Rightarrow> uuid \<Rightarrow> delegation_refusal_reason
   \<Rightarrow> py_error + session_graph \<times> (delegation_refusal_reason + capability)" where
  "refuse_delegation g child_id why =
     Inr (write_event \<lparr>ae_event_type = ''delegation.refused'', ae_session_id = Some child_id,
            ae_payload = [(''reason'', JStr (refusal_value why))]\<rparr> g, Inl why)"

definition delegation_candidates :: "session \<Rightarrow> kind \<Rightarrow> capability list" where
  "delegation_candidates s k =
     sort_key c_audit_id (filter (\<lambda>c. kind_eq (c_kind c) k) (s_capability_set s))"

definition live_candidates :: "session \<Rightarrow> kind \<Rightarrow> time \<Rightarrow> capability list" where
  "live_candidates s k now =
     filter (\<lambda>c. \<not> is_expired c now \<and> c_audit_id c \<notin> set (s_revoked_audit_ids s))
       (delegation_candidates s k)"

definition inadmissible_for :: "session_graph \<Rightarrow> session \<Rightarrow> string list \<Rightarrow> bool" where
  "inadmissible_for g child categories =
     (if categories = [] then False
      else case g_purposes g of
             None \<Rightarrow> True
           | Some ps \<Rightarrow> categories_of_capability categories ps (s_purpose_handle child) \<noteq> [])"

definition emit_delegated ::
  "uuid \<Rightarrow> uuid \<Rightarrow> capability \<Rightarrow> capability \<Rightarrow> session_graph \<Rightarrow> session_graph" where
  "emit_delegated parent_id child_id parent_cap cap g =
     provenance_edge (Some child_id) (capability_node_id (c_audit_id parent_cap))
       (capability_node_id (c_audit_id cap)) ''delegated'' None
       [(''parent_session'', JUuid parent_id), (''child_session'', JUuid child_id),
        (''depth'', JInt (c_depth cap))]
       (emit ''delegation.granted'' child_id
          [(''parent_session'', JUuid parent_id),
           (''parent_audit_id'', JUuid (c_audit_id parent_cap)),
           (''child_audit_id'', JUuid (c_audit_id cap)),
           (''kind'', JStr (kind_name (c_kind cap))), (''depth'', JInt (c_depth cap))] g)"

definition delegate ::
  "session_graph \<Rightarrow> uuid \<Rightarrow> uuid \<Rightarrow> delegation_request \<Rightarrow> int \<Rightarrow> string list \<Rightarrow> time \<Rightarrow> uuid
   \<Rightarrow> py_error + session_graph \<times> (delegation_refusal_reason + capability)" where
  "delegate g parent_id child_id request depth_limit categories now aid =
     (case graph_get g parent_id of
        Inl e \<Rightarrow> Inl e
      | Inr parent \<Rightarrow>
      (case graph_get g child_id of
        Inl e \<Rightarrow> Inl e
      | Inr child \<Rightarrow>
          if parent_id = child_id then refuse_delegation g child_id SELF_DELEGATION
          else if spawn_chain_reaches (g_sessions g) child_id [] (s_parent parent)
          then refuse_delegation g child_id CYCLE
          else if delegation_candidates parent (dr_kind request) = []
          then refuse_delegation g child_id KIND_NOT_HELD
          else
            (case live_candidates parent (dr_kind request) now of
               [] \<Rightarrow> refuse_delegation g child_id PARENT_DEAD
             | parent_cap # _ \<Rightarrow>
                 (case derive_delegated_capability parent_cap request depth_limit aid of
                    Inl why \<Rightarrow> refuse_delegation g child_id why
                  | Inr cap \<Rightarrow>
                      if inadmissible_for g child categories
                      then refuse_delegation g child_id INADMISSIBLE_CATEGORY
                      else
                        (case grant_capability g child_id cap [] now of
                           Inl e \<Rightarrow> Inl e
                         | Inr (g', _) \<Rightarrow>
                             Inr (emit_delegated parent_id child_id parent_cap cap g', Inr cap))))))"

end
