(* ===== verification/SessionLemmas.thy ===== *)
theory SessionLemmas
  imports SessionGraph CapabilityLemmas
begin

text \<open>
  What the operations of the session graph keep. \<open>session_op\<close> is the contract every mutator of
  one session shares: it keeps the identity of the session and only ratchets it (taint,
  revocations, used kinds and history grow, a terminal status stays). Each operation
  interprets it, and the step relation of the graph inherits it.
\<close>

section \<open>The dictionary of sessions\<close>

interpretation sess: record_store s_id "\<lambda>g. map_of (g_sessions g)" graph_put
  by unfold_locales (simp add: graph_put_def update_conv')

definition keyed_sessions :: "session_graph \<Rightarrow> bool" where
  "keyed_sessions g \<longleftrightarrow> (\<forall>k s. map_of (g_sessions g) k = Some s \<longrightarrow> s_id s = k)"

lemma sessions_write_event [simp]: "g_sessions (write_event e g) = g_sessions g"
  by (simp add: write_event_def)

lemma sessions_emit [simp]: "g_sessions (emit ty sid p g) = g_sessions g"
  by (simp add: emit_def)

lemma sessions_provenance [simp]:
  "g_sessions (provenance_node a b c d l i e g) = g_sessions g"
  "g_sessions (provenance_edge a b c' d' i e g) = g_sessions g"
  by (simp_all add: provenance_node_def provenance_edge_def)

lemma sessions_capability_node [simp]: "g_sessions (capability_node sid cap g) = g_sessions g"
  by (simp add: capability_node_def)

lemma sessions_emit_created [simp]: "g_sessions (emit_created a s g) = g_sessions g"
  by (simp add: emit_created_def)

lemma sessions_emit_delegated [simp]: "g_sessions (emit_delegated p c pc cap g) = g_sessions g"
  by (simp add: emit_delegated_def)

lemma sessions_default_grants [simp]:
  "g_sessions (foldl (emit_default_grant s) g caps) = g_sessions g"
  by (induction caps arbitrary: g) (simp_all add: emit_default_grant_def)

lemma sessions_save: "save g s = Inr g' \<Longrightarrow> g_sessions g' = g_sessions g"
  by (auto simp: save_def split: option.splits sum.splits)

lemma graph_get_Inr_iff: "graph_get g sid = Inr s \<longleftrightarrow> map_of (g_sessions g) sid = Some s"
  by (simp add: graph_get_def split: option.split)

lemma commit_get:
  assumes "commit g s = Inr g'"
  shows "map_of (g_sessions g') k = (if k = s_id s then Some s else map_of (g_sessions g) k)"
proof -
  from assms obtain h where h: "save g s = Inr h" and g': "g' = graph_put h s"
    by (auto simp: commit_def split: sum.splits)
  show ?thesis using sess.get_put [of h s k] sessions_save [OF h] by (simp add: g')
qed

section \<open>How a session may evolve\<close>

definition evolves :: "session \<Rightarrow> session \<Rightarrow> bool" where
  "evolves s s' \<longleftrightarrow>
     s_id s' = s_id s \<and> s_parent s' = s_parent s \<and> s_purpose_handle s' = s_purpose_handle s
     \<and> s_required_modes s' = s_required_modes s
     \<and> label_dominates (s_label_state s') (s_label_state s)
     \<and> set (s_revoked_audit_ids s) \<subseteq> set (s_revoked_audit_ids s')
     \<and> kind_name ` set (s_used_kinds s) \<subseteq> kind_name ` set (s_used_kinds s')
     \<and> prefix (s_history s) (s_history s')
     \<and> (is_terminal s \<longrightarrow> s_status s' = s_status s)"

lemma evolves_refl: "evolves s s"
  by (simp add: evolves_def label_dominates_refl)

lemma evolves_trans:
  assumes "evolves s t" and "evolves t u"
  shows "evolves s u"
proof -
  have "label_dominates (s_label_state u) (s_label_state s)"
    using assms label_dominates_trans [of "s_label_state u" "s_label_state t" "s_label_state s"]
    by (simp add: evolves_def)
  moreover have "prefix (s_history s) (s_history u)"
    using assms prefix_order.trans [of "s_history s" "s_history t" "s_history u"]
    by (simp add: evolves_def)
  moreover have "is_terminal s \<longrightarrow> s_status u = s_status s"
    using assms by (simp add: evolves_def is_terminal_def)
  ultimately show ?thesis using assms unfolding evolves_def by (simp add: subset_trans) blast
qed

locale session_op =
  fixes replacement :: "session \<Rightarrow> session option" and ready :: "session \<Rightarrow> bool"
  assumes replacement_evolves: "ready s \<Longrightarrow> replacement s = Some s' \<Longrightarrow> evolves s s'"
begin

lemma mutate_evolves:
  assumes ok: "mutate g sid replacement notify = Inr (g', s')"
    and quiet: "\<And>s s' h. g_sessions (notify s s' h) = g_sessions h"
    and s: "map_of (g_sessions g) sid = Some s" and rdy: "ready s" and key: "s_id s = sid"
  shows "evolves s s' \<and> g_sessions g' = g_sessions g
     \<or> evolves s s' \<and> map_of (g_sessions g') = (map_of (g_sessions g))(sid \<mapsto> s')"
proof (cases "replacement s")
  case None
  then have "g' = g \<and> s' = s" using ok s by (simp add: mutate_def graph_get_def)
  then show ?thesis by (simp add: evolves_refl)
next
  case (Some t)
  have eq: "(case commit g t of Inl e \<Rightarrow> Inl e | Inr h \<Rightarrow> Inr (notify s t h, t)) = Inr (g', s')"
    using ok by (simp add: mutate_def graph_get_def s Some)
  then have "\<exists>h. commit g t = Inr h" by (cases "commit g t") simp_all
  then obtain h where h: "commit g t = Inr h" by blast
  with eq have g': "g' = notify s t h" and s': "s' = t" by auto
  have ev: "evolves s t" by (rule replacement_evolves [OF rdy Some])
  then have "s_id t = sid" using key by (simp add: evolves_def)
  then have "map_of (g_sessions h) = (map_of (g_sessions g))(sid \<mapsto> t)"
    using commit_get [OF h] by (auto simp: fun_eq_iff)
  then show ?thesis using ev by (simp add: g' s' quiet)
qed

lemma mutate_step:
  assumes ok: "mutate g sid replacement notify = Inr (g', s')"
    and quiet: "\<And>s s' h. g_sessions (notify s s' h) = g_sessions h"
    and rdy: "\<And>s. map_of (g_sessions g) sid = Some s \<Longrightarrow> ready s" and keyed: "keyed_sessions g"
  shows "keyed_sessions g' \<and> (\<forall>k s. map_of (g_sessions g) k = Some s
    \<longrightarrow> (\<exists>t. map_of (g_sessions g') k = Some t \<and> evolves s t))"
proof -
  from ok obtain s where s: "map_of (g_sessions g) sid = Some s"
    by (auto simp: mutate_def graph_get_def split: option.splits)
  then have key: "s_id s = sid" using keyed by (simp add: keyed_sessions_def)
  from mutate_evolves [OF ok quiet s rdy [OF s] key]
  consider "g_sessions g' = g_sessions g"
    | "evolves s s'" "map_of (g_sessions g') = (map_of (g_sessions g))(sid \<mapsto> s')" by blast
  then show ?thesis
  proof cases
    case 1
    then show ?thesis using keyed evolves_refl by (auto simp: keyed_sessions_def)
  next
    case 2
    then have "s_id s' = sid" using key by (simp add: evolves_def)
    with 2 s keyed show ?thesis by (auto simp: keyed_sessions_def intro: evolves_refl)
  qed
qed

end

subsection \<open>The operations keep the contract\<close>

interpretation taint_op: session_op
  "\<lambda>s. if ls_a delta = [] \<and> ls_b delta = [] then None else tainted_session delta now s" "\<lambda>_. True"
  for delta now
proof unfold_locales
  fix s s'
  assume "(if ls_a delta = [] \<and> ls_b delta = [] then None else tainted_session delta now s) = Some s'"
  then have s': "s' = s\<lparr>s_label_state := label_join [s_label_state s, delta], s_updated_at := now\<rparr>"
    by (auto simp: tainted_session_def label_join_def Let_def split: if_splits)
  show "evolves s s'"
    by (simp add: s' evolves_def join_dominates)
qed

interpretation first_use_op: session_op
  "\<lambda>s. if s_first_use_prompt_enabled s = enabled then None
       else Some (s\<lparr>s_first_use_prompt_enabled := enabled, s_updated_at := now\<rparr>)" "\<lambda>_. True"
  for enabled now
  by unfold_locales (auto simp: evolves_def label_dominates_refl split: if_splits)

interpretation enforcement_op: session_op
  "\<lambda>s. if s_enforcement_mode s = m then None
       else Some (s\<lparr>s_enforcement_mode := m, s_updated_at := now\<rparr>)" "\<lambda>_. True"
  for m now
  by unfold_locales (auto simp: evolves_def label_dominates_refl split: if_splits)

interpretation used_kind_op: session_op
  "\<lambda>s. if kind_in k (s_used_kinds s) then None
       else Some (s\<lparr>s_used_kinds := s_used_kinds s @ [k], s_updated_at := now\<rparr>)" "\<lambda>_. True"
  for k now
  by unfold_locales (auto simp: evolves_def label_dominates_refl split: if_splits)

interpretation cap_use_op: session_op
  "\<lambda>s. Some (cap_use_session aid moment prune now s)" "\<lambda>_. True" for aid moment prune now
  by unfold_locales
    (auto simp: evolves_def cap_use_session_def Let_def label_dominates_refl)

interpretation turn_op: session_op "\<lambda>s. Some (turn_session t now s)" "\<lambda>_. True" for t now
  by unfold_locales (auto simp: evolves_def turn_session_def label_dominates_refl)

interpretation artifacts_op: session_op
  "\<lambda>s. if artifacts = [] then None
       else Some (s\<lparr>s_reference_handles :=
                      merge_session_artifacts (s_reference_handles s) artifacts 50,
                    s_updated_at := now\<rparr>)" "\<lambda>_. True"
  for artifacts now
  by unfold_locales (auto simp: evolves_def label_dominates_refl split: if_splits)

interpretation grant_op: session_op "granted_session cap now" "\<lambda>_. True" for cap now
  by unfold_locales
    (auto simp: evolves_def granted_session_def label_dominates_refl split: if_splits)

interpretation revoke_op: session_op "revoked_session aid eager now" "\<lambda>_. True" for aid eager now
  by unfold_locales
    (auto simp: evolves_def revoked_session_def Let_def label_dominates_refl split: if_splits)

interpretation status_op: session_op "\<lambda>s. Some (with_status st now s)" "\<lambda>s. \<not> is_terminal s"
  for st now
  by unfold_locales (auto simp: evolves_def with_status_def label_dominates_refl)

section \<open>Steps of the graph\<close>

text \<open>
  One completed call. Identifiers of new sessions are fresh, as \<open>uuid4()\<close> gives them; every other
  argument is arbitrary.
\<close>

inductive graph_step :: "session_graph \<Rightarrow> session_graph \<Rightarrow> bool" where
  new: "graph_new g a sid now = Inr (g', s) \<Longrightarrow> map_of (g_sessions g) sid = None
    \<Longrightarrow> graph_step g g'"
| fork: "fork g pid intent sid now = Inr (g', s) \<Longrightarrow> map_of (g_sessions g) sid = None
    \<Longrightarrow> graph_step g g'"
| pause: "pause g sid now = Inr (g', s) \<Longrightarrow> graph_step g g'"
| resume: "resume g sid now = Inr (g', s) \<Longrightarrow> graph_step g g'"
| abort: "abort g sid now = Inr (g', s) \<Longrightarrow> graph_step g g'"
| first_use: "set_first_use_prompts g sid b now = Inr (g', s) \<Longrightarrow> graph_step g g'"
| enforce: "set_enforcement_mode g sid m now = Inr (g', s) \<Longrightarrow> graph_step g g'"
| taint: "add_tags g sid delta now = Inr (g', s) \<Longrightarrow> graph_step g g'"
| use_kind: "record_used_kind g sid k now = Inr (g', s) \<Longrightarrow> graph_step g g'"
| use_cap: "record_cap_use g sid aid moment prune now = Inr (g', s) \<Longrightarrow> graph_step g g'"
| turn: "add_turn g sid t now = Inr (g', s) \<Longrightarrow> graph_step g g'"
| artifacts: "add_session_artifacts g sid arts now = Inr (g', s) \<Longrightarrow> graph_step g g'"
| grant: "grant_capability g sid cap cats now = Inr (g', s) \<Longrightarrow> graph_step g g'"
| revoke: "revoke_capability g sid aid trigger eager now = Inr (g', s) \<Longrightarrow> graph_step g g'"
| delegate: "delegate g pid cid request lim cats now aid = Inr (g', out) \<Longrightarrow> graph_step g g'"

definition keeps :: "session_graph \<Rightarrow> session_graph \<Rightarrow> bool" where
  "keeps g g' \<longleftrightarrow> keyed_sessions g' \<and> (\<forall>k s. map_of (g_sessions g) k = Some s
     \<longrightarrow> (\<exists>t. map_of (g_sessions g') k = Some t \<and> evolves s t))"

lemma keeps_refl: "keyed_sessions g \<Longrightarrow> keeps g g"
  using evolves_refl by (auto simp: keeps_def)

lemma keeps_trans: "keeps g h \<Longrightarrow> keeps h k \<Longrightarrow> keeps g k"
  unfolding keeps_def by (meson evolves_trans)

lemma keeps_same_sessions: "keyed_sessions g \<Longrightarrow> g_sessions g' = g_sessions g \<Longrightarrow> keeps g g'"
  using evolves_refl by (auto simp: keeps_def keyed_sessions_def)

lemma keeps_new_session:
  assumes "keyed_sessions g" and "map_of (g_sessions g) (s_id s) = None" and "commit g s = Inr h"
    and "g_sessions g' = g_sessions h"
  shows "keeps g g'"
  using assms(1,2,4) commit_get [OF assms(3)] evolves_refl
  by (auto simp: keeps_def keyed_sessions_def)

lemma mutate_keeps:
  assumes "session_op replacement ready" and "mutate g sid replacement notify = Inr (g', s')"
    and "\<And>s s' h. g_sessions (notify s s' h) = g_sessions h"
    and "\<And>s. map_of (g_sessions g) sid = Some s \<Longrightarrow> ready s" and "keyed_sessions g"
  shows "keeps g g'"
  unfolding keeps_def by (rule session_op.mutate_step [OF assms])

lemma grant_keeps:
  assumes "grant_capability g sid cap cats now = Inr (g', s)" and "keyed_sessions g"
  shows "keeps g g'"
proof -
  from assms(1) have "mutate g sid (granted_session cap now)
      (\<lambda>s s' g. capability_node sid cap (write_event (grant_event sid cap) g)) = Inr (g', s)"
    by (auto simp: grant_capability_def split: sum.splits option.splits)
  from mutate_keeps [OF grant_op.session_op_axioms this] show ?thesis using assms(2) by simp
qed

lemma status_keeps:
  assumes "mutate g sid (\<lambda>s. Some (with_status st now s)) (\<lambda>s s'. emit ev (s_id s') []) = Inr (g', s')"
    and "graph_get g sid = Inr s" and "\<not> is_terminal s" and "keyed_sessions g"
  shows "keeps g g'"
proof -
  have "\<not> is_terminal t" if "map_of (g_sessions g) sid = Some t" for t
    using that assms(2,3) by (simp add: graph_get_Inr_iff)
  from mutate_keeps [OF status_op.session_op_axioms assms(1) _ this assms(4)] show ?thesis by simp
qed

lemma transition_keeps:
  assumes "transition g sid source to ev now = Inr (g', s')" and "source \<notin> {S_DONE, S_ABORTED}"
    and "keyed_sessions g"
  shows "keeps g g'"
proof -
  from assms(1) obtain s where s: "graph_get g sid = Inr s" and src: "s_status s = source"
    and m: "mutate g sid (\<lambda>s. Some (with_status to now s)) (\<lambda>s s'. emit ev (s_id s') []) = Inr (g', s')"
    by (auto simp: transition_def split: sum.splits if_splits)
  show ?thesis
    by (rule status_keeps [OF m s _ assms(3)]) (use src assms(2) in \<open>simp add: is_terminal_def\<close>)
qed

lemma abort_keeps:
  assumes "abort g sid now = Inr (g', s')" and "keyed_sessions g"
  shows "keeps g g'"
proof -
  from assms(1) obtain s where s: "graph_get g sid = Inr s" and live: "\<not> is_terminal s"
    and m: "mutate g sid (\<lambda>s. Some (with_status S_ABORTED now s))
      (\<lambda>s s'. emit ''session.aborted'' (s_id s') []) = Inr (g', s')"
    by (auto simp: abort_def split: sum.splits if_splits)
  show ?thesis by (rule status_keeps [OF m s live assms(2)])
qed

lemma post_init_Inr: "post_init s = Inr t \<Longrightarrow> t = s"
  by (auto simp: post_init_def split: sum.splits if_splits)

lemma graph_new_Inr:
  assumes "graph_new g a sid now = Inr (g', s)"
  shows "spawn_refused g a = None \<and> s = spawned_session g a sid now
    \<and> (\<exists>h. commit g s = Inr h \<and> g_sessions g' = g_sessions h)"
  using assms post_init_Inr
  by (auto simp: graph_new_def split: sum.splits option.splits)

lemma fork_Inr:
  assumes "fork g pid intent sid now = Inr (g', s)"
  shows "\<exists>parent h. map_of (g_sessions g) pid = Some parent \<and> \<not> is_terminal parent
    \<and> s = (forked_session parent intent sid now)\<lparr>s_parent := Some pid\<rparr>
    \<and> commit g s = Inr h \<and> g_sessions g' = g_sessions h"
  using assms post_init_Inr
  by (auto simp: fork_def graph_get_Inr_iff Let_def split: sum.splits if_splits)

lemma spawned_session_id [simp]: "s_id (spawned_session g a sid now) = sid"
  by (simp add: spawned_session_def Session_new_def Let_def)

lemma forked_session_id [simp]: "s_id (forked_session p i sid now) = sid"
  by (simp add: forked_session_def Session_new_def)

lemma refuse_delegation_keeps:
  "refuse_delegation g cid why = Inr (g', out) \<Longrightarrow> keyed_sessions g \<Longrightarrow> keeps g g'"
  by (auto simp: refuse_delegation_def intro: keeps_same_sessions)

text \<open>What a delegation that returned tells: a refusal that changes no session, or a grant.\<close>

lemma delegate_cases:
  assumes "delegate g pid cid request lim cats now aid = Inr (g', out)"
  obtains (refused) why where "refuse_delegation g cid why = Inr (g', out)"
  | (granted) parent child pcap rest cap g1 s1 where
      "map_of (g_sessions g) pid = Some parent" "map_of (g_sessions g) cid = Some child"
      "pid \<noteq> cid" "\<not> spawn_chain_reaches (g_sessions g) cid [] (s_parent parent)"
      "live_candidates parent (dr_kind request) now = pcap # rest"
      "derive_delegated_capability pcap request lim aid = Inr cap"
      "\<not> inadmissible_for g child cats" "grant_capability g cid cap [] now = Inr (g1, s1)"
      "g' = emit_delegated pid cid pcap cap g1" "out = Inr cap"
proof -
  from assms obtain parent where parent: "graph_get g pid = Inr parent"
    by (cases "graph_get g pid") (auto simp: delegate_def)
  from assms parent obtain child where child: "graph_get g cid = Inr child"
    by (cases "graph_get g cid") (auto simp: delegate_def)
  note run = assms [unfolded delegate_def parent child sum.case]
  consider (stop) why where "refuse_delegation g cid why = Inr (g', out)"
    | (go) pcap rest where "pid \<noteq> cid"
        "\<not> spawn_chain_reaches (g_sessions g) cid [] (s_parent parent)"
        "live_candidates parent (dr_kind request) now = pcap # rest"
        "(case derive_delegated_capability pcap request lim aid of
            Inl why \<Rightarrow> refuse_delegation g cid why
          | Inr cap \<Rightarrow>
              if inadmissible_for g child cats then refuse_delegation g cid INADMISSIBLE_CATEGORY
              else (case grant_capability g cid cap [] now of
                      Inl e \<Rightarrow> Inl e
                    | Inr (g', _) \<Rightarrow> Inr (emit_delegated pid cid pcap cap g', Inr cap)))
         = Inr (g', out)"
    using run by (auto split: if_splits list.splits)
  then show thesis
  proof cases
    case stop
    then show ?thesis by (rule refused)
  next
    case go
    show ?thesis
    proof (cases "derive_delegated_capability pcap request lim aid")
      case (Inl why)
      with go(4) show ?thesis by (intro refused [of why]) simp
    next
      case (Inr cap)
      show ?thesis
      proof (cases "inadmissible_for g child cats")
        case True
        with go(4) Inr show ?thesis by (intro refused [of INADMISSIBLE_CATEGORY]) simp
      next
        case False
        with go(4) Inr obtain g1 s1 where g: "grant_capability g cid cap [] now = Inr (g1, s1)"
          "g' = emit_delegated pid cid pcap cap g1" "out = Inr cap"
          by (auto split: sum.splits)
        show ?thesis
          by (rule granted [OF _ _ go(1,2,3) Inr False g])
             (use parent child in \<open>simp_all add: graph_get_Inr_iff\<close>)
      qed
    qed
  qed
qed

lemma delegate_keeps:
  assumes "delegate g pid cid request lim cats now aid = Inr (g', out)" and "keyed_sessions g"
  shows "keeps g g'"
  using assms(1)
proof (cases rule: delegate_cases)
  case (refused why)
  then show ?thesis by (rule refuse_delegation_keeps [OF _ assms(2)])
next
  case (granted parent child pcap rest cap g1 s1)
  have "keeps g g1" by (rule grant_keeps [OF granted(8) assms(2)])
  moreover have "keeps g1 g'"
    by (rule keeps_same_sessions) (use calculation granted(9) in \<open>simp_all add: keeps_def\<close>)
  ultimately show ?thesis by (rule keeps_trans)
qed

lemma graph_step_keeps:
  assumes "graph_step g g'" and "keyed_sessions g"
  shows "keeps g g'"
  using assms
proof cases
  case (new a sid now s)
  from graph_new_Inr [OF new(1)] obtain h where h: "commit g s = Inr h"
      "g_sessions g' = g_sessions h" and s: "s = spawned_session g a sid now" by blast
  show ?thesis by (rule keeps_new_session [OF assms(2) _ h]) (simp add: s new(2))
next
  case (fork pid intent sid now s)
  from fork_Inr [OF fork(1)] obtain parent h where h: "commit g s = Inr h"
      "g_sessions g' = g_sessions h"
      and s: "s = (forked_session parent intent sid now)\<lparr>s_parent := Some pid\<rparr>" by blast
  show ?thesis by (rule keeps_new_session [OF assms(2) _ h]) (simp add: s fork(2))
next
  case (pause sid now s)
  show ?thesis
    by (rule transition_keeps [OF pause(1) [unfolded pause_def] _ assms(2)]) simp
next
  case (resume sid now s)
  show ?thesis
    by (rule transition_keeps [OF resume(1) [unfolded resume_def] _ assms(2)]) simp
next
  case (abort sid now s)
  then show ?thesis by (intro abort_keeps [OF _ assms(2)])
next
  case (first_use sid b now s)
  from mutate_keeps [OF first_use_op.session_op_axioms
      first_use(1) [unfolded set_first_use_prompts_def] _ _ assms(2)]
  show ?thesis by (simp add: silent_def)
next
  case (enforce sid m now s)
  from enforce(1) obtain em where "mutate g sid
      (\<lambda>s. if s_enforcement_mode s = em then None
           else Some (s\<lparr>s_enforcement_mode := em, s_updated_at := now\<rparr>))
      (\<lambda>s s'. emit ''enforcement.mode_changed'' (s_id s')
         [(''old_mode'', JStr (enforcement_value (s_enforcement_mode s))),
          (''new_mode'', JStr (enforcement_value em))]) = Inr (g', s)"
    by (auto simp: set_enforcement_mode_def split: sum.splits)
  from mutate_keeps [OF enforcement_op.session_op_axioms this _ _ assms(2)] show ?thesis by simp
next
  case (taint sid delta now s)
  from mutate_keeps [OF taint_op.session_op_axioms taint(1) [unfolded add_tags_def] _ _ assms(2)]
  show ?thesis by (simp add: silent_def)
next
  case (use_kind sid k now s)
  from mutate_keeps [OF used_kind_op.session_op_axioms
      use_kind(1) [unfolded record_used_kind_def] _ _ assms(2)]
  show ?thesis by (simp add: silent_def)
next
  case (use_cap sid aid moment prune now s)
  from mutate_keeps [OF cap_use_op.session_op_axioms
      use_cap(1) [unfolded record_cap_use_def] _ _ assms(2)]
  show ?thesis by (simp add: silent_def)
next
  case (turn sid t now s)
  from mutate_keeps [OF turn_op.session_op_axioms turn(1) [unfolded add_turn_def] _ _ assms(2)]
  show ?thesis by (simp add: silent_def)
next
  case (artifacts sid arts now s)
  from mutate_keeps [OF artifacts_op.session_op_axioms
      artifacts(1) [unfolded add_session_artifacts_def] _ _ assms(2)]
  show ?thesis by (simp add: silent_def)
next
  case (grant sid cap cats now s)
  then show ?thesis by (intro grant_keeps [OF _ assms(2)])
next
  case (revoke sid aid trigger eager now s)
  from mutate_keeps [OF revoke_op.session_op_axioms
      revoke(1) [unfolded revoke_capability_def] _ _ assms(2)]
  show ?thesis by simp
next
  case (delegate pid cid request lim cats now aid out)
  then show ?thesis by (intro delegate_keeps [OF _ assms(2)])
qed

lemma graph_steps_keep:
  assumes "graph_step\<^sup>*\<^sup>* g g'" and "keyed_sessions g"
  shows "keeps g g'"
  using assms
proof (induction rule: rtranclp_induct)
  case base
  then show ?case by (rule keeps_refl)
next
  case (step h k)
  then have gh: "keeps g h" by blast
  then have "keyed_sessions h" by (simp add: keeps_def)
  from keeps_trans [OF gh graph_step_keeps [OF step(2) this]] show ?case .
qed

end
