(* ===== verification/SessionProps.thy ===== *)
theory SessionProps
  imports SessionLemmas
begin

text \<open>
  Properties of the session graph: sessions only ratchet, spawning respects purposes, delegation
  attenuates live authority downwards, eager revocation removes exactly the descendants; and
  what a restart of the daemon keeps of a session.
\<close>

text \<open>
  C35: Over any sequence of completed calls on the graph, a session keeps its identity, parent,
  purpose and required modes, its taint, its revocations, its used kinds and its history only
  grow, and a finished session stays finished.
\<close>

theorem sessions_only_ratchet:
  assumes "graph_step\<^sup>*\<^sup>* g g'" and "keyed_sessions g" and "map_of (g_sessions g) sid = Some s"
  shows "\<exists>t. map_of (g_sessions g') sid = Some t \<and> evolves s t"
  using graph_steps_keep [OF assms(1,2)] assms(3) by (simp add: keeps_def)

definition empty_graph :: session_graph where
  "empty_graph = \<lparr>g_sessions = [], g_store = None, g_audit = None, g_purposes = None,
     g_posture_risk_preference = None, g_quarantined_available = True\<rparr>"

definition plain_spawn :: spawn_args where
  "plain_spawn = \<lparr>sp_owner = None, sp_intent = None, sp_tool_aliasing = False,
     sp_prefer_programmatic = False, sp_required_modes = None, sp_parent = None,
     sp_purpose_handle = ''unset'', sp_candidate_categories = [], sp_modes_available = None,
     sp_origin = default_origin\<rparr>"

definition graph_with :: "session list \<Rightarrow> session_graph" where
  "graph_with ss = empty_graph\<lparr>g_sessions := map (\<lambda>s. (s_id s, s)) ss\<rparr>"

lemma graph_with_sel [simp]:
  "g_sessions (graph_with ss) = map (\<lambda>s. (s_id s, s)) ss" "g_store (graph_with ss) = None"
  "g_audit (graph_with ss) = None" "g_purposes (graph_with ss) = None"
  by (simp_all add: graph_with_def empty_graph_def)

lemma Session_new_sel [simp]:
  "s_id (Session_new i t) = i" "s_parent (Session_new i t) = None"
  "s_capability_set (Session_new i t) = []" "s_revoked_audit_ids (Session_new i t) = []"
  "s_label_state (Session_new i t) = empty_state" "s_used_kinds (Session_new i t) = []"
  "s_required_modes (Session_new i t) = None" "s_status (Session_new i t) = S_ACTIVE"
  "s_purpose_handle (Session_new i t) = ''unset''" "s_cap_uses (Session_new i t) = []"
  "s_history (Session_new i t) = []"
  by (simp_all add: Session_new_def)

lemma commit_no_store: "g_store g = None \<Longrightarrow> commit g s = Inr (graph_put g s)"
  by (simp add: commit_def save_def)

lemma mutate_no_store:
  "g_store g = None \<Longrightarrow> graph_get g sid = Inr s \<Longrightarrow> \<exists>g' s'. mutate g sid rep notify = Inr (g', s')"
  by (simp add: mutate_def commit_no_store split: option.split)

lemma add_tags_no_store:
  "g_store g = None \<Longrightarrow> graph_get g sid = Inr s \<Longrightarrow> \<exists>g' s'. add_tags g sid delta now = Inr (g', s')"
  unfolding add_tags_def by (rule mutate_no_store)

definition untrusted_delta :: label_state where
  "untrusted_delta = \<lparr>ls_a = [], ls_b = [\<lparr>pt_level = EXTERNAL_UNTRUSTED\<rparr>]\<rparr>"

theorem sessions_only_ratchet_witness:
  "\<exists>g' t. graph_step (graph_with [Session_new 7 0]) g' \<and> map_of (g_sessions g') 7 = Some t
     \<and> evolves (Session_new 7 0) t"
proof -
  let ?g = "graph_with [Session_new 7 0]"
  have "graph_get ?g 7 = Inr (Session_new 7 0)" by (simp add: graph_get_def)
  from add_tags_no_store [OF graph_with_sel(2) this] obtain g' s where
    run: "add_tags ?g 7 untrusted_delta 1 = Inr (g', s)" by blast
  have step: "graph_step ?g g'" by (rule graph_step.taint [OF run])
  have steps: "graph_step\<^sup>*\<^sup>* ?g g'" using step by (rule r_into_rtranclp)
  have keyed: "keyed_sessions ?g" by (simp add: keyed_sessions_def)
  have "map_of (g_sessions ?g) 7 = Some (Session_new 7 0)" by simp
  from sessions_only_ratchet [OF steps keyed this]
  show ?thesis using step by blast
qed

text \<open>
  A session is spawned only with categories its purpose admits, with exactly the default
  capabilities of that purpose, without taint, at a dial no looser than the posture and the
  purpose, and never for restricted work on a surface that has neither handles nor a sandbox.
\<close>

theorem spawn_respects_purpose:
  assumes "graph_new g a sid now = Inr (g', s)"
  shows "(\<forall>c \<in> set (sp_candidate_categories a).
       \<exists>ps. g_purposes g = Some ps \<and> admits ps (sp_purpose_handle a) c)
   \<and> set (s_capability_set s) = (case picked_purpose g (sp_purpose_handle a) of
       None \<Rightarrow> {} | Some p \<Rightarrow> set (pu_default_capabilities p))
   \<and> s_label_state s = empty_state \<and> s_purpose_handle s = sp_purpose_handle a
   \<and> (\<forall>b p. g_posture_risk_preference g = Some b
        \<and> picked_purpose g (sp_purpose_handle a) = Some p \<longrightarrow>
        (\<exists>d. s_risk_preference_at_spawn s = risk_value d \<and> dial_autonomy d \<le> dial_autonomy b))
   \<and> \<not> (has_restricted_candidates (sp_candidate_categories a)
        \<and> sp_modes_available a = Some (False, False))"
proof -
  from graph_new_Inr [OF assms] have ok: "spawn_refused g a = None"
    and s: "s = spawned_session g a sid now" by auto
  have adm: "check_admissibility g (sp_purpose_handle a) (sp_candidate_categories a) = None"
    and mode: "\<not> (has_restricted_candidates (sp_candidate_categories a)
        \<and> sp_modes_available a = Some (False, False))"
    using ok by (auto simp: spawn_refused_def Let_def select_mode_for_restricted_def
        split: option.splits if_splits)
  have "\<forall>c \<in> set (sp_candidate_categories a).
       \<exists>ps. g_purposes g = Some ps \<and> admits ps (sp_purpose_handle a) c"
    using adm by (auto simp: check_admissibility_def Let_def categories_of_capability_Nil_iff
        split: option.splits if_splits)
  moreover have "\<exists>d. s_risk_preference_at_spawn s = risk_value d
      \<and> dial_autonomy d \<le> dial_autonomy b"
    if "g_posture_risk_preference g = Some b" "picked_purpose g (sp_purpose_handle a) = Some p" for b p
    using that resolve_spawn_dial_bound [of b "pu_risk_preference_dial p"]
    by (auto simp: s spawned_session_def Let_def)
  ultimately show ?thesis
    using mode by (auto simp: s spawned_session_def Let_def split: option.splits)
qed

definition tax_purpose :: purpose where
  "tax_purpose = \<lparr>pu_purpose_id = ''tax'', pu_label = [], pu_admissible_categories = [''financial''],
     pu_inadmissible_categories = [], pu_recommended_pattern = JNull,
     pu_default_capabilities = [Capability (BuiltIn READ_FS) ''/tax/*'' 5], pu_bindings = [],
     pu_risk_preference_dial = ''permissive''\<rparr>"

theorem spawn_respects_purpose_witness:
  "\<exists>g' s. graph_new (empty_graph\<lparr>g_purposes := Some [(''tax'', tax_purpose)],
        g_posture_risk_preference := Some BALANCED\<rparr>)
      (plain_spawn\<lparr>sp_purpose_handle := ''tax'', sp_candidate_categories := [''financial'']\<rparr>) 9 0
      = Inr (g', s) \<and> s_label_state s = empty_state
    \<and> (\<exists>d. s_risk_preference_at_spawn s = risk_value d \<and> dial_autonomy d \<le> 1)"
proof -
  let ?g = "empty_graph\<lparr>g_purposes := Some [(''tax'', tax_purpose)],
        g_posture_risk_preference := Some BALANCED\<rparr>"
  let ?a = "plain_spawn\<lparr>sp_purpose_handle := ''tax'', sp_candidate_categories := [''financial'']\<rparr>"
  have picked: "picked_purpose ?g (sp_purpose_handle ?a) = Some tax_purpose"
    by (simp add: picked_purpose_def empty_graph_def UNSET_PURPOSE_HANDLE_def plain_spawn_def)
  have ok: "spawn_refused ?g ?a = None"
    using picked
    by (simp add: spawn_refused_def check_admissibility_def categories_of_capability_def
        admits_def purpose_admits_def tax_purpose_def plain_spawn_def empty_graph_def Let_def)
  have modes: "s_required_modes (spawned_session ?g ?a 9 0) = None"
    by (simp add: spawned_session_def plain_spawn_def Let_def)
  then have init: "post_init (spawned_session ?g ?a 9 0) = Inr (spawned_session ?g ?a 9 0)"
    by (simp add: post_init_def modes_to_value_def required_modes_from_value_def)
  have "g_store ?g = None" by (simp add: empty_graph_def)
  then obtain g' where run: "graph_new ?g ?a 9 0 = Inr (g', spawned_session ?g ?a 9 0)"
    using ok init by (simp add: graph_new_def commit_no_store)
  have post: "g_posture_risk_preference ?g = Some BALANCED" by simp
  from spawn_respects_purpose [OF run] picked post
  have "s_label_state (spawned_session ?g ?a 9 0) = empty_state"
    and "\<exists>d. s_risk_preference_at_spawn (spawned_session ?g ?a 9 0) = risk_value d
      \<and> dial_autonomy d \<le> dial_autonomy BALANCED" by blast+
  then show ?thesis using run by auto
qed

section \<open>Delegation between sessions\<close>

text \<open>The spawn relation of a graph and what the walk of the acyclicity check finds.\<close>

definition spawned_by :: "(uuid \<times> session) list \<Rightarrow> (uuid \<times> uuid) set" where
  "spawned_by ss = {(a, b). \<exists>x. map_of ss a = Some x \<and> s_parent x = Some b}"

lemma rtrancl_avoid:
  assumes "(a, t) \<in> R\<^sup>*" and "a \<noteq> t"
  shows "\<exists>b. (a, b) \<in> R \<and> b \<noteq> a \<and> (b, t) \<in> {(x, y) \<in> R. x \<noteq> a \<and> y \<noteq> a}\<^sup>*"
  using assms
proof (induction rule: rtrancl_induct)
  case (step y z)
  show ?case
  proof (cases "y = a")
    case True
    with step show ?thesis by blast
  next
    case False
    then obtain b where b: "(a, b) \<in> R" "b \<noteq> a"
        "(b, y) \<in> {(x, y) \<in> R. x \<noteq> a \<and> y \<noteq> a}\<^sup>*"
      using step.IH by blast
    have "(y, z) \<in> {(x, y) \<in> R. x \<noteq> a \<and> y \<noteq> a}"
      using step.hyps(2) step.prems False by auto
    from rtrancl_into_rtrancl [OF b(3) this] b show ?thesis by blast
  qed
qed simp

lemma spawn_chain_reaches_complete:
  "(anc, target) \<in> {(x, y) \<in> spawned_by ss. x \<notin> set seen \<and> y \<notin> set seen}\<^sup>* \<Longrightarrow> anc \<notin> set seen
   \<Longrightarrow> spawn_chain_reaches ss target seen (Some anc)"
proof (induction "card (fst ` set ss - set seen)" arbitrary: anc seen rule: less_induct)
  case less
  let ?R = "{(x, y) \<in> spawned_by ss. x \<notin> set seen \<and> y \<notin> set seen}"
  show ?case
  proof (cases "anc = target")
    case True
    then show ?thesis using less.prems by simp
  next
    case False
    from rtrancl_avoid [OF less.prems(1) this] obtain b where b: "(anc, b) \<in> ?R" "b \<noteq> anc"
      "(b, target) \<in> {(x, y) \<in> ?R. x \<noteq> anc \<and> y \<noteq> anc}\<^sup>*" by blast
    have same: "{(x, y) \<in> ?R. x \<noteq> anc \<and> y \<noteq> anc}
        = {(x, y) \<in> spawned_by ss. x \<notin> set (anc # seen) \<and> y \<notin> set (anc # seen)}" by auto
    from b(1) obtain x where x: "map_of ss anc = Some x" "s_parent x = Some b"
      by (auto simp: spawned_by_def)
    then have "anc \<in> fst ` set ss" by (force dest: map_of_SomeD)
    then have "fst ` set ss - set (anc # seen) \<subset> fst ` set ss - set seen"
      using less.prems(2) by auto
    then have small: "card (fst ` set ss - set (anc # seen)) < card (fst ` set ss - set seen)"
      by (intro psubset_card_mono) simp_all
    have "spawn_chain_reaches ss target (anc # seen) (Some b)"
      by (rule less.hyps [OF small]) (use b same in auto)
    then show ?thesis using less.prems(2) False x by simp
  qed
qed

lemma not_reaches_not_ancestor:
  assumes "\<not> spawn_chain_reaches ss target [] (s_parent x)" and "map_of ss sid = Some x"
  shows "(sid, target) \<notin> (spawned_by ss)\<^sup>+"
proof
  assume "(sid, target) \<in> (spawned_by ss)\<^sup>+"
  then obtain b where "(sid, b) \<in> spawned_by ss" "(b, target) \<in> (spawned_by ss)\<^sup>*"
    by (meson tranclD)
  then have b: "s_parent x = Some b" "(b, target) \<in> (spawned_by ss)\<^sup>*"
    using assms(2) by (auto simp: spawned_by_def)
  then have "spawn_chain_reaches ss target [] (Some b)"
    using spawn_chain_reaches_complete [of b target ss "[]"] by simp
  then show False using assms(1) b(1) by simp
qed

lemma grant_Inr:
  assumes "grant_capability g sid cap cats now = Inr (g', s')"
    and "map_of (g_sessions g) sid = Some s" and "s_id s = sid"
  shows "(\<exists>c \<in> set (s_capability_set s'). capability_eq cap c)
    \<and> set (s_capability_set s) \<subseteq> set (s_capability_set s')
    \<and> set (s_capability_set s') \<subseteq> insert cap (set (s_capability_set s))
    \<and> s_revoked_audit_ids s' = s_revoked_audit_ids s
    \<and> map_of (g_sessions g') = (map_of (g_sessions g))(sid \<mapsto> s')"
proof -
  let ?n = "\<lambda>s s' g. capability_node sid cap (write_event (grant_event sid cap) g)"
  from assms(1) have m: "mutate g sid (granted_session cap now) ?n = Inr (g', s')"
    by (auto simp: grant_capability_def split: sum.splits option.splits)
  show ?thesis
  proof (cases "granted_session cap now s")
    case None
    then have "g' = g" "s' = s" using m assms(2) by (simp_all add: mutate_def graph_get_def)
    moreover have "\<exists>c \<in> set (s_capability_set s). capability_eq cap c"
      using None by (auto simp: granted_session_def list_ex_iff split: if_splits)
    ultimately show ?thesis using assms(2) by (auto simp: fun_eq_iff)
  next
    case (Some t)
    then have t: "t = s\<lparr>s_capability_set := s_capability_set s @ [cap], s_updated_at := now\<rparr>"
      by (auto simp: granted_session_def split: if_splits)
    have eq: "(case commit g t of Inl e \<Rightarrow> Inl e | Inr h \<Rightarrow> Inr (?n s t h, t)) = Inr (g', s')"
      using m assms(2) Some by (simp add: mutate_def graph_get_def)
    then have "\<exists>h. commit g t = Inr h" by (cases "commit g t") simp_all
    then obtain h where h: "commit g t = Inr h" by blast
    with eq have g': "g' = ?n s t h" and s': "s' = t" by auto
    have "map_of (g_sessions g') = (map_of (g_sessions g))(sid \<mapsto> t)"
      using commit_get [OF h] assms(3) t by (auto simp: g' fun_eq_iff)
    moreover have "capability_eq cap cap" by (simp add: capability_eq_def kind_eq_def)
    ultimately show ?thesis by (auto simp: s' t)
  qed
qed

lemma live_candidates_hd:
  assumes "live_candidates s k now = c # rest"
  shows "c \<in> set (s_capability_set s) \<and> kind_eq (c_kind c) k \<and> \<not> is_expired c now
    \<and> c_audit_id c \<notin> set (s_revoked_audit_ids s)"
proof -
  have "c \<in> set (live_candidates s k now)" using assms by simp
  then show ?thesis by (simp add: live_candidates_def delegation_candidates_def)
qed

text \<open>
  A delegation that succeeds gives the child session one capability, derived from a
  capability the parent session holds, unexpired and not revoked there, which it attenuates;
  the child is neither the parent nor one of its spawners, its purpose admits every declared
  category, and no other session changes.
\<close>

theorem delegation_is_sound:
  assumes "delegate g pid cid request lim cats now aid = Inr (g', Inr cap)"
    and "keyed_sessions g"
  shows "\<exists>parent child child' pcap. map_of (g_sessions g) pid = Some parent
    \<and> map_of (g_sessions g) cid = Some child
    \<and> pcap \<in> set (s_capability_set parent) \<and> \<not> is_expired pcap now
    \<and> c_audit_id pcap \<notin> set (s_revoked_audit_ids parent)
    \<and> attenuates cap pcap \<and> c_parent_audit_id cap = Some (c_audit_id pcap)
    \<and> c_depth cap \<le> lim \<and> c_audit_id cap = aid
    \<and> pid \<noteq> cid \<and> (pid, cid) \<notin> (spawned_by (g_sessions g))\<^sup>+
    \<and> (\<forall>c \<in> set cats. \<exists>ps. g_purposes g = Some ps \<and> admits ps (s_purpose_handle child) c)
    \<and> map_of (g_sessions g') = (map_of (g_sessions g))(cid \<mapsto> child')
    \<and> set (s_capability_set child) \<subseteq> set (s_capability_set child')
    \<and> set (s_capability_set child') \<subseteq> insert cap (set (s_capability_set child))"
  using assms(1)
proof (cases rule: delegate_cases)
  case (refused why)
  then show ?thesis by (simp add: refuse_delegation_def)
next
  case (granted parent child pcap rest cap' g1 s1)
  then have cap: "cap' = cap" by simp
  have key: "s_id child = cid" using assms(2) granted(2) by (simp add: keyed_sessions_def)
  note g = grant_Inr [OF granted(8,2) key, unfolded cap]
  note pc = live_candidates_hd [OF granted(5)]
  note d = granted(6) [unfolded cap]
  have att: "attenuates cap pcap"
    by (rule delegation.derive_attenuates [where r = "(request, aid)" and lim = lim]) (simp add: d)
  have adm: "\<forall>c \<in> set cats. \<exists>ps. g_purposes g = Some ps \<and> admits ps (s_purpose_handle child) c"
    using granted(7)
    by (auto simp: inadmissible_for_def categories_of_capability_Nil_iff
        split: option.splits if_splits)
  have "g_sessions g' = g_sessions g1" by (simp add: granted(9))
  then show ?thesis
    using granted(1-4) pc g att adm derive_Inr [OF d]
      not_reaches_not_ancestor [OF granted(4,1)]
    by (intro exI [of _ parent] exI [of _ child] exI [of _ s1] exI [of _ pcap]) simp
qed


text \<open>A parent session holding one file capability, and an empty child session.\<close>

definition held :: capability where
  "held = Capability (BuiltIn READ_FS) ''/a/*'' 5"

definition parent_session :: session where
  "parent_session = (Session_new 8 0)\<lparr>s_capability_set := [held]\<rparr>"

definition child_session :: session where
  "child_session = (Session_new 2 0)\<lparr>s_parent := Some 8\<rparr>"

definition same_request :: delegation_request where
  "same_request = \<lparr>dr_kind = BuiltIn READ_FS, dr_pattern = None, dr_max_amount = None,
     dr_expires_at = None, dr_rate_limit = None, dr_expiry = None, dr_add_revoked_by = []\<rparr>"

lemma same_request_kind [simp]: "dr_kind same_request = BuiltIn READ_FS"
  by (simp add: same_request_def)

lemma held_sel [simp]:
  "c_kind held = BuiltIn READ_FS" "c_audit_id held = 5" "c_parent_audit_id held = None"
  "c_expires_at held = None" "c_rate_limit held = None" "c_max_amount held = None"
  "c_pattern held = ''/a/*''" "c_allows_destructive held = False" "c_revoked_by held = []"
  "c_depth held = 0" "c_expiry held = SESSION"
  by (simp_all add: held_def Capability_def)

lemma sample_sessions_sel [simp]:
  "s_id parent_session = 8" "s_parent parent_session = None"
  "s_capability_set parent_session = [held]" "s_revoked_audit_ids parent_session = []"
  "s_id child_session = 2" "s_parent child_session = Some 8"
  "s_capability_set child_session = []" "s_revoked_audit_ids child_session = []"
  "s_status parent_session = S_ACTIVE" "s_required_modes parent_session = None"
  by (simp_all add: parent_session_def child_session_def)

lemma sample_delegation:
  "\<exists>g' cap. delegate (graph_with [parent_session, child_session]) 8 2 same_request 3 [] 0 9
     = Inr (g', Inr cap)"
proof -
  let ?g = "graph_with [parent_session, child_session]"
  have get: "graph_get ?g 8 = Inr parent_session" "graph_get ?g 2 = Inr child_session"
    by (simp_all add: graph_get_def)
  have live: "live_candidates parent_session (BuiltIn READ_FS) 0 = [held]"
    and some: "delegation_candidates parent_session (BuiltIn READ_FS) = [held]"
    by (simp_all add: live_candidates_def delegation_candidates_def is_expired_def kind_eq_def)
  obtain cap where cap: "derive_delegated_capability held same_request 3 9 = Inr cap"
    by (simp add: derive_delegated_capability_def same_request_def clamp_pattern_def
        clamp_upper_def clamp_rate_def kind_eq_def Let_def)
  have "check_admissibility ?g h [] = None" for h by (simp add: check_admissibility_def)
  moreover obtain g1 s1 where "mutate ?g 2 (granted_session cap 0)
      (\<lambda>s s' g. capability_node 2 cap (write_event (grant_event 2 cap) g)) = Inr (g1, s1)"
    using mutate_no_store [OF graph_with_sel(2) get(2)] by blast
  ultimately have "grant_capability ?g 2 cap [] 0 = Inr (g1, s1)"
    by (simp add: grant_capability_def get)
  then show ?thesis
    by (simp add: delegate_def get live some cap inadmissible_for_def)
qed

theorem delegation_is_sound_witness:
  "\<exists>g' cap pcap. delegate (graph_with [parent_session, child_session]) 8 2 same_request 3 [] 0 9
     = Inr (g', Inr cap) \<and> pcap \<in> set (s_capability_set parent_session) \<and> attenuates cap pcap"
proof -
  let ?g = "graph_with [parent_session, child_session]"
  obtain g' cap where run: "delegate ?g 8 2 same_request 3 [] 0 9 = Inr (g', Inr cap)"
    using sample_delegation by blast
  have keyed: "keyed_sessions ?g" by (simp add: keyed_sessions_def)
  have "map_of (g_sessions ?g) 8 = Some parent_session" by simp
  with delegation_is_sound [OF run keyed] run show ?thesis by (metis option.inject)
qed

section \<open>Revocation\<close>

definition child_edges :: "capability list \<Rightarrow> (uuid \<times> uuid) set" where
  "child_edges caps = {(p, c_audit_id c) | p c. c \<in> set caps \<and> c_parent_audit_id c = Some p}"

lemma set_child_ids: "set (child_ids caps a) = {b. (a, b) \<in> child_edges caps}"
  by (auto simp: child_ids_def child_edges_def)

lemma descend_sound:
  "set (descend caps removed stack) \<subseteq> set removed \<union> (child_edges caps)\<^sup>* `` set stack"
proof (induction caps removed stack rule: descend.induct)
  case (2 caps removed aid stack)
  show ?case
  proof (cases "aid \<in> set removed")
    case True
    then show ?thesis using 2(1) by auto
  next
    case False
    have "(child_edges caps)\<^sup>* `` set (rev (child_ids caps aid) @ stack)
        \<subseteq> (child_edges caps)\<^sup>* `` set (aid # stack)"
      by (auto simp: set_child_ids intro: converse_rtrancl_into_rtrancl)
    with 2(2) [OF False] False show ?thesis by auto
  qed
qed simp

lemma descend_closed:
  assumes "child_edges caps `` set removed \<subseteq> set removed \<union> set stack"
  shows "set removed \<union> set stack \<subseteq> set (descend caps removed stack)
    \<and> child_edges caps `` set (descend caps removed stack) \<subseteq> set (descend caps removed stack)"
  using assms
proof (induction caps removed stack rule: descend.induct)
  case (2 caps removed aid stack)
  show ?case
  proof (cases "aid \<in> set removed")
    case True
    then have "child_edges caps `` set removed \<subseteq> set removed \<union> set stack" using 2(3) by auto
    from 2(1) [OF True this] True show ?thesis by auto
  next
    case False
    have "child_edges caps `` set (aid # removed)
        \<subseteq> set (aid # removed) \<union> set (rev (child_ids caps aid) @ stack)"
      using 2(3) by (auto simp: set_child_ids)
    from 2(2) [OF False this] False show ?thesis by auto
  qed
qed simp

lemma set_descend: "set (descend caps [] [root]) = (child_edges caps)\<^sup>* `` {root}"
proof (rule equalityI)
  show "set (descend caps [] [root]) \<subseteq> (child_edges caps)\<^sup>* `` {root}"
    using descend_sound [of caps "[]" "[root]"] by simp
  let ?D = "set (descend caps [] [root])"
  have root: "root \<in> ?D" and closed: "child_edges caps `` ?D \<subseteq> ?D"
    using descend_closed [of caps "[]" "[root]"] by auto
  show "(child_edges caps)\<^sup>* `` {root} \<subseteq> ?D"
  proof
    fix x
    assume "x \<in> (child_edges caps)\<^sup>* `` {root}"
    then have "(root, x) \<in> (child_edges caps)\<^sup>*" by simp
    then show "x \<in> ?D" using root closed by (induction rule: rtrancl_induct) auto
  qed
qed

lemma mutate_Some:
  assumes "graph_get g sid = Inr s" and "rep s = Some t"
    and "mutate g sid rep notify = Inr (g', s')"
  shows "s' = t \<and> (\<exists>h. commit g t = Inr h \<and> g' = notify s t h)"
  using assms by (cases "commit g t") (auto simp: mutate_def)

text \<open>
  C36: An eager revocation of a capability that the session holds and that was not revoked before
  leaves exactly the capabilities that do not descend from it. One of an id already revoked changes
  nothing, and one of an id the session does not hold removes no capability, also none below it. In
  every case the id stands in the revoked set afterwards, so that a descendant that comes back is
  inert.
\<close>

theorem eager_revocation_exact:
  assumes "revoke_capability g sid aid trigger True now = Inr (g', s')" and "graph_get g sid = Inr s"
  shows "set (s_capability_set s') = (if aid \<in> set (s_revoked_audit_ids s)
         \<or> aid \<notin> c_audit_id ` set (s_capability_set s) then set (s_capability_set s)
       else {c \<in> set (s_capability_set s). (aid, c_audit_id c) \<notin> (child_edges (s_capability_set s))\<^sup>*})
     \<and> set (s_revoked_audit_ids s') = insert aid (set (s_revoked_audit_ids s))"
proof (cases "aid \<in> set (s_revoked_audit_ids s)")
  case True
  then have "s' = s" using assms by (simp add: revoke_capability_def mutate_def revoked_session_def)
  then show ?thesis using True by auto
next
  case False
  let ?t = "s\<lparr>s_capability_set := filter (\<lambda>c. c_audit_id c \<notin>
      set (capability_descendant_ids (s_capability_set s) aid)) (s_capability_set s),
    s_revoked_audit_ids := s_revoked_audit_ids s @ [aid], s_updated_at := now\<rparr>"
  have rep: "revoked_session aid True now s = Some ?t" using False by (simp add: revoked_session_def)
  have t: "s' = ?t"
    using mutate_Some [OF assms(2) rep assms(1) [unfolded revoke_capability_def]] by simp
  have "set (capability_descendant_ids (s_capability_set s) aid)
      = (if aid \<in> c_audit_id ` set (s_capability_set s)
         then (child_edges (s_capability_set s))\<^sup>* `` {aid} else {})"
    by (simp add: capability_descendant_ids_def set_descend del: descend.simps)
  then show ?thesis using False by (auto simp: t)
qed

theorem eager_revocation_exact_witness:
  "\<exists>g' s'. revoke_capability (graph_with [parent_session]) 8 5 ''operator-revoke'' True 1 = Inr (g', s')
     \<and> s_capability_set s' = [] \<and> 5 \<in> set (s_revoked_audit_ids s')"
proof -
  have get: "graph_get (graph_with [parent_session]) 8 = Inr parent_session"
    by (simp add: graph_get_def)
  obtain g' s' where run: "revoke_capability (graph_with [parent_session]) 8 5 ''operator-revoke''
      True 1 = Inr (g', s')"
    unfolding revoke_capability_def using mutate_no_store [OF graph_with_sel(2) get] by blast
  from eager_revocation_exact [OF run get] have "set (s_capability_set s')
      = {c \<in> {held}. (5, c_audit_id c) \<notin> (child_edges [held])\<^sup>*}
     \<and> set (s_revoked_audit_ids s') = {5}" by simp
  then have "set (s_capability_set s') = {}" "5 \<in> set (s_revoked_audit_ids s')" by auto
  then show ?thesis using run by auto
qed

end
