(* ===== verification/SessionFindings.thy ===== *)
theory SessionFindings
  imports SessionProps
begin

text \<open>
  What a restart keeps of a session, and where sessions do not behave as the documents of the
  project say: a fork forgets revocations, a delegated capability is inert in a session that
  does not hold its parent, two interleaved updates lose taint, and a custom kind that has been
  used can no longer be saved.
\<close>

section \<open>Reloading a session\<close>

definition kinds_known :: "kind_registry \<Rightarrow> capability list \<Rightarrow> bool" where
  "kinds_known reg caps \<longleftrightarrow>
     (\<forall>c \<in> set caps. \<forall>n. c_kind c = Custom n \<longrightarrow> (\<exists>r. reg = Some r \<and> r n \<noteq> None))"

lemma capability_reload:
  assumes "\<And>n. c_kind c = Custom n \<Longrightarrow> \<exists>r. reg = Some r \<and> r n \<noteq> None"
  shows "\<exists>c'. capability_from_dict reg (capability_to_dict c) = Inr c' \<and> capability_eq c c'"
proof -
  have kind: "\<exists>k. resolve_kind reg (kind_name (c_kind c)) = Inr k \<and> kind_eq (c_kind c) k"
  proof (cases "c_kind c")
    case (BuiltIn b)
    then show ?thesis by (simp add: resolve_kind_def kind_eq_def)
  next
    case (Custom n)
    with assms obtain r where "reg = Some r" "r n \<noteq> None" by blast
    with Custom show ?thesis
      by (auto simp: resolve_kind_def kind_eq_def kind_enum.enum_of_Inr_iff split: sum.split)
  qed
  then obtain k where k: "resolve_kind reg (kind_name (c_kind c)) = Inr k" "kind_eq (c_kind c) k"
    by blast
  let ?vs = "sort (map kind_value (remdups (c_revoked_by c)))"
  have "set ?vs \<subseteq> range kind_value" by auto
  from kind_enum.enums_of_values [OF this] obtain xs where
    xs: "enums_of kind_value capability_kinds ?vs = Inr xs" "map kind_value xs = ?vs" by blast
  have "kind_value ` set xs = set (map kind_value xs)" by simp
  also have "\<dots> = kind_value ` set (c_revoked_by c)" unfolding xs(2) by simp
  finally have revoked: "set xs = set (c_revoked_by c)"
    using inj_image_eq_iff [of kind_value "set xs" "set (c_revoked_by c)"]
    by (simp add: inj_def kind_enum.val_inj)
  show ?thesis
    using k xs(1) revoked expiry_enum.enum_of_val origin_enum.enum_of_val
    by (simp add: capability_from_dict_def capability_to_dict_def capability_eq_def)
qed

lemma load_capability_set_reload:
  assumes "kinds_known reg caps"
  shows "\<forall>c \<in> set caps. \<exists>c' \<in> set (load_capability_set reg
           (sort_key cd_audit_id (map capability_to_dict caps))). capability_eq c c'"
    and "\<forall>c' \<in> set (load_capability_set reg
           (sort_key cd_audit_id (map capability_to_dict caps))). \<exists>c \<in> set caps. capability_eq c c'"
proof -
  have mem: "c' \<in> set (load_capability_set reg (sort_key cd_audit_id (map capability_to_dict caps)))
      \<longleftrightarrow> (\<exists>c \<in> set caps. capability_from_dict reg (capability_to_dict c) = Inr c')" for c'
    by (auto simp: load_capability_set_def split: sum.splits) force
  have some: "\<exists>c'. capability_from_dict reg (capability_to_dict c) = Inr c' \<and> capability_eq c c'"
    if "c \<in> set caps" for c
    using capability_reload [of c reg] assms that unfolding kinds_known_def by blast
  show "\<forall>c \<in> set caps. \<exists>c' \<in> set (load_capability_set reg
      (sort_key cd_audit_id (map capability_to_dict caps))). capability_eq c c'"
    unfolding Bex_def mem using some by blast
  show "\<forall>c' \<in> set (load_capability_set reg
      (sort_key cd_audit_id (map capability_to_dict caps))). \<exists>c \<in> set caps. capability_eq c c'"
    unfolding Ball_def mem using some by (metis sum.inject(2))
qed

lemma used_kind_values_Inr:
  "used_kind_values ks = Inr vs \<Longrightarrow> vs = map kind_name ks \<and> (\<forall>k \<in> set ks. \<exists>b. k = BuiltIn b)"
  by (induction ks arbitrary: vs rule: used_kind_values.induct) (auto split: sum.splits)

lemma load_used_kinds_values:
  assumes "\<forall>k \<in> set ks. \<exists>b. k = BuiltIn b"
  shows "set (load_used_kinds (sort (map kind_name ks))) = set ks"
proof -
  have one: "(case enum_of kind_value capability_kinds (kind_name k) of
      Inl _ \<Rightarrow> [] | Inr x \<Rightarrow> [BuiltIn x]) = [k]" if "k \<in> set ks" for k
    using that assms by auto
  have "set (load_used_kinds (sort (map kind_name ks)))
      = (\<Union>k \<in> set ks. set (case enum_of kind_value capability_kinds (kind_name k) of
          Inl _ \<Rightarrow> [] | Inr x \<Rightarrow> [BuiltIn x]))"
    by (simp add: load_used_kinds_def)
  also have "\<dots> = (\<Union>k \<in> set ks. set [k])" using one by (intro SUP_cong) simp_all
  finally show ?thesis by simp
qed

lemma modes_reload:
  assumes "set ms \<subseteq> set (map mode_value execution_modes)"
  shows "required_modes_from_value (JList (map JStr ms)) = Inr (Some ms)"
proof -
  have one: "mode_name (JStr m) = Some m" if "m \<in> set ms" for m
    using that assms by (auto simp: mode_name_def)
  then have "\<not> list_ex (\<lambda>j. mode_name j = None) (map JStr ms)"
    by (auto simp: list_ex_iff)
  moreover have "map (\<lambda>j. the (mode_name j)) (map JStr ms) = ms"
    using one by (simp add: map_idI)
  ultimately show ?thesis by (simp add: required_modes_from_value_def)
qed

lemma row_reload:
  assumes "session_columns s = Inr row"
    and "\<forall>ms. s_required_modes s = Some ms \<longrightarrow> set ms \<subseteq> set (map mode_value execution_modes)"
  shows "\<exists>t. row_to_session reg row = Inr t \<and> s_id t = s_id s \<and> s_parent t = s_parent s
    \<and> s_status t = s_status s \<and> s_history t = s_history s
    \<and> s_capability_set t = load_capability_set reg
         (sort_key cd_audit_id (map capability_to_dict (s_capability_set s)))
    \<and> s_used_kinds t = load_used_kinds (sort (map kind_name (s_used_kinds s)))
    \<and> s_cap_uses t = s_cap_uses s \<and> s_revoked_audit_ids t = sort (s_revoked_audit_ids s)
    \<and> s_label_state t = labels_to_dict (s_label_state s)
    \<and> s_axis_d t = axis_d_from_dict (s_axis_d s) \<and> s_purpose_handle t = s_purpose_handle s
    \<and> s_required_modes t = map_option sort (s_required_modes s)
    \<and> s_risk_preference_at_spawn t = s_risk_preference_at_spawn s
    \<and> s_enforcement_mode t = s_enforcement_mode s
    \<and> s_first_use_prompt_enabled t = s_first_use_prompt_enabled s
    \<and> s_owner t = s_owner s \<and> s_clearance_profile_id t = None"
proof -
  from assms(1) obtain used where used: "used_kind_values (s_used_kinds s) = Inr used"
    by (auto simp: session_columns_def session_to_dict_def split: sum.splits)
  then have kinds: "used = map kind_name (s_used_kinds s)" by (simp add: used_kind_values_Inr)
  have modes: "required_modes_from_value (modes_to_value (map_option sort (s_required_modes s)))
      = Inr (map_option sort (s_required_modes s))"
  proof (cases "s_required_modes s")
    case None
    then show ?thesis by (simp add: modes_to_value_def required_modes_from_value_def)
  next
    case (Some ms)
    with assms(2) have "set (sort ms) \<subseteq> set (map mode_value execution_modes)" by simp
    from modes_reload [OF this] Some show ?thesis by (simp add: modes_to_value_def)
  qed
  from assms(1) used have row: "row = the_row" if "session_columns s = Inr the_row" for the_row
    using that by simp
  show ?thesis
    using assms(1) used modes
    by (auto simp: session_columns_def session_to_dict_def row_to_session_def session_from_dict_def
        post_init_def kinds
        enforcement_enum.enum_of_val)
qed

text \<open>
  Saving a session and loading it again, as a restart of the daemon does, gives the same
  session up to the order of its sets, when every custom kind it holds is still registered:
  identity, status, history, capabilities, used kinds, uses, revocations, taint, purpose, dial,
  enforcement and owner. The clearance profile does not survive.
\<close>

theorem session_reload:
  assumes "session_columns s = Inr row"
    and "kinds_known reg (s_capability_set s)"
    and "\<forall>ms. s_required_modes s = Some ms \<longrightarrow> set ms \<subseteq> set (map mode_value execution_modes)"
  shows "\<exists>t. row_to_session reg row = Inr t \<and> s_id t = s_id s \<and> s_parent t = s_parent s
    \<and> s_status t = s_status s \<and> s_history t = s_history s
    \<and> (\<forall>c \<in> set (s_capability_set s). \<exists>c' \<in> set (s_capability_set t). capability_eq c c')
    \<and> (\<forall>c' \<in> set (s_capability_set t). \<exists>c \<in> set (s_capability_set s). capability_eq c c')
    \<and> set (s_used_kinds t) = set (s_used_kinds s) \<and> s_cap_uses t = s_cap_uses s
    \<and> set (s_revoked_audit_ids t) = set (s_revoked_audit_ids s)
    \<and> same_labels (s_label_state t) (s_label_state s)
    \<and> s_purpose_handle t = s_purpose_handle s
    \<and> s_risk_preference_at_spawn t = s_risk_preference_at_spawn s
    \<and> s_enforcement_mode t = s_enforcement_mode s
    \<and> s_owner t = s_owner s \<and> s_clearance_profile_id t = None"
proof -
  obtain t where t: "row_to_session reg row = Inr t" "s_id t = s_id s" "s_parent t = s_parent s"
    "s_status t = s_status s" "s_history t = s_history s"
    "s_capability_set t = load_capability_set reg
       (sort_key cd_audit_id (map capability_to_dict (s_capability_set s)))"
    "s_used_kinds t = load_used_kinds (sort (map kind_name (s_used_kinds s)))"
    "s_cap_uses t = s_cap_uses s" "s_revoked_audit_ids t = sort (s_revoked_audit_ids s)"
    "s_label_state t = labels_to_dict (s_label_state s)" "s_purpose_handle t = s_purpose_handle s"
    "s_risk_preference_at_spawn t = s_risk_preference_at_spawn s"
    "s_enforcement_mode t = s_enforcement_mode s" "s_owner t = s_owner s" "s_clearance_profile_id t = None"
    using row_reload [OF assms(1,3), of reg] by blast
  note caps = load_capability_set_reload [OF assms(2)]
  from assms(1) obtain used where "used_kind_values (s_used_kinds s) = Inr used"
    by (auto simp: session_columns_def session_to_dict_def split: sum.splits)
  then have kinds: "set (s_used_kinds t) = set (s_used_kinds s)"
    unfolding t(7) using used_kind_values_Inr load_used_kinds_values by blast
  have "same_labels (s_label_state t) (s_label_state s)"
    by (simp add: t(10) same_labels_def labels_to_dict_def)
  moreover have "set (s_revoked_audit_ids t) = set (s_revoked_audit_ids s)" by (simp add: t(9))
  ultimately show ?thesis
    using t(1-5,8,11-15) caps [folded t(6)] kinds by (intro exI [of _ t]) simp
qed

theorem session_reload_witness:
  "\<exists>row t. session_columns (parent_session\<lparr>s_owner := Some ''marc''\<rparr>) = Inr row
     \<and> row_to_session None row = Inr t \<and> s_id t = 8 \<and> s_owner t = Some ''marc''
     \<and> (\<exists>c' \<in> set (s_capability_set t). capability_eq held c')"
proof -
  let ?s = "parent_session\<lparr>s_owner := Some ''marc''\<rparr>"
  have sel: "s_capability_set ?s = [held]" "s_used_kinds ?s = []" "s_required_modes ?s = None"
    "s_id ?s = 8" by (simp_all add: parent_session_def)
  obtain row where row: "session_columns ?s = Inr row"
    using sel(2) by (simp add: session_columns_def session_to_dict_def)
  have reg: "kinds_known None (s_capability_set ?s)"
    unfolding sel by (simp add: kinds_known_def)
  have modes: "\<forall>ms. s_required_modes ?s = Some ms \<longrightarrow> set ms \<subseteq> set (map mode_value execution_modes)"
    unfolding sel by simp
  obtain t where t: "row_to_session None row = Inr t" "s_id t = s_id ?s"
      "\<forall>c \<in> set (s_capability_set ?s). \<exists>c' \<in> set (s_capability_set t). capability_eq c c'"
      "s_owner t = s_owner ?s"
    using session_reload [OF row reg modes] by blast
  then show ?thesis using row sel by auto
qed

section \<open>A fork forgets revocations\<close>

text \<open>
  A fork copies the capabilities of its parent but not the revocations (nor the used kinds
  or the recorded uses): a root capability that is revoked in the parent session, and inert
  there at every later time, is live in the child as long as it has not expired.
\<close>

theorem fork_revives_revoked_capability:
  assumes "fork g pid intent sid now = Inr (g', child)"
    and "map_of (g_sessions g) pid = Some parent" and "cap \<in> set (s_capability_set parent)"
    and "c_parent_audit_id cap = None" and "c_audit_id cap \<in> set (s_revoked_audit_ids parent)"
    and "\<not> is_expired cap t" and "c_rate_limit cap = None"
  shows "fst (is_cascaded_inert cap (build_audit_id_index (s_capability_set parent))
          (s_revoked_audit_ids parent) t (Some (s_cap_uses parent)))
    \<and> cap \<in> set (s_capability_set child)
    \<and> is_cascaded_inert cap (build_audit_id_index (s_capability_set child))
          (s_revoked_audit_ids child) t (Some (s_cap_uses child)) = (False, None)"
proof -
  from fork_Inr [OF assms(1)] assms(2) have child:
    "child = (forked_session parent intent sid now)\<lparr>s_parent := Some pid\<rparr>" by auto
  then have "s_capability_set child = s_capability_set parent"
    and "s_revoked_audit_ids child = []" by (simp_all add: forked_session_def)
  then show ?thesis
    using assms(3-7)
    by (simp add: is_cascaded_inert_def link_inert_def is_rate_exceeded_def
        cascade_walk.simps [of _ _ _ _ "[]" cap])
qed

theorem fork_revives_revoked_capability_witness:
  "\<exists>g' child. fork (graph_with [parent_session\<lparr>s_revoked_audit_ids := [5]\<rparr>]) 8 None 9 0
       = Inr (g', child)
     \<and> fst (is_cascaded_inert held (build_audit_id_index [held]) [5] 1 (Some []))
     \<and> is_cascaded_inert held (build_audit_id_index (s_capability_set child))
          (s_revoked_audit_ids child) 1 (Some (s_cap_uses child)) = (False, None)"
proof -
  let ?p = "parent_session\<lparr>s_revoked_audit_ids := [5]\<rparr>"
  let ?g = "graph_with [?p]"
  have sel: "s_id ?p = 8" "s_capability_set ?p = [held]" "s_revoked_audit_ids ?p = [5]"
    "s_cap_uses ?p = []" "s_required_modes ?p = None" "s_status ?p = S_ACTIVE"
    by (simp_all add: parent_session_def)
  have get: "graph_get ?g 8 = Inr ?p" by (simp add: graph_get_def sel)
  have live: "\<not> is_terminal ?p" by (simp add: is_terminal_def sel)
  have init: "post_init s = Inr s" if "s_required_modes s = None" for s
    using that by (simp add: post_init_def modes_to_value_def required_modes_from_value_def)
  obtain g' child where run: "fork ?g 8 None 9 0 = Inr (g', child)"
    by (simp add: fork_def get live init forked_session_def sel commit_no_store)
  have "map_of (g_sessions ?g) 8 = Some ?p" by (simp add: sel)
  from fork_revives_revoked_capability [OF run this, of held 1] show ?thesis
    using run by (simp add: sel is_expired_def)
qed

section \<open>A delegated capability is inert without its parent\<close>

text \<open>
  A successful delegation gives the child session a capability that the engine refuses as
  cascaded in that session, at every time and under every record of uses and revocations,
  unless the session also holds the capability it was derived from.
\<close>

theorem delegated_capability_inert_in_child:
  assumes "delegate g pid cid request lim cats now aid = Inr (g', Inr cap)"
    and "\<forall>c \<in> set caps. Some (c_audit_id c) \<noteq> c_parent_audit_id cap"
  shows "fst (is_cascaded_inert cap (build_audit_id_index caps) revoked t uses)
    \<and> pd_decision (decide_with reg caps act used t uses revoked cap) = DENY"
proof -
  have "\<exists>pcap :: capability. c_parent_audit_id cap = Some (c_audit_id pcap)"
    using assms(1)
  proof (cases rule: delegate_cases)
    case (refused why)
    then show ?thesis by (simp add: refuse_delegation_def)
  next
    case (granted parent child pcap rest cap' g1 s1)
    then have "c_parent_audit_id cap = Some (c_audit_id pcap)"
      using derive_Inr(11) [OF granted(6)] by simp
    then show ?thesis by blast
  qed
  then obtain pcap :: capability where "c_parent_audit_id cap = Some (c_audit_id pcap)" by blast
  moreover have "map_of (build_audit_id_index caps) (c_audit_id pcap) = None"
  proof (cases "map_of (build_audit_id_index caps) (c_audit_id pcap)")
    case (Some c)
    then have "c \<in> set caps" "c_audit_id c = c_audit_id pcap"
      unfolding build_audit_id_index_def map_of_dict_of
      by (auto dest!: map_of_SomeD simp: rev_map)
    then show ?thesis using assms(2) calculation by auto
  qed simp
  ultimately have "fst (is_cascaded_inert cap (build_audit_id_index caps) revoked t uses)"
    by (simp add: is_cascaded_inert_def cascade_walk.simps [of _ _ _ _ "[]" cap])
  then show ?thesis
    by (cases "is_cascaded_inert cap (build_audit_id_index caps) revoked t uses")
       (simp add: decide_with_def PolicyDecision_def Let_def)
qed

theorem delegated_capability_inert_in_child_witness:
  "\<exists>g' cap. delegate (graph_with [parent_session, child_session]) 8 2 same_request 3 [] 0 9
       = Inr (g', Inr cap)
     \<and> pd_decision (decide_with None [cap] act [] 1 None [] cap) = DENY"
proof -
  obtain g' cap where run: "delegate (graph_with [parent_session, child_session]) 8 2 same_request
      3 [] 0 9 = Inr (g', Inr cap)" using sample_delegation by blast
  have "c_audit_id cap = 9 \<and> c_parent_audit_id cap \<noteq> Some 9"
    using run
  proof (cases rule: delegate_cases)
    case (refused why)
    then show ?thesis by (simp add: refuse_delegation_def)
  next
    case (granted parent child pcap rest cap' g1 s1)
    then have "pcap \<in> {held}" using live_candidates_hd by fastforce
    then show ?thesis using granted derive_Inr(11,13) by fastforce
  qed
  then have "\<forall>c \<in> set [cap]. Some (c_audit_id c) \<noteq> c_parent_audit_id cap" by auto
  from delegated_capability_inert_in_child [OF run this] run show ?thesis by blast
qed

section \<open>Interleaved updates\<close>

text \<open>
  Two calls on one session that both read it before either has stored its replacement, which
  the \<open>await\<close> on the database between the two halves permits: the turn that is stored second was
  computed from the session before the taint, so the taint is lost.
\<close>

theorem interleaved_update_loses_taint:
  assumes "graph_get g sid = Inr s" and "s_id s = sid"
    and "tainted_session delta now s = Some s1" and "commit g s1 = Inr g1"
    and "commit g1 (turn_session tn now' s) = Inr g2"
  shows "graph_get g1 sid = Inr s1 \<and> label_dominates (s_label_state s1) delta
    \<and> (\<exists>s2. graph_get g2 sid = Inr s2 \<and> s_label_state s2 = s_label_state s)"
proof -
  from assms(3) have s1: "s1 = s\<lparr>s_label_state := label_join [s_label_state s, delta], s_updated_at := now\<rparr>"
    by (auto simp: tainted_session_def label_join_def Let_def split: if_splits)
  have "graph_get g1 sid = Inr s1"
    using commit_get [OF assms(4)] assms(2) s1 by (simp add: graph_get_def)
  moreover have "label_dominates (s_label_state s1) delta"
    by (simp add: s1 join_dominates)
  moreover have "graph_get g2 sid = Inr (turn_session tn now' s)"
    using commit_get [OF assms(5)] assms(2) by (simp add: graph_get_def turn_session_def)
  ultimately show ?thesis by (simp add: turn_session_def)
qed

theorem interleaved_update_loses_taint_witness:
  "\<exists>s1 g1 g2 s2. tainted_session untrusted_delta 1 parent_session = Some s1
     \<and> commit (graph_with [parent_session]) s1 = Inr g1
     \<and> commit g1 (turn_session \<lparr>tn_turn_id = 0, tn_role = [], tn_content = [], tn_timestamp = 1\<rparr> 2
          parent_session) = Inr g2
     \<and> levels (s_label_state s1) = {EXTERNAL_UNTRUSTED}
     \<and> graph_get g2 8 = Inr s2 \<and> levels (s_label_state s2) = {}"
proof -
  let ?g = "graph_with [parent_session]"
  let ?tn = "\<lparr>tn_turn_id = 0, tn_role = [], tn_content = [], tn_timestamp = 1\<rparr>"
  have lab: "s_label_state parent_session = empty_state" by (simp add: parent_session_def)
  have "\<not> same_labels (label_join [empty_state, untrusted_delta]) empty_state"
    by (simp add: same_labels_def empty_state_def untrusted_delta_def)
  then obtain s1 where s1: "tainted_session untrusted_delta 1 parent_session = Some s1"
    and l1: "s_label_state s1 = label_join [empty_state, untrusted_delta]"
    by (simp add: tainted_session_def lab label_join_def)
  obtain g1 where g1: "commit ?g s1 = Inr g1" "g_store g1 = None"
    by (simp add: commit_no_store graph_put_def)
  obtain g2 where g2: "commit g1 (turn_session ?tn 2 parent_session) = Inr g2"
    using g1(2) by (simp add: commit_no_store)
  have get: "graph_get ?g 8 = Inr parent_session" by (simp add: graph_get_def)
  have "\<exists>s2. graph_get g2 8 = Inr s2 \<and> s_label_state s2 = empty_state"
    using interleaved_update_loses_taint [OF get _ s1 g1(1) g2] lab by simp
  then obtain s2 where "graph_get g2 8 = Inr s2" "s_label_state s2 = empty_state" by blast
  moreover have "levels (s_label_state s1) = {EXTERNAL_UNTRUSTED}"
    by (simp add: l1) (simp add: levels_def empty_state_def untrusted_delta_def)
  moreover have "levels empty_state = {}" by (simp add: levels_def empty_state_def)
  ultimately show ?thesis using s1 g1(1) g2 by metis
qed

section \<open>A used custom kind cannot be saved\<close>

text \<open>
  With a state database, recording the use of a custom kind fails: the row form reads
  \<open>.value\<close> of every used kind, which a custom kind (a plain string) does not have.
\<close>

theorem custom_kind_use_cannot_be_saved:
  assumes "graph_get g sid = Inr s" and "g_store g = Some table"
    and "\<not> kind_in (Custom n) (s_used_kinds s)"
  shows "record_used_kind g sid (Custom n) now = Inl AttributeError"
proof -
  have err: "used_kind_values (ks @ [Custom n]) = Inl AttributeError" for ks
  proof (induction ks)
    case (Cons k ks)
    then show ?case by (cases k) simp_all
  qed simp
  show ?thesis
    using assms err
    by (simp add: record_used_kind_def mutate_def commit_def save_def upsert_def session_columns_def
        session_to_dict_def)
qed

theorem custom_kind_use_cannot_be_saved_witness:
  "record_used_kind ((graph_with [parent_session])\<lparr>g_store := Some []\<rparr>) 8 (Custom ''gh.push'') 1
     = Inl AttributeError"
proof -
  let ?g = "(graph_with [parent_session])\<lparr>g_store := Some []\<rparr>"
  have get: "graph_get ?g 8 = Inr parent_session" by (simp add: graph_get_def)
  have "\<not> kind_in (Custom ''gh.push'') (s_used_kinds parent_session)"
    by (simp add: parent_session_def kind_in_def)
  from custom_kind_use_cannot_be_saved [OF get _ this] show ?thesis by simp
qed

end
