(* ===== verification/ApprovalModel.thy ===== *)
theory ApprovalModel
  imports SessionModel
begin

text \<open>
  Approval requests (\<open>approval/model.py\<close>) and the routes by which tools turn a gated call into
  one (\<open>approval/route.py\<close>). The text \<open>json.dumps\<close> gives for a value is kept as
  \<open>JText [value]\<close>; a plain text is a \<open>JStr\<close>.
\<close>

section \<open>Text of values\<close>

text \<open>
  \<open>str(v)\<close>. The text of a container (its \<open>repr\<close>), an identifier or a time is the argument
  \<open>text_of\<close>.
\<close>

fun digits_of :: "nat \<Rightarrow> string" where
  "digits_of n =
     (if n < 10 then [char_of (48 + n)] else digits_of (n div 10) @ [char_of (48 + n mod 10)])"

declare digits_of.simps [simp del]

definition int_text :: "int \<Rightarrow> string" where
  "int_text i = (if i < 0 then ''-'' @ digits_of (nat (- i)) else digits_of (nat i))"

fun py_str :: "(json \<Rightarrow> string) \<Rightarrow> json \<Rightarrow> string" where
  "py_str text_of (JStr s) = s"
| "py_str text_of JNull = ''None''"
| "py_str text_of (JBool b) = (if b then ''True'' else ''False'')"
| "py_str text_of (JInt i) = int_text i"
| "py_str text_of v = text_of v"

section \<open>Requests\<close>

datatype approval_action =
    A_DECLASSIFY | A_ELICITATION | A_SEND_EMAIL | A_MERGE | A_GRANT | A_QUEUE_PURCHASE
  | A_EXECUTE_DESTRUCTIVE

fun approval_action_value :: "approval_action \<Rightarrow> string" where
  "approval_action_value A_DECLASSIFY = ''DECLASSIFY''"
| "approval_action_value A_ELICITATION = ''ELICITATION''"
| "approval_action_value A_SEND_EMAIL = ''SEND_EMAIL''"
| "approval_action_value A_MERGE = ''MERGE''"
| "approval_action_value A_GRANT = ''GRANT''"
| "approval_action_value A_QUEUE_PURCHASE = ''QUEUE_PURCHASE''"
| "approval_action_value A_EXECUTE_DESTRUCTIVE = ''EXECUTE_DESTRUCTIVE''"

definition approval_actions :: "approval_action list" where
  "approval_actions =
     [A_DECLASSIFY, A_ELICITATION, A_SEND_EMAIL, A_MERGE, A_GRANT, A_QUEUE_PURCHASE,
      A_EXECUTE_DESTRUCTIVE]"

interpretation approval_action_enum: str_enum approval_action_value approval_actions
proof
  fix e :: approval_action
  show "e \<in> set approval_actions" by (cases e) (simp_all add: approval_actions_def)
  show "distinct (map approval_action_value approval_actions)"
    by (simp add: approval_actions_def)
qed

datatype approval_status =
    AP_PENDING | AP_APPROVED | AP_DENIED | AP_DEFERRED | AP_EXPIRED | AP_SUPERSEDED

fun approval_status_value :: "approval_status \<Rightarrow> string" where
  "approval_status_value AP_PENDING = ''pending''"
| "approval_status_value AP_APPROVED = ''approved''"
| "approval_status_value AP_DENIED = ''denied''"
| "approval_status_value AP_DEFERRED = ''deferred''"
| "approval_status_value AP_EXPIRED = ''expired''"
| "approval_status_value AP_SUPERSEDED = ''superseded''"

definition approval_statuses :: "approval_status list" where
  "approval_statuses =
     [AP_PENDING, AP_APPROVED, AP_DENIED, AP_DEFERRED, AP_EXPIRED, AP_SUPERSEDED]"

interpretation approval_status_enum: str_enum approval_status_value approval_statuses
proof
  fix e :: approval_status
  show "e \<in> set approval_statuses" by (cases e) (simp_all add: approval_statuses_def)
  show "distinct (map approval_status_value approval_statuses)"
    by (simp add: approval_statuses_def)
qed

record approval_request =
  ar_id :: int
  ar_audit_id :: uuid
  ar_from_session :: uuid
  ar_action :: approval_action
  ar_payload :: json
  ar_target :: string
  ar_labels_in :: label_state
  ar_labels_out :: label_state
  ar_capability_requested :: "capability option"
  ar_justification :: string
  ar_requested_at :: time
  ar_status :: approval_status
  ar_to_session :: "uuid option"
  ar_decision_at :: "time option"
  ar_decided_by :: "string option"
  ar_decision_scope :: "(string \<times> json) list"
  ar_new_audit_id :: uuid
  ar_sibling_group_id :: "uuid option"
  ar_expires_at :: "time option"
  ar_rule :: "string option"

text \<open>
  The dictionary of a request, as \<open>to_dict\<close> writes and \<open>from_dict\<close> reads it: everything but
  \<open>new_audit_id\<close>, which a read draws afresh (\<open>fresh\<close>).
\<close>

record request_dict =
  rd_id :: int
  rd_audit_id :: uuid
  rd_from_session :: uuid
  rd_to_session :: "uuid option"
  rd_action :: string
  rd_payload :: json
  rd_target :: string
  rd_labels_in :: label_state
  rd_labels_out :: label_state
  rd_capability_requested :: "capability_dict option"
  rd_justification :: string
  rd_requested_at :: time
  rd_status :: string
  rd_decision_at :: "time option"
  rd_decided_by :: "string option"
  rd_decision_scope :: "(string \<times> json) list"
  rd_sibling_group_id :: "uuid option"
  rd_expires_at :: "time option"
  rd_rule :: "string option"

definition request_to_dict :: "approval_request \<Rightarrow> request_dict" where
  "request_to_dict r =
     \<lparr>rd_id = ar_id r, rd_audit_id = ar_audit_id r, rd_from_session = ar_from_session r,
      rd_to_session = ar_to_session r, rd_action = approval_action_value (ar_action r),
      rd_payload = ar_payload r, rd_target = ar_target r,
      rd_labels_in = labels_to_dict (ar_labels_in r),
      rd_labels_out = labels_to_dict (ar_labels_out r),
      rd_capability_requested = map_option capability_to_dict (ar_capability_requested r),
      rd_justification = ar_justification r, rd_requested_at = ar_requested_at r,
      rd_status = approval_status_value (ar_status r), rd_decision_at = ar_decision_at r,
      rd_decided_by = ar_decided_by r, rd_decision_scope = ar_decision_scope r,
      rd_sibling_group_id = ar_sibling_group_id r, rd_expires_at = ar_expires_at r,
      rd_rule = ar_rule r\<rparr>"

definition request_from_dict ::
  "kind_registry \<Rightarrow> uuid \<Rightarrow> request_dict \<Rightarrow> py_error + approval_request" where
  "request_from_dict reg fresh d =
     (case enum_of approval_action_value approval_actions (rd_action d) of
        Inl e \<Rightarrow> Inl e
      | Inr act \<Rightarrow>
      (case (case rd_capability_requested d of
               None \<Rightarrow> Inr None
             | Some cd \<Rightarrow> (case capability_from_dict reg cd of
                             Inl e \<Rightarrow> Inl e | Inr c \<Rightarrow> Inr (Some c))) of
        Inl e \<Rightarrow> Inl e
      | Inr cap \<Rightarrow>
      (case enum_of approval_status_value approval_statuses (rd_status d) of
        Inl e \<Rightarrow> Inl e
      | Inr st \<Rightarrow>
          Inr \<lparr>ar_id = rd_id d, ar_audit_id = rd_audit_id d,
               ar_from_session = rd_from_session d, ar_action = act,
               ar_payload = rd_payload d, ar_target = rd_target d,
               ar_labels_in = rd_labels_in d, ar_labels_out = rd_labels_out d,
               ar_capability_requested = cap, ar_justification = rd_justification d,
               ar_requested_at = rd_requested_at d, ar_status = st,
               ar_to_session = rd_to_session d, ar_decision_at = rd_decision_at d,
               ar_decided_by = rd_decided_by d, ar_decision_scope = rd_decision_scope d,
               ar_new_audit_id = fresh, ar_sibling_group_id = rd_sibling_group_id d,
               ar_expires_at = rd_expires_at d, ar_rule = rd_rule d\<rparr>)))"

section \<open>Routes\<close>

datatype approval_payload_kind = BODY_ARG | JSON_ARGS | TOOL_ENVELOPE | EMAIL_ENVELOPE

record approval_route =
  rt_action :: approval_action
  rt_target_arg :: string
  rt_payload_kind :: approval_payload_kind
  rt_payload_arg :: "string option"

text \<open>\<open>route.resolve\<close>: the parameters of a submission, without the session.\<close>

record submission =
  su_action :: approval_action
  su_target :: string
  su_payload :: json
  su_justification :: string

definition json_dumps :: "json \<Rightarrow> json" where
  "json_dumps v = JText [v]"

definition resolve_route ::
  "(json \<Rightarrow> string) \<Rightarrow> approval_route \<Rightarrow> string \<Rightarrow> (string \<times> json) list \<Rightarrow> string
   \<Rightarrow> py_error + submission" where
  "resolve_route text_of rt tool_name args reason =
     (let target = py_str text_of (dict_get args (rt_target_arg rt) (JStr []));
          sub = (\<lambda>payload. Inr \<lparr>su_action = rt_action rt, su_target = target, su_payload = payload,
                   su_justification =
                     (if reason = [] then ''agent-initiated '' @ tool_name else reason)\<rparr>)
      in case rt_payload_kind rt of
           BODY_ARG \<Rightarrow>
             (case rt_payload_arg rt of
                None \<Rightarrow> Inl ValueError
              | Some arg \<Rightarrow> sub (JStr (py_str text_of (dict_get args arg (JStr [])))))
         | JSON_ARGS \<Rightarrow> sub (json_dumps (JDict args))
         | EMAIL_ENVELOPE \<Rightarrow>
             sub (json_dumps (JDict [(''format'', JStr ''capdep.email.v1''), (''message'', JDict args)]))
         | TOOL_ENVELOPE \<Rightarrow>
             sub (json_dumps (JDict [(''tool'', JStr tool_name), (''args'', JDict args)])))"

lemma same_labels_to_dict [simp]: "same_labels (labels_to_dict l) l"
  by (simp add: same_labels_def labels_to_dict_def)

end
