(* ===== verification/Tools.thy ===== *)
theory Tools
  imports ApprovalModel Reversibility Strings
begin

text \<open>
  Tool definitions and their registry (\<open>tools/registry.py\<close>) over the operation taxonomy of
  \<open>policy/effect_class.py\<close>. The handler of a tool is not part of the definition: it is an
  argument of the dispatch. The hooks a definition may carry (a source-label lookup and a
  reversibility resolver) are functions of the call's arguments.
\<close>

section \<open>Effect classes\<close>

datatype effect_class =
    E_OBSERVE | E_FETCH | E_MUTATE_LOCAL | E_DESTROY | E_COMMUNICATE | E_TRANSACT
  | E_EXECUTE_SANDBOX | E_EXECUTE_HOST | E_EXECUTE_REMOTE | E_EXECUTE_DEPLOY | E_ADMINISTER
  | E_ACTUATE_PHYSICAL

definition EGRESS_CAPABLE_EFFECTS :: "effect_class list" where
  "EGRESS_CAPABLE_EFFECTS =
     [E_COMMUNICATE, E_TRANSACT, E_EXECUTE_REMOTE, E_EXECUTE_DEPLOY, E_ACTUATE_PHYSICAL]"

definition effect_class_is_egress_capable :: "effect_class \<Rightarrow> bool" where
  "effect_class_is_egress_capable e \<longleftrightarrow> e \<in> set EGRESS_CAPABLE_EFFECTS"

record operation =
  op_effect_class :: effect_class
  op_subtype :: "string option"
  op_required_floor :: "provenance_level option"

section \<open>Definitions\<close>

type_synonym args = "(string \<times> json) list"

record tool_definition =
  td_name :: string
  td_capability_kind :: kind
  td_target_arg :: string
  td_target_template :: "string option"
  td_amount_arg :: "string option"
  td_schema_properties :: "string list"
  td_approval_route :: "approval_route option"
  td_accepts_handles :: bool
  td_handle_arg_names :: "string list"
  td_effect_class :: "string option"
  td_default_reversibility :: "(string \<times> string) list option"
  td_social_commitment :: bool
  td_surfaces_destination_id :: bool
  td_risk_ids :: "string list"
  td_operations :: "operation list"
  td_inherent_tags :: label_state
  td_arg_inherent_tags :: "(string \<times> label_state) list"
  td_source_label_lookup :: "(args \<Rightarrow> label_state) option"
  td_forbid_restricted_source :: bool
  td_reversibility_resolver :: "(args \<Rightarrow> (string \<times> string) list option) option"

text \<open>A definition with every optional field at its default.\<close>

definition ToolDefinition :: "string \<Rightarrow> kind \<Rightarrow> tool_definition" where
  "ToolDefinition name k =
     \<lparr>td_name = name, td_capability_kind = k, td_target_arg = ''target'', td_target_template = None,
      td_amount_arg = None, td_schema_properties = [], td_approval_route = None,
      td_accepts_handles = False, td_handle_arg_names = [], td_effect_class = None,
      td_default_reversibility = None, td_social_commitment = False,
      td_surfaces_destination_id = False, td_risk_ids = [], td_operations = [],
      td_inherent_tags = empty_state, td_arg_inherent_tags = [], td_source_label_lookup = None,
      td_forbid_restricted_source = False, td_reversibility_resolver = None\<rparr>"

section \<open>Target and amount of a call\<close>

text \<open>
  \<open>template.format_map(args)\<close> with missing names as empty texts. A doubled brace is a brace, an
  unmatched brace or a numbered field is a \<open>ValueError\<close> (\<open>None\<close>); a field with a conversion, a
  format, an attribute or an index is the argument \<open>field\<close>, \<open>None\<close> when it raises.
\<close>

record py_text =
  pt_text_of :: "json \<Rightarrow> string"
  pt_field :: "string \<Rightarrow> args \<Rightarrow> string option"

definition simple_field :: "string \<Rightarrow> bool" where
  "simple_field name \<longleftrightarrow>
     list_all (\<lambda>c. c \<notin> {CHR ''!'', CHR '':'', CHR ''.'', CHR ''['', CHR ''{''}) name"

definition field_text :: "py_text \<Rightarrow> args \<Rightarrow> string \<Rightarrow> string option" where
  "field_text py args name =
     (if \<not> simple_field name then pt_field py name args
      else if list_all (\<lambda>c. char_in c 48 57) name then None
      else Some (case map_of args name of None \<Rightarrow> [] | Some v \<Rightarrow> py_str (pt_text_of py) v))"

function format_map :: "py_text \<Rightarrow> args \<Rightarrow> string \<Rightarrow> string option" where
  "format_map py args [] = Some []"
| "format_map py args (c # t) =
     (if c = CHR ''{'' then
        (if t \<noteq> [] \<and> hd t = CHR ''{''
         then map_option (Cons c) (format_map py args (tl t))
         else if CHR ''}'' \<notin> set t then None
         else (case field_text py args (takeWhile (\<lambda>x. x \<noteq> CHR ''}'') t) of
                 None \<Rightarrow> None
               | Some v \<Rightarrow> map_option (append v)
                   (format_map py args (tl (dropWhile (\<lambda>x. x \<noteq> CHR ''}'') t)))))
      else if c = CHR ''}'' then
        (if t \<noteq> [] \<and> hd t = CHR ''}''
         then map_option (Cons c) (format_map py args (tl t)) else None)
      else map_option (Cons c) (format_map py args t))"
  by pat_completeness auto

termination
proof (relation "measure (\<lambda>(py, args, t). length t)", goal_cases)
  case (3 py args c t x)
  have "length (tl (dropWhile (\<lambda>x. x \<noteq> CHR ''}'') t)) \<le> length t"
    using length_dropWhile_le [of "\<lambda>x. x \<noteq> CHR ''}''" t] by simp
  then show ?case by simp
qed auto

definition extract_target :: "py_text \<Rightarrow> tool_definition \<Rightarrow> args \<Rightarrow> string" where
  "extract_target py tool args =
     (case td_target_template tool of
        Some t \<Rightarrow> (case format_map py args t of Some s \<Rightarrow> s | None \<Rightarrow> [])
      | None \<Rightarrow> py_str (pt_text_of py) (dict_get args (td_target_arg tool) (JStr [])))"

text \<open>\<open>int(text)\<close>: surrounding white space, a sign, and digits with single underscores between.\<close>

definition py_space :: "char \<Rightarrow> bool" where
  "py_space c \<longleftrightarrow> char_in c 9 13 \<or> char_in c 28 32 \<or> (of_char c :: nat) \<in> {133, 160}"

definition py_strip :: "string \<Rightarrow> string" where
  "py_strip s = rev (dropWhile py_space (rev (dropWhile py_space s)))"

fun digits_value :: "nat \<Rightarrow> string \<Rightarrow> nat option" where
  "digits_value n [] = Some n"
| "digits_value n [c] =
     (if char_in c 48 57 then Some (10 * n + (of_char c - 48)) else None)"
| "digits_value n (c # d # s) =
     (if char_in c 48 57
      then digits_value (10 * n + (of_char c - 48)) (if d = CHR ''_'' then s else d # s)
      else None)"

definition int_of_text :: "string \<Rightarrow> int option" where
  "int_of_text text =
     (let s = py_strip text;
          (neg, t) = (case s of c # t \<Rightarrow> if c = CHR ''-'' then (True, t)
                        else if c = CHR ''+'' then (False, t) else (False, s) | [] \<Rightarrow> (False, s))
      in if t = [] \<or> last t = CHR ''_'' then None
         else map_option (\<lambda>n. if neg then - int n else int n) (digits_value 0 t))"

definition py_int :: "json \<Rightarrow> py_error + int" where
  "py_int v =
     (case v of
        JInt i \<Rightarrow> Inr i
      | JBool b \<Rightarrow> Inr (if b then 1 else 0)
      | JStr s \<Rightarrow> (case int_of_text s of Some i \<Rightarrow> Inr i | None \<Rightarrow> Inl ValueError)
      | JNull \<Rightarrow> Inl TypeError
      | JList _ \<Rightarrow> Inl TypeError
      | JDict _ \<Rightarrow> Inl TypeError
      | _ \<Rightarrow> Inl ValueError)"

definition extract_amount :: "tool_definition \<Rightarrow> args \<Rightarrow> py_error + int option" where
  "extract_amount tool args =
     (case td_amount_arg tool of
        None \<Rightarrow> Inr None
      | Some arg \<Rightarrow>
          (case map_of args arg of
             None \<Rightarrow> Inr None
           | Some JNull \<Rightarrow> Inr None
           | Some v \<Rightarrow> (case py_int v of Inl e \<Rightarrow> Inl e | Inr i \<Rightarrow> Inr (Some i))))"

section \<open>Labels of a call\<close>

fun populated :: "json \<Rightarrow> bool" where
  "populated JNull = False"
| "populated (JStr s) = (s \<noteq> [])"
| "populated (JList xs) = (xs \<noteq> [])"
| "populated (JDict d) = (d \<noteq> [])"
| "populated (JBool b) = b"
| "populated (JInt i) = (i \<noteq> 0)"
| "populated (JText ts) = (ts \<noteq> [])"
| "populated (JUuid _) = True"
| "populated (JTime _) = True"

definition extract_arg_inherent_tags :: "tool_definition \<Rightarrow> args \<Rightarrow> label_state" where
  "extract_arg_inherent_tags tool args =
     (let tags = map snd (filter (\<lambda>(arg, _). populated (dict_get args arg JNull))
                   (td_arg_inherent_tags tool))
      in if tags = [] then empty_state else most_restrictive_inherit tags)"

definition extract_source_tags :: "tool_definition \<Rightarrow> args \<Rightarrow> label_state" where
  "extract_source_tags tool args =
     (case td_source_label_lookup tool of None \<Rightarrow> empty_state | Some f \<Rightarrow> f args)"

section \<open>Validation\<close>

definition MECHANICAL_EXECUTE :: "effect_class list" where
  "MECHANICAL_EXECUTE = [E_EXECUTE_HOST, E_EXECUTE_REMOTE, E_EXECUTE_DEPLOY]"

definition READ_ONLY_EFFECTS :: "effect_class list" where
  "READ_ONLY_EFFECTS = [E_OBSERVE, E_FETCH]"

fun kind_to_effect :: "capability_kind \<Rightarrow> effect_class option" where
  "kind_to_effect READ_FS = Some E_FETCH"
| "kind_to_effect EXTERNAL_MAIL_DRAFT = Some E_MUTATE_LOCAL"
| "kind_to_effect IMAP_READ = Some E_FETCH"
| "kind_to_effect CLOUD_FILE_READ = Some E_FETCH"
| "kind_to_effect CHAT_READ = Some E_FETCH"
| "kind_to_effect MEMORY_READ = Some E_FETCH"
| "kind_to_effect MEMORY_CREATE = Some E_MUTATE_LOCAL"
| "kind_to_effect MEMORY_WRITE = Some E_MUTATE_LOCAL"
| "kind_to_effect MEMORY_MODIFY = Some E_MUTATE_LOCAL"
| "kind_to_effect MEMORY_DELETE = Some E_DESTROY"
| "kind_to_effect CALENDAR_READ = Some E_FETCH"
| "kind_to_effect WEB_FETCH = Some E_FETCH"
| "kind_to_effect WRITE_FS = Some E_MUTATE_LOCAL"
| "kind_to_effect CREATE_FS = Some E_MUTATE_LOCAL"
| "kind_to_effect MODIFY_FS = Some E_MUTATE_LOCAL"
| "kind_to_effect CALENDAR_WRITE = Some E_MUTATE_LOCAL"
| "kind_to_effect CREATE_CAL = Some E_MUTATE_LOCAL"
| "kind_to_effect MODIFY_CAL = Some E_MUTATE_LOCAL"
| "kind_to_effect DELETE_FS = Some E_DESTROY"
| "kind_to_effect DELETE_CAL = Some E_DESTROY"
| "kind_to_effect SEND_EMAIL = Some E_COMMUNICATE"
| "kind_to_effect SEND_MESSAGE = Some E_COMMUNICATE"
| "kind_to_effect QUEUE_PURCHASE = Some E_TRANSACT"
| "kind_to_effect BROWSER_AUTOMATION = Some E_EXECUTE_REMOTE"
| "kind_to_effect MACOS_AUTOMATION = Some E_EXECUTE_HOST"
| "kind_to_effect BROWSER_READ = Some E_FETCH"
| "kind_to_effect BROWSER_NAVIGATE = Some E_EXECUTE_REMOTE"
| "kind_to_effect BROWSER_INTERACT = Some E_EXECUTE_REMOTE"
| "kind_to_effect BROWSER_SCRIPT = Some E_EXECUTE_REMOTE"
| "kind_to_effect BROWSER_FILE = Some E_EXECUTE_REMOTE"
| "kind_to_effect MACOS_APP_CONTROL = Some E_EXECUTE_HOST"
| "kind_to_effect MACOS_CLIPBOARD_READ = Some E_FETCH"
| "kind_to_effect MACOS_CLIPBOARD_WRITE = Some E_MUTATE_LOCAL"
| "kind_to_effect MACOS_NOTIFICATION = Some E_EXECUTE_HOST"
| "kind_to_effect APPLE_MAIL_READ = Some E_FETCH"
| "kind_to_effect APPLE_MAIL_DRAFT = Some E_MUTATE_LOCAL"
| "kind_to_effect KEYNOTE_READ = Some E_FETCH"
| "kind_to_effect KEYNOTE_PRESENT = Some E_EXECUTE_HOST"
| "kind_to_effect PAGES_READ = Some E_FETCH"
| "kind_to_effect PAGES_EDIT = Some E_MUTATE_LOCAL"
| "kind_to_effect PAGES_EXPORT = Some E_MUTATE_LOCAL"
| "kind_to_effect NUMBERS_READ = Some E_FETCH"
| "kind_to_effect NUMBERS_EDIT = Some E_MUTATE_LOCAL"
| "kind_to_effect NUMBERS_EXPORT = Some E_MUTATE_LOCAL"
| "kind_to_effect OUTLOOK_READ = Some E_FETCH"
| "kind_to_effect OUTLOOK_DRAFT = Some E_MUTATE_LOCAL"
| "kind_to_effect WORD_READ = Some E_FETCH"
| "kind_to_effect WORD_EDIT = Some E_MUTATE_LOCAL"
| "kind_to_effect WORD_EXPORT = Some E_MUTATE_LOCAL"
| "kind_to_effect POWERPOINT_READ = Some E_FETCH"
| "kind_to_effect POWERPOINT_EDIT = Some E_MUTATE_LOCAL"
| "kind_to_effect POWERPOINT_EXPORT = Some E_MUTATE_LOCAL"
| "kind_to_effect POWERPOINT_PRESENT = Some E_EXECUTE_HOST"
| "kind_to_effect EXECUTE_SANDBOX = Some E_EXECUTE_SANDBOX"
| "kind_to_effect EXECUTE_DEVBOX = Some E_EXECUTE_SANDBOX"
| "kind_to_effect GENERATE_IMAGE = Some E_MUTATE_LOCAL"
| "kind_to_effect FETCH_IMAGE = Some E_FETCH"

text \<open>The look-up is by name: a custom kind that has the name of a built-in one is found too.\<close>

definition kind_effect :: "string \<Rightarrow> effect_class option" where
  "kind_effect name =
     (case enum_of kind_value capability_kinds name of Inl _ \<Rightarrow> None | Inr k \<Rightarrow> kind_to_effect k)"

definition tool_effects :: "tool_definition \<Rightarrow> effect_class list" where
  "tool_effects tool = map op_effect_class (td_operations tool)"

definition validate_tool_definition ::
  "string list option \<Rightarrow> tool_definition \<Rightarrow> py_error option" where
  "validate_tool_definition known_risk_ids tool =
     (let effects = tool_effects tool
      in if td_operations tool = [] \<or> td_risk_ids tool = [] then Some ToolValidationError
         else if list_ex (\<lambda>e. e \<in> set MECHANICAL_EXECUTE) effects \<and> td_social_commitment tool
         then Some ToolValidationError
         else if td_accepts_handles tool
                 \<and> (td_handle_arg_names tool = []
                    \<or> \<not> set (td_handle_arg_names tool) \<subseteq> set (td_schema_properties tool))
         then Some ToolValidationError
         else if \<not> td_surfaces_destination_id tool \<and> \<not> set effects \<subseteq> set READ_ONLY_EFFECTS
         then Some ToolValidationError
         else if (case known_risk_ids of None \<Rightarrow> False
                  | Some ids \<Rightarrow> \<not> set (td_risk_ids tool) \<subseteq> set ids)
         then Some ToolValidationError
         else if td_forbid_restricted_source tool \<and> td_source_label_lookup tool = None
         then Some ToolValidationError
         else if (case kind_effect (kind_name (td_capability_kind tool)) of
                    None \<Rightarrow> False
                  | Some e \<Rightarrow> effect_class_is_egress_capable e
                           \<and> \<not> list_ex effect_class_is_egress_capable effects)
         then Some ToolValidationError
         else None)"

fun effect_default_risk :: "effect_class \<Rightarrow> string list" where
  "effect_default_risk E_OBSERVE = [''RISK-EXCESSIVE-AGENCY'']"
| "effect_default_risk E_FETCH = [''RISK-INDIRECT-INJECTION'']"
| "effect_default_risk E_MUTATE_LOCAL = [''RISK-DESTRUCTIVE-WRITE'']"
| "effect_default_risk E_DESTROY = [''RISK-DESTRUCTIVE-WRITE'']"
| "effect_default_risk E_COMMUNICATE = [''RISK-DATA-EXFIL-AGENT-TOOLS'']"
| "effect_default_risk E_TRANSACT = [''RISK-IRREVERSIBLE-SEND'']"
| "effect_default_risk E_EXECUTE_SANDBOX = [''RISK-UNSAFE-CODE-EXEC'']"
| "effect_default_risk E_EXECUTE_HOST = [''RISK-UNSAFE-CODE-EXEC'']"
| "effect_default_risk E_EXECUTE_REMOTE = [''RISK-DATA-EXFIL-AGENT-TOOLS'']"
| "effect_default_risk E_EXECUTE_DEPLOY = [''RISK-DESTRUCTIVE-WRITE'']"
| "effect_default_risk E_ADMINISTER = [''RISK-EXCESSIVE-AGENCY'']"
| "effect_default_risk E_ACTUATE_PHYSICAL = [''RISK-EXCESSIVE-AGENCY'']"

definition default_operation_for_kind :: "kind \<Rightarrow> operation \<times> string list \<times> bool" where
  "default_operation_for_kind k =
     (let effect = (case kind_effect (kind_name k) of Some e \<Rightarrow> e | None \<Rightarrow> E_FETCH)
      in (\<lparr>op_effect_class = effect, op_subtype = Some (kind_name k), op_required_floor = None\<rparr>,
          effect_default_risk effect, effect \<notin> {E_OBSERVE, E_FETCH}))"

section \<open>The registry\<close>

type_synonym tool_registry = "(string \<times> tool_definition) list"

definition register :: "tool_registry \<Rightarrow> tool_definition \<Rightarrow> py_error + tool_registry" where
  "register reg tool =
     (if map_of reg (td_name tool) \<noteq> None then Inl DuplicateToolError
      else case validate_tool_definition None tool of
             Some e \<Rightarrow> Inl e
           | None \<Rightarrow> Inr (reg @ [(td_name tool, tool)]))"

definition registry_get :: "tool_registry \<Rightarrow> string \<Rightarrow> py_error + tool_definition" where
  "registry_get reg name =
     (case map_of reg name of None \<Rightarrow> Inl ToolNotFoundError | Some t \<Rightarrow> Inr t)"

definition unregister_prefix :: "tool_registry \<Rightarrow> string \<Rightarrow> tool_registry \<times> string list" where
  "unregister_prefix reg p =
     (filter (\<lambda>(name, _). \<not> prefix p name) reg, filter (prefix p) (map fst reg))"

definition registry_list :: "tool_registry \<Rightarrow> tool_definition list" where
  "registry_list reg = map snd reg"

section \<open>What registration guarantees\<close>

text \<open>
  What registration checks. \<open>register\<close> validates without a risk register, so of the document's rules
  (\<open>contracts/tool_definition.md\<close>) these two are not among the checks: that the cited risks are ones
  the loaded register knows (rule 5 asks it, nothing passes \<open>known_risk_ids\<close>), and that a wrapper
  declares the effects of the tools it wraps (rule 6, of which there is no code).
\<close>

definition tool_contract :: "tool_definition \<Rightarrow> bool" where
  "tool_contract tool \<longleftrightarrow>
     td_operations tool \<noteq> [] \<and> td_risk_ids tool \<noteq> []
     \<and> (td_social_commitment tool \<longrightarrow> set (tool_effects tool) \<inter> set MECHANICAL_EXECUTE = {})
     \<and> (td_accepts_handles tool \<longrightarrow> td_handle_arg_names tool \<noteq> []
          \<and> set (td_handle_arg_names tool) \<subseteq> set (td_schema_properties tool))
     \<and> (\<forall>e \<in> set (tool_effects tool). e \<notin> {E_OBSERVE, E_FETCH} \<longrightarrow> td_surfaces_destination_id tool)
     \<and> (td_forbid_restricted_source tool \<longrightarrow> td_source_label_lookup tool \<noteq> None)
     \<and> (\<forall>e. kind_effect (kind_name (td_capability_kind tool)) = Some e
          \<longrightarrow> effect_class_is_egress_capable e
          \<longrightarrow> (\<exists>e' \<in> set (tool_effects tool). effect_class_is_egress_capable e'))"

lemma if_Some_None: "(if b then Some x else y) = None \<longleftrightarrow> \<not> b \<and> y = None"
  by simp

lemma validate_iff:
  "validate_tool_definition None tool = None \<longleftrightarrow> tool_contract tool"
proof -
  let ?e = "kind_effect (kind_name (td_capability_kind tool))"
  have mech: "\<not> (list_ex (\<lambda>e. e \<in> set MECHANICAL_EXECUTE) (tool_effects tool)
        \<and> td_social_commitment tool)
      \<longleftrightarrow> (td_social_commitment tool \<longrightarrow> set (tool_effects tool) \<inter> set MECHANICAL_EXECUTE = {})"
    by (auto simp: list_ex_iff)
  have dest: "\<not> (\<not> td_surfaces_destination_id tool
        \<and> \<not> set (tool_effects tool) \<subseteq> set READ_ONLY_EFFECTS)
      \<longleftrightarrow> (\<forall>e \<in> set (tool_effects tool). e \<notin> {E_OBSERVE, E_FETCH}
            \<longrightarrow> td_surfaces_destination_id tool)"
    unfolding READ_ONLY_EFFECTS_def by auto
  have egress: "\<not> (case ?e of None \<Rightarrow> False
        | Some e \<Rightarrow> effect_class_is_egress_capable e
            \<and> \<not> list_ex effect_class_is_egress_capable (tool_effects tool))
      \<longleftrightarrow> (\<forall>e. ?e = Some e \<longrightarrow> effect_class_is_egress_capable e
            \<longrightarrow> (\<exists>e' \<in> set (tool_effects tool). effect_class_is_egress_capable e'))"
    by (cases ?e) (auto simp: list_ex_iff)
  show ?thesis
    unfolding validate_tool_definition_def Let_def if_Some_None mech dest egress
      tool_contract_def option.case by argo
qed

definition registry_ok :: "tool_registry \<Rightarrow> bool" where
  "registry_ok reg \<longleftrightarrow> distinct (map fst reg)
     \<and> (\<forall>(name, tool) \<in> set reg. name = td_name tool \<and> tool_contract tool)"

lemma registry_ok_register: "registry_ok reg \<Longrightarrow> register reg tool = Inr reg' \<Longrightarrow> registry_ok reg'"
  by (auto simp: registry_ok_def register_def validate_iff map_of_eq_None_iff
      split: if_splits option.splits)

lemma registry_ok_unregister: "registry_ok reg \<Longrightarrow> registry_ok (fst (unregister_prefix reg p))"
  by (auto simp: registry_ok_def unregister_prefix_def distinct_map_filter)

inductive registry_run :: "tool_registry \<Rightarrow> bool" where
  registry_start: "registry_run []"
| registry_register: "registry_run reg \<Longrightarrow> register reg tool = Inr reg' \<Longrightarrow> registry_run reg'"
| registry_unregister: "registry_run reg \<Longrightarrow> registry_run (fst (unregister_prefix reg p))"

lemma registry_run_ok: "registry_run reg \<Longrightarrow> registry_ok reg"
  by (induction rule: registry_run.induct)
     (simp_all add: registry_ok_register registry_ok_unregister, simp add: registry_ok_def)


definition send_tool :: tool_definition where
  "send_tool = (ToolDefinition ''mail.send'' (BuiltIn SEND_EMAIL))
     \<lparr>td_operations := [\<lparr>op_effect_class = E_COMMUNICATE, op_subtype = None, op_required_floor = None\<rparr>],
      td_risk_ids := [''RISK-DATA-EXFIL-AGENT-TOOLS''], td_surfaces_destination_id := True\<rparr>"


text \<open>
  Every tool the upstream and skill adapters create from a capability kind alone passes
  registration: the default operation, risks and destination flag of a kind satisfy the contract.
\<close>

theorem default_operation_registers:
  "case default_operation_for_kind k of (oper, risks, surfaces) \<Rightarrow>
     validate_tool_definition None
       ((ToolDefinition name k)\<lparr>td_operations := [oper], td_risk_ids := risks,
          td_surfaces_destination_id := surfaces\<rparr>) = None"
proof -
  let ?e = "case kind_effect (kind_name k) of Some e \<Rightarrow> e | None \<Rightarrow> E_FETCH"
  have "effect_default_risk ?e \<noteq> []"
    by (cases ?e) simp_all
  then show ?thesis
    unfolding validate_iff
    by (auto simp: default_operation_for_kind_def Let_def tool_contract_def tool_effects_def
        ToolDefinition_def)
qed

end
