(* ===== verification/Dispatcher.thy ===== *)
theory Dispatcher
  imports Tools
begin

text \<open>
  The mode dispatcher (\<open>mode/dispatcher.py\<close>) with the part of a security posture it reads
  (\<open>policy/posture.py\<close>): which flow pattern the next turn runs under, and which tools the
  language model sees. The tool registry is the list of its definitions; of a definition, a
  session and a posture, the records hold the fields the dispatcher reads.
\<close>

section \<open>Postures\<close>

record posture =
  po_id :: string
  po_flow_pattern_defaults :: "(tier \<times> execution_mode) list"
  po_projection_only :: bool

fun pattern_strength :: "execution_mode \<Rightarrow> nat" where
  "pattern_strength TURN_LEVEL = 0"
| "pattern_strength PROGRAMMATIC = 0"
| "pattern_strength DUAL_LLM = 1"
| "pattern_strength REFERENCE = 2"
| "pattern_strength SEALED = 2"

fun floor_pattern :: "tier \<Rightarrow> execution_mode" where
  "floor_pattern NONE = TURN_LEVEL"
| "floor_pattern SENSITIVE = TURN_LEVEL"
| "floor_pattern REGULATED = TURN_LEVEL"
| "floor_pattern RESTRICTED = REFERENCE"
| "floor_pattern PROHIBITED = REFERENCE"

fun default_flow_pattern :: "tier \<Rightarrow> execution_mode" where
  "default_flow_pattern NONE = TURN_LEVEL"
| "default_flow_pattern SENSITIVE = TURN_LEVEL"
| "default_flow_pattern REGULATED = TURN_LEVEL"
| "default_flow_pattern RESTRICTED = REFERENCE"
| "default_flow_pattern PROHIBITED = SEALED"

definition flow_pattern_for :: "posture \<Rightarrow> tier \<Rightarrow> execution_mode" where
  "flow_pattern_for po t = dict_get (po_flow_pattern_defaults po) t (default_flow_pattern t)"

text \<open>The floor check of \<open>Posture.validate\<close>.\<close>

definition posture_respects_floor :: "posture \<Rightarrow> bool" where
  "posture_respects_floor po =
     list_all (\<lambda>(t, m). pattern_strength m \<ge> pattern_strength (floor_pattern t))
       (po_flow_pattern_defaults po)"

lemma flow_pattern_for_floor:
  assumes "posture_respects_floor po"
  shows "pattern_strength (flow_pattern_for po t) \<ge> pattern_strength (floor_pattern t)"
proof (cases "map_of (po_flow_pattern_defaults po) t")
  case None
  then show ?thesis by (cases t) (simp_all add: flow_pattern_for_def dict_get_def)
next
  case (Some m)
  then show ?thesis
    using assms by (auto simp: flow_pattern_for_def dict_get_def posture_respects_floor_def
        list_all_iff dest: map_of_SomeD)
qed

section \<open>Tools\<close>

definition CONFIDENTIAL_CATEGORIES :: "string list" where
  "CONFIDENTIAL_CATEGORIES = [''health'', ''financial'', ''personal'']"

definition RAW_LABELED_DATA_TOOLS :: "string list" where
  "RAW_LABELED_DATA_TOOLS = [''memory.read'', ''fs.read'', ''web.fetch'']"

definition UNTRUSTED_SOURCE_RAW_READERS :: "string list" where
  "UNTRUSTED_SOURCE_RAW_READERS = [''inbox.read'']"

definition planner_projection_only :: "posture option \<Rightarrow> bool" where
  "planner_projection_only po = (case po of None \<Rightarrow> True | Some p \<Rightarrow> po_projection_only p)"

definition mail_body_reader :: "tool_definition \<Rightarrow> bool" where
  "mail_body_reader t \<longleftrightarrow>
     suffix ''.imap.read_recent'' (td_name t) \<or> suffix ''.imap.read_message'' (td_name t)"

definition exposure_limited :: "execution_mode \<Rightarrow> bool" where
  "exposure_limited m \<longleftrightarrow> m \<in> {DUAL_LLM, REFERENCE, SEALED}"

definition filter_tools_for_mode ::
  "tool_definition list \<Rightarrow> execution_mode \<Rightarrow> posture option \<Rightarrow> tool_definition list" where
  "filter_tools_for_mode tools mode po =
     (let mail_body_readers = map td_name (filter mail_body_reader tools);
          tools =
            (if planner_projection_only po
             then filter (\<lambda>t. td_name t \<notin> set (UNTRUSTED_SOURCE_RAW_READERS @ mail_body_readers)) tools
             else tools)
      in if \<not> exposure_limited mode then tools
         else filter (\<lambda>t. td_name t \<notin> set (RAW_LABELED_DATA_TOOLS
                @ UNTRUSTED_SOURCE_RAW_READERS @ mail_body_readers)) tools)"

definition visible_tools ::
  "tool_definition list \<Rightarrow> session \<Rightarrow> execution_mode \<Rightarrow> posture option \<Rightarrow> tool_definition list"
where
  "visible_tools registry s mode po =
     filter (\<lambda>t. list_ex (\<lambda>cap. covers_kind cap (td_capability_kind t)) (s_capability_set s))
       (filter_tools_for_mode registry mode po)"

definition tool_surface_offers_handles :: "tool_definition list \<Rightarrow> bool" where
  "tool_surface_offers_handles tools = list_ex td_accepts_handles tools"

definition tool_surface_offers_sandbox :: "tool_definition list \<Rightarrow> bool" where
  "tool_surface_offers_sandbox tools =
     list_ex (\<lambda>t. kind_eq (td_capability_kind t) (BuiltIn EXECUTE_SANDBOX)
               \<or> prefix ''execute.sandbox''
                    (py_lower (case td_effect_class t of None \<Rightarrow> [] | Some e \<Rightarrow> e))) tools"

definition visible_tool_surface_offers_handles :: "tool_definition list \<Rightarrow> session \<Rightarrow> bool" where
  "visible_tool_surface_offers_handles registry s =
     tool_surface_offers_handles (visible_tools registry s REFERENCE None)"

definition visible_tool_surface_offers_sandbox :: "tool_definition list \<Rightarrow> session \<Rightarrow> bool" where
  "visible_tool_surface_offers_sandbox registry s =
     tool_surface_offers_sandbox (visible_tools registry s SEALED None)"

section \<open>Selecting a mode\<close>

definition handles_usable :: "tool_definition list \<Rightarrow> session option \<Rightarrow> bool" where
  "handles_usable registry s =
     (case s of
        Some s \<Rightarrow> visible_tool_surface_offers_handles registry s
      | None \<Rightarrow> tool_surface_offers_handles registry)"

definition sandbox_usable :: "tool_definition list \<Rightarrow> bool \<Rightarrow> session option \<Rightarrow> bool" where
  "sandbox_usable registry has_sandbox_actuator s =
     (has_sandbox_actuator
      \<and> (case s of Some s \<Rightarrow> visible_tool_surface_offers_sandbox registry s | None \<Rightarrow> True))"

definition extractor_registered :: "tool_definition list \<Rightarrow> bool" where
  "extractor_registered registry = list_ex (\<lambda>t. prefix ''quarantined.'' (td_name t)) registry"

fun highest_tier_from :: "tier \<Rightarrow> category_tag list \<Rightarrow> tier" where
  "highest_tier_from highest [] = highest"
| "highest_tier_from highest (tag # tags) =
     highest_tier_from (if is_above (ct_tier tag) highest then ct_tier tag else highest) tags"

definition highest_tier :: "label_state \<Rightarrow> tier" where
  "highest_tier labels = highest_tier_from NONE (ls_a labels)"

definition achievable_mode ::
  "execution_mode \<Rightarrow> tool_definition list \<Rightarrow> bool \<Rightarrow> session option \<Rightarrow> execution_mode" where
  "achievable_mode desired registry has_sandbox_actuator s =
     (if desired = PROGRAMMATIC then PROGRAMMATIC
      else if desired = SEALED \<and> sandbox_usable registry has_sandbox_actuator s then SEALED
      else if desired \<in> {SEALED, REFERENCE} \<and> handles_usable registry s then REFERENCE
      else if desired \<in> {SEALED, REFERENCE, DUAL_LLM} \<and> extractor_registered registry
      then DUAL_LLM
      else TURN_LEVEL)"

record mode_request =
  mr_prefer_programmatic :: bool
  mr_force_mode :: "execution_mode option"
  mr_has_sandbox_actuator :: bool
  mr_session :: "session option"
  mr_posture :: "posture option"

definition select_mode_inner ::
  "label_state \<Rightarrow> tool_definition list \<Rightarrow> mode_request \<Rightarrow> py_error + execution_mode \<times> mode_reason"
where
  "select_mode_inner labels registry r =
     (if list_ex (\<lambda>tag. ct_tier tag = RESTRICTED) (ls_a labels) then
        (let handles_available = handles_usable registry (mr_session r);
             sealed_available =
               sandbox_usable registry (mr_has_sandbox_actuator r) (mr_session r)
         in case mr_force_mode r of
              Some REFERENCE \<Rightarrow>
                if \<not> handles_available then Inl ModeSelectionError
                else Inr (REFERENCE, ForcedByCaller REFERENCE)
            | Some SEALED \<Rightarrow>
                if \<not> sealed_available then Inl ModeSelectionError
                else Inr (SEALED, ForcedByCaller SEALED)
            | Some _ \<Rightarrow> Inl ModeSelectionError
            | None \<Rightarrow> select_mode_for_restricted handles_available sealed_available)
      else case mr_force_mode r of
        Some m \<Rightarrow> Inr (m, ForcedByCaller m)
      | None \<Rightarrow>
          if mr_prefer_programmatic r then Inr (PROGRAMMATIC, PrefersProgrammatic)
          else case mr_posture r of
            Some po \<Rightarrow>
              (let highest = highest_tier labels; desired = flow_pattern_for po highest;
                   mode = achievable_mode desired registry (mr_has_sandbox_actuator r) (mr_session r)
               in Inr (mode, PostureDefault (po_id po) highest desired mode))
          | None \<Rightarrow>
              if \<not> list_ex (\<lambda>tag. ct_category tag \<in> set CONFIDENTIAL_CATEGORIES) (ls_a labels)
              then Inr (TURN_LEVEL, NoConfidentialLabels)
              else if extractor_registered registry then Inr (DUAL_LLM, QuarantinedExtraction)
              else Inr (TURN_LEVEL, NoExtractorRegistered))"

text \<open>\<open>required_modes\<close> restricts; it never widens.\<close>

definition select_mode ::
  "label_state \<Rightarrow> tool_definition list \<Rightarrow> mode_request \<Rightarrow> execution_mode list option
   \<Rightarrow> py_error + execution_mode \<times> mode_reason" where
  "select_mode labels registry r required_modes =
     (case select_mode_inner labels registry r of
        Inl e \<Rightarrow> Inl e
      | Inr (mode, reason) \<Rightarrow>
          (case required_modes of
             None \<Rightarrow> Inr (mode, reason)
           | Some ms \<Rightarrow> if mode \<notin> set ms then Inl ModeSelectionError else Inr (mode, reason)))"

section \<open>What the selection guarantees\<close>

lemma select_mode_inner_of:
  assumes "select_mode labels registry r required = Inr (mode, why)"
  shows "select_mode_inner labels registry r = Inr (mode, why)"
  using assms by (auto simp: select_mode_def split: sum.splits prod.splits option.splits if_splits)

text \<open>
  With any tag at the restricted tier, the selected mode is reference or sealed and the tool
  surface supports it, whatever the caller forces, the session prefers or the posture says;
  and no mode outside the required ones is ever returned.
\<close>

theorem restricted_mode_floor:
  assumes "select_mode labels registry r required = Inr (mode, why)"
  shows "(\<forall>ms. required = Some ms \<longrightarrow> mode \<in> set ms)
   \<and> ((\<exists>tag \<in> set (ls_a labels). ct_tier tag = RESTRICTED) \<longrightarrow>
        mode = REFERENCE \<and> handles_usable registry (mr_session r)
      \<or> mode = SEALED \<and> sandbox_usable registry (mr_has_sandbox_actuator r) (mr_session r))"
proof (intro conjI allI impI)
  fix ms
  assume "required = Some ms"
  then show "mode \<in> set ms"
    using assms by (auto simp: select_mode_def split: sum.splits prod.splits if_splits)
next
  assume "\<exists>tag \<in> set (ls_a labels). ct_tier tag = RESTRICTED"
  then have "list_ex (\<lambda>tag. ct_tier tag = RESTRICTED) (ls_a labels)" by (simp add: list_ex_iff)
  then show "mode = REFERENCE \<and> handles_usable registry (mr_session r)
      \<or> mode = SEALED \<and> sandbox_usable registry (mr_has_sandbox_actuator r) (mr_session r)"
    using select_mode_inner_of [OF assms]
    by (auto simp: select_mode_inner_def select_mode_for_restricted_def Let_def
        split: option.splits execution_mode.splits if_splits)
qed

definition sample_tool :: tool_definition where
  "sample_tool = (ToolDefinition ''mail.send'' (BuiltIn SEND_EMAIL))\<lparr>td_accepts_handles := True\<rparr>"

definition tagged :: "tier \<Rightarrow> label_state" where
  "tagged t = \<lparr>ls_a = [\<lparr>ct_category = ''health'', ct_tier = t, ct_risk_ids = [],
     ct_assignment_provenance = ''system-default''\<rparr>], ls_b = []\<rparr>"

definition free_request :: mode_request where
  "free_request = \<lparr>mr_prefer_programmatic = True, mr_force_mode = None,
     mr_has_sandbox_actuator = False, mr_session = None, mr_posture = None\<rparr>"

theorem restricted_mode_floor_witness:
  "\<exists>mode why. select_mode (tagged RESTRICTED) [sample_tool] free_request None = Inr (mode, why)
     \<and> mode = REFERENCE"
proof -
  have "handles_usable [sample_tool] None"
    by (simp add: handles_usable_def tool_surface_offers_handles_def sample_tool_def ToolDefinition_def)
  then obtain mode why where run:
    "select_mode (tagged RESTRICTED) [sample_tool] free_request None = Inr (mode, why)"
    by (simp add: select_mode_def select_mode_inner_def select_mode_for_restricted_def
        free_request_def tagged_def)
  from restricted_mode_floor [OF run] have "mode = REFERENCE"
    by (simp add: tagged_def free_request_def sandbox_usable_def)
  then show ?thesis using run by blast
qed

text \<open>
  In an exposure-limited mode no raw reader is ever visible, under every posture; with
  projection on (the default) no untrusted-source reader is visible in any mode; and every
  visible tool is one the session holds a capability for.
\<close>

theorem visible_tools_sound:
  assumes "t \<in> set (visible_tools registry s mode po)"
  shows "t \<in> set registry
   \<and> (\<exists>cap \<in> set (s_capability_set s). covers_kind cap (td_capability_kind t))
   \<and> (exposure_limited mode \<longrightarrow> td_name t \<notin> {''memory.read'', ''fs.read'', ''web.fetch'', ''inbox.read''}
        \<and> \<not> mail_body_reader t)
   \<and> (planner_projection_only po \<longrightarrow> td_name t \<noteq> ''inbox.read'' \<and> \<not> mail_body_reader t)"
  using assms
  by (auto simp: visible_tools_def filter_tools_for_mode_def Let_def list_ex_iff
      RAW_LABELED_DATA_TOOLS_def UNTRUSTED_SOURCE_RAW_READERS_def split: if_splits)

theorem visible_tools_sound_witness:
  "sample_tool \<in> set (visible_tools [sample_tool]
       ((Session_new 3 0)\<lparr>s_capability_set := [Capability (BuiltIn SEND_EMAIL) ''*'' 5]\<rparr>) SEALED None)
   \<and> \<not> mail_body_reader sample_tool"
proof -
  let ?s = "(Session_new 3 0)\<lparr>s_capability_set := [Capability (BuiltIn SEND_EMAIL) ''*'' 5]\<rparr>"
  have "\<not> mail_body_reader sample_tool"
    by (simp add: mail_body_reader_def sample_tool_def ToolDefinition_def suffix_def)
  then have "sample_tool \<in> set (visible_tools [sample_tool] ?s SEALED None)"
    by (simp add: visible_tools_def filter_tools_for_mode_def Let_def sample_tool_def ToolDefinition_def
        RAW_LABELED_DATA_TOOLS_def UNTRUSTED_SOURCE_RAW_READERS_def covers_kind_def kind_eq_def
        Capability_def)
  from this visible_tools_sound [OF this] show ?thesis by (simp add: exposure_limited_def)
qed

text \<open>
  The floor tests for the restricted tier only. Data at the prohibited tier, which ranks
  above it and whose own floor pattern is reference, is planned for in any mode the caller
  forces, in programmatic mode when the session prefers it, and in plain turn-level mode when
  the surface offers nothing, even under a posture that respects the floors.
\<close>

theorem prohibited_data_has_no_mode_floor:
  "(\<forall>registry r m.
      select_mode (tagged PROHIBITED) registry (r\<lparr>mr_force_mode := Some m\<rparr>) None
      = Inr (m, ForcedByCaller m))
   \<and> select_mode (tagged PROHIBITED) [] (free_request\<lparr>mr_prefer_programmatic := False\<rparr>) None
      = Inr (TURN_LEVEL, NoExtractorRegistered)
   \<and> (\<exists>po. posture_respects_floor po \<and>
      select_mode (tagged PROHIBITED) []
        (free_request\<lparr>mr_prefer_programmatic := False, mr_posture := Some po\<rparr>) None
      = Inr (TURN_LEVEL, PostureDefault (po_id po) PROHIBITED SEALED TURN_LEVEL))
   \<and> pattern_strength TURN_LEVEL < pattern_strength (floor_pattern PROHIBITED)"
proof (intro conjI)
  show "\<exists>po. posture_respects_floor po \<and>
      select_mode (tagged PROHIBITED) []
        (free_request\<lparr>mr_prefer_programmatic := False, mr_posture := Some po\<rparr>) None
      = Inr (TURN_LEVEL, PostureDefault (po_id po) PROHIBITED SEALED TURN_LEVEL)"
    by (rule exI [of _ "\<lparr>po_id = ''strict'', po_flow_pattern_defaults = [],
          po_projection_only = True\<rparr>"])
      (simp add: posture_respects_floor_def select_mode_def select_mode_inner_def tagged_def
        free_request_def highest_tier_def is_above_def flow_pattern_for_def dict_get_def
        achievable_mode_def sandbox_usable_def handles_usable_def tool_surface_offers_handles_def
        extractor_registered_def Let_def)
qed (auto simp: select_mode_def select_mode_inner_def tagged_def free_request_def
    CONFIDENTIAL_CATEGORIES_def extractor_registered_def)

end
