(* ===== verification/Handles.thy ===== *)
theory Handles
  imports Tools
begin

text \<open>
  Data-blind planning: reference handles (\<open>patterns/reference_handle.py\<close>), the labeled
  memory that issues them (\<open>tools/native/memory.py\<close>), their binding at dispatch
  (\<open>tools/source_flow.py\<close>), and isolation postures (\<open>patterns/isolation_posture.py\<close>). The
  text of a handle id is the JSON value \<open>JUuid\<close>; other strings are not handle tokens. Fresh
  ids and clock readings are arguments.
\<close>

section \<open>Isolation postures\<close>

datatype isolation_posture = NO_ISOLATION | IN_DISPOSABLE_REGION | SANDBOX_REQUESTED_NO_ACTUATOR

record effective_reversibility =
  er_label :: reversibility_label
  er_posture :: isolation_posture

definition compose_with_isolation ::
  "reversibility_label \<Rightarrow> isolation_posture \<Rightarrow> py_error + effective_reversibility" where
  "compose_with_isolation base po =
     (case po of
        SANDBOX_REQUESTED_NO_ACTUATOR \<Rightarrow> Inl IsolationPostureError
      | NO_ISOLATION \<Rightarrow> Inr \<lparr>er_label = base, er_posture = po\<rparr>
      | IN_DISPOSABLE_REGION \<Rightarrow>
          Inr \<lparr>er_label = \<lparr>rv_degree = REVERSIBLE, rv_agent = SYSTEM\<rparr>, er_posture = po\<rparr>)"

definition output_label_after_isolation :: "string list \<Rightarrow> string list" where
  "output_label_after_isolation source_label_set = source_label_set"

section \<open>The handle store\<close>

record resolved_labels =
  rl_axis_a :: "string list"
  rl_axis_b :: "string list"

record reference_handle =
  rh_id :: uuid
  rh_session_id :: uuid
  rh_labels :: resolved_labels
  rh_issued_at :: time

record handle_bind_event =
  hb_handle_id :: uuid
  hb_destination :: string
  hb_tool :: string
  hb_audit_id :: uuid
  hb_at :: time

record handle_store =
  hs_values :: "(uuid \<times> json) list"
  hs_handles :: "(uuid \<times> reference_handle) list"
  hs_by_session :: "(uuid \<times> uuid list) list"
  hs_bind_trail :: "(uuid \<times> handle_bind_event list) list"

definition empty_handles :: handle_store where
  "empty_handles =
     \<lparr>hs_values = [], hs_handles = [], hs_by_session = [], hs_bind_trail = []\<rparr>"

definition issued_for :: "handle_store \<Rightarrow> uuid \<Rightarrow> uuid list" where
  "issued_for st sid = dict_get (hs_by_session st) sid []"

definition issue ::
  "handle_store \<Rightarrow> uuid \<Rightarrow> json \<Rightarrow> resolved_labels \<Rightarrow> uuid \<Rightarrow> time
   \<Rightarrow> handle_store \<times> reference_handle" where
  "issue st sid value labels hid now =
     (let h = \<lparr>rh_id = hid, rh_session_id = sid, rh_labels = labels, rh_issued_at = now\<rparr>
      in (st\<lparr>hs_handles := AList.update hid h (hs_handles st),
             hs_values := AList.update hid value (hs_values st),
             hs_by_session :=
               AList.update sid (List.insert hid (issued_for st sid)) (hs_by_session st)\<rparr>, h))"

text \<open>The two lookups a bind and a label query share: a known handle, of this session.\<close>

definition handle_usable :: "handle_store \<Rightarrow> uuid \<Rightarrow> uuid \<Rightarrow> bool" where
  "handle_usable st sid hid \<longleftrightarrow>
     map_of (hs_values st) hid \<noteq> None \<and> hid \<in> set (issued_for st sid)"

definition bind_handle ::
  "handle_store \<Rightarrow> uuid \<Rightarrow> uuid \<Rightarrow> string \<Rightarrow> string \<Rightarrow> uuid \<Rightarrow> time
   \<Rightarrow> py_error + handle_store \<times> json" where
  "bind_handle st sid hid dest tool aid now =
     (case map_of (hs_values st) hid of
        None \<Rightarrow> Inl ReferenceHandleError
      | Some value \<Rightarrow>
          if hid \<notin> set (issued_for st sid) then Inl ReferenceHandleError
          else if dest = [] then Inl ReferenceHandleError
          else
            (let e = \<lparr>hb_handle_id = hid, hb_destination = dest, hb_tool = tool,
                      hb_audit_id = aid, hb_at = now\<rparr>
             in Inr (st\<lparr>hs_bind_trail :=
                       AList.update hid (dict_get (hs_bind_trail st) hid [] @ [e])
                         (hs_bind_trail st)\<rparr>, value)))"

definition destroy_session_handles :: "handle_store \<Rightarrow> uuid \<Rightarrow> handle_store" where
  "destroy_session_handles st sid =
     (let ids = issued_for st sid
      in st\<lparr>hs_by_session := AList.delete sid (hs_by_session st),
            hs_values := filter (\<lambda>(h, _). h \<notin> set ids) (hs_values st),
            hs_handles := filter (\<lambda>(h, _). h \<notin> set ids) (hs_handles st)\<rparr>)"

definition bind_trail :: "handle_store \<Rightarrow> uuid \<Rightarrow> handle_bind_event list" where
  "bind_trail st hid = dict_get (hs_bind_trail st) hid []"

definition has_handle :: "handle_store \<Rightarrow> uuid \<Rightarrow> bool" where
  "has_handle st hid \<longleftrightarrow> map_of (hs_values st) hid \<noteq> None"

definition labels_for :: "handle_store \<Rightarrow> uuid \<Rightarrow> uuid \<Rightarrow> py_error + resolved_labels" where
  "labels_for st sid hid =
     (if map_of (hs_values st) hid = None then Inl ReferenceHandleError
      else if hid \<notin> set (issued_for st sid) then Inl ReferenceHandleError
      else case map_of (hs_handles st) hid of
             None \<Rightarrow> Inl KeyError
           | Some h \<Rightarrow> Inr (rh_labels h))"

section \<open>Labels on the wire\<close>

definition category_tag_from_wire :: "string \<Rightarrow> category_tag" where
  "category_tag_from_wire value =
     (let (category, t) =
        (if CHR '':'' \<in> set value then
           (let (maybe_category, maybe_tier) = rpartition_at (CHR '':'') value
            in case enum_of tier_value tiers maybe_tier of
                 Inl _ \<Rightarrow> (value, SENSITIVE)
               | Inr t \<Rightarrow> (maybe_category, t))
         else (value, SENSITIVE))
      in \<lparr>ct_category = category, ct_tier = t, ct_risk_ids = [],
          ct_assignment_provenance = ''source-declared''\<rparr>)"

definition resolved_labels_to_label_state :: "resolved_labels \<Rightarrow> label_state" where
  "resolved_labels_to_label_state rl =
     \<lparr>ls_a = remdups (map category_tag_from_wire (rl_axis_a rl)),
      ls_b = remdups (concat (map (\<lambda>l. case enum_of provenance_value [PRINCIPAL_DIRECT, SYSTEM_INTERNAL, EXTERNAL_UNTRUSTED] l of
                 Inl _ \<Rightarrow> [] | Inr p \<Rightarrow> [\<lparr>pt_level = p\<rparr>]) (rl_axis_b rl)))\<rparr>"

text \<open>The encoder of \<open>tools/native/memory.py\<close>.\<close>

definition resolved_labels_from_state :: "label_state \<Rightarrow> resolved_labels" where
  "resolved_labels_from_state s =
     \<lparr>rl_axis_a = map (\<lambda>t. ct_category t @ '':'' @ tier_value (ct_tier t))
        (sort_key (\<lambda>t. (ct_category t, tier_value (ct_tier t))) (ls_a s)),
      rl_axis_b = map (\<lambda>t. provenance_value (pt_level t))
        (sort_key (\<lambda>t. provenance_value (pt_level t)) (ls_b s))\<rparr>"

definition label_state_for :: "handle_store \<Rightarrow> uuid \<Rightarrow> uuid \<Rightarrow> py_error + label_state" where
  "label_state_for st sid hid =
     (case labels_for st sid hid of
        Inl e \<Rightarrow> Inl e
      | Inr rl \<Rightarrow> Inr (resolved_labels_to_label_state rl))"

section \<open>Producing handles\<close>

text \<open>
  \<open>wrap_output_with_handles\<close>: \<open>ids\<close> are the fresh ids, one per replaced value, in order.
\<close>

fun wrap_items ::
  "handle_store \<Rightarrow> uuid \<Rightarrow> (string \<times> json) list \<Rightarrow> string list \<Rightarrow> resolved_labels \<Rightarrow> uuid list \<Rightarrow> time
   \<Rightarrow> handle_store \<times> (string \<times> json) list" where
  "wrap_items st sid [] keys labels ids now = (st, [])"
| "wrap_items st sid ((key, value) # items) keys labels ids now =
     (if key \<in> set keys then
        (let (st, h) = issue st sid value labels (hd ids) now;
             (st, out) = wrap_items st sid items keys labels (tl ids) now
         in (st, (key, JUuid (rh_id h)) # out))
      else
        (let (st, out) = wrap_items st sid items keys labels ids now in (st, (key, value) # out)))"

definition wrap_output_with_handles ::
  "handle_store \<Rightarrow> uuid \<Rightarrow> (string \<times> json) list \<Rightarrow> string list \<Rightarrow> resolved_labels option \<Rightarrow> uuid list
   \<Rightarrow> time \<Rightarrow> handle_store \<times> (string \<times> json) list" where
  "wrap_output_with_handles st sid output sensitive_keys labels ids now =
     (if sensitive_keys = [] then (st, output)
      else wrap_items st sid output sensitive_keys
             (case labels of Some l \<Rightarrow> l | None \<Rightarrow> \<lparr>rl_axis_a = [], rl_axis_b = []\<rparr>) ids now)"

section \<open>Labeled memory\<close>

record memory_entry =
  me_value :: json
  me_label_state :: label_state
  me_created_at :: time
  me_updated_at :: time
  me_trust_class :: string

record memory_store =
  ms_durable :: bool
  ms_data :: "(string \<times> memory_entry) list"

text \<open>The database keeps the creation time of an overwritten entry, the dictionary does not.\<close>

definition memory_put ::
  "memory_store \<Rightarrow> string \<Rightarrow> json \<Rightarrow> label_state \<Rightarrow> string \<Rightarrow> time \<Rightarrow> memory_store" where
  "memory_put ms key value labels trust_class now =
     (let created = (if ms_durable ms then
                       (case map_of (ms_data ms) key of
                          Some old \<Rightarrow> me_created_at old | None \<Rightarrow> now)
                     else now)
      in ms\<lparr>ms_data := AList.update key
           \<lparr>me_value = value,
            me_label_state = (if ms_durable ms then labels_to_dict labels else labels),
            me_created_at = created, me_updated_at = now, me_trust_class = trust_class\<rparr>
           (ms_data ms)\<rparr>)"

definition memory_get :: "memory_store \<Rightarrow> string \<Rightarrow> memory_entry option" where
  "memory_get ms key = map_of (ms_data ms) key"

definition memory_keys :: "memory_store \<Rightarrow> string list" where
  "memory_keys ms = sort (map fst (ms_data ms))"

definition label_state_of :: "memory_store \<Rightarrow> string \<Rightarrow> label_state" where
  "label_state_of ms key =
     (case memory_get ms key of Some e \<Rightarrow> me_label_state e | None \<Rightarrow> empty_state)"

definition memory_remove :: "memory_store \<Rightarrow> string \<Rightarrow> memory_store \<times> bool" where
  "memory_remove ms key =
     (ms\<lparr>ms_data := AList.delete key (ms_data ms)\<rparr>, map_of (ms_data ms) key \<noteq> None)"

definition prune_candidates ::
  "memory_store \<Rightarrow> int option \<Rightarrow> string option \<Rightarrow> time \<Rightarrow> string list" where
  "prune_candidates ms older_than_days trust_class now =
     map fst (filter (\<lambda>(k, e).
         (case trust_class of Some tc \<Rightarrow> tc = [] \<or> me_trust_class e = tc | None \<Rightarrow> True)
         \<and> (case older_than_days of
              None \<Rightarrow> True
            | Some d \<Rightarrow> me_updated_at e < now - max 0 d * 86400 * 1000000))
       (sort_key fst (ms_data ms)))"

fun remove_keys :: "memory_store \<Rightarrow> string list \<Rightarrow> memory_store \<times> string list" where
  "remove_keys ms [] = (ms, [])"
| "remove_keys ms (k # ks) =
     (let (ms, gone) = memory_remove ms k; (ms, rest) = remove_keys ms ks
      in (ms, if gone then k # rest else rest))"

definition prune ::
  "memory_store \<Rightarrow> int option \<Rightarrow> string option \<Rightarrow> bool \<Rightarrow> time
   \<Rightarrow> memory_store \<times> string list \<times> string list" where
  "prune ms older_than_days trust_class dry_run now =
     (let candidates = prune_candidates ms older_than_days trust_class now;
          (ms', deleted) = (if dry_run then (ms, []) else remove_keys ms candidates)
      in (ms', candidates, deleted))"

text \<open>The tool handlers. A result is an output and the labels it adds to the session.\<close>

record tool_result =
  tr_output :: "(string \<times> json) list"
  tr_additional_tags :: label_state

definition plain_result :: "(string \<times> json) list \<Rightarrow> tool_result" where
  "plain_result out = \<lparr>tr_output = out, tr_additional_tags = empty_state\<rparr>"

definition memory_write_tool ::
  "memory_store \<Rightarrow> label_state \<Rightarrow> string \<Rightarrow> json \<Rightarrow> time \<Rightarrow> memory_store \<times> tool_result" where
  "memory_write_tool ms ctx key value now =
     (memory_put ms key value ctx ''session'' now,
      plain_result [(''ok'', JBool True), (''key'', JStr key)])"

definition memory_read_tool :: "memory_store \<Rightarrow> string \<Rightarrow> tool_result" where
  "memory_read_tool ms key =
     (case memory_get ms key of
        None \<Rightarrow> plain_result [(''found'', JBool False)]
      | Some e \<Rightarrow> \<lparr>tr_output = [(''found'', JBool True), (''value'', me_value e)],
                   tr_additional_tags = me_label_state e\<rparr>)"

definition memory_handle_tool ::
  "memory_store \<Rightarrow> handle_store option \<Rightarrow> uuid \<Rightarrow> string \<Rightarrow> uuid \<Rightarrow> time
   \<Rightarrow> handle_store option \<times> tool_result" where
  "memory_handle_tool ms hs sid key hid now =
     (case memory_get ms key of
        None \<Rightarrow> (hs, plain_result [(''found'', JBool False)])
      | Some e \<Rightarrow>
          (case hs of
             None \<Rightarrow> (None, plain_result [(''found'', JBool True),
                         (''error'', JStr ''reference handle store is not wired'')])
           | Some st \<Rightarrow>
               (let (st, h) = issue st sid (me_value e)
                      (resolved_labels_from_state (me_label_state e)) hid now
                in (Some st, plain_result [(''found'', JBool True), (''key'', JStr key),
                      (''handle'', JUuid (rh_id h))]))))"

definition memory_create_tool ::
  "memory_store \<Rightarrow> label_state \<Rightarrow> string \<Rightarrow> json \<Rightarrow> time \<Rightarrow> memory_store \<times> tool_result" where
  "memory_create_tool ms ctx key value now =
     (if memory_get ms key \<noteq> None
      then (ms, plain_result [(''ok'', JBool False),
             (''error'', JText [JStr ''key already exists: '', JStr key])])
      else (memory_put ms key value ctx ''session'' now,
            plain_result [(''ok'', JBool True), (''key'', JStr key), (''created'', JBool True)]))"

definition memory_update_tool ::
  "memory_store \<Rightarrow> label_state \<Rightarrow> string \<Rightarrow> json \<Rightarrow> time \<Rightarrow> memory_store \<times> tool_result" where
  "memory_update_tool ms ctx key value now =
     (if memory_get ms key = None
      then (ms, plain_result [(''ok'', JBool False),
             (''error'', JText [JStr ''key does not exist: '', JStr key])])
      else (memory_put ms key value ctx ''session'' now,
            plain_result [(''ok'', JBool True), (''key'', JStr key), (''modified'', JBool True)]))"

definition memory_delete_tool :: "memory_store \<Rightarrow> string \<Rightarrow> memory_store \<times> tool_result" where
  "memory_delete_tool ms key =
     (if memory_get ms key = None
      then (ms, plain_result [(''ok'', JBool False),
             (''error'', JText [JStr ''key does not exist: '', JStr key])])
      else (fst (memory_remove ms key),
            plain_result [(''ok'', JBool True), (''key'', JStr key), (''deleted'', JBool True)]))"

section \<open>Handles at dispatch\<close>

definition handles_apply :: "handle_store option \<Rightarrow> tool_definition \<Rightarrow> bool" where
  "handles_apply st tool \<longleftrightarrow>
     st \<noteq> None \<and> td_accepts_handles tool \<and> td_handle_arg_names tool \<noteq> []"

text \<open>The handle tokens inside an argument, in the order the code meets them.\<close>

fun handle_tokens :: "json \<Rightarrow> uuid list"
  and handle_tokens_list :: "json list \<Rightarrow> uuid list"
  and handle_tokens_items :: "(string \<times> json) list \<Rightarrow> uuid list" where
  "handle_tokens (JUuid h) = [h]"
| "handle_tokens (JDict d) = handle_tokens_items d"
| "handle_tokens (JList xs) = handle_tokens_list xs"
| "handle_tokens _ = []"
| "handle_tokens_list [] = []"
| "handle_tokens_list (x # xs) = handle_tokens x @ handle_tokens_list xs"
| "handle_tokens_items [] = []"
| "handle_tokens_items ((k, x) # d) = handle_tokens x @ handle_tokens_items d"

definition tags_of_handles :: "handle_store \<Rightarrow> uuid \<Rightarrow> uuid list \<Rightarrow> label_state list" where
  "tags_of_handles st sid hids =
     concat (map (\<lambda>h. case label_state_for st sid h of Inl _ \<Rightarrow> [] | Inr l \<Rightarrow> [l]) hids)"

definition join_or_empty :: "label_state list \<Rightarrow> label_state" where
  "join_or_empty tags = (if tags = [] then empty_state else most_restrictive_inherit tags)"

definition reference_handle_arg_tags ::
  "handle_store option \<Rightarrow> uuid \<Rightarrow> tool_definition \<Rightarrow> (string \<times> json) list \<Rightarrow> label_state" where
  "reference_handle_arg_tags st sid tool args =
     (case st of
        None \<Rightarrow> empty_state
      | Some s \<Rightarrow>
          if \<not> handles_apply st tool then empty_state
          else join_or_empty (concat (map (\<lambda>arg.
                 tags_of_handles s sid (handle_tokens (dict_get args arg JNull)))
               (td_handle_arg_names tool))))"

text \<open>
  \<open>_bind_value\<close>: the substituted value, threading the store, the labels and the ids of the
  handles bound so far, and the fresh audit ids.
\<close>

record bind_state =
  bs_store :: handle_store
  bs_tags :: "label_state list"
  bs_bound :: "uuid list"
  bs_audit_ids :: "uuid list"

definition bind_token ::
  "uuid \<Rightarrow> string \<Rightarrow> string \<Rightarrow> time \<Rightarrow> bind_state \<Rightarrow> uuid \<Rightarrow> bind_state \<times> json" where
  "bind_token sid dest tool now b hid =
     (let b' = b\<lparr>bs_audit_ids := tl (bs_audit_ids b)\<rparr>
      in case bind_handle (bs_store b) sid hid dest tool (hd (bs_audit_ids b)) now of
           Inl _ \<Rightarrow> (b', JUuid hid)
         | Inr (st, value) \<Rightarrow>
             (case label_state_for st sid hid of
                Inl _ \<Rightarrow> (b'\<lparr>bs_store := st\<rparr>, JUuid hid)
              | Inr l \<Rightarrow> (b'\<lparr>bs_store := st, bs_tags := bs_tags b @ [l],
                             bs_bound := bs_bound b @ [hid]\<rparr>, value)))"

fun bind_value :: "uuid \<Rightarrow> string \<Rightarrow> string \<Rightarrow> time \<Rightarrow> bind_state \<Rightarrow> json \<Rightarrow> bind_state \<times> json"
  and bind_list ::
    "uuid \<Rightarrow> string \<Rightarrow> string \<Rightarrow> time \<Rightarrow> bind_state \<Rightarrow> json list \<Rightarrow> bind_state \<times> json list"
  and bind_items ::
    "uuid \<Rightarrow> string \<Rightarrow> string \<Rightarrow> time \<Rightarrow> bind_state \<Rightarrow> (string \<times> json) list
     \<Rightarrow> bind_state \<times> (string \<times> json) list" where
  "bind_value sid dest tool now b (JUuid h) = bind_token sid dest tool now b h"
| "bind_value sid dest tool now b (JDict d) =
     (let (b, d) = bind_items sid dest tool now b d in (b, JDict d))"
| "bind_value sid dest tool now b (JList xs) =
     (let (b, xs) = bind_list sid dest tool now b xs in (b, JList xs))"
| "bind_value sid dest tool now b v = (b, v)"
| "bind_list sid dest tool now b [] = (b, [])"
| "bind_list sid dest tool now b (x # xs) =
     (let (b, y) = bind_value sid dest tool now b x; (b, ys) = bind_list sid dest tool now b xs
      in (b, y # ys))"
| "bind_items sid dest tool now b [] = (b, [])"
| "bind_items sid dest tool now b ((k, x) # d) =
     (let (b, y) = bind_value sid dest tool now b x; (b, ys) = bind_items sid dest tool now b d
      in (b, (k, y) # ys))"

fun bind_args ::
  "uuid \<Rightarrow> string \<Rightarrow> string \<Rightarrow> time \<Rightarrow> bind_state \<Rightarrow> (string \<times> json) list \<Rightarrow> string list
   \<Rightarrow> bind_state \<times> (string \<times> json) list" where
  "bind_args sid dest tool now b args [] = (b, args)"
| "bind_args sid dest tool now b args (arg # names) =
     (case map_of args arg of
        None \<Rightarrow> bind_args sid dest tool now b args names
      | Some v \<Rightarrow>
          (let (b, v') = bind_value sid dest tool now b v
           in bind_args sid dest tool now b (AList.update arg v' args) names))"

definition destination_for_handle_bind :: "tool_definition \<Rightarrow> string \<Rightarrow> string \<Rightarrow> string" where
  "destination_for_handle_bind tool tool_name target =
     (let d = (if td_surfaces_destination_id tool then target else ''tool:'' @ tool_name)
      in if d = [] then ''tool:'' @ tool_name else d)"

text \<open>
  The new store, the substituted arguments, the labels of what was bound and the handles bound
  (without repetition). \<open>target\<close> is what the tool extracts as its target from the arguments.
\<close>

definition bind_reference_handles ::
  "handle_store option \<Rightarrow> uuid \<Rightarrow> tool_definition \<Rightarrow> string \<Rightarrow> string \<Rightarrow> (string \<times> json) list \<Rightarrow> uuid list
   \<Rightarrow> time \<Rightarrow> handle_store option \<times> (string \<times> json) list \<times> label_state \<times> uuid list" where
  "bind_reference_handles st sid tool tool_name target args audit_ids now =
     (case st of
        None \<Rightarrow> (st, args, empty_state, [])
      | Some s \<Rightarrow>
          if \<not> handles_apply st tool then (st, args, empty_state, [])
          else
            (let dest = destination_for_handle_bind tool tool_name target;
                 (b, args') = bind_args sid dest tool_name now
                   \<lparr>bs_store = s, bs_tags = [], bs_bound = [], bs_audit_ids = audit_ids\<rparr>
                   args (td_handle_arg_names tool)
             in (Some (bs_store b), args', join_or_empty (bs_tags b), remdups (bs_bound b))))"


section \<open>The handle store against its log of live issues\<close>

text \<open>
  The abstract state of the store: the issues that are still live, each with its session, its
  value and its labels. Issuing adds one, a bind changes nothing, the end of a session drops its
  issues. A fresh id is one no live handle has.
\<close>

type_synonym issue_log = "(uuid \<times> uuid \<times> json \<times> resolved_labels) list"

inductive handle_run :: "handle_store \<Rightarrow> issue_log \<Rightarrow> bool" where
  run_start: "handle_run empty_handles []"
| run_issue: "handle_run st log \<Longrightarrow> hid \<notin> fst ` set log
    \<Longrightarrow> handle_run (fst (issue st sid value labels hid now)) ((hid, sid, value, labels) # log)"
| run_bind: "handle_run st log \<Longrightarrow> bind_handle st sid hid dest tool aid now = Inr (st', v)
    \<Longrightarrow> handle_run st' log"
| run_destroy: "handle_run st log
    \<Longrightarrow> handle_run (destroy_session_handles st sid) (filter (\<lambda>(_, s, _). s \<noteq> sid) log)"

lemma map_of_filter_keys:
  "map_of (filter (\<lambda>(h, _). h \<notin> S) xs) k = (if k \<in> S then None else map_of xs k)"
  by (induction xs) auto

lemma issued_for_issue:
  "issued_for (fst (issue st sid value labels hid now)) s =
     (if s = sid then List.insert hid (issued_for st sid) else issued_for st s)"
  by (simp add: issue_def issued_for_def dict_get_def Let_def update_conv' fun_upd_def)

lemma issued_for_destroy:
  "issued_for (destroy_session_handles st sid) s = (if s = sid then [] else issued_for st s)"
  by (simp add: destroy_session_handles_def issued_for_def dict_get_def Let_def delete_conv'
      fun_upd_def)

lemma values_issue:
  "map_of (hs_values (fst (issue st sid value labels hid now))) h =
     (if h = hid then Some value else map_of (hs_values st) h)"
  by (simp add: issue_def Let_def update_conv')

lemma handles_issue:
  "map_of (hs_handles (fst (issue st sid value labels hid now))) h =
     (if h = hid then Some \<lparr>rh_id = hid, rh_session_id = sid, rh_labels = labels, rh_issued_at = now\<rparr>
      else map_of (hs_handles st) h)"
  by (simp add: issue_def Let_def update_conv')

lemma values_destroy:
  "map_of (hs_values (destroy_session_handles st sid)) h =
     (if h \<in> set (issued_for st sid) then None else map_of (hs_values st) h)"
  by (simp add: destroy_session_handles_def Let_def map_of_filter_keys)

lemma handles_destroy:
  "map_of (hs_handles (destroy_session_handles st sid)) h =
     (if h \<in> set (issued_for st sid) then None else map_of (hs_handles st) h)"
  by (simp add: destroy_session_handles_def Let_def map_of_filter_keys)

lemma bind_handle_Inr_iff:
  "bind_handle st sid hid dest tool aid now = Inr (st', v) \<longleftrightarrow>
     map_of (hs_values st) hid = Some v \<and> hid \<in> set (issued_for st sid) \<and> dest \<noteq> []
     \<and> st' = st\<lparr>hs_bind_trail := AList.update hid (dict_get (hs_bind_trail st) hid []
          @ [\<lparr>hb_handle_id = hid, hb_destination = dest, hb_tool = tool,
              hb_audit_id = aid, hb_at = now\<rparr>]) (hs_bind_trail st)\<rparr>"
  by (auto simp: bind_handle_def Let_def split: option.splits)

definition log_matches :: "handle_store \<Rightarrow> issue_log \<Rightarrow> bool" where
  "log_matches st log \<longleftrightarrow>
     distinct (map fst log)
     \<and> (\<forall>h v. map_of (hs_values st) h = Some v \<longleftrightarrow> (\<exists>s l. (h, s, v, l) \<in> set log))
     \<and> (\<forall>h s. h \<in> set (issued_for st s) \<longleftrightarrow> (\<exists>v l. (h, s, v, l) \<in> set log))
     \<and> (\<forall>h l. (\<exists>r. map_of (hs_handles st) h = Some r \<and> rh_labels r = l)
          \<longleftrightarrow> (\<exists>s v. (h, s, v, l) \<in> set log))"

lemma log_entry_unique:
  assumes "log_matches st log" and "(h, a) \<in> set log" and "(h, b) \<in> set log"
  shows "a = b"
  using assms by (metis log_matches_def eq_key_imp_eq_value)


lemma log_matches_issue:
  assumes "log_matches st log" and "hid \<notin> fst ` set log"
  shows "log_matches (fst (issue st sid value labels hid now)) ((hid, sid, value, labels) # log)"
proof -
  have no: "(hid, s, v, l) \<notin> set log" for s v l using assms(2) by force
  show ?thesis
    using assms(1) no assms(2) unfolding log_matches_def
    by (auto simp: issued_for_issue values_issue handles_issue split: if_splits)
qed

lemma log_matches_bind:
  assumes "log_matches st log" and "bind_handle st sid hid dest tool aid now = Inr (st', v)"
  shows "log_matches st' log"
  using assms by (auto simp: bind_handle_Inr_iff log_matches_def issued_for_def)

lemma log_matches_destroy:
  assumes m: "log_matches st log"
  shows "log_matches (destroy_session_handles st sid) (filter (\<lambda>(_, s, _). s \<noteq> sid) log)"
proof -
  have ids: "h \<in> set (issued_for st s) \<longleftrightarrow> (\<exists>v l. (h, s, v, l) \<in> set log)" for h s
    using m by (simp add: log_matches_def)
  have own: "s = sid" if "(h, s, v, l) \<in> set log" "h \<in> set (issued_for st sid)" for h s v l
    using that ids [of h sid] log_entry_unique [OF m that(1)] by fastforce
  have keep: "(h, s, v, l) \<in> set log \<and> s \<noteq> sid
      \<longleftrightarrow> (h, s, v, l) \<in> set log \<and> h \<notin> set (issued_for st sid)" for h s v l
    using own ids by blast
  have f: "(h, s, v, l) \<in> set (filter (\<lambda>(_, s, _). s \<noteq> sid) log)
      \<longleftrightarrow> (h, s, v, l) \<in> set log \<and> h \<notin> set (issued_for st sid)" for h s v l
    using keep by simp
  have d: "distinct (map fst (filter (\<lambda>(_, s, _). s \<noteq> sid) log))"
    using m unfolding log_matches_def by (simp add: distinct_map_filter)
  have i: "h \<in> set (issued_for (destroy_session_handles st sid) s)
      \<longleftrightarrow> (\<exists>v l. (h, s, v, l) \<in> set (filter (\<lambda>(_, s, _). s \<noteq> sid) log))" for h s
    by (auto simp: issued_for_destroy ids)
  have v: "map_of (hs_values (destroy_session_handles st sid)) h = Some v
      \<longleftrightarrow> (\<exists>s l. (h, s, v, l) \<in> set (filter (\<lambda>(_, s, _). s \<noteq> sid) log))" for h v
    unfolding f values_destroy using m by (auto simp: log_matches_def)
  have r: "(\<exists>r. map_of (hs_handles (destroy_session_handles st sid)) h = Some r \<and> rh_labels r = l)
      \<longleftrightarrow> (\<exists>s v. (h, s, v, l) \<in> set (filter (\<lambda>(_, s, _). s \<noteq> sid) log))" for h l
    unfolding f handles_destroy using m by (auto simp: log_matches_def)
  show ?thesis
    unfolding log_matches_def using d i v r by blast
qed

lemma handle_run_matches: "handle_run st log \<Longrightarrow> log_matches st log"
proof (induction rule: handle_run.induct)
  case run_start
  show ?case by (simp add: log_matches_def empty_handles_def issued_for_def dict_get_def)
qed (blast intro: log_matches_issue log_matches_bind log_matches_destroy)+

lemma labels_for_Inr:
  assumes "log_matches st log"
  shows "labels_for st sid hid = Inr l \<longleftrightarrow> (\<exists>v. (hid, sid, v, l) \<in> set log)"
proof
  assume h: "labels_for st sid hid = Inr l"
  then obtain v l0 where e: "(hid, sid, v, l0) \<in> set log"
    using assms by (auto simp: labels_for_def log_matches_def split: if_splits)
  from h have "\<exists>r. map_of (hs_handles st) hid = Some r \<and> rh_labels r = l"
    by (auto simp: labels_for_def split: if_splits option.splits)
  then have "\<exists>s v. (hid, s, v, l) \<in> set log" using assms by (simp add: log_matches_def)
  with e log_entry_unique [OF assms e] show "\<exists>v. (hid, sid, v, l) \<in> set log" by blast
next
  assume "\<exists>v. (hid, sid, v, l) \<in> set log"
  then obtain v where e: "(hid, sid, v, l) \<in> set log" by blast
  have "map_of (hs_values st) hid = Some v" "hid \<in> set (issued_for st sid)"
    "\<exists>r. map_of (hs_handles st) hid = Some r \<and> rh_labels r = l"
    using assms e by (auto simp: log_matches_def)
  then show "labels_for st sid hid = Inr l" by (auto simp: labels_for_def)
qed


lemma bindable_iff:
  assumes "log_matches st log" and "dest \<noteq> []"
  shows "(\<exists>st'. bind_handle st sid hid dest tool aid now = Inr (st', v))
    \<longleftrightarrow> (\<exists>l. (hid, sid, v, l) \<in> set log)"
proof
  assume "\<exists>st'. bind_handle st sid hid dest tool aid now = Inr (st', v)"
  then have "map_of (hs_values st) hid = Some v" and i: "hid \<in> set (issued_for st sid)"
    by (auto simp: bind_handle_Inr_iff)
  then obtain s l where e: "(hid, s, v, l) \<in> set log"
    using assms(1) by (auto simp: log_matches_def)
  from i obtain v' l' where "(hid, sid, v', l') \<in> set log"
    using assms(1) by (auto simp: log_matches_def)
  with e log_entry_unique [OF assms(1) e] show "\<exists>l. (hid, sid, v, l) \<in> set log" by blast
next
  assume "\<exists>l. (hid, sid, v, l) \<in> set log"
  then have "map_of (hs_values st) hid = Some v" "hid \<in> set (issued_for st sid)"
    using assms(1) by (auto simp: log_matches_def)
  then show "\<exists>st'. bind_handle st sid hid dest tool aid now = Inr (st', v)"
    using assms(2) by (auto simp: bind_handle_Inr_iff)
qed

section \<open>Binding finds the labels decided on\<close>

definition same_handles :: "handle_store \<Rightarrow> handle_store \<Rightarrow> bool" where
  "same_handles st st' \<longleftrightarrow>
     hs_values st = hs_values st' \<and> hs_handles st = hs_handles st'
     \<and> hs_by_session st = hs_by_session st'"

lemma same_handles_label: "same_handles st st' \<Longrightarrow> label_state_for st sid h = label_state_for st' sid h"
  by (simp add: same_handles_def label_state_for_def labels_for_def issued_for_def)

lemma same_handles_tags: "same_handles st st' \<Longrightarrow> tags_of_handles st sid hs = tags_of_handles st' sid hs"
  by (simp add: tags_of_handles_def same_handles_label cong: map_cong)

lemma tags_of_handles_simps [simp]:
  "tags_of_handles st sid [] = []"
  "tags_of_handles st sid (xs @ ys) = tags_of_handles st sid xs @ tags_of_handles st sid ys"
  by (simp_all add: tags_of_handles_def)

definition labelled :: "handle_store \<Rightarrow> bool" where
  "labelled st \<longleftrightarrow> (\<forall>h v. map_of (hs_values st) h = Some v \<longrightarrow> map_of (hs_handles st) h \<noteq> None)"

lemma labelled_run: "log_matches st log \<Longrightarrow> labelled st"
  unfolding labelled_def log_matches_def by fastforce

text \<open>What a bind step adds to its state: the labels of the usable handles it met.\<close>

definition bind_adds :: "handle_store \<Rightarrow> uuid \<Rightarrow> bind_state \<Rightarrow> uuid list \<Rightarrow> bind_state \<Rightarrow> bool" where
  "bind_adds st sid b hs b' \<longleftrightarrow>
     same_handles st (bs_store b')
     \<and> bs_tags b' = bs_tags b @ tags_of_handles st sid hs
     \<and> set (bs_bound b') \<subseteq> set (bs_bound b) \<union> {h. handle_usable st sid h}"

lemma bind_adds_refl: "same_handles st (bs_store b) \<Longrightarrow> bind_adds st sid b [] b"
  by (simp add: bind_adds_def)

lemma bind_adds_trans:
  "bind_adds st sid b hs b' \<Longrightarrow> bind_adds st sid b' hs' b'' \<Longrightarrow> bind_adds st sid b (hs @ hs') b''"
  by (auto simp: bind_adds_def)

lemma bind_token_adds:
  assumes "labelled st" and "same_handles st (bs_store b)" and "dest \<noteq> []"
  shows "bind_adds st sid b [h] (fst (bind_token sid dest tool now b h))"
proof (cases "handle_usable st sid h")
  case True
  then obtain v where v: "map_of (hs_values st) h = Some v" "h \<in> set (issued_for st sid)"
    by (auto simp: handle_usable_def)
  moreover have "map_of (hs_handles st) h \<noteq> None" using assms(1) v(1) by (auto simp: labelled_def)
  ultimately show ?thesis
    using assms(2,3) True
    by (auto simp: bind_token_def bind_handle_def Let_def same_handles_def issued_for_def
        label_state_for_def labels_for_def bind_adds_def tags_of_handles_def)
next
  case False
  then have "bind_handle (bs_store b) sid h dest tool (hd (bs_audit_ids b)) now
      = Inl ReferenceHandleError"
    using assms(2)
    by (auto simp: handle_usable_def bind_handle_def same_handles_def issued_for_def
        split: option.splits)
  moreover from False have "label_state_for st sid h = Inl ReferenceHandleError"
    by (auto simp: handle_usable_def label_state_for_def labels_for_def)
  ultimately show ?thesis
    using assms(2) by (simp add: bind_token_def Let_def bind_adds_def tags_of_handles_def)
qed

lemma bind_adds_cons:
  assumes "bind_adds st sid b hs (fst p)"
    and "\<And>b'. same_handles st (bs_store b') \<Longrightarrow> bind_adds st sid b' hs' (fst (f b'))"
  shows "bind_adds st sid b (hs @ hs') (fst (f (fst p)))"
  using assms(1) by (rule bind_adds_trans) (use assms in \<open>simp add: bind_adds_def\<close>)

lemma bind_value_adds:
  assumes "labelled st" and "dest \<noteq> []"
  shows "same_handles st (bs_store b)
      \<Longrightarrow> bind_adds st sid b (handle_tokens v) (fst (bind_value sid dest tool now b v))"
    and "same_handles st (bs_store b)
      \<Longrightarrow> bind_adds st sid b (handle_tokens_list xs) (fst (bind_list sid dest tool now b xs))"
    and "same_handles st (bs_store b)
      \<Longrightarrow> bind_adds st sid b (handle_tokens_items d) (fst (bind_items sid dest tool now b d))"
proof (induction v and xs and d arbitrary: b and b and b
    rule: handle_tokens_handle_tokens_list_handle_tokens_items.induct)
  case (1 h)
  then show ?case using bind_token_adds [OF assms(1) _ assms(2)] by simp
next
  case (6 x xs)
  show ?case
    using bind_adds_cons [OF "6.IH"(1) [OF "6.prems"] "6.IH"(2)]
    by (simp add: case_prod_beta Let_def)
next
  case (8 k x d)
  show ?case
    using bind_adds_cons [OF "8.IH"(1) [OF "8.prems"] "8.IH"(2)]
    by (simp add: case_prod_beta Let_def)
qed (simp_all add: bind_adds_refl case_prod_beta Let_def)

lemma bind_args_adds:
  assumes "labelled st" and "dest \<noteq> []" and "same_handles st (bs_store b)" and "distinct names"
  shows "bind_adds st sid b (concat (map (\<lambda>arg. handle_tokens (dict_get args arg JNull)) names))
     (fst (bind_args sid dest tool now b args names))"
  using assms(3,4)
proof (induction names arbitrary: b args)
  case Nil
  then show ?case by (simp add: bind_adds_refl)
next
  case (Cons arg names)
  show ?case
  proof (cases "map_of args arg")
    case None
    then show ?thesis using Cons by (simp add: dict_get_def)
  next
    case (Some v)
    let ?p = "bind_value sid dest tool now b v"
    have v: "bind_adds st sid b (handle_tokens v) (fst ?p)"
      by (rule bind_value_adds(1) [OF assms(1,2) Cons.prems(1)])
    have rest: "concat (map (\<lambda>a. handle_tokens (dict_get (AList.update arg (snd ?p) args) a JNull)) names)
        = concat (map (\<lambda>a. handle_tokens (dict_get args a JNull)) names)"
      using Cons.prems(2) by (intro arg_cong [of _ _ concat] map_cong)
         (auto simp: dict_get_def update_conv')
    have "bind_adds st sid (fst ?p)
        (concat (map (\<lambda>a. handle_tokens (dict_get (AList.update arg (snd ?p) args) a JNull)) names))
        (fst (bind_args sid dest tool now (fst ?p) (AList.update arg (snd ?p) args) names))"
      using v Cons.prems(2) by (intro Cons.IH) (simp_all add: bind_adds_def)
    from bind_adds_trans [OF v this] show ?thesis
      using Some by (simp add: case_prod_beta Let_def dict_get_def [of args arg] rest)
  qed
qed

lemma tags_concat: "concat (map (\<lambda>x. tags_of_handles st sid (f x)) xs)
    = tags_of_handles st sid (concat (map f xs))"
  by (induction xs) simp_all

lemma bind_args_others:
  "k \<notin> set names \<Longrightarrow> map_of (snd (bind_args sid dest tool now b args names)) k = map_of args k"
  by (induction names arbitrary: b args)
     (auto simp: case_prod_beta Let_def update_conv' split: option.splits)

lemma destination_nonempty: "destination_for_handle_bind tool tool_name target \<noteq> []"
  by (simp add: destination_for_handle_bind_def Let_def)

end
