(* ===== verification/HandleProps.thy ===== *)
theory HandleProps
  imports Handles
begin

text \<open>
  What data-blind planning promises: a handle opens only for the session it was issued to, the
  labels decided on are the labels bound, a wrapped output holds no raw sensitive value, and the
  labels of a stored memory entry survive the trip through a handle.
\<close>

section \<open>Labels on the wire\<close>

lemma rpartition_at_last:
  assumes "x \<notin> set t"
  shows "rpartition_at x (c @ x # t) = (c, t)"
proof -
  have "takeWhile (\<lambda>y. y \<noteq> x) (rev t @ x # rev c) = rev t"
    using assms by (simp add: takeWhile_append)
  moreover have "dropWhile (\<lambda>y. y \<noteq> x) (rev t @ x # rev c) = x # rev c"
    using assms by (simp add: dropWhile_append)
  ultimately show ?thesis by (simp add: rpartition_at_def)
qed

lemma tier_value_plain: "CHR '':'' \<notin> set (tier_value t)"
  by (cases t) simp_all

lemma category_tag_wire:
  "category_tag_from_wire (c @ CHR '':'' # tier_value t)
     = \<lparr>ct_category = c, ct_tier = t, ct_risk_ids = [],
        ct_assignment_provenance = ''source-declared''\<rparr>"
  by (simp add: category_tag_from_wire_def rpartition_at_last [OF tier_value_plain])

definition graded :: "label_state \<Rightarrow> (string \<times> tier) set" where
  "graded s = (\<lambda>t. (ct_category t, ct_tier t)) ` set (ls_a s)"

lemma label_state_wire:
  "graded (resolved_labels_to_label_state (resolved_labels_from_state s)) = graded s"
  "pt_level ` set (ls_b (resolved_labels_to_label_state (resolved_labels_from_state s)))
     = pt_level ` set (ls_b s)"
  by (simp_all add: graded_def resolved_labels_to_label_state_def resolved_labels_from_state_def
      image_image category_tag_wire image_UN UNION_singleton_eq_range)

section \<open>Wrapped outputs\<close>

definition wrapped_as ::
  "string list \<Rightarrow> uuid \<Rightarrow> resolved_labels \<Rightarrow> issue_log \<Rightarrow> string \<times> json \<Rightarrow> string \<times> json \<Rightarrow> bool" where
  "wrapped_as keys sid labels log = (\<lambda>(k, v) (k', w).
     k' = k \<and> (if k \<in> set keys then \<exists>h. w = JUuid h \<and> (h, sid, v, labels) \<in> set log else w = v))"

lemma wrapped_as_pair:
  "wrapped_as keys sid labels log (k, v) (k', w) \<longleftrightarrow>
     k' = k \<and> (if k \<in> set keys then \<exists>h. w = JUuid h \<and> (h, sid, v, labels) \<in> set log else w = v)"
  by (simp add: wrapped_as_def)

lemma wrapped_as_mono:
  "list_all2 (wrapped_as keys sid labels log) xs ys \<Longrightarrow> set log \<subseteq> set log'
   \<Longrightarrow> list_all2 (wrapped_as keys sid labels log') xs ys"
  by (erule list_all2_mono) (auto simp: wrapped_as_def split: if_splits)

lemma wrap_items_run:
  assumes "handle_run st log" and "distinct ids" and "set ids \<inter> fst ` set log = {}"
    and "length (filter (\<lambda>(k, _). k \<in> set keys) items) \<le> length ids"
  shows "\<exists>log'. handle_run (fst (wrap_items st sid items keys labels ids now)) log'
     \<and> set log \<subseteq> set log'
     \<and> list_all2 (wrapped_as keys sid labels log') items
         (snd (wrap_items st sid items keys labels ids now))"
  using assms
proof (induction items arbitrary: st log ids)
  case Nil
  then show ?case by auto
next
  case (Cons item items)
  obtain k v where item: "item = (k, v)" by fastforce
  show ?case
  proof (cases "k \<in> set keys")
    case True
    then obtain i ids' where ids: "ids = i # ids'"
      using Cons.prems(4) item by (cases ids) auto
    let ?st = "fst (issue st sid v labels i now)"
    have run: "handle_run ?st ((i, sid, v, labels) # log)"
      using Cons.prems(1,3) ids by (intro run_issue) auto
    have "set ids' \<inter> fst ` set ((i, sid, v, labels) # log) = {}"
      using Cons.prems(2,3) ids by auto
    moreover have "distinct ids'" "length (filter (\<lambda>(k, _). k \<in> set keys) items) \<le> length ids'"
      using Cons.prems(2,4) ids item True by auto
    ultimately obtain log' where l: "handle_run (fst (wrap_items ?st sid items keys labels ids' now)) log'"
      "set ((i, sid, v, labels) # log) \<subseteq> set log'"
      "list_all2 (wrapped_as keys sid labels log') items
         (snd (wrap_items ?st sid items keys labels ids' now))"
      using Cons.IH [OF run] by blast
    have "rh_id (snd (issue st sid v labels i now)) = i" by (simp add: issue_def Let_def)
    then show ?thesis
      using l True item ids
      by (intro exI [of _ log']) (simp add: case_prod_beta Let_def wrapped_as_pair)
  next
    case False
    then have "length (filter (\<lambda>(k, _). k \<in> set keys) items) \<le> length ids"
      using Cons.prems(4) item by simp
    from Cons.IH [OF Cons.prems(1-3) this] show ?thesis
      using False item by (simp add: case_prod_beta Let_def wrapped_as_pair)
  qed
qed

section \<open>Properties\<close>

text \<open>
  C39: The handle store implements its log of live issues. After any sequence of issues, binds and
  session ends, a bind for a session returns a value exactly when that value was issued to that
  session under that handle and the session has not ended since, and the labels it reports are the
  ones of that issue; a guessed id, the id of another session and the id of a destroyed session
  are all refused.
\<close>

theorem handle_store_refines_log:
  assumes "handle_run st log" and "dest \<noteq> []"
  shows "((\<exists>st'. bind_handle st sid hid dest tool aid now = Inr (st', v))
            \<longleftrightarrow> (\<exists>l. (hid, sid, v, l) \<in> set log))
       \<and> (labels_for st sid hid = Inr l \<longleftrightarrow> (\<exists>v. (hid, sid, v, l) \<in> set log))"
  using bindable_iff [OF handle_run_matches [OF assms(1)] assms(2)]
    labels_for_Inr [OF handle_run_matches [OF assms(1)]] by blast

definition secret_labels :: resolved_labels where
  "secret_labels = \<lparr>rl_axis_a = [''health:restricted''], rl_axis_b = [''system-internal'']\<rparr>"

definition one_handle :: handle_store where
  "one_handle = fst (issue empty_handles 7 (JStr ''secret'') secret_labels 40 0)"

lemma one_handle_run: "handle_run one_handle [(40, 7, JStr ''secret'', secret_labels)]"
  unfolding one_handle_def by (rule run_issue [OF run_start]) simp

theorem handle_store_refines_log_witness:
  "(\<exists>st'. bind_handle one_handle 7 40 ''tool:x'' ''x'' 50 0 = Inr (st', JStr ''secret''))
   \<and> \<not> (\<exists>st'. bind_handle one_handle 8 40 ''tool:x'' ''x'' 50 0 = Inr (st', JStr ''secret''))"
  using handle_store_refines_log [OF one_handle_run, of "''tool:x''" 7 40 "''x''" 50 0 "JStr ''secret''"]
    handle_store_refines_log [OF one_handle_run, of "''tool:x''" 8 40 "''x''" 50 0 "JStr ''secret''"]
  by simp

text \<open>
  The labels policy decides on are the labels that arrive. For a tool with distinct handle
  arguments, binding its arguments after the decision brings in exactly the label state that was
  computed from the unbound arguments before it, every handle bound is one issued to this session,
  and no other argument changes.
\<close>

theorem bound_labels_were_decided:
  assumes "handle_run st log" and "distinct (td_handle_arg_names tool)"
  shows "\<exists>st' args' bound.
      bind_reference_handles (Some st) sid tool tool_name target args audit_ids now
        = (Some st', args', reference_handle_arg_tags (Some st) sid tool args, bound)
    \<and> set bound \<subseteq> {h. \<exists>v l. (h, sid, v, l) \<in> set log}
    \<and> (\<forall>k. k \<notin> set (td_handle_arg_names tool) \<longrightarrow> map_of args' k = map_of args k)"
proof (cases "handles_apply (Some st) tool")
  case False
  then show ?thesis
    by (simp add: bind_reference_handles_def reference_handle_arg_tags_def)
next
  case True
  note m = handle_run_matches [OF assms(1)]
  let ?b = "\<lparr>bs_store = st, bs_tags = [], bs_bound = [], bs_audit_ids = audit_ids\<rparr>"
  let ?dest = "destination_for_handle_bind tool tool_name target"
  let ?r = "bind_args sid ?dest tool_name now ?b args (td_handle_arg_names tool)"
  have adds: "bind_adds st sid ?b
      (concat (map (\<lambda>a. handle_tokens (dict_get args a JNull)) (td_handle_arg_names tool))) (fst ?r)"
    using labelled_run [OF m] destination_nonempty assms(2)
    by (intro bind_args_adds) (simp_all add: same_handles_def)
  have "{h. handle_usable st sid h} \<subseteq> {h. \<exists>v l. (h, sid, v, l) \<in> set log}"
    using m by (auto simp: handle_usable_def log_matches_def)
  then have "set (remdups (bs_bound (fst ?r))) \<subseteq> {h. \<exists>v l. (h, sid, v, l) \<in> set log}"
    using adds by (auto simp: bind_adds_def)
  moreover have "\<forall>k. k \<notin> set (td_handle_arg_names tool) \<longrightarrow> map_of (snd ?r) k = map_of args k"
    by (simp add: bind_args_others)
  moreover have "bind_reference_handles (Some st) sid tool tool_name target args audit_ids now
      = (Some (bs_store (fst ?r)), snd ?r, reference_handle_arg_tags (Some st) sid tool args,
         remdups (bs_bound (fst ?r)))"
    using True adds
    by (simp add: bind_reference_handles_def reference_handle_arg_tags_def Let_def case_prod_beta
        bind_adds_def tags_concat)
  ultimately show ?thesis by blast
qed

definition mail_tool :: tool_definition where
  "mail_tool = (ToolDefinition ''mail.send'' (BuiltIn SEND_EMAIL))\<lparr>td_accepts_handles := True,
     td_handle_arg_names := [''body''], td_surfaces_destination_id := True\<rparr>"

theorem bound_labels_were_decided_witness:
  "\<exists>st' args' bound.
      bind_reference_handles (Some one_handle) 7 mail_tool ''mail.send'' ''a@b.c''
          [(''body'', JList [JUuid 40, JUuid 41])] [60, 61] 0
        = (Some st', args',
           reference_handle_arg_tags (Some one_handle) 7 mail_tool
             [(''body'', JList [JUuid 40, JUuid 41])], bound)
    \<and> set bound \<subseteq> {40}"
  using bound_labels_were_decided [OF one_handle_run, of mail_tool 7 "''mail.send''" "''a@b.c''"
      "[(''body'', JList [JUuid 40, JUuid 41])]" "[60, 61]" 0]
  by (fastforce simp: mail_tool_def ToolDefinition_def)

text \<open>
  Wrapping an output hides it and loses nothing. Every value under a sensitive key is replaced
  by a handle, which gives back exactly that value when bound for the session, and gives nothing to
  any other session; the other keys pass unchanged. The fresh ids are distinct and not those of
  live handles.
\<close>

theorem wrapped_output_roundtrip:
  assumes "handle_run st log" and "distinct ids" and "set ids \<inter> fst ` set log = {}"
    and "length (filter (\<lambda>(k, _). k \<in> set keys) output) \<le> length ids"
    and "wrap_output_with_handles st sid output keys labels ids now = (st', out)"
    and "dest \<noteq> []"
  shows "list_all2 (\<lambda>(k, v) (k', w). k' = k \<and>
      (if k \<in> set keys
       then \<exists>h. w = JUuid h
         \<and> (\<exists>st''. bind_handle st' sid h dest tool aid at' = Inr (st'', v))
         \<and> (\<forall>other st'' u. other \<noteq> sid
              \<longrightarrow> bind_handle st' other h dest tool aid at' \<noteq> Inr (st'', u))
       else w = v)) output out"
proof (cases "keys = []")
  case True
  then show ?thesis
    using assms(5) by (auto simp: wrap_output_with_handles_def list_all2_same)
next
  case False
  obtain l where w: "wrap_items st sid output keys l ids now = (st', out)"
    using assms(5) False by (simp add: wrap_output_with_handles_def)
  obtain log' where run: "handle_run st' log'"
    and all: "list_all2 (wrapped_as keys sid l log') output out"
    using wrap_items_run [OF assms(1-4), of sid l now] w by auto
  note m = handle_run_matches [OF run]
  have own: "(\<exists>st''. bind_handle st' sid h dest tool aid at' = Inr (st'', v))
      \<and> (\<forall>other st'' u. other \<noteq> sid
              \<longrightarrow> bind_handle st' other h dest tool aid at' \<noteq> Inr (st'', u))"
    if "(h, sid, v, l) \<in> set log'" for h v
  proof (intro conjI allI impI)
    show "\<exists>st''. bind_handle st' sid h dest tool aid at' = Inr (st'', v)"
      using bindable_iff [OF m assms(6), of sid h tool aid at' v] that by blast
    fix other st'' u
    assume "other \<noteq> sid"
    then have "\<nexists>l'. (h, other, u, l') \<in> set log'" using log_entry_unique [OF m that] by blast
    then show "bind_handle st' other h dest tool aid at' \<noteq> Inr (st'', u)"
      using bindable_iff [OF m assms(6), of other h tool aid at' u] by blast
  qed
  show ?thesis
    using all by (rule list_all2_mono) (use own in \<open>auto simp: wrapped_as_def split: if_splits\<close>)
qed

theorem wrapped_output_roundtrip_witness:
  "list_all2 (\<lambda>(k, v) (k', w). k' = k \<and>
      (if k \<in> set [''record'']
       then \<exists>h. w = JUuid h
         \<and> (\<exists>st''. bind_handle (fst (wrap_output_with_handles one_handle 7
               [(''record'', JInt 5), (''key'', JStr ''k'')] [''record''] None [41] 0))
               7 h ''tool:x'' ''x'' 50 0 = Inr (st'', v))
         \<and> (\<forall>other st'' u. other \<noteq> 7 \<longrightarrow> bind_handle (fst (wrap_output_with_handles one_handle 7
               [(''record'', JInt 5), (''key'', JStr ''k'')] [''record''] None [41] 0))
               other h ''tool:x'' ''x'' 50 0 \<noteq> Inr (st'', u))
       else w = v))
     [(''record'', JInt 5), (''key'', JStr ''k'')]
     (snd (wrap_output_with_handles one_handle 7
        [(''record'', JInt 5), (''key'', JStr ''k'')] [''record''] None [41] 0))"
  by (rule wrapped_output_roundtrip [OF one_handle_run, where ids = "[41]" and labels = None])
     simp_all

text \<open>
  Labels survive the trip of a memory entry through a handle. When a session asks for a handle
  to a stored entry, its output does not hold the value, and the labels any later use of the handle
  brings in have exactly the category and tier pairs and the provenance levels the entry is stored
  with.
\<close>

theorem memory_handle_keeps_labels:
  assumes "handle_run st log" and "hid \<notin> fst ` set log" and "memory_get ms key = Some e"
  shows "\<exists>st' res l. memory_handle_tool ms (Some st) sid key hid now = (Some st', res)
     \<and> tr_output res = [(''found'', JBool True), (''key'', JStr key), (''handle'', JUuid hid)]
     \<and> label_state_for st' sid hid = Inr l
     \<and> (\<lambda>t. (ct_category t, ct_tier t)) ` set (ls_a l)
         = (\<lambda>t. (ct_category t, ct_tier t)) ` set (ls_a (me_label_state e))
     \<and> pt_level ` set (ls_b l) = pt_level ` set (ls_b (me_label_state e))"
proof -
  let ?rl = "resolved_labels_from_state (me_label_state e)"
  let ?p = "issue st sid (me_value e) ?rl hid now"
  have run: "handle_run (fst ?p) ((hid, sid, me_value e, ?rl) # log)"
    by (rule run_issue [OF assms(1,2)])
  have "labels_for (fst ?p) sid hid = Inr ?rl"
    using labels_for_Inr [OF handle_run_matches [OF run], of sid hid ?rl] by auto
  then have "label_state_for (fst ?p) sid hid = Inr (resolved_labels_to_label_state ?rl)"
    by (simp add: label_state_for_def)
  moreover have "memory_handle_tool ms (Some st) sid key hid now
      = (Some (fst ?p), plain_result [(''found'', JBool True), (''key'', JStr key),
           (''handle'', JUuid hid)])"
    using assms(3) by (simp add: memory_handle_tool_def case_prod_beta issue_def Let_def)
  ultimately show ?thesis
    using label_state_wire [of "me_label_state e"]
    by (simp add: graded_def plain_result_def)
qed

definition noted :: memory_store where
  "noted = memory_put \<lparr>ms_durable = True, ms_data = []\<rparr> ''diagnosis'' (JStr ''x'')
     \<lparr>ls_a = [\<lparr>ct_category = ''health'', ct_tier = RESTRICTED, ct_risk_ids = [],
               ct_assignment_provenance = ''source-declared''\<rparr>],
      ls_b = [\<lparr>pt_level = SYSTEM_INTERNAL\<rparr>]\<rparr> ''session'' 0"

theorem memory_handle_keeps_labels_witness:
  "\<exists>st' res l. memory_handle_tool noted (Some one_handle) 7 ''diagnosis'' 41 0 = (Some st', res)
     \<and> label_state_for st' 7 41 = Inr l
     \<and> (\<lambda>t. (ct_category t, ct_tier t)) ` set (ls_a l) = {(''health'', RESTRICTED)}"
proof -
  obtain e where e: "memory_get noted ''diagnosis'' = Some e"
    and l: "(\<lambda>t. (ct_category t, ct_tier t)) ` set (ls_a (me_label_state e)) = {(''health'', RESTRICTED)}"
    by (simp add: noted_def memory_get_def memory_put_def labels_to_dict_def)
  show ?thesis
    using memory_handle_keeps_labels [OF one_handle_run _ e, of 41 7 0] unfolding l by auto
qed

end
