(* ===== verification/Relationships.thy ===== *)
theory Relationships
  imports Strings
begin

text \<open>
  The registry of relationship groups (\<open>policy/relationships.py\<close>): operator-declared groups of
  principals, the resolution of a tool target to the groups its principals are in, and the
  reputation tier of a member. The registry is the two dictionaries of the code.
\<close>

section \<open>Principals of a target\<close>

text \<open>
  The pattern \<open>[A-Za-z0-9._%+-]+@[A-Za-z0-9.-]+\.[A-Za-z]{2,}\<close> and \<open>findall\<close>: from the left,
  without overlaps. At a position the local part is the longest run of its class, which must be
  followed by the at sign; the domain is the longest run of its class up to a dot that is followed
  by at least two letters, and those letters as far as they go.
\<close>

definition ascii_digit :: "char \<Rightarrow> bool" where
  "ascii_digit c \<longleftrightarrow> char_in c 48 57"

definition local_char :: "char \<Rightarrow> bool" where
  "local_char c \<longleftrightarrow> ascii_alpha c \<or> ascii_digit c
     \<or> c \<in> {CHR ''.'', CHR ''_'', CHR ''%'', CHR ''+'', CHR ''-''}"

definition domain_char :: "char \<Rightarrow> bool" where
  "domain_char c \<longleftrightarrow> ascii_alpha c \<or> ascii_digit c \<or> c \<in> {CHR ''.'', CHR ''-''}"

text \<open>The longest \<open>n\<close> from \<open>k\<close> downwards at which the domain can stop before a final label.\<close>

fun domain_stop :: "string \<Rightarrow> nat \<Rightarrow> nat option" where
  "domain_stop s 0 = None"
| "domain_stop s (Suc k) =
     (let rest = drop (Suc k) s
      in if rest \<noteq> [] \<and> hd rest = CHR ''.'' \<and> 2 \<le> length (takeWhile ascii_alpha (tl rest))
         then Some (Suc k) else domain_stop s k)"

definition match_domain :: "string \<Rightarrow> string option" where
  "match_domain s =
     (case domain_stop s (length (takeWhile domain_char s)) of
        None \<Rightarrow> None
      | Some n \<Rightarrow> Some (take n s @ ''.'' @ takeWhile ascii_alpha (drop (Suc n) s)))"

definition match_email :: "string \<Rightarrow> string option" where
  "match_email s =
     (let local = takeWhile local_char s; rest = dropWhile local_char s
      in if local = [] \<or> rest = [] \<or> hd rest \<noteq> CHR ''@'' then None
         else map_option (\<lambda>d. local @ ''@'' @ d) (match_domain (tl rest)))"

lemma match_email_nonempty: "match_email s = Some e \<Longrightarrow> e \<noteq> []"
  by (auto simp: match_email_def Let_def split: if_splits)

function find_emails :: "string \<Rightarrow> string list" where
  "find_emails [] = []"
| "find_emails (c # s) =
     (case match_email (c # s) of
        None \<Rightarrow> find_emails s
      | Some e \<Rightarrow> e # find_emails (drop (length e) (c # s)))"
  by pat_completeness auto

termination
  by (relation "measure length") (auto dest: match_email_nonempty)

definition principal_ids_from_target :: "string \<Rightarrow> string list" where
  "principal_ids_from_target target = (if target = [] then [] else remdups (target # find_emails target))"

section \<open>The registry\<close>

definition TIER_ORDER :: "string list" where
  "TIER_ORDER = [''unproven'', ''well-tested'', ''trusted'']"

definition DEFAULT_TIER :: string where "DEFAULT_TIER = ''unproven''"

text \<open>A group is its members under its identifier.\<close>

record relationship_groups =
  rg_groups :: "(string \<times> string list) list"
  rg_tiers :: "((string \<times> string) \<times> string) list"

definition group_get :: "relationship_groups \<Rightarrow> string \<Rightarrow> string list option" where
  "group_get rg gid = map_of (rg_groups rg) gid"

definition is_member :: "relationship_groups \<Rightarrow> string \<Rightarrow> string \<Rightarrow> bool" where
  "is_member rg pid gid = (case group_get rg gid of None \<Rightarrow> False | Some ms \<Rightarrow> pid \<in> set ms)"

definition resolve_groups :: "relationship_groups \<Rightarrow> string \<Rightarrow> string list" where
  "resolve_groups rg pid = map fst (filter (\<lambda>(_, ms). pid \<in> set ms) (rg_groups rg))"

definition resolve_target :: "relationship_groups \<Rightarrow> string \<Rightarrow> string list" where
  "resolve_target rg target =
     remdups (concat (map (resolve_groups rg) (principal_ids_from_target target)))"

definition add_member :: "relationship_groups \<Rightarrow> string \<Rightarrow> string \<Rightarrow> relationship_groups \<times> bool" where
  "add_member rg gid pid =
     (case group_get rg gid of
        None \<Rightarrow> (rg\<lparr>rg_groups := AList.update gid [pid] (rg_groups rg)\<rparr>, True)
      | Some ms \<Rightarrow>
          if pid \<in> set ms then (rg, False)
          else (rg\<lparr>rg_groups := AList.update gid (ms @ [pid]) (rg_groups rg)\<rparr>, True))"

definition tier_for :: "relationship_groups \<Rightarrow> string \<Rightarrow> string \<Rightarrow> string" where
  "tier_for rg gid pid = dict_get (rg_tiers rg) (gid, pid) DEFAULT_TIER"

text \<open>\<open>TIER_ORDER.index(t)\<close> of a tier that is one of them.\<close>

definition tier_index :: "string \<Rightarrow> nat" where
  "tier_index t = length (takeWhile (\<lambda>x. x \<noteq> t) TIER_ORDER)"

definition effective_tier_for :: "relationship_groups \<Rightarrow> string \<Rightarrow> string" where
  "effective_tier_for rg pid =
     (case map (\<lambda>gid. tier_for rg gid pid) (resolve_groups rg pid) of
        [] \<Rightarrow> DEFAULT_TIER
      | t # ts \<Rightarrow> max_by tier_index t ts)"

definition set_tier ::
  "relationship_groups \<Rightarrow> string \<Rightarrow> string \<Rightarrow> string \<Rightarrow> py_error + relationship_groups \<times> string" where
  "set_tier rg gid pid t =
     (if t \<notin> set TIER_ORDER then Inl RelationshipGroupError
      else if \<not> is_member rg pid gid then Inl RelationshipGroupError
      else if t = DEFAULT_TIER
      then Inr (rg\<lparr>rg_tiers := AList.delete (gid, pid) (rg_tiers rg)\<rparr>, t)
      else Inr (rg\<lparr>rg_tiers := AList.update (gid, pid) t (rg_tiers rg)\<rparr>, t))"

definition remove_member :: "relationship_groups \<Rightarrow> string \<Rightarrow> string \<Rightarrow> relationship_groups \<times> bool" where
  "remove_member rg gid pid =
     (case group_get rg gid of
        None \<Rightarrow> (rg, False)
      | Some ms \<Rightarrow>
          if pid \<notin> set ms then (rg, False)
          else (rg\<lparr>rg_groups := AList.update gid (filter (\<lambda>m. m \<noteq> pid) ms) (rg_groups rg),
                   rg_tiers := AList.delete (gid, pid) (rg_tiers rg)\<rparr>, True))"

section \<open>Invariant\<close>

definition groups_ok :: "relationship_groups \<Rightarrow> bool" where
  "groups_ok rg \<longleftrightarrow> distinct (map fst (rg_groups rg))
     \<and> (\<forall>gid pid t. map_of (rg_tiers rg) (gid, pid) = Some t
          \<longrightarrow> is_member rg pid gid \<and> t \<in> {''well-tested'', ''trusted''})"

lemma add_member_effect:
  "is_member (fst (add_member rg g p)) pid gid \<longleftrightarrow> is_member rg pid gid \<or> pid = p \<and> gid = g"
  "rg_tiers (fst (add_member rg g p)) = rg_tiers rg"
  "distinct (map fst (rg_groups rg)) \<Longrightarrow> distinct (map fst (rg_groups (fst (add_member rg g p))))"
  by (auto simp: add_member_def is_member_def group_get_def update_conv' distinct_update
      split: option.splits)

lemma remove_member_effect:
  "is_member (fst (remove_member rg g p)) pid gid
     \<longleftrightarrow> is_member rg pid gid \<and> \<not> (pid = p \<and> gid = g)"
  "map_of (rg_tiers (fst (remove_member rg g p))) k
     = (if k = (g, p) \<and> is_member rg p g then None else map_of (rg_tiers rg) k)"
  "distinct (map fst (rg_groups rg)) \<Longrightarrow> distinct (map fst (rg_groups (fst (remove_member rg g p))))"
  by (auto simp: remove_member_def is_member_def group_get_def update_conv' delete_conv'
      distinct_update split: option.splits)

lemma set_tier_effect:
  assumes "set_tier rg g p t = Inr (rg', t')"
  shows "t \<in> set TIER_ORDER" and "is_member rg p g" and "rg_groups rg' = rg_groups rg"
    and "map_of (rg_tiers rg') k
      = (if k = (g, p) then (if t = DEFAULT_TIER then None else Some t) else map_of (rg_tiers rg) k)"
  using assms by (auto simp: set_tier_def update_conv' delete_conv' split: if_splits)

lemma groups_okD:
  assumes "groups_ok rg"
  shows "distinct (map fst (rg_groups rg))"
    and "map_of (rg_tiers rg) (gid, pid) = Some t \<Longrightarrow> is_member rg pid gid"
    and "map_of (rg_tiers rg) (gid, pid) = Some t \<Longrightarrow> t \<in> {''well-tested'', ''trusted''}"
  using assms by (simp_all add: groups_ok_def)

lemma groups_ok_add: "groups_ok rg \<Longrightarrow> groups_ok (fst (add_member rg gid pid))"
  unfolding groups_ok_def add_member_effect by (simp add: add_member_effect(3))

lemma groups_ok_set_tier:
  assumes "groups_ok rg" and "set_tier rg g p t = Inr (rg', t')"
  shows "groups_ok rg'"
proof -
  note eff = set_tier_effect [OF assms(2)]
  have "t \<in> {''well-tested'', ''trusted''}" if "t \<noteq> DEFAULT_TIER"
    using eff(1) that by (simp add: TIER_ORDER_def DEFAULT_TIER_def)
  moreover have "is_member rg' = is_member rg"
    by (simp add: is_member_def group_get_def eff(3) fun_eq_iff)
  ultimately show ?thesis
    using assms(1) eff(2,3) unfolding groups_ok_def eff(4) by (auto split: if_splits)
qed

lemma groups_ok_remove: "groups_ok rg \<Longrightarrow> groups_ok (fst (remove_member rg gid pid))"
  unfolding groups_ok_def remove_member_effect
  by (auto simp: remove_member_effect(3) split: if_splits)

inductive groups_run :: "relationship_groups \<Rightarrow> bool" where
  groups_start: "distinct (map fst gs) \<Longrightarrow> groups_run \<lparr>rg_groups = gs, rg_tiers = []\<rparr>"
| groups_add: "groups_run rg \<Longrightarrow> groups_run (fst (add_member rg gid pid))"
| groups_tier: "groups_run rg \<Longrightarrow> set_tier rg gid pid t = Inr (rg', t') \<Longrightarrow> groups_run rg'"
| groups_remove: "groups_run rg \<Longrightarrow> groups_run (fst (remove_member rg gid pid))"

lemma groups_run_ok: "groups_run rg \<Longrightarrow> groups_ok rg"
proof (induction rule: groups_run.induct)
  case (groups_start gs)
  then show ?case by (simp add: groups_ok_def)
qed (simp_all add: groups_ok_add groups_ok_set_tier groups_ok_remove)

lemma resolve_groups_iff:
  "distinct (map fst (rg_groups rg)) \<Longrightarrow> gid \<in> set (resolve_groups rg pid) \<longleftrightarrow> is_member rg pid gid"
proof -
  assume d: "distinct (map fst (rg_groups rg))"
  have "gid \<in> set (resolve_groups rg pid)
      \<longleftrightarrow> (\<exists>ms. (gid, ms) \<in> set (rg_groups rg) \<and> pid \<in> set ms)"
    by (force simp: resolve_groups_def)
  also have "\<dots> \<longleftrightarrow> (\<exists>ms. map_of (rg_groups rg) gid = Some ms \<and> pid \<in> set ms)"
    using d by simp
  finally show ?thesis by (auto simp: is_member_def group_get_def split: option.splits)
qed

text \<open>
  Trust does not outlive membership. After any sequence of additions, promotions and removals,
  a principal whose reputation in some group is above unproven is a member of that group, the
  effective reputation of a principal who is in no group is unproven, and one who is removed from
  a group and added again starts unproven there.
\<close>

theorem reputation_needs_membership:
  assumes "groups_run rg"
  shows "(tier_for rg gid pid \<noteq> DEFAULT_TIER \<longrightarrow> is_member rg pid gid)
    \<and> (effective_tier_for rg pid \<noteq> DEFAULT_TIER \<longrightarrow> (\<exists>g. is_member rg pid g))
    \<and> tier_for (fst (add_member (fst (remove_member rg gid pid)) gid pid)) gid pid = DEFAULT_TIER"
proof (intro conjI impI)
  note ok = groups_run_ok [OF assms]
  show "is_member rg pid gid" if "tier_for rg gid pid \<noteq> DEFAULT_TIER"
    using groups_okD(2) [OF ok, of gid pid] that
    by (auto simp: tier_for_def dict_get_def split: option.splits)
  show "\<exists>g. is_member rg pid g" if "effective_tier_for rg pid \<noteq> DEFAULT_TIER"
  proof -
    have "resolve_groups rg pid \<noteq> []" using that by (auto simp: effective_tier_for_def)
    then have "hd (resolve_groups rg pid) \<in> set (resolve_groups rg pid)" by simp
    then show ?thesis using resolve_groups_iff [OF groups_okD(1) [OF ok]] by blast
  qed
  have "map_of (rg_tiers (fst (remove_member rg gid pid))) (gid, pid) = None"
    using groups_okD(2) [OF ok, of gid pid] unfolding remove_member_effect
    by (cases "map_of (rg_tiers rg) (gid, pid)") auto
  then show "tier_for (fst (add_member (fst (remove_member rg gid pid)) gid pid)) gid pid
      = DEFAULT_TIER"
    by (simp add: tier_for_def dict_get_def add_member_effect(2))
qed

theorem reputation_needs_membership_witness:
  "tier_for \<lparr>rg_groups = [(''family'', [''a@b.cd''])], rg_tiers = [((''family'', ''a@b.cd''), ''trusted'')]\<rparr>
      ''family'' ''a@b.cd'' = ''trusted''
   \<and> is_member \<lparr>rg_groups = [(''family'', [''a@b.cd''])],
        rg_tiers = [((''family'', ''a@b.cd''), ''trusted'')]\<rparr> ''a@b.cd'' ''family''"
proof -
  let ?start = "\<lparr>rg_groups = [(''family'', [''a@b.cd''])], rg_tiers = []\<rparr>"
  let ?rg = "?start\<lparr>rg_tiers := [((''family'', ''a@b.cd''), ''trusted'')]\<rparr>"
  have "set_tier ?start ''family'' ''a@b.cd'' ''trusted'' = Inr (?rg, ''trusted'')"
    by (simp add: set_tier_def TIER_ORDER_def DEFAULT_TIER_def is_member_def group_get_def)
  moreover have "groups_run ?start" by (rule groups_start) simp
  ultimately have "groups_run ?rg" by (rule groups_tier [rotated])
  from reputation_needs_membership [OF this, of "''family''" "''a@b.cd''"]
  show ?thesis by (simp add: tier_for_def dict_get_def DEFAULT_TIER_def)
qed

section \<open>Addresses inside structured targets\<close>

definition email_char :: "char \<Rightarrow> bool" where
  "email_char c \<longleftrightarrow> local_char c \<or> c = CHR ''@''"

definition email_address :: "string \<Rightarrow> bool" where
  "email_address e \<longleftrightarrow>
     (\<exists>l d t. e = l @ ''@'' @ d @ ''.'' @ t \<and> l \<noteq> [] \<and> list_all local_char l
        \<and> d \<noteq> [] \<and> list_all domain_char d \<and> 2 \<le> length t \<and> list_all ascii_alpha t)"

lemma domain_char_local: "domain_char c \<Longrightarrow> local_char c"
  by (auto simp: domain_char_def local_char_def)

lemma domain_stop_le: "domain_stop s k = Some n \<Longrightarrow> n \<le> k"
  by (induction k) (auto simp: Let_def split: if_splits)

lemma domain_stop_dot: "domain_stop s k = Some n \<Longrightarrow> \<exists>r. drop n s = CHR ''.'' # r"
  by (induction k) (auto simp: Let_def neq_Nil_conv split: if_splits)

lemma take_le_takeWhile:
  assumes "n \<le> length (takeWhile P s)"
  shows "list_all P (take n s)"
proof -
  have "s = takeWhile P s @ dropWhile P s" by simp
  then have "take n s = take n (takeWhile P s)" using assms by (metis append_Nil2 diff_is_0_eq take0 take_append)
  then show ?thesis by (auto simp: list_all_iff dest: in_set_takeD set_takeWhileD)
qed

lemma match_domain_prefix:
  assumes "match_domain s = Some m"
  shows "prefix m s \<and> list_all email_char m"
proof -
  obtain n where n: "domain_stop s (length (takeWhile domain_char s)) = Some n"
    and m: "m = take n s @ ''.'' @ takeWhile ascii_alpha (drop (Suc n) s)"
    using assms by (auto simp: match_domain_def split: option.splits)
  obtain r where r: "drop n s = CHR ''.'' # r" using domain_stop_dot [OF n] by blast
  then have "drop (Suc n) s = r" by (metis drop_Suc_Cons drop0 drop_drop plus_1_eq_Suc)
  then have "s = take n s @ CHR ''.'' # takeWhile ascii_alpha r @ dropWhile ascii_alpha r"
    using append_take_drop_id [of n s] r by simp
  then have p: "prefix m s"
    unfolding m \<open>drop (Suc n) s = r\<close> prefix_def by (metis append.assoc append_Cons append_Nil)
  have "list_all email_char (take n s)"
    using take_le_takeWhile [OF domain_stop_le [OF n]]
    by (auto simp: list_all_iff email_char_def domain_char_local)
  moreover have "list_all email_char (takeWhile ascii_alpha (drop (Suc n) s))"
    by (auto simp: list_all_iff email_char_def local_char_def dest: set_takeWhileD)
  ultimately have "list_all email_char m"
    by (simp add: m email_char_def local_char_def)
  with p show ?thesis by simp
qed

lemma match_email_prefix:
  assumes "match_email s = Some m"
  shows "prefix m s \<and> list_all email_char m"
proof -
  let ?l = "takeWhile local_char s" and ?r = "dropWhile local_char s"
  obtain d where d: "?r \<noteq> []" "hd ?r = CHR ''@''" "match_domain (tl ?r) = Some d" "m = ?l @ ''@'' @ d"
    using assms by (auto simp: match_email_def Let_def split: if_splits)
  obtain post where post: "tl ?r = d @ post" using match_domain_prefix [OF d(3)] by (auto simp: prefix_def)
  have "s = ?l @ CHR ''@'' # tl ?r" using d(1,2) by (metis list.collapse takeWhile_dropWhile_id)
  then have "prefix m s" unfolding d(4) prefix_def post by (metis append.assoc append_Cons append_Nil)
  moreover have "list_all email_char m"
    using match_domain_prefix [OF d(3)]
    by (auto simp: d(4) list_all_iff email_char_def dest: set_takeWhileD)
  ultimately show ?thesis by simp
qed

lemma domain_stop_at:
  assumes "\<And>j. n < j \<Longrightarrow> j \<le> n + i \<Longrightarrow> drop j s \<noteq> [] \<Longrightarrow> hd (drop j s) \<noteq> CHR ''.''"
    and "drop n s = CHR ''.'' # r" and "2 \<le> length (takeWhile ascii_alpha r)" and "n \<noteq> 0"
  shows "domain_stop s (n + i) = Some n"
  using assms(1)
proof (induction i)
  case 0
  then show ?case using assms(2-4) by (cases n) (simp_all add: Let_def)
next
  case (Suc i)
  have "drop (Suc (n + i)) s = [] \<or> hd (drop (Suc (n + i)) s) \<noteq> CHR ''.''"
    using Suc.prems [of "Suc (n + i)"] by auto
  then show ?case using Suc by (auto simp: Let_def)
qed

lemma match_email_at:
  assumes "email_address e" and "post = [] \<or> \<not> domain_char (hd post)"
  shows "match_email (e @ post) = Some e"
proof -
  obtain l d t where e: "e = l @ ''@'' @ d @ ''.'' @ t" and l: "l \<noteq> []" "list_all local_char l"
    and d: "d \<noteq> []" "list_all domain_char d" and t: "2 \<le> length t" "list_all ascii_alpha t"
    using assms(1) unfolding email_address_def by blast
  have at: "\<not> local_char (CHR ''@'')" by (simp add: local_char_def ascii_alpha_def ascii_digit_def char_in_def)
  let ?s = "d @ ''.'' @ t @ post"
  have alpha: "domain_char c" if "ascii_alpha c" for c using that by (simp add: domain_char_def)
  have "post = [] \<or> \<not> ascii_alpha (hd post)" using assms(2) alpha by blast
  then have tw: "takeWhile ascii_alpha (t @ post) = t"
    using t(2) by (cases post) (auto simp: list_all_iff takeWhile_append2)
  have dc: "\<forall>c \<in> set (d @ ''.'' @ t). domain_char c"
    using d(2) t(2) alpha by (auto simp: list_all_iff domain_char_def)
  have "takeWhile domain_char ?s = d @ ''.'' @ t"
    using dc assms(2) takeWhile_append2 [of "d @ ''.'' @ t" domain_char post] by (cases post) auto
  then have len: "length (takeWhile domain_char ?s) = length d + Suc (length t)" by simp
  have stop: "domain_stop ?s (length d + Suc (length t)) = Some (length d)"
  proof (rule domain_stop_at [where r = "t @ post"])
    fix j assume j: "length d < j" "j \<le> length d + Suc (length t)" "drop j ?s \<noteq> []"
    have jd: "drop j ?s = drop (j - Suc (length d)) (t @ post)"
      using j(1) by (simp add: drop_Cons' numeral_eq_Suc)
    show "hd (drop j ?s) \<noteq> CHR ''.''"
    proof (cases "j - Suc (length d) < length t")
      case True
      then have "hd (drop j ?s) = t ! (j - Suc (length d))" unfolding jd
        by (simp add: hd_drop_conv_nth nth_append)
      then have "ascii_alpha (hd (drop j ?s))" using True t(2) by (simp add: list_all_length)
      then show ?thesis by (auto simp: ascii_alpha_def char_in_def)
    next
      case False
      then have "drop j ?s = post" unfolding jd using j(2) by simp
      then have "\<not> domain_char (hd (drop j ?s))" using assms(2) j(3) by auto
      then show ?thesis by (auto simp: domain_char_def)
    qed
  qed (use d(1) t(1) tw in auto)
  have "match_domain ?s = Some (d @ ''.'' @ t)"
    unfolding match_domain_def len stop by (simp add: tw)
  moreover have "takeWhile local_char (e @ post) = l" "dropWhile local_char (e @ post) = CHR ''@'' # ?s"
    using l(2) at by (simp_all add: e list_all_iff takeWhile_append dropWhile_append)
  ultimately show ?thesis using l(1) by (simp add: match_email_def Let_def e)
qed

lemma find_emails_Some:
  assumes "match_email s = Some m"
  shows "find_emails s = m # find_emails (drop (length m) s)"
proof (cases s)
  case Nil
  then show ?thesis using assms by (simp add: match_email_def)
next
  case (Cons c t)
  show ?thesis using assms unfolding Cons by simp
qed

lemma find_emails_skip:
  assumes "\<not> email_char sep"
  shows "set (find_emails s) \<subseteq> set (find_emails (pre @ sep # s))"
proof (induction pre rule: length_induct)
  case (1 pre)
  show ?case
  proof (cases pre)
    case Nil
    have "match_email (sep # s) = None"
    proof (cases "match_email (sep # s)")
      case (Some m)
      from match_email_nonempty [OF Some] match_email_prefix [OF Some] assms
      show ?thesis by (cases m) auto
    qed
    then show ?thesis using Nil by simp
  next
    case (Cons c pre')
    show ?thesis
    proof (cases "match_email (pre @ sep # s)")
      case None
      then show ?thesis using 1 Cons by auto
    next
      case (Some m)
      from match_email_prefix [OF Some] have p: "prefix m (pre @ sep # s)" and a: "list_all email_char m"
        by auto
      have "length m \<le> length pre"
      proof (rule ccontr)
        assume "\<not> length m \<le> length pre"
        then have len: "length pre < length m" by simp
        obtain rest where "pre @ sep # s = m @ rest" using p by (auto simp: prefix_def)
        then have "(m @ rest) ! length pre = sep" by (metis nth_append_length)
        then have "m ! length pre = sep" using len by (simp add: nth_append)
        with len have "sep \<in> set m" using nth_mem by metis
        then show False using a assms by (simp add: list_all_iff)
      qed
      then have rest: "drop (length m) (pre @ sep # s) = drop (length m) pre @ sep # s" by simp
      have "length (drop (length m) pre) < length pre"
        using match_email_nonempty [OF Some] Cons by simp
      with 1 have "set (find_emails s) \<subseteq> set (find_emails (drop (length m) (pre @ sep # s)))"
        unfolding rest by blast
      then show ?thesis unfolding find_emails_Some [OF Some] by auto
    qed
  qed
qed

text \<open>
  A member is recognised inside a structured target. When the address of a group member stands
  in a target, set off on the left by a character no address contains and on the right by one no
  domain contains, the target resolves to that group, whatever stands around it; so the rules
  written for the group apply to the call.
\<close>

theorem embedded_member_resolves:
  assumes "email_address e" and "is_member rg e gid" and "distinct (map fst (rg_groups rg))"
    and "pre = [] \<or> \<not> email_char (last pre)" and "post = [] \<or> \<not> domain_char (hd post)"
  shows "gid \<in> set (resolve_target rg (pre @ e @ post))"
proof -
  have ne: "e \<noteq> []" using assms(1) by (auto simp: email_address_def)
  then obtain c e' where "e @ post = c # e'" by (cases e) auto
  then have "e \<in> set (find_emails (e @ post))"
    using match_email_at [OF assms(1,5)] by (simp del: append.simps)
  moreover have "set (find_emails (e @ post)) \<subseteq> set (find_emails (pre @ e @ post))"
  proof (cases pre rule: rev_cases)
    case (snoc pre' sep)
    then show ?thesis using find_emails_skip [of sep "e @ post" pre'] assms(4) by simp
  qed simp
  ultimately have "e \<in> set (principal_ids_from_target (pre @ e @ post))"
    using ne by (auto simp: principal_ids_from_target_def)
  moreover have "gid \<in> set (resolve_groups rg e)"
    using assms(2) by (simp add: resolve_groups_iff [OF assms(3)])
  ultimately show ?thesis by (auto simp: resolve_target_def)
qed

theorem embedded_member_resolves_witness:
  "''family'' \<in> set (resolve_target \<lparr>rg_groups = [(''family'', [''s@ex.com''])], rg_tiers = []\<rparr>
      ''gcal://primary/attendees/s@ex.com?x=1'')"
proof -
  have "email_address ''s@ex.com''"
    unfolding email_address_def
    by (rule exI [of _ "''s''"], rule exI [of _ "''ex''"], rule exI [of _ "''com''"])
       (simp add: local_char_def domain_char_def ascii_alpha_def char_in_def)
  from embedded_member_resolves [OF this, of "\<lparr>rg_groups = [(''family'', [''s@ex.com''])], rg_tiers = []\<rparr>"
      "''family''" "''gcal://primary/attendees/''" "''?x=1''"]
  show ?thesis
    by (simp add: is_member_def group_get_def email_char_def local_char_def domain_char_def
        ascii_alpha_def ascii_digit_def char_in_def)
qed

end
