(* ===== verification/PyValues.thy ===== *)
theory PyValues
  imports SessionModel Strings
begin

text \<open>
  The values of programmatic mode: \<open>programmatic/value.py\<close> (values with their labels) and the
  operators of Python that \<open>programmatic/evaluator.py\<close> applies to raw values. Numbers are integers;
  what Python does with values of other types is a parameter.
\<close>

section \<open>Values\<close>

text \<open>
  A Python value of the interpreter. \<open>Lab\<close> is a \<open>LabeledValue\<close>; \<open>PObj\<close> is a value of a type that
  is not modelled (a float, bytes), known by its text, and \<open>PFun\<close> a builtin function.
\<close>

datatype pv =
    PNone | PBool bool | PInt int | PStr string | PObj string | PFun string
  | PList "pv list" | PTuple "pv list" | PSet "pv list" | PDict "(pv \<times> pv) list"
  | Lab pv label_state

definition lab_raw :: "pv \<Rightarrow> pv" where
  "lab_raw v = (case v of Lab r _ \<Rightarrow> r | _ \<Rightarrow> v)"

definition lab_state :: "pv \<Rightarrow> label_state" where
  "lab_state v = (case v of Lab _ l \<Rightarrow> l | _ \<Rightarrow> empty_state)"

definition with_tags :: "pv \<Rightarrow> label_state \<Rightarrow> pv" where
  "with_tags v extra =
     (let composed = most_restrictive_inherit [lab_state v, extra]
      in if same_labels composed (lab_state v) then v else Lab (lab_raw v) composed)"

definition lv :: "pv \<Rightarrow> label_state \<Rightarrow> pv" where
  "lv raw l = (case raw of Lab _ _ \<Rightarrow> with_tags raw l | _ \<Rightarrow> Lab raw l)"

text \<open>\<open>most_restrictive_inherit(*states) if states else LabelState()\<close>.\<close>

definition join_states :: "label_state list \<Rightarrow> label_state" where
  "join_states states = (if states = [] then empty_state else most_restrictive_inherit states)"

fun tags_of :: "pv \<Rightarrow> label_state" where
  "tags_of (Lab v l) = most_restrictive_inherit [l, tags_of v]"
| "tags_of (PList vs) = join_states (map tags_of vs)"
| "tags_of (PTuple vs) = join_states (map tags_of vs)"
| "tags_of (PSet vs) = join_states (map tags_of vs)"
| "tags_of (PDict kvs) = join_states (concat (map (\<lambda>(k, v). [tags_of k, tags_of v]) kvs))"
| "tags_of _ = empty_state"

definition union_tags :: "pv list \<Rightarrow> label_state" where
  "union_tags vs = join_states (map tags_of vs)"

section \<open>Python operations on raw values\<close>

text \<open>
  Operations with an operand of a type that is not modelled, or whose result is (a float): an
  exception with its name, or a value. \<open>po_same\<close> decides \<open>==\<close> and \<open>po_truth\<close> the truth of such values.
\<close>

record py_ops =
  po_other :: "string \<Rightarrow> pv list \<Rightarrow> string + pv"
  po_same :: "pv \<Rightarrow> pv \<Rightarrow> bool"
  po_truth :: "string \<Rightarrow> bool"

text \<open>\<open>bool\<close> is a subclass of \<open>int\<close>.\<close>

fun num_of :: "pv \<Rightarrow> int option" where
  "num_of (PInt i) = Some i"
| "num_of (PBool b) = Some (if b then 1 else 0)"
| "num_of _ = None"

definition is_obj :: "pv \<Rightarrow> bool" where
  "is_obj v \<longleftrightarrow> (case v of PObj _ \<Rightarrow> True | _ \<Rightarrow> False)"

definition num_eq :: "pv \<Rightarrow> int \<Rightarrow> bool" where
  "num_eq w i \<longleftrightarrow> num_of w = Some i"

fun py_eq :: "py_ops \<Rightarrow> pv \<Rightarrow> pv \<Rightarrow> bool" and
    py_eqs :: "py_ops \<Rightarrow> pv list \<Rightarrow> pv list \<Rightarrow> bool" where
  "py_eq po (PObj s) w = po_same po (PObj s) w"
| "py_eq po PNone w = (if is_obj w then po_same po PNone w else w = PNone)"
| "py_eq po (PBool b) w =
     (if is_obj w then po_same po (PBool b) w else num_eq w (if b then 1 else 0))"
| "py_eq po (PInt i) w = (if is_obj w then po_same po (PInt i) w else num_eq w i)"
| "py_eq po (PStr s) w = (if is_obj w then po_same po (PStr s) w else w = PStr s)"
| "py_eq po (PFun f) w = (if is_obj w then po_same po (PFun f) w else w = PFun f)"
| "py_eq po (PList vs) w =
     (if is_obj w then po_same po (PList vs) w
      else case w of PList ws \<Rightarrow> py_eqs po vs ws | _ \<Rightarrow> False)"
| "py_eq po (PTuple vs) w =
     (if is_obj w then po_same po (PTuple vs) w
      else case w of PTuple ws \<Rightarrow> py_eqs po vs ws | _ \<Rightarrow> False)"
| "py_eq po (PSet vs) w =
     (if is_obj w then po_same po (PSet vs) w
      else case w of
             PSet ws \<Rightarrow> length vs = length ws \<and> list_all (\<lambda>v. list_ex (py_eq po v) ws) vs
           | _ \<Rightarrow> False)"
| "py_eq po (PDict kvs) w =
     (if is_obj w then po_same po (PDict kvs) w
      else case w of
             PDict lws \<Rightarrow> length kvs = length lws
               \<and> list_all (\<lambda>(k, v). list_ex (\<lambda>(l, x). py_eq po k l \<and> py_eq po v x) lws) kvs
           | _ \<Rightarrow> False)"
| "py_eq po (Lab v l) w = (w = Lab v l)"
| "py_eqs po [] ws = (ws = [])"
| "py_eqs po (v # vs) ws = (case ws of [] \<Rightarrow> False | w # ws' \<Rightarrow> py_eq po v w \<and> py_eqs po vs ws')"

fun truthy_pv :: "py_ops \<Rightarrow> pv \<Rightarrow> bool" where
  "truthy_pv po PNone = False"
| "truthy_pv po (PBool b) = b"
| "truthy_pv po (PInt i) = (i \<noteq> 0)"
| "truthy_pv po (PStr s) = (s \<noteq> [])"
| "truthy_pv po (PObj s) = po_truth po s"
| "truthy_pv po (PList vs) = (vs \<noteq> [])"
| "truthy_pv po (PTuple vs) = (vs \<noteq> [])"
| "truthy_pv po (PSet vs) = (vs \<noteq> [])"
| "truthy_pv po (PDict kvs) = (kvs \<noteq> [])"
| "truthy_pv po _ = True"

text \<open>A set keeps the first of equal elements, a dictionary the first of equal keys.\<close>

definition set_add :: "py_ops \<Rightarrow> pv list \<Rightarrow> pv \<Rightarrow> pv list" where
  "set_add po vs v = (if list_ex (py_eq po v) vs then vs else vs @ [v])"

definition py_set :: "py_ops \<Rightarrow> pv list \<Rightarrow> pv list" where
  "py_set po vs = foldl (set_add po) [] vs"

fun dict_put :: "py_ops \<Rightarrow> (pv \<times> pv) list \<Rightarrow> pv \<Rightarrow> pv \<Rightarrow> (pv \<times> pv) list" where
  "dict_put po [] k v = [(k, v)]"
| "dict_put po ((l, w) # kvs) k v =
     (if py_eq po l k then (l, v) # kvs else (l, w) # dict_put po kvs k v)"

fun unwrap :: "py_ops \<Rightarrow> pv \<Rightarrow> pv" where
  "unwrap po (Lab v _) = unwrap po v"
| "unwrap po (PList vs) = PList (map (unwrap po) vs)"
| "unwrap po (PTuple vs) = PTuple (map (unwrap po) vs)"
| "unwrap po (PSet vs) = PSet (py_set po (map (unwrap po) vs))"
| "unwrap po (PDict kvs) =
     PDict (foldl (\<lambda>d (k, v). dict_put po d k v) []
       (map (\<lambda>(k, v). (unwrap po k, unwrap po v)) kvs))"
| "unwrap po v = v"

text \<open>Lists, sets and dictionaries cannot be hashed; a tuple can when its elements can.\<close>

fun hashable :: "pv \<Rightarrow> bool" where
  "hashable (PList _) = False"
| "hashable (PSet _) = False"
| "hashable (PDict _) = False"
| "hashable (PTuple vs) = list_all hashable vs"
| "hashable _ = True"

datatype binop =
    B_Add | B_Sub | B_Mult | B_Div | B_FloorDiv | B_Mod | B_Pow | B_LShift | B_RShift
  | B_BitOr | B_BitAnd | B_BitXor | B_MatMult

datatype cmpop = C_Eq | C_NotEq | C_Lt | C_LtE | C_Gt | C_GtE | C_Is | C_IsNot | C_In | C_NotIn

datatype unop = U_Add | U_Sub | U_Not | U_Invert

text \<open>\<open>op.add\<close> and the others; two booleans give a boolean under the bit operations only.\<close>

definition int_op :: "py_ops \<Rightarrow> binop \<Rightarrow> pv \<Rightarrow> pv \<Rightarrow> int \<Rightarrow> int \<Rightarrow> string + pv" where
  "int_op po bop v w i j =
     (case bop of
        B_Add \<Rightarrow> Inr (PInt (i + j))
      | B_Sub \<Rightarrow> Inr (PInt (i - j))
      | B_Mult \<Rightarrow> Inr (PInt (i * j))
      | B_Div \<Rightarrow> if j = 0 then Inl ''ZeroDivisionError'' else po_other po ''/'' [v, w]
      | B_FloorDiv \<Rightarrow> if j = 0 then Inl ''ZeroDivisionError'' else Inr (PInt (i div j))
      | B_Mod \<Rightarrow> if j = 0 then Inl ''ZeroDivisionError'' else Inr (PInt (i mod j))
      | B_Pow \<Rightarrow>
          if 0 \<le> j then Inr (PInt (i ^ nat j))
          else if i = 0 then Inl ''ZeroDivisionError'' else po_other po ''**'' [v, w]
      | B_LShift \<Rightarrow> if j < 0 then Inl ''ValueError'' else Inr (PInt (i * 2 ^ nat j))
      | B_RShift \<Rightarrow> if j < 0 then Inl ''ValueError'' else Inr (PInt (i div 2 ^ nat j))
      | B_BitOr \<Rightarrow>
          (case (v, w) of (PBool a, PBool b) \<Rightarrow> Inr (PBool (a \<or> b)) | _ \<Rightarrow> Inr (PInt (or i j)))
      | B_BitAnd \<Rightarrow>
          (case (v, w) of (PBool a, PBool b) \<Rightarrow> Inr (PBool (a \<and> b)) | _ \<Rightarrow> Inr (PInt (and i j)))
      | B_BitXor \<Rightarrow>
          (case (v, w) of (PBool a, PBool b) \<Rightarrow> Inr (PBool (a \<noteq> b)) | _ \<Rightarrow> Inr (PInt (xor i j)))
      | B_MatMult \<Rightarrow> Inl ''TypeError'')"

definition repeat_list :: "'a list \<Rightarrow> int \<Rightarrow> 'a list" where
  "repeat_list xs n = concat (replicate (nat n) xs)"

definition seq_plus :: "pv \<Rightarrow> pv \<Rightarrow> pv option" where
  "seq_plus v w =
     (case v of
        PStr s \<Rightarrow> (case w of PStr t \<Rightarrow> Some (PStr (s @ t)) | _ \<Rightarrow> None)
      | PList vs \<Rightarrow> (case w of PList ws \<Rightarrow> Some (PList (vs @ ws)) | _ \<Rightarrow> None)
      | PTuple vs \<Rightarrow> (case w of PTuple ws \<Rightarrow> Some (PTuple (vs @ ws)) | _ \<Rightarrow> None)
      | _ \<Rightarrow> None)"

definition seq_times :: "pv \<Rightarrow> pv \<Rightarrow> pv option" where
  "seq_times v w =
     (case (v, num_of w) of
        (PStr s, Some n) \<Rightarrow> Some (PStr (repeat_list s n))
      | (PList vs, Some n) \<Rightarrow> Some (PList (repeat_list vs n))
      | (PTuple vs, Some n) \<Rightarrow> Some (PTuple (repeat_list vs n))
      | _ \<Rightarrow> None)"

fun binop_name :: "binop \<Rightarrow> string" where
  "binop_name B_Add = ''+''" | "binop_name B_Sub = ''-''" | "binop_name B_Mult = ''*''"
| "binop_name B_Div = ''/''" | "binop_name B_FloorDiv = ''//''" | "binop_name B_Mod = ''%''"
| "binop_name B_Pow = ''**''" | "binop_name B_LShift = ''<<''" | "binop_name B_RShift = ''>>''"
| "binop_name B_BitOr = ''|''" | "binop_name B_BitAnd = ''&''" | "binop_name B_BitXor = ''^''"
| "binop_name B_MatMult = ''@''"

definition seq_op :: "py_ops \<Rightarrow> binop \<Rightarrow> pv \<Rightarrow> pv \<Rightarrow> string + pv" where
  "seq_op po bop v w =
     (case (if bop = B_Add then seq_plus v w
            else if bop = B_Mult
            then (case seq_times v w of Some r \<Rightarrow> Some r | None \<Rightarrow> seq_times w v) else None) of
        Some r \<Rightarrow> Inr r
      | None \<Rightarrow> po_other po (binop_name bop) [v, w])"

definition py_binop :: "py_ops \<Rightarrow> binop \<Rightarrow> pv \<Rightarrow> pv \<Rightarrow> string + pv" where
  "py_binop po bop v w =
     (case (num_of v, num_of w) of
        (Some i, Some j) \<Rightarrow> int_op po bop v w i j
      | _ \<Rightarrow> seq_op po bop v w)"

fun cmp_name :: "cmpop \<Rightarrow> string" where
  "cmp_name C_Eq = ''==''" | "cmp_name C_NotEq = ''!=''" | "cmp_name C_Lt = ''<''"
| "cmp_name C_LtE = ''<=''" | "cmp_name C_Gt = ''>''" | "cmp_name C_GtE = ''>=''"
| "cmp_name C_Is = ''is''" | "cmp_name C_IsNot = ''is not''" | "cmp_name C_In = ''in''"
| "cmp_name C_NotIn = ''not in''"

fun ordered :: "cmpop \<Rightarrow> 'a :: linorder \<Rightarrow> 'a \<Rightarrow> bool" where
  "ordered C_Lt x y = (x < y)"
| "ordered C_LtE x y = (x \<le> y)"
| "ordered C_Gt x y = (x > y)"
| "ordered _ x y = (x \<ge> y)"

definition other_bool :: "py_ops \<Rightarrow> string \<Rightarrow> pv list \<Rightarrow> string + bool" where
  "other_bool po name vs =
     (case po_other po name vs of Inl e \<Rightarrow> Inl e | Inr r \<Rightarrow> Inr (truthy_pv po r))"

definition py_order :: "py_ops \<Rightarrow> cmpop \<Rightarrow> pv \<Rightarrow> pv \<Rightarrow> string + bool" where
  "py_order po cop v w =
     (case (num_of v, num_of w) of
        (Some i, Some j) \<Rightarrow> Inr (ordered cop i j)
      | _ \<Rightarrow>
          (case (v, w) of
             (PStr s, PStr t) \<Rightarrow> Inr (ordered cop s t)
           | _ \<Rightarrow> other_bool po (cmp_name cop) [v, w]))"

text \<open>
  Identity: \<open>None\<close> and the booleans are single objects; whether other equal values are the same
  object is up to the interpreter.
\<close>

definition py_is :: "py_ops \<Rightarrow> pv \<Rightarrow> pv \<Rightarrow> string + bool" where
  "py_is po v w =
     (if v \<in> {PNone, PBool True, PBool False} \<or> w \<in> {PNone, PBool True, PBool False}
      then Inr (v = w) else other_bool po ''is'' [v, w])"

definition py_in :: "py_ops \<Rightarrow> pv \<Rightarrow> pv \<Rightarrow> string + bool" where
  "py_in po v w =
     (case w of
        PStr t \<Rightarrow> (case v of PStr s \<Rightarrow> Inr (contains s t) | _ \<Rightarrow> Inl ''TypeError'')
      | PList ws \<Rightarrow> Inr (list_ex (py_eq po v) ws)
      | PTuple ws \<Rightarrow> Inr (list_ex (py_eq po v) ws)
      | PSet ws \<Rightarrow> if hashable v then Inr (list_ex (py_eq po v) ws) else Inl ''TypeError''
      | PDict kvs \<Rightarrow>
          if hashable v then Inr (list_ex (\<lambda>(k, _). py_eq po v k) kvs) else Inl ''TypeError''
      | PObj _ \<Rightarrow> other_bool po ''in'' [v, w]
      | _ \<Rightarrow> Inl ''TypeError'')"

definition py_compare :: "py_ops \<Rightarrow> cmpop \<Rightarrow> pv \<Rightarrow> pv \<Rightarrow> string + bool" where
  "py_compare po cop v w =
     (case cop of
        C_Eq \<Rightarrow> Inr (py_eq po v w)
      | C_NotEq \<Rightarrow> Inr (\<not> py_eq po v w)
      | C_Is \<Rightarrow> py_is po v w
      | C_IsNot \<Rightarrow> map_sum id Not (py_is po v w)
      | C_In \<Rightarrow> py_in po v w
      | C_NotIn \<Rightarrow> map_sum id Not (py_in po v w)
      | _ \<Rightarrow> py_order po cop v w)"

fun unop_name :: "unop \<Rightarrow> string" where
  "unop_name U_Add = ''pos''" | "unop_name U_Sub = ''neg''" | "unop_name U_Not = ''not''"
| "unop_name U_Invert = ''invert''"

definition py_unop :: "py_ops \<Rightarrow> unop \<Rightarrow> pv \<Rightarrow> string + pv" where
  "py_unop po uop v =
     (if uop = U_Not then Inr (PBool (\<not> truthy_pv po v))
      else case num_of v of
             None \<Rightarrow> po_other po (unop_name uop) [v]
           | Some i \<Rightarrow>
               Inr (PInt (case uop of U_Sub \<Rightarrow> - i | U_Invert \<Rightarrow> - i - 1 | _ \<Rightarrow> i)))"

text \<open>Indices count from the end when negative.\<close>

definition seq_index :: "'a list \<Rightarrow> int \<Rightarrow> nat option" where
  "seq_index xs i =
     (let j = (if i < 0 then i + int (length xs) else i)
      in if 0 \<le> j \<and> j < int (length xs) then Some (nat j) else None)"

definition seq_item :: "'a list \<Rightarrow> pv \<Rightarrow> 'a option" where
  "seq_item xs v =
     (case num_of v of None \<Rightarrow> None | Some i \<Rightarrow> map_option (nth xs) (seq_index xs i))"

definition dict_item :: "py_ops \<Rightarrow> (pv \<times> pv) list \<Rightarrow> pv \<Rightarrow> pv option" where
  "dict_item po kvs k =
     (if hashable k then map_option snd (find (\<lambda>(l, _). py_eq po k l) kvs) else None)"

text \<open>
  \<open>container[index]\<close>; \<open>None\<close> when it raises. The classes among the builtins have a generic alias,
  which is a value of another type.
\<close>

definition py_getitem :: "py_ops \<Rightarrow> pv \<Rightarrow> pv \<Rightarrow> pv option" where
  "py_getitem po c i =
     (case c of
        PList vs \<Rightarrow> seq_item vs i
      | PTuple vs \<Rightarrow> seq_item vs i
      | PStr s \<Rightarrow> map_option (\<lambda>ch. PStr [ch]) (seq_item s i)
      | PDict kvs \<Rightarrow> dict_item po kvs i
      | PObj _ \<Rightarrow> (case po_other po ''getitem'' [c, i] of Inl _ \<Rightarrow> None | Inr v \<Rightarrow> Some v)
      | PFun f \<Rightarrow>
          if f \<in> {''list'', ''dict'', ''tuple'', ''set''}
          then (case po_other po ''getitem'' [c, i] of Inl _ \<Rightarrow> None | Inr v \<Rightarrow> Some v)
          else None
      | _ \<Rightarrow> None)"

text \<open>\<open>container[key] = value\<close> on a list or a dictionary.\<close>

definition py_setitem :: "py_ops \<Rightarrow> pv \<Rightarrow> pv \<Rightarrow> pv \<Rightarrow> string + pv" where
  "py_setitem po c k v =
     (case c of
        PList vs \<Rightarrow>
          (case num_of k of
             None \<Rightarrow> Inl ''TypeError''
           | Some i \<Rightarrow>
               (case seq_index vs i of None \<Rightarrow> Inl ''IndexError'' | Some n \<Rightarrow> Inr (PList (vs[n := v]))))
      | PDict kvs \<Rightarrow> if hashable k then Inr (PDict (dict_put po kvs k v)) else Inl ''TypeError''
      | _ \<Rightarrow> Inl ''TypeError'')"

definition py_iter :: "py_ops \<Rightarrow> pv \<Rightarrow> string + pv list" where
  "py_iter po v =
     (case v of
        PList vs \<Rightarrow> Inr vs
      | PTuple vs \<Rightarrow> Inr vs
      | PSet vs \<Rightarrow> Inr vs
      | PDict kvs \<Rightarrow> Inr (map fst kvs)
      | PStr s \<Rightarrow> Inr (map (\<lambda>ch. PStr [ch]) s)
      | PObj _ \<Rightarrow>
          (case po_other po ''iter'' [v] of
             Inl e \<Rightarrow> Inl e | Inr (PList vs) \<Rightarrow> Inr vs | Inr _ \<Rightarrow> Inl ''TypeError'')
      | _ \<Rightarrow> Inl ''TypeError'')"

end
