(* ===== verification/Programs.thy ===== *)
theory Programs
  imports PyValues
begin

text \<open>
  Programmatic mode: the syntax tree a planner's program is parsed to, the static gate of
  \<open>programmatic/parser.py\<close> on it, and the interpreter of \<open>programmatic/evaluator.py\<close>. The text is
  parsed by Python's own \<open>ast.parse\<close>, so the model starts at the tree. The tool caller is a function
  on a state of its own, which the callers of \<open>ProgramRunner\<close> instantiate. Containers are values:
  the only mutation, a subscript assignment, works on the copy that \<open>unwrap\<close> makes of its container,
  so no two names share one.
\<close>

section \<open>The syntax tree\<close>

text \<open>
  \<open>E_Other\<close> and \<open>S_Other\<close> stand for the node types that the gate names as forbidden or does not
  name at all; their children do not matter, since the node itself is refused.
\<close>

datatype expr =
    E_Const pv
  | E_Name string
  | E_BinOp expr binop expr
  | E_BoolOp bool "expr list"
  | E_Compare expr "(cmpop \<times> expr) list"
  | E_UnaryOp unop expr
  | E_IfExp expr expr expr
  | E_Tuple "expr list"
  | E_List "expr list"
  | E_Set "expr list"
  | E_Dict "(expr option \<times> expr) list"
  | E_Subscript expr expr
  | E_Call expr "expr list" "(string option \<times> expr) list"
  | E_Attribute expr string
  | E_Slice "expr list"
  | E_Starred expr
  | E_Other string

datatype stmt =
    S_Pass | S_Break | S_Continue
  | S_Return "expr option"
  | S_Expr expr
  | S_Assign "expr list" expr
  | S_AugAssign expr binop expr
  | S_If expr "stmt list" "stmt list"
  | S_For expr expr "stmt list" "stmt list"
  | S_Other string

section \<open>The static gate\<close>

lemma pred_option_code [code]: "pred_option Q x = (case x of None \<Rightarrow> True | Some a \<Rightarrow> Q a)"
  by (cases x) simp_all

fun valid_expr :: "expr \<Rightarrow> bool" where
  "valid_expr (E_Const _) = True"
| "valid_expr (E_Name _) = True"
| "valid_expr (E_BinOp l _ r) = (valid_expr l \<and> valid_expr r)"
| "valid_expr (E_BoolOp _ es) = list_all valid_expr es"
| "valid_expr (E_Compare l ops) = (valid_expr l \<and> list_all (\<lambda>(_, e). valid_expr e) ops)"
| "valid_expr (E_UnaryOp _ e) = valid_expr e"
| "valid_expr (E_IfExp t b e) = (valid_expr t \<and> valid_expr b \<and> valid_expr e)"
| "valid_expr (E_Tuple es) = list_all valid_expr es"
| "valid_expr (E_List es) = list_all valid_expr es"
| "valid_expr (E_Set es) = list_all valid_expr es"
| "valid_expr (E_Dict kvs) = list_all (\<lambda>(k, v). pred_option valid_expr k \<and> valid_expr v) kvs"
| "valid_expr (E_Subscript c i) = (valid_expr c \<and> valid_expr i)"
| "valid_expr (E_Call f args kws) =
     (valid_expr f \<and> list_all valid_expr args
      \<and> list_all (\<lambda>(name, e). name \<noteq> None \<and> valid_expr e) kws)"
| "valid_expr (E_Attribute _ _) = False"
| "valid_expr (E_Slice es) = list_all valid_expr es"
| "valid_expr (E_Starred e) = valid_expr e"
| "valid_expr (E_Other _) = False"

fun valid_target :: "expr \<Rightarrow> bool" where
  "valid_target (E_Name _) = True"
| "valid_target (E_Tuple es) = list_all valid_target es"
| "valid_target (E_Subscript _ _) = True"
| "valid_target _ = False"

fun valid_stmt :: "stmt \<Rightarrow> bool" where
  "valid_stmt (S_Return e) = pred_option valid_expr e"
| "valid_stmt (S_Expr e) = valid_expr e"
| "valid_stmt (S_Assign ts e) = (list_all (\<lambda>t. valid_target t \<and> valid_expr t) ts \<and> valid_expr e)"
| "valid_stmt (S_AugAssign t _ e) = (valid_target t \<and> valid_expr t \<and> valid_expr e)"
| "valid_stmt (S_If t body orelse) =
     (valid_expr t \<and> list_all valid_stmt body \<and> list_all valid_stmt orelse)"
| "valid_stmt (S_For t e body orelse) =
     (valid_target t \<and> valid_expr t \<and> valid_expr e \<and> list_all valid_stmt body
      \<and> list_all valid_stmt orelse)"
| "valid_stmt (S_Other _) = False"
| "valid_stmt _ = True"

text \<open>\<open>parse_program\<close> on a text that Python parses: the tree, or \<open>ProgramSyntaxError\<close> (\<open>None\<close>).\<close>

definition validate_program :: "stmt list \<Rightarrow> stmt list option" where
  "validate_program body = (if list_all valid_stmt body then Some body else None)"

section \<open>The interpreter's state and signals\<close>

record dispatch_result =
  xr_decision :: decision
  xr_output :: pv
  xr_tags_added :: label_state
  xr_rule :: "string option"
  xr_reason :: "string option"

record call_record =
  cr_tool_name :: string
  cr_args :: "(string \<times> pv) list"
  cr_decision :: decision
  cr_rule :: "string option"
  cr_reason :: "string option"

record policy_error =
  pe_tool_name :: string
  pe_decision :: decision
  pe_rule :: "string option"
  pe_reason :: "string option"

text \<open>How a statement or an expression ends early: control flow, a refusal, a run-time error of the
  interpreter, or a Python exception that nothing in it catches (a call that does not return is
  told apart by its text).\<close>

datatype signal =
    X_Return "pv option" | X_Break | X_Continue | X_Policy policy_error | X_Runtime string
  | X_Python string

record 'w prog_state =
  ps_scope :: "(string \<times> pv) list"
  ps_calls :: "call_record list"
  ps_world :: 'w

type_synonym builtin = "pv list \<Rightarrow> (string \<times> pv) list \<Rightarrow> string + pv"

record 'w prog_env =
  pe_ops :: py_ops
  pe_builtins :: "(string \<times> builtin) list"
  pe_caller :: "'w \<Rightarrow> string \<Rightarrow> (string \<times> pv) list \<Rightarrow> label_state \<Rightarrow> 'w \<times> (string + dispatch_result)"

type_synonym ('w, 'a) outcome = "'w prog_state \<times> (signal + 'a)"

definition bind_x ::
  "('w, 'a) outcome \<Rightarrow> ('w prog_state \<Rightarrow> 'a \<Rightarrow> ('w, 'b) outcome) \<Rightarrow> ('w, 'b) outcome" where
  "bind_x m f = (case m of (st, Inl x) \<Rightarrow> (st, Inl x) | (st, Inr a) \<Rightarrow> f st a)"

lemma bind_x_cong [fundef_cong]:
  assumes "m = m'" and "\<And>st a. m' = (st, Inr a) \<Longrightarrow> f st a = g st a"
  shows "bind_x m f = bind_x m' g"
  using assms by (auto simp: bind_x_def split: prod.split sum.split)

section \<open>Expressions\<close>

definition raw_of :: "'w prog_env \<Rightarrow> pv \<Rightarrow> pv" where
  "raw_of env v = unwrap (pe_ops env) v"

definition holds :: "'w prog_env \<Rightarrow> pv \<Rightarrow> bool" where
  "holds env v = truthy_pv (pe_ops env) (raw_of env v)"

definition name_value :: "'w prog_env \<Rightarrow> (string \<times> pv) list \<Rightarrow> string \<Rightarrow> signal + pv" where
  "name_value env scope x =
     (case map_of scope x of
        Some v \<Rightarrow> Inr v
      | None \<Rightarrow>
          if map_of (pe_builtins env) x \<noteq> None then Inr (lv (PFun x) empty_state)
          else Inl (X_Runtime ''undefined name''))"

text \<open>\<open>_apply_binop\<close>: the matrix product is not in the table of operators.\<close>

definition apply_binop :: "'w prog_env \<Rightarrow> binop \<Rightarrow> pv \<Rightarrow> pv \<Rightarrow> signal + pv" where
  "apply_binop env bop a b =
     (if bop = B_MatMult then Inl (X_Runtime ''unsupported binary operator'')
      else map_sum X_Python (\<lambda>v. lv v (union_tags [a, b]))
             (py_binop (pe_ops env) bop (raw_of env a) (raw_of env b)))"

definition call_builtin ::
  "'w prog_env \<Rightarrow> string \<Rightarrow> pv list \<Rightarrow> (string \<times> pv) list \<Rightarrow> signal + pv" where
  "call_builtin env name positional kwargs =
     (case map_of (pe_builtins env) name of
        None \<Rightarrow> Inl (X_Runtime ''unknown function'')
      | Some fn \<Rightarrow>
          (case fn (map (raw_of env) positional) (map (\<lambda>(k, v). (k, raw_of env v)) kwargs) of
             Inl _ \<Rightarrow> Inl (X_Runtime ''builtin failed'')
           | Inr r \<Rightarrow> Inr (lv r (union_tags (positional @ map snd kwargs)))))"

definition dispatch_tool ::
  "'w prog_env \<Rightarrow> pv list \<Rightarrow> (string \<times> pv) list \<Rightarrow> 'w prog_state \<Rightarrow> ('w, pv) outcome" where
  "dispatch_tool env positional kwargs st =
     (case map (raw_of env) positional of
        [PStr name] \<Rightarrow>
          (let raw_args = map (\<lambda>(k, v). (k, raw_of env v)) kwargs;
               arg_labels = union_tags (map snd kwargs);
               (w, res) = pe_caller env (ps_world st) name raw_args arg_labels;
               st = st\<lparr>ps_world := w\<rparr>
           in case res of
                Inl e \<Rightarrow> (st, Inl (X_Python e))
              | Inr oc \<Rightarrow>
                  (let st = st\<lparr>ps_calls := ps_calls st @
                              [\<lparr>cr_tool_name = name, cr_args = raw_args, cr_decision = xr_decision oc,
                                cr_rule = xr_rule oc, cr_reason = xr_reason oc\<rparr>]\<rparr>
                   in if xr_decision oc \<noteq> ALLOW
                      then (st, Inl (X_Policy \<lparr>pe_tool_name = name, pe_decision = xr_decision oc,
                                               pe_rule = xr_rule oc, pe_reason = xr_reason oc\<rparr>))
                      else (st, Inr (lv (xr_output oc)
                              (join_states [arg_labels, xr_tags_added oc])))))
      | _ \<Rightarrow> (st, Inl (X_Runtime ''call() takes the tool name'')))"

definition subscript :: "'w prog_env \<Rightarrow> pv \<Rightarrow> pv \<Rightarrow> signal + pv" where
  "subscript env c i =
     (case py_getitem (pe_ops env) (raw_of env c) (raw_of env i) of
        None \<Rightarrow> Inl (X_Runtime ''subscript failed'')
      | Some v \<Rightarrow> Inr (lv v (most_restrictive_inherit [tags_of c, tags_of i])))"

definition set_value :: "'w prog_env \<Rightarrow> pv list \<Rightarrow> signal + pv" where
  "set_value env items =
     (let raws = map (raw_of env) items
      in if list_all hashable raws
         then Inr (lv (PSet (py_set (pe_ops env) raws)) (union_tags items))
         else Inl (X_Python ''TypeError''))"

function (sequential) eval :: "'w prog_env \<Rightarrow> expr \<Rightarrow> 'w prog_state \<Rightarrow> ('w, pv) outcome"
and eval_list :: "'w prog_env \<Rightarrow> expr list \<Rightarrow> 'w prog_state \<Rightarrow> ('w, pv list) outcome"
and eval_kws ::
  "'w prog_env \<Rightarrow> (string option \<times> expr) list \<Rightarrow> 'w prog_state \<Rightarrow> ('w, (string \<times> pv) list) outcome"
and eval_entries ::
  "'w prog_env \<Rightarrow> (expr option \<times> expr) list \<Rightarrow> (pv \<times> pv) list \<Rightarrow> label_state \<Rightarrow> 'w prog_state
   \<Rightarrow> ('w, pv) outcome"
and eval_bool ::
  "'w prog_env \<Rightarrow> bool \<Rightarrow> expr list \<Rightarrow> pv list \<Rightarrow> 'w prog_state \<Rightarrow> ('w, pv) outcome"
and eval_cmp ::
  "'w prog_env \<Rightarrow> pv \<Rightarrow> label_state \<Rightarrow> (cmpop \<times> expr) list \<Rightarrow> 'w prog_state \<Rightarrow> ('w, pv) outcome"
where
  "eval env (E_Const c) st = (st, Inr (lv c empty_state))"
| "eval env (E_Name x) st = (st, name_value env (ps_scope st) x)"
| "eval env (E_BinOp l bop r) st =
     bind_x (eval env l st) (\<lambda>st a. bind_x (eval env r st) (\<lambda>st b. (st, apply_binop env bop a b)))"
| "eval env (E_BoolOp is_and es) st = eval_bool env is_and es [] st"
| "eval env (E_Compare l ops) st =
     bind_x (eval env l st) (\<lambda>st a. eval_cmp env (raw_of env a) (tags_of a) ops st)"
| "eval env (E_UnaryOp uop e) st =
     bind_x (eval env e st) (\<lambda>st a.
       (st, map_sum X_Python (\<lambda>v. lv v (tags_of a)) (py_unop (pe_ops env) uop (raw_of env a))))"
| "eval env (E_IfExp t b e) st =
     bind_x (eval env t st) (\<lambda>st c.
       bind_x (if holds env c then eval env b st else eval env e st) (\<lambda>st v.
         (st, Inr (with_tags v (tags_of c)))))"
| "eval env (E_Tuple es) st =
     bind_x (eval_list env es st) (\<lambda>st vs. (st, Inr (lv (PTuple vs) (union_tags vs))))"
| "eval env (E_List es) st =
     bind_x (eval_list env es st) (\<lambda>st vs. (st, Inr (lv (PList vs) (union_tags vs))))"
| "eval env (E_Set es) st = bind_x (eval_list env es st) (\<lambda>st vs. (st, set_value env vs))"
| "eval env (E_Dict kvs) st = eval_entries env kvs [] empty_state st"
| "eval env (E_Subscript c i) st =
     bind_x (eval env c st) (\<lambda>st a. bind_x (eval env i st) (\<lambda>st b. (st, subscript env a b)))"
| "eval env (E_Call f args kws) st =
     (case f of
        E_Name name \<Rightarrow>
          bind_x (eval_list env args st) (\<lambda>st positional.
            bind_x (eval_kws env kws st) (\<lambda>st kwargs.
              if name = ''call'' then dispatch_tool env positional kwargs st
              else (st, call_builtin env name positional kwargs)))
      | _ \<Rightarrow> (st, Inl (X_Runtime ''only direct function calls are allowed'')))"
| "eval env (E_Attribute _ _) st = (st, Inl (X_Runtime ''unsupported expression''))"
| "eval env (E_Slice _) st = (st, Inl (X_Runtime ''unsupported expression''))"
| "eval env (E_Starred _) st = (st, Inl (X_Runtime ''unsupported expression''))"
| "eval env (E_Other _) st = (st, Inl (X_Runtime ''unsupported expression''))"
| "eval_list env [] st = (st, Inr [])"
| "eval_list env (e # es) st =
     bind_x (eval env e st) (\<lambda>st v. bind_x (eval_list env es st) (\<lambda>st vs. (st, Inr (v # vs))))"
| "eval_kws env [] st = (st, Inr [])"
| "eval_kws env ((name, e) # kws) st =
     (case name of
        None \<Rightarrow> (st, Inl (X_Runtime ''**kwargs unpacking is not allowed''))
      | Some k \<Rightarrow>
          bind_x (eval env e st) (\<lambda>st v.
            bind_x (eval_kws env kws st) (\<lambda>st kvs. (st, Inr ((k, v) # kvs)))))"
| "eval_entries env [] entries labels st = (st, Inr (lv (PDict entries) labels))"
| "eval_entries env ((key, e) # kvs) entries labels st =
     (case key of
        None \<Rightarrow> (st, Inl (X_Runtime ''dict unpacking is not allowed''))
      | Some ke \<Rightarrow>
          bind_x (eval env ke st) (\<lambda>st k. bind_x (eval env e st) (\<lambda>st v.
            if hashable (raw_of env k)
            then eval_entries env kvs (dict_put (pe_ops env) entries (raw_of env k) v)
                   (most_restrictive_inherit [labels, tags_of k, tags_of v]) st
            else (st, Inl (X_Python ''TypeError'')))))"
| "eval_bool env is_and [] results st =
     (st, if results = [] then Inl (X_Python ''IndexError'')
          else Inr (with_tags (last results) (union_tags results)))"
| "eval_bool env is_and (e # es) results st =
     bind_x (eval env e st) (\<lambda>st r.
       if holds env r = is_and then eval_bool env is_and es (results @ [r]) st
       else (st, Inr (lv (raw_of env r) (union_tags (results @ [r])))))"
| "eval_cmp env cur labels [] st = (st, Inr (lv (PBool True) labels))"
| "eval_cmp env cur labels ((cop, e) # ops) st =
     bind_x (eval env e st) (\<lambda>st r.
       let labels' = most_restrictive_inherit [labels, tags_of r]
       in case py_compare (pe_ops env) cop cur (raw_of env r) of
            Inl x \<Rightarrow> (st, Inl (X_Python x))
          | Inr True \<Rightarrow> eval_cmp env (raw_of env r) labels' ops st
          | Inr False \<Rightarrow> (st, Inr (lv (PBool False) labels')))"

  by pat_completeness auto

termination by size_change

section \<open>Assignments\<close>

text \<open>
  An index is evaluated without the interpreter loop: a constant or a name. A subscript target
  stores the raw value; the new labels are those of the container and of the value.
\<close>

definition eval_sync :: "'w prog_env \<Rightarrow> (string \<times> pv) list \<Rightarrow> expr \<Rightarrow> signal + pv" where
  "eval_sync env scope e =
     (case e of
        E_Const c \<Rightarrow> Inr (lv c empty_state)
      | E_Name x \<Rightarrow> name_value env scope x
      | _ \<Rightarrow> Inl (X_Runtime ''non-constant subscript index requires async eval''))"

definition set_scope :: "string \<Rightarrow> pv \<Rightarrow> 'w prog_state \<Rightarrow> 'w prog_state" where
  "set_scope x v st = st\<lparr>ps_scope := AList.update x v (ps_scope st)\<rparr>"

definition store_subscript ::
  "'w prog_env \<Rightarrow> expr \<Rightarrow> expr \<Rightarrow> pv \<Rightarrow> 'w prog_state \<Rightarrow> ('w, unit) outcome" where
  "store_subscript env root index value st =
     (case root of
        E_Name x \<Rightarrow>
          (case map_of (ps_scope st) x of
             None \<Rightarrow> (st, Inl (X_Runtime ''subscript assignment to undefined name''))
           | Some container \<Rightarrow>
               (case eval_sync env (ps_scope st) index of
                  Inl x \<Rightarrow> (st, Inl x)
                | Inr k \<Rightarrow>
                    (let raw = raw_of env container
                     in if \<not> (case raw of PList _ \<Rightarrow> True | PDict _ \<Rightarrow> True | _ \<Rightarrow> False)
                        then (st, Inl (X_Runtime ''cannot subscript-assign''))
                        else
                          (case py_setitem (pe_ops env) raw (raw_of env k) (raw_of env value) of
                             Inl e \<Rightarrow> (st, Inl (X_Python e))
                           | Inr raw' \<Rightarrow>
                               (set_scope x (lv raw' (most_restrictive_inherit
                                  [lab_state container, lab_state value])) st, Inr ())))))
      | _ \<Rightarrow> (st, Inl (X_Runtime ''subscript-assign root must be a bare name'')))"

function (sequential) assign :: "'w prog_env \<Rightarrow> expr \<Rightarrow> pv \<Rightarrow> 'w prog_state \<Rightarrow> ('w, unit) outcome"
and assign_list ::
  "'w prog_env \<Rightarrow> expr list \<Rightarrow> pv list \<Rightarrow> label_state \<Rightarrow> 'w prog_state \<Rightarrow> ('w, unit) outcome"
where
  "assign env (E_Name x) value st = (set_scope x value st, Inr ())"
| "assign env (E_Tuple ts) value st =
     (case raw_of env value of
        PList vs \<Rightarrow>
          if length vs = length ts then assign_list env ts vs (tags_of value) st
          else (st, Inl (X_Runtime ''unpack mismatch''))
      | PTuple vs \<Rightarrow>
          if length vs = length ts then assign_list env ts vs (tags_of value) st
          else (st, Inl (X_Runtime ''unpack mismatch''))
      | _ \<Rightarrow> (st, Inl (X_Runtime ''cannot unpack non-sequence in assignment'')))"
| "assign env (E_Subscript c i) value st = store_subscript env c i value st"
| "assign env t value st = (st, Inl (X_Runtime ''unsupported assignment target''))"
| "assign_list env (t # ts) (v # vs) labels st =
     bind_x (assign env t (lv v labels) st) (\<lambda>st _. assign_list env ts vs labels st)"
| "assign_list env ts vs labels st = (st, Inr ())"
  by pat_completeness auto

termination by size_change

text \<open>\<open>value if isinstance(value, LabeledValue) else lv(value)\<close>.\<close>

definition wrapped :: "pv \<Rightarrow> pv" where
  "wrapped v = (case v of Lab _ _ \<Rightarrow> v | _ \<Rightarrow> lv v empty_state)"

fun assign_all :: "'w prog_env \<Rightarrow> expr list \<Rightarrow> pv \<Rightarrow> 'w prog_state \<Rightarrow> ('w, unit) outcome" where
  "assign_all env [] v st = (st, Inr ())"
| "assign_all env (t # ts) v st = bind_x (assign env t v st) (\<lambda>st _. assign_all env ts v st)"

section \<open>Statements\<close>

text \<open>\<open>exec_loop\<close> tells whether the loop was left by \<open>break\<close>.\<close>

function (sequential) exec :: "'w prog_env \<Rightarrow> stmt \<Rightarrow> 'w prog_state \<Rightarrow> ('w, unit) outcome"
and exec_block :: "'w prog_env \<Rightarrow> stmt list \<Rightarrow> 'w prog_state \<Rightarrow> ('w, unit) outcome"
and exec_loop ::
  "'w prog_env \<Rightarrow> expr \<Rightarrow> stmt list \<Rightarrow> label_state \<Rightarrow> pv list \<Rightarrow> 'w prog_state \<Rightarrow> ('w, bool) outcome"
where
  "exec env S_Pass st = (st, Inr ())"
| "exec env S_Break st = (st, Inl X_Break)"
| "exec env S_Continue st = (st, Inl X_Continue)"
| "exec env (S_Return e) st =
     (case e of
        None \<Rightarrow> (st, Inl (X_Return None))
      | Some e \<Rightarrow> bind_x (eval env e st) (\<lambda>st v. (st, Inl (X_Return (Some (wrapped v))))))"
| "exec env (S_Expr e) st = bind_x (eval env e st) (\<lambda>st _. (st, Inr ()))"
| "exec env (S_Assign ts e) st =
     bind_x (eval env e st) (\<lambda>st v. assign_all env ts (wrapped v) st)"
| "exec env (S_AugAssign t bop e) st =
     bind_x (eval env t st) (\<lambda>st cur. bind_x (eval env e st) (\<lambda>st v.
       case apply_binop env bop cur v of
         Inl x \<Rightarrow> (st, Inl x)
       | Inr new \<Rightarrow> assign env t new st))"
| "exec env (S_If t body orelse) st =
     bind_x (eval env t st) (\<lambda>st c.
       if holds env c then exec_block env body st else exec_block env orelse st)"
| "exec env (S_For t e body orelse) st =
     bind_x (eval env e st) (\<lambda>st iterable.
       case py_iter (pe_ops env) (raw_of env iterable) of
         Inl x \<Rightarrow> (st, Inl (X_Python x))
       | Inr items \<Rightarrow>
           bind_x (exec_loop env t body (tags_of iterable) items st) (\<lambda>st broke.
             if broke then (st, Inr ()) else exec_block env orelse st))"
| "exec env (S_Other _) st = (st, Inl (X_Runtime ''unsupported statement''))"
| "exec_block env [] st = (st, Inr ())"
| "exec_block env (s # ss) st = bind_x (exec env s st) (\<lambda>st _. exec_block env ss st)"
| "exec_loop env t body labels [] st = (st, Inr False)"
| "exec_loop env t body labels (item # items) st =
     bind_x (assign env t (lv item labels) st) (\<lambda>st _.
       case exec_block env body st of
         (st, Inr _) \<Rightarrow> exec_loop env t body labels items st
       | (st, Inl X_Continue) \<Rightarrow> exec_loop env t body labels items st
       | (st, Inl X_Break) \<Rightarrow> (st, Inr True)
       | (st, Inl x) \<Rightarrow> (st, Inl x))"
  by pat_completeness auto

termination
proof (relation "measures [\<lambda>x. case x of Inl (env, s, st) \<Rightarrow> 2 * size s
      | Inr (Inl (env, ss, st)) \<Rightarrow> 2 * size_list size ss
      | Inr (Inr (env, t, body, labels, items, st)) \<Rightarrow> Suc (2 * size_list size body),
    \<lambda>x. case x of Inr (Inr (env, t, body, labels, items, st)) \<Rightarrow> length items | _ \<Rightarrow> 0]")
qed auto

section \<open>Programs\<close>

record execution_result =
  er_return_value :: "pv option"
  er_tool_calls :: "call_record list"
  er_final_scope :: "(string \<times> pv) list"
  er_error :: "policy_error option"

text \<open>
  \<open>run\<close>: a return and a refusal are results. Every other signal leaves it as an exception, with
  the state the world was left in.
\<close>

definition run_program ::
  "'w prog_env \<Rightarrow> stmt list \<Rightarrow> (string \<times> pv) list \<Rightarrow> 'w \<Rightarrow> 'w \<times> (signal + execution_result)" where
  "run_program env body scope w =
     (case exec_block env body \<lparr>ps_scope = scope, ps_calls = [], ps_world = w\<rparr> of (st, res) \<Rightarrow>
        let result = (\<lambda>v err. \<lparr>er_return_value = v, er_tool_calls = ps_calls st,
                        er_final_scope = ps_scope st, er_error = err\<rparr>)
        in (ps_world st,
            case res of
              Inr _ \<Rightarrow> Inr (result None None)
            | Inl (X_Return v) \<Rightarrow> Inr (result v None)
            | Inl (X_Policy p) \<Rightarrow> Inr (result None (Some p))
            | Inl x \<Rightarrow> Inl x))"

end
