(* ===== verification/Hooks.thy ===== *)
theory Hooks
  imports SessionGraph PolicyDecision Relationships Tools
begin

text \<open>
  The operator's extension hooks around a dispatch: the ports of \<open>substrate/\<close> (decision inspectors,
  declassifiers, raise-only inspectors), the named hook registry, and the class that runs them
  (\<open>tools/policy_hooks.py\<close>). A hook is operator code: it is a function, and where it may raise
  its result is a sum whose left side is the text of the exception. An f-string of a rule is its
  text; \<open>digest\<close> is the digest of a value.
\<close>

section \<open>Decision inspectors\<close>

datatype inspector_outcome = DecisionRelax decision string string | DecisionTighten decision string string

fun RESTRICTIVENESS :: "decision \<Rightarrow> nat" where
  "RESTRICTIVENESS ALLOW = 0"
| "RESTRICTIVENESS WARN = 1"
| "RESTRICTIVENESS REQUIRE_APPROVAL = 2"
| "RESTRICTIVENESS OVERRIDE_REQUIRED = 3"
| "RESTRICTIVENESS DENY = 4"

definition is_strictly_more_restrictive :: "decision \<Rightarrow> decision \<Rightarrow> bool" where
  "is_strictly_more_restrictive new old \<longleftrightarrow> RESTRICTIVENESS new > RESTRICTIVENESS old"

definition is_strictly_less_restrictive :: "decision \<Rightarrow> decision \<Rightarrow> bool" where
  "is_strictly_less_restrictive new old \<longleftrightarrow> RESTRICTIVENESS new < RESTRICTIVENESS old"

text \<open>An adjustment that counts: its decision, its rule under the inspector's name, its rationale.\<close>

type_synonym adjustment = "decision \<times> string \<times> string"

definition tightening ::
  "decision \<Rightarrow> string \<times> inspector_outcome \<Rightarrow> adjustment list" where
  "tightening proposed x =
     (case x of
        (name, DecisionTighten d rule why) \<Rightarrow>
          if is_strictly_more_restrictive d proposed then [(d, name @ '':'' @ rule, why)] else []
      | _ \<Rightarrow> [])"

definition relaxing ::
  "decision \<Rightarrow> string \<times> inspector_outcome \<Rightarrow> adjustment list" where
  "relaxing proposed x =
     (case x of
        (name, DecisionRelax d rule why) \<Rightarrow>
          if is_strictly_less_restrictive d proposed then [(d, name @ '':'' @ rule, why)] else []
      | _ \<Rightarrow> [])"

definition compose_inspector_outcomes ::
  "decision \<Rightarrow> (string \<times> inspector_outcome) list \<Rightarrow> adjustment option" where
  "compose_inspector_outcomes proposed outcomes =
     (case concat (map (tightening proposed) outcomes) of
        t # ts \<Rightarrow> Some (max_by (\<lambda>(d, _). RESTRICTIVENESS d) t ts)
      | [] \<Rightarrow>
          (case concat (map (relaxing proposed) outcomes) of
             r # rs \<Rightarrow> Some (min_by (\<lambda>(d, _). RESTRICTIVENESS d) r rs)
           | [] \<Rightarrow> None))"

text \<open>What an inspector is shown of the action.\<close>

record inspected_action =
  ia_kind :: kind
  ia_target :: string
  ia_amount :: "int option"
  ia_tool_name :: string
  ia_effect_class :: "string option"
  ia_relationship_group_ids :: "string list"
  ia_effective_reversibility :: "reversibility_label option"

record decision_inspector =
  di_name :: string
  di_failure_mode :: string
  di_inspect ::
    "inspected_action \<Rightarrow> session \<Rightarrow> policy_decision \<Rightarrow> string + inspector_outcome option"

section \<open>Declassifiers\<close>

record declassify_result =
  dr_transformed_value :: json
  dr_lower_axis_a_categories :: "(string \<times> string) list list"
  dr_lower_axis_b_level :: "string option"
  dr_audit_diff :: string
  dr_structural_proof_kind :: string

record declassifier =
  dl_name :: string
  dl_declassify :: "json \<Rightarrow> label_state \<Rightarrow> string \<Rightarrow> string + declassify_result option"

definition provenance_levels :: "provenance_level list" where
  "provenance_levels = [PRINCIPAL_DIRECT, SYSTEM_INTERNAL, EXTERNAL_UNTRUSTED]"

text \<open>The check of one category entry: \<open>True\<close> when it raises.\<close>

definition bad_category_entry :: "label_state \<Rightarrow> (string \<times> string) list \<Rightarrow> bool" where
  "bad_category_entry state entry \<longleftrightarrow>
     (let category = dict_get entry ''category'' []
      in if category = [] then True
         else case map_of (dict_of (map (\<lambda>t. (ct_category t, t)) (ls_a state)) []) category of
                None \<Rightarrow> True
              | Some current \<Rightarrow>
                  (case enum_of tier_value tiers (dict_get entry ''to_tier'' []) of
                     Inl _ \<Rightarrow> True
                   | Inr to_tier \<Rightarrow> compare to_tier (ct_tier current) \<ge> 0))"

definition bad_provenance_target :: "label_state \<Rightarrow> string \<Rightarrow> bool" where
  "bad_provenance_target state level \<longleftrightarrow>
     (case enum_of provenance_value provenance_levels level of
        Inl _ \<Rightarrow> True
      | Inr target \<Rightarrow>
          ls_b state = []
          \<or> \<not> list_ex (\<lambda>t. provenance_rank target < provenance_rank (pt_level t)) (ls_b state))"

definition validate_declassify_result ::
  "declassify_result \<Rightarrow> label_state \<Rightarrow> py_error option" where
  "validate_declassify_result r state =
     (if py_strip (dr_structural_proof_kind r) = [] \<or> py_strip (dr_audit_diff r) = []
         \<or> list_ex (bad_category_entry state) (dr_lower_axis_a_categories r)
         \<or> (case dr_lower_axis_b_level r of
              None \<Rightarrow> False | Some level \<Rightarrow> bad_provenance_target state level)
      then Some DeclassifierValidationError else None)"

section \<open>The hook registry\<close>

record raise_inspector =
  rp_name :: string
  rp_class_name :: string
  rp_inspect :: "json \<Rightarrow> label_state \<Rightarrow> py_error + label_state"

datatype hook_primitive =
    RaiseOnly raise_inspector | Declassifying declassifier | Deciding decision_inspector

definition STANDARD_HOOKS :: "string list" where
  "STANDARD_HOOKS =
     [''at_ingest.value_in'', ''at_ingest.declassifier_chain'', ''at_chokepoint.pre_decide'',
      ''at_chokepoint.decision'', ''at_chokepoint.post_decide'', ''at_dispatch.pre_dispatch'',
      ''at_dispatch.post_dispatch'', ''at_session.spawn'', ''at_session.terminate'']"

type_synonym hook_registry = "(string \<times> hook_primitive list) list"

definition hook_get :: "hook_registry \<Rightarrow> string \<Rightarrow> hook_primitive list" where
  "hook_get reg name = dict_get reg name []"

definition hook_register ::
  "hook_registry \<Rightarrow> string \<Rightarrow> hook_primitive \<Rightarrow> py_error + hook_registry" where
  "hook_register reg name p =
     (if name \<notin> set STANDARD_HOOKS then Inl HookError
      else Inr (AList.update name (hook_get reg name @ [p]) reg))"

fun hook_register_all ::
  "hook_registry \<Rightarrow> (string \<times> hook_primitive) list \<Rightarrow> py_error + hook_registry" where
  "hook_register_all reg [] = Inr reg"
| "hook_register_all reg ((name, p) # ps) =
     (case hook_register reg name p of Inl e \<Rightarrow> Inl e | Inr reg' \<Rightarrow> hook_register_all reg' ps)"

definition all_registered_hooks :: "hook_registry \<Rightarrow> string list" where
  "all_registered_hooks reg = sort (map fst (filter (\<lambda>(_, ps). ps \<noteq> []) reg))"

definition hooks_empty :: "hook_registry \<Rightarrow> bool" where
  "hooks_empty reg \<longleftrightarrow> list_all (\<lambda>(_, ps). ps = []) reg"

definition total_primitives :: "hook_registry \<Rightarrow> nat" where
  "total_primitives reg = sum_list (map (\<lambda>(_, ps). length ps) reg)"

definition hook_entries :: "hook_registry \<Rightarrow> (string \<times> hook_primitive list) list" where
  "hook_entries reg =
     map (\<lambda>name. (name, hook_get reg name))
       (filter (\<lambda>name. hook_get reg name \<noteq> []) (sort (map fst reg)))"

definition hook_extend :: "hook_registry \<Rightarrow> hook_registry \<Rightarrow> py_error + hook_registry" where
  "hook_extend reg other =
     hook_register_all reg
       (concat (map (\<lambda>(name, ps). map (\<lambda>p. (name, p)) ps) (hook_entries other)))"

text \<open>
  \<open>build_registry_from_policy_context\<close>: the three tuples of the context and its explicit registry.
  The tuples are untyped; an entry is whatever the operator put there.
\<close>

definition build_registry ::
  "hook_primitive list \<Rightarrow> hook_primitive list \<Rightarrow> hook_primitive list \<Rightarrow> hook_registry option
   \<Rightarrow> py_error + hook_registry" where
  "build_registry inspectors declassifiers decision_inspectors explicit =
     (case hook_register_all []
        (map (\<lambda>p. (''at_ingest.value_in'', p)) inspectors
         @ map (\<lambda>p. (''at_ingest.declassifier_chain'', p)) declassifiers
         @ map (\<lambda>p. (''at_chokepoint.decision'', p)) decision_inspectors) of
        Inl e \<Rightarrow> Inl e
      | Inr reg \<Rightarrow> (case explicit of None \<Rightarrow> Inr reg | Some other \<Rightarrow> hook_extend reg other))"

section \<open>Decision inspectors at the chokepoint\<close>

text \<open>
  What only the run time knows of texts: the \<open>str\<close> of values, the message of a reason the model
  keeps by its ingredients, and the digest and the length of a value's JSON.
\<close>

record call_text =
  tx_py :: py_text
  tx_reason :: "reason \<Rightarrow> string"
  tx_digest :: "json \<Rightarrow> json"
  tx_size :: "json \<Rightarrow> int"

definition reason_text :: "call_text \<Rightarrow> policy_decision \<Rightarrow> json" where
  "reason_text tx pd = jopt (\<lambda>r. JStr (tx_reason tx r)) (pd_reason pd)"

definition event ::
  "string \<Rightarrow> uuid \<Rightarrow> (string \<times> json) list \<Rightarrow> session_graph \<Rightarrow> session_graph" where
  "event ty sid payload g =
     write_event \<lparr>ae_event_type = ty, ae_session_id = Some sid, ae_payload = payload\<rparr> g"

fun primitive_name :: "hook_primitive \<Rightarrow> string" where
  "primitive_name (RaiseOnly p) = rp_name p"
| "primitive_name (Declassifying p) = dl_name p"
| "primitive_name (Deciding p) = di_name p"

text \<open>
  A primitive of another port has no \<open>inspect\<close> of this shape: the call raises, and it has no failure
  mode of its own.
\<close>

definition inspect_with ::
  "hook_primitive \<Rightarrow> inspected_action \<Rightarrow> session \<Rightarrow> policy_decision
   \<Rightarrow> string + inspector_outcome option" where
  "inspect_with p a s pd =
     (case p of Deciding i \<Rightarrow> di_inspect i a s pd | _ \<Rightarrow> Inl ''not a decision inspector'')"

definition failure_mode :: "hook_primitive \<Rightarrow> string" where
  "failure_mode p = (case p of Deciding i \<Rightarrow> di_failure_mode i | _ \<Rightarrow> ''abstain'')"

definition inspector_error ::
  "decision \<Rightarrow> string \<Rightarrow> string \<Rightarrow> policy_decision \<Rightarrow> policy_decision" where
  "inspector_error d name exc pd =
     pd\<lparr>pd_decision := d, pd_rule := Some (name @ '':inspector-error''),
        pd_reason := Some (InspectorFailed name exc)\<rparr>"

text \<open>The loop: the outcomes collected, or the decision a failure closes on.\<close>

fun run_inspectors ::
  "hook_primitive list \<Rightarrow> inspected_action \<Rightarrow> session \<Rightarrow> policy_decision \<Rightarrow> uuid \<Rightarrow> session_graph
   \<Rightarrow> session_graph \<times> (policy_decision + (string \<times> inspector_outcome) list)" where
  "run_inspectors [] a s pd sid g = (g, Inr [])"
| "run_inspectors (p # ps) a s pd sid g =
     (case inspect_with p a s pd of
        Inl exc \<Rightarrow>
          (let g = event ''policy.decided'' sid
                 [(''tool'', JStr (ia_tool_name a)), (''decision_inspector_error'', JStr exc),
                  (''inspector'', JStr (primitive_name p))] g
           in if failure_mode p = ''deny'' then (g, Inl (inspector_error DENY (primitive_name p) exc pd))
              else if failure_mode p = ''require_approval'' \<and> pd_decision pd = ALLOW
              then (g, Inl (inspector_error REQUIRE_APPROVAL (primitive_name p) exc pd))
              else run_inspectors ps a s pd sid g)
      | Inr outcome \<Rightarrow>
          (case run_inspectors ps a s pd sid g of
             (g, Inl closed) \<Rightarrow> (g, Inl closed)
           | (g, Inr rest) \<Rightarrow>
               (g, Inr (case outcome of None \<Rightarrow> rest | Some x \<Rightarrow> (primitive_name p, x) # rest))))"

definition relaxation_refused ::
  "string \<Rightarrow> string \<Rightarrow> decision \<Rightarrow> decision \<Rightarrow> string \<Rightarrow> uuid \<Rightarrow> session_graph \<Rightarrow> session_graph" where
  "relaxation_refused tool rule base attempted why sid g =
     event ''policy.relaxation_refused'' sid
       [(''tool'', JStr tool), (''refused_rule'', JStr rule),
        (''base_decision'', JStr (decision_value base)),
        (''attempted_decision'', JStr (decision_value attempted)), (''reason'', JStr why)] g"

definition apply_adjustment ::
  "string \<Rightarrow> adjustment \<Rightarrow> policy_decision \<Rightarrow> uuid \<Rightarrow> session_graph
   \<Rightarrow> session_graph \<times> policy_decision" where
  "apply_adjustment tool adj proposed sid g =
     (case adj of (new, rule, rationale) \<Rightarrow>
        if is_strictly_less_restrictive new (pd_decision proposed)
           \<and> pd_decision proposed \<noteq> REQUIRE_APPROVAL
        then (relaxation_refused tool rule (pd_decision proposed) new
                (''inspector relax may not cross a structural floor ''
                 @ ''(only REQUIRE_APPROVAL is relaxable)'') sid g, proposed)
        else if new = WARN \<and> pd_decision proposed \<noteq> ALLOW
        then (relaxation_refused tool rule (pd_decision proposed) new
                (''WARN is non-blocking only after an ALLOW base decision; ''
                 @ ''it may not weaken approval or hard floors'') sid g, proposed)
        else (event ''decision_inspector.applied'' sid
                [(''tool'', JStr tool), (''applied_rule'', JStr rule),
                 (''original_decision'', JStr (decision_value (pd_decision proposed))),
                 (''adjusted_decision'', JStr (decision_value new)),
                 (''rationale'', JStr rationale)] g,
              proposed\<lparr>pd_decision := new, pd_rule := Some rule,
                pd_reason := (if rationale \<noteq> [] then Some (InspectorRationale rationale)
                              else pd_reason proposed)\<rparr>))"

definition apply_decision_inspectors ::
  "hook_primitive list \<Rightarrow> inspected_action \<Rightarrow> session \<Rightarrow> policy_decision \<Rightarrow> uuid \<Rightarrow> session_graph
   \<Rightarrow> session_graph \<times> policy_decision" where
  "apply_decision_inspectors inspectors a s proposed sid g =
     (case run_inspectors inspectors a s proposed sid g of
        (g, Inl closed) \<Rightarrow> (g, closed)
      | (g, Inr outcomes) \<Rightarrow>
          (case compose_inspector_outcomes (pd_decision proposed) outcomes of
             None \<Rightarrow> (g, proposed)
           | Some adj \<Rightarrow> apply_adjustment (ia_tool_name a) adj proposed sid g))"

section \<open>Shadow mode\<close>

text \<open>
  \<open>"no matching capability" in reason.lower()\<close>. The phrase is a fixed part of one message only;
  elsewhere it can only come from a text the message quotes.
\<close>

fun quoted_texts :: "reason \<Rightarrow> string list" where
  "quoted_texts (OverrideGrantAuthorizes _ k t _) = [k, t]"
| "quoted_texts (BindingRefused t) = [t]"
| "quoted_texts (GateRationale DeclaredReversibility) = []"
| "quoted_texts (GateRationale (SocialCommitmentForced e)) = [e]"
| "quoted_texts (ControlPlaneTainted e) = [e]"
| "quoted_texts (SandboxMissing e) = [e]"
| "quoted_texts (DevboxMissing e) = [e]"
| "quoted_texts (OrphanRisk c ids) = c # ids"
| "quoted_texts (ClearanceRefused _ c _) = [c]"
| "quoted_texts (IntegrityRefused f l) = [f, l]"
| "quoted_texts (EnvelopeReason cell _ _) =
     [ck_category cell, ck_effect cell, ck_decision_context_canonical cell, ck_reversibility cell]"
| "quoted_texts (UntrustedEgress k) = [k]"
| "quoted_texts (HealthEgress k) = [k]"
| "quoted_texts (FinancialEgress k) = [k]"
| "quoted_texts (RelaxRefused os) = os"
| "quoted_texts (CapabilityExpired k t _ _) = [k, t]"
| "quoted_texts (RateLimitExceeded _ k t _ _) = [k, t]"
| "quoted_texts (NoMatchingCapability k t) = [k, t]"
| "quoted_texts (CascadedInert k t _) = [k, t]"
| "quoted_texts (RevokedByPriorUse k ks) = k # ks"
| "quoted_texts (DestructiveNeedsFlag k t) = [k, t]"
| "quoted_texts (V2Rationale (NoLiveRule _ ids)) = ids"
| "quoted_texts (V2Rationale (MatchedRules ids _ shadowed)) = ids @ shadowed"
| "quoted_texts (FirstUseOfKind k) = [k]"
| "quoted_texts (RestrictedSource t) = [t]"
| "quoted_texts (InspectorFailed n e) = [n, e]"
| "quoted_texts (InspectorRationale t) = [t]"
| "quoted_texts (ShadowedDecision _ r) = [r]"
| "quoted_texts _ = []"

definition says_no_capability :: "reason \<Rightarrow> bool" where
  "says_no_capability r \<longleftrightarrow>
     (\<exists>k t. r = NoMatchingCapability k t)
     \<or> list_ex (\<lambda>s. contains ''no matching capability'' (py_lower s)) (quoted_texts r)"

lemma says_no_capability_code [code]:
  "says_no_capability r \<longleftrightarrow> (case r of NoMatchingCapability _ _ \<Rightarrow> True | _ \<Rightarrow>
     list_ex (\<lambda>s. contains ''no matching capability'' (py_lower s)) (quoted_texts r))"
  by (cases r) (auto simp: says_no_capability_def)

definition maybe_shadow_rewrite ::
  "call_text \<Rightarrow> session \<Rightarrow> string \<Rightarrow> string \<Rightarrow> policy_decision \<Rightarrow> uuid \<Rightarrow> session_graph
   \<Rightarrow> session_graph \<times> policy_decision" where
  "maybe_shadow_rewrite tx s tool_name target proposed sid g =
     (if s_enforcement_mode s \<noteq> SHADOW then (g, proposed)
      else if pd_decision proposed \<in> {ALLOW, WARN} then (g, proposed)
      else case pd_rule proposed of
             None \<Rightarrow> (g, proposed)
           | Some rule \<Rightarrow>
               if rule = [] \<or> (case pd_reason proposed of None \<Rightarrow> False | Some r \<Rightarrow> says_no_capability r)
               then (g, proposed)
               else (event ''policy.shadowed'' sid
                       [(''tool'', JStr tool_name),
                        (''would_be_decision'', JStr (decision_value (pd_decision proposed))),
                        (''rule'', JStr rule), (''reason'', reason_text tx proposed),
                        (''target'', JStr target)] g,
                     proposed\<lparr>pd_decision := ALLOW,
                       pd_reason := Some (ShadowedDecision (pd_decision proposed) rule)\<rparr>))"

section \<open>Declassifiers at ingest\<close>

text \<open>
  Each transformer sees the value of the one before it, and always the labels at the start. A
  failure is the text of the exception, or the refusal of a result.
\<close>

datatype declassify_fault = TransformerRaised string | ResultRefused py_error

definition declassify_with ::
  "hook_primitive \<Rightarrow> json \<Rightarrow> label_state \<Rightarrow> string \<Rightarrow> string + declassify_result option" where
  "declassify_with p value state tool =
     (case p of Declassifying d \<Rightarrow> dl_declassify d value state tool | _ \<Rightarrow> Inl ''not a declassifier'')"

fun apply_declassifier_chain ::
  "hook_primitive list \<Rightarrow> json \<Rightarrow> label_state \<Rightarrow> string
   \<Rightarrow> declassify_fault + json \<times> declassify_result list" where
  "apply_declassifier_chain [] value state tool = Inr (value, [])"
| "apply_declassifier_chain (d # ds) value state tool =
     (case declassify_with d value state tool of
        Inl e \<Rightarrow> Inl (TransformerRaised e)
      | Inr None \<Rightarrow> apply_declassifier_chain ds value state tool
      | Inr (Some r) \<Rightarrow>
          (case validate_declassify_result r state of
             Some e \<Rightarrow> Inl (ResultRefused e)
           | None \<Rightarrow>
               (case apply_declassifier_chain ds (dr_transformed_value r) state tool of
                  Inl e \<Rightarrow> Inl e
                | Inr (v, rs) \<Rightarrow> Inr (v, r # rs))))"

definition fault_json :: "declassify_fault \<Rightarrow> json" where
  "fault_json f =
     (case f of TransformerRaised e \<Rightarrow> JStr e
      | ResultRefused _ \<Rightarrow> JText [JStr ''declassifier result refused''])"

definition removed_categories :: "declassify_result \<Rightarrow> string list" where
  "removed_categories r =
     concat (map (\<lambda>entry.
         let category = dict_get entry ''category'' []
         in if py_lower (dict_get entry ''to_tier'' []) = ''none'' \<and> category \<noteq> []
            then [category] else [])
       (dr_lower_axis_a_categories r))"

definition removed_levels :: "declassify_result \<Rightarrow> provenance_level list" where
  "removed_levels r =
     (case dr_lower_axis_b_level r of
        None \<Rightarrow> []
      | Some s \<Rightarrow>
          (case enum_of provenance_value provenance_levels s of
             Inl _ \<Rightarrow> []
           | Inr target \<Rightarrow>
               filter (\<lambda>l. provenance_rank l > provenance_rank target) provenance_levels))"

definition declassifier_events ::
  "call_text \<Rightarrow> string \<Rightarrow> json \<Rightarrow> uuid \<Rightarrow> declassify_result \<Rightarrow> uuid \<Rightarrow> session_graph \<Rightarrow> session_graph" where
  "declassifier_events tx tool_name final_value sid r eid g =
     provenance_node (Some sid) (JText [JStr ''declassifier_output:'', JUuid eid])
       ''declassifier_output''
       (JText [JStr ''declassifier:'', JStr tool_name, JStr '':'', JUuid eid]) None (Some eid)
       [(''tool'', JStr tool_name), (''structural_proof_kind'', JStr (dr_structural_proof_kind r)),
        (''output_digest'', tx_digest tx final_value)]
       (event ''declassifier.applied'' sid
          [(''tool'', JStr tool_name),
           (''structural_proof_kind'', JStr (dr_structural_proof_kind r)),
           (''audit_diff'', JStr (dr_audit_diff r)),
           (''lower_axis_a_categories'',
             JList (map (\<lambda>e. JDict (map (\<lambda>(k, v). (k, JStr v)) e)) (dr_lower_axis_a_categories r))),
           (''lower_axis_b_level'', jopt JStr (dr_lower_axis_b_level r))] g)"

fun declassified_events ::
  "call_text \<Rightarrow> string \<Rightarrow> json \<Rightarrow> uuid \<Rightarrow> declassify_result list \<Rightarrow> uuid list \<Rightarrow> session_graph
   \<Rightarrow> session_graph" where
  "declassified_events tx tool_name final_value sid [] eids g = g"
| "declassified_events tx tool_name final_value sid (r # rs) eids g =
     declassified_events tx tool_name final_value sid rs (tl eids)
       (declassifier_events tx tool_name final_value sid r (hd eids) g)"

definition apply_declassifiers ::
  "call_text \<Rightarrow> hook_primitive list \<Rightarrow> session \<Rightarrow> string \<Rightarrow> json \<Rightarrow> label_state \<Rightarrow> label_state
   \<Rightarrow> uuid list \<Rightarrow> uuid \<Rightarrow> session_graph \<Rightarrow> session_graph \<times> json \<times> label_state" where
  "apply_declassifiers tx declassifiers s tool_name value inherent additional eids sid g =
     (if declassifiers = [] then (g, value, empty_state)
      else
        (case apply_declassifier_chain declassifiers value
                (most_restrictive_inherit [s_label_state s, inherent, additional]) tool_name of
           Inl f \<Rightarrow>
             (event ''declassifier.applied'' sid
                [(''tool'', JStr tool_name), (''error'', fault_json f)] g, value, empty_state)
         | Inr (final_value, applied) \<Rightarrow>
             (let g = declassified_events tx tool_name final_value sid applied eids g;
                  cats = concat (map removed_categories applied);
                  lvls = concat (map removed_levels applied)
              in (g, final_value,
                  \<lparr>ls_a = filter (\<lambda>t. ct_category t \<in> set cats) (ls_a inherent @ ls_a additional),
                   ls_b = filter (\<lambda>t. pt_level t \<in> set lvls) (ls_b inherent @ ls_b additional)\<rparr>))))"

section \<open>Raise-only inspectors at ingest\<close>

text \<open>
  \<open>len\<close> of a label set that is kept as a list. Labels are compared as sets. A primitive of another
  port raises, and nothing catches it here.
\<close>

definition inspect_value ::
  "hook_primitive \<Rightarrow> json \<Rightarrow> label_state \<Rightarrow> py_error + label_state" where
  "inspect_value p value labels =
     (case p of RaiseOnly i \<Rightarrow> rp_inspect i value labels | Deciding _ \<Rightarrow> Inl TypeError
      | Declassifying _ \<Rightarrow> Inl AttributeError)"

definition inspector_class :: "hook_primitive \<Rightarrow> string" where
  "inspector_class p = (case p of RaiseOnly i \<Rightarrow> rp_class_name i | _ \<Rightarrow> [])"

fun raise_labels ::
  "hook_primitive list \<Rightarrow> json \<Rightarrow> uuid \<Rightarrow> label_state \<Rightarrow> session_graph
   \<Rightarrow> session_graph \<times> (py_error + label_state)" where
  "raise_labels [] value sid labels g = (g, Inr labels)"
| "raise_labels (p # ps) value sid labels g =
     (case inspect_value p value labels of
        Inl e \<Rightarrow> (g, Inl e)
      | Inr delta \<Rightarrow>
          (let new = inherit labels delta;
               g = (if same_labels new labels then g
                    else event ''inspector.applied'' sid
                      [(''inspector'', JStr (inspector_class p)),
                       (''raised_axis_a'', JBool (length (remdups (ls_a new)) > length (remdups (ls_a labels)))),
                       (''raised_axis_b'', JBool (length (remdups (ls_b new)) > length (remdups (ls_b labels))))] g)
           in raise_labels ps value sid new g))"

text \<open>
  The session stored back is the one read when the call began, with its labels raised: what changed
  in the graph since then is overwritten.
\<close>

definition apply_inspectors ::
  "hook_primitive list \<Rightarrow> session \<Rightarrow> json \<Rightarrow> session_graph \<Rightarrow> session_graph \<times> py_error option" where
  "apply_inspectors inspectors s value g =
     (case raise_labels inspectors value (s_id s) (s_label_state s) g of
        (g, Inl e) \<Rightarrow> (g, Some e)
      | (g, Inr new) \<Rightarrow>
          if same_labels new (s_label_state s) then (g, None)
          else (case commit g (s\<lparr>s_label_state := new\<rparr>) of
                  Inl e \<Rightarrow> (g, Some e)
                | Inr g' \<Rightarrow> (g', None)))"

end
