(* ===== verification/Approval.thy ===== *)
theory Approval
  imports Tools SessionGraph
begin

text \<open>
  The approval queue (\<open>approval/queue.py\<close>), standing approval patterns (\<open>approval/pattern.py\<close>)
  and approval signatures (\<open>approval/signer.py\<close>). A queue is its requests, the optional review
  database behind them, the optional allocator of identifiers (a database and a marker file), the
  patterns and the configuration. Operations also thread the session graph, which holds the
  sessions an approval is re-checked against and the audit log. Readings of the clock and fresh
  identifiers are arguments; \<open>text_of\<close> is the text of a payload that is not a plain string.
\<close>

section \<open>Patterns\<close>

record pattern_rule =
  pr_id :: uuid
  pr_action :: approval_action
  pr_target_pattern :: string
  pr_payload_pattern :: "string option"
  pr_created_at :: time
  pr_expires_at :: time
  pr_created_by :: string
  pr_revoked :: bool
  pr_auto_approval_count :: int
  pr_labels_required :: "string list"
  pr_audit_tag :: string

definition FORBIDDEN_GLOBS :: "string list" where
  "FORBIDDEN_GLOBS = [''*'', ''**'', ''*@*'', ''?'', ''[*]'']"

text \<open>A character \<open>\w\<close> matches, among those below 256.\<close>

definition word_char :: "char \<Rightarrow> bool" where
  "word_char c \<longleftrightarrow> ascii_alpha c \<or> char_in c 48 57 \<or> c = CHR ''_''
     \<or> (of_char c :: nat) \<in> {170, 178, 179, 181, 185, 186, 188, 189, 190}
     \<or> (char_in c 192 255 \<and> (of_char c :: nat) \<noteq> 215 \<and> (of_char c :: nat) \<noteq> 247)"

definition anchored_glob :: "string \<Rightarrow> bool" where
  "anchored_glob s \<longleftrightarrow> prefix ''*@'' s \<and> drop 2 s \<noteq> []
     \<and> list_all (\<lambda>c. word_char c \<or> c = CHR ''.'' \<or> c = CHR ''-'') (drop 2 s)"

definition validate_target_pattern :: "string \<Rightarrow> py_error option" where
  "validate_target_pattern pat =
     (let stripped = py_strip pat
      in if pat = [] \<or> stripped = [] then Some PatternValidationError
         else if stripped \<in> set FORBIDDEN_GLOBS then Some PatternValidationError
         else if prefix ''*'' stripped \<and> \<not> anchored_glob stripped
         then Some PatternValidationError
         else None)"

definition day_us :: int where "day_us = 86400000000"

definition create_pattern ::
  "approval_action \<Rightarrow> string \<Rightarrow> int \<Rightarrow> string \<Rightarrow> string option \<Rightarrow> string list \<Rightarrow> string
   \<Rightarrow> uuid \<Rightarrow> time \<Rightarrow> py_error + pattern_rule" where
  "create_pattern act pat ttl created_by payload_pattern labels_required audit_tag pid now =
     (case validate_target_pattern pat of
        Some e \<Rightarrow> Inl e
      | None \<Rightarrow>
          if ttl \<le> 0 then Inl PatternValidationError
          else if ttl > 30 * day_us then Inl PatternValidationError
          else Inr \<lparr>pr_id = pid, pr_action = act, pr_target_pattern = pat,
                    pr_payload_pattern = payload_pattern, pr_created_at = now,
                    pr_expires_at = now + ttl, pr_created_by = created_by, pr_revoked = False,
                    pr_auto_approval_count = 0, pr_labels_required = labels_required,
                    pr_audit_tag = audit_tag\<rparr>)"

text \<open>The strings a request's incoming labels are compared and signed as.\<close>

definition request_label_values :: "label_state \<Rightarrow> string list" where
  "request_label_values l =
     remdups (map (\<lambda>t. ''confidential.'' @ ct_category t) (ls_a l)
       @ concat (map (\<lambda>t. case pt_level t of
            EXTERNAL_UNTRUSTED \<Rightarrow> [''untrusted.external'']
          | PRINCIPAL_DIRECT \<Rightarrow> [''trusted.user_direct'']
          | SYSTEM_INTERNAL \<Rightarrow> []) (ls_b l)))"

definition pattern_expired :: "pattern_rule \<Rightarrow> time \<Rightarrow> bool" where
  "pattern_expired r now \<longleftrightarrow> pr_expires_at r \<le> now"

definition pattern_rule_matches ::
  "(json \<Rightarrow> string) \<Rightarrow> time \<Rightarrow> pattern_rule \<Rightarrow> approval_request \<Rightarrow> bool" where
  "pattern_rule_matches text_of now r req \<longleftrightarrow>
     \<not> (pr_revoked r \<or> pattern_expired r now)
     \<and> ar_action req = pr_action r
     \<and> fnmatchcase (ar_target req) (pr_target_pattern r)
     \<and> (pr_labels_required r = []
        \<or> set (pr_labels_required r) \<subseteq> set (request_label_values (ar_labels_in req)))
     \<and> (case pr_payload_pattern r of
          None \<Rightarrow> True
        | Some p \<Rightarrow> fnmatchcase (py_str text_of (ar_payload req)) p)"

type_synonym patterns = "(uuid \<times> pattern_rule) list"

definition pattern_add :: "patterns \<Rightarrow> pattern_rule \<Rightarrow> patterns" where
  "pattern_add ps r = AList.update (pr_id r) r ps"

definition pattern_revoke :: "patterns \<Rightarrow> uuid \<Rightarrow> patterns \<times> pattern_rule option" where
  "pattern_revoke ps pid =
     (case map_of ps pid of
        None \<Rightarrow> (ps, None)
      | Some r \<Rightarrow> (let r' = r\<lparr>pr_revoked := True\<rparr> in (AList.update pid r' ps, Some r')))"

definition find_match ::
  "(json \<Rightarrow> string) \<Rightarrow> time \<Rightarrow> patterns \<Rightarrow> approval_request \<Rightarrow> pattern_rule option" where
  "find_match text_of now ps req =
     find (\<lambda>r. pattern_rule_matches text_of now r req) (map snd ps)"

definition increment_use :: "patterns \<Rightarrow> uuid \<Rightarrow> patterns" where
  "increment_use ps pid =
     (case map_of ps pid of
        None \<Rightarrow> ps
      | Some r \<Rightarrow>
          AList.update pid (r\<lparr>pr_auto_approval_count := pr_auto_approval_count r + 1\<rparr>) ps)"

section \<open>Signatures\<close>

record signature =
  sg_algorithm :: string
  sg_key_id :: string
  sg_signature :: json

definition signature_to_dict :: "signature \<Rightarrow> json" where
  "signature_to_dict s =
     JDict [(''algorithm'', JStr (sg_algorithm s)), (''key_id'', JStr (sg_key_id s)),
            (''signature_b64'', sg_signature s)]"

definition canonical_payload ::
  "int \<Rightarrow> string \<Rightarrow> string \<Rightarrow> json \<Rightarrow> string list \<Rightarrow> json" where
  "canonical_payload approval_id act target payload labels_in =
     json_dumps (JDict
       [(''action'', JStr act), (''approval_id'', JInt approval_id),
        (''labels_in'', JList (map JStr (sort (remdups labels_in)))), (''payload'', payload),
        (''target'', JStr target)])"

text \<open>
  \<open>SoftwareKeySigner\<close>: \<open>mac\<close> is HMAC-SHA-256, and the base64 text of a digest is kept as the digest;
  a text that is not base64 is any other value.
\<close>

datatype mac_text = Digest json | NotBase64

record software_key =
  sk_key :: json
  sk_key_id :: string

record mac_signature =
  ms_algorithm :: string
  ms_key_id :: string
  ms_mac :: mac_text

definition software_sign :: "(json \<Rightarrow> json \<Rightarrow> json) \<Rightarrow> software_key \<Rightarrow> json \<Rightarrow> mac_signature" where
  "software_sign mac k msg =
     \<lparr>ms_algorithm = ''hmac-sha256'', ms_key_id = sk_key_id k, ms_mac = Digest (mac (sk_key k) msg)\<rparr>"

definition software_verify ::
  "(json \<Rightarrow> json \<Rightarrow> json) \<Rightarrow> software_key \<Rightarrow> json \<Rightarrow> mac_signature \<Rightarrow> py_error + bool" where
  "software_verify mac k msg s =
     (if ms_algorithm s \<noteq> ''hmac-sha256'' then Inr False
      else if ms_key_id s \<noteq> sk_key_id k then Inr False
      else case ms_mac s of
             NotBase64 \<Rightarrow> Inl SignerError
           | Digest d \<Rightarrow> Inr (d = mac (sk_key k) msg))"

section \<open>The queue\<close>

text \<open>
  The allocator: \<open>None\<close> in place of a file that does not exist. A database that exists holds one
  row, the next identifier and the namespace of its marker.
\<close>

record id_store =
  is_db :: "(int \<times> uuid) option"
  is_marker :: "uuid option"

record approval_queue =
  q_next_id :: int
  q_id_store :: "id_store option"
  q_requests :: "(int \<times> approval_request) list"
  q_reviews :: "(int \<times> request_dict) list option"
  q_patterns :: patterns
  q_default_ttl :: int
  q_has_graph :: bool
  q_scheduled :: "audit_event list"

text \<open>\<open>record\<close>: to the database first, then to memory.\<close>

definition record_request :: "approval_queue \<Rightarrow> approval_request \<Rightarrow> approval_queue" where
  "record_request q r =
     q\<lparr>q_reviews := map_option (AList.update (ar_id r) (request_to_dict r)) (q_reviews q),
       q_requests := AList.update (ar_id r) r (q_requests q)\<rparr>"

text \<open>A request that was pending when the daemon stopped comes back expired.\<close>

definition recovered :: "time \<Rightarrow> approval_request \<Rightarrow> approval_request" where
  "recovered now r =
     (if ar_status r = AP_PENDING
      then r\<lparr>ar_status := AP_EXPIRED, ar_decision_at := Some now,
             ar_decided_by := Some ''daemon-restart''\<rparr>
      else r)"

fun reload_rows ::
  "kind_registry \<Rightarrow> time \<Rightarrow> uuid list \<Rightarrow> approval_queue \<Rightarrow> request_dict list
   \<Rightarrow> py_error + approval_queue" where
  "reload_rows reg now fresh q [] = Inr q"
| "reload_rows reg now fresh q (d # ds) =
     (case request_from_dict reg (hd fresh) d of
        Inl e \<Rightarrow> Inl e
      | Inr r \<Rightarrow>
          (let q' = record_request q (recovered now r)
           in reload_rows reg now (tl fresh) (q'\<lparr>q_next_id := max (q_next_id q') (ar_id r + 1)\<rparr>) ds))"

definition queue_start ::
  "kind_registry \<Rightarrow> bool \<Rightarrow> int \<Rightarrow> id_store option \<Rightarrow> (int \<times> request_dict) list option \<Rightarrow> patterns
   \<Rightarrow> time \<Rightarrow> uuid list \<Rightarrow> py_error + approval_queue" where
  "queue_start reg has_graph ttl ids reviews pats now fresh =
     reload_rows reg now fresh
       \<lparr>q_next_id = 1, q_id_store = ids, q_requests = [], q_reviews = reviews, q_patterns = pats,
        q_default_ttl = max 0 ttl, q_has_graph = has_graph, q_scheduled = []\<rparr>
       (map snd (sort_key fst (case reviews of None \<Rightarrow> [] | Some rows \<Rightarrow> rows)))"

text \<open>
  \<open>_allocate_id\<close>; \<open>micros\<close> is \<open>time_ns() // 1000\<close> and \<open>ns\<close> a fresh namespace. A refusal rolls the
  database back, but the marker of a first allocation is already written.
\<close>

definition allocate_id ::
  "approval_queue \<Rightarrow> int \<Rightarrow> uuid \<Rightarrow> approval_queue \<times> (py_error + int)" where
  "allocate_id q micros ns =
     (case q_id_store q of
        None \<Rightarrow> (q\<lparr>q_next_id := q_next_id q + 1\<rparr>, Inr (q_next_id q))
      | Some st \<Rightarrow>
          if (is_db st = None) \<noteq> (is_marker st = None) then (q, Inl ApprovalStateError)
          else
            (let marker = (case is_marker st of Some m \<Rightarrow> m | None \<Rightarrow> ns);
                 (next, owner) = (case is_db st of Some row \<Rightarrow> row | None \<Rightarrow> (micros, marker))
             in if owner \<noteq> marker then (q, Inl ApprovalStateError)
                else if \<not> (0 < next \<and> next < 2 ^ 53 - 1)
                then (q\<lparr>q_id_store := Some (st\<lparr>is_marker := Some marker\<rparr>)\<rparr>, Inl ApprovalStateError)
                else (q\<lparr>q_id_store := Some \<lparr>is_db = Some (next + 1, owner), is_marker = Some marker\<rparr>\<rparr>,
                      Inr next)))"

section \<open>Expiry\<close>

definition expired_event :: "approval_request \<Rightarrow> audit_event" where
  "expired_event r =
     \<lparr>ae_event_type = ''approval.expired'', ae_session_id = Some (ar_from_session r),
      ae_payload = [(''approval_id'', JInt (ar_id r)),
        (''action'', JStr (approval_action_value (ar_action r))), (''target'', JStr (ar_target r)),
        (''expired_at'', jopt JTime (ar_decision_at r))]\<rparr>"

definition maybe_expire ::
  "approval_queue \<Rightarrow> approval_request \<Rightarrow> time \<Rightarrow> approval_queue \<times> approval_request" where
  "maybe_expire q r now =
     (if ar_status r \<noteq> AP_PENDING then (q, r)
      else case ar_expires_at r of
             None \<Rightarrow> (q, r)
           | Some t \<Rightarrow>
               if now < t then (q, r)
               else
                 (let r' = r\<lparr>ar_status := AP_EXPIRED, ar_decision_at := Some now,
                             ar_decided_by := Some ''ttl''\<rparr>;
                      q' = record_request q r'
                  in (q'\<lparr>q_scheduled := q_scheduled q' @ [expired_event r']\<rparr>, r')))"

definition sweep_expired :: "approval_queue \<Rightarrow> time \<Rightarrow> approval_queue" where
  "sweep_expired q now =
     foldl (\<lambda>q r. fst (maybe_expire q r now)) q (map snd (q_requests q))"

definition queue_get ::
  "approval_queue \<Rightarrow> int \<Rightarrow> time \<Rightarrow> approval_queue \<times> (py_error + approval_request)" where
  "queue_get q rid now =
     (case map_of (q_requests q) rid of
        None \<Rightarrow> (q, Inl ApprovalNotFoundError)
      | Some r \<Rightarrow> (let (q', r') = maybe_expire q r now in (q', Inr r')))"

definition queue_list ::
  "approval_queue \<Rightarrow> approval_status option \<Rightarrow> time \<Rightarrow> approval_queue \<times> approval_request list" where
  "queue_list q st now =
     (let q' = sweep_expired q now; rs = map snd (q_requests q')
      in (q', case st of None \<Rightarrow> rs | Some s \<Rightarrow> filter (\<lambda>r. ar_status r = s) rs))"

definition siblings :: "approval_queue \<Rightarrow> uuid \<Rightarrow> time \<Rightarrow> approval_queue \<times> approval_request list" where
  "siblings q gid now =
     (let q' = sweep_expired q now
      in (q', sort_key ar_id (filter (\<lambda>r. ar_sibling_group_id r = Some gid) (map snd (q_requests q')))))"

section \<open>Changing one request\<close>

text \<open>The decisions share this step: a pending request, after its expiry check.\<close>

definition with_pending ::
  "approval_queue \<Rightarrow> session_graph \<Rightarrow> int \<Rightarrow> time
   \<Rightarrow> (approval_queue \<Rightarrow> session_graph \<Rightarrow> approval_request
       \<Rightarrow> approval_queue \<times> session_graph \<times> (py_error + approval_request))
   \<Rightarrow> approval_queue \<times> session_graph \<times> (py_error + approval_request)" where
  "with_pending q g rid now act =
     (case queue_get q rid now of
        (q', Inl e) \<Rightarrow> (q', g, Inl e)
      | (q', Inr r) \<Rightarrow>
          if ar_status r \<noteq> AP_PENDING then (q', g, Inl ApprovalStateError) else act q' g r)"

text \<open>
  What a decision reads from the clock: at the expiry check, at the check of the capability chain,
  and for the time it records.
\<close>

record decision_clock =
  dk_checked :: time
  dk_chain :: time
  dk_decided :: time

definition approval_request_node_id :: "int \<Rightarrow> json" where
  "approval_request_node_id rid = JText [JStr ''approval_request:'', JInt rid]"

definition approval_event ::
  "string \<Rightarrow> approval_request \<Rightarrow> (string \<times> json) list \<Rightarrow> session_graph \<Rightarrow> session_graph" where
  "approval_event ty r payload g =
     write_event \<lparr>ae_event_type = ty, ae_session_id = Some (ar_from_session r),
       ae_payload = (''approval_id'', JInt (ar_id r)) # payload\<rparr> g"

text \<open>\<open>eid\<close> is the identifier of the event just written.\<close>

definition decision_nodes ::
  "approval_request \<Rightarrow> uuid \<Rightarrow> string \<Rightarrow> (string \<times> json) list \<Rightarrow> session_graph \<Rightarrow> session_graph" where
  "decision_nodes r eid word metadata g =
     (let node = JText [JStr ''approval_decision:'', JUuid eid]
      in provenance_edge (Some (ar_from_session r)) (approval_request_node_id (ar_id r)) node
           ''decided'' (Some eid) []
           (provenance_node (Some (ar_from_session r)) node ''approval_decision''
              (JText [JStr ''approval:'', JInt (ar_id r), JStr '':'', JStr word]) None (Some eid)
              ([(''approval_id'', JInt (ar_id r)), (''status'', JStr word)] @ metadata) g))"

definition mark_not_submitted ::
  "approval_queue \<Rightarrow> int \<Rightarrow> string \<Rightarrow> time \<Rightarrow> approval_queue \<times> py_error option" where
  "mark_not_submitted q rid detail now =
     (case queue_get q rid now of
        (q', Inl e) \<Rightarrow> (q', Some e)
      | (q', Inr r) \<Rightarrow>
          (record_request q'
             (r\<lparr>ar_decision_scope :=
                  AList.update ''execution_detail'' (JStr detail)
                    (AList.update ''execution_status'' (JStr ''failed_before_submission'')
                       (ar_decision_scope r))\<rparr>), None))"

definition supersede ::
  "approval_queue \<Rightarrow> int \<Rightarrow> decision_clock \<Rightarrow> approval_queue \<times> (py_error + approval_request)" where
  "supersede q rid now =
     (case queue_get q rid (dk_checked now) of
        (q', Inl e) \<Rightarrow> (q', Inl e)
      | (q', Inr r) \<Rightarrow>
          if ar_status r = AP_APPROVED then (q', Inl ApprovalStateError)
          else if ar_status r \<noteq> AP_PENDING then (q', Inr r)
          else
            (let r' = r\<lparr>ar_status := AP_SUPERSEDED, ar_decision_at := Some (dk_decided now),
                        ar_decided_by := Some ''operator-edit''\<rparr>
             in (record_request q' r', Inr r')))"

definition deny ::
  "approval_queue \<Rightarrow> session_graph \<Rightarrow> int \<Rightarrow> string \<Rightarrow> string \<Rightarrow> uuid \<Rightarrow> decision_clock
   \<Rightarrow> approval_queue \<times> session_graph \<times> (py_error + approval_request)" where
  "deny q g rid decided_by reason eid now =
     with_pending q g rid (dk_checked now) (\<lambda>q g r.
       (let r' = r\<lparr>ar_status := AP_DENIED, ar_decision_at := Some (dk_decided now),
                   ar_decided_by := Some decided_by,
                   ar_decision_scope := (if reason \<noteq> [] then [(''reason'', JStr reason)] else [])\<rparr>
        in (record_request q r',
            decision_nodes r' eid ''denied''
              [(''decided_by'', JStr decided_by), (''reason'', JStr reason)]
              (approval_event ''approval.denied'' r'
                 [(''decided_by'', JStr decided_by), (''reason'', JStr reason)] g), Inr r')))"

definition defer_request ::
  "approval_queue \<Rightarrow> session_graph \<Rightarrow> int \<Rightarrow> time
   \<Rightarrow> approval_queue \<times> session_graph \<times> (py_error + approval_request)" where
  "defer_request q g rid now =
     with_pending q g rid now (\<lambda>q g r.
       (let r' = r\<lparr>ar_status := AP_DEFERRED\<rparr>
        in (record_request q r', approval_event ''approval.deferred'' r' [] g, Inr r')))"

section \<open>Submitting\<close>

record submit_args =
  sa_from_session :: uuid
  sa_action :: approval_action
  sa_payload :: json
  sa_target :: string
  sa_labels_in :: label_state
  sa_labels_out :: label_state
  sa_capability_requested :: "capability option"
  sa_justification :: string
  sa_ttl_seconds :: "int option"
  sa_rule :: "string option"
  sa_allow_patterns :: bool

definition second_us :: int where "second_us = 1000000"

definition SIBLING_GROUPING_WINDOW :: int where "SIBLING_GROUPING_WINDOW = 5 * second_us"

fun latest_request :: "approval_request \<Rightarrow> approval_request list \<Rightarrow> approval_request" where
  "latest_request r [] = r"
| "latest_request r (x # xs) =
     (if ar_requested_at r < ar_requested_at x then latest_request x xs else latest_request r xs)"

definition find_sibling_group ::
  "approval_queue \<Rightarrow> submit_args \<Rightarrow> time \<Rightarrow> uuid \<Rightarrow> approval_queue \<times> uuid option" where
  "find_sibling_group q a now fresh =
     (case filter (\<lambda>r. ar_status r = AP_PENDING \<and> ar_from_session r = sa_from_session a
                       \<and> ar_action r = sa_action a \<and> ar_target r = sa_target a
                       \<and> ar_requested_at r \<ge> now - SIBLING_GROUPING_WINDOW)
             (map snd (q_requests q)) of
        [] \<Rightarrow> (q, None)
      | c # cs \<Rightarrow>
          (let anchor = latest_request c cs
           in case ar_sibling_group_id anchor of
                Some gid \<Rightarrow> (q, Some gid)
              | None \<Rightarrow> (record_request q (anchor\<lparr>ar_sibling_group_id := Some fresh\<rparr>), Some fresh)))"

text \<open>What a submission draws from its surroundings.\<close>

record submit_env =
  se_now :: time
  se_group_id :: uuid
  se_audit_id :: uuid
  se_new_audit_id :: uuid
  se_micros :: int
  se_namespace :: uuid
  se_requested_event_id :: uuid
  se_event_id :: uuid
  se_decision :: decision_clock

definition new_request ::
  "approval_queue \<Rightarrow> submit_args \<Rightarrow> submit_env \<Rightarrow> uuid option \<Rightarrow> int \<Rightarrow> approval_request" where
  "new_request q a en gid rid =
     (let ttl = (case sa_ttl_seconds a of None \<Rightarrow> q_default_ttl q | Some t \<Rightarrow> max 0 t)
      in \<lparr>ar_id = rid, ar_audit_id = se_audit_id en, ar_from_session = sa_from_session a,
          ar_action = sa_action a, ar_payload = sa_payload a, ar_target = sa_target a,
          ar_labels_in = sa_labels_in a, ar_labels_out = sa_labels_out a,
          ar_capability_requested = sa_capability_requested a,
          ar_justification = sa_justification a, ar_requested_at = se_now en,
          ar_status = AP_PENDING, ar_to_session = None, ar_decision_at = None,
          ar_decided_by = None, ar_decision_scope = [], ar_new_audit_id = se_new_audit_id en,
          ar_sibling_group_id = gid,
          ar_expires_at = (if ttl > 0 then Some (se_now en + ttl * second_us) else None),
          ar_rule = sa_rule a\<rparr>)"

text \<open>The part of \<open>submit\<close> before its first await: the request is in the queue and the database.\<close>

definition open_request ::
  "approval_queue \<Rightarrow> submit_args \<Rightarrow> submit_env \<Rightarrow> approval_queue \<times> (py_error + approval_request)" where
  "open_request q a en =
     (let (q, gid) = find_sibling_group q a (se_now en) (se_group_id en)
      in case allocate_id q (se_micros en) (se_namespace en) of
           (q, Inl e) \<Rightarrow> (q, Inl e)
         | (q, Inr rid) \<Rightarrow>
             (let r = new_request q a en gid rid in (record_request q r, Inr r)))"

definition request_events :: "approval_request \<Rightarrow> uuid \<Rightarrow> session_graph \<Rightarrow> session_graph" where
  "request_events r eid g =
     (let sid = Some (ar_from_session r); node = approval_request_node_id (ar_id r);
          g = approval_event ''approval.requested'' r
                [(''action'', JStr (approval_action_value (ar_action r))),
                 (''target'', JStr (ar_target r)), (''labels_in'', labels_json (ar_labels_in r)),
                 (''justification'', JStr (ar_justification r))] g;
          g = provenance_node sid node ''approval_request''
                (JText [JStr ''approval:'', JInt (ar_id r)]) (Some (ar_labels_in r)) (Some eid)
                [(''action'', JStr (approval_action_value (ar_action r))),
                 (''target'', JStr (ar_target r)), (''rule'', jopt JStr (ar_rule r))] g
      in case ar_capability_requested r of
           None \<Rightarrow> g
         | Some c \<Rightarrow> provenance_edge sid (capability_node_id (c_audit_id c)) node
                      ''approval_authority'' (Some eid) [] g)"

section \<open>Approving\<close>

text \<open>
  The re-check of the capability a request carries: its parent chain among the capabilities of the
  session now. The originator is the capability that is dead.
\<close>

definition approval_chain_dead ::
  "approval_queue \<Rightarrow> session_graph \<Rightarrow> approval_request \<Rightarrow> capability \<Rightarrow> time \<Rightarrow> uuid option" where
  "approval_chain_dead q g r cap now =
     (let s = (if q_has_graph q then map_of (g_sessions g) (ar_from_session r) else None);
          caps = (case s of None \<Rightarrow> [] | Some s \<Rightarrow> s_capability_set s);
          revoked = (case s of None \<Rightarrow> [] | Some s \<Rightarrow> s_revoked_audit_ids s)
      in case is_cascaded_inert cap
                (build_audit_id_index (if cap \<in> set caps then caps else caps @ [cap]))
                revoked now None of
           (False, _) \<Rightarrow> None
         | (True, None) \<Rightarrow> Some (c_audit_id cap)
         | (True, Some c) \<Rightarrow> Some (c_audit_id c))"

record approve_args =
  aa_decided_by :: string
  aa_decision_scope :: "(string \<times> json) list"
  aa_signature :: "signature option"
  aa_verify :: "(json \<Rightarrow> signature \<Rightarrow> py_error + bool) option"
  aa_require_signature :: bool

definition signature_error :: "approve_args \<Rightarrow> approval_request \<Rightarrow> py_error option" where
  "signature_error a r =
     (if \<not> aa_require_signature a then None
      else case (aa_signature a, aa_verify a) of
             (Some sg, Some verify) \<Rightarrow>
               (case verify (canonical_payload (ar_id r) (approval_action_value (ar_action r))
                       (ar_target r) (ar_payload r) (request_label_values (ar_labels_in r))) sg of
                  Inl SignerError \<Rightarrow> Some ApprovalSignatureRequiredError
                | Inl e \<Rightarrow> Some e
                | Inr ok \<Rightarrow> if ok then None else Some ApprovalSignatureRequiredError)
           | _ \<Rightarrow> Some ApprovalSignatureRequiredError)"

definition approved_request :: "approve_args \<Rightarrow> approval_request \<Rightarrow> time \<Rightarrow> approval_request" where
  "approved_request a r now =
     r\<lparr>ar_status := AP_APPROVED, ar_decision_at := Some now,
       ar_decided_by := Some (aa_decided_by a),
       ar_decision_scope :=
         (case aa_signature a of
            None \<Rightarrow> aa_decision_scope a
          | Some sg \<Rightarrow> AList.update ''signature'' (signature_to_dict sg) (aa_decision_scope a))\<rparr>"

definition invalidated_request :: "approval_request \<Rightarrow> uuid \<Rightarrow> time \<Rightarrow> approval_request" where
  "invalidated_request r originator now =
     r\<lparr>ar_status := AP_DENIED, ar_decision_at := Some now,
       ar_decided_by := Some ''cascade-invalidation'',
       ar_decision_scope := [(''reason'', JStr ''capability-cascaded''),
         (''originating_audit_id'', JUuid originator)]\<rparr>"

definition approve ::
  "approval_queue \<Rightarrow> session_graph \<Rightarrow> int \<Rightarrow> approve_args \<Rightarrow> uuid \<Rightarrow> decision_clock
   \<Rightarrow> approval_queue \<times> session_graph \<times> (py_error + approval_request)" where
  "approve q g rid a eid now =
     with_pending q g rid (dk_checked now) (\<lambda>q g r.
       (case (case ar_capability_requested r of
                None \<Rightarrow> None | Some cap \<Rightarrow> approval_chain_dead q g r cap (dk_chain now)) of
          Some originator \<Rightarrow>
            (record_request q (invalidated_request r originator (dk_chain now)),
             approval_event ''capability.cascade_revoked'' r
               [(''originating_audit_id'', JUuid originator),
                (''trigger'', JStr ''approval-revisit''),
                (''affected_audit_id'',
                  jopt (\<lambda>c. JUuid (c_audit_id c)) (ar_capability_requested r))] g,
             Inl ApprovalStateError)
        | None \<Rightarrow>
            (case signature_error a r of
               Some e \<Rightarrow> (q, g, Inl e)
             | None \<Rightarrow>
                 (let r' = approved_request a r (dk_decided now)
                  in (record_request q r',
                      decision_nodes r' eid ''approved'' [(''decided_by'', JStr (aa_decided_by a))]
                        (approval_event ''approval.approved'' r'
                           [(''decided_by'', JStr (aa_decided_by a)),
                            (''decision_scope'', JDict (ar_decision_scope r'))] g),
                      Inr r')))))"

definition pattern_args :: "pattern_rule \<Rightarrow> approve_args" where
  "pattern_args p =
     \<lparr>aa_decided_by = ''pattern'',
      aa_decision_scope = [(''matched_rule'', JUuid (pr_id p))], aa_signature = None,
      aa_verify = None, aa_require_signature = False\<rparr>"

text \<open>
  The rest of \<open>submit\<close>: a matching pattern approves the request. \<open>decided_by\<close> is the text of the
  word pattern and the rule's identifier, kept as the word with the identifier in the scope.
\<close>

definition auto_approve ::
  "(json \<Rightarrow> string) \<Rightarrow> approval_queue \<Rightarrow> session_graph \<Rightarrow> bool \<Rightarrow> approval_request \<Rightarrow> uuid \<Rightarrow> time
   \<Rightarrow> decision_clock \<Rightarrow> approval_queue \<times> session_graph \<times> (py_error + approval_request)" where
  "auto_approve text_of q g allow r eid now ck =
     (case (if allow then find_match text_of now (q_patterns q) r else None) of
        None \<Rightarrow> (q, g, Inr r)
      | Some p \<Rightarrow>
          approve (q\<lparr>q_patterns := increment_use (q_patterns q) (pr_id p)\<rparr>) g (ar_id r)
            (pattern_args p) eid ck)"

definition submit ::
  "(json \<Rightarrow> string) \<Rightarrow> approval_queue \<Rightarrow> session_graph \<Rightarrow> submit_args \<Rightarrow> submit_env
   \<Rightarrow> approval_queue \<times> session_graph \<times> (py_error + approval_request)" where
  "submit text_of q g a en =
     (case open_request q a en of
        (q, Inl e) \<Rightarrow> (q, g, Inl e)
      | (q, Inr r) \<Rightarrow>
          auto_approve text_of q (request_events r (se_requested_event_id en) g) (sa_allow_patterns a) r (se_event_id en)
            (se_now en) (se_decision en))"

text \<open>\<open>approve_group\<close>: the pending members in the order of their ids; the first failure raises.\<close>

fun approve_members ::
  "approval_queue \<Rightarrow> session_graph \<Rightarrow> approval_request list \<Rightarrow> approve_args \<Rightarrow> uuid list
   \<Rightarrow> decision_clock list
   \<Rightarrow> approval_queue \<times> session_graph \<times> (py_error + approval_request list)" where
  "approve_members q g [] a eids cks = (q, g, Inr [])"
| "approve_members q g (m # ms) a eids cks =
     (if ar_status m \<noteq> AP_PENDING then approve_members q g ms a eids cks
      else case approve q g (ar_id m) a (hd eids) (hd cks) of
             (q, g, Inl e) \<Rightarrow> (q, g, Inl e)
           | (q, g, Inr r) \<Rightarrow>
               (case approve_members q g ms a (tl eids) (tl cks) of
                  (q, g, Inl e) \<Rightarrow> (q, g, Inl e)
                | (q, g, Inr rs) \<Rightarrow> (q, g, Inr (r # rs))))"

definition approve_group ::
  "approval_queue \<Rightarrow> session_graph \<Rightarrow> uuid \<Rightarrow> approve_args \<Rightarrow> uuid list \<Rightarrow> time
   \<Rightarrow> decision_clock list \<Rightarrow> approval_queue \<times> session_graph \<times> (py_error + approval_request list)" where
  "approve_group q g gid a eids now cks =
     (let (q, members) = siblings q gid now in approve_members q g members a eids cks)"

section \<open>Elicitations\<close>

definition submit_elicitation ::
  "(json \<Rightarrow> string) \<Rightarrow> approval_queue \<Rightarrow> session_graph \<Rightarrow> uuid \<Rightarrow> string \<Rightarrow> string
   \<Rightarrow> (string \<times> json) list \<Rightarrow> string list \<Rightarrow> int option \<Rightarrow> submit_env
   \<Rightarrow> approval_queue \<times> session_graph \<times> (py_error + approval_request)" where
  "submit_elicitation text_of q g sid prompt requesting_server schema labels ttl_seconds en =
     (let target = (if requesting_server \<noteq> [] then requesting_server else ''upstream-mcp'')
      in submit text_of q g
           \<lparr>sa_from_session = sid, sa_action = A_ELICITATION,
            sa_payload = json_dumps (JDict
              [(''prompt'', JStr prompt), (''requesting_server'', JStr requesting_server),
               (''response_inherent_labels'', JList (map JStr (sort labels))),
               (''schema'', JDict schema)]),
            sa_target = target, sa_labels_in = empty_state, sa_labels_out = empty_state,
            sa_capability_requested = None,
            sa_justification = ''MCP elicitation from '' @ target @ '': '' @ prompt,
            sa_ttl_seconds = ttl_seconds, sa_rule = Some ''mcp-elicitation'',
            sa_allow_patterns = True\<rparr> en)"

definition complete_elicitation ::
  "approval_queue \<Rightarrow> session_graph \<Rightarrow> int \<Rightarrow> (string \<times> json) list \<Rightarrow> string \<Rightarrow> uuid \<Rightarrow> decision_clock
   \<Rightarrow> approval_queue \<times> session_graph \<times> (py_error + approval_request)" where
  "complete_elicitation q g rid response decided_by eid now =
     approve q g rid
       \<lparr>aa_decided_by = decided_by,
        aa_decision_scope = [(''elicitation_response'', JDict response)], aa_signature = None,
        aa_verify = None, aa_require_signature = False\<rparr> eid now"

text \<open>One turn of the polling loop of \<open>wait_for_elicitation_response\<close>.\<close>

datatype poll = Waiting | Answered "(string \<times> json) list" | Failed py_error

definition poll_elicitation ::
  "approval_queue \<Rightarrow> int \<Rightarrow> time option \<Rightarrow> time \<Rightarrow> approval_queue \<times> poll" where
  "poll_elicitation q rid deadline now =
     (case queue_get q rid now of
        (q', Inl e) \<Rightarrow> (q', Failed e)
      | (q', Inr r) \<Rightarrow>
          (q', if ar_status r = AP_APPROVED
               then (case map_of (ar_decision_scope r) ''elicitation_response'' of
                       Some (JDict d) \<Rightarrow> Answered d
                     | _ \<Rightarrow> Failed ApprovalStateError)
               else if ar_status r \<in> {AP_DENIED, AP_DEFERRED, AP_EXPIRED}
               then Failed ApprovalStateError
               else (case deadline of
                       None \<Rightarrow> Waiting
                     | Some t \<Rightarrow> if t \<le> now then Failed ApprovalStateError else Waiting)))"

end
