(* ===== verification/Chokepoint.thy ===== *)
theory Chokepoint
  imports Hooks Handles Approval Engine
begin

text \<open>
  The tool chokepoint (\<open>tools/client.py\<close>, \<open>tools/source_flow.py\<close>, \<open>policy/context.py\<close>): every
  tool call is decided, recorded, dispatched and its result's labels propagated here. A client is
  the tool registry, the session graph (with the audit log), the approval queue and the policy
  context with the two stores it refers to. A tool's handler is an argument: it may change
  anything while it is awaited, as other tasks of the daemon may. Clock readings, fresh identifiers
  and library texts come from \<open>call_env\<close>.
\<close>

section \<open>State\<close>

record profile =
  pf_max_tier :: "tier option"
  pf_integrity_floor_level :: "string option"

record policy_context =
  pc_rules_v2 :: "decision_rule list option"
  pc_bindings :: "source_binding list option"
  pc_override_policies :: "override_policies option"
  pc_override_grants :: "grant_store option"
  pc_handle_store :: "handle_store option"
  pc_envelope_set :: "envelope_set option"
  pc_risk_preference :: "risk_preference option"
  pc_clearance_max_tier :: "tier option"
  pc_integrity_floor_level :: "string option"
  pc_residual_risk_thresholds :: "string list option"
  pc_risk_register :: "risk_register option"
  pc_sandbox_actuator_wired :: bool
  pc_devbox_manager_wired :: bool
  pc_hook_registry :: "hook_registry option"
  pc_inspectors :: "hook_primitive list"
  pc_decision_inspectors :: "hook_primitive list"
  pc_egress_override_categories :: "string list"
  pc_egress_override_tiers :: "string list"
  pc_declassifiers :: "hook_primitive list"
  pc_profiles :: "(string \<times> profile) list"
  pc_purposes :: "purposes option"
  pc_relationship_groups :: "relationship_groups option"

definition PolicyContext :: policy_context where
  "PolicyContext =
     \<lparr>pc_rules_v2 = None, pc_bindings = None, pc_override_policies = None, pc_override_grants = None,
      pc_handle_store = None, pc_envelope_set = None, pc_risk_preference = None,
      pc_clearance_max_tier = None, pc_integrity_floor_level = None,
      pc_residual_risk_thresholds = None, pc_risk_register = None,
      pc_sandbox_actuator_wired = False, pc_devbox_manager_wired = False, pc_hook_registry = None,
      pc_inspectors = [], pc_decision_inspectors = [], pc_egress_override_categories = [],
      pc_egress_override_tiers = [], pc_declassifiers = [], pc_profiles = [], pc_purposes = None,
      pc_relationship_groups = None\<rparr>"

definition effective_hook_registry :: "policy_context \<Rightarrow> py_error + hook_registry" where
  "effective_hook_registry pc =
     build_registry (pc_inspectors pc) (pc_declassifiers pc) (pc_decision_inspectors pc)
       (pc_hook_registry pc)"

text \<open>\<open>tc_hooks\<close> is the registry the client built from its context when it was created or updated.\<close>

record tool_client =
  tc_registry :: tool_registry
  tc_graph :: session_graph
  tc_queue :: "approval_queue option"
  tc_context :: "policy_context option"
  tc_hooks :: hook_registry

definition update_policy_context ::
  "tool_client \<Rightarrow> policy_context option \<Rightarrow> py_error + tool_client" where
  "update_policy_context c pc =
     (case (case pc of None \<Rightarrow> Inr [] | Some p \<Rightarrow> effective_hook_registry p) of
        Inl e \<Rightarrow> Inl e
      | Inr hooks \<Rightarrow> Inr (c\<lparr>tc_context := pc, tc_hooks := hooks\<rparr>))"

definition LabeledToolClient ::
  "tool_registry \<Rightarrow> session_graph \<Rightarrow> approval_queue option \<Rightarrow> policy_context option
   \<Rightarrow> py_error + tool_client" where
  "LabeledToolClient reg g q pc =
     update_policy_context \<lparr>tc_registry = reg, tc_graph = g, tc_queue = q, tc_context = None,
       tc_hooks = []\<rparr> pc"

definition hooks_at :: "tool_client \<Rightarrow> string \<Rightarrow> hook_primitive list" where
  "hooks_at c name = (case tc_context c of None \<Rightarrow> [] | Some _ \<Rightarrow> hook_get (tc_hooks c) name)"

definition handle_store_of :: "tool_client \<Rightarrow> handle_store option" where
  "handle_store_of c = (case tc_context c of None \<Rightarrow> None | Some pc \<Rightarrow> pc_handle_store pc)"

definition with_graph :: "tool_client \<Rightarrow> session_graph \<Rightarrow> tool_client" where
  "with_graph c g = c\<lparr>tc_graph := g\<rparr>"

definition with_handles :: "tool_client \<Rightarrow> handle_store option \<Rightarrow> tool_client" where
  "with_handles c st =
     c\<lparr>tc_context := map_option (\<lambda>pc. pc\<lparr>pc_handle_store := st\<rparr>) (tc_context c)\<rparr>"

definition with_grants :: "tool_client \<Rightarrow> grant_store option \<Rightarrow> tool_client" where
  "with_grants c st =
     c\<lparr>tc_context := map_option (\<lambda>pc. pc\<lparr>pc_override_grants := st\<rparr>) (tc_context c)\<rparr>"

record call_env =
  ce_now :: time
  ce_kinds :: kind_registry
  ce_netloc_ok :: "string \<Rightarrow> bool"
  ce_text :: call_text
  ce_mint_audit_id :: uuid
  ce_submit :: submit_env
  ce_bind_ids :: "uuid list"
  ce_returned_id :: uuid
  ce_declassify_ids :: "uuid list"

text \<open>How a handler ends; a \<open>BaseException\<close> that is no task cancellation is re-raised.\<close>

datatype handler_end =
    HandlerResult json label_state | HandlerRaised string | HandlerCancelled | HandlerAborted

type_synonym handler =
  "tool_definition \<Rightarrow> args \<Rightarrow> uuid \<Rightarrow> label_state \<Rightarrow> tool_client \<Rightarrow> tool_client \<times> handler_end"

text \<open>
  How a call ends: it returns, it raises an exception, a \<open>BaseException\<close> passes through it, or it
  never returns.
\<close>

datatype 'a run = Returned 'a | Raised py_error | Aborted | Hangs

record call_outcome =
  oc_decision :: decision
  oc_output :: "json option"
  oc_rule :: "string option"
  oc_reason :: "string option"
  oc_tags_added :: label_state
  oc_error :: "string option"
  oc_tool_name :: string
  oc_tool_args :: args
  oc_approval_submission :: "submission option"
  oc_approval_id :: "int option"
  oc_recovery_steps :: "recovery_step list"
  oc_result_withheld :: bool

definition ToolCallOutcome :: "decision \<Rightarrow> string \<Rightarrow> args \<Rightarrow> call_outcome" where
  "ToolCallOutcome d tool_name args =
     \<lparr>oc_decision = d, oc_output = None, oc_rule = None, oc_reason = None, oc_tags_added = empty_state,
      oc_error = None, oc_tool_name = tool_name, oc_tool_args = args, oc_approval_submission = None,
      oc_approval_id = None, oc_recovery_steps = [], oc_result_withheld = False\<rparr>"

section \<open>Building the request\<close>

definition resolve_action_axis_d ::
  "policy_context \<Rightarrow> decision_context \<Rightarrow> string \<Rightarrow> decision_context" where
  "resolve_action_axis_d pc axis target =
     (case pc_relationship_groups pc of
        None \<Rightarrow> axis
      | Some rg \<Rightarrow>
          if target = [] then axis
          else
            (let resolved = resolve_target rg target; existing = dc_relationship_group_ids axis
             in if set resolved \<subseteq> set existing then axis
                else axis\<lparr>dc_relationship_group_ids :=
                       existing @ filter (\<lambda>gid. gid \<notin> set existing) resolved\<rparr>))"

definition operation_integrity_floor :: "tool_definition \<Rightarrow> provenance_level option" where
  "operation_integrity_floor tool =
     (case concat (map (\<lambda>oper. case op_required_floor oper of None \<Rightarrow> [] | Some l \<Rightarrow> [l])
             (td_operations tool)) of
        [] \<Rightarrow> None
      | l # ls \<Rightarrow> Some (min_by provenance_rank l ls))"

definition INTEGRITY_FLOOR_RANK :: "(string \<times> nat) list" where
  "INTEGRITY_FLOOR_RANK =
     [(''external-untrusted'', 0), (''system-internal'', 1), (''principal-direct'', 2)]"

definition stricter_integrity_floor :: "string option \<Rightarrow> string \<Rightarrow> string" where
  "stricter_integrity_floor existing candidate =
     (case existing of
        None \<Rightarrow> candidate
      | Some e \<Rightarrow> max_by (\<lambda>level. dict_get INTEGRITY_FLOOR_RANK level 999) e [candidate])"

definition session_profile :: "policy_context \<Rightarrow> session \<Rightarrow> profile option" where
  "session_profile pc s =
     (case s_clearance_profile_id s of
        None \<Rightarrow> None
      | Some i \<Rightarrow> if i = [] then None else map_of (pc_profiles pc) i)"

definition effective_clearance :: "policy_context \<Rightarrow> session \<Rightarrow> tier option" where
  "effective_clearance pc s =
     (case (case session_profile pc s of None \<Rightarrow> None | Some p \<Rightarrow> pf_max_tier p) of
        Some t \<Rightarrow> Some t | None \<Rightarrow> pc_clearance_max_tier pc)"

definition effective_floor :: "policy_context \<Rightarrow> session \<Rightarrow> tool_definition \<Rightarrow> string option" where
  "effective_floor pc s tool =
     (let derived = (case session_profile pc s of None \<Rightarrow> None | Some p \<Rightarrow> pf_integrity_floor_level p);
          fl = (case derived of
                  Some f \<Rightarrow> if f \<noteq> [] then Some f else pc_integrity_floor_level pc
                | None \<Rightarrow> pc_integrity_floor_level pc)
      in case operation_integrity_floor tool of
           None \<Rightarrow> fl
         | Some l \<Rightarrow> Some (stricter_integrity_floor fl (provenance_value l)))"

definition effective_bindings :: "policy_context \<Rightarrow> session \<Rightarrow> source_binding list option" where
  "effective_bindings pc s =
     (case pc_bindings pc of
        None \<Rightarrow> None
      | Some bs \<Rightarrow>
          Some (case pc_purposes pc of
                  None \<Rightarrow> bs
                | Some ps \<Rightarrow>
                    if s_purpose_handle s = [] then bs
                    else (case map_of ps (s_purpose_handle s) of
                            None \<Rightarrow> bs | Some p \<Rightarrow> bs @ pu_bindings p)))"

definition call_reversibility :: "tool_definition \<Rightarrow> args \<Rightarrow> reversibility_label option" where
  "call_reversibility tool args =
     (let resolved =
            (case td_reversibility_resolver tool of
               None \<Rightarrow> td_default_reversibility tool
             | Some f \<Rightarrow> (case f args of Some d \<Rightarrow> Some d | None \<Rightarrow> td_default_reversibility tool))
      in case resolved of
           None \<Rightarrow> None
         | Some d \<Rightarrow> (case reversibility_from_dict d of Inl _ \<Rightarrow> None | Inr r \<Rightarrow> Some r))"

text \<open>The request without a policy context, and \<open>_build_v2_decide_kwargs\<close> on top of it.\<close>

definition base_request ::
  "session \<Rightarrow> action \<Rightarrow> label_state \<Rightarrow> bool \<Rightarrow> call_env \<Rightarrow> decide_args" where
  "base_request s act labels approved en =
     \<lparr>da_capabilities = s_capability_set s, da_action = act, da_used_kinds = s_used_kinds s,
      da_now = Some (ce_now en), da_cap_uses = Some (s_cap_uses s), da_axis_d = None,
      da_effect_class = None, da_rules_v2 = None, da_default_v2_outcome = RO_SUGGEST,
      da_relax_inputs = [], da_override_grants = None, da_session_id = None, da_bindings = None,
      da_effective_reversibility = None, da_envelope_set = None, da_risk_preference = None,
      da_clearance_max_tier = None, da_integrity_floor_level = None, da_risk_register = None,
      da_sandbox_actuator_wired = False, da_devbox_manager_wired = False,
      da_revoked_audit_ids = s_revoked_audit_ids s,
      da_first_use_prompt_enabled = s_first_use_prompt_enabled s,
      da_rate_limit_escalation = (s_risk_preference_at_spawn s \<noteq> ''cautious''),
      da_labels = Some labels, da_egress_override_categories = [], da_egress_override_tiers = [],
      da_trust_profile_is_personal = False, da_already_approved = approved,
      da_clock = (\<lambda>_. ce_now en), da_mint_audit_id = ce_mint_audit_id en,
      da_netloc_ok = ce_netloc_ok en, da_registry = ce_kinds en\<rparr>"

definition context_request ::
  "policy_context \<Rightarrow> session \<Rightarrow> tool_definition \<Rightarrow> args \<Rightarrow> decide_args \<Rightarrow> decide_args" where
  "context_request pc s tool args a =
     (let a = (case td_effect_class tool of
                 None \<Rightarrow> a
               | Some e \<Rightarrow>
                   a\<lparr>da_axis_d := Some (resolve_action_axis_d pc (s_axis_d s) (a_target (da_action a))),
                     da_effect_class := Some e, da_rules_v2 := pc_rules_v2 pc\<rparr>);
          a = (case pc_override_grants pc of
                 None \<Rightarrow> a
               | Some st \<Rightarrow> a\<lparr>da_override_grants := Some st, da_session_id := Some (s_id s)\<rparr>)
      in a\<lparr>da_bindings := effective_bindings pc s,
           da_effective_reversibility := call_reversibility tool args,
           da_envelope_set := pc_envelope_set pc, da_risk_preference := pc_risk_preference pc,
           da_clearance_max_tier := effective_clearance pc s,
           da_integrity_floor_level := effective_floor pc s tool,
           da_risk_register := pc_risk_register pc,
           da_sandbox_actuator_wired := pc_sandbox_actuator_wired pc,
           da_devbox_manager_wired := pc_devbox_manager_wired pc,
           da_egress_override_categories := pc_egress_override_categories pc,
           da_egress_override_tiers := pc_egress_override_tiers pc,
           da_trust_profile_is_personal :=
             (case pc_override_policies pc of
                None \<Rightarrow> False | Some ps \<Rightarrow> op_trust_profile ps = PERSONAL)\<rparr>)"

definition source_tags ::
  "tool_client \<Rightarrow> uuid \<Rightarrow> tool_definition \<Rightarrow> args \<Rightarrow> label_state" where
  "source_tags c sid tool args =
     most_restrictive_inherit
       [extract_source_tags tool args, reference_handle_arg_tags (handle_store_of c) sid tool args]"

definition decide_labels :: "session \<Rightarrow> label_state \<Rightarrow> label_state" where
  "decide_labels s src =
     (if no_labels src then s_label_state s else most_restrictive_inherit [s_label_state s, src])"

definition decision_request ::
  "tool_client \<Rightarrow> session \<Rightarrow> tool_definition \<Rightarrow> args \<Rightarrow> action \<Rightarrow> label_state \<Rightarrow> bool \<Rightarrow> call_env
   \<Rightarrow> decide_args" where
  "decision_request c s tool args act labels approved en =
     (let a = base_request s act labels approved en
      in case tc_context c of None \<Rightarrow> a | Some pc \<Rightarrow> context_request pc s tool args a)"

definition inspected :: "tool_client \<Rightarrow> tool_definition \<Rightarrow> args \<Rightarrow> string \<Rightarrow> action \<Rightarrow> inspected_action" where
  "inspected c tool args tool_name act =
     \<lparr>ia_kind = a_kind act, ia_target = a_target act, ia_amount = a_amount act,
      ia_tool_name = tool_name, ia_effect_class = td_effect_class tool,
      ia_relationship_group_ids =
        (case tc_context c of
           None \<Rightarrow> []
         | Some pc \<Rightarrow>
             (case pc_relationship_groups pc of
                None \<Rightarrow> []
              | Some rg \<Rightarrow> if a_target act = [] then [] else sort (resolve_target rg (a_target act)))),
      ia_effective_reversibility =
        (case tc_context c of None \<Rightarrow> None | Some _ \<Rightarrow> call_reversibility tool args)\<rparr>"

definition RESTRICTED_SOURCE_FLOW_RULE :: string where
  "RESTRICTED_SOURCE_FLOW_RULE = ''restricted-source-requires-reference-or-sealed''"

definition restricted_source_floor_decision ::
  "tool_definition \<Rightarrow> label_state \<Rightarrow> policy_decision \<Rightarrow> label_state \<Rightarrow> decision_context option
   \<Rightarrow> policy_decision option" where
  "restricted_source_floor_decision tool src base labels axis_d =
     (if \<not> td_forbid_restricted_source tool then None
      else if \<not> list_ex (\<lambda>t. ct_tier t \<in> {RESTRICTED, PROHIBITED}) (ls_a src) then None
      else Some ((PolicyDecision DENY (Some RESTRICTED_SOURCE_FLOW_RULE)
                    (Some (RestrictedSource (td_name tool))) (pd_matched_capability base))
                  \<lparr>pd_labels_snapshot := Some labels, pd_axis_d_snapshot := axis_d,
                   pd_effect_class := td_effect_class tool\<rparr>))"

end
