(* ===== verification/Dispatch.thy ===== *)
theory Dispatch
  imports Chokepoint
begin

text \<open>
  The call itself (\<open>tools/client.py\<close>): the decision, its events, the registration of an approval,
  the record of the use, the binding of handles, the handler, the hooks on its result, the
  propagation of labels and the provenance of the result; and the planner boundary around it.
\<close>

section \<open>Events of a decision\<close>

definition audit_args :: "call_text \<Rightarrow> string \<Rightarrow> args \<Rightarrow> json" where
  "audit_args tx tool_name args =
     (if prefix ''email.'' tool_name \<or> contains ''.imap.'' tool_name
      then JDict [(''redacted'', JBool True), (''digest'', tx_digest tx (JDict args)),
                  (''argument_count'', JInt (int (length args)))]
      else JDict args)"

definition OPERATION_STATUS_KEYS :: "string list" where
  "OPERATION_STATUS_KEYS =
     [''ok'', ''found'', ''complete'', ''body_present'', ''body_truncated'', ''matched_count'',
      ''requested_count'', ''failed_count'', ''fetched_count'', ''summarized_count'',
      ''limit_reached'', ''delivered'']"

definition operation_status :: "json \<Rightarrow> (string \<times> json) list" where
  "operation_status value =
     (case value of
        JDict d \<Rightarrow>
          concat (map (\<lambda>k. case map_of d k of
              Some (JBool b) \<Rightarrow> [(k, JBool b)] | Some (JInt i) \<Rightarrow> [(k, JInt i)] | _ \<Rightarrow> [])
            OPERATION_STATUS_KEYS)
      | _ \<Rightarrow> [])"

fun type_name :: "json \<Rightarrow> string" where
  "type_name (JDict _) = ''dict''"
| "type_name (JList _) = ''list''"
| "type_name (JStr _) = ''str''"
| "type_name (JText _) = ''str''"
| "type_name (JInt _) = ''int''"
| "type_name (JBool _) = ''bool''"
| "type_name JNull = ''NoneType''"
| "type_name (JUuid _) = ''UUID''"
| "type_name (JTime _) = ''datetime''"

definition audit_output_metadata :: "call_text \<Rightarrow> json \<Rightarrow> (string \<times> json) list" where
  "audit_output_metadata tx value =
     [(''output_digest'', tx_digest tx value), (''output_type'', JStr (type_name value)),
      (''output_size_bytes'', JInt (tx_size tx value)), (''output_redacted'', JBool True)]
     @ (if operation_status value = [] then []
        else [(''operation_status'', JDict (operation_status value))])"

definition relax_inputs_json :: "relax_input list \<Rightarrow> json" where
  "relax_inputs_json rs =
     JList (map (\<lambda>r. JDict [(''description'', JStr (ri_description r)),
                            (''origin'', JStr (ri_origin r))]) rs)"

definition axis_d_json :: "decision_context \<Rightarrow> json" where
  "axis_d_json d =
     JDict [(''initiator'', JStr (dc_initiator d)),
            (''initiator_authentication'', JStr (auth_value (dc_initiator_authentication d))),
            (''counterparty'', jopt JStr (dc_counterparty d)),
            (''relationship_group_ids'', JList (map JStr (sort (dc_relationship_group_ids d)))),
            (''expectedness'', JStr (dc_expectedness d)),
            (''reversibility_degree'', JStr (dc_reversibility_degree d)),
            (''reversibility_agent'', JStr (dc_reversibility_agent d))]"

definition build_policy_decided_payload ::
  "call_text \<Rightarrow> string \<Rightarrow> args \<Rightarrow> policy_decision \<Rightarrow> (string \<times> json) list" where
  "build_policy_decided_payload tx tool_name args pd =
     (let shown = audit_args tx tool_name args; cap = pd_matched_capability pd;
          ids = JList (map JStr (pd_v2_matched_rule_ids pd))
      in [(''tool'', JStr tool_name), (''args'', shown),
          (''decision'', JStr (decision_value (pd_decision pd))), (''rule'', jopt JStr (pd_rule pd)),
          (''reason'', reason_text tx pd)]
         @ (case pd_v2_outcome pd of None \<Rightarrow> []
            | Some oc \<Rightarrow> [(''v2_outcome'', JStr (outcome_value oc)), (''v2_matched_rule_ids'', ids)])
         @ (if pd_refused_relax_inputs pd = [] then []
            else [(''refused_relax_inputs'', relax_inputs_json (pd_refused_relax_inputs pd))])
         @ (case pd_labels_snapshot pd of None \<Rightarrow> [] | Some l \<Rightarrow> [(''label_state'', labels_json l)])
         @ (case pd_axis_d_snapshot pd of None \<Rightarrow> [] | Some d \<Rightarrow> [(''axis_d'', axis_d_json d)])
         @ (case pd_effect_class pd of None \<Rightarrow> [] | Some e \<Rightarrow> [(''effect_class'', JStr e)])
         @ [(''policy_trace'', JDict
              [(''tool'', JStr tool_name), (''args'', shown),
               (''decision'', JStr (decision_value (pd_decision pd))),
               (''rule'', jopt JStr (pd_rule pd)),
               (''matched_capability_audit_id'', jopt (\<lambda>c. JUuid (c_audit_id c)) cap),
               (''matched_capability_kind'', jopt (\<lambda>c. JStr (kind_name (c_kind c))) cap),
               (''matched_capability_pattern'', jopt (\<lambda>c. JStr (c_pattern c)) cap),
               (''effect_class'', jopt JStr (pd_effect_class pd)),
               (''v2_outcome'', jopt (\<lambda>oc. JStr (outcome_value oc)) (pd_v2_outcome pd)),
               (''v2_matched_rule_ids'', ids)])])"

definition build_relaxation_refused_payload ::
  "call_text \<Rightarrow> string \<Rightarrow> args \<Rightarrow> policy_decision \<Rightarrow> (string \<times> json) list" where
  "build_relaxation_refused_payload tx tool_name args pd =
     [(''tool'', JStr tool_name), (''args'', audit_args tx tool_name args),
      (''refused_relax_inputs'', relax_inputs_json (pd_refused_relax_inputs pd)),
      (''decision_rule'', jopt JStr (pd_rule pd)), (''decision_reason'', reason_text tx pd)]"

definition emit_policy_decision ::
  "policy_context option \<Rightarrow> call_text \<Rightarrow> uuid \<Rightarrow> string \<Rightarrow> args \<Rightarrow> policy_decision \<Rightarrow> tool_definition
   \<Rightarrow> session_graph \<Rightarrow> session_graph" where
  "emit_policy_decision pc tx sid tool_name args pd tool g =
     (let shown = audit_args tx tool_name args;
          g = event ''policy.decided'' sid (build_policy_decided_payload tx tool_name args pd) g;
          g = (if pd_decision pd = WARN
               then event ''policy.warned'' sid
                 [(''tool'', JStr tool_name), (''args'', shown), (''rule'', jopt JStr (pd_rule pd)),
                  (''reason'', reason_text tx pd), (''non_blocking'', JBool True)] g else g);
          g = (if pd_refused_relax_inputs pd = [] then g
               else event ''policy.relaxation_refused'' sid
                 (build_relaxation_refused_payload tx tool_name args pd) g);
          thresholds = (case pc of None \<Rightarrow> None | Some p \<Rightarrow> pc_residual_risk_thresholds p)
      in case thresholds of
           None \<Rightarrow> g
         | Some ts \<Rightarrow>
             if pd_decision pd \<notin> {ALLOW, WARN} then g
             else
               (let signal = should_emit_residual_risk True (td_risk_ids tool) (set ts)
                in if rs_should_emit signal
                   then event ''residual_risk.exception'' sid
                     [(''tool'', JStr tool_name), (''args'', shown),
                      (''decision_rule'', jopt JStr (pd_rule pd)),
                      (''crossed_risk_ids'', JList (map JStr (rs_crossed signal))),
                      (''non_suppressible'', JBool True)] g
                   else g))"

definition EGRESS_LIKE_KINDS :: "capability_kind list" where
  "EGRESS_LIKE_KINDS =
     [SEND_EMAIL, SEND_MESSAGE, EXTERNAL_MAIL_DRAFT, APPLE_MAIL_DRAFT, CALENDAR_WRITE, CREATE_CAL,
      MODIFY_CAL, DELETE_CAL, QUEUE_PURCHASE, WEB_FETCH, BROWSER_NAVIGATE, BROWSER_INTERACT,
      BROWSER_SCRIPT, BROWSER_FILE, MACOS_APP_CONTROL, MACOS_CLIPBOARD_WRITE, PAGES_EDIT,
      PAGES_EXPORT, NUMBERS_EDIT, NUMBERS_EXPORT, WRITE_FS, CREATE_FS, MODIFY_FS, DELETE_FS]"

definition purpose_contamination_categories :: "policy_context option \<Rightarrow> session \<Rightarrow> string list" where
  "purpose_contamination_categories pc s =
     (case (case pc of None \<Rightarrow> None | Some p \<Rightarrow> pc_purposes p) of
        None \<Rightarrow> []
      | Some ps \<Rightarrow>
          filter (\<lambda>cat. \<not> admits ps (s_purpose_handle s) cat)
            (sort (map ct_category (ls_a (s_label_state s)))))"

definition emit_purpose_contamination ::
  "policy_context option \<Rightarrow> call_text \<Rightarrow> uuid \<Rightarrow> string \<Rightarrow> args \<Rightarrow> action \<Rightarrow> policy_decision
   \<Rightarrow> session_graph \<Rightarrow> py_error + session_graph" where
  "emit_purpose_contamination pc tx sid tool_name args act pd g =
     (if pd_decision pd \<notin> {ALLOW, WARN} then Inr g
      else if kind_in (a_kind act) (map BuiltIn EGRESS_LIKE_KINDS) then Inr g
      else if pc = None \<or> pc_purposes (the pc) = None then Inr g
      else case graph_get g sid of
             Inl e \<Rightarrow> Inl e
           | Inr s \<Rightarrow>
               (let inadmissible = purpose_contamination_categories pc s
                in if inadmissible = [] then Inr g
                   else Inr (event ''purpose.contamination_suspected'' sid
                     [(''tool'', JStr tool_name), (''args'', audit_args tx tool_name args),
                      (''purpose_handle'', JStr (s_purpose_handle s)),
                      (''inadmissible_categories'', JList (map JStr inadmissible)),
                      (''decision_rule'', jopt JStr (pd_rule pd)),
                      (''decision_reason'', reason_text tx pd)] g)))"

definition emit_capability_checked ::
  "uuid \<Rightarrow> action \<Rightarrow> policy_decision \<Rightarrow> session_graph \<Rightarrow> session_graph" where
  "emit_capability_checked sid act pd g =
     event ''capability.checked'' sid
       [(''kind'', JStr (kind_name (a_kind act))), (''target'', JStr (a_target act)),
        (''amount'', jopt JInt (a_amount act)),
        (''matched'', JBool (pd_matched_capability pd \<noteq> None)),
        (''matched_audit_id'', jopt (\<lambda>c. JUuid (c_audit_id c)) (pd_matched_capability pd))] g"

section \<open>The decision of a call\<close>

text \<open>
  From the tool and the session to the decision that is acted on: the engine, the decision
  inspectors, the shadow rewrite and the restricted-source floor. A decision consumes a grant of
  the context's store.
\<close>

definition final_decision ::
  "tool_definition \<Rightarrow> label_state \<Rightarrow> label_state \<Rightarrow> decision_context option \<Rightarrow> policy_decision
   \<Rightarrow> policy_decision" where
  "final_decision tool src labels axis_d pd =
     (if pd_decision pd \<in> {ALLOW, WARN}
      then (case restricted_source_floor_decision tool src pd labels axis_d of
              None \<Rightarrow> pd | Some floor \<Rightarrow> floor)
      else pd)"

definition decide_call ::
  "tool_client \<Rightarrow> session \<Rightarrow> tool_definition \<Rightarrow> string \<Rightarrow> args \<Rightarrow> action \<Rightarrow> bool \<Rightarrow> uuid \<Rightarrow> call_env
   \<Rightarrow> tool_client \<times> (py_error + policy_decision)" where
  "decide_call c s tool tool_name args act approved sid en =
     (let src = source_tags c sid tool args; labels = decide_labels s src;
          request = decision_request c s tool args act labels approved en
      in case decide request of
           (Inl e, st) \<Rightarrow> (with_grants c st, Inl e)
         | (Inr pd, st) \<Rightarrow>
             (let (g, pd) = apply_decision_inspectors (hooks_at c ''at_chokepoint.decision'')
                    (inspected c tool args tool_name act) s pd sid (tc_graph c);
                  (g, pd) = maybe_shadow_rewrite (ce_text en) s tool_name (a_target act) pd sid g
              in (with_graph (with_grants c st) g,
                  Inr (final_decision tool src labels (da_axis_d request) pd))))"

section \<open>Refusals and approvals\<close>

definition approval_args :: "uuid \<Rightarrow> label_state \<Rightarrow> submission \<Rightarrow> string option \<Rightarrow> submit_args" where
  "approval_args sid labels sub rule =
     \<lparr>sa_from_session = sid, sa_action = su_action sub, sa_payload = su_payload sub,
      sa_target = su_target sub, sa_labels_in = labels, sa_labels_out = empty_state,
      sa_capability_requested = None, sa_justification = su_justification sub,
      sa_ttl_seconds = None, sa_rule = rule, sa_allow_patterns = True\<rparr>"

definition register_approval ::
  "call_env \<Rightarrow> approval_queue \<Rightarrow> session_graph \<Rightarrow> uuid \<Rightarrow> label_state \<Rightarrow> submission \<Rightarrow> string option
   \<Rightarrow> approval_queue \<times> session_graph \<times> (py_error + int)" where
  "register_approval en q g sid labels sub rule =
     (let (q, pending) = queue_list q (Some AP_PENDING) (ce_now en)
      in case find (\<lambda>r. ar_from_session r = sid \<and> ar_action r = su_action sub
                      \<and> ar_target r = su_target sub \<and> ar_payload r = su_payload sub) pending of
           Some r \<Rightarrow> (q, g, Inr (ar_id r))
         | None \<Rightarrow>
             (case submit (pt_text_of (tx_py (ce_text en))) q g (approval_args sid labels sub rule)
                     (ce_submit en) of
                (q, g, Inl e) \<Rightarrow> (q, g, Inl e)
              | (q, g, Inr r) \<Rightarrow> (q, g, Inr (ar_id r))))"

definition refused_outcome ::
  "call_text \<Rightarrow> policy_decision \<Rightarrow> string \<Rightarrow> args \<Rightarrow> submission option \<Rightarrow> int option \<Rightarrow> call_outcome" where
  "refused_outcome tx pd tool_name args sub aid =
     (ToolCallOutcome (pd_decision pd) tool_name args)
       \<lparr>oc_rule := pd_rule pd, oc_reason := map_option (tx_reason tx) (pd_reason pd),
        oc_approval_submission := sub, oc_approval_id := aid,
        oc_recovery_steps := pd_recovery_steps pd\<rparr>"

definition refuse_call ::
  "tool_client \<Rightarrow> session \<Rightarrow> tool_definition \<Rightarrow> string \<Rightarrow> args \<Rightarrow> policy_decision \<Rightarrow> uuid \<Rightarrow> call_env
   \<Rightarrow> tool_client \<times> call_outcome run" where
  "refuse_call c s tool tool_name args pd sid en =
     (let tx = ce_text en
      in case (if pd_decision pd = REQUIRE_APPROVAL then td_approval_route tool else None) of
           None \<Rightarrow> (c, Returned (refused_outcome tx pd tool_name args None None))
         | Some route \<Rightarrow>
             (case resolve_route (pt_text_of (tx_py tx)) route tool_name args
                     (case pd_reason pd of None \<Rightarrow> [] | Some r \<Rightarrow> tx_reason tx r) of
                Inl e \<Rightarrow> (c, Raised e)
              | Inr sub \<Rightarrow>
                  (case tc_queue c of
                     None \<Rightarrow> (c, Returned (refused_outcome tx pd tool_name args (Some sub) None))
                   | Some q \<Rightarrow>
                       (case register_approval en q (tc_graph c) sid (s_label_state s) sub
                               (pd_rule pd) of
                          (q, g, Inl e) \<Rightarrow> (c\<lparr>tc_queue := Some q, tc_graph := g\<rparr>, Raised e)
                        | (q, g, Inr aid) \<Rightarrow>
                            (c\<lparr>tc_queue := Some q, tc_graph := g\<rparr>,
                             Returned (refused_outcome tx pd tool_name args (Some sub) (Some aid)))))))"

section \<open>Recording the use\<close>

text \<open>
  The walk up the parents of a rate-limited capability, over the session as it was read. Its only
  state is the identifier it looks at, so a repeated one means that it never ends (\<open>None\<close>).
\<close>

function rate_ancestors ::
  "cap_index \<Rightarrow> uuid list \<Rightarrow> uuid option \<Rightarrow> capability list option" where
  "rate_ancestors idx seen None = Some []"
| "rate_ancestors idx seen (Some p) =
     (if p \<in> set seen then None
      else case map_of idx p of
             None \<Rightarrow> Some []
           | Some parent \<Rightarrow>
               map_option (Cons parent) (rate_ancestors idx (p # seen) (c_parent_audit_id parent)))"
  by pat_completeness auto
termination
proof (relation "measure (\<lambda>(idx, seen, p).
    case p of None \<Rightarrow> 0 | Some _ \<Rightarrow> Suc (card (fst ` set idx - set seen)))")
  fix idx :: cap_index and seen :: "uuid list" and p :: uuid and parent :: capability
  assume new: "p \<notin> set seen" and "map_of idx p = Some parent"
  then have "p \<in> fst ` set idx" by (force dest: map_of_SomeD)
  with new have "fst ` set idx - set (p # seen) \<subset> fst ` set idx - set seen" by auto
  then have "card (fst ` set idx - set (p # seen)) < card (fst ` set idx - set seen)"
    by (intro psubset_card_mono) simp_all
  then show "((idx, p # seen, c_parent_audit_id parent), idx, seen, Some p)
      \<in> measure (\<lambda>(idx, seen, p).
          case p of None \<Rightarrow> 0 | Some _ \<Rightarrow> Suc (card (fst ` set idx - set seen)))"
    by (simp split: option.split)
qed simp

fun record_cap_uses ::
  "session_graph \<Rightarrow> uuid \<Rightarrow> time \<Rightarrow> capability list \<Rightarrow> session_graph \<times> unit run" where
  "record_cap_uses g sid now [] = (g, Returned ())"
| "record_cap_uses g sid now (cap # caps) =
     (case c_rate_limit cap of
        None \<Rightarrow> record_cap_uses g sid now caps
      | Some rl \<Rightarrow>
          (case record_cap_use g sid (c_audit_id cap) now
                  (Some (rl_window_seconds rl * second_us)) now of
             Inl e \<Rightarrow> (g, Raised e)
           | Inr (g', _) \<Rightarrow> record_cap_uses g' sid now caps))"

definition charged_capabilities :: "session \<Rightarrow> capability option \<Rightarrow> capability list option" where
  "charged_capabilities s matched =
     (case matched of
        None \<Rightarrow> Some []
      | Some cap \<Rightarrow>
          if c_rate_limit cap = None then Some []
          else map_option (Cons cap)
                 (rate_ancestors (build_audit_id_index (s_capability_set s)) []
                    (c_parent_audit_id cap)))"

definition record_use ::
  "session_graph \<Rightarrow> session \<Rightarrow> action \<Rightarrow> policy_decision \<Rightarrow> uuid \<Rightarrow> time
   \<Rightarrow> session_graph \<times> unit run" where
  "record_use g s act pd sid now =
     (case record_used_kind g sid (a_kind act) now of
        Inl e \<Rightarrow> (g, Raised e)
      | Inr (g, _) \<Rightarrow>
          (case charged_capabilities s (pd_matched_capability pd) of
             None \<Rightarrow> (g, Hangs)
           | Some caps \<Rightarrow> record_cap_uses g sid now caps))"

section \<open>After the handler\<close>

definition tool_result_node_id :: "uuid \<Rightarrow> json" where
  "tool_result_node_id aid = JText [JStr ''tool_result:'', JUuid aid]"

definition reference_handle_node_id :: "uuid \<Rightarrow> json" where
  "reference_handle_node_id h = JText [JStr ''reference_handle:'', JUuid h]"

definition capability_provenance ::
  "uuid \<Rightarrow> json \<Rightarrow> uuid \<Rightarrow> capability option \<Rightarrow> session_graph \<Rightarrow> session_graph" where
  "capability_provenance sid node eid matched g =
     (case matched of
        None \<Rightarrow> g
      | Some cap \<Rightarrow>
          (let cnode = capability_node_id (c_audit_id cap)
           in provenance_edge (Some sid) cnode node ''authorized'' (Some eid) []
                (provenance_node (Some sid) cnode ''capability'' cnode None None
                   [(''kind'', JStr (kind_name (c_kind cap))), (''pattern'', JStr (c_pattern cap)),
                    (''origin'', JStr (origin_value (c_origin cap)))] g)))"

definition handle_provenance ::
  "uuid \<Rightarrow> json \<Rightarrow> uuid \<Rightarrow> session_graph \<Rightarrow> uuid \<Rightarrow> session_graph" where
  "handle_provenance sid node eid g h =
     (let hnode = reference_handle_node_id h
      in provenance_edge (Some sid) hnode node ''input'' (Some eid) []
           (provenance_node (Some sid) hnode ''reference_handle'' hnode None None [] g))"

definition result_provenance ::
  "call_env \<Rightarrow> uuid \<Rightarrow> string \<Rightarrow> action \<Rightarrow> policy_decision \<Rightarrow> label_state \<Rightarrow> json \<Rightarrow> uuid list
   \<Rightarrow> session_graph \<Rightarrow> session_graph" where
  "result_provenance en sid tool_name act pd tags output bound g =
     (let eid = ce_returned_id en; node = tool_result_node_id eid;
          g = provenance_node (Some sid) node ''tool_result''
                (JText [JStr ''tool:'', JStr tool_name, JStr '':'', JUuid eid]) (Some tags) (Some eid)
                [(''tool'', JStr tool_name), (''target'', JStr (a_target act)),
                 (''output_digest'', tx_digest (ce_text en) output)] g;
          g = capability_provenance sid node eid (pd_matched_capability pd) g
      in foldl (handle_provenance sid node eid) g bound)"

text \<open>The labels of the result enter the session; the graph, and what the outcome reports.\<close>

definition propagate_tags ::
  "session_graph \<Rightarrow> session \<Rightarrow> string \<Rightarrow> label_state \<Rightarrow> uuid \<Rightarrow> time
   \<Rightarrow> py_error + session_graph \<times> label_state" where
  "propagate_tags g s tool_name tags sid now =
     (if no_labels tags then Inr (g, empty_state)
      else case add_tags g sid tags now of
             Inl e \<Rightarrow> Inl e
           | Inr (g, _) \<Rightarrow>
               (case graph_get g sid of
                  Inl e \<Rightarrow> Inl e
                | Inr updated \<Rightarrow>
                    (let added = s_label_state updated
                     in Inr (if same_labels added (s_label_state s) then g
                             else event ''label.propagated'' sid
                               [(''categories_added'',
                                  JList (map JStr (sort (map ct_category (ls_a added))))),
                                (''levels_added'', JList (map JStr
                                  (sort (map (\<lambda>t. provenance_value (pt_level t)) (ls_b added))))),
                                (''source_tool'', JStr tool_name)] g, added))))"

text \<open>The labels a result brings, once a declassifier's removals are taken out.\<close>

definition result_tags ::
  "tool_definition \<Rightarrow> args \<Rightarrow> kind_registry \<Rightarrow> label_state \<Rightarrow> label_state \<Rightarrow> label_state \<Rightarrow> label_state" where
  "result_tags tool args kinds removed additional bound_tags =
     most_restrictive_inherit
       [remove_tags (td_inherent_tags tool) removed, remove_tags additional removed,
        extract_arg_inherent_tags tool args, kind_add_tags kinds (td_capability_kind tool),
        bound_tags]"

definition finish_call ::
  "tool_client \<Rightarrow> session \<Rightarrow> tool_definition \<Rightarrow> string \<Rightarrow> args \<Rightarrow> action \<Rightarrow> policy_decision
   \<Rightarrow> label_state \<Rightarrow> uuid list \<Rightarrow> json \<Rightarrow> label_state \<Rightarrow> uuid \<Rightarrow> call_env
   \<Rightarrow> tool_client \<times> call_outcome run" where
  "finish_call c s tool tool_name args act pd bound_tags bound output additional sid en =
     (let tx = ce_text en;
          g = event ''tool.returned'' sid
                ((''tool'', JStr tool_name) # audit_output_metadata tx output) (tc_graph c)
      in case apply_inspectors (hooks_at c ''at_ingest.value_in'') s output g of
           (g, Some e) \<Rightarrow> (with_graph c g, Raised e)
         | (g, None) \<Rightarrow>
             (let (g, new_output, removed) =
                    apply_declassifiers tx (hooks_at c ''at_ingest.declassifier_chain'') s tool_name
                      output (td_inherent_tags tool) additional (ce_declassify_ids en) sid g;
                  output = (if new_output = JNull then output else new_output);
                  tags = result_tags tool args (ce_kinds en) removed additional bound_tags
              in case propagate_tags g s tool_name tags sid (ce_now en) of
                   Inl e \<Rightarrow> (with_graph c g, Raised e)
                 | Inr (g, added) \<Rightarrow>
                     (with_graph c (result_provenance en sid tool_name act pd tags output bound g),
                      Returned ((ToolCallOutcome (pd_decision pd) tool_name args)
                        \<lparr>oc_output := (if output = JNull then None else Some output),
                         oc_tags_added := added,
                         oc_rule := pd_rule pd,
                         oc_reason := map_option (tx_reason tx) (pd_reason pd)\<rparr>))))"

section \<open>Dispatch\<close>

definition failed_outcome :: "string \<Rightarrow> string \<Rightarrow> args \<Rightarrow> call_outcome" where
  "failed_outcome err tool_name args = (ToolCallOutcome ALLOW tool_name args)\<lparr>oc_error := Some err\<rparr>"

definition dispatch_call ::
  "handler \<Rightarrow> tool_client \<Rightarrow> session \<Rightarrow> tool_definition \<Rightarrow> string \<Rightarrow> args \<Rightarrow> action \<Rightarrow> policy_decision
   \<Rightarrow> uuid \<Rightarrow> call_env \<Rightarrow> tool_client \<times> call_outcome run" where
  "dispatch_call handler c s tool tool_name args act pd sid en =
     (let g = event ''tool.dispatched'' sid
                [(''tool'', JStr tool_name), (''args'', audit_args (ce_text en) tool_name args),
                 (''audit_id'', case pd_matched_capability pd of
                    None \<Rightarrow> JStr [] | Some cap \<Rightarrow> JUuid (c_audit_id cap))] (tc_graph c)
      in case record_use g s act pd sid (ce_now en) of
           (g, Raised e) \<Rightarrow> (with_graph c g, Raised e)
         | (g, Aborted) \<Rightarrow> (with_graph c g, Aborted)
         | (g, Hangs) \<Rightarrow> (with_graph c g, Hangs)
         | (g, Returned _) \<Rightarrow>
             (let (st, bound_args, bound_tags, bound) =
                    bind_reference_handles (handle_store_of c) sid tool tool_name
                      (extract_target (tx_py (ce_text en)) tool args) args (ce_bind_ids en) (ce_now en)
              in case handler tool bound_args sid (s_label_state s) (with_handles (with_graph c g) st) of
                   (c, HandlerResult output additional) \<Rightarrow>
                     finish_call c s tool tool_name args act pd bound_tags bound output additional sid en
                 | (c, HandlerRaised err) \<Rightarrow> (c, Returned (failed_outcome err tool_name args))
                 | (c, HandlerCancelled) \<Rightarrow>
                     (c, Returned (failed_outcome
                       ''UpstreamCallFailed: upstream request cancelled (remote error?)'' tool_name args))
                 | (c, HandlerAborted) \<Rightarrow> (c, Aborted)))"

text \<open>\<open>_call_tool\<close>.\<close>

definition call_unmasked ::
  "handler \<Rightarrow> tool_client \<Rightarrow> uuid \<Rightarrow> string \<Rightarrow> args \<Rightarrow> bool \<Rightarrow> call_env
   \<Rightarrow> tool_client \<times> call_outcome run" where
  "call_unmasked handler c sid tool_name args approved en =
     (case registry_get (tc_registry c) tool_name of
        Inl e \<Rightarrow> (c, Raised e)
      | Inr tool \<Rightarrow>
      (case graph_get (tc_graph c) sid of
        Inl e \<Rightarrow> (c, Raised e)
      | Inr s \<Rightarrow>
      (case extract_amount tool args of
        Inl e \<Rightarrow> (c, Raised e)
      | Inr amount \<Rightarrow>
          (let act = \<lparr>a_kind = td_capability_kind tool,
                      a_target = extract_target (tx_py (ce_text en)) tool args, a_amount = amount\<rparr>
           in case decide_call c s tool tool_name args act approved sid en of
                (c, Inl e) \<Rightarrow> (c, Raised e)
              | (c, Inr pd) \<Rightarrow>
                  (let pc = tc_context c; tx = ce_text en;
                       g = emit_policy_decision pc tx sid tool_name args pd tool (tc_graph c)
                   in case emit_purpose_contamination pc tx sid tool_name args act pd g of
                        Inl e \<Rightarrow> (with_graph c g, Raised e)
                      | Inr g \<Rightarrow>
                          (let c = with_graph c (emit_capability_checked sid act pd g)
                           in if pd_decision pd \<notin> {ALLOW, WARN}
                              then refuse_call c s tool tool_name args pd sid en
                              else dispatch_call handler c s tool tool_name args act pd sid en))))))"

section \<open>The planner boundary\<close>

definition no_mode_outcome :: "string \<Rightarrow> args \<Rightarrow> call_outcome" where
  "no_mode_outcome tool_name args =
     (ToolCallOutcome DENY tool_name args)
       \<lparr>oc_rule := Some ''required-handling-empty'',
        oc_reason := Some ''No execution mode is permitted by this session requirement.''\<rparr>"

definition withheld_output :: json where
  "withheld_output =
     JDict [(''result_withheld'', JBool True),
            (''notice'', JStr ''Result withheld. This is not an instruction to retry the effect.'')]"

definition withheld :: "args \<Rightarrow> call_outcome \<Rightarrow> call_outcome" where
  "withheld original_args oc =
     oc\<lparr>oc_output := (if oc_output oc = None then None else Some withheld_output),
        oc_error := (if oc_error oc = None then None else Some ''Tool failed; details withheld.''),
        oc_reason := Some ''Original decision preserved; result details withheld from planner.'',
        oc_approval_submission := None, oc_recovery_steps := [], oc_tool_args := original_args,
        oc_result_withheld := True\<rparr>"

definition opaque_to :: "string \<Rightarrow> session \<Rightarrow> bool" where
  "opaque_to recipient s \<longleftrightarrow>
     recipient = ''planner''
     \<and> (case s_required_modes s of
          None \<Rightarrow> False | Some ms \<Rightarrow> ms \<noteq> [] \<and> set ms \<subseteq> {''reference'', ''sealed''})"

definition call_tool ::
  "handler \<Rightarrow> tool_client \<Rightarrow> uuid \<Rightarrow> string \<Rightarrow> args \<Rightarrow> bool \<Rightarrow> string \<Rightarrow> call_env
   \<Rightarrow> tool_client \<times> call_outcome run" where
  "call_tool handler c sid tool_name args approved recipient en =
     (if recipient \<notin> {''planner'', ''internal''} then (c, Raised ValueError)
      else case graph_get (tc_graph c) sid of
        Inl e \<Rightarrow> (c, Raised e)
      | Inr s \<Rightarrow>
          if s_required_modes s = Some []
          then (with_graph c (event ''policy.decided'' sid
                  [(''tool'', JStr tool_name), (''decision'', JStr ''DENY''),
                   (''rule'', JStr ''required-handling-empty''),
                   (''stage'', JStr ''required_handling'')] (tc_graph c)),
                Returned (no_mode_outcome tool_name args))
          else if \<not> opaque_to recipient s
          then call_unmasked handler c sid tool_name args approved en
          else
            (case call_unmasked handler c sid tool_name args approved en of
               (c, Raised _) \<Rightarrow> (c, Raised RuntimeFault)
             | (c, Aborted) \<Rightarrow> (c, Aborted)
             | (c, Hangs) \<Rightarrow> (c, Hangs)
             | (c, Returned oc) \<Rightarrow>
                 (with_graph c (event ''planner_result.withheld'' sid
                    [(''tool'', JStr tool_name),
                     (''decision'', JStr (decision_value (oc_decision oc))),
                     (''required_modes'',
                       JList (map JStr (sort (case s_required_modes s of None \<Rightarrow> [] | Some ms \<Rightarrow> ms)))),
                     (''result_recipient'', JStr ''planner'')] (tc_graph c)),
                  Returned (withheld args oc))))"

end
