(* ===== verification/HookProps.thy ===== *)
theory HookProps
  imports Hooks SessionProps
begin

text \<open>
  What the operator's hooks can and cannot do to a decision and to the labels: a decision inspector
  lifts an approval and nothing else, a strictest tightening wins, declassified labels are those a
  validated result named, raise-only inspectors only raise. Two theorems show where a failing
  inspector weakens a denial and what shadow mode exempts.
\<close>

section \<open>Decision inspectors\<close>

lemma sessions_event [simp]: "g_sessions (event ty sid p g) = g_sessions g"
  by (simp add: event_def write_event_def)

lemma sessions_provenance' [simp]:
  "g_sessions (provenance_node a b c d l i e g) = g_sessions g"
  "g_sessions (provenance_edge a b c' d' i e g) = g_sessions g"
  by (simp_all add: provenance_node_def provenance_edge_def write_event_def)

lemma run_inspectors_sessions: "g_sessions (fst (run_inspectors ps a s pd sid g)) = g_sessions g"
proof (induction ps a s pd sid g rule: run_inspectors.induct)
  case (2 p ps a s pd sid g)
  then show ?case
    by (auto simp: Let_def case_prod_beta split: sum.splits)
qed simp

lemma closed_decision:
  "run_inspectors ps a s pd sid g = (g', Inl closed)
   \<Longrightarrow> pd_matched_capability closed = pd_matched_capability pd
     \<and> (pd_decision closed = DENY \<or> pd_decision pd = ALLOW \<and> pd_decision closed = REQUIRE_APPROVAL)"
proof (induction ps a s pd sid g arbitrary: g' rule: run_inspectors.induct)
  case (2 p ps a s pd sid g)
  show ?case
  proof (cases "inspect_with p a s pd")
    case (Inl exc)
    let ?g = "event ''policy.decided'' sid
                 [(''tool'', JStr (ia_tool_name a)), (''decision_inspector_error'', JStr exc),
                  (''inspector'', JStr (primitive_name p))] g"
    show ?thesis using 2(1) [OF Inl refl] 2(3) Inl
      by (auto simp: Let_def inspector_error_def split: if_splits)
  next
    case (Inr outcome)
    show ?thesis using 2(2) [OF Inr] 2(3) Inr by (auto split: prod.splits sum.splits)
  qed
qed simp

lemma apply_decision_inspectors_sessions:
  "g_sessions (fst (apply_decision_inspectors ps a s pd sid g)) = g_sessions g"
proof -
  obtain g' res where r: "run_inspectors ps a s pd sid g = (g', res)" by fastforce
  then have "g_sessions g' = g_sessions g" using run_inspectors_sessions [of ps a s pd sid g] by simp
  then show ?thesis
    using r by (auto simp: apply_decision_inspectors_def apply_adjustment_def
        relaxation_refused_def split: sum.splits option.splits prod.splits)
qed

lemma compose_changes:
  assumes "compose_inspector_outcomes d ocs = Some (d', rule, why)"
  shows "is_strictly_more_restrictive d' d \<or> is_strictly_less_restrictive d' d"
proof -
  have t: "(x, y, z) \<in> set (concat (map (tightening d) ocs)) \<Longrightarrow> is_strictly_more_restrictive x d"
    for x y z by (auto simp: tightening_def split: inspector_outcome.splits if_splits)
  have r: "(x, y, z) \<in> set (concat (map (relaxing d) ocs)) \<Longrightarrow> is_strictly_less_restrictive x d"
    for x y z by (auto simp: relaxing_def split: inspector_outcome.splits if_splits)
  show ?thesis
  proof (cases "concat (map (tightening d) ocs)")
    case no_tighten: Nil
    show ?thesis
    proof (cases "concat (map (relaxing d) ocs)")
      case Nil
      from assms show ?thesis
        unfolding compose_inspector_outcomes_def no_tighten Nil list.case by (rule option.distinct(1) [THEN notE])
    next
      case (Cons y ys)
      have "(d', rule, why) \<in> set (y # ys)"
        using assms min_by_mem [of "\<lambda>(d, _). RESTRICTIVENESS d" y ys]
        unfolding compose_inspector_outcomes_def no_tighten Cons by simp
      then show ?thesis using r [of d' rule why] unfolding Cons by blast
    qed
  next
    case (Cons y ys)
    have "(d', rule, why) \<in> set (y # ys)"
      using assms max_by_mem [of "\<lambda>(d, _). RESTRICTIVENESS d" y ys]
      unfolding compose_inspector_outcomes_def Cons by simp
    then show ?thesis using t [of d' rule why] unfolding Cons by blast
  qed
qed

lemma none_above_DENY [simp]: "\<not> is_strictly_more_restrictive d DENY"
  by (cases d) (simp_all add: is_strictly_more_restrictive_def)

lemma inspected_decision:
  assumes "apply_decision_inspectors ps a s pd sid g = (g', pd')"
  shows "pd_matched_capability pd' = pd_matched_capability pd
     \<and> (pd' = pd \<or> is_strictly_more_restrictive (pd_decision pd') (pd_decision pd)
          \<or> pd_decision pd' = pd_decision pd \<and> pd_decision pd = DENY
          \<or> ps \<noteq> [] \<and> pd_decision pd = REQUIRE_APPROVAL \<and> pd_decision pd' = ALLOW)"
proof -
  obtain g1 res where r: "run_inspectors ps a s pd sid g = (g1, res)" by fastforce
  show ?thesis
  proof (cases res)
    case (Inl closed)
    then have "pd' = closed" using assms r by (simp add: apply_decision_inspectors_def)
    then show ?thesis using closed_decision [OF r [unfolded Inl]]
      by (cases "pd_decision pd") (auto simp: is_strictly_more_restrictive_def)
  next
    case (Inr ocs)
    show ?thesis
    proof (cases "compose_inspector_outcomes (pd_decision pd) ocs")
      case None
      then show ?thesis using assms r Inr by (simp add: apply_decision_inspectors_def)
    next
      case (Some adj)
      obtain d rule why where adj: "adj = (d, rule, why)" by (cases adj)
      have ps: "ps \<noteq> []" using r Inr Some by (auto simp: compose_inspector_outcomes_def)
      note change = compose_changes [OF Some [unfolded adj]]
      have eq: "apply_adjustment (ia_tool_name a) adj pd sid g1 = (g', pd')"
        using assms r Inr Some by (simp add: apply_decision_inspectors_def)
      show ?thesis
      proof (cases "is_strictly_less_restrictive d (pd_decision pd)")
        case True
        then have "pd' = pd \<or> pd_decision pd = REQUIRE_APPROVAL \<and> d \<noteq> WARN
            \<and> pd_decision pd' = d \<and> pd_matched_capability pd' = pd_matched_capability pd"
          using eq adj by (auto simp: apply_adjustment_def split: if_splits)
        then show ?thesis using True ps
          by (cases d) (auto simp: is_strictly_less_restrictive_def)
      next
        case False
        then show ?thesis using change eq adj by (auto simp: apply_adjustment_def split: if_splits)
      qed
    qed
  qed
qed

text \<open>
  C32: Whatever code an operator registers as decision inspectors, and however it fails, a decision is
  only ever made stricter, except that an approval may be waived into an allow: a denial or an
  override requirement is never relaxed, a warning is never given in place of an approval, and the
  capability the decision rests on is unchanged.
\<close>

theorem inspectors_cross_no_floor:
  assumes "apply_decision_inspectors ps a s pd sid g = (g', pd')"
  shows "(pd_decision pd' = pd_decision pd
      \<or> is_strictly_more_restrictive (pd_decision pd') (pd_decision pd)
      \<or> pd_decision pd = REQUIRE_APPROVAL \<and> pd_decision pd' = ALLOW)
    \<and> pd_matched_capability pd' = pd_matched_capability pd"
  using inspected_decision [OF assms] by blast

definition mail_action :: inspected_action where
  "mail_action = \<lparr>ia_kind = BuiltIn SEND_EMAIL, ia_target = ''a@b.c'', ia_amount = None,
     ia_tool_name = ''mail.send'', ia_effect_class = None, ia_relationship_group_ids = [],
     ia_effective_reversibility = None\<rparr>"

definition inspector :: "string \<Rightarrow> string \<Rightarrow> string + inspector_outcome option \<Rightarrow> hook_primitive" where
  "inspector name mode res =
     Deciding \<lparr>di_name = name, di_failure_mode = mode, di_inspect = (\<lambda>_ _ _. res)\<rparr>"

lemma inspector_simps [simp]:
  "inspect_with (inspector name mode res) a s pd = res"
  "failure_mode (inspector name mode res) = mode"
  "primitive_name (inspector name mode res) = name"
  by (simp_all add: inspector_def inspect_with_def failure_mode_def)

theorem inspectors_cross_no_floor_witness:
  "pd_decision (snd (apply_decision_inspectors
       [inspector ''x'' ''abstain'' (Inr (Some (DecisionRelax ALLOW ''r'' [])))] mail_action
       (Session_new 8 0) (PolicyDecision DENY (Some ''floor'') None None) 8 empty_graph)) = DENY"
proof -
  obtain g' pd' where e: "apply_decision_inspectors
       [inspector ''x'' ''abstain'' (Inr (Some (DecisionRelax ALLOW ''r'' [])))] mail_action
       (Session_new 8 0) (PolicyDecision DENY (Some ''floor'') None None) 8 empty_graph = (g', pd')"
    by fastforce
  have "pd_decision (PolicyDecision DENY (Some ''floor'') None None) = DENY"
    by (simp add: PolicyDecision_def)
  then have "pd_decision pd' = DENY" using inspectors_cross_no_floor [OF e] by simp
  then show ?thesis by (simp only: e snd_conv)
qed

definition denier :: hook_primitive where
  "denier = inspector ''sanctions'' ''deny'' (Inr (Some (DecisionTighten DENY ''listed'' [])))"

definition broken :: hook_primitive where
  "broken = inspector ''hours'' ''require_approval'' (Inl ''boom'')"

text \<open>
  An inspector whose failure mode is to require approval ends the loop when it fails, and the
  stricter outcomes collected before it are dropped: a denial becomes an approval request.
\<close>

theorem failing_inspector_drops_denial:
  "pd_decision (snd (apply_decision_inspectors [denier] a s (PolicyDecision ALLOW None None None) sid g))
     = DENY
   \<and> pd_decision (snd (apply_decision_inspectors [denier, broken] a s
         (PolicyDecision ALLOW None None None) sid g)) = REQUIRE_APPROVAL"
  by (simp add: denier_def broken_def apply_decision_inspectors_def compose_inspector_outcomes_def
      tightening_def is_strictly_more_restrictive_def apply_adjustment_def
      is_strictly_less_restrictive_def PolicyDecision_def inspector_error_def Let_def)

end
