(* ===== verification/ApprovalLemmas.thy ===== *)
theory ApprovalLemmas
  imports Approval
begin

text \<open>
  Invariants of the approval queue: requests stand under their own identifiers, the review
  database mirrors the memory, new identifiers are above all old ones; and what any operation may
  do to a request (\<open>request_evolves\<close>). Every operation is a step of \<open>queue_step\<close>.
\<close>

section \<open>What may happen to a request\<close>

definition same_content :: "approval_request \<Rightarrow> approval_request \<Rightarrow> bool" where
  "same_content r r' \<longleftrightarrow>
     ar_id r' = ar_id r \<and> ar_audit_id r' = ar_audit_id r \<and> ar_from_session r' = ar_from_session r
     \<and> ar_action r' = ar_action r \<and> ar_payload r' = ar_payload r \<and> ar_target r' = ar_target r
     \<and> ar_labels_in r' = ar_labels_in r \<and> ar_capability_requested r' = ar_capability_requested r
     \<and> ar_justification r' = ar_justification r \<and> ar_requested_at r' = ar_requested_at r
     \<and> ar_expires_at r' = ar_expires_at r \<and> ar_rule r' = ar_rule r"

definition request_evolves :: "approval_request \<Rightarrow> approval_request \<Rightarrow> bool" where
  "request_evolves r r' \<longleftrightarrow> same_content r r'
     \<and> (ar_status r \<noteq> AP_PENDING \<longrightarrow> ar_status r' = ar_status r
          \<and> ar_decision_at r' = ar_decision_at r \<and> ar_decided_by r' = ar_decided_by r)"

lemma request_evolves_refl [simp]: "request_evolves r r"
  by (simp add: request_evolves_def same_content_def)

lemma request_evolves_trans:
  assumes "request_evolves r r'" and "request_evolves r' r''"
  shows "request_evolves r r''"
proof -
  have "same_content r r''"
    using assms by (simp add: request_evolves_def same_content_def)
  moreover have "ar_expires_at r' = ar_expires_at r"
    using assms(1) by (simp add: request_evolves_def same_content_def)
  ultimately show ?thesis
    using assms unfolding request_evolves_def by metis
qed

section \<open>Invariants\<close>

definition id_below :: "approval_queue \<Rightarrow> int \<Rightarrow> bool" where
  "id_below q rid \<longleftrightarrow>
     (case q_id_store q of
        None \<Rightarrow> rid < q_next_id q
      | Some st \<Rightarrow> (case is_db st of Some (n, _) \<Rightarrow> rid < n | None \<Rightarrow> False))"

definition queue_inv :: "approval_queue \<Rightarrow> bool" where
  "queue_inv q \<longleftrightarrow>
     distinct (map fst (q_requests q))
     \<and> (\<forall>rid r. map_of (q_requests q) rid = Some r \<longrightarrow> ar_id r = rid \<and> id_below q rid)
     \<and> (\<forall>rows. q_reviews q = Some rows
          \<longrightarrow> distinct (map fst rows)
            \<and> map_of rows = (\<lambda>rid. map_option request_to_dict (map_of (q_requests q) rid)))"

lemma queue_invD:
  assumes "queue_inv q"
  shows "distinct (map fst (q_requests q))"
    and "map_of (q_requests q) rid = Some r \<Longrightarrow> ar_id r = rid"
    and "map_of (q_requests q) rid = Some r \<Longrightarrow> id_below q rid"
    and "q_reviews q = Some rows
      \<Longrightarrow> map_of rows = (\<lambda>rid. map_option request_to_dict (map_of (q_requests q) rid))"
    and "q_reviews q = Some rows \<Longrightarrow> distinct (map fst rows)"
  using assms by (auto simp: queue_inv_def)

interpretation reqs: record_store ar_id "\<lambda>q. map_of (q_requests q)" record_request
  by unfold_locales (simp add: record_request_def update_conv')

lemma record_request_sel [simp]:
  "q_next_id (record_request q r) = q_next_id q" "q_id_store (record_request q r) = q_id_store q"
  "q_patterns (record_request q r) = q_patterns q"
  "q_has_graph (record_request q r) = q_has_graph q"
  by (simp_all add: record_request_def)

lemma id_below_record [simp]: "id_below (record_request q r) rid = id_below q rid"
  by (simp only: id_below_def record_request_sel)

lemma queue_inv_record:
  assumes "queue_inv q" and "id_below q (ar_id r)"
  shows "queue_inv (record_request q r)"
proof -
  have "map_of (q_requests (record_request q r)) rid = Some r' \<Longrightarrow> ar_id r' = rid \<and> id_below q rid"
    for rid r' using assms by (auto simp: reqs.get_put queue_inv_def split: if_splits)
  moreover have "distinct (map fst rows) \<and> map_of rows = (\<lambda>rid. map_option request_to_dict
        (map_of (q_requests (record_request q r)) rid))"
    if "q_reviews (record_request q r) = Some rows" for rows
  proof -
    have "\<exists>rows0. q_reviews q = Some rows0 \<and> rows = AList.update (ar_id r) (request_to_dict r) rows0"
      using that by (cases "q_reviews q") (simp_all add: record_request_def)
    then obtain rows0 where "q_reviews q = Some rows0"
      and "rows = AList.update (ar_id r) (request_to_dict r) rows0" by blast
    then show ?thesis
      using queue_invD(4,5) [OF assms(1)]
      by (simp add: fun_eq_iff update_conv' reqs.get_put distinct_update)
  qed
  moreover have "distinct (map fst (q_requests (record_request q r)))"
    using assms(1) by (simp add: record_request_def queue_inv_def distinct_update)
  ultimately show ?thesis by (simp add: queue_inv_def)
qed

text \<open>One queue becomes another: the invariant stays, and every request evolves.\<close>

definition queue_to :: "approval_queue \<Rightarrow> approval_queue \<Rightarrow> bool" where
  "queue_to q q' \<longleftrightarrow> (queue_inv q \<longrightarrow> queue_inv q'
     \<and> (\<forall>rid. id_below q rid \<longrightarrow> id_below q' rid)
     \<and> (\<forall>rid r. map_of (q_requests q) rid = Some r
          \<longrightarrow> (\<exists>r'. map_of (q_requests q') rid = Some r' \<and> request_evolves r r')))"

lemma queue_to_refl [simp]: "queue_to q q"
  by (auto simp: queue_to_def)

lemma queue_to_trans: "queue_to q q' \<Longrightarrow> queue_to q' q'' \<Longrightarrow> queue_to q q''"
  unfolding queue_to_def by (meson request_evolves_trans)

lemma queue_to_record:
  assumes "map_of (q_requests q) (ar_id r) = Some r" and "request_evolves r r'"
  shows "queue_to q (record_request q r')"
proof -
  have id: "ar_id r' = ar_id r" using assms(2) by (simp add: request_evolves_def same_content_def)
  show ?thesis
    unfolding queue_to_def
  proof (intro impI conjI allI)
    assume inv: "queue_inv q"
    show "queue_inv (record_request q r')"
      using inv queue_invD(3) [OF inv assms(1)] by (simp add: queue_inv_record id)
    fix rid x
    show "id_below q rid \<Longrightarrow> id_below (record_request q r') rid" by simp
    assume "map_of (q_requests q) rid = Some x"
    then show "\<exists>y. map_of (q_requests (record_request q r')) rid = Some y \<and> request_evolves x y"
      using assms id by (cases "rid = ar_id r") (simp_all add: reqs.get_put)
  qed
qed

lemma queue_to_same:
  assumes "q_requests q' = q_requests q" and "q_reviews q' = q_reviews q"
    and "\<And>rid. id_below q rid \<Longrightarrow> id_below q' rid"
  shows "queue_to q q'"
  using assms unfolding queue_to_def queue_inv_def by auto

section \<open>Expiry\<close>

lemma maybe_expire_evolves:
  "maybe_expire q r now = (q', r') \<Longrightarrow> request_evolves r r' \<and> ar_id r' = ar_id r"
  by (auto simp: maybe_expire_def Let_def request_evolves_def same_content_def
      split: if_splits option.splits)

lemma maybe_expire_live:
  "maybe_expire q r now = (q', r') \<Longrightarrow> ar_status r' = AP_PENDING
   \<Longrightarrow> q' = q \<and> r' = r \<and> (\<forall>x. ar_expires_at r = Some x \<longrightarrow> now < x)"
  by (auto simp: maybe_expire_def Let_def split: if_splits option.splits)

lemma maybe_expire_put:
  assumes "map_of (q_requests q) (ar_id r) = Some r" and "maybe_expire q r now = (q', r')"
  shows "map_of (q_requests q') k = (if k = ar_id r then Some r' else map_of (q_requests q) k)"
  using assms
  by (auto simp: maybe_expire_def Let_def reqs.get_put split: if_splits option.splits)

lemma maybe_expire_to:
  assumes "map_of (q_requests q) (ar_id r) = Some r"
  shows "queue_to q (fst (maybe_expire q r now))"
proof -
  let ?r' = "r\<lparr>ar_status := AP_EXPIRED, ar_decision_at := Some now, ar_decided_by := Some ''ttl''\<rparr>"
  have "request_evolves r ?r'" if "ar_status r = AP_PENDING"
    using that by (simp add: request_evolves_def same_content_def)
  then have "queue_to q (record_request q ?r')" if "ar_status r = AP_PENDING"
    using queue_to_record [OF assms] that by blast
  moreover have "queue_to q'' (q''\<lparr>q_scheduled := es\<rparr>)" for q'' es
    by (rule queue_to_same) (simp_all add: id_below_def cong: option.case_cong)
  ultimately show ?thesis
    by (auto simp: maybe_expire_def Let_def intro: queue_to_trans split: option.splits)
qed

lemma sweep_to:
  assumes "distinct (map ar_id rs)" and "\<And>r. r \<in> set rs \<Longrightarrow> map_of (q_requests q) (ar_id r) = Some r"
  shows "queue_to q (foldl (\<lambda>q r. fst (maybe_expire q r now)) q rs)"
  using assms
proof (induction rs arbitrary: q)
  case (Cons r rs)
  obtain q1 r1 where e: "maybe_expire q r now = (q1, r1)" by fastforce
  have cur: "map_of (q_requests q) (ar_id r) = Some r" using Cons.prems(2) by simp
  have "map_of (q_requests q1) (ar_id x) = Some x" if "x \<in> set rs" for x
  proof -
    have "ar_id x \<in> ar_id ` set rs" using that by simp
    then have "ar_id x \<noteq> ar_id r" using Cons.prems(1) by auto
    then show ?thesis using that Cons.prems(2) maybe_expire_put [OF cur e] by simp
  qed
  then have "queue_to q1 (foldl (\<lambda>q r. fst (maybe_expire q r now)) q1 rs)"
    using Cons.IH Cons.prems(1) by simp
  moreover have "queue_to q q1" using maybe_expire_to [OF cur, of now] e by simp
  ultimately show ?case using e by (simp add: queue_to_trans)
qed simp

lemma sweep_expired_to: "queue_to q (sweep_expired q now)"
proof (cases "queue_inv q")
  case True
  have *: "map_of (q_requests q) (ar_id r) = Some r" if "r \<in> set (map snd (q_requests q))" for r
  proof -
    from that have "\<exists>p \<in> set (q_requests q). r = snd p" by auto
    then obtain p where "p \<in> set (q_requests q)" "r = snd p" by blast
    then have "(fst p, r) \<in> set (q_requests q)" by simp
    then have "map_of (q_requests q) (fst p) = Some r" using queue_invD(1) [OF True] by simp
    with queue_invD(2) [OF True this] show ?thesis by simp
  qed
  have "map ar_id (map snd (q_requests q)) = map fst (q_requests q)"
  proof -
    have "ar_id (snd p) = fst p" if "p \<in> set (q_requests q)" for p
    proof -
      have "(fst p, snd p) \<in> set (q_requests q)" using that by simp
      then have "map_of (q_requests q) (fst p) = Some (snd p)" using queue_invD(1) [OF True] by simp
      then show ?thesis by (rule queue_invD(2) [OF True])
    qed
    then show ?thesis by simp
  qed
  then have "distinct (map ar_id (map snd (q_requests q)))"
    using queue_invD(1) [OF True] by (simp only:)
  from sweep_to [OF this *] show ?thesis by (simp add: sweep_expired_def)
qed (simp add: queue_to_def)

lemma queue_get_to: "queue_to q (fst (queue_get q rid now))"
proof (cases "queue_inv q")
  case True
  then show ?thesis
    using maybe_expire_to [of q _ now]
    by (auto simp: queue_get_def Let_def case_prod_beta queue_invD(2) split: option.splits)
qed (simp add: queue_to_def)

lemma queue_get_Inr:
  assumes "queue_inv q" and "queue_get q rid now = (q', Inr r)"
  shows "map_of (q_requests q') rid = Some r" and "ar_id r = rid"
    and "ar_status r = AP_PENDING \<Longrightarrow> q' = q \<and> (\<forall>x. ar_expires_at r = Some x \<longrightarrow> now < x)"
proof -
  obtain r0 where r0: "map_of (q_requests q) rid = Some r0" "maybe_expire q r0 now = (q', r)"
    using assms(2) by (auto simp: queue_get_def Let_def split: option.splits prod.splits)
  have id: "ar_id r0 = rid" using queue_invD(2) [OF assms(1) r0(1)] .
  show "map_of (q_requests q') rid = Some r"
    using maybe_expire_put [OF _ r0(2), of rid] r0(1) id by simp
  show "ar_id r = rid" using maybe_expire_evolves [OF r0(2)] id by simp
  show "q' = q \<and> (\<forall>x. ar_expires_at r = Some x \<longrightarrow> now < x)" if "ar_status r = AP_PENDING"
    using maybe_expire_live [OF r0(2) that] by auto
qed


section \<open>Operations\<close>

text \<open>The decisions on a pending request.\<close>

lemma with_pending_to:
  assumes "\<And>r. map_of (q_requests q) rid = Some r \<Longrightarrow> ar_id r = rid \<Longrightarrow> ar_status r = AP_PENDING
      \<Longrightarrow> \<forall>x. ar_expires_at r = Some x \<longrightarrow> now < x \<Longrightarrow> queue_to q (fst (act q g r))"
  shows "queue_to q (fst (with_pending q g rid now act))"
proof (cases "queue_inv q")
  case True
  show ?thesis
  proof (cases "queue_get q rid now")
    case (Pair q' res)
    have to: "queue_to q q'" using queue_get_to [of q rid now] Pair by simp
    show ?thesis
    proof (cases res)
      case (Inl e)
      then show ?thesis using Pair to by (simp add: with_pending_def)
    next
      case (Inr r)
      note got = queue_get_Inr [OF True Pair [unfolded Inr]]
      show ?thesis
      proof (cases "ar_status r = AP_PENDING")
        case True
        from got(3) [OF this] have "q' = q" "\<forall>x. ar_expires_at r = Some x \<longrightarrow> now < x" by auto
        then show ?thesis
          using assms [of r] got(1,2) True Pair Inr by (simp add: with_pending_def)
      qed (use Pair Inr to in \<open>simp add: with_pending_def\<close>)
    qed
  qed
qed (simp add: queue_to_def)

lemma decided_to:
  assumes "map_of (q_requests q) rid = Some r" and "ar_id r = rid" and "ar_status r = AP_PENDING"
    and "same_content r r'"
  shows "queue_to q (record_request q r')"
  using assms by (intro queue_to_record [where r = r]) (simp_all add: request_evolves_def)

lemma deny_to: "queue_to q (fst (deny q g rid decided_by reason eid now))"
  unfolding deny_def
proof (rule with_pending_to, goal_cases)
  case (1 r)
  show ?case
    unfolding Let_def fst_conv
    by (rule decided_to [OF 1(1-3)]) (simp_all add: same_content_def)
qed

lemma defer_to: "queue_to q (fst (defer_request q g rid now))"
  unfolding defer_request_def
proof (rule with_pending_to, goal_cases)
  case (1 r)
  show ?case
    unfolding Let_def fst_conv
    by (rule decided_to [OF 1(1-3)]) (simp_all add: same_content_def)
qed

lemma supersede_to: "queue_to q (fst (supersede q rid now))"
proof (cases "queue_inv q")
  case True
  obtain q' res where g: "queue_get q rid (dk_checked now) = (q', res)" by fastforce
  have to: "queue_to q q'" using queue_get_to [of q rid "dk_checked now"] g by simp
  show ?thesis
  proof (cases res)
    case (Inr r)
    note got = queue_get_Inr [OF True g [unfolded Inr]]
    have "queue_to q' (record_request q' (r\<lparr>ar_status := AP_SUPERSEDED, ar_decision_at := Some (dk_decided now),
        ar_decided_by := Some ''operator-edit''\<rparr>))" if "ar_status r = AP_PENDING"
      using got(1,2) that by (intro decided_to [where r = r]) (simp_all add: same_content_def)
    then show ?thesis using g Inr to by (auto simp: supersede_def Let_def intro: queue_to_trans)
  qed (use g to in \<open>simp add: supersede_def\<close>)
qed (simp add: queue_to_def)

lemma mark_to: "queue_to q (fst (mark_not_submitted q rid detail now))"
proof (cases "queue_inv q")
  case True
  obtain q' res where g: "queue_get q rid now = (q', res)" by fastforce
  have to: "queue_to q q'" using queue_get_to [of q rid now] g by simp
  show ?thesis
  proof (cases res)
    case (Inr r)
    note got = queue_get_Inr [OF True g [unfolded Inr]]
    have "queue_to q' (record_request q' (r\<lparr>ar_decision_scope := sc\<rparr>))" for sc
      using got(1,2) by (intro queue_to_record [where r = r]) (simp_all add: request_evolves_def same_content_def)
    then show ?thesis
      using g Inr to by (auto simp: mark_not_submitted_def intro: queue_to_trans)
  qed (use g to in \<open>simp add: mark_not_submitted_def\<close>)
qed (simp add: queue_to_def)

lemma approve_to: "queue_to q (fst (approve q g rid a eid now))"
  unfolding approve_def
proof (rule with_pending_to, goal_cases)
  case (1 r)
  have "queue_to q (record_request q (invalidated_request r o' (dk_chain now)))" for o'
    using 1(1-3) by (intro decided_to [where r = r]) (simp_all add: same_content_def invalidated_request_def)
  moreover have "queue_to q (record_request q (approved_request a r (dk_decided now)))"
    using 1 by (intro decided_to [where r = r]) (simp_all add: same_content_def approved_request_def)
  ultimately show ?case by (simp add: Let_def split: option.splits)
qed

lemma auto_approve_to: "queue_to q (fst (auto_approve text_of q g allow r eid now ck))"
proof -
  have "queue_to q (q\<lparr>q_patterns := ps\<rparr>)" for ps
    by (rule queue_to_same) (simp_all add: id_below_def cong: option.case_cong)
  then show ?thesis
    unfolding auto_approve_def
    by (auto split: option.splits intro: queue_to_trans approve_to)
qed

lemma approve_members_to: "queue_to q (fst (approve_members q g ms a eids cks))"
proof (induction q g ms a eids cks rule: approve_members.induct)
  case (2 q g m ms a eids cks)
  show ?case
  proof (cases "ar_status m = AP_PENDING")
    case True
    obtain q1 g1 res where a: "approve q g (ar_id m) a (hd eids) (hd cks) = (q1, g1, res)"
      by (metis prod_cases3)
    have to: "queue_to q q1" using approve_to [of q g "ar_id m" a "hd eids" "hd cks"] a by simp
    show ?thesis
    proof (cases res)
      case (Inr r)
      have "queue_to q1 (fst (approve_members q1 g1 ms a (tl eids) (tl cks)))"
        using 2(2) True a Inr by simp
      with to have "queue_to q (fst (approve_members q1 g1 ms a (tl eids) (tl cks)))"
        by (rule queue_to_trans)
      then show ?thesis using True a Inr by (auto split: prod.splits sum.splits)
    qed (use True a to in simp)
  qed (use 2(1) in simp)
qed simp

lemma approve_group_to: "queue_to q (fst (approve_group q g gid a eids now cks))"
proof -
  have "queue_to (sweep_expired q now) (fst (approve_members (sweep_expired q now) g ms a eids cks))"
    for ms by (rule approve_members_to)
  with sweep_expired_to [of q now] show ?thesis
    unfolding approve_group_def siblings_def Let_def prod.case by (rule queue_to_trans)
qed


section \<open>Submitting\<close>

lemma allocate_id_sel:
  assumes "allocate_id q micros ns = (q', res)"
  shows "q_requests q' = q_requests q" and "q_reviews q' = q_reviews q"
    and "id_below q k \<Longrightarrow> id_below q' k"
  using assms
  by (auto simp: allocate_id_def Let_def id_below_def split: option.splits prod.splits if_splits)

lemma allocate_id_fresh:
  assumes "allocate_id q micros ns = (q', Inr rid)"
  shows "id_below q' rid" and "id_below q k \<Longrightarrow> k < rid"
    and "q_id_store q \<noteq> None \<Longrightarrow> 0 < rid \<and> rid < 2 ^ 53 - 1"
  using assms
  by (auto simp: allocate_id_def Let_def id_below_def split: option.splits prod.splits if_splits)

lemma latest_request_mem: "latest_request r rs \<in> set (r # rs)"
  by (induction rs arbitrary: r) auto

lemma find_sibling_group_to: "queue_to q (fst (find_sibling_group q a now fresh))"
proof (cases "queue_inv q")
  case True
  let ?cs = "filter (\<lambda>r. ar_status r = AP_PENDING \<and> ar_from_session r = sa_from_session a
      \<and> ar_action r = sa_action a \<and> ar_target r = sa_target a
      \<and> ar_requested_at r \<ge> now - SIBLING_GROUPING_WINDOW) (map snd (q_requests q))"
  have stored: "map_of (q_requests q) (ar_id r) = Some r" if "r \<in> set ?cs" for r
  proof -
    from that have "\<exists>k. (k, r) \<in> set (q_requests q)" by auto
    then obtain k where "map_of (q_requests q) k = Some r" using queue_invD(1) [OF True] by auto
    with queue_invD(2) [OF True this] show ?thesis by simp
  qed
  have to: "queue_to q (record_request q (r\<lparr>ar_sibling_group_id := gid\<rparr>))" if "r \<in> set ?cs" for r gid
    by (rule queue_to_record [OF stored [OF that]])
       (simp add: request_evolves_def same_content_def)
  show ?thesis
  proof (cases ?cs)
    case (Cons c cs)
    then have "latest_request c cs \<in> set ?cs" using latest_request_mem by metis
    from to [OF this] Cons show ?thesis
      by (simp add: find_sibling_group_def Let_def split: option.splits)
  qed (simp add: find_sibling_group_def)
qed (simp add: queue_to_def)

lemma new_request_sel [simp]:
  "ar_id (new_request q a en gid rid) = rid" "ar_status (new_request q a en gid rid) = AP_PENDING"
  "ar_capability_requested (new_request q a en gid rid) = sa_capability_requested a"
  by (simp_all add: new_request_def Let_def)

lemma new_request_asked:
  "ar_action (new_request q a en gid rid) = sa_action a"
  "ar_target (new_request q a en gid rid) = sa_target a"
  "ar_labels_in (new_request q a en gid rid) = sa_labels_in a"
  "ar_payload (new_request q a en gid rid) = sa_payload a"
  by (simp_all add: new_request_def Let_def)

lemma open_request_cases:
  obtains q1 gid q2 res where "find_sibling_group q a (se_now en) (se_group_id en) = (q1, gid)"
    and "allocate_id q1 (se_micros en) (se_namespace en) = (q2, res)"
    and "open_request q a en = (case res of Inl e \<Rightarrow> (q2, Inl e)
        | Inr rid \<Rightarrow> (record_request q2 (new_request q2 a en gid rid),
                      Inr (new_request q2 a en gid rid)))"
proof -
  obtain q1 gid where f: "find_sibling_group q a (se_now en) (se_group_id en) = (q1, gid)" by fastforce
  obtain q2 res where "allocate_id q1 (se_micros en) (se_namespace en) = (q2, res)" by fastforce
  with f show thesis by (intro that) (auto simp: open_request_def Let_def split: sum.split)
qed

lemma open_request_to: "queue_to q (fst (open_request q a en))"
proof (cases rule: open_request_cases [of q a en])
  case (1 q1 gid q2 res)
  have q1: "queue_to q q1" using find_sibling_group_to [of q a "se_now en" "se_group_id en"] 1(1) by simp
  note sel = allocate_id_sel [OF 1(2)]
  have q2: "queue_to q1 q2" by (rule queue_to_same) (use sel in auto)
  show ?thesis
  proof (cases res)
    case (Inl e)
    then show ?thesis using 1(3) queue_to_trans [OF q1 q2] by simp
  next
    case (Inr rid)
    let ?r = "new_request q2 a en gid rid"
    note fresh = allocate_id_fresh [OF 1(2) [unfolded Inr]]
    have "queue_to q1 (record_request q2 ?r)"
      unfolding queue_to_def
    proof (intro impI conjI allI)
      assume inv: "queue_inv q1"
      then have "queue_inv q2" using q2 by (simp add: queue_to_def)
      then show "queue_inv (record_request q2 ?r)" using fresh(1) by (simp add: queue_inv_record)
      show "id_below (record_request q2 ?r) k" if "id_below q1 k" for k using sel(3) that by simp
      fix k r assume k: "map_of (q_requests q1) k = Some r"
      have "k < rid" by (rule fresh(2) [OF queue_invD(3) [OF inv k]])
      then have "map_of (q_requests (record_request q2 ?r)) k = Some r"
        using k sel(1) by (simp add: reqs.get_put)
      then show "\<exists>r'. map_of (q_requests (record_request q2 ?r)) k = Some r' \<and> request_evolves r r'"
        by simp
    qed
    then show ?thesis using 1(3) Inr queue_to_trans [OF q1] by simp
  qed
qed

lemma open_request_Inr:
  assumes "queue_inv q" and "open_request q a en = (q', Inr r)"
  shows "map_of (q_requests q') (ar_id r) = Some r" and "ar_status r = AP_PENDING"
    and "map_of (q_requests q) k = Some x \<Longrightarrow> k < ar_id r"
    and "q_id_store q \<noteq> None \<Longrightarrow> 0 < ar_id r \<and> ar_id r < 2 ^ 53 - 1"
    and "\<exists>q2 gid. r = new_request q2 a en gid (ar_id r)"
    and "q_patterns q' = q_patterns q"
proof -
  obtain q1 gid q2 res where o: "find_sibling_group q a (se_now en) (se_group_id en) = (q1, gid)"
    "allocate_id q1 (se_micros en) (se_namespace en) = (q2, res)"
    "open_request q a en = (case res of Inl e \<Rightarrow> (q2, Inl e)
        | Inr rid \<Rightarrow> (record_request q2 (new_request q2 a en gid rid),
                      Inr (new_request q2 a en gid rid)))"
    by (rule open_request_cases)
  have e: "(case res of Inl e \<Rightarrow> (q2, Inl e)
        | Inr rid \<Rightarrow> (record_request q2 (new_request q2 a en gid rid),
                      Inr (new_request q2 a en gid rid))) = (q', Inr r)"
    by (rule trans [OF o(3) [symmetric] assms(2)])
  then have "\<exists>rid. res = Inr rid" by (cases res) simp_all
  then obtain rid where res: "res = Inr rid" by blast
  from e [unfolded res sum.case prod.inject sum.inject]
  have q': "q' = record_request q2 (new_request q2 a en gid rid)"
    and r: "r = new_request q2 a en gid rid" by blast+
  note fresh = allocate_id_fresh [OF o(2) [unfolded res]]
  show "map_of (q_requests q') (ar_id r) = Some r" "ar_status r = AP_PENDING"
    by (simp_all add: q' r reqs.get_put)
  have "ar_id r = rid" unfolding r by (rule new_request_sel(1))
  then have "r = new_request q2 a en gid (ar_id r)" using r by simp
  then show "\<exists>q2 gid. r = new_request q2 a en gid (ar_id r)" by blast
  have to: "queue_to q q1" using find_sibling_group_to [of q a "se_now en" "se_group_id en"] o(1) by simp
  show "k < ar_id r" if k: "map_of (q_requests q) k = Some x"
  proof -
    have "id_below q1 k" using to assms(1) queue_invD(3) [OF assms(1) k] by (simp add: queue_to_def)
    then show ?thesis using fresh(2) r by simp
  qed
  have store: "q_id_store q1 = q_id_store q" and pats: "q_patterns q1 = q_patterns q"
    using o(1) by (auto simp: find_sibling_group_def Let_def split: list.splits option.splits)
  show "0 < ar_id r \<and> ar_id r < 2 ^ 53 - 1" if "q_id_store q \<noteq> None"
    using fresh(3) that store r by simp
  have "q_patterns q2 = q_patterns q1"
    using o(2) by (auto simp: allocate_id_def Let_def split: option.splits prod.splits if_splits)
  then show "q_patterns q' = q_patterns q" by (simp add: q' pats)
qed

section \<open>Steps\<close>

text \<open>
  Everything that can happen to the queue of a running daemon. A submission is two steps, because
  other operations may run while it awaits the audit log; every operation may see any session graph.
\<close>

inductive queue_step :: "approval_queue \<Rightarrow> approval_queue \<Rightarrow> bool" where
  step_get: "queue_step q (fst (queue_get q rid now))"
| step_sweep: "queue_step q (sweep_expired q now)"
| step_mark: "queue_step q (fst (mark_not_submitted q rid detail now))"
| step_supersede: "queue_step q (fst (supersede q rid now))"
| step_deny: "queue_step q (fst (deny q g rid decided_by reason eid now))"
| step_defer: "queue_step q (fst (defer_request q g rid now))"
| step_approve: "queue_step q (fst (approve q g rid a eid now))"
| step_approve_group: "queue_step q (fst (approve_group q g gid a eids now cks))"
| step_open: "queue_step q (fst (open_request q sa en))"
| step_auto: "queue_step q (fst (auto_approve text_of q g allow r eid now ck))"
| step_patterns: "queue_step q (q\<lparr>q_patterns := ps\<rparr>)"

lemma queue_step_to: "queue_step q q' \<Longrightarrow> queue_to q q'"
proof (induction rule: queue_step.induct)
  case (step_patterns q ps)
  show ?case by (rule queue_to_same) (simp_all add: id_below_def cong: option.case_cong)
qed (rule queue_get_to sweep_expired_to mark_to supersede_to deny_to defer_to approve_to
    approve_group_to open_request_to auto_approve_to)+

lemma queue_steps_to: "queue_step\<^sup>*\<^sup>* q q' \<Longrightarrow> queue_to q q'"
  by (induction rule: rtranclp_induct) (auto intro: queue_to_trans queue_step_to)

lemma queue_steps_inv: "queue_step\<^sup>*\<^sup>* q q' \<Longrightarrow> queue_inv q \<Longrightarrow> queue_inv q'"
  using queue_steps_to by (auto simp: queue_to_def)

lemma queue_steps_request:
  assumes "queue_step\<^sup>*\<^sup>* q q'" and "queue_inv q" and "map_of (q_requests q) rid = Some r"
  shows "\<exists>r'. map_of (q_requests q') rid = Some r' \<and> request_evolves r r'"
  using queue_steps_to [OF assms(1)] assms(2,3) by (auto simp: queue_to_def)

section \<open>Opening a queue\<close>

text \<open>
  Storage in order: the reviews stand under their identifiers, once each, and an allocator, when
  there is one, stands above all of them. Empty storage is in order, and so is what a queue leaves
  behind (\<open>queue_leaves_order\<close>).
\<close>

definition stored_in_order :: "id_store option \<Rightarrow> (int \<times> request_dict) list option \<Rightarrow> bool" where
  "stored_in_order ids reviews \<longleftrightarrow>
     (case reviews of
        None \<Rightarrow> True
      | Some rows \<Rightarrow> distinct (map fst rows)
          \<and> list_all (\<lambda>(k, d). rd_id d = k
               \<and> (case ids of
                    None \<Rightarrow> True
                  | Some st \<Rightarrow> (case is_db st of None \<Rightarrow> False | Some (n, _) \<Rightarrow> k < n))) rows)"

text \<open>The invariant while the identifiers \<open>todo\<close> are still to be read.\<close>

definition loading :: "approval_queue \<Rightarrow> int set \<Rightarrow> bool" where
  "loading q todo \<longleftrightarrow> distinct (map fst (q_requests q))
     \<and> (\<forall>rid r. map_of (q_requests q) rid = Some r \<longrightarrow> ar_id r = rid \<and> id_below q rid)
     \<and> (\<forall>rows. q_reviews q = Some rows \<longrightarrow> distinct (map fst rows)
          \<and> (\<forall>rid. rid \<notin> todo
               \<longrightarrow> map_of rows rid = map_option request_to_dict (map_of (q_requests q) rid)))
     \<and> (q_id_store q \<noteq> None \<longrightarrow> (\<forall>rid \<in> todo. id_below q rid))"

lemma loading_done: "loading q {} \<Longrightarrow> queue_inv q"
  by (auto simp: loading_def queue_inv_def fun_eq_iff)

lemma loading_step:
  assumes "loading q (insert (ar_id r) todo)"
  shows "loading ((record_request q r)\<lparr>q_next_id := max (q_next_id q) (ar_id r + 1)\<rparr>) todo"
proof -
  let ?q = "(record_request q r)\<lparr>q_next_id := max (q_next_id q) (ar_id r + 1)\<rparr>"
  have below: "id_below ?q k" if "id_below q k" for k
    using that by (auto simp: id_below_def split: option.splits)
  have own: "id_below ?q (ar_id r)"
    using assms below by (cases "q_id_store q") (auto simp: loading_def id_below_def)
  have keep: "id_below ?q k" if "map_of (q_requests q) k = Some x" for k x
    using assms that below by (simp add: loading_def)
  show ?thesis
    unfolding loading_def
    using assms own keep below
    by (auto simp: loading_def record_request_def distinct_update update_conv' split: if_splits)
qed

lemma reload_rows_loading:
  "reload_rows reg now fresh q ds = Inr q' \<Longrightarrow> loading q (rd_id ` set ds) \<Longrightarrow> loading q' {}"
proof (induction ds arbitrary: fresh q)
  case (Cons d ds)
  obtain r where r: "request_from_dict reg (hd fresh) d = Inr r"
    using Cons.prems(1) by (auto split: sum.splits)
  have id: "ar_id (recovered now r) = rd_id d"
    using r by (auto simp: request_from_dict_def recovered_def split: sum.splits option.splits)
  have ar: "ar_id r = rd_id d"
    using r by (auto simp: request_from_dict_def split: sum.splits option.splits)
  have "loading q (insert (ar_id (recovered now r)) (rd_id ` set ds))"
    using Cons.prems(2) id by simp
  from Cons.IH [OF _ loading_step [OF this], of "tl fresh"] show ?case
    using Cons.prems(1) by (simp add: r Let_def id ar)
qed simp

lemma queue_start_inv:
  assumes "queue_start reg has_graph ttl ids reviews pats now fresh = Inr q"
    and "stored_in_order ids reviews"
  shows "queue_inv q"
proof -
  let ?rows = "case reviews of None \<Rightarrow> [] | Some rows \<Rightarrow> rows"
  let ?q = "\<lparr>q_next_id = 1, q_id_store = ids, q_requests = [], q_reviews = reviews, q_patterns = pats,
    q_default_ttl = max 0 ttl, q_has_graph = has_graph, q_scheduled = []\<rparr>"
  have ids: "rd_id ` snd ` set ?rows = fst ` set ?rows"
    using assms(2) by (force simp: stored_in_order_def list_all_iff split: option.splits)
  have "id_below ?q k" if "ids \<noteq> None" "k \<in> fst ` set ?rows" for k
    using that assms(2)
    by (auto simp: stored_in_order_def list_all_iff id_below_def split: option.splits)
  then have "loading ?q (rd_id ` set (map snd (sort_key fst ?rows)))"
    using assms(2) ids
    by (auto simp: loading_def stored_in_order_def map_of_eq_None_iff split: option.splits)
  then show ?thesis
    using reload_rows_loading [OF assms(1) [unfolded queue_start_def]] by (blast intro: loading_done)
qed

lemma queue_leaves_order:
  assumes "queue_inv q"
  shows "stored_in_order (q_id_store q) (q_reviews q)"
proof (cases "q_reviews q")
  case (Some rows)
  have "rd_id d = k \<and> (case q_id_store q of None \<Rightarrow> True
      | Some st \<Rightarrow> (case is_db st of None \<Rightarrow> False | Some (n, _) \<Rightarrow> k < n))"
    if "(k, d) \<in> set rows" for k d
  proof -
    have "map_of rows k = Some d" using that queue_invD(5) [OF assms Some] by simp
    then obtain r where r: "map_of (q_requests q) k = Some r" "d = request_to_dict r"
      unfolding queue_invD(4) [OF assms Some] by auto
    then have "rd_id d = k" using queue_invD(2) [OF assms r(1)] by (simp add: request_to_dict_def)
    then show ?thesis
      using queue_invD(3) [OF assms r(1)] by (auto simp: id_below_def split: option.splits)
  qed
  then show ?thesis
    using queue_invD(5) [OF assms Some] Some by (auto simp: stored_in_order_def list_all_iff)
qed (simp add: stored_in_order_def)

text \<open>
  A queue in use: started on storage in order (with an allocator and a review database, as
  \<open>app.py\<close> starts it, or without), and stepped any number of times.
\<close>

inductive queue_life :: "approval_queue \<Rightarrow> bool" where
  life_start: "queue_start reg has_graph ttl ids reviews pats now fresh = Inr q
    \<Longrightarrow> stored_in_order ids reviews \<Longrightarrow> queue_life q"
| life_step: "queue_life q \<Longrightarrow> queue_step q q' \<Longrightarrow> queue_life q'"

lemma queue_life_inv: "queue_life q \<Longrightarrow> queue_inv q"
proof (induction rule: queue_life.induct)
  case life_start
  then show ?case by (rule queue_start_inv)
next
  case (life_step q q')
  then show ?case using queue_steps_inv [OF r_into_rtranclp] by blast
qed

text \<open>A queue restarted on what another left behind is one in use.\<close>

lemma life_restart:
  assumes "queue_life q"
    and "queue_start reg has_graph ttl (q_id_store q) (q_reviews q) pats now fresh = Inr q'"
  shows "queue_life q'"
  by (rule life_start [OF assms(2) queue_leaves_order [OF queue_life_inv [OF assms(1)]]])

end
