(* ===== verification/ApprovalProps.thy ===== *)
theory ApprovalProps
  imports ApprovalLemmas SessionFindings
begin

text \<open>
  What the approval queue guarantees: a decision is final and never late, an approval needs a live
  request, a live authority and, where required, a signature over that very request; an automatic
  approval needs a live pattern; a restart revives no pending consent; and when the wait for an
  elicitation ends. Two of the theorems show where the code falls short.
\<close>

section \<open>Decisions are final\<close>

definition email_request :: approval_request where
  "email_request =
     \<lparr>ar_id = 4, ar_audit_id = 70, ar_from_session = 8, ar_action = A_SEND_EMAIL,
      ar_payload = JStr ''hello'', ar_target = ''a@b.c'', ar_labels_in = empty_state,
      ar_labels_out = empty_state, ar_capability_requested = None, ar_justification = ''j'',
      ar_requested_at = 100, ar_status = AP_PENDING, ar_to_session = None, ar_decision_at = None,
      ar_decided_by = None, ar_decision_scope = [], ar_new_audit_id = 71,
      ar_sibling_group_id = None, ar_expires_at = Some 500, ar_rule = None\<rparr>"

definition queue_with :: "approval_request list \<Rightarrow> approval_queue" where
  "queue_with rs =
     \<lparr>q_next_id = 9, q_id_store = None, q_requests = map (\<lambda>r. (ar_id r, r)) rs,
      q_reviews = Some (map (\<lambda>r. (ar_id r, request_to_dict r)) rs), q_patterns = [],
      q_default_ttl = 60, q_has_graph = True, q_scheduled = []\<rparr>"

lemma email_request_sel [simp]:
  "ar_id email_request = 4" "ar_status email_request = AP_PENDING"
  "ar_expires_at email_request = Some 500" "ar_capability_requested email_request = None"
  "ar_requested_at email_request = 100"
  by (simp_all add: email_request_def)

lemma queue_with_sel [simp]:
  "q_requests (queue_with rs) = map (\<lambda>r. (ar_id r, r)) rs" "q_patterns (queue_with rs) = []"
  "q_reviews (queue_with rs) = Some (map (\<lambda>r. (ar_id r, request_to_dict r)) rs)"
  "q_id_store (queue_with rs) = None" "q_next_id (queue_with rs) = 9"
  by (simp_all add: queue_with_def)

lemma queue_with_inv: "ar_id r < 9 \<Longrightarrow> queue_inv (queue_with [r])"
  by (auto simp: queue_inv_def id_below_def)

text \<open>The clock read once.\<close>

definition at_once :: "time \<Rightarrow> decision_clock" where
  "at_once t = \<lparr>dk_checked = t, dk_chain = t, dk_decided = t\<rparr>"

lemma at_once_sel [simp]:
  "dk_checked (at_once t) = t" "dk_chain (at_once t) = t" "dk_decided (at_once t) = t"
  by (simp_all add: at_once_def)

text \<open>A queue started on empty databases that was asked for one mail.\<close>

definition plain_email :: submit_args where
  "plain_email = \<lparr>sa_from_session = 8, sa_action = A_SEND_EMAIL, sa_payload = JStr ''hi'',
     sa_target = ''a@b.c'', sa_labels_in = empty_state, sa_labels_out = empty_state,
     sa_capability_requested = None, sa_justification = ''j'', sa_ttl_seconds = None, sa_rule = None,
     sa_allow_patterns = False\<rparr>"

definition submit_at_150 :: submit_env where
  "submit_at_150 = \<lparr>se_now = 150, se_group_id = 90, se_audit_id = 91, se_new_audit_id = 92,
     se_micros = 5, se_namespace = 93, se_requested_event_id = 95, se_event_id = 94,
     se_decision = at_once 150\<rparr>"

definition opened_queue :: approval_queue where
  "opened_queue = \<lparr>q_next_id = 1, q_id_store = Some \<lparr>is_db = None, is_marker = None\<rparr>,
     q_requests = [], q_reviews = Some [], q_patterns = [], q_default_ttl = 60, q_has_graph = True,
     q_scheduled = []\<rparr>"

definition asked_queue :: approval_queue where
  "asked_queue = fst (open_request opened_queue plain_email submit_at_150)"

definition asked :: approval_request where
  "asked = new_request opened_queue plain_email submit_at_150 None 5"

lemma opened_queue_life: "queue_life opened_queue"
proof (rule life_start)
  show "queue_start None True 60 (Some \<lparr>is_db = None, is_marker = None\<rparr>) (Some []) [] 0 []
      = Inr opened_queue"
    by (simp add: queue_start_def opened_queue_def)
qed (simp add: stored_in_order_def)

lemma asked_queue_life: "queue_life asked_queue"
  unfolding asked_queue_def by (rule life_step [OF opened_queue_life step_open])

lemma asked_queue_requests: "q_requests asked_queue = [(5, asked)]" "q_has_graph asked_queue"
  by (simp_all add: asked_queue_def open_request_def find_sibling_group_def allocate_id_def
      opened_queue_def asked_def plain_email_def submit_at_150_def new_request_def Let_def
      record_request_def)

lemma asked_sel [simp]:
  "ar_id asked = 5" "ar_status asked = AP_PENDING" "ar_expires_at asked = Some 60000150"
  "ar_capability_requested asked = None" "ar_target asked = ''a@b.c''"
  by (simp_all add: asked_def new_request_def opened_queue_def plain_email_def submit_at_150_def
      second_us_def Let_def)

text \<open>
  C29: Whatever steps a queue takes (submissions, approvals, denials, deferrals, expiries, edits,
  automatic approvals, in any order) that was started on databases in order, empty ones or those
  another queue left, a stored request keeps what was asked; once it is decided its status, time and
  decider never change; and every request opened later gets a higher identifier.
\<close>

theorem decided_requests_final:
  assumes "queue_life q" and "queue_step\<^sup>*\<^sup>* q q'" and "map_of (q_requests q) rid = Some r"
  shows "(\<exists>r'. map_of (q_requests q') rid = Some r'
       \<and> ar_action r' = ar_action r \<and> ar_target r' = ar_target r \<and> ar_payload r' = ar_payload r
       \<and> ar_from_session r' = ar_from_session r
       \<and> ar_capability_requested r' = ar_capability_requested r
       \<and> (ar_status r \<noteq> AP_PENDING \<longrightarrow> ar_status r' = ar_status r
            \<and> ar_decision_at r' = ar_decision_at r \<and> ar_decided_by r' = ar_decided_by r))
     \<and> (\<forall>a en q'' n. open_request q' a en = (q'', Inr n) \<longrightarrow> rid < ar_id n)"
proof -
  note inv = queue_life_inv [OF assms(1)]
  obtain r' where r': "map_of (q_requests q') rid = Some r'" "request_evolves r r'"
    using queue_steps_request [OF assms(2) inv assms(3)] by blast
  have "rid < ar_id n" if "open_request q' a en = (q'', Inr n)" for a en q'' n
    by (rule open_request_Inr(3) [OF queue_steps_inv [OF assms(2) inv] that r'(1)])
  with r' show ?thesis unfolding request_evolves_def same_content_def by blast
qed

lemma step_deny_sample:
  "queue_step\<^sup>*\<^sup>* asked_queue (fst (deny asked_queue empty_graph 5 ''u'' [] 0 (at_once 200)))"
  by (rule r_into_rtranclp) (rule step_deny)

theorem decided_requests_final_witness:
  "\<exists>r'. map_of (q_requests (fst (deny asked_queue empty_graph 5 ''u'' [] 0 (at_once 200)))) 5
       = Some r' \<and> ar_target r' = ''a@b.c''"
  using decided_requests_final [OF asked_queue_life step_deny_sample, of 5 asked] asked_queue_requests
  by auto

section \<open>Approvals\<close>

text \<open>
  What an approval walks: the capabilities of the requesting session, the requested one among them,
  and the session's revocations; without a session graph, or for a session that is not in it, the
  requested capability alone.
\<close>

definition consent_chain_live ::
  "approval_queue \<Rightarrow> session_graph \<Rightarrow> approval_request \<Rightarrow> capability \<Rightarrow> time \<Rightarrow> bool" where
  "consent_chain_live q g r cap now \<longleftrightarrow>
     (case (if q_has_graph q then map_of (g_sessions g) (ar_from_session r) else None) of
        None \<Rightarrow> live_chain (build_audit_id_index [cap]) [] now None cap
      | Some s \<Rightarrow>
          live_chain (build_audit_id_index (if cap \<in> set (s_capability_set s)
              then s_capability_set s else s_capability_set s @ [cap]))
            (s_revoked_audit_ids s) now None cap)"

lemma chain_not_dead:
  assumes "approval_chain_dead q g r cap now = None"
  shows "consent_chain_live q g r cap now"
proof -
  have live: "live_chain (build_audit_id_index caps) revoked now None cap"
    if "\<not> fst (is_cascaded_inert cap (build_audit_id_index caps) revoked now None)" for caps revoked
    using that cascade_walk_live unfolding is_cascaded_inert_def by blast
  show ?thesis
  proof (cases "if q_has_graph q then map_of (g_sessions g) (ar_from_session r) else None")
    case None
    have "\<not> fst (is_cascaded_inert cap (build_audit_id_index [cap]) [] now None)"
      using assms None
      by (auto simp: approval_chain_dead_def Let_def split: prod.splits bool.splits option.splits)
    then show ?thesis using live None by (simp add: consent_chain_live_def)
  next
    case (Some s)
    have "\<not> fst (is_cascaded_inert cap (build_audit_id_index (if cap \<in> set (s_capability_set s)
        then s_capability_set s else s_capability_set s @ [cap])) (s_revoked_audit_ids s) now None)"
      using assms Some
      by (auto simp: approval_chain_dead_def Let_def split: prod.splits bool.splits option.splits if_splits)
    then show ?thesis using live Some by (simp add: consent_chain_live_def)
  qed
qed

text \<open>
  C30: An approval goes through only for a request that was pending and, at the check, unexpired;
  whose capability, if it asks for one, has a live chain of parents, none revoked, expired or missing,
  among the capabilities of its session and itself (alone, where the queue has no session graph or
  the session is not in it); and, where a signature is required, with a signature the signer accepts
  over that request. The queue, one started on databases in order, then holds the approved request.
\<close>

theorem approval_needs_live_consent:
  assumes "queue_life q" and "approve q g rid a eid now = (q', g', Inr r')"
  shows "\<exists>r. map_of (q_requests q) rid = Some r \<and> ar_status r = AP_PENDING
     \<and> (\<forall>x. ar_expires_at r = Some x \<longrightarrow> dk_checked now < x)
     \<and> (\<forall>cap. ar_capability_requested r = Some cap \<longrightarrow> consent_chain_live q g r cap (dk_chain now))
     \<and> (aa_require_signature a \<longrightarrow> (\<exists>sg verify. aa_signature a = Some sg \<and> aa_verify a = Some verify
          \<and> verify (canonical_payload (ar_id r) (approval_action_value (ar_action r))
               (ar_target r) (ar_payload r) (request_label_values (ar_labels_in r))) sg = Inr True))
     \<and> r' = approved_request a r (dk_decided now) \<and> map_of (q_requests q') rid = Some r'"
proof -
  note inv = queue_life_inv [OF assms(1)]
  obtain q1 res where g: "queue_get q rid (dk_checked now) = (q1, res)" by fastforce
  have "\<exists>r. res = Inr r" using assms(2) g by (cases res) (simp_all add: approve_def with_pending_def)
  then obtain r where g: "queue_get q rid (dk_checked now) = (q1, Inr r)" using g by blast
  note got = queue_get_Inr [OF inv g]
  have pending: "ar_status r = AP_PENDING"
    using assms(2) g by (simp add: approve_def with_pending_def split: if_splits)
  have q1: "q1 = q" and ttl: "\<forall>x. ar_expires_at r = Some x \<longrightarrow> dk_checked now < x"
    using got(3) [OF pending] by auto
  let ?dead = "case ar_capability_requested r of
      None \<Rightarrow> None | Some cap \<Rightarrow> approval_chain_dead q g r cap (dk_chain now)"
  have e: "?dead = None \<and> signature_error a r = None \<and> r' = approved_request a r (dk_decided now)
      \<and> q' = record_request q r'"
    using assms(2) g pending q1
    by (simp add: approve_def with_pending_def Let_def split: option.splits[where option = ?dead]
        option.splits[where option = "signature_error a r"])
       (auto split: option.splits)
  have "consent_chain_live q g r cap (dk_chain now)" if "ar_capability_requested r = Some cap" for cap
    using chain_not_dead e that by simp
  moreover have "\<exists>sg verify. aa_signature a = Some sg \<and> aa_verify a = Some verify
          \<and> verify (canonical_payload (ar_id r) (approval_action_value (ar_action r))
               (ar_target r) (ar_payload r) (request_label_values (ar_labels_in r))) sg = Inr True"
    if "aa_require_signature a"
    using e that
    by (auto simp: signature_error_def split: option.splits sum.splits py_error.splits if_splits)
  moreover have "map_of (q_requests q') rid = Some r'"
    using e got(2) by (simp add: reqs.get_put approved_request_def)
  ultimately show ?thesis using got(1) q1 pending ttl e by blast
qed

definition click :: approve_args where
  "click = \<lparr>aa_decided_by = ''user'', aa_decision_scope = [], aa_signature = None, aa_verify = None,
     aa_require_signature = False\<rparr>"

theorem approval_needs_live_consent_witness:
  "ar_status (approved_request click asked 201) = AP_APPROVED
   \<and> (\<exists>r. map_of (q_requests asked_queue) 5 = Some r \<and> ar_status r = AP_PENDING
        \<and> (\<forall>x. ar_expires_at r = Some x \<longrightarrow> 200 < x))"
proof -
  let ?now = "\<lparr>dk_checked = 200, dk_chain = 200, dk_decided = 201\<rparr>"
  have "approve asked_queue empty_graph 5 click 0 ?now
      = (record_request asked_queue (approved_request click asked 201),
         fst (snd (approve asked_queue empty_graph 5 click 0 ?now)),
         Inr (approved_request click asked 201))"
    by (simp add: approve_def with_pending_def queue_get_def maybe_expire_def Let_def
        signature_error_def click_def asked_queue_requests)
  from approval_needs_live_consent [OF asked_queue_life this]
  show ?thesis by (auto simp: approved_request_def)
qed

lemma find_match_mem:
  "find_match text_of now ps req = Some p \<Longrightarrow> p \<in> set (map snd ps) \<and> pattern_rule_matches text_of now p req"
  by (auto simp: find_match_def find_Some_iff)

text \<open>
  A submission is answered with an approval only when the caller allowed patterns and a standing
  pattern that is neither revoked nor expired has the action of the request, matches its target,
  names only labels the request carries, and matches its payload.
\<close>

theorem auto_approval_needs_pattern:
  assumes "queue_inv q" and "submit text_of q g a en = (q', g', Inr r)"
    and "ar_status r = AP_APPROVED"
  shows "sa_allow_patterns a \<and> (\<exists>p \<in> set (map snd (q_patterns q)).
     \<not> pr_revoked p \<and> se_now en < pr_expires_at p \<and> pr_action p = sa_action a
     \<and> fnmatchcase (sa_target a) (pr_target_pattern p)
     \<and> set (pr_labels_required p) \<subseteq> set (request_label_values (sa_labels_in a))
     \<and> (\<forall>pat. pr_payload_pattern p = Some pat \<longrightarrow> fnmatchcase (py_str text_of (sa_payload a)) pat))"
proof -
  obtain q1 res where o: "open_request q a en = (q1, res)" by fastforce
  have "\<exists>r0. res = Inr r0" using assms(2) o by (cases res) (simp_all add: submit_def)
  then obtain r0 where o: "open_request q a en = (q1, Inr r0)" using o by blast
  note r0 = open_request_Inr [OF assms(1) o]
  let ?found = "if sa_allow_patterns a then find_match text_of (se_now en) (q_patterns q1) r0 else None"
  have auto: "auto_approve text_of q1 (request_events r0 (se_requested_event_id en) g) (sa_allow_patterns a) r0 (se_event_id en)
      (se_now en) (se_decision en) = (q', g', Inr r)"
    using assms(2) o by (simp add: submit_def)
  have "?found \<noteq> None"
  proof
    assume "?found = None"
    then have "r = r0" using auto by (simp add: auto_approve_def)
    then show False using r0(2) assms(3) by simp
  qed
  then obtain p where allow: "sa_allow_patterns a"
    and p: "find_match text_of (se_now en) (q_patterns q1) r0 = Some p"
    by (auto split: if_splits)
  have m: "p \<in> set (map snd (q_patterns q))" "pattern_rule_matches text_of (se_now en) p r0"
    using find_match_mem [OF p] r0(6) by auto
  obtain q2 gid where "r0 = new_request q2 a en gid (ar_id r0)" using r0(5) by blast
  then have sel: "ar_action r0 = sa_action a" "ar_target r0 = sa_target a"
    "ar_labels_in r0 = sa_labels_in a" "ar_payload r0 = sa_payload a"
    by (metis new_request_asked)+
  show ?thesis
    using allow m sel by (auto simp: pattern_rule_matches_def pattern_expired_def split: option.splits)
qed

definition team_pattern :: pattern_rule where
  "team_pattern = \<lparr>pr_id = 6, pr_action = A_SEND_EMAIL, pr_target_pattern = ''*@b.c'',
     pr_payload_pattern = None, pr_created_at = 0, pr_expires_at = 900, pr_created_by = ''u'',
     pr_revoked = False, pr_auto_approval_count = 0, pr_labels_required = [], pr_audit_tag = []\<rparr>"

definition team_email :: submit_args where
  "team_email = \<lparr>sa_from_session = 8, sa_action = A_SEND_EMAIL, sa_payload = JStr ''hi'',
     sa_target = ''a@b.c'', sa_labels_in = empty_state, sa_labels_out = empty_state,
     sa_capability_requested = None, sa_justification = ''j'', sa_ttl_seconds = None, sa_rule = None,
     sa_allow_patterns = True\<rparr>"

definition team_queue :: approval_queue where
  "team_queue = (queue_with [])\<lparr>q_patterns := [(6, team_pattern)]\<rparr>"

theorem auto_approval_needs_pattern_witness:
  "\<exists>p \<in> set (map snd (q_patterns team_queue)). fnmatchcase (sa_target team_email) (pr_target_pattern p)"
proof -
  let ?r = "submit (\<lambda>_. []) team_queue empty_graph team_email submit_at_150"
  have inv: "queue_inv team_queue"
    by (simp add: team_queue_def queue_inv_def)
  have "\<exists>r. snd (snd ?r) = Inr r \<and> ar_status r = AP_APPROVED"
    by (simp add: submit_def open_request_def find_sibling_group_def allocate_id_def team_queue_def
        auto_approve_def find_match_def pattern_rule_matches_def pattern_expired_def team_pattern_def
        team_email_def submit_at_150_def fnmatchcase_def new_request_def Let_def approve_def
        with_pending_def queue_get_def maybe_expire_def signature_error_def pattern_args_def
        record_request_def request_events_def increment_use_def approved_request_def queue_with_def
        second_us_def)
  then obtain r where "snd (snd ?r) = Inr r" and r: "ar_status r = AP_APPROVED" by blast
  then have "?r = (fst ?r, fst (snd ?r), Inr r)" by (metis prod.collapse)
  from auto_approval_needs_pattern [OF inv this r] show ?thesis by blast
qed

section \<open>Restarts\<close>

text \<open>A request and what a restarted daemon holds in its place.\<close>

definition survives :: "time \<Rightarrow> approval_request \<Rightarrow> approval_request \<Rightarrow> bool" where
  "survives now r r' \<longleftrightarrow>
     ar_id r' = ar_id r \<and> ar_from_session r' = ar_from_session r \<and> ar_action r' = ar_action r
     \<and> ar_target r' = ar_target r \<and> ar_payload r' = ar_payload r
     \<and> ar_expires_at r' = ar_expires_at r \<and> ar_decision_scope r' = ar_decision_scope r
     \<and> rel_option capability_eq (ar_capability_requested r) (ar_capability_requested r')
     \<and> (if ar_status r = AP_PENDING
        then ar_status r' = AP_EXPIRED \<and> ar_decision_at r' = Some now
          \<and> ar_decided_by r' = Some ''daemon-restart''
        else ar_status r' = ar_status r \<and> ar_decision_at r' = ar_decision_at r
          \<and> ar_decided_by r' = ar_decided_by r)"

definition request_kind_known :: "kind_registry \<Rightarrow> approval_request \<Rightarrow> bool" where
  "request_kind_known reg r \<longleftrightarrow>
     (case ar_capability_requested r of None \<Rightarrow> True | Some c \<Rightarrow> kinds_known reg [c])"

lemma request_reload:
  assumes "request_kind_known reg r"
  shows "\<exists>r'. request_from_dict reg fresh (request_to_dict r) = Inr r'
     \<and> survives now r (recovered now r') \<and> ar_id r' = ar_id r"
proof (cases "ar_capability_requested r")
  case None
  then show ?thesis
    by (simp add: request_from_dict_def request_to_dict_def survives_def recovered_def)
next
  case (Some c)
  then have "\<exists>c'. capability_from_dict reg (capability_to_dict c) = Inr c' \<and> capability_eq c c'"
    using assms by (intro capability_reload) (auto simp: request_kind_known_def kinds_known_def)
  then obtain c' where "capability_from_dict reg (capability_to_dict c) = Inr c'" "capability_eq c c'"
    by blast
  with Some show ?thesis
    by (simp add: request_from_dict_def request_to_dict_def survives_def recovered_def)
qed

lemma reload_rows_spec:
  assumes "\<forall>r \<in> set rs. request_kind_known reg r" and "distinct (map ar_id rs)"
  shows "\<exists>q'. reload_rows reg now fresh q (map request_to_dict rs) = Inr q'
     \<and> (\<forall>r \<in> set rs. \<exists>r'. map_of (q_requests q') (ar_id r) = Some r' \<and> survives now r r'
          \<and> ar_id r < q_next_id q')
     \<and> (\<forall>rid. rid \<notin> ar_id ` set rs \<longrightarrow> map_of (q_requests q') rid = map_of (q_requests q) rid)
     \<and> q_next_id q \<le> q_next_id q'"
  using assms
proof (induction rs arbitrary: fresh q)
  case (Cons r rs)
  have "request_kind_known reg r" using Cons.prems(1) by simp
  from request_reload [OF this, of "hd fresh" now]
  obtain r' where r': "request_from_dict reg (hd fresh) (request_to_dict r) = Inr r'"
    "survives now r (recovered now r')" "ar_id r' = ar_id r" by blast
  let ?q1 = "record_request q (recovered now r')"
  let ?q2 = "?q1\<lparr>q_next_id := max (q_next_id ?q1) (ar_id r' + 1)\<rparr>"
  have id: "ar_id (recovered now r') = ar_id r" using r'(3) by (simp add: recovered_def)
  have "\<forall>r \<in> set rs. request_kind_known reg r" "distinct (map ar_id rs)" using Cons.prems by simp_all
  from Cons.IH [OF this, of "tl fresh" ?q2]
  obtain q' where q': "reload_rows reg now (tl fresh) ?q2 (map request_to_dict rs) = Inr q'"
    and mem: "\<forall>r \<in> set rs. \<exists>r'. map_of (q_requests q') (ar_id r) = Some r' \<and> survives now r r'
          \<and> ar_id r < q_next_id q'"
    and other: "\<forall>rid. rid \<notin> ar_id ` set rs \<longrightarrow> map_of (q_requests q') rid = map_of (q_requests ?q2) rid"
    and le: "q_next_id ?q2 \<le> q_next_id q'" by blast
  have new: "ar_id r \<notin> ar_id ` set rs" using Cons.prems(2) by simp
  have "map_of (q_requests q') (ar_id r) = Some (recovered now r')"
    using other new id by (simp add: reqs.get_put)
  moreover have "ar_id r < q_next_id q'" using le r'(3) by simp
  moreover have "map_of (q_requests q') rid = map_of (q_requests q) rid"
    if "rid \<notin> ar_id ` set (r # rs)" for rid
    using other that id by (simp add: reqs.get_put)
  moreover have "q_next_id q \<le> q_next_id q'" using le by simp
  moreover have "reload_rows reg now fresh q (map request_to_dict (r # rs)) = Inr q'"
    using q' r'(1) by (simp add: Let_def)
  ultimately show ?case using mem r'(2) by (intro exI [of _ q']) auto
qed simp

lemma mirror_rows:
  assumes "queue_inv q" and "q_reviews q = Some rows"
  shows "\<exists>rs. map snd (sort_key fst rows) = map request_to_dict rs \<and> distinct (map ar_id rs)
     \<and> set rs = ran (map_of (q_requests q))"
proof -
  let ?rows = "sort_key fst rows"
  let ?rs = "map (\<lambda>p. the (map_of (q_requests q) (fst p))) ?rows"
  have d: "distinct (map fst ?rows)"
    using queue_invD(5) [OF assms] by (simp add: distinct_map)
  have row: "map_of (q_requests q) (fst p) = Some (the (map_of (q_requests q) (fst p)))
      \<and> snd p = request_to_dict (the (map_of (q_requests q) (fst p)))" if "p \<in> set ?rows" for p
  proof -
    have "(fst p, snd p) \<in> set rows" using that by simp
    then have "map_of rows (fst p) = Some (snd p)" using queue_invD(5) [OF assms] by simp
    then show ?thesis unfolding queue_invD(4) [OF assms] by auto
  qed
  have "map ar_id ?rs = map fst ?rows"
    using row queue_invD(2) [OF assms(1)] by (auto simp: comp_def)
  with d have 1: "distinct (map ar_id ?rs)" by (simp only:)
  have 2: "map snd ?rows = map request_to_dict ?rs" using row by simp
  have "\<exists>p \<in> set ?rows. r = the (map_of (q_requests q) (fst p))" if "map_of (q_requests q) k = Some r" for k r
  proof -
    have "map_of rows k = Some (request_to_dict r)" unfolding queue_invD(4) [OF assms] using that by simp
    then have "(k, request_to_dict r) \<in> set ?rows" by (simp add: map_of_SomeD)
    then show ?thesis using that by force
  qed
  then have 3: "set ?rs = ran (map_of (q_requests q))"
    using row by (auto simp: ran_def image_iff)
  from 1 2 3 show ?thesis by blast
qed

text \<open>
  A daemon restarted from the review database of a queue comes up, holds exactly the requests
  the queue held, and revives no pending consent: a request that was pending is expired, a decided
  one keeps its decision, and every new identifier lies above the old ones.
\<close>

theorem restart_revives_no_consent:
  assumes "queue_inv q" and "q_reviews q = Some rows"
    and "\<And>rid r. map_of (q_requests q) rid = Some r \<Longrightarrow> request_kind_known reg r"
  shows "\<exists>q'. queue_start reg has_graph ttl None (Some rows) pats now fresh = Inr q'
     \<and> (\<forall>rid. case map_of (q_requests q) rid of
           None \<Rightarrow> map_of (q_requests q') rid = None
         | Some r \<Rightarrow> (\<exists>r'. map_of (q_requests q') rid = Some r' \<and> survives now r r'
             \<and> ar_status r' \<noteq> AP_PENDING) \<and> rid < q_next_id q')"
proof -
  obtain rs where rs: "map snd (sort_key fst rows) = map request_to_dict rs" "distinct (map ar_id rs)"
    "set rs = ran (map_of (q_requests q))" using mirror_rows [OF assms(1,2)] by blast
  let ?q0 = "\<lparr>q_next_id = 1, q_id_store = None, q_requests = [], q_reviews = Some rows,
    q_patterns = pats, q_default_ttl = max 0 ttl, q_has_graph = has_graph, q_scheduled = []\<rparr>"
  have known: "\<forall>r \<in> set rs. request_kind_known reg r" using rs(3) assms(3) by (auto simp: ran_def)
  obtain q' where q': "reload_rows reg now fresh ?q0 (map request_to_dict rs) = Inr q'"
    and mem: "\<forall>r \<in> set rs. \<exists>r'. map_of (q_requests q') (ar_id r) = Some r' \<and> survives now r r'
          \<and> ar_id r < q_next_id q'"
    and other: "\<forall>rid. rid \<notin> ar_id ` set rs \<longrightarrow> map_of (q_requests q') rid = map_of (q_requests ?q0) rid"
    using reload_rows_spec [OF known rs(2), of now fresh ?q0] by blast
  have "case map_of (q_requests q) rid of
           None \<Rightarrow> map_of (q_requests q') rid = None
         | Some r \<Rightarrow> (\<exists>r'. map_of (q_requests q') rid = Some r' \<and> survives now r r'
             \<and> ar_status r' \<noteq> AP_PENDING) \<and> rid < q_next_id q'" for rid
  proof (cases "map_of (q_requests q) rid")
    case None
    have "ar_id r \<noteq> rid" if "r \<in> set rs" for r
      using that rs(3) None queue_invD(2) [OF assms(1)] by (fastforce simp: ran_def)
    then have "rid \<notin> ar_id ` set rs" by blast
    then show ?thesis using other None by simp
  next
    case (Some r)
    then have "r \<in> set rs" "ar_id r = rid" using rs(3) queue_invD(2) [OF assms(1) Some] by (auto simp: ran_def)
    then show ?thesis using mem Some by (auto simp: survives_def split: if_splits)
  qed
  moreover have "queue_start reg has_graph ttl None (Some rows) pats now fresh = Inr q'"
    using q' rs(1) by (simp add: queue_start_def)
  ultimately show ?thesis by blast
qed

theorem restart_revives_no_consent_witness:
  "\<exists>q' r'. queue_start None True 60 None (q_reviews (queue_with [email_request])) [] 300 [11] = Inr q'
     \<and> map_of (q_requests q') 4 = Some r' \<and> ar_status r' = AP_EXPIRED"
proof -
  have inv: "queue_inv (queue_with [email_request])" by (rule queue_with_inv) simp
  have known: "request_kind_known None r"
    if "map_of (q_requests (queue_with [email_request])) rid = Some r" for rid r
    using that by (auto simp: request_kind_known_def split: if_splits)
  from restart_revives_no_consent [OF inv queue_with_sel(3) known,
      where has_graph = True and ttl = 60 and pats = "[]" and now = 300 and fresh = "[11]"]
  obtain q' where "queue_start None True 60 None (q_reviews (queue_with [email_request])) [] 300 [11]
      = Inr q'"
    and "\<exists>r'. map_of (q_requests q') 4 = Some r' \<and> survives 300 email_request r'"
    by (force dest: spec [of _ 4])
  then show ?thesis by (auto simp: survives_def)
qed

section \<open>Waiting for an elicitation\<close>

lemma poll_status:
  assumes "queue_inv q" and "map_of (q_requests q) rid = Some r"
  shows "\<exists>q' r'. queue_get q rid now = (q', Inr r') \<and> request_evolves r r'
     \<and> (ar_status r' = AP_PENDING \<longrightarrow> (\<forall>x. ar_expires_at r = Some x \<longrightarrow> now < x))"
proof -
  obtain q' r' where e: "maybe_expire q r now = (q', r')" by fastforce
  then have "queue_get q rid now = (q', Inr r')" using assms(2) by (simp add: queue_get_def)
  moreover have "request_evolves r r'" using maybe_expire_evolves [OF e] by simp
  ultimately show ?thesis using maybe_expire_live [OF e] by blast
qed

text \<open>
  C31: The wait for an elicitation ends: whatever the queue did since the request was opened, a poll
  after the request's TTL, or after the caller's deadline, never keeps waiting, unless an operator
  edit superseded the request. (The queue started on databases in order.)
\<close>

theorem elicitation_wait_ends:
  assumes "queue_life q" and "queue_step\<^sup>*\<^sup>* q q'" and "map_of (q_requests q) rid = Some r"
    and "ar_expires_at r = Some x \<and> x \<le> now \<or> deadline = Some t \<and> t \<le> now"
    and "\<And>r'. map_of (q_requests q') rid = Some r' \<Longrightarrow> ar_status r' \<noteq> AP_SUPERSEDED"
  shows "snd (poll_elicitation q' rid deadline now) \<noteq> Waiting"
proof -
  note inv = queue_life_inv [OF assms(1)]
  obtain r' where r': "map_of (q_requests q') rid = Some r'" "request_evolves r r'"
    using queue_steps_request [OF assms(2) inv assms(3)] by blast
  obtain q'' p where p: "queue_get q' rid now = (q'', Inr p)" "request_evolves r' p"
    "ar_status p = AP_PENDING \<longrightarrow> (\<forall>x. ar_expires_at r' = Some x \<longrightarrow> now < x)"
    using poll_status [OF queue_steps_inv [OF assms(2) inv] r'(1)] by blast
  have ttl: "ar_expires_at r' = ar_expires_at r"
    using r'(2) by (simp add: request_evolves_def same_content_def)
  have live: "ar_status r' \<noteq> AP_SUPERSEDED" by (rule assms(5) [OF r'(1)])
  have "ar_status p \<noteq> AP_SUPERSEDED"
  proof (cases "ar_status r' = AP_PENDING")
    case True
    show ?thesis using p(1) r'(1) True
      by (auto simp: queue_get_def maybe_expire_def Let_def split: option.splits if_splits)
  qed (use p(2) live in \<open>simp add: request_evolves_def\<close>)
  then have "ar_status p = AP_PENDING \<or> ar_status p = AP_APPROVED
      \<or> ar_status p \<in> {AP_DENIED, AP_DEFERRED, AP_EXPIRED}" by (cases "ar_status p") simp_all
  moreover have "snd (poll_elicitation q' rid deadline now) \<noteq> Waiting" if "ar_status p = AP_PENDING"
    using p(1,3) that ttl assms(4) by (auto simp: poll_elicitation_def split: option.splits)
  ultimately show ?thesis
    using p(1) by (auto simp: poll_elicitation_def split: option.splits json.splits)
qed

theorem elicitation_wait_ends_witness:
  "snd (poll_elicitation asked_queue 5 None 60000150) \<noteq> Waiting"
  by (rule elicitation_wait_ends [OF asked_queue_life rtranclp.rtrancl_refl, of 5 asked 60000150 60000150
      None 0]) (auto simp: asked_queue_requests split: if_splits)

text \<open>
  A caller that waits without a deadline for a request an operator edit superseded waits for
  ever: in whatever state the queue is later polled, and at whatever time, the poll says to wait.
\<close>

theorem superseded_elicitation_waits_forever:
  assumes "queue_step\<^sup>*\<^sup>* q q'" and "queue_inv q" and "map_of (q_requests q) rid = Some r"
    and "ar_status r = AP_SUPERSEDED"
  shows "snd (poll_elicitation q' rid None now) = Waiting"
proof -
  obtain r' where r': "map_of (q_requests q') rid = Some r'" "request_evolves r r'"
    using queue_steps_request [OF assms(1-3)] by blast
  then have "ar_status r' = AP_SUPERSEDED" using assms(4) by (simp add: request_evolves_def)
  then show ?thesis using r'(1) by (simp add: poll_elicitation_def queue_get_def maybe_expire_def)
qed

theorem superseded_elicitation_waits_forever_witness:
  "snd (poll_elicitation (fst (supersede (queue_with [email_request]) 4 (at_once 200))) 4 None 10000) = Waiting"
proof -
  let ?q = "fst (supersede (queue_with [email_request]) 4 (at_once 200))"
  have "queue_step\<^sup>*\<^sup>* (queue_with [email_request]) ?q"
    by (rule r_into_rtranclp) (rule step_supersede)
  then have "queue_inv ?q" by (rule queue_steps_inv) (rule queue_with_inv, simp)
  moreover have "\<exists>r. map_of (q_requests ?q) 4 = Some r \<and> ar_status r = AP_SUPERSEDED"
    by (simp add: supersede_def queue_get_def maybe_expire_def Let_def record_request_def)
  ultimately show ?thesis
    using superseded_elicitation_waits_forever [OF rtranclp.rtrancl_refl, of ?q 4 _ 10000] by blast
qed

section \<open>Signatures and patterns\<close>

text \<open>
  With a collision-free message authentication code, one approval signature is good for one
  request only: two requests it verifies for agree in identifier, action, target, payload and the
  set of label names.
\<close>

theorem signature_binds_request:
  assumes "\<And>k m m'. mac k m = mac k m' \<Longrightarrow> m = m'"
    and "software_verify mac key (canonical_payload i act tgt pay ls) s = Inr True"
    and "software_verify mac key (canonical_payload i' act' tgt' pay' ls') s = Inr True"
  shows "i = i' \<and> act = act' \<and> tgt = tgt' \<and> pay = pay' \<and> set ls = set ls'"
proof -
  have "mac (sk_key key) (canonical_payload i act tgt pay ls)
      = mac (sk_key key) (canonical_payload i' act' tgt' pay' ls')"
    using assms(2,3) by (auto simp: software_verify_def split: if_splits mac_text.splits)
  then have same: "canonical_payload i act tgt pay ls = canonical_payload i' act' tgt' pay' ls'"
    by (rule assms(1))
  then have "map JStr (sort (remdups ls)) = map JStr (sort (remdups ls'))"
    by (simp add: canonical_payload_def json_dumps_def)
  then have "sort (remdups ls) = sort (remdups ls')" by (simp add: inj_map_eq_map inj_def)
  then have "set ls = set ls'" by (metis set_remdups set_sort)
  with same show ?thesis by (simp add: canonical_payload_def json_dumps_def)
qed

theorem signature_binds_request_witness:
  "software_verify (\<lambda>k m. m) \<lparr>sk_key = JNull, sk_key_id = ''k''\<rparr>
     (canonical_payload 3 ''GRANT'' ''t'' (JStr ''p'') [])
     (software_sign (\<lambda>k m. m) \<lparr>sk_key = JNull, sk_key_id = ''k''\<rparr>
        (canonical_payload 2 ''GRANT'' ''t'' (JStr ''p'') [])) \<noteq> Inr True"
proof
  let ?k = "\<lparr>sk_key = JNull, sk_key_id = ''k''\<rparr>"
  let ?s = "software_sign (\<lambda>k m. m) ?k (canonical_payload 2 ''GRANT'' ''t'' (JStr ''p'') [])"
  have own: "software_verify (\<lambda>k m. m) ?k (canonical_payload 2 ''GRANT'' ''t'' (JStr ''p'') []) ?s
      = Inr True" by (simp add: software_verify_def software_sign_def)
  assume "software_verify (\<lambda>k m. m) ?k (canonical_payload 3 ''GRANT'' ''t'' (JStr ''p'') []) ?s
      = Inr True"
  from signature_binds_request [OF _ own this] show False by simp
qed

text \<open>
  The check that refuses patterns which match every target accepts a question mark followed by
  a star, and a pattern created from it matches every target there is but the empty one.
\<close>

theorem match_all_pattern_accepted:
  "create_pattern act ''?*'' day_us who None [] tag pid now
     = Inr \<lparr>pr_id = pid, pr_action = act, pr_target_pattern = ''?*'', pr_payload_pattern = None,
            pr_created_at = now, pr_expires_at = now + day_us, pr_created_by = who,
            pr_revoked = False, pr_auto_approval_count = 0, pr_labels_required = [],
            pr_audit_tag = tag\<rparr>
   \<and> fnmatchcase (c # target) ''?*''"
proof
  show "fnmatchcase (c # target) ''?*''" by (simp add: fnmatchcase_def)
  have "validate_target_pattern ''?*'' = None" by code_simp
  then show "create_pattern act ''?*'' day_us who None [] tag pid now
     = Inr \<lparr>pr_id = pid, pr_action = act, pr_target_pattern = ''?*'', pr_payload_pattern = None,
            pr_created_at = now, pr_expires_at = now + day_us, pr_created_by = who,
            pr_revoked = False, pr_auto_approval_count = 0, pr_labels_required = [],
            pr_audit_tag = tag\<rparr>" by (simp add: create_pattern_def day_us_def)
qed

end
