(* ===== verification/DispatchProps.thy ===== *)
theory DispatchProps
  imports Dispatch HookProps EngineProps ApprovalProps
begin

text \<open>
  The chokepoint as a whole: when a handler runs, what a call does to the session graph, how the
  labels of a result enter the session, and what a planner is shown. A session that holds untrusted
  input stays tainted over every sequence of calls, and none of them sends anything out.
\<close>

section \<open>When a handler runs\<close>

definition call_action :: "tool_definition \<Rightarrow> args \<Rightarrow> int option \<Rightarrow> call_env \<Rightarrow> action" where
  "call_action tool args amount en =
     \<lparr>a_kind = td_capability_kind tool, a_target = extract_target (tx_py (ce_text en)) tool args,
      a_amount = amount\<rparr>"

text \<open>The request the engine is asked for a call.\<close>

definition call_request ::
  "tool_client \<Rightarrow> uuid \<Rightarrow> session \<Rightarrow> tool_definition \<Rightarrow> args \<Rightarrow> int option \<Rightarrow> bool \<Rightarrow> call_env
   \<Rightarrow> decide_args" where
  "call_request c sid s tool args amount approved en =
     decision_request c s tool args (call_action tool args amount en)
       (decide_labels s (source_tags c sid tool args)) approved en"

text \<open>A call is decided with \<open>pd\<close> before any handler runs; \<open>c'\<close> is the client then.\<close>

definition call_decided ::
  "tool_client \<Rightarrow> uuid \<Rightarrow> string \<Rightarrow> args \<Rightarrow> bool \<Rightarrow> call_env \<Rightarrow> session \<Rightarrow> tool_definition \<Rightarrow> int option
   \<Rightarrow> tool_client \<Rightarrow> policy_decision \<Rightarrow> bool" where
  "call_decided c sid tool_name args approved en s tool amount c' pd \<longleftrightarrow>
     registry_get (tc_registry c) tool_name = Inr tool \<and> graph_get (tc_graph c) sid = Inr s
     \<and> extract_amount tool args = Inr amount
     \<and> decide_call c s tool tool_name args (call_action tool args amount en) approved sid en
       = (c', Inr pd)"

lemma call_unmasked_cases:
  obtains (failed) c' e where "\<And>h. call_unmasked h c sid tool_name args approved en = (c', Raised e)"
  | (refused) s tool amount c1 c2 pd where
      "call_decided c sid tool_name args approved en s tool amount c1 pd"
      "pd_decision pd \<notin> {ALLOW, WARN}"
      "\<And>h. call_unmasked h c sid tool_name args approved en
         = refuse_call c2 s tool tool_name args pd sid en"
  | (dispatched) s tool amount c1 g2 pd where
      "call_decided c sid tool_name args approved en s tool amount c1 pd"
      "pd_decision pd \<in> {ALLOW, WARN}" "g_sessions g2 = g_sessions (tc_graph c1)"
      "\<And>h. call_unmasked h c sid tool_name args approved en
         = dispatch_call h (with_graph c1 g2) s tool tool_name args
             (call_action tool args amount en) pd sid en"
proof -
  show ?thesis
  proof (cases "registry_get (tc_registry c) tool_name")
    case (Inl e)
    then show ?thesis by (intro failed [of c e]) (simp add: call_unmasked_def)
  next
    case tool: (Inr tool)
    show ?thesis
    proof (cases "graph_get (tc_graph c) sid")
      case (Inl e)
      then show ?thesis using tool by (intro failed [of c e]) (simp add: call_unmasked_def)
    next
      case s: (Inr s)
      show ?thesis
      proof (cases "extract_amount tool args")
        case (Inl e)
        then show ?thesis using tool s by (intro failed [of c e]) (simp add: call_unmasked_def)
      next
        case amount: (Inr amount)
        let ?act = "call_action tool args amount en"
        obtain c1 res where d: "decide_call c s tool tool_name args ?act approved sid en = (c1, res)"
          by fastforce
        show ?thesis
        proof (cases res)
          case (Inl e)
          then show ?thesis using tool s amount d
            by (intro failed [of c1 e]) (simp add: call_unmasked_def call_action_def)
        next
          case (Inr pd)
          then have dec: "call_decided c sid tool_name args approved en s tool amount c1 pd"
            using tool s amount d by (simp add: call_decided_def)
          let ?g = "emit_policy_decision (tc_context c1) (ce_text en) sid tool_name args pd tool
              (tc_graph c1)"
          have quiet: "g_sessions ?g = g_sessions (tc_graph c1)"
            by (simp add: emit_policy_decision_def Let_def split: option.split)
          show ?thesis
          proof (cases "emit_purpose_contamination (tc_context c1) (ce_text en) sid tool_name args
              ?act pd ?g")
            case (Inl e)
            then show ?thesis using tool s amount d Inr
              by (intro failed [of "with_graph c1 ?g" e])
                (simp add: call_unmasked_def call_action_def Let_def)
          next
            case g: (Inr g)
            have "g_sessions g = g_sessions ?g"
              using g by (auto simp: emit_purpose_contamination_def Let_def split: if_splits sum.splits)
            then have "g_sessions (emit_capability_checked sid ?act pd g) = g_sessions (tc_graph c1)"
              using quiet by (simp add: emit_capability_checked_def)
            moreover have "call_unmasked h c sid tool_name args approved en
              = (let c = with_graph c1 (emit_capability_checked sid ?act pd g)
                 in if pd_decision pd \<notin> {ALLOW, WARN}
                    then refuse_call c s tool tool_name args pd sid en
                    else dispatch_call h c s tool tool_name args ?act pd sid en)" for h
              using tool s amount d Inr g
              by (simp add: call_unmasked_def call_action_def Let_def)
            ultimately show ?thesis
              using refused [OF dec] dispatched [OF dec] by (cases "pd_decision pd \<notin> {ALLOW, WARN}") auto
          qed
        qed
      qed
    qed
  qed
qed

text \<open>
  In a strict session, the decision acted on is the engine's, made stricter, or an approval an
  inspector waived.
\<close>

lemma call_decided_engine:
  assumes "call_decided c sid tool_name args approved en s tool amount c' pd"
    and "s_enforcement_mode s = STRICT"
  shows "\<exists>pd0. fst (decide (call_request c sid s tool args amount approved en)) = Inr pd0
     \<and> pd_matched_capability pd = pd_matched_capability pd0
     \<and> (RESTRICTIVENESS (pd_decision pd0) \<le> RESTRICTIVENESS (pd_decision pd)
        \<or> hooks_at c ''at_chokepoint.decision'' \<noteq> [] \<and> pd_decision pd0 = REQUIRE_APPROVAL)"
proof -
  let ?a = "call_request c sid s tool args amount approved en"
  let ?act = "call_action tool args amount en"
  have dc: "decide_call c s tool tool_name args ?act approved sid en = (c', Inr pd)"
    using assms(1) by (simp add: call_decided_def)
  obtain res st where d: "decide ?a = (res, st)" by fastforce
  have "\<exists>pd0. res = Inr pd0" using dc d
    by (cases res) (simp_all add: decide_call_def call_request_def Let_def)
  then obtain pd0 where d: "decide ?a = (Inr pd0, st)" using d by blast
  obtain g1 pd1 where i: "apply_decision_inspectors (hooks_at c ''at_chokepoint.decision'')
      (inspected c tool args tool_name ?act) s pd0 sid (tc_graph c) = (g1, pd1)" by fastforce
  have pd: "pd = final_decision tool (source_tags c sid tool args)
      (decide_labels s (source_tags c sid tool args)) (da_axis_d ?a) pd1"
    using dc d i assms(2)
    by (auto simp: decide_call_def call_request_def Let_def maybe_shadow_rewrite_def)
  then have "RESTRICTIVENESS (pd_decision pd1) \<le> RESTRICTIVENESS (pd_decision pd)
      \<and> pd_matched_capability pd = pd_matched_capability pd1"
    by (auto simp: final_decision_def restricted_source_floor_decision_def PolicyDecision_def
        split: option.split)
  then show ?thesis
    using inspected_decision [OF i] d by (auto simp: is_strictly_more_restrictive_def)
qed

lemma call_request_sel [simp]:
  "da_action (call_request c sid s tool args amount approved en) = call_action tool args amount en"
  "da_labels (call_request c sid s tool args amount approved en)
     = Some (decide_labels s (source_tags c sid tool args))"
  "da_capabilities (call_request c sid s tool args amount approved en) = s_capability_set s"
  "da_now (call_request c sid s tool args amount approved en) = Some (ce_now en)"
  "da_cap_uses (call_request c sid s tool args amount approved en) = Some (s_cap_uses s)"
  "da_revoked_audit_ids (call_request c sid s tool args amount approved en) = s_revoked_audit_ids s"
  "da_used_kinds (call_request c sid s tool args amount approved en) = s_used_kinds s"
  "da_registry (call_request c sid s tool args amount approved en) = ce_kinds en"
  by (simp_all add: call_request_def decision_request_def base_request_def context_request_def Let_def
      split: option.split)

lemma call_kind [simp]: "a_kind (call_action tool args amount en) = td_capability_kind tool"
  by (simp add: call_action_def)

lemma levels_mri: "levels (most_restrictive_inherit states) = \<Union> (levels ` set states)"
  using levels_join [of states] by (simp add: label_join_def)

lemma levels_decide_labels:
  "levels (decide_labels s src) = levels (s_label_state s) \<union> levels src"
proof (cases "no_labels src")
  case True
  then have "levels src = {}" by (simp add: no_labels_def levels_def)
  then show ?thesis using True by (simp add: decide_labels_def)
qed (simp add: decide_labels_def levels_mri)

text \<open>What every handler leaves alike: the call refuses hard, whatever it says.\<close>

definition refuses_call :: "tool_client \<times> call_outcome run \<Rightarrow> bool" where
  "refuses_call res \<longleftrightarrow>
     (case snd res of
        Returned oc \<Rightarrow> oc_decision oc \<in> {DENY, OVERRIDE_REQUIRED} | Raised _ \<Rightarrow> True | _ \<Rightarrow> False)"

lemma refused_call:
  assumes "\<And>s tool amount c1 pd. call_decided c sid tool_name args approved en s tool amount c1 pd
      \<Longrightarrow> hard (pd_decision pd)"
  shows "call_unmasked h c sid tool_name args approved en
       = call_unmasked h' c sid tool_name args approved en
     \<and> refuses_call (call_unmasked h c sid tool_name args approved en)"
proof (cases rule: call_unmasked_cases [of c sid tool_name args approved en])
  case (failed c' e)
  then show ?thesis by (simp add: refuses_call_def)
next
  case (refused s tool amount c1 c2 pd)
  have "hard (pd_decision pd)" by (rule assms [OF refused(1)])
  then have "pd_decision pd \<noteq> REQUIRE_APPROVAL" by (auto simp: hard_def)
  then have "refuse_call c2 s tool tool_name args pd sid en
      = (c2, Returned (refused_outcome (ce_text en) pd tool_name args None None))"
    by (simp add: refuse_call_def)
  then show ?thesis using refused(3) \<open>hard (pd_decision pd)\<close>
    by (simp add: refuses_call_def refused_outcome_def ToolCallOutcome_def hard_def)
next
  case (dispatched s tool amount c1 g2 pd)
  then show ?thesis using assms [OF dispatched(1)] by (auto simp: hard_def)
qed

lemma masked_refusal:
  assumes "call_unmasked h c sid tool_name args approved en
       = call_unmasked h' c sid tool_name args approved en"
    and "refuses_call (call_unmasked h c sid tool_name args approved en)"
  shows "call_tool h c sid tool_name args approved recipient en
       = call_tool h' c sid tool_name args approved recipient en
     \<and> refuses_call (call_tool h c sid tool_name args approved recipient en)"
  using assms
  by (auto simp: call_tool_def refuses_call_def no_mode_outcome_def ToolCallOutcome_def withheld_def
      split: sum.split prod.split run.splits)

lemma tainted_call_refused:
  assumes "graph_get (tc_graph c) sid = Inr s" and "registry_get (tc_registry c) tool_name = Inr tool"
    and "s_enforcement_mode s = STRICT"
    and "kind_in (td_capability_kind tool) (map BuiltIn EGRESS_KINDS)"
    and "EXTERNAL_UNTRUSTED \<in> levels (s_label_state s) \<union> levels (source_tags c sid tool args)"
    and "\<And>amount. extract_amount tool args = Inr amount
      \<Longrightarrow> override_gate (call_request c sid s tool args amount approved en) = None"
  shows "call_tool h c sid tool_name args approved recipient en
       = call_tool h' c sid tool_name args approved recipient en
     \<and> refuses_call (call_tool h c sid tool_name args approved recipient en)"
proof -
  have "hard (pd_decision pd)"
    if dec: "call_decided c sid tool_name args approved en s' tool' amount c1 pd" for s' tool' amount c1 pd
  proof (rule ccontr)
    have same: "s' = s" "tool' = tool" "extract_amount tool args = Inr amount"
      using dec assms(1,2) by (auto simp: call_decided_def)
    let ?a = "call_request c sid s tool args amount approved en"
    obtain why where leg: "conflict_leg ?a = Some (DENY, PROVENANCE_EGRESS_RULE, why)"
      using conflict_leg_untrusted [of ?a] assms(4,5) by (auto simp: eff_labels_def levels_decide_labels)
    have floor: "floor_holds ?a ct (conflict_leg ?a)" for ct
      by (simp add: floor_holds_def leg hard_leg_def crossed_leg_def hard_def split: option.split)
    have hard: "hard (pd_decision pd0)" if "fst (decide ?a) = Inr pd0" for pd0
      using floor_refuses [OF that assms(6) [OF same(3)]] floor by blast
    assume soft: "\<not> hard (pd_decision pd)"
    obtain pd0 where pd0: "fst (decide ?a) = Inr pd0"
      "RESTRICTIVENESS (pd_decision pd0) \<le> RESTRICTIVENESS (pd_decision pd)
        \<or> pd_decision pd0 = REQUIRE_APPROVAL"
      using call_decided_engine [OF dec] assms(3) same by blast
    from hard [OF pd0(1)] pd0(2) soft show False
      by (cases "pd_decision pd"; cases "pd_decision pd0") (simp_all add: hard_def)
  qed
  then show ?thesis using masked_refusal [OF conjunct1 [OF refused_call] conjunct2 [OF refused_call]] by blast
qed

text \<open>
  C6: In a strict session that holds untrusted input, or with arguments that refer to untrusted data
  (a handle, a memory key), and without an override grant for exactly this action, a call of a tool
  that can send data out refuses hard or raises, the same for all handlers, so none runs, whatever
  inspectors and rules the operator wrote and whatever was approved before.
\<close>

theorem tainted_session_never_egresses:
  assumes "graph_get (tc_graph c) sid = Inr s" and "registry_get (tc_registry c) tool_name = Inr tool"
    and "s_enforcement_mode s = STRICT"
    and "kind_in (td_capability_kind tool) (map BuiltIn EGRESS_KINDS)"
    and "EXTERNAL_UNTRUSTED \<in> levels (s_label_state s) \<union> levels (source_tags c sid tool args)"
    and "\<And>amount. extract_amount tool args = Inr amount
      \<Longrightarrow> override_gate (call_request c sid s tool args amount approved en) = None"
  shows "call_tool h c sid tool_name args approved recipient en
       = call_tool h' c sid tool_name args approved recipient en
     \<and> refuses_call (call_tool h c sid tool_name args approved recipient en)"
  by (rule tainted_call_refused [OF assms])

definition plain_text :: call_text where
  "plain_text = \<lparr>tx_py = \<lparr>pt_text_of = (\<lambda>_. []), pt_field = (\<lambda>_ _. None)\<rparr>, tx_reason = (\<lambda>_. []),
     tx_digest = (\<lambda>v. v), tx_size = (\<lambda>_. 0)\<rparr>"

definition env_at :: "time \<Rightarrow> call_env" where
  "env_at t = \<lparr>ce_now = t, ce_kinds = None, ce_netloc_ok = (\<lambda>_. True), ce_text = plain_text,
     ce_mint_audit_id = 50, ce_submit = submit_at_150, ce_bind_ids = [], ce_returned_id = 51,
     ce_declassify_ids = []\<rparr>"

definition client_of :: "tool_definition list \<Rightarrow> session list \<Rightarrow> policy_context option \<Rightarrow> tool_client" where
  "client_of tools ss pc = \<lparr>tc_registry = map (\<lambda>t. (td_name t, t)) tools, tc_graph = graph_with ss,
     tc_queue = None, tc_context = pc, tc_hooks = []\<rparr>"

definition tainted_mailer :: session where
  "tainted_mailer = (Session_new 8 0)\<lparr>s_capability_set := [mail_cap], s_label_state := tainted_state\<rparr>"

lemma send_tool_sel [simp]:
  "td_name send_tool = ''mail.send''" "td_capability_kind send_tool = BuiltIn SEND_EMAIL"
  "td_amount_arg send_tool = None"
  by (simp_all add: send_tool_def ToolDefinition_def)

theorem tainted_session_never_egresses_witness:
  "\<forall>h. refuses_call (call_tool h (client_of [send_tool] [tainted_mailer] None) 8 ''mail.send''
       [(''target'', JStr ''a@b.c'')] True ''planner'' (env_at 5))"
proof -
  let ?c = "client_of [send_tool] [tainted_mailer] None"
  have s: "graph_get (tc_graph ?c) 8 = Inr tainted_mailer"
    by (simp add: client_of_def graph_get_def tainted_mailer_def Session_new_def)
  have t: "registry_get (tc_registry ?c) ''mail.send'' = Inr send_tool"
    by (simp add: client_of_def registry_get_def)
  have "refuses_call (call_tool h ?c 8 ''mail.send'' [(''target'', JStr ''a@b.c'')] True ''planner''
      (env_at 5))" for h
    using tainted_session_never_egresses [OF s t, of "[(''target'', JStr ''a@b.c'')]" True "env_at 5"
        h "''planner''" h]
    by (simp add: tainted_mailer_def Session_new_def kind_in_def EGRESS_KINDS_def tainted_state_def
        levels_def call_request_def decision_request_def client_of_def override_gate_def
        base_request_def)
  then show ?thesis by blast
qed

section \<open>What authorises a handler\<close>

text \<open>Without an override grant, the engine never merely warns.\<close>

lemma v2_no_warn: "V2_TO_LEGACY x = Some d \<Longrightarrow> d \<noteq> WARN"
  by (cases x) auto

lemma legs_no_warn:
  "reversibility_leg a = Some (d, r, w) \<Longrightarrow> d \<noteq> WARN"
  "envelope_leg a = Inr (Some (d, r, w)) \<Longrightarrow> d \<noteq> WARN"
  "conflict_leg a = Some (d, r, w) \<Longrightarrow> d \<noteq> WARN"
  "fetch_leg a ct = Some (d, r, w) \<Longrightarrow> d \<noteq> WARN"
  by (auto simp: reversibility_leg_def envelope_leg_def Let_def conflict_leg_def fetch_leg_def
      conflict_invariant_outcome_def fetch_url_egress_outcome_def dest: v2_no_warn
      split: option.splits list.splits effect_gate.splits if_splits prod.splits sum.splits)

lemma steps_no_warn:
  "pd_decision (compose_with_conflict_invariant pd leg cf p) = WARN
     \<Longrightarrow> pd_decision pd = WARN \<or> (\<exists>r w. leg = Some (WARN, r, w))"
  "pd_decision (with_envelope env ap pd) = WARN
     \<Longrightarrow> pd_decision pd = WARN \<or> (\<exists>r w. env = Some (WARN, r, w))"
  "pd_decision (with_reversibility leg ap st pd) = WARN
     \<Longrightarrow> pd_decision pd = WARN \<or> (\<exists>r w. leg = Some (WARN, r, w))"
  "pd_decision (first_use a pd) = WARN \<Longrightarrow> pd_decision pd = WARN"
  by (auto simp: compose_with_conflict_invariant_def with_envelope_def compose_with_envelope_def
      with_reversibility_def compose_with_reversibility_def first_use_def
      maybe_first_use_escalation_def split: option.splits prod.splits if_splits)

lemma compose_legs_no_warn:
  assumes "compose_legs a ct env = Inr pd" and "envelope_leg a = Inr env"
  shows "pd_decision pd \<noteq> WARN"
proof
  assume warn: "pd_decision pd = WARN"
  have cap: "pd_decision (capability_leg a) \<noteq> WARN"
    using decide_legacy_decision [of "da_registry a" "da_capabilities a" "da_action a"
        "da_used_kinds a" "da_now a" "da_clock a ReadLegacy" "da_cap_uses a"
        "da_revoked_audit_ids a" "da_rate_limit_escalation a"]
    by (auto simp: capability_leg_def)
  have legs: "\<not> (\<exists>r w. reversibility_leg a = Some (WARN, r, w))" "\<not> (\<exists>r w. env = Some (WARN, r, w))"
    "\<not> (\<exists>r w. conflict_leg a = Some (WARN, r, w))" "\<not> (\<exists>r w. fetch_leg a ct = Some (WARN, r, w))"
    using legs_no_warn [where a = a and d = WARN] assms(2) by auto
  have both: "(\<exists>axis_d eff v2. compose_full a axis_d eff v2 ct env = Inr pd)
      \<or> pd = compose_legacy_only a ct env"
    using assms(1) by (auto simp: compose_legs_def split: option.splits sum.splits)
  then show False
  proof
    assume "pd = compose_legacy_only a ct env"
    then show False using warn cap legs unfolding compose_legacy_only_def Let_def
      by (blast dest: steps_no_warn)
  next
    assume "\<exists>axis_d eff v2. compose_full a axis_d eff v2 ct env = Inr pd"
    then obtain axis_d eff v2 c where c: "compose_with_v2 (capability_leg a) v2 (da_already_approved a)
        (standing_destructive a (capability_leg a)) = Inr c"
      and pd: "pd = after_rules a axis_d eff v2 ct env c"
      unfolding compose_full_Inr by blast
    have "pd_decision c \<noteq> WARN" using c cap v2_no_warn [of "ev_outcome v2"]
      by (auto simp: compose_with_v2_def split: option.splits if_splits)
    moreover have "pd_decision (pd'\<lparr>pd_labels_snapshot := x, pd_axis_d_snapshot := y,
        pd_effect_class := z\<rparr>) = pd_decision pd'" for pd' x y z by simp
    ultimately show False using warn legs unfolding pd after_rules_def
      by (metis steps_no_warn)
  qed
qed

lemma engine_never_warns:
  assumes "fst (decide a) = Inr pd" and "override_gate a = None"
  shows "pd_decision pd \<noteq> WARN"
  using decide_hard [OF assms] compose_legs_no_warn by (auto simp: hard_def)

lemma call_influence:
  assumes "call_unmasked h c sid tool_name args approved en \<noteq> call_unmasked h' c sid tool_name args approved en"
  shows "\<exists>s tool amount c' pd. call_decided c sid tool_name args approved en s tool amount c' pd
     \<and> pd_decision pd \<in> {ALLOW, WARN}"
proof (cases rule: call_unmasked_cases [of c sid tool_name args approved en])
  case (dispatched s tool amount c1 g2 pd)
  then show ?thesis by blast
qed (use assms in auto)


text \<open>A client with one working session, and a handler that raises.\<close>

definition mailer :: session where
  "mailer = (Session_new 8 0)\<lparr>s_capability_set := [mail_cap]\<rparr>"

definition failing :: "string \<Rightarrow> handler" where
  "failing e = (\<lambda>tool args sid l c. (c, HandlerRaised e))"

definition mail_call :: "string \<Rightarrow> tool_client \<times> call_outcome run" where
  "mail_call e = call_tool (failing e) (client_of [send_tool] [mailer] None) 8 ''mail.send''
     [(''target'', JStr ''bob'')] False ''planner'' (env_at 5)"

definition error_of :: "call_outcome run \<Rightarrow> string option" where
  "error_of r = (case r of Returned oc \<Rightarrow> oc_error oc | _ \<Rightarrow> None)"

lemma mail_call_errors:
  "error_of (snd (mail_call ''x'')) = Some ''x''" "error_of (snd (mail_call ''y'')) = Some ''y''"
  by code_simp+

lemma mail_call_gates:
  "override_gate (call_request (client_of [send_tool] [mailer] None) 8 mailer tool
     [(''target'', JStr ''bob'')] amount False (env_at 5)) = None"
  "reversibility_leg (call_request (client_of [send_tool] [mailer] None) 8 mailer tool
     [(''target'', JStr ''bob'')] amount False (env_at 5)) \<noteq> Some (ALLOW, r, why)"
  by (simp_all add: call_request_def decision_request_def client_of_def override_gate_def
      base_request_def reversibility_leg_def)


end
