(* ===== verification/CallLemmas.thy ===== *)
theory CallLemmas
  imports DispatchProps
begin

text \<open>
  What a whole tool call does to the sessions of the graph: nothing but what the operations of the
  graph may do (\<open>keeps\<close>), provided the handler does nothing else and no raise-only inspector is
  registered, since those store a stale session back. The relation \<open>client_to\<close> is proved for
  each stage of the call and composed as the call composes them.
\<close>

section \<open>Clients whose sessions only evolve\<close>

definition no_ingest_inspectors :: "tool_client \<Rightarrow> bool" where
  "no_ingest_inspectors c \<longleftrightarrow> hooks_at c ''at_ingest.value_in'' = []"

definition client_to :: "tool_client \<Rightarrow> tool_client \<Rightarrow> bool" where
  "client_to c c' \<longleftrightarrow>
     (keyed_sessions (tc_graph c) \<and> no_ingest_inspectors c
      \<longrightarrow> keeps (tc_graph c) (tc_graph c') \<and> no_ingest_inspectors c')"

lemma keeps_keyed: "keeps g g' \<Longrightarrow> keyed_sessions g'"
  by (simp add: keeps_def)

lemma client_to_refl [simp]: "client_to c c"
  by (simp add: client_to_def keeps_refl)

lemma client_to_trans: "client_to c c' \<Longrightarrow> client_to c' c'' \<Longrightarrow> client_to c c''"
  unfolding client_to_def by (meson keeps_keyed keeps_trans)

lemma hooks_at_with [simp]:
  "hooks_at (with_graph c g) n = hooks_at c n" "hooks_at (with_handles c st) n = hooks_at c n"
  "hooks_at (with_grants c gs) n = hooks_at c n"
  "hooks_at (c\<lparr>tc_queue := q\<rparr>) n = hooks_at c n" "hooks_at (c\<lparr>tc_graph := g\<rparr>) n = hooks_at c n"
  by (simp_all add: hooks_at_def with_graph_def with_handles_def with_grants_def split: option.split)

lemma client_with_sel [simp]:
  "tc_graph (with_graph c g) = g" "tc_graph (with_handles c st) = tc_graph c"
  "tc_graph (with_grants c gs) = tc_graph c"
  by (simp_all add: with_graph_def with_handles_def with_grants_def)

lemma client_to_same:
  assumes "g_sessions (tc_graph c') = g_sessions (tc_graph c)" and "\<And>n. hooks_at c' n = hooks_at c n"
  shows "client_to c c'"
  using assms keeps_same_sessions by (simp add: client_to_def no_ingest_inspectors_def)

lemma client_to_graph:
  assumes "keyed_sessions (tc_graph c) \<Longrightarrow> keeps (tc_graph c) g"
  shows "client_to c (with_graph c g)"
  using assms by (simp add: client_to_def no_ingest_inspectors_def)

section \<open>Before the handler\<close>

lemma record_cap_uses_keeps:
  "keyed_sessions g \<Longrightarrow> keeps g (fst (record_cap_uses g sid now caps))"
proof (induction g sid now caps rule: record_cap_uses.induct)
  case (2 g sid now cap caps)
  show ?case
  proof (cases "c_rate_limit cap")
    case None
    then show ?thesis using 2 by simp
  next
    case (Some rl)
    let ?use = "record_cap_use g sid (c_audit_id cap) now (Some (rl_window_seconds rl * second_us)) now"
    show ?thesis
    proof (cases ?use)
      case (Inl e)
      then show ?thesis using Some keeps_refl [OF 2(3)] by simp
    next
      case (Inr r)
      obtain g' s' where r: "r = (g', s')" by fastforce
      have k: "keeps g g'"
        by (rule graph_step_keeps [OF graph_step.use_cap [OF Inr [unfolded r]] 2(3)])
      have "keeps g' (fst (record_cap_uses g' sid now caps))"
        using 2(2) [OF Some Inr r [symmetric]] keeps_keyed [OF k] by simp
      then show ?thesis using Some Inr r keeps_trans [OF k] by simp
    qed
  qed
qed (simp add: keeps_refl)

lemma record_use_keeps:
  assumes "keyed_sessions g"
  shows "keeps g (fst (record_use g s act pd sid now))"
proof (cases "record_used_kind g sid (a_kind act) now")
  case (Inl e)
  then show ?thesis using assms by (simp add: record_use_def keeps_refl)
next
  case (Inr r)
  obtain g' s' where r: "r = (g', s')" by fastforce
  have k: "keeps g g'"
    by (rule graph_step_keeps [OF graph_step.use_kind [OF Inr [unfolded r]] assms])
  show ?thesis
    using Inr r k keeps_trans [OF k record_cap_uses_keeps [OF keeps_keyed [OF k]]]
    by (simp add: record_use_def split: option.split)
qed

lemma decide_call_to: "client_to c (fst (decide_call c s tool tool_name args act approved sid en))"
proof -
  let ?a = "decision_request c s tool args act (decide_labels s (source_tags c sid tool args)) approved en"
  obtain res st where d: "decide ?a = (res, st)" by fastforce
  show ?thesis
  proof (cases res)
    case (Inl e)
    then show ?thesis using d
      by (intro client_to_same) (simp_all add: decide_call_def Let_def)
  next
    case (Inr pd)
    obtain g1 pd1 where i: "apply_decision_inspectors (hooks_at c ''at_chokepoint.decision'')
        (inspected c tool args tool_name act) s pd sid (tc_graph c) = (g1, pd1)" by fastforce
    have g1: "g_sessions g1 = g_sessions (tc_graph c)"
      using apply_decision_inspectors_sessions [of "hooks_at c ''at_chokepoint.decision''"
          "inspected c tool args tool_name act" s pd sid "tc_graph c"] i by simp
    obtain g2 pd2 where m: "maybe_shadow_rewrite (ce_text en) s tool_name (a_target act) pd1 sid g1
        = (g2, pd2)" by fastforce
    have g2: "g_sessions g2 = g_sessions g1"
      using m by (auto simp: maybe_shadow_rewrite_def split: if_splits option.splits)
    show ?thesis using d Inr i m g1 g2
      by (intro client_to_same) (simp_all add: decide_call_def Let_def)
  qed
qed

lemma sessions_approval_event [simp]: "g_sessions (approval_event ty r p g) = g_sessions g"
  by (simp add: approval_event_def)

lemma sessions_decision_nodes [simp]: "g_sessions (decision_nodes r e w m g) = g_sessions g"
  by (simp add: decision_nodes_def Let_def)

lemma approve_sessions: "approve q g rid a eid now = (q', g', res) \<Longrightarrow> g_sessions g' = g_sessions g"
  by (auto simp: approve_def with_pending_def Let_def split: prod.splits sum.splits if_splits option.splits)

lemma submit_sessions:
  assumes "submit text_of q g a en = (q', g', res)"
  shows "g_sessions g' = g_sessions g"
proof -
  obtain q1 r1 where o: "open_request q a en = (q1, r1)" by fastforce
  show ?thesis
  proof (cases r1)
    case (Inl e)
    then show ?thesis using assms o by (simp add: submit_def)
  next
    case (Inr r)
    let ?g = "request_events r (se_requested_event_id en) g"
    have ev: "g_sessions ?g = g_sessions g"
      by (simp add: request_events_def Let_def split: option.split)
    have "auto_approve text_of q1 ?g (sa_allow_patterns a) r (se_event_id en) (se_now en)
      (se_decision en) = (q', g', res)"
      using assms o Inr by (simp add: submit_def)
    then have "g_sessions g' = g_sessions ?g"
      using approve_sessions by (auto simp: auto_approve_def split: option.splits)
    then show ?thesis using ev by simp
  qed
qed

lemma register_approval_sessions:
  "register_approval en q g sid labels sub rule = (q', g', res) \<Longrightarrow> g_sessions g' = g_sessions g"
  by (auto simp: register_approval_def Let_def dest: submit_sessions
      split: prod.splits option.splits sum.splits)

lemma refuse_call_to: "client_to c (fst (refuse_call c s tool tool_name args pd sid en))"
  by (rule client_to_same)
    (auto simp: refuse_call_def Let_def dest: register_approval_sessions
      split: option.split sum.split prod.split)

section \<open>After the handler\<close>

lemma apply_inspectors_none [simp]: "apply_inspectors [] s v g = (g, None)"
  by (simp add: apply_inspectors_def same_labels_def)

lemma declassified_events_sessions [simp]:
  "g_sessions (declassified_events tx tn v sid rs eids g) = g_sessions g"
  by (induction rs arbitrary: eids g) (simp_all add: declassifier_events_def)

lemma apply_declassifiers_sessions:
  "g_sessions (fst (apply_declassifiers tx ds s tn v inh add eids sid g)) = g_sessions g"
  by (simp add: apply_declassifiers_def Let_def split: sum.split prod.split)

lemma result_provenance_sessions [simp]:
  "g_sessions (result_provenance en sid tn act pd tags out bound g) = g_sessions g"
proof -
  have "g_sessions (foldl (handle_provenance sid node eid) g' hs) = g_sessions g'" for node eid g' hs
    by (induction hs arbitrary: g') (simp_all add: handle_provenance_def Let_def)
  then show ?thesis
    by (simp add: result_provenance_def capability_provenance_def Let_def split: option.split)
qed

lemma propagate_tags_keeps:
  assumes "propagate_tags g s tn tags sid now = Inr (g', added)" and "keyed_sessions g"
  shows "keeps g g'"
proof (cases "no_labels tags")
  case True
  then show ?thesis using assms by (simp add: propagate_tags_def keeps_refl)
next
  case False
  obtain g1 t where a: "add_tags g sid tags now = Inr (g1, t)"
    using assms(1) False by (auto simp: propagate_tags_def split: sum.splits)
  have k: "keeps g g1" by (rule graph_step_keeps [OF graph_step.taint [OF a] assms(2)])
  have "g_sessions g' = g_sessions g1"
    using assms(1) False a by (auto simp: propagate_tags_def Let_def split: sum.splits if_splits)
  then show ?thesis by (rule keeps_trans [OF k keeps_same_sessions [OF keeps_keyed [OF k]]])
qed

lemma finish_call_to:
  "client_to c (fst (finish_call c s tool tn args act pd bt bound output additional sid en))"
proof (cases "no_ingest_inspectors c \<and> keyed_sessions (tc_graph c)")
  case True
  let ?g = "event ''tool.returned'' sid
      ((''tool'', JStr tn) # audit_output_metadata (ce_text en) output) (tc_graph c)"
  obtain g1 out removed where d: "apply_declassifiers (ce_text en)
      (hooks_at c ''at_ingest.declassifier_chain'') s tn output (td_inherent_tags tool) additional
      (ce_declassify_ids en) sid ?g = (g1, out, removed)" by (metis prod_cases3)
  have same: "g_sessions g1 = g_sessions (tc_graph c)"
    using arg_cong [OF d, of "\<lambda>r. g_sessions (fst r)"] by (simp add: apply_declassifiers_sessions)
  have k1: "keeps (tc_graph c) g1" using True same by (simp add: keeps_same_sessions)
  let ?tags = "result_tags tool args (ce_kinds en) removed additional bt"
  show ?thesis
  proof (cases "propagate_tags g1 s tn ?tags sid (ce_now en)")
    case (Inl e)
    then show ?thesis using True d k1
      by (simp add: finish_call_def Let_def client_to_graph no_ingest_inspectors_def)
  next
    case (Inr r)
    obtain g2 added where r: "r = (g2, added)" by fastforce
    have k2: "keeps g1 g2" by (rule propagate_tags_keeps [OF Inr [unfolded r] keeps_keyed [OF k1]])
    have k: "keeps (tc_graph c) g3" if "g_sessions g3 = g_sessions g2" for g3
      using keeps_trans [OF k1 keeps_trans [OF k2 keeps_same_sessions [OF keeps_keyed [OF k2] that]]] .
    show ?thesis using True d Inr r k
      by (simp add: finish_call_def Let_def client_to_graph no_ingest_inspectors_def)
  qed
next
  case False
  then show ?thesis by (auto simp: client_to_def)
qed

section \<open>The call\<close>

text \<open>A handler may do to the client what a call may.\<close>

definition handler_ok :: "handler \<Rightarrow> bool" where
  "handler_ok h \<longleftrightarrow> (\<forall>tool args sid l c. client_to c (fst (h tool args sid l c)))"

lemma dispatch_call_to:
  assumes "handler_ok h"
  shows "client_to c (fst (dispatch_call h c s tool tn args act pd sid en))"
proof -
  let ?g = "event ''tool.dispatched'' sid
      [(''tool'', JStr tn), (''args'', audit_args (ce_text en) tn args),
       (''audit_id'', case pd_matched_capability pd of
          None \<Rightarrow> JStr [] | Some cap \<Rightarrow> JUuid (c_audit_id cap))] (tc_graph c)"
  obtain g2 r where u: "record_use ?g s act pd sid (ce_now en) = (g2, r)" by fastforce
  have k: "keeps (tc_graph c) g2" if "keyed_sessions (tc_graph c)"
  proof -
    have 1: "keeps (tc_graph c) ?g" by (rule keeps_same_sessions [OF that]) simp
    show ?thesis
      using keeps_trans [OF 1 record_use_keeps [OF keeps_keyed [OF 1], of s act pd sid "ce_now en"]] u
      by simp
  qed
  show ?thesis
  proof (cases r)
    case (Returned x)
    obtain st ba bt bound where b: "bind_reference_handles (handle_store_of c) sid tool tn
        (extract_target (tx_py (ce_text en)) tool args) args (ce_bind_ids en) (ce_now en)
        = (st, ba, bt, bound)" by (metis prod_cases4)
    let ?c = "with_handles (with_graph c g2) st"
    obtain c3 e where h: "h tool ba sid (s_label_state s) ?c = (c3, e)" by fastforce
    have "client_to c ?c"
      using k by (simp add: client_to_def no_ingest_inspectors_def)
    moreover have "client_to ?c c3"
      using assms [unfolded handler_ok_def] h by (metis fst_conv)
    ultimately have c3: "client_to c c3" by (rule client_to_trans)
    then show ?thesis
      using u Returned b h client_to_trans [OF c3 finish_call_to]
      by (simp add: dispatch_call_def Let_def split: handler_end.split)
  qed (use u k in \<open>simp_all add: dispatch_call_def Let_def client_to_graph\<close>)
qed

lemma sessions_emit_policy_decision [simp]:
  "g_sessions (emit_policy_decision pc tx sid tn args pd tool g) = g_sessions g"
  by (simp add: emit_policy_decision_def Let_def split: option.split)

lemma sessions_emit_capability_checked [simp]:
  "g_sessions (emit_capability_checked sid act pd g) = g_sessions g"
  by (simp add: emit_capability_checked_def)

lemma emit_purpose_contamination_sessions:
  "emit_purpose_contamination pc tx sid tn args act pd g = Inr g' \<Longrightarrow> g_sessions g' = g_sessions g"
  by (auto simp: emit_purpose_contamination_def Let_def split: if_splits sum.splits)

lemma call_unmasked_to:
  assumes "handler_ok h"
  shows "client_to c (fst (call_unmasked h c sid tn args approved en))"
proof (cases "registry_get (tc_registry c) tn")
  case tool: (Inr tool)
  show ?thesis
  proof (cases "graph_get (tc_graph c) sid")
    case s: (Inr s)
    show ?thesis
    proof (cases "extract_amount tool args")
      case amount: (Inr amount)
      let ?act = "call_action tool args amount en"
      obtain c1 res where d: "decide_call c s tool tn args ?act approved sid en = (c1, res)"
        by fastforce
      have c1: "client_to c c1" using decide_call_to [of c s tool tn args ?act approved sid en] d by simp
      show ?thesis
      proof (cases res)
        case (Inl e)
        then show ?thesis using tool s amount d c1 by (simp add: call_unmasked_def call_action_def)
      next
        case (Inr pd)
        let ?g = "emit_policy_decision (tc_context c1) (ce_text en) sid tn args pd tool (tc_graph c1)"
        have same: "client_to c (with_graph c1 g)" if "g_sessions g = g_sessions (tc_graph c1)" for g
          using client_to_trans [OF c1 client_to_same [of "with_graph c1 g" c1]] that by simp
        show ?thesis
        proof (cases "emit_purpose_contamination (tc_context c1) (ce_text en) sid tn args ?act pd ?g")
          case (Inl e)
          then show ?thesis using tool s amount d Inr same
            by (simp add: call_unmasked_def call_action_def Let_def)
        next
          case g: (Inr g)
          let ?c = "with_graph c1 (emit_capability_checked sid ?act pd g)"
          have c2: "client_to c ?c" using emit_purpose_contamination_sessions [OF g] same by simp
          have "call_unmasked h c sid tn args approved en
              = (if pd_decision pd \<notin> {ALLOW, WARN} then refuse_call ?c s tool tn args pd sid en
                 else dispatch_call h ?c s tool tn args ?act pd sid en)"
            using tool s amount d Inr g by (simp add: call_unmasked_def call_action_def Let_def)
          then show ?thesis
            using client_to_trans [OF c2 refuse_call_to] client_to_trans [OF c2 dispatch_call_to [OF assms]]
            by simp
        qed
      qed
    qed (use tool s in \<open>simp add: call_unmasked_def\<close>)
  qed (use tool in \<open>simp add: call_unmasked_def\<close>)
qed (simp add: call_unmasked_def)

lemma call_tool_to:
  assumes "handler_ok h"
  shows "client_to c (fst (call_tool h c sid tn args approved recipient en))"
proof -
  have ev: "client_to c' (with_graph c' (event ty sid p (tc_graph c')))" for c' ty p
    by (rule client_to_same) simp_all
  obtain c1 r where u: "call_unmasked h c sid tn args approved en = (c1, r)" by fastforce
  have c1: "client_to c c1" using call_unmasked_to [OF assms, of c sid tn args approved en] u by simp
  show ?thesis
    using u c1 ev client_to_trans [OF c1 ev]
    by (simp add: call_tool_def split: sum.split run.split)
qed

end
