(* ===== verification/ProgramRunner.thy ===== *)
theory ProgramRunner
  imports Programs CallLemmas
begin

text \<open>
  The builtins of programmatic mode and the entry points of \<open>programmatic/runner.py\<close>: the caller of
  a dry run, which predicts the flow rules, the caller that dispatches through the labelled tool
  client, and what a caller is shown of a program's return value.
\<close>

section \<open>Builtins\<close>

text \<open>
  \<open>SAFE_BUILTINS\<close> on plain arguments. The conversions to text and to floats, keyword arguments and
  operands that are neither all integers nor all texts are left to \<open>po_other\<close>.
\<close>

definition one_arg :: "(pv \<Rightarrow> string + pv) \<Rightarrow> pv list \<Rightarrow> string + pv" where
  "one_arg f args = (case args of [v] \<Rightarrow> f v | _ \<Rightarrow> Inl ''TypeError'')"

definition of_items :: "py_ops \<Rightarrow> (pv list \<Rightarrow> pv) \<Rightarrow> pv \<Rightarrow> string + pv" where
  "of_items po f v = map_sum id f (py_iter po v)"

definition py_len :: "py_ops \<Rightarrow> pv \<Rightarrow> string + pv" where
  "py_len po v =
     (case v of
        PStr s \<Rightarrow> Inr (PInt (int (length s)))
      | PList vs \<Rightarrow> Inr (PInt (int (length vs)))
      | PTuple vs \<Rightarrow> Inr (PInt (int (length vs)))
      | PSet vs \<Rightarrow> Inr (PInt (int (length vs)))
      | PDict kvs \<Rightarrow> Inr (PInt (int (length kvs)))
      | PObj _ \<Rightarrow> po_other po ''len'' [v]
      | _ \<Rightarrow> Inl ''TypeError'')"

definition container_of :: "py_ops \<Rightarrow> (pv list \<Rightarrow> pv) \<Rightarrow> pv list \<Rightarrow> string + pv" where
  "container_of po f args = (if args = [] then Inr (f []) else one_arg (of_items po f) args)"

definition set_of_items :: "py_ops \<Rightarrow> pv list \<Rightarrow> string + pv" where
  "set_of_items po args =
     (case container_of po PList args of
        Inr (PList vs) \<Rightarrow>
          if list_all hashable vs then Inr (PSet (py_set po vs)) else Inl ''TypeError''
      | Inr _ \<Rightarrow> Inl ''TypeError''
      | Inl e \<Rightarrow> Inl e)"

fun all_some :: "'a option list \<Rightarrow> 'a list option" where
  "all_some [] = Some []"
| "all_some (None # xs) = None"
| "all_some (Some x # xs) = map_option (Cons x) (all_some xs)"

fun str_of :: "pv \<Rightarrow> string option" where
  "str_of (PStr s) = Some s"
| "str_of _ = None"

text \<open>\<open>min\<close>, \<open>max\<close> and \<open>sorted\<close>: a list function on integers without booleans, or on texts.\<close>

fun int_of :: "pv \<Rightarrow> int option" where
  "int_of (PInt i) = Some i"
| "int_of _ = None"

definition pick :: "py_ops \<Rightarrow> string \<Rightarrow> (int list \<Rightarrow> int) \<Rightarrow> (string list \<Rightarrow> string) \<Rightarrow> pv list \<Rightarrow> string + pv"
where
  "pick po name fi fs args =
     (case (case args of [v] \<Rightarrow> py_iter po v | [] \<Rightarrow> Inl ''TypeError'' | _ \<Rightarrow> Inr args) of
        Inl e \<Rightarrow> Inl e
      | Inr [] \<Rightarrow> Inl ''ValueError''
      | Inr vs \<Rightarrow>
          (case all_some (map int_of vs) of
             Some is \<Rightarrow> Inr (PInt (fi is))
           | None \<Rightarrow>
               (case all_some (map str_of vs) of
                  Some ss \<Rightarrow> Inr (PStr (fs ss))
                | None \<Rightarrow> po_other po name args)))"

definition py_sorted :: "py_ops \<Rightarrow> pv \<Rightarrow> string + pv" where
  "py_sorted po v =
     (case py_iter po v of
        Inl e \<Rightarrow> Inl e
      | Inr vs \<Rightarrow>
          (case all_some (map int_of vs) of
             Some is \<Rightarrow> Inr (PList (map PInt (sort is)))
           | None \<Rightarrow>
               (case all_some (map str_of vs) of
                  Some ss \<Rightarrow> Inr (PList (map PStr (sort ss)))
                | None \<Rightarrow> po_other po ''sorted'' [v])))"

definition py_sum :: "py_ops \<Rightarrow> pv list \<Rightarrow> string + pv" where
  "py_sum po args =
     (case args of
        [v] \<Rightarrow>
          (case py_iter po v of
             Inl e \<Rightarrow> Inl e
           | Inr vs \<Rightarrow>
               (case all_some (map num_of vs) of
                  Some is \<Rightarrow> Inr (PInt (sum_list is))
                | None \<Rightarrow> po_other po ''sum'' args))
      | _ \<Rightarrow> po_other po ''sum'' args)"

definition py_reversed :: "py_ops \<Rightarrow> pv \<Rightarrow> string + pv" where
  "py_reversed po v =
     (case v of
        PObj _ \<Rightarrow> po_other po ''reversed'' [v]
      | PSet _ \<Rightarrow> Inl ''TypeError''
      | _ \<Rightarrow> of_items po (\<lambda>vs. PList (rev vs)) v)"

definition range_list :: "int \<Rightarrow> int \<Rightarrow> int \<Rightarrow> pv list" where
  "range_list start stop step =
     (let n = (if 0 < step then (stop - start + step - 1) div step
               else (start - stop - step - 1) div (- step))
      in map (\<lambda>k. PInt (start + int k * step)) [0..<nat n])"

definition py_range :: "py_ops \<Rightarrow> pv list \<Rightarrow> string + pv" where
  "py_range po args =
     (case all_some (map num_of args) of
        Some [stop] \<Rightarrow> Inr (PList (range_list 0 stop 1))
      | Some [start, stop] \<Rightarrow> Inr (PList (range_list start stop 1))
      | Some [start, stop, step] \<Rightarrow>
          if step = 0 then Inl ''ValueError'' else Inr (PList (range_list start stop step))
      | _ \<Rightarrow> Inl ''TypeError'')"

definition py_enumerate :: "pv list \<Rightarrow> pv" where
  "py_enumerate vs = PList (map (\<lambda>(i, v). PTuple [PInt (int i), v]) (List.enumerate 0 vs))"

fun sequence_items :: "py_ops \<Rightarrow> pv list \<Rightarrow> string + pv list list" where
  "sequence_items po [] = Inr []"
| "sequence_items po (v # vs) =
     (case py_iter po v of
        Inl e \<Rightarrow> Inl e
      | Inr xs \<Rightarrow> map_sum id (Cons xs) (sequence_items po vs))"

fun zip_rows :: "pv list list \<Rightarrow> pv list list" where
  "zip_rows [] = []"
| "zip_rows [xs] = map (\<lambda>x. [x]) xs"
| "zip_rows (xs # ys # yss) = map2 Cons xs (zip_rows (ys # yss))"

definition py_zip :: "py_ops \<Rightarrow> pv list \<Rightarrow> string + pv" where
  "py_zip po args = map_sum id (\<lambda>rows. PList (map PTuple (zip_rows rows))) (sequence_items po args)"

definition py_abs :: "py_ops \<Rightarrow> pv \<Rightarrow> string + pv" where
  "py_abs po v = (case num_of v of Some i \<Rightarrow> Inr (PInt \<bar>i\<bar>) | None \<Rightarrow> po_other po ''abs'' [v])"

definition PLAIN_BUILTINS :: "py_ops \<Rightarrow> (string \<times> (pv list \<Rightarrow> string + pv)) list" where
  "PLAIN_BUILTINS po =
     [(''len'', one_arg (py_len po)),
      (''str'', po_other po ''str''), (''int'', po_other po ''int''), (''float'', po_other po ''float''),
      (''bool'', \<lambda>args. if args = [] then Inr (PBool False)
                 else one_arg (\<lambda>v. Inr (PBool (truthy_pv po v))) args),
      (''list'', container_of po PList), (''dict'', po_other po ''dict''),
      (''tuple'', container_of po PTuple), (''set'', set_of_items po),
      (''min'', pick po ''min'' (\<lambda>is. fold min is (hd is)) (\<lambda>ss. fold min ss (hd ss))),
      (''max'', pick po ''max'' (\<lambda>is. fold max is (hd is)) (\<lambda>ss. fold max ss (hd ss))),
      (''sum'', py_sum po), (''sorted'', one_arg (py_sorted po)),
      (''reversed'', one_arg (py_reversed po)), (''range'', py_range po),
      (''enumerate'', one_arg (of_items po py_enumerate)), (''zip'', py_zip po),
      (''abs'', one_arg (py_abs po)), (''round'', po_other po ''round''),
      (''any'', one_arg (of_items po (\<lambda>vs. PBool (list_ex (truthy_pv po) vs)))),
      (''all'', one_arg (of_items po (\<lambda>vs. PBool (list_all (truthy_pv po) vs))))]"

definition with_kwargs :: "py_ops \<Rightarrow> string \<Rightarrow> (pv list \<Rightarrow> string + pv) \<Rightarrow> builtin" where
  "with_kwargs po name f args kwargs =
     (if kwargs = [] then f args
      else po_other po name (args @ [PDict (map (\<lambda>(k, v). (PStr k, v)) kwargs)]))"

definition SAFE_BUILTINS :: "py_ops \<Rightarrow> (string \<times> builtin) list" where
  "SAFE_BUILTINS po = map (\<lambda>(name, f). (name, with_kwargs po name f)) (PLAIN_BUILTINS po)"

section \<open>Values at the boundary of a tool\<close>

text \<open>
  Arguments and outputs cross as JSON values. \<open>enc\<close> is what the dispatch makes of a value that is
  no JSON value (a tuple, a set), \<open>txt\<close> the text of an identifier or a time in an output.
\<close>

fun json_arg :: "(pv \<Rightarrow> json) \<Rightarrow> pv \<Rightarrow> json" where
  "json_arg enc PNone = JNull"
| "json_arg enc (PBool b) = JBool b"
| "json_arg enc (PInt i) = JInt i"
| "json_arg enc (PStr s) = JStr s"
| "json_arg enc (PList vs) = JList (map (json_arg enc) vs)"
| "json_arg enc (PDict kvs) =
     (if list_all (\<lambda>(k, v). str_of k \<noteq> None) kvs
      then JDict (map (\<lambda>(k, v). (the (str_of k), json_arg enc v)) kvs) else enc (PDict kvs))"
| "json_arg enc v = enc v"

fun pv_of_json :: "(json \<Rightarrow> string) \<Rightarrow> json \<Rightarrow> pv" where
  "pv_of_json txt JNull = PNone"
| "pv_of_json txt (JBool b) = PBool b"
| "pv_of_json txt (JInt i) = PInt i"
| "pv_of_json txt (JStr s) = PStr s"
| "pv_of_json txt (JList vs) = PList (map (pv_of_json txt) vs)"
| "pv_of_json txt (JDict kvs) = PDict (map (\<lambda>(k, v). (PStr k, pv_of_json txt v)) kvs)"
| "pv_of_json txt (JUuid i) = PStr (txt (JUuid i))"
| "pv_of_json txt (JTime t) = PStr (txt (JTime t))"
| "pv_of_json txt (JText ts) = PStr (txt (JText ts))"

definition json_args :: "(pv \<Rightarrow> json) \<Rightarrow> (string \<times> pv) list \<Rightarrow> args" where
  "json_args enc kws = map (\<lambda>(k, v). (k, json_arg enc v)) kws"

definition denied_dispatch :: "string option \<Rightarrow> string option \<Rightarrow> dispatch_result" where
  "denied_dispatch rule why =
     \<lparr>xr_decision = DENY, xr_output = PNone, xr_tags_added = empty_state, xr_rule = rule,
      xr_reason = why\<rparr>"

section \<open>The dry run\<close>

definition starting_label_state :: "(string \<times> pv) list \<Rightarrow> label_state" where
  "starting_label_state scope = join_states (map (\<lambda>(_, v). lab_state v) scope)"

record dry_env =
  dv_registry :: tool_registry
  dv_reason :: "reason \<Rightarrow> string"
  dv_encode :: "pv \<Rightarrow> json"

text \<open>\<open>_make_dry_run_caller\<close>; its state is the accumulated label state.\<close>

definition dry_run_caller ::
  "dry_env \<Rightarrow> label_state \<Rightarrow> string \<Rightarrow> (string \<times> pv) list \<Rightarrow> label_state
   \<Rightarrow> label_state \<times> (string + dispatch_result)" where
  "dry_run_caller dv acc tool_name kws arg_labels =
     (case registry_get (dv_registry dv) tool_name of
        Inl _ \<Rightarrow> (acc, Inr (denied_dispatch None (Some ''tool not found'')))
      | Inr tool \<Rightarrow>
          (let args = json_args (dv_encode dv) kws;
               src = extract_source_tags tool args;
               added = most_restrictive_inherit
                         [src, td_inherent_tags tool, extract_arg_inherent_tags tool args]
           in if td_forbid_restricted_source tool
                 \<and> list_ex (\<lambda>t. ct_tier t \<in> {RESTRICTED, PROHIBITED}) (ls_a src)
              then (acc, Inr (denied_dispatch (Some RESTRICTED_SOURCE_FLOW_RULE)
                                (Some (dv_reason dv (RestrictedSource (td_name tool))))))
              else
                (let effective = most_restrictive_inherit [acc, arg_labels, added];
                     fake = \<lparr>a_kind = td_capability_kind tool, a_target = [], a_amount = Some 0\<rparr>
                 in case conflict_invariant_outcome effective fake of
                      Some (d, rule, why) \<Rightarrow>
                        (acc, Inr \<lparr>xr_decision = d, xr_output = PNone, xr_tags_added = empty_state,
                                   xr_rule = Some rule, xr_reason = Some (dv_reason dv why)\<rparr>)
                    | None \<Rightarrow>
                        (effective,
                         Inr \<lparr>xr_decision = ALLOW,
                              xr_output = PDict [(PStr ''_dry_run'', PBool True),
                                                 (PStr ''tool'', PStr tool_name)],
                              xr_tags_added = added, xr_rule = None, xr_reason = None\<rparr>))))"

record dry_run_report =
  dr_tool_calls :: "call_record list"
  dr_violations :: "call_record list"
  dr_parse_error :: bool
  dr_runtime_error :: "policy_error option"
  dr_final_scope :: "(string \<times> pv) list"
  dr_return_value :: "pv option"

definition report_ok :: "dry_run_report \<Rightarrow> bool" where
  "report_ok r \<longleftrightarrow> \<not> dr_parse_error r \<and> dr_runtime_error r = None \<and> dr_violations r = []"

definition dry_program_env :: "py_ops \<Rightarrow> dry_env \<Rightarrow> label_state prog_env" where
  "dry_program_env po dv =
     \<lparr>pe_ops = po, pe_builtins = SAFE_BUILTINS po, pe_caller = dry_run_caller dv\<rparr>"

definition dry_run_program ::
  "py_ops \<Rightarrow> dry_env \<Rightarrow> stmt list \<Rightarrow> (string \<times> pv) list \<Rightarrow> signal + dry_run_report" where
  "dry_run_program po dv source scope =
     (case validate_program source of
        None \<Rightarrow> Inr \<lparr>dr_tool_calls = [], dr_violations = [], dr_parse_error = True,
                     dr_runtime_error = None, dr_final_scope = [], dr_return_value = None\<rparr>
      | Some body \<Rightarrow>
          map_sum id (\<lambda>r. \<lparr>dr_tool_calls = er_tool_calls r,
                           dr_violations = filter (\<lambda>cr. cr_decision cr \<noteq> ALLOW) (er_tool_calls r),
                           dr_parse_error = False, dr_runtime_error = er_error r,
                           dr_final_scope = er_final_scope r, dr_return_value = er_return_value r\<rparr>)
            (snd (run_program (dry_program_env po dv) body scope (starting_label_state scope))))"

section \<open>The run against a session\<close>

text \<open>
  The world of a real run: the client, and the number of calls made, which picks the clock and the
  fresh identifiers of the next one.
\<close>

record run_world =
  rw_client :: tool_client
  rw_calls :: nat

record run_env =
  rv_handler :: handler
  rv_sid :: uuid
  rv_call_env :: "nat \<Rightarrow> call_env"
  rv_audit :: bool
  rv_encode :: "pv \<Rightarrow> json"
  rv_text :: "json \<Rightarrow> string"

definition mode_selected :: "uuid \<Rightarrow> string \<Rightarrow> label_state \<Rightarrow> session_graph \<Rightarrow> session_graph" where
  "mode_selected sid tool_name labels =
     event ''mode.selected'' sid
       [(''mode'', JStr ''programmatic''), (''tool'', JStr tool_name),
        (''arg_categories'', JList (map JStr (sort (map ct_category (ls_a labels))))),
        (''arg_provenance'',
          JList (map JStr (sort (map (\<lambda>t. provenance_value (pt_level t)) (ls_b labels)))))]"

definition dispatch_of_outcome :: "run_env \<Rightarrow> call_outcome \<Rightarrow> dispatch_result" where
  "dispatch_of_outcome rv oc =
     \<lparr>xr_decision = oc_decision oc,
      xr_output = (case oc_output oc of None \<Rightarrow> PNone | Some j \<Rightarrow> pv_of_json (rv_text rv) j),
      xr_tags_added = oc_tags_added oc, xr_rule = oc_rule oc, xr_reason = oc_reason oc\<rparr>"

definition end_of_run :: "run_env \<Rightarrow> call_outcome run \<Rightarrow> string + dispatch_result" where
  "end_of_run rv r =
     (case r of
        Returned oc \<Rightarrow> Inr (dispatch_of_outcome rv oc)
      | Raised _ \<Rightarrow> Inl ''exception''
      | Aborted \<Rightarrow> Inl ''cancelled''
      | Hangs \<Rightarrow> Inl ''does not return'')"

text \<open>The labels of the arguments enter the session before the call is decided.\<close>

definition tagged_client :: "run_env \<Rightarrow> call_env \<Rightarrow> label_state \<Rightarrow> tool_client \<Rightarrow> py_error + tool_client" where
  "tagged_client rv en labels c =
     (if no_labels labels then Inr c
      else map_sum id (\<lambda>(g, _). with_graph c g) (add_tags (tc_graph c) (rv_sid rv) labels (ce_now en)))"

text \<open>\<open>_make_real_caller\<close>.\<close>

definition real_caller ::
  "run_env \<Rightarrow> run_world \<Rightarrow> string \<Rightarrow> (string \<times> pv) list \<Rightarrow> label_state
   \<Rightarrow> run_world \<times> (string + dispatch_result)" where
  "real_caller rv w tool_name kws arg_labels =
     (let c = rw_client w; en = rv_call_env rv (rw_calls w);
          world = (\<lambda>c. \<lparr>rw_client = c, rw_calls = Suc (rw_calls w)\<rparr>)
      in case registry_get (tc_registry c) tool_name of
           Inl _ \<Rightarrow> (world c, Inr (denied_dispatch None (Some ''tool not found'')))
         | Inr _ \<Rightarrow>
             (case tagged_client rv en arg_labels c of
                Inl _ \<Rightarrow> (world c, Inl ''exception'')
              | Inr c \<Rightarrow>
                  (case call_tool (rv_handler rv) c (rv_sid rv) tool_name
                          (json_args (rv_encode rv) kws) False ''planner'' en of
                     (c, r) \<Rightarrow>
                       (world (if rv_audit rv \<and> (case r of Returned oc \<Rightarrow> oc_decision oc = ALLOW | _ \<Rightarrow> False)
                               then with_graph c (mode_selected (rv_sid rv) tool_name arg_labels (tc_graph c))
                               else c),
                        end_of_run rv r))))"

definition real_program_env :: "py_ops \<Rightarrow> run_env \<Rightarrow> run_world prog_env" where
  "real_program_env po rv =
     \<lparr>pe_ops = po, pe_builtins = SAFE_BUILTINS po, pe_caller = real_caller rv\<rparr>"

text \<open>\<open>None\<close> is \<open>ProgramSyntaxError\<close>.\<close>

definition run_program_against_session ::
  "py_ops \<Rightarrow> run_env \<Rightarrow> stmt list \<Rightarrow> (string \<times> pv) list \<Rightarrow> tool_client
   \<Rightarrow> (tool_client \<times> (signal + execution_result)) option" where
  "run_program_against_session po rv source scope c =
     map_option (\<lambda>body. map_prod rw_client id
         (run_program (real_program_env po rv) body scope \<lparr>rw_client = c, rw_calls = 0\<rparr>))
       (validate_program source)"

section \<open>What is shown of a return value\<close>

definition label_state_summary :: "label_state \<Rightarrow> string list \<times> string list" where
  "label_state_summary l =
     (sort (map (\<lambda>t. ct_category t @ '':'' @ tier_value (ct_tier t)) (ls_a l)),
      sort (map (\<lambda>t. provenance_value (pt_level t)) (ls_b l)))"

record return_payload =
  rp_label_state :: label_state
  rp_labels :: "string list \<times> string list"
  rp_redacted :: bool
  rp_raw :: pv
  rp_summary :: "string option"

definition return_value_payload :: "pv \<Rightarrow> return_payload" where
  "return_value_payload v =
     (let l = lab_state v; labeled = \<not> no_labels l
      in \<lparr>rp_label_state = l, rp_labels = label_state_summary l, rp_redacted = labeled,
          rp_raw = (if labeled then PNone else lab_raw v),
          rp_summary = (if labeled then Some ''program returned a labeled value; raw value withheld''
                        else None)\<rparr>)"

fun join_commas :: "string list \<Rightarrow> string" where
  "join_commas [] = []"
| "join_commas [s] = s"
| "join_commas (s # t # ss) = s @ '','' @ join_commas (t # ss)"

definition or_dash :: "string list \<Rightarrow> string" where
  "or_dash ss = (if join_commas ss = [] then ''-'' else join_commas ss)"

definition format_return_value_for_planner :: "(pv \<Rightarrow> string) \<Rightarrow> pv \<Rightarrow> string" where
  "format_return_value_for_planner repr v =
     (let p = return_value_payload v
      in if \<not> rp_redacted p then ''[program returned: '' @ repr (rp_raw p) @ '']''
         else ''[program returned a labeled value: raw value withheld (axis_a=''
              @ or_dash (fst (rp_labels p)) @ ''; axis_b='' @ or_dash (snd (rp_labels p)) @ '')]'')"

end
