(* ===== verification/ProgramLemmas.thy ===== *)
theory ProgramLemmas
  imports ProgramRunner
begin

text \<open>
  A proof rule for programs: what every tool call keeps of the interpreter's state, every program
  keeps, whichever way it ends. The interpreter only calls its tool caller, so the rule is a locale
  over that one operation; it is interpreted for the order of refusals and for what a real run does
  to the client.
\<close>

section \<open>How an evaluation may end\<close>

definition ends ::
  "('w prog_state \<Rightarrow> bool) \<Rightarrow> ('w prog_state \<Rightarrow> policy_error \<Rightarrow> bool) \<Rightarrow> ('w, 'a) outcome \<Rightarrow> bool" where
  "ends I P oc \<longleftrightarrow> (case oc of (st, Inl (X_Policy p)) \<Rightarrow> P st p | (st, _) \<Rightarrow> I st)"

lemma ends_Inr [simp]: "ends I P (st, Inr a) = I st"
  by (simp add: ends_def)

lemma ends_Inl: "ends I P (st, Inl x) = (case x of X_Policy p \<Rightarrow> P st p | _ \<Rightarrow> I st)"
  by (simp add: ends_def split: signal.split)

lemma ends_other [simp]:
  "ends I P (st, Inl (X_Return v)) = I st" "ends I P (st, Inl X_Break) = I st"
  "ends I P (st, Inl X_Continue) = I st" "ends I P (st, Inl (X_Runtime s)) = I st"
  "ends I P (st, Inl (X_Python s)) = I st" "ends I P (st, Inl (X_Policy p)) = P st p"
  by (simp_all add: ends_def)

lemma ends_bind:
  assumes "ends I P m" and "\<And>st a. I st \<Longrightarrow> m = (st, Inr a) \<Longrightarrow> ends I P (f st a)"
  shows "ends I P (bind_x m f)"
  using assms by (cases m) (auto simp: bind_x_def ends_Inl split: sum.split)

text \<open>Everything but a tool call ends in no policy error.\<close>

definition quiet :: "signal + 'a \<Rightarrow> bool" where
  "quiet r \<longleftrightarrow> (case r of Inl (X_Policy _) \<Rightarrow> False | _ \<Rightarrow> True)"

lemma ends_quiet: "quiet r \<Longrightarrow> I st \<Longrightarrow> ends I P (st, r)"
  by (cases r) (auto simp: quiet_def ends_Inl split: signal.splits)

lemma quiet_simps [simp]:
  "quiet (Inr a)" "quiet (Inl (X_Return v))" "quiet (Inl (X_Runtime s))" "quiet (Inl (X_Python s))"
  "quiet (map_sum X_Python f r)"
  by (auto simp: quiet_def map_sum_def split: sum.splits)

lemma ends_quiet_Inl: "r = Inl x \<Longrightarrow> quiet r \<Longrightarrow> I st \<Longrightarrow> ends I P (st, Inl x)"
  by (auto simp: quiet_def ends_Inl split: signal.splits)

lemma quiet_ops [simp]:
  "quiet (name_value env scope x)" "quiet (apply_binop env bop a b)" "quiet (set_value env vs)"
  "quiet (call_builtin env name ps kws)" "quiet (subscript env c i)" "quiet (eval_sync env scope e)"
  by (simp_all add: name_value_def apply_binop_def set_value_def call_builtin_def subscript_def Let_def
      eval_sync_def
      split: option.split sum.split expr.split)

section \<open>What every tool call keeps, every program keeps\<close>

locale program_invariant =
  fixes env :: "'w prog_env"
    and I :: "'w prog_state \<Rightarrow> bool"
    and P :: "'w prog_state \<Rightarrow> policy_error \<Rightarrow> bool"
  assumes tool: "I st \<Longrightarrow> ends I P (dispatch_tool env ps kws st)"
    and scope: "I st \<Longrightarrow> I (st\<lparr>ps_scope := s\<rparr>)"
begin

lemma ends_if: "(c \<Longrightarrow> ends I P m) \<Longrightarrow> (\<not> c \<Longrightarrow> ends I P n) \<Longrightarrow> ends I P (if c then m else n)"
  by simp

lemma eval_keeps_env:
  "e' = env \<Longrightarrow> I st \<Longrightarrow> ends I P (eval e' e st)"
  "e' = env \<Longrightarrow> I st \<Longrightarrow> ends I P (eval_list e' es st)"
  "e' = env \<Longrightarrow> I st \<Longrightarrow> ends I P (eval_kws e' kws st)"
  "e' = env \<Longrightarrow> I st \<Longrightarrow> ends I P (eval_entries e' kvs entries labels st)"
  "e' = env \<Longrightarrow> I st \<Longrightarrow> ends I P (eval_bool e' is_and bs results st)"
  "e' = env \<Longrightarrow> I st \<Longrightarrow> ends I P (eval_cmp e' cur clabels ops st)"
proof (induction e' e st and e' es st and e' kws st and e' kvs entries labels st
    and e' is_and bs results st and e' cur clabels ops st
    rule: eval_eval_list_eval_kws_eval_entries_eval_bool_eval_cmp.induct)
  case (13 e' f args kws st)
  then show ?case by (cases f) (auto intro!: ends_bind ends_quiet tool)
qed (auto intro!: ends_bind ends_quiet simp: Let_def split: option.split sum.split bool.split)

lemmas eval_keeps = eval_keeps_env(1) [OF refl]

lemma set_scope_keeps: "I st \<Longrightarrow> I (set_scope x v st)"
  by (simp add: set_scope_def scope)

lemma store_subscript_keeps: "I st \<Longrightarrow> ends I P (store_subscript env c i v st)"
  using quiet_ops(6) [of env "ps_scope st" i]
  by (auto simp: store_subscript_def Let_def set_scope_keeps quiet_def ends_Inl
      split: expr.split option.split sum.split pv.split signal.splits)

lemma assign_keeps_env:
  "e' = env \<Longrightarrow> I st \<Longrightarrow> ends I P (assign e' t v st)"
  "e' = env \<Longrightarrow> I st \<Longrightarrow> ends I P (assign_list e' ts vs labels st)"
  by (induction e' t v st and e' ts vs labels st rule: assign_assign_list.induct)
    (auto intro!: ends_bind simp: set_scope_keeps store_subscript_keeps split: pv.split)

lemmas assign_keeps = assign_keeps_env(1) [OF refl]

lemma assign_all_keeps: "I st \<Longrightarrow> ends I P (assign_all env ts v st)"
  by (induction ts arbitrary: st) (auto intro!: ends_bind assign_keeps)

lemma exec_keeps_env:
  "e' = env \<Longrightarrow> I st \<Longrightarrow> ends I P (exec e' s st)"
  "e' = env \<Longrightarrow> I st \<Longrightarrow> ends I P (exec_block e' ss st)"
  "e' = env \<Longrightarrow> I st \<Longrightarrow> ends I P (exec_loop e' t body labels items st)"
proof (induction e' s st and e' ss st and e' t body labels items st
    rule: exec_exec_block_exec_loop.induct)
  case (7 e' t bop e st)
  then show ?case
    by (auto intro!: ends_bind eval_keeps assign_keeps intro: ends_quiet_Inl [OF _ quiet_ops(2)]
        split: sum.split)
next
  case (14 e' t body labels item items st)
  show ?case
  proof (simp, intro ends_bind)
    show "ends I P (assign e' t (lv item labels) st)" using 14 assign_keeps by simp
    fix st' u
    assume st': "I st'" "assign e' t (lv item labels) st = (st', Inr u)"
    obtain st2 r where b: "exec_block e' body st' = (st2, r)" by fastforce
    have e: "ends I P (st2, r)" using 14(1) [OF st'(2)] b st' 14 by simp
    show "ends I P (case exec_block e' body st' of
         (st, Inr _) \<Rightarrow> exec_loop e' t body labels items st
       | (st, Inl X_Continue) \<Rightarrow> exec_loop e' t body labels items st
       | (st, Inl X_Break) \<Rightarrow> (st, Inr True)
       | (st, Inl x) \<Rightarrow> (st, Inl x))"
      using 14 st' b e by (auto split: sum.split signal.split)
  qed
qed (auto intro!: ends_bind eval_keeps assign_keeps assign_all_keeps ends_quiet
    split: option.split sum.split)

lemmas exec_keeps = exec_keeps_env(2) [OF refl]

text \<open>A whole program, from any world whose initial state has the invariant.\<close>

lemma run_program_keeps:
  assumes "I \<lparr>ps_scope = sc, ps_calls = [], ps_world = w\<rparr>"
    and "run_program env body sc w = (w', res)"
  shows "\<exists>st. ps_world st = w'
     \<and> (case res of
          Inr r \<Rightarrow> ps_calls st = er_tool_calls r
            \<and> (case er_error r of None \<Rightarrow> I st | Some p \<Rightarrow> P st p)
        | Inl _ \<Rightarrow> I st)"
proof -
  obtain st r where e: "exec_block env body \<lparr>ps_scope = sc, ps_calls = [], ps_world = w\<rparr> = (st, r)"
    by fastforce
  have "ends I P (st, r)" using exec_keeps [OF assms(1), of body] e by simp
  then show ?thesis using assms(2) e
    by (intro exI [of _ st]) (auto simp: run_program_def Let_def split: sum.splits signal.splits)
qed

end

end
