(* ===== verification/ProgramFlow.thy ===== *)
theory ProgramFlow
  imports ProgramLemmas
begin

text \<open>
  Information flow through the interpreter, for one provenance level: what a labelled value may
  influence. Expressions and straight-line programs reveal nothing of a labelled value but in values
  labelled in turn; the theorems at the end show where statements do.
\<close>

section \<open>Marked values\<close>

definition marked :: "provenance_level \<Rightarrow> pv \<Rightarrow> bool" where
  "marked L v \<longleftrightarrow> L \<in> levels (lab_state v)"

text \<open>The two values are the same, or both carry the level.\<close>

definition low_eq :: "provenance_level \<Rightarrow> pv \<Rightarrow> pv \<Rightarrow> bool" where
  "low_eq L v w \<longleftrightarrow> v = w \<or> (marked L v \<and> marked L w)"

lemma low_eq_refl [simp]: "low_eq L v v"
  by (simp add: low_eq_def)

lemma levels_empty [simp]: "levels empty_state = {}"
  by (simp add: levels_def empty_state_def)

lemma levels_join_states [simp]: "levels (join_states ls) = \<Union> (levels ` set ls)"
  by (simp add: join_states_def levels_mri)

lemma marked_tags: "marked L v \<Longrightarrow> L \<in> levels (tags_of v)"
  by (cases v) (simp_all add: marked_def lab_state_def levels_mri)

lemma levels_union_tags: "levels (union_tags vs) = (\<Union>v \<in> set vs. levels (tags_of v))"
  by (simp add: union_tags_def)

lemma marked_union: "v \<in> set vs \<Longrightarrow> marked L v \<Longrightarrow> L \<in> levels (union_tags vs)"
  using marked_tags by (auto simp: levels_union_tags)

lemma same_labels_levels: "same_labels l m \<Longrightarrow> levels l = levels m"
  by (simp add: same_labels_def levels_def)

lemma marked_with_tags: "marked L (with_tags v l) \<longleftrightarrow> marked L v \<or> L \<in> levels l"
proof -
  let ?c = "most_restrictive_inherit [lab_state v, l]"
  have c: "levels ?c = levels (lab_state v) \<union> levels l" by (simp add: levels_mri)
  show ?thesis
  proof (cases "same_labels ?c (lab_state v)")
    case True
    then show ?thesis using c same_labels_levels [OF True] by (simp add: with_tags_def marked_def) blast
  next
    case False
    then show ?thesis using c by (simp add: with_tags_def marked_def lab_state_def [of "Lab _ _"])
  qed
qed

lemma marked_lv: "L \<in> levels l \<Longrightarrow> marked L (lv v l)"
  by (cases v) (simp_all add: lv_def marked_with_tags, simp_all add: marked_def lab_state_def)

lemma low_eq_with_tags: "low_eq L v w \<Longrightarrow> low_eq L (with_tags v l) (with_tags w l)"
  by (auto simp: low_eq_def marked_with_tags)

text \<open>Two accumulators: the same with the same labels, or both labelled.\<close>

definition low_acc :: "provenance_level \<Rightarrow> 'a \<times> label_state \<Rightarrow> 'a \<times> label_state \<Rightarrow> bool" where
  "low_acc L x y \<longleftrightarrow> x = y \<or> (L \<in> levels (snd x) \<and> L \<in> levels (snd y))"

definition low_scope :: "provenance_level \<Rightarrow> (string \<times> pv) list \<Rightarrow> (string \<times> pv) list \<Rightarrow> bool" where
  "low_scope L = list_all2 (\<lambda>(x, v) (y, w). x = y \<and> low_eq L v w)"

lemma low_scope_lookup:
  "low_scope L s t \<Longrightarrow> rel_option (low_eq L) (map_of s x) (map_of t x)"
  unfolding low_scope_def by (induction rule: list_all2_induct) auto

lemma low_scope_update:
  "low_scope L s t \<Longrightarrow> low_eq L v w \<Longrightarrow> low_scope L (AList.update x v s) (AList.update x w t)"
  unfolding low_scope_def by (induction rule: list_all2_induct) auto

section \<open>Expressions that call no tool\<close>

fun call_free :: "expr \<Rightarrow> bool" where
  "call_free (E_Const _) = True"
| "call_free (E_Name _) = True"
| "call_free (E_BinOp l _ r) = (call_free l \<and> call_free r)"
| "call_free (E_BoolOp _ es) = list_all call_free es"
| "call_free (E_Compare l ops) = (call_free l \<and> list_all (\<lambda>(_, e). call_free e) ops)"
| "call_free (E_UnaryOp _ e) = call_free e"
| "call_free (E_IfExp t b e) = (call_free t \<and> call_free b \<and> call_free e)"
| "call_free (E_Tuple es) = list_all call_free es"
| "call_free (E_List es) = list_all call_free es"
| "call_free (E_Set es) = list_all call_free es"
| "call_free (E_Dict kvs) = list_all (\<lambda>(k, v). pred_option call_free k \<and> call_free v) kvs"
| "call_free (E_Subscript c i) = (call_free c \<and> call_free i)"
| "call_free (E_Call f args kws) =
     (f \<noteq> E_Name ''call'' \<and> list_all call_free args \<and> list_all (\<lambda>(_, e). call_free e) kws)"
| "call_free (E_Attribute _ _) = True"
| "call_free (E_Slice _) = True"
| "call_free (E_Starred _) = True"
| "call_free (E_Other _) = True"

lemmas eval_induct = eval_eval_list_eval_kws_eval_entries_eval_bool_eval_cmp.induct

lemma bind_x_Inr:
  "bind_x m f = (st, Inr b) \<longleftrightarrow> (\<exists>st' a. m = (st', Inr a) \<and> f st' a = (st, Inr b))"
  by (auto simp: bind_x_def split: prod.split sum.split)

lemma bind_x_fst: "fst m = st \<Longrightarrow> (\<And>a. m = (st, Inr a) \<Longrightarrow> fst (f st a) = st) \<Longrightarrow> fst (bind_x m f) = st"
  by (auto simp: bind_x_def split: prod.split sum.split)

lemma call_free_state:
  "call_free e \<Longrightarrow> fst (eval env e st) = st"
  "list_all call_free es \<Longrightarrow> fst (eval_list env es st) = st"
  "list_all (\<lambda>(_, e). call_free e) kws \<Longrightarrow> fst (eval_kws env kws st) = st"
  "list_all (\<lambda>(k, v). pred_option call_free k \<and> call_free v) kvs
     \<Longrightarrow> fst (eval_entries env kvs entries labels st) = st"
  "list_all call_free bs \<Longrightarrow> fst (eval_bool env is_and bs results st) = st"
  "list_all (\<lambda>(_, e). call_free e) ops \<Longrightarrow> fst (eval_cmp env cur clabels ops st) = st"
proof (induction env e st and env es st and env kws st and env kvs entries labels st
    and env is_and bs results st and env cur clabels ops st rule: eval_induct)
  case (13 env f args kws st)
  then show ?case by (cases f) (auto intro!: bind_x_fst)
qed (auto intro!: bind_x_fst simp: Let_def split: option.split sum.split bool.split)

text \<open>Labels only accumulate.\<close>

lemma entries_accumulate:
  "eval_entries env kvs entries labels st = (st', Inr v) \<Longrightarrow> L \<in> levels labels \<Longrightarrow> marked L v"
proof (induction kvs arbitrary: entries labels st)
  case (Cons kv kvs)
  then show ?case
    by (cases kv) (fastforce simp: bind_x_Inr levels_mri split: option.splits if_splits)
qed (auto intro: marked_lv)

lemma bool_accumulates:
  "eval_bool env is_and es results st = (st', Inr v) \<Longrightarrow> L \<in> levels (union_tags results) \<Longrightarrow> marked L v"
proof (induction es arbitrary: results st)
  case Nil
  then show ?case by (auto simp: marked_with_tags split: if_splits)
next
  case (Cons e es)
  from Cons.prems(1) obtain st1 r where "eval env e st = (st1, Inr r)"
    and r: "(if holds env r = is_and then eval_bool env is_and es (results @ [r]) st1
       else (st1, Inr (lv (raw_of env r) (union_tags (results @ [r]))))) = (st', Inr v)"
    by (auto simp: bind_x_Inr)
  have m: "L \<in> levels (union_tags (results @ [r]))" using Cons.prems(2) by (auto simp: levels_union_tags)
  show ?case
  proof (cases "holds env r = is_and")
    case True
    then show ?thesis using r Cons.IH m by simp
  next
    case False
    then show ?thesis using r marked_lv [OF m] by auto
  qed
qed

lemma cmp_accumulates:
  "eval_cmp env cur labels ops st = (st', Inr v) \<Longrightarrow> L \<in> levels labels \<Longrightarrow> marked L v"
proof (induction ops arbitrary: cur labels st)
  case (Cons op ops)
  obtain cop e where op: "op = (cop, e)" by fastforce
  from Cons.prems(1) obtain st1 r where "eval env e st = (st1, Inr r)"
    and r: "(case py_compare (pe_ops env) cop cur (raw_of env r) of
            Inl x \<Rightarrow> (st1, Inl (X_Python x))
          | Inr True \<Rightarrow> eval_cmp env (raw_of env r) (most_restrictive_inherit [labels, tags_of r]) ops st1
          | Inr False \<Rightarrow> (st1, Inr (lv (PBool False) (most_restrictive_inherit [labels, tags_of r]))))
        = (st', Inr v)"
    by (auto simp: bind_x_Inr op Let_def)
  have m: "L \<in> levels (most_restrictive_inherit [labels, tags_of r])"
    using Cons.prems(2) by (simp add: levels_mri)
  show ?case using r Cons.IH [OF _ m] marked_lv [OF m] by (auto split: sum.splits bool.splits)
qed (auto intro: marked_lv)

section \<open>Two runs\<close>

text \<open>When both runs produce a value, their scopes and values are related.\<close>

definition low_out ::
  "provenance_level \<Rightarrow> ('a \<Rightarrow> 'a \<Rightarrow> bool) \<Rightarrow> ('w, 'a) outcome \<Rightarrow> ('w, 'a) outcome \<Rightarrow> bool" where
  "low_out L R m n \<longleftrightarrow>
     (\<forall>s v t w. m = (s, Inr v) \<longrightarrow> n = (t, Inr w) \<longrightarrow> low_scope L (ps_scope s) (ps_scope t) \<and> R v w)"

lemma low_out_bind:
  assumes "low_out L R m n"
    and "\<And>s v t w. low_scope L (ps_scope s) (ps_scope t) \<Longrightarrow> R v w \<Longrightarrow> m = (s, Inr v) \<Longrightarrow> n = (t, Inr w)
      \<Longrightarrow> low_out L Q (f s v) (g t w)"
  shows "low_out L Q (bind_x m f) (bind_x n g)"
  unfolding low_out_def
proof (intro allI impI)
  fix s v t w
  assume 1: "bind_x m f = (s, Inr v)" and 2: "bind_x n g = (t, Inr w)"
  from 1 obtain s1 a where a: "m = (s1, Inr a)" "f s1 a = (s, Inr v)" by (auto simp: bind_x_Inr)
  from 2 obtain t1 b where b: "n = (t1, Inr b)" "g t1 b = (t, Inr w)" by (auto simp: bind_x_Inr)
  have "low_scope L (ps_scope s1) (ps_scope t1)" "R a b"
    using assms(1) a(1) b(1) by (simp_all add: low_out_def)
  from assms(2) [OF this a(1) b(1)] a(2) b(2)
  show "low_scope L (ps_scope s) (ps_scope t) \<and> Q v w" by (simp add: low_out_def)
qed

lemma low_out_pure:
  assumes "low_scope L (ps_scope s) (ps_scope t)" and "\<And>v w. p = Inr v \<Longrightarrow> q = Inr w \<Longrightarrow> R v w"
  shows "low_out L R (s, p) (t, q)"
  using assms by (simp add: low_out_def)

lemma low_out_error [simp]: "low_out L R (s, Inl x) n" "low_out L R m (t, Inl x)"
  by (simp_all add: low_out_def)

lemma low_out_marked:
  assumes "low_scope L (ps_scope s) (ps_scope t)" and "fst m = s" and "fst n = t"
    and "\<And>v. snd m = Inr v \<Longrightarrow> marked L v" and "\<And>v. snd n = Inr v \<Longrightarrow> marked L v"
  shows "low_out L (low_eq L) m n"
  using assms by (auto simp: low_out_def low_eq_def)

text \<open>Lists and keyword arguments of related values.\<close>

lemma low_lists:
  assumes "list_all2 (low_eq L) vs ws"
  shows "vs = ws \<or> (L \<in> levels (union_tags vs) \<and> L \<in> levels (union_tags ws))"
  using assms
proof (induction rule: list_all2_induct)
  case (Cons v vs w ws)
  then show ?case
    using marked_tags [of L v] marked_tags [of L w]
    by (auto simp: low_eq_def levels_union_tags)
qed simp

lemma low_scope_snd: "low_scope L s t \<Longrightarrow> map fst s = map fst t \<and> list_all2 (low_eq L) (map snd s) (map snd t)"
  unfolding low_scope_def by (induction rule: list_all2_induct) auto

lemma zip_eqI: "map fst s = map fst t \<Longrightarrow> map snd s = map snd t \<Longrightarrow> s = t"
  by (metis zip_map_fst_snd)

lemma low_lists_result:
  assumes "list_all2 (low_eq L) vs ws"
    and "vs = ws \<Longrightarrow> v = w"
    and "\<exists>x. v = lv x (union_tags vs)" and "\<exists>x. w = lv x (union_tags ws)"
  shows "low_eq L v w"
  using low_lists [OF assms(1)] assms(2-) marked_lv by (auto simp: low_eq_def)

lemma low_binop:
  assumes "low_eq L a a'" and "low_eq L b b'"
    and "apply_binop env bop a b = Inr v" and "apply_binop env bop a' b' = Inr w"
  shows "low_eq L v w"
proof (rule low_lists_result [of L "[a, b]" "[a', b']"])
  show "v = w" if "[a, b] = [a', b']" using assms(3,4) that by simp
qed (use assms in \<open>auto simp: apply_binop_def map_sum_def split: if_splits sum.splits\<close>)

lemma low_builtin:
  assumes "list_all2 (low_eq L) ps qs" and "low_scope L kws kxs"
    and "call_builtin env name ps kws = Inr v" and "call_builtin env name qs kxs = Inr w"
  shows "low_eq L v w"
proof (rule low_lists_result)
  show "list_all2 (low_eq L) (ps @ map snd kws) (qs @ map snd kxs)"
    using assms(1) low_scope_snd [OF assms(2)] by (simp add: list_all2_appendI)
  show "v = w" if "ps @ map snd kws = qs @ map snd kxs"
  proof -
    have "ps = qs" "map snd kws = map snd kxs" using that assms(1) by (auto dest: list_all2_lengthD)
    then have "kws = kxs" using zip_eqI low_scope_snd [OF assms(2)] by blast
    then show ?thesis using \<open>ps = qs\<close> assms(3,4) by simp
  qed
qed (use assms(3,4) in \<open>auto simp: call_builtin_def split: option.splits sum.splits\<close>)

lemma low_subscript:
  assumes "low_eq L a a'" and "low_eq L b b'"
    and "subscript env a b = Inr v" and "subscript env a' b' = Inr w"
  shows "low_eq L v w"
proof (cases "a = a' \<and> b = b'")
  case True
  then show ?thesis using assms(3,4) by simp
next
  case False
  then have "(marked L a \<and> marked L a') \<or> (marked L b \<and> marked L b')" using assms(1,2) by (auto simp: low_eq_def)
  then have "L \<in> levels (most_restrictive_inherit [tags_of a, tags_of b])"
    "L \<in> levels (most_restrictive_inherit [tags_of a', tags_of b'])"
    using marked_tags by (auto simp: levels_mri)
  then show ?thesis using assms(3,4) marked_lv
    by (auto simp: subscript_def low_eq_def split: option.splits)
qed

lemma low_set_value:
  assumes "list_all2 (low_eq L) vs ws" and "set_value env vs = Inr v" and "set_value env ws = Inr w"
  shows "low_eq L v w"
  using assms(2,3)
  by (intro low_lists_result [OF assms(1)]) (auto simp: set_value_def Let_def split: if_splits)

lemma low_unop:
  assumes "low_eq L a a'"
    and "map_sum X_Python (\<lambda>v. lv v (tags_of a)) (py_unop po uop (unwrap po a)) = Inr v"
    and "map_sum X_Python (\<lambda>v. lv v (tags_of a')) (py_unop po uop (unwrap po a')) = Inr w"
  shows "low_eq L v w"
  using assms marked_lv marked_tags
  by (auto simp: low_eq_def map_sum_def split: sum.splits)

lemma low_name_value:
  assumes "low_scope L s t" and "name_value env s x = Inr v" and "name_value env t x = Inr w"
  shows "low_eq L v w"
  using low_scope_lookup [OF assms(1), of x] assms(2,3)
  by (auto simp: name_value_def split: option.splits if_splits)

lemmas bind_value = low_out_bind [where R = "low_eq L" and L = L for L]
  and bind_values = low_out_bind [where R = "list_all2 (low_eq L)" and L = L for L]
  and bind_kws = low_out_bind [where R = "low_scope L" and L = L for L]

lemma low_cond:
  assumes "low_eq L c c'" and "low_scope L (ps_scope s) (ps_scope t)"
    and "call_free b" and "call_free e"
    and "c = c' \<Longrightarrow> low_out L (low_eq L) (if holds env c then eval env b s else eval env e s)
           (if holds env c' then eval env b t else eval env e t)"
  shows "low_out L (low_eq L)
    (bind_x (if holds env c then eval env b s else eval env e s) (\<lambda>st v. (st, Inr (with_tags v (tags_of c)))))
    (bind_x (if holds env c' then eval env b t else eval env e t) (\<lambda>st v. (st, Inr (with_tags v (tags_of c')))))"
proof (cases "c = c'")
  case True
  then show ?thesis using assms(5) by (auto intro!: low_out_bind low_out_pure intro: low_eq_with_tags)
next
  case False
  then have m: "L \<in> levels (tags_of c)" "L \<in> levels (tags_of c')"
    using assms(1) marked_tags by (auto simp: low_eq_def)
  show ?thesis
    by (rule low_out_marked [OF assms(2)])
      (auto simp: bind_x_def marked_with_tags m call_free_state(1) [OF assms(3)]
        call_free_state(1) [OF assms(4)] split: prod.splits sum.splits
        dest!: arg_cong [of _ _ fst])
qed

text \<open>Once the accumulated labels carry the level in both runs, the rest does not matter.\<close>

lemma low_entries_marked:
  assumes "low_scope L (ps_scope s) (ps_scope t)"
    and "list_all (\<lambda>(k, v). pred_option call_free k \<and> call_free v) kvs"
    and "L \<in> levels l" and "L \<in> levels l'"
  shows "low_out L (low_eq L) (if c then eval_entries env kvs en l s else (s, Inl x))
     (if c' then eval_entries env kvs en' l' t else (t, Inl x'))"
  by (rule low_out_marked [OF assms(1)])
    (auto simp: call_free_state(4) [OF assms(2)] split: if_splits
      intro: entries_accumulate [OF prod_eqI] assms(3,4))

lemma low_bool_marked:
  assumes "low_scope L (ps_scope s) (ps_scope t)" and "list_all call_free es"
    and "L \<in> levels (union_tags rs)" and "L \<in> levels (union_tags rs')"
  shows "low_out L (low_eq L)
     (if c then eval_bool env is_and es rs s else (s, Inr (lv v (union_tags rs))))
     (if c' then eval_bool env is_and es rs' t else (t, Inr (lv v' (union_tags rs'))))"
  by (rule low_out_marked [OF assms(1)])
    (auto simp: call_free_state(5) [OF assms(2)] split: if_splits
      intro: bool_accumulates [OF prod_eqI] marked_lv assms(3,4))

definition cmp_rest ::
  "'w prog_env \<Rightarrow> pv \<Rightarrow> label_state \<Rightarrow> (cmpop \<times> expr) list \<Rightarrow> string + bool \<Rightarrow> 'w prog_state
   \<Rightarrow> ('w, pv) outcome" where
  "cmp_rest env r l ops step st =
     (case step of
        Inl x \<Rightarrow> (st, Inl (X_Python x))
      | Inr True \<Rightarrow> eval_cmp env (raw_of env r) l ops st
      | Inr False \<Rightarrow> (st, Inr (lv (PBool False) l)))"

lemma low_cmp_marked:
  assumes "low_scope L (ps_scope s) (ps_scope t)" and "list_all (\<lambda>(_, e). call_free e) ops"
    and "L \<in> levels l" and "L \<in> levels l'"
  shows "low_out L (low_eq L) (cmp_rest env r l ops step s) (cmp_rest env r' l' ops step' t)"
  by (rule low_out_marked [OF assms(1)])
    (auto simp: cmp_rest_def call_free_state(6) [OF assms(2)] split: sum.splits bool.splits
      intro: cmp_accumulates [OF prod_eqI] marked_lv assms(3,4))

lemma low_eval:
  "call_free e \<Longrightarrow> low_scope L (ps_scope st) (ps_scope t)
     \<Longrightarrow> low_out L (low_eq L) (eval env e st) (eval env e t)"
  "list_all call_free es \<Longrightarrow> low_scope L (ps_scope st) (ps_scope t)
     \<Longrightarrow> low_out L (list_all2 (low_eq L)) (eval_list env es st) (eval_list env es t)"
  "list_all (\<lambda>(_, e). call_free e) kws \<Longrightarrow> low_scope L (ps_scope st) (ps_scope t)
     \<Longrightarrow> low_out L (low_scope L) (eval_kws env kws st) (eval_kws env kws t)"
  "list_all (\<lambda>(k, v). pred_option call_free k \<and> call_free v) kvs
     \<Longrightarrow> low_scope L (ps_scope st) (ps_scope t) \<Longrightarrow> low_acc L (entries, labels) acc
     \<Longrightarrow> low_out L (low_eq L) (eval_entries env kvs entries labels st)
           (eval_entries env kvs (fst acc) (snd acc) t)"
  "list_all call_free bs \<Longrightarrow> low_scope L (ps_scope st) (ps_scope t)
     \<Longrightarrow> low_acc L (results, union_tags results) (results', union_tags results')
     \<Longrightarrow> low_out L (low_eq L) (eval_bool env is_and bs results st) (eval_bool env is_and bs results' t)"
  "list_all (\<lambda>(_, e). call_free e) ops \<Longrightarrow> low_scope L (ps_scope st) (ps_scope t)
     \<Longrightarrow> low_acc L (cur, clabels) cacc
     \<Longrightarrow> low_out L (low_eq L) (eval_cmp env cur clabels ops st)
           (eval_cmp env (fst cacc) (snd cacc) ops t)"
proof (induction env e st and env es st and env kws st and env kvs entries labels st
    and env is_and bs results st and env cur clabels ops st
    arbitrary: t and t and t and t acc and t results' and t cacc rule: eval_induct)
  case (1 env c st)
  then show ?case by (auto intro: low_out_pure)
next
  case (2 env x st)
  then show ?case by (auto intro!: low_out_pure intro: low_name_value)
next
  case (3 env l bop r st)
  then show ?case by (auto intro!: low_out_bind low_out_pure intro: low_binop)
next
  case (4 env is_and es st)
  then show ?case by (simp add: low_acc_def)
next
  case (5 env l ops st)
  show ?case
  proof (simp, rule bind_value, goal_cases first then_)
    case first
    then show ?case using 5 by simp
  next
    case (then_ s v t1 w)
    have acc: "low_acc L (raw_of env v, tags_of v) (raw_of env w, tags_of w)"
      using then_(2) marked_tags by (auto simp: low_eq_def low_acc_def)
    have ops: "list_all (\<lambda>(_, e). call_free e) ops" using 5(3) by simp
    show ?case using 5(2) [OF then_(3) ops then_(1) acc] by simp
  qed
next
  case (6 env uop e st)
  then show ?case by (auto intro!: low_out_bind low_out_pure intro: low_unop simp: raw_of_def)
next
  case (7 env c b e st)
  show ?case
  proof (simp, rule bind_value, goal_cases cond branches)
    case cond
    then show ?case using 7 by simp
  next
    case (branches s v t1 w)
    have free: "call_free b" "call_free e" using 7(4) by simp_all
    show ?case
    proof (rule low_cond [OF branches(2,1) free])
      assume "v = w"
      then show "low_out L (low_eq L) (if holds env v then eval env b s else eval env e s)
          (if holds env w then eval env b t1 else eval env e t1)"
        using 7(2) [OF branches(3) _ free(1) branches(1)] 7(3) [OF branches(3) _ free(2) branches(1)]
        by simp
    qed
  qed
next
  case (8 env es st)
  then show ?case
    by (auto intro!: low_out_bind low_out_pure intro: low_lists_result)
next
  case (9 env es st)
  then show ?case
    by (auto intro!: low_out_bind low_out_pure intro: low_lists_result)
next
  case (10 env es st)
  then show ?case by (auto intro!: low_out_bind low_out_pure intro: low_set_value)
next
  case (11 env kvs st)
  then show ?case using 11(1) [of t "([], empty_state)"] by (simp add: low_acc_def)
next
  case (12 env c i st)
  then show ?case by (auto intro!: low_out_bind low_out_pure intro: low_subscript)
next
  case (13 env f args kws st)
  show ?case
  proof (cases f)
    case (E_Name name)
    then show ?thesis using 13
      by (auto intro!: bind_values bind_kws low_out_pure intro: low_builtin)
  qed simp_all
next
  case (19 env e es st)
  then show ?case by (auto intro!: low_out_bind low_out_pure)
next
  case (21 env name e kws st)
  then show ?case
    by (auto intro!: low_out_bind low_out_pure simp: low_scope_def split: option.split)
next
  case (22 env entries labels st)
  then show ?case by (auto intro!: low_out_pure simp: low_acc_def low_eq_def marked_lv)
next
  case (24 env is_and results st)
  then show ?case by (auto intro!: low_out_pure simp: low_acc_def low_eq_def marked_with_tags split: if_splits)
next
  case (26 env cur labels st)
  then show ?case by (auto intro!: low_out_pure simp: low_acc_def low_eq_def marked_lv)
next
  case (23 env key e kvs entries labels st)
  show ?case
  proof (cases key)
    case (Some ke)
    have free: "call_free ke" "call_free e"
      "list_all (\<lambda>(k, v). pred_option call_free k \<and> call_free v) kvs"
      using 23(4) Some by simp_all
    show ?thesis
    proof (simp add: Some, rule bind_value, goal_cases key rest)
      case key
      then show ?case using 23(1) [OF Some free(1) 23(5)] .
    next
      case (rest s k t1 k')
      show ?case
      proof (rule bind_value, goal_cases val rest')
        case val
        then show ?case using 23(2) [OF Some rest(3) free(2) rest(1)] .
      next
        case (rest' s1 v t2 v')
        let ?put = "\<lambda>en k v. dict_put (pe_ops env) en (raw_of env k) v"
        let ?l = "\<lambda>l k v. most_restrictive_inherit [l, tags_of k, tags_of v]"
        show ?case
        proof (cases "k = k' \<and> v = v' \<and> acc = (entries, labels)")
          case True
          then show ?thesis
            using 23(3) [OF Some rest(3) rest'(3) _ free(3) rest'(1),
                of "(?put entries k v, ?l labels k v)"]
            by (simp add: low_acc_def)
        next
          case False
          then have "L \<in> levels (?l labels k v)" "L \<in> levels (?l (snd acc) k' v')"
            using rest(2) rest'(2) 23(6) marked_tags [of L]
            by (auto simp: low_acc_def low_eq_def levels_mri)
          then show ?thesis by (rule low_entries_marked [OF rest'(1) free(3)])
        qed
      qed
    qed
  qed simp
next
  case (25 env is_and e es results st)
  have free: "call_free e" "list_all call_free es" using 25(3) by simp_all
  show ?case
  proof (simp, rule bind_value, goal_cases first rest)
    case first
    then show ?case using 25(1) [OF free(1) 25(4)] .
  next
    case (rest s r t1 r')
    show ?case
    proof (cases "r = r' \<and> results = results'")
      case True
      then show ?thesis
        using 25(2) [OF rest(3) _ free(2) rest(1), of "results @ [r]"] rest(1)
        by (auto simp: low_acc_def intro: low_out_pure)
    next
      case False
      then have "L \<in> levels (union_tags (results @ [r]))" "L \<in> levels (union_tags (results' @ [r']))"
        using rest(2) 25(5) marked_tags [of L] by (auto simp: low_acc_def low_eq_def levels_union_tags)
      then show ?thesis by (rule low_bool_marked [OF rest(1) free(2)])
    qed
  qed
next
  case (27 env cur labels cop e ops st)
  have free: "call_free e" "list_all (\<lambda>(_, e). call_free e) ops" using 27(3) by simp_all
  show ?case
  proof (simp add: Let_def cmp_rest_def [symmetric], rule bind_value, goal_cases first rest)
    case first
    then show ?case using 27(1) [OF free(1) 27(4)] .
  next
    case (rest s r t1 r')
    let ?l = "\<lambda>l r. most_restrictive_inherit [l, tags_of r]"
    show ?case
    proof (cases "r = r' \<and> cacc = (cur, labels)")
      case True
      then show ?thesis
        using 27(2) [OF rest(3) refl _ _ free(2) rest(1), of True "(raw_of env r, ?l labels r)"] rest(1)
        by (auto simp: low_acc_def cmp_rest_def intro: low_out_pure split: sum.split bool.split)
    next
      case False
      then have "L \<in> levels (?l labels r)" "L \<in> levels (?l (snd cacc) r')"
        using rest(2) 27(5) marked_tags [of L] by (auto simp: low_acc_def low_eq_def levels_mri)
      then show ?thesis by (rule low_cmp_marked [OF rest(1) free(2)])
    qed
  qed
qed (auto intro!: low_out_pure simp: low_scope_def)

section \<open>Straight-line programs\<close>

text \<open>Expressions without calls end in a value, a run-time error or an exception.\<close>

definition plain :: "signal + 'a \<Rightarrow> bool" where
  "plain r \<longleftrightarrow> (case r of Inl (X_Runtime _) \<Rightarrow> True | Inl (X_Python _) \<Rightarrow> True | Inl _ \<Rightarrow> False | Inr _ \<Rightarrow> True)"

lemma plain_simps [simp]:
  "plain (Inr a)" "plain (Inl (X_Runtime s))" "plain (Inl (X_Python s))"
  "plain (map_sum X_Python f r)"
  by (auto simp: plain_def map_sum_def split: sum.splits)

lemma plain_ops [simp]:
  "plain (name_value env scope x)" "plain (apply_binop env bop a b)" "plain (set_value env vs)"
  "plain (call_builtin env name ps kws)" "plain (subscript env c i)"
  by (simp_all add: name_value_def apply_binop_def set_value_def call_builtin_def subscript_def Let_def
      split: option.split sum.split)

lemma plain_bind:
  assumes "plain (snd m)" and "\<And>st a. m = (st, Inr a) \<Longrightarrow> plain (snd (f st a))"
  shows "plain (snd (bind_x m f))"
  using assms by (cases m) (auto simp: bind_x_def plain_def split: sum.splits signal.splits)

lemma call_free_plain:
  "call_free e \<Longrightarrow> plain (snd (eval env e st))"
  "list_all call_free es \<Longrightarrow> plain (snd (eval_list env es st))"
  "list_all (\<lambda>(_, e). call_free e) kws \<Longrightarrow> plain (snd (eval_kws env kws st))"
  "list_all (\<lambda>(k, v). pred_option call_free k \<and> call_free v) kvs
     \<Longrightarrow> plain (snd (eval_entries env kvs entries labels st))"
  "list_all call_free bs \<Longrightarrow> plain (snd (eval_bool env is_and bs results st))"
  "list_all (\<lambda>(_, e). call_free e) ops \<Longrightarrow> plain (snd (eval_cmp env cur clabels ops st))"
proof (induction env e st and env es st and env kws st and env kvs entries labels st
    and env is_and bs results st and env cur clabels ops st rule: eval_induct)
  case (13 env f args kws st)
  then show ?case by (cases f) (auto intro!: plain_bind)
qed (auto intro!: plain_bind simp: Let_def split: option.split sum.split bool.split)

definition is_name :: "expr \<Rightarrow> bool" where
  "is_name e \<longleftrightarrow> (case e of E_Name _ \<Rightarrow> True | _ \<Rightarrow> False)"

fun straight :: "stmt \<Rightarrow> bool" where
  "straight S_Pass = True"
| "straight (S_Return e) = pred_option call_free e"
| "straight (S_Expr e) = call_free e"
| "straight (S_Assign ts e) = (list_all is_name ts \<and> call_free e)"
| "straight (S_AugAssign t _ e) = (is_name t \<and> call_free e)"
| "straight _ = False"

definition fails :: "signal + 'a \<Rightarrow> bool" where
  "fails r \<longleftrightarrow> (\<exists>x. r = Inl x) \<and> plain r"

text \<open>Two runs: one fails, or both fall through, or both return related values.\<close>

definition low_end :: "provenance_level \<Rightarrow> ('w, unit) outcome \<Rightarrow> ('w, unit) outcome \<Rightarrow> bool" where
  "low_end L m n \<longleftrightarrow>
     fails (snd m) \<or> fails (snd n)
     \<or> (low_scope L (ps_scope (fst m)) (ps_scope (fst n))
        \<and> ((snd m = Inr () \<and> snd n = Inr ())
           \<or> (\<exists>a b. snd m = Inl (X_Return a) \<and> snd n = Inl (X_Return b) \<and> rel_option (low_eq L) a b)))"

lemma fails_bind: "fails (snd m) \<Longrightarrow> fails (snd (bind_x m f))"
  by (cases m) (auto simp: fails_def bind_x_def plain_def split: sum.splits signal.splits)

lemma fails_plain: "plain r \<Longrightarrow> \<not> fails r \<Longrightarrow> \<exists>v. r = Inr v"
  by (cases r) (auto simp: fails_def)

lemma low_end_bind:
  assumes "low_out L R m n" and "plain (snd m)" and "plain (snd n)"
    and "\<And>s v t w. low_scope L (ps_scope s) (ps_scope t) \<Longrightarrow> R v w \<Longrightarrow> low_end L (f s v) (g t w)"
  shows "low_end L (bind_x m f) (bind_x n g)"
proof (cases "fails (snd m) \<or> fails (snd n)")
  case True
  then show ?thesis using fails_bind [of m f] fails_bind [of n g] by (auto simp: low_end_def)
next
  case False
  then obtain v w where "snd m = Inr v" "snd n = Inr w" using fails_plain assms(2,3) by blast
  then obtain s t where "m = (s, Inr v)" "n = (t, Inr w)" by (metis prod.collapse)
  then show ?thesis using assms(1,4) by (simp add: low_out_def bind_x_def)
qed

lemma low_end_seq:
  assumes "low_end L m n"
    and "\<And>s t. low_scope L (ps_scope s) (ps_scope t) \<Longrightarrow> low_end L (f s) (g t)"
  shows "low_end L (bind_x m (\<lambda>st _. f st)) (bind_x n (\<lambda>st _. g st))"
proof (cases "fails (snd m) \<or> fails (snd n)")
  case True
  then show ?thesis
    using fails_bind [of m "\<lambda>st _. f st"] fails_bind [of n "\<lambda>st _. g st"]
    by (auto simp: low_end_def)
next
  case False
  then have low: "low_scope L (ps_scope (fst m)) (ps_scope (fst n))"
    and res: "(snd m = Inr () \<and> snd n = Inr ())
      \<or> (\<exists>a b. snd m = Inl (X_Return a) \<and> snd n = Inl (X_Return b) \<and> rel_option (low_eq L) a b)"
    using assms(1) by (auto simp: low_end_def)
  from res show ?thesis
  proof
    assume "snd m = Inr () \<and> snd n = Inr ()"
    then show ?thesis using assms(2) [OF low] by (simp add: bind_x_def split_def)
  next
    assume "\<exists>a b. snd m = Inl (X_Return a) \<and> snd n = Inl (X_Return b) \<and> rel_option (low_eq L) a b"
    then show ?thesis using low by (auto simp: bind_x_def split_def low_end_def)
  qed
qed

lemma low_end_done:
  "low_scope L (ps_scope s) (ps_scope t) \<Longrightarrow> low_end L (s, Inr ()) (t, Inr ())"
  by (simp add: low_end_def)

lemma low_end_return:
  "low_scope L (ps_scope s) (ps_scope t) \<Longrightarrow> rel_option (low_eq L) a b
     \<Longrightarrow> low_end L (s, Inl (X_Return a)) (t, Inl (X_Return b))"
  by (simp add: low_end_def)

lemma low_wrapped: "low_eq L v w \<Longrightarrow> low_eq L (wrapped v) (wrapped w)"
  by (cases v; cases w) (auto simp: low_eq_def wrapped_def marked_def lab_state_def)

lemma low_assign:
  assumes "is_name x" and "low_scope L (ps_scope s) (ps_scope t)" and "low_eq L v w"
  shows "low_end L (assign env x v s) (assign env x w t)"
  using assms by (cases x) (simp_all add: is_name_def set_scope_def low_end_def low_scope_update)

lemma low_assign_all:
  "list_all is_name xs \<Longrightarrow> low_scope L (ps_scope s) (ps_scope t) \<Longrightarrow> low_eq L v w
     \<Longrightarrow> low_end L (assign_all env xs v s) (assign_all env xs w t)"
  by (induction xs arbitrary: s t) (auto intro!: low_end_seq low_assign low_end_done)

lemma low_exec:
  assumes "straight c" and "low_scope L (ps_scope s) (ps_scope t)"
  shows "low_end L (exec env c s) (exec env c t)"
proof (cases c)
  case (S_Return e)
  then show ?thesis
    using assms low_eval(1) [of _ L s t env] call_free_plain(1)
    by (cases e) (auto intro!: low_end_bind [where R = "low_eq L"] low_end_return simp: low_wrapped)
next
  case (S_Expr e)
  then show ?thesis
    using assms low_eval(1) [of _ L s t env] call_free_plain(1)
    by (auto intro!: low_end_bind [where R = "low_eq L"] low_end_done)
next
  case (S_Assign ts e)
  then show ?thesis
    using assms low_eval(1) [of _ L s t env] call_free_plain(1)
    by (auto intro!: low_end_bind [where R = "low_eq L"] low_assign_all low_wrapped)
next
  case (S_AugAssign x bop e)
  then have x: "is_name x" "call_free x" "call_free e" using assms(1) by (auto simp: is_name_def split: expr.splits)
  have step: "(case p of Inl x \<Rightarrow> (st, Inl x) | Inr new \<Rightarrow> assign env y new st)
      = bind_x (st, p) (\<lambda>st new. assign env y new st)" for p st y
    by (simp add: bind_x_def split: sum.split)
  show ?thesis
    unfolding S_AugAssign exec.simps step
    by (intro low_end_bind [where R = "low_eq L"] low_eval(1) x assms(2) call_free_plain(1))
      (auto intro!: low_end_bind [where R = "low_eq L"] low_out_pure low_assign x(1) intro: low_binop)
qed (use assms in \<open>auto simp: low_end_def\<close>)

lemma low_exec_block:
  "list_all straight ss \<Longrightarrow> low_scope L (ps_scope s) (ps_scope t)
     \<Longrightarrow> low_end L (exec_block env ss s) (exec_block env ss t)"
  by (induction ss arbitrary: s t) (auto intro!: low_end_seq low_end_done low_exec)

end
