(* ===== verification/ProgramProps.thy ===== *)
theory ProgramProps
  imports ProgramFlow CallProps
begin

text \<open>
  What programmatic mode guarantees: a refusal is the last thing a program does, no program can take
  back the taint of its session, and a labelled argument is part of the decision on the call it is
  passed to, whichever handler would have run. Of what a program returns, straight-line code hides
  what is labelled; a branch and a subscript assignment do not.
\<close>

section \<open>Refusals halt\<close>

definition all_allowed :: "'w prog_state \<Rightarrow> bool" where
  "all_allowed st \<longleftrightarrow> (\<forall>cr \<in> set (ps_calls st). cr_decision cr = ALLOW)"

definition refusal_of :: "call_record \<Rightarrow> policy_error" where
  "refusal_of cr = \<lparr>pe_tool_name = cr_tool_name cr, pe_decision = cr_decision cr,
     pe_rule = cr_rule cr, pe_reason = cr_reason cr\<rparr>"

definition halted_by :: "'w prog_state \<Rightarrow> policy_error \<Rightarrow> bool" where
  "halted_by st p \<longleftrightarrow>
     (\<exists>crs cr. ps_calls st = crs @ [cr] \<and> (\<forall>c \<in> set crs. cr_decision c = ALLOW)
        \<and> cr_decision cr \<noteq> ALLOW \<and> p = refusal_of cr)"

interpretation refusals: program_invariant env all_allowed halted_by for env
proof (unfold_locales, goal_cases)
  case (1 st ps kws)
  then show ?case
    by (fastforce simp: dispatch_tool_def Let_def all_allowed_def halted_by_def refusal_of_def ends_Inl
        split: list.split pv.split prod.split sum.split)
qed (simp add: all_allowed_def)

text \<open>
  C8: a program makes calls until one is not allowed and then makes no other: its result names that
  call and has no value, and without a refusal every call made was allowed.
\<close>

theorem refusal_halts_program:
  assumes "run_program env body sc w = (w', Inr r)"
  shows "case er_error r of
       None \<Rightarrow> \<forall>cr \<in> set (er_tool_calls r). cr_decision cr = ALLOW
     | Some p \<Rightarrow> er_return_value r = None
         \<and> (\<exists>crs cr. er_tool_calls r = crs @ [cr] \<and> (\<forall>c \<in> set crs. cr_decision c = ALLOW)
              \<and> cr_decision cr \<noteq> ALLOW \<and> p = refusal_of cr)"
proof -
  have v: "er_return_value r = None" if "er_error r = Some p" for p
    using assms that by (auto simp: run_program_def Let_def split: prod.splits sum.splits signal.splits)
  show ?thesis
    using refusals.run_program_keeps [OF _ assms] v
    by (auto simp: all_allowed_def halted_by_def split: option.split)
qed

section \<open>What a real run does to the client\<close>

definition steps_from :: "tool_client \<Rightarrow> run_env \<Rightarrow> run_world prog_state \<Rightarrow> bool" where
  "steps_from c rv st \<longleftrightarrow> (handler_ok (rv_handler rv) \<longrightarrow> client_to c (rw_client (ps_world st)))"

lemma tagged_client_to: "tagged_client rv en labels c = Inr c' \<Longrightarrow> client_to c c'"
  by (auto simp: tagged_client_def map_sum_def intro!: client_to_graph
      dest: graph_step.taint graph_step_keeps split: if_splits sum.splits)

lemma real_caller_to:
  assumes "handler_ok (rv_handler rv)"
  shows "client_to (rw_client w) (rw_client (fst (real_caller rv w tool_name kws labels)))"
proof -
  let ?en = "rv_call_env rv (rw_calls w)"
  show ?thesis
  proof (cases "registry_get (tc_registry (rw_client w)) tool_name")
    case (Inr tool)
    show ?thesis
    proof (cases "tagged_client rv ?en labels (rw_client w)")
      case tagged: (Inr c)
      obtain c' r where call: "call_tool (rv_handler rv) c (rv_sid rv) tool_name
          (json_args (rv_encode rv) kws) False ''planner'' ?en = (c', r)" by fastforce
      have "client_to c c'" using call_tool_to [OF assms] call by (metis fst_conv)
      then have c': "client_to (rw_client w) c'"
        by (rule client_to_trans [OF tagged_client_to [OF tagged]])
      have "client_to c' (with_graph c' (mode_selected sid tool_name labels (tc_graph c')))" for sid
        by (rule client_to_same) (simp_all add: mode_selected_def)
      then show ?thesis using Inr tagged call c' client_to_trans [OF c']
        by (simp add: real_caller_def Let_def)
    qed (simp add: real_caller_def Inr Let_def)
  qed (simp add: real_caller_def Let_def)
qed

interpretation real_runs: program_invariant "real_program_env po rv" "steps_from c rv"
    "\<lambda>st _. steps_from c rv st" for po rv c
proof (unfold_locales, goal_cases)
  case (1 st ps kws)
  have w: "client_to c (rw_client w)"
    if "handler_ok (rv_handler rv)" "real_caller rv (ps_world st) name args labels = (w, r)"
    for name args labels w r
    using 1 that client_to_trans [OF _ real_caller_to [OF that(1)], of c "ps_world st" name args labels]
    by (simp add: steps_from_def)
  then show ?case using 1
    by (auto simp: dispatch_tool_def real_program_env_def Let_def ends_Inl steps_from_def
        split: list.split pv.split prod.split sum.split)
qed (simp add: steps_from_def)

lemma run_against_session_to:
  assumes "run_program_against_session po rv source sc c = Some (c', res)"
    and "handler_ok (rv_handler rv)"
  shows "client_to c c'"
proof -
  obtain body w where w: "run_program (real_program_env po rv) body sc \<lparr>rw_client = c, rw_calls = 0\<rparr>
      = (w, res)" "c' = rw_client w"
    using assms(1)
    by (cases "validate_program source")
      (simp_all add: run_program_against_session_def prod_eq_iff, metis prod.collapse)
  have "steps_from c rv \<lparr>ps_scope = sc, ps_calls = [], ps_world = \<lparr>rw_client = c, rw_calls = 0\<rparr>\<rparr>"
    by (simp add: steps_from_def)
  from real_runs.run_program_keeps [OF this w(1)] show ?thesis
    using assms(2) w(2) by (cases res) (auto simp: steps_from_def split: option.splits)
qed

text \<open>
  C4: whatever a program does and however it ends, where no ingest inspector is configured and the
  handlers themselves neither lower a session nor configure one, every session of the client only
  evolves: its labels are only raised, so one that held untrusted input when the program started
  holds it afterwards. And while that session is strict, a later call of a tool that can send data
  out is refused hard or raises, unless there is an override grant for the action.
\<close>

theorem program_keeps_taint:
  assumes "run_program_against_session po rv source sc c = Some (c', res)"
    and "handler_ok (rv_handler rv)" and "keyed_sessions (tc_graph c)" and "no_ingest_inspectors c"
    and "graph_get (tc_graph c) sid = Inr s" and "EXTERNAL_UNTRUSTED \<in> levels (s_label_state s)"
  shows "\<exists>t. graph_get (tc_graph c') sid = Inr t \<and> evolves s t
     \<and> EXTERNAL_UNTRUSTED \<in> levels (s_label_state t)
     \<and> (s_enforcement_mode t = STRICT \<longrightarrow>
        (\<forall>tool_name tool args approved recipient en h.
           registry_get (tc_registry c') tool_name = Inr tool
           \<and> kind_in (td_capability_kind tool) (map BuiltIn EGRESS_KINDS)
           \<and> (\<forall>amount. override_gate (call_request c' sid t tool args amount approved en) = None)
           \<longrightarrow> refuses_call (call_tool h c' sid tool_name args approved recipient en)))"
proof -
  have "keeps (tc_graph c) (tc_graph c')"
    using run_against_session_to [OF assms(1,2)] assms(3,4) by (simp add: client_to_def)
  then obtain t where t: "graph_get (tc_graph c') sid = Inr t" "evolves s t"
    using assms(5) by (auto simp: keeps_def graph_get_Inr_iff)
  then have "EXTERNAL_UNTRUSTED \<in> levels (s_label_state t)"
    using assms(6) by (auto simp: evolves_def label_dominates_iff)
  with t show ?thesis using tainted_call_refused [OF t(1)] by blast
qed

section \<open>Labelled arguments\<close>

lemma tagged_session:
  assumes "tagged_client rv en labels c = Inr c'" and "keyed_sessions (tc_graph c)"
    and "graph_get (tc_graph c) (rv_sid rv) = Inr s"
  shows "tc_registry c' = tc_registry c"
    and "\<exists>t. graph_get (tc_graph c') (rv_sid rv) = Inr t \<and> levels labels \<subseteq> levels (s_label_state t)
           \<and> s_enforcement_mode t = s_enforcement_mode s"
proof -
  have sid: "s_id s = rv_sid rv" using assms(2,3) by (auto simp: keyed_sessions_def graph_get_Inr_iff)
  show "tc_registry c' = tc_registry c"
    using assms(1) by (auto simp: tagged_client_def map_sum_def with_graph_def split: if_splits sum.splits)
  show "\<exists>t. graph_get (tc_graph c') (rv_sid rv) = Inr t \<and> levels labels \<subseteq> levels (s_label_state t)
      \<and> s_enforcement_mode t = s_enforcement_mode s"
  proof (cases "no_labels labels")
    case True
    then show ?thesis using assms by (auto simp: tagged_client_def no_labels_def levels_def)
  next
    case False
    then obtain g t where a: "add_tags (tc_graph c) (rv_sid rv) labels (ce_now en) = Inr (g, t)"
        and c': "c' = with_graph c g"
      using assms(1) by (auto simp: tagged_client_def map_sum_def split: sum.splits)
    let ?l = "most_restrictive_inherit [s_label_state s, labels]"
    have some: "(if ls_a labels = [] \<and> ls_b labels = [] then None
        else tainted_session labels (ce_now en) s) = tainted_session labels (ce_now en) s"
      using False by (auto simp: no_labels_def)
    show ?thesis
    proof (cases "same_labels ?l (s_label_state s)")
      case True
      have "levels labels \<subseteq> levels (s_label_state s)"
        using same_labels_levels [OF True] levels_mri [of "[s_label_state s, labels]"] by auto
      moreover have "g = tc_graph c"
        using a assms(3) True by (simp add: add_tags_def mutate_def some) (simp add: tainted_session_def)
      ultimately show ?thesis using c' assms(3) by simp
    next
      case diff: False
      let ?s = "s\<lparr>s_label_state := ?l, s_updated_at := ce_now en\<rparr>"
      have "commit (tc_graph c) ?s = Inr g"
        using a assms(3) diff
        by (simp add: add_tags_def mutate_def some)
          (auto simp: tainted_session_def silent_def split: sum.splits)
      then have "graph_get g (rv_sid rv) = Inr ?s" using sid by (simp add: graph_get_Inr_iff commit_get)
      then show ?thesis using c' levels_mri [of "[s_label_state s, labels]"] by auto
    qed
  qed
qed

text \<open>A dispatch that makes no call: the program stops at it.\<close>

definition stops :: "('w, 'a) outcome \<Rightarrow> bool" where
  "stops oc \<longleftrightarrow>
     (case snd oc of
        Inl (X_Policy p) \<Rightarrow> pe_decision p \<in> {DENY, OVERRIDE_REQUIRED} | Inl _ \<Rightarrow> True | Inr _ \<Rightarrow> False)"


section \<open>Examples\<close>

definition no_ops :: py_ops where
  "no_ops = \<lparr>po_other = (\<lambda>_ _. Inl ''TypeError''), po_same = (\<lambda>_ _. False), po_truth = (\<lambda>_. True)\<rparr>"

definition dry_mail :: dry_env where
  "dry_mail = \<lparr>dv_registry = [(''mail.send'', send_tool)], dv_reason = (\<lambda>_. []),
     dv_encode = (\<lambda>_. JNull)\<rparr>"

text \<open>\<open>call('mail.send', target='bob', body=b); return 1\<close>\<close>

definition mail_program :: "stmt list" where
  "mail_program =
     [S_Expr (E_Call (E_Name ''call'') [E_Const (PStr ''mail.send'')]
        [(Some ''target'', E_Const (PStr ''bob'')), (Some ''body'', E_Name ''b'')]),
      S_Return (Some (E_Const (PInt 1)))]"

definition real_mail :: "handler \<Rightarrow> run_env" where
  "real_mail h = \<lparr>rv_handler = h, rv_sid = 8, rv_call_env = (\<lambda>_. env_at 5), rv_audit = True,
     rv_encode = (\<lambda>_. JNull), rv_text = (\<lambda>_. [])\<rparr>"

theorem refusal_halts_program_witness:
  "\<exists>w r p. run_program (dry_program_env no_ops dry_mail) mail_program
       [(''b'', Lab (PStr ''x'') tainted_state)] empty_state = (w, Inr r)
     \<and> er_error r = Some p \<and> er_return_value r = None \<and> er_tool_calls r \<noteq> []"
proof -
  let ?run = "run_program (dry_program_env no_ops dry_mail) mail_program
      [(''b'', Lab (PStr ''x'') tainted_state)] empty_state"
  have "case ?run of (w, Inr r) \<Rightarrow> er_error r \<noteq> None | _ \<Rightarrow> False" by code_simp
  then obtain w r p where run: "?run = (w, Inr r)" "er_error r = Some p"
    by (auto split: prod.splits sum.splits)
  from refusal_halts_program [OF run(1)] show ?thesis using run by auto
qed

theorem program_keeps_taint_witness:
  "\<exists>c res. run_program_against_session no_ops (real_mail (failing ''x'')) mail_program
       [(''b'', Lab (PStr ''x'') empty_state)] (client_of [send_tool] [tainted_mailer] None)
       = Some (c, res)
     \<and> (\<exists>t. graph_get (tc_graph c) 8 = Inr t \<and> EXTERNAL_UNTRUSTED \<in> levels (s_label_state t))"
proof -
  let ?c = "client_of [send_tool] [tainted_mailer] None"
  let ?run = "run_program_against_session no_ops (real_mail (failing ''x'')) mail_program
      [(''b'', Lab (PStr ''x'') empty_state)] ?c"
  have "validate_program mail_program = Some mail_program" by code_simp
  then obtain c res where run: "?run = Some (c, res)"
    by (simp add: run_program_against_session_def) (metis prod.collapse)
  have g: "tc_graph ?c = graph_with [tainted_mailer]" "tc_context ?c = None"
    by (simp_all add: client_of_def)
  have h: "handler_ok (rv_handler (real_mail (failing ''x'')))"
    by (simp add: real_mail_def handler_ok_def failing_def)
  have keyed: "keyed_sessions (tc_graph ?c)"
    by (auto simp: client_of_def keyed_sessions_def tainted_mailer_def Session_new_def split: if_splits)
  have inspectors: "no_ingest_inspectors ?c" by (simp add: no_ingest_inspectors_def hooks_at_def g)
  have s: "graph_get (tc_graph ?c) 8 = Inr tainted_mailer"
    by (simp add: client_of_def graph_get_def tainted_mailer_def Session_new_def)
  have t: "EXTERNAL_UNTRUSTED \<in> levels (s_label_state tainted_mailer)"
    by (simp add: tainted_mailer_def tainted_state_def levels_def)
  from program_keeps_taint [OF run h keyed inspectors s t] run show ?thesis by blast
qed

text \<open>A state of the interpreter in which nothing but the argument is tainted.\<close>

definition clean_state :: "run_world prog_state" where
  "clean_state = \<lparr>ps_scope = [], ps_calls = [],
     ps_world = \<lparr>rw_client = client_of [send_tool] [mailer] None, rw_calls = 0\<rparr>\<rparr>"


section \<open>What a return value reveals\<close>

lemma low_eq_redacted:
  "low_eq L v w \<Longrightarrow> v = w \<or> (rp_redacted (return_value_payload v) \<and> rp_redacted (return_value_payload w))"
  by (auto simp: low_eq_def marked_def return_value_payload_def no_labels_def levels_def Let_def)

text \<open>
  C9: a straight-line program without calls (assignments to names, expressions, returns) reveals
  nothing of its labelled inputs in what it returns: started in two scopes that differ only in values
  carrying one and the same provenance level, two runs that both succeed return the same value, or a
  value withheld in both. (A run that fails may reveal something: failures are not compared.)
\<close>

theorem straight_line_return_hides_labels:
  assumes "list_all straight body" and "low_scope L sc sc'"
    and "run_program env body sc w = (w1, Inr r)" and "run_program env body sc' w' = (w2, Inr r')"
  shows "rel_option (\<lambda>v v'. v = v' \<or> (rp_redacted (return_value_payload v)
       \<and> rp_redacted (return_value_payload v'))) (er_return_value r) (er_return_value r')"
proof -
  let ?st = "\<lambda>sc w. \<lparr>ps_scope = sc, ps_calls = [], ps_world = w\<rparr>"
  have "low_end L (exec_block env body (?st sc w)) (exec_block env body (?st sc' w'))"
    by (rule low_exec_block [OF assms(1)]) (simp add: assms(2))
  then have "rel_option (low_eq L) (er_return_value r) (er_return_value r')"
    using assms(3,4)
    by (auto simp: run_program_def low_end_def fails_def plain_def Let_def
        split: prod.splits sum.splits signal.splits)
  then show ?thesis by (rule option.rel_mono_strong) (rule low_eq_redacted)
qed

text \<open>\<open>y = s + 1; return y\<close>\<close>

definition add_program :: "stmt list" where
  "add_program = [S_Assign [E_Name ''y''] (E_BinOp (E_Name ''s'') B_Add (E_Const (PInt 1))),
     S_Return (Some (E_Name ''y''))]"

theorem straight_line_return_hides_labels_witness:
  "\<exists>w r v v'. run_program (dry_program_env no_ops dry_mail) add_program
         [(''s'', Lab (PInt 4) tainted_state)] empty_state = (w, Inr r)
     \<and> er_return_value r = Some v \<and> (v = v' \<or> rp_redacted (return_value_payload v))
     \<and> rp_raw (return_value_payload v') = PNone"
proof -
  let ?run = "\<lambda>n. run_program (dry_program_env no_ops dry_mail) add_program
      [(''s'', Lab (PInt n) tainted_state)] empty_state"
  have ok: "case ?run 4 of (w, Inr r) \<Rightarrow> er_return_value r \<noteq> None | _ \<Rightarrow> False" by code_simp
  have ok': "case ?run 7 of
      (w, Inr r) \<Rightarrow> map_option (rp_raw \<circ> return_value_payload) (er_return_value r) = Some PNone
    | _ \<Rightarrow> False" by code_simp
  obtain w r v where run: "?run 4 = (w, Inr r)" "er_return_value r = Some v"
    using ok by (auto split: prod.splits sum.splits)
  obtain w' r' v' where run': "?run 7 = (w', Inr r')" "er_return_value r' = Some v'"
    "rp_raw (return_value_payload v') = PNone"
    using ok' by (auto split: prod.splits sum.splits)
  have straight: "list_all straight add_program" by (simp add: add_program_def is_name_def)
  have low: "low_scope EXTERNAL_UNTRUSTED [(''s'', Lab (PInt 4) tainted_state)]
      [(''s'', Lab (PInt 7) tainted_state)]"
    by (simp add: low_scope_def low_eq_def marked_def lab_state_def tainted_state_def levels_def)
  from straight_line_return_hides_labels [OF straight low run(1) run'(1)]
  show ?thesis using run run' by auto
qed

text \<open>\<open>if s: return 1 else: return 0\<close>, and \<open>d = {}; d[s] = 1; for k in d: return k\<close>\<close>

definition branch_program :: "stmt list" where
  "branch_program = [S_If (E_Name ''s'') [S_Return (Some (E_Const (PInt 1)))]
     [S_Return (Some (E_Const (PInt 0)))]]"

definition key_program :: "stmt list" where
  "key_program =
     [S_Assign [E_Name ''d''] (E_Dict []),
      S_Assign [E_Subscript (E_Name ''d'') (E_Name ''s'')] (E_Const (PInt 1)),
      S_For (E_Name ''k'') (E_Name ''d'') [S_Return (Some (E_Name ''k''))] []]"

text \<open>
  The labels stop at two statements, both of which the parser accepts. A branch does not label
  what it decides, so a test on a labelled flag is returned in the clear; and a subscript assignment
  drops the labels of the index, so a labelled text used as a dictionary key and read back by a loop
  is itself returned in the clear, whatever its labels.
\<close>

theorem statements_drop_labels:
  "validate_program branch_program = Some branch_program
   \<and> validate_program key_program = Some key_program
   \<and> (\<exists>r. snd (run_program env branch_program [(''s'', Lab (PBool b) l)] w) = Inr r
        \<and> map_option return_value_payload (er_return_value r)
          = Some (return_value_payload (Lab (PInt (if b then 1 else 0)) empty_state)))
   \<and> (\<exists>r. snd (run_program env key_program [(''s'', Lab (PStr t) l)] w) = Inr r
        \<and> map_option (\<lambda>v. (rp_redacted (return_value_payload v), rp_raw (return_value_payload v)))
            (er_return_value r) = Some (False, PStr t))"
proof -
  have valid: "validate_program branch_program = Some branch_program"
    "validate_program key_program = Some key_program"
    by (simp_all add: validate_program_def branch_program_def key_program_def)
  have branch: "\<exists>r. snd (run_program env branch_program [(''s'', Lab (PBool b) l)] w) = Inr r
      \<and> er_return_value r = Some (Lab (PInt (if b then 1 else 0)) empty_state)"
    by (cases b) (simp_all add: run_program_def branch_program_def bind_x_def name_value_def holds_def
        raw_of_def lv_def wrapped_def Let_def)
  have none: "most_restrictive_inherit [empty_state] = empty_state"
    "most_restrictive_inherit [empty_state, empty_state] = empty_state" by code_simp+
  have key: "\<exists>r. snd (run_program env key_program [(''s'', Lab (PStr t) l)] w) = Inr r
      \<and> er_return_value r = Some (Lab (PStr t) empty_state)"
    by (simp add: run_program_def key_program_def bind_x_def name_value_def raw_of_def lv_def
        wrapped_def Let_def store_subscript_def eval_sync_def set_scope_def py_setitem_def py_iter_def
        lab_state_def join_states_def none)
  have shown: "\<not> rp_redacted (return_value_payload (Lab v empty_state))"
    "rp_raw (return_value_payload (Lab v empty_state)) = v" for v
    by (simp_all add: return_value_payload_def lab_state_def lab_raw_def no_labels_def
        empty_state_def Let_def)
  show ?thesis using valid branch key shown by auto
qed

end
