(* ===== verification/AuditLog.thy ===== *)
theory AuditLog
  imports Tools "HOL-Library.Countable"
begin

text \<open>
  The audit log: events (\<open>audit/events.py\<close>), the writer with its hash chain and rotation
  (\<open>audit/writer.py\<close>), the verifier (\<open>audit/verify.py\<close>) and the inventory and sanitisation of old
  logs (\<open>audit/retention.py\<close>). Files are byte strings. Text encoding, JSON and SHA-256 come from
  the standard library and are parameters, whose documented behaviour is \<open>codec_ok\<close>; of the hash
  nothing is assumed. Errors of the file system are not modelled.
\<close>

section \<open>Lines and their encoding\<close>

text \<open>
  What \<open>json.loads\<close> makes of a line: \<open>None\<close> when it or the decoding raises, and \<open>LV_Other\<close> for a
  number, a truth value or \<open>null\<close>. A float within a value is a \<open>JText\<close>. \<open>lc_utf8\<close> tells whether
  bytes decode, \<open>lc_blank\<close> whether \<open>strip\<close> leaves nothing of a decoded line.
\<close>

datatype line_value = LV_Dict "(string \<times> json) list" | LV_List "json list" | LV_Str string | LV_Other

record line_codec =
  lc_dumps :: "(string \<times> json) list \<Rightarrow> string"
  lc_dumps_sorted :: "(string \<times> json) list \<Rightarrow> string"
  lc_loads :: "string \<Rightarrow> line_value option"
  lc_utf8 :: "string \<Rightarrow> bool"
  lc_blank :: "string \<Rightarrow> bool"
  lc_sha :: "string \<Rightarrow> string"
  lc_text :: "json \<Rightarrow> string"

definition newline :: char where
  "newline = CHR 0x0A"

definition line_break :: "char \<Rightarrow> bool" where
  "line_break c \<longleftrightarrow> c = CHR 0x0A \<or> c = CHR 0x0D"

text \<open>\<open>raw.splitlines(keepends=True)\<close> of bytes, and \<open>line.strip()\<close> being true.\<close>

fun splitlines_keep :: "string \<Rightarrow> string list" where
  "splitlines_keep [] = []"
| "splitlines_keep [c] = [[c]]"
| "splitlines_keep (c # d # s) =
     (if c = CHR 0x0D \<and> d = CHR 0x0A then [c, d] # splitlines_keep s
      else if line_break c then [c] # splitlines_keep (d # s)
      else (case splitlines_keep (d # s) of [] \<Rightarrow> [[c]] | l # ls \<Rightarrow> (c # l) # ls))"

definition byte_space :: "char \<Rightarrow> bool" where
  "byte_space c \<longleftrightarrow> char_in c 9 13 \<or> c = CHR '' ''"

definition blank :: "string \<Rightarrow> bool" where
  "blank line \<longleftrightarrow> list_all byte_space line"

definition content_lines :: "string \<Rightarrow> string list" where
  "content_lines raw = filter (\<lambda>l. \<not> blank l) (splitlines_keep raw)"

definition text_lines :: "line_codec \<Rightarrow> string \<Rightarrow> string list" where
  "text_lines cd raw = filter (\<lambda>l. \<not> lc_blank cd l) (splitlines_keep raw)"

text \<open>Values whose dictionaries have distinct keys, and a value with all of them sorted.\<close>

fun json_ok :: "json \<Rightarrow> bool" where
  "json_ok (JDict d) = (distinct (map fst d) \<and> list_all (\<lambda>(k, v). json_ok v) d)"
| "json_ok (JList vs) = list_all json_ok vs"
| "json_ok _ = True"

definition dict_ok :: "(string \<times> json) list \<Rightarrow> bool" where
  "dict_ok d \<longleftrightarrow> json_ok (JDict d)"

fun json_sorted :: "json \<Rightarrow> json" where
  "json_sorted (JDict d) = JDict (sort_key fst (map (\<lambda>(k, v). (k, json_sorted v)) d))"
| "json_sorted (JList vs) = JList (map json_sorted vs)"
| "json_sorted v = v"

definition dict_sorted :: "(string \<times> json) list \<Rightarrow> (string \<times> json) list" where
  "dict_sorted d = sort_key fst (map (\<lambda>(k, v). (k, json_sorted v)) d)"

text \<open>
  What the log relies on: a record that is dumped is one line of ASCII text that loads to the record again,
  with sorted keys when it was dumped so, and what loads is a dictionary as Python has them.
\<close>

definition ascii :: "string \<Rightarrow> bool" where
  "ascii s \<longleftrightarrow> list_all (\<lambda>c. (of_char c :: nat) < 128) s"

definition one_line :: "line_codec \<Rightarrow> string \<Rightarrow> bool" where
  "one_line cd s \<longleftrightarrow>
     list_all (\<lambda>c. \<not> line_break c) s \<and> \<not> blank s \<and> \<not> lc_blank cd (s @ [newline]) \<and> ascii s"

definition codec_ok :: "line_codec \<Rightarrow> bool" where
  "codec_ok cd \<longleftrightarrow>
     (\<forall>d. dict_ok d \<longrightarrow>
        one_line cd (lc_dumps cd d) \<and> one_line cd (lc_dumps_sorted cd d)
        \<and> lc_loads cd (lc_dumps cd d @ [newline]) = Some (LV_Dict d)
        \<and> lc_loads cd (lc_dumps_sorted cd d @ [newline]) = Some (LV_Dict (dict_sorted d)))
     \<and> (\<forall>line d. lc_loads cd line = Some (LV_Dict d) \<longrightarrow> dict_ok d)
     \<and> (\<forall>s. ascii s \<longrightarrow> lc_utf8 cd s)"

section \<open>Events\<close>

record log_event =
  le_event_type :: string
  le_session_id :: "uuid option"
  le_turn_id :: "int option"
  le_step_id :: "int option"
  le_timestamp :: time
  le_payload :: "(string \<times> json) list"
  le_audit_id :: uuid

definition event_to_dict :: "log_event \<Rightarrow> (string \<times> json) list" where
  "event_to_dict e =
     [(''audit_id'', JUuid (le_audit_id e)), (''timestamp'', JTime (le_timestamp e)),
      (''event_type'', JStr (le_event_type e)),
      (''session_id'', case le_session_id e of None \<Rightarrow> JNull | Some i \<Rightarrow> JUuid i),
      (''turn_id'', case le_turn_id e of None \<Rightarrow> JNull | Some n \<Rightarrow> JInt n),
      (''step_id'', case le_step_id e of None \<Rightarrow> JNull | Some n \<Rightarrow> JInt n),
      (''payload'', JDict (le_payload e))]"

definition EVENT_TYPES :: "string list" where
  "EVENT_TYPES =
     [''session.created'', ''session.forked'', ''session.paused'', ''session.resumed'',
      ''session.merged'', ''session.aborted'', ''session.done'', ''llm.context_assembled'',
      ''llm.request_sent'', ''llm.response_received'', ''llm.response_parsed'', ''llm.error'',
      ''llm.context_warning'', ''llm.model_selected'', ''tool.surface_selected'', ''llm.parse_retry'',
      ''agent.loop_exceeded'', ''agent.loop_thrashing'', ''credential.injected'',
      ''decision.latency_degraded'', ''turn.interrupted'', ''mode.selected'', ''policy.decided'',
      ''policy.warned'', ''purpose.contamination_suspected'', ''policy.shadowed'',
      ''enforcement.mode_changed'', ''inspector.applied'', ''decision_inspector.applied'',
      ''declassifier.applied'', ''label.propagated'', ''capability.checked'', ''capability.granted'',
      ''provenance.node'', ''provenance.edge'', ''delegation.granted'', ''delegation.refused'',
      ''capability.cascade_revoked'', ''binding.applied'', ''override.granted'', ''override.attested'',
      ''override.refused'', ''override.expired'', ''override.use_refused'', ''ratification.applied'',
      ''pattern3.handle_bind'', ''isolation_region.created'', ''isolation_region.discarded'',
      ''envelope.dial_changed'', ''risk_register.audit'', ''residual_risk.exception'',
      ''policy.relaxation_refused'', ''tool.dispatched'', ''tool.returned'',
      ''planner_result.withheld'', ''skill.guidance_loaded'', ''approval.requested'',
      ''approval.approved'', ''approval.denied'', ''approval.deferred'', ''approval.expired'',
      ''setup.changed'', ''onguard.client_registered'', ''onguard.config_changed'',
      ''onguard.command_queued'', ''onguard.command_claimed'', ''onguard.command_finished'',
      ''onguard.event_published'', ''onguard.schedule_changed'', ''onguard.schedule_run'',
      ''onguard.artifact_changed'']"

definition optional_int :: "json option \<Rightarrow> py_error + int option" where
  "optional_int v =
     (case v of
        None \<Rightarrow> Inr None | Some JNull \<Rightarrow> Inr None | Some (JInt n) \<Rightarrow> Inr (Some n) | Some _ \<Rightarrow> Inl TypeError)"

text \<open>
  \<open>Event.from_dict\<close>. The fields are untyped in the source; a turn or step that is no integer, and a
  payload that is neither empty nor a dictionary, cannot be an event of the model.
\<close>

definition event_from_dict :: "(string \<times> json) list \<Rightarrow> py_error + log_event" where
  "event_from_dict d =
     (case (map_of d ''audit_id'', map_of d ''timestamp'', map_of d ''event_type'') of
        (None, _, _) \<Rightarrow> Inl KeyError
      | (Some (JUuid aid), None, _) \<Rightarrow> Inl KeyError
      | (Some (JUuid aid), Some (JTime ts), None) \<Rightarrow> Inl KeyError
      | (Some (JUuid aid), Some (JTime ts), Some (JStr ty)) \<Rightarrow>
          if ty \<notin> set EVENT_TYPES then Inl ValueError
          else
            (case (optional_int (map_of d ''turn_id''), optional_int (map_of d ''step_id'')) of
               (Inr turn, Inr step) \<Rightarrow>
                 (let event = (\<lambda>sid. \<lparr>le_event_type = ty, le_session_id = sid, le_turn_id = turn,
                        le_step_id = step, le_timestamp = ts,
                        le_payload = (case map_of d ''payload'' of Some (JDict p) \<Rightarrow> p | _ \<Rightarrow> []),
                        le_audit_id = aid\<rparr>)
                  in case map_of d ''session_id'' of
                       Some (JUuid i) \<Rightarrow> Inr (event (Some i))
                     | Some v \<Rightarrow> if populated v then Inl ValueError else Inr (event None)
                     | None \<Rightarrow> Inr (event None))
             | _ \<Rightarrow> Inl TypeError)
      | _ \<Rightarrow> Inl ValueError)"

section \<open>The files\<close>

text \<open>The active file, if it exists, and the archives \<open>path.1\<close>, \<open>path.2\<close> and so on.\<close>

record log_files =
  lf_active :: "string option"
  lf_archives :: "(nat \<times> string) list"

definition file_bytes :: "string option \<Rightarrow> string" where
  "file_bytes f = (case f of None \<Rightarrow> [] | Some raw \<Rightarrow> raw)"

definition last_line_hash :: "line_codec \<Rightarrow> string option \<Rightarrow> string option" where
  "last_line_hash cd f =
     (case rev (content_lines (file_bytes f)) of [] \<Rightarrow> None | l # _ \<Rightarrow> Some (lc_sha cd l))"

section \<open>The writer\<close>

record audit_writer =
  aw_files :: log_files
  aw_initialized :: bool
  aw_max_size_bytes :: nat
  aw_max_rotated :: nat
  aw_last_hash :: "string option"
  aw_subscribers :: "nat list"

definition AuditWriter :: "log_files \<Rightarrow> int \<Rightarrow> int \<Rightarrow> py_error + audit_writer" where
  "AuditWriter files max_size_bytes max_rotated =
     (if max_size_bytes < 256 \<or> max_rotated < 0 then Inl ValueError
      else Inr \<lparr>aw_files = files, aw_initialized = False, aw_max_size_bytes = nat max_size_bytes,
                aw_max_rotated = nat max_rotated, aw_last_hash = None, aw_subscribers = []\<rparr>)"

definition ensure_init :: "line_codec \<Rightarrow> audit_writer \<Rightarrow> audit_writer" where
  "ensure_init cd w =
     (if aw_initialized w then w
      else
        (let files = (aw_files w)\<lparr>lf_active := Some (file_bytes (lf_active (aw_files w)))\<rparr>
         in w\<lparr>aw_files := files, aw_last_hash := last_line_hash cd (lf_active files),
              aw_initialized := True\<rparr>))"

text \<open>The loop of \<open>_rotate\<close> over the archives, from the oldest.\<close>

fun shift_archives :: "nat \<Rightarrow> nat \<Rightarrow> (nat \<times> string) list \<Rightarrow> (nat \<times> string) list" where
  "shift_archives most 0 a = a"
| "shift_archives most (Suc n) a =
     shift_archives most n
       (case map_of a (Suc n) of
          None \<Rightarrow> a
        | Some raw \<Rightarrow>
            if Suc n = most then AList.delete (Suc n) a
            else AList.update (Suc (Suc n)) raw (AList.delete (Suc n) a))"

definition rotate_log :: "audit_writer \<Rightarrow> audit_writer" where
  "rotate_log w =
     (let most = aw_max_rotated w; files = aw_files w;
          archives = shift_archives most most (lf_archives files)
      in case lf_active files of
           Some raw \<Rightarrow>
             if 1 \<le> most
             then w\<lparr>aw_files := \<lparr>lf_active = None, lf_archives = AList.update 1 raw archives\<rparr>\<rparr>
             else w\<lparr>aw_files := \<lparr>lf_active = None, lf_archives = archives\<rparr>, aw_last_hash := None\<rparr>
         | None \<Rightarrow> w\<lparr>aw_files := \<lparr>lf_active = None, lf_archives = archives\<rparr>, aw_last_hash := None\<rparr>)"

definition event_line :: "line_codec \<Rightarrow> log_event \<Rightarrow> string option \<Rightarrow> string" where
  "event_line cd e prev =
     lc_dumps cd (event_to_dict e
       @ [(''prev_hash'', case prev of None \<Rightarrow> JNull | Some h \<Rightarrow> JStr h)]) @ [newline]"

definition maybe_rotate_for :: "line_codec \<Rightarrow> log_event \<Rightarrow> audit_writer \<Rightarrow> audit_writer" where
  "maybe_rotate_for cd e w =
     (if aw_max_size_bytes w
           < length (file_bytes (lf_active (aw_files w))) + length (event_line cd e None)
      then rotate_log w else w)"

definition append_no_rotate :: "string \<Rightarrow> audit_writer \<Rightarrow> audit_writer" where
  "append_no_rotate line w =
     w\<lparr>aw_files := (aw_files w)\<lparr>lf_active := Some (file_bytes (lf_active (aw_files w)) @ line)\<rparr>\<rparr>"

text \<open>\<open>write\<close>: the writer, and what is delivered to the subscribers, in order.\<close>

definition write_log :: "line_codec \<Rightarrow> log_event \<Rightarrow> audit_writer \<Rightarrow> audit_writer \<times> (nat \<times> log_event) list" where
  "write_log cd e w =
     (let w = maybe_rotate_for cd e (ensure_init cd w);
          line = event_line cd e (aw_last_hash w);
          w = (append_no_rotate line w)\<lparr>aw_last_hash := Some (lc_sha cd line)\<rparr>
      in (w, map (\<lambda>s. (s, e)) (aw_subscribers w)))"

definition subscribe :: "nat \<Rightarrow> audit_writer \<Rightarrow> audit_writer" where
  "subscribe s w = w\<lparr>aw_subscribers := aw_subscribers w @ [s]\<rparr>"

definition unsubscribe :: "nat \<Rightarrow> audit_writer \<Rightarrow> audit_writer" where
  "unsubscribe s w = w\<lparr>aw_subscribers := remove1 s (aw_subscribers w)\<rparr>"

text \<open>A new writer on the files of an old one: the daemon restarts.\<close>

definition restart :: "audit_writer \<Rightarrow> audit_writer" where
  "restart w = w\<lparr>aw_initialized := False, aw_last_hash := None, aw_subscribers := []\<rparr>"

text \<open>The readers: every event of the active file, the last or the next ones, and those of some types.\<close>

definition event_of_line :: "line_codec \<Rightarrow> string \<Rightarrow> py_error + log_event" where
  "event_of_line cd line =
     (case lc_loads cd line of
        None \<Rightarrow> Inl JsonDecodeError | Some (LV_Dict d) \<Rightarrow> event_from_dict d | Some _ \<Rightarrow> Inl TypeError)"

fun events_of_lines :: "line_codec \<Rightarrow> string list \<Rightarrow> py_error + log_event list" where
  "events_of_lines cd [] = Inr []"
| "events_of_lines cd (l # ls) =
     (case event_of_line cd l of
        Inl e \<Rightarrow> Inl e
      | Inr ev \<Rightarrow> map_sum id (Cons ev) (events_of_lines cd ls))"

definition read_all :: "line_codec \<Rightarrow> audit_writer \<Rightarrow> py_error + log_event list" where
  "read_all cd w = events_of_lines cd (text_lines cd (file_bytes (lf_active (aw_files w))))"

text \<open>\<open>str(json.loads(line).get("audit_id")) == after\<close>, behind the cheap test on the text.\<close>

definition line_has_id :: "line_codec \<Rightarrow> string \<Rightarrow> string \<Rightarrow> py_error + bool" where
  "line_has_id cd after line =
     (if \<not> contains after line then Inr False
      else case lc_loads cd line of
             None \<Rightarrow> Inl JsonDecodeError
           | Some (LV_Dict d) \<Rightarrow> Inr (lc_text cd (dict_get d ''audit_id'' JNull) = after)
           | Some _ \<Rightarrow> Inl AttributeError)"

fun lines_after :: "line_codec \<Rightarrow> string \<Rightarrow> string list \<Rightarrow> py_error + string list" where
  "lines_after cd after [] = Inr []"
| "lines_after cd after (l # ls) =
     (case line_has_id cd after l of
        Inl e \<Rightarrow> Inl e | Inr True \<Rightarrow> Inr ls | Inr False \<Rightarrow> lines_after cd after ls)"

definition tail_log ::
  "line_codec \<Rightarrow> string option \<Rightarrow> int \<Rightarrow> audit_writer \<Rightarrow> py_error + log_event list" where
  "tail_log cd after limit w =
     (if limit \<le> 0 then Inr []
      else
        (let lines = text_lines cd (file_bytes (lf_active (aw_files w)))
         in case after of
              None \<Rightarrow> events_of_lines cd (drop (length lines - nat limit) lines)
            | Some aid \<Rightarrow>
                (case lines_after cd aid lines of
                   Inl e \<Rightarrow> Inl e
                 | Inr ls \<Rightarrow> events_of_lines cd (take (nat limit) ls))))"

fun typed_events :: "line_codec \<Rightarrow> string list \<Rightarrow> string list \<Rightarrow> py_error + log_event list" where
  "typed_events cd types [] = Inr []"
| "typed_events cd types (l # ls) =
     (case lc_loads cd l of
        None \<Rightarrow> Inl JsonDecodeError
      | Some (LV_Dict d) \<Rightarrow>
          (if (case map_of d ''event_type'' of Some (JStr ty) \<Rightarrow> ty \<in> set types | _ \<Rightarrow> False)
           then (case event_from_dict d of
                   Inl e \<Rightarrow> Inl e | Inr ev \<Rightarrow> map_sum id (Cons ev) (typed_events cd types ls))
           else typed_events cd types ls)
      | Some _ \<Rightarrow> Inl AttributeError)"

definition read_event_types :: "line_codec \<Rightarrow> string list \<Rightarrow> audit_writer \<Rightarrow> py_error + log_event list" where
  "read_event_types cd types w =
     typed_events cd types (text_lines cd (file_bytes (lf_active (aw_files w))))"

section \<open>The verifier\<close>

datatype verify_reason = NoFile | NotJson | MissingPrevHash | HashMismatch | ChainVerified

record verify_result =
  vr_ok :: bool
  vr_n_lines :: nat
  vr_n_chained :: nat
  vr_n_legacy_prefix :: nat
  vr_tampered_at_line :: nat
  vr_reason :: verify_reason
  vr_files_walked :: "nat list"
  vr_tampered_at_file :: "nat option"

record chain_walk =
  cw_lines :: nat
  cw_chained :: nat
  cw_legacy :: nat
  cw_prev :: "string option"
  cw_started :: bool

definition walk_start :: chain_walk where
  "walk_start = \<lparr>cw_lines = 0, cw_chained = 0, cw_legacy = 0, cw_prev = None, cw_started = False\<rparr>"

text \<open>The text of a mismatch cuts the claimed value with \<open>[:16]\<close>, which fails unless it is a
  sequence.\<close>

definition sliceable :: "json \<Rightarrow> bool" where
  "sliceable v \<longleftrightarrow> (case v of JStr _ \<Rightarrow> True | JList _ \<Rightarrow> True | JUuid _ \<Rightarrow> True | JTime _ \<Rightarrow> True | _ \<Rightarrow> False)"

definition legacy_line :: "string \<Rightarrow> chain_walk \<Rightarrow> verify_reason + chain_walk" where
  "legacy_line line cw =
     (if cw_started cw then Inl MissingPrevHash
      else Inr (cw\<lparr>cw_legacy := Suc (cw_legacy cw), cw_prev := Some line\<rparr>))"

definition chained_line :: "string \<Rightarrow> chain_walk \<Rightarrow> chain_walk" where
  "chained_line line cw =
     cw\<lparr>cw_started := True, cw_chained := Suc (cw_chained cw), cw_prev := Some line\<rparr>"

text \<open>One line: an exception, a reason why the chain breaks at it, or the walk after it.\<close>

definition walk_line :: "line_codec \<Rightarrow> string \<Rightarrow> chain_walk \<Rightarrow> py_error + (verify_reason + chain_walk)" where
  "walk_line cd line cw =
     (case lc_loads cd line of
        None \<Rightarrow> Inr (Inl NotJson)
      | Some LV_Other \<Rightarrow> Inl TypeError
      | Some (LV_Str s) \<Rightarrow> if contains ''prev_hash'' s then Inl TypeError else Inr (legacy_line line cw)
      | Some (LV_List vs) \<Rightarrow> if JStr ''prev_hash'' \<in> set vs then Inl TypeError else Inr (legacy_line line cw)
      | Some (LV_Dict d) \<Rightarrow>
          (case map_of d ''prev_hash'' of
             None \<Rightarrow> Inr (legacy_line line cw)
           | Some claimed \<Rightarrow>
               (case cw_prev cw of
                  None \<Rightarrow> Inr (Inr (chained_line line cw))
                | Some prev \<Rightarrow>
                    if claimed = JStr (lc_sha cd prev) then Inr (Inr (chained_line line cw))
                    else if sliceable claimed then Inr (Inl HashMismatch) else Inl TypeError)))"

text \<open>The lines of one file; a break comes with its line number in the file.\<close>

fun walk_lines ::
  "line_codec \<Rightarrow> nat \<Rightarrow> string list \<Rightarrow> chain_walk \<Rightarrow> py_error + chain_walk \<times> (verify_reason \<times> nat) option"
where
  "walk_lines cd idx [] cw = Inr (cw, None)"
| "walk_lines cd idx (l # ls) cw =
     (let cw = cw\<lparr>cw_lines := Suc (cw_lines cw)\<rparr>
      in case walk_line cd l cw of
           Inl e \<Rightarrow> Inl e
         | Inr (Inl why) \<Rightarrow> Inr (cw, Some (why, idx))
         | Inr (Inr cw) \<Rightarrow> walk_lines cd (Suc idx) ls cw)"

fun walk_files ::
  "line_codec \<Rightarrow> (nat \<times> string) list \<Rightarrow> chain_walk
   \<Rightarrow> py_error + chain_walk \<times> (nat \<times> verify_reason \<times> nat) option" where
  "walk_files cd [] cw = Inr (cw, None)"
| "walk_files cd ((n, raw) # fs) cw =
     (case walk_lines cd 1 (content_lines raw) cw of
        Inl e \<Rightarrow> Inl e
      | Inr (cw, Some (why, idx)) \<Rightarrow> Inr (cw, Some (n, why, idx))
      | Inr (cw, None) \<Rightarrow> walk_files cd fs cw)"

text \<open>\<open>_enumerate_chain_files\<close>: the archives up to the first gap, the oldest first; 0 is the
  active file.\<close>

function probe_archives :: "(nat \<times> string) list \<Rightarrow> nat \<Rightarrow> nat list" where
  "probe_archives a n = (if map_of a n = None then [] else n # probe_archives a (Suc n))"
  by pat_completeness auto

termination
proof (relation "measure (\<lambda>(a, n). card (fst ` set a - {..<n}))", goal_cases)
  case (2 a n)
  then have "n \<in> fst ` set a - {..<n}" by (auto simp: map_of_eq_None_iff)
  then have "fst ` set a - {..<Suc n} \<subset> fst ` set a - {..<n}" by auto
  then show ?case by (simp add: psubset_card_mono)
qed simp

declare probe_archives.simps [simp del]

definition enumerate_chain_files :: "log_files \<Rightarrow> bool \<Rightarrow> nat list" where
  "enumerate_chain_files files include_rotated =
     (if include_rotated then rev (probe_archives (lf_archives files) 1) @ [0] else [0])"

definition log_file :: "log_files \<Rightarrow> nat \<Rightarrow> string option" where
  "log_file files n = (if n = 0 then lf_active files else map_of (lf_archives files) n)"

definition present_files :: "log_files \<Rightarrow> nat list \<Rightarrow> (nat \<times> string) list" where
  "present_files files ns =
     concat (map (\<lambda>n. case log_file files n of None \<Rightarrow> [] | Some raw \<Rightarrow> [(n, raw)]) ns)"

definition verify_audit_chain :: "line_codec \<Rightarrow> log_files \<Rightarrow> bool \<Rightarrow> py_error + verify_result" where
  "verify_audit_chain cd files include_rotated =
     (let ns = enumerate_chain_files files include_rotated;
          result = (\<lambda>good cw at why f. \<lparr>vr_ok = good, vr_n_lines = cw_lines cw,
             vr_n_chained = cw_chained cw, vr_n_legacy_prefix = cw_legacy cw,
             vr_tampered_at_line = at, vr_reason = why, vr_files_walked = ns,
             vr_tampered_at_file = f\<rparr>)
      in if present_files files ns = [] then Inr (result True walk_start 0 NoFile None)
         else case walk_files cd (present_files files ns) walk_start of
                Inl e \<Rightarrow> Inl e
              | Inr (cw, None) \<Rightarrow> Inr (result True cw 0 ChainVerified None)
              | Inr (cw, Some (n, why, idx)) \<Rightarrow> Inr (result False cw idx why (Some n)))"

text \<open>
  \<open>audit/retention.py\<close>: the inventory of old \<open>tool.returned\<close> records that may hold a tool's output,
  and the sanitised copy of a log, with a new hash chain and a manifest that commits to both files.
\<close>

section \<open>Files by path\<close>

type_synonym file_path = "string \<times> string" \<comment> \<open>directory and name\<close>

type_synonym file_system = "(file_path \<times> string) list"

definition path_text :: "file_path \<Rightarrow> string" where
  "path_text p = (if fst p = [] then snd p else fst p @ ''/'' @ snd p)"

section \<open>The inventory\<close>

record output_inventory =
  oi_total_events :: nat
  oi_tool_returned_events :: nat
  oi_redacted_events :: nat
  oi_candidates :: "string list"
  oi_malformed_lines :: nat

definition remediation_required :: "output_inventory \<Rightarrow> bool" where
  "remediation_required oi \<longleftrightarrow> oi_candidates oi \<noteq> [] \<or> oi_malformed_lines oi \<noteq> 0"

definition inventory_to_dict :: "file_path \<Rightarrow> output_inventory \<Rightarrow> (string \<times> json) list" where
  "inventory_to_dict p oi =
     (let sample = take 20 (oi_candidates oi)
      in [(''path'', JStr (path_text p)), (''total_events'', JInt (int (oi_total_events oi))),
          (''tool_returned_events'', JInt (int (oi_tool_returned_events oi))),
          (''redacted_tool_returned_events'', JInt (int (oi_redacted_events oi))),
          (''legacy_output_candidate_count'', JInt (int (length (oi_candidates oi)))),
          (''legacy_output_candidate_sample'', JList (map JStr sample)),
          (''legacy_output_candidates_truncated'',
            JBool (length sample < length (oi_candidates oi))),
          (''malformed_lines'', JInt (int (oi_malformed_lines oi))),
          (''remediation_required'', JBool (remediation_required oi)),
          (''content_rendered'', JBool False)])"

definition redacted_payload :: "json option \<Rightarrow> bool" where
  "redacted_payload p \<longleftrightarrow>
     (case p of Some (JDict d) \<Rightarrow> map_of d ''output_redacted'' = Some (JBool True) | _ \<Rightarrow> False)"

definition tool_returned :: "(string \<times> json) list \<Rightarrow> bool" where
  "tool_returned d \<longleftrightarrow> map_of d ''event_type'' = Some (JStr ''tool.returned'')"

definition empty_inventory :: output_inventory where
  "empty_inventory = \<lparr>oi_total_events = 0, oi_tool_returned_events = 0, oi_redacted_events = 0,
     oi_candidates = [], oi_malformed_lines = 0\<rparr>"

definition inventory_line :: "line_codec \<Rightarrow> string \<Rightarrow> output_inventory \<Rightarrow> output_inventory" where
  "inventory_line cd line oi =
     (let oi = oi\<lparr>oi_total_events := Suc (oi_total_events oi)\<rparr>
      in case lc_loads cd line of
           None \<Rightarrow> oi\<lparr>oi_malformed_lines := Suc (oi_malformed_lines oi)\<rparr>
         | Some (LV_Dict d) \<Rightarrow>
             if \<not> tool_returned d then oi
             else
               (let oi = oi\<lparr>oi_tool_returned_events := Suc (oi_tool_returned_events oi)\<rparr>
                in if redacted_payload (map_of d ''payload'')
                   then oi\<lparr>oi_redacted_events := Suc (oi_redacted_events oi)\<rparr>
                   else oi\<lparr>oi_candidates := oi_candidates oi
                             @ [case map_of d ''audit_id'' of
                                  None \<Rightarrow> ''<missing-audit-id>''
                                | Some JNull \<Rightarrow> ''<missing-audit-id>''
                                | Some v \<Rightarrow> lc_text cd v]\<rparr>)
         | Some _ \<Rightarrow> oi)"

text \<open>Text that does not decode is the one error.\<close>

definition inventory_legacy_tool_outputs ::
  "line_codec \<Rightarrow> string option \<Rightarrow> py_error + output_inventory" where
  "inventory_legacy_tool_outputs cd f =
     (case f of
        None \<Rightarrow> Inr empty_inventory
      | Some raw \<Rightarrow>
          if \<not> lc_utf8 cd raw then Inl ValueError
          else Inr (foldl (\<lambda>oi line. inventory_line cd line oi) empty_inventory (text_lines cd raw)))"

section \<open>Sanitisation\<close>

definition sanitized_payload :: "line_codec \<Rightarrow> json option \<Rightarrow> json" where
  "sanitized_payload cd payload =
     (let raw = (case payload of
                   Some (JDict d) \<Rightarrow> d
                 | p \<Rightarrow> [(''legacy_payload'', case p of None \<Rightarrow> JNull | Some v \<Rightarrow> v)]);
          encoded = lc_dumps_sorted cd raw; digest = lc_sha cd encoded
      in JDict [(''output_digest'', JStr digest), (''output_type'', JStr ''dict''),
                (''output_size_bytes'', JInt (int (length encoded))),
                (''output_redacted'', JBool True), (''legacy_output_removed'', JBool True),
                (''legacy_payload_digest'', JStr digest)])"

text \<open>A record without its hash, and the identifier it is listed under when it was rewritten.\<close>

definition sanitize_record ::
  "line_codec \<Rightarrow> (string \<times> json) list \<Rightarrow> (string \<times> json) list \<times> string list" where
  "sanitize_record cd d =
     (if tool_returned d \<and> \<not> redacted_payload (map_of d ''payload'')
      then (AList.delete ''prev_hash''
              (AList.update ''payload'' (sanitized_payload cd (map_of d ''payload'')) d),
            [case map_of d ''audit_id'' of
               None \<Rightarrow> ''<missing-audit-id>''
             | Some v \<Rightarrow> if populated v then lc_text cd v else ''<missing-audit-id>''])
      else (AList.delete ''prev_hash'' d, []))"

fun sanitize_lines ::
  "line_codec \<Rightarrow> string list \<Rightarrow> py_error + (string \<times> json) list list \<times> string list" where
  "sanitize_lines cd [] = Inr ([], [])"
| "sanitize_lines cd (l # ls) =
     (case lc_loads cd l of
        Some (LV_Dict d) \<Rightarrow>
          map_sum id (\<lambda>(ds, ids). (fst (sanitize_record cd d) # ds, snd (sanitize_record cd d) @ ids))
            (sanitize_lines cd ls)
      | _ \<Rightarrow> Inl ValueError)"

text \<open>Every record becomes a line that carries the hash of the line before it.\<close>

definition chain_line :: "line_codec \<Rightarrow> string option \<Rightarrow> (string \<times> json) list \<Rightarrow> string" where
  "chain_line cd prev d =
     lc_dumps_sorted cd (d @ [(''prev_hash'', case prev of None \<Rightarrow> JNull | Some h \<Rightarrow> JStr h)])
       @ [newline]"

fun chain_records :: "line_codec \<Rightarrow> string option \<Rightarrow> (string \<times> json) list list \<Rightarrow> string list" where
  "chain_records cd prev [] = []"
| "chain_records cd prev (d # ds) =
     (let line = chain_line cd prev d in line # chain_records cd (Some (lc_sha cd line)) ds)"

record retention_remediation =
  rr_operator :: string
  rr_source_sha256 :: string
  rr_sanitized_sha256 :: string
  rr_total_events :: nat
  rr_sanitized_events :: nat
  rr_candidate_digest :: string

definition manifest_path :: "file_path \<Rightarrow> file_path" where
  "manifest_path p = (fst p, snd p @ ''.retention-manifest.json'')"

definition partial_path :: "file_path \<Rightarrow> file_path" where
  "partial_path p = (fst p, ''.'' @ snd p @ ''.retention-partial'')"

definition manifest_payload ::
  "line_codec \<Rightarrow> time \<Rightarrow> file_path \<Rightarrow> file_path \<Rightarrow> retention_remediation \<Rightarrow> (string \<times> json) list" where
  "manifest_payload cd now source sanitized rr =
     [(''schema'', JStr ''capdep.audit-retention-remediation.v1''), (''created_at'', JTime now),
      (''operator'', JStr (rr_operator rr)), (''source'', JStr (path_text source)),
      (''source_sha256'', JStr (rr_source_sha256 rr)),
      (''sanitized'', JStr (path_text sanitized)),
      (''sanitized_sha256'', JStr (rr_sanitized_sha256 rr)),
      (''total_events'', JInt (int (rr_total_events rr))),
      (''sanitized_tool_returned_events'', JInt (int (rr_sanitized_events rr))),
      (''candidate_audit_ids_digest'', JStr (rr_candidate_digest rr)),
      (''content_rendered'', JBool False), (''source_modified'', JBool False),
      (''cutover_performed'', JBool False)]"

definition sanitize_legacy_tool_outputs ::
  "line_codec \<Rightarrow> time \<Rightarrow> file_system \<Rightarrow> file_path \<Rightarrow> file_path \<Rightarrow> string
   \<Rightarrow> py_error + file_system \<times> retention_remediation" where
  "sanitize_legacy_tool_outputs cd now fs source sanitized operator =
     (let exists = (\<lambda>p. map_of fs p \<noteq> None); manifest = manifest_path sanitized
      in if lc_blank cd operator then Inl ValueError
         else case map_of fs source of
           None \<Rightarrow> Inl ValueError
         | Some raw \<Rightarrow>
             if source = sanitized \<or> exists sanitized \<or> exists manifest then Inl ValueError
             else case sanitize_lines cd (content_lines raw) of
                    Inl e \<Rightarrow> Inl e
                  | Inr (records, ids) \<Rightarrow>
                      if exists (partial_path sanitized) \<or> exists (partial_path manifest)
                      then Inl ValueError
                      else
                        (let out = concat (chain_records cd None records);
                             rr = \<lparr>rr_operator = operator, rr_source_sha256 = lc_sha cd raw,
                                   rr_sanitized_sha256 = lc_sha cd out,
                                   rr_total_events = length records,
                                   rr_sanitized_events = length ids,
                                   rr_candidate_digest = lc_sha cd (py_join [newline] ids)\<rparr>;
                             note = lc_dumps_sorted cd (manifest_payload cd now source sanitized rr)
                                      @ [newline]
                         in Inr (AList.update manifest note (AList.update sanitized out fs), rr)))"

text \<open>
  Sorting the keys of a JSON value, and a codec that behaves as \<open>codec_ok\<close> says, for the concrete
  instances of the theorems on logs: a record is written as its number in unary.
\<close>

section \<open>Sorted keys\<close>

text \<open>The sort is stable, so the first entry of a key stays the first.\<close>

lemma map_of_filter: "map_of xs k = (case filter (\<lambda>p. fst p = k) xs of [] \<Rightarrow> None | p # _ \<Rightarrow> Some (snd p))"
  by (induction xs) auto

lemma map_of_sort_key:
  fixes xs :: "(string \<times> 'a) list"
  shows "map_of (sort_key fst xs) k = map_of xs k"
  by (simp add: map_of_filter [of "sort_key fst xs"] map_of_filter [of xs] sort_key_stable)

lemma map_of_dict_sorted: "map_of (dict_sorted d) k = map_option json_sorted (map_of d k)"
proof -
  have "map_of (map (\<lambda>(k, v). (k, json_sorted v)) d) k = map_option json_sorted (map_of d k)"
    by (induction d) auto
  then show ?thesis by (simp add: dict_sorted_def map_of_sort_key)
qed

lemma distinct_dict_sorted: "distinct (map fst (sort_key fst xs)) = distinct (map fst (xs :: (string \<times> 'a) list))"
  by (simp add: distinct_map)

lemma json_ok_sorted: "json_ok v \<Longrightarrow> json_ok (json_sorted v)"
proof (induction v rule: json_ok.induct)
  case (1 d)
  have "fst \<circ> (\<lambda>(k :: string, v). (k, json_sorted v)) = fst" by auto
  then show ?case using 1 by (auto simp: distinct_dict_sorted list_all_iff)
qed (auto simp: list_all_iff)

lemma dict_ok_sorted: "dict_ok d \<Longrightarrow> dict_ok (dict_sorted d)"
  using json_ok_sorted [of "JDict d"] by (simp add: dict_ok_def dict_sorted_def)

section \<open>A codec\<close>

instance json :: countable
  by countable_datatype

definition unary_line :: "(string \<times> json) list \<Rightarrow> string" where
  "unary_line d = CHR ''{'' # replicate (to_nat (JDict d)) CHR ''x''"

definition unary_loads :: "string \<Rightarrow> line_value option" where
  "unary_loads line =
     (case from_nat (length line - 2) of
        JDict d \<Rightarrow> if dict_ok d \<and> line = unary_line d @ [newline] then Some (LV_Dict d) else None
      | _ \<Rightarrow> None)"

definition unary_codec :: line_codec where
  "unary_codec = \<lparr>lc_dumps = unary_line, lc_dumps_sorted = unary_line \<circ> dict_sorted,
     lc_loads = unary_loads, lc_utf8 = (\<lambda>_. True), lc_blank = (\<lambda>s. s = []), lc_sha = (\<lambda>_. ''0''),
     lc_text = (\<lambda>_. [])\<rparr>"

lemma unary_line_one: "one_line unary_codec (unary_line d)"
  by (auto simp: one_line_def unary_line_def line_break_def blank_def byte_space_def char_in_def
      ascii_def unary_codec_def list_all_iff)

lemma unary_loads_line: "dict_ok d \<Longrightarrow> unary_loads (unary_line d @ [newline]) = Some (LV_Dict d)"
  by (simp add: unary_loads_def unary_line_def)

lemma unary_codec_ok: "codec_ok unary_codec"
  using unary_line_one unary_loads_line dict_ok_sorted
  by (auto simp: codec_ok_def unary_codec_def unary_loads_def split: json.splits if_splits)

lemma unary_line_inj: "unary_line d = unary_line d' \<longleftrightarrow> d = d'"
proof
  assume "unary_line d = unary_line d'"
  then have "length (unary_line d) = length (unary_line d')" by simp
  then show "d = d'" by (simp add: unary_line_def)
qed simp

end
