(* ===== verification/AuditLemmas.thy ===== *)
theory AuditLemmas
  imports AuditLog
begin

text \<open>
  The chain of an audit log as an invariant of its writer: the kept lines, from the oldest archive to
  the active file, each carry the hash of the one before, and the writer holds the hash of the last.
\<close>

section \<open>Lines\<close>

definition is_line :: "string \<Rightarrow> bool" where
  "is_line l \<longleftrightarrow> (\<exists>s. l = s @ [newline] \<and> list_all (\<lambda>c. \<not> line_break c) s \<and> \<not> blank s)"

lemma newline_break: "line_break newline" "newline \<noteq> CHR 0x0D"
  by (simp_all add: line_break_def newline_def)

lemma splitlines_cons:
  assumes "\<not> line_break c"
  shows "splitlines_keep (c # s) = (case splitlines_keep s of [] \<Rightarrow> [[c]] | l # ls \<Rightarrow> (c # l) # ls)"
  using assms by (cases s) (auto simp: line_break_def)

lemma splitlines_newline: "splitlines_keep (newline # s) = [newline] # splitlines_keep s"
  by (cases s) (simp_all add: newline_break newline_def line_break_def)

lemma splitlines_line:
  "list_all (\<lambda>c. \<not> line_break c) s
     \<Longrightarrow> splitlines_keep (s @ newline # t) = (s @ [newline]) # splitlines_keep t"
  by (induction s) (simp_all add: splitlines_newline splitlines_cons)

lemma splitlines_append: "is_line l \<Longrightarrow> splitlines_keep (l @ t) = l # splitlines_keep t"
  by (auto simp: is_line_def splitlines_line)

lemma blank_append: "blank (s @ [newline]) = blank s"
  by (simp add: blank_def byte_space_def char_in_def newline_def)

lemma is_line_not_blank: "is_line l \<Longrightarrow> \<not> blank l"
  by (auto simp: is_line_def blank_append)

lemma content_lines_append: "is_line l \<Longrightarrow> content_lines (l @ t) = l # content_lines t"
  by (simp add: content_lines_def splitlines_append is_line_not_blank)

lemma content_lines_nil [simp]: "content_lines [] = []"
  by (simp add: content_lines_def)

lemma content_lines_concat: "list_all is_line ls \<Longrightarrow> content_lines (concat ls) = ls"
  by (induction ls) (simp_all add: content_lines_append)

section \<open>What a written line says\<close>

definition prev_json :: "string option \<Rightarrow> json" where
  "prev_json prev = (case prev of None \<Rightarrow> JNull | Some h \<Rightarrow> JStr h)"

lemma event_dict_ok:
  "dict_ok (event_to_dict e @ [(''prev_hash'', prev_json prev)]) = json_ok (JDict (le_payload e))"
  by (auto simp: dict_ok_def event_to_dict_def prev_json_def split: option.split)

lemma event_line_loads:
  assumes "codec_ok cd" and "json_ok (JDict (le_payload e))"
  shows "is_line (event_line cd e prev)"
    and "lc_loads cd (event_line cd e prev)
      = Some (LV_Dict (event_to_dict e @ [(''prev_hash'', prev_json prev)]))"
  using assms event_dict_ok [of e prev]
  by (auto simp: codec_ok_def event_line_def is_line_def one_line_def prev_json_def)

text \<open>The hash a line claims, when it is chained.\<close>

definition claims :: "line_codec \<Rightarrow> string \<Rightarrow> json \<Rightarrow> bool" where
  "claims cd line h \<longleftrightarrow> (\<exists>d. lc_loads cd line = Some (LV_Dict d) \<and> map_of d ''prev_hash'' = Some h)"

lemma event_line_claims:
  assumes "codec_ok cd" and "json_ok (JDict (le_payload e))"
  shows "claims cd (event_line cd e prev) (prev_json prev)"
  unfolding claims_def event_line_loads(2) [OF assms]
  by (simp add: event_to_dict_def)

section \<open>Chains\<close>

text \<open>Every line but the first claims the hash of the one before it.\<close>

fun chained_from :: "line_codec \<Rightarrow> string \<Rightarrow> string list \<Rightarrow> bool" where
  "chained_from cd p [] = True"
| "chained_from cd p (l # ls) = (claims cd l (JStr (lc_sha cd p)) \<and> chained_from cd l ls)"

definition chained :: "line_codec \<Rightarrow> string list \<Rightarrow> bool" where
  "chained cd ls \<longleftrightarrow> (case ls of [] \<Rightarrow> True | l # ls \<Rightarrow> (\<exists>h. claims cd l h) \<and> chained_from cd l ls)"

lemma chained_from_append:
  "chained_from cd p (xs @ ys) \<longleftrightarrow> chained_from cd p xs \<and> chained_from cd (last (p # xs)) ys"
  by (induction xs arbitrary: p) auto

lemma chained_Nil [simp]: "chained cd []"
  by (simp add: chained_def)

lemma chained_snoc:
  "chained cd (ls @ [l]) \<longleftrightarrow>
     (if ls = [] then \<exists>h. claims cd l h else chained cd ls \<and> claims cd l (JStr (lc_sha cd (last ls))))"
  by (cases ls) (auto simp: chained_def chained_from_append)

lemma chained_from_chained: "chained_from cd p ls \<Longrightarrow> chained cd ls"
  by (cases ls) (auto simp: chained_def)

lemma chained_append:
  "chained cd (xs @ ys) \<longleftrightarrow>
     chained cd xs \<and> (if xs = [] then chained cd ys else chained_from cd (last xs) ys)"
  by (cases xs) (auto simp: chained_def chained_from_append)

lemma chained_suffix: "chained cd (xs @ ys) \<Longrightarrow> chained cd ys"
  by (auto simp: chained_append split: if_splits intro: chained_from_chained)

text \<open>The verifier walks such lines without a break, and nothing else.\<close>

definition walk_after :: "string list \<Rightarrow> chain_walk \<Rightarrow> chain_walk" where
  "walk_after ls cw =
     (if ls = [] then cw
      else cw\<lparr>cw_lines := cw_lines cw + length ls, cw_chained := cw_chained cw + length ls,
              cw_prev := Some (last ls), cw_started := True\<rparr>)"

definition chain_after :: "line_codec \<Rightarrow> chain_walk \<Rightarrow> string list \<Rightarrow> bool" where
  "chain_after cd cw ls \<longleftrightarrow>
     (case cw_prev cw of None \<Rightarrow> chained cd ls | Some p \<Rightarrow> chained_from cd p ls)"

lemma walk_line_chained:
  assumes "chain_after cd cw [l]"
  shows "walk_line cd l cw = Inr (Inr (chained_line l cw))"
  using assms
  by (auto simp: chain_after_def chained_def claims_def walk_line_def split: option.splits)

lemma chain_after_Cons:
  "chain_after cd cw (l # ls) \<longleftrightarrow> chain_after cd cw [l] \<and> chained_from cd l ls"
  by (auto simp: chain_after_def chained_def split: option.split)

lemma walk_lines_chained:
  "chain_after cd cw ls \<Longrightarrow> walk_lines cd idx ls cw = Inr (walk_after ls cw, None)"
proof (induction ls arbitrary: idx cw)
  case Nil
  then show ?case by (simp add: walk_after_def)
next
  case (Cons l ls)
  let ?cw = "chained_line l (cw\<lparr>cw_lines := Suc (cw_lines cw)\<rparr>)"
  have l: "chain_after cd (cw\<lparr>cw_lines := Suc (cw_lines cw)\<rparr>) [l]"
    using Cons.prems by (simp add: chain_after_Cons [of _ _ l ls]) (simp add: chain_after_def)
  have "chain_after cd ?cw ls"
    using Cons.prems by (simp add: chain_after_Cons [of _ _ l ls]) (simp add: chain_after_def chained_line_def)
  from Cons.IH [OF this] show ?case
    using walk_line_chained [OF l] by (simp add: Let_def walk_after_def chained_line_def)
qed

lemma walk_after_append: "walk_after (xs @ ys) cw = walk_after ys (walk_after xs cw)"
  by (simp add: walk_after_def)

lemma chain_after_append:
  "chain_after cd cw (xs @ ys) \<longleftrightarrow> chain_after cd cw xs \<and> chain_after cd (walk_after xs cw) ys"
  by (cases xs) (auto simp: chain_after_def walk_after_def chained_from_append chained_def
      split: option.split)

lemma walk_files_chained:
  "chain_after cd cw (concat (map (content_lines \<circ> snd) fs))
     \<Longrightarrow> walk_files cd fs cw = Inr (walk_after (concat (map (content_lines \<circ> snd) fs)) cw, None)"
proof (induction fs arbitrary: cw)
  case Nil
  then show ?case by (simp add: walk_after_def)
next
  case (Cons f fs)
  obtain n raw where f: "f = (n, raw)" by fastforce
  show ?case
    using Cons by (simp add: f chain_after_append walk_after_append walk_lines_chained)
qed

section \<open>The files of a log\<close>

definition kept_lines :: "log_files \<Rightarrow> nat \<Rightarrow> string list" where
  "kept_lines files k =
     concat (map (\<lambda>n. content_lines (file_bytes (map_of (lf_archives files) n))) (rev [1..<Suc k]))
     @ content_lines (file_bytes (lf_active files))"

lemma probe_contiguous:
  "dom (map_of a) = {1..k} \<Longrightarrow> 1 \<le> n \<Longrightarrow> n \<le> Suc k \<Longrightarrow> probe_archives a n = [n..<Suc k]"
proof (induction "Suc k - n" arbitrary: n)
  case 0
  then have "n \<notin> {1..k}" by simp
  then have "n \<notin> dom (map_of a)" using 0(2) by simp
  then have none: "map_of a n = None" by (simp only: domIff not_not)
  have "n = Suc k" using 0 by simp
  with none show ?case by (subst probe_archives.simps) simp
next
  case (Suc m)
  then have "n \<in> dom (map_of a)" by simp
  then have "map_of a n \<noteq> None" by (simp add: domIff)
  moreover have "probe_archives a (Suc n) = [Suc n..<Suc k]" using Suc by simp
  moreover have "n \<le> k" using Suc.hyps(2) by simp
  ultimately show ?case by (subst probe_archives.simps) (simp add: upt_conv_Cons)
qed

lemma present_lines:
  "concat (map (content_lines \<circ> snd) (present_files files ns))
     = concat (map (\<lambda>n. content_lines (file_bytes (log_file files n))) ns)"
  by (induction ns) (auto simp: present_files_def file_bytes_def split: option.split)

lemma kept_lines_more:
  "dom (map_of (lf_archives files)) \<subseteq> {1..k} \<Longrightarrow> k \<le> m \<Longrightarrow> kept_lines files m = kept_lines files k"
proof (induction m)
  case (Suc m)
  show ?case
  proof (cases "k = Suc m")
    case False
    then have "map_of (lf_archives files) (Suc m) = None" using Suc.prems by (auto simp: domIff [symmetric])
    then have "kept_lines files (Suc m) = kept_lines files m"
      by (simp add: kept_lines_def file_bytes_def)
    then show ?thesis using Suc False by simp
  qed simp
qed simp

lemma walked_lines:
  assumes "dom (map_of (lf_archives files)) = {1..k}" and "k \<le> m"
  shows "concat (map (content_lines \<circ> snd) (present_files files (enumerate_chain_files files True)))
       = kept_lines files m"
proof -
  have "enumerate_chain_files files True = rev [1..<Suc k] @ [0]"
    using probe_contiguous [OF assms(1), of 1] by (simp add: enumerate_chain_files_def)
  then have "concat (map (content_lines \<circ> snd) (present_files files (enumerate_chain_files files True)))
      = concat (map (\<lambda>n. content_lines (file_bytes (log_file files n))) (rev [1..<Suc k] @ [0]))"
    by (simp only: present_lines)
  also have "\<dots> = kept_lines files k"
  proof -
    have "map (\<lambda>n. content_lines (file_bytes (log_file files n))) (rev [1..<Suc k])
        = map (\<lambda>n. content_lines (file_bytes (map_of (lf_archives files) n))) (rev [1..<Suc k])"
      by (rule map_cong) (auto simp: log_file_def simp del: upt_Suc)
    then show ?thesis
      by (simp only: kept_lines_def map_append concat_append) (simp add: log_file_def)
  qed
  finally have "concat (map (content_lines \<circ> snd) (present_files files (enumerate_chain_files files True)))
      = kept_lines files k" .
  then show ?thesis using kept_lines_more [of files k m] assms by simp
qed

text \<open>One rotation of the archives.\<close>

lemma shift_archives_map:
  "n \<le> most \<Longrightarrow> (n < most \<longrightarrow> map_of a (Suc n) = None)
     \<Longrightarrow> map_of (shift_archives most n a) m =
        (if m = 0 \<or> Suc n < m \<or> (n = most \<and> m = Suc n) then map_of a m
         else if m = 1 then None else map_of a (m - 1))"
proof (induction n arbitrary: a)
  case 0
  then show ?case by (cases "m = 1") auto
next
  case (Suc n)
  define b where "b = (case map_of a (Suc n) of
          None \<Rightarrow> a
        | Some raw \<Rightarrow>
            if Suc n = most then AList.delete (Suc n) a
            else AList.update (Suc (Suc n)) raw (AList.delete (Suc n) a))"
  have b: "map_of b = (if Suc n = most then (map_of a)(Suc n := None)
      else (map_of a)(Suc n := None, Suc (Suc n) := map_of a (Suc n)))"
    using Suc.prems
    by (auto simp: b_def AList.update_conv' AList.delete_conv' fun_eq_iff split: option.split)
  have "shift_archives most (Suc n) a = shift_archives most n b" by (simp add: b_def)
  moreover have "map_of b (Suc n) = None" by (simp add: b)
  ultimately show ?case using Suc.IH [of b] Suc.prems by (auto simp: b)
qed

section \<open>The invariant of the writer\<close>

definition lines_file :: "string option \<Rightarrow> bool" where
  "lines_file f \<longleftrightarrow> (\<exists>ls. file_bytes f = concat ls \<and> list_all is_line ls)"

lemma lines_file_None [simp]: "lines_file None" "lines_file (Some [])"
  by (auto simp: lines_file_def file_bytes_def intro: exI [of _ "[]"])

lemma lines_file_bytes: "lines_file (Some (file_bytes f)) = lines_file f"
  by (simp add: lines_file_def file_bytes_def split: option.split)

lemma content_lines_file: "lines_file f \<Longrightarrow> file_bytes f = concat (content_lines (file_bytes f))
    \<and> list_all is_line (content_lines (file_bytes f))"
  by (auto simp: lines_file_def content_lines_concat)

lemma append_line:
  assumes "lines_file f" and "is_line l"
  shows "content_lines (file_bytes f @ l) = content_lines (file_bytes f) @ [l]"
    and "lines_file (Some (file_bytes f @ l))"
proof -
  obtain ls where ls: "file_bytes f = concat ls" "list_all is_line ls"
    using assms(1) by (auto simp: lines_file_def)
  have c: "file_bytes f @ l = concat (ls @ [l])" using ls(1) by simp
  have "list_all is_line (ls @ [l])" using ls(2) assms(2) by simp
  with c show "content_lines (file_bytes f @ l) = content_lines (file_bytes f) @ [l]"
    "lines_file (Some (file_bytes f @ l))"
    using content_lines_concat [of "ls @ [l]"] content_lines_concat [OF ls(2)] ls(1)
    by (auto simp: lines_file_def file_bytes_def simp del: concat_append)
qed

definition tip :: "line_codec \<Rightarrow> string list \<Rightarrow> string option" where
  "tip cd ls = (if ls = [] then None else Some (lc_sha cd (last ls)))"

definition archives_ok :: "nat \<Rightarrow> log_files \<Rightarrow> bool" where
  "archives_ok most files \<longleftrightarrow>
     (\<exists>k \<le> most. dom (map_of (lf_archives files)) = {1..k})
     \<and> (\<forall>n. lines_file (map_of (lf_archives files) n)) \<and> lines_file (lf_active files)"

text \<open>The kept lines are chained, and an active file without lines has no archive before it.\<close>

definition log_inv :: "line_codec \<Rightarrow> audit_writer \<Rightarrow> bool" where
  "log_inv cd w \<longleftrightarrow>
     (let ls = kept_lines (aw_files w) (aw_max_rotated w)
      in archives_ok (aw_max_rotated w) (aw_files w) \<and> chained cd ls
         \<and> (content_lines (file_bytes (lf_active (aw_files w))) = [] \<longrightarrow> ls = [])
         \<and> (aw_initialized w \<longrightarrow> aw_last_hash w = tip cd ls \<and> lf_active (aw_files w) \<noteq> None))"

lemma last_line_hash_tip: "last_line_hash cd f = tip cd (content_lines (file_bytes f))"
  by (simp add: last_line_hash_def tip_def hd_rev [symmetric] split: list.split)

lemma kept_lines_active:
  "kept_lines (files\<lparr>lf_active := f\<rparr>) k
     = kept_lines (files\<lparr>lf_active := None\<rparr>) k @ content_lines (file_bytes f)"
  by (simp add: kept_lines_def file_bytes_def [of None])

lemma tip_kept:
  assumes "content_lines (file_bytes (lf_active files)) = [] \<longrightarrow> kept_lines files k = []"
  shows "tip cd (content_lines (file_bytes (lf_active files))) = tip cd (kept_lines files k)"
  using assms by (auto simp: tip_def kept_lines_def)

lemma ensure_init_inv:
  assumes "log_inv cd w"
  shows "log_inv cd (ensure_init cd w)" and "aw_initialized (ensure_init cd w)"
    and "kept_lines (aw_files (ensure_init cd w)) k = kept_lines (aw_files w) k"
    and "aw_max_rotated (ensure_init cd w) = aw_max_rotated w"
proof -
  let ?files = "(aw_files w)\<lparr>lf_active := Some (file_bytes (lf_active (aw_files w)))\<rparr>"
  have kept: "kept_lines ?files k = kept_lines (aw_files w) k" for k
    by (simp add: kept_lines_def file_bytes_def [of "Some _"])
  have bytes: "file_bytes (Some (file_bytes f)) = file_bytes f" for f
    by (simp add: file_bytes_def [of "Some _"])
  show "log_inv cd (ensure_init cd w)"
    using assms tip_kept [of "aw_files w" "aw_max_rotated w" cd]
    by (auto simp: log_inv_def ensure_init_def Let_def archives_ok_def kept bytes lines_file_bytes
        last_line_hash_tip)
  show "kept_lines (aw_files (ensure_init cd w)) k = kept_lines (aw_files w) k"
    by (simp add: ensure_init_def kept)
qed (simp_all add: ensure_init_def)

text \<open>A rotation keeps the newest lines and their hash.\<close>

definition rotated :: "line_codec \<Rightarrow> audit_writer \<Rightarrow> audit_writer \<Rightarrow> bool" where
  "rotated cd w w' \<longleftrightarrow>
     archives_ok (aw_max_rotated w') (aw_files w') \<and> aw_max_rotated w' = aw_max_rotated w
     \<and> lf_active (aw_files w') = None
     \<and> (\<exists>j. kept_lines (aw_files w') (aw_max_rotated w) = drop j (kept_lines (aw_files w) (aw_max_rotated w)))
     \<and> (kept_lines (aw_files w') (aw_max_rotated w) = []
        \<or> aw_last_hash w' = tip cd (kept_lines (aw_files w') (aw_max_rotated w)))"

lemma tip_suffix: "ys = [] \<or> tip cd (xs @ ys) = tip cd ys"
  by (simp add: tip_def)

lemma rotated_archives:
  assumes "dom (map_of a) = {1..k}" and "k \<le> most" and "1 \<le> most"
  shows "map_of (AList.update 1 raw (shift_archives most most a)) m =
     (if m = 1 then Some raw else if 2 \<le> m \<and> m \<le> most then map_of a (m - 1) else None)"
proof -
  have none: "map_of a m = None" if "m = 0 \<or> most < m" for m
  proof -
    have "m \<notin> dom (map_of a)" using assms(1,2) that by auto
    then show ?thesis by (simp only: domIff not_not)
  qed
  show ?thesis
    using shift_archives_map [of most most a m] none [of m] none [of 0] assms(3)
    by (auto simp: AList.update_conv')
qed

lemma rotate_log_rotated:
  assumes "log_inv cd w" and "aw_initialized w"
  shows "rotated cd w (rotate_log w)"
proof -
  let ?most = "aw_max_rotated w" and ?files = "aw_files w"
  obtain k where k: "k \<le> ?most" "dom (map_of (lf_archives ?files)) = {1..k}"
    and files: "\<And>n. lines_file (map_of (lf_archives ?files) n)" "lines_file (lf_active ?files)"
    using assms(1) by (auto simp: log_inv_def archives_ok_def Let_def)
  obtain raw where raw: "lf_active ?files = Some raw"
    and hash: "aw_last_hash w = tip cd (kept_lines ?files ?most)"
    using assms by (auto simp: log_inv_def Let_def)
  show ?thesis
  proof (cases "1 \<le> ?most")
    case False
    then have most: "?most = 0" "k = 0" using k(1) by simp_all
    have "\<exists>j. [] = drop j (kept_lines ?files 0)" by (intro exI [of _ "length (kept_lines ?files 0)"]) simp
    then show ?thesis
      using raw k(2) files(1)
      by (simp add: rotated_def rotate_log_def archives_ok_def most kept_lines_def file_bytes_def)
  next
    case True
    let ?a = "lf_archives ?files" and ?b = "AList.update 1 raw (shift_archives ?most ?most (lf_archives ?files))"
    let ?arch = "\<lambda>n. content_lines (file_bytes (map_of ?a n))"
    note b = rotated_archives [OF k(2,1) True, of raw]
    have "m \<in> dom (map_of ?b) \<longleftrightarrow> m \<in> {1..min (Suc k) ?most}" for m
    proof -
      have "map_of ?a (m - 1) \<noteq> None \<longleftrightarrow> m - 1 \<in> {1..k}" using k(2) by (auto simp: dom_def)
      then show ?thesis using b [of m] True k(1) by (auto simp: domIff)
    qed
    then have dom: "dom (map_of ?b) = {1..min (Suc k) ?most}" by blast
    have lines: "lines_file (map_of ?b n)" for n using b [of n] files raw by auto
    have split: "rev [1..<Suc ?most] = map Suc (rev [1..<?most]) @ [1]"
      using True by (simp add: rev_map [symmetric] map_Suc_upt upt_conv_Cons del: upt_Suc)
    have top: "rev [1..<Suc ?most] = ?most # rev [1..<?most]" using True by simp
    have older: "map (\<lambda>n. content_lines (file_bytes (map_of ?b (Suc n)))) (rev [1..<?most])
        = map ?arch (rev [1..<?most])"
      by (rule map_cong) (auto simp: b [unfolded One_nat_def])
    have newest: "map_of ?b 1 = Some raw" using b [of 1] by simp
    have kept: "kept_lines \<lparr>lf_active = None, lf_archives = ?b\<rparr> ?most
        = concat (map ?arch (rev [1..<?most])) @ content_lines raw"
      unfolding kept_lines_def split map_append concat_append map_map comp_def log_files.simps older
      by (simp only: list.map newest) (simp add: file_bytes_def)
    have old: "kept_lines ?files ?most
        = ?arch ?most @ (concat (map ?arch (rev [1..<?most])) @ content_lines raw)"
      unfolding kept_lines_def top by (simp add: raw file_bytes_def [of "Some raw"])
    have "\<exists>j. kept_lines \<lparr>lf_active = None, lf_archives = ?b\<rparr> ?most = drop j (kept_lines ?files ?most)"
      unfolding kept old by (intro exI [of _ "length (?arch ?most)"]) simp
    moreover have "kept_lines \<lparr>lf_active = None, lf_archives = ?b\<rparr> ?most = []
        \<or> aw_last_hash w = tip cd (kept_lines \<lparr>lf_active = None, lf_archives = ?b\<rparr> ?most)"
      unfolding hash kept old by (rule tip_suffix)
    ultimately show ?thesis
      using raw True dom lines
      by (auto simp: rotated_def rotate_log_def archives_ok_def Let_def
          intro!: exI [of _ "min (Suc k) ?most"])
  qed
qed

text \<open>A write keeps the invariant and appends its line to what is kept.\<close>

lemma write_log_step:
  assumes "log_inv cd w" and "codec_ok cd" and "json_ok (JDict (le_payload e))"
    and "write_log cd e w = (w', out)"
  shows "log_inv cd w' \<and> aw_max_rotated w' = aw_max_rotated w
     \<and> (\<exists>j prev. kept_lines (aw_files w') (aw_max_rotated w')
          = drop j (kept_lines (aw_files w) (aw_max_rotated w)) @ [event_line cd e prev])"
proof -
  let ?w0 = "ensure_init cd w" and ?most = "aw_max_rotated w"
  let ?w1 = "maybe_rotate_for cd e ?w0"
  let ?line = "event_line cd e (aw_last_hash ?w1)"
  note init = ensure_init_inv [OF assms(1)]
  have w': "w' = (append_no_rotate ?line ?w1)\<lparr>aw_last_hash := Some (lc_sha cd ?line)\<rparr>"
    using assms(4) by (simp add: write_log_def Let_def)
  have line: "is_line ?line" "claims cd ?line (prev_json (aw_last_hash ?w1))"
    using event_line_loads(1) [OF assms(2,3)] event_line_claims [OF assms(2,3)] by blast+
  have one: "archives_ok ?most (aw_files ?w1) \<and> aw_max_rotated ?w1 = ?most
      \<and> (\<exists>j. kept_lines (aw_files ?w1) ?most = drop j (kept_lines (aw_files w) ?most))
      \<and> (kept_lines (aw_files ?w1) ?most = [] \<or> aw_last_hash ?w1 = tip cd (kept_lines (aw_files ?w1) ?most))"
  proof (cases "maybe_rotate_for cd e ?w0 = ?w0")
    case True
    then show ?thesis using init by (auto simp: log_inv_def Let_def intro: exI [of _ 0])
  next
    case False
    then have "?w1 = rotate_log ?w0" by (simp add: maybe_rotate_for_def split: if_splits)
    then show ?thesis
      using rotate_log_rotated [OF init(1,2)] init(3,4) by (auto simp: rotated_def)
  qed
  then obtain j where j: "kept_lines (aw_files ?w1) ?most = drop j (kept_lines (aw_files w) ?most)" by blast
  let ?ls = "kept_lines (aw_files ?w1) ?most"
  have active: "lines_file (lf_active (aw_files ?w1))" using one by (simp add: archives_ok_def)
  note appended = append_line [OF active line(1)]
  have files: "aw_files w' = (aw_files ?w1)\<lparr>lf_active := Some (file_bytes (lf_active (aw_files ?w1)) @ ?line)\<rparr>"
    by (simp add: w' append_no_rotate_def)
  have kept: "kept_lines (aw_files w') ?most = ?ls @ [?line]"
    using appended(1) by (simp add: kept_lines_def files file_bytes_def [of "Some _"])
  have "chained cd ?ls"
  proof -
    have "chained cd (kept_lines (aw_files w) ?most)" using assms(1) by (simp add: log_inv_def Let_def)
    then show ?thesis
      unfolding j using chained_suffix [of cd "take j (kept_lines (aw_files w) ?most)"] by simp
  qed
  then have "chained cd (?ls @ [?line])"
    using one line(2) by (auto simp: chained_snoc tip_def prev_json_def)
  moreover have "archives_ok ?most (aw_files w')"
    using one appended(2) by (auto simp: archives_ok_def files)
  moreover have "content_lines (file_bytes (lf_active (aw_files w'))) \<noteq> []"
    using appended(1) by (simp add: files file_bytes_def [of "Some _"])
  ultimately have "log_inv cd w'"
    using one kept by (simp add: log_inv_def Let_def w' append_no_rotate_def files tip_def)
  then show ?thesis using one kept j by (auto simp: w' append_no_rotate_def)
qed

end
