(* ===== verification/AuditProps.thy ===== *)
theory AuditProps
  imports AuditLemmas
begin

text \<open>
  What the audit log guarantees: whatever is written, rotated away or picked up after a restart, the
  kept history verifies; two histories that verify and end alike differ only where the hash collides;
  what is written is read back. And what it does not: the ends of a log can be changed unseen, and a
  crash within a rotation leaves a log on which the verifier fails.
\<close>

section \<open>What is written verifies\<close>

definition fresh_files :: log_files where
  "fresh_files = \<lparr>lf_active = None, lf_archives = []\<rparr>"

inductive log_step :: "line_codec \<Rightarrow> audit_writer \<Rightarrow> audit_writer \<Rightarrow> bool" for cd where
  log_write: "json_ok (JDict (le_payload e)) \<Longrightarrow> log_step cd w (fst (write_log cd e w))"
| log_restart: "log_step cd w (restart w)"
| log_subscribe: "log_step cd w (subscribe s w)"
| log_unsubscribe: "log_step cd w (unsubscribe s w)"

lemma kept_fresh: "kept_lines fresh_files k = []"
  using kept_lines_more [of fresh_files 0 k]
  by (simp add: kept_lines_def [of _ 0] fresh_files_def file_bytes_def)

lemma fresh_inv: "AuditWriter fresh_files max_size most = Inr w \<Longrightarrow> log_inv cd w"
  by (auto simp: AuditWriter_def log_inv_def archives_ok_def kept_fresh Let_def split: if_splits)
    (auto simp: fresh_files_def intro: exI [of _ 0])

lemma log_step_inv: "log_step cd w w' \<Longrightarrow> codec_ok cd \<Longrightarrow> log_inv cd w \<Longrightarrow> log_inv cd w'"
proof (induction rule: log_step.induct)
  case (log_write e w)
  then show ?case using write_log_step [of cd w e "fst (write_log cd e w)" "snd (write_log cd e w)"] by simp
qed (simp_all add: log_inv_def restart_def subscribe_def unsubscribe_def Let_def)

lemma log_steps_inv: "(log_step cd)\<^sup>*\<^sup>* w w' \<Longrightarrow> codec_ok cd \<Longrightarrow> log_inv cd w \<Longrightarrow> log_inv cd w'"
  by (induction rule: rtranclp_induct) (auto intro: log_step_inv)

text \<open>The lines the verifier walks.\<close>

definition log_content :: "log_files \<Rightarrow> bool \<Rightarrow> string list" where
  "log_content files include_rotated =
     concat (map (content_lines \<circ> snd) (present_files files (enumerate_chain_files files include_rotated)))"

lemma log_content_active: "log_content files False = content_lines (file_bytes (lf_active files))"
  by (simp add: log_content_def present_lines enumerate_chain_files_def log_file_def)

lemma verify_chained:
  assumes "chained cd (log_content files inc)"
  shows "\<exists>r. verify_audit_chain cd files inc = Inr r \<and> vr_ok r \<and> vr_n_legacy_prefix r = 0
     \<and> vr_n_lines r = length (log_content files inc) \<and> vr_n_chained r = length (log_content files inc)"
proof (cases "present_files files (enumerate_chain_files files inc) = []")
  case True
  then show ?thesis by (simp add: verify_audit_chain_def Let_def log_content_def walk_start_def)
next
  case False
  have "chain_after cd walk_start (log_content files inc)"
    using assms by (simp add: chain_after_def walk_start_def)
  from walk_files_chained [OF this [unfolded log_content_def]] False show ?thesis
    by (auto simp: verify_audit_chain_def Let_def log_content_def walk_after_def walk_start_def)
qed

lemma inv_chained:
  assumes "log_inv cd w"
  shows "chained cd (log_content (aw_files w) inc)"
proof -
  obtain k where k: "k \<le> aw_max_rotated w" "dom (map_of (lf_archives (aw_files w))) = {1..k}"
    and c: "chained cd (kept_lines (aw_files w) (aw_max_rotated w))"
    using assms by (auto simp: log_inv_def archives_ok_def Let_def)
  have "log_content (aw_files w) True = kept_lines (aw_files w) (aw_max_rotated w)"
    using walked_lines [OF k(2,1)] by (simp add: log_content_def)
  moreover have "chained cd (log_content (aw_files w) False)"
    using c chained_suffix by (auto simp: log_content_active kept_lines_def)
  ultimately show ?thesis using c by (cases inc) simp_all
qed

text \<open>
  C10: a log started on no files verifies after any sequence of writes, restarts and subscriptions,
  whatever the size limit makes the writer rotate away: the verifier reports no break, in the active
  file alone or across the archives, and every line it counts is chained.
\<close>

theorem audit_log_verifies:
  assumes "codec_ok cd" and "AuditWriter fresh_files max_size most = Inr w0"
    and "(log_step cd)\<^sup>*\<^sup>* w0 w"
  shows "\<exists>r. verify_audit_chain cd (aw_files w) include_rotated = Inr r \<and> vr_ok r
     \<and> vr_n_legacy_prefix r = 0 \<and> vr_n_chained r = vr_n_lines r"
  using verify_chained [OF inv_chained [OF log_steps_inv [OF assms(3,1) fresh_inv [OF assms(2)]]]]
  by fastforce

section \<open>Tampering\<close>

lemma walk_line_legacy:
  assumes "walk_line cd l cw = Inr (Inr cw')"
  shows "cw_lines cw' = cw_lines cw \<and> cw_legacy cw \<le> cw_legacy cw'
     \<and> (cw_legacy cw' = cw_legacy cw \<longrightarrow> cw' = chained_line l cw \<and> chain_after cd cw [l])"
  using assms
  by (auto simp: walk_line_def legacy_line_def chained_line_def chain_after_def chained_def claims_def
      split: option.splits line_value.splits if_splits)

lemma walk_lines_legacy:
  "walk_lines cd idx ls cw = Inr (cw', None)
     \<Longrightarrow> cw_lines cw' = cw_lines cw + length ls \<and> cw_legacy cw \<le> cw_legacy cw'
       \<and> (cw_legacy cw' = cw_legacy cw \<longrightarrow> cw' = walk_after ls cw \<and> chain_after cd cw ls)"
proof (induction ls arbitrary: idx cw)
  case Nil
  then show ?case by (simp add: walk_after_def chain_after_def split: option.split)
next
  case (Cons l ls)
  let ?cw = "cw\<lparr>cw_lines := Suc (cw_lines cw)\<rparr>"
  obtain cw1 where l: "walk_line cd l ?cw = Inr (Inr cw1)" "walk_lines cd (Suc idx) ls cw1 = Inr (cw', None)"
    using Cons.prems by (auto simp: Let_def split: sum.splits)
  note first = walk_line_legacy [OF l(1)] and rest = Cons.IH [OF l(2)]
  have c: "chain_after cd cw [l]" if "chain_after cd ?cw [l]"
    using that by (simp add: chain_after_def)
  show ?case
    using first rest c
    by (auto simp: walk_after_def chained_line_def chain_after_Cons [of cd cw l ls])
      (auto simp: chain_after_def)
qed

lemma walk_files_legacy:
  "walk_files cd fs cw = Inr (cw', None)
     \<Longrightarrow> cw_lines cw' = cw_lines cw + length (concat (map (content_lines \<circ> snd) fs))
       \<and> cw_legacy cw \<le> cw_legacy cw'
       \<and> (cw_legacy cw' = cw_legacy cw \<longrightarrow> chain_after cd cw (concat (map (content_lines \<circ> snd) fs)))"
proof (induction fs arbitrary: cw)
  case Nil
  then show ?case by (simp add: chain_after_def split: option.split)
next
  case (Cons f fs)
  obtain n raw where f: "f = (n, raw)" by fastforce
  obtain cw1 where l: "walk_lines cd 1 (content_lines raw) cw = Inr (cw1, None)"
      "walk_files cd fs cw1 = Inr (cw', None)"
    using Cons.prems by (auto simp: f split: sum.splits option.splits)
  show ?case
    using walk_lines_legacy [OF l(1)] Cons.IH [OF l(2)] by (auto simp: f chain_after_append)
qed

lemma verified_chained:
  assumes "verify_audit_chain cd files inc = Inr r" and "vr_ok r" and "vr_n_legacy_prefix r = 0"
  shows "chained cd (log_content files inc) \<and> vr_n_lines r = length (log_content files inc)"
proof (cases "present_files files (enumerate_chain_files files inc) = []")
  case True
  then show ?thesis using assms(1) by (auto simp: verify_audit_chain_def Let_def log_content_def walk_start_def)
next
  case False
  then obtain cw where w: "walk_files cd (present_files files (enumerate_chain_files files inc)) walk_start
      = Inr (cw, None)" and r: "vr_n_lines r = cw_lines cw" "vr_n_legacy_prefix r = cw_legacy cw"
    using assms(1,2)
    by (auto simp: verify_audit_chain_def Let_def split: sum.splits option.splits prod.splits)
  show ?thesis
    using walk_files_legacy [OF w] r assms(3)
    by (simp add: log_content_def chain_after_def walk_start_def)
qed

lemma claims_unique: "claims cd l h \<Longrightarrow> claims cd l h' \<Longrightarrow> h = h'"
  by (auto simp: claims_def)

text \<open>Two chains of one length with the same last line are the same, or hold a collision.\<close>

lemma chain_collision:
  assumes "length xs = length ys" and "xs \<noteq> []" and "last xs = last ys"
    and "chained cd xs" and "chained cd ys" and "xs \<noteq> ys"
  shows "\<exists>x \<in> set xs. \<exists>y \<in> set ys. x \<noteq> y \<and> lc_sha cd x = lc_sha cd y"
  using assms
proof (induction xs ys rule: rev_induct2)
  case (4 x xs y ys)
  have xy: "x = y" "length xs = length ys" "xs \<noteq> ys" using 4 by auto
  then have ne: "xs \<noteq> []" "ys \<noteq> []" by auto
  have c: "chained cd xs" "chained cd ys" "lc_sha cd (last xs) = lc_sha cd (last ys)"
    using 4(5,6) ne xy(1) claims_unique [of cd y] by (auto simp: chained_snoc)
  show ?case
  proof (cases "last xs = last ys")
    case True
    then show ?thesis using 4(1) [OF xy(2) ne(1) True c(1,2) xy(3)] by auto
  next
    case False
    then show ?thesis using c(3) ne by (intro bexI [of _ "last xs"] bexI [of _ "last ys"]) auto
  qed
qed simp_all

text \<open>
  C11: when two logs verify, hold the same number of lines, all of them chained, and end in the same
  line, they are the same, or a line of the one and a different line of the other have the same hash.
  So whoever cannot find a collision, and cannot replace the last line, can neither edit nor reorder
  any line of a log unseen.
\<close>

theorem tampering_needs_collision:
  assumes "verify_audit_chain cd files inc = Inr r" and "vr_ok r" and "vr_n_legacy_prefix r = 0"
    and "verify_audit_chain cd files' inc' = Inr r'" and "vr_ok r'" and "vr_n_legacy_prefix r' = 0"
    and "vr_n_lines r = vr_n_lines r'" and "log_content files inc \<noteq> []"
    and "last (log_content files inc) = last (log_content files' inc')"
    and "log_content files inc \<noteq> log_content files' inc'"
  shows "\<exists>x \<in> set (log_content files inc). \<exists>y \<in> set (log_content files' inc').
     x \<noteq> y \<and> lc_sha cd x = lc_sha cd y"
proof -
  note a = verified_chained [OF assms(1-3)] and b = verified_chained [OF assms(4-6)]
  have "length (log_content files inc) = length (log_content files' inc')" using a b assms(7) by simp
  from chain_collision [OF this assms(8,9) _ _ assms(10)] a b show ?thesis by blast
qed

section \<open>What the verifier cannot see\<close>

definition log_of :: "string list \<Rightarrow> log_files" where
  "log_of ls = \<lparr>lf_active = Some (concat ls), lf_archives = []\<rparr>"

definition passes :: "line_codec \<Rightarrow> string list \<Rightarrow> bool" where
  "passes cd ls \<longleftrightarrow>
     (case verify_audit_chain cd (log_of ls) True of Inl _ \<Rightarrow> False | Inr r \<Rightarrow> vr_ok r)"

lemma log_of_content: "list_all is_line ls \<Longrightarrow> log_content (log_of ls) True = ls"
  using walked_lines [of "log_of ls" 0 0]
  by (simp add: log_content_def log_of_def kept_lines_def file_bytes_def content_lines_concat)

lemma passes_chained: "list_all is_line ls \<Longrightarrow> chained cd ls \<Longrightarrow> passes cd ls"
  using verify_chained [of cd "log_of ls" True] by (auto simp: log_of_content passes_def)

text \<open>
  Of a log that verifies, the verifier accepts every one of these changes: another last line that
  claims the same hash, no last line, and no first line. Nothing follows the last line to commit to
  it, and the first line may claim any hash.
\<close>

theorem ends_of_log_unprotected:
  assumes "list_all is_line (ls @ [l])" and "chained cd (ls @ [l])" and "ls \<noteq> []"
    and "is_line l'" and "claims cd l' (JStr (lc_sha cd (last ls)))"
  shows "passes cd (ls @ [l]) \<and> passes cd (ls @ [l']) \<and> passes cd ls \<and> passes cd (tl (ls @ [l]))"
proof -
  have c: "chained cd ls" using assms(2,3) by (simp add: chained_snoc)
  then have "chained cd (ls @ [l'])" using assms(3,5) by (simp add: chained_snoc)
  moreover have "chained cd (tl (ls @ [l]))"
    using assms(2) chained_suffix [of cd "[hd (ls @ [l])]" "tl (ls @ [l])"] by simp
  moreover have "list_all is_line (tl (ls @ [l]))" using assms(1,3) by (cases ls) auto
  ultimately show ?thesis using assms(1,2,4) c by (simp add: passes_chained)
qed

section \<open>A crash within a rotation\<close>

text \<open>
  A process that stops between a rotation and the write that caused it leaves an empty active
  file, from which the next process starts a new chain: its first line claims no hash, and the
  verifier, walking from the archive to it, fails with an exception of its own instead of a report.
\<close>

theorem crash_in_rotation_breaks_verifier:
  assumes "codec_ok cd" and "json_ok (JDict (le_payload e))" and "json_ok (JDict (le_payload e'))"
    and "AuditWriter fresh_files max_size most = Inr w0" and "1 \<le> most"
    and "int (length (event_line cd e None)) \<le> max_size"
    and "int (length (event_line cd e' None)) \<le> max_size"
  shows "let w = fst (write_log cd e w0); w = fst (write_log cd e' (restart (rotate_log w)))
     in verify_audit_chain cd (aw_files w) True = Inl TypeError"
proof -
  let ?l = "event_line cd e None" and ?l' = "event_line cd e' None"
  obtain k where k: "nat most = Suc k" using assms(5) by (cases "nat most") auto
  have w0: "w0 = \<lparr>aw_files = fresh_files, aw_initialized = False, aw_max_size_bytes = nat max_size,
      aw_max_rotated = Suc k, aw_last_hash = None, aw_subscribers = []\<rparr>"
    using assms(4) k by (auto simp: AuditWriter_def split: if_splits)
  have size: "\<not> nat max_size < length ?l" "\<not> nat max_size < length ?l'" using assms(6,7) by auto
  have none: "last_line_hash cd (Some []) = None" by (simp add: last_line_hash_def file_bytes_def)
  have shift: "shift_archives m n [] = []" for m n by (induction n) auto
  have w1: "aw_files (fst (write_log cd e w0)) = \<lparr>lf_active = Some ?l, lf_archives = []\<rparr>"
    "aw_max_rotated (fst (write_log cd e w0)) = Suc k"
    "aw_max_size_bytes (fst (write_log cd e w0)) = nat max_size"
    using size(1) none
    by (simp_all add: write_log_def w0 ensure_init_def maybe_rotate_for_def append_no_rotate_def
        fresh_files_def file_bytes_def Let_def)
  let ?w2 = "restart (rotate_log (fst (write_log cd e w0)))"
  have w2: "aw_files ?w2 = \<lparr>lf_active = None, lf_archives = [(1, ?l)]\<rparr>"
    "aw_max_size_bytes ?w2 = nat max_size" "\<not> aw_initialized ?w2"
    using w1 shift [of "Suc k" "Suc k"] by (simp_all add: restart_def rotate_log_def Let_def)
  have files: "aw_files (fst (write_log cd e' ?w2)) = \<lparr>lf_active = Some ?l', lf_archives = [(1, ?l)]\<rparr>"
    using size(2) none w2
    by (simp add: write_log_def ensure_init_def maybe_rotate_for_def append_no_rotate_def
        file_bytes_def Let_def)
  have lines: "content_lines ?l = [?l]" "content_lines ?l' = [?l']"
    using content_lines_concat [of "[?l]"] content_lines_concat [of "[?l']"]
      event_line_loads(1) [OF assms(1,2), of None] event_line_loads(1) [OF assms(1,3), of None]
    by simp_all
  have probe: "probe_archives [(1, ?l)] 1 = [1]"
    using probe_contiguous [of "[(1, ?l)]" 1 1] by simp
  obtain d where d: "lc_loads cd ?l = Some (LV_Dict d)" "map_of d ''prev_hash'' = Some JNull"
    using event_line_claims [OF assms(1,2), of None] by (auto simp: claims_def prev_json_def)
  obtain d' where d': "lc_loads cd ?l' = Some (LV_Dict d')" "map_of d' ''prev_hash'' = Some JNull"
    using event_line_claims [OF assms(1,3), of None] by (auto simp: claims_def prev_json_def)
  have "verify_audit_chain cd \<lparr>lf_active = Some ?l', lf_archives = [(1, ?l)]\<rparr> True = Inl TypeError"
    using probe
    by (simp add: verify_audit_chain_def enumerate_chain_files_def present_files_def log_file_def
        Let_def lines walk_line_def walk_start_def d d' chained_line_def sliceable_def)
  then show ?thesis by (simp add: files Let_def)
qed

section \<open>What is written is read back\<close>

definition valid_event :: "log_event \<Rightarrow> bool" where
  "valid_event e \<longleftrightarrow> le_event_type e \<in> set EVENT_TYPES \<and> json_ok (JDict (le_payload e))"

text \<open>The events written, in order, between two states of the log; restarts may come in between.\<close>

inductive log_run :: "line_codec \<Rightarrow> audit_writer \<Rightarrow> log_event list \<Rightarrow> audit_writer \<Rightarrow> bool" for cd w where
  run_none: "log_run cd w [] w"
| run_write: "log_run cd w evs w' \<Longrightarrow> valid_event e
    \<Longrightarrow> log_run cd w (evs @ [e]) (fst (write_log cd e w'))"
| run_restart: "log_run cd w evs w' \<Longrightarrow> log_run cd w evs (restart w')"

lemma event_roundtrip:
  assumes "le_event_type e \<in> set EVENT_TYPES"
  shows "event_from_dict (event_to_dict e @ [(''prev_hash'', v)]) = Inr e"
proof -
  have "map_of (event_to_dict e @ [(''prev_hash'', v)]) k = map_of (event_to_dict e) k"
    if "k \<noteq> ''prev_hash''" for k using that by (simp add: map_add_def split: option.split)
  then show ?thesis
    using assms
    by (simp add: event_from_dict_def event_to_dict_def optional_int_def split: option.split)
qed

lemma events_of_lines_snoc:
  "events_of_lines cd ls = Inr evs \<Longrightarrow> event_of_line cd l = Inr e
     \<Longrightarrow> events_of_lines cd (ls @ [l]) = Inr (evs @ [e])"
proof (induction ls arbitrary: evs)
  case (Cons x xs)
  obtain ev evs' where x: "event_of_line cd x = Inr ev" "events_of_lines cd xs = Inr evs'" "evs = ev # evs'"
    using Cons.prems(1) by (auto simp: map_sum_def split: sum.splits)
  then show ?case using Cons.IH [OF x(2) Cons.prems(2)] by simp
qed simp

lemma splitlines_concat: "list_all is_line ls \<Longrightarrow> splitlines_keep (concat ls) = ls"
  by (induction ls) (simp_all add: splitlines_append)

lemma text_lines_append:
  assumes "lines_file f" and "is_line l" and "\<not> lc_blank cd l"
  shows "text_lines cd (file_bytes f @ l) = text_lines cd (file_bytes f) @ [l]"
proof -
  obtain ls where ls: "file_bytes f = concat ls" "list_all is_line ls"
    using assms(1) by (auto simp: lines_file_def)
  have "file_bytes f @ l = concat (ls @ [l])" using ls(1) by simp
  moreover have "splitlines_keep (concat (ls @ [l])) = ls @ [l]"
    using splitlines_concat [of "ls @ [l]"] ls(2) assms(2) by simp
  ultimately show ?thesis using splitlines_concat [OF ls(2)] ls(1) assms(3) by (simp add: text_lines_def)
qed

lemma event_line_reads:
  assumes "codec_ok cd" and "valid_event e"
  shows "event_of_line cd (event_line cd e prev) = Inr e" and "\<not> lc_blank cd (event_line cd e prev)"
proof -
  have p: "json_ok (JDict (le_payload e))" "le_event_type e \<in> set EVENT_TYPES"
    using assms(2) by (simp_all add: valid_event_def)
  show "event_of_line cd (event_line cd e prev) = Inr e"
    by (simp add: event_of_line_def event_line_loads(2) [OF assms(1) p(1)] event_roundtrip [OF p(2)])
  show "\<not> lc_blank cd (event_line cd e prev)"
    using assms(1) p(1) event_dict_ok [of e prev]
    by (auto simp: codec_ok_def event_line_def one_line_def prev_json_def)
qed

lemma write_read:
  assumes "log_inv cd w" and "codec_ok cd" and "valid_event e" and "read_all cd w = Inr evs"
  shows "\<exists>evs'. read_all cd (fst (write_log cd e w)) = Inr (evs' @ [e]) \<and> (evs' = [] \<or> evs' = evs)"
proof -
  let ?w0 = "ensure_init cd w" let ?w1 = "maybe_rotate_for cd e ?w0"
  let ?line = "event_line cd e (aw_last_hash ?w1)" and ?f = "lf_active (aw_files ?w1)"
  note init = ensure_init_inv [OF assms(1)]
  note line = event_line_reads [OF assms(2,3), of "aw_last_hash ?w1"]
  have bytes: "file_bytes (lf_active (aw_files ?w0)) = file_bytes (lf_active (aw_files w))"
    by (simp add: ensure_init_def file_bytes_def split: option.split)
  have f: "lines_file ?f \<and> (?f = lf_active (aw_files ?w0) \<or> ?f = None)"
  proof (cases "?w1 = ?w0")
    case True
    then show ?thesis using init(1) by (simp add: log_inv_def archives_ok_def Let_def)
  next
    case False
    then have "?w1 = rotate_log ?w0" by (simp add: maybe_rotate_for_def split: if_splits)
    then show ?thesis using rotate_log_rotated [OF init(1,2)] by (simp add: rotated_def)
  qed
  have is_line: "is_line ?line"
    using event_line_loads(1) [OF assms(2)] assms(3) by (simp add: valid_event_def)
  have "lf_active (aw_files (fst (write_log cd e w))) = Some (file_bytes ?f @ ?line)"
    by (simp add: write_log_def Let_def append_no_rotate_def)
  then have after: "read_all cd (fst (write_log cd e w)) = events_of_lines cd (text_lines cd (file_bytes ?f) @ [?line])"
    using text_lines_append [OF conjunct1 [OF f] is_line line(2)]
    by (simp add: read_all_def file_bytes_def [of "Some _"])
  from f have "?f = None \<or> file_bytes ?f = file_bytes (lf_active (aw_files w))" using bytes by auto
  then show ?thesis
  proof
    assume "?f = None"
    then show ?thesis using after events_of_lines_snoc [OF _ line(1), of "[]" "[]"]
      by (simp add: file_bytes_def text_lines_def)
  next
    assume "file_bytes ?f = file_bytes (lf_active (aw_files w))"
    then show ?thesis
      using after events_of_lines_snoc [OF _ line(1)] assms(4) by (auto simp: read_all_def)
  qed
qed

text \<open>
  C37: the active file reads back as the latest of the events written to the log, unchanged and in
  order, up to the last one written, whatever was rotated away before them and however often the
  writer was restarted.
\<close>

theorem written_events_read_back:
  assumes "codec_ok cd" and "AuditWriter fresh_files max_size most = Inr w0" and "log_run cd w0 evs w"
  shows "\<exists>j. read_all cd w = Inr (drop j evs) \<and> (evs \<noteq> [] \<longrightarrow> j < length evs)"
proof -
  have "log_inv cd w \<and> (\<exists>j. read_all cd w = Inr (drop j evs) \<and> (evs \<noteq> [] \<longrightarrow> j < length evs))"
    using assms(3)
  proof (induction rule: log_run.induct)
    case run_none
    have "read_all cd w0 = Inr []"
      using assms(2) by (auto simp: AuditWriter_def fresh_files_def read_all_def file_bytes_def
          text_lines_def split: if_splits)
    then show ?case using fresh_inv [OF assms(2)] by simp
  next
    case (run_write evs w' e)
    then obtain j where j: "read_all cd w' = Inr (drop j evs)" "evs \<noteq> [] \<longrightarrow> j < length evs" by blast
    have inv: "log_inv cd (fst (write_log cd e w'))"
      using write_log_step [of cd w' e] run_write assms(1) by (metis prod.collapse valid_event_def)
    obtain evs' where e: "read_all cd (fst (write_log cd e w')) = Inr (evs' @ [e])"
      "evs' = [] \<or> evs' = drop j evs"
      using write_read [OF _ assms(1) run_write(2) j(1)] run_write by blast
    have "\<exists>i \<le> length evs. evs' = drop i evs"
    proof (cases "evs' = []")
      case True
      then show ?thesis by (intro exI [of _ "length evs"]) simp
    next
      case False
      then show ?thesis using e(2) j(2) by (intro exI [of _ j]) auto
    qed
    then obtain i where "read_all cd (fst (write_log cd e w')) = Inr (drop i evs @ [e])" "i \<le> length evs"
      using e(1) by blast
    then show ?case using inv by (intro conjI exI [of _ i]) simp_all
  next
    case (run_restart evs w')
    then show ?case by (simp add: log_inv_def restart_def read_all_def Let_def)
  qed
  then show ?thesis by blast
qed

end
