(* ===== verification/RetentionProps.thy ===== *)
theory RetentionProps
  imports AuditProps AuditLog
begin

text \<open>
  The sanitised copy of a log is what \<open>audit/retention.py\<close> promises: nothing in it may hold a tool's
  output, it verifies, and the source is left as it was. Then the concrete instances of the theorems
  on logs.
\<close>

section \<open>Sanitised records\<close>

lemma dict_ok_update: "dict_ok d \<Longrightarrow> json_ok v \<Longrightarrow> dict_ok (AList.update k v d)"
proof -
  have "list_all (\<lambda>(k, v). json_ok v) d \<Longrightarrow> json_ok v \<Longrightarrow> list_all (\<lambda>(k, v). json_ok v) (AList.update k v d)"
    by (induction d) auto
  then show "dict_ok d \<Longrightarrow> json_ok v \<Longrightarrow> dict_ok (AList.update k v d)"
    by (simp add: dict_ok_def distinct_update)
qed

lemma dict_ok_delete: "dict_ok d \<Longrightarrow> dict_ok (AList.delete k d)"
  by (induction d) (auto simp: dict_ok_def list_all_iff AList.delete_eq distinct_map_filter)

lemma sanitized_payload_ok: "json_ok (sanitized_payload cd p)" "redacted_payload (Some (sanitized_payload cd p))"
  by (simp_all add: sanitized_payload_def redacted_payload_def Let_def)

definition clean_record :: "(string \<times> json) list \<Rightarrow> bool" where
  "clean_record d \<longleftrightarrow> (tool_returned d \<longrightarrow> redacted_payload (map_of d ''payload''))"

definition bare_record :: "(string \<times> json) list \<Rightarrow> bool" where
  "bare_record d \<longleftrightarrow> dict_ok d \<and> map_of d ''prev_hash'' = None \<and> clean_record d"

lemma sanitize_record_bare: "dict_ok d \<Longrightarrow> bare_record (fst (sanitize_record cd d))"
  by (auto simp: sanitize_record_def bare_record_def clean_record_def tool_returned_def dict_ok_delete
      dict_ok_update sanitized_payload_ok AList.delete_conv' AList.update_conv')

lemma sanitize_lines_bare:
  "sanitize_lines cd ls = Inr (ds, ids) \<Longrightarrow> codec_ok cd \<Longrightarrow> length ds = length ls \<and> list_all bare_record ds"
proof (induction ls arbitrary: ds ids)
  case (Cons l ls)
  obtain d ds' ids' where "lc_loads cd l = Some (LV_Dict d)" "sanitize_lines cd ls = Inr (ds', ids')"
      "ds = fst (sanitize_record cd d) # ds'"
    using Cons.prems(1) by (auto simp: map_sum_def split: option.splits line_value.splits sum.splits)
  moreover from this have "dict_ok d" using Cons.prems(2) by (auto simp: codec_ok_def)
  ultimately show ?case using Cons.IH [OF _ Cons.prems(2)] sanitize_record_bare by auto
qed simp

section \<open>The sanitised file\<close>

definition clean_line :: "line_codec \<Rightarrow> string \<Rightarrow> bool" where
  "clean_line cd l \<longleftrightarrow>
     is_line l \<and> \<not> lc_blank cd l \<and> ascii l
     \<and> (\<exists>d. lc_loads cd l = Some (LV_Dict d) \<and> clean_record d)"

lemma redacted_sorted: "redacted_payload (map_option json_sorted p) = redacted_payload p"
proof -
  have "map_of (sort_key fst (map (\<lambda>(k, v). (k, json_sorted v)) d)) k = map_option json_sorted (map_of d k)"
    for d and k :: string using map_of_dict_sorted [of d k] by (simp add: dict_sorted_def)
  moreover have "json_sorted v = JBool b \<longleftrightarrow> v = JBool b" for v b by (cases v) auto
  ultimately show ?thesis
    by (auto simp: redacted_payload_def split: option.split json.split)
qed

lemma chain_line_clean:
  assumes "codec_ok cd" and "bare_record d"
  shows "clean_line cd (chain_line cd prev d)" and "claims cd (chain_line cd prev d) (prev_json prev)"
proof -
  let ?d = "d @ [(''prev_hash'', prev_json prev)]"
  have ok: "dict_ok ?d"
    using assms(2) by (auto simp: bare_record_def dict_ok_def prev_json_def map_of_eq_None_iff split: option.split)
  have loads: "lc_loads cd (chain_line cd prev d) = Some (LV_Dict (dict_sorted ?d))"
    and one: "one_line cd (lc_dumps_sorted cd ?d)"
    using assms(1) ok by (auto simp: codec_ok_def chain_line_def prev_json_def)
  have look: "map_of (dict_sorted ?d) k = map_option json_sorted (if k = ''prev_hash'' then Some (prev_json prev)
      else map_of d k)" for k
    using assms(2) by (auto simp: map_of_dict_sorted map_add_def bare_record_def split: option.split)
  have str: "json_sorted v = JStr s \<longleftrightarrow> v = JStr s" for v s by (cases v) auto
  have "clean_record (dict_sorted ?d)"
    using assms(2) by (auto simp: clean_record_def tool_returned_def look redacted_sorted str bare_record_def)
  moreover have "is_line (chain_line cd prev d)" "\<not> lc_blank cd (chain_line cd prev d)" "ascii (chain_line cd prev d)"
    using one by (auto simp: is_line_def one_line_def chain_line_def prev_json_def ascii_def newline_def)
  ultimately show "clean_line cd (chain_line cd prev d)" using loads by (auto simp: clean_line_def)
  show "claims cd (chain_line cd prev d) (prev_json prev)"
    using loads look [of "''prev_hash''"] by (auto simp: claims_def prev_json_def split: option.split)
qed

lemma chain_records_chained:
  assumes "codec_ok cd" and "list_all bare_record ds"
  shows "list_all (clean_line cd) (chain_records cd prev ds) \<and> length (chain_records cd prev ds) = length ds
     \<and> (\<forall>p. prev = Some (lc_sha cd p) \<longrightarrow> chained_from cd p (chain_records cd prev ds))
     \<and> (prev = None \<longrightarrow> chained cd (chain_records cd prev ds))"
  using assms(2)
proof (induction ds arbitrary: prev)
  case (Cons d ds)
  then have "bare_record d" by simp
  note line = chain_line_clean [OF assms(1) this, of prev]
  show ?case
    using Cons line by (auto simp: Let_def chained_def prev_json_def)
qed simp

lemma inventory_clean:
  "list_all (clean_line cd) ls
     \<Longrightarrow> (let r = foldl (\<lambda>oi l. inventory_line cd l oi) oi ls
         in oi_candidates r = oi_candidates oi \<and> oi_malformed_lines r = oi_malformed_lines oi
            \<and> oi_total_events r = oi_total_events oi + length ls)"
  by (induction ls arbitrary: oi)
    (auto simp: Let_def clean_line_def clean_record_def inventory_line_def)

text \<open>
  C38: when a log is sanitised, the source file is unchanged, and the copy has one line for every line
  of the source: an inventory of it finds no candidate and no malformed line, the verifier finds no
  break and counts every line as chained, and the manifest's hash is that of the copy.
\<close>

theorem sanitized_log_is_clean:
  assumes "codec_ok cd"
    and "sanitize_legacy_tool_outputs cd now fs source sanitized operator = Inr (fs', rr)"
  shows "\<exists>raw out oi r. map_of fs source = Some raw \<and> map_of fs' source = Some raw
     \<and> map_of fs' sanitized = Some out \<and> rr_sanitized_sha256 rr = lc_sha cd out
     \<and> rr_total_events rr = length (content_lines raw)
     \<and> inventory_legacy_tool_outputs cd (Some out) = Inr oi \<and> \<not> remediation_required oi
     \<and> oi_total_events oi = rr_total_events rr
     \<and> verify_audit_chain cd \<lparr>lf_active = Some out, lf_archives = []\<rparr> True = Inr r
     \<and> vr_ok r \<and> vr_n_chained r = rr_total_events rr"
proof -
  obtain raw ds ids manifest where raw: "map_of fs source = Some raw"
    and s: "sanitize_lines cd (content_lines raw) = Inr (ds, ids)"
    and fresh: "map_of fs sanitized = None" "map_of fs (manifest_path sanitized) = None"
    and rr: "rr_sanitized_sha256 rr = lc_sha cd (concat (chain_records cd None ds))"
      "rr_total_events rr = length ds"
    and fs': "fs' = AList.update (manifest_path sanitized) manifest
          (AList.update sanitized (concat (chain_records cd None ds)) fs)"
    using assms(2)
    by (auto simp: sanitize_legacy_tool_outputs_def Let_def split: if_splits option.splits sum.splits prod.splits)
  let ?ls = "chain_records cd None ds"
  note bare = sanitize_lines_bare [OF s assms(1)]
  note chain = chain_records_chained [OF assms(1) conjunct2 [OF bare], of None]
  have lines: "list_all is_line ?ls" using chain by (auto simp: list_all_iff clean_line_def)
  have "text_lines cd (concat ?ls) = ?ls"
    using splitlines_concat [OF lines] chain by (auto simp: text_lines_def list_all_iff clean_line_def)
  moreover have "ascii (concat ?ls)" using chain by (auto simp: list_all_iff clean_line_def ascii_def)
  then have "lc_utf8 cd (concat ?ls)" using assms(1) by (simp add: codec_ok_def)
  ultimately obtain oi where oi: "inventory_legacy_tool_outputs cd (Some (concat ?ls)) = Inr oi"
      "\<not> remediation_required oi" "oi_total_events oi = length ds"
    using inventory_clean [of cd ?ls empty_inventory] chain
    by (auto simp: inventory_legacy_tool_outputs_def Let_def remediation_required_def empty_inventory_def)
  obtain r where r: "verify_audit_chain cd (log_of ?ls) True = Inr r" "vr_ok r" "vr_n_chained r = length ds"
    using verify_chained [of cd "log_of ?ls" True] chain by (auto simp: log_of_content [OF lines])
  have "manifest_path sanitized \<noteq> sanitized" by (cases sanitized) (simp add: manifest_path_def)
  then have "map_of fs' source = Some raw" "map_of fs' sanitized = Some (concat ?ls)"
    using fs' raw fresh by (auto simp: AList.update_conv')
  then show ?thesis using raw rr oi r bare by (auto simp: log_of_def)
qed

section \<open>Instances\<close>

definition spend_event :: "nat \<Rightarrow> log_event" where
  "spend_event n = \<lparr>le_event_type = ''tool.returned'', le_session_id = Some 7, le_turn_id = Some (int n),
     le_step_id = None, le_timestamp = 1000 + int n,
     le_payload = [(''tool'', JStr ''bank.pay''), (''output'', JStr ''balance: 12'')], le_audit_id = n\<rparr>"

abbreviation u_line :: "nat \<Rightarrow> string option \<Rightarrow> string" where
  "u_line n \<equiv> event_line unary_codec (spend_event n)"

lemma spend_valid: "valid_event (spend_event n)" "json_ok (JDict (le_payload (spend_event n)))"
  by (simp_all add: valid_event_def spend_event_def EVENT_TYPES_def)

lemma u_line_ok:
  "is_line (u_line n prev)" "claims unary_codec (u_line n prev) (prev_json prev)"
  "lc_loads unary_codec (u_line n prev)
     = Some (LV_Dict (event_to_dict (spend_event n) @ [(''prev_hash'', prev_json prev)]))"
  using event_line_loads [OF unary_codec_ok spend_valid(2)]
    event_line_claims [OF unary_codec_ok spend_valid(2)] by simp_all

lemma u_line_inj: "u_line n prev = u_line m prev' \<longleftrightarrow> n = m \<and> prev = prev'"
proof
  assume "u_line n prev = u_line m prev'"
  then have "event_to_dict (spend_event n) @ [(''prev_hash'', prev_json prev)]
      = event_to_dict (spend_event m) @ [(''prev_hash'', prev_json prev')]"
    using u_line_ok(3) [of n prev] u_line_ok(3) [of m prev'] by simp
  then show "n = m \<and> prev = prev'"
    by (simp add: event_to_dict_def spend_event_def prev_json_def split: option.splits)
qed simp

lemma u_sha: "lc_sha unary_codec l = ''0''"
  by (simp add: unary_codec_def)

lemma u_pair: "list_all is_line [u_line n None, u_line m (Some ''0'')]"
  "chained unary_codec [u_line n None, u_line m (Some ''0'')]"
  using u_line_ok(1,2) [of n None] u_line_ok(1,2) [of m "Some ''0''"]
  by (auto simp: chained_def u_sha prev_json_def)

theorem audit_log_verifies_witness:
  "\<exists>w0 r. AuditWriter fresh_files 300 2 = Inr w0
     \<and> verify_audit_chain unary_codec
         (aw_files (fst (write_log unary_codec (spend_event 1)
            (restart (fst (write_log unary_codec (spend_event 0) w0)))))) True = Inr r
     \<and> vr_ok r \<and> vr_n_legacy_prefix r = 0 \<and> vr_n_chained r = vr_n_lines r"
proof -
  obtain w0 where w0: "AuditWriter fresh_files 300 2 = Inr w0" by (simp add: AuditWriter_def)
  let ?w1 = "fst (write_log unary_codec (spend_event 0) w0)"
  have "log_step unary_codec w0 ?w1" "log_step unary_codec ?w1 (restart ?w1)"
    "log_step unary_codec (restart ?w1) (fst (write_log unary_codec (spend_event 1) (restart ?w1)))"
    by (intro log_step.intros spend_valid)+
  then have "(log_step unary_codec)\<^sup>*\<^sup>* w0 (fst (write_log unary_codec (spend_event 1) (restart ?w1)))"
    by (meson converse_rtranclp_into_rtranclp r_into_rtranclp)
  from audit_log_verifies [OF unary_codec_ok w0 this, of True] w0 show ?thesis by blast
qed

theorem tampering_needs_collision_witness:
  "\<exists>x \<in> set [u_line 0 None, u_line 2 (Some ''0'')]. \<exists>y \<in> set [u_line 1 None, u_line 2 (Some ''0'')].
     x \<noteq> y \<and> lc_sha unary_codec x = lc_sha unary_codec y"
proof -
  let ?f = "\<lambda>n. log_of [u_line n None, u_line 2 (Some ''0'')]"
  note content = log_of_content [OF u_pair(1)]
  have "\<exists>r. verify_audit_chain unary_codec (?f n) True = Inr r \<and> vr_ok r \<and> vr_n_legacy_prefix r = 0
      \<and> vr_n_lines r = 2" for n
    using verify_chained [of unary_codec "?f n" True] u_pair(2) [of n 2] by (auto simp: content)
  then obtain r r' where
    "verify_audit_chain unary_codec (?f 0) True = Inr r" "vr_ok r" "vr_n_legacy_prefix r = 0"
    "verify_audit_chain unary_codec (?f 1) True = Inr r'" "vr_ok r'" "vr_n_legacy_prefix r' = 0"
    "vr_n_lines r = vr_n_lines r'" by metis
  from tampering_needs_collision [OF this, unfolded content] show ?thesis
    by (simp add: u_line_inj)
qed

theorem ends_of_log_unprotected_witness:
  "passes unary_codec [u_line 0 None, u_line 1 (Some ''0'')]
     \<and> passes unary_codec [u_line 0 None, u_line 2 (Some ''0'')]
     \<and> passes unary_codec [u_line 0 None] \<and> passes unary_codec [u_line 1 (Some ''0'')]"
  using ends_of_log_unprotected [of "[u_line 0 None]" "u_line 1 (Some ''0'')" unary_codec
      "u_line 2 (Some ''0'')"]
    u_pair [of 0 1] u_line_ok(1,2) [of 2 "Some ''0''"]
  by (simp add: u_sha prev_json_def)

theorem crash_in_rotation_breaks_verifier_witness:
  "\<exists>max_size w0. AuditWriter fresh_files max_size 1 = Inr w0
     \<and> (let w = fst (write_log unary_codec (spend_event 0) w0);
            w = fst (write_log unary_codec (spend_event 1) (restart (rotate_log w)))
        in verify_audit_chain unary_codec (aw_files w) True = Inl TypeError)"
proof -
  let ?size = "int (length (u_line 0 None)) + int (length (u_line 1 None)) + 256"
  obtain w0 where w0: "AuditWriter fresh_files ?size 1 = Inr w0" by (auto simp: AuditWriter_def)
  have "1 \<le> (1 :: int)" "int (length (u_line 0 None)) \<le> ?size" "int (length (u_line 1 None)) \<le> ?size"
    by simp_all
  from crash_in_rotation_breaks_verifier [OF unary_codec_ok spend_valid(2) spend_valid(2) w0 this] w0
  show ?thesis by blast
qed

theorem written_events_read_back_witness:
  "\<exists>w0 j. AuditWriter fresh_files 300 2 = Inr w0 \<and> j < 2
     \<and> read_all unary_codec (fst (write_log unary_codec (spend_event 1)
         (restart (fst (write_log unary_codec (spend_event 0) w0)))))
       = Inr (drop j [spend_event 0, spend_event 1])"
proof -
  obtain w0 where w0: "AuditWriter fresh_files 300 2 = Inr w0" by (simp add: AuditWriter_def)
  have "log_run unary_codec w0 (([] @ [spend_event 0]) @ [spend_event 1])
      (fst (write_log unary_codec (spend_event 1) (restart (fst (write_log unary_codec (spend_event 0) w0)))))"
    by (intro run_write run_restart run_none spend_valid)
  from written_events_read_back [OF unary_codec_ok w0 this]
  obtain j where "read_all unary_codec (fst (write_log unary_codec (spend_event 1)
      (restart (fst (write_log unary_codec (spend_event 0) w0)))))
      = Inr (drop j [spend_event 0, spend_event 1])" "j < 2" by auto
  then show ?thesis using w0 by blast
qed

theorem sanitized_log_is_clean_witness:
  "\<exists>fs' rr raw out oi r.
     sanitize_legacy_tool_outputs unary_codec 5 [(([], ''audit.jsonl''), u_line 0 None)]
       ([], ''audit.jsonl'') ([], ''clean.jsonl'') ''op'' = Inr (fs', rr)
     \<and> map_of fs' ([], ''audit.jsonl'') = Some raw \<and> raw = u_line 0 None
     \<and> map_of fs' ([], ''clean.jsonl'') = Some out
     \<and> rr_total_events rr = length (content_lines raw)
     \<and> inventory_legacy_tool_outputs unary_codec (Some out) = Inr oi \<and> \<not> remediation_required oi
     \<and> verify_audit_chain unary_codec \<lparr>lf_active = Some out, lf_archives = []\<rparr> True = Inr r \<and> vr_ok r"
proof -
  have lines: "content_lines (u_line 0 None) = [u_line 0 None]"
    using content_lines_concat [of "[u_line 0 None]"] u_line_ok(1) by simp
  have "\<not> lc_blank unary_codec ''op''" by (simp add: unary_codec_def)
  then obtain fs' rr where s:
    "sanitize_legacy_tool_outputs unary_codec 5 [(([], ''audit.jsonl''), u_line 0 None)]
       ([], ''audit.jsonl'') ([], ''clean.jsonl'') ''op'' = Inr (fs', rr)"
    by (simp add: sanitize_legacy_tool_outputs_def lines u_line_ok(3) manifest_path_def partial_path_def
        Let_def)
  from sanitized_log_is_clean [OF unary_codec_ok s] s show ?thesis by (auto simp: ex_simps)
qed

end
