(* ===== verification/Workstreams.thy ===== *)
theory Workstreams
  imports Prelude
begin

text \<open>
  \<open>session/coordination.py\<close>, the leases of interactive workstreams: which client drives a session.
  Every method runs under one lock, so each is one step. The clock, fresh identifiers and fresh
  tokens are arguments; \<open>later\<close> is the clock \<open>to_dict\<close> reads. A refusal (\<open>WorkstreamOwnershipError\<close>)
  comes with the state it leaves, because a lease found expired has been retired by then.
\<close>

section \<open>Workstreams\<close>

datatype ws_status = WS_ACTIVE | WS_EXPIRED | WS_RELEASED

record workstream =
  ws_id :: string
  ws_session_id :: uuid
  ws_client_id :: string
  ws_lease_token :: string
  ws_claimed_at :: time
  ws_lease_until :: time
  ws_status :: ws_status
  ws_reason :: "string option"
  ws_released_at :: "time option"
  ws_last_renewed_at :: "time option"

datatype ownership_error = NotOwner string | SessionBusy string | IdBound string | NoWorkstream | HasExpired

definition is_active :: "time \<Rightarrow> workstream \<Rightarrow> bool" where
  "is_active now w \<longleftrightarrow> ws_status w = WS_ACTIVE \<and> now < ws_lease_until w"

fun status_text :: "ws_status \<Rightarrow> string" where
  "status_text WS_ACTIVE = ''active''"
| "status_text WS_EXPIRED = ''expired''"
| "status_text WS_RELEASED = ''released''"

definition json_opt :: "('a \<Rightarrow> json) \<Rightarrow> 'a option \<Rightarrow> json" where
  "json_opt f v = (case v of None \<Rightarrow> JNull | Some a \<Rightarrow> f a)"

definition workstream_to_dict :: "time \<Rightarrow> bool \<Rightarrow> workstream \<Rightarrow> (string \<times> json) list" where
  "workstream_to_dict later include_token w =
     [(''id'', JStr (ws_id w)), (''session_id'', JUuid (ws_session_id w)),
      (''client_id'', JStr (ws_client_id w)), (''claimed_at'', JTime (ws_claimed_at w)),
      (''lease_until'', JTime (ws_lease_until w)), (''status'', JStr (status_text (ws_status w))),
      (''reason'', json_opt JStr (ws_reason w)), (''released_at'', json_opt JTime (ws_released_at w)),
      (''last_renewed_at'', json_opt JTime (ws_last_renewed_at w)),
      (''active'', JBool (is_active later w))]
     @ (if include_token then [(''lease_token'', JStr (ws_lease_token w))] else [])"

section \<open>The coordinator\<close>

record workstreams =
  wc_default_lease :: int
  wc_workstreams :: "(string \<times> workstream) list"
  wc_session_index :: "(uuid \<times> string) list"
  wc_client_index :: "(string \<times> string list) list"

definition WorkstreamCoordinator :: "int \<Rightarrow> workstreams" where
  "WorkstreamCoordinator default_lease_seconds =
     \<lparr>wc_default_lease = max 1 default_lease_seconds, wc_workstreams = [], wc_session_index = [],
      wc_client_index = []\<rparr>"

text \<open>\<open>_lease_seconds\<close> and \<open>_lease_delta\<close>: zero counts as not given.\<close>

definition lease_seconds_of :: "workstreams \<Rightarrow> int option \<Rightarrow> int" where
  "lease_seconds_of wc s =
     max 1 (case s of None \<Rightarrow> wc_default_lease wc | Some n \<Rightarrow> if n = 0 then wc_default_lease wc else n)"

definition lease_delta :: "int \<Rightarrow> time" where
  "lease_delta seconds = max 1 seconds * 1000000"

definition ws_lease_expired :: "workstream \<Rightarrow> time \<Rightarrow> bool" where
  "ws_lease_expired w now \<longleftrightarrow> ws_status w = WS_ACTIVE \<and> ws_lease_until w \<le> now"

definition discard_client :: "workstream \<Rightarrow> (string \<times> string list) list \<Rightarrow> (string \<times> string list) list" where
  "discard_client w index =
     (case map_of index (ws_client_id w) of
        None \<Rightarrow> index
      | Some ids \<Rightarrow>
          (let ids = filter (\<lambda>i. i \<noteq> ws_id w) ids
           in if ids = [] then AList.delete (ws_client_id w) index
              else AList.update (ws_client_id w) ids index))"

definition drop_indexes :: "workstream \<Rightarrow> workstreams \<Rightarrow> workstreams" where
  "drop_indexes w wc =
     wc\<lparr>wc_session_index := AList.delete (ws_session_id w) (wc_session_index wc),
        wc_client_index := discard_client w (wc_client_index wc)\<rparr>"

definition add_client :: "workstream \<Rightarrow> (string \<times> string list) list \<Rightarrow> (string \<times> string list) list" where
  "add_client w index =
     (let ids = (case map_of index (ws_client_id w) of None \<Rightarrow> [] | Some ids \<Rightarrow> ids)
      in AList.update (ws_client_id w) (if ws_id w \<in> set ids then ids else ids @ [ws_id w]) index)"

definition ws_store :: "workstream \<Rightarrow> workstreams \<Rightarrow> workstreams" where
  "ws_store w wc =
     wc\<lparr>wc_workstreams := AList.update (ws_id w) w (wc_workstreams wc),
        wc_session_index := AList.update (ws_session_id w) (ws_id w) (wc_session_index wc),
        wc_client_index := add_client w (wc_client_index wc)\<rparr>"

definition retired_as :: "workstream \<Rightarrow> ws_status \<Rightarrow> time \<Rightarrow> string option \<Rightarrow> workstream" where
  "retired_as w status now reason =
     w\<lparr>ws_status := status, ws_reason := (if reason \<noteq> None then reason else ws_reason w),
       ws_released_at := (if status \<noteq> WS_ACTIVE then Some now else ws_released_at w)\<rparr>"

definition retire ::
  "workstream \<Rightarrow> ws_status \<Rightarrow> time \<Rightarrow> string option \<Rightarrow> workstreams \<Rightarrow> workstreams" where
  "retire w status now reason wc =
     drop_indexes w
       (wc\<lparr>wc_workstreams := AList.update (ws_id w) (retired_as w status now reason) (wc_workstreams wc)\<rparr>)"

definition current_for_session :: "uuid \<Rightarrow> time \<Rightarrow> workstreams \<Rightarrow> workstreams \<times> workstream option" where
  "current_for_session sid now wc =
     (case map_of (wc_session_index wc) sid of
        None \<Rightarrow> (wc, None)
      | Some wid \<Rightarrow>
          (case map_of (wc_workstreams wc) wid of
             None \<Rightarrow> (wc\<lparr>wc_session_index := AList.delete sid (wc_session_index wc)\<rparr>, None)
           | Some w \<Rightarrow>
               if ws_lease_expired w now then (retire w WS_EXPIRED now None wc, None)
               else if ws_status w \<noteq> WS_ACTIVE then (drop_indexes w wc, None)
               else (wc, Some w)))"

definition check_owner ::
  "workstream \<Rightarrow> string \<Rightarrow> string option \<Rightarrow> bool \<Rightarrow> bool \<Rightarrow> ownership_error option" where
  "check_owner w client_id token admin_override require_token =
     (if admin_override then None
      else if ws_client_id w = client_id
        \<and> (token = Some (ws_lease_token w) \<or> token = None \<and> \<not> require_token) then None
      else Some (NotOwner (ws_client_id w)))"

definition renewed :: "workstreams \<Rightarrow> time \<Rightarrow> int option \<Rightarrow> string option \<Rightarrow> workstream \<Rightarrow> workstream" where
  "renewed wc now lease reason w =
     w\<lparr>ws_lease_until := now + lease_delta (lease_seconds_of wc lease), ws_status := WS_ACTIVE,
       ws_reason := (if reason \<noteq> None then reason else ws_reason w), ws_released_at := None,
       ws_last_renewed_at := Some now\<rparr>"

text \<open>\<open>a or b\<close> on strings.\<close>

definition or_text :: "string option \<Rightarrow> string \<Rightarrow> string" where
  "or_text a b = (case a of None \<Rightarrow> b | Some s \<Rightarrow> if s = [] then b else s)"

definition new_workstream ::
  "workstreams \<Rightarrow> time \<Rightarrow> string \<Rightarrow> uuid \<Rightarrow> string \<Rightarrow> string \<Rightarrow> int option \<Rightarrow> string option \<Rightarrow> workstream" where
  "new_workstream wc now wid sid client_id token lease reason =
     \<lparr>ws_id = wid, ws_session_id = sid, ws_client_id = client_id, ws_lease_token = token,
      ws_claimed_at = now, ws_lease_until = now + lease_delta (lease_seconds_of wc lease),
      ws_status = WS_ACTIVE, ws_reason = reason, ws_released_at = None, ws_last_renewed_at = Some now\<rparr>"

section \<open>Operations\<close>

record claim_request =
  cq_lease_seconds :: "int option"
  cq_lease_token :: "string option"
  cq_reason :: "string option"
  cq_workstream_id :: "string option"
  cq_admin_override :: bool

type_synonym fresh_names = "string \<times> string" \<comment> \<open>identifier and token\<close>

definition claim_new ::
  "fresh_names \<Rightarrow> time \<Rightarrow> uuid \<Rightarrow> string \<Rightarrow> claim_request \<Rightarrow> workstreams
   \<Rightarrow> workstreams \<times> (ownership_error + workstream)" where
  "claim_new fresh now sid client_id cq wc =
     (let w = new_workstream wc now (or_text (cq_workstream_id cq) (fst fresh)) sid client_id
                (or_text (cq_lease_token cq) (snd fresh)) (cq_lease_seconds cq) (cq_reason cq);
          bound = (case cq_workstream_id cq of None \<Rightarrow> None | Some wid \<Rightarrow> map_of (wc_workstreams wc) wid)
      in case bound of
           Some x \<Rightarrow>
             if ws_status x = WS_ACTIVE \<and> ws_session_id x \<noteq> sid then (wc, Inl (IdBound (ws_id x)))
             else (ws_store w wc, Inr w)
         | None \<Rightarrow> (ws_store w wc, Inr w))"

definition claim ::
  "fresh_names \<Rightarrow> time \<Rightarrow> uuid \<Rightarrow> string \<Rightarrow> claim_request \<Rightarrow> workstreams
   \<Rightarrow> workstreams \<times> (ownership_error + workstream)" where
  "claim fresh now sid client_id cq wc =
     (let (wc, current) = current_for_session sid now wc
      in case current of
           None \<Rightarrow> claim_new fresh now sid client_id cq wc
         | Some cur \<Rightarrow>
             if cq_admin_override cq
             then claim_new fresh now sid client_id cq
                    (retire cur WS_RELEASED now (Some (or_text (cq_reason cq) ''admin override takeover'')) wc)
             else if cq_workstream_id cq \<noteq> None \<and> cq_workstream_id cq \<noteq> Some (ws_id cur)
             then (wc, Inl (SessionBusy (ws_id cur)))
             else case check_owner cur client_id (cq_lease_token cq) False False of
                    Some e \<Rightarrow> (wc, Inl e)
                  | None \<Rightarrow>
                      (let w = renewed wc now (cq_lease_seconds cq) (cq_reason cq) cur
                       in (ws_store w wc, Inr w)))"

definition ensure ::
  "fresh_names \<Rightarrow> time \<Rightarrow> uuid \<Rightarrow> string \<Rightarrow> claim_request \<Rightarrow> bool \<Rightarrow> workstreams
   \<Rightarrow> workstreams \<times> (ownership_error + workstream)" where
  "ensure fresh now sid client_id cq auto_claim wc =
     (let (wc, current) = current_for_session sid now wc
      in case current of
           Some cur \<Rightarrow>
             (case check_owner cur client_id (cq_lease_token cq) (cq_admin_override cq) False of
                Some e \<Rightarrow> (wc, Inl e)
              | None \<Rightarrow>
                  (let w = renewed wc now (cq_lease_seconds cq) (cq_reason cq) cur
                   in (ws_store w wc, Inr w)))
         | None \<Rightarrow>
             if \<not> auto_claim then (wc, Inl NoWorkstream)
             else (let w = new_workstream wc now (fst fresh) sid client_id
                             (or_text (cq_lease_token cq) (snd fresh)) (cq_lease_seconds cq) (cq_reason cq)
                   in (ws_store w wc, Inr w)))"

definition renew ::
  "time \<Rightarrow> string \<Rightarrow> string \<Rightarrow> string option \<Rightarrow> int option \<Rightarrow> bool \<Rightarrow> workstreams
   \<Rightarrow> workstreams \<times> (ownership_error + workstream)" where
  "renew now wid client_id token lease admin_override wc =
     (case map_of (wc_workstreams wc) wid of
        None \<Rightarrow> (wc, Inl NoWorkstream)
      | Some w \<Rightarrow>
          if ws_lease_expired w now then (retire w WS_EXPIRED now None wc, Inl HasExpired)
          else case check_owner w client_id token admin_override True of
                 Some e \<Rightarrow> (wc, Inl e)
               | None \<Rightarrow> (let w = renewed wc now lease None w in (ws_store w wc, Inr w)))"

definition release ::
  "time \<Rightarrow> string \<Rightarrow> string \<Rightarrow> string option \<Rightarrow> string option \<Rightarrow> bool \<Rightarrow> workstreams
   \<Rightarrow> workstreams \<times> (ownership_error + workstream)" where
  "release now wid client_id token reason admin_override wc =
     (case map_of (wc_workstreams wc) wid of
        None \<Rightarrow> (wc, Inl NoWorkstream)
      | Some w \<Rightarrow>
          (case check_owner w client_id token admin_override True of
             Some e \<Rightarrow> (wc, Inl e)
           | None \<Rightarrow> (retire w WS_RELEASED now reason wc, Inr (retired_as w WS_RELEASED now reason))))"

text \<open>Retiring every active workstream of a list of identifiers, in order.\<close>

fun retire_each ::
  "(workstream \<Rightarrow> bool) \<Rightarrow> ws_status \<Rightarrow> time \<Rightarrow> string option \<Rightarrow> string list \<Rightarrow> workstreams
   \<Rightarrow> workstreams \<times> workstream list" where
  "retire_each due status now reason [] wc = (wc, [])"
| "retire_each due status now reason (wid # wids) wc =
     (case map_of (wc_workstreams wc) wid of
        None \<Rightarrow> retire_each due status now reason wids wc
      | Some w \<Rightarrow>
          if due w
          then (let (wc, ws) = retire_each due status now reason wids (retire w status now reason wc)
                in (wc, retired_as w status now reason # ws))
          else retire_each due status now reason wids wc)"

definition release_client ::
  "time \<Rightarrow> time \<Rightarrow> string \<Rightarrow> string option \<Rightarrow> workstreams \<Rightarrow> workstreams \<times> (string \<times> json) list list" where
  "release_client now later client_id reason wc =
     (let ids = (case map_of (wc_client_index wc) client_id of None \<Rightarrow> [] | Some ids \<Rightarrow> sort ids);
          (wc, ws) = retire_each (\<lambda>w. ws_status w = WS_ACTIVE) WS_RELEASED now
                       (Some (or_text reason ''client released'')) ids wc
      in (wc, map (workstream_to_dict later False) ws))"

definition expire_due :: "time \<Rightarrow> workstreams \<Rightarrow> workstreams \<times> workstream list" where
  "expire_due now wc =
     retire_each (\<lambda>w. ws_lease_expired w now) WS_EXPIRED now None (map fst (wc_workstreams wc)) wc"

definition sweep_expired_leases :: "time \<Rightarrow> time \<Rightarrow> workstreams \<Rightarrow> workstreams \<times> (string \<times> json) list list" where
  "sweep_expired_leases now later wc =
     (let (wc, ws) = expire_due now wc in (wc, map (workstream_to_dict later False) ws))"

definition release_session :: "time \<Rightarrow> uuid \<Rightarrow> string option \<Rightarrow> workstreams \<Rightarrow> workstreams" where
  "release_session now sid reason wc =
     (let (wc, current) = current_for_session sid now wc
      in case current of None \<Rightarrow> wc | Some cur \<Rightarrow> retire cur WS_RELEASED now reason wc)"

definition get_workstream ::
  "time \<Rightarrow> time \<Rightarrow> string \<Rightarrow> workstreams \<Rightarrow> workstreams \<times> (string \<times> json) list option" where
  "get_workstream now later wid wc =
     (case map_of (wc_workstreams wc) wid of
        None \<Rightarrow> (wc, None)
      | Some w \<Rightarrow>
          (let wc = (if ws_lease_expired w now then retire w WS_EXPIRED now None wc else wc)
           in (wc, map_option (workstream_to_dict later False) (map_of (wc_workstreams wc) wid))))"

definition list_workstreams ::
  "time \<Rightarrow> time \<Rightarrow> uuid option \<Rightarrow> string option \<Rightarrow> bool \<Rightarrow> workstreams
   \<Rightarrow> workstreams \<times> (string \<times> json) list list" where
  "list_workstreams now later sid client_id active_only wc =
     (let (wc, _) = expire_due now wc;
          shown = filter (\<lambda>w. (sid = None \<or> sid = Some (ws_session_id w))
                    \<and> (client_id = None \<or> client_id = Some (ws_client_id w))
                    \<and> (active_only \<longrightarrow> is_active now w)) (map snd (wc_workstreams wc))
      in (wc, map (workstream_to_dict later False) (sort_key ws_claimed_at shown)))"

definition owner_for_session ::
  "time \<Rightarrow> time \<Rightarrow> uuid \<Rightarrow> workstreams \<Rightarrow> workstreams \<times> (string \<times> json) list option" where
  "owner_for_session now later sid wc =
     (let (wc, current) = current_for_session sid now wc
      in (wc, map_option (workstream_to_dict later False) current))"

record ws_snapshot =
  sn_count :: nat
  sn_active_count :: nat
  sn_expired_count :: nat
  sn_released_count :: nat
  sn_items :: "(string \<times> json) list list"
  sn_by_client :: "(string \<times> string list) list"
  sn_by_session :: "(uuid \<times> (string \<times> json) list) list"

definition workstreams_snapshot :: "time \<Rightarrow> time \<Rightarrow> workstreams \<Rightarrow> workstreams \<times> ws_snapshot" where
  "workstreams_snapshot now later wc =
     (let (wc, _) = expire_due now wc; ws = map snd (wc_workstreams wc);
          active = filter (\<lambda>w. ws_status w = WS_ACTIVE) ws;
          by_client = foldl (\<lambda>d w. AList.update (ws_client_id w)
                        ((case map_of d (ws_client_id w) of None \<Rightarrow> [] | Some ids \<Rightarrow> ids) @ [ws_id w]) d) [] ws
      in (wc, \<lparr>sn_count = length ws, sn_active_count = length active,
               sn_expired_count = length (filter (\<lambda>w. ws_status w = WS_EXPIRED) ws),
               sn_released_count = length (filter (\<lambda>w. ws_status w = WS_RELEASED) ws),
               sn_items = map (workstream_to_dict later False) (sort_key ws_claimed_at active),
               sn_by_client = map (\<lambda>(c, ids). (c, sort ids)) by_client,
               sn_by_session = foldl (\<lambda>d w. AList.update (ws_session_id w) (workstream_to_dict later False w) d) [] ws\<rparr>))"

text \<open>
  \<open>session/coordination.py\<close>, turns and activity of the sessions: the locks that let one task at a
  time run a turn, the queues of waiting input, and the streams of events the clients poll. A lock of
  \<open>anyio\<close> is held by a task; taking it again in the same task, and releasing it in another, is its
  \<open>RuntimeError\<close>. Methods without an \<open>await\<close> are single steps; \<open>emit\<close> awaits only its publisher,
  after its change.
\<close>

section \<open>State\<close>

record queued_input =
  qi_id :: string
  qi_session_id :: uuid
  qi_message :: string
  qi_submitted_by :: string
  qi_submitted_at :: time

definition queued_to_dict :: "queued_input \<Rightarrow> (string \<times> json) list" where
  "queued_to_dict qi =
     [(''id'', JStr (qi_id qi)), (''session_id'', JUuid (qi_session_id qi)),
      (''message'', JStr (qi_message qi)), (''submitted_by'', JStr (qi_submitted_by qi)),
      (''submitted_at'', JTime (qi_submitted_at qi))]"

record session_event =
  se_cursor :: int
  se_session_id :: uuid
  se_type :: string
  se_payload :: "(string \<times> json) list"
  se_created_at :: time

text \<open>A lock is an object of its own (\<open>sc_holders\<close> tells who holds it); a session points to it.\<close>

record session_coordinator =
  sc_locks :: "(uuid \<times> nat) list"
  sc_holders :: "(nat \<times> nat) list" \<comment> \<open>lock to task\<close>
  sc_fresh_lock :: nat
  sc_queues :: "(uuid \<times> queued_input list) list"
  sc_events :: "(uuid \<times> session_event list) list"
  sc_next_cursor :: int
  sc_max_events :: int

definition SessionCoordinator :: "int \<Rightarrow> session_coordinator" where
  "SessionCoordinator max_events_per_session =
     \<lparr>sc_locks = [], sc_holders = [], sc_fresh_lock = 0, sc_queues = [], sc_events = [],
      sc_next_cursor = 1, sc_max_events = max_events_per_session\<rparr>"

definition queue_of :: "session_coordinator \<Rightarrow> uuid \<Rightarrow> queued_input list" where
  "queue_of sc sid = (case map_of (sc_queues sc) sid of None \<Rightarrow> [] | Some q \<Rightarrow> q)"

definition stream_of :: "session_coordinator \<Rightarrow> uuid \<Rightarrow> session_event list" where
  "stream_of sc sid = (case map_of (sc_events sc) sid of None \<Rightarrow> [] | Some es \<Rightarrow> es)"

section \<open>Turns\<close>

definition lock_for :: "uuid \<Rightarrow> session_coordinator \<Rightarrow> session_coordinator \<times> nat" where
  "lock_for sid sc =
     (case map_of (sc_locks sc) sid of
        Some l \<Rightarrow> (sc, l)
      | None \<Rightarrow>
          (let l = sc_fresh_lock sc
           in (sc\<lparr>sc_locks := AList.update sid l (sc_locks sc), sc_fresh_lock := Suc l\<rparr>, l)))"

definition acquire_turn ::
  "nat \<Rightarrow> uuid \<Rightarrow> session_coordinator \<Rightarrow> session_coordinator \<times> (py_error + nat option)" where
  "acquire_turn task sid sc =
     (let (sc, l) = lock_for sid sc
      in case map_of (sc_holders sc) l of
           None \<Rightarrow> (sc\<lparr>sc_holders := AList.update l task (sc_holders sc)\<rparr>, Inr (Some l))
         | Some holder \<Rightarrow> if holder = task then (sc, Inl RuntimeFault) else (sc, Inr None))"

definition release_turn ::
  "nat \<Rightarrow> uuid \<Rightarrow> nat \<Rightarrow> session_coordinator \<Rightarrow> session_coordinator \<times> (py_error + unit)" where
  "release_turn task sid l sc =
     (if map_of (sc_holders sc) l \<noteq> Some task then (sc, Inl RuntimeFault)
      else
        (let sc = sc\<lparr>sc_holders := AList.delete l (sc_holders sc)\<rparr>
         in (if queue_of sc sid = [] \<and> map_of (sc_holders sc) l = None
             then sc\<lparr>sc_locks := AList.delete sid (sc_locks sc)\<rparr> else sc, Inr ())))"

section \<open>Input queues\<close>

definition enqueue_input ::
  "string \<Rightarrow> time \<Rightarrow> uuid \<Rightarrow> string \<Rightarrow> string \<Rightarrow> session_coordinator \<Rightarrow> session_coordinator \<times> queued_input" where
  "enqueue_input fresh now sid message submitted_by sc =
     (let item = \<lparr>qi_id = fresh, qi_session_id = sid, qi_message = message,
                   qi_submitted_by = submitted_by, qi_submitted_at = now\<rparr>
      in (sc\<lparr>sc_queues := AList.update sid (queue_of sc sid @ [item]) (sc_queues sc)\<rparr>, item))"

definition pop_next_input :: "uuid \<Rightarrow> session_coordinator \<Rightarrow> session_coordinator \<times> queued_input option" where
  "pop_next_input sid sc =
     (case queue_of sc sid of
        [] \<Rightarrow> (sc, None)
      | item # rest \<Rightarrow>
          (sc\<lparr>sc_queues := (if rest = [] then AList.delete sid (sc_queues sc)
                            else AList.update sid rest (sc_queues sc))\<rparr>, Some item))"

definition pending_inputs :: "session_coordinator \<Rightarrow> uuid \<Rightarrow> (string \<times> json) list list" where
  "pending_inputs sc sid = map queued_to_dict (queue_of sc sid)"

section \<open>Events\<close>

text \<open>
  With a negative limit the trimming loop runs on an empty deque and fails, after the event was
  counted and lost. The second component is what the publisher is given.
\<close>

definition emit_activity ::
  "time \<Rightarrow> uuid \<Rightarrow> string \<Rightarrow> (string \<times> json) list option \<Rightarrow> session_coordinator
   \<Rightarrow> session_coordinator \<times> (py_error + session_event)" where
  "emit_activity now sid event_type payload sc =
     (let ev = \<lparr>se_cursor = sc_next_cursor sc, se_session_id = sid, se_type = event_type,
                 se_payload = (case payload of None \<Rightarrow> [] | Some p \<Rightarrow> p), se_created_at = now\<rparr>;
          es = stream_of sc sid @ [ev];
          sc = sc\<lparr>sc_next_cursor := sc_next_cursor sc + 1,
                  sc_events := AList.update sid (drop (length es - nat (sc_max_events sc)) es) (sc_events sc)\<rparr>
      in (sc, if sc_max_events sc < 0 then Inl IndexError else Inr ev))"

definition events_since ::
  "session_coordinator \<Rightarrow> uuid option \<Rightarrow> int \<Rightarrow> int \<Rightarrow> session_event list \<times> int" where
  "events_since sc sid cursor limit =
     (let events = (case sid of
                      None \<Rightarrow> sort_key se_cursor (concat (map snd (sc_events sc)))
                    | Some s \<Rightarrow> stream_of sc s);
          filtered = filter (\<lambda>e. cursor < se_cursor e) events;
          filtered = (if 0 < limit then take (nat limit) filtered else filtered)
      in (filtered, if filtered = [] then cursor else se_cursor (last filtered)))"

record coordination_view =
  cv_has_active_turn :: bool
  cv_pending_inputs :: "(string \<times> json) list list"
  cv_event_count :: nat
  cv_last_event_type :: "string option"

text \<open>\<open>snapshot\<close>: a view per session, in the order of the text of its identifier.\<close>

definition lock_held :: "session_coordinator \<Rightarrow> nat \<Rightarrow> bool" where
  "lock_held sc l \<longleftrightarrow> map_of (sc_holders sc) l \<noteq> None"

definition coordination_snapshot ::
  "(uuid \<Rightarrow> string) \<Rightarrow> session_coordinator \<Rightarrow> (uuid \<times> coordination_view) list \<times> nat \<times> nat \<times> nat" where
  "coordination_snapshot text sc =
     (let sids = remdups (map fst (sc_locks sc) @ map fst (sc_queues sc) @ map fst (sc_events sc))
      in (map (\<lambda>sid. (sid,
              \<lparr>cv_has_active_turn = (case map_of (sc_locks sc) sid of None \<Rightarrow> False | Some l \<Rightarrow> lock_held sc l),
               cv_pending_inputs = pending_inputs sc sid,
               cv_event_count = length (stream_of sc sid),
               cv_last_event_type = (if stream_of sc sid = [] then None
                 else Some (se_type (last (stream_of sc sid))))\<rparr>)) (sort_key text sids),
          length (filter (\<lambda>(_, l). lock_held sc l) (sc_locks sc)),
          sum_list (map (\<lambda>(_, q). length q) (sc_queues sc)),
          sum_list (map (\<lambda>(_, es). length es) (sc_events sc))))"

end
