(* ===== verification/WorkstreamProps.thy ===== *)
theory WorkstreamProps
  imports Workstreams
begin

text \<open>
  What the leases promise: a session has one active workstream, and its owner keeps it while the
  lease lasts. The first holds until a retired workstream is renewed or released; the methods do not
  check that, and what follows is shown last.
\<close>

section \<open>The indexes\<close>

definition client_ids :: "workstreams \<Rightarrow> string \<Rightarrow> string set" where
  "client_ids wc c = (case map_of (wc_client_index wc) c of None \<Rightarrow> {} | Some ids \<Rightarrow> set ids)"

definition live_at :: "workstreams \<Rightarrow> string \<Rightarrow> workstream \<Rightarrow> bool" where
  "live_at wc i w \<longleftrightarrow> map_of (wc_workstreams wc) i = Some w \<and> ws_status w = WS_ACTIVE"

text \<open>Records stand under their identifier, and both indexes list the active ones, no others.\<close>

definition ws_inv :: "workstreams \<Rightarrow> bool" where
  "ws_inv wc \<longleftrightarrow>
     (\<forall>i w. map_of (wc_workstreams wc) i = Some w \<longrightarrow> ws_id w = i)
     \<and> (\<forall>s i. map_of (wc_session_index wc) s = Some i \<longleftrightarrow> (\<exists>w. live_at wc i w \<and> ws_session_id w = s))
     \<and> (\<forall>c i. i \<in> client_ids wc c \<longleftrightarrow> (\<exists>w. live_at wc i w \<and> ws_client_id w = c))"

lemma ws_inv_id: "ws_inv wc \<Longrightarrow> map_of (wc_workstreams wc) i = Some w \<Longrightarrow> ws_id w = i"
  by (simp add: ws_inv_def)

lemma ws_inv_session:
  "ws_inv wc \<Longrightarrow> map_of (wc_session_index wc) s = Some i \<longleftrightarrow> (\<exists>w. live_at wc i w \<and> ws_session_id w = s)"
  by (simp add: ws_inv_def)

lemma ws_inv_client: "ws_inv wc \<Longrightarrow> i \<in> client_ids wc c \<longleftrightarrow> (\<exists>w. live_at wc i w \<and> ws_client_id w = c)"
  by (simp add: ws_inv_def)

lemma live_unique: "ws_inv wc \<Longrightarrow> live_at wc i v \<Longrightarrow> live_at wc j w \<Longrightarrow> ws_session_id v = ws_session_id w \<Longrightarrow> i = j"
  using ws_inv_session [of wc "ws_session_id w" i] ws_inv_session [of wc "ws_session_id w" j] by auto

lemma client_ids_store:
  "client_ids (ws_store w wc) c = client_ids wc c \<union> (if c = ws_client_id w then {ws_id w} else {})"
  by (auto simp: client_ids_def ws_store_def add_client_def Let_def AList.update_conv' split: option.splits)

lemma client_ids_retire:
  "client_ids (retire w status now reason wc) c
     = (if c = ws_client_id w then client_ids wc c - {ws_id w} else client_ids wc c)"
  by (auto simp: client_ids_def retire_def drop_indexes_def discard_client_def Let_def
      AList.update_conv' AList.delete_conv' filter_empty_conv split: option.splits)

lemma live_store:
  "live_at (ws_store w wc) i v \<longleftrightarrow> (if i = ws_id w then v = w \<and> ws_status w = WS_ACTIVE else live_at wc i v)"
  by (auto simp: live_at_def ws_store_def AList.update_conv')

lemma live_retire:
  "status \<noteq> WS_ACTIVE
     \<Longrightarrow> live_at (retire w status now reason wc) i v \<longleftrightarrow> i \<noteq> ws_id w \<and> live_at wc i v"
  by (auto simp: live_at_def retire_def drop_indexes_def retired_as_def AList.update_conv')

text \<open>The two changes: storing an active record where no other holds the session, retiring an active one.\<close>

lemma store_inv:
  assumes "ws_inv wc" and "ws_status w = WS_ACTIVE"
    and "\<And>i v. live_at wc i v \<Longrightarrow> i = ws_id w \<or> ws_session_id v \<noteq> ws_session_id w"
    and "\<And>v. live_at wc (ws_id w) v \<Longrightarrow> ws_session_id v = ws_session_id w \<and> ws_client_id v = ws_client_id w"
  shows "ws_inv (ws_store w wc)"
proof -
  have "map_of (wc_session_index (ws_store w wc)) s
      = (if s = ws_session_id w then Some (ws_id w) else map_of (wc_session_index wc) s)" for s
    by (simp add: ws_store_def AList.update_conv')
  moreover have "map_of (wc_workstreams (ws_store w wc)) i
      = (if i = ws_id w then Some w else map_of (wc_workstreams wc) i)" for i
    by (simp add: ws_store_def AList.update_conv')
  ultimately have look:
    "map_of (wc_session_index (ws_store w wc)) s
       = (if s = ws_session_id w then Some (ws_id w) else map_of (wc_session_index wc) s)"
    "map_of (wc_workstreams (ws_store w wc)) i
       = (if i = ws_id w then Some w else map_of (wc_workstreams wc) i)" for s i
    by blast+
  have "(map_of (wc_session_index (ws_store w wc)) s = Some i)
      = (\<exists>v. live_at (ws_store w wc) i v \<and> ws_session_id v = s)" for s i
  proof (cases "i = ws_id w")
    case True
    then show ?thesis using assms(2) assms(4) ws_inv_session [OF assms(1), of s i]
      by (auto simp: look live_store)
  next
    case False
    then show ?thesis using assms(3) [of i] ws_inv_session [OF assms(1), of s i]
      by (auto simp: look live_store)
  qed
  moreover have "(i \<in> client_ids (ws_store w wc) c)
      = (\<exists>v. live_at (ws_store w wc) i v \<and> ws_client_id v = c)" for c i
  proof (cases "i = ws_id w")
    case True
    then show ?thesis using assms(2) assms(4) ws_inv_client [OF assms(1), of i c]
      by (auto simp: client_ids_store live_store)
  next
    case False
    then show ?thesis using ws_inv_client [OF assms(1), of i c] by (auto simp: client_ids_store live_store)
  qed
  ultimately show ?thesis using ws_inv_id [OF assms(1)] by (simp add: ws_inv_def look(2))
qed

lemma retire_inv:
  assumes "ws_inv wc" and "live_at wc (ws_id w) w" and "status \<noteq> WS_ACTIVE"
  shows "ws_inv (retire w status now reason wc)"
proof -
  let ?wc = "retire w status now reason wc"
  have "map_of (wc_session_index (retire w status now reason wc)) s
      = (if s = ws_session_id w then None else map_of (wc_session_index wc) s)" for s
    by (simp add: retire_def drop_indexes_def AList.delete_conv')
  moreover have "map_of (wc_workstreams (retire w status now reason wc)) i
      = (if i = ws_id w then Some (retired_as w status now reason) else map_of (wc_workstreams wc) i)" for i
    by (simp add: retire_def drop_indexes_def AList.update_conv')
  ultimately have look:
    "map_of (wc_session_index ?wc) s
       = (if s = ws_session_id w then None else map_of (wc_session_index wc) s)"
    "map_of (wc_workstreams ?wc) i
       = (if i = ws_id w then Some (retired_as w status now reason) else map_of (wc_workstreams wc) i)" for s i
    by blast+
  have same: "v = w" if "live_at wc (ws_id w) v" for v using that assms(2) by (simp add: live_at_def)
  have other: "ws_session_id v \<noteq> ws_session_id w" if "live_at wc i v" "i \<noteq> ws_id w" for i v
    using live_unique [OF assms(1) that(1) assms(2)] that(2) by blast
  note live = live_retire [OF assms(3), of w now reason wc]
  have "(map_of (wc_session_index ?wc) s = Some i) = (\<exists>v. live_at ?wc i v \<and> ws_session_id v = s)" for s i
  proof (cases "i = ws_id w")
    case True
    then show ?thesis using same ws_inv_session [OF assms(1), of s i] by (auto simp: look live)
  next
    case False
    then show ?thesis
      using other [of i] ws_inv_session [OF assms(1), of s i] by (auto simp: look live)
  qed
  moreover have "(i \<in> client_ids ?wc c) = (\<exists>v. live_at ?wc i v \<and> ws_client_id v = c)" for c i
  proof (cases "i = ws_id w")
    case True
    then show ?thesis using same ws_inv_client [OF assms(1), of i c] by (auto simp: client_ids_retire live)
  next
    case False
    then show ?thesis using ws_inv_client [OF assms(1), of i c] by (auto simp: client_ids_retire live)
  qed
  moreover have "ws_id (retired_as w status now reason) = ws_id w" by (simp add: retired_as_def)
  ultimately show ?thesis using ws_inv_id [OF assms(1)] by (simp add: ws_inv_def look(2))
qed

lemma current_inv:
  assumes "ws_inv wc" and "current_for_session sid now wc = (wc', cur)"
  shows "ws_inv wc'" and "cur = Some w \<Longrightarrow> wc' = wc \<and> live_at wc (ws_id w) w \<and> ws_session_id w = sid"
    and "cur = None \<Longrightarrow> \<not> (\<exists>i v. live_at wc' i v \<and> ws_session_id v = sid)"
proof -
  have "ws_inv wc' \<and> (cur = Some w \<longrightarrow> wc' = wc \<and> live_at wc (ws_id w) w \<and> ws_session_id w = sid)
     \<and> (cur = None \<longrightarrow> \<not> (\<exists>i v. live_at wc' i v \<and> ws_session_id v = sid))"
  proof (cases "map_of (wc_session_index wc) sid")
    case None
    then show ?thesis
      using assms ws_inv_session [OF assms(1), of sid] by (auto simp: current_for_session_def)
  next
    case (Some i)
    then obtain x where x: "live_at wc i x" "ws_session_id x = sid"
      using ws_inv_session [OF assms(1)] by auto
    then have i: "ws_id x = i" "map_of (wc_workstreams wc) i = Some x" "ws_status x = WS_ACTIVE"
      using ws_inv_id [OF assms(1)] by (simp_all add: live_at_def)
    show ?thesis
    proof (cases "ws_lease_expired x now")
      case True
      then have c: "wc' = retire x WS_EXPIRED now None wc" "cur = None"
        using assms(2) Some i by (simp_all add: current_for_session_def)
      have "ws_inv wc'" using retire_inv [OF assms(1), of x WS_EXPIRED now None] x(1) i(1) c(1) by simp
      moreover have "\<not> (live_at wc' j v \<and> ws_session_id v = sid)" for j v
        using live_unique [OF assms(1) x(1), of j v] x(2) i(1) by (auto simp: c(1) live_retire)
      ultimately show ?thesis using c(2) by simp
    next
      case False
      then have "wc' = wc" "cur = Some x" using assms(2) Some i by (simp_all add: current_for_session_def)
      then show ?thesis using assms(1) x i(1) by auto
    qed
  qed
  then show "ws_inv wc'" and "cur = Some w \<Longrightarrow> wc' = wc \<and> live_at wc (ws_id w) w \<and> ws_session_id w = sid"
    and "cur = None \<Longrightarrow> \<not> (\<exists>i v. live_at wc' i v \<and> ws_session_id v = sid)" by blast+
qed

section \<open>The operations\<close>

lemma renewed_simps:
  "ws_id (renewed wc now lease reason w) = ws_id w"
  "ws_session_id (renewed wc now lease reason w) = ws_session_id w"
  "ws_client_id (renewed wc now lease reason w) = ws_client_id w"
  "ws_status (renewed wc now lease reason w) = WS_ACTIVE"
  "ws_lease_token (renewed wc now lease reason w) = ws_lease_token w"
  by (simp_all add: renewed_def)

lemma store_renewed_inv:
  assumes "ws_inv wc" and "live_at wc (ws_id w) w"
  shows "ws_inv (ws_store (renewed wc0 now lease reason w) wc)"
proof (rule store_inv [OF assms(1)])
  fix i v assume "live_at wc i v"
  then show "i = ws_id (renewed wc0 now lease reason w)
      \<or> ws_session_id v \<noteq> ws_session_id (renewed wc0 now lease reason w)"
    using live_unique [OF assms(1) _ assms(2), of i v] by (auto simp: renewed_simps)
next
  fix v assume "live_at wc (ws_id (renewed wc0 now lease reason w)) v"
  then have "v = w" using assms(2) by (simp add: live_at_def renewed_simps)
  then show "ws_session_id v = ws_session_id (renewed wc0 now lease reason w)
      \<and> ws_client_id v = ws_client_id (renewed wc0 now lease reason w)" by (simp add: renewed_simps)
qed (simp add: renewed_simps)

lemma store_new_inv:
  assumes "ws_inv wc" and "\<not> (\<exists>i v. live_at wc i v \<and> ws_session_id v = ws_session_id w)"
    and "ws_status w = WS_ACTIVE" and "\<not> (\<exists>v. live_at wc (ws_id w) v)"
  shows "ws_inv (ws_store w wc)"
  by (rule store_inv [OF assms(1,3)]) (use assms(2,4) in blast)+

text \<open>A fresh identifier is not in use.\<close>

definition unused :: "fresh_names \<Rightarrow> workstreams \<Rightarrow> bool" where
  "unused fresh wc \<longleftrightarrow> map_of (wc_workstreams wc) (fst fresh) = None"

lemma claim_new_inv:
  assumes "ws_inv wc" and "\<not> (\<exists>i v. live_at wc i v \<and> ws_session_id v = sid)" and "unused fresh wc"
  shows "ws_inv (fst (claim_new fresh now sid client_id cq wc))"
proof -
  let ?wid = "or_text (cq_workstream_id cq) (fst fresh)"
  let ?w = "new_workstream wc now ?wid sid client_id (or_text (cq_lease_token cq) (snd fresh))
      (cq_lease_seconds cq) (cq_reason cq)"
  consider "fst (claim_new fresh now sid client_id cq wc) = wc"
    | "fst (claim_new fresh now sid client_id cq wc) = ws_store ?w wc" "\<not> (\<exists>v. live_at wc ?wid v)"
  proof (cases "\<exists>v. live_at wc ?wid v")
    case True
    then obtain v where v: "live_at wc ?wid v" by blast
    have "?wid \<noteq> fst fresh" using v assms(3) by (auto simp: live_at_def unused_def)
    then obtain wid where wid: "cq_workstream_id cq = Some wid" "wid = ?wid"
      by (cases "cq_workstream_id cq") (auto simp: or_text_def split: if_splits)
    have "ws_session_id v \<noteq> sid" using v assms(2) by blast
    moreover have "map_of (wc_workstreams wc) wid = Some v" "ws_status v = WS_ACTIVE"
      using v unfolding wid(2) [symmetric] live_at_def by simp_all
    ultimately have "fst (claim_new fresh now sid client_id cq wc) = wc"
      by (simp add: claim_new_def wid(1) Let_def)
    then show ?thesis by (rule that(1))
  next
    case False
    have "fst (claim_new fresh now sid client_id cq wc) \<in> {wc, ws_store ?w wc}"
      by (simp add: claim_new_def Let_def split: option.split)
    then show ?thesis using that False by blast
  qed
  then show ?thesis
  proof cases
    case 2
    have w: "ws_id ?w = ?wid" "ws_session_id ?w = sid" "ws_status ?w = WS_ACTIVE"
      by (simp_all add: new_workstream_def)
    show ?thesis
      unfolding 2(1) by (rule store_new_inv [OF assms(1)]) (use assms(2) 2(2) w in simp_all)
  qed (use assms(1) in simp)
qed

lemma unused_retire: "ws_inv wc \<Longrightarrow> live_at wc (ws_id w) w \<Longrightarrow> unused fresh (retire w status now reason wc) = unused fresh wc"
  by (auto simp: unused_def retire_def drop_indexes_def live_at_def AList.update_conv')

lemma unused_current:
  assumes "ws_inv wc" and "unused fresh wc" and "current_for_session sid now wc = (wc', cur)"
  shows "unused fresh wc'"
proof (cases "map_of (wc_session_index wc) sid")
  case None
  then show ?thesis using assms(2,3) by (auto simp: current_for_session_def)
next
  case (Some i)
  then obtain w where w: "live_at wc i w" using ws_inv_session [OF assms(1)] by auto
  then have "map_of (wc_workstreams wc) i = Some w" "ws_status w = WS_ACTIVE" "ws_id w = i"
    using ws_inv_id [OF assms(1)] by (simp_all add: live_at_def)
  then show ?thesis
    using assms w Some unused_retire [OF assms(1), of w fresh WS_EXPIRED now None]
    by (auto simp: current_for_session_def split: if_splits)
qed

lemma claim_inv:
  assumes "ws_inv wc" and "unused fresh wc"
  shows "ws_inv (fst (claim fresh now sid client_id cq wc))"
proof -
  obtain wc' cur where c: "current_for_session sid now wc = (wc', cur)" by fastforce
  note cur = current_inv [OF assms(1) c] and fresh = unused_current [OF assms c]
  show ?thesis
  proof (cases cur)
    case None
    then show ?thesis using claim_new_inv [OF cur(1) cur(3) fresh] by (simp add: claim_def c)
  next
    case (Some w)
    then have w: "live_at wc' (ws_id w) w" "ws_session_id w = sid" "ws_inv wc'" using cur by auto
    let ?r = "retire w WS_RELEASED now (Some (or_text (cq_reason cq) ''admin override takeover'')) wc'"
    have "ws_inv ?r" by (rule retire_inv [OF w(3,1)]) simp
    moreover have "\<not> (\<exists>i v. live_at ?r i v \<and> ws_session_id v = sid)"
      using live_unique [OF w(3) _ w(1)] w(2) by (auto simp: live_retire)
    moreover have "unused fresh ?r" using fresh by (simp add: unused_retire [OF w(3,1)])
    ultimately have "ws_inv (fst (claim_new fresh now sid client_id cq ?r))" by (rule claim_new_inv)
    then show ?thesis
      using store_renewed_inv [OF w(3,1)] w(3) by (simp add: claim_def c Some Let_def split: option.split)
  qed
qed

lemma ensure_inv:
  assumes "ws_inv wc" and "unused fresh wc"
  shows "ws_inv (fst (ensure fresh now sid client_id cq auto wc))"
proof -
  obtain wc' cur where c: "current_for_session sid now wc = (wc', cur)" by fastforce
  note cur = current_inv [OF assms(1) c] and fresh = unused_current [OF assms c]
  show ?thesis
  proof (cases cur)
    case None
    let ?w = "new_workstream wc' now (fst fresh) sid client_id (or_text (cq_lease_token cq) (snd fresh))
      (cq_lease_seconds cq) (cq_reason cq)"
    have "ws_inv (ws_store ?w wc')"
      by (rule store_new_inv [OF cur(1)])
        (use cur(3) [OF None] fresh in \<open>simp_all add: new_workstream_def unused_def live_at_def\<close>)
    then show ?thesis using None cur(1) by (simp add: ensure_def c Let_def)
  next
    case (Some w)
    then have w: "live_at wc' (ws_id w) w" "ws_inv wc'" using cur by auto
    then show ?thesis
      using store_renewed_inv [OF w(2,1)] by (simp add: ensure_def c Some Let_def split: option.split)
  qed
qed

text \<open>Renewing and releasing keep the invariant on an active workstream.\<close>

definition names_active :: "string \<Rightarrow> workstreams \<Rightarrow> bool" where
  "names_active wid wc \<longleftrightarrow>
     (case map_of (wc_workstreams wc) wid of None \<Rightarrow> True | Some w \<Rightarrow> ws_status w = WS_ACTIVE)"

lemma active_live:
  "ws_inv wc \<Longrightarrow> names_active wid wc \<Longrightarrow> map_of (wc_workstreams wc) wid = Some w \<Longrightarrow> live_at wc (ws_id w) w"
  by (simp add: live_at_def names_active_def ws_inv_id)

lemma renew_inv:
  assumes "ws_inv wc" and "names_active wid wc"
  shows "ws_inv (fst (renew now wid client_id token lease admin wc))"
proof (cases "map_of (wc_workstreams wc) wid")
  case (Some w)
  note live = active_live [OF assms Some]
  have "ws_inv (retire w WS_EXPIRED now None wc)" by (rule retire_inv [OF assms(1) live]) simp
  then show ?thesis
    using Some assms(1) store_renewed_inv [OF assms(1) live]
    by (simp add: renew_def Let_def split: option.split)
qed (simp add: renew_def assms(1))

lemma release_inv:
  assumes "ws_inv wc" and "names_active wid wc"
  shows "ws_inv (fst (release now wid client_id token reason admin wc))"
proof (cases "map_of (wc_workstreams wc) wid")
  case (Some w)
  have "ws_inv (retire w WS_RELEASED now reason wc)"
    by (rule retire_inv [OF assms(1) active_live [OF assms Some]]) simp
  then show ?thesis using Some assms(1) by (simp add: release_def split: option.split)
qed (simp add: release_def assms(1))

lemma retire_each_inv:
  assumes "ws_inv wc" and "status \<noteq> WS_ACTIVE" and "\<And>w. due w \<Longrightarrow> ws_status w = WS_ACTIVE"
  shows "ws_inv (fst (retire_each due status now reason wids wc))"
  using assms(1)
proof (induction wids arbitrary: wc)
  case (Cons wid wids)
  show ?case
  proof (cases "map_of (wc_workstreams wc) wid")
    case (Some w)
    show ?thesis
    proof (cases "due w")
      case True
      then have "live_at wc (ws_id w) w"
        using assms(3) [OF True] Some ws_inv_id [OF Cons.prems Some] by (simp add: live_at_def)
      from Cons.IH [OF retire_inv [OF Cons.prems this assms(2)]] show ?thesis
        using Some True by (simp add: Let_def case_prod_unfold)
    qed (use Cons Some in simp)
  qed (use Cons in simp)
qed simp

lemma release_session_inv: "ws_inv wc \<Longrightarrow> ws_inv (release_session now sid reason wc)"
proof -
  assume inv: "ws_inv wc"
  obtain wc' cur where c: "current_for_session sid now wc = (wc', cur)" by fastforce
  note cur = current_inv [OF inv c]
  show "ws_inv (release_session now sid reason wc)"
  proof (cases cur)
    case (Some w)
    have "ws_inv (retire w WS_RELEASED now reason wc')" by (rule retire_inv) (use cur Some in auto)
    then show ?thesis by (simp add: release_session_def c Some)
  qed (use cur(1) in \<open>simp add: release_session_def c\<close>)
qed

section \<open>Every run\<close>

text \<open>
  The calls in any order, each under the coordinator's lock. \<open>list\<close>, \<open>snapshot\<close> and \<open>get\<close> change no
  more than \<open>expire_due\<close> or one expiry. A step carries the identifier that a renewal or a release
  names: neither looks at the status of the workstream, so both may name a retired one.
\<close>

inductive lease_step :: "string option \<Rightarrow> workstreams \<Rightarrow> workstreams \<Rightarrow> bool" where
  step_claim: "unused fresh wc \<Longrightarrow> lease_step None wc (fst (claim fresh now sid client_id cq wc))"
| step_ensure: "unused fresh wc \<Longrightarrow> lease_step None wc (fst (ensure fresh now sid client_id cq auto wc))"
| step_renew: "lease_step (Some wid) wc (fst (renew now wid client_id token lease admin wc))"
| step_release: "lease_step (Some wid) wc (fst (release now wid client_id token reason admin wc))"
| step_release_client: "lease_step None wc (fst (release_client now later client_id reason wc))"
| step_release_session: "lease_step None wc (release_session now sid reason wc)"
| step_sweep: "lease_step None wc (fst (sweep_expired_leases now later wc))"
| step_list: "lease_step None wc (fst (list_workstreams now later sid_opt client_opt active_only wc))"
| step_snapshot: "lease_step None wc (fst (workstreams_snapshot now later wc))"
| step_get: "lease_step None wc (fst (get_workstream now later wid wc))"
| step_owner: "lease_step None wc (fst (owner_for_session now later sid wc))"

text \<open>A run records, for each call, what it named and the coordinator it was made on.\<close>

inductive lease_run :: "workstreams \<Rightarrow> (string option \<times> workstreams) list \<Rightarrow> workstreams \<Rightarrow> bool"
  for start where
  run_start: "lease_run start [] start"
| run_call: "lease_run start tr wc \<Longrightarrow> lease_step named wc wc'
    \<Longrightarrow> lease_run start (tr @ [(named, wc)]) wc'"

text \<open>A renewal or a release of a workstream that is known and no longer active.\<close>

definition touches_retired :: "string option \<times> workstreams \<Rightarrow> bool" where
  "touches_retired call \<longleftrightarrow>
     (case call of (None, _) \<Rightarrow> False | (Some wid, wc) \<Rightarrow> \<not> names_active wid wc)"

lemma expire_due_inv: "ws_inv wc \<Longrightarrow> ws_inv (fst (expire_due now wc))"
  unfolding expire_due_def by (rule retire_each_inv) (simp_all add: ws_lease_expired_def)

lemma get_inv: "ws_inv wc \<Longrightarrow> ws_inv (fst (get_workstream now later wid wc))"
  using retire_inv [of wc _ WS_EXPIRED now None] ws_inv_id [of wc wid]
  by (auto simp: get_workstream_def Let_def ws_lease_expired_def live_at_def split: option.split)

lemma release_client_inv: "ws_inv wc \<Longrightarrow> ws_inv (fst (release_client now later client_id reason wc))"
  using retire_each_inv [of wc WS_RELEASED "\<lambda>w. ws_status w = WS_ACTIVE"]
  by (simp add: release_client_def Let_def case_prod_unfold)

lemma lease_step_inv:
  "lease_step named wc wc' \<Longrightarrow> \<not> touches_retired (named, wc) \<Longrightarrow> ws_inv wc \<Longrightarrow> ws_inv wc'"
proof (induction rule: lease_step.induct)
  case (step_owner wc now later sid)
  obtain wc' cur where c: "current_for_session sid now wc = (wc', cur)" by fastforce
  show ?case using current_inv(1) [OF step_owner(2) c] by (simp add: owner_for_session_def c)
qed (simp_all add: claim_inv ensure_inv renew_inv release_inv release_client_inv release_session_inv
    get_inv sweep_expired_leases_def list_workstreams_def workstreams_snapshot_def expire_due_inv
    touches_retired_def Let_def case_prod_unfold)

lemma ws_inv_start: "ws_inv (WorkstreamCoordinator n)"
  by (simp add: ws_inv_def WorkstreamCoordinator_def live_at_def client_ids_def)

lemma lease_run_inv:
  "lease_run (WorkstreamCoordinator n) tr wc \<Longrightarrow> \<forall>call \<in> set tr. \<not> touches_retired call \<Longrightarrow> ws_inv wc"
  by (induction rule: lease_run.induct) (auto intro: ws_inv_start lease_step_inv)

text \<open>
  C14: over any sequence of claims, renewals, releases, expiries and readings, two workstreams of one
  session that are active are the same one, unless some renewal or release named a workstream that
  was no longer active: neither checks that. (New identifiers are not in use, as \<open>uuid4\<close> gives them.)
\<close>

theorem one_driver_per_session:
  assumes "lease_run (WorkstreamCoordinator n) tr wc"
    and "map_of (wc_workstreams wc) i = Some v" and "ws_status v = WS_ACTIVE"
    and "map_of (wc_workstreams wc) j = Some w" and "ws_status w = WS_ACTIVE"
    and "ws_session_id v = ws_session_id w"
  shows "i = j \<and> v = w \<or> (\<exists>call \<in> set tr. touches_retired call)"
proof (cases "\<exists>call \<in> set tr. touches_retired call")
  case False
  then have "ws_inv wc" using lease_run_inv [OF assms(1)] by blast
  from live_unique [OF this, of i v j w] show ?thesis using assms(2-) by (auto simp: live_at_def)
qed simp

text \<open>
  While its lease lasts, and if no retired workstream was renewed or released before, nobody but its
  client takes a session: a claim of it, an \<open>ensure\<close>, a
  renewal and a release by another client, without the administrator's override, are refused and
  change nothing.
\<close>

theorem lease_keeps_others_out:
  assumes "lease_run (WorkstreamCoordinator n) tr wc" and "\<forall>call \<in> set tr. \<not> touches_retired call"
    and "map_of (wc_workstreams wc) wid = Some w" and "is_active now w"
    and "client_id \<noteq> ws_client_id w" and "\<not> cq_admin_override cq"
  shows "\<exists>e1 e2 e3 e4.
     claim fresh now (ws_session_id w) client_id cq wc = (wc, Inl e1)
     \<and> ensure fresh now (ws_session_id w) client_id cq auto wc = (wc, Inl e2)
     \<and> renew now wid client_id token lease False wc = (wc, Inl e3)
     \<and> release now wid client_id token reason False wc = (wc, Inl e4)"
proof -
  have live: "live_at wc wid w" "\<not> ws_lease_expired w now" "ws_status w = WS_ACTIVE"
    using assms(3,4) by (simp_all add: live_at_def is_active_def ws_lease_expired_def)
  then have "map_of (wc_session_index wc) (ws_session_id w) = Some wid"
    using ws_inv_session [OF lease_run_inv [OF assms(1,2)]] by blast
  then have c: "current_for_session (ws_session_id w) now wc = (wc, Some w)"
    using assms(3) live by (simp add: current_for_session_def)
  show ?thesis
    using assms(3,5,6) live(2)
    by (simp add: claim_def ensure_def renew_def release_def c check_owner_def)
qed

section \<open>Retired workstreams\<close>

text \<open>
  A client whose session an administrator has taken over for another client takes it back with
  the token of its retired workstream: \<open>renew\<close> does not look at the status. Then both are active,
  and the session index names the client that was thrown out.
\<close>

theorem renewal_undoes_takeover:
  assumes "lease_run (WorkstreamCoordinator n) tr wc" and "\<forall>call \<in> set tr. \<not> touches_retired call"
    and "map_of (wc_workstreams wc) wid = Some w" and "is_active now w"
    and "unused fresh wc" and "fst fresh \<noteq> []" and "cq_admin_override cq" and "cq_workstream_id cq = None"
  shows "let wc1 = fst (claim fresh now (ws_session_id w) other cq wc);
      (wc2, r) = renew now' wid (ws_client_id w) (Some (ws_lease_token w)) lease False wc1
    in \<exists>v u. r = Inr v \<and> ws_status v = WS_ACTIVE \<and> map_of (wc_workstreams wc2) wid = Some v
       \<and> map_of (wc_workstreams wc2) (fst fresh) = Some u \<and> ws_status u = WS_ACTIVE
       \<and> ws_client_id u = other \<and> ws_session_id u = ws_session_id w
       \<and> map_of (wc_session_index wc2) (ws_session_id w) = Some wid"
proof -
  have live: "live_at wc wid w" "\<not> ws_lease_expired w now" "ws_status w = WS_ACTIVE"
    using assms(3,4) by (simp_all add: live_at_def is_active_def ws_lease_expired_def)
  then have "map_of (wc_session_index wc) (ws_session_id w) = Some wid"
    using ws_inv_session [OF lease_run_inv [OF assms(1,2)]] by blast
  then have c: "current_for_session (ws_session_id w) now wc = (wc, Some w)"
    using assms(3) live by (simp add: current_for_session_def)
  have id: "ws_id w = wid" by (rule ws_inv_id [OF lease_run_inv [OF assms(1,2)] assms(3)])
  have fresh: "fst fresh \<noteq> wid" using assms(3,5) by (auto simp: unused_def)
  let ?r = "retire w WS_RELEASED now (Some (or_text (cq_reason cq) ''admin override takeover'')) wc"
  let ?u = "new_workstream ?r now (fst fresh) (ws_session_id w) other
      (or_text (cq_lease_token cq) (snd fresh)) (cq_lease_seconds cq) (cq_reason cq)"
  obtain wc1 where wc1: "wc1 = ws_store ?u ?r" by simp
  have claimed: "fst (claim fresh now (ws_session_id w) other cq wc) = wc1"
    using assms(7,8) by (simp add: wc1 claim_def c claim_new_def or_text_def Let_def)
  obtain x where x: "map_of (wc_workstreams wc1) wid = Some x"
    "ws_id x = wid" "ws_session_id x = ws_session_id w" "ws_client_id x = ws_client_id w"
    "ws_lease_token x = ws_lease_token w" "ws_status x = WS_RELEASED"
    using fresh id
    by (simp add: wc1 ws_store_def retire_def drop_indexes_def AList.update_conv' new_workstream_def
        retired_as_def)
  obtain u where u: "map_of (wc_workstreams wc1) (fst fresh) = Some u" "ws_status u = WS_ACTIVE"
    "ws_client_id u = other" "ws_session_id u = ws_session_id w"
    by (simp add: wc1 ws_store_def AList.update_conv' new_workstream_def)
  let ?v = "renewed wc1 now' lease None x"
  have "renew now' wid (ws_client_id w) (Some (ws_lease_token w)) lease False wc1 = (ws_store ?v wc1, Inr ?v)"
    by (simp add: renew_def x ws_lease_expired_def check_owner_def Let_def)
  moreover have "map_of (wc_workstreams (ws_store ?v wc1)) wid = Some ?v"
    "map_of (wc_workstreams (ws_store ?v wc1)) (fst fresh) = Some u"
    "map_of (wc_session_index (ws_store ?v wc1)) (ws_session_id w) = Some wid"
    using fresh u(1) by (simp_all add: ws_store_def AList.update_conv' renewed_simps x)
  ultimately show ?thesis using u(2-) by (simp add: claimed renewed_simps)
qed

section \<open>Instances\<close>

definition plain_claim :: claim_request where
  "plain_claim = \<lparr>cq_lease_seconds = None, cq_lease_token = None, cq_reason = None,
     cq_workstream_id = None, cq_admin_override = False\<rparr>"

definition first_claim :: workstreams where
  "first_claim = fst (claim (''w1'', ''t1'') 0 7 ''tui'' plain_claim (WorkstreamCoordinator 300))"

lemma first_claim_run:
  "lease_run (WorkstreamCoordinator 300) [(None, WorkstreamCoordinator 300)] first_claim"
  "\<forall>call \<in> set [(None, WorkstreamCoordinator 300)]. \<not> touches_retired call"
  using run_call [OF run_start step_claim, of "(''w1'', ''t1'')" "WorkstreamCoordinator 300" 0 7 "''tui''"
      plain_claim]
  by (simp_all add: first_claim_def unused_def WorkstreamCoordinator_def touches_retired_def)

definition tui_stream :: workstream where
  "tui_stream = new_workstream (WorkstreamCoordinator 300) 0 ''w1'' 7 ''tui'' ''t1'' None None"

lemma first_claim_holds:
  "map_of (wc_workstreams first_claim) ''w1'' = Some tui_stream"
  "ws_status tui_stream = WS_ACTIVE" "is_active 5 tui_stream" "ws_session_id tui_stream = 7"
  "ws_client_id tui_stream = ''tui''" "ws_lease_token tui_stream = ''t1''" "unused (''w2'', ''t2'') first_claim"
  by code_simp+

definition ensured_claim :: workstreams where
  "ensured_claim = fst (ensure (''w2'', ''t2'') 5 7 ''tui'' plain_claim True first_claim)"

lemma ensured_claim_run:
  "lease_run (WorkstreamCoordinator 300) ([(None, WorkstreamCoordinator 300)] @ [(None, first_claim)])
     ensured_claim"
  unfolding ensured_claim_def
  by (rule run_call [OF first_claim_run(1) step_ensure]) (rule first_claim_holds(7))

text \<open>The client that ensures its workstream a second time renews the one it has.\<close>

theorem one_driver_per_session_witness:
  "\<exists>w. map_of (wc_workstreams ensured_claim) ''w1'' = Some w \<and> ws_status w = WS_ACTIVE
     \<and> (''w1'' = (''w1'' :: string) \<and> w = w
        \<or> (\<exists>call \<in> set ([(None, WorkstreamCoordinator 300)] @ [(None, first_claim)]).
             touches_retired call))"
proof -
  obtain w where w: "map_of (wc_workstreams ensured_claim) ''w1'' = Some w" "ws_status w = WS_ACTIVE"
    by (rule that [of "the (map_of (wc_workstreams ensured_claim) ''w1'')"]) code_simp+
  from one_driver_per_session [OF ensured_claim_run w w refl] w show ?thesis by blast
qed

theorem lease_keeps_others_out_witness:
  "\<exists>e1 e2 e3 e4.
     claim (''w2'', ''t2'') 5 7 ''web'' plain_claim first_claim = (first_claim, Inl e1)
     \<and> ensure (''w2'', ''t2'') 5 7 ''web'' plain_claim True first_claim = (first_claim, Inl e2)
     \<and> renew 5 ''w1'' ''web'' (Some ''t1'') None False first_claim = (first_claim, Inl e3)
     \<and> release 5 ''w1'' ''web'' (Some ''t1'') None False first_claim = (first_claim, Inl e4)"
  using lease_keeps_others_out [OF first_claim_run first_claim_holds(1,3), of "''web''" plain_claim
      "(''w2'', ''t2'')" True "Some ''t1''" None None]
  by (simp add: first_claim_holds plain_claim_def)

theorem renewal_undoes_takeover_witness:
  "let wc1 = fst (claim (''w2'', ''t2'') 5 7 ''web'' (plain_claim\<lparr>cq_admin_override := True\<rparr>) first_claim);
      (wc2, r) = renew 9 ''w1'' ''tui'' (Some ''t1'') None False wc1
    in \<exists>v u. r = Inr v \<and> ws_status v = WS_ACTIVE \<and> map_of (wc_workstreams wc2) ''w1'' = Some v
       \<and> map_of (wc_workstreams wc2) ''w2'' = Some u \<and> ws_status u = WS_ACTIVE
       \<and> ws_client_id u = ''web'' \<and> ws_session_id u = 7
       \<and> map_of (wc_session_index wc2) 7 = Some ''w1''"
  using renewal_undoes_takeover [OF first_claim_run first_claim_holds(1,3,7),
      of "plain_claim\<lparr>cq_admin_override := True\<rparr>" "''web''" 9 None]
  unfolding first_claim_holds by (simp add: plain_claim_def)

end
