(* ===== verification/TurnProps.thy ===== *)
theory TurnProps
  imports Workstreams
begin

text \<open>
  What turns, queues and event streams promise over any sequence of calls: one task at a time in a
  session, input in the order it came, and a client that polls misses nothing while it keeps up. The
  calls are recorded in a trace, which is what the promises speak of.
\<close>

section \<open>Traces\<close>

datatype coord_label =
    L_Acquired nat uuid nat | L_Refused nat uuid | L_Released nat uuid nat
  | L_Queued uuid queued_input | L_Popped uuid queued_input | L_Empty uuid | L_Emitted uuid session_event

text \<open>A turn is released for the session it was taken for, with the lock it was given.\<close>

fun turns_of :: "coord_label list \<Rightarrow> (nat \<times> uuid \<times> nat) list" where
  "turns_of [] = []"
| "turns_of (L_Acquired t s l # ls) = (t, s, l) # turns_of ls"
| "turns_of (L_Released t s l # ls) = removeAll (t, s, l) (turns_of ls)"
| "turns_of (_ # ls) = turns_of ls"

fun queued_in :: "uuid \<Rightarrow> coord_label list \<Rightarrow> queued_input list" where
  "queued_in s [] = []"
| "queued_in s (L_Queued s' q # ls) = queued_in s ls @ (if s' = s then [q] else [])"
| "queued_in s (_ # ls) = queued_in s ls"

fun popped_in :: "uuid \<Rightarrow> coord_label list \<Rightarrow> queued_input list" where
  "popped_in s [] = []"
| "popped_in s (L_Popped s' q # ls) = popped_in s ls @ (if s' = s then [q] else [])"
| "popped_in s (_ # ls) = popped_in s ls"

fun emitted_in :: "uuid \<Rightarrow> coord_label list \<Rightarrow> session_event list" where
  "emitted_in s [] = []"
| "emitted_in s (L_Emitted s' e # ls) = emitted_in s ls @ (if s' = s then [e] else [])"
| "emitted_in s (_ # ls) = emitted_in s ls"

text \<open>The state after a trace, whose latest call comes first.\<close>

inductive coord_run :: "int \<Rightarrow> coord_label list \<Rightarrow> session_coordinator \<Rightarrow> bool" for most where
  run_start: "coord_run most [] (SessionCoordinator most)"
| run_acquire: "coord_run most ls sc \<Longrightarrow> acquire_turn t s sc = (sc', Inr (Some l))
    \<Longrightarrow> coord_run most (L_Acquired t s l # ls) sc'"
| run_refuse: "coord_run most ls sc \<Longrightarrow> acquire_turn t s sc = (sc', r) \<Longrightarrow> r = Inr None \<or> r = Inl RuntimeFault
    \<Longrightarrow> coord_run most (L_Refused t s # ls) sc'"
| run_release: "coord_run most ls sc \<Longrightarrow> (t, s, l) \<in> set (turns_of ls) \<Longrightarrow> release_turn t s l sc = (sc', Inr ())
    \<Longrightarrow> coord_run most (L_Released t s l # ls) sc'"
| run_enqueue: "coord_run most ls sc \<Longrightarrow> enqueue_input fresh now s message by sc = (sc', q)
    \<Longrightarrow> coord_run most (L_Queued s q # ls) sc'"
| run_pop: "coord_run most ls sc \<Longrightarrow> pop_next_input s sc = (sc', Some q) \<Longrightarrow> coord_run most (L_Popped s q # ls) sc'"
| run_empty: "coord_run most ls sc \<Longrightarrow> pop_next_input s sc = (sc', None) \<Longrightarrow> coord_run most (L_Empty s # ls) sc'"
| run_emit: "coord_run most ls sc \<Longrightarrow> emit_activity now s ty payload sc = (sc', Inr e)
    \<Longrightarrow> coord_run most (L_Emitted s e # ls) sc'"

section \<open>Turns\<close>

text \<open>The lock given out is still the session's and held by the task; no two sessions share one.\<close>

definition turns_inv :: "coord_label list \<Rightarrow> session_coordinator \<Rightarrow> bool" where
  "turns_inv ls sc \<longleftrightarrow>
     (\<forall>t s l. (t, s, l) \<in> set (turns_of ls)
        \<longrightarrow> map_of (sc_locks sc) s = Some l \<and> map_of (sc_holders sc) l = Some t)
     \<and> (\<forall>s s' l. map_of (sc_locks sc) s = Some l \<longrightarrow> map_of (sc_locks sc) s' = Some l \<longrightarrow> s = s')
     \<and> (\<forall>s l. map_of (sc_locks sc) s = Some l \<longrightarrow> l < sc_fresh_lock sc)
     \<and> (\<forall>l. map_of (sc_holders sc) l \<noteq> None \<longrightarrow> l < sc_fresh_lock sc)"

lemma turns_invI:
  assumes "\<And>t s l. (t, s, l) \<in> set (turns_of ls)
      \<Longrightarrow> map_of (sc_locks sc) s = Some l \<and> map_of (sc_holders sc) l = Some t"
    and "\<And>s s' l. map_of (sc_locks sc) s = Some l \<Longrightarrow> map_of (sc_locks sc) s' = Some l \<Longrightarrow> s = s'"
    and "\<And>s l. map_of (sc_locks sc) s = Some l \<Longrightarrow> l < sc_fresh_lock sc"
    and "\<And>l t. map_of (sc_holders sc) l = Some t \<Longrightarrow> l < sc_fresh_lock sc"
  shows "turns_inv ls sc"
  using assms unfolding turns_inv_def by blast

lemma turns_invD:
  assumes "turns_inv ls sc"
  shows "(t, s, l) \<in> set (turns_of ls) \<Longrightarrow> map_of (sc_locks sc) s = Some l \<and> map_of (sc_holders sc) l = Some t"
    and "map_of (sc_locks sc) s = Some l \<Longrightarrow> map_of (sc_locks sc) s' = Some l \<Longrightarrow> s = s'"
    and "map_of (sc_locks sc) s = Some l \<Longrightarrow> l < sc_fresh_lock sc"
    and "map_of (sc_holders sc) l = Some t \<Longrightarrow> l < sc_fresh_lock sc"
  using assms unfolding turns_inv_def by blast+

lemma lock_for_inv:
  assumes "turns_inv ls sc" and "lock_for s sc = (sc', l)"
  shows "turns_inv ls sc' \<and> map_of (sc_locks sc') s = Some l \<and> sc_holders sc' = sc_holders sc
     \<and> sc_queues sc' = sc_queues sc \<and> sc_events sc' = sc_events sc
     \<and> sc_next_cursor sc' = sc_next_cursor sc \<and> sc_max_events sc' = sc_max_events sc"
proof (cases "map_of (sc_locks sc) s")
  case None
  then have sc': "sc' = sc\<lparr>sc_locks := AList.update s l (sc_locks sc), sc_fresh_lock := Suc l\<rparr>"
    and l: "l = sc_fresh_lock sc"
    using assms(2) by (auto simp: lock_for_def Let_def)
  have "turns_inv ls sc'"
  proof (rule turns_invI)
    fix t s' k assume "(t, s', k) \<in> set (turns_of ls)"
    from turns_invD(1) [OF assms(1) this] None
    show "map_of (sc_locks sc') s' = Some k \<and> map_of (sc_holders sc') k = Some t"
      by (auto simp: sc' AList.update_conv')
  next
    fix a b k assume "map_of (sc_locks sc') a = Some k" "map_of (sc_locks sc') b = Some k"
    then show "a = b"
      using turns_invD(2) [OF assms(1), of a k b] turns_invD(3) [OF assms(1), of a k]
        turns_invD(3) [OF assms(1), of b k]
      by (auto simp: sc' AList.update_conv' l split: if_splits)
  next
    fix a k assume "map_of (sc_locks sc') a = Some k"
    then show "k < sc_fresh_lock sc'"
      using turns_invD(3) [OF assms(1), of a k] by (auto simp: sc' AList.update_conv' l split: if_splits)
  next
    fix k t assume "map_of (sc_holders sc') k = Some t"
    then show "k < sc_fresh_lock sc'" using turns_invD(4) [OF assms(1), of k t] by (simp add: sc' l)
  qed
  then show ?thesis by (simp add: sc' AList.update_conv')
next
  case (Some k)
  then show ?thesis using assms by (simp add: lock_for_def)
qed

lemma acquire_inv:
  assumes "turns_inv ls sc" and "acquire_turn t s sc = (sc', r)"
  shows "turns_inv (if r = Inr (Some l) then L_Acquired t s l # ls else ls) sc'"
    and "sc_queues sc' = sc_queues sc" and "sc_events sc' = sc_events sc"
    and "sc_next_cursor sc' = sc_next_cursor sc" and "sc_max_events sc' = sc_max_events sc"
proof -
  obtain sc1 k where k: "lock_for s sc = (sc1, k)" by fastforce
  note lock = lock_for_inv [OF assms(1) k]
  have "turns_inv (if r = Inr (Some l) then L_Acquired t s l # ls else ls) sc' \<and> sc_queues sc' = sc_queues sc
    \<and> sc_events sc' = sc_events sc \<and> sc_next_cursor sc' = sc_next_cursor sc
    \<and> sc_max_events sc' = sc_max_events sc"
  proof (cases "map_of (sc_holders sc1) k")
    case None
    then have sc': "sc' = sc1\<lparr>sc_holders := AList.update k t (sc_holders sc1)\<rparr>" "r = Inr (Some k)"
      using assms(2) by (simp_all add: acquire_turn_def k)
    have inv: "turns_inv ls sc1" and s: "map_of (sc_locks sc1) s = Some k" using lock by simp_all
    have "turns_inv (L_Acquired t s k # ls) sc'"
    proof (rule turns_invI)
      fix u s' j assume "(u, s', j) \<in> set (turns_of (L_Acquired t s k # ls))"
      then show "map_of (sc_locks sc') s' = Some j \<and> map_of (sc_holders sc') j = Some u"
        using turns_invD(1) [OF inv, of u s' j] s None by (auto simp: sc'(1) AList.update_conv')
    next
      fix a b j assume "map_of (sc_locks sc') a = Some j" "map_of (sc_locks sc') b = Some j"
      then show "a = b" using turns_invD(2) [OF inv, of a j b] by (simp add: sc'(1))
    next
      fix a j assume "map_of (sc_locks sc') a = Some j"
      then show "j < sc_fresh_lock sc'" using turns_invD(3) [OF inv, of a j] by (simp add: sc'(1))
    next
      fix j u assume "map_of (sc_holders sc') j = Some u"
      then show "j < sc_fresh_lock sc'"
        using turns_invD(4) [OF inv, of j u] turns_invD(3) [OF inv s]
        by (auto simp: sc'(1) AList.update_conv' split: if_splits)
    qed
    moreover have "turns_inv ls sc'" if "l \<noteq> k"
      using \<open>turns_inv (L_Acquired t s k # ls) sc'\<close> by (simp add: turns_inv_def)
    ultimately show ?thesis using lock sc' by auto
  next
    case (Some h)
    then have "sc' = sc1" "r \<noteq> Inr (Some l)" using assms(2) by (auto simp: acquire_turn_def k split: if_splits)
    then show ?thesis using lock by simp
  qed
  then show "turns_inv (if r = Inr (Some l) then L_Acquired t s l # ls else ls) sc'"
    and "sc_queues sc' = sc_queues sc" and "sc_events sc' = sc_events sc"
    and "sc_next_cursor sc' = sc_next_cursor sc" and "sc_max_events sc' = sc_max_events sc" by simp_all
qed

lemma release_inv_turns:
  assumes "turns_inv ls sc" and "(t, s, l) \<in> set (turns_of ls)" and "release_turn t s l sc = (sc', Inr ())"
  shows "turns_inv (L_Released t s l # ls) sc'"
    and "sc_queues sc' = sc_queues sc" and "sc_events sc' = sc_events sc"
    and "sc_next_cursor sc' = sc_next_cursor sc" and "sc_max_events sc' = sc_max_events sc"
proof -
  have own: "map_of (sc_locks sc) s = Some l" "map_of (sc_holders sc) l = Some t"
    using turns_invD(1) [OF assms(1,2)] by simp_all
  have other: "s' \<noteq> s \<and> j \<noteq> l" if "(u, s', j) \<in> set (turns_of (L_Released t s l # ls))" for u s' j
    using that turns_invD(1) [OF assms(1), of u s' j] turns_invD(2) [OF assms(1), of s' l s] own by auto
  have fields: "sc_holders sc' = AList.delete l (sc_holders sc)" "sc_fresh_lock sc' = sc_fresh_lock sc"
    "sc_locks sc' = sc_locks sc \<or> sc_locks sc' = AList.delete s (sc_locks sc)"
    "sc_queues sc' = sc_queues sc" "sc_events sc' = sc_events sc"
    "sc_next_cursor sc' = sc_next_cursor sc" "sc_max_events sc' = sc_max_events sc"
    using assms(3) by (auto simp: release_turn_def Let_def split: if_splits)
  have locks: "map_of (sc_locks sc') a = Some j \<Longrightarrow> map_of (sc_locks sc) a = Some j" for a j
    using fields(3) by (auto simp: AList.delete_conv' split: if_splits)
  show "turns_inv (L_Released t s l # ls) sc'"
  proof (rule turns_invI)
    fix u s' j assume u: "(u, s', j) \<in> set (turns_of (L_Released t s l # ls))"
    then have "map_of (sc_locks sc) s' = Some j \<and> map_of (sc_holders sc) j = Some u"
      using turns_invD(1) [OF assms(1), of u s' j] by simp
    then show "map_of (sc_locks sc') s' = Some j \<and> map_of (sc_holders sc') j = Some u"
      using other [OF u] fields(1,3) by (auto simp: AList.delete_conv')
  next
    fix a b j assume "map_of (sc_locks sc') a = Some j" "map_of (sc_locks sc') b = Some j"
    then show "a = b" using turns_invD(2) [OF assms(1), of a j b] locks by blast
  next
    fix a j assume "map_of (sc_locks sc') a = Some j"
    then show "j < sc_fresh_lock sc'" using turns_invD(3) [OF assms(1) locks] fields(2) by simp
  next
    fix j u assume "map_of (sc_holders sc') j = Some u"
    then show "j < sc_fresh_lock sc'"
      using turns_invD(4) [OF assms(1), of j u] fields(1,2) by (auto simp: AList.delete_conv' split: if_splits)
  qed
  show "sc_queues sc' = sc_queues sc" "sc_events sc' = sc_events sc"
    "sc_next_cursor sc' = sc_next_cursor sc" "sc_max_events sc' = sc_max_events sc"
    using fields by simp_all
qed

lemma turns_inv_cong:
  assumes "turns_inv ls sc" and "turns_of ls' = turns_of ls" and "sc_locks sc' = sc_locks sc"
    and "sc_holders sc' = sc_holders sc" and "sc_fresh_lock sc' = sc_fresh_lock sc"
  shows "turns_inv ls' sc'"
  using assms by (simp add: turns_inv_def)

section \<open>Queues and streams\<close>

definition queue_inv :: "coord_label list \<Rightarrow> session_coordinator \<Rightarrow> bool" where
  "queue_inv ls sc \<longleftrightarrow> (\<forall>s. queued_in s ls = popped_in s ls @ queue_of sc s)"

text \<open>A stream is the end of what was emitted; cursors grow, and stay below the next.\<close>

definition stream_inv :: "int \<Rightarrow> coord_label list \<Rightarrow> session_coordinator \<Rightarrow> bool" where
  "stream_inv most ls sc \<longleftrightarrow>
     sc_max_events sc = most
     \<and> (\<forall>s. stream_of sc s = drop (length (emitted_in s ls) - nat most) (emitted_in s ls))
     \<and> (\<forall>s. sorted_wrt (<) (map se_cursor (emitted_in s ls)))
     \<and> (\<forall>s e. e \<in> set (emitted_in s ls) \<longrightarrow> se_cursor e < sc_next_cursor sc)"

lemma drop_window: "drop (length (drop (length xs - n) xs @ [x]) - n) (drop (length xs - n) xs @ [x])
   = drop (length (xs @ [x]) - n) (xs @ [x])"
proof (cases "length xs < n")
  case False
  show ?thesis
  proof (cases n)
    case (Suc m)
    then have "length (drop (length xs - n) xs @ [x]) - n = 1" "length (xs @ [x]) - n = 1 + (length xs - n)"
      using False by simp_all
    then show ?thesis using Suc False by simp
  qed simp
qed simp

lemma emit_inv:
  assumes "stream_inv most ls sc" and "emit_activity now s ty payload sc = (sc', Inr e)"
  shows "stream_inv most (L_Emitted s e # ls) sc'"
proof -
  let ?es = "stream_of sc s @ [e]"
  have e: "se_cursor e = sc_next_cursor sc" and most: "sc_max_events sc = most"
    using assms by (auto simp: emit_activity_def stream_inv_def Let_def split: if_splits)
  have sc': "sc' = sc\<lparr>sc_next_cursor := sc_next_cursor sc + 1,
      sc_events := AList.update s (drop (length ?es - nat most) ?es) (sc_events sc)\<rparr>"
    using assms(2) most by (auto simp: emit_activity_def Let_def split: if_splits)
  have after: "stream_of sc' s' = (if s' = s then drop (length ?es - nat most) ?es else stream_of sc s')" for s'
    by (simp add: sc' stream_of_def AList.update_conv')
  have before: "stream_of sc s' = drop (length (emitted_in s' ls) - nat most) (emitted_in s' ls)" for s'
    using assms(1) by (simp add: stream_inv_def)
  have "stream_of sc' s' = drop (length (emitted_in s' (L_Emitted s e # ls)) - nat most) (emitted_in s' (L_Emitted s e # ls))"
    for s'
  proof (cases "s' = s")
    case True
    have "stream_of sc' s = drop (length ?es - nat most) ?es" by (simp only: after if_True simp_thms)
    also have "\<dots> = drop (length (emitted_in s ls @ [e]) - nat most) (emitted_in s ls @ [e])"
      unfolding before by (rule drop_window)
    finally show ?thesis by (simp add: True)
  next
    case False
    then show ?thesis by (simp add: after before)
  qed
  moreover have "sorted_wrt (<) (map se_cursor (emitted_in s' (L_Emitted s e # ls)))" for s'
    using assms(1) e by (auto simp: stream_inv_def sorted_wrt_append)
  moreover have "se_cursor x < sc_next_cursor sc'" if "x \<in> set (emitted_in s' (L_Emitted s e # ls))" for s' x
  proof -
    have "x = e \<or> x \<in> set (emitted_in s' ls)" using that by (auto split: if_splits)
    then show ?thesis using assms(1) e by (fastforce simp: stream_inv_def sc')
  qed
  moreover have "sc_max_events sc' = most" using most by (simp add: sc')
  ultimately show ?thesis unfolding stream_inv_def by blast
qed

lemma coord_run_inv: "coord_run most ls sc \<Longrightarrow> turns_inv ls sc \<and> queue_inv ls sc \<and> stream_inv most ls sc"
proof (induction rule: coord_run.induct)
  case run_start
  then show ?case
    by (simp add: turns_inv_def queue_inv_def stream_inv_def SessionCoordinator_def queue_of_def stream_of_def)
next
  case (run_acquire ls sc t s sc' l)
  then show ?case
    using acquire_inv(1) [of ls sc t s sc' "Inr (Some l)" l] acquire_inv(2-) [of ls sc t s sc' "Inr (Some l)"]
    by (simp add: queue_inv_def stream_inv_def queue_of_def stream_of_def)
next
  case (run_refuse ls sc t s sc' r)
  then have "r \<noteq> Inr (Some 0)" by auto
  then show ?case
    using run_refuse acquire_inv(1) [of ls sc t s sc' r 0] acquire_inv(2-) [of ls sc t s sc' r]
    by (simp add: turns_inv_def queue_inv_def stream_inv_def queue_of_def stream_of_def)
next
  case (run_release ls sc t s l sc')
  then show ?case
    using release_inv_turns [of ls sc t s l sc'] by (simp add: queue_inv_def stream_inv_def queue_of_def stream_of_def)
next
  case (run_enqueue ls sc fresh now s message "by" sc' q)
  then have "sc' = sc\<lparr>sc_queues := AList.update s (queue_of sc s @ [q]) (sc_queues sc)\<rparr>"
    by (auto simp: enqueue_input_def Let_def)
  then show ?case
    using run_enqueue turns_inv_cong [of ls sc "L_Queued s q # ls" sc']
    by (auto simp: queue_inv_def stream_inv_def queue_of_def stream_of_def AList.update_conv')
next
  case (run_pop ls sc s sc' q)
  then obtain rest where q: "queue_of sc s = q # rest" and sc': "sc' = sc\<lparr>sc_queues :=
      (if rest = [] then AList.delete s (sc_queues sc) else AList.update s rest (sc_queues sc))\<rparr>"
    by (auto simp: pop_next_input_def split: list.splits)
  have "queue_of sc' s' = (if s' = s then rest else queue_of sc s')" for s'
    by (simp add: sc' queue_of_def AList.update_conv' AList.delete_conv')
  then show ?case
    using run_pop turns_inv_cong [of ls sc "L_Popped s q # ls" sc'] q
    by (auto simp: queue_inv_def stream_inv_def stream_of_def sc')
next
  case (run_empty ls sc s sc')
  then have "sc' = sc" by (auto simp: pop_next_input_def split: list.splits)
  then show ?case using run_empty by (simp add: turns_inv_def queue_inv_def stream_inv_def)
next
  case (run_emit ls sc now s ty payload sc' e)
  then show ?case
    using emit_inv [of most ls sc now s ty payload sc' e] turns_inv_cong [of ls sc "L_Emitted s e # ls" sc']
    by (auto simp: queue_inv_def queue_of_def emit_activity_def Let_def split: if_splits)
qed

section \<open>Properties\<close>

text \<open>
  Over any sequence of calls, a task that was given the turn of a session and has not released
  it is the only such task: no other is given a turn there, nor the same one twice over two locks.
\<close>

theorem one_turn_per_session:
  assumes "coord_run most ls sc" and "(t, s, l) \<in> set (turns_of ls)" and "(t', s, l') \<in> set (turns_of ls)"
  shows "t = t' \<and> l = l' \<and> acquire_turn t' s sc = (sc, Inl RuntimeFault)
     \<and> (t'' \<noteq> t \<longrightarrow> acquire_turn t'' s sc = (sc, Inr None))"
proof -
  have inv: "turns_inv ls sc" using coord_run_inv [OF assms(1)] by simp
  have "map_of (sc_locks sc) s = Some l" "map_of (sc_holders sc) l = Some t" "l' = l" "t' = t"
    using turns_invD(1) [OF inv assms(2)] turns_invD(1) [OF inv assms(3)] by auto
  then show ?thesis by (simp add: acquire_turn_def lock_for_def)
qed

text \<open>
  What was queued for a session is what was taken from its queue, in the same order, followed by
  what still waits: no input is lost, doubled, reordered or delivered to another session.
\<close>

theorem inputs_in_order:
  assumes "coord_run most ls sc"
  shows "queued_in s ls = popped_in s ls @ queue_of sc s"
  using coord_run_inv [OF assms] by (simp add: queue_inv_def)

text \<open>Of a growing list, what is above a bound and fits the window is all in the window.\<close>

lemma filter_recent:
  assumes "sorted_wrt (<) (map f xs)" and "length (filter (\<lambda>e. c < f e) xs) \<le> length xs - n" and "n \<le> length xs"
  shows "filter (\<lambda>e. c < f e) (drop n xs) = filter (\<lambda>e. c < (f e :: int)) xs"
proof -
  have xs: "filter (\<lambda>e. c < f e) xs = filter (\<lambda>e. c < f e) (take n xs) @ filter (\<lambda>e. c < f e) (drop n xs)"
    by (metis append_take_drop_id filter_append)
  have "filter (\<lambda>e. c < f e) (take n xs) = []"
  proof (rule ccontr)
    assume ne: "filter (\<lambda>e. c < f e) (take n xs) \<noteq> []"
    then obtain e where e: "e \<in> set (take n xs)" "c < f e" by (auto simp: filter_empty_conv)
    have "sorted_wrt (<) (map f (take n xs @ drop n xs))" using assms(1) by simp
    then have "\<forall>x \<in> set (drop n xs). f e < f x" using e(1) unfolding map_append sorted_wrt_append by simp
    then have "filter (\<lambda>e. c < f e) (drop n xs) = drop n xs" using e(2) by (auto simp: filter_id_conv)
    then have "length (filter (\<lambda>e. c < f e) (take n xs)) + (length xs - n) \<le> length xs - n"
      using assms(2) xs by simp
    then show False using ne by simp
  qed
  then show ?thesis using xs by simp
qed

lemma filter_above_last:
  assumes "sorted_wrt (<) (map f (evs @ rest))" and "evs \<noteq> []"
  shows "filter (\<lambda>e. f (last evs) < (f e :: int)) (evs @ rest) = rest"
proof -
  obtain es l where evs: "evs = es @ [l]" using assms(2) by (cases evs rule: rev_cases) auto
  have "filter (\<lambda>e. f l < f e) es = []" "filter (\<lambda>e. f l < f e) rest = rest"
    using assms(1) by (auto simp: evs sorted_wrt_append filter_empty_conv filter_id_conv)
  then show ?thesis by (simp add: evs)
qed

text \<open>
  C15: a client that polls a session with its last cursor, and is no more than the stream's limit
  behind, is given events it has not seen, each once and in order, some if there are any and all if
  it sets no limit; and what comes after the cursor it gets is exactly what it was not given.
\<close>

theorem polling_misses_nothing:
  assumes "coord_run most ls sc"
    and "length (filter (\<lambda>e. c < se_cursor e) (emitted_in s ls)) \<le> nat most"
    and "events_since sc (Some s) c limit = (evs, c')"
  shows "evs @ filter (\<lambda>e. c' < se_cursor e) (emitted_in s ls) = filter (\<lambda>e. c < se_cursor e) (emitted_in s ls)
     \<and> (limit \<le> 0 \<or> evs = [] \<longrightarrow> filter (\<lambda>e. c' < se_cursor e) (emitted_in s ls) = [])"
proof -
  let ?es = "emitted_in s ls" and ?new = "filter (\<lambda>e. c < se_cursor e) (emitted_in s ls)"
  have inv: "stream_of sc s = drop (length ?es - nat most) ?es" "sorted_wrt (<) (map se_cursor ?es)"
    using coord_run_inv [OF assms(1)] by (simp_all add: stream_inv_def)
  have "length ?new \<le> length ?es - (length ?es - nat most)"
    using assms(2) length_filter_le [of "\<lambda>e. c < se_cursor e" ?es] by arith
  from filter_recent [OF inv(2) this] have new: "filter (\<lambda>e. c < se_cursor e) (stream_of sc s) = ?new"
    by (simp add: inv(1))
  then have evs: "evs = (if 0 < limit then take (nat limit) ?new else ?new)"
    and c': "c' = (if evs = [] then c else se_cursor (last evs))"
    using assms(3) by (auto simp: events_since_def Let_def split: if_splits)
  obtain rest where rest: "?new = evs @ rest" and short: "limit \<le> 0 \<or> evs = [] \<Longrightarrow> rest = []"
  proof (cases "0 < limit")
    case True
    then show ?thesis using that [of "drop (nat limit) ?new"] evs by auto
  next
    case False
    then show ?thesis using that [of "[]"] evs by simp
  qed
  have "filter (\<lambda>e. c' < se_cursor e) ?es = rest"
  proof (cases "evs = []")
    case True
    then show ?thesis using rest c' short by simp
  next
    case False
    then have "last evs \<in> set ?new" using rest by simp
    then have "c < c'" using c' False by simp
    then have "filter (\<lambda>e. c' < se_cursor e) ?es = filter (\<lambda>e. c' < se_cursor e) ?new"
      by (auto simp: filter_filter intro!: filter_cong)
    also have "\<dots> = rest"
    proof -
      have "sorted_wrt (<) (map se_cursor (evs @ rest))"
        unfolding rest [symmetric] using inv(2) by (simp add: sorted_wrt_map sorted_wrt_filter)
      from filter_above_last [OF this False] show ?thesis unfolding rest using c' False by simp
    qed
    finally show ?thesis .
  qed
  then show ?thesis using rest short by simp
qed

section \<open>Instances\<close>

theorem one_turn_per_session_witness:
  "\<exists>sc. coord_run 10 [L_Acquired 1 7 0] sc \<and> acquire_turn 1 7 sc = (sc, Inl RuntimeFault)
     \<and> acquire_turn 2 7 sc = (sc, Inr None)"
proof -
  obtain sc where "acquire_turn 1 7 (SessionCoordinator 10) = (sc, Inr (Some 0))"
    by (simp add: acquire_turn_def lock_for_def SessionCoordinator_def)
  then have run: "coord_run 10 [L_Acquired 1 7 0] sc" by (rule run_acquire [OF run_start])
  from one_turn_per_session [OF run, of 1 7 0 1 0 2] run show ?thesis by auto
qed

theorem inputs_in_order_witness:
  "\<exists>sc q. coord_run 10 [L_Queued 7 q] sc \<and> queued_in 7 [L_Queued 7 q] = [] @ queue_of sc 7"
proof -
  obtain sc q where "enqueue_input ''q1'' 5 7 ''hello'' ''tui'' (SessionCoordinator 10) = (sc, q)" by fastforce
  then have run: "coord_run 10 [L_Queued 7 q] sc" by (rule run_enqueue [OF run_start])
  from inputs_in_order [OF run, of 7] run show ?thesis by auto
qed

theorem polling_misses_nothing_witness:
  "\<exists>sc e f evs c'. coord_run 10 [L_Emitted 7 f, L_Emitted 7 e] sc \<and> events_since sc (Some 7) 0 1 = (evs, c')
     \<and> evs @ filter (\<lambda>e. c' < se_cursor e) [e, f] = filter (\<lambda>e. 0 < se_cursor e) [e, f]"
proof -
  obtain sc1 e where e: "emit_activity 5 7 ''turn.started'' None (SessionCoordinator 10) = (sc1, Inr e)"
    "sc_max_events sc1 = 10"
    by (simp add: emit_activity_def SessionCoordinator_def Let_def)
  then obtain sc f where f: "emit_activity 6 7 ''turn.done'' None sc1 = (sc, Inr f)"
    by (simp add: emit_activity_def Let_def)
  have run: "coord_run 10 [L_Emitted 7 f, L_Emitted 7 e] sc"
    by (rule run_emit [OF run_emit [OF run_start e(1)] f])
  obtain evs c' where poll: "events_since sc (Some 7) 0 1 = (evs, c')" by fastforce
  have "length (filter (\<lambda>e. 0 < se_cursor e) (emitted_in 7 [L_Emitted 7 f, L_Emitted 7 e])) \<le> nat 10"
    by simp
  from conjunct1 [OF polling_misses_nothing [OF run this poll]]
  have "evs @ filter (\<lambda>e. c' < se_cursor e) [e, f] = filter (\<lambda>e. 0 < se_cursor e) [e, f]"
    by (simp only: emitted_in.simps if_True append_Nil append_Cons refl)
  with run poll show ?thesis by blast
qed

end
