(* ===== verification/Mail.thy ===== *)
theory Mail
  imports AuditLog
begin

text \<open>
  \<open>tools/native/email_journal.py\<close>: the durable claims that keep a reviewed draft from being
  submitted twice. Every method is one transaction of the database (\<open>BEGIN IMMEDIATE\<close>, rolled back
  on an exception), so it is one step also across processes; the journal is the content of the two
  tables. The clock, fresh identifiers and message identifiers are arguments, JSON text and SHA-256
  those of the audit log.
\<close>

section \<open>The tables\<close>

definition TERMINAL_STATUSES :: "string list" where
  "TERMINAL_STATUSES = [''smtp_accepted'', ''failed_before_submission'', ''outcome_unknown'']"

record operation_row =
  or_id :: uuid
  or_session_id :: uuid
  or_draft_id :: uuid
  or_draft_version :: int
  or_envelope :: "(string \<times> json) list"
  or_envelope_hash :: string
  or_account_fingerprint :: string
  or_message_id :: string
  or_status :: string
  or_detail :: string
  or_created_at :: time
  or_updated_at :: time

record reconciliation =
  rc_outcome :: string
  rc_reason :: string
  rc_decided_by :: string
  rc_at :: time

text \<open>The rows in the order of insertion; \<open>id\<close> and \<open>(draft_id, draft_version)\<close> are unique.\<close>

record mail_journal =
  mj_operations :: "operation_row list"
  mj_reconciliations :: "(uuid \<times> reconciliation) list"

definition empty_journal :: mail_journal where
  "empty_journal = \<lparr>mj_operations = [], mj_reconciliations = []\<rparr>"

text \<open>\<open>_SELECT\<close> and \<open>_operation\<close>: a row with its reconciliation, if there is one.\<close>

type_synonym email_operation = "operation_row \<times> reconciliation option"

definition joined :: "mail_journal \<Rightarrow> operation_row \<Rightarrow> email_operation" where
  "joined j r = (r, map_of (mj_reconciliations j) (or_id r))"

definition op_get :: "mail_journal \<Rightarrow> uuid \<Rightarrow> email_operation option" where
  "op_get j oid = map_option (joined j) (find (\<lambda>r. or_id r = oid) (mj_operations j))"

definition for_draft :: "mail_journal \<Rightarrow> uuid \<Rightarrow> int \<Rightarrow> email_operation option" where
  "for_draft j did v =
     map_option (joined j) (find (\<lambda>r. or_draft_id r = did \<and> or_draft_version r = v) (mj_operations j))"

definition draft_operations :: "mail_journal \<Rightarrow> uuid \<Rightarrow> email_operation list" where
  "draft_operations j did = map (joined j) (filter (\<lambda>r. or_draft_id r = did) (mj_operations j))"

definition all_operations :: "mail_journal \<Rightarrow> uuid option \<Rightarrow> email_operation list" where
  "all_operations j sid =
     map (joined j) (sort_key (\<lambda>r. - or_created_at r)
       (filter (\<lambda>r. sid = None \<or> sid = Some (or_session_id r)) (mj_operations j)))"

definition op_blocks :: "email_operation \<Rightarrow> bool" where
  "op_blocks x \<longleftrightarrow>
     or_status (fst x) \<in> {''submitting'', ''smtp_accepted''}
     \<or> or_status (fst x) = ''outcome_unknown''
       \<and> map_option rc_outcome (snd x) \<noteq> Some ''confirmed_not_sent''"

definition blocks_draft :: "mail_journal \<Rightarrow> uuid \<Rightarrow> bool" where
  "blocks_draft j did \<longleftrightarrow> list_ex op_blocks (draft_operations j did)"

section \<open>Claims\<close>

record mail_claim =
  mc_session_id :: uuid
  mc_draft_id :: uuid
  mc_draft_version :: int
  mc_envelope :: "(string \<times> json) list"
  mc_account_fingerprint :: string
  mc_message_id :: "string option"
  mc_operation_id :: "uuid option"

definition envelope_digest :: "line_codec \<Rightarrow> (string \<times> json) list \<Rightarrow> string" where
  "envelope_digest cd envelope = lc_sha cd (lc_dumps_sorted cd envelope)"

text \<open>The claim of a version that has an operation returns it, if it is the same operation.\<close>

definition same_operation :: "line_codec \<Rightarrow> mail_claim \<Rightarrow> operation_row \<Rightarrow> bool" where
  "same_operation cd mc r \<longleftrightarrow>
     or_session_id r = mc_session_id mc
     \<and> or_envelope_hash r = envelope_digest cd (mc_envelope mc)
     \<and> or_account_fingerprint r = mc_account_fingerprint mc
     \<and> (mc_message_id mc = None \<or> mc_message_id mc = Some (or_message_id r))"

definition new_operation :: "line_codec \<Rightarrow> time \<Rightarrow> uuid \<Rightarrow> string \<Rightarrow> mail_claim \<Rightarrow> operation_row" where
  "new_operation cd now fresh_id fresh_message mc =
     \<lparr>or_id = (case mc_operation_id mc of None \<Rightarrow> fresh_id | Some i \<Rightarrow> i),
      or_session_id = mc_session_id mc, or_draft_id = mc_draft_id mc,
      or_draft_version = mc_draft_version mc, or_envelope = dict_sorted (mc_envelope mc),
      or_envelope_hash = envelope_digest cd (mc_envelope mc),
      or_account_fingerprint = mc_account_fingerprint mc,
      or_message_id = (case mc_message_id mc of None \<Rightarrow> fresh_message
                       | Some m \<Rightarrow> if m = [] then fresh_message else m),
      or_status = ''submitting'', or_detail = [], or_created_at = now, or_updated_at = now\<rparr>"

definition op_claim ::
  "line_codec \<Rightarrow> time \<Rightarrow> uuid \<Rightarrow> string \<Rightarrow> mail_claim \<Rightarrow> mail_journal
   \<Rightarrow> mail_journal \<times> (py_error + email_operation \<times> bool)" where
  "op_claim cd now fresh_id fresh_message mc j =
     (if mc_draft_version mc < 1 then (j, Inl ValueError)
      else case for_draft j (mc_draft_id mc) (mc_draft_version mc) of
             Some x \<Rightarrow> (j, if same_operation cd mc (fst x) then Inr (x, False) else Inl ValueError)
           | None \<Rightarrow>
               (let prior = draft_operations j (mc_draft_id mc);
                    r = new_operation cd now fresh_id fresh_message mc
                in if list_ex op_blocks prior then (j, Inl ValueError)
                   else if list_ex (\<lambda>x. mc_draft_version mc \<le> or_draft_version (fst x)
                                      \<or> or_session_id (fst x) \<noteq> mc_session_id mc) prior
                   then (j, Inl ValueError)
                   else if op_get j (or_id r) \<noteq> None then (j, Inl DatabaseIntegrityError)
                   else (let j = j\<lparr>mj_operations := mj_operations j @ [r]\<rparr> in (j, Inr (joined j r, True)))))"

section \<open>Outcomes\<close>

definition set_status :: "time \<Rightarrow> string \<Rightarrow> string \<Rightarrow> operation_row \<Rightarrow> operation_row" where
  "set_status now status detail r =
     r\<lparr>or_status := status, or_detail := detail, or_updated_at := now\<rparr>"

definition update_row :: "uuid \<Rightarrow> (operation_row \<Rightarrow> operation_row) \<Rightarrow> mail_journal \<Rightarrow> mail_journal" where
  "update_row oid f j =
     j\<lparr>mj_operations := map (\<lambda>r. if or_id r = oid then f r else r) (mj_operations j)\<rparr>"

definition op_finish ::
  "time \<Rightarrow> uuid \<Rightarrow> string \<Rightarrow> string \<Rightarrow> mail_journal \<Rightarrow> mail_journal \<times> (py_error + email_operation)" where
  "op_finish now oid status detail j =
     (if status \<notin> set TERMINAL_STATUSES then (j, Inl ValueError)
      else case op_get j oid of
             None \<Rightarrow> (j, Inl KeyError)
           | Some x \<Rightarrow>
               if or_status (fst x) \<noteq> ''submitting''
               then (j, if or_status (fst x) = status then Inr x else Inl ValueError)
               else (let j = update_row oid (set_status now status detail) j
                     in (j, Inr (joined j (set_status now status detail (fst x))))))"

definition op_reconcile ::
  "time \<Rightarrow> uuid \<Rightarrow> string \<Rightarrow> string \<Rightarrow> string \<Rightarrow> mail_journal
   \<Rightarrow> mail_journal \<times> (py_error + email_operation)" where
  "op_reconcile now oid outcome reason decided_by j =
     (if outcome \<notin> {''smtp_accepted'', ''confirmed_not_sent''} then (j, Inl ValueError)
      else if py_strip reason = [] \<or> py_strip decided_by = [] then (j, Inl ValueError)
      else case op_get j oid of
             None \<Rightarrow> (j, Inl KeyError)
           | Some (r, rc) \<Rightarrow>
               if or_status r \<noteq> ''outcome_unknown'' then (j, Inl ValueError)
               else case rc of
                      Some c \<Rightarrow>
                        (j, if (rc_outcome c, rc_reason c, rc_decided_by c) = (outcome, reason, decided_by)
                            then Inr (r, rc) else Inl ValueError)
                    | None \<Rightarrow>
                        (let c = \<lparr>rc_outcome = outcome, rc_reason = reason, rc_decided_by = decided_by, rc_at = now\<rparr>;
                             j = j\<lparr>mj_reconciliations := mj_reconciliations j @ [(oid, c)]\<rparr>
                         in (j, Inr (joined j r))))"

definition recover_detail :: string where
  "recover_detail = ''Daemon stopped during submission; SMTP acceptance is unknown. Do not replay.''"

definition recover_submitting :: "time \<Rightarrow> mail_journal \<Rightarrow> mail_journal \<times> nat" where
  "recover_submitting now j =
     (j\<lparr>mj_operations := map (\<lambda>r. if or_status r = ''submitting''
          then set_status now ''outcome_unknown'' recover_detail r else r) (mj_operations j)\<rparr>,
      length (filter (\<lambda>r. or_status r = ''submitting'') (mj_operations j)))"

text \<open>
  \<open>tools/native/email_delivery.py\<close>: the SMTP account, and one submission with its phases. What the
  SMTP library and the server do in a submission is an argument (\<open>smtp_attempt\<close>); texts of library
  exceptions are part of it.
\<close>

section \<open>Account\<close>

record smtp_config =
  sm_host :: string
  sm_port :: int
  sm_from_addr :: string
  sm_user :: "string option"
  sm_password :: "string option"
  sm_starttls :: bool
  sm_use_ssl :: bool

definition env_truthy :: "string option \<Rightarrow> bool \<Rightarrow> bool" where
  "env_truthy raw fallback =
     (let token = py_lower (py_strip (case raw of None \<Rightarrow> [] | Some s \<Rightarrow> s))
      in if token = [] then fallback else token \<in> {''1'', ''true'', ''yes'', ''on''})"

definition env_text :: "(string \<times> string) list \<Rightarrow> string \<Rightarrow> string" where
  "env_text env k = (case map_of env k of None \<Rightarrow> [] | Some s \<Rightarrow> s)"

definition nonempty :: "string \<Rightarrow> string option" where
  "nonempty s = (if s = [] then None else Some s)"

definition load_smtp_config :: "(string \<times> string) list \<Rightarrow> smtp_config option" where
  "load_smtp_config env =
     (let host = py_strip (env_text env ''CAPDEP_SMTP_HOST'');
          from_addr = py_strip (env_text env ''CAPDEP_SMTP_FROM'');
          port = env_text env ''CAPDEP_SMTP_PORT''
      in if host = [] \<or> from_addr = [] then None
         else Some \<lparr>sm_host = host,
                sm_port = (case int_of_text (if port = [] then ''587'' else port) of None \<Rightarrow> 587 | Some p \<Rightarrow> p),
                sm_from_addr = from_addr,
                sm_user = nonempty (py_strip (env_text env ''CAPDEP_SMTP_USER'')),
                sm_password = nonempty (env_text env ''CAPDEP_SMTP_PASSWORD''),
                sm_starttls = env_truthy (map_of env ''CAPDEP_SMTP_STARTTLS'') True,
                sm_use_ssl = env_truthy (map_of env ''CAPDEP_SMTP_SSL'') False\<rparr>)"

text \<open>The account under review: everything but the password.\<close>

definition account_identity :: "smtp_config \<Rightarrow> (string \<times> json) list" where
  "account_identity c =
     [(''host'', JStr (sm_host c)), (''port'', JInt (sm_port c)), (''from'', JStr (sm_from_addr c)),
      (''user'', case sm_user c of None \<Rightarrow> JNull | Some u \<Rightarrow> JStr u),
      (''starttls'', JBool (sm_starttls c)), (''ssl'', JBool (sm_use_ssl c))]"

definition smtp_config_fingerprint :: "line_codec \<Rightarrow> smtp_config option \<Rightarrow> string" where
  "smtp_config_fingerprint cd config =
     (case config of None \<Rightarrow> ''unconfigured'' | Some c \<Rightarrow> lc_sha cd (lc_dumps_sorted cd (account_identity c)))"

section \<open>One submission\<close>

datatype smtp_exception =
    SenderRefused | RecipientsRefused | DataError | NotSupported | OtherFailure

text \<open>
  What happens: a failure before \<open>send_message\<close> (building the message, connecting, TLS, login);
  whether the connection shows its DATA phase, and whether that was entered; the exception of
  \<open>send_message\<close>; and whether the server accepted the mail. A failure of QUIT after an acceptance is
  swallowed by the code.
\<close>

record smtp_attempt =
  sa_setup :: "(smtp_exception \<times> string) option"
  sa_shows_data :: bool
  sa_entered_data :: bool
  sa_send :: "(smtp_exception \<times> string) option"
  sa_accepted :: bool

record delivery_result =
  dl_delivered :: bool
  dl_transport :: string
  dl_detail :: string
  dl_status :: string

text \<open>\<open>__post_init__\<close>\<close>

definition DeliveryResult :: "bool \<Rightarrow> string \<Rightarrow> string \<Rightarrow> string \<Rightarrow> delivery_result" where
  "DeliveryResult delivered transport detail status =
     \<lparr>dl_delivered = delivered, dl_transport = transport, dl_detail = detail,
      dl_status = (if status \<noteq> [] then status
                   else if delivered then ''smtp_accepted'' else ''failed_before_submission'')\<rparr>"

definition submission_failure :: "bool \<Rightarrow> smtp_exception \<times> string \<Rightarrow> string \<times> string" where
  "submission_failure submitting failure =
     (if submitting \<and> fst failure \<notin> {SenderRefused, RecipientsRefused, DataError, NotSupported}
      then ''outcome_unknown'' else ''failed_before_submission'', snd failure)"

definition send_via_smtp :: "smtp_attempt \<Rightarrow> (string \<times> string) + unit" where
  "send_via_smtp sa =
     (case sa_setup sa of
        Some e \<Rightarrow> Inl (submission_failure False e)
      | None \<Rightarrow>
          (case sa_send sa of
             Some e \<Rightarrow> Inl (submission_failure (\<not> sa_shows_data sa \<or> sa_entered_data sa) e)
           | None \<Rightarrow> Inr ()))"

text \<open>\<open>deliver\<close>: its result, and whether \<open>send_via_smtp\<close> was called.\<close>

definition deliver ::
  "line_codec \<Rightarrow> smtp_config option \<Rightarrow> (string \<times> string) list \<Rightarrow> string option \<Rightarrow> string option \<Rightarrow> smtp_attempt
   \<Rightarrow> delivery_result \<times> bool" where
  "deliver cd config env from_addr fingerprint sa =
     (let cfg = (if config \<noteq> None then config else load_smtp_config env)
      in if fingerprint \<noteq> None \<and> fingerprint \<noteq> Some (smtp_config_fingerprint cd cfg)
         then (DeliveryResult False ''smtp'' ''SMTP account changed since review'' [], False)
         else case cfg of
                None \<Rightarrow>
                  (DeliveryResult False ''record-only''
                    ''no SMTP configured (set CAPDEP_SMTP_HOST + CAPDEP_SMTP_FROM to deliver)'' [], False)
              | Some c \<Rightarrow>
                  if from_addr \<noteq> None \<and> from_addr \<noteq> Some (sm_from_addr c)
                  then (DeliveryResult False ''smtp'' ''Reviewed From does not match the configured account'' [], False)
                  else (case send_via_smtp sa of
                          Inl (status, text) \<Rightarrow> (DeliveryResult False ''smtp'' (''smtp error: '' @ text) status, True)
                        | Inr _ \<Rightarrow>
                            (DeliveryResult True ''smtp''
                               (''SMTP accepted via '' @ sm_host c @ ''; recipient delivery is unconfirmed'')
                               ''smtp_accepted'', True)))"

text \<open>
  What SMTP promises: nothing is accepted without the DATA phase, an explicit refusal means that
  nothing was accepted, and \<open>send_message\<close> returns only when something was. (Refused senders and
  recipients are refused before DATA, an unsupported option as well; a DATA error is the server's
  negative reply.)
\<close>

definition smtp_honest :: "smtp_attempt \<Rightarrow> bool" where
  "smtp_honest sa \<longleftrightarrow>
     (case sa_setup sa of
        Some _ \<Rightarrow> \<not> sa_accepted sa
      | None \<Rightarrow>
          (case sa_send sa of
             None \<Rightarrow> sa_accepted sa
           | Some (e, _) \<Rightarrow>
               (e \<in> {SenderRefused, RecipientsRefused, DataError, NotSupported} \<longrightarrow> \<not> sa_accepted sa)
               \<and> (sa_shows_data sa \<and> \<not> sa_entered_data sa \<longrightarrow> \<not> sa_accepted sa)))"

text \<open>
  \<open>tools/native/email.py\<close>: sources, drafts, the outbox and the handlers of the mail tools. Boxes are
  the content of their tables; the parser of address lists (\<open>email.utils.getaddresses\<close>) is an
  argument, as are fresh identifiers and the clock. Fields of messages are texts.
\<close>

section \<open>Sources\<close>

record mail_source =
  ms_id :: uuid
  ms_session :: uuid
  ms_provider_tool :: string
  ms_folder :: string
  ms_uidvalidity :: string
  ms_uid :: string
  ms_from :: string
  ms_reply_to :: string
  ms_subject :: string
  ms_date :: string
  ms_message_id :: string
  ms_references :: string
  ms_body :: string
  ms_body_present :: bool
  ms_body_truncated :: bool
  ms_account_id :: string
  ms_from_addr :: string
  ms_account_fingerprint :: string
  ms_labels :: label_state
  ms_created :: time

record source_box =
  sb_sources :: "(uuid \<times> mail_source) list"
  sb_epochs :: "((string \<times> string) \<times> string) list"

definition observe_mailbox :: "string \<Rightarrow> string \<Rightarrow> string \<Rightarrow> source_box \<Rightarrow> source_box" where
  "observe_mailbox provider folder uidvalidity sb =
     (if uidvalidity = [] then sb
      else sb\<lparr>sb_epochs := AList.update (provider, folder) uidvalidity (sb_epochs sb)\<rparr>)"

definition capture :: "mail_source \<Rightarrow> source_box \<Rightarrow> source_box" where
  "capture src sb =
     (let sb = observe_mailbox (ms_provider_tool src) (ms_folder src) (ms_uidvalidity src) sb
      in sb\<lparr>sb_sources := AList.update (ms_id src) src (sb_sources sb)\<rparr>)"

definition source_stale :: "source_box \<Rightarrow> mail_source \<Rightarrow> bool" where
  "source_stale sb src =
     (case map_of (sb_epochs sb) (ms_provider_tool src, ms_folder src) of
        None \<Rightarrow> False
      | Some epoch \<Rightarrow> epoch \<noteq> [] \<and> epoch \<noteq> ms_uidvalidity src)"

definition sources_all :: "source_box \<Rightarrow> uuid \<Rightarrow> (mail_source \<times> bool) list" where
  "sources_all sb sid =
     map (\<lambda>(_, s). (s, source_stale sb s)) (filter (\<lambda>(_, s). ms_session s = sid) (sb_sources sb))"

definition sources_get :: "source_box \<Rightarrow> uuid \<Rightarrow> uuid \<Rightarrow> mail_source option" where
  "sources_get sb src_id sid =
     map_option fst (find (\<lambda>(s, stale). ms_id s = src_id \<and> \<not> stale) (sources_all sb sid))"

section \<open>Drafts\<close>

record draft_source =
  ds_source_id :: uuid
  ds_account_id :: string
  ds_from_addr :: string
  ds_account_fingerprint :: string
  ds_in_reply_to :: string
  ds_references :: string

record draft =
  df_id :: uuid
  df_session :: uuid
  df_to :: string
  df_subject :: string
  df_body :: string
  df_created :: time
  df_updated :: time
  df_labels :: label_state
  df_version :: int
  df_source :: "draft_source option"

type_synonym draft_box = "(uuid \<times> draft) list"

definition draft_dict :: "draft \<Rightarrow> (string \<times> json) list" where
  "draft_dict d =
     [(''id'', JUuid (df_id d)), (''version'', JInt (df_version d)), (''to'', JStr (df_to d)),
      (''subject'', JStr (df_subject d)), (''body'', JStr (df_body d)),
      (''updated_at'', JTime (df_updated d))]
     @ (case df_source d of
          None \<Rightarrow> []
        | Some s \<Rightarrow>
            [(''source_id'', JUuid (ds_source_id s)), (''account_id'', JStr (ds_account_id s)),
             (''from_addr'', JStr (ds_from_addr s)),
             (''account_fingerprint'', JStr (ds_account_fingerprint s)),
             (''in_reply_to'', JStr (ds_in_reply_to s)), (''references'', JStr (ds_references s))])"

definition draft_save :: "draft \<Rightarrow> draft_box \<Rightarrow> draft_box" where
  "draft_save d box = AList.update (df_id d) d box"

definition new_draft ::
  "uuid \<Rightarrow> time \<Rightarrow> uuid \<Rightarrow> string \<Rightarrow> string \<Rightarrow> string \<Rightarrow> label_state \<Rightarrow> draft_source option \<Rightarrow> draft" where
  "new_draft fresh now sid to subject body labels src =
     \<lparr>df_id = fresh, df_session = sid, df_to = to, df_subject = subject, df_body = body,
      df_created = now, df_updated = now, df_labels = labels, df_version = 1, df_source = src\<rparr>"

text \<open>\<open>update\<close> with the three content fields; \<open>None\<close> when there is no such draft.\<close>

definition draft_edit ::
  "time \<Rightarrow> uuid \<Rightarrow> int option \<Rightarrow> string \<Rightarrow> string \<Rightarrow> string \<Rightarrow> draft_box
   \<Rightarrow> draft_box \<times> (py_error + draft option)" where
  "draft_edit now did expected to subject body box =
     (case map_of box did of
        None \<Rightarrow> (box, Inr None)
      | Some d \<Rightarrow>
          if expected \<noteq> None \<and> expected \<noteq> Some (df_version d) then (box, Inl ValueError)
          else (let d = d\<lparr>df_to := to, df_subject := subject, df_body := body, df_updated := now,
                          df_version := df_version d + 1\<rparr>
                in (AList.update did d box, Inr (Some d))))"

definition draft_discard :: "uuid \<Rightarrow> draft_box \<Rightarrow> draft_box \<times> bool" where
  "draft_discard did box = (AList.delete did box, map_of box did \<noteq> None)"

definition drafts_all :: "draft_box \<Rightarrow> draft list" where
  "drafts_all box = sort_key (\<lambda>d. - df_updated d) (map snd box)"

section \<open>Addresses and threads\<close>

definition address_char :: "char \<Rightarrow> bool" where
  "address_char c \<longleftrightarrow> \<not> py_space c \<and> c \<notin> set ''@<>;,''"

definition plain_address :: "string \<Rightarrow> bool" where
  "plain_address s \<longleftrightarrow>
     (let (local, domain) = partition_at (CHR ''@'') s
      in CHR ''@'' \<in> set s \<and> local \<noteq> [] \<and> domain \<noteq> [] \<and> list_all address_char local \<and> list_all address_char domain)"

definition has_line_break :: "string \<Rightarrow> bool" where
  "has_line_break s \<longleftrightarrow> list_ex line_break s"

definition single_recipient :: "(string \<Rightarrow> (string \<times> string) list) \<Rightarrow> string \<Rightarrow> py_error + string" where
  "single_recipient addresses v =
     (if has_line_break v then Inl ValueError
      else case addresses v of
             [(_, a)] \<Rightarrow> if plain_address a then Inr a else Inl ValueError
           | _ \<Rightarrow> Inl ValueError)"

text \<open>\<open>re.fullmatch(r"<[^<>\s]+>", s)\<close> and \<open>s.split()\<close>.\<close>

definition message_token :: "string \<Rightarrow> bool" where
  "message_token s \<longleftrightarrow>
     2 < length s \<and> hd s = CHR ''<'' \<and> last s = CHR ''>''
     \<and> list_all (\<lambda>c. \<not> py_space c \<and> c \<notin> set ''<>'') (butlast (tl s))"

function split_space :: "string \<Rightarrow> string list" where
  "split_space s =
     (let t = dropWhile py_space s
      in if t = [] then []
         else takeWhile (\<lambda>c. \<not> py_space c) t # split_space (dropWhile (\<lambda>c. \<not> py_space c) t))"
  by pat_completeness auto

termination
proof (relation "measure length")
  fix s t :: string
  assume t: "t = dropWhile py_space s" and ne: "t \<noteq> []"
  then have "\<not> py_space (hd t)" by (metis hd_dropWhile)
  then have "length (dropWhile (\<lambda>c. \<not> py_space c) t) < length t"
    using ne by (cases t) (simp_all add: length_dropWhile_le less_Suc_eq_le)
  moreover have "length t \<le> length s" by (simp add: t length_dropWhile_le)
  ultimately show "(dropWhile (\<lambda>c. \<not> py_space c) t, s) \<in> measure length" by simp
qed simp

declare split_space.simps [simp del]

text \<open>\<open>dict.fromkeys\<close> keeps the first of each.\<close>

definition unique_first :: "'a list \<Rightarrow> 'a list" where
  "unique_first xs = rev (remdups (rev xs))"

section \<open>The tools\<close>

record sent_email =
  st_id :: uuid
  st_session :: uuid
  st_to :: string
  st_subject :: string
  st_body :: string
  st_at :: time

record mail_world =
  mw_journal :: "mail_journal option"
  mw_drafts :: draft_box
  mw_sources :: "source_box option"
  mw_outbox :: "sent_email list"

record mail_setup =
  mt_codec :: line_codec
  mt_config :: "smtp_config option"
  mt_env :: "(string \<times> string) list"
  mt_addresses :: "string \<Rightarrow> (string \<times> string) list"
  mt_origin_state :: "(uuid \<Rightarrow> py_error + session_status \<times> label_state) option"

definition email_draft_save ::
  "uuid \<Rightarrow> time \<Rightarrow> uuid \<Rightarrow> label_state \<Rightarrow> string \<Rightarrow> string \<Rightarrow> string \<Rightarrow> mail_world
   \<Rightarrow> mail_world \<times> (string \<times> json) list" where
  "email_draft_save fresh now sid labels to subject body w =
     (let d = new_draft fresh now sid to subject body labels None
      in (w\<lparr>mw_drafts := draft_save d (mw_drafts w)\<rparr>,
          [(''saved'', JBool True), (''id'', JUuid (df_id d)), (''to'', JStr to), (''subject'', JStr subject),
           (''body'', JStr body), (''version'', JInt (df_version d)),
           (''next_step'', JStr ''Review before sending; saving does not authorize delivery.'')]))"

text \<open>What a session sees of its drafts and sources, with the labels the reading adds.\<close>

definition email_draft_list :: "uuid \<Rightarrow> mail_world \<Rightarrow> label_state \<times> (string \<times> json) list list" where
  "email_draft_list sid w =
     (let visible = filter (\<lambda>d. df_session d = sid) (drafts_all (mw_drafts w))
      in (label_join (map df_labels visible), map draft_dict visible))"

definition source_list :: "mail_setup \<Rightarrow> uuid \<Rightarrow> mail_world \<Rightarrow> label_state \<times> bool \<times> (mail_source \<times> bool) list" where
  "source_list mt sid w =
     (let rows = (case mw_sources w of None \<Rightarrow> [] | Some sb \<Rightarrow> sources_all sb sid)
      in (label_join (map (ms_labels \<circ> fst) rows), mt_config mt \<noteq> None, rows))"

definition reply_subject :: "string \<Rightarrow> string" where
  "reply_subject s = (if prefix ''re:'' (py_lower s) then s else ''Re: '' @ s)"

definition reply_references :: "mail_source \<Rightarrow> string" where
  "reply_references src =
     py_join '' '' (unique_first (split_space (py_strip (ms_references src)) @ [py_strip (ms_message_id src)]))"

definition reply_create ::
  "mail_setup \<Rightarrow> uuid \<Rightarrow> time \<Rightarrow> uuid \<Rightarrow> label_state \<Rightarrow> uuid \<Rightarrow> string \<Rightarrow> mail_world
   \<Rightarrow> mail_world \<times> (py_error + draft)" where
  "reply_create mt fresh now sid labels source_id body w =
     (case (case mw_sources w of None \<Rightarrow> None | Some sb \<Rightarrow> sources_get sb source_id sid) of
        None \<Rightarrow> (w, Inl ValueError)
      | Some src \<Rightarrow>
          if ms_account_id src = [] \<or> ms_from_addr src = [] then (w, Inl ValueError)
          else if ms_uidvalidity src = [] \<or> ms_uid src = [] \<or> ms_message_id src = [] then (w, Inl ValueError)
          else if \<not> ms_body_present src \<or> ms_body_truncated src then (w, Inl ValueError)
          else case single_recipient (mt_addresses mt)
                      (if ms_reply_to src \<noteq> [] then ms_reply_to src else ms_from src) of
                 Inl e \<Rightarrow> (w, Inl e)
               | Inr recipient \<Rightarrow>
                   if \<not> message_token (py_strip (ms_message_id src)) then (w, Inl ValueError)
                   else if \<not> list_all message_token (split_space (py_strip (ms_references src)))
                   then (w, Inl ValueError)
                   else if has_line_break (ms_subject src) then (w, Inl ValueError)
                   else (let d = new_draft fresh now sid recipient (reply_subject (ms_subject src)) body
                               (label_join [labels, ms_labels src])
                               (Some \<lparr>ds_source_id = ms_id src, ds_account_id = ms_account_id src,
                                      ds_from_addr = ms_from_addr src,
                                      ds_account_fingerprint = ms_account_fingerprint src,
                                      ds_in_reply_to = py_strip (ms_message_id src),
                                      ds_references = reply_references src\<rparr>)
                         in (w\<lparr>mw_drafts := draft_save d (mw_drafts w)\<rparr>, Inr d)))"

definition draft_update ::
  "mail_setup \<Rightarrow> time \<Rightarrow> uuid \<Rightarrow> uuid \<Rightarrow> int \<Rightarrow> string \<Rightarrow> string \<Rightarrow> string \<Rightarrow> mail_world
   \<Rightarrow> mail_world \<times> (py_error + draft)" where
  "draft_update mt now sid did version to subject body w =
     (case map_of (mw_drafts w) did of
        None \<Rightarrow> (w, Inl ValueError)
      | Some d \<Rightarrow>
          if df_session d \<noteq> sid then (w, Inl ValueError)
          else if (case mw_journal w of None \<Rightarrow> False | Some j \<Rightarrow> blocks_draft j (df_id d)) then (w, Inl ValueError)
          else case single_recipient (mt_addresses mt) to of
                 Inl e \<Rightarrow> (w, Inl e)
               | Inr recipient \<Rightarrow>
                   if has_line_break subject then (w, Inl ValueError)
                   else case draft_edit now (df_id d) (Some version) recipient subject body (mw_drafts w) of
                          (_, Inl e) \<Rightarrow> (w, Inl e)
                        | (_, Inr None) \<Rightarrow> (w, Inl ValueError)
                        | (box, Inr (Some d)) \<Rightarrow> (w\<lparr>mw_drafts := box\<rparr>, Inr d))"

text \<open>\<open>_record_and_deliver\<close>\<close>

definition record_and_deliver ::
  "mail_setup \<Rightarrow> smtp_attempt \<Rightarrow> sent_email \<Rightarrow> mail_world \<Rightarrow> mail_world \<times> delivery_result \<times> bool" where
  "record_and_deliver mt sa sent w =
     (w\<lparr>mw_outbox := mw_outbox w @ [sent]\<rparr>, deliver (mt_codec mt) (mt_config mt) (mt_env mt) None None sa)"

definition sent_output :: "sent_email \<Rightarrow> delivery_result \<Rightarrow> (string \<times> json) list" where
  "sent_output sent res =
     [(''sent'', JBool True), (''delivered'', JBool (dl_delivered res)), (''transport'', JStr (dl_transport res)),
      (''delivery_detail'', JStr (dl_detail res)), (''id'', JUuid (st_id sent)), (''to'', JStr (st_to sent)),
      (''subject'', JStr (st_subject sent))]"

definition sent_of :: "uuid \<Rightarrow> time \<Rightarrow> uuid \<Rightarrow> string \<Rightarrow> string \<Rightarrow> string \<Rightarrow> sent_email" where
  "sent_of fresh now sid to subject body =
     \<lparr>st_id = fresh, st_session = sid, st_to = to, st_subject = subject, st_body = body, st_at = now\<rparr>"

text \<open>\<open>email.send\<close> without a draft, and \<open>email.draft_send\<close>; the boolean tells whether SMTP was used.\<close>

definition email_send_plain ::
  "mail_setup \<Rightarrow> smtp_attempt \<Rightarrow> uuid \<Rightarrow> time \<Rightarrow> uuid \<Rightarrow> string \<Rightarrow> string \<Rightarrow> string \<Rightarrow> mail_world
   \<Rightarrow> mail_world \<times> bool \<times> (string \<times> json) list" where
  "email_send_plain mt sa fresh now sid to subject body w =
     (let sent = sent_of fresh now sid to subject body; (w, res, used) = record_and_deliver mt sa sent w
      in (w, used, sent_output sent res))"

definition email_draft_send ::
  "mail_setup \<Rightarrow> smtp_attempt \<Rightarrow> uuid \<Rightarrow> time \<Rightarrow> uuid \<Rightarrow> uuid \<Rightarrow> mail_world
   \<Rightarrow> mail_world \<times> bool \<times> (string \<times> json) list" where
  "email_draft_send mt sa fresh now sid did w =
     (case map_of (mw_drafts w) did of
        None \<Rightarrow> (w, False, [(''sent'', JBool False), (''error'', JStr ''unknown draft id'')])
      | Some d \<Rightarrow>
          if df_session d \<noteq> sid
          then (w, False, [(''sent'', JBool False), (''error'', JStr ''draft belongs to another session'')])
          else (let sent = sent_of fresh now sid (df_to d) (df_subject d) (df_body d);
                    (w, res, used) = record_and_deliver mt sa sent w;
                    w = (if dl_delivered res then w\<lparr>mw_drafts := fst (draft_discard did (mw_drafts w))\<rparr> else w)
                in (w, used, sent_output sent res @ [(''promoted_from_draft'', JUuid did)])))"

section \<open>Sending a reviewed draft\<close>

record reviewed_send =
  rs_account_id :: string
  rs_from_addr :: string
  rs_to :: string
  rs_subject :: string
  rs_body :: string
  rs_in_reply_to :: string
  rs_references :: string
  rs_message_id :: string
  rs_account_fingerprint :: string
  rs_draft_id :: uuid
  rs_draft_version :: int
  rs_origin_session :: uuid
  rs_reviewed_labels :: "label_state option"

definition envelope_of :: "reviewed_send \<Rightarrow> (string \<times> json) list" where
  "envelope_of rs =
     [(''account_id'', JStr (rs_account_id rs)), (''from_addr'', JStr (rs_from_addr rs)),
      (''to'', JStr (rs_to rs)), (''subject'', JStr (rs_subject rs)), (''body'', JStr (rs_body rs)),
      (''in_reply_to'', JStr (rs_in_reply_to rs)), (''references'', JStr (rs_references rs)),
      (''message_id'', JStr (rs_message_id rs))]"

definition draft_as_reviewed :: "reviewed_send \<Rightarrow> draft \<Rightarrow> bool" where
  "draft_as_reviewed rs d \<longleftrightarrow>
     df_version d = rs_draft_version rs \<and> df_session d = rs_origin_session rs
     \<and> df_to d = rs_to rs \<and> df_subject d = rs_subject rs \<and> df_body d = rs_body rs"

definition source_current :: "mail_world \<Rightarrow> draft \<Rightarrow> bool" where
  "source_current w d \<longleftrightarrow>
     (case (df_source d, mw_sources w) of
        (Some s, Some sb) \<Rightarrow> sources_get sb (ds_source_id s) (df_session d) \<noteq> None
      | _ \<Rightarrow> True)"

definition origin_refusal :: "mail_setup \<Rightarrow> reviewed_send \<Rightarrow> draft \<Rightarrow> py_error option" where
  "origin_refusal mt rs d =
     (case mt_origin_state mt of
        None \<Rightarrow> None
      | Some origin \<Rightarrow>
          (case origin (df_session d) of
             Inl e \<Rightarrow> Some e
           | Inr (status, labels) \<Rightarrow>
               if status \<notin> {S_ACTIVE, S_WAITING_APPROVAL} then Some ValueError
               else if Some (labels_to_dict (label_join [labels, df_labels d])) \<noteq> rs_reviewed_labels rs
               then Some ValueError else None))"

definition claim_of :: "reviewed_send \<Rightarrow> mail_claim" where
  "claim_of rs =
     \<lparr>mc_session_id = rs_origin_session rs, mc_draft_id = rs_draft_id rs,
      mc_draft_version = rs_draft_version rs, mc_envelope = envelope_of rs,
      mc_account_fingerprint = rs_account_fingerprint rs, mc_message_id = Some (rs_message_id rs),
      mc_operation_id = None\<rparr>"

text \<open>Up to and with the claim; the last step before anything is sent.\<close>

definition begin_reviewed_send ::
  "mail_setup \<Rightarrow> time \<Rightarrow> uuid \<Rightarrow> string \<Rightarrow> reviewed_send \<Rightarrow> mail_world
   \<Rightarrow> mail_world \<times> (py_error + email_operation \<times> bool)" where
  "begin_reviewed_send mt now fresh fresh_message rs w =
     (case mw_journal w of
        None \<Rightarrow> (w, Inl ValueError)
      | Some j \<Rightarrow>
          (case map_of (mw_drafts w) (rs_draft_id rs) of
             None \<Rightarrow> (w, Inl ValueError)
           | Some d \<Rightarrow>
               if \<not> draft_as_reviewed rs d then (w, Inl ValueError)
               else if \<not> source_current w d then (w, Inl ValueError)
               else case origin_refusal mt rs d of
                      Some e \<Rightarrow> (w, Inl e)
                    | None \<Rightarrow>
                        (let (j, res) = op_claim (mt_codec mt) now fresh fresh_message (claim_of rs) j
                         in (w\<lparr>mw_journal := Some j\<rparr>, res))))"

text \<open>
  The delivery of a fresh claim and its record. An exception other than one of the delivery (a
  cancelled task) leaves the outcome unknown and goes on.
\<close>

definition interrupted_detail :: string where
  "interrupted_detail = ''Submission interrupted; inspect the account before any new send''"

definition complete_reviewed_send ::
  "mail_setup \<Rightarrow> time \<Rightarrow> smtp_attempt \<Rightarrow> bool \<Rightarrow> reviewed_send \<Rightarrow> uuid \<Rightarrow> mail_world
   \<Rightarrow> mail_world \<times> bool \<times> (py_error + email_operation)" where
  "complete_reviewed_send mt now sa interrupted rs oid w =
     (case mw_journal w of
        None \<Rightarrow> (w, False, Inl ValueError)
      | Some j \<Rightarrow>
          (let (res, used) = deliver (mt_codec mt) (mt_config mt) (mt_env mt) (Some (rs_from_addr rs))
                 (Some (rs_account_fingerprint rs)) sa;
               (j, out) = (if interrupted then op_finish now oid ''outcome_unknown'' interrupted_detail j
                           else op_finish now oid (dl_status res) (dl_detail res) j)
           in (w\<lparr>mw_journal := Some j\<rparr>, used, if interrupted then Inl RuntimeFault else out)))"

definition reviewed_output :: "reviewed_send \<Rightarrow> email_operation \<Rightarrow> bool \<Rightarrow> (string \<times> json) list" where
  "reviewed_output rs x created =
     [(''sent'', JBool (or_status (fst x) = ''smtp_accepted'')),
      (''delivered'', JBool (or_status (fst x) = ''smtp_accepted'')), (''transport'', JStr ''smtp''),
      (''delivery_detail'', JStr (or_detail (fst x))), (''status'', JStr (or_status (fst x))),
      (''operation_id'', JUuid (or_id (fst x))), (''id'', JUuid (or_id (fst x))),
      (''to'', JStr (rs_to rs)), (''subject'', JStr (rs_subject rs)), (''already_submitted'', JBool (\<not> created))]"

definition email_send_reviewed ::
  "mail_setup \<Rightarrow> time \<Rightarrow> uuid \<Rightarrow> string \<Rightarrow> smtp_attempt \<Rightarrow> bool \<Rightarrow> reviewed_send \<Rightarrow> mail_world
   \<Rightarrow> mail_world \<times> bool \<times> (py_error + (string \<times> json) list)" where
  "email_send_reviewed mt now fresh fresh_message sa interrupted rs w =
     (case begin_reviewed_send mt now fresh fresh_message rs w of
        (w, Inl e) \<Rightarrow> (w, False, Inl e)
      | (w, Inr (x, False)) \<Rightarrow> (w, False, Inr (reviewed_output rs x False))
      | (w, Inr (x, True)) \<Rightarrow>
          (case complete_reviewed_send mt now sa interrupted rs (or_id (fst x)) w of
             (w, used, Inl e) \<Rightarrow> (w, used, Inl e)
           | (w, used, Inr y) \<Rightarrow> (w, used, Inr (reviewed_output rs y True))))"

end
