(* ===== verification/MailProps.thy ===== *)
theory MailProps
  imports Mail AuditLog
begin

text \<open>
  What the journal promises, over every interleaving of sends, crashes, restarts and operator
  decisions: reviewed sends submit a version of a draft at most once, and a draft whose mail the server
  accepted is not submitted again unless the operator has recorded that it was not sent. And one
  tool that sends drafts without asking the journal.
\<close>

section \<open>The journal in a run\<close>

text \<open>
  \<open>fl\<close> are the operations between claim and outcome (identifier, draft, version), \<open>ls\<close> the
  submissions made, with the truth about the server's acceptance.
\<close>

type_synonym flight = "uuid \<times> uuid \<times> int"

type_synonym submission = "uuid \<times> uuid \<times> int \<times> bool"

definition earlier_settled :: "mail_journal \<Rightarrow> operation_row \<Rightarrow> operation_row \<Rightarrow> bool" where
  "earlier_settled j r r' \<longleftrightarrow>
     or_draft_id r = or_draft_id r'
     \<longrightarrow> or_draft_version r < or_draft_version r' \<and> \<not> op_blocks (joined j r)"

definition row_for :: "mail_journal \<Rightarrow> uuid \<Rightarrow> uuid \<Rightarrow> int \<Rightarrow> operation_row \<Rightarrow> bool" where
  "row_for j oid did v r \<longleftrightarrow>
     r \<in> set (mj_operations j) \<and> or_id r = oid \<and> or_draft_id r = did \<and> or_draft_version r = v"

definition maybe_accepted :: "operation_row \<Rightarrow> bool" where
  "maybe_accepted r \<longleftrightarrow> or_status r \<in> {''submitting'', ''smtp_accepted'', ''outcome_unknown''}"

definition journal_inv :: "mail_journal \<Rightarrow> flight list \<Rightarrow> submission list \<Rightarrow> bool" where
  "journal_inv j fl ls \<longleftrightarrow>
     distinct (map or_id (mj_operations j))
     \<and> sorted_wrt (earlier_settled j) (mj_operations j)
     \<and> (\<forall>(oid, did, v) \<in> set fl. \<exists>r. row_for j oid did v r \<and> or_status r = ''submitting'')
     \<and> (\<forall>(oid, did, v, acc) \<in> set ls. \<exists>r. row_for j oid did v r \<and> (acc \<longrightarrow> maybe_accepted r))
     \<and> distinct (map fst fl @ map fst ls)"

lemma journal_invI:
  assumes "distinct (map or_id (mj_operations j))" and "sorted_wrt (earlier_settled j) (mj_operations j)"
    and "\<And>oid did v. (oid, did, v) \<in> set fl \<Longrightarrow> \<exists>r. row_for j oid did v r \<and> or_status r = ''submitting''"
    and "\<And>oid did v acc. (oid, did, v, acc) \<in> set ls \<Longrightarrow> \<exists>r. row_for j oid did v r \<and> (acc \<longrightarrow> maybe_accepted r)"
    and "distinct (map fst fl @ map fst ls)"
  shows "journal_inv j fl ls"
  using assms unfolding journal_inv_def by blast

lemma journal_invD:
  assumes "journal_inv j fl ls"
  shows "distinct (map or_id (mj_operations j))" and "sorted_wrt (earlier_settled j) (mj_operations j)"
    and "(oid, did, v) \<in> set fl \<Longrightarrow> \<exists>r. row_for j oid did v r \<and> or_status r = ''submitting''"
    and "(oid, did, v, acc) \<in> set ls \<Longrightarrow> \<exists>r. row_for j oid did v r \<and> (acc \<longrightarrow> maybe_accepted r)"
    and "distinct (map fst fl @ map fst ls)"
  using assms unfolding journal_inv_def by blast+

lemma same_row: "journal_inv j fl ls \<Longrightarrow> row_for j oid did v r \<Longrightarrow> row_for j oid did' v' r' \<Longrightarrow> r = r'"
  using journal_invD(1) by (auto simp: row_for_def distinct_map inj_on_def)

lemma op_get_row: "journal_inv j fl ls \<Longrightarrow> row_for j oid did v r \<Longrightarrow> op_get j oid = Some (joined j r)"
proof -
  assume inv: "journal_inv j fl ls" and r: "row_for j oid did v r"
  have "find (\<lambda>x. or_id x = oid) (mj_operations j) \<noteq> None"
    using r by (auto simp: find_None_iff row_for_def)
  then obtain x where x: "find (\<lambda>x. or_id x = oid) (mj_operations j) = Some x" by blast
  then have "row_for j oid (or_draft_id x) (or_draft_version x) x"
    by (auto simp: find_Some_iff row_for_def)
  from same_row [OF inv this r] show "op_get j oid = Some (joined j r)" using x by (simp add: op_get_def)
qed

text \<open>What is in flight has not been submitted, and leaves the flights once.\<close>

lemma flight_facts:
  assumes "distinct (map fst fl @ map fst ls)" and "(oid, did, v) \<in> set fl"
  shows "(a, b, c) \<in> set (removeAll (oid, did, v) fl) \<Longrightarrow> a \<noteq> oid"
    and "oid \<notin> set (map fst ls)"
    and "distinct (map fst (removeAll (oid, did, v) fl) @ map fst ls)"
    and "distinct (map fst (removeAll (oid, did, v) fl) @ map fst ((oid, did, v, acc) # ls))"
proof -
  have d: "distinct (map fst fl)" "distinct (map fst ls)" "set (map fst fl) \<inter> set (map fst ls) = {}"
    using assms(1) by simp_all
  have rest: "a \<noteq> oid" if "(a, b, c) \<in> set (removeAll (oid, did, v) fl)" for a b c
    using that assms(2) d(1) inj_onD [of fst "set fl" "(a, b, c)" "(oid, did, v)"] by (auto simp: distinct_map)
  then show "(a, b, c) \<in> set (removeAll (oid, did, v) fl) \<Longrightarrow> a \<noteq> oid" .
  have gone: "oid \<notin> set (map fst (removeAll (oid, did, v) fl))"
  proof
    assume "oid \<in> set (map fst (removeAll (oid, did, v) fl))"
    then obtain p where p: "p \<in> set (removeAll (oid, did, v) fl)" "fst p = oid" by (auto simp only: set_map)
    obtain b c where "p = (oid, b, c)" using p(2) by (cases p) auto
    then show False using p(1) rest by blast
  qed
  have "oid \<in> set (map fst fl)" using assms(2) by force
  then show ls: "oid \<notin> set (map fst ls)" using d(3) by blast
  have sub: "set (map fst (removeAll (oid, did, v) fl)) \<subseteq> set (map fst fl)" by auto
  have "distinct (map fst (removeAll (oid, did, v) fl))"
    using d(1) by (simp add: removeAll_filter_not_eq distinct_map_filter)
  then show "distinct (map fst (removeAll (oid, did, v) fl) @ map fst ls)" using d(2,3) sub by auto
  then show "distinct (map fst (removeAll (oid, did, v) fl) @ map fst ((oid, did, v, acc) # ls))"
    using gone ls by simp
qed

text \<open>Claims.\<close>

lemma claim_created:
  assumes "op_claim cd now fresh fm mc j = (j', Inr (x, True))"
  shows "\<exists>r. j' = j\<lparr>mj_operations := mj_operations j @ [r]\<rparr> \<and> fst x = r
     \<and> or_draft_id r = mc_draft_id mc \<and> or_draft_version r = mc_draft_version mc \<and> or_status r = ''submitting''
     \<and> or_id r \<notin> set (map or_id (mj_operations j))
     \<and> (\<forall>r' \<in> set (mj_operations j). or_draft_id r' = or_draft_id r
          \<longrightarrow> or_draft_version r' < or_draft_version r \<and> \<not> op_blocks (joined j r'))"
proof -
  let ?r = "new_operation cd now fresh fm mc"
  have c: "j' = j\<lparr>mj_operations := mj_operations j @ [?r]\<rparr>" "fst x = ?r"
    "\<not> list_ex op_blocks (draft_operations j (mc_draft_id mc))"
    "\<not> list_ex (\<lambda>x. mc_draft_version mc \<le> or_draft_version (fst x) \<or> or_session_id (fst x) \<noteq> mc_session_id mc)
        (draft_operations j (mc_draft_id mc))"
    "op_get j (or_id ?r) = None"
    using assms
    by (auto simp: op_claim_def Let_def joined_def simp del: not_None_eq not_Some_eq split: if_splits option.splits)
  have "or_draft_version r' < mc_draft_version mc \<and> \<not> op_blocks (joined j r')"
    if "r' \<in> set (mj_operations j)" "or_draft_id r' = mc_draft_id mc" for r'
  proof -
    have "joined j r' \<in> set (draft_operations j (mc_draft_id mc))"
      using that by (simp add: draft_operations_def)
    then show ?thesis using c(3,4) by (fastforce simp: list_ex_iff joined_def)
  qed
  moreover have "or_id ?r \<notin> set (map or_id (mj_operations j))"
    using c(5) by (auto simp: op_get_def find_None_iff)
  ultimately show ?thesis using c(1,2) by (auto simp: new_operation_def)
qed

lemma claim_kept: "op_claim cd now fresh fm mc j = (j', res) \<Longrightarrow> \<not> (\<exists>x. res = Inr (x, True)) \<Longrightarrow> j' = j"
  by (auto simp: op_claim_def Let_def joined_def split: if_splits option.splits)

lemma row_for_append: "row_for j oid did v r \<Longrightarrow> row_for (j\<lparr>mj_operations := mj_operations j @ [r']\<rparr>) oid did v r"
  by (simp add: row_for_def)

lemma claim_inv_journal:
  assumes "journal_inv j fl ls" and "op_claim cd now fresh fm mc j = (j', Inr (x, True))"
  shows "journal_inv j' ((or_id (fst x), mc_draft_id mc, mc_draft_version mc) # fl) ls"
proof -
  obtain r where r: "j' = j\<lparr>mj_operations := mj_operations j @ [r]\<rparr>" "fst x = r"
    "or_draft_id r = mc_draft_id mc" "or_draft_version r = mc_draft_version mc" "or_status r = ''submitting''"
    "or_id r \<notin> set (map or_id (mj_operations j))"
    and settled: "\<forall>r' \<in> set (mj_operations j). or_draft_id r' = or_draft_id r
        \<longrightarrow> or_draft_version r' < or_draft_version r \<and> \<not> op_blocks (joined j r')"
    using claim_created [OF assms(2)] by blast
  note inv = journal_invD [OF assms(1)]
  have joined: "joined j' = joined j" by (rule ext) (simp add: joined_def r(1))
  then have es: "earlier_settled j' = earlier_settled j" by (intro ext) (simp add: earlier_settled_def)
  have new: "or_id r \<noteq> oid" if "row_for j oid did v s" for oid did v s
    using r(6) that by (auto simp: row_for_def)
  show ?thesis
  proof (rule journal_invI)
    show "distinct (map or_id (mj_operations j'))" using inv(1) r(6) by (simp add: r(1))
    show "sorted_wrt (earlier_settled j') (mj_operations j')"
      unfolding es using inv(2) settled by (simp add: r(1) sorted_wrt_append earlier_settled_def)
    have fl: "or_id r \<notin> set (map fst fl)"
    proof
      assume "or_id r \<in> set (map fst fl)"
      then obtain did v where "(or_id r, did, v) \<in> set fl" by auto
      then show False using inv(3) new by blast
    qed
    have ls: "or_id r \<notin> set (map fst ls)"
    proof
      assume "or_id r \<in> set (map fst ls)"
      then obtain did v acc where "(or_id r, did, v, acc) \<in> set ls" by auto
      then show False using inv(4) new by blast
    qed
    show "distinct (map fst ((or_id (fst x), mc_draft_id mc, mc_draft_version mc) # fl) @ map fst ls)"
      using inv(5) fl ls r(2) by simp
    fix oid did v acc
    assume "(oid, did, v, acc) \<in> set ls"
    then obtain x where "row_for j oid did v x" "acc \<longrightarrow> maybe_accepted x" using inv(4) by blast
    then show "\<exists>r. row_for j' oid did v r \<and> (acc \<longrightarrow> maybe_accepted r)"
      using row_for_append [of j oid did v x r] by (intro exI [of _ x]) (simp add: r(1))
  next
    fix oid did v assume "(oid, did, v) \<in> set ((or_id (fst x), mc_draft_id mc, mc_draft_version mc) # fl)"
    then consider "oid = or_id r" "did = or_draft_id r" "v = or_draft_version r" | "(oid, did, v) \<in> set fl"
      using r(2-4) by auto
    then show "\<exists>r. row_for j' oid did v r \<and> or_status r = ''submitting''"
    proof cases
      case 1
      then show ?thesis using r(5) by (intro exI [of _ r]) (simp add: row_for_def r(1))
    next
      case 2
      then obtain x where "row_for j oid did v x" "or_status x = ''submitting''" using inv(3) by blast
      then show ?thesis using row_for_append [of j oid did v x r] by (intro exI [of _ x]) (simp add: r(1))
    qed
  qed
qed

text \<open>Rewriting rows that are submitting, and nothing else, keeps what is settled.\<close>

lemma rewrite_rows:
  assumes "sorted_wrt (earlier_settled j) (mj_operations j)"
    and j': "j' = j\<lparr>mj_operations := map g (mj_operations j)\<rparr>"
    and g: "\<And>r. r \<in> set (mj_operations j) \<Longrightarrow> or_status r \<noteq> ''submitting'' \<Longrightarrow> g r = r"
    and keys: "\<And>r. or_id (g r) = or_id r \<and> or_draft_id (g r) = or_draft_id r \<and> or_draft_version (g r) = or_draft_version r"
  shows "sorted_wrt (earlier_settled j') (mj_operations j')"
    and "row_for j oid did v r \<Longrightarrow> row_for j' oid did v (g r)"
    and "map or_id (mj_operations j') = map or_id (mj_operations j)"
proof -
  have joined: "joined j' = joined j" by (rule ext) (simp add: joined_def j')
  have "sorted_wrt (\<lambda>r r'. earlier_settled j' (g r) (g r')) (mj_operations j)"
  proof (rule sorted_wrt_mono_rel [OF _ assms(1)])
    fix r r' assume r: "r \<in> set (mj_operations j)" "earlier_settled j r r'"
    show "earlier_settled j' (g r) (g r')"
    proof (cases "or_status r = ''submitting''")
      case True
      then have "op_blocks (joined j r)" by (simp add: op_blocks_def joined_def)
      then show ?thesis using r(2) by (auto simp: earlier_settled_def keys)
    next
      case False
      then show ?thesis using r g by (simp add: earlier_settled_def keys joined)
    qed
  qed
  then show "sorted_wrt (earlier_settled j') (mj_operations j')" by (simp add: j' sorted_wrt_map)
  show "row_for j oid did v r \<Longrightarrow> row_for j' oid did v (g r)" by (auto simp: row_for_def j' keys)
  show "map or_id (mj_operations j') = map or_id (mj_operations j)" by (simp add: j' keys)
qed

lemma set_status_simps:
  "or_id (set_status now st d r) = or_id r" "or_draft_id (set_status now st d r) = or_draft_id r"
  "or_draft_version (set_status now st d r) = or_draft_version r" "or_status (set_status now st d r) = st"
  by (simp_all add: set_status_def)

lemma finish_flight:
  assumes "journal_inv j fl ls" and "(oid, did, v) \<in> set fl" and "st \<in> set TERMINAL_STATUSES"
    and "op_finish now oid st detail j = (j', res)"
  shows "journal_inv j' (removeAll (oid, did, v) fl) ls"
    and "acc \<longrightarrow> st \<noteq> ''failed_before_submission''
       \<Longrightarrow> journal_inv j' (removeAll (oid, did, v) fl) ((oid, did, v, acc) # ls)"
proof -
  note inv = journal_invD [OF assms(1)]
  obtain r where r: "row_for j oid did v r" "or_status r = ''submitting''" using inv(3) [OF assms(2)] by blast
  let ?g = "\<lambda>r. if or_id r = oid then set_status now st detail r else r"
  have j': "j' = j\<lparr>mj_operations := map ?g (mj_operations j)\<rparr>"
    using assms(3,4) op_get_row [OF assms(1) r(1)] r(2)
    by (simp add: op_finish_def update_row_def joined_def Let_def)
  have only: "x = r" if "x \<in> set (mj_operations j)" "or_id x = oid" for x
    using same_row [OF assms(1), of oid "or_draft_id x" "or_draft_version x" x did v r] that r(1)
    by (simp add: row_for_def)
  have g: "?g x = x" if "x \<in> set (mj_operations j)" "or_status x \<noteq> ''submitting''" for x
    using only [OF that(1)] that(2) r(2) by auto
  note rewrite = rewrite_rows [OF inv(2) j' g]
  have sorted: "sorted_wrt (earlier_settled j') (mj_operations j')"
    and ids: "map or_id (mj_operations j') = map or_id (mj_operations j)"
    and move: "row_for j a b c x \<Longrightarrow> row_for j' a b c (?g x)" for a b c x
    using rewrite by (simp_all add: set_status_simps)
  have keep: "\<exists>x. row_for j' a b c x \<and> P x" if "row_for j a b c x" "P x" "a \<noteq> oid" for a b c x P
    using move [OF that(1)] that by (intro exI [of _ x]) (auto simp: row_for_def)
  note oids = flight_facts(2) [OF inv(5) assms(2)] and rest = flight_facts(1) [OF inv(5) assms(2)]
  have base: "distinct (map or_id (mj_operations j'))" using inv(1) by (simp only: ids)
  have flights: "\<exists>x. row_for j' a b c x \<and> or_status x = ''submitting''"
    if "(a, b, c) \<in> set (removeAll (oid, did, v) fl)" for a b c
    using inv(3) [of a b c] keep rest [OF that] that by auto
  have subs: "\<exists>x. row_for j' a b c x \<and> (acc' \<longrightarrow> maybe_accepted x)" if "(a, b, c, acc') \<in> set ls" for a b c acc'
  proof -
    have "a \<noteq> oid" using that oids by force
    then show ?thesis using inv(4) [OF that] keep [of a b c _ "\<lambda>x. acc' \<longrightarrow> maybe_accepted x"] by blast
  qed
  show "journal_inv j' (removeAll (oid, did, v) fl) ls"
    by (rule journal_invI [OF base sorted flights subs flight_facts(3) [OF inv(5) assms(2)]])
  assume acc: "acc \<longrightarrow> st \<noteq> ''failed_before_submission''"
  have "row_for j' oid did v (set_status now st detail r)" using move [OF r(1)] r(1) by (simp add: row_for_def)
  moreover have "acc \<longrightarrow> maybe_accepted (set_status now st detail r)"
    using acc assms(3) by (auto simp: maybe_accepted_def set_status_simps TERMINAL_STATUSES_def)
  ultimately have subs': "\<exists>x. row_for j' a b c x \<and> (acc' \<longrightarrow> maybe_accepted x)"
    if "(a, b, c, acc') \<in> set ((oid, did, v, acc) # ls)" for a b c acc'
    using that subs by auto
  show "journal_inv j' (removeAll (oid, did, v) fl) ((oid, did, v, acc) # ls)"
    by (rule journal_invI [OF base sorted flights subs' flight_facts(4) [OF inv(5) assms(2)]])
qed

text \<open>A restart, and the operator's decisions.\<close>

lemma recover_inv:
  assumes "journal_inv j fl ls"
  shows "journal_inv (fst (recover_submitting now j)) [] ls"
proof -
  note inv = journal_invD [OF assms]
  let ?g = "\<lambda>r. if or_status r = ''submitting'' then set_status now ''outcome_unknown'' recover_detail r else r"
  let ?j = "fst (recover_submitting now j)"
  have j': "?j = j\<lparr>mj_operations := map ?g (mj_operations j)\<rparr>" by (simp add: recover_submitting_def)
  have same: "?g r = r" if "r \<in> set (mj_operations j)" "or_status r \<noteq> ''submitting''" for r
    using that(2) by simp
  have keys: "or_id (?g r) = or_id r \<and> or_draft_id (?g r) = or_draft_id r \<and> or_draft_version (?g r) = or_draft_version r"
    for r by (simp add: set_status_simps)
  note rewrite = rewrite_rows [OF inv(2) j' _ keys]
  have sorted: "sorted_wrt (earlier_settled ?j) (mj_operations ?j)"
    and ids: "map or_id (mj_operations ?j) = map or_id (mj_operations j)"
    and move: "row_for j a b c r \<Longrightarrow> row_for ?j a b c (?g r)" for a b c r
    using rewrite same by blast+
  show ?thesis
  proof (rule journal_invI)
    show "distinct (map or_id (mj_operations ?j))" using inv(1) unfolding ids .
    show "sorted_wrt (earlier_settled ?j) (mj_operations ?j)" by (rule sorted)
    show "distinct (map fst ([] :: flight list) @ map fst ls)" using inv(5) by simp
    fix oid did v acc assume "(oid, did, v, acc) \<in> set ls"
    then obtain r where r: "row_for j oid did v r" "acc \<longrightarrow> maybe_accepted r" using inv(4) by blast
    have "acc \<longrightarrow> maybe_accepted (?g r)" using r(2) by (auto simp: maybe_accepted_def set_status_simps)
    then show "\<exists>r. row_for ?j oid did v r \<and> (acc \<longrightarrow> maybe_accepted r)"
      using move [OF r(1)] by blast
  qed simp
qed

lemma reconcile_result:
  "op_reconcile now oid outcome reason who j = (j', res)
     \<Longrightarrow> j' = j \<or> (\<exists>r c. op_get j oid = Some (r, None) \<and> or_status r = ''outcome_unknown''
          \<and> j' = j\<lparr>mj_reconciliations := mj_reconciliations j @ [(oid, c)]\<rparr>)"
  by (auto simp: op_reconcile_def Let_def split: if_splits option.splits)

lemma reconcile_inv:
  assumes "journal_inv j fl ls" and "op_reconcile now oid outcome reason who j = (j', res)"
  shows "journal_inv j' fl ls"
  using reconcile_result [OF assms(2)]
proof
  assume "\<exists>r c. op_get j oid = Some (r, None) \<and> or_status r = ''outcome_unknown''
      \<and> j' = j\<lparr>mj_reconciliations := mj_reconciliations j @ [(oid, c)]\<rparr>"
  then obtain c where j': "j' = j\<lparr>mj_reconciliations := mj_reconciliations j @ [(oid, c)]\<rparr>" by blast
  note inv = journal_invD [OF assms(1)]
  have "sorted_wrt (earlier_settled j') (mj_operations j)"
  proof (rule sorted_wrt_mono_rel [OF _ inv(2)])
    fix r r' assume "earlier_settled j r r'"
    then show "earlier_settled j' r r'"
      by (auto simp: earlier_settled_def op_blocks_def joined_def j' map_add_def split: option.splits)
  qed
  moreover have "row_for j' = row_for j" by (intro ext) (simp add: row_for_def j')
  ultimately show ?thesis
    using inv by (intro journal_invI) (simp_all add: j')
qed (use assms(1) in simp)

section \<open>Every run\<close>

definition flight_of :: "uuid \<Rightarrow> reviewed_send \<Rightarrow> flight" where
  "flight_of oid rs = (oid, rs_draft_id rs, rs_draft_version rs)"

text \<open>
  Reviewed sends, each in its two halves, so that other calls come in between; the process may die in
  the second half, after or before the submission; a restart, which drops what was in flight; the
  operator; \<open>email.draft_send\<close>, whose submissions of drafts are listed apart (\<open>ds\<close>); and whatever
  leaves the journal alone (edits, new drafts, mail without a draft). The server's replies are
  honest: a mail whose refusal is reported was not accepted.
\<close>

type_synonym draft_submission = "uuid \<times> int \<times> bool"

inductive mail_run ::
  "mail_setup \<Rightarrow> mail_world \<Rightarrow> flight list \<Rightarrow> submission list \<Rightarrow> draft_submission list \<Rightarrow> bool"
  for mt where
  mail_start: "mw_journal w = Some empty_journal \<Longrightarrow> mail_run mt w [] [] []"
| mail_begin: "mail_run mt w fl ls ds \<Longrightarrow> begin_reviewed_send mt now fresh fm rs w = (w', Inr (x, True))
    \<Longrightarrow> mail_run mt w' (flight_of (or_id (fst x)) rs # fl) ls ds"
| mail_refuse: "mail_run mt w fl ls ds \<Longrightarrow> begin_reviewed_send mt now fresh fm rs w = (w', res)
    \<Longrightarrow> \<not> (\<exists>x. res = Inr (x, True)) \<Longrightarrow> mail_run mt w' fl ls ds"
| mail_complete: "mail_run mt w fl ls ds \<Longrightarrow> flight_of oid rs \<in> set fl \<Longrightarrow> smtp_honest sa
    \<Longrightarrow> complete_reviewed_send mt now sa interrupted rs oid w = (w', used, res)
    \<Longrightarrow> mail_run mt w' (removeAll (flight_of oid rs) fl)
          (if used then (oid, rs_draft_id rs, rs_draft_version rs, sa_accepted sa) # ls else ls) ds"
| mail_lost: "mail_run mt w fl ls ds \<Longrightarrow> (oid, did, v) \<in> set fl
    \<Longrightarrow> mail_run mt w (removeAll (oid, did, v) fl) ((oid, did, v, accepted) # ls) ds"
| mail_restart: "mail_run mt w fl ls ds \<Longrightarrow> mw_journal w = Some j
    \<Longrightarrow> mail_run mt (w\<lparr>mw_journal := Some (fst (recover_submitting now j))\<rparr>) [] ls ds"
| mail_reconcile: "mail_run mt w fl ls ds \<Longrightarrow> mw_journal w = Some j
    \<Longrightarrow> op_reconcile now oid outcome reason who j = (j', res)
    \<Longrightarrow> mail_run mt (w\<lparr>mw_journal := Some j'\<rparr>) fl ls ds"
| mail_draft_send: "mail_run mt w fl ls ds \<Longrightarrow> map_of (mw_drafts w) did = Some d
    \<Longrightarrow> email_draft_send mt sa fresh now sid did w = (w', used, out)
    \<Longrightarrow> mail_run mt w' fl ls (if used then (did, df_version d, sa_accepted sa) # ds else ds)"
| mail_other: "mail_run mt w fl ls ds \<Longrightarrow> mw_journal w' = mw_journal w \<Longrightarrow> mail_run mt w' fl ls ds"

lemma begin_claim:
  assumes "begin_reviewed_send mt now fresh fm rs w = (w', res)" and "mw_journal w = Some j"
  shows "(mw_journal w' = Some j \<and> \<not> (\<exists>x. res = Inr (x, True)))
     \<or> (\<exists>j'. op_claim (mt_codec mt) now fresh fm (claim_of rs) j = (j', res) \<and> mw_journal w' = Some j')"
  using assms
  by (auto simp: begin_reviewed_send_def Let_def split: option.splits if_splits prod.splits)

lemma claim_of_simps: "mc_draft_id (claim_of rs) = rs_draft_id rs" "mc_draft_version (claim_of rs) = rs_draft_version rs"
  by (simp_all add: claim_of_def)

text \<open>The recorded status tells the truth about a mail that was not accepted.\<close>

lemma send_failure:
  assumes "send_via_smtp sa = Inl (st, msg)"
  shows "st = ''outcome_unknown'' \<or> st = ''failed_before_submission''"
    and "smtp_honest sa \<Longrightarrow> sa_accepted sa \<Longrightarrow> st = ''outcome_unknown''"
proof -
  obtain b e where e: "submission_failure b e = (st, msg)"
    and honest: "smtp_honest sa \<Longrightarrow> sa_accepted sa
      \<Longrightarrow> b \<and> fst e \<notin> {SenderRefused, RecipientsRefused, DataError, NotSupported}"
  proof (cases "sa_setup sa")
    case None
    then obtain e where "sa_send sa = Some e"
        "submission_failure (\<not> sa_shows_data sa \<or> sa_entered_data sa) e = (st, msg)"
      using assms by (auto simp: send_via_smtp_def simp del: not_None_eq split: option.splits)
    then show ?thesis
      using that [of "\<not> sa_shows_data sa \<or> sa_entered_data sa" e] None
      by (auto simp: smtp_honest_def split: prod.splits)
  next
    case (Some e)
    then show ?thesis using assms that [of False e] by (simp add: send_via_smtp_def smtp_honest_def)
  qed
  have "st = (if b \<and> fst e \<notin> {SenderRefused, RecipientsRefused, DataError, NotSupported}
      then ''outcome_unknown'' else ''failed_before_submission'')"
    using e unfolding submission_failure_def by (simp only: prod.inject)
  then show "st = ''outcome_unknown'' \<or> st = ''failed_before_submission''"
    and "smtp_honest sa \<Longrightarrow> sa_accepted sa \<Longrightarrow> st = ''outcome_unknown''"
    using honest by presburger+
qed

lemma deliver_cases:
  assumes "deliver cd config env from_addr fp sa = (res, used)"
  shows "\<not> used \<and> dl_status res = ''failed_before_submission''
     \<or> used \<and> (\<exists>st text. send_via_smtp sa = Inl (st, text) \<and> dl_status res = (if st = [] then ''failed_before_submission'' else st))
     \<or> used \<and> dl_status res = ''smtp_accepted''"
proof -
  obtain cfg where cfg: "cfg = (if config \<noteq> None then config else load_smtp_config env)" by simp
  note d = assms [unfolded deliver_def Let_def cfg [symmetric] DeliveryResult_def]
  show ?thesis
  proof (cases "fp \<noteq> None \<and> fp \<noteq> Some (smtp_config_fingerprint cd cfg)")
    case True
    show ?thesis using d unfolding if_P [OF True] by clarsimp
  next
    case fp: False
    note d1 = d [unfolded if_not_P [OF fp]]
    show ?thesis
    proof (cases cfg)
      case None
      show ?thesis using d1 unfolding None option.case by clarsimp
    next
      case (Some c)
      note d2 = d1 [unfolded Some option.case]
      show ?thesis
      proof (cases "from_addr \<noteq> None \<and> from_addr \<noteq> Some (sm_from_addr c)")
        case True
        show ?thesis using d2 unfolding if_P [OF True] by clarsimp
      next
        case False
        note d3 = d2 [unfolded if_not_P [OF False]]
        show ?thesis
        proof (cases "send_via_smtp sa")
          case (Inl p)
          obtain st msg where p: "p = (st, msg)" by fastforce
          show ?thesis using d3 unfolding Inl p sum.case prod.case by (cases "st = []") clarsimp+
        next
          case (Inr u)
          show ?thesis using d3 unfolding Inr sum.case by clarsimp
        qed
      qed
    qed
  qed
qed

lemma deliver_status:
  assumes "deliver cd config env from_addr fp sa = (res, used)"
  shows "dl_status res \<in> set TERMINAL_STATUSES"
    and "smtp_honest sa \<Longrightarrow> used \<Longrightarrow> sa_accepted sa \<Longrightarrow> dl_status res \<noteq> ''failed_before_submission''"
proof -
  note failed = send_failure [of sa]
  show "dl_status res \<in> set TERMINAL_STATUSES"
    using deliver_cases [OF assms] failed(1) by (fastforce simp: TERMINAL_STATUSES_def)
  assume "smtp_honest sa" "used" "sa_accepted sa"
  then show "dl_status res \<noteq> ''failed_before_submission''"
    using deliver_cases [OF assms] failed(2) by fastforce
qed

lemma draft_send_journal:
  "email_draft_send mt sa fresh now sid did w = (w', used, out) \<Longrightarrow> mw_journal w' = mw_journal w"
  by (auto simp: email_draft_send_def record_and_deliver_def Let_def split: option.splits if_splits
      prod.splits)

lemma mail_run_inv: "mail_run mt w fl ls ds \<Longrightarrow> \<exists>j. mw_journal w = Some j \<and> journal_inv j fl ls"
proof (induction rule: mail_run.induct)
  case (mail_start w)
  then show ?case by (simp add: journal_inv_def empty_journal_def)
next
  case (mail_begin w fl ls ds now fresh fm rs w' x)
  then obtain j where j: "mw_journal w = Some j" "journal_inv j fl ls" by blast
  obtain j' where c: "op_claim (mt_codec mt) now fresh fm (claim_of rs) j = (j', Inr (x, True))"
    "mw_journal w' = Some j'"
    using begin_claim [OF mail_begin.hyps(2) j(1)] by blast
  from claim_inv_journal [OF j(2) c(1)] c(2) show ?case by (simp add: flight_of_def claim_of_simps)
next
  case (mail_refuse w fl ls ds now fresh fm rs w' res)
  then obtain j where j: "mw_journal w = Some j" "journal_inv j fl ls" by blast
  from begin_claim [OF mail_refuse.hyps(2) j(1)] have "mw_journal w' = Some j"
    using claim_kept mail_refuse.hyps(3) by blast
  then show ?case using j(2) by blast
next
  case (mail_complete w fl ls ds oid rs sa now interrupted w' used res)
  then obtain j where j: "mw_journal w = Some j" "journal_inv j fl ls" by blast
  obtain dl used' where d: "deliver (mt_codec mt) (mt_config mt) (mt_env mt) (Some (rs_from_addr rs))
      (Some (rs_account_fingerprint rs)) sa = (dl, used')" by fastforce
  define st where "st = (if interrupted then ''outcome_unknown'' else dl_status dl)"
  define detail where "detail = (if interrupted then interrupted_detail else dl_detail dl)"
  obtain j' out where f: "op_finish now oid st detail j = (j', out)" by fastforce
  have w': "mw_journal w' = Some j'" "used = used'"
    using mail_complete.hyps(4) f d j(1)
    by (auto simp: complete_reviewed_send_def st_def detail_def Let_def split: if_splits)
  have st: "st \<in> set TERMINAL_STATUSES"
    using deliver_status(1) [OF d] by (simp add: st_def TERMINAL_STATUSES_def)
  have acc: "used \<Longrightarrow> sa_accepted sa \<longrightarrow> st \<noteq> ''failed_before_submission''"
    using deliver_status(2) [OF d mail_complete.hyps(3)] w'(2) by (simp add: st_def)
  note flight = mail_complete.hyps(2) [unfolded flight_of_def]
  show ?case
    using finish_flight [OF j(2) flight st f] acc w'(1) by (auto simp: flight_of_def)
next
  case (mail_lost w fl ls ds oid did v accepted)
  then obtain j where j: "mw_journal w = Some j" "journal_inv j fl ls" by blast
  note inv = journal_invD [OF j(2)]
  obtain r where r: "row_for j oid did v r" "or_status r = ''submitting''" using inv(3) mail_lost.hyps(2) by blast
  have "journal_inv j (removeAll (oid, did, v) fl) ((oid, did, v, accepted) # ls)"
  proof (rule journal_invI [OF inv(1,2) _ _ flight_facts(4) [OF inv(5) mail_lost.hyps(2)]])
    fix a b c assume "(a, b, c) \<in> set (removeAll (oid, did, v) fl)"
    then show "\<exists>r. row_for j a b c r \<and> or_status r = ''submitting''" using inv(3) by simp
  next
    fix a b c acc assume "(a, b, c, acc) \<in> set ((oid, did, v, accepted) # ls)"
    then show "\<exists>r. row_for j a b c r \<and> (acc \<longrightarrow> maybe_accepted r)"
      using inv(4) r by (auto simp: maybe_accepted_def)
  qed
  then show ?case using j(1) by blast
next
  case (mail_restart w fl ls ds j now)
  then show ?case using recover_inv by fastforce
next
  case (mail_reconcile w fl ls ds j now oid outcome reason who j' res)
  then show ?case using reconcile_inv by fastforce
next
  case (mail_draft_send w fl ls ds did d sa fresh now sid w' used out)
  then show ?case using draft_send_journal [OF mail_draft_send.hyps(3)] by simp
next
  case (mail_other w fl ls ds w')
  then show ?case by simp
qed

section \<open>Properties\<close>

lemma draft_version_once:
  assumes "journal_inv j fl ls" and "row_for j o1 did v r1" and "row_for j o2 did v r2"
  shows "o1 = o2"
proof (rule ccontr)
  assume "o1 \<noteq> o2"
  then have ne: "r1 \<noteq> r2" and mem: "r1 \<in> set (mj_operations j)" "r2 \<in> set (mj_operations j)"
    using assms(2,3) by (auto simp: row_for_def)
  have "earlier_settled j r1 r2 \<or> earlier_settled j r2 r1"
    using ne mem journal_invD(2) [OF assms(1)]
    by (metis in_set_conv_nth linorder_neqE_nat sorted_wrt_iff_nth_less)
  then show False using assms(2,3) by (auto simp: earlier_settled_def row_for_def)
qed

definition submissions_of :: "uuid \<Rightarrow> int \<Rightarrow> submission list \<Rightarrow> nat" where
  "submissions_of did v ls = length (filter (\<lambda>(_, d, v', _). d = did \<and> v' = v) ls)"

lemma length_at_most_one:
  assumes "distinct (map f xs)" and "\<And>x y. x \<in> set xs \<Longrightarrow> y \<in> set xs \<Longrightarrow> f x = f y"
  shows "length xs \<le> 1"
proof (cases xs)
  case (Cons x ys)
  show ?thesis
  proof (cases ys)
    case (Cons y zs)
    with \<open>xs = x # ys\<close> assms(2) [of x y] assms(1) show ?thesis by simp
  qed (simp add: Cons)
qed simp

text \<open>
  C12: over every interleaving of reviewed sends, crashes, restarts, operator decisions and
  submissions by \<open>email.draft_send\<close>, the reviewed sends submit a version of a draft at most once, the
  server's replies being honest. The submissions of \<open>email.draft_send\<close>, which asks no journal, are
  listed apart and not bounded.
\<close>

theorem version_submitted_once:
  assumes "mail_run mt w fl ls ds"
  shows "submissions_of did v ls \<le> 1"
proof -
  obtain j where j: "journal_inv j fl ls" using mail_run_inv [OF assms] by blast
  note inv = journal_invD [OF j]
  let ?xs = "filter (\<lambda>(_, d, v', _). d = did \<and> v' = v) ls"
  have "distinct (map fst ?xs)" using inv(5) by (simp add: distinct_map_filter)
  moreover have "fst x = fst y" if "x \<in> set ?xs" "y \<in> set ?xs" for x y
  proof -
    have "(fst x, did, v, snd (snd (snd x))) \<in> set ls" "(fst y, did, v, snd (snd (snd y))) \<in> set ls"
      using that by auto
    from inv(4) [OF this(1)] inv(4) [OF this(2)] show ?thesis using draft_version_once [OF j] by blast
  qed
  ultimately show ?thesis unfolding submissions_of_def by (rule length_at_most_one)
qed


text \<open>
  The tool \<open>email.draft_send\<close> asks no journal: it submits a draft of its session by SMTP whatever the
  journal records of it, also one that was accepted or whose outcome is unknown.
\<close>

theorem draft_send_asks_no_journal:
  assumes "map_of (mw_drafts w) did = Some d" and "df_session d = sid"
    and "mt_config mt = Some c"
  shows "\<exists>w' out. email_draft_send mt sa fresh now sid did w = (w', True, out) \<and> mw_journal w' = mw_journal w"
proof -
  have "\<exists>res. deliver (mt_codec mt) (mt_config mt) (mt_env mt) None None sa = (res, True)"
    using assms(3) by (simp add: deliver_def split: sum.split)
  then show ?thesis using assms(1,2) by (auto simp: email_draft_send_def record_and_deliver_def Let_def)
qed

section \<open>Instances\<close>

definition mail_setup1 :: mail_setup where
  "mail_setup1 = \<lparr>mt_codec = unary_codec, mt_config = Some \<lparr>sm_host = ''mx'', sm_port = 587,
     sm_from_addr = ''me@x'', sm_user = None, sm_password = None, sm_starttls = True, sm_use_ssl = False\<rparr>,
     mt_env = [], mt_addresses = (\<lambda>s. [([], s)]), mt_origin_state = None\<rparr>"

definition draft1 :: draft where
  "draft1 = new_draft 4 10 7 ''you@y'' ''Re: x'' ''yes'' empty_state None"

definition world1 :: mail_world where
  "world1 = \<lparr>mw_journal = Some empty_journal, mw_drafts = [(4, draft1)], mw_sources = None, mw_outbox = []\<rparr>"

definition reviewed1 :: reviewed_send where
  "reviewed1 = \<lparr>rs_account_id = ''a'', rs_from_addr = ''me@x'', rs_to = ''you@y'', rs_subject = ''Re: x'',
     rs_body = ''yes'', rs_in_reply_to = [], rs_references = [], rs_message_id = ''<m1>'',
     rs_account_fingerprint = ''0'', rs_draft_id = 4, rs_draft_version = 1, rs_origin_session = 7,
     rs_reviewed_labels = None\<rparr>"

text \<open>The server accepts, and the connection breaks before it can say so.\<close>

definition lost_reply :: smtp_attempt where
  "lost_reply = \<lparr>sa_setup = None, sa_shows_data = True, sa_entered_data = True,
     sa_send = Some (OtherFailure, ''timed out''), sa_accepted = True\<rparr>"

lemma first_send:
  "\<exists>w x. begin_reviewed_send mail_setup1 11 20 ''<f>'' reviewed1 world1 = (w, Inr (x, True))
     \<and> or_id (fst x) = 20 \<and> mw_drafts w = mw_drafts world1
     \<and> mw_journal w = Some \<lparr>mj_operations = [fst x], mj_reconciliations = []\<rparr> \<and> or_status (fst x) = ''submitting''
     \<and> or_session_id (fst x) = 7 \<and> or_draft_id (fst x) = 4 \<and> or_draft_version (fst x) = 1
     \<and> mw_sources w = None"
  by (simp add: begin_reviewed_send_def world1_def empty_journal_def reviewed1_def draft1_def new_draft_def
      draft_as_reviewed_def source_current_def origin_refusal_def mail_setup1_def claim_of_def op_claim_def
      for_draft_def draft_operations_def op_get_def new_operation_def joined_def Let_def)

lemma first_run:
  "\<exists>w x. mail_run mail_setup1 w [] [(20, 4, 1, True)] [] \<and> mw_drafts w = mw_drafts world1
     \<and> mw_journal w = Some \<lparr>mj_operations = [set_status 12 ''outcome_unknown'' ''smtp error: timed out'' x],
          mj_reconciliations = []\<rparr>
     \<and> or_id x = 20 \<and> or_session_id x = 7 \<and> or_draft_id x = 4 \<and> or_draft_version x = 1 \<and> mw_sources w = None"
proof -
  obtain w x where b: "begin_reviewed_send mail_setup1 11 20 ''<f>'' reviewed1 world1 = (w, Inr (x, True))"
    and x: "or_id (fst x) = 20" "mw_drafts w = mw_drafts world1"
      "mw_journal w = Some \<lparr>mj_operations = [fst x], mj_reconciliations = []\<rparr>" "or_status (fst x) = ''submitting''"
      "or_session_id (fst x) = 7" "or_draft_id (fst x) = 4" "or_draft_version (fst x) = 1" "mw_sources w = None"
    using first_send by blast
  have start: "mail_run mail_setup1 world1 [] [] []" by (rule mail_start) (simp add: world1_def)
  have one: "mail_run mail_setup1 w [flight_of 20 reviewed1] [] []"
    using mail_begin [OF start b] x(1) by simp
  obtain w' res where c: "complete_reviewed_send mail_setup1 12 lost_reply False reviewed1 20 w = (w', True, res)"
    and w': "mw_journal w' = Some \<lparr>mj_operations = [set_status 12 ''outcome_unknown'' ''smtp error: timed out'' (fst x)],
          mj_reconciliations = []\<rparr>" "mw_drafts w' = mw_drafts w" "mw_sources w' = None"
    using x
    by (simp add: complete_reviewed_send_def deliver_def send_via_smtp_def submission_failure_def lost_reply_def
        mail_setup1_def reviewed1_def smtp_config_fingerprint_def unary_codec_def DeliveryResult_def
        op_finish_def TERMINAL_STATUSES_def op_get_def joined_def update_row_def Let_def)
  have "smtp_honest lost_reply" by (simp add: smtp_honest_def lost_reply_def)
  from mail_complete [OF one _ this c]
  have "mail_run mail_setup1 w' [] [(20, 4, 1, True)] []"
    by (simp add: flight_of_def reviewed1_def lost_reply_def)
  then show ?thesis using w' x by auto
qed

text \<open>Afterwards \<open>email.draft_send\<close> submits the same version once more, which is listed apart.\<close>

theorem version_submitted_once_witness:
  "\<exists>w. mail_run mail_setup1 w [] [(20, 4, 1, True)] [(4, 1, True)]
     \<and> submissions_of 4 1 [(20, 4, 1, True)] \<le> 1"
proof -
  obtain w where run: "mail_run mail_setup1 w [] [(20, 4, 1, True)] []"
    and drafts: "mw_drafts w = mw_drafts world1" using first_run by blast
  have d: "map_of (mw_drafts w) 4 = Some draft1" "df_session draft1 = 7" "df_version draft1 = 1"
    by (simp_all add: drafts world1_def draft1_def new_draft_def)
  obtain w' out where s: "email_draft_send mail_setup1 lost_reply 30 14 7 4 w = (w', True, out)"
    using d by (simp add: email_draft_send_def record_and_deliver_def deliver_def mail_setup1_def
        send_via_smtp_def lost_reply_def submission_failure_def DeliveryResult_def Let_def)
  have run2: "mail_run mail_setup1 w' [] [(20, 4, 1, True)] [(4, 1, True)]"
    using mail_draft_send [OF run d(1) s] d(3) by (simp add: lost_reply_def)
  from version_submitted_once [OF run2, of 4 1] run2 show ?thesis by blast
qed

text \<open>The operator looks, records that nothing was sent, and the draft is edited and sent again.\<close>

definition not_sent :: reconciliation where
  "not_sent = \<lparr>rc_outcome = ''confirmed_not_sent'', rc_reason = ''looked'', rc_decided_by = ''op'', rc_at = 13\<rparr>"


theorem draft_send_asks_no_journal_witness:
  "\<exists>w' out. email_draft_send mail_setup1 lost_reply 30 12 7 4 world1 = (w', True, out)
     \<and> mw_journal w' = mw_journal world1"
proof -
  have "map_of (mw_drafts world1) 4 = Some draft1" "df_session draft1 = 7"
    by (simp_all add: world1_def draft1_def new_draft_def)
  moreover obtain c where "mt_config mail_setup1 = Some c" by (simp add: mail_setup1_def)
  ultimately show ?thesis using draft_send_asks_no_journal by blast
qed

end
