(* ===== verification/Upstream.thy ===== *)
theory Upstream
  imports Tools AuditLog
begin

text \<open>
  \<open>upstream/adapter.py\<close>: the tools of a connected MCP server, wrapped and registered. The server is
  outside the trusted base: what it lists and what its calls return are arguments, an exception of
  a call included. Label states in its metadata are read by \<open>LabelState.from_dict\<close>
  (\<open>policy/labels.py\<close>).
\<close>

section \<open>Labels in metadata\<close>

fun each :: "('a \<Rightarrow> py_error + 'b) \<Rightarrow> 'a list \<Rightarrow> py_error + 'b list" where
  "each f [] = Inr []"
| "each f (x # xs) =
     (case f x of
        Inl e \<Rightarrow> Inl e
      | Inr y \<Rightarrow> (case each f xs of Inl e \<Rightarrow> Inl e | Inr ys \<Rightarrow> Inr (y # ys)))"

text \<open>The items a \<open>for\<close> loop yields: list items, dictionary keys, the characters of a text.\<close>

fun iterated :: "json \<Rightarrow> py_error + json list" where
  "iterated (JList xs) = Inr xs"
| "iterated (JDict d) = Inr (map (JStr \<circ> fst) d)"
| "iterated (JStr s) = Inr (map (\<lambda>c. JStr [c]) s)"
| "iterated (JText ts) = Inr ts"
| "iterated (JUuid u) = Inl TypeError"
| "iterated (JTime t) = Inl TypeError"
| "iterated JNull = Inl TypeError"
| "iterated (JBool b) = Inl TypeError"
| "iterated (JInt i) = Inl TypeError"

definition json_enum :: "('e \<Rightarrow> string) \<Rightarrow> 'e list \<Rightarrow> json \<Rightarrow> py_error + 'e" where
  "json_enum val members v =
     (case v of JStr s \<Rightarrow> enum_of val members s | _ \<Rightarrow> Inl ValueError)"

definition category_tag_from_dict :: "(json \<Rightarrow> string) \<Rightarrow> json \<Rightarrow> py_error + category_tag" where
  "category_tag_from_dict text_of v =
     (case v of
        JDict d \<Rightarrow>
          (case map_of d ''category'' of
             None \<Rightarrow> Inl KeyError
           | Some c \<Rightarrow>
          (case map_of d ''tier'' of
             None \<Rightarrow> Inl KeyError
           | Some t \<Rightarrow>
          (case json_enum tier_value tiers t of
             Inl e \<Rightarrow> Inl e
           | Inr tier \<Rightarrow>
          (case iterated (dict_get d ''risk_ids'' (JList [])) of
             Inl e \<Rightarrow> Inl e
           | Inr rs \<Rightarrow>
               Inr \<lparr>ct_category = py_str text_of c, ct_tier = tier,
                    ct_risk_ids = map (py_str text_of) rs,
                    ct_assignment_provenance =
                      py_str text_of (dict_get d ''assignment_provenance'' (JStr ''system-default''))\<rparr>))))
      | _ \<Rightarrow> Inl TypeError)"

definition provenance_tag_from_dict :: "json \<Rightarrow> py_error + provenance_tag" where
  "provenance_tag_from_dict v =
     (case v of
        JDict d \<Rightarrow>
          (case map_of d ''level'' of
             None \<Rightarrow> Inl KeyError
           | Some l \<Rightarrow>
               (case json_enum provenance_value
                       [PRINCIPAL_DIRECT, SYSTEM_INTERNAL, EXTERNAL_UNTRUSTED] l of
                  Inl e \<Rightarrow> Inl e | Inr p \<Rightarrow> Inr \<lparr>pt_level = p\<rparr>))
      | _ \<Rightarrow> Inl TypeError)"

text \<open>A false list (missing, \<open>None\<close>, empty) has no tags.\<close>

definition tags_of_list :: "(json \<Rightarrow> py_error + 'a) \<Rightarrow> json \<Rightarrow> py_error + 'a list" where
  "tags_of_list f v =
     (if \<not> populated v then Inr []
      else case iterated v of Inl e \<Rightarrow> Inl e | Inr xs \<Rightarrow> each f xs)"

definition label_state_from_dict ::
  "(json \<Rightarrow> string) \<Rightarrow> (string \<times> json) list \<Rightarrow> py_error + label_state" where
  "label_state_from_dict text_of d =
     (case tags_of_list (category_tag_from_dict text_of) (dict_get d ''a'' (JList [])) of
        Inl e \<Rightarrow> Inl e
      | Inr a \<Rightarrow>
          (case tags_of_list provenance_tag_from_dict (dict_get d ''b'' (JList [])) of
             Inl e \<Rightarrow> Inl e
           | Inr b \<Rightarrow> Inr \<lparr>ls_a = remdups a, ls_b = remdups b\<rparr>))"

definition extract_tags ::
  "(json \<Rightarrow> string) \<Rightarrow> (string \<times> json) list option \<Rightarrow> py_error + label_state" where
  "extract_tags text_of meta =
     (case meta of
        None \<Rightarrow> Inr empty_state
      | Some m \<Rightarrow>
          (case dict_get m ''io.capabledeputy/inherent_tags'' (JDict []) of
             JDict d \<Rightarrow> label_state_from_dict text_of d
           | _ \<Rightarrow> Inr empty_state))"

section \<open>Configuration of a server\<close>

text \<open>
  \<open>uo_custom_kind_name\<close> is the unresolved name of \<open>_OverrideWithCustomKind\<close>
  (\<open>upstream/server_yaml.py\<close>), empty for a plain override.
\<close>

record tool_override =
  uo_capability_kind :: "capability_kind option"
  uo_additional_tags :: label_state
  uo_target_arg :: "string option"
  uo_target_template :: "string option"
  uo_amount_arg :: "string option"
  uo_custom_kind_name :: string

record upstream_config =
  uc_name :: string
  uc_inherent_tags :: label_state
  uc_tool_overrides :: "(string \<times> tool_override) list"
  uc_disabled_tools :: "string list"
  uc_disabled_kinds :: "string list"
  uc_strict :: bool

definition UpstreamServerConfig :: "string \<Rightarrow> upstream_config" where
  "UpstreamServerConfig name =
     \<lparr>uc_name = name, uc_inherent_tags = empty_state, uc_tool_overrides = [],
      uc_disabled_tools = [], uc_disabled_kinds = [], uc_strict = True\<rparr>"

section \<open>Classification\<close>

record annotations =
  an_read_only_hint :: bool
  an_destructive_hint :: bool

definition has_token :: "string list \<Rightarrow> string \<Rightarrow> bool" where
  "has_token tokens s \<longleftrightarrow> list_ex (\<lambda>t. contains t s) tokens"

definition DELETE_TOKENS :: "string list" where
  "DELETE_TOKENS = [''delete'', ''remove'', ''unlink'', ''rmdir'', ''destroy'', ''purge'']"

definition MODIFY_TOKENS :: "string list" where
  "MODIFY_TOKENS =
     [''write'', ''update'', ''modify'', ''edit'', ''patch'', ''replace'', ''set'', ''append'']"

definition CREATE_TOKENS :: "string list" where
  "CREATE_TOKENS = [''create'', ''new'', ''add'', ''mkdir'']"

definition READ_TOKENS :: "string list" where
  "READ_TOKENS = [''read'', ''get'', ''list'', ''search'', ''find'', ''view'']"

definition PRESENT_TOKENS :: "string list" where
  "PRESENT_TOKENS = [''start'', ''stop'', ''play'', ''present'', ''slideshow'']"

definition DOCUMENT_TOKENS :: "string list" where
  "DOCUMENT_TOKENS = [''append'', ''edit'', ''write'', ''set'', ''insert'']"

definition browser_kind :: "bool \<Rightarrow> string \<Rightarrow> capability_kind option" where
  "browser_kind read_only n =
     (if has_token [''snapshot'', ''screenshot'', ''console'', ''network''] n then Some BROWSER_READ
      else if has_token [''evaluate'', ''script'', ''javascript''] n then Some BROWSER_SCRIPT
      else if has_token [''file'', ''upload'', ''download'', ''drop''] n then Some BROWSER_FILE
      else if has_token [''navigate'', ''tab'', ''close'', ''resize'', ''wait''] n
      then Some BROWSER_NAVIGATE
      else if has_token [''click'', ''type'', ''fill'', ''select'', ''press'', ''hover'', ''drag'',
                         ''dialog''] n
      then Some BROWSER_INTERACT
      else if read_only then Some BROWSER_READ else None)"

definition document_kind ::
  "capability_kind \<Rightarrow> capability_kind option \<Rightarrow> capability_kind option \<Rightarrow> string list
   \<Rightarrow> capability_kind \<Rightarrow> string \<Rightarrow> capability_kind" where
  "document_kind export_kind present_kind edit_kind edit_tokens read_kind n =
     (if contains ''export'' n then export_kind
      else if present_kind \<noteq> None \<and> has_token PRESENT_TOKENS n then the present_kind
      else if edit_kind \<noteq> None \<and> has_token edit_tokens n then the edit_kind
      else read_kind)"

definition macos_kind :: "string \<Rightarrow> capability_kind" where
  "macos_kind n =
     (if contains ''clipboard'' n
      then (if has_token [''set'', ''write'', ''replace''] n then MACOS_CLIPBOARD_WRITE
            else MACOS_CLIPBOARD_READ)
      else if has_token [''notification'', ''notify''] n then MACOS_NOTIFICATION
      else MACOS_APP_CONTROL)"

text \<open>The branches named after an application or a transport; the first that matches decides.\<close>

definition local_app_kind :: "string \<Rightarrow> capability_kind option" where
  "local_app_kind n =
     (if contains ''apple_mail'' n
      then Some (if contains ''draft'' n then APPLE_MAIL_DRAFT else APPLE_MAIL_READ)
      else if contains ''keynote'' n
      then Some (if has_token PRESENT_TOKENS n then KEYNOTE_PRESENT else KEYNOTE_READ)
      else if contains ''pages'' n
      then Some (document_kind PAGES_EXPORT None (Some PAGES_EDIT) DOCUMENT_TOKENS PAGES_READ n)
      else if contains ''numbers'' n
      then Some (document_kind NUMBERS_EXPORT None (Some NUMBERS_EDIT)
                   [''set'', ''write'', ''update'', ''edit''] NUMBERS_READ n)
      else if contains ''outlook'' n
      then Some (if contains ''draft'' n then OUTLOOK_DRAFT else OUTLOOK_READ)
      else if prefix ''word'' n \<or> contains ''word.'' n \<or> contains ''word_'' n
      then Some (document_kind WORD_EXPORT None (Some WORD_EDIT) DOCUMENT_TOKENS WORD_READ n)
      else if contains ''powerpoint'' n
      then Some (document_kind POWERPOINT_EXPORT (Some POWERPOINT_PRESENT) (Some POWERPOINT_EDIT)
                   DOCUMENT_TOKENS POWERPOINT_READ n)
      else if prefix ''macos'' n \<or> contains ''macos.'' n \<or> contains ''macos_'' n
      then Some (macos_kind n)
      else None)"

definition transport_kind :: "string \<Rightarrow> capability_kind option" where
  "transport_kind n =
     (if has_token [''imap'', ''smtp''] n \<or> contains ''email'' n
      then Some (if contains ''send'' n \<or> contains ''smtp'' n then SEND_EMAIL else IMAP_READ)
      else if contains ''send'' n
      then Some (if contains ''message'' n \<or> contains ''chat'' n then SEND_MESSAGE else SEND_EMAIL)
      else if has_token [''fetch'', ''web'', ''http'', ''url'', ''browse''] n then Some WEB_FETCH
      else if has_token [''purchase'', ''buy'', ''checkout'', ''order''] n then Some QUEUE_PURCHASE
      else None)"

definition calendar_kind :: "bool \<Rightarrow> bool \<Rightarrow> string \<Rightarrow> capability_kind option" where
  "calendar_kind read_only destructive n =
     (if read_only then Some CALENDAR_READ
      else if has_token DELETE_TOKENS n then Some DELETE_CAL
      else if has_token CREATE_TOKENS n then Some CREATE_CAL
      else if destructive \<or> has_token MODIFY_TOKENS n then Some MODIFY_CAL
      else None)"

definition file_kind :: "bool \<Rightarrow> bool \<Rightarrow> string \<Rightarrow> capability_kind option" where
  "file_kind read_only destructive n =
     (if has_token DELETE_TOKENS n then Some DELETE_FS
      else if has_token CREATE_TOKENS n then Some CREATE_FS
      else if destructive \<or> has_token MODIFY_TOKENS n then Some MODIFY_FS
      else if read_only \<or> has_token READ_TOKENS n then Some READ_FS
      else None)"

definition browser_named :: "string \<Rightarrow> bool" where
  "browser_named n \<longleftrightarrow> prefix ''browser'' n \<or> contains ''browser_'' n \<or> contains ''browser.'' n"

definition calendar_named :: "string \<Rightarrow> bool" where
  "calendar_named n \<longleftrightarrow> contains ''calendar'' n \<or> contains ''event'' n"

definition infer_capability_kind :: "annotations option \<Rightarrow> string \<Rightarrow> capability_kind option" where
  "infer_capability_kind ann name =
     (let n = py_lower name;
          read_only = (case ann of None \<Rightarrow> False | Some a \<Rightarrow> an_read_only_hint a);
          destructive = (case ann of None \<Rightarrow> False | Some a \<Rightarrow> an_destructive_hint a)
      in if browser_named n then browser_kind read_only n
         else case local_app_kind n of
                Some k \<Rightarrow> Some k
              | None \<Rightarrow>
                  (case transport_kind n of
                     Some k \<Rightarrow> Some k
                   | None \<Rightarrow> if calendar_named n then calendar_kind read_only destructive n
                            else file_kind read_only destructive n))"

section \<open>Registration\<close>

record upstream_tool =
  ut_name :: string
  ut_annotations :: "annotations option"
  ut_meta :: "(string \<times> json) list option"
  ut_schema_properties :: "string list"

definition upstream_kind ::
  "kind_registry \<Rightarrow> upstream_config \<Rightarrow> upstream_tool \<Rightarrow> kind option" where
  "upstream_kind kinds cfg t =
     (let inferred = map_option BuiltIn (infer_capability_kind (ut_annotations t) (ut_name t))
      in case map_of (uc_tool_overrides cfg) (ut_name t) of
           None \<Rightarrow> inferred
         | Some ov \<Rightarrow>
             (case uo_capability_kind ov of
                Some k \<Rightarrow> Some (BuiltIn k)
              | None \<Rightarrow>
                  if uo_custom_kind_name ov \<noteq> []
                  then (case resolve_kind kinds (uo_custom_kind_name ov) of
                          Inr k \<Rightarrow> Some k | Inl _ \<Rightarrow> None)
                  else inferred))"

text \<open>The body reader of the IMAP server needs source labels of both axes from its override.\<close>

definition body_reader_unlabelled :: "upstream_config \<Rightarrow> upstream_tool \<Rightarrow> bool" where
  "body_reader_unlabelled cfg t \<longleftrightarrow>
     ut_name t = ''imap.read_recent''
     \<and> (case map_of (uc_tool_overrides cfg) (ut_name t) of
          None \<Rightarrow> True
        | Some ov \<Rightarrow> ls_a (uo_additional_tags ov) = [] \<or> ls_b (uo_additional_tags ov) = [])"

text \<open>\<open>None\<close> is a refusal; an unclassified tool of a server that is not strict reads files.\<close>

definition admitted_kind ::
  "kind_registry \<Rightarrow> upstream_config \<Rightarrow> upstream_tool \<Rightarrow> kind option" where
  "admitted_kind kinds cfg t =
     (if ut_name t \<in> set (uc_disabled_tools cfg) \<or> body_reader_unlabelled cfg t then None
      else case (case upstream_kind kinds cfg t of
                   None \<Rightarrow> if uc_strict cfg then None else Some (BuiltIn READ_FS)
                 | Some k \<Rightarrow> Some k) of
             None \<Rightarrow> None
           | Some k \<Rightarrow> if kind_name k \<in> set (uc_disabled_kinds cfg) then None else Some k)"

definition qualified_name :: "upstream_config \<Rightarrow> upstream_tool \<Rightarrow> string" where
  "qualified_name cfg t = uc_name cfg @ ''.'' @ ut_name t"

definition nonempty_or :: "string option \<Rightarrow> string \<Rightarrow> string" where
  "nonempty_or v d = (case v of None \<Rightarrow> d | Some s \<Rightarrow> if s = [] then d else s)"

definition wrapped_tool ::
  "upstream_config \<Rightarrow> upstream_tool \<Rightarrow> kind \<Rightarrow> label_state \<Rightarrow> tool_definition" where
  "wrapped_tool cfg t k meta_tags =
     (let ov = map_of (uc_tool_overrides cfg) (ut_name t);
          additional = (case ov of None \<Rightarrow> empty_state | Some v \<Rightarrow> uo_additional_tags v);
          (op, risks, surfaces) = default_operation_for_kind k
      in (ToolDefinition (qualified_name cfg t) k)
           \<lparr>td_target_arg := nonempty_or (Option.bind ov uo_target_arg) ''target'',
            td_target_template := Option.bind ov uo_target_template,
            td_amount_arg := Option.bind ov uo_amount_arg,
            td_inherent_tags := most_restrictive_inherit [uc_inherent_tags cfg, additional, meta_tags],
            td_schema_properties := ut_schema_properties t,
            td_operations := [op], td_risk_ids := risks, td_surfaces_destination_id := surfaces\<rparr>)"

record adapter =
  ad_registered :: "string list"
  ad_rejected :: "string list"

text \<open>
  \<open>register_tools\<close> over the listed tools. An exception (a name already taken, malformed labels in
  the metadata of a tool) leaves the tools registered so far.
\<close>

fun register_tools ::
  "(json \<Rightarrow> string) \<Rightarrow> kind_registry \<Rightarrow> upstream_config \<Rightarrow> upstream_tool list \<Rightarrow> tool_registry
   \<Rightarrow> adapter \<Rightarrow> tool_registry \<times> adapter \<times> py_error option" where
  "register_tools text_of kinds cfg [] reg ad = (reg, ad, None)"
| "register_tools text_of kinds cfg (t # ts) reg ad =
     (case admitted_kind kinds cfg t of
        None \<Rightarrow> register_tools text_of kinds cfg ts reg (ad\<lparr>ad_rejected := ad_rejected ad @ [ut_name t]\<rparr>)
      | Some k \<Rightarrow>
          (case extract_tags text_of (ut_meta t) of
             Inl e \<Rightarrow> (reg, ad, Some e)
           | Inr tags \<Rightarrow>
               (case register reg (wrapped_tool cfg t k tags) of
                  Inl e \<Rightarrow> (reg, ad, Some e)
                | Inr reg' \<Rightarrow>
                    register_tools text_of kinds cfg ts reg'
                      (ad\<lparr>ad_registered := ad_registered ad @ [qualified_name cfg t]\<rparr>))))"

section \<open>Calls\<close>

definition MAX_UPSTREAM_TOOL_OUTPUT_BYTES :: nat where
  "MAX_UPSTREAM_TOOL_OUTPUT_BYTES = 32 * 1024"

definition utf8_width :: "char \<Rightarrow> nat" where
  "utf8_width c = (if (of_char c :: nat) < 128 then 1 else 2)"

definition utf8_size :: "string \<Rightarrow> nat" where
  "utf8_size s = sum_list (map utf8_width s)"

text \<open>\<open>raw[:n].decode("utf-8", errors="ignore")\<close>: a character cut in two is dropped.\<close>

fun utf8_take :: "nat \<Rightarrow> string \<Rightarrow> string" where
  "utf8_take n [] = []"
| "utf8_take n (c # s) = (if utf8_width c \<le> n then c # utf8_take (n - utf8_width c) s else [])"

text \<open>The format \<open>:,\<close> of a natural number.\<close>

function grouped :: "nat \<Rightarrow> string" where
  "grouped n =
     (if n < 1000 then digits_of n
      else grouped (n div 1000) @ '','' @ drop 1 (digits_of (1000 + n mod 1000)))"
  by pat_completeness auto
termination by (relation "measure id") auto

declare grouped.simps [simp del]

definition truncation_hint :: "nat \<Rightarrow> string" where
  "truncation_hint n =
     [CHR 0x0A, CHR 0x0A] @ ''[truncated: response was '' @ grouped n @ '' bytes; capped at ''
     @ grouped MAX_UPSTREAM_TOOL_OUTPUT_BYTES
     @ ''. If you need the full payload, request a single item at a time or use a list/metadata variant of this tool.]''"

definition maybe_truncate_output :: "args \<Rightarrow> args" where
  "maybe_truncate_output output =
     (case map_of output ''text'' of
        Some (JStr s) \<Rightarrow>
          (if utf8_size s \<le> MAX_UPSTREAM_TOOL_OUTPUT_BYTES then output
           else AList.update ''original_size_bytes'' (JInt (int (utf8_size s)))
                  (AList.update ''truncated'' (JBool True)
                    (AList.update ''text''
                      (JStr (utf8_take MAX_UPSTREAM_TOOL_OUTPUT_BYTES s @ truncation_hint (utf8_size s)))
                      output)))
      | _ \<Rightarrow> output)"

record upstream_result =
  ur_structured :: "args option"
  ur_texts :: "string option list"
  ur_is_error :: bool

definition upstream_output :: "upstream_result \<Rightarrow> args" where
  "upstream_output r =
     (case ur_structured r of
        Some d \<Rightarrow> d
      | None \<Rightarrow>
          (let texts = List.map_filter id (ur_texts r)
           in if texts = [] then [] else [(''text'', JStr (py_join [CHR 0x0A] texts))]))"

text \<open>
  The handler behind a wrapped tool. The labeler of the results is an argument: no labeler, or a
  function that raises (\<open>Inl\<close>), has nothing to say (\<open>Inr None\<close>) or gives labels to add.
\<close>

definition upstream_handler ::
  "(string \<Rightarrow> args \<Rightarrow> args \<Rightarrow> py_error + label_state option) option \<Rightarrow> string \<Rightarrow> args
   \<Rightarrow> py_error + upstream_result \<Rightarrow> py_error + args \<times> label_state" where
  "upstream_handler labeler name args call =
     (case call of
        Inl e \<Rightarrow> Inl e
      | Inr r \<Rightarrow>
          (let output = upstream_output r
           in if ur_is_error r
              then Inr (maybe_truncate_output
                          (dict_of output [(''upstream_error'', JBool True)]), empty_state)
              else (let extra = (case labeler of None \<Rightarrow> Inr None | Some f \<Rightarrow> f name args output)
                    in Inr (maybe_truncate_output output,
                            case extra of
                              Inr (Some s) \<Rightarrow>
                                if ls_a s = [] \<and> ls_b s = [] then empty_state
                                else most_restrictive_inherit [empty_state, s]
                            | _ \<Rightarrow> empty_state))))"

text \<open>
  Admission of MCP tools: the preview of what registration would do (\<open>upstream/admission.py\<close>) and
  the durable decisions of the operator on it (\<open>upstream/admission_store.py\<close>). The store keeps two
  tables; SHA-256 and JSON text are those of the audit log, the clock is an argument. The connection
  commits each statement by itself, so a method that fails keeps what it wrote before.
\<close>

section \<open>Preview\<close>

definition ADMISSION_EGRESS_KINDS :: "capability_kind list" where
  "ADMISSION_EGRESS_KINDS =
     [SEND_EMAIL, SEND_MESSAGE, WEB_FETCH, QUEUE_PURCHASE, EXTERNAL_MAIL_DRAFT, APPLE_MAIL_DRAFT,
      CREATE_CAL, MODIFY_CAL, DELETE_CAL, PAGES_EDIT, PAGES_EXPORT, NUMBERS_EDIT, NUMBERS_EXPORT,
      OUTLOOK_DRAFT, WORD_EDIT, WORD_EXPORT, POWERPOINT_EDIT, POWERPOINT_EXPORT, POWERPOINT_PRESENT]"

record admission_decision =
  dn_name :: string
  dn_admitted :: bool
  dn_capability_kind :: string
  dn_inferred_from :: string
  dn_target_source :: string
  dn_warnings :: "string list"
  dn_reasons :: "string list"

definition refused :: "string \<Rightarrow> string \<Rightarrow> admission_decision" where
  "refused name reason =
     \<lparr>dn_name = name, dn_admitted = False, dn_capability_kind = [], dn_inferred_from = [],
      dn_target_source = [], dn_warnings = [], dn_reasons = [reason]\<rparr>"

definition any_populated :: "args \<Rightarrow> string list \<Rightarrow> bool" where
  "any_populated d keys \<longleftrightarrow> list_ex (\<lambda>k. populated (dict_get d k JNull)) keys"

definition coerce_annotations :: "json \<Rightarrow> annotations option" where
  "coerce_annotations v =
     (case v of
        JDict d \<Rightarrow>
          Some \<lparr>an_read_only_hint = any_populated d [''readOnlyHint'', ''read_only''],
                an_destructive_hint = any_populated d [''destructiveHint'', ''destructive'']\<rparr>
      | _ \<Rightarrow> None)"

definition requires_explicit_target :: "capability_kind \<Rightarrow> bool" where
  "requires_explicit_target k \<longleftrightarrow> k \<in> set DESTRUCTIVE_KINDS \<or> k \<in> set ADMISSION_EGRESS_KINDS"

definition given :: "string option \<Rightarrow> bool" where
  "given v \<longleftrightarrow> v \<noteq> None \<and> v \<noteq> Some []"

definition target_source :: "tool_override option \<Rightarrow> string" where
  "target_source ov =
     (case ov of
        None \<Rightarrow> ''target_arg:target''
      | Some v \<Rightarrow>
          if given (uo_target_template v) then ''target_template''
          else if given (uo_target_arg v) then ''target_arg:'' @ the (uo_target_arg v)
          else ''target_arg:target'')"

definition explicit_target :: "tool_override option \<Rightarrow> bool" where
  "explicit_target ov \<longleftrightarrow>
     (case ov of None \<Rightarrow> False
      | Some v \<Rightarrow> given (uo_target_arg v) \<or> given (uo_target_template v))"

definition tool_name_of :: "(json \<Rightarrow> string) \<Rightarrow> args \<Rightarrow> string" where
  "tool_name_of text_of tool =
     (let v = dict_get tool ''name'' JNull in if populated v then py_strip (py_str text_of v) else [])"

definition classified :: "upstream_config \<Rightarrow> args \<Rightarrow> string \<Rightarrow> capability_kind option \<times> string" where
  "classified cfg tool name =
     (case Option.bind (map_of (uc_tool_overrides cfg) name) uo_capability_kind of
        Some k \<Rightarrow> (Some k, ''override'')
      | None \<Rightarrow>
          (case infer_capability_kind (coerce_annotations (dict_get tool ''annotations'' JNull)) name of
             Some k \<Rightarrow> (Some k, ''annotations-and-name'')
           | None \<Rightarrow> if uc_strict cfg then (None, [])
                    else (Some READ_FS, ''legacy-nonstrict-fallback'')))"

definition preview_tool_admission ::
  "(json \<Rightarrow> string) \<Rightarrow> upstream_config \<Rightarrow> args \<Rightarrow> admission_decision" where
  "preview_tool_admission text_of cfg tool =
     (let name = tool_name_of text_of tool; ov = map_of (uc_tool_overrides cfg) name
      in if name = [] then refused [] ''missing tool name''
         else if name \<in> set (uc_disabled_tools cfg)
         then refused name ''tool disabled by server config''
         else case classified cfg tool name of
                (None, _) \<Rightarrow> refused name ''unclassifiable tool under strict admission''
              | (Some k, source) \<Rightarrow>
                  if kind_value k \<in> set (uc_disabled_kinds cfg)
                  then refused name (''capability kind '' @ kind_value k @ '' disabled by server config'')
                  else \<lparr>dn_name = name, dn_admitted = True, dn_capability_kind = kind_value k,
                        dn_inferred_from = source, dn_target_source = target_source ov,
                        dn_warnings =
                          (if requires_explicit_target k \<and> \<not> explicit_target ov
                           then [''effectful tool uses default target_arg; add explicit target mapping'']
                           else []),
                        dn_reasons = []\<rparr>)"

record admission_summary =
  sm_server :: string
  sm_strict :: bool
  sm_decisions :: "admission_decision list"

definition preview_server_admission ::
  "(json \<Rightarrow> string) \<Rightarrow> upstream_config \<Rightarrow> args list \<Rightarrow> admission_summary" where
  "preview_server_admission text_of cfg tools =
     \<lparr>sm_server = uc_name cfg, sm_strict = uc_strict cfg,
      sm_decisions = map (preview_tool_admission text_of cfg) tools\<rparr>"

definition admitted_count :: "admission_summary \<Rightarrow> nat" where
  "admitted_count s = length (filter dn_admitted (sm_decisions s))"

definition refused_count :: "admission_summary \<Rightarrow> nat" where
  "refused_count s = length (filter (\<lambda>d. \<not> dn_admitted d) (sm_decisions s))"

section \<open>The store\<close>

datatype admission_status =
    ADM_REFUSED | ADM_PREVIEWED | ADM_APPROVED | ADM_NEEDS_REAPPROVAL | ADM_DISABLED

text \<open>
  A row of \<open>mcp_admission_tools\<close>; the columns that copy a field of the decision are read from it.
\<close>

record admission_row =
  mr_server :: string
  mr_name :: string
  mr_status :: admission_status
  mr_decision :: admission_decision
  mr_fingerprint :: string
  mr_approved_by :: "string option"
  mr_disabled_by :: "string option"
  mr_created_at :: time
  mr_updated_at :: time

datatype admission_payload = PreviewOf nat bool | RowOf admission_row

record admission_event =
  me_server :: string
  me_tool :: "string option"
  me_action :: string
  me_actor :: string
  me_payload :: admission_payload
  me_created_at :: time

record admission_store =
  as_tools :: "((string \<times> string) \<times> admission_row) list"
  as_events :: "admission_event list"

definition empty_admissions :: admission_store where
  "empty_admissions = \<lparr>as_tools = [], as_events = []\<rparr>"

definition admission_row_of :: "admission_store \<Rightarrow> string \<Rightarrow> string \<Rightarrow> admission_row option" where
  "admission_row_of st server name = map_of (as_tools st) (server, name)"

definition put_row :: "admission_store \<Rightarrow> admission_row \<Rightarrow> admission_store" where
  "put_row st r = st\<lparr>as_tools := AList.update (mr_server r, mr_name r) r (as_tools st)\<rparr>"

definition fingerprint_material :: "admission_decision \<Rightarrow> args" where
  "fingerprint_material d =
     [(''name'', JStr (dn_name d)), (''admitted'', JBool (dn_admitted d)),
      (''capability_kind'', JStr (dn_capability_kind d)),
      (''target_source'', JStr (dn_target_source d)),
      (''warnings'', JList (map JStr (dn_warnings d))),
      (''reasons'', JList (map JStr (dn_reasons d)))]"

definition fingerprint :: "line_codec \<Rightarrow> admission_decision \<Rightarrow> string" where
  "fingerprint cd d = lc_sha cd (lc_dumps_sorted cd (fingerprint_material d))"

definition previewed_status ::
  "line_codec \<Rightarrow> admission_row option \<Rightarrow> admission_decision \<Rightarrow> admission_status" where
  "previewed_status cd existing d =
     (if \<not> dn_admitted d then ADM_REFUSED
      else case existing of
             None \<Rightarrow> ADM_PREVIEWED
           | Some r \<Rightarrow>
               if mr_status r = ADM_APPROVED
               then (if mr_fingerprint r = fingerprint cd d then ADM_APPROVED else ADM_NEEDS_REAPPROVAL)
               else if mr_status r = ADM_DISABLED then ADM_DISABLED
               else ADM_PREVIEWED)"

definition previewed_row ::
  "line_codec \<Rightarrow> time \<Rightarrow> string \<Rightarrow> admission_row option \<Rightarrow> admission_decision \<Rightarrow> admission_row" where
  "previewed_row cd now server existing d =
     (let status = previewed_status cd existing d
      in \<lparr>mr_server = server, mr_name = dn_name d, mr_status = status, mr_decision = d,
          mr_fingerprint = fingerprint cd d,
          mr_approved_by = (if status = ADM_APPROVED then Option.bind existing mr_approved_by else None),
          mr_disabled_by = (if status = ADM_DISABLED then Option.bind existing mr_disabled_by else None),
          mr_created_at = (case existing of None \<Rightarrow> now | Some r \<Rightarrow> mr_created_at r),
          mr_updated_at = now\<rparr>)"

definition preview_one ::
  "line_codec \<Rightarrow> time \<Rightarrow> string \<Rightarrow> admission_decision \<Rightarrow> admission_store \<Rightarrow> admission_store" where
  "preview_one cd now server d st =
     (if dn_name d = [] then st
      else put_row st (previewed_row cd now server (admission_row_of st server (dn_name d)) d))"

definition add_event :: "admission_event \<Rightarrow> admission_store \<Rightarrow> admission_store" where
  "add_event e st = st\<lparr>as_events := as_events st @ [e]\<rparr>"

definition named_decisions :: "admission_summary \<Rightarrow> admission_decision list" where
  "named_decisions s = filter (\<lambda>d. dn_name d \<noteq> []) (sm_decisions s)"

definition record_preview ::
  "line_codec \<Rightarrow> time \<Rightarrow> time \<Rightarrow> admission_summary \<Rightarrow> string \<Rightarrow> admission_store
   \<Rightarrow> admission_store \<times> (py_error + unit)" where
  "record_preview cd now later s actor st =
     (if sm_server s = [] then (st, Inl ValueError)
      else (add_event
              \<lparr>me_server = sm_server s, me_tool = None, me_action = ''preview'', me_actor = actor,
               me_payload = PreviewOf (length (named_decisions s)) (sm_strict s), me_created_at = later\<rparr>
              (fold (preview_one cd now (sm_server s)) (sm_decisions s) st), Inr ()))"

text \<open>
  \<open>_set_status_sync\<close> reads the row, checks it, and then updates whatever row is there: two
  statements.
\<close>

definition may_set :: "admission_status \<Rightarrow> admission_row \<Rightarrow> bool" where
  "may_set status r \<longleftrightarrow> status = ADM_APPROVED \<longrightarrow> mr_status r \<in> {ADM_PREVIEWED, ADM_APPROVED}"

definition with_admission :: "admission_status \<Rightarrow> string \<Rightarrow> time \<Rightarrow> admission_row \<Rightarrow> admission_row" where
  "with_admission status actor now r =
     r\<lparr>mr_status := status,
       mr_approved_by := (if status = ADM_APPROVED then Some actor else None),
       mr_disabled_by := (if status = ADM_DISABLED then Some actor else None),
       mr_updated_at := now\<rparr>"

definition status_action :: "admission_status \<Rightarrow> string" where
  "status_action status = (if status = ADM_APPROVED then ''approved'' else ''disabled'')"

definition write_status ::
  "admission_status \<Rightarrow> string \<Rightarrow> time \<Rightarrow> time \<Rightarrow> string \<Rightarrow> string \<Rightarrow> admission_store \<Rightarrow> admission_store"
where
  "write_status status actor now later server name st =
     (case admission_row_of st server name of
        None \<Rightarrow> st
      | Some r \<Rightarrow>
          (let r' = with_admission status actor now r
           in add_event \<lparr>me_server = server, me_tool = Some name, me_action = status_action status,
                         me_actor = actor, me_payload = RowOf r', me_created_at = later\<rparr>
                (put_row st r')))"

fun set_admission ::
  "admission_status \<Rightarrow> string \<Rightarrow> time \<Rightarrow> time \<Rightarrow> string \<Rightarrow> string list \<Rightarrow> admission_store
   \<Rightarrow> admission_store \<times> (py_error + unit)" where
  "set_admission status actor now later server [] st = (st, Inr ())"
| "set_admission status actor now later server (name # names) st =
     (case admission_row_of st server name of
        None \<Rightarrow> (st, Inl ValueError)
      | Some r \<Rightarrow>
          if may_set status r
          then set_admission status actor now later server names
                 (write_status status actor now later server name st)
          else (st, Inl ValueError))"

definition approve_tools ::
  "string \<Rightarrow> time \<Rightarrow> time \<Rightarrow> string \<Rightarrow> string list \<Rightarrow> admission_store
   \<Rightarrow> admission_store \<times> (py_error + unit)" where
  "approve_tools actor now later server names st =
     set_admission ADM_APPROVED actor now later server names st"

definition disable_tools ::
  "string \<Rightarrow> time \<Rightarrow> time \<Rightarrow> string \<Rightarrow> string list \<Rightarrow> admission_store
   \<Rightarrow> admission_store \<times> (py_error + unit)" where
  "disable_tools actor now later server names st =
     set_admission ADM_DISABLED actor now later server names st"

definition list_admissions :: "string option \<Rightarrow> admission_store \<Rightarrow> admission_row list" where
  "list_admissions server st =
     (case server of
        None \<Rightarrow> map snd (sort_key fst (as_tools st))
      | Some s \<Rightarrow>
          if s = [] then map snd (sort_key fst (as_tools st))
          else sort_key mr_name (filter (\<lambda>r. mr_server r = s) (map snd (as_tools st))))"

end
