(* ===== verification/UpstreamProps.thy ===== *)
theory UpstreamProps
  imports Upstream AuditLog
begin

text \<open>
  What classification and registration of foreign tools guarantee, how the preview relates to
  registration, and what an approval in the store means.
\<close>

section \<open>Classification\<close>

text \<open>The kinds that stand for several others in a grant; a tool is never classified as one.\<close>

definition union_kinds :: "capability_kind list" where
  "union_kinds = [WRITE_FS, CALENDAR_WRITE, BROWSER_AUTOMATION, MACOS_AUTOMATION]"

lemma browser_kind_cases:
  "browser_kind ro n = Some k \<Longrightarrow>
     k \<in> {BROWSER_READ, BROWSER_SCRIPT, BROWSER_FILE, BROWSER_NAVIGATE, BROWSER_INTERACT}"
  by (auto simp: browser_kind_def split: if_splits)

lemma document_kind_cases:
  "document_kind e p d toks r n \<in> {e, r} \<union> set_option p \<union> set_option d"
  by (auto simp: document_kind_def)

lemma local_app_kind_cases:
  assumes "local_app_kind n = Some k"
  shows "k \<in> {APPLE_MAIL_DRAFT, APPLE_MAIL_READ, KEYNOTE_PRESENT, KEYNOTE_READ, PAGES_EXPORT, PAGES_EDIT,
    PAGES_READ, NUMBERS_EXPORT, NUMBERS_EDIT, NUMBERS_READ, OUTLOOK_DRAFT, OUTLOOK_READ, WORD_EXPORT,
    WORD_EDIT, WORD_READ, POWERPOINT_EXPORT, POWERPOINT_PRESENT, POWERPOINT_EDIT, POWERPOINT_READ,
    MACOS_CLIPBOARD_WRITE, MACOS_CLIPBOARD_READ, MACOS_NOTIFICATION, MACOS_APP_CONTROL}"
  using assms
    document_kind_cases [of PAGES_EXPORT None "Some PAGES_EDIT" DOCUMENT_TOKENS PAGES_READ n]
    document_kind_cases [of NUMBERS_EXPORT None "Some NUMBERS_EDIT"
      "[''set'', ''write'', ''update'', ''edit'']" NUMBERS_READ n]
    document_kind_cases [of WORD_EXPORT None "Some WORD_EDIT" DOCUMENT_TOKENS WORD_READ n]
    document_kind_cases [of POWERPOINT_EXPORT "Some POWERPOINT_PRESENT" "Some POWERPOINT_EDIT"
      DOCUMENT_TOKENS POWERPOINT_READ n]
  unfolding local_app_kind_def macos_kind_def
  by (simp split: if_splits) blast+

lemma transport_kind_cases:
  "transport_kind n = Some k \<Longrightarrow>
     k \<in> {SEND_EMAIL, IMAP_READ, SEND_MESSAGE, WEB_FETCH, QUEUE_PURCHASE}"
  by (auto simp: transport_kind_def split: if_splits)

lemma calendar_kind_cases:
  "calendar_kind ro de n = Some k \<Longrightarrow> k \<in> {CALENDAR_READ, DELETE_CAL, CREATE_CAL, MODIFY_CAL}"
  by (auto simp: calendar_kind_def split: if_splits)

lemma file_kind_cases:
  "file_kind ro de n = Some k \<Longrightarrow> k \<in> {DELETE_FS, CREATE_FS, MODIFY_FS, READ_FS}"
  by (auto simp: file_kind_def split: if_splits)

definition destructive_hint :: "annotations option \<Rightarrow> bool" where
  "destructive_hint ann = (case ann of None \<Rightarrow> False | Some a \<Rightarrow> an_destructive_hint a)"

definition read_only_hint :: "annotations option \<Rightarrow> bool" where
  "read_only_hint ann = (case ann of None \<Rightarrow> False | Some a \<Rightarrow> an_read_only_hint a)"

lemma infer_alt:
  "infer_capability_kind ann name =
     (if browser_named (py_lower name) then browser_kind (read_only_hint ann) (py_lower name)
      else case local_app_kind (py_lower name) of
             Some k \<Rightarrow> Some k
           | None \<Rightarrow>
               (case transport_kind (py_lower name) of
                  Some k \<Rightarrow> Some k
                | None \<Rightarrow>
                    if calendar_named (py_lower name)
                    then calendar_kind (read_only_hint ann) (destructive_hint ann) (py_lower name)
                    else file_kind (read_only_hint ann) (destructive_hint ann) (py_lower name)))"
  by (simp only: infer_capability_kind_def Let_def read_only_hint_def destructive_hint_def)

lemma file_reader:
  "file_kind ro de n = Some READ_FS \<Longrightarrow>
     \<not> de \<and> \<not> has_token DELETE_TOKENS n \<and> \<not> has_token CREATE_TOKENS n \<and> \<not> has_token MODIFY_TOKENS n
     \<and> (ro \<or> has_token READ_TOKENS n)"
  by (auto simp: file_kind_def split: if_splits)

text \<open>
  Classification of an unknown tool fails closed. Inference never yields a kind that stands for
  several others in a grant, and it calls a tool a file reader only when neither its name nor the
  server's hint says that it deletes, creates or modifies, and the name or a hint says it reads.
\<close>

theorem inferred_reader_is_no_writer:
  assumes "infer_capability_kind ann name = Some k"
  shows "k \<notin> set union_kinds
    \<and> (k = READ_FS \<longrightarrow>
         \<not> destructive_hint ann
         \<and> \<not> has_token (DELETE_TOKENS @ CREATE_TOKENS @ MODIFY_TOKENS) (py_lower name)
         \<and> (read_only_hint ann \<or> has_token READ_TOKENS (py_lower name)))"
proof -
  let ?n = "py_lower name"
  consider (b) "browser_kind (read_only_hint ann) ?n = Some k"
    | (l) "local_app_kind ?n = Some k"
    | (t) "transport_kind ?n = Some k"
    | (c) "calendar_kind (read_only_hint ann) (destructive_hint ann) ?n = Some k"
    | (f) "file_kind (read_only_hint ann) (destructive_hint ann) ?n = Some k"
    using assms unfolding infer_alt by (auto split: if_splits option.splits)
  then show ?thesis
  proof cases
    case b
    then show ?thesis using browser_kind_cases [OF b] by (auto simp: union_kinds_def)
  next
    case l
    then show ?thesis using local_app_kind_cases [OF l] by (auto simp: union_kinds_def)
  next
    case t
    then show ?thesis using transport_kind_cases [OF t] by (auto simp: union_kinds_def)
  next
    case c
    then show ?thesis using calendar_kind_cases [OF c] by (auto simp: union_kinds_def)
  next
    case f
    have "k = READ_FS \<Longrightarrow> ?thesis"
      using file_reader [of "read_only_hint ann" "destructive_hint ann" ?n] f
      by (simp add: union_kinds_def has_token_def list_ex_iff) blast
    then show ?thesis using file_kind_cases [OF f] by (auto simp: union_kinds_def)
  qed
qed

theorem inferred_reader_is_no_writer_witness:
  "infer_capability_kind None ''List_Files'' = Some READ_FS
   \<and> \<not> has_token (DELETE_TOKENS @ CREATE_TOKENS @ MODIFY_TOKENS) (py_lower ''List_Files'')"
proof -
  have *: "infer_capability_kind None ''List_Files'' = Some READ_FS" by code_simp
  show ?thesis using inferred_reader_is_no_writer [OF *] * by blast
qed

text \<open>
  Outside the file and calendar branches the hint of a destructive tool is not looked at: a tool
  that deletes mail is a mail reader.
\<close>

lemma destructive_mail_tool_is_reader:
  "infer_capability_kind (Some \<lparr>an_read_only_hint = False, an_destructive_hint = True\<rparr>)
     ''imap_delete_message'' = Some IMAP_READ
   \<and> infer_capability_kind (Some \<lparr>an_read_only_hint = False, an_destructive_hint = True\<rparr>)
     ''outlook_purge_folder'' = Some OUTLOOK_READ"
  by code_simp

section \<open>Registration\<close>

definition upstream_origin ::
  "kind_registry \<Rightarrow> upstream_config \<Rightarrow> upstream_tool list \<Rightarrow> string \<Rightarrow> tool_definition \<Rightarrow> bool" where
  "upstream_origin kinds cfg ts name tool \<longleftrightarrow>
     (\<exists>t \<in> set ts. \<exists>k. admitted_kind kinds cfg t = Some k \<and> td_capability_kind tool = k
        \<and> name = qualified_name cfg t \<and> td_name tool = name
        \<and> ut_name t \<notin> set (uc_disabled_tools cfg) \<and> kind_name k \<notin> set (uc_disabled_kinds cfg)
        \<and> (uc_strict cfg \<longrightarrow> upstream_kind kinds cfg t = Some k)
        \<and> label_dominates (td_inherent_tags tool) (uc_inherent_tags cfg)
        \<and> (\<forall>ov. map_of (uc_tool_overrides cfg) (ut_name t) = Some ov
             \<longrightarrow> label_dominates (td_inherent_tags tool) (uo_additional_tags ov)))"

lemma wrapped_tool_fields [simp]:
  "td_name (wrapped_tool cfg t k m) = qualified_name cfg t"
  "td_capability_kind (wrapped_tool cfg t k m) = k"
  by (simp_all add: wrapped_tool_def ToolDefinition_def Let_def split_beta)

lemma wrapped_tool_tags:
  "td_inherent_tags (wrapped_tool cfg t k m) =
     label_join [uc_inherent_tags cfg,
       case map_of (uc_tool_overrides cfg) (ut_name t) of None \<Rightarrow> empty_state | Some v \<Rightarrow> uo_additional_tags v,
       m]"
  by (simp add: wrapped_tool_def ToolDefinition_def Let_def split_beta label_join_def)

lemma admitted_kindD:
  assumes "admitted_kind kinds cfg t = Some k"
  shows "ut_name t \<notin> set (uc_disabled_tools cfg)" "kind_name k \<notin> set (uc_disabled_kinds cfg)"
    "uc_strict cfg \<Longrightarrow> upstream_kind kinds cfg t = Some k"
  using assms by (auto simp: admitted_kind_def split: if_splits option.splits)

lemma wrapped_origin:
  assumes k: "admitted_kind kinds cfg t = Some k" and t: "t \<in> set ts"
  shows "upstream_origin kinds cfg ts (qualified_name cfg t) (wrapped_tool cfg t k m)"
proof -
  let ?tags = "td_inherent_tags (wrapped_tool cfg t k m)"
  have cfg: "label_dominates ?tags (uc_inherent_tags cfg)"
    unfolding wrapped_tool_tags by (rule join_dominates) simp
  have ov: "label_dominates ?tags (uo_additional_tags ov)"
    if "map_of (uc_tool_overrides cfg) (ut_name t) = Some ov" for ov
    unfolding wrapped_tool_tags using that by (intro join_dominates) simp
  show ?thesis
    unfolding upstream_origin_def
    by (intro bexI [OF _ t] exI [of _ k] conjI impI allI)
       (assumption | rule k cfg ov admitted_kindD [OF k] wrapped_tool_fields refl)+
qed

lemma upstream_origin_mono:
  "upstream_origin kinds cfg ts name tool \<Longrightarrow> set ts \<subseteq> set ts' \<Longrightarrow> upstream_origin kinds cfg ts' name tool"
  unfolding upstream_origin_def by blast

lemma origins_mono:
  assumes "\<forall>(name, tool) \<in> set new. upstream_origin kinds cfg ts name tool"
  shows "\<forall>(name, tool) \<in> set new. upstream_origin kinds cfg (t # ts) name tool"
proof (clarify)
  fix name tool assume "(name, tool) \<in> set new"
  then have "upstream_origin kinds cfg ts name tool" using assms by blast
  then show "upstream_origin kinds cfg (t # ts) name tool" by (rule upstream_origin_mono) auto
qed

lemma register_appends:
  "register reg tool = Inr reg' \<Longrightarrow> reg' = reg @ [(td_name tool, tool)]"
  by (auto simp: register_def split: if_splits option.splits)

text \<open>
  C17: Registration of a foreign server only adds tools the operator's configuration admits: whatever
  the server lists, and even if registration stops halfway, the registry keeps its tools, and each
  new one is a listed tool under the server's name, of a kind that is not disabled and under strict
  admission not guessed, whose inherent labels dominate those of the server and of the override.
\<close>

theorem registration_admits_only_configured:
  assumes "register_tools text_of kinds cfg ts reg ad = (reg', ad', e)"
  shows "\<exists>new. reg' = reg @ new \<and> (\<forall>(name, tool) \<in> set new. upstream_origin kinds cfg ts name tool)"
  using assms
proof (induction ts arbitrary: reg ad)
  case Nil
  then show ?case by simp
next
  case (Cons t ts)
  show ?case
  proof (cases "admitted_kind kinds cfg t")
    case None
    with Cons.prems have "register_tools text_of kinds cfg ts reg
        (ad\<lparr>ad_rejected := ad_rejected ad @ [ut_name t]\<rparr>) = (reg', ad', e)" by simp
    from Cons.IH [OF this] obtain new where "reg' = reg @ new"
      "\<forall>(name, tool) \<in> set new. upstream_origin kinds cfg ts name tool" by blast
    then show ?thesis using origins_mono by (intro exI [of _ new]) blast
  next
    case (Some k)
    show ?thesis
    proof (cases "\<exists>m reg1. extract_tags text_of (ut_meta t) = Inr m
        \<and> register reg (wrapped_tool cfg t k m) = Inr reg1")
      case False
      then have "reg' = reg" using Cons.prems Some by (auto split: sum.splits)
      then show ?thesis by simp
    next
      case True
      then obtain m reg1 where m: "extract_tags text_of (ut_meta t) = Inr m"
        and r: "register reg (wrapped_tool cfg t k m) = Inr reg1" by blast
      have reg1: "reg1 = reg @ [(qualified_name cfg t, wrapped_tool cfg t k m)]"
        using register_appends [OF r] by simp
      have "register_tools text_of kinds cfg ts reg1
          (ad\<lparr>ad_registered := ad_registered ad @ [qualified_name cfg t]\<rparr>) = (reg', ad', e)"
        using Cons.prems Some m r by simp
      from Cons.IH [OF this] obtain new where new: "reg' = reg1 @ new"
        "\<forall>(name, tool) \<in> set new. upstream_origin kinds cfg ts name tool" by blast
      have "upstream_origin kinds cfg (t # ts) (qualified_name cfg t) (wrapped_tool cfg t k m)"
        by (rule wrapped_origin [OF Some]) simp
      then show ?thesis
        using new(1) reg1 origins_mono [OF new(2), of t]
        by (intro exI [of _ "(qualified_name cfg t, wrapped_tool cfg t k m) # new"]) simp
    qed
  qed
qed

definition web_config :: upstream_config where
  "web_config = (UpstreamServerConfig ''web'')
     \<lparr>uc_inherent_tags := \<lparr>ls_a = [], ls_b = [\<lparr>pt_level = EXTERNAL_UNTRUSTED\<rparr>]\<rparr>,
      uc_disabled_tools := [''send_mail'']\<rparr>"

definition plain_tool :: "string \<Rightarrow> upstream_tool" where
  "plain_tool name = \<lparr>ut_name = name, ut_annotations = None, ut_meta = None, ut_schema_properties = []\<rparr>"

theorem registration_admits_only_configured_witness:
  "\<exists>new ad e. register_tools (\<lambda>_. []) None web_config
       [plain_tool ''send_mail'', plain_tool ''list_files'', plain_tool ''mystery''] []
       \<lparr>ad_registered = [], ad_rejected = []\<rparr> = (new, ad, e)
     \<and> map fst new = [''web.list_files''] \<and> ad_rejected ad = [''send_mail'', ''mystery'']
     \<and> (\<forall>(name, tool) \<in> set new. upstream_origin None web_config
          [plain_tool ''send_mail'', plain_tool ''list_files'', plain_tool ''mystery''] name tool)"
proof -
  let ?ts = "[plain_tool ''send_mail'', plain_tool ''list_files'', plain_tool ''mystery'']"
  have "(case register_tools (\<lambda>_. []) None web_config ?ts [] \<lparr>ad_registered = [], ad_rejected = []\<rparr> of
      (new, ad, e) \<Rightarrow> map fst new = [''web.list_files'']
        \<and> ad_rejected ad = [''send_mail'', ''mystery''])"
    by code_simp
  moreover obtain new ad e where run: "register_tools (\<lambda>_. []) None web_config ?ts []
      \<lparr>ad_registered = [], ad_rejected = []\<rparr> = (new, ad, e)"
    by (metis prod_cases3)
  ultimately show ?thesis using registration_admits_only_configured [OF run] run by auto
qed

section \<open>The preview and registration\<close>

definition same_tool :: "(json \<Rightarrow> string) \<Rightarrow> args \<Rightarrow> upstream_tool \<Rightarrow> bool" where
  "same_tool text_of tool t \<longleftrightarrow>
     tool_name_of text_of tool = ut_name t \<and> ut_name t \<noteq> []
     \<and> coerce_annotations (dict_get tool ''annotations'' JNull) = ut_annotations t"

definition predictable :: "upstream_config \<Rightarrow> upstream_tool \<Rightarrow> bool" where
  "predictable cfg t \<longleftrightarrow> \<not> body_reader_unlabelled cfg t
     \<and> (case map_of (uc_tool_overrides cfg) (ut_name t) of None \<Rightarrow> True
        | Some ov \<Rightarrow> uo_custom_kind_name ov = [])"

lemma classified_upstream_kind:
  assumes "same_tool text_of tool t" and "predictable cfg t"
  shows "map_option BuiltIn (fst (classified cfg tool (ut_name t))) =
    (case upstream_kind kinds cfg t of
       None \<Rightarrow> if uc_strict cfg then None else Some (BuiltIn READ_FS) | Some k \<Rightarrow> Some k)"
proof -
  let ?i = "infer_capability_kind (ut_annotations t) (ut_name t)"
  have ann: "coerce_annotations (dict_get tool ''annotations'' JNull) = ut_annotations t"
    using assms(1) by (simp add: same_tool_def)
  show ?thesis
  proof (cases "Option.bind (map_of (uc_tool_overrides cfg) (ut_name t)) uo_capability_kind")
    case (Some k)
    then show ?thesis
      by (auto simp: classified_def upstream_kind_def Let_def bind_eq_Some_conv)
  next
    case None
    have "upstream_kind kinds cfg t = map_option BuiltIn ?i"
      using None assms(2)
      by (auto simp: upstream_kind_def predictable_def Let_def split: option.splits)
    then show ?thesis
      using None by (cases ?i) (simp_all add: classified_def ann)
  qed
qed

text \<open>
  The preview an operator approves is what registration does: for a tool whose override names no
  custom kind, other than an unlabelled mail body reader, the preview admits the tool exactly when
  registration does, under the same kind.
\<close>

theorem preview_predicts_registration:
  assumes "same_tool text_of tool t" and "predictable cfg t"
  shows "(let d = preview_tool_admission text_of cfg tool
          in if dn_admitted d then Some (dn_capability_kind d) else None) =
    map_option kind_name (admitted_kind kinds cfg t)"
proof -
  have name: "tool_name_of text_of tool = ut_name t" "ut_name t \<noteq> []"
    using assms(1) by (simp_all add: same_tool_def)
  have body: "\<not> body_reader_unlabelled cfg t" using assms(2) by (simp add: predictable_def)
  obtain k source where c: "classified cfg tool (ut_name t) = (k, source)" by fastforce
  have kind: "(case upstream_kind kinds cfg t of
       None \<Rightarrow> if uc_strict cfg then None else Some (BuiltIn READ_FS) | Some k \<Rightarrow> Some k) =
      map_option BuiltIn k"
    using classified_upstream_kind [OF assms, of kinds] c by simp
  show ?thesis
    unfolding admitted_kind_def kind preview_tool_admission_def Let_def name(1) c
    using name(2) body by (cases k) (simp_all add: refused_def)
qed

theorem preview_predicts_registration_witness:
  "dn_admitted (preview_tool_admission (\<lambda>_. []) web_config [(''name'', JStr '' list_files '')])
   \<and> admitted_kind None web_config (plain_tool ''list_files'') = Some (BuiltIn READ_FS)"
proof -
  have s: "same_tool (\<lambda>_. []) [(''name'', JStr '' list_files '')] (plain_tool ''list_files'')"
    unfolding same_tool_def by code_simp
  have p: "predictable web_config (plain_tool ''list_files'')" unfolding predictable_def by code_simp
  have k: "admitted_kind None web_config (plain_tool ''list_files'') = Some (BuiltIn READ_FS)"
    by code_simp
  show ?thesis
    using preview_predicts_registration [OF s p, of None] k by (simp add: Let_def split: if_splits)
qed

text \<open>Where the preview and registration differ: it admits what registration rejects.\<close>

definition custom_override :: "string \<Rightarrow> tool_override" where
  "custom_override name =
     \<lparr>uo_capability_kind = None, uo_additional_tags = empty_state, uo_target_arg = None,
      uo_target_template = None, uo_amount_arg = None, uo_custom_kind_name = name\<rparr>"

lemma preview_admits_what_registration_rejects:
  "dn_admitted (preview_tool_admission (\<lambda>_. []) (UpstreamServerConfig ''m'') [(''name'', JStr ''imap.read_recent'')])
   \<and> admitted_kind None (UpstreamServerConfig ''m'') (plain_tool ''imap.read_recent'') = None
   \<and> dn_admitted (preview_tool_admission (\<lambda>_. [])
        ((UpstreamServerConfig ''m'')\<lparr>uc_tool_overrides := [(''list_dm'', custom_override ''slack:dm'')]\<rparr>)
        [(''name'', JStr ''list_dm'')])
   \<and> admitted_kind None
        ((UpstreamServerConfig ''m'')\<lparr>uc_tool_overrides := [(''list_dm'', custom_override ''slack:dm'')]\<rparr>)
        (plain_tool ''list_dm'') = None"
  by code_simp

section \<open>Approvals in the store\<close>

inductive admission_run :: "line_codec \<Rightarrow> admission_store \<Rightarrow> bool" for cd where
  adm_start: "admission_run cd empty_admissions"
| adm_preview: "admission_run cd st \<Longrightarrow>
    admission_run cd (fst (record_preview cd now later s actor st))"
| adm_approve: "admission_run cd st \<Longrightarrow>
    admission_run cd (fst (approve_tools actor now later server names st))"
| adm_disable: "admission_run cd st \<Longrightarrow>
    admission_run cd (fst (disable_tools actor now later server names st))"

definition approving_event :: "line_codec \<Rightarrow> admission_row \<Rightarrow> admission_event \<Rightarrow> bool" where
  "approving_event cd r e \<longleftrightarrow>
     me_action e = ''approved'' \<and> me_server e = mr_server r \<and> me_tool e = Some (mr_name r)
     \<and> mr_approved_by r = Some (me_actor e)
     \<and> (\<exists>r'. me_payload e = RowOf r' \<and> mr_status r' = ADM_APPROVED
          \<and> mr_fingerprint r' = fingerprint cd (mr_decision r)
          \<and> mr_fingerprint r' = fingerprint cd (mr_decision r'))"

definition row_ok :: "line_codec \<Rightarrow> admission_store \<Rightarrow> string \<times> string \<Rightarrow> admission_row \<Rightarrow> bool" where
  "row_ok cd st key r \<longleftrightarrow>
     key = (mr_server r, mr_name r) \<and> mr_name r = dn_name (mr_decision r)
     \<and> mr_fingerprint r = fingerprint cd (mr_decision r)
     \<and> (mr_status r \<in> {ADM_PREVIEWED, ADM_APPROVED} \<longrightarrow> dn_admitted (mr_decision r))
     \<and> (mr_status r = ADM_APPROVED \<longrightarrow> (\<exists>e \<in> set (as_events st). approving_event cd r e))"

definition admissions_ok :: "line_codec \<Rightarrow> admission_store \<Rightarrow> bool" where
  "admissions_ok cd st \<longleftrightarrow> (\<forall>key r. map_of (as_tools st) key = Some r \<longrightarrow> row_ok cd st key r)"

lemma put_row_lookup [simp]:
  "map_of (as_tools (put_row st r)) = (map_of (as_tools st))((mr_server r, mr_name r) \<mapsto> r)"
  by (simp add: put_row_def update_conv')

lemma put_row_events [simp]: "as_events (put_row st r) = as_events st"
  by (simp add: put_row_def)

lemma add_event_sel [simp]:
  "as_tools (add_event e st) = as_tools st" "as_events (add_event e st) = as_events st @ [e]"
  by (simp_all add: add_event_def)

interpretation admissions: record_store "\<lambda>r. (mr_server r, mr_name r)"
    "\<lambda>st. map_of (as_tools st)" put_row
  by unfold_locales simp

lemma row_ok_mono: "row_ok cd st key r \<Longrightarrow> set (as_events st) \<subseteq> set (as_events st') \<Longrightarrow> row_ok cd st' key r"
  unfolding row_ok_def by blast

lemma admissions_ok_put:
  assumes "admissions_ok cd st" and "row_ok cd st (mr_server r, mr_name r) r"
  shows "admissions_ok cd (put_row st r)"
  using assms row_ok_mono [of cd st] unfolding admissions_ok_def by (auto split: if_splits)

lemma admissions_ok_event: "admissions_ok cd st \<Longrightarrow> admissions_ok cd (add_event e st)"
proof -
  assume ok: "admissions_ok cd st"
  have "row_ok cd (add_event e st) key r" if "map_of (as_tools st) key = Some r" for key r
  proof (rule row_ok_mono)
    show "row_ok cd st key r" using ok that unfolding admissions_ok_def by blast
  qed auto
  then show ?thesis by (simp add: admissions_ok_def)
qed

lemma previewed_row_ok:
  assumes ok: "admissions_ok cd st"
  shows "row_ok cd st (server, dn_name d)
    (previewed_row cd now server (admission_row_of st server (dn_name d)) d)"
proof -
  let ?x = "admission_row_of st server (dn_name d)"
  let ?s = "previewed_status cd ?x d"
  let ?r = "previewed_row cd now server ?x d"
  have adm: "?s \<in> {ADM_PREVIEWED, ADM_APPROVED} \<Longrightarrow> dn_admitted d"
    by (auto simp: previewed_status_def split: if_splits)
  have ev: "\<exists>e \<in> set (as_events st). approving_event cd ?r e" if s: "?s = ADM_APPROVED"
  proof -
    obtain r where r: "?x = Some r" "mr_status r = ADM_APPROVED" "mr_fingerprint r = fingerprint cd d"
      using s by (auto simp: previewed_status_def split: if_splits option.splits)
    have rok: "row_ok cd st (server, dn_name d) r"
      using ok r(1) by (simp add: admissions_ok_def admission_row_of_def)
    then obtain e where e: "e \<in> set (as_events st)" "approving_event cd r e"
      using r(2) by (auto simp: row_ok_def)
    have "mr_server r = server" "mr_name r = dn_name d"
      "fingerprint cd (mr_decision r) = fingerprint cd d"
      using rok r(3) by (simp_all add: row_ok_def)
    then have "approving_event cd ?r e"
      using e(2) s r(1) by (simp add: approving_event_def previewed_row_def Let_def)
    then show ?thesis using e(1) by blast
  qed
  show ?thesis
    using adm ev by (auto simp: row_ok_def previewed_row_def Let_def)
qed

lemma preview_one_ok: "admissions_ok cd st \<Longrightarrow> admissions_ok cd (preview_one cd now server d st)"
  using admissions_ok_put previewed_row_ok
  by (fastforce simp: preview_one_def previewed_row_def Let_def)

lemma preview_fold_ok:
  "admissions_ok cd st \<Longrightarrow> admissions_ok cd (fold (preview_one cd now server) ds st)"
  by (induction ds arbitrary: st) (simp_all add: preview_one_ok)

lemma with_admission_sel [simp]:
  "mr_server (with_admission s a n r) = mr_server r" "mr_name (with_admission s a n r) = mr_name r"
  "mr_decision (with_admission s a n r) = mr_decision r" "mr_status (with_admission s a n r) = s"
  "mr_fingerprint (with_admission s a n r) = mr_fingerprint r"
  "mr_approved_by (with_admission s a n r) = (if s = ADM_APPROVED then Some a else None)"
  by (simp_all add: with_admission_def)

lemma write_status_ok:
  assumes ok: "admissions_ok cd st" and r: "admission_row_of st server name = Some r"
    and may: "may_set s r" and s: "s \<in> {ADM_APPROVED, ADM_DISABLED}"
  shows "admissions_ok cd (write_status s actor now later server name st)"
proof -
  let ?r = "with_admission s actor now r"
  let ?e = "\<lparr>me_server = server, me_tool = Some name, me_action = status_action s, me_actor = actor,
              me_payload = RowOf ?r, me_created_at = later\<rparr>"
  have rok: "row_ok cd st (server, name) r"
    using ok r by (simp add: admissions_ok_def admission_row_of_def)
  have key: "mr_server r = server" "mr_name r = name" using rok by (simp_all add: row_ok_def)
  have row: "row_ok cd (add_event ?e st) (server, name) ?r"
    using rok may s by (auto simp: row_ok_def may_set_def approving_event_def status_action_def)
  have "admissions_ok cd (put_row (add_event ?e st) ?r)"
    by (rule admissions_ok_put [OF admissions_ok_event [OF ok]])
       (use row in \<open>simp only: with_admission_sel key\<close>)
  moreover have "write_status s actor now later server name st = put_row (add_event ?e st) ?r"
    using r by (simp add: write_status_def Let_def put_row_def add_event_def)
  ultimately show ?thesis by simp
qed

lemma set_admission_ok:
  assumes "admissions_ok cd st" and "s \<in> {ADM_APPROVED, ADM_DISABLED}"
  shows "admissions_ok cd (fst (set_admission s actor now later server names st))"
  using assms
proof (induction names arbitrary: st)
  case (Cons name names)
  show ?case
  proof (cases "admission_row_of st server name")
    case (Some r)
    then show ?thesis
      using Cons.IH [OF write_status_ok [OF Cons.prems(1) Some _ Cons.prems(2)] Cons.prems(2)]
        Cons.prems(1) by simp
  qed (simp add: Cons.prems)
qed simp

lemma admission_run_ok: "admission_run cd st \<Longrightarrow> admissions_ok cd st"
proof (induction rule: admission_run.induct)
  case adm_start
  then show ?case by (simp add: admissions_ok_def empty_admissions_def)
next
  case adm_preview
  then show ?case
    by (auto simp: record_preview_def intro!: admissions_ok_event preview_fold_ok)
next
  case adm_approve
  then show ?case unfolding approve_tools_def by (intro set_admission_ok) simp_all
next
  case adm_disable
  then show ?case unfolding disable_tools_def by (intro set_admission_ok) simp_all
qed

text \<open>
  C18: An approval of a foreign tool never carries over to a changed decision. Over any sequence of
  previews, approvals and disabling, a tool listed as approved is admitted, and the event log holds
  the approval of its approver for that tool, of a decision with the fingerprint of the present one.
\<close>

theorem approval_binds_decision:
  assumes "admission_run cd st" and "admission_row_of st server name = Some r"
    and "mr_status r = ADM_APPROVED"
  shows "dn_admitted (mr_decision r) \<and> dn_name (mr_decision r) = name
    \<and> (\<exists>e \<in> set (as_events st). \<exists>r'.
         me_action e = ''approved'' \<and> me_server e = server \<and> me_tool e = Some name
         \<and> mr_approved_by r = Some (me_actor e) \<and> me_payload e = RowOf r'
         \<and> fingerprint cd (mr_decision r') = fingerprint cd (mr_decision r))"
proof -
  have "row_ok cd st (server, name) r"
    using admission_run_ok [OF assms(1)] assms(2) by (simp add: admissions_ok_def admission_row_of_def)
  then show ?thesis using assms(3) unfolding row_ok_def approving_event_def by auto
qed

definition list_decision :: admission_decision where
  "list_decision = \<lparr>dn_name = ''ls'', dn_admitted = True, dn_capability_kind = ''READ_FS'',
     dn_inferred_from = [], dn_target_source = [], dn_warnings = [], dn_reasons = []\<rparr>"

definition one_preview :: "line_codec \<Rightarrow> admission_store \<Rightarrow> admission_store" where
  "one_preview cd st = fst (record_preview cd 1 1
     \<lparr>sm_server = ''files'', sm_strict = True, sm_decisions = [list_decision]\<rparr> ''op'' st)"

lemma admission_run_approved:
  "admission_run cd (one_preview cd (fst (approve_tools ''marc'' 2 2 ''files'' [''ls'']
     (one_preview cd empty_admissions))))"
  unfolding one_preview_def by (intro adm_preview adm_approve adm_start)

theorem approval_binds_decision_witness:
  "\<exists>r (e :: admission_event). admission_row_of (one_preview unary_codec (fst (approve_tools ''marc'' 2 2 ''files'' [''ls'']
       (one_preview unary_codec empty_admissions)))) ''files'' ''ls'' = Some r
     \<and> mr_status r = ADM_APPROVED \<and> me_action e = ''approved'' \<and> mr_approved_by r = Some (me_actor e)"
proof -
  let ?st = "one_preview unary_codec (fst (approve_tools ''marc'' 2 2 ''files'' [''ls'']
       (one_preview unary_codec empty_admissions)))"
  have f: "fingerprint unary_codec d = ''0''" for d by (simp add: fingerprint_def unary_codec_def)
  have "\<exists>r. admission_row_of ?st ''files'' ''ls'' = Some r \<and> mr_status r = ADM_APPROVED"
    by (simp add: one_preview_def record_preview_def approve_tools_def empty_admissions_def
        preview_one_def previewed_row_def previewed_status_def list_decision_def admission_row_of_def
        put_row_def add_event_def write_status_def with_admission_def may_set_def Let_def f)
  then obtain r where r: "admission_row_of ?st ''files'' ''ls'' = Some r" "mr_status r = ADM_APPROVED"
    by blast
  obtain e :: admission_event where "me_action e = ''approved''" "mr_approved_by r = Some (me_actor e)"
    using approval_binds_decision [OF admission_run_approved r] by blast
  with r show ?thesis by (intro exI conjI)
qed

text \<open>
  The two statements of \<open>_set_status_sync\<close> are not one transaction: a preview recorded between the
  check and the update is approved unseen, a refusal included.
\<close>

lemma interleaved_approval_is_unseen:
  assumes "admission_row_of st server name = Some r" and "may_set ADM_APPROVED r"
    and "dn_name d = name" and "name \<noteq> []"
  shows "\<exists>r'. admission_row_of
      (write_status ADM_APPROVED actor now later server name (preview_one cd at' server d st)) server name
      = Some r' \<and> mr_status r' = ADM_APPROVED \<and> mr_decision r' = d"
  using assms
  by (simp add: write_status_def preview_one_def admission_row_of_def previewed_row_def Let_def)

text \<open>A tool the operator disabled is open to approval again after one preview that refuses it.\<close>

lemma refused_preview_forgets_disable:
  assumes "dn_name d = name" and "name \<noteq> []" and "\<not> dn_admitted d" and "dn_name d' = name"
    and "dn_admitted d'"
  shows "\<exists>r. admission_row_of (preview_one cd now' server d' (preview_one cd now server d st)) server name = Some r
    \<and> mr_status r = ADM_PREVIEWED \<and> mr_disabled_by r = None"
  using assms
  by (simp add: preview_one_def admission_row_of_def previewed_row_def previewed_status_def Let_def)

section \<open>Bounded answers\<close>

lemma utf8_take_size: "utf8_size (utf8_take n s) \<le> n"
  by (induction n s rule: utf8_take.induct) (auto simp: utf8_size_def)

lemma utf8_take_prefix: "prefix (utf8_take n s) s"
  by (induction n s rule: utf8_take.induct) auto

text \<open>
  The text of an answer of a foreign server that reaches the planner is either within 32 KiB or a
  beginning of at most 32 KiB of it with a hint, and then the answer says that it was cut and how
  long it was.
\<close>

theorem long_answers_are_cut:
  assumes "map_of output ''text'' = Some (JStr s)"
  shows "let out = maybe_truncate_output output
    in if utf8_size s \<le> 32768 then out = output
       else (\<exists>h. map_of out ''text'' = Some (JStr (h @ truncation_hint (utf8_size s)))
               \<and> prefix h s \<and> utf8_size h \<le> 32768)
          \<and> map_of out ''truncated'' = Some (JBool True)
          \<and> map_of out ''original_size_bytes'' = Some (JInt (int (utf8_size s)))"
  using assms utf8_take_size [of MAX_UPSTREAM_TOOL_OUTPUT_BYTES s]
    utf8_take_prefix [of MAX_UPSTREAM_TOOL_OUTPUT_BYTES s]
  by (auto simp: maybe_truncate_output_def MAX_UPSTREAM_TOOL_OUTPUT_BYTES_def update_conv')

theorem long_answers_are_cut_witness:
  "maybe_truncate_output [(''text'', JStr ''ok'')] = [(''text'', JStr ''ok'')]"
proof -
  have t: "map_of [(''text'', JStr ''ok'')] ''text'' = Some (JStr ''ok'')" by simp
  show ?thesis
    using long_answers_are_cut [OF t] by (simp add: Let_def utf8_size_def utf8_width_def)
qed

end
