(* ===== verification/Onguard.thy ===== *)
theory Onguard
  imports AuditLog Tools
begin

text \<open>
  \<open>onguard/store.py\<close>: what the daemon keeps for its headless clients: their registrations,
  configurations, queued commands, events, schedules with their runs, and artifacts. A table is the
  list of its rows under their primary key, in the order of insertion. Every statement is committed
  by itself (\<open>isolation_level=None\<close>), so a method that selects a row and then updates it is two
  steps; foreign keys are on. The clock and fresh identifiers are arguments, and a JSON column holds
  the value it encodes.
\<close>

section \<open>Rows\<close>

record og_client =
  gc_kind :: string
  gc_owner :: "string option"
  gc_version :: "string option"
  gc_allowed_schedules :: "string list"
  gc_metadata :: args
  gc_status :: string
  gc_created_at :: time
  gc_updated_at :: time

record og_config =
  gf_client_id :: string
  gf_schema_name :: string
  gf_payload :: args
  gf_labels :: "string list"
  gf_status :: string
  gf_proposed_by :: string
  gf_approved_by :: "string option"
  gf_created_at :: time
  gf_updated_at :: time

record og_command =
  gm_client_id :: string
  gm_command :: string
  gm_payload :: args
  gm_labels :: "string list"
  gm_provenance :: args
  gm_status :: string
  gm_created_by :: string
  gm_claimed_by :: "string option"
  gm_lease_until :: "time option"
  gm_attempts :: nat
  gm_result :: "args option"
  gm_artifact_ref :: "string option"
  gm_created_at :: time
  gm_updated_at :: time

record og_event =
  ge_client_id :: string
  ge_command_id :: "string option"
  ge_schedule_id :: "string option"
  ge_event_type :: string
  ge_payload :: args
  ge_labels :: "string list"
  ge_created_at :: time

record og_schedule =
  gs_client_id :: string
  gs_recurrence :: args
  gs_command :: string
  gs_payload :: args
  gs_labels :: "string list"
  gs_status :: string
  gs_created_by :: string
  gs_approved_by :: "string option"
  gs_last_run_at :: "time option"
  gs_next_run_at :: "time option"
  gs_created_at :: time
  gs_updated_at :: time

record og_artifact =
  ga_client_id :: string
  ga_command_id :: "string option"
  ga_schedule_id :: "string option"
  ga_session_id :: "string option"
  ga_artifact_type :: string
  ga_payload :: args
  ga_labels :: "string list"
  ga_provenance :: args
  ga_status :: string
  ga_created_by :: string
  ga_promoted_by :: "string option"
  ga_deleted_at :: "time option"
  ga_created_at :: time
  ga_updated_at :: time

record og_run =
  gr_schedule_id :: string
  gr_client_id :: string
  gr_command_id :: "string option"
  gr_status :: string
  gr_claimed_by :: "string option"
  gr_lease_until :: "time option"
  gr_run_after :: time
  gr_started_at :: "time option"
  gr_finished_at :: "time option"
  gr_result :: "args option"
  gr_artifact_ref :: "string option"
  gr_error :: "string option"
  gr_created_at :: time
  gr_updated_at :: time

record onguard =
  og_clients :: "(string \<times> og_client) list"
  og_configs :: "(string \<times> og_config) list"
  og_commands :: "(string \<times> og_command) list"
  og_events :: "(string \<times> og_event) list"
  og_acks :: "(string \<times> string \<times> time) list"
  og_schedules :: "(string \<times> og_schedule) list"
  og_artifacts :: "(string \<times> og_artifact) list"
  og_runs :: "(string \<times> og_run) list"

definition empty_onguard :: onguard where
  "empty_onguard =
     \<lparr>og_clients = [], og_configs = [], og_commands = [], og_events = [], og_acks = [],
      og_schedules = [], og_artifacts = [], og_runs = []\<rparr>"

text \<open>\<open>UPDATE ... WHERE key = k\<close>, and the optional filters of the listing methods.\<close>

definition update_where :: "string \<Rightarrow> ('r \<Rightarrow> 'r) \<Rightarrow> (string \<times> 'r) list \<Rightarrow> (string \<times> 'r) list" where
  "update_where k f t = (case map_of t k of None \<Rightarrow> t | Some r \<Rightarrow> AList.update k (f r) t)"

definition wanted :: "string option \<Rightarrow> string \<Rightarrow> bool" where
  "wanted v s = (case v of None \<Rightarrow> True | Some w \<Rightarrow> w = [] \<or> w = s)"

definition known_client :: "onguard \<Rightarrow> string \<Rightarrow> bool" where
  "known_client st cid \<longleftrightarrow> map_of (og_clients st) cid \<noteq> None"

section \<open>Times\<close>

text \<open>The last microsecond a \<open>datetime\<close> can represent.\<close>

definition MAX_TIME :: time where
  "MAX_TIME = 253402300799999999"

definition plus_seconds :: "time \<Rightarrow> int \<Rightarrow> py_error + time" where
  "plus_seconds t s = (if MAX_TIME < t + s * 1000000 then Inl OverflowError else Inr (t + s * 1000000))"

definition day_length :: int where
  "day_length = 86400 * 1000000"

definition next_run_at :: "(json \<Rightarrow> string) \<Rightarrow> args \<Rightarrow> time \<Rightarrow> py_error + time option" where
  "next_run_at text_of recurrence base =
     (let kind = py_str text_of (dict_get recurrence ''kind'' (JStr ''manual''))
      in if recurrence = [] \<or> kind = ''manual'' then Inr None
         else if kind = ''interval''
         then (case py_int (dict_get recurrence ''seconds'' (JInt 0)) of
                 Inl e \<Rightarrow> Inl e
               | Inr s \<Rightarrow>
                   if s \<le> 0 then Inl ValueError
                   else (case plus_seconds base s of Inl e \<Rightarrow> Inl e | Inr t \<Rightarrow> Inr (Some t)))
         else if kind = ''daily''
         then (case py_int (dict_get recurrence ''hour'' (JInt 0)) of
                 Inl e \<Rightarrow> Inl e
               | Inr h \<Rightarrow>
               (case py_int (dict_get recurrence ''minute'' (JInt 0)) of
                  Inl e \<Rightarrow> Inl e
                | Inr m \<Rightarrow>
                    if h < 0 \<or> 23 < h \<or> m < 0 \<or> 59 < m then Inl ValueError
                    else (let candidate = base - base mod day_length + (h * 3600 + m * 60) * 1000000
                          in if candidate \<le> base
                             then (case plus_seconds candidate 86400 of
                                     Inl e \<Rightarrow> Inl e | Inr t \<Rightarrow> Inr (Some t))
                             else Inr (Some candidate))))
         else Inl ValueError)"

section \<open>Clients and configurations\<close>

definition register_client ::
  "time \<Rightarrow> string \<Rightarrow> string \<Rightarrow> string option \<Rightarrow> string option \<Rightarrow> string list \<Rightarrow> args \<Rightarrow> string
   \<Rightarrow> onguard \<Rightarrow> onguard" where
  "register_client now cid kind owner version allowed metadata status st =
     st\<lparr>og_clients := AList.update cid
          \<lparr>gc_kind = kind, gc_owner = owner, gc_version = version, gc_allowed_schedules = allowed,
           gc_metadata = dict_sorted metadata, gc_status = status,
           gc_created_at = (case map_of (og_clients st) cid of None \<Rightarrow> now | Some c \<Rightarrow> gc_created_at c),
           gc_updated_at = now\<rparr> (og_clients st)\<rparr>"

definition list_clients :: "string option \<Rightarrow> onguard \<Rightarrow> (string \<times> og_client) list" where
  "list_clients kind st =
     sort_key fst (filter (\<lambda>(_, c). kind = None \<or> kind = Some (gc_kind c)) (og_clients st))"

text \<open>A proposal over an existing identifier keeps its client and its schema.\<close>

definition propose_config ::
  "time \<Rightarrow> string \<Rightarrow> string \<Rightarrow> string \<Rightarrow> args \<Rightarrow> string list \<Rightarrow> string \<Rightarrow> string
   \<Rightarrow> onguard \<Rightarrow> onguard \<times> (py_error + unit)" where
  "propose_config now config_id cid schema payload labels proposed_by status st =
     (case map_of (og_configs st) config_id of
        Some r \<Rightarrow>
          (st\<lparr>og_configs := AList.update config_id
                (r\<lparr>gf_payload := dict_sorted payload, gf_labels := labels, gf_status := status,
                   gf_proposed_by := proposed_by, gf_approved_by := None, gf_updated_at := now\<rparr>)
                (og_configs st)\<rparr>, Inr ())
      | None \<Rightarrow>
          if \<not> known_client st cid then (st, Inl DatabaseIntegrityError)
          else (st\<lparr>og_configs := AList.update config_id
                     \<lparr>gf_client_id = cid, gf_schema_name = schema, gf_payload = dict_sorted payload,
                      gf_labels = labels, gf_status = status, gf_proposed_by = proposed_by,
                      gf_approved_by = None, gf_created_at = now, gf_updated_at = now\<rparr>
                     (og_configs st)\<rparr>, Inr ()))"

definition approve_config ::
  "time \<Rightarrow> string \<Rightarrow> string \<Rightarrow> onguard \<Rightarrow> onguard \<times> (py_error + og_config)" where
  "approve_config now config_id approved_by st =
     (let st' = st\<lparr>og_configs := update_where config_id
            (\<lambda>r. r\<lparr>gf_status := ''approved'', gf_approved_by := Some approved_by, gf_updated_at := now\<rparr>)
            (og_configs st)\<rparr>
      in (st', case map_of (og_configs st') config_id of None \<Rightarrow> Inl KeyError | Some r \<Rightarrow> Inr r))"

definition list_configs :: "string option \<Rightarrow> string option \<Rightarrow> onguard \<Rightarrow> (string \<times> og_config) list" where
  "list_configs cid status st =
     rev (sort_key (gf_updated_at \<circ> snd)
       (filter (\<lambda>(_, r). wanted cid (gf_client_id r) \<and> wanted status (gf_status r)) (og_configs st)))"

section \<open>Commands\<close>

definition new_command ::
  "time \<Rightarrow> string \<Rightarrow> string \<Rightarrow> args \<Rightarrow> string list \<Rightarrow> args \<Rightarrow> string \<Rightarrow> og_command" where
  "new_command now cid command payload labels provenance created_by =
     \<lparr>gm_client_id = cid, gm_command = command, gm_payload = dict_sorted payload, gm_labels = labels,
      gm_provenance = dict_sorted provenance, gm_status = ''queued'', gm_created_by = created_by,
      gm_claimed_by = None, gm_lease_until = None, gm_attempts = 0, gm_result = None,
      gm_artifact_ref = None, gm_created_at = now, gm_updated_at = now\<rparr>"

definition insert_command ::
  "string \<Rightarrow> og_command \<Rightarrow> onguard \<Rightarrow> onguard \<times> (py_error + og_command)" where
  "insert_command command_id c st =
     (if map_of (og_commands st) command_id \<noteq> None \<or> \<not> known_client st (gm_client_id c)
      then (st, Inl DatabaseIntegrityError)
      else (st\<lparr>og_commands := og_commands st @ [(command_id, c)]\<rparr>, Inr c))"

definition enqueue_command ::
  "time \<Rightarrow> string \<Rightarrow> string \<Rightarrow> string \<Rightarrow> args \<Rightarrow> string list \<Rightarrow> args \<Rightarrow> string
   \<Rightarrow> onguard \<Rightarrow> onguard \<times> (py_error + og_command)" where
  "enqueue_command now command_id cid command payload labels provenance created_by st =
     insert_command command_id (new_command now cid command payload labels provenance created_by) st"

text \<open>The two statements of \<open>_claim_command_sync\<close>.\<close>

definition queued_command :: "string \<Rightarrow> string option \<Rightarrow> onguard \<Rightarrow> string option" where
  "queued_command cid command_id st =
     (let rows = filter (\<lambda>(i, r). gm_client_id r = cid \<and> gm_status r = ''queued''
                   \<and> (command_id = None \<or> command_id = Some i)) (og_commands st)
      in case sort_key (gm_created_at \<circ> snd) rows of [] \<Rightarrow> None | (i, _) # _ \<Rightarrow> Some i)"

definition mark_claimed ::
  "time \<Rightarrow> time \<Rightarrow> string \<Rightarrow> string \<Rightarrow> onguard \<Rightarrow> onguard" where
  "mark_claimed now lease_until claimed_by command_id st =
     st\<lparr>og_commands := update_where command_id
          (\<lambda>r. r\<lparr>gm_status := ''claimed'', gm_claimed_by := Some claimed_by,
                 gm_lease_until := Some lease_until, gm_attempts := gm_attempts r + 1,
                 gm_updated_at := now\<rparr>) (og_commands st)\<rparr>"

definition claim_command ::
  "time \<Rightarrow> string \<Rightarrow> string \<Rightarrow> int \<Rightarrow> string option \<Rightarrow> onguard
   \<Rightarrow> onguard \<times> (py_error + (string \<times> og_command) option)" where
  "claim_command now cid claimed_by lease_seconds command_id st =
     (case plus_seconds now (max 1 lease_seconds) of
        Inl e \<Rightarrow> (st, Inl e)
      | Inr lease_until \<Rightarrow>
          (case queued_command cid command_id st of
             None \<Rightarrow> (st, Inr None)
           | Some i \<Rightarrow>
               (let st' = mark_claimed now lease_until claimed_by i st
                in (st', Inr (map_option (Pair i) (map_of (og_commands st') i))))))"

definition finish_command ::
  "time \<Rightarrow> string \<Rightarrow> string \<Rightarrow> args \<Rightarrow> string option \<Rightarrow> onguard \<Rightarrow> onguard \<times> (py_error + og_command)"
where
  "finish_command now command_id status result artifact_ref st =
     (let st' = st\<lparr>og_commands := update_where command_id
            (\<lambda>r. r\<lparr>gm_status := status, gm_result := Some (dict_sorted result),
                   gm_artifact_ref := artifact_ref, gm_updated_at := now\<rparr>) (og_commands st)\<rparr>
      in (st', case map_of (og_commands st') command_id of None \<Rightarrow> Inl KeyError | Some r \<Rightarrow> Inr r))"

definition complete_command ::
  "time \<Rightarrow> string \<Rightarrow> args \<Rightarrow> string option \<Rightarrow> onguard \<Rightarrow> onguard \<times> (py_error + og_command)" where
  "complete_command now command_id result artifact_ref st =
     finish_command now command_id ''completed'' result artifact_ref st"

definition fail_command ::
  "time \<Rightarrow> string \<Rightarrow> args \<Rightarrow> string option \<Rightarrow> onguard \<Rightarrow> onguard \<times> (py_error + og_command)" where
  "fail_command now command_id result artifact_ref st =
     finish_command now command_id ''failed'' result artifact_ref st"

definition list_commands :: "string option \<Rightarrow> string option \<Rightarrow> onguard \<Rightarrow> (string \<times> og_command) list" where
  "list_commands cid status st =
     sort_key (gm_created_at \<circ> snd)
       (filter (\<lambda>(_, r). wanted cid (gm_client_id r) \<and> wanted status (gm_status r)) (og_commands st))"

section \<open>Events\<close>

definition publish_event ::
  "time \<Rightarrow> string \<Rightarrow> string \<Rightarrow> string option \<Rightarrow> string option \<Rightarrow> string \<Rightarrow> args \<Rightarrow> string list
   \<Rightarrow> onguard \<Rightarrow> onguard \<times> (py_error + og_event)" where
  "publish_event now event_id cid command_id schedule_id event_type payload labels st =
     (let e = \<lparr>ge_client_id = cid, ge_command_id = command_id, ge_schedule_id = schedule_id,
               ge_event_type = event_type, ge_payload = dict_sorted payload, ge_labels = labels,
               ge_created_at = now\<rparr>
      in if map_of (og_events st) event_id \<noteq> None \<or> \<not> known_client st cid
         then (st, Inl DatabaseIntegrityError)
         else (st\<lparr>og_events := og_events st @ [(event_id, e)]\<rparr>, Inr e))"

definition with_ack :: "onguard \<Rightarrow> string \<times> og_event \<Rightarrow> string \<times> og_event \<times> (string \<times> time) option" where
  "with_ack st = (\<lambda>(i, e). (i, e, map_of (og_acks st) i))"

definition list_events ::
  "string option \<Rightarrow> int \<Rightarrow> onguard \<Rightarrow> (string \<times> og_event \<times> (string \<times> time) option) list" where
  "list_events cid limit st =
     map (with_ack st) (take (nat (max 1 (min limit 500)))
       (rev (sort_key (ge_created_at \<circ> snd)
          (filter (\<lambda>(_, e). wanted cid (ge_client_id e)) (og_events st)))))"

definition acknowledge_event ::
  "time \<Rightarrow> string \<Rightarrow> string \<Rightarrow> onguard
   \<Rightarrow> onguard \<times> (py_error + string \<times> og_event \<times> (string \<times> time) option)" where
  "acknowledge_event now event_id acknowledged_by st =
     (case map_of (og_events st) event_id of
        None \<Rightarrow> (st, Inl KeyError)
      | Some e \<Rightarrow>
          (let st' = st\<lparr>og_acks := AList.update event_id (acknowledged_by, now) (og_acks st)\<rparr>
           in (st', Inr (with_ack st' (event_id, e)))))"

section \<open>Artifacts\<close>

definition create_artifact ::
  "time \<Rightarrow> string \<Rightarrow> string \<Rightarrow> string option \<Rightarrow> string option \<Rightarrow> string option \<Rightarrow> string \<Rightarrow> args
   \<Rightarrow> string list \<Rightarrow> args \<Rightarrow> string \<Rightarrow> string \<Rightarrow> onguard \<Rightarrow> onguard \<times> (py_error + og_artifact)" where
  "create_artifact now artifact_id cid command_id schedule_id session_id artifact_type payload labels
       provenance status created_by st =
     (let a = \<lparr>ga_client_id = cid, ga_command_id = command_id, ga_schedule_id = schedule_id,
               ga_session_id = session_id, ga_artifact_type = artifact_type,
               ga_payload = dict_sorted payload, ga_labels = labels,
               ga_provenance = dict_sorted provenance, ga_status = status, ga_created_by = created_by,
               ga_promoted_by = None, ga_deleted_at = None, ga_created_at = now, ga_updated_at = now\<rparr>
      in if map_of (og_artifacts st) artifact_id \<noteq> None \<or> \<not> known_client st cid
         then (st, Inl DatabaseIntegrityError)
         else (st\<lparr>og_artifacts := og_artifacts st @ [(artifact_id, a)]\<rparr>, Inr a))"

definition read_artifact :: "string \<Rightarrow> onguard \<Rightarrow> py_error + og_artifact" where
  "read_artifact artifact_id st =
     (case map_of (og_artifacts st) artifact_id of
        None \<Rightarrow> Inl KeyError
      | Some a \<Rightarrow> if ga_deleted_at a = None then Inr a else Inl KeyError)"

definition list_artifacts :: "string option \<Rightarrow> string option \<Rightarrow> onguard \<Rightarrow> (string \<times> og_artifact) list" where
  "list_artifacts cid status st =
     rev (sort_key (ga_created_at \<circ> snd)
       (filter (\<lambda>(_, a). ga_deleted_at a = None \<and> wanted cid (ga_client_id a)
          \<and> wanted status (ga_status a)) (og_artifacts st)))"

definition promote_artifact ::
  "time \<Rightarrow> string \<Rightarrow> string \<Rightarrow> string \<Rightarrow> onguard \<Rightarrow> onguard \<times> (py_error + og_artifact)" where
  "promote_artifact now artifact_id promoted_by status st =
     (let st' = st\<lparr>og_artifacts := update_where artifact_id
            (\<lambda>a. if ga_deleted_at a = None
                 then a\<lparr>ga_status := status, ga_promoted_by := Some promoted_by, ga_updated_at := now\<rparr>
                 else a) (og_artifacts st)\<rparr>
      in (st', read_artifact artifact_id st'))"

definition delete_artifact ::
  "time \<Rightarrow> string \<Rightarrow> onguard \<Rightarrow> onguard \<times> (py_error + og_artifact)" where
  "delete_artifact now artifact_id st =
     (let st' = st\<lparr>og_artifacts := update_where artifact_id
            (\<lambda>a. if ga_deleted_at a = None
                 then a\<lparr>ga_status := ''deleted'', ga_deleted_at := Some now, ga_updated_at := now\<rparr>
                 else a) (og_artifacts st)\<rparr>
      in (st', case map_of (og_artifacts st') artifact_id of None \<Rightarrow> Inl KeyError | Some a \<Rightarrow> Inr a))"

section \<open>Schedules\<close>

text \<open>
  The caller's status, or \<open>active\<close> for an approved schedule and \<open>proposed\<close> for another. On an
  existing identifier the client and the creator stay.
\<close>

definition schedule_status :: "string option \<Rightarrow> string option \<Rightarrow> string" where
  "schedule_status status approved_by =
     (case status of
        None \<Rightarrow> if approved_by = None \<or> approved_by = Some [] then ''proposed'' else ''active''
      | Some s \<Rightarrow> if s \<noteq> [] then s
                  else if approved_by = None \<or> approved_by = Some [] then ''proposed'' else ''active'')"

definition create_schedule ::
  "(json \<Rightarrow> string) \<Rightarrow> time \<Rightarrow> string \<Rightarrow> string \<Rightarrow> args \<Rightarrow> string \<Rightarrow> args \<Rightarrow> string list \<Rightarrow> string
   \<Rightarrow> string option \<Rightarrow> time option \<Rightarrow> string option \<Rightarrow> onguard \<Rightarrow> onguard \<times> (py_error + unit)" where
  "create_schedule text_of now schedule_id cid recurrence command payload labels created_by approved_by
       next_at status st =
     (let status' = schedule_status status approved_by;
          effective = (if next_at = None \<and> status' = ''active'' then next_run_at text_of recurrence now
                       else Inr next_at)
      in case effective of
           Inl e \<Rightarrow> (st, Inl e)
         | Inr next' \<Rightarrow>
             (case map_of (og_schedules st) schedule_id of
                Some r \<Rightarrow>
                  (st\<lparr>og_schedules := AList.update schedule_id
                        (r\<lparr>gs_recurrence := dict_sorted recurrence, gs_command := command,
                           gs_payload := dict_sorted payload, gs_labels := labels, gs_status := status',
                           gs_approved_by := approved_by, gs_next_run_at := next', gs_updated_at := now\<rparr>)
                        (og_schedules st)\<rparr>, Inr ())
              | None \<Rightarrow>
                  if \<not> known_client st cid then (st, Inl DatabaseIntegrityError)
                  else (st\<lparr>og_schedules := AList.update schedule_id
                             \<lparr>gs_client_id = cid, gs_recurrence = dict_sorted recurrence,
                              gs_command = command, gs_payload = dict_sorted payload,
                              gs_labels = labels, gs_status = status', gs_created_by = created_by,
                              gs_approved_by = approved_by, gs_last_run_at = None,
                              gs_next_run_at = next', gs_created_at = now, gs_updated_at = now\<rparr>
                             (og_schedules st)\<rparr>, Inr ())))"

definition given_or :: "'a option \<Rightarrow> 'a \<Rightarrow> 'a" where
  "given_or v d = (case v of None \<Rightarrow> d | Some x \<Rightarrow> x)"

definition update_schedule ::
  "(json \<Rightarrow> string) \<Rightarrow> time \<Rightarrow> time \<Rightarrow> string \<Rightarrow> args option \<Rightarrow> args option \<Rightarrow> string list option
   \<Rightarrow> string option \<Rightarrow> time option \<Rightarrow> onguard \<Rightarrow> onguard \<times> (py_error + og_schedule)" where
  "update_schedule text_of now later schedule_id recurrence payload labels status next_at st =
     (let effective =
            (case next_at of
               Some t \<Rightarrow> Inr (Some (Some t))
             | None \<Rightarrow>
                 (case recurrence of
                    None \<Rightarrow> Inr None
                  | Some rc \<Rightarrow>
                      if status = Some ''active''
                      then (case next_run_at text_of rc now of Inl e \<Rightarrow> Inl e | Inr t \<Rightarrow> Inr (Some t))
                      else Inr None))
      in case effective of
           Inl e \<Rightarrow> (st, Inl e)
         | Inr next' \<Rightarrow>
             (let st' = st\<lparr>og_schedules := update_where schedule_id
                    (\<lambda>r. r\<lparr>gs_recurrence := given_or (map_option dict_sorted recurrence) (gs_recurrence r),
                           gs_payload := given_or (map_option dict_sorted payload) (gs_payload r),
                           gs_labels := given_or labels (gs_labels r),
                           gs_status := given_or status (gs_status r),
                           gs_next_run_at := given_or next' (gs_next_run_at r),
                           gs_updated_at := later\<rparr>) (og_schedules st)\<rparr>
              in (st', case map_of (og_schedules st') schedule_id of
                         None \<Rightarrow> Inl KeyError | Some r \<Rightarrow> Inr r)))"

definition disable_schedule ::
  "(json \<Rightarrow> string) \<Rightarrow> time \<Rightarrow> time \<Rightarrow> string \<Rightarrow> onguard \<Rightarrow> onguard \<times> (py_error + og_schedule)" where
  "disable_schedule text_of now later schedule_id st =
     update_schedule text_of now later schedule_id None None None (Some ''disabled'') None st"

definition run_schedule_now ::
  "time \<Rightarrow> string \<Rightarrow> string \<Rightarrow> string \<Rightarrow> onguard \<Rightarrow> onguard \<times> (py_error + og_command)" where
  "run_schedule_now now schedule_id created_by command_id st =
     (case map_of (og_schedules st) schedule_id of
        None \<Rightarrow> (st, Inl KeyError)
      | Some s \<Rightarrow>
          if gs_status s \<noteq> ''active'' then (st, Inl RuntimeFault)
          else insert_command command_id
                 (new_command now (gs_client_id s) (gs_command s) (gs_payload s) (gs_labels s)
                    [(''source'', JStr (''schedule:'' @ schedule_id)), (''run_now'', JBool True)]
                    created_by) st)"

definition given_or_zero :: "time option \<Rightarrow> time" where
  "given_or_zero v = given_or v 0"

text \<open>The statements of \<open>_claim_due_schedule_sync\<close>: the earliest due schedule, a live run, the insert.\<close>

definition due_schedule :: "string \<Rightarrow> time \<Rightarrow> onguard \<Rightarrow> (string \<times> og_schedule) option" where
  "due_schedule cid now st =
     (let due = filter (\<lambda>(_, s). gs_client_id s = cid \<and> gs_status s = ''active''
                  \<and> (case gs_next_run_at s of None \<Rightarrow> False | Some t \<Rightarrow> t \<le> now)) (og_schedules st)
      in case sort_key (given_or_zero \<circ> gs_next_run_at \<circ> snd) due of [] \<Rightarrow> None | x # _ \<Rightarrow> Some x)"

definition live_run :: "time \<Rightarrow> og_run \<Rightarrow> bool" where
  "live_run now r \<longleftrightarrow> gr_status r = ''claimed''
     \<and> (case gr_lease_until r of None \<Rightarrow> False | Some t \<Rightarrow> now < t)"

definition has_live_run :: "string \<Rightarrow> time \<Rightarrow> onguard \<Rightarrow> bool" where
  "has_live_run schedule_id now st \<longleftrightarrow>
     list_ex (\<lambda>(_, r). gr_schedule_id r = schedule_id \<and> live_run now r) (og_runs st)"

definition insert_run :: "time \<Rightarrow> time \<Rightarrow> string \<Rightarrow> string \<Rightarrow> string \<times> og_schedule \<Rightarrow> onguard
   \<Rightarrow> onguard \<times> (py_error + og_run)" where
  "insert_run now lease_until claimed_by run_id s st =
     (let r = \<lparr>gr_schedule_id = fst s, gr_client_id = gs_client_id (snd s), gr_command_id = None,
               gr_status = ''claimed'', gr_claimed_by = Some claimed_by,
               gr_lease_until = Some lease_until,
               gr_run_after = given_or_zero (gs_next_run_at (snd s)),
               gr_started_at = Some now, gr_finished_at = None, gr_result = None,
               gr_artifact_ref = None, gr_error = None, gr_created_at = now, gr_updated_at = now\<rparr>
      in if map_of (og_runs st) run_id \<noteq> None then (st, Inl DatabaseIntegrityError)
         else (st\<lparr>og_runs := og_runs st @ [(run_id, r)]\<rparr>, Inr r))"

definition claim_due_schedule ::
  "time \<Rightarrow> string \<Rightarrow> string \<Rightarrow> string \<Rightarrow> int \<Rightarrow> onguard \<Rightarrow> onguard \<times> (py_error + og_run option)" where
  "claim_due_schedule now run_id cid claimed_by lease_seconds st =
     (case plus_seconds now (max 1 lease_seconds) of
        Inl e \<Rightarrow> (st, Inl e)
      | Inr lease_until \<Rightarrow>
          (case due_schedule cid now st of
             None \<Rightarrow> (st, Inr None)
           | Some s \<Rightarrow>
               if has_live_run (fst s) now st then (st, Inr None)
               else (case insert_run now lease_until claimed_by run_id s st of
                       (st', Inl e) \<Rightarrow> (st', Inl e) | (st', Inr r) \<Rightarrow> (st', Inr (Some r)))))"

text \<open>
  \<open>_finish_schedule_run_sync\<close>: the run, then the schedule; a recurrence that cannot be read raises
  between the two.
\<close>

definition finish_schedule_run ::
  "(json \<Rightarrow> string) \<Rightarrow> time \<Rightarrow> time \<Rightarrow> string \<Rightarrow> string \<Rightarrow> args \<Rightarrow> string option \<Rightarrow> string option
   \<Rightarrow> string option \<Rightarrow> time option \<Rightarrow> onguard \<Rightarrow> onguard \<times> (py_error + og_run)" where
  "finish_schedule_run text_of now later run_id status result artifact_ref command_id err next_at st =
     (let st1 = st\<lparr>og_runs := update_where run_id
            (\<lambda>r. r\<lparr>gr_status := status, gr_result := Some (dict_sorted result),
                   gr_artifact_ref := artifact_ref, gr_command_id := command_id, gr_error := err,
                   gr_finished_at := Some now, gr_updated_at := now\<rparr>) (og_runs st)\<rparr>
      in case map_of (og_runs st1) run_id of
           None \<Rightarrow> (st1, Inl KeyError)
         | Some r \<Rightarrow>
             (let effective =
                    (if next_at \<noteq> None then Inr next_at
                     else case map_of (og_schedules st1) (gr_schedule_id r) of
                            None \<Rightarrow> Inr None
                          | Some s \<Rightarrow> next_run_at text_of (gs_recurrence s) later)
              in case effective of
                   Inl e \<Rightarrow> (st1, Inl e)
                 | Inr next' \<Rightarrow>
                     (st1\<lparr>og_schedules := update_where (gr_schedule_id r)
                            (\<lambda>s. s\<lparr>gs_last_run_at := Some now,
                                   gs_next_run_at := (if next' \<noteq> None then next' else gs_next_run_at s),
                                   gs_updated_at := now\<rparr>) (og_schedules st1)\<rparr>, Inr r)))"

definition complete_schedule_run ::
  "(json \<Rightarrow> string) \<Rightarrow> time \<Rightarrow> time \<Rightarrow> string \<Rightarrow> args \<Rightarrow> string option \<Rightarrow> string option \<Rightarrow> time option
   \<Rightarrow> onguard \<Rightarrow> onguard \<times> (py_error + og_run)" where
  "complete_schedule_run text_of now later run_id result artifact_ref command_id next_at st =
     finish_schedule_run text_of now later run_id ''completed'' result artifact_ref command_id None next_at st"

definition fail_schedule_run ::
  "(json \<Rightarrow> string) \<Rightarrow> time \<Rightarrow> time \<Rightarrow> string \<Rightarrow> args \<Rightarrow> string \<Rightarrow> string option \<Rightarrow> string option
   \<Rightarrow> time option \<Rightarrow> onguard \<Rightarrow> onguard \<times> (py_error + og_run)" where
  "fail_schedule_run text_of now later run_id result err artifact_ref command_id next_at st =
     finish_schedule_run text_of now later run_id ''failed'' result artifact_ref command_id (Some err) next_at st"

definition schedule_history ::
  "string option \<Rightarrow> string option \<Rightarrow> int \<Rightarrow> onguard \<Rightarrow> (string \<times> og_run) list" where
  "schedule_history schedule_id cid limit st =
     take (nat (max 1 (min limit 500)))
       (rev (sort_key (gr_created_at \<circ> snd)
          (filter (\<lambda>(_, r). wanted schedule_id (gr_schedule_id r) \<and> wanted cid (gr_client_id r))
            (og_runs st))))"

definition list_schedules :: "string option \<Rightarrow> string option \<Rightarrow> onguard \<Rightarrow> (string \<times> og_schedule) list" where
  "list_schedules cid status st =
     sort_key fst
       (filter (\<lambda>(_, s). wanted cid (gs_client_id s) \<and> wanted status (gs_status s)) (og_schedules st))"

end
