(* ===== verification/OnguardProps.thy ===== *)
theory OnguardProps
  imports Onguard
begin

text \<open>
  What the store of the onguard clients guarantees when its methods do not overlap, and what it does
  not: the claims are two statements, and a lease is written but never read for commands.
\<close>

section \<open>Updates of a table\<close>

lemma map_of_update_where [simp]:
  "map_of (update_where k f t) i = (if i = k then map_option f (map_of t k) else map_of t i)"
  by (simp add: update_where_def update_conv' split: option.split)

lemma distinct_update_where [simp]:
  "distinct (map fst (update_where k f t)) \<longleftrightarrow> distinct (map fst t)"
proof (cases "map_of t k")
  case (Some r)
  then have "k \<in> set (map fst t)" by (metis map_of_SomeD image_eqI fst_conv set_map)
  then have "map fst (AList.update k (f r) t) = map fst t" by (simp add: update_keys)
  then show ?thesis using Some by (simp add: update_where_def)
qed (simp add: update_where_def)

lemma in_update_where:
  "distinct (map fst t) \<Longrightarrow> (i, r) \<in> set (update_where k f t)
   \<longleftrightarrow> (if i = k then (\<exists>r0. (k, r0) \<in> set t \<and> r = f r0) else (i, r) \<in> set t)"
  using Some_eq_map_of_iff [of "update_where k f t" r i] Some_eq_map_of_iff [of t]
  by (auto simp: eq_commute [of "Some _"])

lemma map_of_append_fresh:
  "map_of t k = None \<Longrightarrow> map_of (t @ [(k, r)]) = (map_of t)(k \<mapsto> r)"
  by (auto simp: map_add_def fun_eq_iff split: option.splits)

lemma distinct_append_fresh:
  "map_of t k = None \<Longrightarrow> distinct (map fst (t @ [(k, r)])) \<longleftrightarrow> distinct (map fst t)"
  by (auto simp: map_of_eq_None_iff)

section \<open>Whole calls\<close>

text \<open>
  One call of a method, at a reading of the clock, with no statement of another call between its own:
  each method runs its statements in a thread, every one committed by itself, and nothing in the
  store keeps two calls from overlapping. What overlapping claims do is shown apart, from the
  statements of the claims (\<open>overlapping_claims_share_command\<close>, \<open>overlapping_claims_start_two_runs\<close>).
\<close>

inductive og_call :: "(json \<Rightarrow> string) \<Rightarrow> time \<Rightarrow> onguard \<Rightarrow> onguard \<Rightarrow> bool" for text_of now where
  c_register: "og_call text_of now st (register_client now cid k ow v al md s st)"
| c_propose: "og_call text_of now st (fst (propose_config now f cid sc p ls by' s st))"
| c_approve: "og_call text_of now st (fst (approve_config now f by' st))"
| c_enqueue: "og_call text_of now st (fst (enqueue_command now i cid c p ls pr by' st))"
| c_claim: "og_call text_of now st (fst (claim_command now cid by' lease i' st))"
| c_complete: "og_call text_of now st (fst (complete_command now i res ar st))"
| c_fail: "og_call text_of now st (fst (fail_command now i res ar st))"
| c_publish: "og_call text_of now st (fst (publish_event now e cid ci si ty p ls st))"
| c_ack: "og_call text_of now st (fst (acknowledge_event now e by' st))"
| c_artifact: "og_call text_of now st (fst (create_artifact now a cid ci si se ty p ls pr s by' st))"
| c_promote: "og_call text_of now st (fst (promote_artifact now a by' s st))"
| c_delete: "og_call text_of now st (fst (delete_artifact now a st))"
| c_schedule: "og_call text_of now st (fst (create_schedule text_of now si cid rc c p ls by' ap nx s st))"
| c_reschedule: "og_call text_of now st (fst (update_schedule text_of now later si rc' p' ls' s nx st))"
| c_run_now: "og_call text_of now st (fst (run_schedule_now now si by' i st))"
| c_claim_due: "og_call text_of now st (fst (claim_due_schedule now r cid by' lease st))"
| c_done: "og_call text_of now st (fst (complete_schedule_run text_of now later r res ar ci nx st))"
| c_failed: "og_call text_of now st (fst (fail_schedule_run text_of now later r res er ar ci nx st))"

text \<open>Any number of calls, one after the other, under a clock that does not go back.\<close>

inductive og_calls :: "(json \<Rightarrow> string) \<Rightarrow> time \<Rightarrow> onguard \<Rightarrow> time \<Rightarrow> onguard \<Rightarrow> bool" for text_of where
  calls_none: "og_calls text_of c st c st"
| calls_one: "og_calls text_of c st c' st' \<Longrightarrow> c' \<le> now \<Longrightarrow> og_call text_of now st' st''
    \<Longrightarrow> og_calls text_of c st now st''"

lemmas command_defs = insert_command_def enqueue_command_def new_command_def mark_claimed_def
  claim_command_def finish_command_def complete_command_def fail_command_def run_schedule_now_def

lemmas table_defs = register_client_def propose_config_def approve_config_def publish_event_def
  acknowledge_event_def create_artifact_def promote_artifact_def delete_artifact_def
  create_schedule_def update_schedule_def claim_due_schedule_def insert_run_def
  finish_schedule_run_def complete_schedule_run_def fail_schedule_run_def

text \<open>What a call does to a table: the rows of a command, a run, an artifact.\<close>

definition commands_to :: "onguard \<Rightarrow> onguard \<Rightarrow> bool" where
  "commands_to st st' \<longleftrightarrow>
     og_commands st' = og_commands st
     \<or> (\<exists>i c. map_of (og_commands st) i = None \<and> og_commands st' = og_commands st @ [(i, c)])
     \<or> (\<exists>i f. og_commands st' = update_where i f (og_commands st) \<and> (\<forall>r. gm_status (f r) \<noteq> ''queued''))"

definition artifacts_to :: "onguard \<Rightarrow> onguard \<Rightarrow> bool" where
  "artifacts_to st st' \<longleftrightarrow>
     og_artifacts st' = og_artifacts st
     \<or> (\<exists>i a. map_of (og_artifacts st) i = None \<and> og_artifacts st' = og_artifacts st @ [(i, a)])
     \<or> (\<exists>i f. og_artifacts st' = update_where i f (og_artifacts st)
          \<and> (\<forall>a. ga_deleted_at a \<noteq> None \<longrightarrow> f a = a))"

definition runs_to :: "time \<Rightarrow> onguard \<Rightarrow> onguard \<Rightarrow> bool" where
  "runs_to now st st' \<longleftrightarrow>
     og_runs st' = og_runs st
     \<or> (\<exists>i r. map_of (og_runs st) i = None \<and> og_runs st' = og_runs st @ [(i, r)]
          \<and> \<not> has_live_run (gr_schedule_id r) now st)
     \<or> (\<exists>i f. og_runs st' = update_where i f (og_runs st)
          \<and> (\<forall>r. gr_status (f r) \<noteq> ''claimed'' \<and> gr_schedule_id (f r) = gr_schedule_id r))"

lemma commands_to_same: "og_commands st' = og_commands st \<Longrightarrow> commands_to st st'"
  by (simp add: commands_to_def)

lemma artifacts_to_same: "og_artifacts st' = og_artifacts st \<Longrightarrow> artifacts_to st st'"
  by (simp add: artifacts_to_def)

lemma runs_to_same: "og_runs st' = og_runs st \<Longrightarrow> runs_to now st st'"
  by (simp add: runs_to_def)

lemma insert_command_to: "commands_to st (fst (insert_command i c st))"
  by (auto simp: insert_command_def commands_to_def)

lemma update_command_to:
  assumes "\<And>r. gm_status (f r) \<noteq> ''queued''"
  shows "commands_to st (st\<lparr>og_commands := update_where i f (og_commands st)\<rparr>)"
  unfolding commands_to_def using assms by (intro disjI2 exI [of _ i] exI [of _ f]) simp

lemma claim_command_to: "commands_to st (fst (claim_command now cid by' lease i' st))"
  by (auto simp: claim_command_def Let_def mark_claimed_def commands_to_same
      intro: update_command_to split: sum.split option.split)

lemma finish_command_to:
  "s \<noteq> ''queued'' \<Longrightarrow> commands_to st (fst (finish_command now i s res ar st))"
  by (simp add: finish_command_def Let_def update_command_to)

lemma run_schedule_now_to: "commands_to st (fst (run_schedule_now now si by' i st))"
  by (auto simp: run_schedule_now_def commands_to_same insert_command_to split: option.split)

lemma call_commands: "og_call text_of now st st' \<Longrightarrow> commands_to st st'"
proof (induction rule: og_call.induct)
  case c_enqueue
  then show ?case by (simp add: enqueue_command_def insert_command_to)
next
  case c_claim
  then show ?case by (rule claim_command_to)
next
  case c_complete
  then show ?case by (simp add: complete_command_def finish_command_to)
next
  case c_fail
  then show ?case by (simp add: fail_command_def finish_command_to)
next
  case c_run_now
  then show ?case by (rule run_schedule_now_to)
qed (auto simp: table_defs Let_def intro!: commands_to_same split: option.split sum.split)

lemma update_artifact_to:
  assumes "\<And>a. ga_deleted_at a \<noteq> None \<Longrightarrow> f a = a"
  shows "artifacts_to st (st\<lparr>og_artifacts := update_where i f (og_artifacts st)\<rparr>)"
  unfolding artifacts_to_def using assms by (intro disjI2 exI [of _ i] exI [of _ f]) simp

lemma create_artifact_to:
  "artifacts_to st (fst (create_artifact now a cid ci si se ty p ls pr s by' st))"
  by (auto simp: create_artifact_def Let_def artifacts_to_def)

lemma call_artifacts: "og_call text_of now st st' \<Longrightarrow> artifacts_to st st'"
proof (induction rule: og_call.induct)
  case c_artifact
  then show ?case by (rule create_artifact_to)
next
  case c_promote
  then show ?case by (simp add: promote_artifact_def Let_def update_artifact_to)
next
  case c_delete
  then show ?case by (simp add: delete_artifact_def Let_def update_artifact_to)
qed (auto simp: table_defs command_defs Let_def intro!: artifacts_to_same split: option.split sum.split)

lemma update_run_to:
  assumes "og_runs st' = update_where i f (og_runs st)"
    and "\<And>r. gr_status (f r) \<noteq> ''claimed'' \<and> gr_schedule_id (f r) = gr_schedule_id r"
  shows "runs_to now st st'"
  unfolding runs_to_def using assms by blast

lemma finish_schedule_run_to:
  assumes "s \<noteq> ''claimed''"
  shows "runs_to now st (fst (finish_schedule_run text_of now later r s res ar ci er nx st))"
proof -
  let ?f = "\<lambda>r. r\<lparr>gr_status := s, gr_result := Some (dict_sorted res), gr_artifact_ref := ar,
    gr_command_id := ci, gr_error := er, gr_finished_at := Some now, gr_updated_at := now\<rparr>"
  have "og_runs (fst (finish_schedule_run text_of now later r s res ar ci er nx st))
      = update_where r ?f (og_runs st)"
    by (simp add: finish_schedule_run_def Let_def split: option.split sum.split)
  then show ?thesis by (rule update_run_to) (simp add: assms)
qed

lemma claim_due_schedule_to: "runs_to now st (fst (claim_due_schedule now r cid by' lease st))"
  by (auto simp: claim_due_schedule_def insert_run_def Let_def runs_to_def split: option.split sum.split)

lemma call_runs: "og_call text_of now st st' \<Longrightarrow> runs_to now st st'"
proof (induction rule: og_call.induct)
  case c_claim_due
  then show ?case by (rule claim_due_schedule_to)
next
  case c_done
  then show ?case by (simp add: complete_schedule_run_def finish_schedule_run_to)
next
  case c_failed
  then show ?case by (simp add: fail_schedule_run_def finish_schedule_run_to)
qed (auto simp: table_defs command_defs Let_def intro!: runs_to_same split: option.split sum.split)

section \<open>Commands\<close>

definition keys_ok :: "onguard \<Rightarrow> bool" where
  "keys_ok st \<longleftrightarrow> distinct (map fst (og_commands st)) \<and> distinct (map fst (og_artifacts st))
     \<and> distinct (map fst (og_runs st))"

lemma call_keys_ok:
  assumes call: "og_call text_of now st st'" and ok: "keys_ok st"
  shows "keys_ok st'"
proof -
  have "distinct (map fst (og_commands st'))"
    using call_commands [OF call] ok unfolding commands_to_def keys_ok_def
    by (auto simp: distinct_append_fresh simp del: map_append)
  moreover have "distinct (map fst (og_artifacts st'))"
    using call_artifacts [OF call] ok unfolding artifacts_to_def keys_ok_def
    by (auto simp: distinct_append_fresh simp del: map_append)
  moreover have "distinct (map fst (og_runs st'))"
    using call_runs [OF call] ok unfolding runs_to_def keys_ok_def
    by (auto simp: distinct_append_fresh simp del: map_append)
  ultimately show ?thesis by (simp add: keys_ok_def)
qed

lemma calls_keys_ok: "og_calls text_of c st c' st' \<Longrightarrow> keys_ok st \<Longrightarrow> keys_ok st'"
  by (induction rule: og_calls.induct) (auto intro: call_keys_ok)

text \<open>A command that left the queue stays out of it.\<close>

definition dequeued :: "string \<Rightarrow> onguard \<Rightarrow> bool" where
  "dequeued i st \<longleftrightarrow> (\<exists>r. map_of (og_commands st) i = Some r \<and> gm_status r \<noteq> ''queued'')"

lemma call_dequeued: "og_call text_of now st st' \<Longrightarrow> dequeued i st \<Longrightarrow> dequeued i st'"
  using call_commands [of text_of now st st'] unfolding commands_to_def dequeued_def
  by (elim disjE exE conjE) (auto simp: map_of_append_fresh)

lemma calls_dequeued: "og_calls text_of c st c' st' \<Longrightarrow> dequeued i st \<Longrightarrow> dequeued i st'"
  by (induction rule: og_calls.induct) (auto intro: call_dequeued)

lemma head_of_sorted:
  assumes "(case sort_key f xs of [] \<Rightarrow> None | (i, _) # _ \<Rightarrow> Some i) = Some j"
  shows "\<exists>r. (j, r) \<in> set xs"
proof (cases "sort_key f xs")
  case Nil
  then show ?thesis using assms by simp
next
  case (Cons x rest)
  have "set (sort_key f xs) = set xs" by simp
  then have "x \<in> set xs" unfolding Cons by auto
  moreover have "fst x = j" using assms unfolding Cons by (simp add: split_beta)
  ultimately show ?thesis by (metis prod.collapse)
qed

lemma queued_command_row:
  assumes "queued_command cid i' st = Some i" and "keys_ok st"
  shows "\<exists>r. map_of (og_commands st) i = Some r \<and> gm_status r = ''queued'' \<and> (i' = None \<or> i' = Some i)"
proof -
  obtain r where r: "(i, r) \<in> set (og_commands st)" "gm_status r = ''queued''" "i' = None \<or> i' = Some i"
    using head_of_sorted [OF assms(1) [unfolded queued_command_def Let_def]] by auto
  then have "map_of (og_commands st) i = Some r" using assms(2) by (simp add: keys_ok_def)
  with r show ?thesis by blast
qed

lemma claim_command_cases:
  assumes "claim_command now cid by' lease i' st = (st', Inr (Some (i, r)))" and "keys_ok st"
  shows "(\<exists>r0. map_of (og_commands st) i = Some r0 \<and> gm_status r0 = ''queued'') \<and> dequeued i st'"
proof -
  obtain t where t: "queued_command cid i' st = Some i" "st' = mark_claimed now t by' i st"
    using assms(1) by (auto simp: claim_command_def Let_def split: sum.splits option.splits)
  from queued_command_row [OF t(1) assms(2)] show ?thesis
    using t(2) by (auto simp: dequeued_def mark_claimed_def)
qed

text \<open>
  C19: No queued command is handed out twice. When calls of the store do not overlap, the command a
  claim returns is never returned by a later claim, whatever is called in between by whatever
  client: other claims, completions, failures, and new commands under any identifier.
\<close>

theorem command_handed_out_once:
  assumes "og_calls text_of c empty_onguard c1 st1"
    and "claim_command now cid by' lease i' st1 = (st2, Inr (Some (i, r)))" and "c1 \<le> now"
    and "og_calls text_of now st2 c3 st3"
    and "claim_command now3 cid3 by3 lease3 i3 st3 = (st4, Inr (Some (j, r')))"
  shows "i \<noteq> j"
proof -
  have k1: "keys_ok st1"
    by (rule calls_keys_ok [OF assms(1)]) (simp add: keys_ok_def empty_onguard_def)
  have "og_call text_of now st1 st2" using c_claim [of text_of now st1 cid by' lease i'] assms(2) by simp
  then have k2: "keys_ok st2" using call_keys_ok k1 by blast
  have k3: "keys_ok st3" by (rule calls_keys_ok [OF assms(4) k2])
  have "dequeued i st2" using claim_command_cases [OF assms(2) k1] by blast
  then have "dequeued i st3" by (rule calls_dequeued [OF assms(4)])
  then show ?thesis using claim_command_cases [OF assms(5) k3] by (auto simp: dequeued_def)
qed

definition one_client :: onguard where
  "one_client = register_client 1 ''bot'' ''mail'' None None [] [] ''active'' empty_onguard"

definition two_commands :: onguard where
  "two_commands = fst (enqueue_command 3 ''b'' ''bot'' ''sync'' [] [] [] ''op''
     (fst (enqueue_command 2 ''a'' ''bot'' ''sync'' [] [] [] ''op'' one_client)))"

lemma two_commands_calls: "og_calls text_of 0 empty_onguard 3 two_commands"
proof -
  have "og_calls text_of 0 empty_onguard 1 one_client"
    unfolding one_client_def by (rule calls_one [OF calls_none _ c_register]) simp
  then have "og_calls text_of 0 empty_onguard 2
      (fst (enqueue_command 2 ''a'' ''bot'' ''sync'' [] [] [] ''op'' one_client))"
    by (rule calls_one [OF _ _ c_enqueue]) simp
  then show ?thesis unfolding two_commands_def by (rule calls_one [OF _ _ c_enqueue]) simp
qed

theorem command_handed_out_once_witness:
  "\<exists>st i r st' j r'. claim_command 4 ''bot'' ''w1'' 60 None two_commands = (st, Inr (Some (i, r)))
     \<and> claim_command 5 ''bot'' ''w2'' 60 None st = (st', Inr (Some (j, r'))) \<and> i \<noteq> j"
proof -
  have a: "\<exists>st r. claim_command 4 ''bot'' ''w1'' 60 None two_commands = (st, Inr (Some (''a'', r)))
     \<and> (\<exists>st' r'. claim_command 5 ''bot'' ''w2'' 60 None st = (st', Inr (Some (''b'', r'))))"
    by (simp add: claim_command_def two_commands_def one_client_def command_defs queued_command_def
        plus_seconds_def MAX_TIME_def Let_def register_client_def empty_onguard_def known_client_def
        update_where_def)
  then obtain st r st' r' where c: "claim_command 4 ''bot'' ''w1'' 60 None two_commands = (st, Inr (Some (''a'', r)))"
    "claim_command 5 ''bot'' ''w2'' 60 None st = (st', Inr (Some (''b'', r')))" by blast
  have "''a'' \<noteq> ''b''"
    by (rule command_handed_out_once [OF two_commands_calls c(1) _ calls_none c(2)]) simp
  with c show ?thesis by blast
qed

text \<open>
  Calls do overlap: each claim selects and then updates, in two transactions. Two workers that both
  select before either updates are given the same command, and both updates succeed.
\<close>

lemma overlapping_claims_share_command:
  assumes "map_of (og_commands st) i = Some r"
  shows "map_option gm_claimed_by (map_of (og_commands (mark_claimed n1 l1 a i st)) i) = Some (Some a)
    \<and> map_option (\<lambda>r. (gm_claimed_by r, gm_attempts r))
        (map_of (og_commands (mark_claimed n2 l2 b i (mark_claimed n1 l1 a i st))) i)
      = Some (Some b, gm_attempts r + 2)"
  using assms by (simp add: mark_claimed_def)

text \<open>The lease of a command is not looked at: a command whose worker died is never handed out again.\<close>

lemma expired_lease_not_reclaimed:
  assumes "keys_ok st" and "map_of (og_commands st) i = Some r" and "gm_status r = ''claimed''"
  shows "queued_command cid (Some i) st = None"
proof (cases "queued_command cid (Some i) st")
  case (Some j)
  then show ?thesis using queued_command_row [OF Some assms(1)] assms(2,3) by auto
qed

section \<open>Runs of a schedule\<close>

definition one_live :: "time \<Rightarrow> onguard \<Rightarrow> bool" where
  "one_live c st \<longleftrightarrow>
     (\<forall>(i, r) \<in> set (og_runs st). \<forall>(j, r') \<in> set (og_runs st).
        gr_schedule_id r = gr_schedule_id r' \<and> live_run c r \<and> live_run c r' \<longrightarrow> i = j)"

lemma live_run_antimono: "live_run now r \<Longrightarrow> c \<le> now \<Longrightarrow> live_run c r"
  by (auto simp: live_run_def split: option.splits)

lemma one_live_later:
  assumes "one_live c st" and "c \<le> now"
  shows "one_live now st"
  unfolding one_live_def
proof clarify
  fix i r j r'
  assume "(i, r) \<in> set (og_runs st)" "(j, r') \<in> set (og_runs st)"
    "gr_schedule_id r = gr_schedule_id r'" "live_run now r" "live_run now r'"
  then show "i = j"
    using assms(1) live_run_antimono [OF _ assms(2)] unfolding one_live_def by blast
qed

lemma call_one_live:
  assumes call: "og_call text_of now st st'" and ok: "one_live now st" and keys: "keys_ok st"
  shows "one_live now st'"
proof -
  have dist: "distinct (map fst (og_runs st))" using keys by (simp add: keys_ok_def)
  consider (same) "og_runs st' = og_runs st"
    | (new) i r where "og_runs st' = og_runs st @ [(i, r)]" "\<not> has_live_run (gr_schedule_id r) now st"
    | (upd) i f where "og_runs st' = update_where i f (og_runs st)"
        "\<And>r. gr_status (f r) \<noteq> ''claimed''"
    using call_runs [OF call] unfolding runs_to_def by blast
  then show ?thesis
  proof cases
    case same
    then show ?thesis using ok by (simp add: one_live_def)
  next
    case new
    have none: "\<not> live_run now r'" if "(j, r') \<in> set (og_runs st)" "gr_schedule_id r' = gr_schedule_id r"
      for j r' using new(2) that by (auto simp: has_live_run_def list_ex_iff)
    then show ?thesis using ok new(1) unfolding one_live_def by fastforce
  next
    case upd
    have old: "(j, r) \<in> set (og_runs st)" if "(j, r) \<in> set (og_runs st')" "live_run now r" for j r
    proof -
      have "j \<noteq> i"
        using that upd dist by (auto simp: in_update_where live_run_def)
      then show ?thesis using that(1) upd(1) dist by (simp add: in_update_where)
    qed
    show ?thesis unfolding one_live_def
    proof clarify
      fix j r k r'
      assume "(j, r) \<in> set (og_runs st')" "(k, r') \<in> set (og_runs st')"
        "gr_schedule_id r = gr_schedule_id r'" "live_run now r" "live_run now r'"
      then show "j = k" using ok old unfolding one_live_def by blast
    qed
  qed
qed

lemma calls_one_live:
  "og_calls text_of c st c' st' \<Longrightarrow> one_live c st \<Longrightarrow> keys_ok st \<Longrightarrow> one_live c' st' \<and> keys_ok st'"
  by (induction rule: og_calls.induct) (auto intro: call_one_live one_live_later call_keys_ok)

text \<open>
  C20: A schedule is run by one worker at a time. Over any sequence of calls of the store that do not
  overlap, under a clock that does not go back, a schedule never has two claimed runs whose leases
  last. (Two claims that overlap start two.)
\<close>

theorem one_live_run_per_schedule:
  assumes "og_calls text_of c empty_onguard now st"
    and "(i, r) \<in> set (og_runs st)" and "(j, r') \<in> set (og_runs st)"
    and "gr_schedule_id r = gr_schedule_id r'" and "live_run now r" and "live_run now r'"
  shows "i = j"
proof -
  have "one_live now st"
    using calls_one_live [OF assms(1)] by (simp add: one_live_def keys_ok_def empty_onguard_def)
  then show ?thesis using assms(2-6) unfolding one_live_def by blast
qed

definition daily_report :: onguard where
  "daily_report = fst (create_schedule (\<lambda>_. []) 2 ''d'' ''bot'' [(''kind'', JStr ''manual'')] ''report'' []
     [] ''op'' (Some ''op'') (Some 2) None one_client)"

definition report_claimed :: onguard where
  "report_claimed = fst (claim_due_schedule 5 ''r1'' ''bot'' ''w1'' 60 daily_report)"

lemma daily_report_calls: "og_calls (\<lambda>_. []) 0 empty_onguard 2 daily_report"
proof -
  have "og_calls (\<lambda>_. []) 0 empty_onguard 1 one_client"
    unfolding one_client_def by (rule calls_one [OF calls_none _ c_register]) simp
  then show ?thesis unfolding daily_report_def by (rule calls_one [OF _ _ c_schedule]) simp
qed

lemma report_claimed_calls: "og_calls (\<lambda>_. []) 0 empty_onguard 5 report_claimed"
  unfolding report_claimed_def by (rule calls_one [OF daily_report_calls _ c_claim_due]) simp

lemma report_claimed_run:
  "map fst (og_runs report_claimed) = [''r1''] \<and> live_run 5 (snd (hd (og_runs report_claimed)))"
  by (simp add: report_claimed_def daily_report_def one_client_def register_client_def
      empty_onguard_def create_schedule_def schedule_status_def known_client_def dict_sorted_def
      claim_due_schedule_def plus_seconds_def MAX_TIME_def due_schedule_def has_live_run_def
      insert_run_def live_run_def Let_def given_or_zero_def given_or_def)

theorem one_live_run_per_schedule_witness:
  "\<exists>r. og_runs report_claimed = [(''r1'', r)] \<and> live_run 5 r
     \<and> (\<forall>j. (j, r) \<in> set (og_runs report_claimed) \<longrightarrow> ''r1'' = j)"
proof -
  obtain r where r: "og_runs report_claimed = [(''r1'', r)]" "live_run 5 r"
    using report_claimed_run by (cases "og_runs report_claimed") auto
  have "''r1'' = j" if "(j, r) \<in> set (og_runs report_claimed)" for j
    by (rule one_live_run_per_schedule [OF report_claimed_calls _ that refl r(2) r(2)]) (simp add: r(1))
  with r show ?thesis by blast
qed

text \<open>
  Calls do overlap: a claim selects the due schedule, looks for a live run and inserts its own, in
  three autocommitted statements. Two workers that both look before either inserts start two runs of
  the same schedule, and both leases last.
\<close>

lemma insert_run_starts:
  assumes "map_of (og_runs st) i = None" and "now < u"
  shows "\<exists>r. insert_run now u a i s st = (st\<lparr>og_runs := og_runs st @ [(i, r)]\<rparr>, Inr r)
     \<and> gr_schedule_id r = fst s \<and> live_run now r"
  using assms by (simp add: insert_run_def live_run_def Let_def)

lemma overlapping_claims_start_two_runs:
  assumes "due_schedule cid now st = Some s" and "\<not> has_live_run (fst s) now st"
    and "plus_seconds now (max 1 l1) = Inr u1" and "plus_seconds now (max 1 l2) = Inr u2"
    and "map_of (og_runs st) i = None" and "map_of (og_runs st) j = None" and "i \<noteq> j"
    and "insert_run now u1 a i s st = (st1, x1)" and "insert_run now u2 b j s st1 = (st2, x2)"
  shows "fst (claim_due_schedule now i cid a l1 st) = st1
    \<and> fst (claim_due_schedule now j cid b l2 st) = fst (insert_run now u2 b j s st)
    \<and> (\<exists>r r'. x1 = Inr r \<and> x2 = Inr r' \<and> map_of (og_runs st2) i = Some r \<and> map_of (og_runs st2) j = Some r'
         \<and> gr_schedule_id r = fst s \<and> gr_schedule_id r' = fst s \<and> live_run now r \<and> live_run now r')"
proof -
  have u: "now < u1" "now < u2" using assms(3,4) by (auto simp: plus_seconds_def split: if_splits)
  obtain r where r: "insert_run now u1 a i s st = (st\<lparr>og_runs := og_runs st @ [(i, r)]\<rparr>, Inr r)"
    "gr_schedule_id r = fst s" "live_run now r"
    using insert_run_starts [OF assms(5) u(1)] by blast
  then have st1: "st1 = st\<lparr>og_runs := og_runs st @ [(i, r)]\<rparr>" "x1 = Inr r" using assms(8) by simp_all
  have "map_of (og_runs st1) j = None" using assms(6,7) by (simp add: st1(1) map_of_append_fresh [OF assms(5)])
  from insert_run_starts [OF this u(2)] obtain r' where
    r': "insert_run now u2 b j s st1 = (st1\<lparr>og_runs := og_runs st1 @ [(j, r')]\<rparr>, Inr r')"
    "gr_schedule_id r' = fst s" "live_run now r'" by blast
  then have st2: "og_runs st2 = og_runs st @ [(i, r), (j, r')]" "x2 = Inr r'" using assms(9) st1 by auto
  have "map_of (og_runs st2) i = Some r" "map_of (og_runs st2) j = Some r'"
    using assms(5-7) by (simp_all add: st2(1) map_add_def)
  moreover have "fst (claim_due_schedule now i cid a l1 st) = st1"
    "fst (claim_due_schedule now j cid b l2 st) = fst (insert_run now u2 b j s st)"
    using assms(1-4) r(1) st1(1) by (auto simp: claim_due_schedule_def split: sum.split prod.split)
  ultimately show ?thesis using st1(2) st2(2) r r' by blast
qed

text \<open>
  A schedule without a recurrence that was given a time stays due after its run: completing the run
  keeps the old time, so the next poll runs it again, and so on.
\<close>

lemma one_shot_schedule_stays_due:
  assumes "map_of (og_runs st) run = Some r" and "map_of (og_schedules st) (gr_schedule_id r) = Some s"
    and "gs_recurrence s = [(''kind'', JStr ''manual'')]" and "gs_next_run_at s = Some t"
  shows "map_option gs_next_run_at (map_of (og_schedules
      (fst (complete_schedule_run text_of now later run res ar ci None st))) (gr_schedule_id r))
    = Some (Some t)"
  using assms
  by (simp add: complete_schedule_run_def finish_schedule_run_def Let_def next_run_at_def dict_get_def)

text \<open>An update replaces what an approved schedule carries; the approval stays.\<close>

lemma approved_schedule_changes_payload:
  assumes "map_of (og_schedules st) i = Some s"
  shows "\<exists>s'. map_of (og_schedules (fst (update_schedule text_of now later i None (Some p) None None None st))) i
      = Some s' \<and> gs_payload s' = dict_sorted p \<and> gs_approved_by s' = gs_approved_by s
        \<and> gs_status s' = gs_status s"
  using assms by (simp add: update_schedule_def Let_def given_or_def)

text \<open>Creating a schedule again under its identifier keeps the client it runs for.\<close>

lemma recreated_schedule_keeps_client:
  assumes "map_of (og_schedules st) i = Some s"
  shows "\<exists>s'. map_of (og_schedules (fst (create_schedule text_of now i other rc cmd p ls by' ap (Some t) x st))) i
      = Some s' \<and> gs_client_id s' = gs_client_id s \<and> gs_command s' = cmd \<and> gs_created_by s' = gs_created_by s"
  using assms by (simp add: create_schedule_def Let_def update_conv')

section \<open>Artifacts\<close>

definition gone :: "string \<Rightarrow> onguard \<Rightarrow> bool" where
  "gone i st \<longleftrightarrow> (\<exists>a. map_of (og_artifacts st) i = Some a \<and> ga_deleted_at a \<noteq> None)"

lemma call_gone:
  assumes "og_call text_of now st st'" and "gone i st"
  shows "gone i st'"
proof -
  obtain a where a: "map_of (og_artifacts st) i = Some a" "ga_deleted_at a \<noteq> None"
    using assms(2) by (auto simp: gone_def)
  show ?thesis
    using call_artifacts [OF assms(1)] a unfolding artifacts_to_def gone_def
    by (elim disjE exE conjE) (auto simp: map_of_append_fresh)
qed

lemma calls_gone: "og_calls text_of c st c' st' \<Longrightarrow> gone i st \<Longrightarrow> gone i st'"
  by (induction rule: og_calls.induct) (auto intro: call_gone)

lemma gone_hidden:
  assumes "gone i st" and "keys_ok st"
  shows "read_artifact i st = Inl KeyError" "i \<notin> fst ` set (list_artifacts cid s st)"
    "snd (promote_artifact now i by' s' st) = Inl KeyError"
proof -
  obtain a where a: "map_of (og_artifacts st) i = Some a" "ga_deleted_at a \<noteq> None"
    using assms(1) by (auto simp: gone_def)
  show "read_artifact i st = Inl KeyError" using a by (simp add: read_artifact_def)
  show "i \<notin> fst ` set (list_artifacts cid s st)"
  proof
    assume "i \<in> fst ` set (list_artifacts cid s st)"
    then obtain b where b: "(i, b) \<in> set (og_artifacts st)" "ga_deleted_at b = None"
      by (auto simp: list_artifacts_def)
    then have "map_of (og_artifacts st) i = Some b" using assms(2) by (simp add: keys_ok_def)
    then show False using a b by simp
  qed
  show "snd (promote_artifact now i by' s' st) = Inl KeyError"
    using a by (simp add: promote_artifact_def Let_def read_artifact_def)
qed

text \<open>
  Deleting an artifact is final. Whatever is called afterwards, an artifact that was deleted is
  not read, not listed and not promoted, and nothing else is stored under its identifier.
\<close>

theorem deleted_artifact_is_gone:
  assumes "og_calls text_of c empty_onguard c1 st1"
    and "delete_artifact now i st1 = (st2, Inr a)" and "c1 \<le> now"
    and "og_calls text_of now st2 c3 st3"
  shows "read_artifact i st3 = Inl KeyError \<and> i \<notin> fst ` set (list_artifacts cid s st3)
    \<and> snd (promote_artifact now3 i by' s' st3) = Inl KeyError
    \<and> snd (create_artifact now3 i cl ci si se ty p ls pr s3 by3 st3) = Inl DatabaseIntegrityError"
proof -
  have k1: "keys_ok st1"
    by (rule calls_keys_ok [OF assms(1)]) (simp add: keys_ok_def empty_onguard_def)
  have "og_call text_of now st1 st2" using c_delete [of text_of now st1 i] assms(2) by simp
  then have k3: "keys_ok st3" using call_keys_ok k1 calls_keys_ok [OF assms(4)] by blast
  have "gone i st2"
    using assms(2) by (auto simp: delete_artifact_def Let_def gone_def split: option.splits)
  then have g: "gone i st3" by (rule calls_gone [OF assms(4)])
  then have "snd (create_artifact now3 i cl ci si se ty p ls pr s3 by3 st3) = Inl DatabaseIntegrityError"
    by (auto simp: gone_def create_artifact_def Let_def)
  then show ?thesis using gone_hidden [OF g k3] by blast
qed

definition one_artifact :: onguard where
  "one_artifact = fst (create_artifact 2 ''x'' ''bot'' None None None ''draft'' [] [] [] ''draft'' ''op'' one_client)"

lemma one_artifact_calls: "og_calls (\<lambda>_. []) 0 empty_onguard 2 one_artifact"
proof -
  have "og_calls (\<lambda>_. []) 0 empty_onguard 1 one_client"
    unfolding one_client_def by (rule calls_one [OF calls_none _ c_register]) simp
  then show ?thesis unfolding one_artifact_def by (rule calls_one [OF _ _ c_artifact]) simp
qed

theorem deleted_artifact_is_gone_witness:
  "read_artifact ''x'' one_artifact \<noteq> Inl KeyError
   \<and> read_artifact ''x'' (fst (delete_artifact 3 ''x'' one_artifact)) = Inl KeyError"
proof -
  have r: "\<exists>a. read_artifact ''x'' one_artifact = Inr a"
    and d: "\<exists>a. delete_artifact 3 ''x'' one_artifact = (fst (delete_artifact 3 ''x'' one_artifact), Inr a)"
    by (simp_all add: one_artifact_def one_client_def register_client_def empty_onguard_def
        create_artifact_def known_client_def read_artifact_def delete_artifact_def Let_def)
  then obtain a where "delete_artifact 3 ''x'' one_artifact = (fst (delete_artifact 3 ''x'' one_artifact), Inr a)"
    by blast
  from deleted_artifact_is_gone [OF one_artifact_calls this _ calls_none] r show ?thesis by auto
qed

section \<open>The next run\<close>

text \<open>
  The next run of a recurring schedule lies in the future: after a positive interval, or within
  the day at the hour and minute asked for.
\<close>

theorem next_run_in_future:
  assumes "next_run_at text_of recurrence base = Inr (Some t)"
  shows "base < t
    \<and> (py_str text_of (dict_get recurrence ''kind'' (JStr ''manual'')) = ''daily'' \<longrightarrow>
         t \<le> base + day_length
         \<and> (\<exists>h m. py_int (dict_get recurrence ''hour'' (JInt 0)) = Inr h
              \<and> py_int (dict_get recurrence ''minute'' (JInt 0)) = Inr m
              \<and> t mod day_length = (h * 3600 + m * 60) * 1000000))"
proof -
  let ?kind = "py_str text_of (dict_get recurrence ''kind'' (JStr ''manual''))"
  consider (interval) s where "?kind = ''interval''" "0 < s" "plus_seconds base s = Inr t"
    | (daily) h m where "?kind = ''daily''" "py_int (dict_get recurrence ''hour'' (JInt 0)) = Inr h"
        "py_int (dict_get recurrence ''minute'' (JInt 0)) = Inr m" "0 \<le> h" "h \<le> 23" "0 \<le> m" "m \<le> 59"
        "let x = base - base mod day_length + (h * 3600 + m * 60) * 1000000
         in if x \<le> base then plus_seconds x 86400 = Inr t else t = x"
    using assms
    by (auto simp: next_run_at_def Let_def not_less not_le split: if_splits sum.splits)
  then show ?thesis
  proof cases
    case interval
    then show ?thesis by (auto simp: plus_seconds_def split: if_splits)
  next
    case daily
    let ?o = "(h * 3600 + m * 60) * 1000000"
    let ?d = "base - base mod day_length"
    have o: "0 \<le> ?o" "?o < day_length" using daily(4-7) by (simp_all add: day_length_def)
    have d: "?d mod day_length = 0" "?d \<le> base" "base < ?d + day_length"
      by (simp_all add: day_length_def)
    have t: "t = ?d + ?o \<and> base < ?d + ?o \<or> t = ?d + ?o + day_length \<and> ?d + ?o \<le> base"
      using daily(8) by (auto simp: Let_def plus_seconds_def day_length_def split: if_splits)
    have q: "?d = base div day_length * day_length" by (rule minus_mod_eq_div_mult)
    have m: "(?d + ?o) mod day_length = ?o"
      unfolding q mod_mult_self3 by (rule mod_pos_pos_trivial [OF o])
    have "t mod day_length = ?o"
      using t
    proof
      assume "t = ?d + ?o \<and> base < ?d + ?o"
      then show ?thesis using m by simp
    next
      assume "t = ?d + ?o + day_length \<and> ?d + ?o \<le> base"
      then show ?thesis using m by (simp only: mod_add_self2)
    qed
    moreover have "base < t" "t \<le> base + day_length" using t d o by linarith+
    ultimately show ?thesis using daily(2,3) by blast
  qed
qed

theorem next_run_in_future_witness:
  "\<exists>t. next_run_at (\<lambda>_. []) [(''kind'', JStr ''daily''), (''hour'', JInt 6)] 90000000000 = Inr (Some t)
     \<and> 90000000000 < t"
proof -
  have "\<exists>t. next_run_at (\<lambda>_. []) [(''kind'', JStr ''daily''), (''hour'', JInt 6)] 90000000000 = Inr (Some t)"
    by (simp add: next_run_at_def dict_get_def py_int_def Let_def day_length_def)
  then obtain t where t: "next_run_at (\<lambda>_. []) [(''kind'', JStr ''daily''), (''hour'', JInt 6)] 90000000000
      = Inr (Some t)" by blast
  from next_run_in_future [OF t] t show ?thesis by blast
qed

end
