(* ===== verification/Quarantine.thy ===== *)
theory Quarantine
  imports Complex_Main Prelude
begin

text \<open>
  \<open>quarantined/schemas.py\<close>, \<open>constraints.py\<close>, \<open>extractor.py\<close> and the tools of
  \<open>tools/native/extract.py\<close>: what a tool-less model read from labelled data reaches the planner only
  as a value of a small schema. Text is a list of code points here, because the checks are about
  them. The model's answer, the JSON parser, the categories of the Unicode database and the
  validation of a single field by the schema library are arguments; the validators the schemas
  declare are defined.
\<close>

type_synonym codes = "nat list"

section \<open>Schemas\<close>

datatype field_value =
    FText codes | FInt int | FNum rat | FBool bool | FNone | FTexts "codes list"

text \<open>
  A field is declared with its type and bounds: a text or an optional text of at most so many
  characters, a number in a range, a Boolean, or a list of at most so many texts. A field with a
  default may be left out.
\<close>

datatype field_type =
    TText nat | TOptText nat | TInt int int | TNum rat rat | TBool | TTexts nat

record schema_field =
  sf_name :: string
  sf_type :: field_type
  sf_default :: "field_value option"

record schema =
  sch_name :: string
  sch_fields :: "schema_field list"
  sch_refuses_flags :: bool
  sch_constraints_disabled :: bool

type_synonym extracted = "(string \<times> field_value) list"

definition needed :: "string \<Rightarrow> field_type \<Rightarrow> schema_field" where
  "needed n t = \<lparr>sf_name = n, sf_type = t, sf_default = None\<rparr>"

definition defaulted :: "string \<Rightarrow> field_type \<Rightarrow> field_value \<Rightarrow> schema_field" where
  "defaulted n t v = \<lparr>sf_name = n, sf_type = t, sf_default = Some v\<rparr>"

definition content_flags :: "schema_field list" where
  "content_flags =
     [defaulted ''executable_content_detected'' TBool (FBool False),
      defaulted ''prompt_injection_detected'' TBool (FBool False),
      defaulted ''embedded_credentials_detected'' TBool (FBool False)]"

definition plain_schema :: "string \<Rightarrow> schema_field list \<Rightarrow> schema" where
  "plain_schema n fs =
     \<lparr>sch_name = n, sch_fields = fs, sch_refuses_flags = False, sch_constraints_disabled = False\<rparr>"

definition DoseSummary :: schema where
  "DoseSummary = plain_schema ''DoseSummary''
     [needed ''medication_name'' (TText 80), needed ''dosage_mg'' (TNum 0 10000),
      needed ''frequency'' (TText 40)]"

definition FinancialSummary :: schema where
  "FinancialSummary = plain_schema ''FinancialSummary''
     [needed ''account_kind'' (TText 40), needed ''balance_bucket'' (TText 40),
      needed ''last_activity_days_ago'' (TInt 0 10000)]"

definition ContactInfo :: schema where
  "ContactInfo = plain_schema ''ContactInfo''
     [needed ''name'' (TText 80), needed ''relationship'' (TText 40)]"

definition DailyBriefing :: schema where
  "DailyBriefing = plain_schema ''DailyBriefing''
     [needed ''date'' (TText 10), needed ''n_calendar_events'' (TInt 0 50),
      needed ''n_unread_emails'' (TInt 0 200), needed ''top_priority'' (TText 120),
      needed ''suggested_focus'' (TText 160)]"

definition EmailTriageItem :: schema where
  "EmailTriageItem = plain_schema ''EmailTriageItem''
     [needed ''sender'' (TText 120), needed ''subject'' (TText 200), needed ''urgency'' (TText 10),
      needed ''one_line_summary'' (TText 160)]"

definition EmailForwardable :: schema where
  "EmailForwardable = (plain_schema ''EmailForwardable''
     ([needed ''sender'' (TText 120), defaulted ''recipients'' (TTexts 25) (FTexts []),
       needed ''date'' (TText 80), needed ''subject'' (TText 200), needed ''body'' (TText 10000)]
      @ content_flags))\<lparr>sch_refuses_flags := True\<rparr>"

definition WebPageSummary :: schema where
  "WebPageSummary = plain_schema ''WebPageSummary''
     [needed ''title'' (TText 200), needed ''key_facts'' (TTexts 5),
      needed ''relevant_to_query'' TBool]"

definition WebPagePublicFacts :: schema where
  "WebPagePublicFacts = (plain_schema ''WebPagePublicFacts''
     ([needed ''title'' (TText 200), defaulted ''byline'' (TOptText 120) FNone,
       defaulted ''published_date'' (TOptText 80) FNone,
       defaulted ''article_body'' (TOptText 8000) FNone,
       defaulted ''excerpts'' (TTexts 10) (FTexts [])]
      @ content_flags))\<lparr>sch_refuses_flags := True\<rparr>"

definition FinancialSummaryForAccountant :: schema where
  "FinancialSummaryForAccountant = plain_schema ''FinancialSummaryForAccountant''
     [needed ''period'' (TText 20), needed ''total_income_bucket'' (TText 40),
      needed ''total_expenses_bucket'' (TText 40), needed ''n_transactions'' (TInt 0 100000),
      needed ''notable_categories'' (TTexts 5)]"

definition SCHEMA_REGISTRY :: "schema list" where
  "SCHEMA_REGISTRY =
     [DoseSummary, FinancialSummary, ContactInfo, DailyBriefing, EmailForwardable, EmailTriageItem,
      WebPagePublicFacts, WebPageSummary, FinancialSummaryForAccountant]"

definition get_schema :: "string \<Rightarrow> py_error + schema" where
  "get_schema name =
     (case find (\<lambda>s. sch_name s = name) SCHEMA_REGISTRY of None \<Rightarrow> Inl KeyError | Some s \<Rightarrow> Inr s)"

definition list_schemas :: "string list" where
  "list_schemas = sort (map sch_name SCHEMA_REGISTRY)"

fun in_bounds :: "field_type \<Rightarrow> field_value \<Rightarrow> bool" where
  "in_bounds (TText n) (FText s) = (length s \<le> n)"
| "in_bounds (TOptText n) (FText s) = (length s \<le> n)"
| "in_bounds (TOptText n) FNone = True"
| "in_bounds (TInt lo hi) (FInt i) = (lo \<le> i \<and> i \<le> hi)"
| "in_bounds (TNum lo hi) (FNum q) = (lo \<le> q \<and> q \<le> hi)"
| "in_bounds TBool (FBool b) = True"
| "in_bounds (TTexts n) (FTexts xs) = (length xs \<le> n)"
| "in_bounds _ _ = False"

definition conforms :: "schema \<Rightarrow> extracted \<Rightarrow> bool" where
  "conforms s m \<longleftrightarrow> list_all2 (\<lambda>f (n, v). n = sf_name f \<and> in_bounds (sf_type f) v) (sch_fields s) m"

definition flag_set :: "extracted \<Rightarrow> string \<Rightarrow> bool" where
  "flag_set m n \<longleftrightarrow> map_of m n = Some (FBool True)"

definition refuse_flagged_content :: "extracted \<Rightarrow> bool" where
  "refuse_flagged_content m \<longleftrightarrow>
     flag_set m ''executable_content_detected'' \<or> flag_set m ''prompt_injection_detected''
     \<or> flag_set m ''embedded_credentials_detected''"

section \<open>Constraints on texts\<close>

datatype violation = ControlCharacter nat | Delete | BidiOrInvisible nat | Base64Shape | HighEntropy

definition ALLOWED_CONTROL_CHARS :: codes where
  "ALLOWED_CONTROL_CHARS = [9, 10, 13]"

definition BIDI_AND_INVISIBLE_CATEGORIES :: "string list" where
  "BIDI_AND_INVISIBLE_CATEGORIES = [''Cf'', ''Cs'', ''Co'']"

definition ENTROPY_BITS_THRESHOLD :: nat where
  "ENTROPY_BITS_THRESHOLD = 5"

definition ENTROPY_CHECK_MIN_LENGTH :: nat where
  "ENTROPY_CHECK_MIN_LENGTH = 40"

fun assert_no_control_chars :: "codes \<Rightarrow> violation option" where
  "assert_no_control_chars [] = None"
| "assert_no_control_chars (c # s) =
     (if c < 32 \<and> c \<notin> set ALLOWED_CONTROL_CHARS then Some (ControlCharacter c)
      else if c = 127 then Some Delete
      else assert_no_control_chars s)"

fun assert_no_bidi_or_invisible :: "(nat \<Rightarrow> string) \<Rightarrow> codes \<Rightarrow> violation option" where
  "assert_no_bidi_or_invisible category [] = None"
| "assert_no_bidi_or_invisible category (c # s) =
     (if category c \<in> set BIDI_AND_INVISIBLE_CATEGORIES then Some (BidiOrInvisible c)
      else assert_no_bidi_or_invisible category s)"

definition base64_code :: "nat \<Rightarrow> bool" where
  "base64_code c \<longleftrightarrow> 65 \<le> c \<and> c \<le> 90 \<or> 97 \<le> c \<and> c \<le> 122 \<or> 48 \<le> c \<and> c \<le> 57 \<or> c \<in> {43, 47, 61}"

text \<open>The \<open>$\<close> of the pattern also matches before a final line feed.\<close>

definition base64_shape :: "codes \<Rightarrow> bool" where
  "base64_shape s =
     (let body = (if s \<noteq> [] \<and> last s = 10 then butlast s else s)
      in 40 \<le> length body \<and> list_all base64_code body)"

text \<open>
  The entropy of a text is a sum of real numbers; the comparison with the threshold is decided on
  integers (\<open>high_entropy_iff\<close> in the properties). The code sums floats, so it may differ from this
  where the exact sum is within rounding of the threshold.
\<close>

definition shannon_entropy :: "codes \<Rightarrow> real" where
  "shannon_entropy s =
     - (\<Sum>c \<in> set s. real (count_list s c) / real (length s) * log 2 (real (count_list s c) / real (length s)))"

definition high_entropy :: "codes \<Rightarrow> bool" where
  "high_entropy s =
     (2 ^ (ENTROPY_BITS_THRESHOLD * length s)
        * prod_list (map (\<lambda>c. count_list s c ^ count_list s c) (remdups s))
      \<le> length s ^ length s)"

definition assert_not_encoded_blob :: "codes \<Rightarrow> violation option" where
  "assert_not_encoded_blob s =
     (if length s < ENTROPY_CHECK_MIN_LENGTH then None
      else if base64_shape s then Some Base64Shape
      else if high_entropy s then Some HighEntropy
      else None)"

definition check_text :: "(nat \<Rightarrow> string) \<Rightarrow> codes \<Rightarrow> violation option" where
  "check_text category s =
     (case assert_no_control_chars s of
        Some v \<Rightarrow> Some v
      | None \<Rightarrow> (case assert_no_bidi_or_invisible category s of
                   Some v \<Rightarrow> Some v | None \<Rightarrow> assert_not_encoded_blob s))"

fun texts_of_value :: "field_value \<Rightarrow> codes list" where
  "texts_of_value (FText s) = [s]"
| "texts_of_value (FTexts xs) = xs"
| "texts_of_value _ = []"

text \<open>The texts of a validated value with the name of the field they are in.\<close>

definition iter_string_fields :: "extracted \<Rightarrow> (string \<times> codes) list" where
  "iter_string_fields m = concat (map (\<lambda>(n, v). map (Pair n) (texts_of_value v)) m)"

fun first_violation :: "(nat \<Rightarrow> string) \<Rightarrow> (string \<times> codes) list \<Rightarrow> (string \<times> violation) option" where
  "first_violation category [] = None"
| "first_violation category ((n, s) # xs) =
     (case check_text category s of Some v \<Rightarrow> Some (n, v) | None \<Rightarrow> first_violation category xs)"

definition validate_extracted_value ::
  "(nat \<Rightarrow> string) \<Rightarrow> schema \<Rightarrow> extracted \<Rightarrow> (string \<times> violation) option" where
  "validate_extracted_value category s m =
     (if sch_constraints_disabled s then None else first_violation category (iter_string_fields m))"

section \<open>Extraction\<close>

datatype finish_reason = STOP | TOOL_CALLS | LENGTH | CONTENT_FILTER

record llm_response =
  lr_content :: codes
  lr_tool_calls :: bool
  lr_finish_reason :: finish_reason

datatype extraction_error =
    EmittedToolCalls | NotFinished finish_reason | NotJson | SchemaViolation
  | ConstraintViolation string violation

definition white_space :: "nat \<Rightarrow> bool" where
  "white_space c \<longleftrightarrow> 9 \<le> c \<and> c \<le> 13 \<or> 28 \<le> c \<and> c \<le> 32
     \<or> c \<in> {133, 160, 5760, 8232, 8233, 8239, 8287, 12288} \<or> 8192 \<le> c \<and> c \<le> 8202"

definition strip :: "codes \<Rightarrow> codes" where
  "strip s = rev (dropWhile white_space (rev (dropWhile white_space s)))"

definition fence :: codes where
  "fence = [96, 96, 96]"

definition starts_with :: "codes \<Rightarrow> codes \<Rightarrow> bool" where
  "starts_with p s \<longleftrightarrow> take (length p) s = p"

definition ends_with :: "codes \<Rightarrow> codes \<Rightarrow> bool" where
  "ends_with p s \<longleftrightarrow> starts_with (rev p) (rev s)"

text \<open>A fenced answer loses its first line and the closing fence.\<close>

definition unfence :: "codes \<Rightarrow> codes" where
  "unfence s =
     (if \<not> starts_with fence s then s
      else (let body = (if 10 \<in> set s then tl (dropWhile (\<lambda>c. c \<noteq> 10) s) else s)
            in if ends_with fence body then strip (take (length body - length fence) body) else body))"

text \<open>
  \<open>loads\<close> is the JSON parser; \<open>validator\<close> checks the fields of a parsed value against a schema,
  with the defaults filled in. The validator a schema declares runs after it.
\<close>

definition model_validate ::
  "(schema \<Rightarrow> 'j \<Rightarrow> extracted option) \<Rightarrow> schema \<Rightarrow> 'j \<Rightarrow> extracted option" where
  "model_validate validator s parsed =
     (case validator s parsed of
        None \<Rightarrow> None
      | Some m \<Rightarrow> if sch_refuses_flags s \<and> refuse_flagged_content m then None else Some m)"

definition extract_response ::
  "(codes \<Rightarrow> 'j option) \<Rightarrow> (schema \<Rightarrow> 'j \<Rightarrow> extracted option) \<Rightarrow> (nat \<Rightarrow> string) \<Rightarrow> schema
   \<Rightarrow> llm_response \<Rightarrow> extraction_error + extracted" where
  "extract_response loads validator category s r =
     (if lr_tool_calls r then Inl EmittedToolCalls
      else if lr_finish_reason r \<noteq> STOP then Inl (NotFinished (lr_finish_reason r))
      else case loads (unfence (strip (lr_content r))) of
             None \<Rightarrow> Inl NotJson
           | Some parsed \<Rightarrow>
               (case model_validate validator s parsed of
                  None \<Rightarrow> Inl SchemaViolation
                | Some m \<Rightarrow>
                    (case validate_extracted_value category s m of
                       Some (n, v) \<Rightarrow> Inl (ConstraintViolation n v)
                     | None \<Rightarrow> Inr m)))"

text \<open>The quarantined model is asked with the schema and the labelled text; it has no tools.\<close>

definition extract_value ::
  "(schema \<Rightarrow> codes \<Rightarrow> llm_response) \<Rightarrow> (codes \<Rightarrow> 'j option) \<Rightarrow> (schema \<Rightarrow> 'j \<Rightarrow> extracted option)
   \<Rightarrow> (nat \<Rightarrow> string) \<Rightarrow> string \<Rightarrow> codes \<Rightarrow> py_error + extraction_error + extracted" where
  "extract_value llm loads validator category name labelled_text =
     (case get_schema name of
        Inl e \<Rightarrow> Inl e
      | Inr s \<Rightarrow> Inr (extract_response loads validator category s (llm s labelled_text)))"

text \<open>What the tools answer; the text the source holds is \<open>entry\<close>.\<close>

datatype projection = NotFound | Failed extraction_error | Projected string extracted

definition quarantined_extract ::
  "(schema \<Rightarrow> codes \<Rightarrow> llm_response) \<Rightarrow> (codes \<Rightarrow> 'j option) \<Rightarrow> (schema \<Rightarrow> 'j \<Rightarrow> extracted option)
   \<Rightarrow> (nat \<Rightarrow> string) \<Rightarrow> string \<Rightarrow> codes option \<Rightarrow> py_error + projection" where
  "quarantined_extract llm loads validator category name entry =
     (case entry of
        None \<Rightarrow> Inr NotFound
      | Some t \<Rightarrow>
          (case extract_value llm loads validator category name t of
             Inl e \<Rightarrow> Inl e
           | Inr (Inl e) \<Rightarrow> Inr (Failed e)
           | Inr (Inr m) \<Rightarrow> Inr (Projected name m)))"

end
