(* ===== verification/QuarantineProps.thy ===== *)
theory QuarantineProps
  imports Quarantine
begin

text \<open>
  What passes the declassification gate, and what the gate does not look at. The documented
  behaviour of the schema library is the hypothesis \<open>fields_ok\<close>, which a concrete validator meets.
\<close>

section \<open>Entropy\<close>

lemma count_list_pos: "c \<in> set s \<longleftrightarrow> 0 < count_list s c"
  by (metis count_list_0_iff gr0I less_irrefl)

lemma prod_list_set:
  fixes s :: codes
  shows "real (prod_list (map (\<lambda>c. count_list s c ^ count_list s c) (remdups s)))
    = (\<Prod>c \<in> set s. real (count_list s c) ^ count_list s c)"
proof -
  have "prod_list (map f (remdups s)) = prod f (set s)" for f :: "nat \<Rightarrow> nat"
    using prod.distinct_set_conv_list [of "remdups s" f] by simp
  then show ?thesis by simp
qed

lemma prod_powers_pos: "0 < (\<Prod>c \<in> set s. real (count_list s c) ^ count_list s c)"
  by (rule prod_pos) (simp add: count_list_pos)

lemma log_prod_powers:
  "log 2 (\<Prod>c \<in> set s. real (count_list s c) ^ count_list s c)
    = (\<Sum>c \<in> set s. real (count_list s c) * log 2 (real (count_list s c)))"
proof -
  have pos: "0 < real (count_list s c) ^ count_list s c" if "c \<in> set s" for c
    using that by (simp add: count_list_pos)
  have "ln (\<Prod>c \<in> set s. real (count_list s c) ^ count_list s c)
      = (\<Sum>c \<in> set s. ln (real (count_list s c) ^ count_list s c))"
    using pos by (simp add: ln_prod)
  also have "\<dots> = (\<Sum>c \<in> set s. real (count_list s c) * ln (real (count_list s c)))"
    by (intro sum.cong refl ln_realpow)
  finally show ?thesis by (simp add: log_def sum_divide_distrib)
qed

lemma entropy_times_length:
  assumes "s \<noteq> []"
  shows "real (length s) * shannon_entropy s
    = real (length s) * log 2 (real (length s))
      - (\<Sum>c \<in> set s. real (count_list s c) * log 2 (real (count_list s c)))"
proof -
  let ?n = "real (length s)" and ?k = "\<lambda>c. real (count_list s c)"
  have n: "0 < ?n" using assms by simp
  have total: "(\<Sum>c \<in> set s. ?k c) = ?n"
    using sum_count_set [of s "set s"] by (simp flip: of_nat_sum)
  have "?n * shannon_entropy s = - (\<Sum>c \<in> set s. ?n * (?k c / ?n * log 2 (?k c / ?n)))"
    by (simp add: shannon_entropy_def sum_distrib_left)
  also have "\<dots> = - (\<Sum>c \<in> set s. ?k c * log 2 (?k c) - ?k c * log 2 ?n)"
  proof -
    have "?n * (?k c / ?n * log 2 (?k c / ?n)) = ?k c * log 2 (?k c) - ?k c * log 2 ?n"
      if "c \<in> set s" for c
      using that n by (simp add: log_divide count_list_pos right_diff_distrib)
    then show ?thesis by simp
  qed
  also have "\<dots> = (\<Sum>c \<in> set s. ?k c) * log 2 ?n - (\<Sum>c \<in> set s. ?k c * log 2 (?k c))"
    by (simp add: sum_subtractf sum_distrib_right)
  finally show ?thesis unfolding total .
qed

lemma distinct_high_entropy:
  assumes "distinct s" and "32 \<le> length s"
  shows "high_entropy s"
proof -
  have one: "count_list s c = 1" if "c \<in> set s" for c
    using assms(1) that by (induction s) auto
  have "prod_list (map (\<lambda>c. count_list s c ^ count_list s c) (remdups s)) = prod_list (map (\<lambda>_. 1) s)"
    using assms(1) one by (simp add: distinct_remdups_id cong: map_cong)
  also have "\<dots> = 1" by (induction s) auto
  finally have prod: "prod_list (map (\<lambda>c. count_list s c ^ count_list s c) (remdups s)) = 1" .
  have "(2 :: nat) ^ (5 * length s) = 32 ^ length s" by (simp add: power_mult)
  also have "\<dots> \<le> length s ^ length s" by (rule power_mono) (use assms(2) in simp_all)
  finally show ?thesis by (simp only: high_entropy_def ENTROPY_BITS_THRESHOLD_def prod mult_1_right)
qed

text \<open>
  The integer test decides the entropy threshold exactly: a text has at least five bits per
  character exactly when the test says so.
\<close>

theorem high_entropy_iff:
  assumes "s \<noteq> []"
  shows "high_entropy s \<longleftrightarrow> 5 \<le> shannon_entropy s"
proof -
  let ?n = "real (length s)"
  define p where "p = (\<Prod>c \<in> set s. real (count_list s c) ^ count_list s c)"
  have n: "0 < ?n" using assms by simp
  have p: "0 < p" unfolding p_def by (rule prod_powers_pos)
  have "high_entropy s \<longleftrightarrow> real (2 ^ (5 * length s)
      * prod_list (map (\<lambda>c. count_list s c ^ count_list s c) (remdups s))) \<le> real (length s ^ length s)"
    by (simp only: high_entropy_def ENTROPY_BITS_THRESHOLD_def of_nat_le_iff)
  also have "\<dots> \<longleftrightarrow> 2 ^ (5 * length s) * p \<le> ?n ^ length s"
    by (simp only: of_nat_mult of_nat_power prod_list_set of_nat_numeral p_def)
  also have "\<dots> \<longleftrightarrow> log 2 (2 ^ (5 * length s) * p) \<le> log 2 (?n ^ length s)"
    using n p by simp
  also have "\<dots> \<longleftrightarrow> 5 * ?n + log 2 p \<le> ?n * log 2 ?n"
    using n p by (simp add: log_mult log_nat_power)
  also have "\<dots> \<longleftrightarrow> 5 * ?n \<le> ?n * shannon_entropy s"
    unfolding entropy_times_length [OF assms] p_def log_prod_powers by linarith
  also have "\<dots> \<longleftrightarrow> 5 \<le> shannon_entropy s"
    using n by (simp add: mult.commute [of 5])
  finally show ?thesis .
qed

theorem high_entropy_iff_witness: "high_entropy [2..<34] \<and> 5 \<le> shannon_entropy [2..<34]"
proof -
  have ne: "[2..<34] \<noteq> ([] :: nat list)" by simp
  have "high_entropy [2..<34]" by (rule distinct_high_entropy) simp_all
  with high_entropy_iff [OF ne] show ?thesis by blast
qed

section \<open>The gate\<close>

definition fields_ok :: "(schema \<Rightarrow> 'j \<Rightarrow> extracted option) \<Rightarrow> bool" where
  "fields_ok validator \<longleftrightarrow> (\<forall>s parsed m. validator s parsed = Some m \<longrightarrow> conforms s m)"

definition clean_text :: "(nat \<Rightarrow> string) \<Rightarrow> codes \<Rightarrow> bool" where
  "clean_text category s \<longleftrightarrow>
     (\<forall>c \<in> set s. (32 \<le> c \<or> c \<in> {9, 10, 13}) \<and> c \<noteq> 127 \<and> category c \<notin> {''Cf'', ''Cs'', ''Co''})
     \<and> (40 \<le> length s \<longrightarrow> \<not> base64_shape s \<and> shannon_entropy s < 5)"

lemma no_control_iff:
  "assert_no_control_chars s = None \<longleftrightarrow> (\<forall>c \<in> set s. (32 \<le> c \<or> c \<in> {9, 10, 13}) \<and> c \<noteq> 127)"
  by (induction s) (auto simp: ALLOWED_CONTROL_CHARS_def)

lemma no_bidi_iff:
  "assert_no_bidi_or_invisible category s = None
   \<longleftrightarrow> (\<forall>c \<in> set s. category c \<notin> {''Cf'', ''Cs'', ''Co''})"
  by (induction s) (auto simp: BIDI_AND_INVISIBLE_CATEGORIES_def)

lemma no_blob_iff:
  "assert_not_encoded_blob s = None
   \<longleftrightarrow> (40 \<le> length s \<longrightarrow> \<not> base64_shape s \<and> shannon_entropy s < 5)"
proof (cases "40 \<le> length s")
  case True
  then have "s \<noteq> []" by auto
  then show ?thesis using True high_entropy_iff [of s]
    by (auto simp: assert_not_encoded_blob_def ENTROPY_CHECK_MIN_LENGTH_def)
qed (simp add: assert_not_encoded_blob_def ENTROPY_CHECK_MIN_LENGTH_def)

lemma check_text_iff: "check_text category s = None \<longleftrightarrow> clean_text category s"
  unfolding check_text_def clean_text_def
  using no_control_iff [of s] no_bidi_iff [of category s] no_blob_iff [of s]
  by (auto split: option.split)

lemma first_violation_iff:
  "first_violation category xs = None \<longleftrightarrow> (\<forall>(n, s) \<in> set xs. clean_text category s)"
  by (induction category xs rule: first_violation.induct)
    (auto simp: check_text_iff [symmetric] split: option.splits)

lemma registered_schema:
  assumes "get_schema name = Inr s"
  shows "s \<in> set SCHEMA_REGISTRY" "sch_name s = name" "\<not> sch_constraints_disabled s"
proof -
  have f: "find (\<lambda>s. sch_name s = name) SCHEMA_REGISTRY = Some s"
    using assms by (simp add: get_schema_def split: option.splits)
  show "s \<in> set SCHEMA_REGISTRY" "sch_name s = name"
    using f by (auto simp: find_Some_iff)
  then show "\<not> sch_constraints_disabled s"
    by (auto simp: SCHEMA_REGISTRY_def DoseSummary_def FinancialSummary_def ContactInfo_def
        DailyBriefing_def EmailTriageItem_def EmailForwardable_def WebPageSummary_def
        WebPagePublicFacts_def FinancialSummaryForAccountant_def plain_schema_def)
qed

text \<open>
  C16: Whatever the labelled text and whatever the quarantined model answers (with a schema library
  that validates what it promises), what extraction lets through is the answer to a request of that
  name that called no tool and was finished, a value within the bounds of a registered schema, whose
  refusal flags are not set where the schema refuses on them. Every text in it has no character
  below U+0020 but tab, newline and carriage return, no U+007F and none of the categories Cf, Cs and
  Co, and a text of forty characters or more is not shaped like base64 and has an entropy below 5.
  (The controls U+0080 to U+009F are of none of these and pass: \<open>c1_controls_pass\<close>.)
\<close>

theorem extraction_is_bounded:
  assumes "fields_ok validator"
    and "quarantined_extract llm loads validator category name (Some labelled) = Inr (Projected name' m)"
  shows "name' = name
    \<and> (\<exists>s \<in> set SCHEMA_REGISTRY. sch_name s = name \<and> conforms s m
         \<and> (sch_refuses_flags s \<longrightarrow> \<not> refuse_flagged_content m)
         \<and> \<not> lr_tool_calls (llm s labelled) \<and> lr_finish_reason (llm s labelled) = STOP)
    \<and> (\<forall>(field, t) \<in> set (iter_string_fields m). clean_text category t)"
proof -
  obtain s where s: "get_schema name = Inr s"
    and r: "extract_response loads validator category s (llm s labelled) = Inr m" and n: "name' = name"
    using assms(2) by (auto simp: quarantined_extract_def extract_value_def split: sum.splits)
  obtain parsed where p: "model_validate validator s parsed = Some m"
    and v: "validate_extracted_value category s m = None"
    and c: "\<not> lr_tool_calls (llm s labelled)" "lr_finish_reason (llm s labelled) = STOP"
    using r by (auto simp: extract_response_def split: if_splits option.splits prod.splits)
  have "conforms s m" "sch_refuses_flags s \<longrightarrow> \<not> refuse_flagged_content m"
    using p assms(1) by (auto simp: model_validate_def fields_ok_def split: option.splits if_splits)
  moreover have "\<forall>(field, t) \<in> set (iter_string_fields m). clean_text category t"
    using v registered_schema(3) [OF s] by (simp add: validate_extracted_value_def first_violation_iff)
  ultimately show ?thesis using n c registered_schema(1,2) [OF s] by blast
qed

text \<open>A strict validator of parsed values: the fields in any order, defaults for what is left out.\<close>

fun fill :: "schema_field list \<Rightarrow> extracted \<Rightarrow> extracted option" where
  "fill [] d = Some []"
| "fill (f # fs) d =
     (case (case map_of d (sf_name f) of Some v \<Rightarrow> Some v | None \<Rightarrow> sf_default f) of
        None \<Rightarrow> None
      | Some v \<Rightarrow>
          if in_bounds (sf_type f) v then map_option (Cons (sf_name f, v)) (fill fs d) else None)"

definition strict_fields :: "schema \<Rightarrow> extracted \<Rightarrow> extracted option" where
  "strict_fields s d = fill (sch_fields s) d"

lemma strict_fields_ok: "fields_ok strict_fields"
proof -
  have "list_all2 (\<lambda>f (n, v). n = sf_name f \<and> in_bounds (sf_type f) v) fs m"
    if "fill fs d = Some m" for fs d m
    using that by (induction fs arbitrary: m) (auto split: option.splits if_splits)
  then show ?thesis by (auto simp: fields_ok_def strict_fields_def conforms_def)
qed

definition answer :: llm_response where
  "answer = \<lparr>lr_content = [], lr_tool_calls = False, lr_finish_reason = STOP\<rparr>"

definition contact :: extracted where
  "contact = [(''name'', FText [65, 100, 97]), (''relationship'', FText [115, 105, 115])]"

theorem extraction_is_bounded_witness:
  "quarantined_extract (\<lambda>_ _. answer) (\<lambda>_. Some contact) strict_fields (\<lambda>_. ''Ll'') ''ContactInfo''
     (Some [1, 2, 3]) = Inr (Projected ''ContactInfo'' contact)
   \<and> list_all (\<lambda>(field, t). clean_text (\<lambda>_. ''Ll'') t) (iter_string_fields contact)"
proof -
  have "quarantined_extract (\<lambda>_ _. answer) (\<lambda>_. Some contact) strict_fields (\<lambda>_. ''Ll'') ''ContactInfo''
     (Some [1, 2, 3]) = Inr (Projected ''ContactInfo'' contact)"
    by code_simp
  from extraction_is_bounded [OF strict_fields_ok this] this show ?thesis unfolding list_all_iff by blast
qed

section \<open>What the gate does not look at\<close>

text \<open>
  The flags have defaults: an answer that says nothing about its content is accepted, so the
  quarantined model attests nothing.
\<close>

lemma unattested_content_passes:
  "extract_value (\<lambda>_ _. answer)
     (\<lambda>_. Some [(''sender'', FText [97]), (''date'', FText [49]), (''subject'', FText [98]),
                (''body'', FText [99])])
     strict_fields (\<lambda>_. ''Ll'') ''EmailForwardable'' []
   = Inr (Inr [(''sender'', FText [97]), (''recipients'', FTexts []), (''date'', FText [49]),
       (''subject'', FText [98]), (''body'', FText [99]),
       (''executable_content_detected'', FBool False), (''prompt_injection_detected'', FBool False),
       (''embedded_credentials_detected'', FBool False)])"
  by code_simp

text \<open>The length of the items of a list is not bounded: a text of any length passes in one.\<close>

lemma replicate_entropy: "shannon_entropy (replicate n c) \<le> 0"
proof (cases "n = 0")
  case False
  have c: "count_list (replicate n c) c = n" by (induction n) auto
  have s: "set (replicate n c) = {c}" using False by simp
  show ?thesis unfolding shannon_entropy_def s using c False by simp
qed (simp add: shannon_entropy_def)

lemma list_items_unbounded:
  assumes "\<And>c. category c \<notin> {''Cf'', ''Cs'', ''Co''}"
  shows "extract_response (\<lambda>_. Some [(''title'', FText []), (''key_facts'', FTexts [replicate n 32]),
      (''relevant_to_query'', FBool True)]) strict_fields category WebPageSummary answer
    = Inr [(''title'', FText []), (''key_facts'', FTexts [replicate n 32]), (''relevant_to_query'', FBool True)]"
proof -
  let ?m = "[(''title'', FText []), (''key_facts'', FTexts [replicate n 32]), (''relevant_to_query'', FBool True)]"
  have "clean_text category (replicate n 32)"
    using assms replicate_entropy [of n 32]
    by (cases n) (auto simp: clean_text_def base64_shape_def base64_code_def)
  moreover have "clean_text category []" by (simp add: clean_text_def)
  ultimately have "check_text category (replicate n 32) = None" "check_text category [] = None"
    by (simp_all only: check_text_iff)
  then have "validate_extracted_value category WebPageSummary ?m = None"
    by (simp add: validate_extracted_value_def iter_string_fields_def)
  moreover have "model_validate strict_fields WebPageSummary ?m = Some ?m"
    by (simp add: model_validate_def strict_fields_def WebPageSummary_def plain_schema_def needed_def)
  ultimately show ?thesis by (simp add: extract_response_def answer_def)
qed

text \<open>The control characters above 127, which terminals obey too, are let through.\<close>

lemma c1_controls_pass: "check_text (\<lambda>c. if c < 32 \<or> 127 \<le> c \<and> c < 160 then ''Cc'' else ''Ll'') [155, 50, 74] = None"
  by code_simp

end
