(* ===== verification/Requirements.thy ===== *)
theory Requirements
  imports EngineProps HookProps Dispatcher ApprovalModel
begin

text \<open>
  The operator requirement language (\<open>policy/requirements.py\<close>). A requirement is checked by probing
  the decision surfaces of the other components: \<open>decide\<close> for an action that would send data out,
  the decision inspectors after it, the tools a planner sees in a mode, and the mode selected for
  restricted data. An inspector is operator code: it is a function of what the probe shows it, and
  where it may raise its result is a sum. The message of a result is kept by its ingredients.
\<close>

section \<open>Requirements\<close>

datatype requirement_kind =
    NEVER_SILENT_EGRESS | DENY_EGRESS | UNTRUSTED_NEVER_EGRESS | UNTRUSTED_SOURCE_EXPOSURE_FLOOR
  | PLANNER_BLIND_TO_UNTRUSTED_SOURCE | RESTRICTED_MODE_FLOOR

fun requirement_kind_value :: "requirement_kind \<Rightarrow> string" where
  "requirement_kind_value NEVER_SILENT_EGRESS = ''never_silent_egress''"
| "requirement_kind_value DENY_EGRESS = ''deny_egress''"
| "requirement_kind_value UNTRUSTED_NEVER_EGRESS = ''untrusted_never_egress''"
| "requirement_kind_value UNTRUSTED_SOURCE_EXPOSURE_FLOOR = ''untrusted_source_exposure_floor''"
| "requirement_kind_value PLANNER_BLIND_TO_UNTRUSTED_SOURCE = ''planner_blind_to_untrusted_source''"
| "requirement_kind_value RESTRICTED_MODE_FLOOR = ''restricted_mode_floor''"

definition requirement_kinds :: "requirement_kind list" where
  "requirement_kinds =
     [NEVER_SILENT_EGRESS, DENY_EGRESS, UNTRUSTED_NEVER_EGRESS, UNTRUSTED_SOURCE_EXPOSURE_FLOOR,
      PLANNER_BLIND_TO_UNTRUSTED_SOURCE, RESTRICTED_MODE_FLOOR]"

interpretation requirement_enum: str_enum requirement_kind_value requirement_kinds
proof
  show "e \<in> set requirement_kinds" for e by (cases e) (simp_all add: requirement_kinds_def)
  show "distinct (map requirement_kind_value requirement_kinds)"
    by (simp add: requirement_kinds_def)
qed

record requirement =
  rq_id :: string
  rq_kind :: requirement_kind
  rq_description :: string
  rq_builtin :: bool
  rq_category :: "string option"
  rq_channels :: "capability_kind list"

text \<open>The texts of a result, one constructor per message.\<close>

datatype requirement_detail =
    SilentEgress string capability_kind string string
  | NeverSilent string
  | NotDenied string capability_kind string decision string
  | DeniedOn string "capability_kind list"
  | UntrustedGot capability_kind string decision
  | UntrustedContained
  | ReadersLeaked "string list" execution_mode
  | ReadersHidden
  | PlannerSees string bool "string list"
  | PlannerBlind
  | ModeFailsClosed
  | ModeExposes execution_mode string
  | ModeRoutes execution_mode

record requirement_result =
  rs_requirement :: requirement
  rs_satisfied :: bool
  rs_detail :: requirement_detail

text \<open>
  What a probe asks of an inspector: the addresses it relaxes for, and its answer. The session the
  probe shows it has nothing but a label state.
\<close>

record probed_inspector =
  qi_name :: string
  qi_self_addresses :: "string list"
  qi_inspect ::
    "inspected_action \<Rightarrow> label_state \<Rightarrow> policy_decision \<Rightarrow> string + inspector_outcome option"

text \<open>
  The context of a check. The risk preference is a field of the posture the dispatcher does not
  read; \<open>dp_fresh_id\<close> is the \<open>uuid4()\<close> of the probe's capability, and \<open>dp_clock\<close> and
  \<open>dp_netloc_ok\<close> stand for what \<open>decide\<close> may read from outside.
\<close>

record deployment_context =
  dp_posture :: posture
  dp_risk_preference :: risk_preference
  dp_decision_inspectors :: "probed_inspector list"
  dp_clearance_max_tier :: "tier option"
  dp_trust_profile_is_personal :: bool
  dp_rules_v2 :: "decision_rule list option"
  dp_fresh_id :: uuid
  dp_clock :: "clock_read \<Rightarrow> time"
  dp_netloc_ok :: "string \<Rightarrow> bool"

section \<open>The probe\<close>

text \<open>Noon of 17 July 2026, UTC.\<close>

definition PROBE_NOW :: time where
  "PROBE_NOW = 1784289600 * 1000000"

definition EGRESS_CHANNELS :: "capability_kind list" where
  "EGRESS_CHANNELS = [SEND_EMAIL, SEND_MESSAGE, QUEUE_PURCHASE]"

definition CHANNEL_NAMES :: "(string \<times> capability_kind) list" where
  "CHANNEL_NAMES =
     [(''send_email'', SEND_EMAIL), (''send_message'', SEND_MESSAGE),
      (''queue_purchase'', QUEUE_PURCHASE), (''web_fetch'', WEB_FETCH)]"

definition CATEGORY_TIER :: "(string \<times> tier) list" where
  "CATEGORY_TIER =
     [(''health'', RESTRICTED), (''financial'', RESTRICTED), (''credentials'', RESTRICTED),
      (''personal'', REGULATED), (''proprietary_work'', REGULATED)]"

definition IRREVERSIBLE_EXTERNAL :: reversibility_label where
  "IRREVERSIBLE_EXTERNAL = \<lparr>rv_degree = IRREVERSIBLE, rv_agent = EXTERNAL\<rparr>"

definition CHANNEL_EFFECT ::
  "(capability_kind \<times> (string option \<times> reversibility_label option)) list" where
  "CHANNEL_EFFECT =
     [(SEND_EMAIL, (Some ''social.send_email'', Some IRREVERSIBLE_EXTERNAL)),
      (SEND_MESSAGE, (Some ''social.send_message'', Some IRREVERSIBLE_EXTERNAL)),
      (QUEUE_PURCHASE, (Some ''commerce.purchase'', Some IRREVERSIBLE_EXTERNAL)),
      (WEB_FETCH, (None, None))]"

definition broad_cap :: "capability_kind \<Rightarrow> uuid \<Rightarrow> capability list" where
  "broad_cap k aid =
     [(Capability (BuiltIn k) ''*'' aid)
        \<lparr>c_origin := USER_APPROVED, c_allows_destructive := True\<rparr>]"

definition category_labels :: "string \<Rightarrow> label_state" where
  "category_labels category =
     \<lparr>ls_a = [\<lparr>ct_category = category, ct_tier = dict_get CATEGORY_TIER category RESTRICTED,
                ct_risk_ids = [], ct_assignment_provenance = ''system-default''\<rparr>],
      ls_b = []\<rparr>"

definition untrusted_labels :: label_state where
  "untrusted_labels = \<lparr>ls_a = [], ls_b = [\<lparr>pt_level = EXTERNAL_UNTRUSTED\<rparr>]\<rparr>"

definition self_addresses :: "probed_inspector list \<Rightarrow> string list" where
  "self_addresses inspectors = concat (map qi_self_addresses inspectors)"

text \<open>The outcomes of the inspectors in order; the first that raises ends the check.\<close>

fun probe_outcomes ::
  "probed_inspector list \<Rightarrow> inspected_action \<Rightarrow> policy_decision
   \<Rightarrow> string + (string \<times> inspector_outcome) list" where
  "probe_outcomes [] a base = Inr []"
| "probe_outcomes (i # is) a base =
     (case qi_inspect i a empty_state base of
        Inl exc \<Rightarrow> Inl exc
      | Inr answer \<Rightarrow>
          (case probe_outcomes is a base of
             Inl exc \<Rightarrow> Inl exc
           | Inr rest \<Rightarrow>
               Inr (case answer of None \<Rightarrow> rest | Some x \<Rightarrow> (qi_name i, x) # rest)))"

definition probed_action :: "action \<Rightarrow> inspected_action" where
  "probed_action act =
     \<lparr>ia_kind = a_kind act, ia_target = a_target act, ia_amount = a_amount act,
      ia_tool_name = ''requirement-probe'', ia_effect_class = None,
      ia_relationship_group_ids = [], ia_effective_reversibility = None\<rparr>"

text \<open>The guard the chokepoint puts around a composed adjustment, as the probe repeats it.\<close>

definition guarded :: "decision \<Rightarrow> adjustment option \<Rightarrow> decision" where
  "guarded base composed =
     (case composed of
        None \<Rightarrow> base
      | Some (new, _) \<Rightarrow>
          if is_strictly_less_restrictive new base \<and> base \<noteq> REQUIRE_APPROVAL then base
          else if new = WARN \<and> base \<noteq> ALLOW then base
          else new)"

definition probe_inspectors ::
  "policy_decision \<Rightarrow> action \<Rightarrow> probed_inspector list \<Rightarrow> string + decision" where
  "probe_inspectors base act inspectors =
     (if inspectors = [] then Inr (pd_decision base)
      else case probe_outcomes inspectors (probed_action act) base of
             Inl exc \<Rightarrow> Inl exc
           | Inr outcomes \<Rightarrow>
               Inr (guarded (pd_decision base)
                      (compose_inspector_outcomes (pd_decision base) outcomes)))"

definition probe_args ::
  "deployment_context \<Rightarrow> label_state \<Rightarrow> capability_kind \<Rightarrow> string \<Rightarrow> decide_args" where
  "probe_args ctx labels k target =
     (case dict_get CHANNEL_EFFECT k (None, None) of (effect_class, reversibility) \<Rightarrow>
        \<lparr>da_capabilities = broad_cap k (dp_fresh_id ctx),
         da_action = \<lparr>a_kind = BuiltIn k, a_target = target, a_amount = None\<rparr>,
         da_used_kinds = [], da_now = Some PROBE_NOW, da_cap_uses = None,
         da_axis_d =
           (if dp_rules_v2 ctx \<noteq> None
            then Some (DecisionContext (default_args\<lparr>ca_initiator := ''principal:owner''\<rparr>)) else None),
         da_effect_class =
           (if dp_rules_v2 ctx \<noteq> None \<and> effect_class = None then Some ''data.fetch''
            else effect_class),
         da_rules_v2 = dp_rules_v2 ctx, da_default_v2_outcome = RO_SUGGEST,
         da_relax_inputs = [], da_override_grants = None, da_session_id = None,
         da_bindings = None, da_effective_reversibility = reversibility,
         da_envelope_set = None, da_risk_preference = Some (dp_risk_preference ctx),
         da_clearance_max_tier = dp_clearance_max_tier ctx, da_integrity_floor_level = None,
         da_risk_register = None, da_sandbox_actuator_wired = False,
         da_devbox_manager_wired = False, da_revoked_audit_ids = [],
         da_first_use_prompt_enabled = False, da_rate_limit_escalation = False,
         da_labels = Some labels, da_egress_override_categories = [],
         da_egress_override_tiers = [],
         da_trust_profile_is_personal = dp_trust_profile_is_personal ctx,
         da_already_approved = False, da_clock = dp_clock ctx, da_mint_audit_id = 0,
         da_netloc_ok = dp_netloc_ok ctx, da_registry = None\<rparr>)"

text \<open>How a check can fail to give an answer: the engine or an inspector raised.\<close>

datatype probe_fault = EngineRaised py_error | InspectorRaised string

definition effective_decision ::
  "deployment_context \<Rightarrow> label_state \<Rightarrow> capability_kind \<Rightarrow> string \<Rightarrow> probe_fault + decision" where
  "effective_decision ctx labels k target =
     (let a = probe_args ctx labels k target
      in case fst (decide a) of
           Inl e \<Rightarrow> Inl (EngineRaised e)
         | Inr base \<Rightarrow>
             (case probe_inspectors base (da_action a) (dp_decision_inspectors ctx) of
                Inl exc \<Rightarrow> Inl (InspectorRaised exc)
              | Inr d \<Rightarrow> Inr d))"

definition egress_targets :: "capability_kind \<Rightarrow> probed_inspector list \<Rightarrow> string list" where
  "egress_targets k inspectors =
     (if k = QUEUE_PURCHASE then [''sku-adversary'']
      else if k = WEB_FETCH then [''https://exfil.example/collect'']
      else ''external@adversary.example'' # self_addresses inspectors)"

definition egress_probes ::
  "capability_kind list \<Rightarrow> probed_inspector list \<Rightarrow> (capability_kind \<times> string) list" where
  "egress_probes ks inspectors =
     concat (map (\<lambda>k. map (\<lambda>target. (k, target)) (egress_targets k inspectors)) ks)"

text \<open>The nested loops of the checkers: the first probe whose decision is bad.\<close>

fun first_bad ::
  "(decision \<Rightarrow> bool) \<Rightarrow> deployment_context \<Rightarrow> label_state \<Rightarrow> (capability_kind \<times> string) list
   \<Rightarrow> probe_fault + (capability_kind \<times> string \<times> decision) option" where
  "first_bad bad ctx labels [] = Inr None"
| "first_bad bad ctx labels ((k, target) # ps) =
     (case effective_decision ctx labels k target of
        Inl e \<Rightarrow> Inl e
      | Inr d \<Rightarrow> if bad d then Inr (Some (k, target, d)) else first_bad bad ctx labels ps)"

section \<open>The checkers\<close>

definition result_of :: "requirement \<Rightarrow> bool \<Rightarrow> requirement_detail \<Rightarrow> requirement_result" where
  "result_of req ok detail = \<lparr>rs_requirement = req, rs_satisfied = ok, rs_detail = detail\<rparr>"

definition category_of :: "requirement \<Rightarrow> string" where
  "category_of req = (case rq_category req of None \<Rightarrow> [] | Some c \<Rightarrow> c)"

definition check_never_silent_egress ::
  "requirement \<Rightarrow> deployment_context \<Rightarrow> probe_fault + requirement_result" where
  "check_never_silent_egress req ctx =
     (case first_bad (\<lambda>d. d = ALLOW) ctx (category_labels (category_of req))
             (egress_probes (EGRESS_CHANNELS @ [WEB_FETCH]) (dp_decision_inspectors ctx)) of
        Inl e \<Rightarrow> Inl e
      | Inr (Some (k, target, d)) \<Rightarrow>
          Inr (result_of req False
                 (SilentEgress (category_of req) k target (po_id (dp_posture ctx))))
      | Inr None \<Rightarrow> Inr (result_of req True (NeverSilent (category_of req))))"

definition check_deny_egress ::
  "requirement \<Rightarrow> deployment_context \<Rightarrow> probe_fault + requirement_result" where
  "check_deny_egress req ctx =
     (case first_bad (\<lambda>d. d \<noteq> DENY) ctx (category_labels (category_of req))
             (egress_probes (rq_channels req) (dp_decision_inspectors ctx)) of
        Inl e \<Rightarrow> Inl e
      | Inr (Some (k, target, d)) \<Rightarrow>
          Inr (result_of req False
                 (NotDenied (category_of req) k target d (po_id (dp_posture ctx))))
      | Inr None \<Rightarrow> Inr (result_of req True (DeniedOn (category_of req) (rq_channels req))))"

definition check_untrusted_never_egress ::
  "requirement \<Rightarrow> deployment_context \<Rightarrow> probe_fault + requirement_result" where
  "check_untrusted_never_egress req ctx =
     (case first_bad (\<lambda>d. d \<noteq> DENY) ctx untrusted_labels
             (egress_probes EGRESS_CHANNELS (dp_decision_inspectors ctx)) of
        Inl e \<Rightarrow> Inl e
      | Inr (Some (k, target, d)) \<Rightarrow> Inr (result_of req False (UntrustedGot k target d))
      | Inr None \<Rightarrow> Inr (result_of req True UntrustedContained))"

definition untrusted_source_probe_tools :: "tool_definition list" where
  "untrusted_source_probe_tools =
     map (\<lambda>n. ToolDefinition n (BuiltIn READ_FS))
       (sort UNTRUSTED_SOURCE_RAW_READERS @ [''inbox.list''])"

text \<open>The raw readers among the tools a planner sees in a mode.\<close>

definition leaked_readers :: "execution_mode \<Rightarrow> posture \<Rightarrow> string list" where
  "leaked_readers mode po =
     sort (filter
       (\<lambda>n. n \<in> set (map td_name
               (filter_tools_for_mode untrusted_source_probe_tools mode (Some po))))
       UNTRUSTED_SOURCE_RAW_READERS)"

definition check_untrusted_source_exposure_floor ::
  "requirement \<Rightarrow> deployment_context \<Rightarrow> probe_fault + requirement_result" where
  "check_untrusted_source_exposure_floor req ctx =
     Inr (case find (\<lambda>m. leaked_readers m (dp_posture ctx) \<noteq> []) [DUAL_LLM, REFERENCE, SEALED] of
            Some m \<Rightarrow> result_of req False (ReadersLeaked (leaked_readers m (dp_posture ctx)) m)
          | None \<Rightarrow> result_of req True ReadersHidden)"

definition check_planner_blind_to_untrusted_source ::
  "requirement \<Rightarrow> deployment_context \<Rightarrow> probe_fault + requirement_result" where
  "check_planner_blind_to_untrusted_source req ctx =
     Inr (let po = dp_posture ctx; leaked = leaked_readers TURN_LEVEL po
          in if leaked \<noteq> []
             then result_of req False (PlannerSees (po_id po) (po_projection_only po) leaked)
             else result_of req True PlannerBlind)"

definition check_restricted_mode_floor ::
  "requirement \<Rightarrow> deployment_context \<Rightarrow> probe_fault + requirement_result" where
  "check_restricted_mode_floor req ctx =
     Inr (case select_mode (category_labels ''health'') []
                 \<lparr>mr_prefer_programmatic = False, mr_force_mode = None,
                  mr_has_sandbox_actuator = False, mr_session = None,
                  mr_posture = Some (dp_posture ctx)\<rparr> None of
            Inl _ \<Rightarrow> result_of req True ModeFailsClosed
          | Inr (mode, _) \<Rightarrow>
              if mode \<in> {TURN_LEVEL, DUAL_LLM, PROGRAMMATIC}
              then result_of req False (ModeExposes mode (po_id (dp_posture ctx)))
              else result_of req True (ModeRoutes mode))"

definition check_requirement ::
  "requirement \<Rightarrow> deployment_context \<Rightarrow> probe_fault + requirement_result" where
  "check_requirement req ctx =
     (case rq_kind req of
        NEVER_SILENT_EGRESS \<Rightarrow> check_never_silent_egress req ctx
      | DENY_EGRESS \<Rightarrow> check_deny_egress req ctx
      | UNTRUSTED_NEVER_EGRESS \<Rightarrow> check_untrusted_never_egress req ctx
      | UNTRUSTED_SOURCE_EXPOSURE_FLOOR \<Rightarrow> check_untrusted_source_exposure_floor req ctx
      | PLANNER_BLIND_TO_UNTRUSTED_SOURCE \<Rightarrow> check_planner_blind_to_untrusted_source req ctx
      | RESTRICTED_MODE_FLOOR \<Rightarrow> check_restricted_mode_floor req ctx)"

section \<open>Verification\<close>

definition builtin_requirement :: "string \<Rightarrow> requirement_kind \<Rightarrow> string \<Rightarrow> requirement" where
  "builtin_requirement rid k description =
     \<lparr>rq_id = rid, rq_kind = k, rq_description = description, rq_builtin = True,
      rq_category = None, rq_channels = []\<rparr>"

definition BUILTIN_REQUIREMENTS :: "requirement list" where
  "BUILTIN_REQUIREMENTS =
     [builtin_requirement ''builtin.untrusted-never-egress'' UNTRUSTED_NEVER_EGRESS
        ''External-untrusted provenance can never egress on any channel.'',
      builtin_requirement ''builtin.untrusted-source-exposure-floor''
        UNTRUSTED_SOURCE_EXPOSURE_FLOOR
        ''Untrusted-source raw readers are hidden in exposure-limited modes (#302).'',
      builtin_requirement ''builtin.restricted-mode-floor'' RESTRICTED_MODE_FLOOR
        ''Restricted-tier data never runs under a planner-exposing mode (FR-047).'']"

fun check_all ::
  "requirement list \<Rightarrow> deployment_context \<Rightarrow> probe_fault + requirement_result list" where
  "check_all [] ctx = Inr []"
| "check_all (req # reqs) ctx =
     (case check_requirement req ctx of
        Inl e \<Rightarrow> Inl e
      | Inr r \<Rightarrow> (case check_all reqs ctx of Inl e \<Rightarrow> Inl e | Inr rs \<Rightarrow> Inr (r # rs)))"

definition verify_requirements ::
  "deployment_context \<Rightarrow> requirement list \<Rightarrow> probe_fault + requirement_result list" where
  "verify_requirements ctx custom = check_all (BUILTIN_REQUIREMENTS @ custom) ctx"

datatype enforcement_fault = ProbeFault probe_fault | Violated "requirement_result list"

text \<open>On success, the numbers of the log line: all, built-in, operator, and the posture's id.\<close>

definition enforce_requirements ::
  "deployment_context \<Rightarrow> requirement list \<Rightarrow> enforcement_fault + nat \<times> nat \<times> nat \<times> string" where
  "enforce_requirements ctx custom =
     (case verify_requirements ctx custom of
        Inl e \<Rightarrow> Inl (ProbeFault e)
      | Inr results \<Rightarrow>
          if filter (\<lambda>r. \<not> rs_satisfied r) results \<noteq> [] then Inl (Violated results)
          else Inr (length results, length (filter (\<lambda>r. rq_builtin (rs_requirement r)) results),
                    length custom, po_id (dp_posture ctx)))"

section \<open>The requirements file\<close>

text \<open>
  Why a file is refused, one constructor per message. \<open>NotADict\<close> is the attribute error of a
  document that is no mapping.
\<close>

datatype requirement_error =
    ConfigMissing | ConfigUnparseable | NotADict | ListExpected | NotAnObject nat | MissingId nat
  | MissingKind nat string | UnknownKind nat string | ChannelsNotAList nat string
  | UnknownChannel nat string json | CategoryRequired nat string | ChannelsRequired nat string
  | DuplicateId nat string

datatype config_file = AbsentFile | BadYaml | YamlDoc json

fun parse_channels ::
  "(json \<Rightarrow> string) \<Rightarrow> nat \<Rightarrow> string \<Rightarrow> json list \<Rightarrow> requirement_error + capability_kind list" where
  "parse_channels text_of i rid [] = Inr []"
| "parse_channels text_of i rid (c # cs) =
     (case map_of CHANNEL_NAMES (py_lower (py_str text_of c)) of
        None \<Rightarrow> Inl (UnknownChannel i rid c)
      | Some k \<Rightarrow>
          (case parse_channels text_of i rid cs of Inl e \<Rightarrow> Inl e | Inr ks \<Rightarrow> Inr (k # ks)))"

definition parse_requirement ::
  "(json \<Rightarrow> string) \<Rightarrow> nat \<Rightarrow> json \<Rightarrow> requirement_error + requirement" where
  "parse_requirement text_of i raw =
     (case raw of
        JDict d \<Rightarrow>
          (case map_of d ''id'' of
             None \<Rightarrow> Inl (MissingId i)
           | Some idv \<Rightarrow>
          (let rid = py_str text_of idv in
           case map_of d ''kind'' of
             None \<Rightarrow> Inl (MissingKind i rid)
           | Some kv \<Rightarrow>
          (case enum_of requirement_kind_value requirement_kinds (py_str text_of kv) of
             Inl _ \<Rightarrow> Inl (UnknownKind i rid)
           | Inr k \<Rightarrow>
          (let description = py_str text_of (dict_get d ''description'' (JStr []));
               category = (case dict_get d ''category'' JNull of
                             JNull \<Rightarrow> None | c \<Rightarrow> Some (py_str text_of c));
               parsed = (case dict_get d ''channels'' JNull of
                           JNull \<Rightarrow> Inr []
                         | JList cs \<Rightarrow> parse_channels text_of i rid cs
                         | _ \<Rightarrow> Inl (ChannelsNotAList i rid))
           in case parsed of
                Inl e \<Rightarrow> Inl e
              | Inr channels \<Rightarrow>
                  if k \<in> {NEVER_SILENT_EGRESS, DENY_EGRESS} \<and> (category = None \<or> category = Some [])
                  then Inl (CategoryRequired i rid)
                  else if k = DENY_EGRESS \<and> channels = [] then Inl (ChannelsRequired i rid)
                  else Inr \<lparr>rq_id = rid, rq_kind = k, rq_description = description,
                            rq_builtin = False, rq_category = category,
                            rq_channels = channels\<rparr>))))
      | _ \<Rightarrow> Inl (NotAnObject i))"

fun parse_all ::
  "(json \<Rightarrow> string) \<Rightarrow> nat \<Rightarrow> string list \<Rightarrow> json list \<Rightarrow> requirement_error + requirement list" where
  "parse_all text_of i seen [] = Inr []"
| "parse_all text_of i seen (raw # raws) =
     (case parse_requirement text_of i raw of
        Inl e \<Rightarrow> Inl e
      | Inr req \<Rightarrow>
          if rq_id req \<in> set seen \<or> prefix ''builtin.'' (rq_id req)
          then Inl (DuplicateId i (rq_id req))
          else (case parse_all text_of (Suc i) (rq_id req # seen) raws of
                  Inl e \<Rightarrow> Inl e | Inr reqs \<Rightarrow> Inr (req # reqs)))"

definition load_requirements ::
  "(json \<Rightarrow> string) \<Rightarrow> config_file \<Rightarrow> requirement_error + requirement list" where
  "load_requirements text_of file =
     (case file of
        AbsentFile \<Rightarrow> Inl ConfigMissing
      | BadYaml \<Rightarrow> Inl ConfigUnparseable
      | YamlDoc JNull \<Rightarrow> Inr []
      | YamlDoc (JDict data) \<Rightarrow>
          (let raw_list = dict_get data ''requirements'' JNull
           in if \<not> truthy_json raw_list then Inr []
              else case raw_list of
                     JList raws \<Rightarrow> parse_all text_of 0 [] raws
                   | _ \<Rightarrow> Inl ListExpected)
      | YamlDoc _ \<Rightarrow> Inl NotADict)"

end
