(* ===== verification/RequirementProps.thy ===== *)
theory RequirementProps
  imports Requirements
begin

text \<open>
  What the requirement checks are worth. The built-in requirements hold in every deployment the
  checker can express, so only an operator's own requirement can stop the daemon; a satisfied
  requirement speaks for every probe; the probe's replay of the inspector guard agrees with the
  chokepoint wherever the inspectors answer alike, and an inspector that reads the session's labels
  shows where they need not.
\<close>

section \<open>A denied probe\<close>

lemma gate_denies:
  assumes "Some pd \<in> set (refusal_gates a)" and "sandbox_gate a = None" and "devbox_gate a = None"
  shows "pd_decision pd = DENY"
proof -
  have mem: "Some pd \<in> {control_plane_gate a, risk_citation_gate a, clearance_gate a, integrity_gate a}"
    using assms by (auto simp: refusal_gates_def)
  have "control_plane_gate a = Some pd \<Longrightarrow> ?thesis"
    by (auto simp: control_plane_gate_def split: option.splits if_splits)
  moreover have "risk_citation_gate a = Some pd \<Longrightarrow> ?thesis"
    by (auto simp: risk_citation_gate_def split: option.splits)
  moreover have "clearance_gate a = Some pd \<Longrightarrow> ?thesis"
    by (auto simp: clearance_gate_def split: option.splits)
  moreover have "integrity_gate a = Some pd \<Longrightarrow> ?thesis"
    by (auto simp: integrity_gate_def split: option.splits)
  ultimately show ?thesis using mem by auto
qed

text \<open>A conflict floor that denies and is not crossed leaves a denial on both composed paths.\<close>

lemma conflict_denies:
  assumes "leg = Some (DENY, rule, why)" and "\<not> crossed_leg leg crossed personal"
  shows "pd_decision (compose_with_conflict_invariant pd leg crossed personal) = DENY"
  using assms
  by (cases "pd_decision pd") (auto simp: compose_with_conflict_invariant_def crossed_leg_def)

lemma first_use_denies: "pd_decision pd = DENY \<Longrightarrow> pd_decision (first_use a pd) = DENY"
  by (simp add: first_use_def maybe_first_use_escalation_def)

lemma conflict_keeps_denial:
  "pd_decision pd = DENY \<Longrightarrow>
     pd_decision (compose_with_conflict_invariant pd leg crossed personal) = DENY"
  by (rule conflict_step.keeps_deny)

lemma compose_legs_denies:
  assumes "compose_legs a ct env = Inr pd" and leg: "conflict_leg a = Some (DENY, rule, why)"
    and uncrossed: "rule = PROVENANCE_EGRESS_RULE \<or> \<not> da_trust_profile_is_personal a"
  shows "pd_decision pd = DENY"
proof -
  have quiet: "\<not> crossed_leg (conflict_leg a) crossed (da_trust_profile_is_personal a)" for crossed
    using uncrossed by (auto simp: crossed_leg_def leg)
  have none: "\<not> crossed_leg (conflict_leg a) [] False" by (simp add: crossed_leg_def leg)
  have "(\<exists>axis_d eff v2. compose_full a axis_d eff v2 ct env = Inr pd)
      \<or> pd = compose_legacy_only a ct env"
    using assms(1) by (auto simp: compose_legs_def split: option.splits sum.splits)
  then show ?thesis
  proof
    assume "\<exists>axis_d eff v2. compose_full a axis_d eff v2 ct env = Inr pd"
    then obtain axis_d eff v2 c where pd: "pd = after_rules a axis_d eff v2 ct env c"
      unfolding compose_full_Inr by blast
    show ?thesis
      unfolding pd after_rules_def
      by (rule first_use_denies) (simp add: conflict_keeps_denial conflict_denies [OF leg quiet])
  next
    assume pd: "pd = compose_legacy_only a ct env"
    show ?thesis
      unfolding pd compose_legacy_only_def Let_def
      by (rule first_use_denies) (simp add: conflict_keeps_denial conflict_denies [OF leg none])
  qed
qed

lemma floor_denies:
  assumes "fst (decide a) = Inr pd" and "override_gate a = None"
    and "sandbox_gate a = None" and "devbox_gate a = None"
    and "conflict_leg a = Some (DENY, rule, why)"
    and "rule = PROVENANCE_EGRESS_RULE \<or> \<not> da_trust_profile_is_personal a"
  shows "pd_decision pd = DENY"
proof -
  obtain pd' where gated: "decide_gated a = Inr pd'" and pd: "pd = add_recovery a pd'"
    using assms(1,2) by (auto simp: decide_Inr decide_impl_no_override)
  have "pd_decision pd' = DENY"
  proof (cases "binding_gate a")
    case (Inl r)
    then have "pd' = r" using gated by (simp add: decide_gated_def)
    then show ?thesis by (simp add: binding_gate_Inl [OF Inl])
  next
    case (Inr ct)
    show ?thesis
    proof (cases "first_some (refusal_gates a)")
      case (Some r)
      then have "pd' = r" using gated Inr by (simp add: decide_gated_def)
      then show ?thesis using gate_denies [OF first_some_Some [OF Some] assms(3,4)] by simp
    next
      case None
      then obtain env where env: "envelope_leg a = Inr env"
        using gated Inr by (cases "envelope_leg a") (simp_all add: decide_gated_def)
      show ?thesis
      proof (cases "relax_gate a")
        case (Some r)
        then show ?thesis
          using gated Inr None env relax_gate_hard [OF Some] by (simp add: decide_gated_def)
      next
        case relax: None
        then have "compose_legs a ct env = Inr pd'"
          using gated Inr None env by (simp add: decide_gated_def)
        then show ?thesis by (rule compose_legs_denies [OF _ assms(5,6)])
      qed
    qed
  qed
  then show ?thesis by (simp add: pd)
qed

section \<open>The probes of the egress channels\<close>

lemma probe_args_sel [simp]:
  "a_kind (da_action (probe_args ctx labels k target)) = BuiltIn k"
  "da_labels (probe_args ctx labels k target) = Some labels"
  "da_override_grants (probe_args ctx labels k target) = None"
  "da_default_v2_outcome (probe_args ctx labels k target) = RO_SUGGEST"
  "da_envelope_set (probe_args ctx labels k target) = None"
  "da_trust_profile_is_personal (probe_args ctx labels k target) = dp_trust_profile_is_personal ctx"
  by (simp_all add: probe_args_def split: prod.split)

lemma probe_eff_labels [simp]: "eff_labels (probe_args ctx labels k target) = labels"
  by (simp add: eff_labels_def)

lemma probe_override [simp]: "override_gate (probe_args ctx labels k target) = None"
  by (simp add: override_gate_def)

lemma probe_decides: "\<exists>pd. fst (decide (probe_args ctx labels k target)) = Inr pd"
  by (rule decide_returns) (simp add: well_configured_def)

lemma probe_effect:
  assumes "k \<in> set EGRESS_CHANNELS"
  shows "da_effect_class (probe_args ctx labels k target)
    \<in> {Some ''social.send_email'', Some ''social.send_message'', Some ''commerce.purchase''}"
  using assms
  by (auto simp: probe_args_def EGRESS_CHANNELS_def CHANNEL_EFFECT_def dict_get_def)

lemma probe_no_region:
  assumes "k \<in> set EGRESS_CHANNELS"
  shows "sandbox_gate (probe_args ctx labels k target) = None"
    and "devbox_gate (probe_args ctx labels k target) = None"
  using probe_effect [OF assms, of ctx labels target]
  by (auto simp: sandbox_gate_def devbox_gate_def py_lower_def char_lower_def)

lemma probe_denied:
  assumes "k \<in> set EGRESS_CHANNELS"
    and "conflict_leg (probe_args ctx labels k target) = Some (DENY, rule, why)"
    and "rule = PROVENANCE_EGRESS_RULE \<or> \<not> dp_trust_profile_is_personal ctx"
  obtains pd where "fst (decide (probe_args ctx labels k target)) = Inr pd"
    and "pd_decision pd = DENY"
proof -
  obtain pd where pd: "fst (decide (probe_args ctx labels k target)) = Inr pd"
    using probe_decides by blast
  have "pd_decision pd = DENY"
    using assms(3) by (intro floor_denies [OF pd probe_override probe_no_region [OF assms(1)] assms(2)]) simp
  with pd show thesis by (rule that)
qed

text \<open>No inspector loosens a denial, and none is stricter.\<close>

lemma guarded_DENY: "guarded DENY (compose_inspector_outcomes DENY outcomes) = DENY"
proof (cases "compose_inspector_outcomes DENY outcomes")
  case (Some adj)
  obtain new rule why where adj: "adj = (new, rule, why)" by (cases adj)
  show ?thesis
    unfolding Some adj
    by (cases new) (simp_all add: guarded_def is_strictly_less_restrictive_def)
qed (simp add: guarded_def)

lemma probe_inspectors_DENY:
  "pd_decision base = DENY \<Longrightarrow> probe_inspectors base act is = Inr d \<Longrightarrow> d = DENY"
  by (auto simp: probe_inspectors_def guarded_DENY split: if_splits sum.splits)

lemma denied_floor_holds:
  assumes "k \<in> set EGRESS_CHANNELS"
    and "conflict_leg (probe_args ctx labels k target) = Some (DENY, rule, why)"
    and "rule = PROVENANCE_EGRESS_RULE \<or> \<not> dp_trust_profile_is_personal ctx"
    and "effective_decision ctx labels k target = Inr d"
  shows "d = DENY"
proof -
  obtain pd where "fst (decide (probe_args ctx labels k target)) = Inr pd"
    and "pd_decision pd = DENY"
    by (rule probe_denied [OF assms(1-3)])
  then show ?thesis
    using assms(4) probe_inspectors_DENY
    by (auto simp: effective_decision_def Let_def split: sum.splits)
qed

lemma first_bad_None:
  "first_bad bad ctx labels ps = Inr None \<longleftrightarrow>
     (\<forall>(k, target) \<in> set ps. \<exists>d. effective_decision ctx labels k target = Inr d \<and> \<not> bad d)"
  by (induction bad ctx labels ps rule: first_bad.induct) (auto split: sum.splits)

lemma first_bad_Some:
  "first_bad bad ctx labels ps = Inr (Some (k, target, d)) \<Longrightarrow>
     (k, target) \<in> set ps \<and> effective_decision ctx labels k target = Inr d \<and> bad d"
  by (induction bad ctx labels ps rule: first_bad.induct) (auto split: sum.splits if_splits)

lemma first_bad_Inl:
  "first_bad bad ctx labels ps = Inl e \<Longrightarrow>
     \<exists>k target. effective_decision ctx labels k target = Inl e"
  by (induction bad ctx labels ps rule: first_bad.induct) (auto split: sum.splits if_splits)

lemma in_egress_probes:
  "(k, target) \<in> set (egress_probes ks is) \<longleftrightarrow> k \<in> set ks \<and> target \<in> set (egress_targets k is)"
  by (auto simp: egress_probes_def)

text \<open>The three checkers that probe egress, as statements about every probe.\<close>

lemma check_deny_egress_unmet:
  assumes "check_deny_egress req ctx = Inr r" and "\<not> rs_satisfied r"
  obtains k target d where "k \<in> set (rq_channels req)"
    and "target \<in> set (egress_targets k (dp_decision_inspectors ctx))"
    and "effective_decision ctx (category_labels (category_of req)) k target = Inr d" and "d \<noteq> DENY"
proof -
  let ?ps = "egress_probes (rq_channels req) (dp_decision_inspectors ctx)"
  obtain k target d where "first_bad (\<lambda>d. d \<noteq> DENY) ctx (category_labels (category_of req)) ?ps
      = Inr (Some (k, target, d))"
    using assms
    by (auto simp: check_deny_egress_def result_of_def split: sum.splits option.splits)
  from first_bad_Some [OF this] show thesis by (auto simp: in_egress_probes intro: that)
qed

lemma check_deny_egress_met:
  assumes "check_deny_egress req ctx = Inr r" and "rs_satisfied r"
    and "k \<in> set (rq_channels req)"
    and "target \<in> set (egress_targets k (dp_decision_inspectors ctx))"
  shows "effective_decision ctx (category_labels (category_of req)) k target = Inr DENY"
proof -
  let ?ps = "egress_probes (rq_channels req) (dp_decision_inspectors ctx)"
  have "first_bad (\<lambda>d. d \<noteq> DENY) ctx (category_labels (category_of req)) ?ps = Inr None"
    using assms(1,2)
    by (auto simp: check_deny_egress_def result_of_def split: sum.splits option.splits)
  then show ?thesis using assms(3,4) by (auto simp: first_bad_None in_egress_probes)
qed

lemma untrusted_conflict:
  assumes "k \<in> set EGRESS_CHANNELS"
  shows "\<exists>why. conflict_leg (probe_args ctx untrusted_labels k target)
    = Some (DENY, PROVENANCE_EGRESS_RULE, why)"
  using assms
  by (intro conflict_leg_untrusted)
    (auto simp: EGRESS_CHANNELS_def EGRESS_KINDS_def kind_in_def kind_eq_def untrusted_labels_def
      levels_def)

lemma check_untrusted_satisfied:
  assumes "check_untrusted_never_egress req ctx = Inr r"
  shows "rs_requirement r = req \<and> rs_satisfied r"
proof -
  let ?ps = "egress_probes EGRESS_CHANNELS (dp_decision_inspectors ctx)"
  obtain x where x: "first_bad (\<lambda>d. d \<noteq> DENY) ctx untrusted_labels ?ps = Inr x"
    using assms by (auto simp: check_untrusted_never_egress_def split: sum.splits)
  have "x = None"
  proof (rule ccontr)
    assume "x \<noteq> None"
    then obtain k target d where "x = Some (k, target, d)" by (cases x) auto
    then have "(k, target) \<in> set ?ps" and run: "effective_decision ctx untrusted_labels k target = Inr d"
      and bad: "d \<noteq> DENY"
      using first_bad_Some [of "\<lambda>d. d \<noteq> DENY" ctx untrusted_labels ?ps k target d] x by auto
    then have k: "k \<in> set EGRESS_CHANNELS" by (simp add: in_egress_probes)
    obtain why where "conflict_leg (probe_args ctx untrusted_labels k target)
        = Some (DENY, PROVENANCE_EGRESS_RULE, why)"
      using untrusted_conflict [OF k] by blast
    then show False using denied_floor_holds [OF k _ _ run] bad by simp
  qed
  then show ?thesis
    using assms x by (auto simp: check_untrusted_never_egress_def result_of_def)
qed

section \<open>The other built-in checks\<close>

lemma limited_modes_leak_nothing:
  assumes "exposure_limited m"
  shows "leaked_readers m po = []"
proof -
  have "filter (\<lambda>n. n \<in> set (map td_name
          (filter_tools_for_mode untrusted_source_probe_tools m (Some po))))
       UNTRUSTED_SOURCE_RAW_READERS = []"
    using assms by (auto simp: filter_tools_for_mode_def Let_def filter_empty_conv)
  then show ?thesis by (simp only: leaked_readers_def sort_key_simps)
qed

lemma check_exposure_satisfied:
  "check_untrusted_source_exposure_floor req ctx = Inr (result_of req True ReadersHidden)"
  by (simp add: check_untrusted_source_exposure_floor_def limited_modes_leak_nothing
      exposure_limited_def)

lemma check_mode_satisfied:
  "check_restricted_mode_floor req ctx = Inr (result_of req True ModeFailsClosed)"
  by (simp add: check_restricted_mode_floor_def select_mode_def select_mode_inner_def category_labels_def
      CATEGORY_TIER_def dict_get_def handles_usable_def tool_surface_offers_handles_def
      sandbox_usable_def select_mode_for_restricted_def)

lemma check_all_Inr:
  "check_all reqs ctx = Inr results \<Longrightarrow>
     list_all2 (\<lambda>req r. check_requirement req ctx = Inr r) reqs results"
  by (induction reqs arbitrary: results) (auto split: sum.splits)

lemma check_all_Inl:
  "check_all reqs ctx = Inl e \<Longrightarrow> \<exists>req \<in> set reqs. check_requirement req ctx = Inl e"
  by (induction reqs ctx rule: check_all.induct) (auto split: sum.splits)

lemma builtin_satisfied:
  assumes "req \<in> set BUILTIN_REQUIREMENTS" and "check_requirement req ctx = Inr r"
  shows "rs_requirement r = req \<and> rs_satisfied r"
  using assms check_untrusted_satisfied [of req ctx r]
  by (auto simp: BUILTIN_REQUIREMENTS_def builtin_requirement_def check_requirement_def
      check_exposure_satisfied check_mode_satisfied result_of_def)

lemma verify_fault:
  assumes "verify_requirements ctx custom = Inl e"
  shows "\<exists>exc. e = InspectorRaised exc
     \<and> (\<exists>i \<in> set (dp_decision_inspectors ctx). \<exists>a base. qi_inspect i a empty_state base = Inl exc)"
proof -
  have outcomes: "probe_outcomes is a base = Inl exc \<Longrightarrow>
      \<exists>i \<in> set is. qi_inspect i a empty_state base = Inl exc" for "is" a base exc
    by (induction "is" a base rule: probe_outcomes.induct) (auto split: sum.splits)
  have probe: "\<exists>exc. e = InspectorRaised exc
     \<and> (\<exists>i \<in> set (dp_decision_inspectors ctx). \<exists>a base. qi_inspect i a empty_state base = Inl exc)"
    if run: "effective_decision ctx labels k target = Inl e" for labels k target
  proof -
    obtain pd where pd: "fst (decide (probe_args ctx labels k target)) = Inr pd"
      using probe_decides by blast
    let ?is = "dp_decision_inspectors ctx"
    let ?act = "da_action (probe_args ctx labels k target)"
    have fault: "(case probe_inspectors pd ?act ?is of
        Inl exc \<Rightarrow> Inl (InspectorRaised exc) | Inr d \<Rightarrow> Inr d) = (Inl e :: probe_fault + decision)"
      using run by (simp add: effective_decision_def pd)
    obtain exc where exc: "probe_inspectors pd ?act ?is = Inl exc" "e = InspectorRaised exc"
      using fault by (cases "probe_inspectors pd ?act ?is") auto
    have "probe_outcomes ?is (probed_action ?act) pd = Inl exc"
      using exc(1) by (auto simp: probe_inspectors_def split: if_splits sum.splits)
    then have "\<exists>i \<in> set ?is. qi_inspect i (probed_action ?act) empty_state pd = Inl exc"
      by (rule outcomes)
    then show ?thesis using exc(2) by blast
  qed
  obtain req where "check_requirement req ctx = Inl e"
    using check_all_Inl assms unfolding verify_requirements_def by blast
  then have "\<exists>bad labels ps. first_bad bad ctx labels ps = Inl e"
    unfolding check_requirement_def check_never_silent_egress_def check_deny_egress_def
      check_untrusted_never_egress_def check_untrusted_source_exposure_floor_def
      check_planner_blind_to_untrusted_source_def check_restricted_mode_floor_def
    by (auto split: requirement_kind.splits sum.splits option.splits)
  then obtain labels k target where "effective_decision ctx labels k target = Inl e"
    using first_bad_Inl by blast
  then show ?thesis by (rule probe)
qed

text \<open>A deployment without inspectors always gets its answers.\<close>

definition plain_context :: deployment_context where
  "plain_context =
     \<lparr>dp_posture = \<lparr>po_id = ''strict'', po_flow_pattern_defaults = [], po_projection_only = True\<rparr>,
      dp_risk_preference = CAUTIOUS, dp_decision_inspectors = [], dp_clearance_max_tier = None,
      dp_trust_profile_is_personal = False, dp_rules_v2 = None, dp_fresh_id = 5,
      dp_clock = (\<lambda>_. 0), dp_netloc_ok = (\<lambda>_. True)\<rparr>"

lemma plain_answers: "\<exists>results. verify_requirements plain_context custom = Inr results"
  by (cases "verify_requirements plain_context custom") (auto dest: verify_fault simp: plain_context_def)

definition health_requirement :: requirement where
  "health_requirement =
     \<lparr>rq_id = ''op.health'', rq_kind = DENY_EGRESS, rq_description = [], rq_builtin = False,
      rq_category = Some ''health'', rq_channels = [SEND_EMAIL, QUEUE_PURCHASE]\<rparr>"

section \<open>What stops the daemon\<close>

text \<open>
  C21: whenever the checks of all requirements answer, that is, no inspector raises under a probe, the
  three built-in requirements are met, under every posture, clearance, trust profile and rule set, so
  that the daemon's start is then refused for an unmet requirement exactly when one of the
  operator's own is unmet.
\<close>

theorem builtin_requirements_always_hold:
  assumes "verify_requirements ctx custom = Inr results"
  shows "map rs_requirement (take 3 results) = BUILTIN_REQUIREMENTS
   \<and> list_all rs_satisfied (take 3 results)
   \<and> (enforce_requirements ctx custom = Inl (Violated results)
       \<longleftrightarrow> (\<exists>r \<in> set (drop 3 results). \<not> rs_satisfied r))"
proof -
  have three: "length BUILTIN_REQUIREMENTS = 3" by (simp add: BUILTIN_REQUIREMENTS_def)
  have "list_all2 (\<lambda>req r. check_requirement req ctx = Inr r) (BUILTIN_REQUIREMENTS @ custom) results"
    using check_all_Inr assms unfolding verify_requirements_def by blast
  then have "list_all2 (\<lambda>req r. check_requirement req ctx = Inr r) BUILTIN_REQUIREMENTS (take 3 results)"
    using three by (auto simp: list_all2_append1)
  then have built: "list_all2 (\<lambda>req r. rs_requirement r = req \<and> rs_satisfied r)
      BUILTIN_REQUIREMENTS (take 3 results)"
    by (rule list.rel_mono_strong) (rule builtin_satisfied)
  then have same: "map rs_requirement (take 3 results) = BUILTIN_REQUIREMENTS"
    by (auto simp: list_all2_conv_all_nth intro: nth_equalityI)
  have ok: "list_all rs_satisfied (take 3 results)"
    using built by (auto simp: list_all2_conv_all_nth list_all_length)
  have "set results = set (take 3 results) \<union> set (drop 3 results)"
    by (metis append_take_drop_id set_append)
  then have "filter (\<lambda>r. \<not> rs_satisfied r) results \<noteq> []
      \<longleftrightarrow> (\<exists>r \<in> set (drop 3 results). \<not> rs_satisfied r)"
    using ok by (auto simp: filter_empty_conv list_all_iff)
  then have "enforce_requirements ctx custom = Inl (Violated results)
      \<longleftrightarrow> (\<exists>r \<in> set (drop 3 results). \<not> rs_satisfied r)"
    by (simp add: enforce_requirements_def assms)
  then show ?thesis using same ok by blast
qed

theorem builtin_requirements_always_hold_witness:
  "\<exists>results. verify_requirements plain_context [health_requirement] = Inr results
     \<and> list_all rs_satisfied (take 3 results)"
proof -
  obtain results where run: "verify_requirements plain_context [health_requirement] = Inr results"
    using plain_answers by blast
  from builtin_requirements_always_hold [OF run] run show ?thesis by blast
qed

text \<open>
  A check fails to answer only because an inspector raised while it was shown a probe; the
  engine itself always answers it.
\<close>

theorem checks_fail_only_by_inspectors:
  assumes "verify_requirements ctx custom = Inl e"
  shows "\<exists>exc. e = InspectorRaised exc
     \<and> (\<exists>i \<in> set (dp_decision_inspectors ctx). \<exists>a base. qi_inspect i a empty_state base = Inl exc)"
  by (rule verify_fault [OF assms])

theorem checks_fail_only_by_inspectors_witness:
  "\<exists>e. verify_requirements (plain_context\<lparr>dp_decision_inspectors :=
         [\<lparr>qi_name = ''broken'', qi_self_addresses = [], qi_inspect = (\<lambda>a l pd. Inl ''boom'')\<rparr>]\<rparr>) [] = Inl e
     \<and> (\<exists>exc. e = InspectorRaised exc)"
proof -
  let ?ctx = "plain_context\<lparr>dp_decision_inspectors :=
    [\<lparr>qi_name = ''broken'', qi_self_addresses = [], qi_inspect = (\<lambda>a l pd. Inl ''boom'')\<rparr>]\<rparr>"
  have "effective_decision ?ctx labels k target = Inl (InspectorRaised ''boom'')" for labels k target
  proof -
    obtain pd where "fst (decide (probe_args ?ctx labels k target)) = Inr pd" using probe_decides by blast
    then show ?thesis by (simp add: effective_decision_def probe_inspectors_def)
  qed
  then have "verify_requirements ?ctx [] = Inl (InspectorRaised ''boom'')"
    by (simp add: verify_requirements_def BUILTIN_REQUIREMENTS_def builtin_requirement_def
        check_requirement_def check_untrusted_never_egress_def egress_probes_def egress_targets_def
        EGRESS_CHANNELS_def)
  from checks_fail_only_by_inspectors [OF this] this show ?thesis by blast
qed

text \<open>
  In the managed profile a requirement that health data be denied on the three egress channels,
  or financial data on mail and messages, is met whatever the posture, the rules and the inspectors.
\<close>

theorem confidential_denials_are_met:
  assumes "check_deny_egress req ctx = Inr r" and "\<not> dp_trust_profile_is_personal ctx"
    and "category_of req = ''health'' \<and> set (rq_channels req) \<subseteq> {SEND_EMAIL, SEND_MESSAGE, QUEUE_PURCHASE}
      \<or> category_of req = ''financial'' \<and> set (rq_channels req) \<subseteq> {SEND_EMAIL, SEND_MESSAGE}"
  shows "rs_satisfied r"
proof (rule ccontr)
  assume "\<not> rs_satisfied r"
  then obtain k target d where k: "k \<in> set (rq_channels req)"
    and run: "effective_decision ctx (category_labels (category_of req)) k target = Inr d"
    and bad: "d \<noteq> DENY"
    by (rule check_deny_egress_unmet [OF assms(1)])
  have channel: "k \<in> set EGRESS_CHANNELS" using k assms(3) by (auto simp: EGRESS_CHANNELS_def)
  have "\<exists>rule why. conflict_leg (probe_args ctx (category_labels (category_of req)) k target)
      = Some (DENY, rule, why)"
    using k assms(3)
    by (auto simp: conflict_leg_def conflict_invariant_outcome_def category_labels_def kind_eq_def
        levels_def Let_def)
  then obtain rule why where "conflict_leg (probe_args ctx (category_labels (category_of req)) k target)
      = Some (DENY, rule, why)" by blast
  then show False using denied_floor_holds [OF channel _ _ run] assms(2) bad by blast
qed

theorem confidential_denials_are_met_witness:
  "\<exists>r. check_deny_egress health_requirement plain_context = Inr r \<and> rs_satisfied r"
proof -
  obtain results where "check_all (BUILTIN_REQUIREMENTS @ [health_requirement]) plain_context = Inr results"
    using plain_answers [of "[health_requirement]"] unfolding verify_requirements_def by blast
  from check_all_Inr [OF this] obtain r where "check_requirement health_requirement plain_context = Inr r"
    by (auto simp: list_all2_append1 list_all2_Cons1)
  then have run: "check_deny_egress health_requirement plain_context = Inr r"
    by (simp add: check_requirement_def health_requirement_def)
  have "rs_satisfied r"
    by (rule confidential_denials_are_met [OF run])
      (simp_all add: plain_context_def health_requirement_def category_of_def)
  with run show ?thesis by blast
qed

section \<open>Probe and chokepoint\<close>

text \<open>
  The inspectors the dispatcher runs answer a call as the probed ones answer the probe.
\<close>

definition answers_alike ::
  "hook_primitive list \<Rightarrow> probed_inspector list \<Rightarrow> inspected_action \<Rightarrow> session \<Rightarrow> action
   \<Rightarrow> policy_decision \<Rightarrow> bool" where
  "answers_alike ps is a s act base \<longleftrightarrow>
     list_all2 (\<lambda>p i. primitive_name p = qi_name i
       \<and> inspect_with p a s base = qi_inspect i (probed_action act) empty_state base) ps is"

lemma probe_outcomes_alike:
  assumes "answers_alike ps is a s act base"
    and "probe_outcomes is (probed_action act) base = Inr outcomes"
  shows "snd (run_inspectors ps a s base sid g) = Inr outcomes"
  using assms unfolding answers_alike_def
proof (induction ps "is" arbitrary: outcomes rule: list_all2_induct)
  case (Cons p ps i "is")
  from Cons.prems obtain answer rest where answer:
      "qi_inspect i (probed_action act) empty_state base = Inr answer"
    and rest: "probe_outcomes is (probed_action act) base = Inr rest"
    and out: "outcomes = (case answer of None \<Rightarrow> rest | Some x \<Rightarrow> (qi_name i, x) # rest)"
    by (auto split: sum.splits)
  obtain g' where "run_inspectors ps a s base sid g = (g', Inr rest)"
    using Cons.IH [OF rest] by (cases "run_inspectors ps a s base sid g") auto
  then show ?case using Cons.hyps(1) answer out by (auto split: option.split)
qed simp

lemma adjusted_decision:
  "pd_decision (snd (apply_adjustment tool adj base sid g)) = guarded (pd_decision base) (Some adj)"
  by (auto simp: apply_adjustment_def guarded_def split: prod.split)

text \<open>
  An inspector that looks at the labels of the session: it lets labeled sessions send.
\<close>

definition trusting_answer :: "label_state \<Rightarrow> inspector_outcome option" where
  "trusting_answer l =
     (if ls_a l \<noteq> [] then Some (DecisionRelax ALLOW ''own-data'' ''the user's own data'') else None)"

definition trusting_probed :: probed_inspector where
  "trusting_probed =
     \<lparr>qi_name = ''trusting'', qi_self_addresses = [], qi_inspect = (\<lambda>a l pd. Inr (trusting_answer l))\<rparr>"

definition trusting_hook :: hook_primitive where
  "trusting_hook =
     Deciding \<lparr>di_name = ''trusting'', di_failure_mode = ''deny'',
       di_inspect = (\<lambda>a s pd. Inr (trusting_answer (s_label_state s)))\<rparr>"

text \<open>
  The inspector stage of a requirement check is that of the chokepoint: from one and the same base
  decision, and with inspectors that answer a call the way they answer the probe, the decision after
  the dispatcher's inspectors is the one the checker reaches, when no inspector raises under the
  probe. (That both start from one base decision is not claimed: their arguments differ.)
\<close>

theorem probe_agrees_with_chokepoint:
  assumes "answers_alike ps inspectors a s act base" and "probe_inspectors base act inspectors = Inr d"
  shows "pd_decision (snd (apply_decision_inspectors ps a s base sid g)) = d"
proof (cases "inspectors = []")
  case True
  then show ?thesis
    using assms by (auto simp: answers_alike_def probe_inspectors_def apply_decision_inspectors_def
        compose_inspector_outcomes_def)
next
  case False
  then obtain outcomes where outcomes: "probe_outcomes inspectors (probed_action act) base = Inr outcomes"
    and d: "d = guarded (pd_decision base) (compose_inspector_outcomes (pd_decision base) outcomes)"
    using assms(2) by (auto simp: probe_inspectors_def split: sum.splits)
  obtain g' where "run_inspectors ps a s base sid g = (g', Inr outcomes)"
    using probe_outcomes_alike [OF assms(1) outcomes, of sid g]
    by (cases "run_inspectors ps a s base sid g") auto
  then show ?thesis
    unfolding d apply_decision_inspectors_def
    by (cases "compose_inspector_outcomes (pd_decision base) outcomes")
      (simp_all add: adjusted_decision, simp_all add: guarded_def)
qed

lemmas inspector_eval = probe_inspectors_def trusting_probed_def trusting_answer_def
  trusting_hook_def inspect_with_def guarded_def compose_inspector_outcomes_def tightening_def
  relaxing_def apply_decision_inspectors_def apply_adjustment_def is_strictly_less_restrictive_def
  is_strictly_more_restrictive_def empty_state_def Let_def

theorem probe_agrees_with_chokepoint_witness:
  "pd_decision (snd (apply_decision_inspectors [trusting_hook] (probed_action mail) (Session_new 3 0)
       (PolicyDecision REQUIRE_APPROVAL None None None) 3 empty_graph)) = REQUIRE_APPROVAL"
  by (rule probe_agrees_with_chokepoint [where act = mail and inspectors = "[trusting_probed]"])
    (simp_all add: answers_alike_def inspector_eval Session_new_def)

text \<open>
  The probe shows an inspector an empty label state whatever the data is labeled with, so the
  checker does not see an inspector that relaxes for labeled sessions: it reports the base
  decision, and the chokepoint allows the call.
\<close>

theorem probe_misses_label_reading_inspector:
  assumes "pd_decision base = REQUIRE_APPROVAL" and "ls_a (s_label_state s) \<noteq> []"
  shows "probe_inspectors base act [trusting_probed] = Inr REQUIRE_APPROVAL
    \<and> pd_decision (snd (apply_decision_inspectors [trusting_hook] a s base sid g)) = ALLOW"
  using assms by (simp add: inspector_eval)

theorem probe_misses_label_reading_inspector_witness:
  "pd_decision (snd (apply_decision_inspectors [trusting_hook] (probed_action mail)
       ((Session_new 3 0)\<lparr>s_label_state := tagged RESTRICTED\<rparr>)
       (PolicyDecision REQUIRE_APPROVAL None None None) 3 empty_graph)) = ALLOW"
  by (rule conjunct2 [OF probe_misses_label_reading_inspector [where act = mail]])
    (simp_all add: tagged_def)

section \<open>The requirements file\<close>

lemma parse_requirement_wf:
  assumes "parse_requirement text_of i raw = Inr req"
  shows "\<not> rq_builtin req
    \<and> (rq_kind req \<in> {NEVER_SILENT_EGRESS, DENY_EGRESS} \<longrightarrow> (\<exists>c. rq_category req = Some c \<and> c \<noteq> []))
    \<and> (rq_kind req = DENY_EGRESS \<longrightarrow> rq_channels req \<noteq> [])"
  using assms
  by (auto simp: parse_requirement_def Let_def split: json.splits option.splits sum.splits if_splits)

lemma parse_all_wf:
  assumes "parse_all text_of i seen raws = Inr reqs"
  shows "distinct (map rq_id reqs) \<and> set (map rq_id reqs) \<inter> set seen = {}
    \<and> (\<forall>req \<in> set reqs. \<not> prefix ''builtin.'' (rq_id req)
         \<and> (\<exists>j raw. parse_requirement text_of j raw = Inr req))"
  using assms
proof (induction text_of i seen raws arbitrary: reqs rule: parse_all.induct)
  case (2 text_of i seen raw raws)
  from "2.prems" obtain req rest where req: "parse_requirement text_of i raw = Inr req"
    and new: "rq_id req \<notin> set seen" "\<not> prefix ''builtin.'' (rq_id req)"
    and rest: "parse_all text_of (Suc i) (rq_id req # seen) raws = Inr rest"
    and reqs: "reqs = req # rest"
    by (auto split: sum.splits if_splits)
  have "\<not> (rq_id req \<in> set seen \<or> prefix ''builtin.'' (rq_id req))" using new by simp
  note "2.IH" [OF req this rest]
  then show ?case using req new by (auto simp: reqs)
qed simp

lemma builtin_ids: "req \<in> set BUILTIN_REQUIREMENTS \<Longrightarrow> prefix ''builtin.'' (rq_id req)"
  by (auto simp: BUILTIN_REQUIREMENTS_def builtin_requirement_def)

text \<open>
  The requirements a file adds never stand for or hide a built-in one: with the built-in ones
  their ids are pairwise different, none is marked built-in, and each that speaks of a category or
  of channels names them.
\<close>

theorem loaded_requirements_well_formed:
  assumes "load_requirements text_of file = Inr custom"
  shows "distinct (map rq_id (BUILTIN_REQUIREMENTS @ custom))
   \<and> (\<forall>req \<in> set custom. \<not> rq_builtin req
        \<and> (rq_kind req \<in> {NEVER_SILENT_EGRESS, DENY_EGRESS} \<longrightarrow>
             (\<exists>c. rq_category req = Some c \<and> c \<noteq> []))
        \<and> (rq_kind req = DENY_EGRESS \<longrightarrow> rq_channels req \<noteq> []))"
proof -
  have "\<exists>raws. parse_all text_of 0 [] raws = Inr custom"
  proof -
    have "custom = [] \<or> (\<exists>raws. parse_all text_of 0 [] raws = Inr custom)"
      using assms
      by (auto simp: load_requirements_def Let_def split: config_file.splits json.splits if_splits)
    moreover have "parse_all text_of 0 [] [] = Inr []" by simp
    ultimately show ?thesis by blast
  qed
  then obtain raws where raws: "parse_all text_of 0 [] raws = Inr custom" by blast
  note wf = parse_all_wf [OF raws]
  have "distinct (map rq_id BUILTIN_REQUIREMENTS)"
    by (simp add: BUILTIN_REQUIREMENTS_def builtin_requirement_def)
  moreover have "set (map rq_id BUILTIN_REQUIREMENTS) \<inter> set (map rq_id custom) = {}"
    using wf builtin_ids by fastforce
  ultimately show ?thesis using wf parse_requirement_wf by fastforce
qed

definition sample_file :: config_file where
  "sample_file = YamlDoc (JDict [(''requirements'', JList
     [JDict [(''id'', JStr ''op.h''), (''kind'', JStr ''deny_egress''), (''category'', JStr ''health''),
        (''channels'', JList [JStr ''send_email''])]])])"

theorem loaded_requirements_well_formed_witness:
  "\<exists>custom. load_requirements (\<lambda>_. []) sample_file = Inr custom \<and> custom \<noteq> []
     \<and> distinct (map rq_id (BUILTIN_REQUIREMENTS @ custom))"
proof -
  have "\<exists>custom. load_requirements (\<lambda>_. []) sample_file = Inr custom \<and> custom \<noteq> []"
    by (simp add: load_requirements_def sample_file_def dict_get_def truthy_json_def
        parse_requirement_def enum_of_def requirement_kinds_def CHANNEL_NAMES_def py_lower_def
        char_lower_def Let_def)
  then obtain custom where run: "load_requirements (\<lambda>_. []) sample_file = Inr custom" "custom \<noteq> []"
    by blast
  from loaded_requirements_well_formed [OF run(1)] run show ?thesis by blast
qed

end
