(* ===== verification/ConfigFiles.thy ===== *)
theory ConfigFiles
  imports Requirements Upstream
begin

text \<open>
  What the readers of the operator's configuration files share: the shape of a file (a mapping with
  one list under a known key), the loop over its entries, and the conversions of their fields. A
  file arrives as the value its YAML text stands for. The readers raise one exception class each,
  with a message; an error here is its place in the file. The locale \<open>keyed_loader\<close> is the contract
  of a reader whose entries have keys.
\<close>

section \<open>Files\<close>

datatype config_error =
    FileMissing | FileUnparseable | FileNotAMapping | FileListExpected
  | EntryNotAnObject nat | EntryInvalid nat | EntryDuplicate nat | EntryFieldInvalid nat string
  | EntryPartInvalid nat nat | SectionInvalid string | ConfigRaised py_error

text \<open>
  \<open>data.get(key) or []\<close>, after the checks that come before it. A document that is no mapping has
  no \<open>get\<close>: an attribute error.
\<close>

definition config_list :: "string \<Rightarrow> config_file \<Rightarrow> config_error + json list" where
  "config_list key file =
     (case file of
        AbsentFile \<Rightarrow> Inl FileMissing
      | BadYaml \<Rightarrow> Inl FileUnparseable
      | YamlDoc JNull \<Rightarrow> Inr []
      | YamlDoc (JDict data) \<Rightarrow>
          (let raw = dict_get data key JNull
           in if \<not> truthy_json raw then Inr []
              else case raw of JList raws \<Rightarrow> Inr raws | _ \<Rightarrow> Inl FileListExpected)
      | YamlDoc _ \<Rightarrow> Inl (ConfigRaised AttributeError))"

text \<open>
  \<open>str\<close>, \<open>int\<close> and \<open>dict\<close> of values that are not already of the type. A reader that keeps a value
  as it is (\<open>item.get(key)\<close>) keeps it as the value it is, text or not.
\<close>

record conversions =
  cv_text :: "json \<Rightarrow> string"
  cv_int :: "json \<Rightarrow> py_error + int"
  cv_dict :: "json \<Rightarrow> py_error + (string \<times> json) list"

definition to_text :: "conversions \<Rightarrow> json \<Rightarrow> string" where
  "to_text cv v = py_str (cv_text cv) v"

definition to_int :: "conversions \<Rightarrow> json \<Rightarrow> py_error + int" where
  "to_int cv v = (case v of JInt i \<Rightarrow> Inr i | _ \<Rightarrow> cv_int cv v)"

text \<open>\<open>[str(x) for x in (item.get(key) or [])]\<close>.\<close>

definition texts_at :: "conversions \<Rightarrow> (string \<times> json) list \<Rightarrow> string \<Rightarrow> config_error + string list" where
  "texts_at cv item key =
     (let raw = dict_get item key JNull
      in if \<not> truthy_json raw then Inr []
         else case iterated raw of
                Inl e \<Rightarrow> Inl (ConfigRaised e) | Inr vs \<Rightarrow> Inr (map (to_text cv) vs))"

section \<open>Entries\<close>

text \<open>
  The loop of a reader: the entries in order, each read knowing the keys read before it.
\<close>

fun load_keyed ::
  "('k list \<Rightarrow> nat \<Rightarrow> json \<Rightarrow> config_error + 'r) \<Rightarrow> ('r \<Rightarrow> 'k) \<Rightarrow> nat \<Rightarrow> 'k list \<Rightarrow> json list
   \<Rightarrow> config_error + 'r list" where
  "load_keyed parse key i seen [] = Inr []"
| "load_keyed parse key i seen (raw # raws) =
     (case parse seen i raw of
        Inl e \<Rightarrow> Inl e
      | Inr r \<Rightarrow>
          (case load_keyed parse key (Suc i) (seen @ [key r]) raws of
             Inl e \<Rightarrow> Inl e | Inr rs \<Rightarrow> Inr (r # rs)))"

definition load_file ::
  "string \<Rightarrow> ('k list \<Rightarrow> nat \<Rightarrow> json \<Rightarrow> config_error + 'r) \<Rightarrow> ('r \<Rightarrow> 'k) \<Rightarrow> config_file
   \<Rightarrow> config_error + 'r list" where
  "load_file section_key parse key file =
     (case config_list section_key file of
        Inl e \<Rightarrow> Inl e | Inr raws \<Rightarrow> load_keyed parse key 0 [] raws)"

locale keyed_loader =
  fixes parse :: "'k list \<Rightarrow> nat \<Rightarrow> json \<Rightarrow> config_error + 'r" and key :: "'r \<Rightarrow> 'k"
  assumes fresh: "parse seen i raw = Inr r \<Longrightarrow> key r \<notin> set seen"
begin

lemma load_keyed_distinct:
  "load_keyed parse key i seen raws = Inr rs \<Longrightarrow>
     distinct (map key rs) \<and> set (map key rs) \<inter> set seen = {}"
proof (induction raws arbitrary: i seen rs)
  case (Cons raw raws)
  then obtain r rest where r: "parse seen i raw = Inr r"
    and rest: "load_keyed parse key (Suc i) (seen @ [key r]) raws = Inr rest" and rs: "rs = r # rest"
    by (auto split: sum.splits)
  show ?case using Cons.IH [OF rest] fresh [OF r] by (auto simp: rs)
qed simp

lemma load_keyed_parsed:
  "load_keyed parse key i seen raws = Inr rs \<Longrightarrow> r \<in> set rs \<Longrightarrow> \<exists>s j raw. parse s j raw = Inr r"
proof (induction raws arbitrary: i seen rs)
  case (Cons raw raws)
  then obtain r' rest where r': "parse seen i raw = Inr r'"
    and rest: "load_keyed parse key (Suc i) (seen @ [key r']) raws = Inr rest" and rs: "rs = r' # rest"
    by (auto split: sum.splits)
  show ?case using Cons.prems(2) Cons.IH [OF rest] r' unfolding rs by auto
qed simp

lemma load_file_distinct: "load_file k parse key file = Inr rs \<Longrightarrow> distinct (map key rs)"
  using load_keyed_distinct by (auto simp: load_file_def split: sum.splits)

lemma load_file_parsed:
  "load_file k parse key file = Inr rs \<Longrightarrow> r \<in> set rs \<Longrightarrow> \<exists>s j raw. parse s j raw = Inr r"
  using load_keyed_parsed by (auto simp: load_file_def split: sum.splits)

end

end
