(* ===== verification/Federation.thy ===== *)
theory Federation
  imports Requirements Upstream ConfigFiles Dispatch ApprovalProps AuditLog
begin

text \<open>
  Ratification of suggested labels, profiles and rules (\<open>policy/ratification.py\<close>): the operator's
  policy per severity, a request, the second person's attestation, and the file the policies are
  loaded from. A request or an attestation answers with a ratification or with a refusal. The
  identifiers and the clock are arguments.
\<close>

section \<open>Policies\<close>

datatype ratification_severity = HARD_FLOOR | HIGH_IMPACT | ROUTINE
datatype ratification_policy = RP_SINGLE_AUTHORIZED | RP_DUAL_CONTROL
datatype ratification_target = RT_LABEL | RT_PROFILE | RT_RULE
datatype ratification_state = RS_PENDING_ATTESTATION | RS_APPLIED | RS_REFUSED | RS_EXPIRED

datatype ratification_refusal_reason =
    RAT_POLICY_DISALLOWED | RAT_UNAUTHORIZED_INVOKER | RAT_ATTESTER_SAME_AS_INVOKER | RAT_ATTESTER_UNAUTHORIZED
  | RAT_ATTESTATION_REFUSED | RAT_AI_PRINCIPAL_REFUSED | RAT_RATIFICATION_EXPIRED | RAT_UNKNOWN_RATIFICATION

fun severity_value :: "ratification_severity \<Rightarrow> string" where
  "severity_value HARD_FLOOR = ''hard-floor''"
| "severity_value HIGH_IMPACT = ''high-impact''"
| "severity_value ROUTINE = ''routine''"

fun policy_value :: "ratification_policy \<Rightarrow> string" where
  "policy_value RP_SINGLE_AUTHORIZED = ''single-authorized''"
| "policy_value RP_DUAL_CONTROL = ''dual-control''"

interpretation severity_enum: str_enum severity_value "[HARD_FLOOR, HIGH_IMPACT, ROUTINE]"
proof
  show "e \<in> set [HARD_FLOOR, HIGH_IMPACT, ROUTINE]" for e by (cases e) simp_all
qed simp

interpretation ratification_policy_enum:
  str_enum policy_value "[RP_SINGLE_AUTHORIZED, RP_DUAL_CONTROL]"
proof
  show "e \<in> set [RP_SINGLE_AUTHORIZED, RP_DUAL_CONTROL]" for e by (cases e) simp_all
qed simp

record ratification_entry =
  re_severity :: ratification_severity
  re_policy :: ratification_policy
  re_authorized_principal_ids :: "string list"
  re_attester_principal_ids :: "string list"

type_synonym ratification_policies = "(ratification_severity \<times> ratification_entry) list"

record ratification =
  rat_id :: uuid
  rat_target_kind :: ratification_target
  rat_target_id :: string
  rat_severity :: ratification_severity
  rat_invoker_principal :: string
  rat_attester_principal :: "string option"
  rat_policy :: ratification_entry
  rat_state :: ratification_state
  rat_created_at :: time
  rat_applied_at :: "time option"
  rat_refused_at :: "time option"
  rat_audit_id :: uuid

text \<open>The reason, the severity and the invoker; the detail text is left out.\<close>

record ratification_refusal =
  rj_reason :: ratification_refusal_reason
  rj_severity :: "ratification_severity option"
  rj_invoker :: "string option"

section \<open>Request and attestation\<close>

definition is_ai_principal :: "string \<Rightarrow> bool" where
  "is_ai_principal who \<longleftrightarrow> prefix ''ai-'' (py_lower who)"

definition rat_refusal ::
  "ratification_refusal_reason \<Rightarrow> ratification_severity \<Rightarrow> string option \<Rightarrow> ratification_refusal" where
  "rat_refusal reason sev who = \<lparr>rj_reason = reason, rj_severity = Some sev, rj_invoker = who\<rparr>"

definition request_ratification ::
  "ratification_policies \<Rightarrow> ratification_target \<Rightarrow> string \<Rightarrow> ratification_severity \<Rightarrow> string
   \<Rightarrow> time \<Rightarrow> uuid \<Rightarrow> uuid \<Rightarrow> ratification_refusal + ratification" where
  "request_ratification policies target_kind target_id sev invoker now rid aid =
     (if is_ai_principal invoker then Inl (rat_refusal RAT_AI_PRINCIPAL_REFUSED sev (Some invoker))
      else case map_of policies sev of
             None \<Rightarrow> Inl (rat_refusal RAT_POLICY_DISALLOWED sev (Some invoker))
           | Some entry \<Rightarrow>
               if invoker \<notin> set (re_authorized_principal_ids entry)
               then Inl (rat_refusal RAT_UNAUTHORIZED_INVOKER sev (Some invoker))
               else
                 (let initial = (if re_policy entry = RP_DUAL_CONTROL
                                 then RS_PENDING_ATTESTATION else RS_APPLIED)
                  in Inr \<lparr>rat_id = rid, rat_target_kind = target_kind, rat_target_id = target_id,
                          rat_severity = sev, rat_invoker_principal = invoker,
                          rat_attester_principal = None, rat_policy = entry, rat_state = initial,
                          rat_created_at = now,
                          rat_applied_at = (if initial = RS_APPLIED then Some now else None),
                          rat_refused_at = None, rat_audit_id = aid\<rparr>))"

definition attest_ratification ::
  "ratification \<Rightarrow> string \<Rightarrow> bool \<Rightarrow> time \<Rightarrow> ratification_refusal + ratification" where
  "attest_ratification r attester confirmed now =
     (if is_ai_principal attester
      then Inl (rat_refusal RAT_AI_PRINCIPAL_REFUSED (rat_severity r) (Some attester))
      else if rat_state r \<noteq> RS_PENDING_ATTESTATION
      then Inl (rat_refusal RAT_ATTESTATION_REFUSED (rat_severity r) None)
      else if attester = rat_invoker_principal r
      then Inl (rat_refusal RAT_ATTESTER_SAME_AS_INVOKER (rat_severity r) None)
      else if attester \<notin> set (re_attester_principal_ids (rat_policy r))
      then Inl (rat_refusal RAT_ATTESTER_UNAUTHORIZED (rat_severity r) None)
      else if \<not> confirmed then Inl (rat_refusal RAT_ATTESTATION_REFUSED (rat_severity r) None)
      else Inr (r\<lparr>rat_state := RS_APPLIED, rat_attester_principal := Some attester,
                  rat_applied_at := Some now\<rparr>))"

section \<open>The policy file\<close>

datatype ratification_error =
    RatConfigMissing | RatUnparseable | RatNotADict | RatListExpected | RatNotAnObject nat
  | RatBadEntry nat | RatDuplicateSeverity nat string | RatNotIterable

text \<open>
  One entry. A missing key and an unknown value are one error; a principal list that cannot be
  iterated is an error the loader does not catch.
\<close>

definition principal_list ::
  "(json \<Rightarrow> string) \<Rightarrow> (string \<times> json) list \<Rightarrow> string \<Rightarrow> ratification_error + string list" where
  "principal_list text_of item key =
     (case iterated (dict_get item key (JList [])) of
        Inl _ \<Rightarrow> Inl RatNotIterable
      | Inr ps \<Rightarrow> Inr (remdups (map (py_str text_of) ps)))"

fun load_entries ::
  "(json \<Rightarrow> string) \<Rightarrow> nat \<Rightarrow> ratification_policies \<Rightarrow> json list
   \<Rightarrow> ratification_error + ratification_policies" where
  "load_entries text_of i acc [] = Inr acc"
| "load_entries text_of i acc (JDict item # raws) =
     (case (map_of item ''severity'', map_of item ''policy'') of
        (Some sv, Some pv) \<Rightarrow>
          (case (enum_of severity_value [HARD_FLOOR, HIGH_IMPACT, ROUTINE] (py_str text_of sv),
                 enum_of policy_value [RP_SINGLE_AUTHORIZED, RP_DUAL_CONTROL] (py_str text_of pv)) of
             (Inr sev, Inr pol) \<Rightarrow>
               if map_of acc sev \<noteq> None then Inl (RatDuplicateSeverity i (severity_value sev))
               else (case principal_list text_of item ''authorized_principal_ids'' of
                       Inl e \<Rightarrow> Inl e
                     | Inr authorized \<Rightarrow>
                    (case principal_list text_of item ''attester_principal_ids'' of
                       Inl e \<Rightarrow> Inl e
                     | Inr attesters \<Rightarrow>
                         load_entries text_of (Suc i)
                           (acc @ [(sev, \<lparr>re_severity = sev, re_policy = pol,
                              re_authorized_principal_ids = authorized,
                              re_attester_principal_ids = attesters\<rparr>)]) raws))
           | _ \<Rightarrow> Inl (RatBadEntry i))
      | _ \<Rightarrow> Inl (RatBadEntry i))"
| "load_entries text_of i acc (_ # raws) = Inl (RatNotAnObject i)"

definition load_ratification_policies ::
  "(json \<Rightarrow> string) \<Rightarrow> config_file \<Rightarrow> ratification_error + ratification_policies" where
  "load_ratification_policies text_of file =
     (case file of
        AbsentFile \<Rightarrow> Inl RatConfigMissing
      | BadYaml \<Rightarrow> Inl RatUnparseable
      | YamlDoc JNull \<Rightarrow> Inr []
      | YamlDoc (JDict data) \<Rightarrow>
          (let raw = dict_get data ''policies'' JNull
           in if \<not> truthy_json raw then Inr []
              else case raw of
                     JList raws \<Rightarrow> load_entries text_of 0 [] raws
                   | _ \<Rightarrow> Inl RatListExpected)
      | YamlDoc _ \<Rightarrow> Inl RatNotADict)"

section \<open>The states a ratification reaches\<close>

text \<open>A ratification made under given policies, by a request and then by attestations.\<close>

inductive ratified_under :: "ratification_policies \<Rightarrow> ratification \<Rightarrow> bool" for policies where
  rat_requested:
    "request_ratification policies tk tid sev invoker now rid aid = Inr r \<Longrightarrow> ratified_under policies r"
| rat_attested:
    "ratified_under policies r \<Longrightarrow> attest_ratification r attester confirmed now = Inr r'
     \<Longrightarrow> ratified_under policies r'"

inductive_cases ratified_underE: "ratified_under policies r"

definition rightly_authorized :: "ratification_policies \<Rightarrow> ratification \<Rightarrow> bool" where
  "rightly_authorized policies r \<longleftrightarrow>
     map_of policies (rat_severity r) = Some (rat_policy r)
   \<and> \<not> is_ai_principal (rat_invoker_principal r)
   \<and> rat_invoker_principal r \<in> set (re_authorized_principal_ids (rat_policy r))
   \<and> (rat_state r = RS_APPLIED \<and> re_policy (rat_policy r) = RP_DUAL_CONTROL \<longrightarrow>
        (\<exists>attester. rat_attester_principal r = Some attester
           \<and> attester \<noteq> rat_invoker_principal r \<and> \<not> is_ai_principal attester
           \<and> attester \<in> set (re_attester_principal_ids (rat_policy r))))"

lemma ratified_authorized: "ratified_under policies r \<Longrightarrow> rightly_authorized policies r"
proof (induction rule: ratified_under.induct)
  case (rat_requested tk tid sev invoker now rid aid r)
  then show ?case
    by (auto simp: request_ratification_def rightly_authorized_def Let_def
        split: if_splits option.splits)
next
  case (rat_attested r attester confirmed now r')
  then show ?case
    by (auto simp: attest_ratification_def rightly_authorized_def split: if_splits)
qed

text \<open>
  A ratification that is applied was invoked by a person the operator's policy for its severity
  authorises, and where that policy asks for two people a second one, other than the invoker,
  listed as an attester, confirmed it; neither is a principal named as an AI.
\<close>

theorem applied_ratification_is_authorised:
  assumes "ratified_under policies r" and "rat_state r = RS_APPLIED"
  shows "\<exists>entry. map_of policies (rat_severity r) = Some entry
     \<and> rat_invoker_principal r \<in> set (re_authorized_principal_ids entry)
     \<and> \<not> is_ai_principal (rat_invoker_principal r)
     \<and> (re_policy entry = RP_DUAL_CONTROL \<longrightarrow>
          (\<exists>attester \<in> set (re_attester_principal_ids entry).
             rat_attester_principal r = Some attester \<and> attester \<noteq> rat_invoker_principal r
             \<and> \<not> is_ai_principal attester))"
  using ratified_authorized [OF assms(1)] assms(2) unfolding rightly_authorized_def by blast

definition two_people :: ratification_policies where
  "two_people = [(HARD_FLOOR, \<lparr>re_severity = HARD_FLOOR, re_policy = RP_DUAL_CONTROL,
     re_authorized_principal_ids = [''ann''], re_attester_principal_ids = [''bob'']\<rparr>)]"

lemma not_ai_people [simp]: "\<not> is_ai_principal ''ann''" "\<not> is_ai_principal ''bob''"
  by (simp_all add: is_ai_principal_def py_lower_def char_lower_def)

theorem applied_ratification_is_authorised_witness:
  "\<exists>r. ratified_under two_people r \<and> rat_state r = RS_APPLIED \<and> rat_attester_principal r = Some ''bob''"
proof -
  obtain p where p: "request_ratification two_people RT_RULE ''r1'' HARD_FLOOR ''ann'' 5 1 2 = Inr p"
      "rat_state p = RS_PENDING_ATTESTATION" "rat_invoker_principal p = ''ann''"
      "rat_policy p = snd (hd two_people)"
    by (simp add: request_ratification_def two_people_def)
  obtain r where r: "attest_ratification p ''bob'' True 6 = Inr r" "rat_state r = RS_APPLIED"
    using p(2-4) by (simp add: attest_ratification_def two_people_def)
  have reached: "ratified_under two_people r" by (rule rat_attested [OF rat_requested [OF p(1)] r(1)])
  from applied_ratification_is_authorised [OF this r(2)] reached r(2)
  have "rat_attester_principal r = Some ''bob''"
    using r(1) by (auto simp: attest_ratification_def split: if_splits)
  then show ?thesis using reached r(2) by blast
qed

text \<open>
  The declared terminal states of a refused or an expired ratification are never reached. An
  attester who declines gets a refusal back and leaves the ratification pending, and a later
  confirmation, by the same attester or another one and however long after, still applies it.
\<close>

theorem declined_ratification_stays_open:
  assumes "ratified_under policies r" and "rat_state r = RS_PENDING_ATTESTATION"
    and "attest_ratification r attester False now = Inl no_attest"
    and "other \<in> set (re_attester_principal_ids (rat_policy r))" and "\<not> is_ai_principal other"
    and "other \<noteq> rat_invoker_principal r"
  shows "(\<exists>r'. attest_ratification r other True later = Inr r' \<and> rat_state r' = RS_APPLIED)
    \<and> (\<forall>r'. ratified_under policies r' \<longrightarrow> rat_state r' \<in> {RS_PENDING_ATTESTATION, RS_APPLIED})"
proof
  show "\<exists>r'. attest_ratification r other True later = Inr r' \<and> rat_state r' = RS_APPLIED"
    using assms by (simp add: attest_ratification_def)
  have "ratified_under policies r' \<Longrightarrow> rat_state r' \<in> {RS_PENDING_ATTESTATION, RS_APPLIED}" for r'
    by (erule ratified_underE)
      (auto simp: request_ratification_def attest_ratification_def Let_def
        split: if_splits option.splits)
  then show "\<forall>r'. ratified_under policies r' \<longrightarrow> rat_state r' \<in> {RS_PENDING_ATTESTATION, RS_APPLIED}"
    by blast
qed

theorem declined_ratification_stays_open_witness:
  "\<exists>r no_attest. attest_ratification r ''bob'' False 6 = Inl no_attest
     \<and> (\<exists>r'. attest_ratification r ''bob'' True 7 = Inr r' \<and> rat_state r' = RS_APPLIED)"
proof -
  obtain p where p: "request_ratification two_people RT_RULE ''r1'' HARD_FLOOR ''ann'' 5 1 2 = Inr p"
      "rat_state p = RS_PENDING_ATTESTATION" "rat_invoker_principal p = ''ann''"
      "rat_policy p = snd (hd two_people)"
    by (simp add: request_ratification_def two_people_def)
  obtain no_attest where no: "attest_ratification p ''bob'' False 6 = Inl no_attest"
    using p(2-4) by (simp add: attest_ratification_def two_people_def)
  from declined_ratification_stays_open [OF rat_requested [OF p(1)] p(2) no, of "''bob''"] no p(3,4)
  show ?thesis by (auto simp: two_people_def)
qed

lemma load_entries_wf:
  assumes "load_entries text_of i acc raws = Inr ps" and "distinct (map fst acc)"
    and "\<forall>(sev, e) \<in> set acc. re_severity e = sev"
  shows "distinct (map fst ps) \<and> (\<forall>(sev, e) \<in> set ps. re_severity e = sev)"
  using assms
proof (induction text_of i acc raws rule: load_entries.induct)
  case (2 text_of i acc item raws)
  then show ?case
    by (fastforce split: option.splits sum.splits if_splits simp: map_of_eq_None_iff)
qed auto

text \<open>
  The loaded catalogue has one entry per severity, each under its own severity. (Nothing makes
  the severity of the hard floors ask for two people: the witness loads a single-authorized one.)
\<close>

theorem loaded_policies_well_formed:
  assumes "load_ratification_policies text_of file = Inr ps"
  shows "distinct (map fst ps) \<and> (\<forall>sev e. map_of ps sev = Some e \<longrightarrow> re_severity e = sev)"
proof -
  have "ps = [] \<or> (\<exists>raws. load_entries text_of 0 [] raws = Inr ps)"
    using assms
    by (auto simp: load_ratification_policies_def Let_def
        split: config_file.splits json.splits if_splits)
  then show ?thesis using load_entries_wf [of text_of 0 "[]" _ ps] by (fastforce dest: map_of_SomeD)
qed

definition single_file :: config_file where
  "single_file = YamlDoc (JDict [(''policies'', JList [JDict [(''severity'', JStr ''hard-floor''),
     (''policy'', JStr ''single-authorized''), (''authorized_principal_ids'', JList [JStr ''ann''])]])])"

theorem loaded_policies_well_formed_witness:
  "\<exists>ps r. load_ratification_policies (\<lambda>_. []) single_file = Inr ps \<and> distinct (map fst ps)
     \<and> request_ratification ps RT_RULE ''r1'' HARD_FLOOR ''ann'' 5 1 2 = Inr r
     \<and> rat_state r = RS_APPLIED \<and> rat_attester_principal r = None"
proof -
  let ?ps = "[(HARD_FLOOR, \<lparr>re_severity = HARD_FLOOR, re_policy = RP_SINGLE_AUTHORIZED,
     re_authorized_principal_ids = [''ann''], re_attester_principal_ids = []\<rparr>)]"
  have run: "load_ratification_policies (\<lambda>_. []) single_file = Inr ?ps"
    by (simp add: load_ratification_policies_def single_file_def dict_get_def truthy_json_def
        enum_of_def principal_list_def)
  have "\<exists>r. request_ratification ?ps RT_RULE ''r1'' HARD_FLOOR ''ann'' 5 1 2 = Inr r
     \<and> rat_state r = RS_APPLIED \<and> rat_attester_principal r = None"
    by (simp add: request_ratification_def)
  with loaded_policies_well_formed [OF run] run show ?thesis by blast
qed

text \<open>
  Federation (\<open>federation/export.py\<close>, \<open>federation/remote_approval.py\<close>): a session exported to
  another host as a signed dictionary, and an approval shipped from one host to another in a signed
  envelope. A signer is its two operations, \<open>sign\<close> and \<open>verify\<close>; the laws a signer gives its
  clients are the named hypothesis \<open>signer_sound\<close>, which the software signer meets for a
  collision-free authentication code.
\<close>

section \<open>Signers\<close>

type_synonym 'm signing = "'m \<Rightarrow> signature"
type_synonym 'm verifying = "'m \<Rightarrow> signature \<Rightarrow> py_error + bool"

text \<open>
  What the code relies on: a signer's own signatures verify, and one signature verifies for one
  message only.
\<close>

definition signer_sound :: "'m signing \<Rightarrow> 'm verifying \<Rightarrow> bool" where
  "signer_sound sign vrf \<longleftrightarrow>
     (\<forall>m. vrf m (sign m) = Inr True)
   \<and> (\<forall>m m' s. vrf m s = Inr True \<and> vrf m' s = Inr True \<longrightarrow> m = m')"

section \<open>Remote approvals\<close>

definition REMOTE_APPROVAL_SCHEMA_VERSION :: string where
  "REMOTE_APPROVAL_SCHEMA_VERSION = ''capdep.remote-approval.v1''"

record remote_approval =
  ra_origin_host_id :: string
  ra_approval_id :: int
  ra_action :: string
  ra_target :: string
  ra_payload :: string
  ra_labels_in :: "string list"
  ra_signature :: signature
  ra_schema_version :: string
  ra_destination_host_id :: string
  ra_labels_in_state :: json
  ra_axis_c_effect_class :: string
  ra_axis_d_context :: "(string \<times> json) list"
  ra_protocol_nonce :: string

definition four_axis_wire :: "remote_approval \<Rightarrow> json" where
  "four_axis_wire e =
     JDict [(''axis_a_b_labels'', ra_labels_in_state e),
            (''axis_a_b_legacy_labels'', JList (map JStr (sort (ra_labels_in e)))),
            (''axis_c_effect_class'',
              JStr (if ra_axis_c_effect_class e \<noteq> [] then ra_axis_c_effect_class e
                    else ra_action e)),
            (''axis_d_context'', JDict (ra_axis_d_context e))]"

text \<open>
  The signed bytes: the texts of two JSON values with a zero byte between them, which no JSON text
  contains. The keys are sorted on every level.
\<close>

definition canonical_message :: "remote_approval \<Rightarrow> json" where
  "canonical_message e =
     JText [json_dumps (json_sorted (JDict
              [(''schema_version'', JStr (ra_schema_version e)),
               (''origin'', JStr (ra_origin_host_id e)),
               (''destination'', JStr (ra_destination_host_id e)),
               (''axis'', four_axis_wire e),
               (''protocol_nonce'', JStr (ra_protocol_nonce e))])),
            JStr [CHR 0x00],
            canonical_payload (ra_approval_id e) (ra_action e) (ra_target e)
              (JStr (ra_payload e)) (ra_labels_in e)]"

definition remote_approval_to_dict :: "remote_approval \<Rightarrow> (string \<times> json) list" where
  "remote_approval_to_dict e =
     [(''schema_version'', JStr (ra_schema_version e)),
      (''origin_host_id'', JStr (ra_origin_host_id e)),
      (''destination_host_id'', JStr (ra_destination_host_id e)),
      (''approval_id'', JInt (ra_approval_id e)), (''action'', JStr (ra_action e)),
      (''target'', JStr (ra_target e)), (''payload'', JStr (ra_payload e)),
      (''labels_in'', JList (map JStr (ra_labels_in e))),
      (''labels_in_state'', ra_labels_in_state e),
      (''axis_c_effect_class'', JStr (ra_axis_c_effect_class e)),
      (''axis_d_context'', JDict (ra_axis_d_context e)),
      (''protocol_nonce'', JStr (ra_protocol_nonce e)),
      (''signature'', signature_to_dict (ra_signature e))]"

text \<open>
  The conversions \<open>from_dict\<close> calls are those of the configuration readers: \<open>str\<close>, \<open>int\<close> and, of a
  true value that is no mapping, \<open>dict\<close>.
\<close>

definition text_or :: "conversions \<Rightarrow> json \<Rightarrow> string \<Rightarrow> string" where
  "text_or cv v other = (if truthy_json v then py_str (cv_text cv) v else other)"

definition or_dict :: "conversions \<Rightarrow> json \<Rightarrow> py_error + (string \<times> json) list" where
  "or_dict cv v =
     (if \<not> truthy_json v then Inr [] else case v of JDict d \<Rightarrow> Inr d | _ \<Rightarrow> cv_dict cv v)"

definition signature_from_dict :: "conversions \<Rightarrow> json \<Rightarrow> py_error + signature" where
  "signature_from_dict cv v =
     (case v of
        JDict d \<Rightarrow>
          (case (map_of d ''algorithm'', map_of d ''key_id'', map_of d ''signature_b64'') of
             (Some alg, Some kid, Some b64) \<Rightarrow>
               Inr \<lparr>sg_algorithm = py_str (cv_text cv) alg, sg_key_id = py_str (cv_text cv) kid,
                    sg_signature = JStr (py_str (cv_text cv) b64)\<rparr>
           | _ \<Rightarrow> Inl KeyError)
      | _ \<Rightarrow> Inl TypeError)"

text \<open>\<open>d[k]\<close> for each key in turn.\<close>

fun required_items :: "(string \<times> json) list \<Rightarrow> string list \<Rightarrow> py_error + json list" where
  "required_items d [] = Inr []"
| "required_items d (k # ks) =
     (case map_of d k of
        None \<Rightarrow> Inl KeyError
      | Some v \<Rightarrow>
          (case required_items d ks of Inl e \<Rightarrow> Inl e | Inr vs \<Rightarrow> Inr (v # vs)))"

definition remote_approval_from_dict ::
  "conversions \<Rightarrow> (string \<times> json) list \<Rightarrow> py_error + remote_approval" where
  "remote_approval_from_dict cv d =
     (case map_of d ''signature'' of
        None \<Rightarrow> Inl KeyError
      | Some sig_raw \<Rightarrow>
     (case map_of d ''origin_host_id'' of
        None \<Rightarrow> Inl KeyError
      | Some origin \<Rightarrow>
     (case map_of d ''approval_id'' of
        None \<Rightarrow> Inl KeyError
      | Some aid \<Rightarrow>
     (case to_int cv aid of
        Inl e \<Rightarrow> Inl e
      | Inr approval_id \<Rightarrow>
     (case required_items d [''action'', ''target'', ''payload''] of
        Inl e \<Rightarrow> Inl e
      | Inr texts \<Rightarrow>
     (case iterated (dict_get d ''labels_in'' (JList [])) of
        Inl e \<Rightarrow> Inl e
      | Inr labels \<Rightarrow>
     (case signature_from_dict cv sig_raw of
        Inl e \<Rightarrow> Inl e
      | Inr sig \<Rightarrow>
     (case or_dict cv (dict_get d ''axis_d_context'' JNull) of
        Inl e \<Rightarrow> Inl e
      | Inr axis_d \<Rightarrow>
          (let str = py_str (cv_text cv); opt = (\<lambda>k. text_or cv (dict_get d k JNull))
           in Inr \<lparr>ra_origin_host_id = str origin, ra_approval_id = approval_id,
                   ra_action = str (texts ! 0), ra_target = str (texts ! 1),
                   ra_payload = str (texts ! 2), ra_labels_in = map str labels,
                   ra_signature = sig,
                   ra_schema_version = opt ''schema_version'' REMOTE_APPROVAL_SCHEMA_VERSION,
                   ra_destination_host_id = opt ''destination_host_id'' [],
                   ra_labels_in_state = dict_get d ''labels_in_state'' JNull,
                   ra_axis_c_effect_class = opt ''axis_c_effect_class'' [],
                   ra_axis_d_context = axis_d,
                   ra_protocol_nonce = opt ''protocol_nonce'' []\<rparr>)))))))))"

definition no_signature :: signature where
  "no_signature = \<lparr>sg_algorithm = [], sg_key_id = [], sg_signature = JStr []\<rparr>"

record pack_request =
  pk_origin_host_id :: string
  pk_approval_id :: int
  pk_action :: string
  pk_target :: string
  pk_payload :: string
  pk_labels_in :: "string list"
  pk_destination_host_id :: string
  pk_labels_in_state :: "label_state option"
  pk_axis_c_effect_class :: string
  pk_axis_d_context :: "decision_context option"
  pk_protocol_nonce :: string

definition skeleton :: "pack_request \<Rightarrow> remote_approval" where
  "skeleton p =
     \<lparr>ra_origin_host_id = pk_origin_host_id p, ra_approval_id = pk_approval_id p,
      ra_action = pk_action p, ra_target = pk_target p, ra_payload = pk_payload p,
      ra_labels_in = pk_labels_in p, ra_signature = no_signature,
      ra_schema_version = REMOTE_APPROVAL_SCHEMA_VERSION,
      ra_destination_host_id = pk_destination_host_id p,
      ra_labels_in_state = jopt labels_json (pk_labels_in_state p),
      ra_axis_c_effect_class = pk_axis_c_effect_class p,
      ra_axis_d_context =
        (case pk_axis_d_context p of
           None \<Rightarrow> [] | Some c \<Rightarrow> (case axis_d_json c of JDict d \<Rightarrow> d | _ \<Rightarrow> [])),
      ra_protocol_nonce = pk_protocol_nonce p\<rparr>"

definition pack_remote_approval :: "json signing \<Rightarrow> pack_request \<Rightarrow> remote_approval" where
  "pack_remote_approval sign p =
     (skeleton p)\<lparr>ra_signature := sign (canonical_message (skeleton p))\<rparr>"

definition unpack_remote_approval :: "json verifying \<Rightarrow> remote_approval \<Rightarrow> py_error + bool" where
  "unpack_remote_approval vrf e =
     (if ra_schema_version e \<noteq> REMOTE_APPROVAL_SCHEMA_VERSION then Inr False
      else vrf (canonical_message e) (ra_signature e))"

section \<open>Session exports\<close>

text \<open>
  The exported dictionary of a session has the fields of its row in the database; \<open>session_json\<close> is
  the dictionary itself, whose keys \<open>cap_uses\<close> are the texts of identifiers (\<open>key_of\<close>). What is
  signed is the text of three values, dumped with sorted keys. The signer is any of those of
  \<open>approval/signer.py\<close>, so the signature keeps its type.
\<close>

definition capability_json :: "capability_dict \<Rightarrow> json" where
  "capability_json c =
     JDict [(''kind'', JStr (cd_kind c)), (''pattern'', JStr (cd_pattern c)),
            (''expiry'', JStr (cd_expiry c)), (''origin'', JStr (cd_origin c)),
            (''audit_id'', JUuid (cd_audit_id c)), (''max_amount'', jopt JInt (cd_max_amount c)),
            (''allows_destructive'', JBool (cd_allows_destructive c)),
            (''revoked_by'', JList (map JStr (cd_revoked_by c))),
            (''expires_at'', jopt JTime (cd_expires_at c)),
            (''rate_limit'', jopt (\<lambda>r. JDict [(''max_uses'', JInt (rl_max_uses r)),
                (''window_seconds'', JInt (rl_window_seconds r))]) (cd_rate_limit c)),
            (''parent_audit_id'', jopt JUuid (cd_parent_audit_id c)), (''depth'', JInt (cd_depth c)),
            (''override_grant_id'', jopt JUuid (cd_override_grant_id c))]"

definition turn_json :: "turn \<Rightarrow> json" where
  "turn_json t =
     JDict [(''turn_id'', JInt (tn_turn_id t)), (''role'', JStr (tn_role t)),
            (''content'', JStr (tn_content t)), (''timestamp'', JTime (tn_timestamp t))]"

definition declass_json :: "declass_event \<Rightarrow> json" where
  "declass_json d =
     JDict [(''audit_id'', JUuid (de_audit_id d)),
            (''from_labels'', JList (map JStr (sort (de_from_labels d)))),
            (''to_labels'', JList (map JStr (sort (de_to_labels d)))),
            (''reason'', JStr (de_reason d)), (''timestamp'', JTime (de_timestamp d))]"

definition session_json :: "(uuid \<Rightarrow> string) \<Rightarrow> session_row \<Rightarrow> json" where
  "session_json key_of r =
     JDict [(''id'', JUuid (sr_id r)), (''parent'', jopt JUuid (sr_parent_id r)),
            (''status'', JStr (sr_status r)),
            (''capability_set'', JList (map capability_json (sr_capability_set r))),
            (''history'', JList (map turn_json (sr_history r))),
            (''declassification_log'', JList (map declass_json (sr_declassification_log r))),
            (''created_at'', JTime (sr_created_at r)), (''updated_at'', JTime (sr_updated_at r)),
            (''owner'', jopt JStr (sr_owner r)), (''intent'', jopt JStr (sr_intent r)),
            (''tool_aliasing'', JBool (sr_tool_aliasing r)),
            (''prefer_programmatic'', JBool (sr_prefer_programmatic r)),
            (''required_modes'', sr_required_modes r),
            (''used_kinds'', JList (map JStr (sr_used_kinds r))),
            (''cap_uses'', JDict (map (\<lambda>(aid, ts). (key_of aid, JList (map JTime ts))) (sr_cap_uses r))),
            (''revoked_audit_ids'', JList (map JUuid (sr_revoked_audit_ids r))),
            (''label_state'', labels_json (sr_label_state r)), (''axis_d'', axis_d_json (sr_axis_d r)),
            (''purpose_handle'', JStr (sr_purpose_handle r)),
            (''reference_handles'', JDict (map (\<lambda>(h, d). (h, JDict d)) (sr_reference_handles r))),
            (''risk_preference_at_spawn'', JStr (sr_risk_preference_at_spawn r)),
            (''effective_isolation_region_id'', jopt JStr (sr_effective_isolation_region_id r)),
            (''clearance_profile_id'', jopt JStr (sr_clearance_profile_id r)),
            (''enforcement_mode'', JStr (sr_enforcement_mode r)),
            (''first_use_prompt_enabled'', JBool (sr_first_use_prompt_enabled r)),
            (''origin'', JDict (origin_to_dict (sr_origin r)))]"

record 'g session_export =
  se_host_id :: string
  se_exported_at :: time
  se_session :: session_row
  se_signature :: 'g

definition canonical_export_bytes ::
  "(uuid \<Rightarrow> string) \<Rightarrow> string \<Rightarrow> time \<Rightarrow> session_row \<Rightarrow> json" where
  "canonical_export_bytes key_of host_id exported_at row =
     json_dumps (json_sorted (JDict
       [(''host_id'', JStr host_id), (''exported_at'', JTime exported_at),
        (''session'', session_json key_of row)]))"

definition export_session ::
  "(uuid \<Rightarrow> string) \<Rightarrow> (json \<Rightarrow> 'g) \<Rightarrow> string \<Rightarrow> time \<Rightarrow> session \<Rightarrow> py_error + 'g session_export" where
  "export_session key_of sign host now s =
     (case session_to_dict s of
        Inl e \<Rightarrow> Inl e
      | Inr row \<Rightarrow>
          Inr \<lparr>se_host_id = host, se_exported_at = now, se_session = row,
               se_signature = sign (canonical_export_bytes key_of host now row)\<rparr>)"

datatype import_fault =
    VerificationRaised | BadExportSignature string | MalformedSession | ImportRaised py_error

text \<open>
  Only the verification error of the signer, and key and value errors of the session's
  constructor, become export errors; anything else is raised as it is.
\<close>

definition import_session_export ::
  "kind_registry \<Rightarrow> (uuid \<Rightarrow> string) \<Rightarrow> (json \<Rightarrow> 'g \<Rightarrow> py_error + bool) \<Rightarrow> 'g session_export
   \<Rightarrow> import_fault + session" where
  "import_session_export reg key_of vrf x =
     (case vrf (canonical_export_bytes key_of (se_host_id x) (se_exported_at x) (se_session x))
             (se_signature x) of
        Inl e \<Rightarrow> Inl (if e = SignerError then VerificationRaised else ImportRaised e)
      | Inr ok \<Rightarrow>
          if \<not> ok then Inl (BadExportSignature (se_host_id x))
          else (case session_from_dict reg (se_session x) of
                  Inl e \<Rightarrow> Inl (if e \<in> {KeyError, ValueError} then MalformedSession
                                else ImportRaised e)
                | Inr s \<Rightarrow> Inr s))"

end
