(* ===== verification/FederationProps.thy ===== *)
theory FederationProps
  imports Federation SessionFindings
begin

text \<open>
  What federation guarantees: an envelope reads back from its dictionary, a signature is good for
  one envelope only, and an imported session is the exported one. What the receiver does not check
  is stated too: it accepts whatever its signer accepts, addressed to it or not, any number of
  times.
\<close>

lemma signer_own: "signer_sound sign vrf \<Longrightarrow> vrf m (sign m) = Inr True"
  unfolding signer_sound_def by (erule conjE) (erule spec)

lemma signer_one:
  assumes "signer_sound sign vrf" and "vrf m s = Inr True" and "vrf m' s = Inr True"
  shows "m = m'"
  using assms unfolding signer_sound_def by metis

section \<open>A signer\<close>

text \<open>
  An authentication code that is the message itself has no collisions: the software signer over it,
  with its texts for signatures, is sound.
\<close>

definition plain_sign :: "json signing" where
  "plain_sign m = \<lparr>sg_algorithm = ''hmac-sha256'', sg_key_id = ''k'', sg_signature = JStr (unary_line [([], m)])\<rparr>"

definition plain_verify :: "json verifying" where
  "plain_verify m s = Inr (s = plain_sign m)"

lemma plain_sound: "signer_sound plain_sign plain_verify"
  by (auto simp: signer_sound_def plain_verify_def plain_sign_def unary_line_def)

section \<open>Envelopes\<close>

text \<open>
  A remote approval reads back from its dictionary, when its version is given, its signature is
  a text and its structured labels are what a dictionary can hold.
\<close>

theorem remote_approval_reads_back:
  assumes "ra_schema_version e \<noteq> []" and "sg_signature (ra_signature e) = JStr b64"
  shows "remote_approval_from_dict cv (remote_approval_to_dict e) = Inr e"
proof -
  have texts: "map (py_str (cv_text cv) \<circ> JStr) xs = xs" for xs by (induction xs) simp_all
  obtain alg kid where sig: "ra_signature e
      = \<lparr>sg_algorithm = alg, sg_key_id = kid, sg_signature = JStr b64\<rparr>"
    using assms(2) by (cases "ra_signature e") simp
  show ?thesis
    using assms(1) sig
    by (cases e) (simp add: Let_def remote_approval_from_dict_def remote_approval_to_dict_def to_int_def
        signature_from_dict_def signature_to_dict_def or_dict_def text_or_def truthy_json_def
        dict_get_def texts)
qed

definition phone_approval :: pack_request where
  "phone_approval =
     \<lparr>pk_origin_host_id = ''phone'', pk_approval_id = 4, pk_action = ''SEND_EMAIL'',
      pk_target = ''bob'', pk_payload = ''hello'', pk_labels_in = [''health''],
      pk_destination_host_id = ''laptop'', pk_labels_in_state = None,
      pk_axis_c_effect_class = [], pk_axis_d_context = None, pk_protocol_nonce = ''n1''\<rparr>"

definition phone_envelope :: remote_approval where
  "phone_envelope = pack_remote_approval plain_sign phone_approval"

lemma phone_accepted: "unpack_remote_approval plain_verify phone_envelope = Inr True"
  by (simp add: phone_envelope_def unpack_remote_approval_def pack_remote_approval_def skeleton_def
      plain_verify_def canonical_message_def four_axis_wire_def)

theorem remote_approval_reads_back_witness:
  "remote_approval_from_dict \<lparr>cv_text = (\<lambda>_. []), cv_int = (\<lambda>_. Inl ValueError), cv_dict = (\<lambda>_. Inl ValueError)\<rparr>
     (remote_approval_to_dict phone_envelope) = Inr phone_envelope"
  by (rule remote_approval_reads_back)
    (simp_all add: phone_envelope_def pack_remote_approval_def skeleton_def plain_sign_def
      REMOTE_APPROVAL_SCHEMA_VERSION_def)

lemma sorted_fields:
  "json_sorted (JDict d) = json_sorted (JDict d') \<Longrightarrow>
     map_option json_sorted (map_of d k) = map_option json_sorted (map_of d' k)"
  by (metis json.inject(8) json_sorted.simps(1) map_of_dict_sorted dict_sorted_def)

text \<open>
  One signature is good for one envelope: two envelopes it is accepted for agree in the hosts they name, the approval, its action, target and payload,
  the label names, the structured labels, the context and the nonce.
\<close>

theorem signature_binds_envelope:
  assumes "signer_sound sign vrf"
    and "unpack_remote_approval vrf e = Inr True" and "unpack_remote_approval vrf e' = Inr True"
    and "ra_signature e = ra_signature e'"
  shows "ra_origin_host_id e = ra_origin_host_id e'
    \<and> ra_destination_host_id e = ra_destination_host_id e'
    \<and> ra_approval_id e = ra_approval_id e' \<and> ra_action e = ra_action e'
    \<and> ra_target e = ra_target e' \<and> ra_payload e = ra_payload e'
    \<and> set (ra_labels_in e) = set (ra_labels_in e')
    \<and> json_sorted (ra_labels_in_state e) = json_sorted (ra_labels_in_state e')
    \<and> json_sorted (JDict (ra_axis_d_context e)) = json_sorted (JDict (ra_axis_d_context e'))
    \<and> ra_protocol_nonce e = ra_protocol_nonce e'"
proof -
  have "vrf (canonical_message e) (ra_signature e) = Inr True"
    and "vrf (canonical_message e') (ra_signature e) = Inr True"
    using assms(2-4) by (auto simp: unpack_remote_approval_def split: if_splits)
  then have same: "canonical_message e = canonical_message e'"
    by (rule signer_one [OF assms(1)])
  let ?prefix = "\<lambda>e. [(''schema_version'', JStr (ra_schema_version e)),
    (''origin'', JStr (ra_origin_host_id e)), (''destination'', JStr (ra_destination_host_id e)),
    (''axis'', four_axis_wire e), (''protocol_nonce'', JStr (ra_protocol_nonce e))]"
  have prefix: "json_sorted (JDict (?prefix e)) = json_sorted (JDict (?prefix e'))"
    and body: "canonical_payload (ra_approval_id e) (ra_action e) (ra_target e)
        (JStr (ra_payload e)) (ra_labels_in e)
      = canonical_payload (ra_approval_id e') (ra_action e') (ra_target e')
        (JStr (ra_payload e')) (ra_labels_in e')"
    using same by (simp_all only: canonical_message_def json_dumps_def json.inject list.inject)
  have heads: "ra_origin_host_id e = ra_origin_host_id e'"
      "ra_destination_host_id e = ra_destination_host_id e'"
      "ra_protocol_nonce e = ra_protocol_nonce e'"
    using sorted_fields [OF prefix, of "''origin''"] sorted_fields [OF prefix, of "''destination''"]
      sorted_fields [OF prefix, of "''protocol_nonce''"] by simp_all
  have axis: "json_sorted (four_axis_wire e) = json_sorted (four_axis_wire e')"
    using sorted_fields [OF prefix, of "''axis''"] by simp
  have deep: "json_sorted (ra_labels_in_state e) = json_sorted (ra_labels_in_state e')"
      "json_sorted (JDict (ra_axis_d_context e)) = json_sorted (JDict (ra_axis_d_context e'))"
    using sorted_fields [OF axis [unfolded four_axis_wire_def], of "''axis_a_b_labels''"]
      sorted_fields [OF axis [unfolded four_axis_wire_def], of "''axis_d_context''"]
    by (simp_all del: json_sorted.simps)
  have "map JStr (sort (remdups (ra_labels_in e))) = map JStr (sort (remdups (ra_labels_in e')))"
    and fields: "ra_approval_id e = ra_approval_id e'" "ra_action e = ra_action e'"
      "ra_target e = ra_target e'" "ra_payload e = ra_payload e'"
    using body by (simp_all add: canonical_payload_def json_dumps_def)
  then have "sort (remdups (ra_labels_in e)) = sort (remdups (ra_labels_in e'))"
    by (simp add: inj_map_eq_map inj_def)
  then have "set (ra_labels_in e) = set (ra_labels_in e')" by (metis set_remdups set_sort)
  then show ?thesis using heads deep fields by simp
qed

theorem signature_binds_envelope_witness:
  "unpack_remote_approval plain_verify (phone_envelope\<lparr>ra_target := ''eve''\<rparr>) \<noteq> Inr True"
proof
  assume forged: "unpack_remote_approval plain_verify (phone_envelope\<lparr>ra_target := ''eve''\<rparr>) = Inr True"
  have "ra_target phone_envelope = ''bob''"
    by (simp add: phone_envelope_def pack_remote_approval_def skeleton_def phone_approval_def)
  with signature_binds_envelope [OF plain_sound phone_accepted forged] show False by simp
qed

text \<open>
  What is packed is accepted wherever its key is known: the receiver's check reads neither the
  destination the envelope is addressed to nor the nonce, so an envelope for one host is accepted
  by another with the key, and accepted again when it is sent again.
\<close>

theorem packed_approval_accepted_anywhere:
  assumes "signer_sound sign vrf"
  shows "unpack_remote_approval vrf (pack_remote_approval sign p) = Inr True"
proof -
  have "vrf m (sign m) = Inr True" for m by (rule signer_own [OF assms])
  moreover have "canonical_message (e\<lparr>ra_signature := s\<rparr>) = canonical_message e" for e s
    by (simp add: canonical_message_def four_axis_wire_def)
  moreover have "ra_schema_version (skeleton p) = REMOTE_APPROVAL_SCHEMA_VERSION"
    by (simp add: skeleton_def)
  ultimately show ?thesis by (simp add: unpack_remote_approval_def pack_remote_approval_def)
qed

theorem packed_approval_accepted_anywhere_witness:
  "unpack_remote_approval plain_verify (pack_remote_approval plain_sign
     (phone_approval\<lparr>pk_destination_host_id := ''stranger''\<rparr>)) = Inr True"
  by (rule packed_approval_accepted_anywhere [OF plain_sound])

section \<open>Sessions\<close>

text \<open>
  C23: a session that can be exported, whose custom kinds the receiver knows and whose required modes
  are modes, is imported by a holder of the software key it was signed with, and keeps its identity,
  status, history, capabilities, taint, revocations and clearance profile. Whatever else the same
  holder imports under that signature has a canonical text of the same MAC.
\<close>

theorem exported_session_imports:
  assumes "export_session key_of (software_sign mac key) host now s = Inr x"
    and "kinds_known reg (s_capability_set s)"
    and "\<forall>ms. s_required_modes s = Some ms \<longrightarrow> set ms \<subseteq> set (map mode_value execution_modes)"
  shows "(\<exists>t. import_session_export reg key_of (software_verify mac key) x = Inr t
       \<and> s_id t = s_id s \<and> s_status t = s_status s \<and> s_history t = s_history s
       \<and> (\<forall>c \<in> set (s_capability_set s). \<exists>c' \<in> set (s_capability_set t). capability_eq c c')
       \<and> (\<forall>c' \<in> set (s_capability_set t). \<exists>c \<in> set (s_capability_set s). capability_eq c c')
       \<and> same_labels (s_label_state t) (s_label_state s)
       \<and> set (s_revoked_audit_ids t) = set (s_revoked_audit_ids s)
       \<and> s_clearance_profile_id t = s_clearance_profile_id s)
    \<and> (\<forall>y t. se_signature y = se_signature x
         \<and> import_session_export reg key_of (software_verify mac key) y = Inr t \<longrightarrow>
         mac (sk_key key)
           (canonical_export_bytes key_of (se_host_id y) (se_exported_at y) (se_session y))
         = mac (sk_key key) (canonical_export_bytes key_of host now (se_session x)))"
proof -
  obtain row where row: "session_to_dict s = Inr row"
    and x: "x = \<lparr>se_host_id = host, se_exported_at = now, se_session = row,
        se_signature = software_sign mac key (canonical_export_bytes key_of host now row)\<rparr>"
    using assms(1) by (auto simp: export_session_def split: sum.splits)
  obtain used where used: "used_kind_values (s_used_kinds s) = Inr used"
    using row by (auto simp: session_to_dict_def split: sum.splits)
  have modes: "required_modes_from_value (modes_to_value (map_option sort (s_required_modes s)))
      = Inr (map_option sort (s_required_modes s))"
  proof (cases "s_required_modes s")
    case None
    then show ?thesis by (simp add: modes_to_value_def required_modes_from_value_def)
  next
    case (Some ms)
    with assms(3) have "set (sort ms) \<subseteq> set (map mode_value execution_modes)" by simp
    from modes_reload [OF this] Some show ?thesis by (simp add: modes_to_value_def)
  qed
  note caps = load_capability_set_reload [OF assms(2)]
  have "\<exists>t. session_from_dict reg row = Inr t \<and> s_id t = s_id s \<and> s_status t = s_status s
    \<and> s_history t = s_history s
    \<and> s_capability_set t = load_capability_set reg
         (sort_key cd_audit_id (map capability_to_dict (s_capability_set s)))
    \<and> s_label_state t = labels_to_dict (s_label_state s)
    \<and> s_revoked_audit_ids t = sort (s_revoked_audit_ids s)
    \<and> s_clearance_profile_id t = s_clearance_profile_id s"
    using row used modes
    by (auto simp: session_to_dict_def session_from_dict_def post_init_def
        enforcement_enum.enum_of_val)
  then obtain t where t: "session_from_dict reg row = Inr t" "s_id t = s_id s"
      "s_status t = s_status s" "s_history t = s_history s"
      "s_capability_set t = load_capability_set reg
         (sort_key cd_audit_id (map capability_to_dict (s_capability_set s)))"
      "s_label_state t = labels_to_dict (s_label_state s)"
      "s_revoked_audit_ids t = sort (s_revoked_audit_ids s)"
      "s_clearance_profile_id t = s_clearance_profile_id s" by blast
  have imported: "import_session_export reg key_of (software_verify mac key) x = Inr t"
    by (simp add: import_session_export_def x software_verify_def software_sign_def t(1))
  have taint: "same_labels (s_label_state t) (s_label_state s)"
    by (simp add: t(6) same_labels_def labels_to_dict_def)
  have bound: "mac (sk_key key)
        (canonical_export_bytes key_of (se_host_id y) (se_exported_at y) (se_session y))
      = mac (sk_key key) (canonical_export_bytes key_of host now (se_session x))"
    if "se_signature y = se_signature x"
      "import_session_export reg key_of (software_verify mac key) y = Inr u" for y u
    using that
    by (auto simp: import_session_export_def x software_verify_def software_sign_def
        split: sum.splits if_splits)
  have revoked: "set (s_revoked_audit_ids t) = set (s_revoked_audit_ids s)" by (simp add: t(7))
  show ?thesis
    using bound imported taint revoked t(2-4,8) caps [folded t(5)] by (intro conjI exI [of _ t]) blast+
qed

text \<open>A key, and a MAC that keeps what it is applied to.\<close>

definition host_key :: software_key where
  "host_key = \<lparr>sk_key = JStr ''secret'', sk_key_id = ''sw:0''\<rparr>"

theorem exported_session_imports_witness:
  "\<exists>x t. export_session (\<lambda>_. ''id'') (software_sign (\<lambda>k m. JList [k, m]) host_key) ''h'' 7 parent_session
       = Inr x
     \<and> import_session_export None (\<lambda>_. ''id'') (software_verify (\<lambda>k m. JList [k, m]) host_key) x = Inr t
     \<and> s_id t = 8"
proof -
  let ?mac = "\<lambda>k m. JList [k, m]"
  have sel: "s_capability_set parent_session = [held]" "s_used_kinds parent_session = []"
    "s_required_modes parent_session = None" "s_id parent_session = 8"
    by (simp_all add: parent_session_def)
  obtain x where x: "export_session (\<lambda>_. ''id'') (software_sign ?mac host_key) ''h'' 7 parent_session = Inr x"
    using sel(2) by (simp add: export_session_def session_to_dict_def)
  have "kinds_known None (s_capability_set parent_session)"
    unfolding sel by (simp add: kinds_known_def)
  from exported_session_imports [OF x this] sel(3,4) x show ?thesis by auto
qed

end
