(* ===== verification/Resolution.thy ===== *)
theory Resolution
  imports ConfigFiles "HOL-Library.Multiset"
begin

text \<open>
  The sensitivity-resolution layer (\<open>policy/resolution.py\<close>): categories and context profiles as the
  operator declares them, the tier a category resolves to under a set of profiles, and the read-up
  clearance of a profile. The rationale of a result is kept by its ingredients.
\<close>

section \<open>Declarations\<close>

record category_def =
  cg_id :: string
  cg_default_tier :: tier
  cg_resolution_mode :: string
  cg_risk_ids :: "string list"
  cg_c_impact :: string
  cg_i_impact :: string
  cg_kind :: string

record category_override =
  co_category :: string
  co_tier :: "tier option"
  co_resolution_mode :: "string option"

record context_profile =
  cx_id :: string
  cx_user_pattern :: string
  cx_use_case :: string
  cx_max_tier :: "tier option"
  cx_category_overrides :: "category_override list"

definition override_for :: "context_profile \<Rightarrow> string \<Rightarrow> category_override option" where
  "override_for p category_id = find (\<lambda>o'. co_category o' = category_id) (cx_category_overrides p)"

definition profile_matches :: "context_profile \<Rightarrow> string \<Rightarrow> string \<Rightarrow> bool" where
  "profile_matches p user use_case \<longleftrightarrow>
     (cx_user_pattern p = ''*'' \<or> cx_user_pattern p = user) \<and> cx_use_case p = use_case"

section \<open>The readers\<close>

definition RESOLUTION_MODES :: "string list" where
  "RESOLUTION_MODES = [''fixed-high'', ''context-up'', ''context-resolved'']"

definition parse_category ::
  "conversions \<Rightarrow> string list \<Rightarrow> nat \<Rightarrow> json \<Rightarrow> config_error + category_def" where
  "parse_category cv seen i raw =
     (case raw of
        JDict d \<Rightarrow>
          (case map_of d ''id'' of
             None \<Rightarrow> Inl (EntryInvalid i)
           | Some idv \<Rightarrow>
          (case json_enum tier_value tiers (dict_get d ''default_tier'' (JStr ''sensitive'')) of
             Inl _ \<Rightarrow> Inl (EntryInvalid i)
           | Inr tier \<Rightarrow>
          (let cid = to_text cv idv;
               mode = to_text cv (dict_get d ''resolution_mode'' (JStr ''context-up''))
           in if mode \<notin> set RESOLUTION_MODES then Inl (EntryFieldInvalid i ''resolution_mode'')
              else if cid \<in> set seen then Inl (EntryDuplicate i)
              else (case texts_at cv d ''risk_ids'' of
                      Inl e \<Rightarrow> Inl e
                    | Inr risks \<Rightarrow>
                        Inr \<lparr>cg_id = cid, cg_default_tier = tier, cg_resolution_mode = mode,
                             cg_risk_ids = risks,
                             cg_c_impact = to_text cv (dict_get d ''c_impact'' (JStr ''medium'')),
                             cg_i_impact = to_text cv (dict_get d ''i_impact'' (JStr ''medium'')),
                             cg_kind = to_text cv (dict_get d ''kind'' (JStr ''registered''))\<rparr>))))
      | _ \<Rightarrow> Inl (EntryNotAnObject i))"

definition load_categories :: "conversions \<Rightarrow> config_file \<Rightarrow> config_error + category_def list" where
  "load_categories cv file = load_file ''categories'' (parse_category cv) cg_id file"

text \<open>\<open>Tier(raw) if raw else None\<close>; its \<open>ValueError\<close> is not caught.\<close>

definition tier_if_given :: "json \<Rightarrow> config_error + tier option" where
  "tier_if_given raw =
     (if \<not> truthy_json raw then Inr None
      else case json_enum tier_value tiers raw of
             Inl e \<Rightarrow> Inl (ConfigRaised e) | Inr t \<Rightarrow> Inr (Some t))"

text \<open>
  The mode of an override is stored as it is. One that is no text equals no mode, like an unknown
  text, and a false one counts as absent.
\<close>

fun parse_overrides ::
  "conversions \<Rightarrow> nat \<Rightarrow> nat \<Rightarrow> json list \<Rightarrow> config_error + category_override list" where
  "parse_overrides cv i j [] = Inr []"
| "parse_overrides cv i j (JDict d # raws) =
     (case map_of d ''category'' of
        None \<Rightarrow> Inl (EntryPartInvalid i j)
      | Some c \<Rightarrow>
     (case tier_if_given (dict_get d ''tier'' JNull) of
        Inl e \<Rightarrow> Inl e
      | Inr tier \<Rightarrow>
     (case parse_overrides cv i (Suc j) raws of
        Inl e \<Rightarrow> Inl e
      | Inr rest \<Rightarrow>
          (let mode = dict_get d ''resolution_mode'' JNull
           in Inr (\<lparr>co_category = to_text cv c, co_tier = tier,
                    co_resolution_mode =
                      (if \<not> truthy_json mode then None
                       else Some (case mode of JStr s \<Rightarrow> s | _ \<Rightarrow> ''?''))\<rparr> # rest)))))"
| "parse_overrides cv i j (_ # raws) = Inl (EntryPartInvalid i j)"

definition parse_profile ::
  "conversions \<Rightarrow> string list \<Rightarrow> nat \<Rightarrow> json \<Rightarrow> config_error + context_profile" where
  "parse_profile cv seen i raw =
     (case raw of
        JDict d \<Rightarrow>
          (case map_of d ''id'' of
             None \<Rightarrow> Inl (EntryInvalid i)
           | Some idv \<Rightarrow>
          (case tier_if_given (dict_get d ''max_tier'' JNull) of
             Inl e \<Rightarrow> Inl e
           | Inr max_tier \<Rightarrow>
          (let listed = dict_get d ''category_overrides'' JNull
           in case (if truthy_json listed then iterated listed else Inr []) of
                Inl e \<Rightarrow> Inl (ConfigRaised e)
              | Inr raws \<Rightarrow>
          (case parse_overrides cv i 0 raws of
             Inl e \<Rightarrow> Inl e
           | Inr overrides \<Rightarrow>
               if to_text cv idv \<in> set seen then Inl (EntryDuplicate i)
               else Inr \<lparr>cx_id = to_text cv idv,
                         cx_user_pattern = to_text cv (dict_get d ''user_pattern'' (JStr ''*'')),
                         cx_use_case = to_text cv (dict_get d ''use_case'' (JStr ''general'')),
                         cx_max_tier = max_tier, cx_category_overrides = overrides\<rparr>))))
      | _ \<Rightarrow> Inl (EntryNotAnObject i))"

definition load_profiles :: "conversions \<Rightarrow> config_file \<Rightarrow> config_error + context_profile list" where
  "load_profiles cv file = load_file ''profiles'' (parse_profile cv) cx_id file"

interpretation categories: keyed_loader "parse_category cv" cg_id
  by unfold_locales
    (auto simp: parse_category_def Let_def split: json.splits option.splits sum.splits if_splits)

interpretation profiles: keyed_loader "parse_profile cv" cx_id
  by unfold_locales
    (auto simp: parse_profile_def Let_def split: json.splits option.splits sum.splits if_splits)

section \<open>Resolving a tier\<close>

datatype resolution_fault = UnknownCategory string | UnknownProfile string

record resolution_result =
  rz_tier :: tier
  rz_ignored :: "string list"
  rz_applied :: "(string \<times> tier) list"
  rz_contributing_profile_ids :: "string list"

text \<open>The loop of the immovable mode: the profiles consulted.\<close>

fun consulted ::
  "context_profile list \<Rightarrow> string \<Rightarrow> string list \<Rightarrow> resolution_fault + string list" where
  "consulted profiles category_id [] = Inr []"
| "consulted profiles category_id (pid # pids) =
     (case map_of (map (\<lambda>p. (cx_id p, p)) profiles) pid of
        None \<Rightarrow> Inl (UnknownProfile pid)
      | Some p \<Rightarrow>
          (case consulted profiles category_id pids of
             Inl e \<Rightarrow> Inl e
           | Inr rest \<Rightarrow> Inr (if override_for p category_id \<noteq> None then pid # rest else rest)))"

text \<open>One profile's override applied to the tier so far: the new tier, and whether it counts as applied.\<close>

definition apply_override :: "string \<Rightarrow> tier \<Rightarrow> tier \<Rightarrow> tier \<times> bool" where
  "apply_override mode current t =
     (if mode = ''context-up'' then (if compare t current > 0 then (t, True) else (current, False))
      else if mode = ''context-resolved'' then (max_by tier_rank current [t], True)
      else (current, False))"

fun compose_profiles ::
  "context_profile list \<Rightarrow> category_def \<Rightarrow> tier \<Rightarrow> string list
   \<Rightarrow> resolution_fault + tier \<times> (string \<times> tier) list \<times> string list" where
  "compose_profiles profiles category current [] = Inr (current, [], [])"
| "compose_profiles profiles category current (pid # pids) =
     (case map_of (map (\<lambda>p. (cx_id p, p)) profiles) pid of
        None \<Rightarrow> Inl (UnknownProfile pid)
      | Some p \<Rightarrow>
          (case override_for p (cg_id category) of
             None \<Rightarrow> compose_profiles profiles category current pids
           | Some ov \<Rightarrow>
               (case co_tier ov of
                  None \<Rightarrow> compose_profiles profiles category current pids
                | Some t \<Rightarrow>
                    (let mode = (case co_resolution_mode ov of
                                   Some m \<Rightarrow> m | None \<Rightarrow> cg_resolution_mode category);
                         step = apply_override mode current t
                     in case compose_profiles profiles category (fst step) pids of
                          Inl e \<Rightarrow> Inl e
                        | Inr (final, applied, contributing) \<Rightarrow>
                            Inr (final, if snd step then (pid, t) # applied else applied,
                                 pid # contributing)))))"

definition resolve_category_tier ::
  "string \<Rightarrow> string list \<Rightarrow> category_def list \<Rightarrow> context_profile list
   \<Rightarrow> resolution_fault + resolution_result" where
  "resolve_category_tier category_id profile_ids categories profiles =
     (case map_of (map (\<lambda>c. (cg_id c, c)) categories) category_id of
        None \<Rightarrow> Inl (UnknownCategory category_id)
      | Some category \<Rightarrow>
          if cg_resolution_mode category = ''fixed-high''
          then (case consulted profiles (cg_id category) (sort profile_ids) of
                  Inl e \<Rightarrow> Inl e
                | Inr ids \<Rightarrow>
                    Inr \<lparr>rz_tier = cg_default_tier category, rz_ignored = ids, rz_applied = [],
                         rz_contributing_profile_ids = ids\<rparr>)
          else (case compose_profiles profiles category (cg_default_tier category)
                       (sort profile_ids) of
                  Inl e \<Rightarrow> Inl e
                | Inr (final, applied, contributing) \<Rightarrow>
                    Inr \<lparr>rz_tier = final, rz_ignored = [], rz_applied = applied,
                         rz_contributing_profile_ids = contributing\<rparr>))"

text \<open>\<open>check_max_tier_clearance\<close>: \<open>None\<close>, or the clearance and the tier that is refused.\<close>

definition check_max_tier_clearance :: "context_profile \<Rightarrow> tier \<Rightarrow> (tier \<times> tier) option" where
  "check_max_tier_clearance p attempted =
     (case cx_max_tier p of
        None \<Rightarrow> None
      | Some m \<Rightarrow> if compare attempted m > 0 then Some (m, attempted) else None)"

section \<open>What a tier resolves to\<close>

text \<open>The tier by which a profile may raise a category: its override, under a mode that counts.\<close>

definition raises :: "context_profile list \<Rightarrow> category_def \<Rightarrow> string \<Rightarrow> tier option" where
  "raises profiles category pid =
     (case map_of (map (\<lambda>p. (cx_id p, p)) profiles) pid of
        None \<Rightarrow> None
      | Some p \<Rightarrow>
          (case override_for p (cg_id category) of
             None \<Rightarrow> None
           | Some ov \<Rightarrow>
               if (case co_resolution_mode ov of Some m \<Rightarrow> m | None \<Rightarrow> cg_resolution_mode category)
                    \<in> {''context-up'', ''context-resolved''}
               then co_tier ov else None))"

lemma apply_override_cases:
  "fst (apply_override mode current t) =
     (if mode \<in> {''context-up'', ''context-resolved''} \<and> tier_rank current < tier_rank t
      then t else current)"
  by (auto simp: apply_override_def compare_def Let_def split: if_splits)

lemma compose_profiles_tier:
  assumes "compose_profiles profiles category current pids = Inr (final, applied, contributing)"
  shows "tier_rank current \<le> tier_rank final
   \<and> (\<forall>pid \<in> set pids. \<forall>t. raises profiles category pid = Some t \<longrightarrow> tier_rank t \<le> tier_rank final)
   \<and> (final = current \<or> (\<exists>pid \<in> set pids. raises profiles category pid = Some final))"
  using assms
proof (induction pids arbitrary: current applied contributing)
  case (Cons pid pids)
  obtain p where p: "map_of (map (\<lambda>p. (cx_id p, p)) profiles) pid = Some p"
    using Cons.prems by (auto split: option.splits)
  show ?case
  proof (cases "override_for p (cg_id category)")
    case None
    then show ?thesis using Cons.prems Cons.IH [of current] p by (auto simp: raises_def)
  next
    case (Some ov)
    show ?thesis
    proof (cases "co_tier ov")
      case None
      then show ?thesis using Cons.prems Cons.IH [of current] p Some
        by (auto simp: raises_def split: if_splits)
    next
      case tier: (Some t)
      let ?mode = "case co_resolution_mode ov of Some m \<Rightarrow> m | None \<Rightarrow> cg_resolution_mode category"
      let ?next = "fst (apply_override ?mode current t)"
      obtain applied' contributing' where
        "compose_profiles profiles category ?next pids = Inr (final, applied', contributing')"
        using Cons.prems p Some tier by (auto simp: Let_def split: sum.splits)
      note IH = Cons.IH [OF this]
      have raise: "raises profiles category pid =
          (if ?mode \<in> {''context-up'', ''context-resolved''} then Some t else None)"
        using p Some tier by (simp add: raises_def)
      have new: "?next = (if ?mode \<in> {''context-up'', ''context-resolved''}
          \<and> tier_rank current < tier_rank t then t else current)" by (rule apply_override_cases)
      show ?thesis using IH raise new by (auto split: if_splits)
    qed
  qed
qed simp

text \<open>
  The tier of a category is its default when its mode is fixed, and otherwise the strictest of
  its default and of what the consulted profiles raise it to. It never falls below the default, in
  the mode that lets profiles lower it neither.
\<close>

theorem resolved_tier_is_strictest:
  assumes "resolve_category_tier category_id profile_ids categories profiles = Inr r"
  shows "\<exists>category \<in> set categories. cg_id category = category_id
   \<and> (cg_resolution_mode category = ''fixed-high'' \<longrightarrow> rz_tier r = cg_default_tier category)
   \<and> tier_rank (cg_default_tier category) \<le> tier_rank (rz_tier r)
   \<and> (cg_resolution_mode category \<noteq> ''fixed-high'' \<longrightarrow>
        (\<forall>pid \<in> set profile_ids. \<forall>t. raises profiles category pid = Some t \<longrightarrow>
           tier_rank t \<le> tier_rank (rz_tier r)))
   \<and> (rz_tier r = cg_default_tier category
      \<or> (\<exists>pid \<in> set profile_ids. raises profiles category pid = Some (rz_tier r)))"
proof -
  obtain category where c: "map_of (map (\<lambda>c. (cg_id c, c)) categories) category_id = Some category"
    using assms by (auto simp: resolve_category_tier_def split: option.splits)
  have mem: "category \<in> set categories" "cg_id category = category_id"
    using map_of_SomeD [OF c] by auto
  show ?thesis
  proof (cases "cg_resolution_mode category = ''fixed-high''")
    case True
    then have "rz_tier r = cg_default_tier category"
      using assms c by (auto simp: resolve_category_tier_def split: sum.splits)
    with mem True show ?thesis by auto
  next
    case False
    then obtain applied contributing where
      "compose_profiles profiles category (cg_default_tier category) (sort profile_ids)
         = Inr (rz_tier r, applied, contributing)"
      using assms c by (auto simp: resolve_category_tier_def split: sum.splits)
    from compose_profiles_tier [OF this] mem False show ?thesis by auto
  qed
qed

text \<open>
  The order in which profiles are given does not matter.
\<close>

theorem resolution_order_independent:
  assumes "mset profile_ids = mset profile_ids'"
  shows "resolve_category_tier category_id profile_ids categories profiles
    = resolve_category_tier category_id profile_ids' categories profiles"
proof -
  have "sort profile_ids' = sort profile_ids"
    by (rule properties_for_sort) (simp_all add: assms)
  then show ?thesis unfolding resolve_category_tier_def by (simp only:)
qed

definition mail_category :: category_def where
  "mail_category =
     \<lparr>cg_id = ''personal'', cg_default_tier = REGULATED, cg_resolution_mode = ''context-up'',
      cg_risk_ids = [], cg_c_impact = ''medium'', cg_i_impact = ''medium'', cg_kind = ''registered''\<rparr>"

definition raising_profile :: "string option \<Rightarrow> context_profile" where
  "raising_profile mode =
     \<lparr>cx_id = ''clinic'', cx_user_pattern = ''*'', cx_use_case = ''general'', cx_max_tier = None,
      cx_category_overrides = [\<lparr>co_category = ''personal'', co_tier = Some RESTRICTED,
        co_resolution_mode = mode\<rparr>]\<rparr>"

theorem resolved_tier_is_strictest_witness:
  "\<exists>r. resolve_category_tier ''personal'' [''clinic''] [mail_category] [raising_profile None] = Inr r
     \<and> tier_rank REGULATED \<le> tier_rank (rz_tier r)"
proof -
  obtain r where r: "resolve_category_tier ''personal'' [''clinic''] [mail_category]
      [raising_profile None] = Inr r"
    by (simp add: resolve_category_tier_def mail_category_def raising_profile_def override_for_def
        Let_def split: prod.split)
  from resolved_tier_is_strictest [OF r] r show ?thesis by (auto simp: mail_category_def)
qed

theorem resolution_order_independent_witness:
  "resolve_category_tier ''personal'' [''b'', ''a''] [mail_category] []
    = resolve_category_tier ''personal'' [''a'', ''b''] [mail_category] []"
  by (rule resolution_order_independent) simp

text \<open>
  An override whose resolution mode is misspelled is accepted by the reader and ignored by the
  resolver: the raise it declares is lost, and the profile still counts as contributing.
\<close>

theorem misspelled_mode_drops_raise:
  assumes "mode \<notin> {''context-up'', ''context-resolved''}"
  shows "resolve_category_tier ''personal'' [''clinic''] [mail_category] [raising_profile (Some mode)]
    = Inr \<lparr>rz_tier = REGULATED, rz_ignored = [], rz_applied = [],
           rz_contributing_profile_ids = [''clinic'']\<rparr>
   \<and> parse_overrides cv i 0 [JDict [(''category'', JStr ''personal''), (''tier'', JStr ''restricted''),
        (''resolution_mode'', JStr (c # mode'))]]
    = Inr [\<lparr>co_category = ''personal'', co_tier = Some RESTRICTED, co_resolution_mode = Some (c # mode')\<rparr>]"
  using assms
  by (simp add: resolve_category_tier_def mail_category_def raising_profile_def override_for_def
      apply_override_def Let_def to_text_def tier_if_given_def truthy_json_def json_enum_def
      enum_of_def tiers_def dict_get_def)

theorem misspelled_mode_drops_raise_witness:
  "\<exists>r. resolve_category_tier ''personal'' [''clinic''] [mail_category] [raising_profile (Some ''context_up'')]
     = Inr r \<and> rz_tier r = REGULATED"
  using misspelled_mode_drops_raise [of "''context_up''"] by simp

end
