(* ===== verification/PostureFiles.thy ===== *)
theory PostureFiles
  imports ConfigFiles
begin

text \<open>
  Security postures (\<open>policy/posture.py\<close>): the whole record with its validation, the three shipped
  presets, the file of custom ones, and the resolution of the active posture. The part of a posture
  the mode dispatcher reads is \<open>posture\<close> of \<open>Dispatcher\<close>.
\<close>

section \<open>Postures\<close>

datatype retention = TRANSIENT | REDACTED | METADATA | ARTIFACT

fun retention_value :: "retention \<Rightarrow> string" where
  "retention_value TRANSIENT = ''transient''"
| "retention_value REDACTED = ''redacted''"
| "retention_value METADATA = ''metadata''"
| "retention_value ARTIFACT = ''artifact''"

interpretation retention_enum:
  str_enum retention_value "[TRANSIENT, REDACTED, METADATA, ARTIFACT]"
proof
  show "e \<in> set [TRANSIENT, REDACTED, METADATA, ARTIFACT]" for e by (cases e) simp_all
qed simp

definition IMAGE_SAFETY_FORCED_ON :: string where
  "IMAGE_SAFETY_FORCED_ON = ''forced_on''"

definition IMAGE_SAFETY_DEFAULT_ON_OPTOUT_OK :: string where
  "IMAGE_SAFETY_DEFAULT_ON_OPTOUT_OK = ''default_on_optout_ok''"

definition DEFAULT_FLOW_PATTERN_DEFAULTS :: "(tier \<times> execution_mode) list" where
  "DEFAULT_FLOW_PATTERN_DEFAULTS = map (\<lambda>t. (t, default_flow_pattern t)) tiers"

record full_posture =
  fp_dispatch :: posture
  fp_clearance_max_tier :: "tier option"
  fp_risk_preference :: risk_preference
  fp_inspector_set :: "string list"
  fp_retention :: retention
  fp_image_filters :: string

definition image_safety_forced :: "full_posture \<Rightarrow> bool" where
  "image_safety_forced p \<longleftrightarrow> fp_image_filters p = IMAGE_SAFETY_FORCED_ON"

datatype posture_error =
    BelowFloor string | BadImageFilters string | ShadowsBuiltin "string list"
  | UnknownPosture string | PostureConfig config_error

definition validate_posture :: "full_posture \<Rightarrow> posture_error + full_posture" where
  "validate_posture p =
     (if \<not> posture_respects_floor (fp_dispatch p) then Inl (BelowFloor (po_id (fp_dispatch p)))
      else if fp_image_filters p \<notin> {IMAGE_SAFETY_FORCED_ON, IMAGE_SAFETY_DEFAULT_ON_OPTOUT_OK}
      then Inl (BadImageFilters (po_id (fp_dispatch p)))
      else Inr p)"

section \<open>Presets\<close>

definition preset ::
  "string \<Rightarrow> risk_preference \<Rightarrow> execution_mode \<Rightarrow> execution_mode \<Rightarrow> string list \<Rightarrow> retention \<Rightarrow> string
   \<Rightarrow> full_posture" where
  "preset pid dial sensitive regulated inspectors kept images =
     \<lparr>fp_dispatch = \<lparr>po_id = pid,
        po_flow_pattern_defaults =
          [(NONE, TURN_LEVEL), (SENSITIVE, sensitive), (REGULATED, regulated),
           (RESTRICTED, REFERENCE), (PROHIBITED, SEALED)],
        po_projection_only = True\<rparr>,
      fp_clearance_max_tier = None, fp_risk_preference = dial, fp_inspector_set = inspectors,
      fp_retention = kept, fp_image_filters = images\<rparr>"

definition BUILTIN_POSTURES :: "full_posture list" where
  "BUILTIN_POSTURES =
     [preset ''strict'' CAUTIOUS REFERENCE REFERENCE [''after_hours_purchase_tightener''] METADATA
        IMAGE_SAFETY_FORCED_ON,
      preset ''high-security-useful'' BALANCED TURN_LEVEL DUAL_LLM
        [''self_egress_relaxer'', ''after_hours_purchase_tightener''] REDACTED
        IMAGE_SAFETY_FORCED_ON,
      preset ''low-friction-practical'' PERMISSIVE TURN_LEVEL TURN_LEVEL
        [''self_egress_relaxer'', ''after_hours_purchase_tightener''] ARTIFACT
        IMAGE_SAFETY_DEFAULT_ON_OPTOUT_OK]"

definition posture_id :: "full_posture \<Rightarrow> string" where
  "posture_id p = po_id (fp_dispatch p)"

definition resolve_posture ::
  "string \<Rightarrow> full_posture list \<Rightarrow> posture_error + full_posture" where
  "resolve_posture pid custom =
     (let shadowed = filter (\<lambda>i. i \<in> set (map posture_id BUILTIN_POSTURES)) (map posture_id custom)
      in if shadowed \<noteq> [] then Inl (ShadowsBuiltin (sort shadowed))
         else case find (\<lambda>p. posture_id p = pid) (BUILTIN_POSTURES @ custom) of
                None \<Rightarrow> Inl (UnknownPosture pid)
              | Some p \<Rightarrow> Inr p)"

section \<open>The reader\<close>

fun parse_patterns ::
  "conversions \<Rightarrow> nat \<Rightarrow> (string \<times> json) list \<Rightarrow> (tier \<times> execution_mode) list
   \<Rightarrow> config_error + (tier \<times> execution_mode) list" where
  "parse_patterns cv i [] acc = Inr acc"
| "parse_patterns cv i ((tier_raw, mode_raw) # rest) acc =
     (case enum_of tier_value tiers tier_raw of
        Inl _ \<Rightarrow> Inl (EntryFieldInvalid i ''flow_pattern_defaults'')
      | Inr t \<Rightarrow>
          (case enum_of mode_value execution_modes (to_text cv mode_raw) of
             Inl _ \<Rightarrow> Inl (EntryFieldInvalid i ''flow_pattern_defaults'')
           | Inr m \<Rightarrow> parse_patterns cv i rest (AList.update t m acc)))"

definition parse_flow_pattern_defaults ::
  "conversions \<Rightarrow> nat \<Rightarrow> json \<Rightarrow> config_error + (tier \<times> execution_mode) list" where
  "parse_flow_pattern_defaults cv i raw =
     (case raw of
        JNull \<Rightarrow> Inr DEFAULT_FLOW_PATTERN_DEFAULTS
      | JDict d \<Rightarrow> parse_patterns cv i d DEFAULT_FLOW_PATTERN_DEFAULTS
      | _ \<Rightarrow> Inl (EntryFieldInvalid i ''flow_pattern_defaults''))"

definition risk_preference_values :: "risk_preference list" where
  "risk_preference_values = [CAUTIOUS, BALANCED, PERMISSIVE]"

definition parse_posture ::
  "conversions \<Rightarrow> nat \<Rightarrow> json \<Rightarrow> posture_error + full_posture" where
  "parse_posture cv i raw =
     (case raw of
        JDict d \<Rightarrow>
          (case map_of d ''id'' of
             None \<Rightarrow> Inl (PostureConfig (EntryInvalid i))
           | Some idv \<Rightarrow>
          (let given = dict_get d ''clearance_max_tier'' JNull;
               clearance = (if truthy_json given
                            then map_sum id Some (enum_of tier_value tiers (to_text cv given))
                            else Inr None)
           in case (clearance,
                    enum_of dial_value risk_preference_values
                      (to_text cv (dict_get d ''risk_preference'' (JStr ''cautious''))),
                    enum_of retention_value [TRANSIENT, REDACTED, METADATA, ARTIFACT]
                      (to_text cv (dict_get d ''retention'' (JStr ''metadata'')))) of
                (Inr max_tier, Inr risk, Inr kept) \<Rightarrow>
                  (case texts_at cv d ''inspector_set'' of
                     Inl e \<Rightarrow> Inl (PostureConfig e)
                   | Inr inspectors \<Rightarrow>
                  (case parse_flow_pattern_defaults cv i (dict_get d ''flow_pattern_defaults'' JNull) of
                     Inl e \<Rightarrow> Inl (PostureConfig e)
                   | Inr patterns \<Rightarrow>
                       validate_posture
                         \<lparr>fp_dispatch = \<lparr>po_id = to_text cv idv, po_flow_pattern_defaults = patterns,
                            po_projection_only =
                              truthy_json (dict_get d ''projection_only'' (JBool True))\<rparr>,
                          fp_clearance_max_tier = max_tier, fp_risk_preference = risk,
                          fp_inspector_set = inspectors, fp_retention = kept,
                          fp_image_filters =
                            to_text cv (dict_get d ''image_filters''
                              (JStr IMAGE_SAFETY_DEFAULT_ON_OPTOUT_OK))\<rparr>))
              | _ \<Rightarrow> Inl (PostureConfig (EntryInvalid i))))
      | _ \<Rightarrow> Inl (PostureConfig (EntryNotAnObject i)))"

fun parse_postures ::
  "conversions \<Rightarrow> nat \<Rightarrow> string list \<Rightarrow> json list \<Rightarrow> posture_error + full_posture list" where
  "parse_postures cv i seen [] = Inr []"
| "parse_postures cv i seen (raw # raws) =
     (case parse_posture cv i raw of
        Inl e \<Rightarrow> Inl e
      | Inr p \<Rightarrow>
          if posture_id p \<in> set seen then Inl (PostureConfig (EntryDuplicate i))
          else (case parse_postures cv (Suc i) (seen @ [posture_id p]) raws of
                  Inl e \<Rightarrow> Inl e | Inr ps \<Rightarrow> Inr (p # ps)))"

definition load_postures :: "conversions \<Rightarrow> config_file \<Rightarrow> posture_error + full_posture list" where
  "load_postures cv file =
     (case config_list ''postures'' file of
        Inl e \<Rightarrow> Inl (PostureConfig e) | Inr raws \<Rightarrow> parse_postures cv 0 [] raws)"

section \<open>Every posture keeps the floors\<close>

lemma validate_posture_Inr:
  "validate_posture p = Inr q \<Longrightarrow> q = p \<and> posture_respects_floor (fp_dispatch q)
     \<and> fp_image_filters q \<in> {IMAGE_SAFETY_FORCED_ON, IMAGE_SAFETY_DEFAULT_ON_OPTOUT_OK}"
  by (simp add: validate_posture_def split: if_splits)

lemma parse_posture_valid:
  "parse_posture cv i raw = Inr p \<Longrightarrow> posture_respects_floor (fp_dispatch p)
     \<and> fp_image_filters p \<in> {IMAGE_SAFETY_FORCED_ON, IMAGE_SAFETY_DEFAULT_ON_OPTOUT_OK}"
  by (auto simp: parse_posture_def Let_def split: json.splits option.splits sum.splits if_splits
      dest!: validate_posture_Inr)

lemma parse_postures_valid:
  "parse_postures cv i seen raws = Inr ps \<Longrightarrow>
     distinct (map posture_id ps)
     \<and> (\<forall>p \<in> set ps. posture_respects_floor (fp_dispatch p) \<and> posture_id p \<notin> set seen)"
proof (induction cv i seen raws arbitrary: ps rule: parse_postures.induct)
  case (2 cv i seen raw raws)
  then obtain p rest where p: "parse_posture cv i raw = Inr p" "posture_id p \<notin> set seen"
    and rest: "parse_postures cv (Suc i) (seen @ [posture_id p]) raws = Inr rest" and ps: "ps = p # rest"
    by (auto split: sum.splits if_splits)
  show ?case using "2.IH" [OF p rest] parse_posture_valid [OF p(1)] p(2) by (auto simp: ps)
qed simp

lemma builtin_postures_valid:
  "p \<in> set BUILTIN_POSTURES \<Longrightarrow> posture_respects_floor (fp_dispatch p)"
  by (auto simp: BUILTIN_POSTURES_def preset_def posture_respects_floor_def)

text \<open>
  Whatever custom postures the operator's file declares, the posture that is selected keeps the
  structural floor of every tier, and the name of a shipped preset means the shipped preset.
\<close>

theorem selected_posture_keeps_floors:
  assumes "load_postures cv file = Inr custom" and "resolve_posture pid custom = Inr p"
  shows "pattern_strength (flow_pattern_for (fp_dispatch p) t) \<ge> pattern_strength (floor_pattern t)
    \<and> posture_id p = pid
    \<and> (pid \<in> set (map posture_id BUILTIN_POSTURES) \<longrightarrow> p \<in> set BUILTIN_POSTURES)"
proof -
  obtain raws where "parse_postures cv 0 [] raws = Inr custom"
    using assms(1) by (auto simp: load_postures_def split: sum.splits)
  then have ok: "posture_respects_floor (fp_dispatch q)" if "q \<in> set custom" for q
    using parse_postures_valid that by blast
  have found: "find (\<lambda>p. posture_id p = pid) (BUILTIN_POSTURES @ custom) = Some p"
    and clear: "set (map posture_id custom) \<inter> set (map posture_id BUILTIN_POSTURES) = {}"
    using assms(2) by (auto simp: resolve_posture_def Let_def filter_empty_conv
        split: if_splits option.splits)
  obtain n where n: "n < length (BUILTIN_POSTURES @ custom)" "(BUILTIN_POSTURES @ custom) ! n = p"
    and pid: "posture_id p = pid"
    using found by (fastforce simp only: find_Some_iff)
  have "p \<in> set (BUILTIN_POSTURES @ custom)" using nth_mem [OF n(1)] unfolding n(2) .
  then have p: "p \<in> set BUILTIN_POSTURES \<or> p \<in> set custom" by (simp only: set_append Un_iff)
  then have "posture_respects_floor (fp_dispatch p)" using ok builtin_postures_valid by metis
  moreover have "pid \<notin> set (map posture_id BUILTIN_POSTURES)" if "p \<in> set custom"
    using clear pid image_eqI [OF refl that, of posture_id] by (simp only: set_map) blast
  ultimately show ?thesis using flow_pattern_for_floor p pid by metis
qed

definition quiet_conversions :: conversions where
  "quiet_conversions =
     \<lparr>cv_text = (\<lambda>_. []), cv_int = (\<lambda>_. Inl ValueError), cv_dict = (\<lambda>_. Inl ValueError)\<rparr>"

definition custom_file :: config_file where
  "custom_file = YamlDoc (JDict [(''postures'', JList [JDict [(''id'', JStr ''mine''),
     (''flow_pattern_defaults'', JDict [(''sensitive'', JStr ''reference'')])]])])"

theorem selected_posture_keeps_floors_witness:
  "\<exists>custom p. load_postures quiet_conversions custom_file = Inr custom
     \<and> resolve_posture ''mine'' custom = Inr p \<and> posture_id p = ''mine''
     \<and> pattern_strength (flow_pattern_for (fp_dispatch p) RESTRICTED) \<ge> 2"
proof -
  obtain custom where custom: "load_postures quiet_conversions custom_file = Inr custom"
    "resolve_posture ''mine'' custom \<noteq> Inl (UnknownPosture ''mine'')"
    "map posture_id custom = [''mine'']"
    by (simp add: load_postures_def custom_file_def config_list_def dict_get_def truthy_json_def
        parse_posture_def to_text_def enum_of_def risk_preference_values_def texts_at_def
        parse_flow_pattern_defaults_def tiers_def execution_modes_def validate_posture_def
        posture_respects_floor_def DEFAULT_FLOW_PATTERN_DEFAULTS_def posture_id_def Let_def
        resolve_posture_def BUILTIN_POSTURES_def preset_def)
  then obtain p where p: "resolve_posture ''mine'' custom = Inr p"
    by (auto simp: resolve_posture_def Let_def BUILTIN_POSTURES_def preset_def posture_id_def
        split: option.splits if_splits)
  from selected_posture_keeps_floors [OF custom(1) p, of RESTRICTED] custom(1) p
  show ?thesis by auto
qed

end
