(* ===== verification/ConfigReaders.thy ===== *)
theory ConfigReaders
  imports ConfigFiles OverrideLemmas Purposes Relationships Assurance SessionModel
begin

text \<open>
  The readers of the files a decision is made from: standing rules (\<open>load\<close> of
  \<open>policy/decision_rules.py\<close>), override policies (\<open>load\<close> of \<open>policy/overrides.py\<close>), outcome
  envelopes and the risk preference (\<open>policy/envelope.py\<close>).
\<close>

section \<open>Standing rules\<close>

definition rule_outcomes :: "rule_outcome list" where
  "rule_outcomes = [RO_DENY, RO_OVERRIDE_REQUIRED, RO_REQUIRE_APPROVAL, RO_SUGGEST, RO_AUTO, RO_SHADOW]"

text \<open>\<open>item.get(key) or {}\<close>, which has to be a dictionary.\<close>

definition dict_at :: "(string \<times> json) list \<Rightarrow> string \<Rightarrow> (string \<times> json) list option" where
  "dict_at d key =
     (let raw = dict_get d key JNull
      in if \<not> truthy_json raw then Some [] else case raw of JDict x \<Rightarrow> Some x | _ \<Rightarrow> None)"

definition axis_of :: "(string \<times> json) list \<Rightarrow> string \<Rightarrow> config_error + (string \<times> json) list" where
  "axis_of d axis =
     (case dict_at d axis of None \<Rightarrow> Inl (SectionInvalid axis) | Some x \<Rightarrow> Inr x)"

definition parse_window :: "conversions \<Rightarrow> json \<Rightarrow> config_error + (int \<times> int) option" where
  "parse_window cv raw =
     (case raw of
        JNull \<Rightarrow> Inr None
      | JList [a, b] \<Rightarrow>
          (case to_int cv a of
             Inl e \<Rightarrow> Inl (ConfigRaised e)
           | Inr start_hour \<Rightarrow>
               (case to_int cv b of
                  Inl e \<Rightarrow> Inl (ConfigRaised e)
                | Inr end_hour \<Rightarrow> Inr (Some (start_hour, end_hour))))
      | _ \<Rightarrow> Inl (SectionInvalid ''time_window''))"

text \<open>
  A rule as the reader builds it. The dataclass declares texts, the reader checks none of them: a
  condition is the value the file has under the key. Only the listed categories go through \<open>str\<close>.
\<close>

record raw_predicate =
  rw_category :: json
  rw_categories :: "string list"
  rw_provenance :: json
  rw_effect_class :: json
  rw_initiator :: json
  rw_counterparty :: json
  rw_relationship_group_id :: json
  rw_expectedness :: json
  rw_reversibility_degree :: json
  rw_time_window :: "(int \<times> int) option"
  rw_target :: json

record raw_rule =
  rr_rule_id :: string
  rr_predicate :: raw_predicate
  rr_outcome :: rule_outcome
  rr_rationale :: string
  rr_risk_ids :: "string list"
  rr_human_ratified_by :: json
  rr_crosses_floor :: "string option"

definition parse_predicate :: "conversions \<Rightarrow> (string \<times> json) list \<Rightarrow> config_error + raw_predicate" where
  "parse_predicate cv d =
     (case (axis_of d ''axis_a'', axis_of d ''axis_b'', axis_of d ''axis_c'', axis_of d ''axis_d'') of
        (Inr a, Inr b, Inr c, Inr x) \<Rightarrow>
          (case parse_window cv (dict_get x ''time_window'' JNull) of
             Inl e \<Rightarrow> Inl e
           | Inr window \<Rightarrow>
          (let listed = dict_get a ''categories'' JNull
           in case (if truthy_json listed then (case listed of JList cs \<Rightarrow> Some cs | _ \<Rightarrow> None)
                    else Some []) of
                None \<Rightarrow> Inl (SectionInvalid ''categories'')
              | Some cs \<Rightarrow>
                  Inr \<lparr>rw_category = dict_get a ''category'' JNull,
                       rw_categories = map (to_text cv) cs,
                       rw_provenance = dict_get b ''provenance'' JNull,
                       rw_effect_class = dict_get c ''effect_class'' JNull,
                       rw_initiator = dict_get x ''initiator'' JNull,
                       rw_counterparty = dict_get x ''counterparty'' JNull,
                       rw_relationship_group_id = dict_get x ''relationship_group_id'' JNull,
                       rw_expectedness = dict_get x ''expectedness'' JNull,
                       rw_reversibility_degree = dict_get x ''reversibility'' JNull,
                       rw_time_window = window, rw_target = dict_get d ''target'' JNull\<rparr>))
      | (Inl e, _) \<Rightarrow> Inl e
      | (_, Inl e, _) \<Rightarrow> Inl e
      | (_, _, Inl e, _) \<Rightarrow> Inl e
      | (_, _, _, Inl e) \<Rightarrow> Inl e)"

definition crosses_floor_at ::
  "conversions \<Rightarrow> (string \<times> json) list \<Rightarrow> py_error + string option" where
  "crosses_floor_at cv d =
     (let raw = dict_get d ''crosses_floor'' JNull
      in validate_crosses_floor (if raw = JNull then None else Some (to_text cv raw)))"

definition parse_rule :: "conversions \<Rightarrow> string list \<Rightarrow> nat \<Rightarrow> json \<Rightarrow> config_error + raw_rule" where
  "parse_rule cv seen i raw =
     (case raw of
        JDict d \<Rightarrow>
          (case (map_of d ''rule_id'', map_of d ''outcome'') of
             (Some idv, Some outv) \<Rightarrow>
               (case enum_of outcome_value rule_outcomes (to_text cv outv) of
                  Inl _ \<Rightarrow> Inl (EntryInvalid i)
                | Inr outcome \<Rightarrow>
               (let rid = to_text cv idv
                in if rid \<in> set seen then Inl (EntryDuplicate i)
                   else case dict_at d ''when'' of
                          None \<Rightarrow> Inl (EntryFieldInvalid i ''when'')
                        | Some w \<Rightarrow>
                            (case parse_predicate cv w of
                               Inl e \<Rightarrow> Inl e
                             | Inr predicate \<Rightarrow>
                            (case crosses_floor_at cv d of
                               Inl _ \<Rightarrow> Inl (EntryFieldInvalid i ''crosses_floor'')
                             | Inr crosses_floor \<Rightarrow>
                            (case texts_at cv d ''risk_ids'' of
                               Inl e \<Rightarrow> Inl e
                             | Inr risk_ids \<Rightarrow>
                                 Inr \<lparr>rr_rule_id = rid, rr_predicate = predicate,
                                      rr_outcome = outcome,
                                      rr_rationale = to_text cv (dict_get d ''rationale'' (JStr [])),
                                      rr_risk_ids = risk_ids,
                                      rr_human_ratified_by = dict_get d ''human_ratified_by'' JNull,
                                      rr_crosses_floor = crosses_floor\<rparr>)))))
           | _ \<Rightarrow> Inl (EntryInvalid i))
      | _ \<Rightarrow> Inl (EntryNotAnObject i))"

definition load_rules :: "conversions \<Rightarrow> config_file \<Rightarrow> config_error + raw_rule list" where
  "load_rules cv file = load_file ''rules'' (parse_rule cv) rr_rule_id file"

interpretation rule_file: keyed_loader "parse_rule cv" rr_rule_id
  by unfold_locales
    (auto simp: parse_rule_def Let_def split: json.splits option.splits sum.splits if_splits)

section \<open>Evaluating the rules of a file\<close>

text \<open>\<open>self.f is not None and self.f != v\<close> fails the match.\<close>

definition absent_or :: "json \<Rightarrow> string option \<Rightarrow> bool" where
  "absent_or v actual \<longleftrightarrow> v = JNull \<or> (case actual of None \<Rightarrow> False | Some s \<Rightarrow> v = JStr s)"

text \<open>\<open>for req in required_categories: if req not in present: return False\<close>.\<close>

fun all_present :: "string list \<Rightarrow> json list \<Rightarrow> py_error + bool" where
  "all_present cats [] = Inr True"
| "all_present cats (req # reqs) =
     (case json_in req cats of
        Inl e \<Rightarrow> Inl e
      | Inr here \<Rightarrow> if here then all_present cats reqs else Inr False)"

definition raw_required :: "raw_predicate \<Rightarrow> json list" where
  "raw_required p =
     map JStr (rw_categories p) @ (if rw_category p = JNull then [] else [rw_category p])"

text \<open>\<open>RulePredicate.matches\<close>, in the order of the code, with the two tests that may raise.\<close>

definition raw_matches ::
  "raw_predicate \<Rightarrow> label_state \<Rightarrow> decision_context \<Rightarrow> string \<Rightarrow> string \<Rightarrow> int option
   \<Rightarrow> py_error + bool" where
  "raw_matches p labels axis_d effect_class target now_hour =
     (if \<not> absent_or (rw_target p) (Some target) \<or> \<not> absent_or (rw_effect_class p) (Some effect_class)
      then Inr False
      else case all_present (map ct_category (ls_a labels)) (raw_required p) of
             Inl e \<Rightarrow> Inl e
           | Inr all_there \<Rightarrow>
               if \<not> all_there \<or> \<not> unset_or (rw_time_window p) (in_window now_hour)
                  \<or> \<not> (rw_provenance p = JNull
                     \<or> list_ex (\<lambda>e. JStr (provenance_value (pt_level e)) = rw_provenance p) (ls_b labels))
                  \<or> \<not> absent_or (rw_initiator p) (Some (dc_initiator axis_d))
                  \<or> \<not> absent_or (rw_counterparty p) (dc_counterparty axis_d)
               then Inr False
               else case (if rw_relationship_group_id p = JNull then Inr True
                          else json_in (rw_relationship_group_id p)
                                 (dc_relationship_group_ids axis_d)) of
                      Inl e \<Rightarrow> Inl e
                    | Inr in_group \<Rightarrow>
                        Inr (in_group
                           \<and> absent_or (rw_expectedness p) (Some (dc_expectedness axis_d))
                           \<and> absent_or (rw_reversibility_degree p)
                               (map_of (ctx_reversibility axis_d) ''degree'')))"

fun raw_matched ::
  "raw_rule list \<Rightarrow> label_state \<Rightarrow> decision_context \<Rightarrow> string \<Rightarrow> string \<Rightarrow> int option
   \<Rightarrow> py_error + raw_rule list" where
  "raw_matched [] labels axis_d effect_class target now_hour = Inr []"
| "raw_matched (r # rs) labels axis_d effect_class target now_hour =
     (if rr_human_ratified_by r = JNull then raw_matched rs labels axis_d effect_class target now_hour
      else case raw_matches (rr_predicate r) labels axis_d effect_class target now_hour of
             Inl e \<Rightarrow> Inl e
           | Inr hit \<Rightarrow>
               map_sum id (\<lambda>ms. if hit then r # ms else ms)
                 (raw_matched rs labels axis_d effect_class target now_hour))"

text \<open>A rule at the types the dataclass declares; what is no text is dropped from this view.\<close>

definition predicate_of :: "raw_predicate \<Rightarrow> rule_predicate" where
  "predicate_of p =
     \<lparr>rp_category = json_text (rw_category p), rp_categories = rw_categories p,
      rp_provenance = json_text (rw_provenance p), rp_effect_class = json_text (rw_effect_class p),
      rp_initiator = json_text (rw_initiator p), rp_counterparty = json_text (rw_counterparty p),
      rp_relationship_group_id = json_text (rw_relationship_group_id p),
      rp_expectedness = json_text (rw_expectedness p),
      rp_reversibility_degree = json_text (rw_reversibility_degree p),
      rp_time_window = rw_time_window p, rp_target = json_text (rw_target p)\<rparr>"

definition rule_of :: "raw_rule \<Rightarrow> decision_rule" where
  "rule_of r =
     \<lparr>dr_rule_id = rr_rule_id r, dr_predicate = predicate_of (rr_predicate r),
      dr_outcome = rr_outcome r, dr_rationale = rr_rationale r, dr_risk_ids = rr_risk_ids r,
      dr_human_ratified_by = json_text (rr_human_ratified_by r),
      dr_crosses_floor = rr_crosses_floor r\<rparr>"

text \<open>\<open>evaluate\<close> on the rules of a file: the identifier, outcome and floor of a rule are texts.\<close>

definition raw_evaluate ::
  "raw_rule list \<Rightarrow> label_state \<Rightarrow> decision_context \<Rightarrow> string \<Rightarrow> string
   \<Rightarrow> rule_outcome \<Rightarrow> int option \<Rightarrow> py_error + evaluation_result" where
  "raw_evaluate rules labels axis_d effect_class target default_when_no_match now_hour =
     (if default_when_no_match = RO_AUTO then Inl DecisionRuleError
      else case raw_matched rules labels axis_d effect_class target now_hour of
             Inl e \<Rightarrow> Inl e
           | Inr matched \<Rightarrow> compose_matched (map rule_of matched) default_when_no_match)"

text \<open>The rules whose conditions are texts or absent, for which the engine's view loses nothing.\<close>

definition plain_value :: "json \<Rightarrow> bool" where
  "plain_value v \<longleftrightarrow> v = JNull \<or> json_text v \<noteq> None"

definition plain_rule :: "raw_rule \<Rightarrow> bool" where
  "plain_rule r \<longleftrightarrow>
     (let p = rr_predicate r
      in list_all plain_value
           [rw_category p, rw_provenance p, rw_effect_class p, rw_initiator p, rw_counterparty p,
            rw_relationship_group_id p, rw_expectedness p, rw_reversibility_degree p, rw_target p,
            rr_human_ratified_by r])"

section \<open>Override policies\<close>

fun override_policy_value :: "override_policy \<Rightarrow> string" where
  "override_policy_value DISALLOWED = ''disallowed''"
| "override_policy_value SINGLE_AUTHORIZED = ''single-authorized''"
| "override_policy_value DUAL_CONTROL = ''dual-control''"

fun trust_profile_value :: "trust_profile \<Rightarrow> string" where
  "trust_profile_value MANAGED = ''managed''"
| "trust_profile_value PERSONAL = ''personal''"

fun friction_value :: "friction_level \<Rightarrow> string" where
  "friction_value LOW = ''low''"
| "friction_value MEDIUM = ''medium''"
| "friction_value MAXIMAL = ''maximal''"

text \<open>\<open>frozenset(str(p) for p in item.get(key, []))\<close>: a null raises, a text gives its characters.\<close>

definition principals_at ::
  "conversions \<Rightarrow> (string \<times> json) list \<Rightarrow> string \<Rightarrow> config_error + string list" where
  "principals_at cv d key =
     (case iterated (dict_get d key (JList [])) of
        Inl e \<Rightarrow> Inl (ConfigRaised e) | Inr vs \<Rightarrow> Inr (remdups (map (to_text cv) vs)))"

definition friction_at ::
  "conversions \<Rightarrow> (string \<times> json) list \<Rightarrow> config_error + friction_level option" where
  "friction_at cv d =
     (case map_of d ''friction_level'' of
        None \<Rightarrow> Inr None
      | Some v \<Rightarrow>
          (case enum_of friction_value [LOW, MEDIUM, MAXIMAL] (to_text cv v) of
             Inl e \<Rightarrow> Inl (ConfigRaised e) | Inr f \<Rightarrow> Inr (Some f)))"

definition parse_override_entry ::
  "conversions \<Rightarrow> hard_floor list \<Rightarrow> nat \<Rightarrow> json \<Rightarrow> config_error + override_policy_entry" where
  "parse_override_entry cv seen i raw =
     (case raw of
        JDict d \<Rightarrow>
          (case (map_of d ''tier_or_floor'', map_of d ''policy'') of
             (Some floorv, Some policyv) \<Rightarrow>
               (case (enum_of hard_floor_value hard_floors (to_text cv floorv),
                      enum_of override_policy_value [DISALLOWED, SINGLE_AUTHORIZED, DUAL_CONTROL]
                        (to_text cv policyv)) of
                  (Inr fl, Inr policy) \<Rightarrow>
                    if fl \<in> set seen then Inl (EntryDuplicate i)
                    else (case principals_at cv d ''authorized_principal_ids'' of
                            Inl e \<Rightarrow> Inl e
                          | Inr authorized \<Rightarrow>
                         (case principals_at cv d ''attester_principal_ids'' of
                            Inl e \<Rightarrow> Inl e
                          | Inr attesters \<Rightarrow>
                         (case to_int cv (dict_get d ''expiry_seconds''
                                            (JInt OVERRIDE_EXPIRY_DEFAULT_SECONDS)) of
                            Inl e \<Rightarrow> Inl (ConfigRaised e)
                          | Inr expiry \<Rightarrow>
                         (case friction_at cv d of
                            Inl e \<Rightarrow> Inl e
                          | Inr friction \<Rightarrow>
                              map_sum ConfigRaised id
                                (OverridePolicyEntry
                                   \<lparr>pe_floor = fl, pe_policy = policy,
                                    pe_authorized_principal_ids = authorized,
                                    pe_attester_principal_ids = attesters,
                                    pe_expiry_seconds = expiry, pe_friction_level = friction\<rparr>)))))
                | _ \<Rightarrow> Inl (EntryInvalid i))
           | _ \<Rightarrow> Inl (EntryInvalid i))
      | _ \<Rightarrow> Inl (EntryNotAnObject i))"

definition load_override_policies :: "conversions \<Rightarrow> config_file \<Rightarrow> config_error + override_policies" where
  "load_override_policies cv file =
     (case file of
        YamlDoc (JDict data) \<Rightarrow>
          (case enum_of trust_profile_value [MANAGED, PERSONAL]
                  (to_text cv (dict_get data ''trust_profile'' (JStr ''managed''))) of
             Inl _ \<Rightarrow> Inl (SectionInvalid ''trust_profile'')
           | Inr profile \<Rightarrow>
          (let given = dict_get data ''operator_principal'' JNull;
               operator = (if given = JNull then None else Some (to_text cv given))
           in if profile = PERSONAL \<and> operator \<in> {None, Some []}
              then Inl (SectionInvalid ''operator_principal'')
              else (case load_file ''policies'' (parse_override_entry cv) pe_floor file of
                      Inl e \<Rightarrow> Inl e
                    | Inr entries \<Rightarrow>
                        Inr \<lparr>op_by_floor = map_of (map (\<lambda>e. (pe_floor e, e)) entries),
                             op_trust_profile = profile, op_operator_principal = operator\<rparr>)))
      | _ \<Rightarrow>
          map_sum id (\<lambda>_. \<lparr>op_by_floor = Map.empty, op_trust_profile = MANAGED,
                          op_operator_principal = None\<rparr>) (config_list ''policies'' file))"

interpretation override_file: keyed_loader "parse_override_entry cv" pe_floor
  by unfold_locales
    (auto simp: parse_override_entry_def OverridePolicyEntry_def
      split: json.splits option.splits sum.splits if_splits)

section \<open>Envelopes and the dial\<close>

definition parse_envelope ::
  "conversions \<Rightarrow> cell_key list \<Rightarrow> nat \<Rightarrow> json \<Rightarrow> config_error + outcome_envelope" where
  "parse_envelope cv seen i raw =
     (case raw of
        JDict d \<Rightarrow>
          (case map_of d ''cell'' of
             None \<Rightarrow> Inl (EntryInvalid i)
           | Some (JDict c) \<Rightarrow>
               (case (map_of c ''category'', map_of c ''effect'',
                      map_of c ''decision_context_canonical'', map_of c ''reversibility'',
                      map_of d ''strictest'', map_of d ''loosest'') of
                  (Some category, Some effect, Some context, Some reversibility, Some lo, Some hi) \<Rightarrow>
                    (case (enum_of outcome_value rule_outcomes (to_text cv lo),
                           enum_of outcome_value rule_outcomes (to_text cv hi)) of
                       (Inr strictest, Inr loosest) \<Rightarrow>
                         (let cell = \<lparr>ck_category = to_text cv category, ck_effect = to_text cv effect,
                                      ck_decision_context_canonical = to_text cv context,
                                      ck_reversibility = to_text cv reversibility\<rparr>
                          in case OutcomeEnvelope cell strictest loosest of
                               Inl _ \<Rightarrow> Inl (EntryInvalid i)
                             | Inr envelope \<Rightarrow>
                                 if oe_cell envelope \<in> set seen then Inl (EntryDuplicate i)
                                 else Inr envelope)
                     | _ \<Rightarrow> Inl (EntryInvalid i))
                | _ \<Rightarrow> Inl (EntryInvalid i))
           | Some _ \<Rightarrow> Inl (EntryFieldInvalid i ''cell''))
      | _ \<Rightarrow> Inl (EntryNotAnObject i))"

definition load_envelopes :: "conversions \<Rightarrow> config_file \<Rightarrow> config_error + envelope_set" where
  "load_envelopes cv file =
     map_sum id (map (\<lambda>e. (oe_cell e, e))) (load_file ''envelopes'' (parse_envelope cv) oe_cell file)"

interpretation envelope_file: keyed_loader "parse_envelope cv" oe_cell
  by unfold_locales
    (auto simp: parse_envelope_def Let_def split: json.splits option.splits sum.splits if_splits)

record risk_profile =
  rf_value :: risk_preference
  rf_version :: int
  rf_signature :: "string option"

text \<open>
  \<open>resolve_config_path\<close> on the two files a path and its sibling with the other extension hold.
\<close>

definition resolve_config_path :: "config_file \<Rightarrow> config_file \<Rightarrow> config_file" where
  "resolve_config_path file sibling =
     (if file \<noteq> AbsentFile then file else if sibling \<noteq> AbsentFile then sibling else file)"

definition load_risk_preference ::
  "conversions \<Rightarrow> config_file \<Rightarrow> config_file \<Rightarrow> config_error + risk_profile" where
  "load_risk_preference cv file sibling =
     (case resolve_config_path file sibling of
        AbsentFile \<Rightarrow> Inl FileMissing
      | BadYaml \<Rightarrow> Inl FileUnparseable
      | YamlDoc doc \<Rightarrow>
          (case (if truthy_json doc then doc else JDict []) of
             JDict data \<Rightarrow>
               (case map_of data ''value'' of
                  None \<Rightarrow> Inl (SectionInvalid ''value'')
                | Some v \<Rightarrow>
               (case enum_of risk_value risk_preferences (to_text cv v) of
                  Inl _ \<Rightarrow> Inl (SectionInvalid ''value'')
                | Inr dial \<Rightarrow>
               (case to_int cv (dict_get data ''version'' (JInt 0)) of
                  Inl e \<Rightarrow> Inl (ConfigRaised e)
                | Inr version \<Rightarrow>
                    (let sig = dict_get data ''signature'' JNull
                     in Inr \<lparr>rf_value = dial, rf_version = version,
                             rf_signature = (if sig = JNull then None else Some (to_text cv sig))\<rparr>))))
           | _ \<Rightarrow> Inl FileNotAMapping))"

text \<open>
  The readers of the catalogues: source bindings (\<open>load\<close> of \<open>policy/bindings.py\<close>), relationship
  groups (\<open>policy/relationships.py\<close>), purposes (\<open>policy/purposes.py\<close>), the reversibility and
  mutability labels (\<open>load_registries\<close> of \<open>policy/reversibility.py\<close>) and the risk register
  (\<open>policy/risk_register.py\<close>).
\<close>

section \<open>Reversibility and mutability\<close>

definition reversibility_degrees :: "reversibility_degree list" where
  "reversibility_degrees = [REVERSIBLE, REVERSIBLE_WITH_FRICTION, IRREVERSIBLE]"

definition reversal_agents :: "reversal_agent list" where
  "reversal_agents = [SYSTEM, HUMAN, EXTERNAL]"

fun mutability_value :: "mutability_degree \<Rightarrow> string" where
  "mutability_value IMMUTABLE = ''immutable''"
| "mutability_value APPEND_ONLY = ''append-only''"
| "mutability_value IN_PLACE = ''in-place''"

text \<open>
  A degree and an agent, each looked up and converted in turn; \<open>conv\<close> is \<open>str\<close> in the registries and
  nothing in \<open>from_dict\<close>.
\<close>

definition degree_and_agent ::
  "(json \<Rightarrow> json) \<Rightarrow> ('d \<Rightarrow> string) \<Rightarrow> 'd list \<Rightarrow> (string \<times> json) list \<Rightarrow> py_error + 'd \<times> reversal_agent"
where
  "degree_and_agent conv val members d =
     (case map_of d ''degree'' of
        None \<Rightarrow> Inl KeyError
      | Some degree \<Rightarrow>
     (case json_enum val members (conv degree) of
        Inl e \<Rightarrow> Inl e
      | Inr dg \<Rightarrow>
     (case map_of d ''agent'' of
        None \<Rightarrow> Inl KeyError
      | Some agent \<Rightarrow>
     (case json_enum agent_value reversal_agents (conv agent) of
        Inl e \<Rightarrow> Inl e
      | Inr ag \<Rightarrow> Inr (dg, ag)))))"

definition reversibility_label_from_json ::
  "(json \<Rightarrow> json) \<Rightarrow> (string \<times> json) list \<Rightarrow> py_error + reversibility_label" where
  "reversibility_label_from_json conv d =
     map_sum id (\<lambda>(dg, ag). \<lparr>rv_degree = dg, rv_agent = ag\<rparr>)
       (degree_and_agent conv degree_value reversibility_degrees d)"

definition mutability_label_from_json ::
  "(json \<Rightarrow> json) \<Rightarrow> (string \<times> json) list \<Rightarrow> py_error + mutability_label" where
  "mutability_label_from_json conv d =
     map_sum id (\<lambda>(dg, ag). \<lparr>mu_degree = dg, mu_agent = ag\<rparr>)
       (degree_and_agent conv mutability_value [IMMUTABLE, APPEND_ONLY, IN_PLACE] d)"

text \<open>One list of a registry: a later entry with the same identifier replaces the earlier one.\<close>

fun load_registry ::
  "conversions \<Rightarrow> ((json \<Rightarrow> json) \<Rightarrow> (string \<times> json) list \<Rightarrow> py_error + 'l) \<Rightarrow> nat \<Rightarrow> (string \<times> 'l) list
   \<Rightarrow> json list \<Rightarrow> config_error + (string \<times> 'l) list" where
  "load_registry cv label_of i acc [] = Inr acc"
| "load_registry cv label_of i acc (JDict d # raws) =
     (case map_of d ''id'' of
        None \<Rightarrow> Inl (EntryInvalid i)
      | Some idv \<Rightarrow>
          (case label_of (\<lambda>v. JStr (to_text cv v)) d of
             Inl _ \<Rightarrow> Inl (EntryInvalid i)
           | Inr l \<Rightarrow> load_registry cv label_of (Suc i) (AList.update (to_text cv idv) l acc) raws))"
| "load_registry cv label_of i acc (_ # raws) = Inl (EntryNotAnObject i)"

definition listed_at :: "(string \<times> json) list \<Rightarrow> string \<Rightarrow> config_error + json list" where
  "listed_at d key =
     (let raw = dict_get d key JNull
      in if \<not> truthy_json raw then Inr []
         else case raw of JList xs \<Rightarrow> Inr xs | _ \<Rightarrow> Inl FileListExpected)"

definition load_registries ::
  "conversions \<Rightarrow> config_file
   \<Rightarrow> config_error + (string \<times> reversibility_label) list \<times> (string \<times> mutability_label) list" where
  "load_registries cv file =
     (case file of
        AbsentFile \<Rightarrow> Inl FileMissing
      | BadYaml \<Rightarrow> Inl FileUnparseable
      | YamlDoc doc \<Rightarrow>
          (case (if truthy_json doc then doc else JDict []) of
             JDict data \<Rightarrow>
               (case (listed_at data ''reversibility_labels'', listed_at data ''mutability_labels'') of
                  (Inr revs, Inr muts) \<Rightarrow>
                    (case load_registry cv reversibility_label_from_json 0 [] revs of
                       Inl e \<Rightarrow> Inl e
                     | Inr rv \<Rightarrow>
                         (case load_registry cv mutability_label_from_json 0 [] muts of
                            Inl e \<Rightarrow> Inl e | Inr mut \<Rightarrow> Inr (rv, mut)))
                | _ \<Rightarrow> Inl FileListExpected)
           | _ \<Rightarrow> Inl (ConfigRaised AttributeError)))"

section \<open>Source bindings\<close>

fun discipline_value :: "write_discipline \<Rightarrow> string" where
  "discipline_value VERSION_PRESERVING = ''version-preserving''"
| "discipline_value WD_IN_PLACE = ''in-place''"

text \<open>A label is only read from a dictionary; anything else counts as absent.\<close>

definition label_if_dict ::
  "((json \<Rightarrow> json) \<Rightarrow> (string \<times> json) list \<Rightarrow> py_error + 'l) \<Rightarrow> json \<Rightarrow> config_error + 'l option" where
  "label_if_dict label_of raw =
     (case raw of
        JDict d \<Rightarrow> map_sum ConfigRaised Some (label_of id d)
      | _ \<Rightarrow> Inr None)"

definition parse_binding ::
  "conversions \<Rightarrow> string list \<Rightarrow> nat \<Rightarrow> json \<Rightarrow> config_error + source_binding" where
  "parse_binding cv seen i raw =
     (case raw of
        JDict d \<Rightarrow>
          (case (map_of d ''name'', map_of d ''category'', map_of d ''default_tier'') of
             (Some namev, Some category, Some tierv) \<Rightarrow>
               (case enum_of tier_value tiers (to_text cv tierv) of
                  Inl _ \<Rightarrow> Inl (EntryInvalid i)
                | Inr tier \<Rightarrow>
               (if to_text cv namev \<in> set seen then Inl (EntryDuplicate i)
                else case label_if_dict reversibility_label_from_json (dict_get d ''reversibility'' JNull) of
                  Inl e \<Rightarrow> Inl e
                | Inr rv \<Rightarrow>
               (case label_if_dict mutability_label_from_json (dict_get d ''mutability'' JNull) of
                  Inl e \<Rightarrow> Inl e
                | Inr mut \<Rightarrow>
               (case enum_of discipline_value [VERSION_PRESERVING, WD_IN_PLACE]
                       (to_text cv (dict_get d ''write_discipline'' (JStr ''in-place''))) of
                  Inl _ \<Rightarrow> Inl (EntryFieldInvalid i ''write_discipline'')
                | Inr wd \<Rightarrow>
               (case map_of d ''scope_pattern_canonical'' of
                  None \<Rightarrow> Inl (ConfigRaised KeyError)
                | Some scope \<Rightarrow>
               (case texts_at cv d ''risk_ids'' of
                  Inl e \<Rightarrow> Inl e
                | Inr risk_ids \<Rightarrow>
                    Inr \<lparr>sb_name = to_text cv namev, sb_scope_pattern_canonical = to_text cv scope,
                         sb_category = to_text cv category, sb_default_tier = tier,
                         sb_reversibility = rv, sb_mutability = mut, sb_write_discipline = wd,
                         sb_risk_ids = risk_ids,
                         sb_assignment_provenance =
                           to_text cv (dict_get d ''assignment_provenance'' (JStr ''operator-declared''))\<rparr>))))))
           | _ \<Rightarrow> Inl (EntryInvalid i))
      | _ \<Rightarrow> Inl (EntryNotAnObject i))"

definition load_bindings :: "conversions \<Rightarrow> config_file \<Rightarrow> config_error + source_binding list" where
  "load_bindings cv file = load_file ''bindings'' (parse_binding cv) sb_name file"

interpretation binding_file: keyed_loader "parse_binding cv" sb_name
  by unfold_locales
    (auto simp: parse_binding_def split: json.splits option.splits sum.splits if_splits)

section \<open>Relationship groups\<close>

text \<open>The tiers of one group: those of members, each of which has to be valid.\<close>

fun parse_member_tiers ::
  "conversions \<Rightarrow> nat \<Rightarrow> string \<Rightarrow> string list \<Rightarrow> (string \<times> json) list
   \<Rightarrow> config_error + ((string \<times> string) \<times> string) list" where
  "parse_member_tiers cv i gid members [] = Inr []"
| "parse_member_tiers cv i gid members ((pid, raw) # rest) =
     (if pid \<notin> set members then parse_member_tiers cv i gid members rest
      else if to_text cv raw \<notin> set TIER_ORDER then Inl (EntryFieldInvalid i ''member_tiers'')
      else (case parse_member_tiers cv i gid members rest of
              Inl e \<Rightarrow> Inl e | Inr ts \<Rightarrow> Inr (((gid, pid), to_text cv raw) # ts)))"

record loaded_group =
  lg_id :: string
  lg_members :: "string list"
  lg_tiers :: "((string \<times> string) \<times> string) list"

definition parse_group ::
  "conversions \<Rightarrow> string list \<Rightarrow> nat \<Rightarrow> json \<Rightarrow> config_error + loaded_group" where
  "parse_group cv seen i raw =
     (case raw of
        JDict d \<Rightarrow>
          (case map_of d ''group_id'' of
             None \<Rightarrow> Inl (EntryInvalid i)
           | Some gidv \<Rightarrow>
          (case listed_at d ''member_principal_ids'' of
             Inl _ \<Rightarrow> Inl (EntryFieldInvalid i ''member_principal_ids'')
           | Inr memberv \<Rightarrow>
          (let gid = to_text cv gidv; members = remdups (map (to_text cv) memberv);
               tiersv = dict_get d ''member_tiers'' JNull
           in if gid \<in> set seen then Inl (EntryDuplicate i)
              else (case (if truthy_json tiersv then tiersv else JDict []) of
                      JDict td \<Rightarrow>
                        (case parse_member_tiers cv i gid members td of
                           Inl e \<Rightarrow> Inl e
                         | Inr ts \<Rightarrow> Inr \<lparr>lg_id = gid, lg_members = members, lg_tiers = ts\<rparr>)
                    | _ \<Rightarrow> Inl (EntryFieldInvalid i ''member_tiers'')))))
      | _ \<Rightarrow> Inl (EntryNotAnObject i))"

definition load_groups :: "conversions \<Rightarrow> config_file \<Rightarrow> config_error + relationship_groups" where
  "load_groups cv file =
     map_sum id (\<lambda>gs. \<lparr>rg_groups = map (\<lambda>g. (lg_id g, lg_members g)) gs,
                      rg_tiers = concat (map lg_tiers gs)\<rparr>)
       (load_file ''groups'' (parse_group cv) lg_id file)"

interpretation group_file: keyed_loader "parse_group cv" lg_id
  by unfold_locales
    (auto simp: parse_group_def Let_def split: json.splits option.splits sum.splits if_splits)

text \<open>
  The readers of the purposes with the capabilities they grant (\<open>load\<close> of \<open>policy/purposes.py\<close>) and
  of the risk register (\<open>policy/risk_register.py\<close>), and the writer of the relationship groups
  (\<open>save\<close> of \<open>policy/relationships.py\<close>). The identifier of a fresh capability and the reading of an
  ISO date (in UTC when it names no zone) are arguments.
\<close>

section \<open>Default capabilities and bindings of a purpose\<close>

definition parse_default_capability ::
  "conversions \<Rightarrow> (string \<Rightarrow> py_error + time) \<Rightarrow> uuid \<Rightarrow> nat \<Rightarrow> nat \<Rightarrow> json \<Rightarrow> config_error + capability"
where
  "parse_default_capability cv iso_time fresh i j raw =
     (case raw of
        JDict d \<Rightarrow>
          (case map_of d ''kind'' of
             None \<Rightarrow> Inl (EntryPartInvalid i j)
           | Some kindv \<Rightarrow>
          (case enum_of kind_value capability_kinds (to_text cv kindv) of
             Inl _ \<Rightarrow> Inl (EntryPartInvalid i j)
           | Inr k \<Rightarrow>
          (case map_of d ''pattern'' of
             None \<Rightarrow> Inl (EntryPartInvalid i j)
           | Some pattern \<Rightarrow>
          (let originv = dict_get d ''origin'' JNull
           in case enum_of origin_value capability_origins
                     (if truthy_json originv then to_text cv originv else ''user_approved'') of
                Inl _ \<Rightarrow> Inl (EntryPartInvalid i j)
              | Inr origin \<Rightarrow>
          (let expv = dict_get d ''expires_at'' JNull
           in case (if truthy_json expv then map_sum id Some (iso_time (to_text cv expv)) else Inr None) of
                Inl _ \<Rightarrow> Inl (EntryPartInvalid i j)
              | Inr expires_at \<Rightarrow>
          (let amountv = dict_get d ''max_amount'' JNull
           in case (if amountv = JNull then Inr None else map_sum id Some (to_int cv amountv)) of
                Inl e \<Rightarrow> Inl (ConfigRaised e)
              | Inr max_amount \<Rightarrow>
                  Inr ((Capability (BuiltIn k) (to_text cv pattern) fresh)
                       \<lparr>c_origin := origin,
                        c_allows_destructive := truthy_json (dict_get d ''allows_destructive'' (JBool False)),
                        c_max_amount := max_amount, c_expires_at := expires_at\<rparr>)))))))
      | _ \<Rightarrow> Inl (EntryPartInvalid i j))"

definition parse_purpose_binding :: "conversions \<Rightarrow> nat \<Rightarrow> nat \<Rightarrow> json \<Rightarrow> config_error + source_binding" where
  "parse_purpose_binding cv i j raw =
     (case raw of
        JDict d \<Rightarrow>
          (case (map_of d ''scope_pattern_canonical'', map_of d ''category'', map_of d ''default_tier'') of
             (Some scope, Some category, Some tierv) \<Rightarrow>
               (case enum_of tier_value tiers (to_text cv tierv) of
                  Inl _ \<Rightarrow> Inl (EntryPartInvalid i j)
                | Inr tier \<Rightarrow>
                    Inr \<lparr>sb_name = to_text cv (dict_get d ''name''
                           (JStr (''purpose:'' @ decimal i @ '':binding:'' @ decimal j))),
                         sb_scope_pattern_canonical = to_text cv scope,
                         sb_category = to_text cv category, sb_default_tier = tier,
                         sb_reversibility = None, sb_mutability = None,
                         sb_write_discipline = WD_IN_PLACE, sb_risk_ids = [],
                         sb_assignment_provenance =
                           to_text cv (dict_get d ''assignment_provenance'' (JStr ''purpose-declared''))\<rparr>)
           | _ \<Rightarrow> Inl (EntryPartInvalid i j))
      | _ \<Rightarrow> Inl (EntryPartInvalid i j))"

text \<open>The parts of an entry, each with its position.\<close>

fun parse_parts :: "(nat \<Rightarrow> json \<Rightarrow> config_error + 'a) \<Rightarrow> nat \<Rightarrow> json list \<Rightarrow> config_error + 'a list" where
  "parse_parts parse j [] = Inr []"
| "parse_parts parse j (raw # raws) =
     (case parse j raw of
        Inl e \<Rightarrow> Inl e
      | Inr x \<Rightarrow> (case parse_parts parse (Suc j) raws of Inl e \<Rightarrow> Inl e | Inr xs \<Rightarrow> Inr (x # xs)))"

section \<open>Purposes\<close>

definition VALID_DIAL_VALUES :: "string list" where
  "VALID_DIAL_VALUES = [''cautious'', ''balanced'', ''permissive'']"

text \<open>
  \<open>_legacy_global_dial\<close>: the JSON file of the former global dial, when a path is configured. What
  cannot be read counts as absent.
\<close>

definition legacy_global_dial :: "config_file option \<Rightarrow> string option" where
  "legacy_global_dial file =
     (case file of
        Some (YamlDoc (JDict d)) \<Rightarrow>
          (case dict_get d ''value'' JNull of
             JStr v \<Rightarrow> if v \<in> set VALID_DIAL_VALUES then Some v else None
           | _ \<Rightarrow> None)
      | _ \<Rightarrow> None)"

definition parse_purpose ::
  "conversions \<Rightarrow> (string \<Rightarrow> py_error + time) \<Rightarrow> (nat \<Rightarrow> nat \<Rightarrow> uuid) \<Rightarrow> string \<Rightarrow> string list \<Rightarrow> nat
   \<Rightarrow> json \<Rightarrow> config_error + purpose" where
  "parse_purpose cv iso_time fresh fallback seen i raw =
     (case raw of
        JDict d \<Rightarrow>
          (case map_of d ''purpose_id'' of
             None \<Rightarrow> Inl (EntryInvalid i)
           | Some pidv \<Rightarrow>
          (if to_text cv pidv \<in> set seen then Inl (EntryDuplicate i)
           else case (listed_at d ''admissible_categories'', listed_at d ''inadmissible_categories'',
                      listed_at d ''default_capabilities'') of
             (Inr admissible, Inr inadmissible, Inr caps) \<Rightarrow>
               (case parse_parts (\<lambda>j. parse_default_capability cv iso_time (fresh i j) i j) 0 caps of
                  Inl e \<Rightarrow> Inl e
                | Inr capabilities \<Rightarrow>
               (case listed_at d ''bindings'' of
                  Inl _ \<Rightarrow> Inl (EntryFieldInvalid i ''bindings'')
                | Inr bindingsv \<Rightarrow>
               (case parse_parts (parse_purpose_binding cv i) 0 bindingsv of
                  Inl e \<Rightarrow> Inl e
                | Inr bindings \<Rightarrow>
               (let dial = (case map_of d ''risk_preference_dial'' of
                              None \<Rightarrow> fallback | Some v \<Rightarrow> to_text cv v)
                in if map_of d ''risk_preference_dial'' \<noteq> None \<and> dial \<notin> set VALID_DIAL_VALUES
                   then Inl (EntryFieldInvalid i ''risk_preference_dial'')
                   else Inr \<lparr>pu_purpose_id = to_text cv pidv,
                             pu_label = to_text cv (dict_get d ''label'' (JStr [])),
                             pu_admissible_categories = remdups (map (to_text cv) admissible),
                             pu_inadmissible_categories = remdups (map (to_text cv) inadmissible),
                             pu_recommended_pattern =
                               dict_get d ''recommended_pattern'' JNull,
                             pu_default_capabilities = capabilities, pu_bindings = bindings,
                             pu_risk_preference_dial = dial\<rparr>))))
           | (Inl _, _) \<Rightarrow> Inl (EntryFieldInvalid i ''admissible_categories'')
           | (_, Inl _, _) \<Rightarrow> Inl (EntryFieldInvalid i ''inadmissible_categories'')
           | _ \<Rightarrow> Inl (EntryFieldInvalid i ''default_capabilities'')))
      | _ \<Rightarrow> Inl (EntryNotAnObject i))"

definition load_purposes ::
  "conversions \<Rightarrow> (string \<Rightarrow> py_error + time) \<Rightarrow> (nat \<Rightarrow> nat \<Rightarrow> uuid) \<Rightarrow> config_file option \<Rightarrow> config_file
   \<Rightarrow> config_error + purposes" where
  "load_purposes cv iso_time fresh legacy file =
     (let fallback = (case legacy_global_dial legacy of Some v \<Rightarrow> v | None \<Rightarrow> ''cautious'')
      in map_sum id (map (\<lambda>p. (pu_purpose_id p, p)))
           (load_file ''purposes'' (parse_purpose cv iso_time fresh fallback) pu_purpose_id file))"

interpretation purpose_file: keyed_loader "parse_purpose cv iso_time fresh fallback" pu_purpose_id
  by unfold_locales
    (auto simp: parse_purpose_def Let_def split: json.splits option.splits sum.splits if_splits)

section \<open>The risk register\<close>

text \<open>
  The identifier of an entry is its key as it is, which has to have a hash. Two keys are one when
  Python compares them equal: \<open>True\<close> is 1.
\<close>

definition register_key :: "json \<Rightarrow> py_error + json" where
  "register_key v =
     (if \<not> json_hashable v then Inl TypeError
      else Inr (case v of JBool b \<Rightarrow> JInt (if b then 1 else 0) | _ \<Rightarrow> v))"

definition parse_threshold :: "conversions \<Rightarrow> nat \<Rightarrow> json \<Rightarrow> config_error + threshold option" where
  "parse_threshold cv i raw =
     (case raw of
        JNull \<Rightarrow> Inr None
      | JDict d \<Rightarrow>
          (case map_of d ''framework'' of
             None \<Rightarrow> Inl (EntryFieldInvalid i ''threshold'')
           | Some fw \<Rightarrow>
               (let least = (\<lambda>key. dict_get d key JNull)
                in Inr (Some \<lparr>th_framework = to_text cv fw,
                              th_magnitude_band_min = least ''magnitude_band_min'',
                              th_impact_tier_min = least ''impact_tier_min'',
                              th_risk_class_min = least ''risk_class_min'',
                              th_impact_min = least ''impact_min'',
                              th_severity_min = least ''severity_min''\<rparr>)))
      | _ \<Rightarrow> Inl (EntryFieldInvalid i ''threshold''))"

definition parse_risk_entry ::
  "conversions \<Rightarrow> json list \<Rightarrow> nat \<Rightarrow> json \<Rightarrow> config_error + json \<times> risk_entry" where
  "parse_risk_entry cv seen i raw =
     (case raw of
        JDict d \<Rightarrow>
          (case (map_of d ''id'', map_of d ''summary'') of
             (Some idv, Some summary) \<Rightarrow>
               (case dict_get d ''framework_refs'' (JList []) of
                  JList refs \<Rightarrow>
                    (case register_key idv of
                       Inl e \<Rightarrow> Inl (ConfigRaised e)
                     | Inr key \<Rightarrow>
                         if key \<in> set seen then Inl (EntryDuplicate i)
                         else map_sum id
                           (\<lambda>th. (key, \<lparr>re_id = to_text cv idv, re_summary = to_text cv summary,
                                       re_framework_refs = map (to_text cv) refs, re_threshold = th\<rparr>))
                           (parse_threshold cv i (dict_get d ''threshold'' JNull)))
                | _ \<Rightarrow> Inl (EntryFieldInvalid i ''framework_refs''))
           | _ \<Rightarrow> Inl (EntryInvalid i))
      | _ \<Rightarrow> Inl (EntryNotAnObject i))"

text \<open>The file, or its sibling with the other extension.\<close>

definition load_risk_register ::
  "conversions \<Rightarrow> config_file \<Rightarrow> config_file \<Rightarrow> config_error + risk_register" where
  "load_risk_register cv file sibling =
     (case resolve_config_path file sibling of
        AbsentFile \<Rightarrow> Inl FileMissing
      | BadYaml \<Rightarrow> Inl FileUnparseable
      | YamlDoc (JDict data) \<Rightarrow>
          (case dict_get data ''entries'' (JList []) of
             JList raws \<Rightarrow> load_keyed (parse_risk_entry cv) fst 0 [] raws
           | _ \<Rightarrow> Inl FileListExpected)
      | YamlDoc _ \<Rightarrow> Inl FileNotAMapping)"

interpretation register_file: keyed_loader "parse_risk_entry cv" fst
  by unfold_locales
    (auto simp: parse_risk_entry_def map_sum_def
      split: json.splits option.splits sum.splits if_splits prod.splits)

section \<open>Writing the relationship groups\<close>

text \<open>
  The lines of the body; the lines of the leading comment of the present file come before them.
\<close>

definition tier_entries :: "relationship_groups \<Rightarrow> string \<Rightarrow> (string \<times> string) list" where
  "tier_entries rg gid =
     sort_key fst (map (\<lambda>((_, pid), t). (pid, t)) (filter (\<lambda>((g, _), _). g = gid) (rg_tiers rg)))"

definition group_lines :: "relationship_groups \<Rightarrow> string \<times> string list \<Rightarrow> string list" where
  "group_lines rg g =
     (case g of (gid, members) \<Rightarrow>
        [''  - group_id: '' @ gid, ''    member_principal_ids:'']
        @ map (\<lambda>m. ''      - '' @ m) (sort members)
        @ (if tier_entries rg gid = [] then []
           else ''    member_tiers:''
                # map (\<lambda>(pid, t). ''      '' @ pid @ '': '' @ t) (tier_entries rg gid)))"

definition body_lines :: "relationship_groups \<Rightarrow> string list" where
  "body_lines rg =
     (if rg_groups rg = [] then [''groups: []'']
      else ''groups:'' # concat (map (group_lines rg) (sort_key fst (rg_groups rg))))"

text \<open>The text that is written: every line with its line feed.\<close>

definition saved_text :: "string list \<Rightarrow> relationship_groups \<Rightarrow> string" where
  "saved_text header rg = concat (map (\<lambda>l. l @ [CHR 0x0A]) (header @ body_lines rg))"

end
