(* ===== verification/ConfigProps.thy ===== *)
theory ConfigProps
  imports ConfigReaders EngineProps
begin

text \<open>
  What a configuration that loads guarantees to the components that use it: rules that cross no
  provenance floor, envelopes the engine can always select from, overrides that end within the
  hour, purposes whose capabilities are plain. And what the readers let pass.
\<close>

section \<open>Rules and envelopes\<close>

lemma validate_crosses_floor_same: "validate_crosses_floor raw = Inr v \<Longrightarrow> v = raw"
  by (cases raw) (simp_all add: validate_crosses_floor_def split: option.splits if_splits)

lemma validate_crosses_floor_idem:
  "validate_crosses_floor raw = Inr v \<Longrightarrow> validate_crosses_floor v = Inr v"
  using validate_crosses_floor_same by metis

lemma crosses_floor_at_validated:
  "crosses_floor_at cv d = Inr v \<Longrightarrow> validate_crosses_floor v = Inr v"
  using validate_crosses_floor_idem by (simp add: crosses_floor_at_def Let_def)

lemma parse_rule_validated:
  "parse_rule cv seen i raw = Inr r \<Longrightarrow> validate_crosses_floor (rr_crosses_floor r) = Inr (rr_crosses_floor r)"
  by (auto simp: parse_rule_def Let_def dest: crosses_floor_at_validated
      split: json.splits option.splits sum.splits if_splits)

lemma loaded_rules_validated:
  assumes "load_rules cv file = Inr rules"
  shows "list_all (\<lambda>r. validate_crosses_floor (dr_crosses_floor r) = Inr (dr_crosses_floor r))
    (map rule_of rules)"
  unfolding list_all_iff
proof
  fix v assume "v \<in> set (map rule_of rules)"
  then obtain r where r: "r \<in> set rules" and v: "v = rule_of r" by auto
  then obtain seen i raw where "parse_rule cv seen i raw = Inr r"
    using rule_file.load_file_parsed [OF assms [unfolded load_rules_def]] by blast
  then show "validate_crosses_floor (dr_crosses_floor v) = Inr (dr_crosses_floor v)"
    using parse_rule_validated by (simp add: v rule_of_def)
qed

text \<open>
  For conditions that are texts the evaluation as the file has them is the evaluation of the engine:
  nothing raises, and the same rules match.
\<close>

lemma plain_value_cases: "plain_value v \<longleftrightarrow> v = JNull \<or> (\<exists>s. v = JStr s)"
  by (cases v) (simp_all add: plain_value_def json_text_def)

lemma absent_or_plain: "plain_value v \<Longrightarrow> absent_or v actual \<longleftrightarrow> unset_or (json_text v) (\<lambda>s. actual = Some s)"
  by (auto simp: plain_value_cases absent_or_def unset_or_def json_text_def split: option.splits)

lemma json_in_text [simp]: "json_in (JStr s) xs = Inr (s \<in> set xs)"
  by (auto simp: json_in_def json_hashable_def)

lemma all_present_texts: "all_present cats (map JStr reqs) = Inr (set reqs \<subseteq> set cats)"
  by (induction reqs) auto

lemma raw_required_plain:
  "plain_value (rw_category p) \<Longrightarrow> raw_required p = map JStr (required_categories (predicate_of p))"
  by (auto simp: plain_value_cases raw_required_def required_categories_def predicate_of_def json_text_def)

lemma raw_matches_plain:
  assumes "list_all plain_value
    [rw_category p, rw_provenance p, rw_effect_class p, rw_initiator p, rw_counterparty p,
     rw_relationship_group_id p, rw_expectedness p, rw_reversibility_degree p, rw_target p]"
  shows "raw_matches p labels axis_d eff target hour
    = Inr (predicate_matches (predicate_of p) labels axis_d eff target hour)"
proof -
  have plain: "plain_value (rw_category p)" "plain_value (rw_provenance p)"
      "plain_value (rw_effect_class p)" "plain_value (rw_initiator p)" "plain_value (rw_counterparty p)"
      "plain_value (rw_relationship_group_id p)" "plain_value (rw_expectedness p)"
      "plain_value (rw_reversibility_degree p)" "plain_value (rw_target p)"
    using assms by simp_all
  have present: "all_present (map ct_category (ls_a labels)) (raw_required p)
      = Inr (list_all (\<lambda>req. req \<in> ct_category ` set (ls_a labels)) (required_categories (predicate_of p)))"
    by (auto simp: raw_required_plain [OF plain(1)] all_present_texts list_all_iff)
  have group: "(if rw_relationship_group_id p = JNull then Inr True
        else json_in (rw_relationship_group_id p) (dc_relationship_group_ids axis_d))
      = Inr (unset_or (json_text (rw_relationship_group_id p))
              (\<lambda>g. g \<in> set (dc_relationship_group_ids axis_d)))"
    using plain(6) by (auto simp: plain_value_cases unset_or_def json_text_def)
  have provenance: "(rw_provenance p = JNull
        \<or> list_ex (\<lambda>e. JStr (provenance_value (pt_level e)) = rw_provenance p) (ls_b labels))
      \<longleftrightarrow> unset_or (json_text (rw_provenance p))
            (\<lambda>v. list_ex (\<lambda>e. provenance_value (pt_level e) = v) (ls_b labels))"
    using plain(2) by (auto simp: plain_value_cases unset_or_def json_text_def)
  show ?thesis
    unfolding raw_matches_def present group provenance sum.case absent_or_plain [OF plain(3)]
      absent_or_plain [OF plain(4)] absent_or_plain [OF plain(5)] absent_or_plain [OF plain(7)]
      absent_or_plain [OF plain(8)] absent_or_plain [OF plain(9)]
    by (auto simp: predicate_matches_def predicate_of_def eq_commute)
qed

lemma raw_matched_plain:
  "list_all plain_rule rules \<Longrightarrow> \<exists>ms. raw_matched rules labels axis_d eff target hour = Inr ms
     \<and> map rule_of ms = filter (\<lambda>r. fires r labels axis_d eff target hour) (map rule_of rules)"
proof (induction rules)
  case (Cons r rs)
  then obtain ms where ms: "raw_matched rs labels axis_d eff target hour = Inr ms"
    "map rule_of ms = filter (\<lambda>r. fires r labels axis_d eff target hour) (map rule_of rs)" by auto
  have r: "raw_matches (rr_predicate r) labels axis_d eff target hour
      = Inr (predicate_matches (predicate_of (rr_predicate r)) labels axis_d eff target hour)"
    using Cons.prems by (intro raw_matches_plain) (simp add: plain_rule_def Let_def)
  have "plain_value (rr_human_ratified_by r)" using Cons.prems by (simp add: plain_rule_def Let_def)
  then have ratified: "dr_human_ratified_by (rule_of r) = None \<longleftrightarrow> rr_human_ratified_by r = JNull"
    by (cases "rr_human_ratified_by r") (simp_all add: rule_of_def json_text_def plain_value_def)
  have "fires (rule_of r) labels axis_d eff target hour \<longleftrightarrow> rr_human_ratified_by r \<noteq> JNull
      \<and> predicate_matches (predicate_of (rr_predicate r)) labels axis_d eff target hour"
    unfolding fires_def ratified by (simp add: rule_of_def)
  then show ?case
    using ms by (cases "predicate_matches (predicate_of (rr_predicate r)) labels axis_d eff target hour")
      (simp_all add: r)
qed simp

lemma raw_evaluate_plain:
  assumes "list_all plain_rule rules"
  shows "raw_evaluate rules labels axis_d eff target dflt hour
    = evaluate (map rule_of rules) labels axis_d eff target dflt hour"
  using raw_matched_plain [OF assms, of labels axis_d eff target hour]
  by (auto simp: raw_evaluate_def evaluate_def)

lemma parse_envelope_constructed:
  "parse_envelope cv seen i raw = Inr e \<Longrightarrow> \<exists>c s l. OutcomeEnvelope c s l = Inr e"
  by (auto simp: parse_envelope_def Let_def split: json.splits option.splits sum.splits if_splits)

lemma loaded_envelopes_constructed:
  assumes "load_envelopes cv file = Inr es" and "envelope_lookup es cell = Some env"
  shows "\<exists>c s l. OutcomeEnvelope c s l = Inr env"
proof -
  obtain raw where raw: "load_file ''envelopes'' (parse_envelope cv) oe_cell file = Inr raw"
    and es: "es = map (\<lambda>e. (oe_cell e, e)) raw"
    using assms(1) by (auto simp: load_envelopes_def map_sum_def split: sum.splits)
  have "env \<in> set raw"
    using map_of_SomeD [OF assms(2) [unfolded envelope_lookup_def es]] by auto
  then show ?thesis
    using envelope_file.load_file_parsed [OF raw] parse_envelope_constructed by blast
qed

text \<open>
  C27: with envelopes and rules that were loaded from files, when the conditions of the rules are
  texts or absent and the default outcome is neither \<open>auto\<close> nor \<open>shadow\<close>, the engine that is given
  the rules always returns a decision; evaluating the rules as the file has them raises nothing, gives
  the result the engine composes, and does not cross the floor against the egress of untrusted data.
  For other conditions see \<open>unhashable_condition_raises\<close> below.
\<close>

theorem loaded_configuration_decides:
  assumes "load_rules cv rule_file = Inr rules" and "load_envelopes cv envelope_file = Inr es"
    and "list_all plain_rule rules"
    and "da_rules_v2 a = Some (map rule_of rules)" and "da_envelope_set a = Some es"
    and "da_default_v2_outcome a \<notin> {RO_AUTO, RO_SHADOW}"
  shows "(\<exists>pd st. decide a = (Inr pd, st))
    \<and> (\<exists>ev. raw_evaluate rules labels axis_d eff target (da_default_v2_outcome a) hour = Inr ev
          \<and> evaluate (map rule_of rules) labels axis_d eff target (da_default_v2_outcome a) hour = Inr ev
          \<and> ''untrusted-meets-egress'' \<notin> set (ev_crossed_floors ev))"
proof
  have "constructed es"
    unfolding constructed_def using loaded_envelopes_constructed [OF assms(2)] by blast
  then have "well_configured a" using assms(5,6) by (simp add: well_configured_def)
  then show "\<exists>pd st. decide a = (Inr pd, st)" using decide_returns prod.collapse by metis
  obtain ev where ev: "evaluate (map rule_of rules) labels axis_d eff target (da_default_v2_outcome a) hour
      = Inr ev"
    using evaluate_total assms(6) by blast
  show "\<exists>ev. raw_evaluate rules labels axis_d eff target (da_default_v2_outcome a) hour = Inr ev
          \<and> evaluate (map rule_of rules) labels axis_d eff target (da_default_v2_outcome a) hour = Inr ev
          \<and> ''untrusted-meets-egress'' \<notin> set (ev_crossed_floors ev)"
    using crossed_floors_validated [OF ev loaded_rules_validated [OF assms(1)]] ev
    by (auto simp: raw_evaluate_plain [OF assms(3)])
qed

definition plain_conversions :: conversions where
  "plain_conversions =
     \<lparr>cv_text = (\<lambda>_. []), cv_int = (\<lambda>_. Inl ValueError), cv_dict = (\<lambda>_. Inl ValueError)\<rparr>"

definition sample_rule_file :: config_file where
  "sample_rule_file = YamlDoc (JDict [(''rules'', JList [JDict [(''rule_id'', JStr ''r''),
     (''outcome'', JStr ''auto''), (''human_ratified_by'', JStr ''alice''),
     (''crosses_floor'', JStr ''health-meets-egress'')]])])"

definition sample_envelope_file :: config_file where
  "sample_envelope_file = YamlDoc (JDict [(''envelopes'', JList [JDict
     [(''cell'', JDict [(''category'', JStr ''health''), (''effect'', JStr ''social.send_email''),
        (''decision_context_canonical'', JStr ''any''), (''reversibility'', JStr ''irreversible'')]),
      (''strictest'', JStr ''deny''), (''loosest'', JStr ''suggest'')]])])"

lemma parse_predicate_empty:
  "parse_predicate cv [] = Inr \<lparr>rw_category = JNull, rw_categories = [], rw_provenance = JNull,
      rw_effect_class = JNull, rw_initiator = JNull, rw_counterparty = JNull,
      rw_relationship_group_id = JNull, rw_expectedness = JNull, rw_reversibility_degree = JNull,
      rw_time_window = None, rw_target = JNull\<rparr>"
  by (simp add: parse_predicate_def axis_of_def dict_at_def parse_window_def dict_get_def
      truthy_json_def)

theorem loaded_configuration_decides_witness:
  "\<exists>rules es pd st. load_rules plain_conversions sample_rule_file = Inr rules
     \<and> load_envelopes plain_conversions sample_envelope_file = Inr es \<and> length rules = 1 \<and> length es = 1
     \<and> decide ((base_args mail [mail_cap])
         \<lparr>da_rules_v2 := Some (map rule_of rules), da_envelope_set := Some es\<rparr>) = (Inr pd, st)"
proof -
  have "structural_floor_for_rule ''health-meets-egress'' = Some HEALTH_EGRESS"
    by (simp add: structural_floor_for_rule_def enum_of_def hard_floors_def is_structural_def)
  then obtain rules where rules: "load_rules plain_conversions sample_rule_file = Inr rules"
    "length rules = 1" "list_all plain_rule rules"
    by (simp add: load_rules_def sample_rule_file_def load_file_def config_list_def dict_get_def
        truthy_json_def parse_rule_def to_text_def enum_of_def rule_outcomes_def dict_at_def
        crosses_floor_at_def validate_crosses_floor_def texts_at_def parse_predicate_empty
        plain_rule_def plain_value_def json_text_def)
  obtain es where es: "load_envelopes plain_conversions sample_envelope_file = Inr es" "length es = 1"
    by (simp add: load_envelopes_def sample_envelope_file_def load_file_def config_list_def
        dict_get_def truthy_json_def parse_envelope_def to_text_def enum_of_def rule_outcomes_def
        OutcomeEnvelope_def)
  have "\<exists>pd st. decide ((base_args mail [mail_cap])
      \<lparr>da_rules_v2 := Some (map rule_of rules), da_envelope_set := Some es\<rparr>) = (Inr pd, st)"
    by (rule loaded_configuration_decides [OF rules(1) es(1) rules(3), THEN conjunct1]) simp_all
  then obtain pd st where "decide ((base_args mail [mail_cap])
      \<lparr>da_rules_v2 := Some (map rule_of rules), da_envelope_set := Some es\<rparr>) = (Inr pd, st)"
    by blast
  with rules es show ?thesis by blast
qed

section \<open>Overrides\<close>

lemma parse_override_entry_valid:
  "parse_override_entry cv seen i raw = Inr e \<Longrightarrow> OverridePolicyEntry e = Inr e"
  by (auto simp: parse_override_entry_def OverridePolicyEntry_def map_sum_def
      split: json.splits option.splits sum.splits if_splits)

lemma loaded_override_entries_valid:
  assumes "load_override_policies cv file = Inr ps" and "op_by_floor ps fl = Some e"
  shows "OverridePolicyEntry e = Inr e"
proof -
  obtain entries where entries: "load_file ''policies'' (parse_override_entry cv) pe_floor file = Inr entries"
    and "op_by_floor ps = map_of (map (\<lambda>e. (pe_floor e, e)) entries)"
    using assms by (auto simp: load_override_policies_def Let_def map_sum_def
        split: config_file.splits json.splits sum.splits if_splits)
  then have "e \<in> set entries" using map_of_SomeD assms(2) by fastforce
  then show ?thesis
    using override_file.load_file_parsed [OF entries] parse_override_entry_valid by blast
qed

text \<open>
  C24: whatever expiry an operator writes in the file of override policies, a grant made under the
  policies that load ends after its request and within one hour of it, also for floors the file does
  not mention.
\<close>

theorem loaded_overrides_end_within_the_hour:
  assumes "load_override_policies cv file = Inr ps"
    and "request_override ps sid k t tct fl invoker friction now gid aid = Inr g
      \<or> request_group_override ps sid ms tct fl invoker friction now gid aid = Inr (Inr g)"
  shows "now < og_expires_at g \<and> og_expires_at g \<le> now + 3600 * 1000000"
  by (rule override_expiry_capped [OF loaded_override_entries_valid [OF assms(1)] assms(2)])

definition sample_override_file :: config_file where
  "sample_override_file = YamlDoc (JDict [(''policies'', JList [JDict
     [(''tier_or_floor'', JStr ''health-meets-egress''), (''policy'', JStr ''single-authorized''),
      (''authorized_principal_ids'', JList [JStr ''alice'']), (''expiry_seconds'', JInt 60)]])])"

theorem loaded_overrides_end_within_the_hour_witness:
  "\<exists>ps g. load_override_policies plain_conversions sample_override_file = Inr ps
     \<and> request_override ps 1 (BuiltIn SEND_EMAIL) ''x'' ([], []) HEALTH_EGRESS ''alice'' True 0 7 8 = Inr g
     \<and> 0 < og_expires_at g \<and> og_expires_at g \<le> 0 + 3600 * 1000000"
proof -
  obtain ps where ps: "load_override_policies plain_conversions sample_override_file = Inr ps"
    "op_by_floor ps HEALTH_EGRESS = Some \<lparr>pe_floor = HEALTH_EGRESS, pe_policy = SINGLE_AUTHORIZED,
       pe_authorized_principal_ids = [''alice''], pe_attester_principal_ids = [],
       pe_expiry_seconds = 60, pe_friction_level = None\<rparr>"
    by (simp add: load_override_policies_def sample_override_file_def dict_get_def to_text_def
        enum_of_def load_file_def config_list_def truthy_json_def parse_override_entry_def
        hard_floors_def principals_at_def to_int_def friction_at_def OverridePolicyEntry_def
        OVERRIDE_EXPIRY_MAX_SECONDS_def)
  obtain g where g: "request_override ps 1 (BuiltIn SEND_EMAIL) ''x'' ([], []) HEALTH_EGRESS ''alice''
      True 0 7 8 = Inr g"
    by (simp add: request_override_def gate_request_def policies_get_def ps(2))
  have "0 < og_expires_at g \<and> og_expires_at g \<le> 0 + 3600 * 1000000"
    by (rule loaded_overrides_end_within_the_hour [OF ps(1) disjI1 [OF g]])
  with ps(1) g show ?thesis by blast
qed

text \<open>A personal profile that loads names its operator, so that unlisted floors have a policy.\<close>

theorem loaded_personal_profile_has_operator:
  assumes "load_override_policies cv file = Inr ps" and "op_trust_profile ps = PERSONAL"
  shows "\<exists>e. policies_get ps fl = Some e"
  using assms by (auto simp: load_override_policies_def policies_get_def Let_def map_sum_def
      split: config_file.splits json.splits sum.splits if_splits option.splits)

section \<open>Purposes and groups\<close>

lemma parse_default_capability_plain:
  "parse_default_capability cv iso_time fresh i j raw = Inr c \<Longrightarrow>
     c_audit_id c = fresh \<and> c_expiry c = SESSION \<and> c_rate_limit c = None \<and> c_parent_audit_id c = None
   \<and> c_depth c = 0 \<and> c_override_grant_id c = None \<and> (\<exists>k. c_kind c = BuiltIn k)"
  by (auto simp: parse_default_capability_def Let_def Capability_def
      split: json.splits option.splits sum.splits if_splits)

lemma parse_parts_elem:
  "parse_parts parse j raws = Inr xs \<Longrightarrow> x \<in> set xs \<Longrightarrow> \<exists>k raw. parse k raw = Inr x"
proof (induction raws arbitrary: j xs)
  case (Cons raw raws)
  then obtain y ys where y: "parse j raw = Inr y" and ys: "parse_parts parse (Suc j) raws = Inr ys"
    and xs: "xs = y # ys"
    by (auto split: sum.splits)
  show ?case using Cons.prems(2) Cons.IH [OF ys] y unfolding xs by auto
qed simp

lemma parse_purpose_plain:
  assumes "parse_purpose cv iso_time fresh fallback seen i raw = Inr p"
    and "fallback \<in> set VALID_DIAL_VALUES"
  shows "pu_risk_preference_dial p \<in> set VALID_DIAL_VALUES"
    and "c \<in> set (pu_default_capabilities p) \<Longrightarrow>
      \<exists>i j raw. parse_default_capability cv iso_time (fresh i j) i j raw = Inr c"
proof -
  show "pu_risk_preference_dial p \<in> set VALID_DIAL_VALUES"
    using assms by (auto simp: parse_purpose_def Let_def
        split: json.splits option.splits sum.splits if_splits)
  obtain caps where "parse_parts (\<lambda>j. parse_default_capability cv iso_time (fresh i j) i j) 0 caps
      = Inr (pu_default_capabilities p)"
    using assms(1) by (auto simp: parse_purpose_def Let_def
        split: json.splits option.splits sum.splits if_splits)
  from parse_parts_elem [OF this]
  show "c \<in> set (pu_default_capabilities p) \<Longrightarrow>
      \<exists>i j raw. parse_default_capability cv iso_time (fresh i j) i j raw = Inr c" by blast
qed

lemma legacy_global_dial_valid: "legacy_global_dial f = Some v \<Longrightarrow> v \<in> set VALID_DIAL_VALUES"
  by (auto simp: legacy_global_dial_def split: option.splits config_file.splits json.splits if_splits)

text \<open>
  A registry of purposes that loads has one entry per identifier and a valid dial each, and every
  capability a session is born with is a session capability of a built-in kind, neither delegated nor
  taken from an override; a rate limit the file declares is not among its limits.
\<close>

theorem loaded_purposes_are_plain:
  assumes "load_purposes cv iso_time fresh legacy file = Inr ps" and "map_of ps h = Some p"
  shows "distinct (map fst ps) \<and> pu_purpose_id p = h \<and> pu_risk_preference_dial p \<in> set VALID_DIAL_VALUES
    \<and> list_all (\<lambda>c. c_expiry c = SESSION \<and> c_rate_limit c = None \<and> c_depth c = 0
          \<and> c_parent_audit_id c = None \<and> c_override_grant_id c = None
          \<and> (case c_kind c of BuiltIn _ \<Rightarrow> True | Custom _ \<Rightarrow> False)) (pu_default_capabilities p)"
proof -
  define fallback where "fallback = (case legacy_global_dial legacy of Some v \<Rightarrow> v | None \<Rightarrow> ''cautious'')"
  have dial: "fallback \<in> set VALID_DIAL_VALUES"
    using legacy_global_dial_valid by (auto simp: fallback_def VALID_DIAL_VALUES_def split: option.split)
  obtain raw where raw: "load_file ''purposes'' (parse_purpose cv iso_time fresh fallback) pu_purpose_id file
      = Inr raw" and ps: "ps = map (\<lambda>p. (pu_purpose_id p, p)) raw"
    using assms(1) by (auto simp: load_purposes_def Let_def fallback_def map_sum_def split: sum.splits)
  have p: "p \<in> set raw" "pu_purpose_id p = h" using map_of_SomeD [OF assms(2)] by (auto simp: ps)
  obtain seen i item where item: "parse_purpose cv iso_time fresh fallback seen i item = Inr p"
    using purpose_file.load_file_parsed [OF raw p(1)] by blast
  have "c_expiry c = SESSION \<and> c_rate_limit c = None \<and> c_depth c = 0 \<and> c_parent_audit_id c = None
      \<and> c_override_grant_id c = None \<and> (case c_kind c of BuiltIn _ \<Rightarrow> True | Custom _ \<Rightarrow> False)"
    if "c \<in> set (pu_default_capabilities p)" for c
    using parse_purpose_plain(2) [OF item dial that] parse_default_capability_plain by fastforce
  then show ?thesis
    using purpose_file.load_file_distinct [OF raw] p(2) parse_purpose_plain(1) [OF item dial]
    by (simp add: ps list_all_iff comp_def)
qed

lemma parse_member_tiers_ok:
  "parse_member_tiers cv i gid members d = Inr ts \<Longrightarrow> ((g, pid), t) \<in> set ts \<Longrightarrow>
     g = gid \<and> pid \<in> set members \<and> t \<in> set TIER_ORDER"
  by (induction cv i gid members d arbitrary: ts rule: parse_member_tiers.induct)
    (auto split: sum.splits if_splits)

lemma parse_group_ok:
  "parse_group cv seen i raw = Inr g \<Longrightarrow> ((gid, pid), t) \<in> set (lg_tiers g) \<Longrightarrow>
     gid = lg_id g \<and> pid \<in> set (lg_members g) \<and> t \<in> set TIER_ORDER"
  by (auto simp: parse_group_def Let_def split: json.splits option.splits sum.splits if_splits
      dest: parse_member_tiers_ok)

text \<open>Every tier of a loaded registry belongs to a member of its group and is on the ladder.\<close>

theorem loaded_tiers_have_standing:
  assumes "load_groups cv file = Inr rg" and "map_of (rg_tiers rg) (gid, pid) = Some t"
  shows "distinct (map fst (rg_groups rg)) \<and> is_member rg pid gid \<and> t \<in> set TIER_ORDER"
proof -
  obtain raw where raw: "load_file ''groups'' (parse_group cv) lg_id file = Inr raw"
    and rg: "rg_groups rg = map (\<lambda>g. (lg_id g, lg_members g)) raw" "rg_tiers rg = concat (map lg_tiers raw)"
    using assms(1) by (auto simp: load_groups_def map_sum_def split: sum.splits)
  obtain g where g: "g \<in> set raw" "((gid, pid), t) \<in> set (lg_tiers g)"
    using map_of_SomeD [OF assms(2)] by (auto simp: rg(2))
  then have t: "gid = lg_id g" "pid \<in> set (lg_members g)" "t \<in> set TIER_ORDER"
    using group_file.load_file_parsed [OF raw g(1)] parse_group_ok by blast+
  have distinct: "distinct (map fst (rg_groups rg))"
    using group_file.load_file_distinct [OF raw] by (simp add: rg(1) comp_def)
  moreover have "map_of (rg_groups rg) gid = Some (lg_members g)"
    by (rule map_of_is_SomeI [OF distinct]) (use g(1) t(1) in \<open>auto simp: rg(1)\<close>)
  ultimately show ?thesis using t by (simp add: is_member_def group_get_def)
qed

section \<open>What the readers let pass\<close>

lemma misspelled_condition:
  assumes "list_all (\<lambda>k. map_of w k = None) [''axis_a'', ''axis_b'', ''axis_c'', ''axis_d'', ''target'']"
  shows "\<exists>p. parse_predicate cv w = Inr p \<and> raw_matches p labels axis_d eff target hour = Inr True"
  using assms
  by (simp add: parse_predicate_def axis_of_def dict_at_def Let_def parse_window_def dict_get_def
      truthy_json_def raw_matches_def absent_or_def raw_required_def unset_or_def)

text \<open>
  A condition of a rule under a name the reader does not know is dropped without an error: a
  \<open>when\<close> clause that only has such names matches every request.
\<close>

theorem misspelled_condition_matches_everything:
  assumes "list_all (\<lambda>k. map_of w k = None) [''axis_a'', ''axis_b'', ''axis_c'', ''axis_d'', ''target'']"
  shows "\<exists>p. parse_predicate cv w = Inr p \<and> raw_matches p labels axis_d eff target hour = Inr True"
  using assms by (rule misspelled_condition)

text \<open>A rule counts as ratified by a human when the field is present, be it false or empty.\<close>

theorem unratified_rule_fires:
  "\<exists>r. load_rules cv (YamlDoc (JDict [(''rules'', JList [JDict [(''rule_id'', JStr ''r''),
        (''outcome'', JStr ''auto''), (''human_ratified_by'', JBool False)]])])) = Inr [r]
     \<and> raw_matched [r] labels axis_d eff target hour = Inr [r]"
proof -
  obtain p where p: "parse_predicate cv [] = Inr p" "raw_matches p labels axis_d eff target hour = Inr True"
    using misspelled_condition [of "[]" cv labels axis_d eff target hour] by auto
  show ?thesis
    by (simp add: load_rules_def load_file_def config_list_def dict_get_def truthy_json_def
        parse_rule_def to_text_def enum_of_def rule_outcomes_def dict_at_def p crosses_floor_at_def
        validate_crosses_floor_def texts_at_def Let_def)
qed

text \<open>
  The reader takes a list where the category of a rule goes; evaluating the rule then raises.
\<close>

theorem unhashable_condition_raises:
  "\<exists>r. load_rules cv (YamlDoc (JDict [(''rules'', JList [JDict [(''rule_id'', JStr ''r''),
        (''outcome'', JStr ''deny''), (''human_ratified_by'', JStr ''alice''),
        (''when'', JDict [(''axis_a'', JDict [(''category'', JList [JStr ''health''])])])]])])) = Inr [r]
     \<and> (dflt \<noteq> RO_AUTO \<longrightarrow> raw_evaluate [r] labels axis_d eff target dflt hour = Inl TypeError)"
  by (simp add: load_rules_def load_file_def config_list_def dict_get_def truthy_json_def
      parse_rule_def to_text_def enum_of_def rule_outcomes_def dict_at_def crosses_floor_at_def
      validate_crosses_floor_def texts_at_def Let_def parse_predicate_def axis_of_def parse_window_def
      raw_evaluate_def raw_matches_def absent_or_def raw_required_def json_in_def json_hashable_def)

text \<open>
  The schema of default capabilities says that a maximum of 0 is unlimited; the capability that is
  built allows no amount above 0, and no request without an amount.
\<close>

theorem zero_amount_is_not_unlimited:
  assumes "parse_default_capability cv iso_time fresh i j (JDict d) = Inr c"
    and "map_of d ''max_amount'' = Some (JInt 0)" and "amount = None \<or> amount = Some n \<and> 0 < n"
  shows "\<not> matches c k target amount"
  using assms by (auto simp: parse_default_capability_def Let_def Capability_def matches_def to_int_def
      dict_get_def split: option.splits sum.splits if_splits)

text \<open>
  The writer quotes nothing: a principal identifier with a line feed is written as two members.
\<close>

theorem saved_groups_forge_member:
  "saved_text header \<lparr>rg_groups = [(gid, [''a'' @ [CHR 0x0A] @ ''      - b''])], rg_tiers = []\<rparr>
   = saved_text header \<lparr>rg_groups = [(gid, [''a'', ''b''])], rg_tiers = []\<rparr>"
  by (simp add: saved_text_def body_lines_def group_lines_def tier_entries_def)

end
