(* ===== verification/Spec2Isabelle.thy ===== *)
theory Spec2Isabelle
  imports CapabilityLemmas EngineFindings SessionFindings Dispatcher HandleProps Relationships ProgramProps RetentionProps
    WorkstreamProps TurnProps MailProps UpstreamProps OnguardProps QuarantineProps RequirementProps FederationProps
    Resolution PostureFiles ConfigProps
begin

text \<open>
  CapableDeputy: the reference monitor of an agent runtime.

  The program (package \<open>capabledeputy\<close>, Python) puts a deterministic decision function between
  a language model and every effect it asks for. A tool call becomes an action (a capability
  kind and a target); \<open>policy/engine.py\<close> reads the labels of the session, its capabilities,
  the standing rules and the override grants, and answers allow, require approval, override
  required, or deny. This development models that function and the tables it reads, from the
  bottom up, and proves what the documentation of the project calls its guarantees.

  Parts, in the order in which they build on each other; paths are relative to
  \<open>src/src/capabledeputy\<close>, and definitions carry the names of the code.

  \<^item> \<open>Prelude\<close>: exceptions as values of \<open>py_error\<close>, the selections
    \<open>min(key=)\<close> and \<open>max(key=)\<close> with their tie rule, dictionaries in insertion
    order, and the locales \<open>ranked\<close> (a rank table without ties), \<open>str_enum\<close>
    (an enumeration with distinct string values).
  \<^item> \<open>Tiers\<close>: \<open>policy/tiers.py\<close> and \<open>policy/rules.py\<close>, the
    sensitivity tiers and the four decisions.
  \<^item> \<open>Labels\<close>: \<open>policy/labels.py\<close>, the propagating label state: composition,
    dominance, inheritance across a fork or a spawn, declassifying transfers, legacy strings.
  \<^item> \<open>Fnmatch\<close> and \<open>Strings\<close>: the glob matcher and the string and URL functions
    of the standard library that the policy code relies on.
  \<^item> \<open>Capabilities\<close>, \<open>CapabilityLemmas\<close>: \<open>policy/capabilities.py\<close> and
    \<open>policy/actions.py\<close>: kinds, matching, expiry, rate limits, attenuating delegation.
  \<^item> \<open>Reversibility\<close>: \<open>policy/reversibility.py\<close>, \<open>policy/optimistic.py\<close> and
    the reversibility gate of \<open>policy/assurance.py\<close>.
  \<^item> \<open>Overrides\<close>, \<open>OverrideLemmas\<close>: \<open>policy/overrides.py\<close>: break-glass
    policies, requests, attestation, use, group grants and the write-through grant store.
  \<^item> \<open>AxisD\<close>, \<open>DecisionRules\<close>: \<open>policy/axis_d.py\<close> and
    \<open>policy/decision_rules.py\<close>: the decision context and the standing rules evaluated on it.
  \<^item> \<open>Envelope\<close>, \<open>Bindings\<close>, \<open>Assurance\<close>: \<open>policy/envelope.py\<close>,
    \<open>policy/bindings.py\<close>, \<open>policy/assurance.py\<close> and \<open>policy/risk_register.py\<close>.
  \<^item> \<open>PolicyDecision\<close>, \<open>CapabilityDecision\<close>, \<open>Recovery\<close>, \<open>Engine\<close>:
    \<open>policy/engine.py\<close>: the composers of a decision, the capability leg with cascade
    revocation, the recovery steps, and \<open>decide\<close> itself with its gates in their order.
  \<^item> \<open>EngineLemmas\<close>, \<open>EngineProps\<close>, \<open>EngineFindings\<close>: what
    \<open>decide\<close> guarantees, and where the code does something else than its documentation says.
  \<^item> \<open>Purposes\<close>: \<open>policy/purposes.py\<close> and \<open>policy/precedence.py\<close>: which
    categories a purpose admits, and how dials and decisions tighten each other.
  \<^item> \<open>SessionModel\<close>: \<open>session/model.py\<close> and \<open>session/store.py\<close>: sessions,
    their dictionaries and the rows of the state database.
  \<^item> \<open>SessionGraph\<close>, \<open>SessionLemmas\<close>, \<open>SessionProps\<close>,
    \<open>SessionFindings\<close>: \<open>session/graph.py\<close>: every operation on the graph of sessions.
  \<^item> \<open>Dispatcher\<close>: \<open>mode/dispatcher.py\<close> with the part of \<open>policy/posture.py\<close> it
    reads: the flow pattern of a turn and the tools the planner sees.
  \<^item> \<open>Handles\<close>, \<open>HandleProps\<close>: \<open>patterns/reference_handle.py\<close>,
    \<open>patterns/isolation_posture.py\<close>, \<open>tools/native/memory.py\<close> and
    \<open>tools/source_flow.py\<close>: data the planner handles without seeing it.
  \<^item> \<open>Relationships\<close>: \<open>policy/relationships.py\<close>: groups of principals, the addresses in
    a target, reputation tiers.
  \<^item> \<open>Tools\<close>: \<open>tools/registry.py\<close> and \<open>policy/effect_class.py\<close>: tool definitions, the
    checks registration makes, the target and the labels of a call.
  \<^item> \<open>ApprovalModel\<close>, \<open>Approval\<close>, \<open>ApprovalLemmas\<close>, \<open>ApprovalProps\<close>:
    \<open>approval/model.py\<close>, \<open>route.py\<close>, \<open>queue.py\<close>, \<open>pattern.py\<close> and \<open>signer.py\<close>:
    requests and every transition of the queue, with its databases. A decision reads the clock three
    times (\<open>decision_clock\<close>); \<open>queue_life\<close> are the queues reached from a start on databases in order.
  \<^item> \<open>Hooks\<close>, \<open>HookProps\<close>: the ports of \<open>substrate\<close>, \<open>substrate/hook_registry.py\<close> and
    \<open>tools/policy_hooks.py\<close>: what operator plug-ins may do to a decision and to labels.
  \<^item> \<open>Chokepoint\<close>, \<open>Dispatch\<close>, \<open>DispatchProps\<close>, \<open>CallLemmas\<close>, \<open>CallProps\<close>:
    \<open>tools/client.py\<close> with \<open>policy/context.py\<close>, \<open>policy/pipeline.py\<close> and the source floor of
    \<open>tools/source_flow.py\<close>: a tool call from the request to what the planner is shown. The
    client is the record \<open>tool_client\<close>; a handler is a function on it, an argument of
    \<open>call_tool\<close>. The audit event of each handle bind is left out; the trail of the store is kept.

  \<^item> \<open>PyValues\<close>, \<open>Programs\<close>, \<open>ProgramRunner\<close>, \<open>ProgramLemmas\<close>, \<open>ProgramFlow\<close>,
    \<open>ProgramProps\<close>: \<open>programmatic\<close>: the labelled values, the static gate and the interpreter of
    a planner's programs, the dry run, and the run against a session, whose tool calls are those of
    \<open>Dispatch\<close>. The syntax tree is the input; operations on floats are a parameter.
  \<^item> \<open>AuditLog\<close>, \<open>AuditLemmas\<close>, \<open>AuditProps\<close>, \<open>RetentionProps\<close>: \<open>audit\<close>: the hash-chained log with rotation and restart, its verifier,
    and the sanitised copy. JSON text, UTF-8 and SHA-256 are the record \<open>line_codec\<close>, whose
    laws \<open>codec_ok\<close> are met by a concrete codec.
  \<^item> \<open>Workstreams\<close>, \<open>WorkstreamProps\<close>, \<open>TurnProps\<close>: \<open>session/coordination.py\<close>: which
    client drives a session, which task runs a turn, queued input and the events clients poll. \<open>lease_run\<close> are sequences of
    lease operations with their calls recorded.
  \<^item> \<open>Mail\<close>, \<open>MailProps\<close>: \<open>tools/native/email.py\<close>,
    \<open>email_journal.py\<close> and \<open>email_delivery.py\<close>: drafts, the durable claims of reviewed sends, and
    one SMTP submission. A reviewed send is split at the claim, so that crashes and other calls come
    in between; \<open>mail_run\<close> records the submissions of reviewed sends and, apart, those of
    \<open>email.draft_send\<close>.
  \<^item> \<open>Quarantine\<close>, \<open>QuarantineProps\<close>: \<open>quarantined\<close> and \<open>tools/native/extract.py\<close>: the schemas, the
    constraints on texts and the gate through which labelled text is read. The JSON parser, the
    validation of fields and the Unicode database are arguments.
  \<^item> \<open>Upstream\<close>, \<open>UpstreamProps\<close>: \<open>upstream/adapter.py\<close>, \<open>admission.py\<close> and
    \<open>admission_store.py\<close>: how tools of foreign servers are classified, registered, called, previewed
    and approved.
  \<^item> \<open>Onguard\<close>, \<open>OnguardProps\<close>: \<open>onguard/store.py\<close>: the queue, schedules, events and artifacts of
    headless clients. A claim is two transactions, which are also defined apart: the results over
    sequences of calls are about calls that do not overlap, and overlapping claims are shown beside.
  \<^item> \<open>Requirements\<close>, \<open>RequirementProps\<close>: \<open>policy/requirements.py\<close>: what an operator demands of a
    deployment, checked by probes of \<open>decide\<close>, of the inspectors, of the visible tools and of the
    mode selection.
  \<^item> \<open>ConfigFiles\<close>: the shape of the operator's files and the loop over their entries, with the
    contract \<open>keyed_loader\<close> of the readers whose entries have keys.
  \<^item> \<open>Resolution\<close>: \<open>policy/resolution.py\<close>: categories, context profiles, the tier a category
    resolves to, the read-up clearance.
  \<^item> \<open>PostureFiles\<close>: \<open>policy/posture.py\<close>: the presets, custom postures and the active one.
  \<^item> \<open>ConfigReaders\<close>, \<open>ConfigProps\<close>: the readers of
    \<open>rules.yaml\<close>, \<open>override_policy.yaml\<close>, \<open>envelopes.yaml\<close>, the risk preference, the bindings, groups,
    purposes, registries and the risk register, each in the module of its component, and what a
    configuration that loads guarantees to the engine. A rule is read as a \<open>raw_rule\<close>, whose
    conditions are the values of the file, and evaluated as such by \<open>raw_evaluate\<close>, which raises where
    the code does; \<open>rule_of\<close> is the rule with the declared types, which the engine's model works on.
  \<^item> \<open>Federation\<close>, \<open>FederationProps\<close>: \<open>policy/ratification.py\<close>, who may make a suggested label,
    profile or rule durable, and \<open>federation\<close>, approvals and sessions signed on one host and accepted
    on another. What is signed is the JSON value of the export with its keys sorted.

  What the groups of lemmas show. \<open>Labels\<close>: composition is a least upper bound and does
  not depend on the order of its arguments, except for one tie that is exhibited; taint only
  grows, up to certified declassifiers. \<open>CapabilityLemmas\<close>: a delegated capability is no
  stronger than its parent in kind, pattern, amount, expiry, rate and flags. \<open>OverrideLemmas\<close>:
  invariants of the grants over every sequence of store operations. \<open>DecisionRules\<close>: what the
  rule set means, and that more rules never relax. \<open>EngineLemmas\<close>: the locale
  \<open>ratchet_step\<close> states that a stage of the pipeline never lowers the severity of a decision;
  it is interpreted by the stages, and the specification \<open>hard_spec\<close>, which lists the reasons
  of a refusal without their order, is proved equivalent to the composed code. \<open>EngineProps\<close>
  derives the floors, complete mediation, totality and single use of overrides from it.
  \<open>ApprovalLemmas\<close>: every operation of the queue takes each request along \<open>request_evolves\<close>.
  \<open>CallLemmas\<close>: each stage of a call takes the client along \<open>client_to\<close>.
  \<open>SessionLemmas\<close>: the locale \<open>session_op\<close> states what an operation on a session may
  change, and the step relation \<open>graph_step\<close> collects the operations of the graph, so that an
  invariant is proved once per operation and lifted to every sequence. \<open>HandleProps\<close>: the
  store refines the log of its live issues (\<open>handle_run\<close>).

  Conventions. A frozenset or a dictionary is the list of its elements in iteration order, so
  that a result which depends on that order shows it. Times are microseconds (\<open>int\<close>).
  Readings of the clock, fresh identifiers, the kind registry of the daemon and the result of
  the network-location check of \<open>urllib\<close> are arguments of the definitions that use them.
  Strings are lists of characters below 256; the human-readable texts of a decision are a
  datatype of the values formatted into them. Exceptions are the left summand of a sum.
  The walk over parent capabilities (\<open>cascade_walk\<close>) ends because every step removes
  an identifier from those not yet visited, which is its termination measure; so do the
  teardown of revoked capabilities (\<open>descend\<close>) and the walk up the spawn chain
  (\<open>spawn_chain_reaches\<close>). No fuel is used anywhere in the development. The mutators of the
  session graph are coroutines: each reads the session, awaits the database, and stores its
  replacement. A definition such as \<open>add_tags\<close> is a call that runs without another in between;
  its second half alone is \<open>commit\<close>, with which interleavings are stated.

  Not modelled: the parser of YAML text (a file arrives as the value it stands for), the bodies
  of plug-in inspectors (third-party code), the daemon, transport, user interfaces, the agent
  loop, the language-model clients, the transport of foreign servers and the native tools other
  than mail, memory and extraction.
\<close>

end
